(* ===== verification/Prelude.thy ===== *)
theory Prelude
  imports Main "HOL-Library.Word" "HOL-Library.Char_ord" "HOL-Library.List_Lexorder"
begin

text \<open>
  Shared vocabulary of the development: the C library's character classes, decimal text
  (\<open>std::to_string\<close>), a state-and-exception procedure type for the code that runs inside
  database transactions, and the table primitives (update by predicate, count by predicate) that
  the SQL statements of the agent queue and of the control plane translate to, with the lemmas
  that every component proof uses.
\<close>

named_theorems proc_simps "unfolding equations of the procedure combinators"
named_theorems row_simps "rewriting of tables under updates and deletions by predicate"

section \<open>Characters and decimal text\<close>

text \<open>
  \<open>std::isdigit\<close>, \<open>std::isalpha\<close>, \<open>std::isalnum\<close> and \<open>std::isspace\<close> on an unsigned char, in
  the "C" locale the programs run in.
\<close>

definition char_code :: "char \<Rightarrow> nat" where
  "char_code c = of_char c"

definition isdigit :: "char \<Rightarrow> bool" where
  "isdigit c \<longleftrightarrow> 48 \<le> char_code c \<and> char_code c \<le> 57"

definition isalpha :: "char \<Rightarrow> bool" where
  "isalpha c \<longleftrightarrow> 65 \<le> char_code c \<and> char_code c \<le> 90 \<or> 97 \<le> char_code c \<and> char_code c \<le> 122"

definition isalnum :: "char \<Rightarrow> bool" where
  "isalnum c \<longleftrightarrow> isalpha c \<or> isdigit c"

definition isspace :: "char \<Rightarrow> bool" where
  "isspace c \<longleftrightarrow> 9 \<le> char_code c \<and> char_code c \<le> 13 \<or> char_code c = 32"

definition digit_value :: "char \<Rightarrow> nat" where
  "digit_value c = char_code c - 48"

definition digit_char :: "nat \<Rightarrow> char" where
  "digit_char d = char_of (48 + d)"

lemma char_code_digit_char: "d < 10 \<Longrightarrow> char_code (digit_char d) = 48 + d"
  by (simp add: char_code_def digit_char_def)

lemma isdigit_digit_char [simp]: "d < 10 \<Longrightarrow> isdigit (digit_char d)"
  by (simp add: isdigit_def char_code_digit_char)

lemma digit_value_digit_char [simp]: "d < 10 \<Longrightarrow> digit_value (digit_char d) = d"
  by (simp add: digit_value_def char_code_digit_char)

lemma digit_value_less: "isdigit c \<Longrightarrow> digit_value c < 10"
  by (auto simp: isdigit_def digit_value_def)

text \<open>\<open>std::to_string\<close> of a non-negative and of a signed number.\<close>

fun nat_to_string :: "nat \<Rightarrow> string" where
  "nat_to_string n = (if n < 10 then [digit_char n]
                      else nat_to_string (n div 10) @ [digit_char (n mod 10)])"

declare nat_to_string.simps [simp del]

definition int_to_string :: "int \<Rightarrow> string" where
  "int_to_string i = (if i < 0 then CHR ''-'' # nat_to_string (nat (- i)) else nat_to_string (nat i))"

text \<open>The value a digit string denotes, most significant digit first.\<close>

definition digits_value :: "nat \<Rightarrow> string \<Rightarrow> nat" where
  "digits_value acc s = foldl (\<lambda>a c. 10 * a + digit_value c) acc s"

lemma nat_to_string_digits: "list_all isdigit (nat_to_string n)"
proof (induction n rule: nat_to_string.induct)
  case (1 n)
  then show ?case by (subst nat_to_string.simps) auto
qed

lemma nat_to_string_nonempty [simp]: "nat_to_string n \<noteq> []"
  by (subst nat_to_string.simps) simp

lemma digits_value_nat_to_string: "digits_value 0 (nat_to_string n) = n"
proof (induction n rule: nat_to_string.induct)
  case (1 n)
  show ?case
  proof (cases "n < 10")
    case True
    then show ?thesis by (subst nat_to_string.simps) (simp add: digits_value_def)
  next
    case False
    with 1 have "digits_value 0 (nat_to_string (n div 10)) = n div 10" by simp
    with False show ?thesis
      by (subst nat_to_string.simps) (simp add: digits_value_def)
  qed
qed

lemma nat_to_string_inject: "nat_to_string m = nat_to_string n \<Longrightarrow> m = n"
  using digits_value_nat_to_string by metis

text \<open>Zero-padded text of two and four digits, as \<open>std::put_time\<close> prints the fields of a date.\<close>

definition two_digits :: "nat \<Rightarrow> string" where
  "two_digits n = [digit_char (n div 10 mod 10), digit_char (n mod 10)]"

definition four_digits :: "nat \<Rightarrow> string" where
  "four_digits n = [digit_char (n div 1000 mod 10), digit_char (n div 100 mod 10),
                    digit_char (n div 10 mod 10), digit_char (n mod 10)]"

text \<open>C's integer division and remainder, truncating towards zero.\<close>

definition quot :: "int \<Rightarrow> int \<Rightarrow> int" where
  "quot a b = sgn a * sgn b * (\<bar>a\<bar> div \<bar>b\<bar>)"

lemma quot_nonneg: "0 \<le> a \<Longrightarrow> 0 < b \<Longrightarrow> quot a b = a div b"
  by (cases "a = 0") (auto simp: quot_def)

text \<open>The single quote, which string literals of the logic cannot hold.\<close>

abbreviation apos :: string where
  "apos \<equiv> [CHR 0x27]"

section \<open>Procedures with state and exceptions\<close>

text \<open>
  A procedure maps a state to an outcome and the state it leaves: \<open>Inl e\<close> for a thrown
  exception, with the writes made before the throw still in the state, and \<open>Inr a\<close> for a normal
  return. \<open>transaction\<close> is the RAII guard of the code: a body that throws is rolled back.
\<close>

type_synonym ('s, 'e, 'a) proc = "'s \<Rightarrow> ('e + 'a) \<times> 's"

definition ret :: "'a \<Rightarrow> ('s, 'e, 'a) proc" where
  "ret a s = (Inr a, s)"

definition throw :: "'e \<Rightarrow> ('s, 'e, 'a) proc" where
  "throw e s = (Inl e, s)"

definition seqp :: "('s, 'e, 'a) proc \<Rightarrow> ('a \<Rightarrow> ('s, 'e, 'b) proc) \<Rightarrow> ('s, 'e, 'b) proc" where
  "seqp m f s = (case m s of (Inl e, s') \<Rightarrow> (Inl e, s') | (Inr a, s') \<Rightarrow> f a s')"

definition require :: "bool \<Rightarrow> 'e \<Rightarrow> ('s, 'e, unit) proc" where
  "require b e s = (if b then (Inr (), s) else (Inl e, s))"

definition gets :: "('s \<Rightarrow> 'a) \<Rightarrow> ('s, 'e, 'a) proc" where
  "gets f s = (Inr (f s), s)"

definition modify :: "('s \<Rightarrow> 's) \<Rightarrow> ('s, 'e, unit) proc" where
  "modify f s = (Inr (), f s)"

definition lift_sum :: "'e + 'a \<Rightarrow> ('s, 'e, 'a) proc" where
  "lift_sum r s = (r, s)"

fun for_each :: "('a \<Rightarrow> ('s, 'e, unit) proc) \<Rightarrow> 'a list \<Rightarrow> ('s, 'e, unit) proc" where
  "for_each f [] = ret ()"
| "for_each f (x # xs) = seqp (f x) (\<lambda>_. for_each f xs)"

definition transaction :: "('s, 'e, 'a) proc \<Rightarrow> ('s, 'e, 'a) proc" where
  "transaction m s = (case m s of (Inl e, s') \<Rightarrow> (Inl e, s) | (Inr a, s') \<Rightarrow> (Inr a, s'))"

lemmas [proc_simps] = ret_def throw_def require_def gets_def modify_def lift_sum_def

lemma seqp_throws [proc_simps]: "m s = (Inl e, s') \<Longrightarrow> seqp m f s = (Inl e, s')"
  by (simp add: seqp_def)

lemma seqp_returns [proc_simps]: "m s = (Inr a, s') \<Longrightarrow> seqp m f s = f a s'"
  by (simp add: seqp_def)

text \<open>Evaluating a procedure step by step: the rest of a sequence is left alone until its turn.\<close>

lemma seqp_lazy: "m = m' \<Longrightarrow> s = s' \<Longrightarrow> seqp m f s = seqp m' f s'"
  by simp

lemma seqp_Inr: "seqp m f s = (Inr b, t) \<longleftrightarrow> (\<exists>a u. m s = (Inr a, u) \<and> f a u = (Inr b, t))"
  by (auto simp: seqp_def split: prod.splits sum.splits)

lemma require_Inr [simp]: "require b e s = (Inr u, t) \<longleftrightarrow> b \<and> t = s"
  by (auto simp: require_def)

lemma gets_Inr [simp]: "gets f s = (Inr a, t) \<longleftrightarrow> a = f s \<and> t = s"
  by (auto simp: gets_def)

lemma modify_Inr [simp]: "modify f s = (Inr a, t) \<longleftrightarrow> t = f s"
  by (auto simp: modify_def)

lemma ret_Inr [simp]: "ret a s = (Inr b, t) \<longleftrightarrow> b = a \<and> t = s"
  by (auto simp: ret_def)

lemma throw_Inr [simp]: "throw e s \<noteq> (Inr b, t)"
  by (simp add: throw_def)

lemma lift_sum_Inr [simp]: "lift_sum r s = (Inr b, t) \<longleftrightarrow> r = Inr b \<and> t = s"
  by (auto simp: lift_sum_def)

lemma transaction_Inr: "transaction m s = (Inr a, t) \<longleftrightarrow> m s = (Inr a, t)"
  by (auto simp: transaction_def split: prod.splits sum.splits)

lemma transaction_Inl: "transaction m s = (Inl e, t) \<Longrightarrow> t = s"
  by (auto simp: transaction_def split: prod.splits sum.splits)

text \<open>A property every step of a procedure keeps is kept by the loop over a list.\<close>

lemma for_each_keeps:
  assumes "for_each f xs s = (Inr u, t)" and "P s"
    and "\<And>x s t. x \<in> set xs \<Longrightarrow> P s \<Longrightarrow> f x s = (Inr (), t) \<Longrightarrow> P t"
  shows "P t"
  using assms
proof (induction xs arbitrary: s)
  case Nil
  then show ?case by simp
next
  case (Cons x xs)
  from Cons.prems(1) obtain s' where f: "f x s = (Inr (), s')"
    and rest: "for_each f xs s' = (Inr u, t)"
    by (auto simp: seqp_Inr)
  from f Cons.prems have "P s'" by (meson list.set_intros(1))
  with rest Cons.prems(3) show ?case by (intro Cons.IH) (auto intro: list.set_intros(2))
qed

section \<open>Triples\<close>

text \<open>
  \<open>hoare P m Q E\<close>: started where \<open>P\<close> holds, a procedure that returns \<open>a\<close> leaves a state with \<open>Q a\<close>
  and one that throws \<open>e\<close> a state with \<open>E e\<close>. The rules go through the combinators; \<open>hoare_seqp\<close>
  takes the assertion between the two parts from the first one.
\<close>


definition hoare :: "('s \<Rightarrow> bool) \<Rightarrow> ('s, 'e, 'a) proc \<Rightarrow> ('a \<Rightarrow> 's \<Rightarrow> bool) \<Rightarrow> ('e \<Rightarrow> 's \<Rightarrow> bool) \<Rightarrow> bool" where
  "hoare P m Q E \<longleftrightarrow>
     (\<forall>s r t. P s \<longrightarrow> m s = (r, t) \<longrightarrow> (case r of Inl e \<Rightarrow> E e t | Inr a \<Rightarrow> Q a t))"

definition on_throw :: "('s, 'e, 'a) proc \<Rightarrow> ('s, 'e, unit) proc \<Rightarrow> ('s, 'e, 'a) proc" where
  "on_throw m h s = (case m s of (Inl e, s') \<Rightarrow> (Inl e, snd (h s')) | (Inr a, s') \<Rightarrow> (Inr a, s'))"

lemma hoareI:
  "(\<And>s a t. P s \<Longrightarrow> m s = (Inr a, t) \<Longrightarrow> Q a t) \<Longrightarrow> (\<And>s e t. P s \<Longrightarrow> m s = (Inl e, t) \<Longrightarrow> E e t) \<Longrightarrow> hoare P m Q E"
  by (auto simp: hoare_def split: sum.splits)

lemma hoare_Inr: "hoare P m Q E \<Longrightarrow> P s \<Longrightarrow> m s = (Inr a, t) \<Longrightarrow> Q a t"
  by (fastforce simp: hoare_def)

lemma hoare_Inl: "hoare P m Q E \<Longrightarrow> P s \<Longrightarrow> m s = (Inl e, t) \<Longrightarrow> E e t"
  by (fastforce simp: hoare_def)

lemma hoare_any:
  "hoare P m (\<lambda>_. Q) (\<lambda>_. Q) \<Longrightarrow> P s \<Longrightarrow> m s = (r, t) \<Longrightarrow> Q t"
  by (cases r) (auto dest: hoare_Inr hoare_Inl)

lemma hoare_weaken:
  assumes "hoare P m Q E" and "\<And>s. P' s \<Longrightarrow> P s" and "\<And>a s. Q a s \<Longrightarrow> Q' a s" and "\<And>e s. E e s \<Longrightarrow> E' e s"
  shows "hoare P' m Q' E'"
  using assms by (intro hoareI) (blast dest: hoare_Inr hoare_Inl)+

lemma hoare_pre: "hoare P m Q E \<Longrightarrow> (\<And>s. P' s \<Longrightarrow> P s) \<Longrightarrow> hoare P' m Q E"
  by (rule hoare_weaken)

lemma hoare_seqp:
  assumes "hoare P m R E" and "\<And>a. hoare (R a) (f a) Q E"
  shows "hoare P (seqp m f) Q E"
proof (rule hoareI)
  fix s b t assume "P s" "seqp m f s = (Inr b, t)"
  with assms show "Q b t" by (auto simp: seqp_Inr dest: hoare_Inr)
next
  fix s e t assume "P s" "seqp m f s = (Inl e, t)"
  with assms show "E e t" by (auto simp: seqp_def split: prod.splits sum.splits dest: hoare_Inr hoare_Inl)
qed

lemma hoare_for_each:
  assumes "\<And>x. x \<in> set xs \<Longrightarrow> hoare P (f x) (\<lambda>_. P) E"
  shows "hoare P (for_each f xs) (\<lambda>_. P) E"
  using assms
proof (induction xs)
  case Nil
  then show ?case by (auto intro!: hoareI simp: ret_def)
next
  case (Cons x xs)
  then show ?case by (auto intro!: hoare_seqp[where R = "\<lambda>_. P"])
qed

lemma hoare_on_throw:
  assumes "hoare P m Q (\<lambda>_. R)" and "hoare R h (\<lambda>_ t. \<forall>e. E e t) (\<lambda>_ t. \<forall>e. E e t)"
  shows "hoare P (on_throw m h) Q E"
proof (rule hoareI)
  fix s a t assume "P s" "on_throw m h s = (Inr a, t)"
  with assms(1) show "Q a t" by (auto simp: on_throw_def split: prod.splits sum.splits dest: hoare_Inr)
next
  fix s e t assume s: "P s" "on_throw m h s = (Inl e, t)"
  then obtain u where u: "m s = (Inl e, u)" "t = snd (h u)"
    by (auto simp: on_throw_def split: prod.splits sum.splits)
  with assms(1) s have "R u" by (auto dest: hoare_Inl)
  then show "E e t" using hoare_any[OF assms(2), of u "fst (h u)" t] u(2) by (metis prod.collapse)
qed

lemma hoare_ret: "(\<And>s. P s \<Longrightarrow> Q a s) \<Longrightarrow> hoare P (ret a) Q E"
  by (auto intro!: hoareI simp: ret_def)

lemma hoare_throw: "(\<And>s. P s \<Longrightarrow> E e s) \<Longrightarrow> hoare P (throw e) Q E"
  by (auto intro!: hoareI simp: throw_def)

lemma hoare_require: "(\<And>s. P s \<Longrightarrow> \<not> b \<Longrightarrow> E e s) \<Longrightarrow> hoare P (require b e) (\<lambda>_ s. b \<and> P s) E"
  by (auto intro!: hoareI simp: require_def split: if_splits)

lemma hoare_gets: "hoare P (gets f) (\<lambda>a s. a = f s \<and> P s) E"
  by (auto intro!: hoareI simp: gets_def)

lemma hoare_lift_sum: "(\<And>s e. P s \<Longrightarrow> r = Inl e \<Longrightarrow> E e s) \<Longrightarrow> hoare P (lift_sum r) (\<lambda>a s. r = Inr a \<and> P s) E"
  by (auto intro!: hoareI simp: lift_sum_def)

section \<open>Fallible computations without state\<close>

definition sbind :: "'e + 'a \<Rightarrow> ('a \<Rightarrow> 'e + 'b) \<Rightarrow> 'e + 'b" where
  "sbind m f = (case m of Inl e \<Rightarrow> Inl e | Inr a \<Rightarrow> f a)"

definition ensure :: "bool \<Rightarrow> 'e \<Rightarrow> 'e + unit" where
  "ensure b e = (if b then Inr () else Inl e)"

text \<open>The loop that decodes the items of an array and stops at the first failure.\<close>

fun smap :: "('a \<Rightarrow> 'e + 'b) \<Rightarrow> 'a list \<Rightarrow> 'e + 'b list" where
  "smap f [] = Inr []"
| "smap f (x # xs) = sbind (f x) (\<lambda>y. sbind (smap f xs) (\<lambda>ys. Inr (y # ys)))"

lemma sbind_simps [simp]: "sbind (Inl e) f = Inl e" "sbind (Inr a) f = f a"
  by (simp_all add: sbind_def)

lemma sbind_Inr_iff: "sbind m f = Inr b \<longleftrightarrow> (\<exists>a. m = Inr a \<and> f a = Inr b)"
  by (cases m) auto

lemma sbind_assoc: "sbind (sbind m f) g = sbind m (\<lambda>a. sbind (f a) g)"
  by (cases m) auto

lemma ensure_Inr [simp]: "ensure b e = Inr u \<longleftrightarrow> b"
  by (simp add: ensure_def)

lemma smap_inverse: "smap d (map e xs) = Inr xs \<longleftrightarrow> (\<forall>x \<in> set xs. d (e x) = Inr x)"
  by (induction xs) (auto simp: sbind_Inr_iff)

lemma smap_Inr_length: "smap f xs = Inr ys \<Longrightarrow> length ys = length xs"
  by (induction xs arbitrary: ys) (auto simp: sbind_Inr_iff)

section \<open>Tables\<close>

text \<open>
  A table is the list of its rows in \<open>rowid\<close> order. \<open>update_where\<close> is
  \<^verbatim>\<open>UPDATE t SET ... WHERE p\<close>, \<open>count_where\<close> the number of rows it changes (\<open>sqlite3_changes\<close>)
  or a \<^verbatim>\<open>SELECT count(*)\<close>, and \<open>find\<close> the first row of a \<^verbatim>\<open>SELECT\<close>.
\<close>

definition update_where :: "('r \<Rightarrow> bool) \<Rightarrow> ('r \<Rightarrow> 'r) \<Rightarrow> 'r list \<Rightarrow> 'r list" where
  "update_where p f rows = map (\<lambda>r. if p r then f r else r) rows"

definition count_where :: "('r \<Rightarrow> bool) \<Rightarrow> 'r list \<Rightarrow> nat" where
  "count_where p rows = length (filter p rows)"

lemma update_where_Nil [row_simps, simp]: "update_where p f [] = []"
  by (simp add: update_where_def)

lemma update_where_Cons [row_simps]:
  "update_where p f (r # rs) = (if p r then f r else r) # update_where p f rs"
  by (simp add: update_where_def)

lemma length_update_where [row_simps, simp]: "length (update_where p f rows) = length rows"
  by (simp add: update_where_def)

lemma set_update_where [row_simps]:
  "set (update_where p f rows) = (\<lambda>r. if p r then f r else r) ` set rows"
  by (simp add: update_where_def)

lemma map_update_where_key [row_simps]:
  "(\<And>r. p r \<Longrightarrow> k (f r) = k r) \<Longrightarrow> map k (update_where p f rows) = map k rows"
  by (auto simp: update_where_def)

lemma count_where_zero: "count_where p rows = 0 \<longleftrightarrow> (\<forall>r \<in> set rows. \<not> p r)"
  by (auto simp: count_where_def filter_empty_conv)

lemma count_where_pos: "count_where p rows \<noteq> 0 \<longleftrightarrow> (\<exists>r \<in> set rows. p r)"
  by (auto simp: count_where_zero)

lemma count_where_key_le_1:
  assumes "distinct (map k rows)" and "\<And>r. p r \<Longrightarrow> k r = x"
  shows "count_where p rows \<le> 1"
  using assms
proof (induction rows)
  case Nil
  then show ?case by (simp add: count_where_def)
next
  case (Cons r rs)
  show ?case
  proof (cases "p r")
    case True
    with Cons.prems have "x \<notin> k ` set rs" by auto
    with Cons.prems(2) have "filter p rs = []" by (auto simp: filter_empty_conv)
    with True show ?thesis by (simp add: count_where_def)
  next
    case False
    with Cons show ?thesis by (simp add: count_where_def)
  qed
qed

lemma find_Some_iff_in:
  "find p xs = Some r \<Longrightarrow> r \<in> set xs \<and> p r"
  by (auto simp: find_Some_iff)

lemma find_distinct_key:
  "distinct (map k rows) \<Longrightarrow> r \<in> set rows \<Longrightarrow> find (\<lambda>x. k x = k r) rows = Some r"
  by (induction rows) (auto simp: image_iff)

lemma distinct_map_filter_key [row_simps]:
  "distinct (map k rows) \<Longrightarrow> distinct (map k (filter p rows))"
  by (induction rows) auto

lemma inj_key_eq:
  "distinct (map k rows) \<Longrightarrow> r \<in> set rows \<Longrightarrow> r' \<in> set rows \<Longrightarrow> k r = k r' \<Longrightarrow> r = r'"
  by (meson distinct_map inj_onD)

section \<open>Transition systems\<close>

text \<open>
  The states a component can get into: the initial ones and those a step leads to. The locale is the
  contract of an invariant; a component discharges it once for its own steps and its lemmas are the
  facts that hold in every reachable state.
\<close>

inductive reachable :: "('s \<Rightarrow> bool) \<Rightarrow> ('s \<Rightarrow> 's \<Rightarrow> bool) \<Rightarrow> 's \<Rightarrow> bool"
  for init :: "'s \<Rightarrow> bool" and step :: "'s \<Rightarrow> 's \<Rightarrow> bool" where
  reachable_init: "init s \<Longrightarrow> reachable init step s"
| reachable_step: "reachable init step s \<Longrightarrow> step s t \<Longrightarrow> reachable init step t"

locale invariant_system =
  fixes init :: "'s \<Rightarrow> bool" and step :: "'s \<Rightarrow> 's \<Rightarrow> bool" and inv :: "'s \<Rightarrow> bool"
  assumes init_inv: "init s \<Longrightarrow> inv s"
    and step_inv: "inv s \<Longrightarrow> step s t \<Longrightarrow> inv t"
begin

lemma reachable_inv: "reachable init step s \<Longrightarrow> inv s"
  by (induction rule: reachable.induct) (auto intro: init_inv step_inv)

lemma steps_inv: "step\<^sup>*\<^sup>* s t \<Longrightarrow> inv s \<Longrightarrow> inv t"
  by (induction rule: rtranclp_induct) (auto intro: step_inv)

end

end
