(* ===== verification/Utc_Time.thy ===== *)
theory Utc_Time
  imports Prelude
begin

text \<open>
  The clock values both programs use and their UTC text: \<open>std::chrono::system_clock\<close> time points,
  the broken-down time \<open>gmtime_r\<close> returns, and \<open>format_utc_timestamp\<close> of
  \<open>core/include/labbridge/core/utc_time.h\<close>. The calendar is the proleptic Gregorian calendar of
  POSIX; that the computed date is the right one is proved against the day count
  \<open>days_from_civil\<close> and the validity predicate \<open>valid_date\<close>.
\<close>

section \<open>Time points\<close>

text \<open>A time point counts nanoseconds since the epoch; \<open>to_time_t\<close> truncates towards zero.\<close>

type_synonym time_point = int

definition ns_per_second :: int where
  "ns_per_second = 1000000000"

definition seconds_point :: "int \<Rightarrow> time_point" where
  "seconds_point s = s * ns_per_second"

definition to_seconds :: "time_point \<Rightarrow> int" where
  "to_seconds t = quot t ns_per_second"

lemma to_seconds_seconds_point [simp]: "to_seconds (seconds_point s) = s"
  by (cases "s = 0")
    (auto simp: to_seconds_def seconds_point_def ns_per_second_def quot_def sgn_mult abs_mult sgn_mult_abs)

section \<open>Civil dates\<close>

definition leap_year :: "int \<Rightarrow> bool" where
  "leap_year y \<longleftrightarrow> y mod 4 = 0 \<and> y mod 100 \<noteq> 0 \<or> y mod 400 = 0"

definition days_in_month :: "int \<Rightarrow> int \<Rightarrow> int" where
  "days_in_month y m =
     (if m = 2 then (if leap_year y then 29 else 28)
      else if m = 4 \<or> m = 6 \<or> m = 9 \<or> m = 11 then 30 else 31)"

definition valid_date :: "int \<Rightarrow> int \<Rightarrow> int \<Rightarrow> bool" where
  "valid_date y m d \<longleftrightarrow> 1 \<le> m \<and> m \<le> 12 \<and> 1 \<le> d \<and> d \<le> days_in_month y m"

text \<open>
  The date of a day number (days since 1970-01-01). Years are counted from March so that the leap
  day is the last day of its year: 400-year cycles of 146097 days, centuries of 36524, four-year
  groups of 1461, years of 365, the last of each group taking the extra day.
\<close>

definition month_day :: "int \<Rightarrow> int \<times> int" where
  "month_day doy =
    (let mp = (5 * doy + 2) div 153
     in (if mp < 10 then mp + 3 else mp - 9, doy - (153 * mp + 2) div 5 + 1))"

definition civil_from_days :: "int \<Rightarrow> int \<times> int \<times> int" where
  "civil_from_days n =
    (let z = n + 719468;
         a = z div 146097; r = z mod 146097;
         c = min 3 (r div 36524); r2 = r - c * 36524;
         q = r2 div 1461; r3 = r2 - q * 1461;
         s = min 3 (r3 div 365); doy = r3 - s * 365;
         (m, d) = month_day doy
     in (400 * a + 100 * c + 4 * q + s + (if m \<le> 2 then 1 else 0), m, d))"

definition days_from_civil :: "int \<Rightarrow> int \<Rightarrow> int \<Rightarrow> int" where
  "days_from_civil y m d =
    (let y' = (if m \<le> 2 then y - 1 else y);
         mp = (if m > 2 then m - 3 else m + 9)
     in 365 * y' + y' div 4 - y' div 100 + y' div 400 + (153 * mp + 2) div 5 + d - 1 - 719468)"

text \<open>The components of the decomposition and their ranges.\<close>

definition march_parts :: "int \<Rightarrow> int \<Rightarrow> int \<Rightarrow> int \<Rightarrow> int \<Rightarrow> bool" where
  "march_parts a c q s doy \<longleftrightarrow> 0 \<le> c \<and> c \<le> 3 \<and> 0 \<le> q \<and> q \<le> 24 \<and> 0 \<le> s \<and> s \<le> 3 \<and>
     0 \<le> doy \<and> doy \<le> 365 \<and> (doy = 365 \<longrightarrow> s = 3 \<and> (q = 24 \<longrightarrow> c = 3))"

lemma civil_decomposition:
  "\<exists>a c q s doy. march_parts a c q s doy \<and>
     n + 719468 = 146097 * a + 36524 * c + 1461 * q + 365 * s + doy \<and>
     civil_from_days n = (case month_day doy of (m, d) \<Rightarrow>
       (400 * a + 100 * c + 4 * q + s + (if m \<le> 2 then 1 else 0), m, d))"
proof -
  define z where "z = n + 719468"
  define a where "a = z div 146097"
  define r where "r = z mod 146097"
  define c where "c = min 3 (r div 36524)"
  define r2 where "r2 = r - c * 36524"
  define q where "q = r2 div 1461"
  define r3 where "r3 = r2 - q * 1461"
  define s where "s = min 3 (r3 div 365)"
  define doy where "doy = r3 - s * 365"
  have z: "z = 146097 * a + r" by (simp add: a_def r_def)
  have r: "0 \<le> r" "r < 146097" by (simp_all add: r_def)
  have c: "0 \<le> c" "c \<le> 3" using r by (simp_all add: c_def)
  have r2: "0 \<le> r2" "r2 \<le> 36524" "c < 3 \<Longrightarrow> r2 < 36524"
    using r by (auto simp: r2_def c_def min_def split: if_splits)
  have q: "0 \<le> q" "q \<le> 24" "0 \<le> r3" "r3 < 1461"
    using r2 by (auto simp: q_def r3_def minus_div_mult_eq_mod)
  have s: "0 \<le> s" "s \<le> 3" using q by (simp_all add: s_def)
  have doy: "0 \<le> doy" "doy \<le> 365" "doy = 365 \<Longrightarrow> s = 3"
    using q by (auto simp: doy_def s_def min_def split: if_splits)
  have last: "c = 3" if "q = 24" "s = 3" "doy = 365"
    using that r2 c by (cases "c < 3") (auto simp: doy_def r3_def)
  have "march_parts a c q s doy" using c q(1,2) s doy last by (simp add: march_parts_def)
  moreover have "n + 719468 = 146097 * a + 36524 * c + 1461 * q + 365 * s + doy"
    using z by (simp add: z_def doy_def r3_def r2_def)
  moreover have "civil_from_days n = (case month_day doy of (m, d) \<Rightarrow>
       (400 * a + 100 * c + 4 * q + s + (if m \<le> 2 then 1 else 0), m, d))"
    unfolding civil_from_days_def Let_def doy_def s_def r3_def q_def r2_def c_def r_def a_def z_def
    by (rule refl)
  ultimately show ?thesis by blast
qed

lemma month_day_correct:
  assumes "0 \<le> doy" "doy \<le> 365" "month_day doy = (m, d)"
  shows "1 \<le> m" "m \<le> 12" "1 \<le> d"
    "(153 * (if m > 2 then m - 3 else m + 9) + 2) div 5 + d - 1 = doy"
    "d \<le> (if m = 2 then (if doy = 365 then 29 else 28)
          else if m = 4 \<or> m = 6 \<or> m = 9 \<or> m = 11 then 30 else 31)"
    "doy = 365 \<Longrightarrow> m = 2"
proof -
  define mp where "mp = (5 * doy + 2) div 153"
  have "0 \<le> mp" "mp \<le> 11" using assms(1,2) by (auto simp: mp_def)
  then have mp: "mp = 0 \<or> mp = 1 \<or> mp = 2 \<or> mp = 3 \<or> mp = 4 \<or> mp = 5 \<or> mp = 6 \<or> mp = 7 \<or>
      mp = 8 \<or> mp = 9 \<or> mp = 10 \<or> mp = 11" by arith
  have b: "153 * mp \<le> 5 * doy + 2" "5 * doy + 2 < 153 * mp + 153" unfolding mp_def by auto
  have md: "m = (if mp < 10 then mp + 3 else mp - 9)" "d = doy - (153 * mp + 2) div 5 + 1"
    using assms(3) unfolding month_day_def mp_def[symmetric] Let_def by (auto simp only: prod.inject)
  show "1 \<le> m" "m \<le> 12" "1 \<le> d"
    "(153 * (if m > 2 then m - 3 else m + 9) + 2) div 5 + d - 1 = doy"
    "d \<le> (if m = 2 then (if doy = 365 then 29 else 28)
          else if m = 4 \<or> m = 6 \<or> m = 9 \<or> m = 11 then 30 else 31)"
    "doy = 365 \<Longrightarrow> m = 2"
    using mp b assms(1,2) unfolding md by (elim disjE; simp)+
qed

text \<open>The date of a day number is a valid date, and its day count is that number.\<close>

lemma civil_from_days_correct:
  assumes "civil_from_days n = (y, m, d)"
  shows "valid_date y m d" and "days_from_civil y m d = n"
proof -
  obtain a c q s doy where parts: "march_parts a c q s doy"
    and n: "n + 719468 = 146097 * a + 36524 * c + 1461 * q + 365 * s + doy"
    and civil: "civil_from_days n = (case month_day doy of (m, d) \<Rightarrow>
       (400 * a + 100 * c + 4 * q + s + (if m \<le> 2 then 1 else 0), m, d))"
    using civil_decomposition[of n] by blast
  define y' where "y' = 400 * a + 100 * c + 4 * q + s"
  have y: "y = y' + (if m \<le> 2 then 1 else 0)" and md: "month_day doy = (m, d)"
    using assms civil by (auto simp: y'_def split: prod.splits)
  have range: "0 \<le> doy" "doy \<le> 365" "0 \<le> c" "c \<le> 3" "0 \<le> q" "q \<le> 24" "0 \<le> s" "s \<le> 3"
    using parts by (auto simp: march_parts_def)
  note m = month_day_correct[OF range(1,2) md]
  have "y' div 4 = 100 * a + 25 * c + q" "y' div 100 = 4 * a + c" "y' div 400 = a"
    using range by (simp_all add: y'_def)
  then have "365 * y' + y' div 4 - y' div 100 + y' div 400 + doy - 719468 = n"
    using n by (simp add: y'_def)
  moreover have "(if m \<le> 2 then y - 1 else y) = y'" by (simp add: y)
  ultimately show "days_from_civil y m d = n"
    using m(4) by (simp add: days_from_civil_def Let_def)
  have "leap_year y" if "doy = 365"
  proof -
    have yy: "y = 400 * a + 100 * c + 4 * q + 4" and last: "q = 24 \<Longrightarrow> c = 3"
      using that parts m(6) by (auto simp: y y'_def march_parts_def)
    show ?thesis
    proof (cases "q = 24")
      case True
      with last yy have "y = 400 * (a + 1)" by simp
      then show ?thesis by (simp add: leap_year_def)
    next
      case False
      have "y mod 4 = 0" using yy by presburger
      moreover have "y mod 100 = 4 * q + 4"
      proof -
        have "y = (4 * q + 4) + 100 * (4 * a + c)" using yy by simp
        moreover have "0 \<le> 4 * q + 4" "4 * q + 4 < 100" using range False by simp_all
        ultimately show ?thesis by (simp only: mod_mult_self2 mod_pos_pos_trivial)
      qed
      ultimately show ?thesis using range by (simp add: leap_year_def)
    qed
  qed
  then show "valid_date y m d"
    using m by (auto simp: valid_date_def days_in_month_def split: if_splits)
qed

section \<open>gmtime\_r\<close>

record tm =
  tm_sec :: int
  tm_min :: int
  tm_hour :: int
  tm_mday :: int
  tm_mon :: int
  tm_year :: int
  tm_wday :: int

definition gmtime :: "int \<Rightarrow> tm" where
  "gmtime secs =
    (let days = secs div 86400; sod = secs mod 86400
     in case civil_from_days days of (y, m, d) \<Rightarrow>
       \<lparr>tm_sec = sod mod 60, tm_min = sod div 60 mod 60, tm_hour = sod div 3600,
        tm_mday = d, tm_mon = m - 1, tm_year = y - 1900, tm_wday = (days + 4) mod 7\<rparr>)"

lemma gmtime_ranges:
  "0 \<le> tm_sec (gmtime s)" "tm_sec (gmtime s) < 60"
  "0 \<le> tm_min (gmtime s)" "tm_min (gmtime s) < 60"
  "0 \<le> tm_hour (gmtime s)" "tm_hour (gmtime s) < 24"
  "1 \<le> tm_mday (gmtime s)" "tm_mday (gmtime s) \<le> 31"
  "0 \<le> tm_mon (gmtime s)" "tm_mon (gmtime s) < 12"
  "0 \<le> tm_wday (gmtime s)" "tm_wday (gmtime s) < 7"
proof -
  obtain y m d where c: "civil_from_days (s div 86400) = (y, m, d)" by (metis prod_cases3)
  then have v: "valid_date y m d" by (rule civil_from_days_correct)
  have "s mod 86400 div 3600 < 24" by (simp add: zdiv_zmult2_eq[symmetric])
  with c v show
    "0 \<le> tm_sec (gmtime s)" "tm_sec (gmtime s) < 60"
    "0 \<le> tm_min (gmtime s)" "tm_min (gmtime s) < 60"
    "0 \<le> tm_hour (gmtime s)" "tm_hour (gmtime s) < 24"
    "1 \<le> tm_mday (gmtime s)" "tm_mday (gmtime s) \<le> 31"
    "0 \<le> tm_mon (gmtime s)" "tm_mon (gmtime s) < 12"
    "0 \<le> tm_wday (gmtime s)" "tm_wday (gmtime s) < 7"
    by (auto simp: gmtime_def Let_def valid_date_def days_in_month_def pos_imp_zdiv_nonneg_iff
        split: if_splits)
qed

section \<open>format\_utc\_timestamp\<close>

definition format_utc_timestamp :: "time_point \<Rightarrow> string" where
  "format_utc_timestamp t =
    (let utc = gmtime (to_seconds t)
     in int_to_string (tm_year utc + 1900) @ ''-'' @ two_digits (nat (tm_mon utc + 1)) @ ''-'' @
        two_digits (nat (tm_mday utc)) @ ''T'' @ two_digits (nat (tm_hour utc)) @ '':'' @
        two_digits (nat (tm_min utc)) @ '':'' @ two_digits (nat (tm_sec utc)) @ ''Z'')"

lemma four_digits_nat_to_string:
  assumes "1000 \<le> n" "n \<le> 9999"
  shows "nat_to_string n = four_digits n"
proof -
  have "\<not> n < 10" "\<not> n div 10 < 10" "\<not> n div 100 < 10" "n div 1000 < 10"
    using assms by arith+
  then show ?thesis
    by (simp add: nat_to_string.simps[of n] nat_to_string.simps[of "n div 10"]
      nat_to_string.simps[of "n div 100"] nat_to_string.simps[of "n div 1000"]
        div_mult2_eq[symmetric] four_digits_def)
qed

end
