(* ===== verification/Cron_Schedule.thy ===== *)
theory Cron_Schedule
  imports Utc_Time
begin

text \<open>
  \<open>core/src/cron_schedule.cpp\<close>: parsing a five-field cron expression into acceptance tables,
  matching a time point against them and searching the next matching minute. \<open>parse_cron\<close> is
  \<open>CronSchedule::parse\<close> (an \<open>Inl\<close> is the text of the \<open>std::invalid_argument\<close> thrown), \<open>cron_matches\<close>
  is \<open>matches\<close>, \<open>next_after\<close> is \<open>next_after\<close> with its search limit of eight leap years of minutes.
  The lemmas show that every parsed schedule is well formed, which values a field accepts, that no
  table is indexed out of bounds, that the search returns exactly the first matching minute of its
  window, and that a schedule without day restrictions always fires within a day.
\<close>

section \<open>Parsing\<close>

record cron_field =
  cf_minimum :: nat
  cf_maximum :: nat
  cf_accepted :: "bool list"

type_synonym cron_schedule = "cron_field list"

definition kMinimums :: "nat list" where
  "kMinimums = [0, 0, 1, 1, 0]"

definition kMaximums :: "nat list" where
  "kMaximums = [59, 23, 31, 12, 6]"

definition kFieldNames :: "string list" where
  "kFieldNames = [''minute'', ''hour'', ''day-of-month'', ''month'', ''day-of-week'']"

definition kSearchLimit :: nat where
  "kSearchLimit = 8 * 366 * 24 * 60"

fun split_fields :: "string \<Rightarrow> string \<Rightarrow> string list" where
  "split_fields current [] = (if current \<noteq> [] then [current] else [])"
| "split_fields current (v # vs) =
    (if isspace v
     then (if current \<noteq> [] then current # split_fields [] vs else split_fields [] vs)
     else split_fields (current @ [v]) vs)"

fun decimal_loop :: "string \<Rightarrow> nat \<Rightarrow> string \<Rightarrow> string + nat" where
  "decimal_loop name result [] = Inr result"
| "decimal_loop name result (v # vs) =
    (if result > 1000 then Inl (''cron '' @ name @ '' is out of range'')
     else decimal_loop name (result * 10 + digit_value v) vs)"

definition parse_decimal :: "string \<Rightarrow> string \<Rightarrow> string + nat" where
  "parse_decimal txt name =
    (if txt = [] \<or> \<not> list_all isdigit txt
     then Inl (''cron '' @ name @ '' must be '' @ apos @ ''*'' @ apos @ '', '' @ apos @ ''*/N'' @ apos @
              '', or an integer'')
     else decimal_loop name 0 txt)"

text \<open>The marking loop \<^verbatim>\<open>for (accepted = a; accepted <= maximum; accepted += step)\<close>.\<close>

function mark_steps :: "bool list \<Rightarrow> nat \<Rightarrow> nat \<Rightarrow> nat \<Rightarrow> bool list" where
  "mark_steps arr a maxi step =
    (if a \<le> maxi \<and> 0 < step then mark_steps (arr[a := True]) (a + step) maxi step else arr)"
  by pat_completeness auto
termination
  by (relation "measure (\<lambda>(arr, a, maxi, step). Suc maxi - a)") auto

declare mark_steps.simps [simp del]

definition parse_field :: "nat \<Rightarrow> string \<Rightarrow> string + cron_field" where
  "parse_field index val =
    (let minimum = kMinimums ! index; maximum = kMaximums ! index; name = kFieldNames ! index;
         blank = replicate 60 False;
         field = (\<lambda>arr. \<lparr>cf_minimum = minimum, cf_maximum = maximum, cf_accepted = arr\<rparr>)
     in if val = ''*'' then Inr (field (mark_steps blank minimum maximum 1))
        else if length val > 2 \<and> take 2 val = ''*/'' then
          (case parse_decimal (drop 2 val) name of
             Inl e \<Rightarrow> Inl e
           | Inr step \<Rightarrow>
               if step \<le> 0 \<or> step > maximum - minimum + 1
               then Inl (''cron '' @ name @ '' step is out of range'')
               else Inr (field (mark_steps blank minimum maximum step)))
        else
          (case parse_decimal val name of
             Inl e \<Rightarrow> Inl e
           | Inr accepted \<Rightarrow>
               if accepted < minimum \<or> accepted > maximum
               then Inl (''cron '' @ name @ '' is out of range'')
               else Inr (field (blank[accepted := True]))))"

fun parse_fields :: "nat \<Rightarrow> string list \<Rightarrow> string + cron_schedule" where
  "parse_fields index [] = Inr []"
| "parse_fields index (v # vs) =
    (case parse_field index v of
       Inl e \<Rightarrow> Inl e
     | Inr f \<Rightarrow> (case parse_fields (Suc index) vs of Inl e \<Rightarrow> Inl e | Inr fs \<Rightarrow> Inr (f # fs)))"

definition parse_cron :: "string \<Rightarrow> string + cron_schedule" where
  "parse_cron expression =
    (let values = split_fields [] expression
     in if length values \<noteq> 5 then Inl ''cron expression must contain exactly five fields''
        else parse_fields 0 values)"

section \<open>Matching and searching\<close>

definition time_parts :: "time_point \<Rightarrow> nat list" where
  "time_parts t =
    (let v = gmtime (to_seconds t)
     in map nat [tm_min v, tm_hour v, tm_mday v, tm_mon v + 1, tm_wday v])"

definition cron_matches :: "cron_schedule \<Rightarrow> time_point \<Rightarrow> bool" where
  "cron_matches sched t =
    list_all (\<lambda>(f, part). cf_accepted f ! part) (zip sched (time_parts t))"

definition next_minute :: "time_point \<Rightarrow> time_point" where
  "next_minute t =
    (let elapsed = to_seconds t;
         minute = (if elapsed \<ge> 0 then quot elapsed 60 else quot (elapsed - 59) 60)
     in seconds_point ((minute + 1) * 60))"

definition one_minute :: time_point where
  "one_minute = seconds_point 60"

text \<open>The search loop from the candidate up to and including \<open>n\<close> minutes later.\<close>

fun search_minutes :: "cron_schedule \<Rightarrow> time_point \<Rightarrow> nat \<Rightarrow> time_point option" where
  "search_minutes sched candidate n =
    (if cron_matches sched candidate then Some candidate
     else if n = 0 then None
     else search_minutes sched (candidate + one_minute) (n - 1))"

declare search_minutes.simps [simp del]

definition next_after :: "cron_schedule \<Rightarrow> time_point \<Rightarrow> time_point option" where
  "next_after sched t = search_minutes sched (next_minute t) kSearchLimit"

section \<open>What parsing guarantees\<close>

definition accepts :: "cron_field \<Rightarrow> nat \<Rightarrow> bool" where
  "accepts f v \<longleftrightarrow> v < length (cf_accepted f) \<and> cf_accepted f ! v"

definition field_ok :: "nat \<Rightarrow> cron_field \<Rightarrow> bool" where
  "field_ok i f \<longleftrightarrow> cf_minimum f = kMinimums ! i \<and> cf_maximum f = kMaximums ! i \<and>
     length (cf_accepted f) = 60 \<and> (\<exists>v. accepts f v) \<and>
     (\<forall>v. accepts f v \<longrightarrow> cf_minimum f \<le> v \<and> v \<le> cf_maximum f)"

definition schedule_ok :: "cron_schedule \<Rightarrow> bool" where
  "schedule_ok fs \<longleftrightarrow> length fs = 5 \<and> (\<forall>i < 5. field_ok i (fs ! i))"

lemma length_mark_steps [simp]: "length (mark_steps arr a maxi step) = length arr"
proof (induction arr a maxi step rule: mark_steps.induct)
  case (1 arr a maxi step)
  then show ?case by (subst mark_steps.simps) simp
qed

lemma mark_steps_nth:
  assumes "0 < step" "maxi < length arr" "v < length arr"
  shows "mark_steps arr a maxi step ! v \<longleftrightarrow>
    arr ! v \<or> (a \<le> v \<and> v \<le> maxi \<and> (v - a) mod step = 0)"
  using assms
proof (induction arr a maxi step rule: mark_steps.induct)
  case (1 arr a maxi step)
  show ?case
  proof (cases "a \<le> maxi")
    case False
    then show ?thesis by (subst mark_steps.simps) auto
  next
    case True
    with 1 have IH: "mark_steps (arr[a := True]) (a + step) maxi step ! v \<longleftrightarrow>
        arr[a := True] ! v \<or> (a + step \<le> v \<and> v \<le> maxi \<and> (v - (a + step)) mod step = 0)"
      by simp
    have "(v - (a + step)) mod step = (v - a) mod step" if "a + step \<le> v"
      using that by (metis diff_diff_left le_add_diff_inverse2 mod_add_self2 le_diff_conv2 add_leD1 add.commute)
    moreover have "\<not> step dvd (v - a)" if "a \<le> v" "v \<noteq> a" "\<not> a + step \<le> v"
      using that by (intro nat_dvd_not_less) auto
    ultimately have "arr[a := True] ! v \<or> (a + step \<le> v \<and> v \<le> maxi \<and> (v - (a + step)) mod step = 0)
        \<longleftrightarrow> arr ! v \<or> (a \<le> v \<and> v \<le> maxi \<and> (v - a) mod step = 0)"
      using True 1(4) by (cases "v = a"; cases "a + step \<le> v") auto
    with IH True 1(2) show ?thesis by (subst mark_steps.simps) simp
  qed
qed

lemma index_cases: "(i::nat) < 5 \<Longrightarrow> i = 0 \<or> i = 1 \<or> i = 2 \<or> i = 3 \<or> i = 4"
  by arith

lemma field_bounds: "i < 5 \<Longrightarrow> kMinimums ! i \<le> kMaximums ! i \<and> kMaximums ! i < 60"
  using index_cases[of i] by (auto simp: kMinimums_def kMaximums_def)

lemma parse_field_steps:
  assumes "i < 5" "0 < step"
    "f = \<lparr>cf_minimum = kMinimums ! i, cf_maximum = kMaximums ! i,
      cf_accepted = mark_steps (replicate 60 False) (kMinimums ! i) (kMaximums ! i) step\<rparr>"
  shows "field_ok i f"
    and "accepts f v \<longleftrightarrow> kMinimums ! i \<le> v \<and> v \<le> kMaximums ! i \<and> (v - kMinimums ! i) mod step = 0"
proof -
  have acc: "accepts f v \<longleftrightarrow> kMinimums ! i \<le> v \<and> v \<le> kMaximums ! i \<and> (v - kMinimums ! i) mod step = 0" for v
    using assms field_bounds[of i] by (auto simp: accepts_def mark_steps_nth)
  show "accepts f v \<longleftrightarrow> kMinimums ! i \<le> v \<and> v \<le> kMaximums ! i \<and> (v - kMinimums ! i) mod step = 0"
    by (rule acc)
  have "accepts f (kMinimums ! i)" using acc field_bounds[OF assms(1)] by simp
  with acc assms(3) show "field_ok i f" by (auto simp: field_ok_def)
qed

lemma parse_field_cases:
  assumes "parse_field i v = Inr f"
  obtains (steps) step where "0 < step"
      "f = \<lparr>cf_minimum = kMinimums ! i, cf_maximum = kMaximums ! i,
        cf_accepted = mark_steps (replicate 60 False) (kMinimums ! i) (kMaximums ! i) step\<rparr>"
    | (single) a where "kMinimums ! i \<le> a" "a \<le> kMaximums ! i"
      "f = \<lparr>cf_minimum = kMinimums ! i, cf_maximum = kMaximums ! i,
        cf_accepted = (replicate 60 False)[a := True]\<rparr>"
  using assms
  by (auto simp: parse_field_def Let_def not_less split: if_splits sum.splits intro: that)

lemma parse_field_ok:
  assumes "i < 5" "parse_field i v = Inr f"
  shows "field_ok i f"
  using assms(2)
proof (cases rule: parse_field_cases)
  case (steps step)
  with assms(1) show ?thesis by (intro parse_field_steps(1))
next
  case (single a)
  with field_bounds[OF assms(1)] have "accepts f w \<longleftrightarrow> w = a" for w
    by (auto simp: accepts_def nth_list_update)
  with single show ?thesis by (simp add: field_ok_def)
qed

lemma parse_fields_ok:
  "parse_fields i vs = Inr fs \<Longrightarrow> i + length vs \<le> 5 \<Longrightarrow>
    length fs = length vs \<and> (\<forall>k < length fs. field_ok (i + k) (fs ! k))"
proof (induction vs arbitrary: i fs)
  case Nil
  then show ?case by simp
next
  case (Cons v vs)
  from Cons.prems(1) obtain f rest where f: "parse_field i v = Inr f"
    and rest: "parse_fields (Suc i) vs = Inr rest" and fs: "fs = f # rest"
    by (auto split: sum.splits)
  from Cons.IH[OF rest] Cons.prems(2)
  have IH: "length rest = length vs" "\<forall>k < length rest. field_ok (Suc i + k) (rest ! k)" by auto
  have "field_ok i f" using f Cons.prems(2) by (intro parse_field_ok) auto
  with IH show ?case by (auto simp: fs nth_Cons split: nat.splits)
qed

lemma parse_cron_schedule_ok: "parse_cron e = Inr s \<Longrightarrow> schedule_ok s"
  using parse_fields_ok[of 0 "split_fields [] e" s]
  by (auto simp: parse_cron_def Let_def schedule_ok_def split: if_splits)

lemma length_time_parts [simp]: "length (time_parts t) = 5"
  by (simp add: time_parts_def Let_def)

lemma time_parts_bounds:
  assumes "i < 5"
  shows "kMinimums ! i \<le> time_parts t ! i" "time_parts t ! i \<le> kMaximums ! i"
  using index_cases[OF assms] gmtime_ranges[of "to_seconds t"]
  by (auto simp: time_parts_def Let_def kMinimums_def kMaximums_def)

lemma cron_matches_iff:
  "schedule_ok s \<Longrightarrow> cron_matches s t \<longleftrightarrow> (\<forall>i < 5. accepts (s ! i) (time_parts t ! i))"
  using time_parts_bounds(2)[of _ t] field_bounds
  by (fastforce simp: cron_matches_def list_all_length schedule_ok_def field_ok_def accepts_def)

section \<open>The search\<close>

lemma next_minute_eq: "next_minute t = seconds_point ((to_seconds t div 60 + 1) * 60)"
proof -
  have "quot (e - 59) 60 = e div 60" if "e < 0" for e :: int
  proof -
    have "quot (e - 59) 60 = - ((59 - e) div 60)" using that by (simp add: quot_def)
    also have "59 - e = (59 - e mod 60) + 60 * (- (e div 60))" using mult_div_mod_eq[of 60 e] by linarith
    also have "\<dots> div 60 = - (e div 60) + (59 - e mod 60) div 60" by (rule div_mult_self2) simp
    also have "(59 - e mod 60) div 60 = 0" by (intro div_pos_pos_trivial) (simp_all add: pos_mod_bound)
    also have "- (- (e div 60) + 0) = e div 60" by simp
    finally show ?thesis .
  qed
  then show ?thesis by (auto simp: next_minute_def Let_def quot_nonneg)
qed

lemma one_minute_pos: "0 < one_minute"
  by (simp add: one_minute_def seconds_point_def ns_per_second_def)

lemma next_minute_plus: "next_minute t + int k * one_minute = seconds_point ((to_seconds t div 60 + 1 + int k) * 60)"
  by (simp add: next_minute_eq one_minute_def seconds_point_def algebra_simps)

text \<open>The search returns the first match of the window, and nothing exactly when there is none.\<close>

lemma search_minutes_Some:
  "search_minutes s c n = Some t \<longleftrightarrow>
    (\<exists>k \<le> n. t = c + int k * one_minute \<and> cron_matches s t \<and>
      (\<forall>j < k. \<not> cron_matches s (c + int j * one_minute)))"
proof (induction n arbitrary: c)
  case 0
  then show ?case by (subst search_minutes.simps) auto
next
  case (Suc n)
  show ?case
  proof (cases "cron_matches s c")
    case True
    then have "search_minutes s c (Suc n) = Some c" by (subst search_minutes.simps) simp
    moreover have "(\<exists>k \<le> Suc n. t = c + int k * one_minute \<and> cron_matches s t \<and>
      (\<forall>j < k. \<not> cron_matches s (c + int j * one_minute))) \<longleftrightarrow> t = c" (is "?R \<longleftrightarrow> _")
    proof
      assume ?R
      then obtain k where "t = c + int k * one_minute"
        "\<forall>j < k. \<not> cron_matches s (c + int j * one_minute)" by blast
      with True show "t = c" by (cases k) (auto dest: spec[of _ 0])
    next
      assume "t = c"
      with True show ?R by (intro exI[of _ 0]) simp
    qed
    ultimately show ?thesis by auto
  next
    case False
    have shift: "c + one_minute + int k * one_minute = c + int (Suc k) * one_minute" for k
      by (simp add: algebra_simps)
    have "search_minutes s c (Suc n) = search_minutes s (c + one_minute) n"
      using False by (subst search_minutes.simps) simp
    also have "\<dots> = Some t \<longleftrightarrow> (\<exists>k \<le> n. t = c + int (Suc k) * one_minute \<and> cron_matches s t \<and>
      (\<forall>j < k. \<not> cron_matches s (c + int (Suc j) * one_minute)))"
      unfolding Suc.IH shift by (rule refl)
    also have "\<dots> \<longleftrightarrow> (\<exists>k \<le> Suc n. t = c + int k * one_minute \<and> cron_matches s t \<and>
      (\<forall>j < k. \<not> cron_matches s (c + int j * one_minute)))" (is "?L \<longleftrightarrow> ?R")
    proof
      assume ?L
      then obtain k where "k \<le> n" "t = c + int (Suc k) * one_minute" "cron_matches s t"
        and least: "\<forall>j < k. \<not> cron_matches s (c + int (Suc j) * one_minute)" by blast
      moreover have "\<forall>j < Suc k. \<not> cron_matches s (c + int j * one_minute)"
        using least False by (auto simp: less_Suc_eq_0_disj)
      ultimately show ?R by (intro exI[of _ "Suc k"]) auto
    next
      assume ?R
      then obtain k where k: "k \<le> Suc n" "t = c + int k * one_minute" "cron_matches s t"
        and least: "\<forall>j < k. \<not> cron_matches s (c + int j * one_minute)" by blast
      with False obtain k' where "k = Suc k'" by (cases k) auto
      with k least show ?L by (intro exI[of _ k']) auto
    qed
    finally show ?thesis .
  qed
qed

lemma search_minutes_None:
  "search_minutes s c n = None \<longleftrightarrow> (\<forall>k \<le> n. \<not> cron_matches s (c + int k * one_minute))"
proof (induction n arbitrary: c)
  case 0
  then show ?case by (subst search_minutes.simps) auto
next
  case (Suc n)
  have shift: "c + one_minute + int k * one_minute = c + int (Suc k) * one_minute" for k
    by (simp add: algebra_simps)
  have "search_minutes s c (Suc n) = None \<longleftrightarrow>
      \<not> cron_matches s c \<and> search_minutes s (c + one_minute) n = None"
    by (subst search_minutes.simps) simp
  also have "\<dots> \<longleftrightarrow> \<not> cron_matches s c \<and> (\<forall>k \<le> n. \<not> cron_matches s (c + int (Suc k) * one_minute))"
    unfolding Suc.IH shift by (rule refl)
  also have "\<dots> \<longleftrightarrow> (\<forall>k \<le> Suc n. \<not> cron_matches s (c + int k * one_minute))"
    by (simp add: All_less_Suc2[of "Suc n", unfolded less_Suc_eq_le])
  finally show ?case .
qed

section \<open>Properties\<close>

text \<open>
  Every schedule \<open>CronSchedule::parse\<close> returns is well formed: five fields with the bounds of
  their position, each accepting at least one value and none outside its bounds; and matching any
  time point reads the 60-entry tables inside their bounds only.
\<close>

lemma cron_parse_well_formed:
  assumes "parse_cron e = Inr s"
  shows "schedule_ok s \<and>
    (\<forall>t. \<forall>i < 5. time_parts t ! i < length (cf_accepted (s ! i)) \<and>
      cf_minimum (s ! i) \<le> time_parts t ! i \<and> time_parts t ! i \<le> cf_maximum (s ! i))"
proof -
  have ok: "schedule_ok s" using assms by (rule parse_cron_schedule_ok)
  have "time_parts t ! i < length (cf_accepted (s ! i)) \<and>
      cf_minimum (s ! i) \<le> time_parts t ! i \<and> time_parts t ! i \<le> cf_maximum (s ! i)"
    if "i < 5" for t i
    using ok that time_parts_bounds[OF that, of t] field_bounds[OF that]
    by (auto simp: schedule_ok_def field_ok_def)
  with ok show ?thesis by blast
qed

lemma cron_example:
  "parse_cron ''*/15 3 * * 1'' = Inr [
     \<lparr>cf_minimum = 0, cf_maximum = 59, cf_accepted = mark_steps (replicate 60 False) 0 59 15\<rparr>,
     \<lparr>cf_minimum = 0, cf_maximum = 23, cf_accepted = (replicate 60 False)[3 := True]\<rparr>,
     \<lparr>cf_minimum = 1, cf_maximum = 31, cf_accepted = mark_steps (replicate 60 False) 1 31 1\<rparr>,
     \<lparr>cf_minimum = 1, cf_maximum = 12, cf_accepted = mark_steps (replicate 60 False) 1 12 1\<rparr>,
     \<lparr>cf_minimum = 0, cf_maximum = 6, cf_accepted = (replicate 60 False)[1 := True]\<rparr>]"
  by (simp add: parse_cron_def Let_def parse_field_def parse_decimal_def isspace_def isdigit_def
      char_code_def digit_value_def kMinimums_def kMaximums_def kFieldNames_def)

lemma cron_parse_well_formed_example:
  "\<exists>s. parse_cron ''*/15 3 * * 1'' = Inr s \<and> schedule_ok s"
  using cron_parse_well_formed[OF cron_example] cron_example by blast

lemma one_minute_eq: "one_minute = 60000000000"
  by (simp add: one_minute_def seconds_point_def ns_per_second_def)

lemma next_minute_nonneg: "0 \<le> t \<Longrightarrow> next_minute t = (t div one_minute + 1) * one_minute"
  by (simp add: next_minute_eq to_seconds_def seconds_point_def ns_per_second_def quot_nonneg
      one_minute_eq div_mult2_eq zdiv_zmult2_eq)

text \<open>The candidates of the search are the whole minutes after the given time.\<close>

lemma minute_grid:
  assumes "0 \<le> t"
  shows "(\<exists>j < k. u = next_minute t + int j * one_minute) \<longleftrightarrow>
    t < u \<and> u < next_minute t + int k * one_minute \<and> u mod one_minute = 0"
proof
  assume "\<exists>j < k. u = next_minute t + int j * one_minute"
  then obtain j where "j < k" "u = next_minute t + int j * one_minute" by blast
  moreover have "t < next_minute t"
    unfolding next_minute_nonneg[OF assms] one_minute_eq by simp
  moreover have "next_minute t mod one_minute = 0" by (simp add: next_minute_nonneg[OF assms])
  ultimately show "t < u \<and> u < next_minute t + int k * one_minute \<and> u mod one_minute = 0"
    using one_minute_pos by (auto intro: less_le_trans[of t "next_minute t"])
next
  assume u: "t < u \<and> u < next_minute t + int k * one_minute \<and> u mod one_minute = 0"
  then have q: "u = (u div one_minute) * one_minute" by auto
  have "t div one_minute * one_minute \<le> t"
    using one_minute_pos by (simp add: minus_mod_eq_div_mult [symmetric])
  then have "t div one_minute * one_minute < u div one_minute * one_minute" using u q by linarith
  then have "t div one_minute < u div one_minute"
    using one_minute_pos by (simp only: mult_less_cancel_right_pos)
  moreover have "u div one_minute * one_minute < (t div one_minute + 1 + int k) * one_minute"
    using u q by (simp add: next_minute_nonneg[OF assms] distrib_right)
  then have "u div one_minute < t div one_minute + 1 + int k"
    using one_minute_pos by (simp only: mult_less_cancel_right_pos)
  ultimately show "\<exists>j < k. u = next_minute t + int j * one_minute"
    using q by (intro exI[of _ "nat (u div one_minute - t div one_minute - 1)"])
      (auto simp: next_minute_nonneg[OF assms] algebra_simps)
qed

text \<open>
  C13. The search is exact. \<open>next_after\<close> returns the first whole minute strictly after the given
  time that the schedule matches, and returns nothing exactly when none of the whole minutes of
  its window of 8 * 366 days matches.
\<close>

theorem cron_next_after_exact:
  assumes "0 \<le> t"
  shows "(next_after s t = Some t' \<longleftrightarrow>
      (\<exists>k \<le> kSearchLimit. t' = next_minute t + int k * one_minute \<and> cron_matches s t' \<and>
        (\<forall>u. t < u \<and> u < t' \<and> u mod one_minute = 0 \<longrightarrow> \<not> cron_matches s u))) \<and>
    (next_after s t = None \<longleftrightarrow>
      (\<forall>k \<le> kSearchLimit. \<not> cron_matches s (next_minute t + int k * one_minute)))"
proof -
  have "(\<forall>j < k. \<not> cron_matches s (next_minute t + int j * one_minute)) \<longleftrightarrow>
      (\<forall>u. t < u \<and> u < next_minute t + int k * one_minute \<and> u mod one_minute = 0
        \<longrightarrow> \<not> cron_matches s u)" for k
    using minute_grid[OF assms, of k] by metis
  then show ?thesis unfolding next_after_def search_minutes_Some search_minutes_None by auto
qed

theorem cron_next_after_exact_witness:
  "next_after [\<lparr>cf_minimum = 0, cf_maximum = 59, cf_accepted = replicate 60 True\<rparr>] 0 = Some one_minute"
proof -
  let ?s = "[\<lparr>cf_minimum = 0, cf_maximum = 59, cf_accepted = replicate 60 True\<rparr>]"
  have "next_minute 0 = one_minute" by (simp add: next_minute_nonneg)
  moreover have "cron_matches ?s one_minute"
    using time_parts_bounds(2)[of 0 one_minute]
    by (cases "time_parts one_minute") (auto simp: cron_matches_def kMaximums_def nth_append)
  ultimately show ?thesis
    by (intro iffD2[OF conjunct1[OF cron_next_after_exact[of 0 ?s one_minute]]] exI[of _ 0])
      (auto simp: kSearchLimit_def dest: zdvd_not_zless)
qed

lemma nat_to_string_below_100:
  "n < 100 \<Longrightarrow> nat_to_string n = (if n < 10 then [digit_char n] else [digit_char (n div 10), digit_char (n mod 10)])"
  by (auto simp: nat_to_string.simps[of n] nat_to_string.simps[of "n div 10"])

lemma parse_decimal_small: "n < 100 \<Longrightarrow> parse_decimal (nat_to_string n) name = Inr n"
  by (auto simp: parse_decimal_def nat_to_string_below_100)

text \<open>
  A step field \<open>*/N\<close> with \<open>N\<close> between one and the size of the field's range is accepted, and
  the values it accepts are exactly those of the range at a distance from the field's minimum
  that is a multiple of \<open>N\<close>; a larger \<open>N\<close> or zero is refused.
\<close>

lemma cron_step_field:
  assumes "i < 5" "n < 100"
  shows "if 1 \<le> n \<and> n \<le> kMaximums ! i - kMinimums ! i + 1
    then \<exists>f. parse_field i (''*/'' @ nat_to_string n) = Inr f \<and>
      (\<forall>v. accepts f v \<longleftrightarrow>
        kMinimums ! i \<le> v \<and> v \<le> kMaximums ! i \<and> n dvd (v - kMinimums ! i))
    else parse_field i (''*/'' @ nat_to_string n) =
      Inl (''cron '' @ kFieldNames ! i @ '' step is out of range'')"
proof -
  have len: "length (''*/'' @ nat_to_string n) > 2" by (simp add: Suc_le_eq)
  let ?f = "\<lparr>cf_minimum = kMinimums ! i, cf_maximum = kMaximums ! i, cf_accepted =
    mark_steps (replicate 60 False) (kMinimums ! i) (kMaximums ! i) n\<rparr>"
  have "parse_field i (''*/'' @ nat_to_string n) =
    (if 1 \<le> n \<and> n \<le> kMaximums ! i - kMinimums ! i + 1 then Inr ?f
     else Inl (''cron '' @ kFieldNames ! i @ '' step is out of range''))"
    using len assms(2) by (auto simp: parse_field_def Let_def parse_decimal_small)
  then show ?thesis using parse_field_steps(2)[OF assms(1), of n ?f]
    by (auto simp: mod_eq_0_iff_dvd)
qed

lemma cron_step_field_example:
  "\<exists>f. parse_field 1 (''*/'' @ nat_to_string 6) = Inr f \<and> accepts f 18 \<and> \<not> accepts f 19"
  using cron_step_field[of 1 6] by (auto simp: kMinimums_def kMaximums_def)

section \<open>A schedule without day restrictions fires within a day\<close>

definition every_day :: "cron_schedule \<Rightarrow> bool" where
  "every_day s \<longleftrightarrow> (\<forall>i \<in> {2, 3, 4}. \<forall>v. kMinimums ! i \<le> v \<and> v \<le> kMaximums ! i \<longrightarrow> accepts (s ! i) v)"

lemma time_parts_minute:
  "time_parts (seconds_point (60 * m)) ! 0 = nat (m mod 60)"
  "time_parts (seconds_point (60 * m)) ! 1 = nat (m div 60 mod 24)"
proof -
  have sod: "60 * m mod 86400 = 60 * (m mod 1440)" by (simp add: mult_mod_right)
  have "m mod 1440 = 60 * (m div 60 mod 24) + m mod 60"
    using zmod_zmult2_eq[of 24 m 60] by simp
  moreover have "m mod 60 < 60" "0 \<le> m mod 60" by simp_all
  ultimately have hour: "m mod 1440 div 60 = m div 60 mod 24" by simp
  have minute: "m mod 1440 mod 60 = m mod 60" by (simp add: mod_mod_cancel)
  have "60 * (m mod 1440) div 60 mod 60 = m mod 60" using minute by simp
  moreover have "60 * (m mod 1440) div 3600 = m div 60 mod 24"
    using zdiv_zmult2_eq[of 60 "60 * (m mod 1440)" 60] hour by simp
  ultimately have sod: "60 * m mod 86400 div 60 mod 60 = m mod 60"
      "60 * m mod 86400 div 3600 = m div 60 mod 24"
    unfolding sod by simp_all
  show "time_parts (seconds_point (60 * m)) ! 0 = nat (m mod 60)"
    "time_parts (seconds_point (60 * m)) ! 1 = nat (m div 60 mod 24)"
    unfolding time_parts_def gmtime_def Let_def to_seconds_seconds_point sod
    by (simp_all split: prod.splits)
qed

lemma minute_of_day_reached:
  fixes m0 :: int
  assumes "h < 24" "mi < 60"
  shows "\<exists>k < 1440. nat ((m0 + int k) mod 60) = mi \<and> nat ((m0 + int k) div 60 mod 24) = h"
proof -
  define target where "target = int h * 60 + int mi"
  define k where "k = (target - m0) mod 1440"
  have k: "0 \<le> k" "k < 1440" by (simp_all add: k_def)
  have "(m0 + k) mod 1440 = target mod 1440" by (simp add: k_def mod_add_right_eq)
  also have "\<dots> = target" using assms by (simp add: target_def)
  finally obtain q where q: "m0 + k = target + 1440 * q" by (metis mult_div_mod_eq add.commute)
  then have mk: "m0 + k = int mi + 60 * (int h + 24 * q)" by (simp add: target_def)
  have "(m0 + k) mod 60 = int mi" "(m0 + k) div 60 = int h + 24 * q"
    unfolding mk mod_mult_self2 div_mult_self2[OF zero_neq_numeral[symmetric]] using assms by simp_all
  with assms k show ?thesis by (intro exI[of _ "nat k"]) auto
qed

text \<open>
  A schedule without day restrictions always has a next time, at most one day after the next
  whole minute: the eight-year search limit never hides it.
\<close>

lemma cron_daily_schedule_fires:
  assumes "parse_cron e = Inr s" "every_day s"
  shows "\<exists>t'. next_after s t = Some t' \<and> t' < next_minute t + 1440 * one_minute"
proof -
  have ok: "schedule_ok s" using assms(1) by (rule parse_cron_schedule_ok)
  then have "field_ok 0 (s ! 0)" "field_ok 1 (s ! 1)" by (auto simp: schedule_ok_def)
  then obtain mi h where mi: "accepts (s ! 0) mi" "mi < 60" and h: "accepts (s ! 1) h" "h < 24"
    by (auto simp: field_ok_def kMinimums_def kMaximums_def less_Suc_eq_le[symmetric] numeral_eq_Suc)
  let ?m = "to_seconds t div 60 + 1"
  obtain k where k: "k < 1440" "nat ((?m + int k) mod 60) = mi" "nat ((?m + int k) div 60 mod 24) = h"
    using minute_of_day_reached[OF h(2) mi(2)] by blast
  have c: "next_minute t + int k * one_minute = seconds_point (60 * (?m + int k))"
    unfolding next_minute_plus by (simp only: mult.commute)
  have "accepts (s ! i) (time_parts (next_minute t + int k * one_minute) ! i)" if "i < 5" for i
  proof (cases "i \<in> {2, 3, 4}")
    case True
    with assms(2) time_parts_bounds[OF that] show ?thesis unfolding every_day_def by blast
  next
    case False
    with that have "i = 0 \<or> i = 1" by auto
    with k(2,3) mi(1) h(1) show ?thesis unfolding c by (elim disjE) (simp_all only: time_parts_minute)
  qed
  then have match: "cron_matches s (next_minute t + int k * one_minute)"
    using cron_matches_iff[OF ok] by blast
  have limit: "k \<le> kSearchLimit" using k(1) by (simp add: kSearchLimit_def)
  with match obtain t' where t': "next_after s t = Some t'"
    by (metis next_after_def search_minutes_None not_None_eq)
  then obtain k' where k': "t' = next_minute t + int k' * one_minute"
    and least: "\<forall>j < k'. \<not> cron_matches s (next_minute t + int j * one_minute)"
    by (auto simp: next_after_def search_minutes_Some)
  have "k' \<le> k" using least match by (meson not_le)
  then have "int k' * one_minute < 1440 * one_minute"
    using k(1) one_minute_pos by (intro mult_strict_right_mono) auto
  with t' k' show ?thesis by simp
qed

lemma cron_daily_schedule_fires_example:
  "\<exists>s. parse_cron ''30 2 * * *'' = Inr s \<and> (\<exists>t'. next_after s 0 = Some t' \<and> t' < next_minute 0 + 1440 * one_minute)"
proof -
  let ?s = "[\<lparr>cf_minimum = 0, cf_maximum = 59, cf_accepted = (replicate 60 False)[30 := True]\<rparr>,
     \<lparr>cf_minimum = 0, cf_maximum = 23, cf_accepted = (replicate 60 False)[2 := True]\<rparr>,
     \<lparr>cf_minimum = 1, cf_maximum = 31, cf_accepted = mark_steps (replicate 60 False) 1 31 1\<rparr>,
     \<lparr>cf_minimum = 1, cf_maximum = 12, cf_accepted = mark_steps (replicate 60 False) 1 12 1\<rparr>,
     \<lparr>cf_minimum = 0, cf_maximum = 6, cf_accepted = mark_steps (replicate 60 False) 0 6 1\<rparr>]"
  have "parse_cron ''30 2 * * *'' = Inr ?s"
    by (simp add: parse_cron_def Let_def parse_field_def parse_decimal_def isspace_def isdigit_def
        char_code_def digit_value_def kMinimums_def kMaximums_def kFieldNames_def numeral_2_eq_2)
  moreover have "every_day ?s"
    by (auto simp: every_day_def accepts_def kMinimums_def kMaximums_def mark_steps_nth)
  ultimately show ?thesis using cron_daily_schedule_fires[of "''30 2 * * *''" ?s 0] by blast
qed

end
