(* ===== verification/Core_Models.thy ===== *)
theory Core_Models
  imports Prelude
begin

text \<open>
  The data model both programs share: \<open>core/include/labbridge/core/models.h\<close> and \<open>result.h\<close>,
  the credential format of \<open>hex_token.h\<close> and the path containment test of \<open>filesystem.h\<close>.
  Field names carry a prefix per struct because Isabelle records of one theory share a name space.
\<close>

section \<open>models.h\<close>

datatype source_type = LocalDirectory | Ftp | Oracle

datatype task_run_status = Pending | Running | Succeeded | Failed

record node_info =
  ni_node_code :: string
  ni_name :: string
  ni_agent_version :: string

datatype node_status = Online | Offline

record node_heartbeat =
  hb_node_code :: string
  hb_agent_version :: string
  hb_reported_at :: string

record data_source_config =
  ds_id :: string
  ds_node_code :: string
  ds_type :: source_type
  ds_name :: string
  ds_config_json :: string

record qc_rule_config =
  qr_id :: string
  qr_rule_type :: string
  qr_name :: string
  qr_config_json :: string

record task_config =
  tc_id :: string
  tc_node_code :: string
  tc_data_source_id :: string
  tc_name :: string
  tc_task_type :: string
  tc_schedule_expr :: string
  tc_parser_type :: string
  tc_qc_profile :: string
  tc_enabled :: bool
  tc_data_source :: data_source_config
  tc_qc_rules :: "qc_rule_config list"

record parsed_record =
  pr_station_code :: string
  pr_device_code :: string
  pr_record_time :: string
  pr_payload_json :: string

section \<open>result.h\<close>

datatype status_code = Ok | InvalidArgument | NotFound | Conflict

record status =
  st_ok :: bool
  st_message :: string
  st_code :: status_code

definition status_success :: status where
  "status_success = \<lparr>st_ok = True, st_message = [], st_code = Ok\<rparr>"

definition status_failure :: "string \<Rightarrow> status" where
  "status_failure reason = \<lparr>st_ok = False, st_message = reason, st_code = InvalidArgument\<rparr>"

definition status_failure_with :: "status_code \<Rightarrow> string \<Rightarrow> status" where
  "status_failure_with code reason = \<lparr>st_ok = False, st_message = reason, st_code = code\<rparr>"

lemma status_ok_simps [simp]:
  "st_ok status_success" "\<not> st_ok (status_failure m)" "\<not> st_ok (status_failure_with c m)"
  by (simp_all add: status_success_def status_failure_def status_failure_with_def)

lemma status_code_simps [simp]:
  "st_code status_success = Ok" "st_code (status_failure m) = InvalidArgument"
  "st_code (status_failure_with c m) = c"
  by (simp_all add: status_success_def status_failure_def status_failure_with_def)

lemma status_message_simps [simp]:
  "st_message status_success = []" "st_message (status_failure m) = m"
  "st_message (status_failure_with c m) = m"
  by (simp_all add: status_success_def status_failure_def status_failure_with_def)

section \<open>hex\_token.h\<close>

definition is_valid_hex_token :: "string \<Rightarrow> bool" where
  "is_valid_hex_token v \<longleftrightarrow> length v = 64 \<and>
     list_all (\<lambda>c. 48 \<le> char_code c \<and> char_code c \<le> 57 \<or> 97 \<le> char_code c \<and> char_code c \<le> 102) v"

section \<open>filesystem.h\<close>

text \<open>
  A path is the sequence of components that iterating a \<open>std::filesystem::path\<close> yields. The loop
  of \<open>is_within\<close> advances both iterators together and fails on the first component of the root
  that the path does not have.
\<close>

type_synonym path = "string list"

fun is_within :: "path \<Rightarrow> path \<Rightarrow> bool" where
  "is_within p [] = True"
| "is_within [] (r # rs) = False"
| "is_within (p # ps) (r # rs) = (if p \<noteq> r then False else is_within ps rs)"

lemma is_within_iff_prefix: "is_within p r \<longleftrightarrow> (\<exists>rest. p = r @ rest)"
  by (induction p r rule: is_within.induct) auto

lemma is_within_refl [simp]: "is_within p p"
  by (simp add: is_within_iff_prefix)

lemma is_within_trans: "is_within p q \<Longrightarrow> is_within q r \<Longrightarrow> is_within p r"
  by (auto simp: is_within_iff_prefix)

end
