(* ===== verification/Agent_Types.thy ===== *)
theory Agent_Types
  imports Core_Models
begin

text \<open>
  The requests, results and errors the agent's execution layer exchanges:
  \<open>agent/.../execution/task_execution_client.h\<close> and \<open>.cpp\<close>, and the persisted job view of
  \<open>reliable_execution_store.h\<close>. \<open>agent_exn\<close> is the sum of the exception types that cross the
  execution layer (\<open>ProcessEnded\<close> is none of them: it ends a run whose process is killed while a
  delivery waits); an \<open>AgentQueueError\<close> is either thrown by the code with a text (\<open>QueueError\<close>) or
  by \<open>check_result\<close> for a failing SQLite call, whose operation it names (\<open>SqliteError\<close>). SHA-256 is
  OpenSSL's and enters as the parameter \<open>sha256_hex\<close>.
\<close>

section \<open>Errors\<close>

datatype task_execution_error_kind = Network | HttpStatus | InvalidResponse | ServerError

record client_error =
  ce_kind :: task_execution_error_kind
  ce_message :: string
  ce_http_status :: nat

text \<open>\<open>TaskExecutionClientError::is_transient\<close> and \<open>is_auth_rejection\<close>.\<close>

definition is_transient :: "client_error \<Rightarrow> bool" where
  "is_transient e \<longleftrightarrow> ce_kind e = Network \<or> ce_http_status e = 408 \<or> ce_http_status e = 429 \<or>
     (ce_http_status e \<ge> 500 \<and> ce_http_status e \<le> 599)"

definition is_auth_rejection :: "client_error \<Rightarrow> bool" where
  "is_auth_rejection e \<longleftrightarrow> ce_http_status e = 401 \<or> ce_http_status e = 403"

datatype agent_exn =
    QueueError string
  | SqliteError string
  | CodecError string
  | JsonTypeError
  | ClientError client_error
  | DeliveryAbandoned string
  | ArchiveConflictError string
  | InvalidArgumentError string
  | RuntimeError string
  | ProcessEnded

section \<open>Requests and results\<close>

record start_request =
  sr_node_code :: string
  sr_task_id :: string
  sr_execution_key :: string
  sr_scheduled_for :: string
  sr_started_at :: string
  sr_trigger_type :: string

record start_result =
  srr_task_run_id :: string
  srr_replayed :: bool
  srr_run_status :: string

record manifest_entry =
  me_original_name :: string
  me_file_hash :: string
  me_storage_path :: string
  me_size_bytes :: int
  me_source_mtime :: string
  me_ingest_status :: string

record manifest_request =
  mr_task_run_id :: string
  mr_node_code :: string
  mr_idempotency_key :: string
  mr_files :: "manifest_entry list"

record report_qc_result =
  rq_qc_rule_id :: string
  rq_level :: string
  rq_result :: string
  rq_message :: string

record report_parsed_record =
  rp_raw_file_id :: string
  rp_record :: parsed_record
  rp_parse_status :: string
  rp_qc_results :: "report_qc_result list"

record failed_file =
  ff_source_path :: string
  ff_original_name :: string
  ff_stage :: string
  ff_message :: string
  ff_archive_raw_file_id :: string

record report_request =
  rr_task_run_id :: string
  rr_node_code :: string
  rr_idempotency_key :: string
  rr_status :: task_run_status
  rr_finished_at :: string
  rr_items_total :: int
  rr_items_success :: int
  rr_items_failed :: int
  rr_error_summary :: string
  rr_parsed_records :: "report_parsed_record list"
  rr_has_failed_files :: bool
  rr_failed_files :: "failed_file list"

record retry_file_input =
  rf_input_type :: string
  rf_source_path :: string
  rf_original_name :: string
  rf_archive_raw_file_id :: string
  rf_storage_path :: string
  rf_size_bytes :: int
  rf_file_hash :: string
  rf_source_mtime :: string

record pending_execution =
  pe_task_run_id :: string
  pe_task_id :: string
  pe_execution_key :: string
  pe_trigger_type :: string
  pe_requested_at :: string
  pe_retry_files :: "retry_file_input list"

text \<open>Idempotency keys. The newline is \<^verbatim>\<open>\n\<close> of the source.\<close>

abbreviation newline :: string where
  "newline \<equiv> [CHR 0x0A]"

definition make_scheduled_execution_key :: "(string \<Rightarrow> string) \<Rightarrow> string \<Rightarrow> string \<Rightarrow> string \<Rightarrow> string" where
  "make_scheduled_execution_key sha256_hex node_code task_id scheduled_for =
     sha256_hex (''scheduled'' @ newline @ node_code @ newline @ task_id @ newline @ scheduled_for)"

definition make_manifest_idempotency_key :: "(string \<Rightarrow> string) \<Rightarrow> string \<Rightarrow> string \<Rightarrow> string" where
  "make_manifest_idempotency_key sha256_hex node_code task_run_id =
     sha256_hex (''manifest'' @ newline @ node_code @ newline @ task_run_id)"

definition make_report_idempotency_key :: "(string \<Rightarrow> string) \<Rightarrow> string \<Rightarrow> string \<Rightarrow> string" where
  "make_report_idempotency_key sha256_hex node_code task_run_id =
     sha256_hex (''report'' @ newline @ node_code @ newline @ task_run_id)"

section \<open>The persisted job\<close>

record file_plan =
  fp_ordinal :: int
  fp_source_path :: string
  fp_original_name :: string
  fp_source_mtime :: string
  fp_size_bytes :: int
  fp_file_hash :: string
  fp_fingerprint :: string
  fp_archive_path :: string
  fp_archive_state :: string
  fp_raw_file_id :: string
  fp_parsed_without_errors :: bool
  fp_input_path :: string
  fp_error_detail :: string

text \<open>The stages of \<^verbatim>\<open>pending_jobs.stage\<close>, the values its CHECK constraint admits. \<open>rj_stage\<close> is
  \<open>None\<close> where the column read is NULL (the code reads an empty text).\<close>

datatype job_stage = StartPending | Collecting | ManifestPending | ReportBuilding | ReportPending
  | RetryWait | RequiresAttention

record recovered_job =
  rj_execution_key :: string
  rj_task :: task_config
  rj_start_request :: start_request
  rj_stage :: "job_stage option"
  rj_task_run_id :: string
  rj_files :: "file_plan list"
  rj_manifest_request :: "manifest_request option"
  rj_report_request :: "report_request option"
  rj_retry_files :: "retry_file_input list"
  rj_has_file_failures :: bool
  rj_file_failures :: "failed_file list"

end
