(* ===== verification/Csv_Parser.thy ===== *)
theory Csv_Parser
  imports Agent_Types
begin

text \<open>
  \<open>agent/src/parsers/csv_parser.cpp\<close>: the character state machine that splits one CSV line, the
  header check and the row loop of \<open>CsvObservationParser::parse\<close>. The text nlohmann's \<open>dump\<close> prints
  for a string is a parameter, \<open>None\<close> where it throws (it refuses text that is not UTF-8). The
  lemmas characterise the accepted lines by a grammar of bare and quoted fields and show that no
  data row is lost: each becomes a record or an error line.
\<close>

section \<open>One line\<close>

datatype field_state = Start | Unquoted | Quoted | QuoteClosed

record csv_line =
  cl_fields :: "string list"
  cl_error :: string
  cl_unclosed_quote :: bool

abbreviation comma :: char where "comma \<equiv> CHR '',''"
abbreviation dquote :: char where "dquote \<equiv> CHR 0x22"

text \<open>The loop over the characters; the double quote of a quoted field consumes two.\<close>

fun csv_loop :: "field_state \<Rightarrow> string \<Rightarrow> string list \<Rightarrow> string \<Rightarrow> csv_line" where
  "csv_loop state field acc [] =
    (if state = Quoted then \<lparr>cl_fields = acc, cl_error = [], cl_unclosed_quote = True\<rparr>
     else \<lparr>cl_fields = acc @ [field], cl_error = [], cl_unclosed_quote = False\<rparr>)"
| "csv_loop Start field acc (ch # rest) =
    (if ch = comma then csv_loop Start field (acc @ [[]]) rest
     else if ch = dquote then csv_loop Quoted field acc rest
     else csv_loop Unquoted (field @ [ch]) acc rest)"
| "csv_loop Unquoted field acc (ch # rest) =
    (if ch = comma then csv_loop Start [] (acc @ [field]) rest
     else if ch = dquote
     then \<lparr>cl_fields = acc, cl_error = ''quote inside an unquoted field'', cl_unclosed_quote = False\<rparr>
     else csv_loop Unquoted (field @ [ch]) acc rest)"
| "csv_loop Quoted field acc (ch # rest) =
    (if ch = dquote
     then (if rest \<noteq> [] \<and> hd rest = dquote then csv_loop Quoted (field @ [dquote]) acc (tl rest)
           else csv_loop QuoteClosed field acc rest)
     else csv_loop Quoted (field @ [ch]) acc rest)"
| "csv_loop QuoteClosed field acc (ch # rest) =
    (if ch = comma then csv_loop Start [] (acc @ [field]) rest
     else \<lparr>cl_fields = acc, cl_error = ''content after a closing quote'', cl_unclosed_quote = False\<rparr>)"

definition parse_csv_line :: "string \<Rightarrow> csv_line" where
  "parse_csv_line line = csv_loop Start [] [] line"

section \<open>Header and line ends\<close>

text \<open>The insertion loop over \<open>seen\<close> fails on an empty or repeated name.\<close>

fun names_ok :: "string list \<Rightarrow> string list \<Rightarrow> bool" where
  "names_ok seen [] = True"
| "names_ok seen (n # ns) = (if n = [] \<or> n \<in> set seen then False else names_ok (n # seen) ns)"

definition is_valid_header :: "string list \<Rightarrow> bool" where
  "is_valid_header fs \<longleftrightarrow>
    \<not> (length fs < 4 \<or> fs ! 0 \<noteq> ''station_code'' \<or> fs ! 1 \<noteq> ''device_code'' \<or> fs ! 2 \<noteq> ''record_time'') \<and>
    names_ok [] fs"

definition kUtf8Bom :: string where
  "kUtf8Bom = [CHR 0xEF, CHR 0xBB, CHR 0xBF]"

definition strip_line_ending :: "string \<Rightarrow> string" where
  "strip_line_ending line = (if line \<noteq> [] \<and> last line = CHR 0x0D then butlast line else line)"

definition strip_bom :: "string \<Rightarrow> string" where
  "strip_bom line = (if take 3 line = kUtf8Bom then drop 3 line else line)"

text \<open>
  The text stream: it cannot be opened, or it holds some text and may then fail with an I/O
  error. \<open>std::getline\<close> yields the text between line feeds; a last line without one counts, unless
  the stream failed while reading it.
\<close>

datatype csv_source = CannotOpen | Stream string bool

fun split_lines :: "string \<Rightarrow> string \<Rightarrow> string list \<times> string" where
  "split_lines cur [] = ([], cur)"
| "split_lines cur (c # cs) =
    (if c = CHR 0x0A then (case split_lines [] cs of (ls, l) \<Rightarrow> (cur # ls, l))
     else split_lines (cur @ [c]) cs)"

definition getlines :: "string \<Rightarrow> bool \<Rightarrow> string list" where
  "getlines content bad =
    (case split_lines [] content of (ls, l) \<Rightarrow> if l = [] \<or> bad then ls else ls @ [l])"

section \<open>Records and rows\<close>

record parse_result =
  ps_status :: status
  ps_records :: "parsed_record list"
  ps_errors :: "string list"

definition json_string_value :: "(string \<Rightarrow> string option) \<Rightarrow> string \<Rightarrow> agent_exn + string" where
  "json_string_value dump value =
    (case dump value of None \<Rightarrow> Inl JsonTypeError | Some d \<Rightarrow> Inr (take (length d - 2) (drop 1 d)))"

fun payload_items :: "(string \<Rightarrow> string option) \<Rightarrow> bool \<Rightarrow> (string \<times> string) list \<Rightarrow> agent_exn + string" where
  "payload_items dump first [] = Inr []"
| "payload_items dump first ((h, v) # rest) =
    (case json_string_value dump h of Inl e \<Rightarrow> Inl e | Inr h' \<Rightarrow>
     (case json_string_value dump v of Inl e \<Rightarrow> Inl e | Inr v' \<Rightarrow>
     (case payload_items dump False rest of Inl e \<Rightarrow> Inl e | Inr tail \<Rightarrow>
       Inr ((if first then [] else [comma]) @ [dquote] @ h' @ [dquote] @ '':'' @ [dquote] @ v' @ [dquote] @ tail))))"

definition make_payload_json :: "(string \<Rightarrow> string option) \<Rightarrow> string list \<Rightarrow> string list \<Rightarrow> agent_exn + string" where
  "make_payload_json dump header row =
    (case payload_items dump True (zip (drop 3 header) (drop 3 row)) of
       Inl e \<Rightarrow> Inl e | Inr items \<Rightarrow> Inr (''{'' @ items @ ''}''))"

definition make_record :: "(string \<Rightarrow> string option) \<Rightarrow> string list \<Rightarrow> string list \<Rightarrow> agent_exn + parsed_record" where
  "make_record dump header row =
    (case make_payload_json dump header row of Inl e \<Rightarrow> Inl e | Inr payload \<Rightarrow>
      Inr \<lparr>pr_station_code = row ! 0, pr_device_code = row ! 1, pr_record_time = row ! 2,
           pr_payload_json = payload\<rparr>)"

text \<open>The loop over the data lines; \<open>n\<close> is the number of the line read last.\<close>

fun csv_rows ::
  "(string \<Rightarrow> string option) \<Rightarrow> string list \<Rightarrow> nat \<Rightarrow> parsed_record list \<Rightarrow> string list \<Rightarrow> string list
    \<Rightarrow> bool \<Rightarrow> agent_exn + parse_result" where
  "csv_rows dump header n records errors [] bad =
    Inr \<lparr>ps_status = (if bad then status_failure ''failed while reading csv file'' else status_success),
         ps_records = records, ps_errors = errors\<rparr>"
| "csv_rows dump header n records errors (raw # lines) bad =
    (let number = Suc n; line = strip_line_ending raw; parsed = parse_csv_line line
     in if line = [] then csv_rows dump header number records errors lines bad
        else if cl_unclosed_quote parsed then
          Inr \<lparr>ps_status = status_failure (''csv line '' @ nat_to_string number @
                 '' has an unclosed quote; multi-line fields are not supported''),
               ps_records = records, ps_errors = errors\<rparr>
        else if cl_error parsed \<noteq> [] then
          csv_rows dump header number records
            (errors @ [''line '' @ nat_to_string number @ '' '' @ cl_error parsed]) lines bad
        else if length (cl_fields parsed) \<noteq> length header then
          csv_rows dump header number records
            (errors @ [''line '' @ nat_to_string number @ '' has '' @ nat_to_string (length (cl_fields parsed)) @
               '' fields but the header has '' @ nat_to_string (length header)]) lines bad
        else (case make_record dump header (cl_fields parsed) of
           Inl e \<Rightarrow> Inl e
         | Inr rec \<Rightarrow> csv_rows dump header number (records @ [rec]) errors lines bad))"

definition parse_failure :: "string \<Rightarrow> parse_result" where
  "parse_failure reason = \<lparr>ps_status = status_failure reason, ps_records = [], ps_errors = []\<rparr>"

definition parse_csv :: "(string \<Rightarrow> string option) \<Rightarrow> csv_source \<Rightarrow> agent_exn + parse_result" where
  "parse_csv dump source =
    (case source of
       CannotOpen \<Rightarrow> Inr (parse_failure ''failed to open csv file'')
     | Stream content bad \<Rightarrow>
         (case getlines content bad of
            [] \<Rightarrow> Inr (parse_failure ''csv file is empty'')
          | first # lines \<Rightarrow>
              (let header = parse_csv_line (strip_bom (strip_line_ending first))
               in if cl_unclosed_quote header \<or> cl_error header \<noteq> [] \<or> \<not> is_valid_header (cl_fields header)
                  then Inr (parse_failure ''csv header is invalid'')
                  else csv_rows dump (cl_fields header) 1 [] [] lines bad)))"

section \<open>The grammar of a line\<close>

text \<open>
  A line is a comma-separated sequence of fields; a field written bare holds no comma and no double
  quote, a quoted field may hold anything, with its double quotes doubled.
\<close>

type_synonym csv_item = "bool \<times> string"

definition bare_text :: "string \<Rightarrow> bool" where
  "bare_text s \<longleftrightarrow> comma \<notin> set s \<and> dquote \<notin> set s"

definition item_ok :: "csv_item \<Rightarrow> bool" where
  "item_ok it \<longleftrightarrow> fst it \<or> bare_text (snd it)"

definition double_quotes :: "string \<Rightarrow> string" where
  "double_quotes s = concat (map (\<lambda>c. if c = dquote then [dquote, dquote] else [c]) s)"

definition render_item :: "csv_item \<Rightarrow> string" where
  "render_item it = (if fst it then dquote # double_quotes (snd it) @ [dquote] else snd it)"

definition render_tail :: "csv_item list \<Rightarrow> string" where
  "render_tail its = concat (map (\<lambda>it. comma # render_item it) its)"

fun render_line :: "csv_item list \<Rightarrow> string" where
  "render_line [] = []"
| "render_line (it # its) = render_item it @ render_tail its"

definition line_ok :: "string list \<Rightarrow> csv_line" where
  "line_ok fs = \<lparr>cl_fields = fs, cl_error = [], cl_unclosed_quote = False\<rparr>"

lemma render_tail_simps [simp]:
  "render_tail [] = []" "render_tail (it # its) = comma # render_item it @ render_tail its"
  by (simp_all add: render_tail_def)

lemma double_quotes_simps [simp]:
  "double_quotes [] = []"
  "double_quotes (c # s) = (if c = dquote then [dquote, dquote] else [c]) @ double_quotes s"
  by (simp_all add: double_quotes_def)

lemma bare_text_simps [simp]:
  "bare_text []" "bare_text (c # s) \<longleftrightarrow> c \<noteq> comma \<and> c \<noteq> dquote \<and> bare_text s"
  by (auto simp: bare_text_def)

lemma csv_loop_bare:
  "bare_text b \<Longrightarrow> csv_loop Unquoted field acc (b @ rest) = csv_loop Unquoted (field @ b) acc rest"
  by (induction b arbitrary: field) auto

lemma csv_loop_quoted:
  "rest = [] \<or> hd rest \<noteq> dquote \<Longrightarrow>
    csv_loop Quoted field acc (double_quotes b @ dquote # rest) = csv_loop QuoteClosed (field @ b) acc rest"
  by (induction b arbitrary: field) auto

lemma hd_render_tail: "render_tail its = [] \<or> hd (render_tail its) \<noteq> dquote"
  by (cases its) auto

lemma csv_loop_item:
  assumes "item_ok it"
  shows "\<exists>st. st \<noteq> Quoted \<and> (st = Start \<longrightarrow> snd it = []) \<and>
    csv_loop Start [] acc (render_item it @ render_tail its) = csv_loop st (snd it) acc (render_tail its)"
proof (cases "fst it")
  case True
  then have "csv_loop Start [] acc (render_item it @ render_tail its) =
      csv_loop QuoteClosed (snd it) acc (render_tail its)"
    using csv_loop_quoted[OF hd_render_tail[of its], of "[]" acc "snd it"] by (simp add: render_item_def)
  then show ?thesis by (intro exI[of _ QuoteClosed]) simp
next
  case False
  with assms have b: "bare_text (snd it)" by (simp add: item_ok_def)
  show ?thesis
  proof (cases "snd it")
    case Nil
    with False show ?thesis by (intro exI[of _ Start]) (simp add: render_item_def)
  next
    case (Cons c s)
    with False b show ?thesis
      by (intro exI[of _ Unquoted]) (simp add: render_item_def csv_loop_bare)
  qed
qed

lemma csv_loop_render:
  "list_all item_ok its \<Longrightarrow> st \<noteq> Quoted \<Longrightarrow> (st = Start \<longrightarrow> field = []) \<Longrightarrow>
    csv_loop st field acc (render_tail its) = line_ok (acc @ field # map snd its)"
proof (induction its arbitrary: st field acc)
  case Nil
  then show ?case by (simp add: line_ok_def)
next
  case (Cons it its)
  have "csv_loop st field acc (render_tail (it # its)) =
      csv_loop Start [] (acc @ [field]) (render_item it @ render_tail its)"
    using Cons.prems by (cases st) auto
  with csv_loop_item[of it "acc @ [field]" its] Cons show ?case by auto
qed

lemma parse_render:
  assumes "its \<noteq> []" "list_all item_ok its"
  shows "parse_csv_line (render_line its) = line_ok (map snd its)"
proof -
  obtain it rest where its: "its = it # rest" using assms(1) by (cases its) auto
  with csv_loop_item[of it "[]" rest] csv_loop_render[of rest _ "snd it" "[]"] assms(2)
  show ?thesis by (auto simp: parse_csv_line_def)
qed

text \<open>Conversely, what the loop accepts from each state is a rest of a line of the grammar.\<close>

definition loop_rest :: "field_state \<Rightarrow> string \<Rightarrow> string \<Rightarrow> string list \<Rightarrow> bool" where
  "loop_rest st field s fs \<longleftrightarrow> (\<exists>its. list_all item_ok its \<and>
    (case st of
       Start \<Rightarrow> (\<exists>it. item_ok it \<and> s = render_item it @ render_tail its \<and> fs = snd it # map snd its)
     | Unquoted \<Rightarrow> (\<exists>b. bare_text b \<and> s = b @ render_tail its \<and> fs = (field @ b) # map snd its)
     | Quoted \<Rightarrow> (\<exists>b. s = double_quotes b @ dquote # render_tail its \<and> fs = (field @ b) # map snd its)
     | QuoteClosed \<Rightarrow> s = render_tail its \<and> fs = field # map snd its))"

lemma loop_rest_comma:
  assumes "loop_rest Start [] rest fs"
  shows "loop_rest Start [] (comma # rest) ([] # fs)"
    and "loop_rest Unquoted field (comma # rest) (field # fs)"
    and "loop_rest QuoteClosed field (comma # rest) (field # fs)"
proof -
  from assms obtain it its where r: "item_ok it" "list_all item_ok its"
    "rest = render_item it @ render_tail its" "fs = snd it # map snd its"
    by (auto simp: loop_rest_def)
  then have tail: "list_all item_ok (it # its)" "comma # rest = render_tail (it # its)"
    "fs = map snd (it # its)" by auto
  show "loop_rest Start [] (comma # rest) ([] # fs)"
    unfolding loop_rest_def using tail
    by (intro exI[of _ "it # its"]) (auto intro!: exI[of _ False] simp: item_ok_def render_item_def)
  show "loop_rest Unquoted field (comma # rest) (field # fs)"
    unfolding loop_rest_def using tail
    by (intro exI[of _ "it # its"]) (auto intro!: exI[of _ "[]"])
  show "loop_rest QuoteClosed field (comma # rest) (field # fs)"
    unfolding loop_rest_def using tail by (intro exI[of _ "it # its"]) auto
qed

lemma loop_rest_char:
  "loop_rest Unquoted (field @ [ch]) rest fs \<Longrightarrow> ch \<noteq> comma \<Longrightarrow> ch \<noteq> dquote \<Longrightarrow>
    loop_rest Unquoted field (ch # rest) fs"
  "loop_rest Quoted (field @ [ch]) rest fs \<Longrightarrow> ch \<noteq> dquote \<Longrightarrow> loop_rest Quoted field (ch # rest) fs"
  "loop_rest Quoted (field @ [dquote]) rest fs \<Longrightarrow> loop_rest Quoted field (dquote # dquote # rest) fs"
  "loop_rest QuoteClosed field rest fs \<Longrightarrow> loop_rest Quoted field (dquote # rest) fs"
  unfolding loop_rest_def
     apply (clarsimp, metis append_Cons bare_text_simps(2))
    apply (clarsimp, metis (no_types) append_Cons append_Nil double_quotes_simps(2))
   apply (clarsimp, metis (no_types) append_Cons append_Nil double_quotes_simps(2))
  apply (clarsimp, metis append_Nil append_Nil2 double_quotes_simps(1))
  done

lemma loop_rest_begin:
  "loop_rest Unquoted [ch] rest fs \<Longrightarrow> ch \<noteq> comma \<Longrightarrow> ch \<noteq> dquote \<Longrightarrow> loop_rest Start [] (ch # rest) fs"
  "loop_rest Quoted [] rest fs \<Longrightarrow> loop_rest Start [] (dquote # rest) fs"
proof -
  assume "loop_rest Unquoted [ch] rest fs" "ch \<noteq> comma" "ch \<noteq> dquote"
  then obtain b its where "list_all item_ok its" "bare_text (ch # b)"
    "rest = b @ render_tail its" "fs = (ch # b) # map snd its" by (auto simp: loop_rest_def)
  then show "loop_rest Start [] (ch # rest) fs"
    unfolding loop_rest_def
    by (intro exI[of _ its]) (auto intro!: exI[of _ False] exI[of _ "ch # b"] simp: item_ok_def render_item_def)
next
  assume "loop_rest Quoted [] rest fs"
  then obtain b its where "list_all item_ok its"
    "rest = double_quotes b @ dquote # render_tail its" "fs = b # map snd its" by (auto simp: loop_rest_def)
  then show "loop_rest Start [] (dquote # rest) fs"
    unfolding loop_rest_def
    by (intro exI[of _ its]) (auto intro!: exI[of _ True] exI[of _ b] simp: item_ok_def render_item_def)
qed

lemma loop_rest_end: "st \<noteq> Quoted \<Longrightarrow> (st = Start \<longrightarrow> field = []) \<Longrightarrow> loop_rest st field [] [field]"
  unfolding loop_rest_def
  by (cases st; intro exI[of _ "[]"])
    (auto intro!: exI[of _ False] exI[of _ "[]"] simp: item_ok_def render_item_def)

lemma csv_loop_accepts:
  "csv_loop st field acc s = line_ok fs \<Longrightarrow> (st = Start \<longrightarrow> field = []) \<Longrightarrow>
    \<exists>fs'. fs = acc @ fs' \<and> loop_rest st field s fs'"
proof (induction st field acc s arbitrary: fs rule: csv_loop.induct)
  case (1 st field acc)
  then show ?case using loop_rest_end[of st field]
    by (auto simp: line_ok_def split: if_splits)
next
  case (2 field acc ch rest)
  then show ?case
    by (auto simp: line_ok_def split: if_splits dest: loop_rest_comma(1) loop_rest_begin)
next
  case (3 field acc ch rest)
  then show ?case
    by (fastforce simp: line_ok_def split: if_splits intro: loop_rest_comma(2) loop_rest_char(1))
next
  case (4 field acc ch rest)
  show ?case
  proof (cases "ch = dquote \<and> rest \<noteq> [] \<and> hd rest = dquote")
    case True
    then obtain rest' where "rest = dquote # rest'" by (cases rest) auto
    with True 4(1,4,5) have "\<exists>fs'. fs = acc @ fs' \<and> loop_rest Quoted (field @ [dquote]) rest' fs'"
      by simp
    with True \<open>rest = dquote # rest'\<close> show ?thesis by (auto dest: loop_rest_char(3))
  next
    case False
    with 4 show ?thesis by (fastforce split: if_splits intro: loop_rest_char(2,4))
  qed
next
  case (5 field acc ch rest)
  then show ?case
    by (fastforce simp: line_ok_def split: if_splits intro: loop_rest_comma(3))
qed

section \<open>Rows are not lost\<close>

definition data_lines :: "string list \<Rightarrow> string list" where
  "data_lines lines = filter (\<lambda>l. l \<noteq> []) (map strip_line_ending lines)"

lemma names_ok_iff: "names_ok seen ns \<longleftrightarrow> [] \<notin> set ns \<and> distinct ns \<and> set ns \<inter> set seen = {}"
  by (induction seen ns rule: names_ok.induct) auto

text \<open>The records come, in order, from the data lines whose field count is the header's.\<close>

definition row_fields :: "string list \<Rightarrow> string \<Rightarrow> string list option" where
  "row_fields header l =
    (let p = parse_csv_line l
     in if \<not> cl_unclosed_quote p \<and> cl_error p = [] \<and> length (cl_fields p) = length header
        then Some (cl_fields p) else None)"

definition good_rows :: "string list \<Rightarrow> string list \<Rightarrow> string list list" where
  "good_rows header lines = List.map_filter (row_fields header) (data_lines lines)"

lemma data_lines_Cons:
  "data_lines (raw # lines) = (if strip_line_ending raw = [] then data_lines lines
     else strip_line_ending raw # data_lines lines)"
  by (simp add: data_lines_def)

lemma good_rows_Cons:
  "good_rows header (raw # lines) =
    (case (if strip_line_ending raw = [] then None else row_fields header (strip_line_ending raw)) of
       None \<Rightarrow> good_rows header lines | Some row \<Rightarrow> row # good_rows header lines)"
  by (auto simp: good_rows_def data_lines_Cons List.map_filter_def split: option.splits)

text \<open>What one step of the row loop does, when the whole loop ends with success.\<close>

lemma csv_rows_step:
  assumes "csv_rows dump header n records errors (raw # lines) bad = Inr r" "st_ok (ps_status r)"
  obtains (blank) "strip_line_ending raw = []"
      "csv_rows dump header (Suc n) records errors lines bad = Inr r"
  | (refused) m where "strip_line_ending raw \<noteq> []"
      "\<not> cl_unclosed_quote (parse_csv_line (strip_line_ending raw))"
      "row_fields header (strip_line_ending raw) = None"
      "csv_rows dump header (Suc n) records (errors @ [m]) lines bad = Inr r"
  | (accepted) row rec where "strip_line_ending raw \<noteq> []"
      "\<not> cl_unclosed_quote (parse_csv_line (strip_line_ending raw))"
      "row_fields header (strip_line_ending raw) = Some row" "make_record dump header row = Inr rec"
      "csv_rows dump header (Suc n) (records @ [rec]) errors lines bad = Inr r"
  using assms
  by (simp add: Let_def row_fields_def split: if_splits sum.splits)
    (metis (no_types, lifting) status_ok_simps(2) parse_result.select_convs(1))+

lemma csv_rows_conserved:
  assumes "csv_rows dump header n records errors lines bad = Inr r" "st_ok (ps_status r)"
  shows "length (ps_records r) + length (ps_errors r) =
      length records + length errors + length (data_lines lines) \<and>
    (\<forall>l \<in> set (data_lines lines). \<not> cl_unclosed_quote (parse_csv_line l))"
  using assms
proof (induction lines arbitrary: n records errors)
  case Nil
  then show ?case by (auto simp: data_lines_def)
next
  case (Cons raw lines)
  from Cons.prems show ?case
  proof (cases rule: csv_rows_step)
    case blank
    with Cons.IH[OF blank(2)] Cons.prems(2) show ?thesis by (simp add: data_lines_Cons)
  next
    case (refused m)
    with Cons.IH[OF refused(4)] Cons.prems(2) show ?thesis by (simp add: data_lines_Cons)
  next
    case (accepted row rec)
    with Cons.IH[OF accepted(5)] Cons.prems(2) show ?thesis by (simp add: data_lines_Cons)
  qed
qed

lemma csv_rows_records:
  assumes "csv_rows dump header n records errors lines bad = Inr r" "st_ok (ps_status r)"
  shows "\<exists>recs. ps_records r = records @ recs \<and>
    list_all2 (\<lambda>row rec. make_record dump header row = Inr rec) (good_rows header lines) recs"
  using assms
proof (induction lines arbitrary: n records errors)
  case Nil
  then show ?case by (auto simp: good_rows_def data_lines_def List.map_filter_def)
next
  case (Cons raw lines)
  from Cons.prems show ?case
  proof (cases rule: csv_rows_step)
    case blank
    with Cons.IH[OF blank(2)] Cons.prems(2) show ?thesis by (simp add: good_rows_Cons)
  next
    case (refused m)
    with Cons.IH[OF refused(4)] Cons.prems(2) show ?thesis by (simp add: good_rows_Cons)
  next
    case (accepted row rec)
    with Cons.IH[OF accepted(5)] Cons.prems(2) show ?thesis by (fastforce simp: good_rows_Cons)
  qed
qed

section \<open>Properties\<close>

text \<open>
  C14. The line parser accepts exactly the lines of the grammar, with their fields: a line is
  parsed without error into \<open>fs\<close> if and only if it is a comma-separated sequence of bare and
  quoted fields (quotes doubled inside quoted fields) whose contents are \<open>fs\<close>.
\<close>

theorem csv_line_grammar:
  "parse_csv_line line = line_ok fs \<longleftrightarrow>
    (\<exists>its. its \<noteq> [] \<and> list_all item_ok its \<and> line = render_line its \<and> fs = map snd its)"
proof
  assume "parse_csv_line line = line_ok fs"
  then have "loop_rest Start [] line fs"
    using csv_loop_accepts[of Start "[]" "[]" line fs] by (simp add: parse_csv_line_def)
  then obtain it its where "item_ok it" "list_all item_ok its"
    "line = render_item it @ render_tail its" "fs = snd it # map snd its"
    by (auto simp: loop_rest_def)
  then show "\<exists>its. its \<noteq> [] \<and> list_all item_ok its \<and> line = render_line its \<and> fs = map snd its"
    by (intro exI[of _ "it # its"]) simp
next
  assume "\<exists>its. its \<noteq> [] \<and> list_all item_ok its \<and> line = render_line its \<and> fs = map snd its"
  then show "parse_csv_line line = line_ok fs" using parse_render by blast
qed

text \<open>
  C15. No row is lost or invented. When a file is parsed with success, its header is a valid header
  with distinct column names, every non-empty data line is either a record or an error line, none
  has an unclosed quote, and the records are, in order, those of the data lines that parse into as
  many fields as the header has.
\<close>

theorem csv_rows_not_lost:
  assumes "parse_csv dump (Stream content bad) = Inr r" "st_ok (ps_status r)"
  shows "\<exists>first lines. getlines content bad = first # lines \<and>
    (let header = cl_fields (parse_csv_line (strip_bom (strip_line_ending first)))
     in is_valid_header header \<and> distinct header \<and>
        length (ps_records r) + length (ps_errors r) = length (data_lines lines) \<and>
        (\<forall>l \<in> set (data_lines lines). \<not> cl_unclosed_quote (parse_csv_line l)) \<and>
        list_all2 (\<lambda>row rec. make_record dump header row = Inr rec) (good_rows header lines) (ps_records r))"
proof -
  from assms obtain first lines where l: "getlines content bad = first # lines"
    by (cases "getlines content bad") (auto simp: parse_csv_def parse_failure_def)
  define header where "header = cl_fields (parse_csv_line (strip_bom (strip_line_ending first)))"
  from assms l have "is_valid_header header" and "csv_rows dump header 1 [] [] lines bad = Inr r"
    by (auto simp: parse_csv_def Let_def parse_failure_def header_def split: if_splits)
  then show ?thesis
    using l csv_rows_conserved[of dump header 1 "[]" "[]" lines bad r]
      csv_rows_records[of dump header 1 "[]" "[]" lines bad r] assms(2)
    by (auto simp: Let_def is_valid_header_def names_ok_iff header_def)
qed

definition example_dump :: "string \<Rightarrow> string option" where
  "example_dump s = (if list_all (\<lambda>c. char_code c < 128) s then Some (dquote # s @ [dquote]) else None)"

definition example_csv :: string where
  "example_csv = ''station_code,device_code,record_time,v'' @ newline @ ''S1,D1,2026-01-01 00:00:00,5'' @
     newline @ ''S1,D1,bad'' @ newline"

theorem csv_rows_not_lost_witness:
  "\<exists>r. parse_csv example_dump (Stream example_csv False) = Inr r \<and>
    length (ps_records r) = 1 \<and> length (ps_errors r) = 1"
proof -
  let ?c = "example_csv"
  obtain r where r: "parse_csv example_dump (Stream ?c False) = Inr r" "st_ok (ps_status r)"
      "length (ps_records r) = 1"
    by (simp add: parse_csv_def getlines_def strip_bom_def strip_line_ending_def kUtf8Bom_def
        parse_csv_line_def is_valid_header_def Let_def make_record_def make_payload_json_def
        json_string_value_def example_dump_def example_csv_def char_code_def)
  then have "length (ps_records r) + length (ps_errors r) = 2"
    using csv_rows_not_lost[OF r(1,2)]
    by (auto simp: getlines_def data_lines_def strip_line_ending_def Let_def example_csv_def)
  with r show ?thesis by auto
qed

end
