(* ===== verification/Qc_Rules.thy ===== *)
theory Qc_Rules
  imports Agent_Types
begin

text \<open>
  The quality rules: \<open>agent/src/qc/basic_qc_rules.cpp\<close>, and of \<open>task_executor.cpp\<close> the check that a
  task only uses what the agent can run and the step that runs one configured rule on a record.
  The lemmas give the exact set of texts the timestamp rule accepts and what a rule run reports.
\<close>

datatype qc_level = QcPass | QcWarning | QcFailed

record qc_check_result =
  qc_level_of :: qc_level
  qc_rule_name :: string
  qc_message :: string

text \<open>\<open>is_digit_at\<close> and \<open>looks_like_datetime\<close>.\<close>

definition is_digit_at :: "string \<Rightarrow> nat \<Rightarrow> bool" where
  "is_digit_at v i \<longleftrightarrow> i < length v \<and> isdigit (v ! i)"

definition looks_like_datetime :: "string \<Rightarrow> bool" where
  "looks_like_datetime v =
    (if length v \<noteq> 19 then False
     else if \<not> (v ! 4 = CHR ''-'' \<and> v ! 7 = CHR ''-'' \<and> v ! 10 = CHR '' '' \<and> v ! 13 = CHR '':'' \<and> v ! 16 = CHR '':'')
     then False
     else list_all (\<lambda>i. i = 4 \<or> i = 7 \<or> i = 10 \<or> i = 13 \<or> i = 16 \<or> is_digit_at v i) [0..<length v])"

definition required_fields_check :: "parsed_record \<Rightarrow> qc_check_result" where
  "required_fields_check r =
    (if pr_station_code r = [] \<or> pr_device_code r = [] \<or> pr_record_time r = []
     then \<lparr>qc_level_of = QcFailed, qc_rule_name = ''required_fields'',
           qc_message = ''station_code, device_code and record_time are required''\<rparr>
     else \<lparr>qc_level_of = QcPass, qc_rule_name = ''required_fields'',
           qc_message = ''required fields are present''\<rparr>)"

definition basic_timestamp_check :: "parsed_record \<Rightarrow> qc_check_result" where
  "basic_timestamp_check r =
    (if \<not> looks_like_datetime (pr_record_time r)
     then \<lparr>qc_level_of = QcFailed, qc_rule_name = ''basic_timestamp_format'',
           qc_message = ''record_time must match yyyy-mm-dd hh:mm:ss''\<rparr>
     else \<lparr>qc_level_of = QcPass, qc_rule_name = ''basic_timestamp_format'',
           qc_message = ''record_time format is valid''\<rparr>)"

text \<open>\<open>run_rule\<close> of the executor: any type other than \<open>required_fields\<close> runs the timestamp rule.\<close>

definition run_rule :: "qc_rule_config \<Rightarrow> parsed_record \<Rightarrow> report_qc_result" where
  "run_rule config rec =
    (let checked = (if qr_rule_type config = ''required_fields'' then required_fields_check rec
                    else basic_timestamp_check rec);
         passed = (qc_level_of checked = QcPass)
     in \<lparr>rq_qc_rule_id = qr_id config,
         rq_level = (if passed then ''pass'' else ''failed''),
         rq_result = (if passed then ''passed'' else ''failed''),
         rq_message = qc_message checked\<rparr>)"

text \<open>\<open>validate_execution_types\<close>.\<close>

fun check_rule_types :: "qc_rule_config list \<Rightarrow> agent_exn + unit" where
  "check_rule_types [] = Inr ()"
| "check_rule_types (r # rs) =
    (if qr_rule_type r \<noteq> ''required_fields'' \<and> qr_rule_type r \<noteq> ''basic_timestamp_format''
     then Inl (InvalidArgumentError (''unsupported QC rule type: '' @ qr_rule_type r))
     else check_rule_types rs)"

definition validate_execution_types :: "task_config \<Rightarrow> agent_exn + unit" where
  "validate_execution_types task =
    (if tc_task_type task \<noteq> ''local_file_import'' \<or> tc_parser_type task \<noteq> ''csv_observation'' \<or>
        ds_type (tc_data_source task) \<noteq> LocalDirectory
     then Inl (InvalidArgumentError ''task requires local_directory, local_file_import and csv_observation'')
     else check_rule_types (tc_qc_rules task))"

lemma check_rule_types_ok:
  "check_rule_types rs = Inr () \<longleftrightarrow>
    (\<forall>r \<in> set rs. qr_rule_type r = ''required_fields'' \<or> qr_rule_type r = ''basic_timestamp_format'')"
  by (induction rs) auto

section \<open>Properties\<close>

lemma list_19:
  "length v = 19 \<Longrightarrow> v = take 4 v @ [v ! 4] @ take 2 (drop 5 v) @ [v ! 7] @ take 2 (drop 8 v) @ [v ! 10] @
     take 2 (drop 11 v) @ [v ! 13] @ take 2 (drop 14 v) @ [v ! 16] @ drop 17 v"
  by (intro nth_equalityI) (auto simp: nth_append nth_Cons' less_Suc_eq numeral_eq_Suc)

lemma list_2: "length v = 2 \<longleftrightarrow> (\<exists>a b. v = [a, b])"
  by (auto simp: length_Suc_conv numeral_2_eq_2)

lemma list_4: "length v = 4 \<longleftrightarrow> (\<exists>a b c d. v = [a, b, c, d])"
  by (auto simp: length_Suc_conv eval_nat_numeral)

text \<open>
  The timestamp rule accepts exactly the texts \<open>yyyy-mm-dd hh:mm:ss\<close> of decimal digits: it
  checks the digit positions and the separators, and no calendar range.
\<close>

lemma datetime_format_exact:
  "looks_like_datetime v \<longleftrightarrow>
    (\<exists>y mo d h mi s. map length [y, mo, d, h, mi, s] = [4, 2, 2, 2, 2, 2] \<and>
      list_all (list_all isdigit) [y, mo, d, h, mi, s] \<and>
      v = y @ ''-'' @ mo @ ''-'' @ d @ '' '' @ h @ '':'' @ mi @ '':'' @ s)"
  (is "_ \<longleftrightarrow> ?R")
proof
  assume v: "looks_like_datetime v"
  then have len: "length v = 19" and sep: "v ! 4 = CHR ''-''" "v ! 7 = CHR ''-''" "v ! 10 = CHR '' ''"
      "v ! 13 = CHR '':''" "v ! 16 = CHR '':''"
    and digits: "\<And>i. i < 19 \<Longrightarrow> i \<noteq> 4 \<Longrightarrow> i \<noteq> 7 \<Longrightarrow> i \<noteq> 10 \<Longrightarrow> i \<noteq> 13 \<Longrightarrow> i \<noteq> 16 \<Longrightarrow> isdigit (v ! i)"
    by (auto simp: looks_like_datetime_def is_digit_at_def list_all_iff split: if_splits)
  have "list_all isdigit (take 4 v)" "list_all isdigit (take 2 (drop 5 v))"
    "list_all isdigit (take 2 (drop 8 v))" "list_all isdigit (take 2 (drop 11 v))"
    "list_all isdigit (take 2 (drop 14 v))" "list_all isdigit (drop 17 v)"
    using len by (auto simp: list_all_length intro!: digits)
  then have "list_all (list_all isdigit) [take 4 v, take 2 (drop 5 v), take 2 (drop 8 v),
      take 2 (drop 11 v), take 2 (drop 14 v), drop 17 v]" by simp
  moreover have "map length [take 4 v, take 2 (drop 5 v), take 2 (drop 8 v),
      take 2 (drop 11 v), take 2 (drop 14 v), drop 17 v] = [4, 2, 2, 2, 2, 2]" using len by simp
  moreover have "v = take 4 v @ ''-'' @ take 2 (drop 5 v) @ ''-'' @ take 2 (drop 8 v) @ '' '' @
      take 2 (drop 11 v) @ '':'' @ take 2 (drop 14 v) @ '':'' @ drop 17 v"
    using list_19[OF len] unfolding sep .
  ultimately show ?R
    by - (rule exI[of _ "take 4 v"], rule exI[of _ "take 2 (drop 5 v)"], rule exI[of _ "take 2 (drop 8 v)"],
        rule exI[of _ "take 2 (drop 11 v)"], rule exI[of _ "take 2 (drop 14 v)"],
        rule exI[of _ "drop 17 v"], intro conjI)
next
  assume ?R
  then obtain y mo d h mi s where
    "length y = 4" "length mo = 2" "length d = 2" "length h = 2" "length mi = 2" "length s = 2"
    and digits: "list_all isdigit (y @ mo @ d @ h @ mi @ s)"
    and v: "v = y @ ''-'' @ mo @ ''-'' @ d @ '' '' @ h @ '':'' @ mi @ '':'' @ s"
    by auto
  then obtain a b c e f g i j k l m n p q where
    parts: "y = [a, b, c, e]" "mo = [f, g]" "d = [i, j]" "h = [k, l]" "mi = [m, n]" "s = [p, q]"
    unfolding list_2 list_4 by blast
  have "[0..<19] = [0, 1, 2, 3, 4, 5, 6, 7, 8, 9, 10, 11, 12, 13, 14, 15, 16, 17, 18::nat]"
    by (simp add: upt_rec)
  with digits show "looks_like_datetime v"
    unfolding v parts by (simp add: looks_like_datetime_def is_digit_at_def)
qed

text \<open>
  A rule run on a task the executor accepts reports the rule's own verdict: \<open>failed\<close> exactly when
  the rule is \<open>required_fields\<close> and one of the three leading columns is empty, or the rule is
  \<open>basic_timestamp_format\<close> and the time does not have the expected shape; the level and the result
  of a report entry always agree.
\<close>

lemma run_rule_verdict:
  assumes "validate_execution_types task = Inr ()" "rule \<in> set (tc_qc_rules task)"
  shows "(rq_level (run_rule rule rec) = ''failed'' \<longleftrightarrow>
      (qr_rule_type rule = ''required_fields'' \<and>
         (pr_station_code rec = [] \<or> pr_device_code rec = [] \<or> pr_record_time rec = []) \<or>
       qr_rule_type rule = ''basic_timestamp_format'' \<and> \<not> looks_like_datetime (pr_record_time rec))) \<and>
    (rq_level (run_rule rule rec) = ''pass'' \<longleftrightarrow> rq_result (run_rule rule rec) = ''passed'') \<and>
    rq_qc_rule_id (run_rule rule rec) = qr_id rule"
proof -
  have "qr_rule_type rule = ''required_fields'' \<or> qr_rule_type rule = ''basic_timestamp_format''"
    using assms by (auto simp: validate_execution_types_def check_rule_types_ok split: if_splits)
  then show ?thesis
    by (auto simp: run_rule_def Let_def required_fields_check_def basic_timestamp_check_def)
qed

definition example_source :: data_source_config where
  "example_source = \<lparr>ds_id = ''7'', ds_node_code = ''node-1'', ds_type = LocalDirectory,
     ds_name = ''Inbox'', ds_config_json = ''{}''\<rparr>"

definition example_rule :: qc_rule_config where
  "example_rule = \<lparr>qr_id = ''9'', qr_rule_type = ''required_fields'', qr_name = ''Required'', qr_config_json = ''{}''\<rparr>"

definition example_task :: task_config where
  "example_task = \<lparr>tc_id = ''42'', tc_node_code = ''node-1'', tc_data_source_id = ''7'', tc_name = ''CSV import'',
     tc_task_type = ''local_file_import'', tc_schedule_expr = ''* * * * *'', tc_parser_type = ''csv_observation'',
     tc_qc_profile = ''basic'', tc_enabled = True, tc_data_source = example_source, tc_qc_rules = [example_rule]\<rparr>"

lemma run_rule_verdict_example:
  "rq_level (run_rule example_rule \<lparr>pr_station_code = ''S1'', pr_device_code = [],
     pr_record_time = ''2026-01-01 00:00:00'', pr_payload_json = []\<rparr>) = ''failed''"
proof -
  have "validate_execution_types example_task = Inr ()" "example_rule \<in> set (tc_qc_rules example_task)"
    by (simp_all add: validate_execution_types_def example_task_def example_source_def example_rule_def)
  from run_rule_verdict[OF this] show ?thesis by (simp add: example_rule_def)
qed

end
