(* ===== verification/Execution_Codec.thy ===== *)
theory Execution_Codec
  imports Agent_Types
begin

text \<open>
  \<open>agent/src/execution/execution_request_codec.cpp\<close>: the versioned JSON documents the agent persists
  in its queue, their decoders with every field check, and the HTTP body derived from them. A
  document is modelled as its tree (\<open>json\<close>); printing a tree and parsing the text are nlohmann's and
  are not modelled, so \<open>encode_x\<close> returns the tree the code dumps and \<open>decode_x\<close> takes the tree the
  code parsed. The lemmas say exactly which values survive being persisted and read back.
\<close>

datatype json = JNull | JBool bool | JInt int | JFloat int | JStr string | JArr "json list"
  | JObj "(string \<times> json) list"

definition kCodecVersion :: int where
  "kCodecVersion = 1"

fun is_object :: "json \<Rightarrow> bool" where
  "is_object (JObj _) = True"
| "is_object _ = False"

text \<open>
  \<open>dump\<close> throws a \<open>type_error\<close> where a text of the tree is not well-formed UTF-8 (no overlong form, no
  surrogate, nothing above U+10FFFF).
\<close>

definition utf8_next :: "char \<Rightarrow> bool" where
  "utf8_next c \<longleftrightarrow> 128 \<le> char_code c \<and> char_code c \<le> 191"

text \<open>The first byte of a longer sequence with the bound its second byte must respect.\<close>

definition utf8_second :: "nat \<Rightarrow> char \<Rightarrow> bool" where
  "utf8_second lead c \<longleftrightarrow> utf8_next c \<and> (lead = 224 \<longrightarrow> 160 \<le> char_code c) \<and> (lead = 237 \<longrightarrow> char_code c \<le> 159) \<and>
     (lead = 240 \<longrightarrow> 144 \<le> char_code c) \<and> (lead = 244 \<longrightarrow> char_code c \<le> 143)"

fun is_utf8 :: "string \<Rightarrow> bool" where
  "is_utf8 [] = True"
| "is_utf8 (c # s) =
     (let lead = char_code c in
      if lead < 128 then is_utf8 s
      else if 194 \<le> lead \<and> lead \<le> 223 then (case s of d # s' \<Rightarrow> utf8_next d \<and> is_utf8 s' | _ \<Rightarrow> False)
      else if 224 \<le> lead \<and> lead \<le> 239 then
        (case s of d # e # s' \<Rightarrow> utf8_second lead d \<and> utf8_next e \<and> is_utf8 s' | _ \<Rightarrow> False)
      else if 240 \<le> lead \<and> lead \<le> 244 then
        (case s of d # e # f # s' \<Rightarrow> utf8_second lead d \<and> utf8_next e \<and> utf8_next f \<and> is_utf8 s' | _ \<Rightarrow> False)
      else False)"

lemma ascii_is_utf8: "list_all (\<lambda>c. char_code c < 128) s \<Longrightarrow> is_utf8 s"
  by (induction s) (simp_all add: Let_def)

fun json_utf8 :: "json \<Rightarrow> bool" where
  "json_utf8 (JStr s) = is_utf8 s"
| "json_utf8 (JArr items) = list_all json_utf8 items"
| "json_utf8 (JObj kvs) = list_all (\<lambda>(k, v). is_utf8 k \<and> json_utf8 v) kvs"
| "json_utf8 JNull = True"
| "json_utf8 (JBool b) = True"
| "json_utf8 (JInt i) = True"
| "json_utf8 (JFloat i) = True"

definition dump_all :: "json list \<Rightarrow> ('s, agent_exn, unit) proc" where
  "dump_all docs = require (list_all json_utf8 docs) JsonTypeError"

lemma dump_all_Inr [simp]: "dump_all docs s = (Inr u, t) \<longleftrightarrow> list_all json_utf8 docs \<and> t = s"
  by (simp add: dump_all_def)

text \<open>\<open>find\<close> on a value that is not an object finds nothing.\<close>

fun json_find :: "json \<Rightarrow> string \<Rightarrow> json option" where
  "json_find (JObj kvs) k = map_of kvs k"
| "json_find _ k = None"

text \<open>
  \<open>value("codec_version", 0)\<close>: the default when absent, a \<open>type_error\<close> for a value that is no
  number (booleans convert). A floating-point number is carried as its truncation to an integer, the
  only thing the program takes from one.
\<close>

definition version_value :: "json \<Rightarrow> agent_exn + int" where
  "version_value v =
    (case json_find v ''codec_version'' of
       None \<Rightarrow> Inr 0
     | Some (JInt i) \<Rightarrow> Inr i
     | Some (JBool b) \<Rightarrow> Inr (if b then 1 else 0)
     | Some (JFloat t) \<Rightarrow> Inr t
     | Some _ \<Rightarrow> Inl JsonTypeError)"

definition parse_payload :: "json \<Rightarrow> agent_exn + json" where
  "parse_payload payload =
    (if \<not> is_object payload then Inl (CodecError ''unsupported or missing codec_version'')
     else sbind (version_value payload) (\<lambda>version.
       if version \<noteq> kCodecVersion then Inl (CodecError ''unsupported or missing codec_version'')
       else Inr payload))"

definition field_error :: "string \<Rightarrow> string \<Rightarrow> agent_exn" where
  "field_error field rest = CodecError (''field '' @ apos @ field @ apos @ rest)"

definition required_string :: "json \<Rightarrow> string \<Rightarrow> bool \<Rightarrow> agent_exn + string" where
  "required_string obj field allow_empty =
    (case json_find obj field of
       Some (JStr s) \<Rightarrow>
         if \<not> allow_empty \<and> s = [] then Inl (field_error field '' must be a non-empty string'') else Inr s
     | _ \<Rightarrow> Inl (field_error field '' must be a non-empty string''))"

definition required_object :: "json \<Rightarrow> string \<Rightarrow> agent_exn + json" where
  "required_object obj field =
    (case json_find obj field of
       Some (JObj kvs) \<Rightarrow> Inr (JObj kvs)
     | _ \<Rightarrow> Inl (field_error field '' must be an object''))"

definition required_array :: "json \<Rightarrow> string \<Rightarrow> agent_exn + json list" where
  "required_array obj field =
    (case json_find obj field of
       Some (JArr items) \<Rightarrow> Inr items
     | _ \<Rightarrow> Inl (field_error field '' must be an array''))"

definition int_max :: int where
  "int_max = 2147483647"

definition required_non_negative_int :: "json \<Rightarrow> string \<Rightarrow> agent_exn + int" where
  "required_non_negative_int obj field =
    (case json_find obj field of
       Some (JInt v) \<Rightarrow>
         if v < 0 \<or> v > int_max then Inl (field_error field '' is out of range'') else Inr v
     | _ \<Rightarrow> Inl (field_error field '' must be an integer''))"

text \<open>Read as a \<^verbatim>\<open>long long\<close>, an unsigned number past its maximum comes out negative.\<close>

definition long_long_max :: int where
  "long_long_max = 9223372036854775807"

definition required_non_negative_long :: "json \<Rightarrow> string \<Rightarrow> agent_exn + int" where
  "required_non_negative_long obj field =
    (case json_find obj field of
       Some (JInt v) \<Rightarrow>
         if v < 0 \<or> v > long_long_max then Inl (field_error field '' must be a non-negative integer'') else Inr v
     | _ \<Rightarrow> Inl (field_error field '' must be a non-negative integer''))"

definition required_boolean :: "json \<Rightarrow> string \<Rightarrow> agent_exn + bool" where
  "required_boolean obj field =
    (case json_find obj field of
       Some (JBool b) \<Rightarrow> Inr b
     | _ \<Rightarrow> Inl (field_error field '' must be a boolean''))"

fun encode_source_type :: "source_type \<Rightarrow> string" where
  "encode_source_type LocalDirectory = ''local_directory''"
| "encode_source_type Ftp = ''ftp''"
| "encode_source_type Oracle = ''oracle''"

definition decode_source_type :: "string \<Rightarrow> agent_exn + source_type" where
  "decode_source_type v =
    (if v = ''local_directory'' then Inr LocalDirectory
     else if v = ''ftp'' then Inr Ftp
     else if v = ''oracle'' then Inr Oracle
     else Inl (CodecError ''unsupported source type''))"

definition encode_terminal_status :: "task_run_status \<Rightarrow> agent_exn + string" where
  "encode_terminal_status st =
    (if st = Succeeded then Inr ''succeeded''
     else if st = Failed then Inr ''failed''
     else Inl (CodecError ''report status must be terminal''))"

definition decode_terminal_status :: "string \<Rightarrow> agent_exn + task_run_status" where
  "decode_terminal_status v =
    (if v = ''succeeded'' then Inr Succeeded
     else if v = ''failed'' then Inr Failed
     else Inl (CodecError ''report status must be terminal''))"

section \<open>Parts\<close>

definition encode_qc_rule :: "qc_rule_config \<Rightarrow> json" where
  "encode_qc_rule r = JObj [(''id'', JStr (qr_id r)), (''rule_type'', JStr (qr_rule_type r)),
     (''name'', JStr (qr_name r)), (''config_json'', JStr (qr_config_json r))]"

definition decode_qc_rule :: "json \<Rightarrow> agent_exn + qc_rule_config" where
  "decode_qc_rule p =
    sbind (required_string p ''id'' False) (\<lambda>i.
    sbind (required_string p ''rule_type'' False) (\<lambda>t.
    sbind (required_string p ''name'' False) (\<lambda>n.
    sbind (required_string p ''config_json'' True) (\<lambda>c.
      Inr \<lparr>qr_id = i, qr_rule_type = t, qr_name = n, qr_config_json = c\<rparr>))))"

definition encode_manifest_entry :: "manifest_entry \<Rightarrow> json" where
  "encode_manifest_entry f = JObj [(''original_name'', JStr (me_original_name f)),
     (''file_hash'', JStr (me_file_hash f)), (''storage_path'', JStr (me_storage_path f)),
     (''size_bytes'', JInt (me_size_bytes f)), (''source_mtime'', JStr (me_source_mtime f)),
     (''ingest_status'', JStr (me_ingest_status f))]"

definition decode_manifest_entry :: "json \<Rightarrow> agent_exn + manifest_entry" where
  "decode_manifest_entry p =
    sbind (required_string p ''original_name'' False) (\<lambda>n.
    sbind (required_string p ''file_hash'' False) (\<lambda>h.
    sbind (required_string p ''storage_path'' False) (\<lambda>s.
    sbind (required_non_negative_long p ''size_bytes'') (\<lambda>z.
    sbind (required_string p ''source_mtime'' False) (\<lambda>m.
    sbind (required_string p ''ingest_status'' False) (\<lambda>i.
      Inr \<lparr>me_original_name = n, me_file_hash = h, me_storage_path = s, me_size_bytes = z,
           me_source_mtime = m, me_ingest_status = i\<rparr>))))))"

definition encode_qc_result :: "report_qc_result \<Rightarrow> json" where
  "encode_qc_result q = JObj [(''qc_rule_id'', JStr (rq_qc_rule_id q)), (''level'', JStr (rq_level q)),
     (''result'', JStr (rq_result q)), (''message'', JStr (rq_message q))]"

definition decode_qc_result :: "json \<Rightarrow> agent_exn + report_qc_result" where
  "decode_qc_result p =
    sbind (required_string p ''qc_rule_id'' False) (\<lambda>i.
    sbind (required_string p ''level'' False) (\<lambda>l.
    sbind (required_string p ''result'' False) (\<lambda>r.
    sbind (required_string p ''message'' True) (\<lambda>m.
      Inr \<lparr>rq_qc_rule_id = i, rq_level = l, rq_result = r, rq_message = m\<rparr>))))"

definition encode_parsed_record :: "report_parsed_record \<Rightarrow> json" where
  "encode_parsed_record p = JObj [(''raw_file_id'', JStr (rp_raw_file_id p)),
     (''station_code'', JStr (pr_station_code (rp_record p))),
     (''device_code'', JStr (pr_device_code (rp_record p))),
     (''record_time'', JStr (pr_record_time (rp_record p))),
     (''payload_json'', JStr (pr_payload_json (rp_record p))),
     (''parse_status'', JStr (rp_parse_status p)),
     (''qc_results'', JArr (map encode_qc_result (rp_qc_results p)))]"

definition decode_parsed_record :: "json \<Rightarrow> agent_exn + report_parsed_record" where
  "decode_parsed_record p =
    sbind (required_string p ''raw_file_id'' False) (\<lambda>i.
    sbind (required_string p ''station_code'' True) (\<lambda>s.
    sbind (required_string p ''device_code'' True) (\<lambda>d.
    sbind (required_string p ''record_time'' False) (\<lambda>t.
    sbind (required_string p ''payload_json'' True) (\<lambda>j.
    sbind (required_string p ''parse_status'' False) (\<lambda>st.
    sbind (required_array p ''qc_results'') (\<lambda>items.
    sbind (smap decode_qc_result items) (\<lambda>qs.
      Inr \<lparr>rp_raw_file_id = i,
           rp_record = \<lparr>pr_station_code = s, pr_device_code = d, pr_record_time = t, pr_payload_json = j\<rparr>,
           rp_parse_status = st, rp_qc_results = qs\<rparr>))))))))"

definition decode_trigger_type :: "json \<Rightarrow> agent_exn + string" where
  "decode_trigger_type p =
    sbind (required_string p ''trigger_type'' False) (\<lambda>t.
      if t \<noteq> ''scheduled'' \<and> t \<noteq> ''manual'' \<and> t \<noteq> ''retry''
      then Inl (CodecError (''field '' @ apos @ ''trigger_type'' @ apos @ '' must be scheduled, manual or retry''))
      else Inr t)"

section \<open>Documents\<close>

definition encode_data_source :: "data_source_config \<Rightarrow> json" where
  "encode_data_source d = JObj [(''id'', JStr (ds_id d)), (''node_code'', JStr (ds_node_code d)),
     (''type'', JStr (encode_source_type (ds_type d))), (''name'', JStr (ds_name d)),
     (''config_json'', JStr (ds_config_json d))]"

definition encode_task_config :: "task_config \<Rightarrow> json" where
  "encode_task_config t = JObj [(''codec_version'', JInt kCodecVersion), (''id'', JStr (tc_id t)),
     (''node_code'', JStr (tc_node_code t)), (''data_source_id'', JStr (tc_data_source_id t)),
     (''name'', JStr (tc_name t)), (''task_type'', JStr (tc_task_type t)),
     (''schedule_expr'', JStr (tc_schedule_expr t)), (''parser_type'', JStr (tc_parser_type t)),
     (''qc_profile'', JStr (tc_qc_profile t)), (''enabled'', JBool (tc_enabled t)),
     (''data_source'', encode_data_source (tc_data_source t)),
     (''qc_rules'', JArr (map encode_qc_rule (tc_qc_rules t)))]"

definition decode_data_source :: "json \<Rightarrow> agent_exn + data_source_config" where
  "decode_data_source p =
    sbind (required_string p ''id'' False) (\<lambda>i.
    sbind (required_string p ''node_code'' False) (\<lambda>n.
    sbind (required_string p ''type'' False) (\<lambda>ty.
    sbind (decode_source_type ty) (\<lambda>ty.
    sbind (required_string p ''name'' False) (\<lambda>nm.
    sbind (required_string p ''config_json'' True) (\<lambda>c.
      Inr \<lparr>ds_id = i, ds_node_code = n, ds_type = ty, ds_name = nm, ds_config_json = c\<rparr>))))))"

definition decode_task_config :: "json \<Rightarrow> agent_exn + task_config" where
  "decode_task_config doc =
    sbind (parse_payload doc) (\<lambda>p.
    sbind (required_object p ''data_source'') (\<lambda>src.
    sbind (required_string p ''id'' False) (\<lambda>i.
    sbind (required_string p ''node_code'' False) (\<lambda>n.
    sbind (required_string p ''data_source_id'' False) (\<lambda>dsi.
    sbind (required_string p ''name'' False) (\<lambda>nm.
    sbind (required_string p ''task_type'' False) (\<lambda>tt.
    sbind (required_string p ''schedule_expr'' False) (\<lambda>se.
    sbind (required_string p ''parser_type'' False) (\<lambda>pt.
    sbind (required_string p ''qc_profile'' True) (\<lambda>qp.
    sbind (required_boolean p ''enabled'') (\<lambda>en.
    sbind (decode_data_source src) (\<lambda>ds.
    sbind (required_array p ''qc_rules'') (\<lambda>items.
    sbind (smap decode_qc_rule items) (\<lambda>rules.
      Inr \<lparr>tc_id = i, tc_node_code = n, tc_data_source_id = dsi, tc_name = nm, tc_task_type = tt,
           tc_schedule_expr = se, tc_parser_type = pt, tc_qc_profile = qp, tc_enabled = en,
           tc_data_source = ds, tc_qc_rules = rules\<rparr>))))))))))))))"

definition encode_start_request :: "start_request \<Rightarrow> json" where
  "encode_start_request r = JObj [(''codec_version'', JInt kCodecVersion), (''node_code'', JStr (sr_node_code r)),
     (''task_id'', JStr (sr_task_id r)), (''execution_key'', JStr (sr_execution_key r)),
     (''scheduled_for'', JStr (sr_scheduled_for r)), (''started_at'', JStr (sr_started_at r)),
     (''trigger_type'', JStr (sr_trigger_type r))]"

definition decode_start_request :: "json \<Rightarrow> agent_exn + start_request" where
  "decode_start_request doc =
    sbind (parse_payload doc) (\<lambda>p.
    sbind (decode_trigger_type p) (\<lambda>t.
    sbind (required_string p ''node_code'' False) (\<lambda>n.
    sbind (required_string p ''task_id'' False) (\<lambda>ti.
    sbind (required_string p ''execution_key'' False) (\<lambda>k.
    sbind (required_string p ''scheduled_for'' (t \<noteq> ''scheduled'')) (\<lambda>sf.
    sbind (required_string p ''started_at'' False) (\<lambda>st.
      Inr \<lparr>sr_node_code = n, sr_task_id = ti, sr_execution_key = k, sr_scheduled_for = sf,
           sr_started_at = st, sr_trigger_type = t\<rparr>)))))))"

definition encode_manifest_request :: "manifest_request \<Rightarrow> json" where
  "encode_manifest_request r = JObj [(''codec_version'', JInt kCodecVersion),
     (''task_run_id'', JStr (mr_task_run_id r)), (''node_code'', JStr (mr_node_code r)),
     (''idempotency_key'', JStr (mr_idempotency_key r)),
     (''files'', JArr (map encode_manifest_entry (mr_files r)))]"

definition decode_manifest_request :: "json \<Rightarrow> agent_exn + manifest_request" where
  "decode_manifest_request doc =
    sbind (parse_payload doc) (\<lambda>p.
    sbind (required_string p ''task_run_id'' False) (\<lambda>i.
    sbind (required_string p ''node_code'' False) (\<lambda>n.
    sbind (required_string p ''idempotency_key'' False) (\<lambda>k.
    sbind (required_array p ''files'') (\<lambda>items.
    sbind (smap decode_manifest_entry items) (\<lambda>fs.
      Inr \<lparr>mr_task_run_id = i, mr_node_code = n, mr_idempotency_key = k, mr_files = fs\<rparr>))))))"

definition encode_failed_file :: "failed_file \<Rightarrow> json" where
  "encode_failed_file f = JObj [(''source_path'', JStr (ff_source_path f)),
     (''original_name'', JStr (ff_original_name f)), (''stage'', JStr (ff_stage f)),
     (''message'', JStr (ff_message f)), (''archive_raw_file_id'', JStr (ff_archive_raw_file_id f))]"

definition decode_failed_file :: "json \<Rightarrow> agent_exn + failed_file" where
  "decode_failed_file p =
    sbind (required_string p ''source_path'' False) (\<lambda>s.
    sbind (required_string p ''original_name'' False) (\<lambda>n.
    sbind (required_string p ''stage'' False) (\<lambda>st.
    sbind (required_string p ''message'' True) (\<lambda>m.
    sbind (required_string p ''archive_raw_file_id'' True) (\<lambda>a.
      Inr \<lparr>ff_source_path = s, ff_original_name = n, ff_stage = st, ff_message = m,
           ff_archive_raw_file_id = a\<rparr>)))))"

text \<open>The report: \<open>failed_files\<close> is only written when the flag is set, and absent is not empty.\<close>

definition encode_report_request :: "report_request \<Rightarrow> agent_exn + json" where
  "encode_report_request r =
    sbind (encode_terminal_status (rr_status r)) (\<lambda>st.
      Inr (JObj ([(''codec_version'', JInt kCodecVersion), (''task_run_id'', JStr (rr_task_run_id r)),
        (''node_code'', JStr (rr_node_code r)), (''idempotency_key'', JStr (rr_idempotency_key r)),
        (''status'', JStr st), (''finished_at'', JStr (rr_finished_at r)),
        (''items_total'', JInt (rr_items_total r)), (''items_success'', JInt (rr_items_success r)),
        (''items_failed'', JInt (rr_items_failed r)), (''error_summary'', JStr (rr_error_summary r)),
        (''parsed_records'', JArr (map encode_parsed_record (rr_parsed_records r)))] @
        (if rr_has_failed_files r
         then [(''failed_files'', JArr (map encode_failed_file (rr_failed_files r)))] else []))))"

definition decode_report_request :: "json \<Rightarrow> agent_exn + report_request" where
  "decode_report_request doc =
    sbind (parse_payload doc) (\<lambda>p.
    sbind (required_string p ''task_run_id'' False) (\<lambda>i.
    sbind (required_string p ''node_code'' False) (\<lambda>n.
    sbind (required_string p ''idempotency_key'' False) (\<lambda>k.
    sbind (required_string p ''status'' False) (\<lambda>st.
    sbind (decode_terminal_status st) (\<lambda>status.
    sbind (required_string p ''finished_at'' False) (\<lambda>fin.
    sbind (required_non_negative_int p ''items_total'') (\<lambda>total.
    sbind (required_non_negative_int p ''items_success'') (\<lambda>success.
    sbind (required_non_negative_int p ''items_failed'') (\<lambda>failed.
    sbind (required_string p ''error_summary'' True) (\<lambda>summary.
    sbind (case json_find p ''failed_files'' of
             None \<Rightarrow> Inr (False, [])
           | Some _ \<Rightarrow> sbind (required_array p ''failed_files'') (\<lambda>items.
               sbind (smap decode_failed_file items) (\<lambda>fs. Inr (True, fs)))) (\<lambda>(has, ffs).
    sbind (required_array p ''parsed_records'') (\<lambda>items.
    sbind (smap decode_parsed_record items) (\<lambda>recs.
      Inr \<lparr>rr_task_run_id = i, rr_node_code = n, rr_idempotency_key = k, rr_status = status,
           rr_finished_at = fin, rr_items_total = total, rr_items_success = success,
           rr_items_failed = failed, rr_error_summary = summary, rr_parsed_records = recs,
           rr_has_failed_files = has, rr_failed_files = ffs\<rparr>))))))))))))))"

definition encode_retry_file :: "retry_file_input \<Rightarrow> json" where
  "encode_retry_file f = JObj [(''codec_version'', JInt kCodecVersion),
     (''input_type'', JStr (rf_input_type f)), (''source_path'', JStr (rf_source_path f)),
     (''original_name'', JStr (rf_original_name f)),
     (''archive_raw_file_id'', JStr (rf_archive_raw_file_id f)),
     (''storage_path'', JStr (rf_storage_path f)), (''size_bytes'', JInt (rf_size_bytes f)),
     (''file_hash'', JStr (rf_file_hash f)), (''source_mtime'', JStr (rf_source_mtime f))]"

definition encode_retry_files :: "retry_file_input list \<Rightarrow> json" where
  "encode_retry_files fs = JArr (map encode_retry_file fs)"

definition decode_retry_file :: "json \<Rightarrow> agent_exn + retry_file_input" where
  "decode_retry_file item =
    sbind (if \<not> is_object item
           then Inl (CodecError ''unsupported or missing codec_version in retry files'')
           else sbind (version_value item) (\<lambda>v. if v \<noteq> kCodecVersion
             then Inl (CodecError ''unsupported or missing codec_version in retry files'') else Inr ())) (\<lambda>_.
    sbind (required_string item ''input_type'' False) (\<lambda>it.
    sbind (ensure (it = ''archive'' \<or> it = ''source'')
             (CodecError ''retry file input_type must be archive or source'')) (\<lambda>_.
    sbind (required_string item ''source_path'' False) (\<lambda>sp.
    sbind (required_string item ''original_name'' False) (\<lambda>n.
    sbind (required_string item ''archive_raw_file_id'' True) (\<lambda>a.
    sbind (required_string item ''storage_path'' True) (\<lambda>st.
    sbind (required_non_negative_long item ''size_bytes'') (\<lambda>z.
    sbind (required_string item ''file_hash'' True) (\<lambda>h.
    sbind (required_string item ''source_mtime'' True) (\<lambda>m.
      Inr \<lparr>rf_input_type = it, rf_source_path = sp, rf_original_name = n, rf_archive_raw_file_id = a,
           rf_storage_path = st, rf_size_bytes = z, rf_file_hash = h, rf_source_mtime = m\<rparr>))))))))))"

text \<open>An empty column (no document) holds no retry targets.\<close>

definition decode_retry_files :: "json option \<Rightarrow> agent_exn + retry_file_input list" where
  "decode_retry_files doc =
    (case doc of
       None \<Rightarrow> Inr []
     | Some (JArr items) \<Rightarrow> smap decode_retry_file items
     | Some _ \<Rightarrow> Inl (CodecError ''retry files must be an array''))"

section \<open>HTTP bodies\<close>

fun json_erase :: "string \<Rightarrow> json \<Rightarrow> json" where
  "json_erase k (JObj kvs) = JObj (filter (\<lambda>(k', _). k' \<noteq> k) kvs)"
| "json_erase k v = v"

definition encode_start_http_body :: "start_request \<Rightarrow> json" where
  "encode_start_http_body r = json_erase ''codec_version'' (encode_start_request r)"

definition encode_manifest_http_body :: "manifest_request \<Rightarrow> json" where
  "encode_manifest_http_body r = json_erase ''codec_version'' (encode_manifest_request r)"

definition encode_report_http_body :: "report_request \<Rightarrow> agent_exn + json" where
  "encode_report_http_body r =
    sbind (encode_report_request r) (\<lambda>doc. Inr (json_erase ''codec_version'' doc))"

section \<open>Which values survive being persisted\<close>

text \<open>
  The values each decoder accepts back, field by field. A request outside them is still encoded and
  written to the queue, and fails when it is read.
\<close>

definition qc_rule_persistable :: "qc_rule_config \<Rightarrow> bool" where
  "qc_rule_persistable r \<longleftrightarrow> qr_id r \<noteq> [] \<and> qr_rule_type r \<noteq> [] \<and> qr_name r \<noteq> []"

definition manifest_entry_persistable :: "manifest_entry \<Rightarrow> bool" where
  "manifest_entry_persistable f \<longleftrightarrow> me_original_name f \<noteq> [] \<and> me_file_hash f \<noteq> [] \<and>
     me_storage_path f \<noteq> [] \<and> 0 \<le> me_size_bytes f \<and> me_size_bytes f \<le> long_long_max \<and> me_source_mtime f \<noteq> [] \<and> me_ingest_status f \<noteq> []"

definition qc_result_persistable :: "report_qc_result \<Rightarrow> bool" where
  "qc_result_persistable q \<longleftrightarrow> rq_qc_rule_id q \<noteq> [] \<and> rq_level q \<noteq> [] \<and> rq_result q \<noteq> []"

definition parsed_record_persistable :: "report_parsed_record \<Rightarrow> bool" where
  "parsed_record_persistable p \<longleftrightarrow> rp_raw_file_id p \<noteq> [] \<and> pr_record_time (rp_record p) \<noteq> [] \<and>
     rp_parse_status p \<noteq> [] \<and> (\<forall>q \<in> set (rp_qc_results p). qc_result_persistable q)"

definition failed_file_persistable :: "failed_file \<Rightarrow> bool" where
  "failed_file_persistable f \<longleftrightarrow> ff_source_path f \<noteq> [] \<and> ff_original_name f \<noteq> [] \<and> ff_stage f \<noteq> []"

definition retry_file_persistable :: "retry_file_input \<Rightarrow> bool" where
  "retry_file_persistable f \<longleftrightarrow> (rf_input_type f = ''archive'' \<or> rf_input_type f = ''source'') \<and>
     rf_source_path f \<noteq> [] \<and> rf_original_name f \<noteq> [] \<and> 0 \<le> rf_size_bytes f \<and> rf_size_bytes f \<le> long_long_max"

definition data_source_persistable :: "data_source_config \<Rightarrow> bool" where
  "data_source_persistable d \<longleftrightarrow> ds_id d \<noteq> [] \<and> ds_node_code d \<noteq> [] \<and> ds_name d \<noteq> []"

definition task_persistable :: "task_config \<Rightarrow> bool" where
  "task_persistable t \<longleftrightarrow> tc_id t \<noteq> [] \<and> tc_node_code t \<noteq> [] \<and> tc_data_source_id t \<noteq> [] \<and>
     tc_name t \<noteq> [] \<and> tc_task_type t \<noteq> [] \<and> tc_schedule_expr t \<noteq> [] \<and> tc_parser_type t \<noteq> [] \<and>
     data_source_persistable (tc_data_source t) \<and> (\<forall>r \<in> set (tc_qc_rules t). qc_rule_persistable r)"

definition trigger_ok :: "string \<Rightarrow> bool" where
  "trigger_ok t \<longleftrightarrow> t = ''scheduled'' \<or> t = ''manual'' \<or> t = ''retry''"

definition start_persistable :: "start_request \<Rightarrow> bool" where
  "start_persistable r \<longleftrightarrow> sr_node_code r \<noteq> [] \<and> sr_task_id r \<noteq> [] \<and> sr_execution_key r \<noteq> [] \<and>
     sr_started_at r \<noteq> [] \<and> trigger_ok (sr_trigger_type r) \<and>
     (sr_trigger_type r = ''scheduled'' \<longrightarrow> sr_scheduled_for r \<noteq> [])"

definition manifest_persistable :: "manifest_request \<Rightarrow> bool" where
  "manifest_persistable r \<longleftrightarrow> mr_task_run_id r \<noteq> [] \<and> mr_node_code r \<noteq> [] \<and>
     mr_idempotency_key r \<noteq> [] \<and> (\<forall>f \<in> set (mr_files r). manifest_entry_persistable f)"

definition in_int_range :: "int \<Rightarrow> bool" where
  "in_int_range i \<longleftrightarrow> 0 \<le> i \<and> i \<le> int_max"

definition report_persistable :: "report_request \<Rightarrow> bool" where
  "report_persistable r \<longleftrightarrow> rr_task_run_id r \<noteq> [] \<and> rr_node_code r \<noteq> [] \<and> rr_idempotency_key r \<noteq> [] \<and>
     rr_finished_at r \<noteq> [] \<and> in_int_range (rr_items_total r) \<and> in_int_range (rr_items_success r) \<and>
     in_int_range (rr_items_failed r) \<and>
     (\<forall>p \<in> set (rr_parsed_records r). parsed_record_persistable p) \<and>
     (\<forall>f \<in> set (rr_failed_files r). failed_file_persistable f) \<and>
     (\<not> rr_has_failed_files r \<longrightarrow> rr_failed_files r = [])"

lemmas required_defs = required_string_def required_object_def required_array_def
  required_non_negative_int_def required_non_negative_long_def required_boolean_def

lemma required_string_Inr:
  "json_find v f = Some (JStr s) \<Longrightarrow> required_string v f e = Inr t \<longleftrightarrow> t = s \<and> (e \<or> s \<noteq> [])"
  by (auto simp: required_string_def)

lemma required_array_Inr:
  "json_find v f = Some (JArr xs) \<Longrightarrow> required_array v f = Inr ys \<longleftrightarrow> ys = xs"
  by (auto simp: required_array_def)

lemma required_int_Inr:
  "json_find v f = Some (JInt i) \<Longrightarrow> required_non_negative_int v f = Inr j \<longleftrightarrow> j = i \<and> in_int_range i"
  by (auto simp: required_non_negative_int_def in_int_range_def)

lemma required_long_Inr:
  "json_find v f = Some (JInt i) \<Longrightarrow> required_non_negative_long v f = Inr j \<longleftrightarrow> j = i \<and> 0 \<le> i \<and> i \<le> long_long_max"
  by (auto simp: required_non_negative_long_def)

lemma required_boolean_Inr:
  "json_find v f = Some (JBool b) \<Longrightarrow> required_boolean v f = Inr c \<longleftrightarrow> c = b"
  by (auto simp: required_boolean_def)

lemmas required_Inr = required_string_Inr required_array_Inr required_int_Inr required_long_Inr
  required_boolean_Inr

lemma parse_payload_version:
  "json_find (JObj kvs) ''codec_version'' = Some (JInt kCodecVersion) \<Longrightarrow>
   parse_payload (JObj kvs) = Inr (JObj kvs)"
  by (simp add: parse_payload_def version_value_def)

lemma decode_source_type_encode: "decode_source_type (encode_source_type t) = Inr t"
  by (cases t) (simp_all add: decode_source_type_def)

lemma encode_source_type_nonempty: "encode_source_type t \<noteq> []"
  by (cases t) simp_all

lemma decode_qc_rule_encode:
  "decode_qc_rule (encode_qc_rule r) = Inr r \<longleftrightarrow> qc_rule_persistable r"
  by (cases r) (auto simp: decode_qc_rule_def encode_qc_rule_def qc_rule_persistable_def sbind_Inr_iff
      required_Inr)

lemma decode_manifest_entry_encode:
  "decode_manifest_entry (encode_manifest_entry f) = Inr f \<longleftrightarrow> manifest_entry_persistable f"
  by (cases f) (auto simp: decode_manifest_entry_def encode_manifest_entry_def
      manifest_entry_persistable_def sbind_Inr_iff required_Inr)

lemma decode_qc_result_encode:
  "decode_qc_result (encode_qc_result q) = Inr q \<longleftrightarrow> qc_result_persistable q"
  by (cases q) (auto simp: decode_qc_result_def encode_qc_result_def qc_result_persistable_def
      sbind_Inr_iff required_Inr)

lemma decode_failed_file_encode:
  "decode_failed_file (encode_failed_file f) = Inr f \<longleftrightarrow> failed_file_persistable f"
  by (cases f) (auto simp: decode_failed_file_def encode_failed_file_def failed_file_persistable_def
      sbind_Inr_iff required_Inr)

lemma decode_data_source_encode:
  "decode_data_source (encode_data_source d) = Inr d \<longleftrightarrow> data_source_persistable d"
  by (cases d) (auto simp: decode_data_source_def encode_data_source_def data_source_persistable_def
      sbind_Inr_iff required_Inr decode_source_type_encode encode_source_type_nonempty)

lemma decode_parsed_record_encode:
  "decode_parsed_record (encode_parsed_record p) = Inr p \<longleftrightarrow> parsed_record_persistable p"
  by (cases p, cases "rp_record p")
    (auto simp: decode_parsed_record_def encode_parsed_record_def parsed_record_persistable_def
      sbind_Inr_iff required_Inr smap_inverse decode_qc_result_encode)

text \<open>
  A record whose time is empty is the value of a column the parser could not fill: the parser and the
  timestamp rule let it through, the encoder writes it, and no decoder takes it back.
\<close>

lemma decode_parsed_record_without_time:
  assumes "rp_raw_file_id p \<noteq> []" and "pr_record_time (rp_record p) = []"
  shows "decode_parsed_record (encode_parsed_record p) =
           Inl (field_error ''record_time'' '' must be a non-empty string'')"
  using assms by (simp add: decode_parsed_record_def encode_parsed_record_def required_string_def)

lemma smap_reaches_failure:
  assumes "\<forall>y \<in> set xs. \<exists>z. f y = Inr z" and "f x = Inl e"
  shows "smap f (xs @ x # ys) = Inl e"
  using assms by (induction xs) auto

lemma decode_retry_file_encode:
  "decode_retry_file (encode_retry_file f) = Inr f \<longleftrightarrow> retry_file_persistable f"
  by (cases f) (auto simp: decode_retry_file_def encode_retry_file_def retry_file_persistable_def
      version_value_def sbind_Inr_iff required_Inr)

lemma decode_retry_files_encode:
  "decode_retry_files (Some (encode_retry_files fs)) = Inr fs \<longleftrightarrow>
     (\<forall>f \<in> set fs. retry_file_persistable f)"
  by (simp add: decode_retry_files_def encode_retry_files_def smap_inverse decode_retry_file_encode)

lemma decode_task_config_encode:
  "decode_task_config (encode_task_config t) = Inr t \<longleftrightarrow> task_persistable t"
  unfolding decode_task_config_def encode_task_config_def
  by (subst parse_payload_version, simp, cases t)
    (auto simp: task_persistable_def sbind_Inr_iff required_Inr required_object_def smap_inverse
      decode_qc_rule_encode decode_data_source_encode[symmetric] encode_data_source_def)

lemma decode_trigger_type_Inr:
  "json_find p ''trigger_type'' = Some (JStr t) \<Longrightarrow>
   decode_trigger_type p = Inr u \<longleftrightarrow> u = t \<and> trigger_ok t"
  by (auto simp: decode_trigger_type_def trigger_ok_def sbind_Inr_iff required_Inr)

lemma decode_start_request_encode:
  "decode_start_request (encode_start_request r) = Inr r \<longleftrightarrow> start_persistable r"
  unfolding decode_start_request_def encode_start_request_def
  by (subst parse_payload_version, simp, cases r)
    (auto simp: start_persistable_def sbind_Inr_iff required_Inr decode_trigger_type_Inr)

lemma decode_manifest_request_encode:
  "decode_manifest_request (encode_manifest_request r) = Inr r \<longleftrightarrow> manifest_persistable r"
  unfolding decode_manifest_request_def encode_manifest_request_def
  by (subst parse_payload_version, simp, cases r)
    (auto simp: manifest_persistable_def sbind_Inr_iff required_Inr smap_inverse
      decode_manifest_entry_encode)

lemma encode_terminal_status_Inr:
  "encode_terminal_status st = Inr t \<Longrightarrow> t \<noteq> [] \<and> decode_terminal_status t = Inr st"
  by (auto simp: encode_terminal_status_def decode_terminal_status_def split: if_splits)

lemma encode_terminal_status_total:
  "st = Succeeded \<or> st = Failed \<Longrightarrow> \<exists>t. encode_terminal_status st = Inr t"
  by (auto simp: encode_terminal_status_def)

lemma encode_report_request_status:
  "encode_report_request r = Inr doc \<Longrightarrow> rr_status r = Succeeded \<or> rr_status r = Failed"
  by (auto simp: encode_report_request_def encode_terminal_status_def sbind_Inr_iff split: if_splits)

lemma decode_failed_files_field:
  "(case json_find p ''failed_files'' of
      None \<Rightarrow> Inr (False, [])
    | Some _ \<Rightarrow> sbind (required_array p ''failed_files'') (\<lambda>items.
        sbind (smap decode_failed_file items) (\<lambda>fs. Inr (True, fs)))) = Inr (has, fs) \<longleftrightarrow>
   (if has then json_find p ''failed_files'' \<noteq> None \<and>
        (\<exists>items. required_array p ''failed_files'' = Inr items \<and> smap decode_failed_file items = Inr fs)
    else json_find p ''failed_files'' = None \<and> fs = [])"
  by (cases "json_find p ''failed_files''") (auto simp: sbind_Inr_iff)

lemma decode_report_request_encode:
  assumes "encode_report_request r = Inr doc"
  shows "decode_report_request doc = Inr r \<longleftrightarrow> report_persistable r"
proof -
  obtain st where st: "encode_terminal_status (rr_status r) = Inr st"
    using assms by (auto simp: encode_report_request_def sbind_Inr_iff)
  note facts = encode_terminal_status_Inr[OF st]
  show ?thesis
  proof (cases "rr_has_failed_files r")
    case True
    have doc: "doc = JObj [(''codec_version'', JInt kCodecVersion), (''task_run_id'', JStr (rr_task_run_id r)),
        (''node_code'', JStr (rr_node_code r)), (''idempotency_key'', JStr (rr_idempotency_key r)),
        (''status'', JStr st), (''finished_at'', JStr (rr_finished_at r)),
        (''items_total'', JInt (rr_items_total r)), (''items_success'', JInt (rr_items_success r)),
        (''items_failed'', JInt (rr_items_failed r)), (''error_summary'', JStr (rr_error_summary r)),
        (''parsed_records'', JArr (map encode_parsed_record (rr_parsed_records r))),
        (''failed_files'', JArr (map encode_failed_file (rr_failed_files r)))]"
      using assms st True by (simp add: encode_report_request_def)
    show ?thesis
      unfolding decode_report_request_def doc
      by (subst parse_payload_version, simp)
        (cases r, insert facts True, auto simp: report_persistable_def sbind_Inr_iff required_Inr
          smap_inverse decode_parsed_record_encode decode_failed_file_encode)
  next
    case False
    have doc: "doc = JObj [(''codec_version'', JInt kCodecVersion), (''task_run_id'', JStr (rr_task_run_id r)),
        (''node_code'', JStr (rr_node_code r)), (''idempotency_key'', JStr (rr_idempotency_key r)),
        (''status'', JStr st), (''finished_at'', JStr (rr_finished_at r)),
        (''items_total'', JInt (rr_items_total r)), (''items_success'', JInt (rr_items_success r)),
        (''items_failed'', JInt (rr_items_failed r)), (''error_summary'', JStr (rr_error_summary r)),
        (''parsed_records'', JArr (map encode_parsed_record (rr_parsed_records r)))]"
      using assms st False by (simp add: encode_report_request_def)
    show ?thesis
      unfolding decode_report_request_def doc
      by (subst parse_payload_version, simp)
        (cases r, insert facts False, auto simp: report_persistable_def sbind_Inr_iff required_Inr
          smap_inverse decode_parsed_record_encode)
  qed
qed

text \<open>A document with an item its decoder refuses is refused as a whole.\<close>

lemma smap_fails: "x \<in> set xs \<Longrightarrow> f x = Inl e \<Longrightarrow> smap f xs \<noteq> Inr ys"
  by (induction xs arbitrary: ys) (auto simp: sbind_Inr_iff)

lemma decode_report_request_needs_times:
  assumes "encode_report_request r = Inr doc" and "p \<in> set (rr_parsed_records r)"
    and "pr_record_time (rp_record p) = []"
  shows "decode_report_request doc \<noteq> Inr r'"
proof
  assume "decode_report_request doc = Inr r'"
  moreover have "json_find doc ''parsed_records'' = Some (JArr (map encode_parsed_record (rr_parsed_records r)))"
    using assms(1) by (auto simp: encode_report_request_def sbind_Inr_iff)
  ultimately obtain recs where "smap decode_parsed_record (map encode_parsed_record (rr_parsed_records r)) = Inr recs"
    by (auto simp: decode_report_request_def parse_payload_def sbind_Inr_iff required_Inr split: if_splits)
  moreover obtain e where "decode_parsed_record (encode_parsed_record p) = Inl e"
  proof (cases "rp_raw_file_id p = []")
    case True
    then show ?thesis using that
      by (simp add: decode_parsed_record_def encode_parsed_record_def required_string_def)
  next
    case False
    then show ?thesis using that decode_parsed_record_without_time assms(3) by blast
  qed
  ultimately show False using smap_fails assms(2) by (metis image_eqI list.set_map)
qed

text \<open>The bodies that go over the wire carry every field of the document but the version.\<close>

lemma json_find_erase: "is_object v \<Longrightarrow> json_find (json_erase k v) f = (if f = k then None else json_find v f)"
proof (cases v)
  case (JObj kvs)
  have "map_of (filter (\<lambda>(k', _). k' \<noteq> k) kvs) f = (if f = k then None else map_of kvs f)"
    by (induction kvs) auto
  with JObj show ?thesis by simp
qed simp_all

section \<open>Properties\<close>

text \<open>
  The task, start, manifest and retry-target documents that the queue stores read back as the
  value that was written exactly when the value has the required non-empty fields, a known trigger
  type and non-negative sizes.
\<close>

lemma queue_documents_roundtrip:
  "(decode_task_config (encode_task_config t) = Inr t \<longleftrightarrow> task_persistable t) \<and>
   (decode_start_request (encode_start_request s) = Inr s \<longleftrightarrow> start_persistable s) \<and>
   (decode_manifest_request (encode_manifest_request m) = Inr m \<longleftrightarrow> manifest_persistable m) \<and>
   (decode_retry_files (Some (encode_retry_files fs)) = Inr fs \<longleftrightarrow> list_all retry_file_persistable fs)"
  by (simp add: decode_task_config_encode decode_start_request_encode decode_manifest_request_encode
      decode_retry_files_encode list_all_iff)

text \<open>
  C11. A report can be written to the queue exactly when its status is terminal, and then it reads back
  as itself exactly when its required texts are non-empty (the record time of every parsed record
  among them), its counters fit a C int and it lists failed files only with the flag set.
\<close>

theorem report_document_roundtrip:
  "sbind (encode_report_request r) decode_report_request = Inr r \<longleftrightarrow>
     (rr_status r = Succeeded \<or> rr_status r = Failed) \<and> report_persistable r"
proof (cases "encode_report_request r")
  case (Inl e)
  then have "\<not> (rr_status r = Succeeded \<or> rr_status r = Failed)"
    by (cases "rr_status r") (simp_all add: encode_report_request_def encode_terminal_status_def)
  with Inl show ?thesis by simp
next
  case (Inr doc)
  then show ?thesis by (simp add: decode_report_request_encode encode_report_request_status)
qed

end
