(* ===== verification/Queue_Tables.thy ===== *)
theory Queue_Tables
  imports Execution_Codec "HOL-Library.Product_Lexorder"
begin

text \<open>
  The SQLite schema of the agent queue (\<open>kSchema\<close> of \<open>agent/src/storage/agent_queue_store.cpp\<close>) and
  the statements the store runs on it. A table is the list of its rows in \<open>rowid\<close> order. A statement
  that breaks a PRIMARY KEY, UNIQUE, CHECK or (with \<^verbatim>\<open>PRAGMA foreign_keys=ON\<close>) REFERENCES clause
  throws \<open>SqliteError\<close> with the operation's name, as \<open>check_result\<close> does, and changes no row.
  Time stamps (\<^verbatim>\<open>strftime('%Y-%m-%dT%H:%M:%fZ','now')\<close>) are milliseconds; the clock reading of an
  operation is its argument \<open>now\<close>. NULL is \<open>None\<close>. Columns that hold a JSON text hold its tree.
\<close>

section \<open>Rows\<close>

record job_row =
  jb_execution_key :: string
  jb_node_code :: string
  jb_task_id :: string
  jb_scheduled_for :: string
  jb_started_at :: string
  jb_task_config :: json
  jb_stage :: job_stage
  jb_retry_stage :: "job_stage option"
  jb_task_run_id :: "string option"
  jb_attempt_count :: int
  jb_next_attempt_at :: "int option"
  jb_last_error_kind :: "string option"
  jb_last_error :: "string option"
  jb_retry_files :: "json option"
  jb_file_failures :: "json option"
  jb_created_at :: int
  jb_updated_at :: int

record file_row =
  fl_execution_key :: string
  fl_ordinal :: int
  fl_source_path :: string
  fl_original_name :: string
  fl_source_mtime :: string
  fl_size_bytes :: int
  fl_file_hash :: string
  fl_fingerprint :: string
  fl_archive_path :: string
  fl_archive_state :: string
  fl_raw_file_id :: "string option"
  fl_parsed_without_errors :: "bool option"
  fl_error_detail :: "string option"
  fl_input_path :: "string option"

datatype request_type = StartRequest | ManifestRequest | ReportRequest

record delivery_row =
  dl_execution_key :: string
  dl_request_type :: request_type
  dl_idempotency_key :: string
  dl_request :: json
  dl_attempt_count :: int
  dl_next_attempt_at :: "int option"
  dl_last_error_kind :: "string option"
  dl_last_http_status :: "nat option"
  dl_last_error :: "string option"
  dl_created_at :: int
  dl_updated_at :: int

datatype attempt_outcome = AttemptSuccess | RetryableFailure | PermanentFailure

record attempt_row =
  at_execution_key :: string
  at_request_type :: request_type
  at_attempt_number :: int
  at_attempted_at :: int
  at_outcome :: attempt_outcome
  at_error_kind :: string
  at_http_status :: nat
  at_message :: string

record processed_row =
  pf_task_id :: string
  pf_fingerprint :: string
  pf_source_path :: string
  pf_file_hash :: string
  pf_processed_at :: int
  pf_execution_key :: string

record queue_db =
  q_jobs :: "job_row list"
  q_files :: "file_row list"
  q_deliveries :: "delivery_row list"
  q_attempts :: "attempt_row list"
  q_processed :: "processed_row list"

definition empty_queue :: queue_db where
  "empty_queue = \<lparr>q_jobs = [], q_files = [], q_deliveries = [], q_attempts = [], q_processed = []\<rparr>"

text \<open>The fields of \<open>AgentQueueStore::Impl\<close> beside the connection.\<close>

record queue_config =
  qc_node_code :: string
  qc_max_pending_jobs :: nat
  qc_processed_capacity :: nat

type_synonym 'a qproc = "(queue_db, agent_exn, 'a) proc"

section \<open>Statements\<close>

text \<open>Updates return the number of changed rows, \<open>sqlite3_changes\<close>.\<close>

definition update_jobs :: "(job_row \<Rightarrow> bool) \<Rightarrow> (job_row \<Rightarrow> job_row) \<Rightarrow> nat qproc" where
  "update_jobs p f db =
     (Inr (count_where p (q_jobs db)), db\<lparr>q_jobs := update_where p f (q_jobs db)\<rparr>)"

definition update_files :: "(file_row \<Rightarrow> bool) \<Rightarrow> (file_row \<Rightarrow> file_row) \<Rightarrow> nat qproc" where
  "update_files p f db =
     (Inr (count_where p (q_files db)), db\<lparr>q_files := update_where p f (q_files db)\<rparr>)"

definition update_deliveries :: "(delivery_row \<Rightarrow> bool) \<Rightarrow> (delivery_row \<Rightarrow> delivery_row) \<Rightarrow> nat qproc" where
  "update_deliveries p f db =
     (Inr (count_where p (q_deliveries db)), db\<lparr>q_deliveries := update_where p f (q_deliveries db)\<rparr>)"

text \<open>\<^verbatim>\<open>DELETE FROM pending_jobs WHERE p\<close>, with the ON DELETE CASCADE of the three child tables.\<close>

definition delete_jobs :: "(job_row \<Rightarrow> bool) \<Rightarrow> nat qproc" where
  "delete_jobs p db =
     (let gone = map jb_execution_key (filter p (q_jobs db)) in
      (Inr (count_where p (q_jobs db)),
       db\<lparr>q_jobs := filter (\<lambda>j. \<not> p j) (q_jobs db),
          q_files := filter (\<lambda>f. fl_execution_key f \<notin> set gone) (q_files db),
          q_deliveries := filter (\<lambda>d. dl_execution_key d \<notin> set gone) (q_deliveries db),
          q_attempts := filter (\<lambda>a. at_execution_key a \<notin> set gone) (q_attempts db)\<rparr>))"

definition insert_job_row :: "string \<Rightarrow> job_row \<Rightarrow> unit qproc" where
  "insert_job_row operation row db =
     (if jb_execution_key row \<in> jb_execution_key ` set (q_jobs db) then (Inl (SqliteError operation), db)
      else (Inr (), db\<lparr>q_jobs := q_jobs db @ [row]\<rparr>))"

definition delivery_key :: "delivery_row \<Rightarrow> string \<times> request_type" where
  "delivery_key d = (dl_execution_key d, dl_request_type d)"

definition delivery_identity :: "delivery_row \<Rightarrow> request_type \<times> string" where
  "delivery_identity d = (dl_request_type d, dl_idempotency_key d)"

definition insert_delivery_row :: "string \<Rightarrow> delivery_row \<Rightarrow> unit qproc" where
  "insert_delivery_row operation row db =
     (if dl_execution_key row \<notin> jb_execution_key ` set (q_jobs db) \<or>
         delivery_key row \<in> delivery_key ` set (q_deliveries db) \<or>
         delivery_identity row \<in> delivery_identity ` set (q_deliveries db)
      then (Inl (SqliteError operation), db)
      else (Inr (), db\<lparr>q_deliveries := q_deliveries db @ [row]\<rparr>))"

definition file_key :: "file_row \<Rightarrow> string \<times> int" where
  "file_key f = (fl_execution_key f, fl_ordinal f)"

definition file_identity :: "file_row \<Rightarrow> string \<times> string" where
  "file_identity f = (fl_execution_key f, fl_fingerprint f)"

definition insert_file_row :: "string \<Rightarrow> file_row \<Rightarrow> unit qproc" where
  "insert_file_row operation row db =
     (if fl_execution_key row \<notin> jb_execution_key ` set (q_jobs db) \<or> fl_size_bytes row < 0 \<or>
         file_key row \<in> file_key ` set (q_files db) \<or> file_identity row \<in> file_identity ` set (q_files db)
      then (Inl (SqliteError operation), db)
      else (Inr (), db\<lparr>q_files := q_files db @ [row]\<rparr>))"

definition insert_attempt_row :: "string \<Rightarrow> attempt_row \<Rightarrow> unit qproc" where
  "insert_attempt_row operation row db =
     (if at_execution_key row \<notin> jb_execution_key ` set (q_jobs db) then (Inl (SqliteError operation), db)
      else (Inr (), db\<lparr>q_attempts := q_attempts db @ [row]\<rparr>))"

definition processed_key :: "processed_row \<Rightarrow> string \<times> string" where
  "processed_key r = (pf_task_id r, pf_fingerprint r)"

text \<open>\<^verbatim>\<open>INSERT OR IGNORE\<close>: a row whose key is taken is skipped, also by a row of the same statement.\<close>

fun insert_or_ignore :: "processed_row list \<Rightarrow> processed_row list \<Rightarrow> processed_row list" where
  "insert_or_ignore rows [] = rows"
| "insert_or_ignore rows (r # rs) =
     (if processed_key r \<in> processed_key ` set rows then insert_or_ignore rows rs
      else insert_or_ignore (rows @ [r]) rs)"

text \<open>
  \<^verbatim>\<open>DELETE ... WHERE task_id = t AND rowid NOT IN (SELECT rowid ... WHERE task_id = t
  ORDER BY processed_at DESC, rowid DESC LIMIT n)\<close>.
\<close>

definition newest_processed :: "nat \<Rightarrow> string \<Rightarrow> processed_row list \<Rightarrow> processed_row list" where
  "newest_processed n task rows =
     take n (rev (sort_key pf_processed_at (filter (\<lambda>r. pf_task_id r = task) rows)))"

definition trim_processed :: "nat \<Rightarrow> string \<Rightarrow> processed_row list \<Rightarrow> processed_row list" where
  "trim_processed n task rows =
     filter (\<lambda>r. \<not> (pf_task_id r = task \<and> r \<notin> set (newest_processed n task rows))) rows"

definition find_job_row :: "string \<Rightarrow> queue_db \<Rightarrow> job_row option" where
  "find_job_row key db = find (\<lambda>j. jb_execution_key j = key) (q_jobs db)"

definition find_delivery_of :: "string \<Rightarrow> request_type \<Rightarrow> queue_db \<Rightarrow> delivery_row option" where
  "find_delivery_of key ty db =
     find (\<lambda>d. dl_execution_key d = key \<and> dl_request_type d = ty) (q_deliveries db)"

definition find_delivery :: "request_type \<Rightarrow> string \<Rightarrow> queue_db \<Rightarrow> delivery_row option" where
  "find_delivery ty ikey db =
     find (\<lambda>d. dl_request_type d = ty \<and> dl_idempotency_key d = ikey) (q_deliveries db)"

definition new_delivery :: "string \<Rightarrow> request_type \<Rightarrow> string \<Rightarrow> json \<Rightarrow> int \<Rightarrow> delivery_row" where
  "new_delivery key ty ikey doc now =
     \<lparr>dl_execution_key = key, dl_request_type = ty, dl_idempotency_key = ikey, dl_request = doc,
      dl_attempt_count = 0, dl_next_attempt_at = None, dl_last_error_kind = None,
      dl_last_http_status = None, dl_last_error = None, dl_created_at = now, dl_updated_at = now\<rparr>"

end
