(* ===== verification/Queue_Store.thy ===== *)
theory Queue_Store
  imports Queue_Tables
begin

text \<open>
  The operations of \<open>AgentQueueStore\<close> and \<open>AgentQueueMaintenance\<close>
  (\<open>agent/src/storage/agent_queue_store.cpp\<close>) over the tables of \<open>Queue_Tables\<close>, each with the
  order of its statements, its checks of \<open>sqlite3_changes\<close> and its transaction. The mutex and the
  file lock make calls atomic and are not modelled; the text \<open>what()\<close> of a JSON exception inside an
  error message is left out.
\<close>

section \<open>Stages\<close>

fun stage_name :: "job_stage \<Rightarrow> string" where
  "stage_name StartPending = ''start_pending''"
| "stage_name Collecting = ''collecting''"
| "stage_name ManifestPending = ''manifest_pending''"
| "stage_name ReportBuilding = ''report_building''"
| "stage_name ReportPending = ''report_pending''"
| "stage_name RetryWait = ''retry_wait''"
| "stage_name RequiresAttention = ''requires_attention''"

definition is_executable_stage :: "job_stage \<Rightarrow> bool" where
  "is_executable_stage st \<longleftrightarrow> st = StartPending \<or> st = Collecting \<or> st = ManifestPending \<or>
     st = ReportBuilding \<or> st = ReportPending"

definition is_delivering_stage :: "job_stage \<Rightarrow> bool" where
  "is_delivering_stage st \<longleftrightarrow> st = StartPending \<or> st = ManifestPending \<or> st = ReportPending"

section \<open>Reading jobs back\<close>

definition recover_file_plan :: "queue_db \<Rightarrow> string \<Rightarrow> file_plan list" where
  "recover_file_plan db key =
     map (\<lambda>f. \<lparr>fp_ordinal = fl_ordinal f, fp_source_path = fl_source_path f,
               fp_original_name = fl_original_name f, fp_source_mtime = fl_source_mtime f,
               fp_size_bytes = fl_size_bytes f, fp_file_hash = fl_file_hash f,
               fp_fingerprint = fl_fingerprint f, fp_archive_path = fl_archive_path f,
               fp_archive_state = fl_archive_state f,
               fp_raw_file_id = (case fl_raw_file_id f of None \<Rightarrow> [] | Some i \<Rightarrow> i),
               fp_parsed_without_errors = (fl_parsed_without_errors f = Some True),
               fp_input_path = (case fl_input_path f of None \<Rightarrow> [] | Some p \<Rightarrow> p),
               fp_error_detail = (case fl_error_detail f of None \<Rightarrow> [] | Some e \<Rightarrow> e)\<rparr>)
       (sort_key fl_ordinal (filter (\<lambda>f. fl_execution_key f = key) (q_files db)))"

definition file_failures_error :: agent_exn where
  "file_failures_error = QueueError ''invalid persisted file failures: ''"

definition at_string :: "json \<Rightarrow> string \<Rightarrow> agent_exn + string" where
  "at_string item k = (case json_find item k of Some (JStr s) \<Rightarrow> Inr s | _ \<Rightarrow> Inl file_failures_error)"

definition value_string :: "json \<Rightarrow> string \<Rightarrow> agent_exn + string" where
  "value_string item k =
     (if \<not> is_object item then Inl file_failures_error
      else case json_find item k of None \<Rightarrow> Inr [] | Some (JStr s) \<Rightarrow> Inr s | Some _ \<Rightarrow> Inl file_failures_error)"

definition decode_failure_item :: "json \<Rightarrow> agent_exn + failed_file" where
  "decode_failure_item item =
     sbind (at_string item ''source_path'') (\<lambda>sp.
     sbind (at_string item ''original_name'') (\<lambda>n.
     sbind (at_string item ''stage'') (\<lambda>st.
     sbind (value_string item ''message'') (\<lambda>m.
     sbind (value_string item ''archive_raw_file_id'') (\<lambda>a.
       Inr \<lparr>ff_source_path = sp, ff_original_name = n, ff_stage = st, ff_message = m,
            ff_archive_raw_file_id = a\<rparr>)))))"

definition decode_failed_files :: "json \<Rightarrow> agent_exn + failed_file list" where
  "decode_failed_files doc =
     (case doc of JArr items \<Rightarrow> smap decode_failure_item items
      | _ \<Rightarrow> Inl (QueueError ''file failures must be an array''))"

definition encode_file_failures :: "failed_file list \<Rightarrow> json" where
  "encode_file_failures failures = JArr (map encode_failed_file failures)"

text \<open>\<open>read_recovered_job\<close>, with the columns of \<open>kRecoveredJobColumns\<close>.\<close>

definition decode_optional :: "(json \<Rightarrow> agent_exn + 'a) \<Rightarrow> delivery_row option \<Rightarrow> agent_exn + 'a option" where
  "decode_optional decode row =
     (case row of None \<Rightarrow> Inr None | Some d \<Rightarrow> sbind (decode (dl_request d)) (\<lambda>r. Inr (Some r)))"

definition recovered_stage :: "job_row \<Rightarrow> job_stage option" where
  "recovered_stage j = (if jb_stage j = RetryWait then jb_retry_stage j else Some (jb_stage j))"

definition read_recovered_job :: "queue_db \<Rightarrow> job_row \<times> delivery_row \<Rightarrow> agent_exn + recovered_job" where
  "read_recovered_job db row =
     (let j = fst row; key = jb_execution_key j in
      sbind (decode_task_config (jb_task_config j)) (\<lambda>task.
      sbind (decode_start_request (dl_request (snd row))) (\<lambda>start.
      sbind (decode_optional decode_manifest_request (find_delivery_of key ManifestRequest db)) (\<lambda>manifest.
      sbind (decode_optional decode_report_request (find_delivery_of key ReportRequest db)) (\<lambda>report.
      sbind (decode_retry_files (jb_retry_files j)) (\<lambda>retry.
      sbind (case jb_file_failures j of None \<Rightarrow> Inr (False, [])
               | Some doc \<Rightarrow> sbind (decode_failed_files doc) (\<lambda>fs. Inr (True, fs))) (\<lambda>(has, failures).
        Inr \<lparr>rj_execution_key = key, rj_task = task, rj_start_request = start,
             rj_stage = recovered_stage j,
             rj_task_run_id = (case jb_task_run_id j of None \<Rightarrow> [] | Some i \<Rightarrow> i),
             rj_files = recover_file_plan db key, rj_manifest_request = manifest,
             rj_report_request = report, rj_retry_files = retry,
             rj_has_file_failures = has, rj_file_failures = failures\<rparr>)))))))"

text \<open>The join of a job with its start delivery.\<close>

definition with_start_delivery :: "queue_db \<Rightarrow> job_row \<Rightarrow> (job_row \<times> delivery_row) list" where
  "with_start_delivery db j =
     (case find_delivery_of (jb_execution_key j) StartRequest db of None \<Rightarrow> [] | Some d \<Rightarrow> [(j, d)])"

definition recover_jobs :: "queue_db \<Rightarrow> agent_exn + recovered_job list" where
  "recover_jobs db =
     smap (read_recovered_job db)
       (concat (map (with_start_delivery db)
         (sort_key (\<lambda>j. (jb_created_at j, jb_execution_key j))
           (filter (\<lambda>j. jb_stage j \<noteq> RequiresAttention) (q_jobs db)))))"

definition load_job :: "string \<Rightarrow> queue_db \<Rightarrow> agent_exn + recovered_job" where
  "load_job key db =
     (case concat (map (with_start_delivery db)
             (filter (\<lambda>j. jb_execution_key j = key \<and> jb_stage j \<noteq> RequiresAttention) (q_jobs db))) of
        [] \<Rightarrow> Inl (QueueError (''pending job does not exist: '' @ key))
      | row # _ \<Rightarrow> read_recovered_job db row)"

definition find_job :: "string \<Rightarrow> queue_db \<Rightarrow> agent_exn + recovered_job option" where
  "find_job key db =
     (case concat (map (with_start_delivery db) (filter (\<lambda>j. jb_execution_key j = key) (q_jobs db))) of
        [] \<Rightarrow> Inr None
      | row # _ \<Rightarrow> sbind (read_recovered_job db row) (\<lambda>job. Inr (Some job)))"

section \<open>Starting a job\<close>

definition new_job_row :: "task_config \<Rightarrow> start_request \<Rightarrow> retry_file_input list \<Rightarrow> int \<Rightarrow> job_row" where
  "new_job_row task request retry_files now =
     \<lparr>jb_execution_key = sr_execution_key request, jb_node_code = sr_node_code request,
      jb_task_id = sr_task_id request, jb_scheduled_for = sr_scheduled_for request,
      jb_started_at = sr_started_at request, jb_task_config = encode_task_config task,
      jb_stage = StartPending, jb_retry_stage = None, jb_task_run_id = None, jb_attempt_count = 0,
      jb_next_attempt_at = None, jb_last_error_kind = None, jb_last_error = None,
      jb_retry_files = (if retry_files = [] then None else Some (encode_retry_files retry_files)),
      jb_file_failures = None, jb_created_at = now, jb_updated_at = now\<rparr>"

definition insert_pending_job :: "task_config \<Rightarrow> start_request \<Rightarrow> retry_file_input list \<Rightarrow> int \<Rightarrow> unit qproc" where
  "insert_pending_job task request retry_files now =
     insert_job_row ''insert pending job'' (new_job_row task request retry_files now)"

definition insert_start_delivery :: "start_request \<Rightarrow> int \<Rightarrow> unit qproc" where
  "insert_start_delivery request now =
     insert_delivery_row ''insert start delivery''
       (new_delivery (sr_execution_key request) StartRequest (sr_execution_key request)
          (encode_start_request request) now)"

definition same_job :: "task_config \<Rightarrow> start_request \<Rightarrow> job_row \<Rightarrow> bool" where
  "same_job task request j \<longleftrightarrow> jb_task_id j = tc_id task \<and> jb_scheduled_for j = sr_scheduled_for request \<and>
     jb_task_config j = encode_task_config task"

definition begin_job :: "queue_config \<Rightarrow> int \<Rightarrow> task_config \<Rightarrow> start_request \<Rightarrow> retry_file_input list \<Rightarrow> bool qproc" where
  "begin_job cfg now task request retry_files =
     (if sr_node_code request \<noteq> qc_node_code cfg \<or> tc_node_code task \<noteq> qc_node_code cfg \<or>
         sr_task_id request \<noteq> tc_id task
      then throw (QueueError ''job identity does not match queue identity'')
      else seqp (dump_all ([encode_task_config task, encode_start_request request] @
                 (if retry_files = [] then [] else [encode_retry_files retry_files]))) (\<lambda>_.
        transaction (seqp (gets (find_job_row (sr_execution_key request))) (\<lambda>existing.
        case existing of
          Some j \<Rightarrow> seqp (require (same_job task request j)
                        (QueueError ''execution key conflicts with persisted job'')) (\<lambda>_. ret False)
        | None \<Rightarrow>
            seqp (gets (\<lambda>db. length (q_jobs db))) (\<lambda>n.
            seqp (require (n < qc_max_pending_jobs cfg) (QueueError ''pending job capacity reached'')) (\<lambda>_.
            seqp (insert_pending_job task request retry_files now) (\<lambda>_.
            seqp (insert_start_delivery request now) (\<lambda>_. ret True))))))))"

section \<open>File plan and file states\<close>

definition new_file_row :: "string \<Rightarrow> file_plan \<Rightarrow> file_row" where
  "new_file_row key f =
     \<lparr>fl_execution_key = key, fl_ordinal = fp_ordinal f, fl_source_path = fp_source_path f,
      fl_original_name = fp_original_name f, fl_source_mtime = fp_source_mtime f,
      fl_size_bytes = fp_size_bytes f, fl_file_hash = fp_file_hash f, fl_fingerprint = fp_fingerprint f,
      fl_archive_path = fp_archive_path f, fl_archive_state = ''archive_planned'',
      fl_raw_file_id = None, fl_parsed_without_errors = None, fl_error_detail = None,
      fl_input_path = Some (fp_input_path f)\<rparr>"

definition insert_pending_file :: "string \<Rightarrow> file_plan \<Rightarrow> unit qproc" where
  "insert_pending_file key f = insert_file_row ''insert file plan'' (new_file_row key f)"

definition set_file_failures :: "string \<Rightarrow> failed_file list \<Rightarrow> int \<Rightarrow> nat qproc" where
  "set_file_failures key failures now =
     update_jobs (\<lambda>j. jb_execution_key j = key)
       (\<lambda>j. j\<lparr>jb_file_failures := Some (encode_file_failures failures), jb_updated_at := now\<rparr>)"

definition save_file_plan :: "int \<Rightarrow> string \<Rightarrow> file_plan list \<Rightarrow> failed_file list \<Rightarrow> unit qproc" where
  "save_file_plan now key files failures =
     seqp (dump_all [encode_file_failures failures]) (\<lambda>_. transaction (seqp (for_each (insert_pending_file key) files) (\<lambda>_.
       seqp (set_file_failures key failures now) (\<lambda>changes.
         require (changes = 1) (QueueError ''file plan requires a pending job'')))))"

definition save_file_failures :: "int \<Rightarrow> string \<Rightarrow> failed_file list \<Rightarrow> unit qproc" where
  "save_file_failures now key failures =
     seqp (dump_all [encode_file_failures failures]) (\<lambda>_. transaction (seqp (set_file_failures key failures now) (\<lambda>changes.
       require (changes = 1) (QueueError ''save file failures requires a pending job''))))"

definition mark_file_failed :: "int \<Rightarrow> string \<Rightarrow> int \<Rightarrow> string \<Rightarrow> failed_file list \<Rightarrow> unit qproc" where
  "mark_file_failed now key ordinal error_detail failures =
     seqp (dump_all [encode_file_failures failures]) (\<lambda>_. transaction (seqp (update_files (\<lambda>f. fl_execution_key f = key \<and> fl_ordinal f = ordinal)
         (\<lambda>f. f\<lparr>fl_error_detail := Some error_detail\<rparr>)) (\<lambda>changes.
       seqp (require (changes = 1) (QueueError ''pending file does not exist'')) (\<lambda>_.
       seqp (set_file_failures key failures now) (\<lambda>changes.
         require (changes = 1) (QueueError ''mark file failed requires a pending job''))))))"

definition mark_file_archived :: "string \<Rightarrow> int \<Rightarrow> unit qproc" where
  "mark_file_archived key ordinal =
     seqp (update_files (\<lambda>f. fl_execution_key f = key \<and> fl_ordinal f = ordinal)
         (\<lambda>f. f\<lparr>fl_archive_state := ''archived''\<rparr>)) (\<lambda>changes.
       require (changes = 1) (QueueError ''pending file does not exist''))"

section \<open>Advancing a job\<close>

definition accept_start :: "int \<Rightarrow> string \<Rightarrow> string \<Rightarrow> unit qproc" where
  "accept_start now key task_run_id =
     transaction (seqp (update_jobs (\<lambda>j. jb_execution_key j = key \<and> jb_stage j = StartPending)
         (\<lambda>j. j\<lparr>jb_task_run_id := Some task_run_id, jb_stage := Collecting, jb_updated_at := now\<rparr>)) (\<lambda>changes.
       require (changes = 1) (QueueError ''accept start requires start_pending job'')))"

definition save_manifest :: "int \<Rightarrow> string \<Rightarrow> manifest_request \<Rightarrow> unit qproc" where
  "save_manifest now key request =
     seqp (dump_all [encode_manifest_request request]) (\<lambda>_. transaction (seqp (insert_delivery_row ''save manifest''
         (new_delivery key ManifestRequest (mr_idempotency_key request) (encode_manifest_request request) now)) (\<lambda>_.
       seqp (update_jobs (\<lambda>j. jb_execution_key j = key \<and> jb_stage j = Collecting)
         (\<lambda>j. j\<lparr>jb_stage := ManifestPending, jb_updated_at := now\<rparr>)) (\<lambda>changes.
         require (changes = 1) (QueueError ''save manifest requires collecting job'')))))"

definition map_raw_file_id :: "string \<Rightarrow> string \<times> manifest_entry \<Rightarrow> unit qproc" where
  "map_raw_file_id key item =
     seqp (update_files (\<lambda>f. fl_execution_key f = key \<and> fl_archive_path f = me_storage_path (snd item))
         (\<lambda>f. f\<lparr>fl_raw_file_id := Some (fst item)\<rparr>)) (\<lambda>changes.
       require (changes = 1) (QueueError ''manifest file does not exist''))"

definition accept_manifest :: "int \<Rightarrow> string \<Rightarrow> string list \<Rightarrow> unit qproc" where
  "accept_manifest now key raw_file_ids =
     transaction (seqp (gets (find_delivery_of key ManifestRequest)) (\<lambda>persisted.
       case persisted of
         None \<Rightarrow> throw (QueueError ''persisted manifest does not exist'')
       | Some d \<Rightarrow>
           seqp (lift_sum (decode_manifest_request (dl_request d))) (\<lambda>manifest.
           seqp (require (length (mr_files manifest) = length raw_file_ids)
                   (QueueError ''manifest raw ID count mismatch'')) (\<lambda>_.
           seqp (for_each (map_raw_file_id key) (zip raw_file_ids (mr_files manifest))) (\<lambda>_.
           seqp (update_jobs (\<lambda>j. jb_execution_key j = key \<and> jb_stage j = ManifestPending)
                   (\<lambda>j. j\<lparr>jb_stage := ReportBuilding, jb_updated_at := now\<rparr>)) (\<lambda>_. ret ()))))))"

definition save_parsed_outcome :: "string \<Rightarrow> nat \<times> bool \<Rightarrow> unit qproc" where
  "save_parsed_outcome key item =
     seqp (update_files (\<lambda>f. fl_execution_key f = key \<and> fl_ordinal f = int (fst item))
       (\<lambda>f. f\<lparr>fl_parsed_without_errors := Some (snd item)\<rparr>)) (\<lambda>_. ret ())"

definition save_report :: "int \<Rightarrow> string \<Rightarrow> report_request \<Rightarrow> bool list \<Rightarrow> unit qproc" where
  "save_report now key request parsed_without_errors =
     seqp (lift_sum (encode_report_request request)) (\<lambda>doc. seqp (dump_all [doc]) (\<lambda>_.
     transaction (seqp (gets (\<lambda>db. count_where (\<lambda>f. fl_execution_key f = key) (q_files db))) (\<lambda>n.
       seqp (require (n = length parsed_without_errors) (QueueError ''report file outcome count mismatch'')) (\<lambda>_.
       seqp (insert_delivery_row ''save report''
               (new_delivery key ReportRequest (rr_idempotency_key request) doc now)) (\<lambda>_.
       seqp (for_each (save_parsed_outcome key) (zip [0..<length parsed_without_errors] parsed_without_errors)) (\<lambda>_.
       seqp (update_jobs (\<lambda>j. jb_execution_key j = key \<and> (jb_stage j = Collecting \<or> jb_stage j = ReportBuilding))
               (\<lambda>j. j\<lparr>jb_stage := ReportPending, jb_updated_at := now\<rparr>)) (\<lambda>_. ret ()))))))))"

section \<open>Finishing a job\<close>

definition processed_rows_of :: "string \<Rightarrow> int \<Rightarrow> queue_db \<Rightarrow> processed_row list" where
  "processed_rows_of key now db =
     concat (map (\<lambda>j. map (\<lambda>f. \<lparr>pf_task_id = jb_task_id j, pf_fingerprint = fl_fingerprint f,
                                pf_source_path = fl_source_path f, pf_file_hash = fl_file_hash f,
                                pf_processed_at = now, pf_execution_key = jb_execution_key j\<rparr>)
                     (filter (\<lambda>f. fl_execution_key f = jb_execution_key j \<and>
                                  fl_parsed_without_errors f = Some True) (q_files db)))
       (filter (\<lambda>j. jb_execution_key j = key \<and> jb_stage j = ReportPending) (q_jobs db)))"

definition write_processed :: "string \<Rightarrow> int \<Rightarrow> unit qproc" where
  "write_processed key now =
     modify (\<lambda>db. db\<lparr>q_processed := insert_or_ignore (q_processed db) (processed_rows_of key now db)\<rparr>)"

definition trim_processed_of :: "nat \<Rightarrow> string \<Rightarrow> unit qproc" where
  "trim_processed_of capacity key =
     modify (\<lambda>db. case find_job_row key db of
         None \<Rightarrow> db
       | Some j \<Rightarrow> db\<lparr>q_processed := trim_processed capacity (jb_task_id j) (q_processed db)\<rparr>)"

definition complete_job :: "queue_config \<Rightarrow> int \<Rightarrow> string \<Rightarrow> unit qproc" where
  "complete_job cfg now key =
     transaction (seqp (write_processed key now) (\<lambda>_.
       seqp (trim_processed_of (qc_processed_capacity cfg) key) (\<lambda>_.
       seqp (delete_jobs (\<lambda>j. jb_execution_key j = key \<and> jb_stage j = ReportPending)) (\<lambda>changes.
         require (changes = 1) (QueueError ''complete job requires report_pending job'')))))"

definition discard_start_pending_job :: "string \<Rightarrow> unit qproc" where
  "discard_start_pending_job key =
     transaction (seqp (gets (\<lambda>db. count_where (\<lambda>f. fl_execution_key f = key) (q_files db))) (\<lambda>n.
       seqp (require (n = 0) (QueueError ''discard requires a job without a file plan'')) (\<lambda>_.
       seqp (delete_jobs (\<lambda>j. jb_execution_key j = key \<and> jb_stage j = StartPending)) (\<lambda>changes.
         require (changes = 1) (QueueError (''discard requires a start_pending job: '' @ key))))))"

section \<open>Failures and manual attention\<close>

definition attention_resume_stage :: "string \<Rightarrow> job_row \<Rightarrow> agent_exn + job_stage" where
  "attention_resume_stage key j =
     (if jb_stage j = RetryWait then
        (case jb_retry_stage j of
           Some st \<Rightarrow> if is_executable_stage st then Inr st
                     else Inl (QueueError (''retry_wait job has no executable retry_stage: '' @ key))
         | None \<Rightarrow> Inl (QueueError (''retry_wait job has no executable retry_stage: '' @ key)))
      else if jb_stage j \<noteq> RequiresAttention then Inr (jb_stage j)
      else Inl (QueueError (''job is already requires_attention: '' @ key)))"

definition mark_requires_attention :: "int \<Rightarrow> string \<Rightarrow> string \<Rightarrow> string \<Rightarrow> unit qproc" where
  "mark_requires_attention now key error_kind reason =
     transaction (seqp (gets (find_job_row key)) (\<lambda>row.
       case row of
         None \<Rightarrow> throw (QueueError ''mark requires attention requires a pending job'')
       | Some j \<Rightarrow>
           seqp (lift_sum (attention_resume_stage key j)) (\<lambda>resume.
           seqp (update_jobs (\<lambda>j. jb_execution_key j = key)
                   (\<lambda>j. j\<lparr>jb_stage := RequiresAttention, jb_retry_stage := Some resume,
                          jb_last_error_kind := Some error_kind, jb_last_error := Some (take 512 reason),
                          jb_updated_at := now\<rparr>)) (\<lambda>changes.
             require (changes = 1) (QueueError ''mark requires attention requires a pending job'')))))"

definition failed_delivery :: "int \<Rightarrow> int \<Rightarrow> string \<Rightarrow> nat \<Rightarrow> string \<Rightarrow> delivery_row \<Rightarrow> delivery_row" where
  "failed_delivery now retry_delay error_kind http_status message d =
     d\<lparr>dl_attempt_count := dl_attempt_count d + 1, dl_next_attempt_at := Some (now + retry_delay),
       dl_last_error_kind := Some error_kind, dl_last_http_status := Some http_status,
       dl_last_error := Some (take 512 message), dl_updated_at := now\<rparr>"

definition failed_job :: "int \<Rightarrow> int \<Rightarrow> bool \<Rightarrow> string \<Rightarrow> string \<Rightarrow> job_row \<Rightarrow> job_row" where
  "failed_job now retry_delay retryable error_kind message j =
     j\<lparr>jb_retry_stage := Some (jb_stage j),
       jb_stage := (if retryable then RetryWait else RequiresAttention),
       jb_attempt_count := jb_attempt_count j + 1,
       jb_next_attempt_at := Some (now + retry_delay), jb_last_error_kind := Some error_kind,
       jb_last_error := Some (take 512 message), jb_updated_at := now\<rparr>"

definition failed_attempt :: "int \<Rightarrow> bool \<Rightarrow> string \<Rightarrow> nat \<Rightarrow> string \<Rightarrow> delivery_row \<Rightarrow> attempt_row" where
  "failed_attempt now retryable error_kind http_status message d =
     \<lparr>at_execution_key = dl_execution_key d, at_request_type = dl_request_type d,
      at_attempt_number = dl_attempt_count d, at_attempted_at = now,
      at_outcome = (if retryable then RetryableFailure else PermanentFailure),
      at_error_kind = error_kind, at_http_status = http_status, at_message = take 512 message\<rparr>"

definition record_delivery_failure ::
  "int \<Rightarrow> request_type \<Rightarrow> string \<Rightarrow> bool \<Rightarrow> string \<Rightarrow> nat \<Rightarrow> string \<Rightarrow> int \<Rightarrow> unit qproc" where
  "record_delivery_failure now ty ikey retryable error_kind http_status message retry_delay =
     transaction (seqp (update_deliveries (\<lambda>d. delivery_identity d = (ty, ikey))
         (failed_delivery now retry_delay error_kind http_status message)) (\<lambda>changes.
       seqp (require (changes = 1) (QueueError ''delivery does not exist'')) (\<lambda>_.
       seqp (gets (find_delivery ty ikey)) (\<lambda>delivery.
       seqp (update_jobs (\<lambda>j. (case delivery of None \<Rightarrow> False | Some d \<Rightarrow> jb_execution_key j = dl_execution_key d) \<and>
                             is_delivering_stage (jb_stage j))
               (failed_job now retry_delay retryable error_kind message)) (\<lambda>_.
         case delivery of
           None \<Rightarrow> ret ()
         | Some d \<Rightarrow> insert_attempt_row ''insert delivery attempt''
             (failed_attempt now retryable error_kind http_status message d))))))"

text \<open>\<open>SET stage = retry_stage\<close> breaks the NOT NULL clause of \<open>stage\<close> where no stage was saved.\<close>

definition resume_delivery :: "request_type \<Rightarrow> string \<Rightarrow> unit qproc" where
  "resume_delivery ty ikey =
     seqp (gets (find_delivery ty ikey)) (\<lambda>delivery.
       case delivery of
         None \<Rightarrow> throw (QueueError ''delivery does not exist'')
       | Some d \<Rightarrow>
           let waiting = (\<lambda>j. jb_execution_key j = dl_execution_key d \<and> jb_stage j = RetryWait) in
           seqp (gets (\<lambda>db. count_where (\<lambda>j. waiting j \<and> jb_retry_stage j = None) (q_jobs db))) (\<lambda>broken.
           seqp (require (broken = 0) (SqliteError ''resume delivery'')) (\<lambda>_.
           seqp (update_jobs waiting
                   (\<lambda>j. j\<lparr>jb_stage := the (jb_retry_stage j), jb_retry_stage := None,
                          jb_next_attempt_at := None\<rparr>)) (\<lambda>_. ret ()))))"

section \<open>Queries\<close>

text \<open>
  \<open>julian_ms next now\<close> is SQLite's floating-point difference of two \<open>julianday\<close> readings in whole
  milliseconds, truncated.
\<close>

definition delivery_retry_remaining ::
  "(int \<Rightarrow> int \<Rightarrow> int) \<Rightarrow> int \<Rightarrow> request_type \<Rightarrow> string \<Rightarrow> queue_db \<Rightarrow> agent_exn + int" where
  "delivery_retry_remaining julian_ms now ty ikey db =
     (if count_where (\<lambda>d. dl_request_type d = ty \<and> dl_idempotency_key d = ikey) (q_deliveries db) \<noteq> 1
      then Inl (QueueError ''delivery does not exist'')
      else case find_delivery ty ikey db of
             Some d \<Rightarrow> Inr (case dl_next_attempt_at d of None \<Rightarrow> 0 | Some next \<Rightarrow> max 0 (julian_ms next now))
           | None \<Rightarrow> Inr 0)"

definition delivery_attempt_count :: "request_type \<Rightarrow> string \<Rightarrow> queue_db \<Rightarrow> agent_exn + int" where
  "delivery_attempt_count ty ikey db =
     (case find_delivery ty ikey db of
        None \<Rightarrow> Inl (QueueError ''delivery does not exist'')
      | Some d \<Rightarrow> Inr (dl_attempt_count d))"

definition delivery_execution_key :: "request_type \<Rightarrow> string \<Rightarrow> queue_db \<Rightarrow> agent_exn + string" where
  "delivery_execution_key ty ikey db =
     (case find_delivery ty ikey db of
        None \<Rightarrow> Inl (QueueError ''delivery does not exist'')
      | Some d \<Rightarrow> Inr (dl_execution_key d))"

definition has_capacity :: "queue_config \<Rightarrow> queue_db \<Rightarrow> bool" where
  "has_capacity cfg db \<longleftrightarrow> length (q_jobs db) < qc_max_pending_jobs cfg"

definition is_file_in_flight :: "string \<Rightarrow> string \<Rightarrow> queue_db \<Rightarrow> bool" where
  "is_file_in_flight task fingerprint db \<longleftrightarrow>
     (\<exists>f \<in> set (q_files db). fl_fingerprint f = fingerprint \<and>
        (\<exists>j \<in> set (q_jobs db). jb_execution_key j = fl_execution_key f \<and> jb_task_id j = task))"

definition is_file_occupied :: "string \<Rightarrow> string \<Rightarrow> queue_db \<Rightarrow> bool" where
  "is_file_occupied task fingerprint db \<longleftrightarrow>
     (\<exists>r \<in> set (q_processed db). pf_task_id r = task \<and> pf_fingerprint r = fingerprint) \<or>
     is_file_in_flight task fingerprint db"

end
