(* ===== verification/Queue_Maintenance.thy ===== *)
theory Queue_Maintenance
  imports Queue_Store
begin

text \<open>
  Opening a queue (the constructors of \<open>AgentQueueStore\<close> and \<open>AgentQueueMaintenance\<close>: argument checks,
  schema version, creation, migration from version 1, identity) and the maintenance operations behind
  \<open>labbridge_agent queue list | show | retry\<close>. The file system and the connection pragmas are left
  out; \<open>body_length\<close> is the length of the text nlohmann dumps for a body.
\<close>

section \<open>Opening\<close>

text \<open>A database file: its \<open>user_version\<close>, its tables, the columns version 2 added, its metadata row.\<close>

record queue_file =
  qf_version :: nat
  qf_tables :: "string list"
  qf_v2_columns :: "(string \<times> string) list"
  qf_node_code :: "string option"
  qf_db :: queue_db

definition kSchemaVersion :: nat where
  "kSchemaVersion = 2"

definition required_tables :: "string list" where
  "required_tables = [''pending_jobs'', ''pending_files'', ''pending_deliveries'',
                      ''delivery_attempts'', ''processed_files'']"

definition kSchema_tables :: "string list" where
  "kSchema_tables = ''queue_metadata'' # required_tables"

definition migrated_columns :: "(string \<times> string) list" where
  "migrated_columns = [(''pending_jobs'', ''retry_files_json''), (''pending_jobs'', ''file_failures_json''),
                       (''pending_files'', ''input_path'')]"

type_synonym 'a fileproc = "(queue_file, agent_exn, 'a) proc"

definition initialize_schema :: "string \<Rightarrow> unit fileproc" where
  "initialize_schema node_code =
     transaction (seqp (gets qf_tables) (\<lambda>tables.
       seqp (require (set tables \<inter> set kSchema_tables = {}) (SqliteError ''create queue schema'')) (\<lambda>_.
         modify (\<lambda>f. f\<lparr>qf_tables := qf_tables f @ kSchema_tables, qf_v2_columns := migrated_columns,
                        qf_db := empty_queue, qf_node_code := Some node_code, qf_version := 2\<rparr>))))"

definition add_column :: "string \<times> string \<Rightarrow> unit fileproc" where
  "add_column column =
     seqp (gets (\<lambda>f. fst column \<in> set (qf_tables f) \<and> column \<notin> set (qf_v2_columns f))) (\<lambda>possible.
     seqp (require possible (SqliteError (''add '' @ snd column))) (\<lambda>_.
       modify (\<lambda>f. f\<lparr>qf_v2_columns := qf_v2_columns f @ [column]\<rparr>)))"

definition migrate_schema_v1_to_v2 :: "unit fileproc" where
  "migrate_schema_v1_to_v2 =
     transaction (seqp (for_each add_column migrated_columns) (\<lambda>_.
       modify (\<lambda>f. f\<lparr>qf_version := 2\<rparr>)))"

definition validate_node_identity :: "string \<Rightarrow> unit fileproc" where
  "validate_node_identity node_code =
     seqp (gets (\<lambda>f. ''queue_metadata'' \<in> set (qf_tables f))) (\<lambda>readable.
     seqp (require readable (SqliteError ''validate node identity'')) (\<lambda>_.
     seqp (gets qf_node_code) (\<lambda>stored.
       require (stored = Some node_code) (QueueError ''queue database node identity mismatch''))))"

definition validate_required_tables :: "unit fileproc" where
  "validate_required_tables =
     seqp (gets qf_tables) (\<lambda>tables.
       require (list_all (\<lambda>t. t \<in> set tables) required_tables) (QueueError ''queue schema is incomplete''))"

definition unsupported_version :: "nat \<Rightarrow> agent_exn" where
  "unsupported_version v = QueueError (''unsupported queue schema version '' @ nat_to_string v)"

definition open_queue_store :: "string \<Rightarrow> string \<Rightarrow> nat \<Rightarrow> nat \<Rightarrow> queue_config fileproc" where
  "open_queue_store database_path node_code max_pending_jobs capacity =
     seqp (require (\<not> (database_path = [] \<or> node_code = [] \<or> max_pending_jobs = 0 \<or> capacity = 0))
             (QueueError ''database path, node identity and capacity are required'')) (\<lambda>_.
     seqp (gets qf_version) (\<lambda>version.
     seqp (require (version \<le> kSchemaVersion) (unsupported_version version)) (\<lambda>_.
     seqp (if version = 0 then initialize_schema node_code
           else if version = 1 then migrate_schema_v1_to_v2 else ret ()) (\<lambda>_.
     seqp (validate_node_identity node_code) (\<lambda>_.
     seqp validate_required_tables (\<lambda>_.
       ret \<lparr>qc_node_code = node_code, qc_max_pending_jobs = max_pending_jobs,
            qc_processed_capacity = capacity\<rparr>))))))"

text \<open>The maintenance constructor: \<open>None\<close> is a path that does not exist. It neither creates nor migrates.\<close>

definition open_maintenance :: "string \<Rightarrow> string \<Rightarrow> queue_file option \<Rightarrow> agent_exn + queue_db" where
  "open_maintenance database_path node_code file =
     (if database_path = [] \<or> node_code = []
      then Inl (QueueError ''database path and node identity are required'')
      else case file of
        None \<Rightarrow> Inl (QueueError (''queue database not found: '' @ database_path))
      | Some f \<Rightarrow>
          if qf_version f = 0
          then Inl (QueueError (''queue database is empty or not initialized: '' @ database_path))
          else if kSchemaVersion < qf_version f then Inl (unsupported_version (qf_version f))
          else fst (seqp validate_required_tables (\<lambda>_.
                    seqp (validate_node_identity node_code) (\<lambda>_. gets qf_db)) f))"

section \<open>Listing and showing\<close>

record attention_summary =
  as_execution_key :: string
  as_task_id :: string
  as_error_kind :: string
  as_reason :: string
  as_updated_at :: int

record attention_file =
  af_ordinal :: int
  af_source_path :: string
  af_size_bytes :: int
  af_archive_path :: string
  af_archive_state :: string

record attention_delivery =
  ad_request_type :: request_type
  ad_attempt_count :: int
  ad_next_attempt_at :: "int option"
  ad_last_http_status :: nat
  ad_last_error_kind :: string
  ad_last_error :: string
  ad_body_bytes :: nat

record attention_detail =
  an_execution_key :: string
  an_task_id :: string
  an_resume_stage :: "job_stage option"
  an_error_kind :: string
  an_reason :: string
  an_attempt_count :: int
  an_started_at :: string
  an_updated_at :: int
  an_files :: "attention_file list"
  an_deliveries :: "attention_delivery list"

definition text_or_empty :: "string option \<Rightarrow> string" where
  "text_or_empty c = (case c of None \<Rightarrow> [] | Some s \<Rightarrow> s)"

definition list_attention_jobs :: "queue_db \<Rightarrow> attention_summary list" where
  "list_attention_jobs db =
     map (\<lambda>j. \<lparr>as_execution_key = jb_execution_key j, as_task_id = jb_task_id j,
               as_error_kind = text_or_empty (jb_last_error_kind j),
               as_reason = text_or_empty (jb_last_error j), as_updated_at = jb_updated_at j\<rparr>)
       (sort_key (\<lambda>j. (- jb_updated_at j, jb_execution_key j))
         (filter (\<lambda>j. jb_stage j = RequiresAttention) (q_jobs db)))"

definition read_attention_files :: "queue_db \<Rightarrow> string \<Rightarrow> attention_file list" where
  "read_attention_files db key =
     map (\<lambda>f. \<lparr>af_ordinal = fl_ordinal f, af_source_path = fl_source_path f, af_size_bytes = fl_size_bytes f,
               af_archive_path = fl_archive_path f, af_archive_state = fl_archive_state f\<rparr>)
       (sort_key fl_ordinal (filter (\<lambda>f. fl_execution_key f = key) (q_files db)))"

fun http_body_bytes :: "(json \<Rightarrow> nat) \<Rightarrow> request_type \<Rightarrow> json \<Rightarrow> agent_exn + nat" where
  "http_body_bytes body_length StartRequest doc =
     sbind (decode_start_request doc) (\<lambda>r. Inr (body_length (encode_start_http_body r)))"
| "http_body_bytes body_length ManifestRequest doc =
     sbind (decode_manifest_request doc) (\<lambda>r. Inr (body_length (encode_manifest_http_body r)))"
| "http_body_bytes body_length ReportRequest doc =
     sbind (decode_report_request doc) (\<lambda>r.
     sbind (encode_report_http_body r) (\<lambda>body. Inr (body_length body)))"

fun request_rank :: "request_type \<Rightarrow> nat" where
  "request_rank StartRequest = 1"
| "request_rank ManifestRequest = 2"
| "request_rank ReportRequest = 3"

definition read_attention_delivery :: "(json \<Rightarrow> nat) \<Rightarrow> delivery_row \<Rightarrow> agent_exn + attention_delivery" where
  "read_attention_delivery body_length d =
     sbind (http_body_bytes body_length (dl_request_type d) (dl_request d)) (\<lambda>bytes.
       Inr \<lparr>ad_request_type = dl_request_type d, ad_attempt_count = dl_attempt_count d,
            ad_next_attempt_at = dl_next_attempt_at d,
            ad_last_http_status = (case dl_last_http_status d of None \<Rightarrow> 0 | Some s \<Rightarrow> s),
            ad_last_error_kind = text_or_empty (dl_last_error_kind d),
            ad_last_error = text_or_empty (dl_last_error d), ad_body_bytes = bytes\<rparr>)"

definition read_attention_deliveries :: "(json \<Rightarrow> nat) \<Rightarrow> queue_db \<Rightarrow> string \<Rightarrow> agent_exn + attention_delivery list" where
  "read_attention_deliveries body_length db key =
     smap (read_attention_delivery body_length)
       (sort_key (\<lambda>d. request_rank (dl_request_type d))
         (filter (\<lambda>d. dl_execution_key d = key) (q_deliveries db)))"

definition load_attention_job :: "(json \<Rightarrow> nat) \<Rightarrow> string \<Rightarrow> queue_db \<Rightarrow> agent_exn + attention_detail" where
  "load_attention_job body_length key db =
     (case find_job_row key db of
        None \<Rightarrow> Inl (QueueError (''pending job does not exist: '' @ key))
      | Some j \<Rightarrow>
          if jb_stage j \<noteq> RequiresAttention
          then Inl (QueueError (''job is not waiting for attention (current stage: '' @
                 stage_name (jb_stage j) @ ''): '' @ key))
          else sbind (read_attention_deliveries body_length db key) (\<lambda>deliveries.
            Inr \<lparr>an_execution_key = key, an_task_id = jb_task_id j, an_resume_stage = jb_retry_stage j,
                 an_error_kind = text_or_empty (jb_last_error_kind j),
                 an_reason = text_or_empty (jb_last_error j), an_attempt_count = jb_attempt_count j,
                 an_started_at = jb_started_at j, an_updated_at = jb_updated_at j,
                 an_files = read_attention_files db key, an_deliveries = deliveries\<rparr>))"

section \<open>Retrying\<close>

datatype queue_retry_result = Resumed job_stage | NotAttention job_stage

definition retry_resume_stage :: "string \<Rightarrow> job_row \<Rightarrow> agent_exn + job_stage" where
  "retry_resume_stage key j =
     (case jb_retry_stage j of
        None \<Rightarrow>
          if text_or_empty (jb_last_error_kind j) = ''archive_conflict'' then Inr Collecting
          else Inl (QueueError (''cannot determine resume stage for job '' @ key @
                 '' (retry_stage empty, error_kind='' @ text_or_empty (jb_last_error_kind j) @
                 ''); inspect the job manually''))
      | Some st \<Rightarrow>
          if \<not> is_executable_stage st
          then Inl (QueueError (''saved retry_stage '' @ apos @ stage_name st @ apos @ '' of job '' @ key @
                 '' is not an executable stage''))
          else Inr st)"

definition retry_attention_job :: "int \<Rightarrow> string \<Rightarrow> queue_retry_result qproc" where
  "retry_attention_job now key =
     transaction (seqp (gets (find_job_row key)) (\<lambda>row.
       case row of
         None \<Rightarrow> throw (QueueError (''pending job does not exist: '' @ key))
       | Some j \<Rightarrow>
           if jb_stage j \<noteq> RequiresAttention then ret (NotAttention (jb_stage j))
           else seqp (lift_sum (retry_resume_stage key j)) (\<lambda>resume.
             seqp (update_jobs (\<lambda>j. jb_execution_key j = key \<and> jb_stage j = RequiresAttention)
                     (\<lambda>j. j\<lparr>jb_stage := resume, jb_retry_stage := None, jb_next_attempt_at := None,
                            jb_updated_at := now\<rparr>)) (\<lambda>changes.
               if changes \<noteq> 1 then ret (NotAttention (jb_stage j))
               else seqp (update_deliveries (\<lambda>d. dl_execution_key d = key)
                       (\<lambda>d. d\<lparr>dl_next_attempt_at := None, dl_updated_at := now\<rparr>)) (\<lambda>_.
                 ret (Resumed resume))))))"

end
