(* ===== verification/Queue_Invariant.thy ===== *)
theory Queue_Invariant
  imports Queue_Maintenance
begin

text \<open>
  What every sequence of store and maintenance operations keeps true of the queue database, and how a
  job moves through its stages. \<open>queue_step\<close> is one call of one operation with any arguments,
  successful or not; the invariants are proved by rule induction over the sequences of calls.
\<close>

section \<open>The invariant\<close>

text \<open>The stage a job works in, or will work in again: the saved one while it waits.\<close>

definition effective_stage :: "job_row \<Rightarrow> job_stage option" where
  "effective_stage j =
     (if jb_stage j = RetryWait \<or> jb_stage j = RequiresAttention then jb_retry_stage j else Some (jb_stage j))"

definition job_ok :: "(string \<times> request_type) set \<Rightarrow> job_row \<Rightarrow> bool" where
  "job_ok ks j \<longleftrightarrow> (\<exists>st. effective_stage j = Some st \<and> is_executable_stage st \<and>
     (jb_stage j = RetryWait \<longrightarrow> is_delivering_stage st) \<and>
     (jb_execution_key j, StartRequest) \<in> ks \<and>
     (st = ManifestPending \<or> st = ReportBuilding \<longrightarrow> (jb_execution_key j, ManifestRequest) \<in> ks) \<and>
     (st = ReportPending \<longrightarrow> (jb_execution_key j, ReportRequest) \<in> ks) \<and>
     (st \<noteq> StartPending \<longrightarrow> jb_task_run_id j \<noteq> None))"

definition job_keys :: "queue_db \<Rightarrow> string set" where
  "job_keys db = jb_execution_key ` set (q_jobs db)"

definition delivery_keys :: "queue_db \<Rightarrow> (string \<times> request_type) set" where
  "delivery_keys db = delivery_key ` set (q_deliveries db)"

text \<open>What the schema enforces: primary keys, unique columns, references and the size check.\<close>

definition keys_ok :: "queue_db \<Rightarrow> bool" where
  "keys_ok db \<longleftrightarrow> distinct (map jb_execution_key (q_jobs db)) \<and>
     distinct (map file_key (q_files db)) \<and> distinct (map file_identity (q_files db)) \<and>
     distinct (map delivery_key (q_deliveries db)) \<and> distinct (map delivery_identity (q_deliveries db)) \<and>
     distinct (map processed_key (q_processed db)) \<and>
     fl_execution_key ` set (q_files db) \<subseteq> job_keys db \<and>
     dl_execution_key ` set (q_deliveries db) \<subseteq> job_keys db \<and>
     at_execution_key ` set (q_attempts db) \<subseteq> job_keys db \<and>
     (\<forall>f \<in> set (q_files db). 0 \<le> fl_size_bytes f)"

definition jobs_ok :: "queue_db \<Rightarrow> bool" where
  "jobs_ok db \<longleftrightarrow> (\<forall>j \<in> set (q_jobs db). job_ok (delivery_keys db) j)"

definition attempt_key :: "attempt_row \<Rightarrow> string \<times> request_type" where
  "attempt_key a = (at_execution_key a, at_request_type a)"

definition attempts_of :: "string \<times> request_type \<Rightarrow> attempt_row list \<Rightarrow> attempt_row list" where
  "attempts_of k log = filter (\<lambda>a. attempt_key a = k) log"

text \<open>The attempts of a delivery are numbered 1, 2, ... and the last number is the delivery's counter.\<close>

definition numbered :: "int \<Rightarrow> attempt_row list \<Rightarrow> bool" where
  "numbered n log \<longleftrightarrow> map at_attempt_number log = [1..n]"

definition log_ok :: "queue_db \<Rightarrow> bool" where
  "log_ok db \<longleftrightarrow> attempt_key ` set (q_attempts db) \<subseteq> delivery_keys db \<and>
     (\<forall>d \<in> set (q_deliveries db).
        0 \<le> dl_attempt_count d \<and> numbered (dl_attempt_count d) (attempts_of (delivery_key d) (q_attempts db)))"

definition processed_count :: "string \<Rightarrow> processed_row list \<Rightarrow> nat" where
  "processed_count task rows = count_where (\<lambda>r. pf_task_id r = task) rows"

definition bounds_ok :: "queue_config \<Rightarrow> queue_db \<Rightarrow> bool" where
  "bounds_ok cfg db \<longleftrightarrow> length (q_jobs db) \<le> qc_max_pending_jobs cfg \<and>
     (\<forall>task. processed_count task (q_processed db) \<le> qc_processed_capacity cfg)"

definition queue_ok :: "queue_config \<Rightarrow> queue_db \<Rightarrow> bool" where
  "queue_ok cfg db \<longleftrightarrow> keys_ok db \<and> jobs_ok db \<and> log_ok db \<and> bounds_ok cfg db"

lemma queue_ok_empty: "queue_ok cfg empty_queue"
  by (simp add: queue_ok_def keys_ok_def jobs_ok_def log_ok_def bounds_ok_def empty_queue_def
      processed_count_def count_where_def)

lemma queue_okI:
  "keys_ok db \<Longrightarrow> jobs_ok db \<Longrightarrow> log_ok db \<Longrightarrow> bounds_ok cfg db \<Longrightarrow> queue_ok cfg db"
  by (simp add: queue_ok_def)

section \<open>Statements keep the invariant\<close>

lemma job_ok_mono: "job_ok ks j \<Longrightarrow> ks \<subseteq> ks' \<Longrightarrow> job_ok ks' j"
  unfolding job_ok_def by blast

lemma job_ok_restrict:
  "job_ok ks j \<Longrightarrow> (\<And>ty. (jb_execution_key j, ty) \<in> ks \<Longrightarrow> (jb_execution_key j, ty) \<in> ks') \<Longrightarrow> job_ok ks' j"
  unfolding job_ok_def by blast

lemma update_where_keys:
  "(\<And>r. r \<in> set rows \<Longrightarrow> p r \<Longrightarrow> k (f r) = k r) \<Longrightarrow> map k (update_where p f rows) = map k rows"
  by (auto simp: update_where_def)

lemma image_update_where:
  "(\<And>r. r \<in> set rows \<Longrightarrow> p r \<Longrightarrow> k (f r) = k r) \<Longrightarrow> k ` set (update_where p f rows) = k ` set rows"
  by (metis update_where_keys list.set_map)

lemma in_update_whereE:
  assumes "r \<in> set (update_where p f rows)"
  obtains r0 where "r0 \<in> set rows" "r = (if p r0 then f r0 else r0)"
  using assms by (auto simp: set_update_where)

lemma update_jobs_keeps:
  assumes ok: "queue_ok cfg db" and step: "update_jobs p f db = (Inr n, db')"
    and key: "\<And>j. j \<in> set (q_jobs db) \<Longrightarrow> p j \<Longrightarrow> jb_execution_key (f j) = jb_execution_key j"
    and job: "\<And>j. j \<in> set (q_jobs db) \<Longrightarrow> p j \<Longrightarrow> job_ok (delivery_keys db) j \<Longrightarrow> job_ok (delivery_keys db) (f j)"
  shows "queue_ok cfg db'"
proof -
  have db': "db' = db\<lparr>q_jobs := update_where p f (q_jobs db)\<rparr>"
    using step by (auto simp: update_jobs_def)
  have keys: "map jb_execution_key (update_where p f (q_jobs db)) = map jb_execution_key (q_jobs db)"
    and img: "jb_execution_key ` set (update_where p f (q_jobs db)) = jb_execution_key ` set (q_jobs db)"
    using key by (simp_all add: update_where_keys image_update_where)
  show ?thesis
  proof (rule queue_okI)
    show "keys_ok db'" using ok by (simp add: queue_ok_def keys_ok_def db' keys img job_keys_def)
    show "jobs_ok db'"
      using ok job by (auto simp: queue_ok_def jobs_ok_def db' delivery_keys_def elim!: in_update_whereE)
    show "log_ok db'" using ok by (simp add: queue_ok_def log_ok_def db' delivery_keys_def)
    show "bounds_ok cfg db'" using ok by (simp add: queue_ok_def bounds_ok_def db')
  qed
qed

lemma update_files_keeps:
  assumes ok: "queue_ok cfg db" and step: "update_files p f db = (Inr n, db')"
    and key: "\<And>r. file_key (f r) = file_key r" "\<And>r. file_identity (f r) = file_identity r"
      "\<And>r. fl_size_bytes (f r) = fl_size_bytes r"
  shows "queue_ok cfg db'"
proof -
  have db': "db' = db\<lparr>q_files := update_where p f (q_files db)\<rparr>"
    using step by (auto simp: update_files_def)
  have ek: "fl_execution_key (f r) = fl_execution_key r" for r
    using key(1)[of r] by (simp add: file_key_def)
  have "keys_ok db'"
    using ok by (auto simp: queue_ok_def keys_ok_def db' job_keys_def update_where_keys key image_update_where ek
        elim!: in_update_whereE)
  then show ?thesis
    using ok by (simp add: queue_ok_def jobs_ok_def log_ok_def bounds_ok_def db' delivery_keys_def)
qed

lemma update_deliveries_keeps:
  assumes ok: "queue_ok cfg db" and step: "update_deliveries p f db = (Inr n, db')"
    and key: "\<And>r. delivery_key (f r) = delivery_key r" "\<And>r. delivery_identity (f r) = delivery_identity r"
      "\<And>r. dl_attempt_count (f r) = dl_attempt_count r"
  shows "queue_ok cfg db'"
proof -
  have db': "db' = db\<lparr>q_deliveries := update_where p f (q_deliveries db)\<rparr>"
    using step by (auto simp: update_deliveries_def)
  have ek: "dl_execution_key (f r) = dl_execution_key r" for r
    using key(1)[of r] by (simp add: delivery_key_def)
  have dk: "delivery_keys db' = delivery_keys db"
    by (simp add: delivery_keys_def db' image_update_where key)
  show ?thesis
  proof (rule queue_okI)
    show "keys_ok db'"
      using ok by (simp add: queue_ok_def keys_ok_def db' job_keys_def update_where_keys key image_update_where ek)
    show "jobs_ok db'" using ok by (simp add: queue_ok_def jobs_ok_def dk) (simp add: db')
    show "log_ok db'"
      using ok by (auto simp: queue_ok_def log_ok_def dk) (auto simp: db' key elim!: in_update_whereE)
    show "bounds_ok cfg db'" using ok by (simp add: queue_ok_def bounds_ok_def db')
  qed
qed

lemma insert_file_keeps:
  assumes ok: "queue_ok cfg db" and step: "insert_file_row operation row db = (Inr u, db')"
  shows "queue_ok cfg db'"
proof -
  have db': "db' = db\<lparr>q_files := q_files db @ [row]\<rparr>"
    and new: "fl_execution_key row \<in> job_keys db" "0 \<le> fl_size_bytes row"
      "file_key row \<notin> file_key ` set (q_files db)" "file_identity row \<notin> file_identity ` set (q_files db)"
    using step by (auto simp: insert_file_row_def job_keys_def split: if_splits)
  have "keys_ok db'"
    using ok new by (auto simp: queue_ok_def keys_ok_def db' job_keys_def)
  then show ?thesis
    using ok by (simp add: queue_ok_def jobs_ok_def log_ok_def bounds_ok_def db' delivery_keys_def)
qed

lemma insert_delivery_keeps:
  assumes ok: "queue_ok cfg db" and step: "insert_delivery_row operation row db = (Inr u, db')"
    and fresh: "dl_attempt_count row = 0"
  shows "queue_ok cfg db'"
proof -
  have db': "db' = db\<lparr>q_deliveries := q_deliveries db @ [row]\<rparr>"
    and new: "dl_execution_key row \<in> job_keys db" "delivery_key row \<notin> delivery_keys db"
      "delivery_identity row \<notin> delivery_identity ` set (q_deliveries db)"
    using step by (auto simp: insert_delivery_row_def job_keys_def delivery_keys_def split: if_splits)
  have dk: "delivery_keys db' = insert (delivery_key row) (delivery_keys db)"
    by (simp add: delivery_keys_def db')
  show ?thesis
  proof (rule queue_okI)
    show "keys_ok db'" using ok new by (auto simp: queue_ok_def keys_ok_def db' job_keys_def delivery_keys_def)
    show "jobs_ok db'"
      using ok by (auto simp: queue_ok_def jobs_ok_def dk) (auto simp: db' intro: job_ok_mono)
    have "attempts_of (delivery_key row) (q_attempts db) = []"
      using ok new by (auto simp: queue_ok_def log_ok_def attempts_of_def filter_empty_conv)
    then show "log_ok db'"
      using ok fresh by (auto simp: queue_ok_def log_ok_def dk) (auto simp: db' numbered_def)
    show "bounds_ok cfg db'" using ok by (simp add: queue_ok_def bounds_ok_def db')
  qed
qed

lemma delete_jobs_keeps:
  assumes ok: "queue_ok cfg db" and step: "delete_jobs p db = (Inr n, db')"
  shows "queue_ok cfg db'"
proof -
  define gone where "gone = jb_execution_key ` {j \<in> set (q_jobs db). p j}"
  have db': "db' = db\<lparr>q_jobs := filter (\<lambda>j. \<not> p j) (q_jobs db),
      q_files := filter (\<lambda>f. fl_execution_key f \<notin> gone) (q_files db),
      q_deliveries := filter (\<lambda>d. dl_execution_key d \<notin> gone) (q_deliveries db),
      q_attempts := filter (\<lambda>a. at_execution_key a \<notin> gone) (q_attempts db)\<rparr>"
    using step by (simp add: delete_jobs_def Let_def gone_def)
  have dist: "distinct (map jb_execution_key (q_jobs db))" using ok by (simp add: queue_ok_def keys_ok_def)
  have jk: "job_keys db' = job_keys db - gone"
    using inj_key_eq[OF dist] by (auto simp: job_keys_def db' gone_def)
  have dk: "delivery_keys db' = {k \<in> delivery_keys db. fst k \<notin> gone}"
    by (auto simp: delivery_keys_def db' delivery_key_def)
  have kept: "attempts_of k (q_attempts db') = attempts_of k (q_attempts db)" if "fst k \<notin> gone" for k
    using that by (auto simp: attempts_of_def db' attempt_key_def intro!: filter_cong)
  show ?thesis
  proof (rule queue_okI)
    show "keys_ok db'"
      using ok unfolding queue_ok_def keys_ok_def jk
      by (auto simp: db' distinct_map_filter_key)
    show "jobs_ok db'" unfolding jobs_ok_def
    proof
      fix j assume "j \<in> set (q_jobs db')"
      then have j: "j \<in> set (q_jobs db)" "jb_execution_key j \<notin> gone"
        using jk by (auto simp: db' job_keys_def image_iff)
      with ok have "job_ok (delivery_keys db) j" by (simp add: queue_ok_def jobs_ok_def)
      then show "job_ok (delivery_keys db') j" by (rule job_ok_restrict) (simp add: dk j)
    qed
    show "log_ok db'" unfolding log_ok_def
    proof (intro conjI ballI)
      show "attempt_key ` set (q_attempts db') \<subseteq> delivery_keys db'"
        using ok by (auto simp: queue_ok_def log_ok_def dk) (auto simp: db' attempt_key_def)
      fix d assume "d \<in> set (q_deliveries db')"
      then have "d \<in> set (q_deliveries db)" "fst (delivery_key d) \<notin> gone"
        by (auto simp: db' delivery_key_def)
      then show "0 \<le> dl_attempt_count d"
        and "numbered (dl_attempt_count d) (attempts_of (delivery_key d) (q_attempts db'))"
        using ok by (auto simp: queue_ok_def log_ok_def kept)
    qed
    show "bounds_ok cfg db'"
      using ok by (simp add: queue_ok_def bounds_ok_def db' le_trans[OF length_filter_le])
  qed
qed

section \<open>Operations keep the invariant\<close>

lemma find_job_row_Some:
  "find_job_row key db = Some j \<Longrightarrow> j \<in> set (q_jobs db) \<and> jb_execution_key j = key"
  by (auto simp: find_job_row_def dest: find_Some_iff_in)

lemma find_job_row_None:
  "find_job_row key db = None \<longleftrightarrow> key \<notin> job_keys db"
  by (auto simp: find_job_row_def find_None_iff job_keys_def)

lemma find_delivery_Some:
  "find_delivery ty ikey db = Some d \<Longrightarrow>
   d \<in> set (q_deliveries db) \<and> dl_request_type d = ty \<and> dl_idempotency_key d = ikey"
  by (auto simp: find_delivery_def dest: find_Some_iff_in)

lemma find_delivery_of_Some:
  "find_delivery_of key ty db = Some d \<Longrightarrow>
   d \<in> set (q_deliveries db) \<and> dl_execution_key d = key \<and> dl_request_type d = ty"
  by (auto simp: find_delivery_of_def dest: find_Some_iff_in)

lemma begin_job_Inr:
  assumes "begin_job cfg now task request retry_files db = (Inr b, db')"
  shows "(\<not> b \<and> db' = db \<and> (\<exists>j \<in> set (q_jobs db). jb_execution_key j = sr_execution_key request \<and>
            same_job task request j)) \<or>
         (b \<and> sr_execution_key request \<notin> job_keys db \<and> length (q_jobs db) < qc_max_pending_jobs cfg \<and>
          (StartRequest, sr_execution_key request) \<notin> delivery_identity ` set (q_deliveries db) \<and>
          db' = db\<lparr>q_jobs := q_jobs db @ [new_job_row task request retry_files now],
                  q_deliveries := q_deliveries db @ [new_delivery (sr_execution_key request) StartRequest
                    (sr_execution_key request) (encode_start_request request) now]\<rparr>)"
  using assms
  by (auto simp: begin_job_def transaction_Inr seqp_Inr insert_pending_job_def insert_job_row_def
      insert_start_delivery_def insert_delivery_row_def new_delivery_def delivery_identity_def
      delivery_key_def find_job_row_None job_keys_def
      dest!: find_job_row_Some split: if_splits option.splits)

lemma begin_job_keeps:
  assumes ok: "queue_ok cfg db" and step: "begin_job cfg now task request retry_files db = (Inr b, db')"
  shows "queue_ok cfg db'"
proof (cases b)
  case False
  with begin_job_Inr[OF step] ok show ?thesis by auto
next
  case True
  define key where "key = sr_execution_key request"
  define d where "d = new_delivery key StartRequest key (encode_start_request request) now"
  define j where "j = new_job_row task request retry_files now"
  from True begin_job_Inr[OF step]
  have new: "key \<notin> job_keys db" and room: "length (q_jobs db) < qc_max_pending_jobs cfg"
    and ident: "(StartRequest, key) \<notin> delivery_identity ` set (q_deliveries db)"
    and db': "db' = db\<lparr>q_jobs := q_jobs db @ [j], q_deliveries := q_deliveries db @ [d]\<rparr>"
    by (auto simp: key_def d_def j_def)
  have j: "jb_execution_key j = key" "jb_stage j = StartPending" by (simp_all add: j_def key_def new_job_row_def)
  have d: "dl_execution_key d = key" "delivery_key d = (key, StartRequest)"
    "delivery_identity d = (StartRequest, key)" "dl_attempt_count d = 0"
    by (simp_all add: d_def new_delivery_def delivery_key_def delivery_identity_def)
  have fresh: "(key, ty) \<notin> delivery_keys db" for ty
    using ok new by (auto simp: queue_ok_def keys_ok_def delivery_keys_def delivery_key_def)
  have dk: "delivery_keys db' = insert (key, StartRequest) (delivery_keys db)"
    by (simp add: delivery_keys_def db' d)
  have jk: "job_keys db' = insert key (job_keys db)" by (simp add: job_keys_def db' j)
  show ?thesis
  proof (rule queue_okI)
    have dl: "distinct (map delivery_key (q_deliveries db'))"
      using ok fresh by (simp add: queue_ok_def keys_ok_def db' d delivery_keys_def)
    have di: "distinct (map delivery_identity (q_deliveries db'))"
      using ok ident by (simp add: queue_ok_def keys_ok_def db' d)
    have dj: "distinct (map jb_execution_key (q_jobs db'))"
      using ok new by (simp add: queue_ok_def keys_ok_def db' j job_keys_def)
    show "keys_ok db'"
      using ok unfolding queue_ok_def keys_ok_def jk by (simp add: dl di dj) (auto simp: db' d)
    have "job_ok (delivery_keys db') j"
      by (simp add: job_ok_def effective_stage_def j dk is_executable_stage_def)
    then show "jobs_ok db'"
      using ok by (auto simp: queue_ok_def jobs_ok_def dk) (auto simp: db' intro: job_ok_mono)
    have "attempts_of (key, StartRequest) (q_attempts db) = []"
      using ok fresh by (auto simp: queue_ok_def log_ok_def attempts_of_def filter_empty_conv)
    then show "log_ok db'"
      using ok by (auto simp: queue_ok_def log_ok_def dk) (auto simp: db' d numbered_def)
    show "bounds_ok cfg db'" using ok room by (simp add: queue_ok_def bounds_ok_def db')
  qed
qed

lemma update_never_throws [simp]:
  "update_jobs p f db \<noteq> (Inl e, t)" "update_files p' f' db \<noteq> (Inl e, t)" "update_deliveries p'' f'' db \<noteq> (Inl e, t)"
  by (simp_all add: update_jobs_def update_files_def update_deliveries_def)

lemma set_file_failures_keeps:
  assumes "queue_ok cfg db" and "set_file_failures key failures now db = (Inr n, db')"
  shows "queue_ok cfg db'"
  using assms(1) assms(2)[unfolded set_file_failures_def]
  by (rule update_jobs_keeps) (auto simp: job_ok_def effective_stage_def)

lemma save_file_plan_keeps:
  assumes ok: "queue_ok cfg db" and step: "save_file_plan now key files failures db = (Inr u, db')"
  shows "queue_ok cfg db'"
proof -
  obtain db1 n where loop: "for_each (insert_pending_file key) files db = (Inr (), db1)"
    and mark: "set_file_failures key failures now db1 = (Inr n, db')"
    using step by (auto simp: save_file_plan_def transaction_Inr seqp_Inr)
  from loop ok have "queue_ok cfg db1"
    by (rule for_each_keeps) (auto simp: insert_pending_file_def intro: insert_file_keeps)
  then show ?thesis using mark by (rule set_file_failures_keeps)
qed

lemma save_file_failures_keeps:
  "queue_ok cfg db \<Longrightarrow> save_file_failures now key failures db = (Inr u, db') \<Longrightarrow> queue_ok cfg db'"
  by (auto simp: save_file_failures_def transaction_Inr seqp_Inr intro: set_file_failures_keeps)

lemma mark_file_failed_keeps:
  "queue_ok cfg db \<Longrightarrow> mark_file_failed now key ordinal detail failures db = (Inr u, db') \<Longrightarrow> queue_ok cfg db'"
  by (auto simp: mark_file_failed_def transaction_Inr seqp_Inr file_key_def file_identity_def
      elim!: set_file_failures_keeps[rotated] update_files_keeps[rotated])

lemma mark_file_archived_keeps:
  "queue_ok cfg db \<Longrightarrow> mark_file_archived key ordinal db = (r, db') \<Longrightarrow> queue_ok cfg db'"
  by (auto simp: mark_file_archived_def seqp_def require_def file_key_def file_identity_def
      split: prod.splits sum.splits if_splits elim!: update_files_keeps[rotated])

lemma accept_start_keeps:
  assumes "queue_ok cfg db" and "accept_start now key run db = (Inr u, db')"
  shows "queue_ok cfg db'"
proof -
  from assms(2) obtain n where "update_jobs (\<lambda>j. jb_execution_key j = key \<and> jb_stage j = StartPending)
     (\<lambda>j. j\<lparr>jb_task_run_id := Some run, jb_stage := Collecting, jb_updated_at := now\<rparr>) db = (Inr n, db')"
    by (auto simp: accept_start_def transaction_Inr seqp_Inr)
  from assms(1) this show ?thesis
    by (rule update_jobs_keeps) (auto simp: job_ok_def effective_stage_def is_executable_stage_def)
qed

lemma save_manifest_Inr:
  assumes "save_manifest now key request db = (Inr u, db')"
  obtains db1 n where "insert_delivery_row ''save manifest''
      (new_delivery key ManifestRequest (mr_idempotency_key request) (encode_manifest_request request) now) db = (Inr (), db1)"
    and "update_jobs (\<lambda>j. jb_execution_key j = key \<and> jb_stage j = Collecting)
         (\<lambda>j. j\<lparr>jb_stage := ManifestPending, jb_updated_at := now\<rparr>) db1 = (Inr n, db')" and "n = 1"
  using assms by (auto simp: save_manifest_def transaction_Inr seqp_Inr)

lemma insert_delivery_row_Inr:
  "insert_delivery_row operation row db = (Inr u, db') \<Longrightarrow>
   db' = db\<lparr>q_deliveries := q_deliveries db @ [row]\<rparr> \<and> dl_execution_key row \<in> job_keys db \<and>
   delivery_key row \<notin> delivery_keys db"
  by (auto simp: insert_delivery_row_def job_keys_def delivery_keys_def split: if_splits)

lemma new_delivery_simps [simp]:
  "dl_execution_key (new_delivery key ty ikey doc now) = key"
  "dl_request_type (new_delivery key ty ikey doc now) = ty"
  "dl_idempotency_key (new_delivery key ty ikey doc now) = ikey"
  "dl_request (new_delivery key ty ikey doc now) = doc"
  "dl_attempt_count (new_delivery key ty ikey doc now) = 0"
  "delivery_key (new_delivery key ty ikey doc now) = (key, ty)"
  by (simp_all add: new_delivery_def delivery_key_def)

lemma save_manifest_keeps:
  assumes ok: "queue_ok cfg db" and step: "save_manifest now key request db = (Inr u, db')"
  shows "queue_ok cfg db'"
  using step
proof (rule save_manifest_Inr)
  fix db1 n
  assume ins: "insert_delivery_row ''save manifest'' (new_delivery key ManifestRequest (mr_idempotency_key request)
      (encode_manifest_request request) now) db = (Inr (), db1)"
    and upd: "update_jobs (\<lambda>j. jb_execution_key j = key \<and> jb_stage j = Collecting)
         (\<lambda>j. j\<lparr>jb_stage := ManifestPending, jb_updated_at := now\<rparr>) db1 = (Inr n, db')"
  have ok1: "queue_ok cfg db1" using insert_delivery_keeps[OF ok ins] by simp
  have "(key, ManifestRequest) \<in> delivery_keys db1"
    using insert_delivery_row_Inr[OF ins] by (simp add: delivery_keys_def)
  then show ?thesis
    by (intro update_jobs_keeps[OF ok1 upd]) (auto simp: job_ok_def effective_stage_def is_executable_stage_def)
qed

lemma accept_manifest_Inr:
  assumes "accept_manifest now key ids db = (Inr u, db')"
  obtains d manifest db1 n where "find_delivery_of key ManifestRequest db = Some d"
    and "decode_manifest_request (dl_request d) = Inr manifest" and "length (mr_files manifest) = length ids"
    and "for_each (map_raw_file_id key) (zip ids (mr_files manifest)) db = (Inr (), db1)"
    and "update_jobs (\<lambda>j. jb_execution_key j = key \<and> jb_stage j = ManifestPending)
           (\<lambda>j. j\<lparr>jb_stage := ReportBuilding, jb_updated_at := now\<rparr>) db1 = (Inr n, db')"
  using assms by (auto simp: accept_manifest_def transaction_Inr seqp_Inr split: option.splits)

lemma map_raw_file_id_keeps:
  assumes ok: "queue_ok cfg db" and step: "map_raw_file_id key item db = (Inr u, db')"
  shows "queue_ok cfg db'"
proof -
  from step obtain n where "update_files (\<lambda>f. fl_execution_key f = key \<and> fl_archive_path f = me_storage_path (snd item))
      (\<lambda>f. f\<lparr>fl_raw_file_id := Some (fst item)\<rparr>) db = (Inr n, db')"
    by (auto simp: map_raw_file_id_def seqp_Inr)
  with ok show ?thesis by (rule update_files_keeps) (simp_all add: file_key_def file_identity_def)
qed

lemma accept_manifest_keeps:
  assumes ok: "queue_ok cfg db" and step: "accept_manifest now key ids db = (Inr u, db')"
  shows "queue_ok cfg db'"
  using step
proof (rule accept_manifest_Inr)
  fix d manifest db1 n
  assume loop: "for_each (map_raw_file_id key) (zip ids (mr_files manifest)) db = (Inr (), db1)"
    and upd: "update_jobs (\<lambda>j. jb_execution_key j = key \<and> jb_stage j = ManifestPending)
           (\<lambda>j. j\<lparr>jb_stage := ReportBuilding, jb_updated_at := now\<rparr>) db1 = (Inr n, db')"
  from loop ok have "queue_ok cfg db1" by (rule for_each_keeps) (rule map_raw_file_id_keeps)
  then show ?thesis using upd
    by (rule update_jobs_keeps) (auto simp: job_ok_def effective_stage_def is_executable_stage_def)
qed

lemma save_report_Inr:
  assumes "save_report now key request outcomes db = (Inr u, db')"
  obtains doc db1 db2 n where "encode_report_request request = Inr doc"
    and "count_where (\<lambda>f. fl_execution_key f = key) (q_files db) = length outcomes"
    and "insert_delivery_row ''save report'' (new_delivery key ReportRequest (rr_idempotency_key request) doc now) db
           = (Inr (), db1)"
    and "for_each (save_parsed_outcome key) (zip [0..<length outcomes] outcomes) db1 = (Inr (), db2)"
    and "update_jobs (\<lambda>j. jb_execution_key j = key \<and> (jb_stage j = Collecting \<or> jb_stage j = ReportBuilding))
           (\<lambda>j. j\<lparr>jb_stage := ReportPending, jb_updated_at := now\<rparr>) db2 = (Inr n, db')"
  using assms by (auto simp: save_report_def transaction_Inr seqp_Inr)

lemma save_parsed_outcome_keeps:
  assumes ok: "queue_ok cfg db" and step: "save_parsed_outcome key item db = (Inr u, db')"
  shows "queue_ok cfg db'"
proof -
  from step obtain n where "update_files (\<lambda>f. fl_execution_key f = key \<and> fl_ordinal f = int (fst item))
      (\<lambda>f. f\<lparr>fl_parsed_without_errors := Some (snd item)\<rparr>) db = (Inr n, db')"
    by (auto simp: save_parsed_outcome_def seqp_Inr)
  with ok show ?thesis by (rule update_files_keeps) (simp_all add: file_key_def file_identity_def)
qed

lemma save_parsed_outcome_deliveries:
  "save_parsed_outcome key item db = (Inr u, db') \<Longrightarrow> q_deliveries db' = q_deliveries db \<and> q_jobs db' = q_jobs db"
  by (auto simp: save_parsed_outcome_def seqp_Inr update_files_def)

lemma save_parsed_outcomes_frame:
  assumes "for_each (save_parsed_outcome key) items db = (Inr u, db')"
  shows "q_deliveries db' = q_deliveries db \<and> q_jobs db' = q_jobs db"
  using assms(1)
  by (rule for_each_keeps[where P = "\<lambda>s. q_deliveries s = q_deliveries db \<and> q_jobs s = q_jobs db"])
    (auto dest: save_parsed_outcome_deliveries)

lemma save_report_keeps:
  assumes ok: "queue_ok cfg db" and step: "save_report now key request outcomes db = (Inr u, db')"
  shows "queue_ok cfg db'"
  using step
proof (rule save_report_Inr)
  fix doc db1 db2 n
  assume ins: "insert_delivery_row ''save report'' (new_delivery key ReportRequest (rr_idempotency_key request) doc now) db
           = (Inr (), db1)"
    and loop: "for_each (save_parsed_outcome key) (zip [0..<length outcomes] outcomes) db1 = (Inr (), db2)"
    and upd: "update_jobs (\<lambda>j. jb_execution_key j = key \<and> (jb_stage j = Collecting \<or> jb_stage j = ReportBuilding))
           (\<lambda>j. j\<lparr>jb_stage := ReportPending, jb_updated_at := now\<rparr>) db2 = (Inr n, db')"
  have ok1: "queue_ok cfg db1" using insert_delivery_keeps[OF ok ins] by simp
  from loop ok1 have ok2: "queue_ok cfg db2" by (rule for_each_keeps) (rule save_parsed_outcome_keeps)
  have "(key, ReportRequest) \<in> delivery_keys db2"
    using insert_delivery_row_Inr[OF ins] save_parsed_outcomes_frame[OF loop] by (simp add: delivery_keys_def)
  then show ?thesis
    by (intro update_jobs_keeps[OF ok2 upd]) (auto simp: job_ok_def effective_stage_def is_executable_stage_def)
qed

lemma insert_or_ignore_distinct:
  "distinct (map processed_key rows) \<Longrightarrow> distinct (map processed_key (insert_or_ignore rows rs))"
  by (induction rows rs rule: insert_or_ignore.induct) auto

lemma insert_or_ignore_keys:
  "processed_key ` set (insert_or_ignore rows rs) = processed_key ` set rows \<union> processed_key ` set rs"
  by (induction rows rs rule: insert_or_ignore.induct) auto

lemma insert_or_ignore_append:
  "\<exists>new. insert_or_ignore rows rs = rows @ new \<and> set new \<subseteq> set rs \<and> length new \<le> length rs"
proof (induction rows rs rule: insert_or_ignore.induct)
  case (1 rows)
  then show ?case by simp
next
  case (2 rows r rs)
  show ?case
  proof (cases "processed_key r \<in> processed_key ` set rows")
    case True
    with 2(1) show ?thesis by (auto intro: le_SucI)
  next
    case False
    with 2(2) obtain new where "insert_or_ignore (rows @ [r]) rs = (rows @ [r]) @ new"
      "set new \<subseteq> set rs" "length new \<le> length rs" by blast
    with False show ?thesis by (intro exI[of _ "r # new"]) auto
  qed
qed

lemma trim_processed_other:
  "task \<noteq> t \<Longrightarrow> filter (\<lambda>r. pf_task_id r = task) (trim_processed n t rows) = filter (\<lambda>r. pf_task_id r = task) rows"
  by (auto simp: trim_processed_def intro!: filter_cong)

lemma trim_processed_bound:
  assumes "distinct rows"
  shows "processed_count t (trim_processed n t rows) \<le> n"
proof -
  let ?keep = "newest_processed n t rows"
  have "processed_count t (trim_processed n t rows) =
      length (filter (\<lambda>r. pf_task_id r = t \<and> r \<in> set ?keep) rows)"
    by (auto simp: processed_count_def count_where_def trim_processed_def intro!: arg_cong[of _ _ length] filter_cong)
  also have "\<dots> = card {r \<in> set rows. pf_task_id r = t \<and> r \<in> set ?keep}"
    using assms by (simp add: distinct_card[symmetric] flip: set_filter)
  also have "\<dots> \<le> card (set ?keep)" by (rule card_mono) auto
  also have "\<dots> \<le> length ?keep" by (rule card_length)
  also have "\<dots> \<le> n" by (simp add: newest_processed_def)
  finally show ?thesis .
qed

lemma processed_rows_of_task:
  assumes "find_job_row key db = Some j" and "distinct (map jb_execution_key (q_jobs db))"
    and "r \<in> set (processed_rows_of key now db)"
  shows "pf_task_id r = jb_task_id j"
proof -
  from assms(3) obtain x where x: "x \<in> set (q_jobs db)" "jb_execution_key x = key" and r: "pf_task_id r = jb_task_id x"
    by (auto simp: processed_rows_of_def)
  have "x = j" using inj_key_eq[OF assms(2) x(1)] find_job_row_Some[OF assms(1)] x(2) by blast
  with r show ?thesis by simp
qed

lemma complete_job_Inr:
  assumes "complete_job cfg now key db = (Inr u, db')"
  obtains db1 db2 where
    "db1 = db\<lparr>q_processed := insert_or_ignore (q_processed db) (processed_rows_of key now db)\<rparr>"
    and "trim_processed_of (qc_processed_capacity cfg) key db1 = (Inr (), db2)"
    and "delete_jobs (\<lambda>j. jb_execution_key j = key \<and> jb_stage j = ReportPending) db2 = (Inr 1, db')"
  using assms by (auto simp: complete_job_def transaction_Inr seqp_Inr write_processed_def)

lemma delete_jobs_changes:
  "delete_jobs p db = (Inr n, db') \<Longrightarrow> n = count_where p (q_jobs db)"
  by (simp add: delete_jobs_def Let_def)

lemma delete_jobs_found:
  "delete_jobs (\<lambda>j. jb_execution_key j = key \<and> jb_stage j = st) db = (Inr 1, db') \<Longrightarrow>
   \<exists>j \<in> set (q_jobs db). jb_execution_key j = key \<and> jb_stage j = st"
  using delete_jobs_changes count_where_pos by fastforce

lemma find_job_row_unique:
  assumes "distinct (map jb_execution_key (q_jobs db))" and "j \<in> set (q_jobs db)"
  shows "find_job_row (jb_execution_key j) db = Some j"
  using find_distinct_key[OF assms] by (simp add: find_job_row_def)

lemma complete_job_keeps:
  assumes ok: "queue_ok cfg db" and step: "complete_job cfg now key db = (Inr u, db')"
  shows "queue_ok cfg db'"
  using step
proof (rule complete_job_Inr)
  fix db1 db2
  assume db1: "db1 = db\<lparr>q_processed := insert_or_ignore (q_processed db) (processed_rows_of key now db)\<rparr>"
    and trim: "trim_processed_of (qc_processed_capacity cfg) key db1 = (Inr (), db2)"
    and del: "delete_jobs (\<lambda>j. jb_execution_key j = key \<and> jb_stage j = ReportPending) db2 = (Inr 1, db')"
  let ?cap = "qc_processed_capacity cfg"
  have dist: "distinct (map jb_execution_key (q_jobs db))" using ok by (simp add: queue_ok_def keys_ok_def)
  have jobs2: "q_jobs db2 = q_jobs db" using trim
    by (auto simp: trim_processed_of_def db1 split: option.splits)
  obtain j where j: "j \<in> set (q_jobs db)" "jb_execution_key j = key"
    using delete_jobs_found[OF del] jobs2 by auto
  have found: "find_job_row key db = Some j" using find_job_row_unique[OF dist j(1)] j(2) by simp
  have "find_job_row key db1 = Some j" using found by (simp add: db1 find_job_row_def)
  then have db2: "db2 = db\<lparr>q_processed := trim_processed ?cap (jb_task_id j) (q_processed db1)\<rparr>"
    using trim by (simp add: trim_processed_of_def db1)
  have keys: "distinct (map processed_key (q_processed db1))"
    using ok by (simp add: db1 queue_ok_def keys_ok_def insert_or_ignore_distinct)
  have bound: "processed_count task (q_processed db2) \<le> ?cap" for task
  proof (cases "task = jb_task_id j")
    case True
    then show ?thesis using trim_processed_bound[of "q_processed db1"] keys by (simp add: db2 distinct_map)
  next
    case False
    obtain new where new: "q_processed db1 = q_processed db @ new" "set new \<subseteq> set (processed_rows_of key now db)"
      using insert_or_ignore_append[of "q_processed db" "processed_rows_of key now db"] by (auto simp: db1)
    have "filter (\<lambda>r. pf_task_id r = task) new = []"
      using False new(2) processed_rows_of_task[OF found dist] by (auto simp: filter_empty_conv)
    then have "processed_count task (q_processed db2) = processed_count task (q_processed db)"
      using False by (simp add: processed_count_def count_where_def db2 trim_processed_other new(1))
    then show ?thesis using ok by (simp add: queue_ok_def bounds_ok_def)
  qed
  have "queue_ok cfg db2"
  proof (rule queue_okI)
    show "keys_ok db2" using ok keys
      by (simp add: queue_ok_def keys_ok_def job_keys_def) (simp add: db2 trim_processed_def distinct_map_filter_key)
    show "jobs_ok db2" "log_ok db2" using ok by (simp_all add: queue_ok_def jobs_ok_def log_ok_def delivery_keys_def db2)
    show "bounds_ok cfg db2" using ok bound by (simp add: queue_ok_def bounds_ok_def jobs2)
  qed
  then show ?thesis using del by (rule delete_jobs_keeps)
qed

lemma discard_start_pending_job_keeps:
  "queue_ok cfg db \<Longrightarrow> discard_start_pending_job key db = (Inr u, db') \<Longrightarrow> queue_ok cfg db'"
  by (auto simp: discard_start_pending_job_def transaction_Inr seqp_Inr intro: delete_jobs_keeps)

lemma mark_requires_attention_Inr:
  assumes "mark_requires_attention now key kind reason db = (Inr u, db')"
  obtains j resume n where "find_job_row key db = Some j" and "attention_resume_stage key j = Inr resume"
    and "update_jobs (\<lambda>j. jb_execution_key j = key)
           (\<lambda>j. j\<lparr>jb_stage := RequiresAttention, jb_retry_stage := Some resume,
                  jb_last_error_kind := Some kind, jb_last_error := Some (take 512 reason),
                  jb_updated_at := now\<rparr>) db = (Inr n, db')"
  using assms by (auto simp: mark_requires_attention_def transaction_Inr seqp_Inr split: option.splits)

lemma attention_resume_stage_effective:
  "attention_resume_stage key j = Inr st \<Longrightarrow> effective_stage j = Some st \<and> jb_stage j \<noteq> RequiresAttention"
  by (auto simp: attention_resume_stage_def effective_stage_def split: if_splits option.splits)

lemma mark_requires_attention_keeps:
  assumes ok: "queue_ok cfg db" and step: "mark_requires_attention now key kind reason db = (Inr u, db')"
  shows "queue_ok cfg db'"
  using step
proof (rule mark_requires_attention_Inr)
  fix j resume n
  assume found: "find_job_row key db = Some j" and resume: "attention_resume_stage key j = Inr resume"
    and upd: "update_jobs (\<lambda>j. jb_execution_key j = key)
           (\<lambda>j. j\<lparr>jb_stage := RequiresAttention, jb_retry_stage := Some resume,
                  jb_last_error_kind := Some kind, jb_last_error := Some (take 512 reason),
                  jb_updated_at := now\<rparr>) db = (Inr n, db')"
  have dist: "distinct (map jb_execution_key (q_jobs db))" using ok by (simp add: queue_ok_def keys_ok_def)
  have same: "j' = j" if "j' \<in> set (q_jobs db)" "jb_execution_key j' = key" for j'
    using inj_key_eq[OF dist] find_job_row_Some[OF found] that by metis
  show ?thesis
  proof (rule update_jobs_keeps[OF ok upd])
    fix j' assume "j' \<in> set (q_jobs db)" "jb_execution_key j' = key" "job_ok (delivery_keys db) j'"
    then show "job_ok (delivery_keys db) (j'\<lparr>jb_stage := RequiresAttention, jb_retry_stage := Some resume,
        jb_last_error_kind := Some kind, jb_last_error := Some (take 512 reason), jb_updated_at := now\<rparr>)"
      using same[of j'] attention_resume_stage_effective[OF resume]
      by (simp add: job_ok_def effective_stage_def[where j = "_\<lparr>jb_stage := _, jb_retry_stage := _, jb_last_error_kind := _, jb_last_error := _, jb_updated_at := _\<rparr>"])
  qed simp
qed

lemma failed_delivery_simps [simp]:
  "delivery_key (failed_delivery now delay kind http message d) = delivery_key d"
  "delivery_identity (failed_delivery now delay kind http message d) = delivery_identity d"
  "dl_execution_key (failed_delivery now delay kind http message d) = dl_execution_key d"
  "dl_request_type (failed_delivery now delay kind http message d) = dl_request_type d"
  "dl_request (failed_delivery now delay kind http message d) = dl_request d"
  "dl_attempt_count (failed_delivery now delay kind http message d) = dl_attempt_count d + 1"
  by (simp_all add: failed_delivery_def delivery_key_def delivery_identity_def)

lemma failed_job_key [simp]:
  "jb_execution_key (failed_job now delay retryable kind message j) = jb_execution_key j"
  by (simp add: failed_job_def)

lemma failed_job_ok:
  "is_delivering_stage (jb_stage j) \<Longrightarrow> job_ok ks j \<Longrightarrow> job_ok ks (failed_job now delay retryable kind message j)"
  by (auto simp: failed_job_def job_ok_def effective_stage_def is_delivering_stage_def)

lemma find_delivery_exists:
  assumes "r \<in> set (q_deliveries db)" and "delivery_identity r = (ty, ikey)"
  obtains d where "find_delivery ty ikey db = Some d"
  using assms by (cases "find_delivery ty ikey db") (auto simp: find_delivery_def find_None_iff delivery_identity_def)

lemma record_delivery_failure_Inr:
  assumes step: "record_delivery_failure now ty ikey retryable kind http message delay db = (Inr u, db')"
  obtains db1 db2 d n where
    "update_deliveries (\<lambda>d. delivery_identity d = (ty, ikey)) (failed_delivery now delay kind http message) db = (Inr 1, db1)"
    and "find_delivery ty ikey db1 = Some d"
    and "update_jobs (\<lambda>j. jb_execution_key j = dl_execution_key d \<and> is_delivering_stage (jb_stage j))
          (failed_job now delay retryable kind message) db1 = (Inr n, db2)"
    and "db' = db2\<lparr>q_attempts := q_attempts db2 @ [failed_attempt now retryable kind http message d]\<rparr>"
proof -
  from step obtain db1 where upd: "update_deliveries (\<lambda>d. delivery_identity d = (ty, ikey))
      (failed_delivery now delay kind http message) db = (Inr 1, db1)"
    by (auto simp: record_delivery_failure_def transaction_Inr seqp_Inr)
  then have db1: "db1 = db\<lparr>q_deliveries := update_where (\<lambda>d. delivery_identity d = (ty, ikey))
      (failed_delivery now delay kind http message) (q_deliveries db)\<rparr>"
    and "count_where (\<lambda>d. delivery_identity d = (ty, ikey)) (q_deliveries db) \<noteq> 0"
    by (simp_all add: update_deliveries_def)
  then obtain d0 where d0: "d0 \<in> set (q_deliveries db)" "delivery_identity d0 = (ty, ikey)"
    unfolding count_where_pos by blast
  then have "failed_delivery now delay kind http message d0 \<in> set (q_deliveries db1)"
    unfolding db1 by (simp add: set_update_where)
  then obtain d where "find_delivery ty ikey db1 = Some d"
    by (rule find_delivery_exists) (simp add: d0)
  moreover from this step upd obtain db2 n where
    "update_jobs (\<lambda>j. jb_execution_key j = dl_execution_key d \<and> is_delivering_stage (jb_stage j))
       (failed_job now delay retryable kind message) db1 = (Inr n, db2)"
    "insert_attempt_row ''insert delivery attempt'' (failed_attempt now retryable kind http message d) db2 = (Inr (), db')"
    unfolding record_delivery_failure_def transaction_Inr seqp_Inr by auto
  ultimately show ?thesis using upd that by (auto simp: insert_attempt_row_def split: if_splits)
qed

lemma numbered_snoc: "0 \<le> n \<Longrightarrow> numbered n log \<Longrightarrow> at_attempt_number a = n + 1 \<Longrightarrow> numbered (n + 1) (log @ [a])"
  by (simp add: numbered_def upto_rec2)

text \<open>The counter of the failed delivery and its log grow by one together; no other delivery changes.\<close>

lemma failed_log:
  assumes ok: "log_ok db" and ids: "distinct (map delivery_identity (q_deliveries db))"
    and keys: "distinct (map delivery_key (q_deliveries db))"
    and dels: "q_deliveries db' = update_where (\<lambda>d. delivery_identity d = k) (failed_delivery now delay kind http message) (q_deliveries db)"
    and d: "d \<in> set (q_deliveries db')" "delivery_identity d = k"
    and att: "q_attempts db' = q_attempts db @ [failed_attempt now retryable kind http message d]"
  shows "log_ok db'"
proof -
  let ?row = "failed_attempt now retryable kind http message d"
  have mk: "map delivery_key (q_deliveries db') = map delivery_key (q_deliveries db)"
    and mi: "map delivery_identity (q_deliveries db') = map delivery_identity (q_deliveries db)"
    by (simp_all add: dels update_where_keys)
  have dk: "delivery_keys db' = delivery_keys db" using arg_cong[OF mk, of set] by (simp add: delivery_keys_def)
  have row: "attempt_key ?row = delivery_key d" "at_attempt_number ?row = dl_attempt_count d"
    by (simp_all add: failed_attempt_def attempt_key_def delivery_key_def)
  show ?thesis unfolding log_ok_def dk
  proof (intro conjI ballI)
    have "delivery_key d \<in> delivery_keys db" using d(1) dk by (auto simp: delivery_keys_def)
    then show "attempt_key ` set (q_attempts db') \<subseteq> delivery_keys db"
      using ok by (simp add: att row log_ok_def)
    fix e assume e: "e \<in> set (q_deliveries db')"
    then obtain e0 where e0: "e0 \<in> set (q_deliveries db)"
      "e = (if delivery_identity e0 = k then failed_delivery now delay kind http message e0 else e0)"
      unfolding dels by (rule in_update_whereE)
    have old: "0 \<le> dl_attempt_count e0" "numbered (dl_attempt_count e0) (attempts_of (delivery_key e0) (q_attempts db))"
      using ok e0(1) by (auto simp: log_ok_def)
    have same: "delivery_key e = delivery_key e0" "delivery_identity e = delivery_identity e0" using e0(2) by auto
    show "0 \<le> dl_attempt_count e" using old e0(2) by auto
    have iff: "delivery_key e = delivery_key d \<longleftrightarrow> delivery_identity e = k"
      using inj_key_eq[of delivery_key "q_deliveries db'" e d] inj_key_eq[of delivery_identity "q_deliveries db'" e d]
        keys ids e d mk mi by auto
    show "numbered (dl_attempt_count e) (attempts_of (delivery_key e) (q_attempts db'))"
    proof (cases "delivery_identity e = k")
      case True
      with iff inj_key_eq[of delivery_key "q_deliveries db'" e d] keys mk e d have "e = d" by auto
      with True same old e0(2) row show ?thesis by (auto simp: attempts_of_def att intro: numbered_snoc)
    next
      case False
      with iff same old e0(2) row show ?thesis by (auto simp: attempts_of_def att)
    qed
  qed
qed

lemma record_delivery_failure_keeps:
  assumes ok: "queue_ok cfg db"
    and step: "record_delivery_failure now ty ikey retryable kind http message delay db = (Inr u, db')"
  shows "queue_ok cfg db'"
  using step
proof (rule record_delivery_failure_Inr)
  fix db1 db2 :: queue_db and d :: delivery_row and n :: nat
  let ?p = "\<lambda>d. delivery_identity d = (ty, ikey)"
  assume upd: "update_deliveries ?p (failed_delivery now delay kind http message) db = (Inr 1, db1)"
    and found: "find_delivery ty ikey db1 = Some d"
    and jobs: "update_jobs (\<lambda>j. jb_execution_key j = dl_execution_key d \<and> is_delivering_stage (jb_stage j))
          (failed_job now delay retryable kind message) db1 = (Inr n, db2)"
    and db': "db' = db2\<lparr>q_attempts := q_attempts db2 @ [failed_attempt now retryable kind http message d]\<rparr>"
  have db1: "db1 = db\<lparr>q_deliveries := update_where ?p (failed_delivery now delay kind http message) (q_deliveries db)\<rparr>"
    using upd by (auto simp: update_deliveries_def)
  have db2: "db2 = db1\<lparr>q_jobs := update_where (\<lambda>j. jb_execution_key j = dl_execution_key d \<and>
      is_delivering_stage (jb_stage j)) (failed_job now delay retryable kind message) (q_jobs db1)\<rparr>"
    using jobs by (auto simp: update_jobs_def)
  have frame: "q_files db' = q_files db" "q_processed db' = q_processed db"
    "q_deliveries db' = update_where ?p (failed_delivery now delay kind http message) (q_deliveries db)"
    "q_attempts db' = q_attempts db @ [failed_attempt now retryable kind http message d]"
    by (simp_all add: db' db2 db1)
  have d: "d \<in> set (q_deliveries db')" "delivery_identity d = (ty, ikey)"
    using find_delivery_Some[OF found] by (simp_all add: db' db2 delivery_identity_def)
  have dk: "delivery_keys db' = delivery_keys db" by (simp add: delivery_keys_def frame image_update_where)
  have jk: "map jb_execution_key (q_jobs db') = map jb_execution_key (q_jobs db)"
    by (simp add: db' db2 db1 update_where_keys)
  then have jks: "job_keys db' = job_keys db" by (metis job_keys_def list.set_map)
  have "dl_execution_key d \<in> job_keys db"
    using ok d(1) by (auto simp: queue_ok_def keys_ok_def frame elim!: in_update_whereE)
  then have "keys_ok db'"
    using ok unfolding queue_ok_def keys_ok_def jks jk
    by (simp add: frame update_where_keys image_update_where failed_attempt_def)
  moreover have "jobs_ok db'"
    using ok unfolding queue_ok_def jobs_ok_def dk by (auto simp: db' db2 db1 failed_job_ok elim!: in_update_whereE)
  moreover have "log_ok db'"
    using ok d frame by (intro failed_log[of db db']) (auto simp: queue_ok_def keys_ok_def)
  moreover have "bounds_ok cfg db'" using ok by (simp add: queue_ok_def bounds_ok_def frame) (simp add: db' db2 db1)
  ultimately show ?thesis by (rule queue_okI)
qed

lemma resume_delivery_Inr:
  assumes "resume_delivery ty ikey db = (Inr u, db')"
  obtains d n where "find_delivery ty ikey db = Some d"
    and "\<forall>j \<in> set (q_jobs db). jb_execution_key j = dl_execution_key d \<and> jb_stage j = RetryWait \<longrightarrow> jb_retry_stage j \<noteq> None"
    and "update_jobs (\<lambda>j. jb_execution_key j = dl_execution_key d \<and> jb_stage j = RetryWait)
           (\<lambda>j. j\<lparr>jb_stage := the (jb_retry_stage j), jb_retry_stage := None, jb_next_attempt_at := None\<rparr>) db = (Inr n, db')"
  using assms by (auto simp: resume_delivery_def seqp_Inr Let_def count_where_zero split: option.splits)

lemma resume_delivery_keeps:
  assumes ok: "queue_ok cfg db" and step: "resume_delivery ty ikey db = (Inr u, db')"
  shows "queue_ok cfg db'"
  using step
proof (rule resume_delivery_Inr)
  fix d :: delivery_row and n
  assume upd: "update_jobs (\<lambda>j. jb_execution_key j = dl_execution_key d \<and> jb_stage j = RetryWait)
     (\<lambda>j. j\<lparr>jb_stage := the (jb_retry_stage j), jb_retry_stage := None, jb_next_attempt_at := None\<rparr>) db = (Inr n, db')"
  show ?thesis
    by (rule update_jobs_keeps[OF ok upd])
      (auto simp: job_ok_def effective_stage_def is_executable_stage_def)
qed

lemma key_count_1:
  assumes dist: "distinct (map jb_execution_key (q_jobs db))" and j: "j \<in> set (q_jobs db)" "P j"
  shows "count_where (\<lambda>j'. jb_execution_key j' = jb_execution_key j \<and> P j') (q_jobs db) = 1"
proof -
  let ?n = "count_where (\<lambda>j'. jb_execution_key j' = jb_execution_key j \<and> P j') (q_jobs db)"
  have "?n \<le> 1" by (rule count_where_key_le_1[OF dist]) simp
  moreover have "?n \<noteq> 0" unfolding count_where_pos using j by blast
  ultimately show ?thesis by simp
qed

lemma retry_attention_job_Inr:
  assumes dist: "distinct (map jb_execution_key (q_jobs db))"
    and step: "retry_attention_job now key db = (Inr r, db')"
  obtains (idle) j where "find_job_row key db = Some j" "jb_stage j \<noteq> RequiresAttention"
      "r = NotAttention (jb_stage j)" "db' = db"
  | (resumed) j resume db1 n m where "find_job_row key db = Some j" "jb_stage j = RequiresAttention"
      "retry_resume_stage key j = Inr resume" "r = Resumed resume"
      "update_jobs (\<lambda>j. jb_execution_key j = key \<and> jb_stage j = RequiresAttention)
         (\<lambda>j. j\<lparr>jb_stage := resume, jb_retry_stage := None, jb_next_attempt_at := None,
                jb_updated_at := now\<rparr>) db = (Inr n, db1)"
      "update_deliveries (\<lambda>d. dl_execution_key d = key)
         (\<lambda>d. d\<lparr>dl_next_attempt_at := None, dl_updated_at := now\<rparr>) db1 = (Inr m, db')"
proof -
  from step obtain j where found: "find_job_row key db = Some j"
    by (auto simp: retry_attention_job_def transaction_Inr seqp_Inr split: option.splits)
  show ?thesis
  proof (cases "jb_stage j = RequiresAttention")
    case False
    with step found show ?thesis by (auto simp: retry_attention_job_def transaction_Inr seqp_Inr intro: idle)
  next
    case True
    have "count_where (\<lambda>j. jb_execution_key j = key \<and> jb_stage j = RequiresAttention) (q_jobs db) = 1"
      using key_count_1[OF dist, of j "\<lambda>j. jb_stage j = RequiresAttention"] find_job_row_Some[OF found] True by simp
    with step found True show ?thesis
      by (auto simp: retry_attention_job_def transaction_Inr seqp_Inr update_jobs_def intro: resumed)
  qed
qed

lemma retry_resume_stage_ok:
  "job_ok ks j \<Longrightarrow> jb_stage j = RequiresAttention \<Longrightarrow> retry_resume_stage key j = Inr st \<Longrightarrow>
   effective_stage j = Some st \<and> is_executable_stage st"
  by (auto simp: retry_resume_stage_def job_ok_def effective_stage_def split: option.splits if_splits)

lemma queue_ok_keys: "queue_ok cfg db \<Longrightarrow> distinct (map jb_execution_key (q_jobs db))"
  by (simp add: queue_ok_def keys_ok_def)

lemma retry_attention_job_keeps:
  assumes ok: "queue_ok cfg db" and step: "retry_attention_job now key db = (Inr r, db')"
  shows "queue_ok cfg db'"
  using queue_ok_keys[OF ok] step
proof (cases rule: retry_attention_job_Inr)
  case idle
  then show ?thesis using ok by simp
next
  case (resumed j resume db1 n m)
  have j: "j \<in> set (q_jobs db)" "jb_execution_key j = key" using find_job_row_Some resumed(1) by blast+
  have same: "j' = j" if "j' \<in> set (q_jobs db)" "jb_execution_key j' = key" for j'
    using inj_key_eq[OF queue_ok_keys[OF ok] that(1) j(1)] that(2) j(2) by simp
  have "job_ok (delivery_keys db) j" using ok j(1) by (simp add: queue_ok_def jobs_ok_def)
  then have st: "effective_stage j = Some resume" "is_executable_stage resume"
    using retry_resume_stage_ok resumed(2,3) by blast+
  have "queue_ok cfg db1"
  proof (rule update_jobs_keeps[OF ok resumed(5)])
    fix j' assume "j' \<in> set (q_jobs db)" "jb_execution_key j' = key \<and> jb_stage j' = RequiresAttention"
      and "job_ok (delivery_keys db) j'"
    with same[of j'] st show "job_ok (delivery_keys db) (j'\<lparr>jb_stage := resume, jb_retry_stage := None,
        jb_next_attempt_at := None, jb_updated_at := now\<rparr>)"
      by (auto simp: job_ok_def effective_stage_def is_executable_stage_def split: if_splits)
  qed simp
  then show ?thesis using resumed(6)
    by (rule update_deliveries_keeps) (simp_all add: delivery_key_def delivery_identity_def)
qed

end
