(* ===== verification/Queue_Properties.thy ===== *)
theory Queue_Properties
  imports Queue_Invariant
begin

text \<open>
  The queue as a state machine: \<open>queue_op\<close> is one call of one operation of \<open>AgentQueueStore\<close> or
  \<open>AgentQueueMaintenance\<close> that may change the database, \<open>run_op\<close> performs it, and \<open>queue_step\<close>
  is any such call at any time. The theorems are about every database such calls can produce.
\<close>

datatype queue_op =
    BeginJob task_config start_request "retry_file_input list"
  | SaveFilePlan string "file_plan list" "failed_file list"
  | SaveFileFailures string "failed_file list"
  | MarkFileFailed string int string "failed_file list"
  | MarkFileArchived string int
  | AcceptStart string string
  | SaveManifest string manifest_request
  | AcceptManifest string "string list"
  | SaveReport string report_request "bool list"
  | CompleteJob string
  | DiscardStartPending string
  | MarkRequiresAttention string string string
  | RecordDeliveryFailure request_type string bool string nat string int
  | ResumeDelivery request_type string
  | RetryAttentionJob string

definition forget :: "'a qproc \<Rightarrow> unit qproc" where
  "forget m = seqp m (\<lambda>_. ret ())"

fun run_op :: "queue_config \<Rightarrow> int \<Rightarrow> queue_op \<Rightarrow> unit qproc" where
  "run_op cfg now (BeginJob task request retry) = forget (begin_job cfg now task request retry)"
| "run_op cfg now (SaveFilePlan key files failures) = save_file_plan now key files failures"
| "run_op cfg now (SaveFileFailures key failures) = save_file_failures now key failures"
| "run_op cfg now (MarkFileFailed key i detail failures) = mark_file_failed now key i detail failures"
| "run_op cfg now (MarkFileArchived key i) = mark_file_archived key i"
| "run_op cfg now (AcceptStart key run) = accept_start now key run"
| "run_op cfg now (SaveManifest key request) = save_manifest now key request"
| "run_op cfg now (AcceptManifest key ids) = accept_manifest now key ids"
| "run_op cfg now (SaveReport key request outcomes) = save_report now key request outcomes"
| "run_op cfg now (CompleteJob key) = complete_job cfg now key"
| "run_op cfg now (DiscardStartPending key) = discard_start_pending_job key"
| "run_op cfg now (MarkRequiresAttention key kind reason) = mark_requires_attention now key kind reason"
| "run_op cfg now (RecordDeliveryFailure ty ikey retryable kind http message delay) =
     record_delivery_failure now ty ikey retryable kind http message delay"
| "run_op cfg now (ResumeDelivery ty ikey) = resume_delivery ty ikey"
| "run_op cfg now (RetryAttentionJob key) = forget (retry_attention_job now key)"

definition queue_step :: "queue_config \<Rightarrow> queue_db \<Rightarrow> queue_db \<Rightarrow> bool" where
  "queue_step cfg db db' \<longleftrightarrow> (\<exists>now op r. run_op cfg now op db = (r, db'))"

definition queue_reachable :: "queue_config \<Rightarrow> queue_db \<Rightarrow> bool" where
  "queue_reachable cfg = reachable (\<lambda>db. db = empty_queue) (queue_step cfg)"

section \<open>Atomicity\<close>

lemma seqp_Inl:
  "seqp m f s = (Inl e, t) \<Longrightarrow> m s = (Inl e, t) \<or> (\<exists>a u. m s = (Inr a, u) \<and> f a u = (Inl e, t))"
  by (auto simp: seqp_def split: prod.splits sum.splits)

lemma forget_Inr [simp]: "forget m s = (Inr u, t) \<longleftrightarrow> (\<exists>a. m s = (Inr a, t))"
  by (auto simp: forget_def seqp_Inr)

lemma forget_Inl [simp]: "forget m s = (Inl e, t) \<longleftrightarrow> m s = (Inl e, t)"
  by (auto simp: forget_def seqp_def ret_def split: prod.splits sum.splits)

lemma update_where_none: "count_where p rows = 0 \<Longrightarrow> update_where p f rows = rows"
  by (auto simp: count_where_zero update_where_def intro!: map_idI)

lemma mark_file_archived_Inl:
  assumes keys: "distinct (map file_key (q_files db))" and step: "mark_file_archived key i db = (Inl e, db')"
  shows "db' = db"
proof -
  let ?p = "\<lambda>f. fl_execution_key f = key \<and> fl_ordinal f = i"
  have "count_where ?p (q_files db) \<le> 1"
    by (rule count_where_key_le_1[OF keys, where x = "(key, i)"]) (simp add: file_key_def)
  moreover have "count_where ?p (q_files db) \<noteq> 1"
    and db': "db' = db\<lparr>q_files := update_where ?p (\<lambda>f. f\<lparr>fl_archive_state := ''archived''\<rparr>) (q_files db)\<rparr>"
    using step by (auto simp: mark_file_archived_def update_files_def seqp_def require_def split: if_splits)
  ultimately have "count_where ?p (q_files db) = 0" by linarith
  then show ?thesis using db' by (simp add: update_where_none)
qed

lemma resume_delivery_Inl: "resume_delivery ty ikey db = (Inl e, db') \<Longrightarrow> db' = db"
  by (auto simp: resume_delivery_def Let_def seqp_def gets_def throw_def require_def ret_def update_jobs_def
      split: option.splits prod.splits sum.splits if_splits)

lemma dumped_transaction_Inl: "seqp (dump_all docs) (\<lambda>_. transaction m) s = (Inl e, t) \<Longrightarrow> t = s"
  by (auto simp: dump_all_def require_def dest!: seqp_Inl transaction_Inl split: if_splits)

lemma begin_job_Inl: "begin_job cfg now task request retry db = (Inl e, db') \<Longrightarrow> db' = db"
  by (auto simp: begin_job_def throw_def dump_all_def require_def dest!: seqp_Inl transaction_Inl split: if_splits)

lemma save_report_Inl: "save_report now key request outcomes db = (Inl e, db') \<Longrightarrow> db' = db"
  by (auto simp: save_report_def lift_sum_def dump_all_def require_def dest!: seqp_Inl transaction_Inl split: if_splits)

lemmas transactional = save_file_plan_def save_file_failures_def mark_file_failed_def accept_start_def
  save_manifest_def accept_manifest_def complete_job_def discard_start_pending_job_def
  mark_requires_attention_def record_delivery_failure_def retry_attention_job_def

lemma run_op_Inl:
  assumes "distinct (map file_key (q_files db))" and "run_op cfg now op db = (Inl e, db')"
  shows "db' = db"
  using assms(2)
  by (cases op) (auto simp: transactional dest: transaction_Inl dumped_transaction_Inl begin_job_Inl save_report_Inl
      resume_delivery_Inl mark_file_archived_Inl[OF assms(1)])

section \<open>The invariant holds in every reachable database\<close>

lemma run_op_keeps:
  assumes ok: "queue_ok cfg db" and step: "run_op cfg now op db = (r, db')"
  shows "queue_ok cfg db'"
proof (cases r)
  case (Inl e)
  with step run_op_Inl[of db cfg now op e db'] ok show ?thesis by (simp add: queue_ok_def keys_ok_def)
next
  case (Inr u)
  with step show ?thesis
    by (cases op)
      (auto intro: begin_job_keeps[OF ok] save_file_plan_keeps[OF ok] save_file_failures_keeps[OF ok]
        mark_file_failed_keeps[OF ok] mark_file_archived_keeps[OF ok] accept_start_keeps[OF ok]
        save_manifest_keeps[OF ok] accept_manifest_keeps[OF ok] save_report_keeps[OF ok]
        complete_job_keeps[OF ok] discard_start_pending_job_keeps[OF ok]
        mark_requires_attention_keeps[OF ok] record_delivery_failure_keeps[OF ok]
        resume_delivery_keeps[OF ok] retry_attention_job_keeps[OF ok])
qed

interpretation queue: invariant_system "\<lambda>db. db = empty_queue" "queue_step cfg" "queue_ok cfg" for cfg
  by unfold_locales (auto simp: queue_ok_empty queue_step_def run_op_keeps)

lemma queue_reachable_ok: "queue_reachable cfg db \<Longrightarrow> queue_ok cfg db"
  unfolding queue_reachable_def by (rule queue.reachable_inv)

lemma queue_reachable_run:
  "queue_reachable cfg db \<Longrightarrow> run_op cfg now op db = (r, db') \<Longrightarrow> queue_reachable cfg db'"
  unfolding queue_reachable_def by (rule reachable_step) (auto simp: queue_step_def)

lemma queue_reachable_empty: "queue_reachable cfg empty_queue"
  unfolding queue_reachable_def by (rule reachable_init) simp

section \<open>How a job moves through its stages\<close>

text \<open>The order of a job's work: manual waits and retries keep the effective stage.\<close>

inductive stage_edge :: "job_stage \<Rightarrow> job_stage \<Rightarrow> bool" where
  stage_stays: "stage_edge st st"
| stage_started: "stage_edge StartPending Collecting"
| stage_collected: "stage_edge Collecting ManifestPending"
| stage_manifest_accepted: "stage_edge ManifestPending ReportBuilding"
| stage_built: "stage_edge ReportBuilding ReportPending"
| stage_nothing_archived: "stage_edge Collecting ReportPending"

inductive_simps stage_edge_to [simp]: "stage_edge st StartPending" "stage_edge st Collecting"
  "stage_edge st ManifestPending" "stage_edge st ReportBuilding" "stage_edge st ReportPending"
inductive_cases stage_edge_fromE: "stage_edge st st'"

definition evolves :: "job_row \<Rightarrow> job_row \<Rightarrow> bool" where
  "evolves j j' \<longleftrightarrow> jb_execution_key j' = jb_execution_key j \<and> jb_task_id j' = jb_task_id j \<and>
     jb_task_config j' = jb_task_config j \<and> jb_started_at j' = jb_started_at j \<and>
     (\<exists>st st'. effective_stage j = Some st \<and> effective_stage j' = Some st' \<and> stage_edge st st')"

lemma evolves_refl: "job_ok ks j \<Longrightarrow> evolves j j"
  by (auto simp: evolves_def job_ok_def intro: stage_stays)

text \<open>Every job of the database afterwards comes from one of before, or has just been queued.\<close>

definition jobs_evolve :: "queue_db \<Rightarrow> queue_db \<Rightarrow> bool" where
  "jobs_evolve db db' \<longleftrightarrow> (\<forall>j' \<in> set (q_jobs db').
     (\<exists>j \<in> set (q_jobs db). evolves j j') \<or> (jb_execution_key j' \<notin> job_keys db \<and> jb_stage j' = StartPending))"

lemma jobs_evolve_update:
  assumes ok: "jobs_ok db" and jobs: "q_jobs db' = update_where p f (q_jobs db)"
    and f: "\<And>j. j \<in> set (q_jobs db) \<Longrightarrow> p j \<Longrightarrow> job_ok (delivery_keys db) j \<Longrightarrow> evolves j (f j)"
  shows "jobs_evolve db db'"
proof -
  have "\<exists>j \<in> set (q_jobs db). evolves j j'" if j': "j' \<in> set (q_jobs db')" for j'
  proof -
    from j' obtain j where j: "j \<in> set (q_jobs db)" "j' = (if p j then f j else j)"
      unfolding jobs by (rule in_update_whereE)
    have "job_ok (delivery_keys db) j" using ok j(1) by (simp add: jobs_ok_def)
    with f[of j] j have "evolves j j'" by (cases "p j") (auto intro: evolves_refl)
    with j(1) show ?thesis by blast
  qed
  then show ?thesis by (simp add: jobs_evolve_def)
qed

lemma jobs_evolve_subset:
  "jobs_ok db \<Longrightarrow> set (q_jobs db') \<subseteq> set (q_jobs db) \<Longrightarrow> jobs_evolve db db'"
  unfolding jobs_evolve_def jobs_ok_def using evolves_refl by blast

lemma update_jobs_rows: "update_jobs p f db = (Inr n, db') \<Longrightarrow> q_jobs db' = update_where p f (q_jobs db)"
  by (auto simp: update_jobs_def)

lemma update_files_rows: "update_files p f db = (Inr n, db') \<Longrightarrow> q_jobs db' = q_jobs db \<and> q_deliveries db' = q_deliveries db"
  by (auto simp: update_files_def)

lemma set_file_failures_evolve:
  assumes "jobs_ok db" and "set_file_failures key failures now db1 = (Inr n, db')" and "q_jobs db1 = q_jobs db"
  shows "jobs_evolve db db'"
  using assms(1) update_jobs_rows[OF assms(2)[unfolded set_file_failures_def]] unfolding assms(3)
  by (rule jobs_evolve_update) (auto simp: evolves_def job_ok_def effective_stage_def intro: stage_stays)

lemma insert_files_rows:
  assumes "for_each (insert_pending_file key) files db = (Inr u, db')"
  shows "q_jobs db' = q_jobs db"
  using assms by (rule for_each_keeps[where P = "\<lambda>s. q_jobs s = q_jobs db"])
    (auto simp: insert_pending_file_def insert_file_row_def split: if_splits)

lemma map_raw_file_ids_rows:
  assumes "for_each (map_raw_file_id key) items db = (Inr u, db')"
  shows "q_jobs db' = q_jobs db"
  using assms by (rule for_each_keeps[where P = "\<lambda>s. q_jobs s = q_jobs db"])
    (auto simp: map_raw_file_id_def seqp_Inr dest: update_files_rows)

lemma trim_processed_of_rows: "trim_processed_of n key db = (Inr u, db') \<Longrightarrow> q_jobs db' = q_jobs db"
  by (auto simp: trim_processed_of_def split: option.splits)

lemma delete_jobs_rows: "delete_jobs p db = (Inr n, db') \<Longrightarrow> q_jobs db' = filter (\<lambda>j. \<not> p j) (q_jobs db)"
  by (auto simp: delete_jobs_def Let_def)

lemma accept_start_evolve:
  assumes ok: "jobs_ok db" and step: "accept_start now key run db = (Inr u, db')"
  shows "jobs_evolve db db'"
proof -
  from step have "q_jobs db' = update_where (\<lambda>j. jb_execution_key j = key \<and> jb_stage j = StartPending)
     (\<lambda>j. j\<lparr>jb_task_run_id := Some run, jb_stage := Collecting, jb_updated_at := now\<rparr>) (q_jobs db)"
    by (auto simp: accept_start_def transaction_Inr seqp_Inr dest: update_jobs_rows)
  with ok show ?thesis by (rule jobs_evolve_update) (auto simp: evolves_def effective_stage_def)
qed

lemma save_manifest_evolve:
  assumes ok: "jobs_ok db" and step: "save_manifest now key request db = (Inr u, db')"
  shows "jobs_evolve db db'"
proof -
  from step have "q_jobs db' = update_where (\<lambda>j. jb_execution_key j = key \<and> jb_stage j = Collecting)
     (\<lambda>j. j\<lparr>jb_stage := ManifestPending, jb_updated_at := now\<rparr>) (q_jobs db)"
    by (rule save_manifest_Inr) (auto dest!: update_jobs_rows insert_delivery_row_Inr)
  with ok show ?thesis by (rule jobs_evolve_update) (auto simp: evolves_def effective_stage_def)
qed

lemma accept_manifest_evolve:
  assumes ok: "jobs_ok db" and step: "accept_manifest now key ids db = (Inr u, db')"
  shows "jobs_evolve db db'"
proof -
  from step have "q_jobs db' = update_where (\<lambda>j. jb_execution_key j = key \<and> jb_stage j = ManifestPending)
     (\<lambda>j. j\<lparr>jb_stage := ReportBuilding, jb_updated_at := now\<rparr>) (q_jobs db)"
    by (rule accept_manifest_Inr) (auto dest!: update_jobs_rows map_raw_file_ids_rows)
  with ok show ?thesis by (rule jobs_evolve_update) (auto simp: evolves_def effective_stage_def)
qed

lemma save_report_evolve:
  assumes ok: "jobs_ok db" and step: "save_report now key request outcomes db = (Inr u, db')"
  shows "jobs_evolve db db'"
proof -
  from step have "q_jobs db' = update_where (\<lambda>j. jb_execution_key j = key \<and> (jb_stage j = Collecting \<or> jb_stage j = ReportBuilding))
     (\<lambda>j. j\<lparr>jb_stage := ReportPending, jb_updated_at := now\<rparr>) (q_jobs db)"
    by (rule save_report_Inr) (auto dest!: update_jobs_rows insert_delivery_row_Inr save_parsed_outcomes_frame)
  with ok show ?thesis by (rule jobs_evolve_update) (auto simp: evolves_def effective_stage_def)
qed

lemma record_delivery_failure_evolve:
  assumes ok: "jobs_ok db" and step: "record_delivery_failure now ty ikey retryable kind http message delay db = (Inr u, db')"
  shows "jobs_evolve db db'"
  using step
proof (rule record_delivery_failure_Inr)
  fix db1 db2 :: queue_db and d :: delivery_row and n :: nat
  assume "update_deliveries (\<lambda>d. delivery_identity d = (ty, ikey)) (failed_delivery now delay kind http message) db = (Inr 1, db1)"
    and "update_jobs (\<lambda>j. jb_execution_key j = dl_execution_key d \<and> is_delivering_stage (jb_stage j))
          (failed_job now delay retryable kind message) db1 = (Inr n, db2)"
    and "db' = db2\<lparr>q_attempts := q_attempts db2 @ [failed_attempt now retryable kind http message d]\<rparr>"
  then have "q_jobs db' = update_where (\<lambda>j. jb_execution_key j = dl_execution_key d \<and> is_delivering_stage (jb_stage j))
          (failed_job now delay retryable kind message) (q_jobs db)"
    by (auto simp: update_deliveries_def dest: update_jobs_rows)
  with ok show ?thesis
    by (rule jobs_evolve_update)
      (auto simp: evolves_def effective_stage_def failed_job_def is_delivering_stage_def intro: stage_stays)
qed

lemma resume_delivery_evolve:
  assumes ok: "jobs_ok db" and step: "resume_delivery ty ikey db = (Inr u, db')"
  shows "jobs_evolve db db'"
  using step
proof (rule resume_delivery_Inr)
  fix d :: delivery_row and n
  assume "update_jobs (\<lambda>j. jb_execution_key j = dl_execution_key d \<and> jb_stage j = RetryWait)
     (\<lambda>j. j\<lparr>jb_stage := the (jb_retry_stage j), jb_retry_stage := None, jb_next_attempt_at := None\<rparr>) db = (Inr n, db')"
  from ok update_jobs_rows[OF this] show ?thesis
    by (rule jobs_evolve_update)
      (auto simp: evolves_def job_ok_def effective_stage_def is_executable_stage_def intro: stage_stays)
qed

lemma mark_requires_attention_evolve:
  assumes ok: "jobs_ok db" and dist: "distinct (map jb_execution_key (q_jobs db))"
    and step: "mark_requires_attention now key kind reason db = (Inr u, db')"
  shows "jobs_evolve db db'"
  using step
proof (rule mark_requires_attention_Inr)
  fix j resume n
  assume found: "find_job_row key db = Some j" and resume: "attention_resume_stage key j = Inr resume"
    and upd: "update_jobs (\<lambda>j. jb_execution_key j = key)
           (\<lambda>j. j\<lparr>jb_stage := RequiresAttention, jb_retry_stage := Some resume,
                  jb_last_error_kind := Some kind, jb_last_error := Some (take 512 reason),
                  jb_updated_at := now\<rparr>) db = (Inr n, db')"
  have same: "j' = j" if "j' \<in> set (q_jobs db)" "jb_execution_key j' = key" for j'
    using inj_key_eq[OF dist that(1)] find_job_row_Some[OF found] that(2) by blast
  from ok update_jobs_rows[OF upd] show ?thesis
    by (rule jobs_evolve_update)
      (use same attention_resume_stage_effective[OF resume] in
        \<open>auto simp: evolves_def effective_stage_def intro: stage_stays\<close>)
qed

lemma retry_attention_job_evolve:
  assumes ok: "jobs_ok db" and dist: "distinct (map jb_execution_key (q_jobs db))"
    and step: "retry_attention_job now key db = (Inr r, db')"
  shows "jobs_evolve db db'"
  using dist step
proof (cases rule: retry_attention_job_Inr)
  case idle
  then show ?thesis using ok by (simp add: jobs_evolve_subset)
next
  case (resumed j resume db1 n m)
  have same: "j' = j" if "j' \<in> set (q_jobs db)" "jb_execution_key j' = key" for j'
    using inj_key_eq[OF dist that(1)] find_job_row_Some[OF resumed(1)] that(2) by blast
  have "job_ok (delivery_keys db) j" using ok find_job_row_Some[OF resumed(1)] by (simp add: jobs_ok_def)
  then have st: "effective_stage j = Some resume" "is_executable_stage resume"
    using retry_resume_stage_ok resumed(2,3) by blast+
  from resumed(6) update_jobs_rows[OF resumed(5)]
  have "q_jobs db' = update_where (\<lambda>j. jb_execution_key j = key \<and> jb_stage j = RequiresAttention)
         (\<lambda>j. j\<lparr>jb_stage := resume, jb_retry_stage := None, jb_next_attempt_at := None,
                jb_updated_at := now\<rparr>) (q_jobs db)"
    by (auto simp: update_deliveries_def)
  with ok show ?thesis
    by (rule jobs_evolve_update)
      (use same st in \<open>auto simp: evolves_def effective_stage_def is_executable_stage_def intro: stage_stays\<close>)
qed

lemma begin_job_evolve:
  assumes ok: "jobs_ok db" and step: "begin_job cfg now task request retry db = (Inr b, db')"
  shows "jobs_evolve db db'"
proof -
  from ok have old: "\<exists>j \<in> set (q_jobs db). evolves j j'" if "j' \<in> set (q_jobs db)" for j'
    using that evolves_refl by (auto simp: jobs_ok_def)
  moreover have "jb_execution_key j' \<notin> job_keys db \<and> jb_stage j' = StartPending"
    if "j' \<in> set (q_jobs db')" "j' \<notin> set (q_jobs db)" for j'
    using begin_job_Inr[OF step] that by (auto simp: new_job_row_def)
  ultimately show ?thesis unfolding jobs_evolve_def by blast
qed

lemma run_op_evolve:
  assumes ok: "queue_ok cfg db" and step: "run_op cfg now op db = (r, db')"
  shows "jobs_evolve db db'"
proof (cases r)
  case (Inl e)
  with step run_op_Inl[of db cfg now op e db'] ok show ?thesis
    by (simp add: queue_ok_def keys_ok_def jobs_evolve_subset)
next
  case (Inr u)
  have jobs: "jobs_ok db" and dist: "distinct (map jb_execution_key (q_jobs db))"
    using ok by (simp_all add: queue_ok_def keys_ok_def)
  note evolve = begin_job_evolve[OF jobs] accept_start_evolve[OF jobs] save_manifest_evolve[OF jobs]
    accept_manifest_evolve[OF jobs] save_report_evolve[OF jobs] record_delivery_failure_evolve[OF jobs]
    resume_delivery_evolve[OF jobs] mark_requires_attention_evolve[OF jobs dist]
    retry_attention_job_evolve[OF jobs dist]
  note files = set_file_failures_evolve[OF jobs] insert_files_rows
  show ?thesis
  proof (cases op)
    case (SaveFilePlan key fs failures)
    with step Inr show ?thesis
      by (auto simp: save_file_plan_def transaction_Inr seqp_Inr dest: insert_files_rows intro: files(1))
  next
    case (SaveFileFailures key failures)
    with step Inr show ?thesis
      by (auto simp: save_file_failures_def transaction_Inr seqp_Inr intro: files(1))
  next
    case (MarkFileFailed key i detail failures)
    with step Inr show ?thesis
      by (auto simp: mark_file_failed_def transaction_Inr seqp_Inr dest: update_files_rows intro: files(1))
  next
    case (MarkFileArchived key i)
    with step Inr show ?thesis
      by (auto simp: mark_file_archived_def seqp_Inr dest!: update_files_rows intro!: jobs_evolve_subset[OF jobs])
  next
    case (CompleteJob key)
    with step Inr have "complete_job cfg now key db = (Inr (), db')" by simp
    then have "set (q_jobs db') \<subseteq> set (q_jobs db)"
      by (rule complete_job_Inr) (auto dest!: trim_processed_of_rows delete_jobs_rows)
    then show ?thesis by (rule jobs_evolve_subset[OF jobs])
  next
    case (DiscardStartPending key)
    with step Inr have "set (q_jobs db') \<subseteq> set (q_jobs db)"
      by (auto simp: discard_start_pending_job_def transaction_Inr seqp_Inr dest!: delete_jobs_rows)
    then show ?thesis by (rule jobs_evolve_subset[OF jobs])
  qed (use step Inr in \<open>auto intro: evolve\<close>)
qed

text \<open>Jobs leave the queue only when their report was delivered or before anything was planned.\<close>

definition may_leave :: "queue_db \<Rightarrow> job_row \<Rightarrow> bool" where
  "may_leave db j \<longleftrightarrow> jb_stage j = ReportPending \<or>
     (jb_stage j = StartPending \<and> (\<forall>f \<in> set (q_files db). fl_execution_key f \<noteq> jb_execution_key j))"

lemma job_keys_update:
  "q_jobs db' = update_where p f (q_jobs db) \<Longrightarrow> (\<And>j. jb_execution_key (f j) = jb_execution_key j) \<Longrightarrow>
   job_keys db' = job_keys db"
  by (simp add: job_keys_def image_update_where)

lemma update_jobs_keys:
  "update_jobs p f db = (Inr n, db') \<Longrightarrow> (\<And>j. jb_execution_key (f j) = jb_execution_key j) \<Longrightarrow>
   job_keys db' = job_keys db"
  by (rule job_keys_update[OF update_jobs_rows])

lemma delete_jobs_leaves:
  assumes "delete_jobs p db = (Inr n, db')" and "j \<in> set (q_jobs db)" and "jb_execution_key j \<notin> job_keys db'"
  shows "p j"
  using assms delete_jobs_rows[OF assms(1)] by (auto simp: job_keys_def)

lemma run_op_leaves:
  assumes ok: "queue_ok cfg db" and step: "run_op cfg now op db = (r, db')"
    and j: "j \<in> set (q_jobs db)" and gone: "jb_execution_key j \<notin> job_keys db'"
  shows "may_leave db j"
proof (cases r)
  case (Inl e)
  with step run_op_Inl[of db cfg now op e db'] ok j gone show ?thesis
    by (auto simp: queue_ok_def keys_ok_def job_keys_def)
next
  case (Inr u)
  have in_keys: "jb_execution_key j \<in> job_keys db" using j by (simp add: job_keys_def)
  have kept: False if "job_keys db \<subseteq> job_keys db'" using that in_keys gone by blast
  show ?thesis
  proof (cases op)
    case (CompleteJob key)
    with step Inr have "complete_job cfg now key db = (Inr (), db')" by simp
    then have "jb_stage j = ReportPending"
      by (rule complete_job_Inr) (use j gone in \<open>auto dest!: trim_processed_of_rows delete_jobs_leaves\<close>)
    then show ?thesis by (simp add: may_leave_def)
  next
    case (DiscardStartPending key)
    with step Inr j gone show ?thesis
      by (auto simp: discard_start_pending_job_def transaction_Inr seqp_Inr may_leave_def count_where_zero
          dest!: delete_jobs_leaves)
  next
    case (BeginJob task request retry)
    with step Inr have "job_keys db \<subseteq> job_keys db'" by (auto dest!: begin_job_Inr simp: job_keys_def)
    then show ?thesis using kept by simp
  next
    case (SaveFilePlan key fs failures)
    with step Inr obtain db1 n where "q_jobs db1 = q_jobs db" "set_file_failures key failures now db1 = (Inr n, db')"
      by (auto simp: save_file_plan_def transaction_Inr seqp_Inr dest: insert_files_rows)
    then show ?thesis using kept
      by (auto simp: set_file_failures_def job_keys_def image_update_where dest!: update_jobs_rows)
  next
    case (SaveFileFailures key failures)
    with step Inr kept show ?thesis
      by (auto simp: save_file_failures_def transaction_Inr seqp_Inr set_file_failures_def dest!: update_jobs_keys)
  next
    case (MarkFileFailed key i detail failures)
    with step Inr kept show ?thesis
      by (auto simp: mark_file_failed_def transaction_Inr seqp_Inr set_file_failures_def job_keys_def
          image_update_where dest!: update_files_rows update_jobs_rows)
  next
    case (MarkFileArchived key i)
    with step Inr kept show ?thesis
      by (auto simp: mark_file_archived_def seqp_Inr job_keys_def dest!: update_files_rows)
  next
    case (AcceptStart key run)
    with step Inr kept show ?thesis
      by (auto simp: accept_start_def transaction_Inr seqp_Inr dest!: update_jobs_keys)
  next
    case (SaveManifest key request)
    with step Inr have "save_manifest now key request db = (Inr (), db')" by simp
    then have "job_keys db' = job_keys db"
      by (rule save_manifest_Inr) (auto intro!: job_keys_update dest!: update_jobs_rows insert_delivery_row_Inr)
    then show ?thesis using kept by simp
  next
    case (AcceptManifest key ids)
    with step Inr have "accept_manifest now key ids db = (Inr (), db')" by simp
    then have "job_keys db' = job_keys db"
      by (rule accept_manifest_Inr) (auto intro!: job_keys_update dest!: update_jobs_rows map_raw_file_ids_rows)
    then show ?thesis using kept by simp
  next
    case (SaveReport key request outcomes)
    with step Inr have "save_report now key request outcomes db = (Inr (), db')" by simp
    then have "job_keys db' = job_keys db"
      by (rule save_report_Inr) (auto intro!: job_keys_update
          dest!: update_jobs_rows insert_delivery_row_Inr save_parsed_outcomes_frame)
    then show ?thesis using kept by simp
  next
    case (MarkRequiresAttention key kind reason)
    with step Inr have "mark_requires_attention now key kind reason db = (Inr (), db')" by simp
    then have "job_keys db' = job_keys db" by (rule mark_requires_attention_Inr) (auto dest!: update_jobs_keys)
    then show ?thesis using kept by simp
  next
    case (RecordDeliveryFailure ty ikey retryable kind http message delay)
    with step Inr have "record_delivery_failure now ty ikey retryable kind http message delay db = (Inr (), db')" by simp
    then have "job_keys db' = job_keys db"
      by (rule record_delivery_failure_Inr) (auto intro!: job_keys_update simp: update_deliveries_def dest!: update_jobs_rows)
    then show ?thesis using kept by simp
  next
    case (ResumeDelivery ty ikey)
    with step Inr have "resume_delivery ty ikey db = (Inr (), db')" by simp
    then have "job_keys db' = job_keys db" by (rule resume_delivery_Inr) (auto dest!: update_jobs_keys)
    then show ?thesis using kept by simp
  next
    case (RetryAttentionJob key)
    with step Inr obtain a where "retry_attention_job now key db = (Inr a, db')" by auto
    with queue_ok_keys[OF ok] have "job_keys db' = job_keys db"
      by (cases rule: retry_attention_job_Inr)
        (auto intro!: job_keys_update simp: update_deliveries_def dest!: update_jobs_rows)
    then show ?thesis using kept by simp
  qed
qed

section \<open>Properties\<close>

text \<open>A concrete queue for the witnesses: one job, just begun.\<close>

definition example_config :: queue_config where
  "example_config = \<lparr>qc_node_code = ''n1'', qc_max_pending_jobs = 2, qc_processed_capacity = 10\<rparr>"

definition example_queue_task :: task_config where
  "example_queue_task = \<lparr>tc_id = ''t1'', tc_node_code = ''n1'', tc_data_source_id = ''s1'', tc_name = ''daily'',
     tc_task_type = ''collect'', tc_schedule_expr = ''0 0 * * *'', tc_parser_type = ''csv'', tc_qc_profile = [],
     tc_enabled = True, tc_data_source = \<lparr>ds_id = ''s1'', ds_node_code = ''n1'', ds_type = LocalDirectory,
       ds_name = ''dir'', ds_config_json = []\<rparr>, tc_qc_rules = []\<rparr>"

definition example_start :: start_request where
  "example_start = \<lparr>sr_node_code = ''n1'', sr_task_id = ''t1'', sr_execution_key = ''k1'',
     sr_scheduled_for = ''2024-01-01T00:00:00Z'', sr_started_at = ''2024-01-01T00:00:01Z'',
     sr_trigger_type = ''scheduled''\<rparr>"

definition example_queue :: queue_db where
  "example_queue = snd (begin_job example_config 1000 example_queue_task example_start [] empty_queue)"

lemma example_dumps: "list_all json_utf8 [encode_task_config example_queue_task, encode_start_request example_start]"
  by (simp add: encode_task_config_def encode_start_request_def encode_data_source_def example_queue_task_def
      example_start_def char_code_def)

lemma example_begin: "begin_job example_config 1000 example_queue_task example_start [] empty_queue = (Inr True, example_queue)"
  using example_dumps
  by (simp add: example_queue_def begin_job_def dump_all_def example_config_def example_queue_task_def example_start_def
      transaction_def seqp_def gets_def require_def ret_def insert_pending_job_def insert_job_row_def
      insert_start_delivery_def insert_delivery_row_def empty_queue_def find_job_row_def new_job_row_def)

lemma example_queue_reachable: "queue_reachable example_config example_queue"
proof -
  have "run_op example_config 1000 (BeginJob example_queue_task example_start []) empty_queue = (Inr (), example_queue)"
    using example_begin by auto
  then show ?thesis by (rule queue_reachable_run[OF queue_reachable_empty])
qed

lemma example_queue_jobs:
  "q_jobs example_queue = [new_job_row example_queue_task example_start [] 1000]"
  "q_files example_queue = []"
  "q_deliveries example_queue = [new_delivery ''k1'' StartRequest ''k1'' (encode_start_request example_start) 1000]"
  "q_attempts example_queue = []" "q_processed example_queue = []"
proof -
  have eq: "example_queue = empty_queue\<lparr>q_jobs := [new_job_row example_queue_task example_start [] 1000],
      q_deliveries := [new_delivery ''k1'' StartRequest ''k1'' (encode_start_request example_start) 1000]\<rparr>"
    using begin_job_Inr[OF example_begin] by (simp add: empty_queue_def example_start_def)
  show "q_jobs example_queue = [new_job_row example_queue_task example_start [] 1000]"
    "q_files example_queue = []"
    "q_deliveries example_queue = [new_delivery ''k1'' StartRequest ''k1'' (encode_start_request example_start) 1000]"
    "q_attempts example_queue = []" "q_processed example_queue = []"
    unfolding eq by (simp_all add: empty_queue_def)
qed

text \<open>
  C1. Whatever operations are called, in any order and with any arguments, the queue database keeps
  its keys, references and size bounds; every waiting job remembers an executable stage to go back to;
  a job that delivers a request has that request stored; the attempts logged for a delivery are
  numbered 1 to its counter; and neither the number of queued jobs nor the number of processed
  fingerprints of a task ever exceeds its configured capacity.
\<close>

theorem queue_invariant:
  assumes "queue_reachable cfg db"
  shows "queue_ok cfg db"
  using assms by (rule queue_reachable_ok)

theorem queue_invariant_witness: "queue_ok example_config example_queue"
  using queue_invariant[OF example_queue_reachable] .

text \<open>
  C3. An operation that throws, at whatever statement, leaves the database exactly as it was: no half
  of a file plan, no delivery without its stage change, no counted attempt without its log entry.
\<close>

theorem queue_failure_is_atomic:
  assumes "queue_reachable cfg db" and "run_op cfg now op db = (Inl e, db')"
  shows "db' = db"
  using assms run_op_Inl queue_reachable_ok by (auto simp: queue_ok_def keys_ok_def)

theorem queue_failure_is_atomic_witness:
  "snd (run_op example_config 5 (AcceptStart ''k9'' ''r'') example_queue) = example_queue"
proof -
  have "fst (run_op example_config 5 (AcceptStart ''k9'' ''r'') example_queue) =
      Inl (QueueError ''accept start requires start_pending job'')"
    by (simp add: accept_start_def transaction_def seqp_def update_jobs_def require_def example_queue_jobs
        count_where_def new_job_row_def example_start_def)
  then show ?thesis
    using queue_failure_is_atomic[OF example_queue_reachable, of 5 "AcceptStart ''k9'' ''r''"
        "QueueError ''accept start requires start_pending job''"] by (metis prod.collapse)
qed

text \<open>
  C2. No operation moves a job backwards or lets it skip a stage: retries, waiting and manual recovery
  keep the stage its work has reached, every other change follows the order start, collect, manifest,
  build, report (a job that archived nothing goes from collecting to its report), and its identity and
  configuration snapshot never change.
\<close>

theorem queue_jobs_progress:
  assumes "queue_reachable cfg db" and "run_op cfg now op db = (r, db')"
    and "j \<in> set (q_jobs db)" and "j' \<in> set (q_jobs db')" and "jb_execution_key j' = jb_execution_key j"
  shows "evolves j j'"
proof -
  have ok: "queue_ok cfg db" using assms(1) by (rule queue_reachable_ok)
  from run_op_evolve[OF ok assms(2)] assms(3-5) obtain j0 where "j0 \<in> set (q_jobs db)" "evolves j0 j'"
    by (auto simp: jobs_evolve_def job_keys_def)
  moreover from this assms(5) have "j0 = j"
    using inj_key_eq[OF queue_ok_keys[OF ok] _ assms(3)] by (auto simp: evolves_def)
  ultimately show ?thesis by simp
qed

theorem queue_jobs_progress_witness:
  "evolves (hd (q_jobs example_queue)) (hd (q_jobs (snd (run_op example_config 5 (AcceptStart ''k1'' ''r'') example_queue))))"
  by (rule queue_jobs_progress[OF example_queue_reachable, of 5 "AcceptStart ''k1'' ''r''"
        "fst (run_op example_config 5 (AcceptStart ''k1'' ''r'') example_queue)"
        "snd (run_op example_config 5 (AcceptStart ''k1'' ''r'') example_queue)"])
    (simp_all add: accept_start_def transaction_def seqp_def update_jobs_def require_def example_queue_jobs
      count_where_def new_job_row_def example_start_def update_where_def)

text \<open>
  C4. A queued job leaves the queue only when its report is pending delivery (completion) or when it
  is still waiting to start and has no file planned (discard); nothing else loses a job.
\<close>

theorem queue_loses_no_job:
  assumes "queue_reachable cfg db" and "run_op cfg now op db = (r, db')"
    and "j \<in> set (q_jobs db)" and "jb_execution_key j \<notin> job_keys db'"
  shows "may_leave db j"
  using run_op_leaves[OF queue_reachable_ok[OF assms(1)]] assms(2-4) by blast

theorem queue_loses_no_job_witness: "may_leave example_queue (hd (q_jobs example_queue))"
  by (rule queue_loses_no_job[OF example_queue_reachable, of 5 "DiscardStartPending ''k1''"
        "fst (run_op example_config 5 (DiscardStartPending ''k1'') example_queue)"
        "snd (run_op example_config 5 (DiscardStartPending ''k1'') example_queue)"])
    (simp_all add: discard_start_pending_job_def transaction_def seqp_def gets_def require_def delete_jobs_def
      example_queue_jobs count_where_def new_job_row_def example_start_def job_keys_def Let_def)

end
