(* ===== verification/Queue_Contracts.thy ===== *)
theory Queue_Contracts
  imports Queue_Properties
begin

text \<open>
  What single operations of the queue promise their callers: idempotent registration, documents that
  come back, fingerprints that stay occupied, manual recovery to the stage the work had reached, and
  a queue file that is opened without losing data.
\<close>

lemma find_append_new: "(\<And>r. r \<in> set rows \<Longrightarrow> \<not> p r) \<Longrightarrow> p x \<Longrightarrow> find p (rows @ [x]) = Some x"
  by (induction rows) auto

lemma begin_job_identity:
  "begin_job cfg now task request retry db = (Inr b, db') \<Longrightarrow>
   sr_node_code request = qc_node_code cfg \<and> tc_node_code task = qc_node_code cfg \<and> sr_task_id request = tc_id task"
  by (auto simp: begin_job_def split: if_splits)

lemma begin_job_dumps:
  "begin_job cfg now task request retry db = (Inr b, db') \<Longrightarrow>
   json_utf8 (encode_task_config task) \<and> json_utf8 (encode_start_request request) \<and>
   (retry = [] \<or> json_utf8 (encode_retry_files retry))"
  by (auto simp: begin_job_def seqp_Inr split: if_splits)

lemma start_request_rescheduled_utf8:
  "json_utf8 (encode_start_request request) \<Longrightarrow> is_utf8 scheduled \<Longrightarrow>
   json_utf8 (encode_start_request (request\<lparr>sr_scheduled_for := scheduled\<rparr>))"
  by (simp add: encode_start_request_def)

lemma begin_job_found:
  assumes "begin_job cfg now task request retry db = (Inr b, db')"
  obtains j where "find_job_row (sr_execution_key request) db' = Some j" "same_job task request j"
proof (cases b)
  case True
  with begin_job_Inr[OF assms] have new: "sr_execution_key request \<notin> job_keys db"
    "q_jobs db' = q_jobs db @ [new_job_row task request retry now]" by auto
  have "find_job_row (sr_execution_key request) db' = Some (new_job_row task request retry now)"
    unfolding find_job_row_def new(2)
    by (rule find_append_new) (use new(1) in \<open>force simp: job_keys_def\<close>, simp add: new_job_row_def)
  moreover have "same_job task request (new_job_row task request retry now)"
    using begin_job_identity[OF assms] by (simp add: same_job_def new_job_row_def)
  ultimately show ?thesis using that by blast
next
  case False
  with assms have "\<exists>j. find_job_row (sr_execution_key request) db = Some j \<and> same_job task request j \<and> db' = db"
    by (auto simp: begin_job_def transaction_Inr seqp_Inr split: if_splits option.splits)
  then show ?thesis using that by auto
qed

text \<open>
  Registering a job is idempotent: once an execution key is accepted, registering the same task and
  scheduled time again, at any later time, reports an existing job and changes nothing, whatever the
  retry targets passed, and the key is refused for any other scheduled time (all texts being UTF-8, as
  the JSON of the call demands).
\<close>

lemma begin_job_idempotent:
  assumes "begin_job cfg now task request retry db = (Inr b, db')"
    and "retry' = [] \<or> json_utf8 (encode_retry_files retry')" and "is_utf8 scheduled"
  shows "begin_job cfg now' task request retry' db' = (Inr False, db') \<and>
    (scheduled = sr_scheduled_for request \<or>
     begin_job cfg now' task (request\<lparr>sr_scheduled_for := scheduled\<rparr>) retry' db' =
       (Inl (QueueError ''execution key conflicts with persisted job''), db'))"
proof -
  obtain j where "find_job_row (sr_execution_key request) db' = Some j" "same_job task request j"
    using begin_job_found[OF assms(1)] .
  then show ?thesis
    using begin_job_identity[OF assms(1)] begin_job_dumps[OF assms(1)] assms(2,3)
      start_request_rescheduled_utf8[of request scheduled]
    by (auto simp: begin_job_def dump_all_def transaction_def seqp_def gets_def require_def ret_def same_job_def)
qed

lemma begin_job_idempotent_example:
  "begin_job example_config 9000 example_queue_task example_start [] example_queue = (Inr False, example_queue)"
  using begin_job_idempotent[OF example_begin, of "[]" "[]" 9000] by simp

section \<open>Documents come back\<close>

lemma find_delivery_of_unique:
  assumes "distinct (map delivery_key (q_deliveries db))" and "d \<in> set (q_deliveries db)"
  shows "find_delivery_of (dl_execution_key d) (dl_request_type d) db = Some d"
  using find_distinct_key[OF assms] by (simp add: find_delivery_of_def delivery_key_def)

lemma find_delivery_of_None:
  "(key, ty) \<notin> delivery_keys db \<Longrightarrow> find_delivery_of key ty db = None"
  by (force simp: find_delivery_of_def find_None_iff delivery_keys_def delivery_key_def image_iff)

lemma filter_distinct_key:
  "distinct (map k rows) \<Longrightarrow> r \<in> set rows \<Longrightarrow> filter (\<lambda>x. k x = k r \<and> P x) rows = (if P r then [r] else [])"
proof (induction rows)
  case Nil
  then show ?case by simp
next
  case (Cons x rows)
  show ?case
  proof (cases "x = r")
    case True
    with Cons.prems(1) have "filter (\<lambda>x. k x = k r \<and> P x) rows = []"
      by (auto simp: filter_empty_conv image_iff)
    with True show ?thesis by simp
  next
    case False
    with Cons.prems have "k x \<noteq> k r" by auto
    with False Cons show ?thesis by simp
  qed
qed

lemma load_job_row:
  assumes dist: "distinct (map jb_execution_key (q_jobs db))" and j: "j \<in> set (q_jobs db)"
    and live: "jb_stage j \<noteq> RequiresAttention"
    and start: "find_delivery_of (jb_execution_key j) StartRequest db = Some d"
  shows "load_job (jb_execution_key j) db = read_recovered_job db (j, d)"
proof -
  have "filter (\<lambda>j'. jb_execution_key j' = jb_execution_key j \<and> jb_stage j' \<noteq> RequiresAttention) (q_jobs db) = [j]"
    using filter_distinct_key[OF dist j, of "\<lambda>j. jb_stage j \<noteq> RequiresAttention"] live by simp
  with start show ?thesis by (simp add: load_job_def with_start_delivery_def)
qed

lemma delivery_keys_jobs: "keys_ok db \<Longrightarrow> (key, ty) \<in> delivery_keys db \<Longrightarrow> key \<in> job_keys db"
  by (auto simp: keys_ok_def delivery_keys_def delivery_key_def)

lemma recover_file_plan_none:
  "key \<notin> fl_execution_key ` set (q_files db) \<Longrightarrow> recover_file_plan db key = []"
proof -
  assume "key \<notin> fl_execution_key ` set (q_files db)"
  then have "filter (\<lambda>f. fl_execution_key f = key) (q_files db) = []" by (auto simp: filter_empty_conv)
  then show ?thesis by (simp add: recover_file_plan_def)
qed

lemma decode_retry_column:
  "\<forall>f \<in> set retry. retry_file_persistable f \<Longrightarrow>
   decode_retry_files (if retry = [] then None else Some (encode_retry_files retry)) = Inr retry"
  using decode_retry_files_encode[of retry] by (auto simp: decode_retry_files_def)

text \<open>
  A job whose task, start request and retry targets have their required fields comes back from the
  queue as it was registered: loading it right after \<open>begin_job\<close> yields exactly these values, in stage
  start\_pending, with no file, manifest, report or failure list yet.
\<close>

lemma begun_job_loads:
  assumes "queue_reachable cfg db" and "begin_job cfg now task request retry db = (Inr True, db')"
    and "task_persistable task" and "start_persistable request" and "list_all retry_file_persistable retry"
  shows "load_job (sr_execution_key request) db' =
    Inr \<lparr>rj_execution_key = sr_execution_key request, rj_task = task, rj_start_request = request,
         rj_stage = Some StartPending, rj_task_run_id = [], rj_files = [], rj_manifest_request = None,
         rj_report_request = None, rj_retry_files = retry, rj_has_file_failures = False, rj_file_failures = []\<rparr>"
proof -
  let ?key = "sr_execution_key request"
  let ?j = "new_job_row task request retry now"
  let ?d = "new_delivery ?key StartRequest ?key (encode_start_request request) now"
  have ok: "queue_ok cfg db" using assms(1) by (rule queue_reachable_ok)
  then have ok': "queue_ok cfg db'" using assms(2) by (rule begin_job_keeps)
  have db': "?key \<notin> job_keys db" "q_jobs db' = q_jobs db @ [?j]" "q_deliveries db' = q_deliveries db @ [?d]"
    "q_files db' = q_files db"
    using begin_job_Inr[OF assms(2)] by auto
  have key: "jb_execution_key ?j = ?key" by (simp add: new_job_row_def)
  have start: "find_delivery_of ?key StartRequest db' = Some ?d"
    using find_delivery_of_unique[of db' ?d] ok' by (simp add: queue_ok_def keys_ok_def db' new_delivery_def)
  have "load_job ?key db' = read_recovered_job db' (?j, ?d)"
    using load_job_row[of db' ?j ?d] queue_ok_keys[OF ok'] start by (simp add: db' key) (simp add: new_job_row_def)
  moreover have "find_delivery_of ?key ty db' = None" if "ty \<noteq> StartRequest" for ty
  proof (rule find_delivery_of_None)
    have "delivery_keys db' = insert (?key, StartRequest) (delivery_keys db)"
      by (simp add: delivery_keys_def db')
    moreover have "(?key, ty) \<notin> delivery_keys db"
      using ok db'(1) delivery_keys_jobs by (auto simp: queue_ok_def)
    ultimately show "(?key, ty) \<notin> delivery_keys db'" using that by simp
  qed
  moreover have "recover_file_plan db' ?key = []"
    using ok db'(1) by (intro recover_file_plan_none) (auto simp: queue_ok_def keys_ok_def db'(4))
  ultimately show ?thesis
    using assms(5) decode_task_config_encode[THEN iffD2, OF assms(3)]
      decode_start_request_encode[THEN iffD2, OF assms(4)]
    by (simp add: read_recovered_job_def new_job_row_def decode_retry_column list_all_iff
        decode_optional_def recovered_stage_def Let_def)
qed

lemma begun_job_loads_example:
  "fst (begin_job example_config 1000 example_queue_task example_start [] empty_queue) = Inr True \<and>
   (\<exists>job. load_job ''k1'' example_queue = Inr job \<and> rj_task job = example_queue_task)"
proof -
  have "load_job (sr_execution_key example_start) example_queue =
    Inr \<lparr>rj_execution_key = sr_execution_key example_start, rj_task = example_queue_task,
         rj_start_request = example_start,
         rj_stage = Some StartPending, rj_task_run_id = [], rj_files = [], rj_manifest_request = None,
         rj_report_request = None, rj_retry_files = [], rj_has_file_failures = False, rj_file_failures = []\<rparr>"
    by (rule begun_job_loads[OF queue_reachable_empty example_begin])
      (simp_all add: task_persistable_def start_persistable_def example_queue_task_def example_start_def
        data_source_persistable_def trigger_ok_def)
  then show ?thesis using example_begin by (simp add: example_start_def)
qed

lemma read_recovered_job_needs_report:
  assumes "find_delivery_of (jb_execution_key j) ReportRequest db = Some d"
    and "\<And>r. decode_report_request (dl_request d) \<noteq> Inr r"
  shows "read_recovered_job db (j, s) \<noteq> Inr job"
  using assms by (auto simp: read_recovered_job_def Let_def sbind_Inr_iff decode_optional_def)

lemma save_report_delivery:
  assumes ok: "queue_ok cfg db" and step: "save_report now key request outcomes db = (Inr u, db')"
  obtains doc j where "encode_report_request request = Inr doc"
    and "find_delivery_of key ReportRequest db' = Some (new_delivery key ReportRequest (rr_idempotency_key request) doc now)"
    and "j \<in> set (q_jobs db)" "jb_execution_key j = key"
proof -
  have ok': "queue_ok cfg db'" using save_report_keeps[OF ok step] .
  from step show ?thesis
  proof (rule save_report_Inr)
    fix doc db1 db2 n
    let ?d = "new_delivery key ReportRequest (rr_idempotency_key request) doc now"
    assume doc: "encode_report_request request = Inr doc"
      and ins: "insert_delivery_row ''save report'' ?d db = (Inr (), db1)"
      and loop: "for_each (save_parsed_outcome key) (zip [0..<length outcomes] outcomes) db1 = (Inr (), db2)"
      and upd: "update_jobs (\<lambda>j. jb_execution_key j = key \<and> (jb_stage j = Collecting \<or> jb_stage j = ReportBuilding))
           (\<lambda>j. j\<lparr>jb_stage := ReportPending, jb_updated_at := now\<rparr>) db2 = (Inr n, db')"
    have "?d \<in> set (q_deliveries db')"
      using insert_delivery_row_Inr[OF ins] save_parsed_outcomes_frame[OF loop] upd by (auto simp: update_jobs_def)
    then have "find_delivery_of key ReportRequest db' = Some ?d"
      using find_delivery_of_unique[of db' ?d] ok' by (simp add: queue_ok_def keys_ok_def)
    moreover obtain j where "j \<in> set (q_jobs db)" "jb_execution_key j = key"
      using insert_delivery_row_Inr[OF ins] by (auto simp: job_keys_def)
    ultimately show ?thesis using doc that by blast
  qed
qed

lemma update_jobs_stages:
  assumes "update_jobs (\<lambda>j. jb_execution_key j = key \<and> P j) f db = (Inr n, db')"
    and "\<And>j. jb_execution_key (f j) = jb_execution_key j" and "\<And>j. jb_stage (f j) = st"
    and "j \<in> set (q_jobs db)" and "jb_stage j \<noteq> RequiresAttention" and "st \<noteq> RequiresAttention"
  shows "\<exists>j' \<in> set (q_jobs db'). jb_execution_key j' = jb_execution_key j \<and> jb_stage j' \<noteq> RequiresAttention"
proof -
  let ?j = "if jb_execution_key j = key \<and> P j then f j else j"
  have "?j \<in> set (q_jobs db')"
    unfolding update_jobs_rows[OF assms(1)] set_update_where by (rule imageI[OF assms(4)])
  moreover have "jb_execution_key ?j = jb_execution_key j" "jb_stage ?j \<noteq> RequiresAttention"
    using assms(2,3,5,6) by auto
  ultimately show ?thesis by blast
qed

text \<open>The rows \<open>recover_jobs\<close> reads: every job that is not set aside, with its start delivery.\<close>

definition recoverable :: "queue_db \<Rightarrow> job_row list" where
  "recoverable db = sort_key (\<lambda>j. (jb_created_at j, jb_execution_key j))
     (filter (\<lambda>j. jb_stage j \<noteq> RequiresAttention) (q_jobs db))"

lemma set_recoverable: "set (recoverable db) = {j \<in> set (q_jobs db). jb_stage j \<noteq> RequiresAttention}"
  by (simp add: recoverable_def)

lemma start_delivery_exists:
  assumes ok: "queue_ok cfg db" and j: "j \<in> set (q_jobs db)"
  obtains d where "find_delivery_of (jb_execution_key j) StartRequest db = Some d"
proof -
  have "(jb_execution_key j, StartRequest) \<in> delivery_keys db"
    using ok j by (auto simp: queue_ok_def jobs_ok_def job_ok_def)
  then obtain d where "d \<in> set (q_deliveries db)" "delivery_key d = (jb_execution_key j, StartRequest)"
    by (auto simp: delivery_keys_def)
  then show ?thesis using find_delivery_of_unique[of db d] ok that
    by (auto simp: queue_ok_def keys_ok_def delivery_key_def)
qed

definition start_row :: "queue_db \<Rightarrow> job_row \<Rightarrow> job_row \<times> delivery_row" where
  "start_row db j = (j, the (find_delivery_of (jb_execution_key j) StartRequest db))"

lemma concat_map_singleton: "(\<And>x. x \<in> set xs \<Longrightarrow> f x = [g x]) \<Longrightarrow> concat (map f xs) = map g xs"
  by (induction xs) auto

lemma recover_jobs_rows:
  assumes ok: "queue_ok cfg db"
  shows "recover_jobs db = smap (read_recovered_job db) (map (start_row db) (recoverable db))"
proof -
  have "with_start_delivery db j = [start_row db j]" if "j \<in> set (recoverable db)" for j
    using that start_delivery_exists[OF ok, of j]
    by (auto simp: set_recoverable with_start_delivery_def start_row_def split: option.splits)
  then have "concat (map (with_start_delivery db) (recoverable db)) = map (start_row db) (recoverable db)"
    by (intro concat_map_singleton) blast
  then show ?thesis by (simp add: recover_jobs_def recoverable_def)
qed

lemma smap_keys:
  assumes "smap f xs = Inr ys" and "\<And>x y. x \<in> set xs \<Longrightarrow> f x = Inr y \<Longrightarrow> k y = g x"
  shows "map k ys = map g xs"
  using assms by (induction xs arbitrary: ys) (auto simp: sbind_Inr_iff)

lemma read_recovered_job_key:
  "read_recovered_job db (j, d) = Inr job \<Longrightarrow>
   rj_execution_key job = jb_execution_key j \<and> rj_stage job = recovered_stage j"
  by (auto simp: read_recovered_job_def Let_def sbind_Inr_iff)

text \<open>
  C8. Recovery after a restart returns every queued job that was not set aside for a person, each once,
  in the order the jobs were registered, or throws: it never silently drops one.
\<close>

theorem recover_jobs_complete:
  assumes "queue_reachable cfg db" and "recover_jobs db = Inr jobs"
  shows "map rj_execution_key jobs = map jb_execution_key (recoverable db) \<and>
    distinct (map rj_execution_key jobs) \<and>
    (\<forall>j. j \<in> set (q_jobs db) \<and> jb_stage j \<noteq> RequiresAttention \<longleftrightarrow> j \<in> set (recoverable db))"
proof -
  have ok: "queue_ok cfg db" using assms(1) by (rule queue_reachable_ok)
  have "map rj_execution_key jobs = map (jb_execution_key \<circ> fst) (map (start_row db) (recoverable db))"
    using assms(2) unfolding recover_jobs_rows[OF ok]
    by (rule smap_keys) (auto simp: start_row_def dest: read_recovered_job_key)
  then have "map rj_execution_key jobs = map jb_execution_key (recoverable db)"
    by (simp add: start_row_def comp_def)
  moreover have "distinct (map jb_execution_key (recoverable db))"
    using queue_ok_keys[OF ok] by (auto simp: recoverable_def distinct_map inj_on_def)
  ultimately show ?thesis by (simp add: set_recoverable)
qed

theorem recover_jobs_complete_witness:
  "\<exists>jobs. recover_jobs example_queue = Inr jobs \<and> map rj_execution_key jobs = [''k1'']"
proof -
  have p: "task_persistable example_queue_task" "start_persistable example_start"
    by (simp_all add: task_persistable_def start_persistable_def example_queue_task_def example_start_def
        data_source_persistable_def trigger_ok_def)
  have rows: "recoverable example_queue = [new_job_row example_queue_task example_start [] 1000]"
    by (simp add: recoverable_def example_queue_jobs new_job_row_def)
  have "recover_jobs example_queue \<noteq> Inl e" for e
    using decode_task_config_encode[THEN iffD2, OF p(1)] decode_start_request_encode[THEN iffD2, OF p(2)]
    by (simp add: recover_jobs_def example_queue_jobs new_job_row_def with_start_delivery_def find_delivery_of_def
        example_start_def read_recovered_job_def Let_def decode_optional_def decode_retry_files_def)
  then obtain jobs where jobs: "recover_jobs example_queue = Inr jobs" by (meson old.sum.exhaust)
  with recover_jobs_complete[OF example_queue_reachable jobs] show ?thesis
    by (simp add: rows) (simp add: new_job_row_def example_start_def)
qed

text \<open>
  C9. A report that holds a parsed record without a time is accepted by \<open>save_report\<close> but makes the
  queue unreadable: from then on loading this job throws, and so does the recovery of all jobs that
  every start of the agent begins with.
\<close>

theorem report_without_time_blocks_recovery:
  assumes "queue_reachable cfg db" and "save_report now key request outcomes db = (Inr (), db')"
    and "p \<in> set (rr_parsed_records request)" and "pr_record_time (rp_record p) = []"
    and "j \<in> set (q_jobs db)" and "jb_execution_key j = key"
    and "jb_stage j = Collecting \<or> jb_stage j = ReportBuilding"
  shows "load_job key db' \<noteq> Inr job \<and> recover_jobs db' \<noteq> Inr jobs"
proof -
  have ok: "queue_ok cfg db" using assms(1) by (rule queue_reachable_ok)
  have ok': "queue_ok cfg db'" using save_report_keeps[OF ok assms(2)] .
  obtain doc where doc: "encode_report_request request = Inr doc"
    and report: "find_delivery_of key ReportRequest db' = Some (new_delivery key ReportRequest (rr_idempotency_key request) doc now)"
    using save_report_delivery[OF ok assms(2)] by blast
  from assms(2) obtain j' where j': "j' \<in> set (q_jobs db')" "jb_execution_key j' = key" "jb_stage j' \<noteq> RequiresAttention"
  proof (rule save_report_Inr)
    fix doc db1 db2 n
    assume ins: "insert_delivery_row ''save report'' (new_delivery key ReportRequest (rr_idempotency_key request) doc now) db = (Inr (), db1)"
      and loop: "for_each (save_parsed_outcome key) (zip [0..<length outcomes] outcomes) db1 = (Inr (), db2)"
      and upd: "update_jobs (\<lambda>j. jb_execution_key j = key \<and> (jb_stage j = Collecting \<or> jb_stage j = ReportBuilding))
           (\<lambda>j. j\<lparr>jb_stage := ReportPending, jb_updated_at := now\<rparr>) db2 = (Inr n, db')"
    have "j \<in> set (q_jobs db2)"
      using assms(5) insert_delivery_row_Inr[OF ins] save_parsed_outcomes_frame[OF loop] by simp
    with update_jobs_stages[OF upd, of ReportPending j] assms(6,7) that show ?thesis by auto
  qed
  have bad: "read_recovered_job db' (j', d) \<noteq> Inr job" for d job
    using read_recovered_job_needs_report report j'(2) decode_report_request_needs_times[OF doc assms(3,4)] by fastforce
  obtain d where d: "find_delivery_of (jb_execution_key j') StartRequest db' = Some d"
    using start_delivery_exists[OF ok' j'(1)] .
  have "load_job key db' \<noteq> Inr job"
    using load_job_row[OF queue_ok_keys[OF ok'] j'(1,3) d] j'(2) bad by simp
  moreover have "recover_jobs db' \<noteq> Inr jobs"
  proof -
    have "start_row db' j' \<in> set (map (start_row db') (recoverable db'))" using j' by (simp add: set_recoverable)
    moreover obtain e where "read_recovered_job db' (start_row db' j') = Inl e"
      using bad by (metis start_row_def sumE)
    ultimately show ?thesis unfolding recover_jobs_rows[OF ok'] by (rule smap_fails)
  qed
  ultimately show ?thesis by simp
qed

definition example_untimed_report :: report_request where
  "example_untimed_report = \<lparr>rr_task_run_id = ''r1'', rr_node_code = ''n1'', rr_idempotency_key = ''i1'',
     rr_status = Succeeded, rr_finished_at = ''2024-01-01T00:00:09Z'', rr_items_total = 1, rr_items_success = 1,
     rr_items_failed = 0, rr_error_summary = [],
     rr_parsed_records = [\<lparr>rp_raw_file_id = ''7'', rp_record = \<lparr>pr_station_code = ''A'', pr_device_code = [],
       pr_record_time = [], pr_payload_json = ''{}''\<rparr>, rp_parse_status = ''parsed'', rp_qc_results = []\<rparr>],
     rr_has_failed_files = False, rr_failed_files = []\<rparr>"

definition example_collecting :: queue_db where
  "example_collecting = snd (run_op example_config 2000 (AcceptStart ''k1'' ''r1'') example_queue)"

lemma example_collecting_reachable: "queue_reachable example_config example_collecting"
  using queue_reachable_run[OF example_queue_reachable] unfolding example_collecting_def by (metis prod.collapse)

lemma example_collecting_eq:
  "example_collecting = example_queue\<lparr>q_jobs := [(new_job_row example_queue_task example_start [] 1000)
     \<lparr>jb_task_run_id := Some ''r1'', jb_stage := Collecting, jb_updated_at := 2000\<rparr>]\<rparr>"
  by (simp add: example_collecting_def accept_start_def transaction_def seqp_def update_jobs_def require_def
      example_queue_jobs count_where_def update_where_def) (simp add: new_job_row_def example_start_def)

theorem report_without_time_blocks_recovery_witness:
  "\<exists>e. recover_jobs (snd (save_report 3000 ''k1'' example_untimed_report [] example_collecting)) = Inl e"
proof -
  let ?r = "save_report 3000 ''k1'' example_untimed_report [] example_collecting"
  have jobs: "q_jobs example_collecting = [(new_job_row example_queue_task example_start [] 1000)
      \<lparr>jb_task_run_id := Some ''r1'', jb_stage := Collecting, jb_updated_at := 2000\<rparr>]"
    "q_files example_collecting = []" "q_deliveries example_collecting = q_deliveries example_queue"
    by (simp_all add: example_collecting_eq example_queue_jobs)
  have "fst ?r = Inr ()"
    by (simp add: save_report_def seqp_def lift_sum_def transaction_def gets_def require_def insert_delivery_row_def
        update_jobs_def ret_def jobs count_where_def encode_report_request_def encode_terminal_status_def dump_all_def
        encode_parsed_record_def char_code_def
        example_untimed_report_def example_queue_jobs delivery_identity_def)
      (simp add: new_job_row_def example_start_def)
  then have "?r = (Inr (), snd ?r)" by (metis prod.collapse)
  then have "recover_jobs (snd ?r) \<noteq> Inr jobs" for jobs
    using report_without_time_blocks_recovery[OF example_collecting_reachable, of 3000 "''k1''" example_untimed_report
        "[]" "snd ?r" "hd (rr_parsed_records example_untimed_report)" "hd (q_jobs example_collecting)"]
    by (simp add: jobs) (simp add: example_untimed_report_def new_job_row_def example_start_def)
  then show ?thesis by (metis sumE)
qed

section \<open>Completion\<close>

lemma insort_key_append:
  "(\<And>y. y \<in> set ys \<Longrightarrow> f x \<le> f y) \<Longrightarrow> insort_key f x (zs @ ys) = insort_key f x zs @ ys"
  by (induction zs) (auto simp: insort_is_Cons)

lemma sort_key_append_last:
  assumes "\<And>x y. x \<in> set xs \<Longrightarrow> y \<in> set ys \<Longrightarrow> f x \<le> f y" and "sorted (map f ys)"
  shows "sort_key f (xs @ ys) = sort_key f xs @ ys"
  using assms(1)
proof (induction xs)
  case Nil
  then show ?case using assms(2) by (simp add: sort_key_id_if_sorted)
next
  case (Cons x xs)
  then show ?case by (simp add: insort_key_append)
qed

lemma newest_keeps_tail:
  assumes "\<And>x y. x \<in> set xs \<Longrightarrow> y \<in> set ys \<Longrightarrow> pf_processed_at x \<le> pf_processed_at y"
    and "\<And>y. y \<in> set ys \<Longrightarrow> pf_task_id y = task" and "\<And>y. y \<in> set ys \<Longrightarrow> pf_processed_at y = now"
    and "length ys \<le> n"
  shows "set ys \<subseteq> set (newest_processed n task (xs @ ys))"
proof -
  let ?xs = "filter (\<lambda>r. pf_task_id r = task) xs"
  have "filter (\<lambda>r. pf_task_id r = task) (xs @ ys) = ?xs @ ys" using assms(2) by (simp add: filter_id_conv)
  moreover have "sort_key pf_processed_at (?xs @ ys) = sort_key pf_processed_at ?xs @ ys"
  proof (rule sort_key_append_last)
    show "sorted (map pf_processed_at ys)" using assms(3) by (simp add: sorted_iff_nth_mono)
  qed (use assms(1) in simp)
  ultimately show ?thesis using assms(4) by (simp add: newest_processed_def)
qed

lemma insert_or_ignore_fresh:
  assumes "distinct (map processed_key rs)" and "processed_key ` set rows \<inter> processed_key ` set rs = {}"
  shows "insert_or_ignore rows rs = rows @ rs"
  using assms by (induction rows rs rule: insert_or_ignore.induct) auto

text \<open>The files of a job that were parsed without errors.\<close>

definition clean_files :: "string \<Rightarrow> queue_db \<Rightarrow> file_row list" where
  "clean_files key db =
     filter (\<lambda>f. fl_execution_key f = key \<and> fl_parsed_without_errors f = Some True) (q_files db)"

definition processed_row_of :: "job_row \<Rightarrow> int \<Rightarrow> file_row \<Rightarrow> processed_row" where
  "processed_row_of j now f = \<lparr>pf_task_id = jb_task_id j, pf_fingerprint = fl_fingerprint f,
     pf_source_path = fl_source_path f, pf_file_hash = fl_file_hash f,
     pf_processed_at = now, pf_execution_key = jb_execution_key j\<rparr>"

lemma processed_rows_of_job:
  assumes "distinct (map jb_execution_key (q_jobs db))" and "j \<in> set (q_jobs db)" and "jb_stage j = ReportPending"
  shows "processed_rows_of (jb_execution_key j) now db = map (processed_row_of j now) (clean_files (jb_execution_key j) db)"
  using filter_distinct_key[OF assms(1,2), of "\<lambda>j. jb_stage j = ReportPending"] assms(3)
  by (simp add: processed_rows_of_def clean_files_def processed_row_of_def[abs_def])

lemma clean_files_distinct:
  assumes "distinct (map file_identity (q_files db))"
  shows "distinct (map processed_key (map (processed_row_of j now) (clean_files key db)))"
proof -
  have "distinct (map file_identity (clean_files key db))"
    unfolding clean_files_def by (rule distinct_map_filter_key[OF assms])
  then show ?thesis
    by (auto simp: distinct_map inj_on_def processed_key_def processed_row_of_def file_identity_def clean_files_def)
qed

text \<open>
  C7. Completing a job removes it, its files and its deliveries, and the fingerprint of every file it
  parsed without errors stays occupied, so the next collection does not pick the file up again. This
  holds for fingerprints that are new to the task, as long as the clock has not gone backwards and the
  job's clean files fit the task's fingerprint capacity.
\<close>

theorem complete_job_keeps_files_occupied:
  assumes "queue_reachable cfg db" and "complete_job cfg now key db = (Inr (), db')"
    and "j \<in> set (q_jobs db)" and "jb_execution_key j = key" and "f \<in> set (clean_files key db)"
    and "\<forall>r \<in> set (q_processed db). pf_processed_at r \<le> now"
    and "\<forall>g \<in> set (clean_files key db). (jb_task_id j, fl_fingerprint g) \<notin> processed_key ` set (q_processed db)"
    and "length (clean_files key db) \<le> qc_processed_capacity cfg"
  shows "is_file_occupied (jb_task_id j) (fl_fingerprint f) db' \<and> key \<notin> job_keys db' \<and>
    key \<notin> fl_execution_key ` set (q_files db') \<and> key \<notin> dl_execution_key ` set (q_deliveries db')"
  using assms(2)
proof (rule complete_job_Inr)
  fix db1 db2
  let ?new = "map (processed_row_of j now) (clean_files key db)"
  assume db1: "db1 = db\<lparr>q_processed := insert_or_ignore (q_processed db) (processed_rows_of key now db)\<rparr>"
    and trim: "trim_processed_of (qc_processed_capacity cfg) key db1 = (Inr (), db2)"
    and del: "delete_jobs (\<lambda>j. jb_execution_key j = key \<and> jb_stage j = ReportPending) db2 = (Inr 1, db')"
  have ok: "queue_ok cfg db" using assms(1) by (rule queue_reachable_ok)
  then have dist: "distinct (map jb_execution_key (q_jobs db))" by (rule queue_ok_keys)
  have found: "find_job_row key db1 = Some j"
    using find_job_row_unique[OF dist assms(3)] assms(4) by (simp add: db1 find_job_row_def)
  then have db2: "db2 = db1\<lparr>q_processed := trim_processed (qc_processed_capacity cfg) (jb_task_id j) (q_processed db1)\<rparr>"
    using trim by (simp add: trim_processed_of_def)
  have stage: "jb_stage j = ReportPending"
    using delete_jobs_found[OF del] inj_key_eq[OF dist _ assms(3)] assms(4) by (auto simp: db2 db1)
  have "distinct (map file_identity (q_files db))" using ok by (simp add: queue_ok_def keys_ok_def)
  then have rows: "q_processed db1 = q_processed db @ ?new"
    using processed_rows_of_job[OF dist assms(3) stage] assms(4,7) clean_files_distinct
    by (simp add: db1) (intro insert_or_ignore_fresh, simp, force simp: processed_row_of_def processed_key_def)
  have "set ?new \<subseteq> set (newest_processed (qc_processed_capacity cfg) (jb_task_id j) (q_processed db1))"
    unfolding rows using assms(6,8) by (intro newest_keeps_tail) (auto simp: processed_row_of_def)
  then have "processed_row_of j now f \<in> set (q_processed db2)"
    using assms(5) by (auto simp: db2 trim_processed_def rows)
  moreover have "q_processed db' = q_processed db2" using del by (auto simp: delete_jobs_def Let_def)
  ultimately have "is_file_occupied (jb_task_id j) (fl_fingerprint f) db'"
    by (auto simp: is_file_occupied_def processed_row_of_def intro!: bexI[of _ "processed_row_of j now f"])
  moreover have "key \<in> jb_execution_key ` {j \<in> set (q_jobs db2). jb_execution_key j = key \<and> jb_stage j = ReportPending}"
    using assms(3,4) stage by (auto simp: db2 db1)
  then have "key \<notin> fl_execution_key ` set (q_files db')" "key \<notin> dl_execution_key ` set (q_deliveries db')"
    using del by (auto simp: delete_jobs_def Let_def)
  moreover have "key \<notin> job_keys db'"
    using delete_jobs_rows[OF del] inj_key_eq[OF dist _ assms(3)] assms(4) stage by (auto simp: job_keys_def db2 db1)
  ultimately show ?thesis by simp
qed

definition example_plan :: file_plan where
  "example_plan = \<lparr>fp_ordinal = 0, fp_source_path = ''/in/a.csv'', fp_original_name = ''a.csv'',
     fp_source_mtime = ''2024-01-01T00:00:00Z'', fp_size_bytes = 3, fp_file_hash = ''h'', fp_fingerprint = ''f'',
     fp_archive_path = ''/arc/a.csv'', fp_archive_state = ''archive_planned'', fp_raw_file_id = [],
     fp_parsed_without_errors = False, fp_input_path = [], fp_error_detail = []\<rparr>"

definition example_report :: report_request where
  "example_report = example_untimed_report\<lparr>rr_parsed_records := []\<rparr>"

definition example_planned :: queue_db where
  "example_planned = snd (run_op example_config 2500 (SaveFilePlan ''k1'' [example_plan] []) example_collecting)"

definition example_reporting :: queue_db where
  "example_reporting = snd (run_op example_config 3000 (SaveReport ''k1'' example_report [True]) example_planned)"

lemma example_reporting_reachable: "queue_reachable example_config example_reporting"
  using queue_reachable_run[OF queue_reachable_run[OF example_collecting_reachable]]
  unfolding example_reporting_def example_planned_def by (metis prod.collapse)

definition example_job :: job_row where
  "example_job = (new_job_row example_queue_task example_start [] 1000)\<lparr>jb_task_run_id := Some ''r1'',
     jb_stage := ReportPending, jb_file_failures := Some (JArr []), jb_updated_at := 3000\<rparr>"

definition example_file :: file_row where
  "example_file = (new_file_row ''k1'' example_plan)\<lparr>fl_parsed_without_errors := Some True\<rparr>"

lemma example_planned_eq:
  "q_jobs example_planned = [(new_job_row example_queue_task example_start [] 1000)\<lparr>jb_task_run_id := Some ''r1'',
     jb_stage := Collecting, jb_file_failures := Some (JArr []), jb_updated_at := 2500\<rparr>]"
  "q_files example_planned = [new_file_row ''k1'' example_plan]"
  "q_deliveries example_planned = q_deliveries example_queue" "q_processed example_planned = []"
  by (simp_all add: example_planned_def save_file_plan_def dump_all_def transaction_def seqp_def insert_pending_file_def
      insert_file_row_def set_file_failures_def update_jobs_def require_def ret_def example_collecting_eq
      example_queue_jobs count_where_def update_where_def encode_file_failures_def new_job_row_def
      example_start_def new_file_row_def example_plan_def)

lemma example_reporting_eq:
  "q_jobs example_reporting = [example_job]" "q_files example_reporting = [example_file]"
  "q_processed example_reporting = []"
  by (simp_all add: example_reporting_def save_report_def transaction_def seqp_def lift_sum_def gets_def
      require_def insert_delivery_row_def save_parsed_outcome_def update_files_def update_jobs_def ret_def
      example_planned_eq example_queue_jobs count_where_def update_where_def encode_report_request_def
      encode_terminal_status_def example_report_def example_untimed_report_def delivery_identity_def
      dump_all_def char_code_def new_job_row_def new_file_row_def example_start_def example_job_def example_file_def example_plan_def)

theorem complete_job_keeps_files_occupied_witness:
  "is_file_occupied ''t1'' ''f'' (snd (complete_job example_config 4000 ''k1'' example_reporting))"
proof -
  let ?r = "complete_job example_config 4000 ''k1'' example_reporting"
  have job: "jb_execution_key example_job = ''k1''" "jb_stage example_job = ReportPending" "jb_task_id example_job = ''t1''"
    by (simp_all add: example_job_def new_job_row_def example_start_def)
  have clean: "clean_files ''k1'' example_reporting = [example_file]" "fl_fingerprint example_file = ''f''"
    by (simp_all add: clean_files_def example_reporting_eq example_file_def new_file_row_def example_plan_def)
  have "fst ?r = Inr ()"
    by (simp add: complete_job_def transaction_def seqp_def write_processed_def trim_processed_of_def modify_def
        delete_jobs_def require_def example_reporting_eq job find_job_row_def count_where_def Let_def)
  then have "?r = (Inr (), snd ?r)" by (metis prod.collapse)
  from complete_job_keeps_files_occupied[OF example_reporting_reachable this, of example_job example_file]
  show ?thesis by (simp add: clean job example_reporting_eq example_config_def)
qed

section \<open>Manual recovery\<close>

lemma find_update_where:
  "(\<And>r. k (f r) = k r) \<Longrightarrow> find (\<lambda>r. k r = x) (update_where (\<lambda>r. k r = x) f rows) = map_option f (find (\<lambda>r. k r = x) rows)"
  by (induction rows) (auto simp: update_where_def)

lemma find_update_keyed:
  assumes "distinct (map k rows)" and "find (\<lambda>r. k r = x) rows = Some r" and "P r" and "\<And>r. k (f r) = k r"
  shows "find (\<lambda>r. k r = x) (update_where (\<lambda>r. k r = x \<and> P r) f rows) = Some (f r)"
  using assms(1-3)
proof (induction rows)
  case Nil
  then show ?case by simp
next
  case (Cons y ys)
  then show ?case by (cases "k y = x") (auto simp: update_where_Cons assms(4))
qed

lemma find_job_row_files [simp]:
  "find_job_row key (db\<lparr>q_deliveries := ds\<rparr>) = find_job_row key db"
  by (simp add: find_job_row_def)

lemma retry_attention_job_resumes:
  assumes dist: "distinct (map jb_execution_key (q_jobs db))" and found: "find_job_row key db = Some j"
    and stage: "jb_stage j = RequiresAttention" and resume: "retry_resume_stage key j = Inr st"
  obtains db2 where "retry_attention_job now key db = (Inr (Resumed st), db2)"
    and "find_job_row key db2 = Some (j\<lparr>jb_stage := st, jb_retry_stage := None, jb_next_attempt_at := None, jb_updated_at := now\<rparr>)"
    and "q_files db2 = q_files db"
proof -
  let ?p = "\<lambda>j. jb_execution_key j = key \<and> jb_stage j = RequiresAttention"
  let ?f = "\<lambda>j::job_row. j\<lparr>jb_stage := st, jb_retry_stage := None, jb_next_attempt_at := None, jb_updated_at := now\<rparr>"
  let ?ds = "update_where (\<lambda>d. dl_execution_key d = key) (\<lambda>d::delivery_row. d\<lparr>dl_next_attempt_at := None, dl_updated_at := now\<rparr>)
     (q_deliveries db)"
  have "count_where ?p (q_jobs db) = 1"
    using key_count_1[OF dist, of j "\<lambda>j. jb_stage j = RequiresAttention"] find_job_row_Some[OF found] stage by simp
  then have "retry_attention_job now key db =
      (Inr (Resumed st), db\<lparr>q_jobs := update_where ?p ?f (q_jobs db), q_deliveries := ?ds\<rparr>)"
    using found stage resume
    by (simp add: retry_attention_job_def transaction_def seqp_def gets_def lift_sum_def update_jobs_def
        update_deliveries_def ret_def)
  moreover have "find_job_row key (db\<lparr>q_jobs := update_where ?p ?f (q_jobs db)\<rparr>) = Some (?f j)"
    unfolding find_job_row_def using found[unfolded find_job_row_def] stage
    by (simp add: find_update_keyed[OF dist])
  ultimately show ?thesis using that by simp
qed

text \<open>
  C10. Setting a job aside and retrying it by hand brings it back to the very stage its work had
  reached, whether it was executing or waiting for a delivery retry, with its documents and files
  untouched; a second retry finds nothing to do.
\<close>

theorem attention_retry_resumes:
  assumes "queue_reachable cfg db" and "mark_requires_attention now key kind reason db = (Inr (), db1)"
    and "find_job_row key db = Some j"
  shows "\<exists>st db2 j2. retry_attention_job later key db1 = (Inr (Resumed st), db2) \<and> effective_stage j = Some st \<and>
     find_job_row key db2 = Some j2 \<and> jb_stage j2 = st \<and> jb_task_config j2 = jb_task_config j \<and>
     jb_task_run_id j2 = jb_task_run_id j \<and> q_files db2 = q_files db \<and>
     retry_attention_job again key db2 = (Inr (NotAttention st), db2)"
  using assms(2)
proof (rule mark_requires_attention_Inr)
  fix j' resume n
  let ?mark = "\<lambda>j::job_row. j\<lparr>jb_stage := RequiresAttention, jb_retry_stage := Some resume,
                  jb_last_error_kind := Some kind, jb_last_error := Some (take 512 reason), jb_updated_at := now\<rparr>"
  assume found: "find_job_row key db = Some j'" and resume: "attention_resume_stage key j' = Inr resume"
    and upd: "update_jobs (\<lambda>j. jb_execution_key j = key) ?mark db = (Inr n, db1)"
  have ok: "queue_ok cfg db" using assms(1) by (rule queue_reachable_ok)
  have dist1: "distinct (map jb_execution_key (q_jobs db1))"
    using mark_requires_attention_keeps[OF ok assms(2)] by (rule queue_ok_keys)
  have st: "effective_stage j = Some resume"
    using attention_resume_stage_effective[OF resume] found assms(3) by simp
  have "job_ok (delivery_keys db) j"
    using ok find_job_row_Some[OF assms(3)] by (simp add: queue_ok_def jobs_ok_def)
  then have exec: "is_executable_stage resume" using st by (auto simp: job_ok_def)
  have find1: "find_job_row key db1 = Some (?mark j)"
    using assms(3) upd by (auto simp: update_jobs_def find_job_row_def find_update_where[where k = jb_execution_key])
  have "retry_resume_stage key (?mark j) = Inr resume" using exec by (simp add: retry_resume_stage_def)
  from retry_attention_job_resumes[OF dist1 find1 _ this, of later] obtain db2 where
    db2: "retry_attention_job later key db1 = (Inr (Resumed resume), db2)" "q_files db2 = q_files db1"
    and find2: "find_job_row key db2 = Some ((?mark j)\<lparr>jb_stage := resume, jb_retry_stage := None,
                  jb_next_attempt_at := None, jb_updated_at := later\<rparr>)" by auto
  have "retry_attention_job again key db2 = (Inr (NotAttention resume), db2)"
    using find2 exec by (auto simp: retry_attention_job_def transaction_def seqp_def gets_def ret_def is_executable_stage_def)
  moreover have "q_files db1 = q_files db" using upd by (auto simp: update_jobs_def)
  ultimately show ?thesis using db2 st find2 by auto
qed

theorem attention_retry_resumes_witness:
  "\<exists>db2. retry_attention_job 5000 ''k1'' (snd (mark_requires_attention 4000 ''k1'' ''archive_conflict'' ''x'' example_collecting))
      = (Inr (Resumed Collecting), db2)"
proof -
  let ?m = "mark_requires_attention 4000 ''k1'' ''archive_conflict'' ''x'' example_collecting"
  let ?j = "hd (q_jobs example_collecting)"
  have j: "find_job_row ''k1'' example_collecting = Some ?j" "jb_stage ?j = Collecting"
    by (simp_all add: find_job_row_def example_collecting_eq) (simp_all add: new_job_row_def example_start_def)
  have "count_where (\<lambda>j. jb_execution_key j = ''k1'') (q_jobs example_collecting) = 1"
    by (simp add: example_collecting_eq count_where_def) (simp add: new_job_row_def example_start_def)
  then have "fst ?m = Inr ()"
    by (simp add: mark_requires_attention_def transaction_def seqp_def gets_def lift_sum_def j
        attention_resume_stage_def update_jobs_def require_def)
  then have "?m = (Inr (), snd ?m)" by (metis prod.collapse)
  from attention_retry_resumes[OF example_collecting_reachable this j(1), of 5000 6000] j(2)
  show ?thesis by (auto simp: effective_stage_def)
qed

section \<open>Opening a queue file\<close>

lemma add_columns_frame:
  assumes "for_each add_column cs f = (Inr u, f')"
  shows "qf_db f' = qf_db f \<and> qf_node_code f' = qf_node_code f"
  using assms
  by (rule for_each_keeps[where P = "\<lambda>s. qf_db s = qf_db f \<and> qf_node_code s = qf_node_code f"])
    (auto simp: add_column_def seqp_Inr)

lemma migrate_frame:
  "migrate_schema_v1_to_v2 f = (Inr u, f') \<Longrightarrow> qf_db f' = qf_db f \<and> qf_node_code f' = qf_node_code f \<and> qf_version f' = 2"
  by (auto simp: migrate_schema_v1_to_v2_def transaction_Inr seqp_Inr dest: add_columns_frame)

lemma migrate_Inl: "migrate_schema_v1_to_v2 f = (Inl e, f') \<Longrightarrow> f' = f"
  by (auto simp: migrate_schema_v1_to_v2_def dest: transaction_Inl)

lemma validate_frame:
  "validate_node_identity node f = (r, f') \<Longrightarrow> f' = f" "validate_required_tables f = (r', f'') \<Longrightarrow> f'' = f"
  by (auto simp: validate_node_identity_def validate_required_tables_def seqp_def gets_def require_def split: if_splits)

definition prepare_schema :: "string \<Rightarrow> nat \<Rightarrow> unit fileproc" where
  "prepare_schema node version =
     (if version = 0 then initialize_schema node
      else if version = 1 then migrate_schema_v1_to_v2 else ret ())"

lemma prepare_schema_frame:
  assumes "prepare_schema node (qf_version f) f = (r, f')" and "qf_version f \<noteq> 0"
  shows "qf_db f' = qf_db f"
  using assms
  by (cases r) (auto simp: prepare_schema_def ret_def dest: migrate_frame migrate_Inl split: if_splits)

lemma initialize_version: "initialize_schema node f = (Inr u, f') \<Longrightarrow> qf_version f' = 2"
  by (auto simp: initialize_schema_def transaction_Inr seqp_Inr)

lemma prepare_schema_version:
  "prepare_schema node (qf_version f) f = (Inr u, f') \<Longrightarrow> qf_version f \<le> 2 \<Longrightarrow> qf_version f' = 2"
  using migrate_frame initialize_version by (auto simp: prepare_schema_def split: if_splits)

lemma open_queue_store_eq:
  "open_queue_store path node jobs cap f =
     (if path = [] \<or> node = [] \<or> jobs = 0 \<or> cap = 0
      then (Inl (QueueError ''database path, node identity and capacity are required''), f)
      else if \<not> qf_version f \<le> kSchemaVersion then (Inl (unsupported_version (qf_version f)), f)
      else seqp (prepare_schema node (qf_version f)) (\<lambda>_.
           seqp (validate_node_identity node) (\<lambda>_. seqp validate_required_tables (\<lambda>_.
             ret \<lparr>qc_node_code = node, qc_max_pending_jobs = jobs, qc_processed_capacity = cap\<rparr>))) f)"
  by (simp add: open_queue_store_def prepare_schema_def seqp_def require_def gets_def)

text \<open>
  Opening a queue of schema version 1 or 2 never changes a row of its data, whatever the outcome;
  a queue of a newer version or of another node is refused; and a queue that opens once opens again
  for the same node with nothing left to migrate.
\<close>

lemma open_queue_keeps_data:
  assumes "open_queue_store path node jobs cap f = (r, f')"
  shows "(qf_version f = 0 \<or> qf_db f' = qf_db f) \<and>
    (r = Inr \<lparr>qc_node_code = node, qc_max_pending_jobs = jobs, qc_processed_capacity = cap\<rparr> \<and>
       qf_node_code f' = Some node \<and> qf_version f' = 2 \<and> open_queue_store path node jobs cap f' = (r, f')
     \<or> (\<exists>e. r = Inl e))"
proof (cases r)
  case (Inl e)
  have "qf_db f' = qf_db f" if "qf_version f \<noteq> 0"
    using assms Inl prepare_schema_frame[OF _ that]
    by (auto simp: open_queue_store_eq dest!: seqp_Inl validate_frame split: if_splits) (auto simp: seqp_Inr ret_def dest: validate_frame)
  with Inl show ?thesis by auto
next
  case (Inr cfg)
  with assms have args: "\<not> (path = [] \<or> node = [] \<or> jobs = 0 \<or> cap = 0)" "qf_version f \<le> 2"
    by (auto simp: open_queue_store_eq kSchemaVersion_def split: if_splits)
  with assms Inr obtain f1 where prep: "prepare_schema node (qf_version f) f = (Inr (), f1)"
    and valid: "validate_node_identity node f1 = (Inr (), f')" "validate_required_tables f' = (Inr (), f')"
    and cfg: "cfg = \<lparr>qc_node_code = node, qc_max_pending_jobs = jobs, qc_processed_capacity = cap\<rparr>"
    by (auto simp: open_queue_store_eq seqp_Inr dest: validate_frame split: if_splits)
  have f1: "f1 = f'" using validate_frame(1)[OF valid(1)] by simp
  have v: "qf_version f' = 2" using prepare_schema_version[OF prep args(2)] f1 by simp
  have id: "qf_node_code f' = Some node"
    using valid(1) f1 by (auto simp: validate_node_identity_def seqp_Inr)
  have "open_queue_store path node jobs cap f' = (r, f')"
    using args v valid f1 Inr cfg
    by (simp add: open_queue_store_eq kSchemaVersion_def prepare_schema_def seqp_def ret_def)
  then show ?thesis using prep prepare_schema_frame[of node f "Inr ()" f1] f1 v id Inr cfg by auto
qed

definition example_old_file :: queue_file where
  "example_old_file = \<lparr>qf_version = 1, qf_tables = kSchema_tables, qf_v2_columns = [],
     qf_node_code = Some ''n1'', qf_db = example_queue\<rparr>"

lemma open_queue_keeps_data_example:
  "qf_db (snd (open_queue_store ''q.db'' ''n1'' 2 10 example_old_file)) = example_queue"
  using open_queue_keeps_data[of "''q.db''" "''n1''" 2 10 example_old_file
      "fst (open_queue_store ''q.db'' ''n1'' 2 10 example_old_file)"
      "snd (open_queue_store ''q.db'' ''n1'' 2 10 example_old_file)"]
  by (simp add: example_old_file_def)

end
