(* ===== verification/Delivery.thy ===== *)
theory Delivery
  imports Queue_Contracts
begin

text \<open>
  \<open>ReliableDeliveryClient\<close> (\<open>agent/src/execution/reliable_delivery_client.cpp\<close>): sending one persisted
  request until the control plane answers, with the failures counted in the queue and the back-off
  between attempts. What the outside world does is a script: one \<open>turn\<close> per pass of the loop, with
  the stop flag the pass reads, the answer of the call and the clock. A script that runs out leaves
  the delivery still trying (\<open>None\<close>). The flag is never reset, so a pass that sees it after its wait
  does not read it again as clear.
\<close>

unbundle bit_operations_syntax

fun error_kind_name :: "task_execution_error_kind \<Rightarrow> string" where
  "error_kind_name Network = ''network''"
| "error_kind_name HttpStatus = ''http_status''"
| "error_kind_name InvalidResponse = ''invalid_response''"
| "error_kind_name ServerError = ''server_error''"

fun request_type_name :: "request_type \<Rightarrow> string" where
  "request_type_name StartRequest = ''start''"
| "request_type_name ManifestRequest = ''manifest''"
| "request_type_name ReportRequest = ''report''"

text \<open>FNV-1a with the source's constants, on 64-bit words.\<close>

definition stable_hash :: "string \<Rightarrow> 64 word" where
  "stable_hash v =
     foldl (\<lambda>hash c. (hash XOR word_of_nat (char_code c)) * 1099511628211) 1469598103934665603 v"

section \<open>Back-off\<close>

record delivery_config =
  dc_retry_initial :: int
  dc_retry_max :: int
  dc_max_body_bytes :: nat

definition make_delivery_config :: "int \<Rightarrow> int \<Rightarrow> nat \<Rightarrow> agent_exn + delivery_config" where
  "make_delivery_config initial maximum max_body =
     (if initial \<le> 0 \<or> maximum < initial
      then Inl (InvalidArgumentError ''invalid reliable delivery retry interval'')
      else if max_body = 0
      then Inl (InvalidArgumentError ''reliable delivery request body limit must be positive'')
      else Inr \<lparr>dc_retry_initial = initial, dc_retry_max = maximum, dc_max_body_bytes = max_body\<rparr>)"

text \<open>The doubling loop: \<open>n\<close> passes are left; it stops as soon as the maximum is reached.\<close>

fun backoff_base :: "nat \<Rightarrow> int \<Rightarrow> int \<Rightarrow> int" where
  "backoff_base 0 maximum base = base"
| "backoff_base (Suc n) maximum base =
     (if base < maximum then backoff_base n maximum (min maximum (base * 2)) else base)"

text \<open>In unbounded integers; \<open>retry_arithmetic_fits\<close> shows that 64 bits hold it for every delivery the agent configures.\<close>

definition retry_delay :: "delivery_config \<Rightarrow> string \<Rightarrow> int \<Rightarrow> int" where
  "retry_delay dc key attempt =
     (let base = backoff_base (nat (attempt - 1)) (dc_retry_max dc) (dc_retry_initial dc);
          base_ms = base * 1000;
          jitter = int (unat (stable_hash (key @ newline @ int_to_string attempt) mod 201))
      in base_ms + base_ms * jitter div 1000)"

section \<open>Delivering\<close>

record 'r turn =
  tn_stop :: bool
  tn_outcome :: "client_error + 'r"
  tn_now :: int
  tn_stop_after_wait :: bool

definition stopped_error :: agent_exn where
  "stopped_error = DeliveryAbandoned ''delivery stopped and remains pending''"

definition oversized_message :: "delivery_config \<Rightarrow> request_type \<Rightarrow> nat \<Rightarrow> string" where
  "oversized_message dc ty body_bytes =
     ''delivery payload too large; request_type='' @ request_type_name ty @
     ''; body_bytes='' @ nat_to_string body_bytes @
     ''; limit_bytes='' @ nat_to_string (dc_max_body_bytes dc)"

definition abandon_oversized_body :: "delivery_config \<Rightarrow> int \<Rightarrow> request_type \<Rightarrow> string \<Rightarrow> nat \<Rightarrow> 'r qproc" where
  "abandon_oversized_body dc now ty ikey body_bytes =
     seqp (\<lambda>db. (delivery_execution_key ty ikey db, db)) (\<lambda>key.
     seqp (mark_requires_attention now key ''payload_too_large'' (oversized_message dc ty body_bytes)) (\<lambda>_.
       throw (DeliveryAbandoned (oversized_message dc ty body_bytes))))"

fun deliver_loop :: "delivery_config \<Rightarrow> request_type \<Rightarrow> string \<Rightarrow> int \<Rightarrow> 'r turn list \<Rightarrow> 'r option qproc" where
  "deliver_loop dc ty ikey attempt [] = ret None"
| "deliver_loop dc ty ikey attempt (t # ts) =
     (if tn_stop t then throw stopped_error
      else case tn_outcome t of
        Inr r \<Rightarrow> ret (Some r)
      | Inl e \<Rightarrow>
          if is_auth_rejection e then
            seqp (record_delivery_failure (tn_now t) ty ikey True (error_kind_name (ce_kind e))
                    (ce_http_status e) (ce_message e) 0) (\<lambda>_. throw (ClientError e))
          else
            seqp (record_delivery_failure (tn_now t) ty ikey (is_transient e) (error_kind_name (ce_kind e))
                    (ce_http_status e) (ce_message e)
                    (retry_delay dc (ikey @ newline @ request_type_name ty) (attempt + 1))) (\<lambda>_.
              if \<not> is_transient e then throw (DeliveryAbandoned (ce_message e))
              else if tn_stop_after_wait t then throw stopped_error
              else seqp (resume_delivery ty ikey) (\<lambda>_. deliver_loop dc ty ikey (attempt + 1) ts)))"

text \<open>
  \<open>deliver\<close>: \<open>now\<close> is the clock at the size check and the first wait, \<open>stop\<close> the flag after that wait.
\<close>

definition deliver :: "delivery_config \<Rightarrow> (int \<Rightarrow> int \<Rightarrow> int) \<Rightarrow> int \<Rightarrow> bool \<Rightarrow> request_type \<Rightarrow> string \<Rightarrow> nat \<Rightarrow>
    'r turn list \<Rightarrow> 'r option qproc" where
  "deliver dc julian_ms now stop ty ikey body_bytes script =
     seqp (if body_bytes > dc_max_body_bytes dc then abandon_oversized_body dc now ty ikey body_bytes else ret ()) (\<lambda>_.
     seqp (\<lambda>db. (delivery_attempt_count ty ikey db, db)) (\<lambda>attempt.
     seqp (if attempt > 0 then
             seqp (\<lambda>db. (delivery_retry_remaining julian_ms now ty ikey db, db)) (\<lambda>_.
               if stop then throw stopped_error else resume_delivery ty ikey)
           else ret ()) (\<lambda>_.
       deliver_loop dc ty ikey attempt script)))"

text \<open>The three requests, with the length of the body nlohmann dumps as a parameter.\<close>

definition deliver_start where
  "deliver_start dc julian_ms now stop body_length request script =
     seqp (dump_all [encode_start_http_body request]) (\<lambda>_.
       deliver dc julian_ms now stop StartRequest (sr_execution_key request)
         (body_length (encode_start_http_body request)) script)"

definition deliver_manifest where
  "deliver_manifest dc julian_ms now stop body_length request script =
     seqp (dump_all [encode_manifest_http_body request]) (\<lambda>_.
       deliver dc julian_ms now stop ManifestRequest (mr_idempotency_key request)
         (body_length (encode_manifest_http_body request)) script)"

definition deliver_report where
  "deliver_report dc julian_ms now stop body_length request script =
     seqp (lift_sum (encode_report_http_body request)) (\<lambda>body.
     seqp (dump_all [body]) (\<lambda>_.
       deliver dc julian_ms now stop ReportRequest (rr_idempotency_key request) (body_length body) script))"

section \<open>Lemmas\<close>

lemma backoff_base_closed:
  "0 < base \<Longrightarrow> base \<le> maximum \<Longrightarrow> backoff_base n maximum base = min maximum (base * 2 ^ n)"
proof (induction n arbitrary: base)
  case 0
  then show ?case by simp
next
  case (Suc n)
  show ?case
  proof (cases "base < maximum")
    case True
    then have "backoff_base (Suc n) maximum base = min maximum (min maximum (base * 2) * 2 ^ n)"
      using Suc by simp
    also have "\<dots> = min maximum (base * 2 ^ Suc n)"
    proof (cases "base * 2 \<le> maximum")
      case True
      then show ?thesis by (simp add: mult.assoc)
    next
      case False
      then have big: "maximum \<le> base * 2" by simp
      have one: "(1::int) \<le> 2 ^ n" by simp
      have "maximum * 1 \<le> maximum * 2 ^ n" using one Suc.prems by (intro mult_left_mono) auto
      moreover have "maximum * 1 \<le> base * 2 * 2 ^ n" using one big Suc.prems by (intro mult_mono) auto
      ultimately show ?thesis using big by (simp add: mult.assoc)
    qed
    finally show ?thesis .
  next
    case False
    with Suc.prems have "base = maximum" by simp
    moreover have "maximum * 1 \<le> maximum * 2 ^ Suc n"
      using Suc.prems by (intro mult_left_mono one_le_power) auto
    ultimately show ?thesis by simp
  qed
qed

lemma make_delivery_config_ok:
  "make_delivery_config i m b = Inr dc \<Longrightarrow>
   0 < dc_retry_initial dc \<and> dc_retry_initial dc \<le> dc_retry_max dc \<and> 0 < dc_max_body_bytes dc"
  by (auto simp: make_delivery_config_def split: if_splits)

text \<open>The agent's configuration bounds the maximum by a day, so no intermediate value leaves a \<^verbatim>\<open>long long\<close>.\<close>

lemma retry_arithmetic_fits:
  assumes "make_delivery_config initial maximum max_body = Inr dc" "maximum \<le> 86400"
  shows "let base = backoff_base n (dc_retry_max dc) (dc_retry_initial dc) in
    0 < base \<and> base * 2 < 2 ^ 63 \<and> (j \<le> 200 \<longrightarrow> base * 1000 * int j < 2 ^ 63 \<and> base * 1000 + base * 1000 * int j div 1000 < 2 ^ 63)"
proof -
  have dc: "0 < initial" "initial \<le> maximum" "dc_retry_initial dc = initial" "dc_retry_max dc = maximum"
    using assms(1) by (auto simp: make_delivery_config_def split: if_splits)
  define base where "base = backoff_base n (dc_retry_max dc) (dc_retry_initial dc)"
  have base: "0 < base" "base \<le> 86400" using dc assms(2) by (simp_all add: base_def backoff_base_closed)
  have jitter: "base * 1000 * int j \<le> 17280000000" if "j \<le> 200"
    using mult_mono[of "base * 1000" 86400000 "int j" 200] base that by simp
  then have "base * 1000 * int j div 1000 \<le> 17280000000 div 1000" if "j \<le> 200"
    using that by (intro zdiv_mono1) auto
  with base jitter show ?thesis unfolding Let_def base_def[symmetric] by fastforce
qed

text \<open>
  C12. The wait before the next attempt of a delivery starts at the configured interval, doubles with
  every failure up to the configured maximum, and the per-key jitter adds at most a fifth; it is never
  shorter than the base and never zero.
\<close>

theorem retry_delay_bounds:
  assumes "make_delivery_config initial maximum max_body = Inr dc" and "1 \<le> attempt"
  shows "let base = min maximum (initial * 2 ^ nat (attempt - 1)) * 1000 in
    0 < base \<and> base \<le> retry_delay dc key attempt \<and> 5 * retry_delay dc key attempt \<le> 6 * base"
proof -
  define base where "base = min maximum (initial * 2 ^ nat (attempt - 1)) * 1000"
  define jitter where "jitter = int (unat (stable_hash (key @ newline @ int_to_string attempt) mod 201))"
  have dc: "0 < initial" "initial \<le> maximum" "dc_retry_initial dc = initial" "dc_retry_max dc = maximum"
    using assms(1) by (auto simp: make_delivery_config_def split: if_splits)
  have pos: "0 < base" using dc by (simp add: base_def)
  have "jitter = uint (stable_hash (key @ newline @ int_to_string attempt)) mod 201"
    by (simp add: jitter_def uint_mod)
  then have j: "0 \<le> jitter" "jitter \<le> 200"
    using pos_mod_bound[of 201 "uint (stable_hash (key @ newline @ int_to_string attempt))"] by auto
  have delay: "retry_delay dc key attempt = base + base * jitter div 1000"
    using dc by (simp add: retry_delay_def Let_def base_def jitter_def backoff_base_closed)
  have lower: "0 \<le> base * jitter div 1000" using pos j by (simp add: pos_imp_zdiv_nonneg_iff)
  have "base * jitter \<le> base * 200" using pos j by (intro mult_left_mono) auto
  then have "base * jitter div 1000 \<le> base * 200 div 1000" by (rule zdiv_mono1) simp
  also have "base * 200 div 1000 = base div 5" by simp
  finally have "5 * (base * jitter div 1000) \<le> base" by linarith
  with pos lower delay show ?thesis unfolding Let_def base_def[symmetric] by linarith
qed

theorem retry_delay_bounds_witness:
  "\<exists>dc. make_delivery_config 5 60 1000 = Inr dc \<and> 60000 \<le> retry_delay dc ''k'' 9 \<and> retry_delay dc ''k'' 9 \<le> 72000"
proof -
  have "make_delivery_config 5 60 1000 = Inr \<lparr>dc_retry_initial = 5, dc_retry_max = 60, dc_max_body_bytes = 1000\<rparr>"
    by (simp add: make_delivery_config_def)
  with retry_delay_bounds[OF this, of 9 "''k''"] show ?thesis by (auto simp: Let_def)
qed

section \<open>A delivery under way\<close>

text \<open>
  The job of a delivery, found through the identity of the request. The store is asked by identity
  only, so the lemmas are about a consistent queue that holds both.
\<close>

definition in_delivery :: "queue_config \<Rightarrow> request_type \<Rightarrow> string \<Rightarrow> queue_db \<Rightarrow> delivery_row \<Rightarrow> job_row \<Rightarrow> bool" where
  "in_delivery cfg ty ikey db d j \<longleftrightarrow> queue_ok cfg db \<and> find_delivery ty ikey db = Some d \<and>
     find_job_row (dl_execution_key d) db = Some j"

lemma find_delivery_identity: "find_delivery ty ikey db = find (\<lambda>d. delivery_identity d = (ty, ikey)) (q_deliveries db)"
  by (auto simp: find_delivery_def delivery_identity_def intro!: arg_cong2[of _ _ _ _ find])

lemma find_update_identity:
  "(\<And>d. delivery_identity (f d) = delivery_identity d) \<Longrightarrow>
   find (\<lambda>d. delivery_identity d = k) (update_where (\<lambda>d. delivery_identity d = k) f rows)
     = map_option f (find (\<lambda>d. delivery_identity d = k) rows)"
  by (rule find_update_where)

lemma in_delivery_count:
  assumes "in_delivery cfg ty ikey db d j"
  shows "count_where (\<lambda>d. delivery_identity d = (ty, ikey)) (q_deliveries db) = 1"
proof -
  have dist: "distinct (map delivery_identity (q_deliveries db))"
    using assms by (simp add: in_delivery_def queue_ok_def keys_ok_def)
  have "d \<in> set (q_deliveries db)" "delivery_identity d = (ty, ikey)"
    using assms by (auto simp: in_delivery_def delivery_identity_def dest: find_delivery_Some)
  then have "count_where (\<lambda>d. delivery_identity d = (ty, ikey)) (q_deliveries db) \<noteq> 0"
    unfolding count_where_pos by blast
  moreover have "count_where (\<lambda>d. delivery_identity d = (ty, ikey)) (q_deliveries db) \<le> 1"
    by (rule count_where_key_le_1[OF dist])
  ultimately show ?thesis by simp
qed

text \<open>Recording a failure always succeeds there, and moves a job that is delivering aside.\<close>

lemma record_in_delivery:
  assumes d: "in_delivery cfg ty ikey db d j"
  obtains db' where "record_delivery_failure now ty ikey retryable kind http message delay db = (Inr (), db')"
    and "in_delivery cfg ty ikey db' (failed_delivery now delay kind http message d)
          (if is_delivering_stage (jb_stage j) then failed_job now delay retryable kind message j else j)"
proof -
  let ?f = "failed_delivery now delay kind http message"
  let ?db1 = "db\<lparr>q_deliveries := update_where (\<lambda>d. delivery_identity d = (ty, ikey)) ?f (q_deliveries db)\<rparr>"
  let ?g = "failed_job now delay retryable kind message"
  let ?p = "\<lambda>j. jb_execution_key j = dl_execution_key d \<and> is_delivering_stage (jb_stage j)"
  let ?db2 = "?db1\<lparr>q_jobs := update_where ?p ?g (q_jobs db)\<rparr>"
  let ?db3 = "?db2\<lparr>q_attempts := q_attempts db @ [failed_attempt now retryable kind http message (?f d)]\<rparr>"
  have ok: "queue_ok cfg db" and fd: "find_delivery ty ikey db = Some d"
    and fj: "find_job_row (dl_execution_key d) db = Some j" using d by (simp_all add: in_delivery_def)
  have fd1: "find_delivery ty ikey ?db1 = Some (?f d)"
    using fd by (simp add: find_delivery_identity find_update_identity)
  have key: "dl_execution_key d \<in> jb_execution_key ` set (update_where ?p ?g (q_jobs db))"
    using find_job_row_Some[OF fj] by (simp add: image_update_where) (metis imageI)
  have step: "record_delivery_failure now ty ikey retryable kind http message delay db = (Inr (), ?db3)"
    using fd1 key in_delivery_count[OF d]
    by (simp add: record_delivery_failure_def transaction_def seqp_def update_deliveries_def require_def gets_def
        update_jobs_def insert_attempt_row_def failed_attempt_def)
  have dist: "distinct (map jb_execution_key (q_jobs db))" using ok by (rule queue_ok_keys)
  have fj2: "find_job_row (dl_execution_key d) ?db3 = Some (if is_delivering_stage (jb_stage j) then ?g j else j)"
  proof (cases "is_delivering_stage (jb_stage j)")
    case True
    then show ?thesis using fj find_update_keyed[OF dist, of "dl_execution_key d" j "\<lambda>j. is_delivering_stage (jb_stage j)" ?g]
      by (simp add: find_job_row_def)
  next
    case False
    have none: "\<not> ?p j'" if "j' \<in> set (q_jobs db)" for j'
      using inj_key_eq[OF dist that, of j] find_job_row_Some[OF fj] False by auto
    then have "update_where ?p ?g (q_jobs db) = q_jobs db" by (auto simp: update_where_def intro!: map_idI)
    with False fj show ?thesis by (simp add: find_job_row_def)
  qed
  have "in_delivery cfg ty ikey ?db3 (?f d) (if is_delivering_stage (jb_stage j) then ?g j else j)"
    using record_delivery_failure_keeps[OF ok step] fd1 fj2 by (simp add: in_delivery_def find_delivery_def)
  with step that show ?thesis by blast
qed

lemma record_delivering:
  assumes "in_delivery cfg ty ikey db d j" and "is_delivering_stage (jb_stage j)"
  obtains db' where "record_delivery_failure now ty ikey retryable kind http message delay db = (Inr (), db')"
    and "in_delivery cfg ty ikey db' (failed_delivery now delay kind http message d) (failed_job now delay retryable kind message j)"
  using record_in_delivery[OF assms(1), of now retryable kind http message delay thesis] assms(2) that by simp

lemma waiting_job_saved: "job_ok ks j \<Longrightarrow> jb_stage j = RetryWait \<Longrightarrow> jb_retry_stage j \<noteq> None"
  by (auto simp: job_ok_def effective_stage_def)

text \<open>Resuming takes a waiting job back to the stage it saved and leaves every other job alone.\<close>

lemma resume_in_delivery:
  assumes d: "in_delivery cfg ty ikey db d j"
  obtains db' where "resume_delivery ty ikey db = (Inr (), db')"
    and "in_delivery cfg ty ikey db' d
          (if jb_stage j = RetryWait then j\<lparr>jb_stage := the (jb_retry_stage j), jb_retry_stage := None, jb_next_attempt_at := None\<rparr>
           else j)"
proof -
  let ?g = "\<lambda>j::job_row. j\<lparr>jb_stage := the (jb_retry_stage j), jb_retry_stage := None, jb_next_attempt_at := None\<rparr>"
  let ?p = "\<lambda>j. jb_execution_key j = dl_execution_key d \<and> jb_stage j = RetryWait"
  let ?db' = "db\<lparr>q_jobs := update_where ?p ?g (q_jobs db)\<rparr>"
  have ok: "queue_ok cfg db" and fd: "find_delivery ty ikey db = Some d"
    and fj: "find_job_row (dl_execution_key d) db = Some j" using d by (simp_all add: in_delivery_def)
  have "jb_retry_stage j' \<noteq> None" if "j' \<in> set (q_jobs db)" "jb_stage j' = RetryWait" for j'
    using waiting_job_saved[of "delivery_keys db" j'] ok that by (simp add: queue_ok_def jobs_ok_def)
  then have "count_where (\<lambda>j. ?p j \<and> jb_retry_stage j = None) (q_jobs db) = 0"
    unfolding count_where_zero by blast
  then have step: "resume_delivery ty ikey db = (Inr (), ?db')"
    using fd by (simp add: resume_delivery_def seqp_def gets_def require_def update_jobs_def ret_def)
  have dist: "distinct (map jb_execution_key (q_jobs db))" using ok by (rule queue_ok_keys)
  have fj2: "find_job_row (dl_execution_key d) ?db' = Some (if jb_stage j = RetryWait then ?g j else j)"
  proof (cases "jb_stage j = RetryWait")
    case True
    then show ?thesis using fj find_update_keyed[OF dist, of "dl_execution_key d" j "\<lambda>j. jb_stage j = RetryWait" ?g]
      by (simp add: find_job_row_def)
  next
    case False
    have none: "\<not> ?p j'" if "j' \<in> set (q_jobs db)" for j'
      using inj_key_eq[OF dist that, of j] find_job_row_Some[OF fj] False by auto
    then have "update_where ?p ?g (q_jobs db) = q_jobs db" by (auto simp: update_where_def intro!: map_idI)
    with False fj show ?thesis by (simp add: find_job_row_def)
  qed
  have "in_delivery cfg ty ikey ?db' d (if jb_stage j = RetryWait then ?g j else j)"
    using resume_delivery_keeps[OF ok step] fd fj2 by (simp add: in_delivery_def find_delivery_def)
  with step that show ?thesis by blast
qed

lemma resume_waiting:
  assumes "in_delivery cfg ty ikey db d j" and "jb_stage j = RetryWait"
  obtains db' where "resume_delivery ty ikey db = (Inr (), db')"
    and "in_delivery cfg ty ikey db' d
          (j\<lparr>jb_stage := the (jb_retry_stage j), jb_retry_stage := None, jb_next_attempt_at := None\<rparr>)"
  using resume_in_delivery[OF assms(1), of thesis] assms(2) that by simp

section \<open>Outcomes of a delivery\<close>

definition transient_turn :: "'r turn \<Rightarrow> bool" where
  "transient_turn t \<longleftrightarrow> \<not> tn_stop t \<and> \<not> tn_stop_after_wait t \<and>
     (case tn_outcome t of Inl e \<Rightarrow> is_transient e \<and> \<not> is_auth_rejection e | Inr _ \<Rightarrow> False)"

lemma transient_turns:
  assumes "in_delivery cfg ty ikey db d j" and "is_delivering_stage (jb_stage j)"
    and "list_all transient_turn fails"
  shows "\<exists>db' d' j'. deliver_loop dc ty ikey attempt (fails @ rest) db
        = deliver_loop dc ty ikey (attempt + int (length fails)) rest db' \<and>
      in_delivery cfg ty ikey db' d' j' \<and> jb_stage j' = jb_stage j \<and>
      dl_attempt_count d' = dl_attempt_count d + int (length fails) \<and> dl_request d' = dl_request d"
  using assms
proof (induction fails arbitrary: db d j attempt)
  case Nil
  then show ?case by (intro exI conjI) auto
next
  case (Cons t ts)
  obtain e where t: "\<not> tn_stop t" "\<not> tn_stop_after_wait t" "tn_outcome t = Inl e" "is_transient e" "\<not> is_auth_rejection e"
    using Cons.prems(3) by (auto simp: transient_turn_def split: sum.splits)
  let ?delay = "retry_delay dc (ikey @ newline @ request_type_name ty) (attempt + 1)"
  obtain db1 where rec: "record_delivery_failure (tn_now t) ty ikey True (error_kind_name (ce_kind e)) (ce_http_status e)
        (ce_message e) ?delay db = (Inr (), db1)"
    and in1: "in_delivery cfg ty ikey db1 (failed_delivery (tn_now t) ?delay (error_kind_name (ce_kind e)) (ce_http_status e) (ce_message e) d)
          (failed_job (tn_now t) ?delay True (error_kind_name (ce_kind e)) (ce_message e) j)"
    by (rule record_delivering[OF Cons.prems(1,2)])
  let ?d1 = "failed_delivery (tn_now t) ?delay (error_kind_name (ce_kind e)) (ce_http_status e) (ce_message e) d"
  let ?j1 = "failed_job (tn_now t) ?delay True (error_kind_name (ce_kind e)) (ce_message e) j"
  have saved: "jb_stage ?j1 = RetryWait" "jb_retry_stage ?j1 = Some (jb_stage j)"
    by (simp_all add: failed_job_def)
  let ?j2 = "?j1\<lparr>jb_stage := the (jb_retry_stage ?j1), jb_retry_stage := None, jb_next_attempt_at := None\<rparr>"
  obtain db2 where res: "resume_delivery ty ikey db1 = (Inr (), db2)" and in2: "in_delivery cfg ty ikey db2 ?d1 ?j2"
    by (rule resume_waiting[OF in1 saved(1)])
  have st: "jb_stage ?j2 = jb_stage j" using saved(2) by simp
  have loop: "deliver_loop dc ty ikey attempt ((t # ts) @ rest) db = deliver_loop dc ty ikey (attempt + 1) (ts @ rest) db2"
    using t rec res by (simp add: seqp_def)
  have "is_delivering_stage (jb_stage ?j2)" using st Cons.prems(2) by simp
  from Cons.IH[OF in2 this, of "attempt + 1"] Cons.prems(3) obtain db' d' j' where
    "deliver_loop dc ty ikey (attempt + 1) (ts @ rest) db2 = deliver_loop dc ty ikey (attempt + 1 + int (length ts)) rest db'"
    "in_delivery cfg ty ikey db' d' j'" "jb_stage j' = jb_stage ?j2"
    "dl_attempt_count d' = dl_attempt_count ?d1 + int (length ts)" "dl_request d' = dl_request ?d1" by auto
  with loop st show ?case by (intro exI[of _ db'] exI[of _ d'] exI[of _ j']) (simp add: add.assoc)
qed

text \<open>
  C5. However many transient failures come first, the delivery succeeds with the first answer the
  control plane gives: its result is returned, every failure was counted, the request is the one that
  was persisted, and the job is back in the stage the delivery started from.
\<close>

theorem delivery_survives_transient_failures:
  assumes "in_delivery cfg ty ikey db d j" and "is_delivering_stage (jb_stage j)"
    and "list_all transient_turn fails" and "\<not> tn_stop t" and "tn_outcome t = Inr r"
  shows "\<exists>db' d' j'. deliver_loop dc ty ikey attempt (fails @ t # later) db = (Inr (Some r), db') \<and>
      in_delivery cfg ty ikey db' d' j' \<and> jb_stage j' = jb_stage j \<and>
      dl_attempt_count d' = dl_attempt_count d + int (length fails) \<and> dl_request d' = dl_request d"
proof -
  obtain db' d' j' where *: "deliver_loop dc ty ikey attempt (fails @ t # later) db
        = deliver_loop dc ty ikey (attempt + int (length fails)) (t # later) db'"
    "in_delivery cfg ty ikey db' d' j'" "jb_stage j' = jb_stage j"
    "dl_attempt_count d' = dl_attempt_count d + int (length fails)" "dl_request d' = dl_request d"
    using transient_turns[OF assms(1-3), of dc attempt "t # later"] by blast
  show ?thesis
    by (intro exI[of _ db'] exI[of _ d'] exI[of _ j']) (use * assms(4,5) in \<open>simp add: ret_def\<close>)
qed

definition example_delivery :: delivery_row where
  "example_delivery = new_delivery ''k1'' StartRequest ''k1'' (encode_start_request example_start) 1000"

lemma example_in_delivery:
  "in_delivery example_config StartRequest ''k1'' example_queue example_delivery
     (new_job_row example_queue_task example_start [] 1000)"
  using queue_reachable_ok[OF example_queue_reachable]
  by (simp add: in_delivery_def find_delivery_def find_job_row_def example_queue_jobs example_delivery_def)
    (simp add: new_job_row_def example_start_def)

definition example_timeout :: "string turn" where
  "example_timeout = \<lparr>tn_stop = False, tn_outcome = Inl \<lparr>ce_kind = Network, ce_message = ''timeout'', ce_http_status = 0\<rparr>,
     tn_now = 5000, tn_stop_after_wait = False\<rparr>"

definition example_answer :: "string turn" where
  "example_answer = \<lparr>tn_stop = False, tn_outcome = Inr ''r1'', tn_now = 9000, tn_stop_after_wait = False\<rparr>"

theorem delivery_survives_transient_failures_witness:
  "fst (deliver_loop \<lparr>dc_retry_initial = 5, dc_retry_max = 60, dc_max_body_bytes = 1000\<rparr> StartRequest ''k1'' 0
     [example_timeout, example_timeout, example_answer] example_queue) = Inr (Some ''r1'')"
  using delivery_survives_transient_failures[OF example_in_delivery, of "[example_timeout, example_timeout]" example_answer
      "''r1''" "\<lparr>dc_retry_initial = 5, dc_retry_max = 60, dc_max_body_bytes = 1000\<rparr>" 0 "[]"]
  by (auto simp: example_answer_def example_timeout_def transient_turn_def is_transient_def is_auth_rejection_def
      new_job_row_def is_delivering_stage_def)

text \<open>
  C6. A refusal ends the delivery at once without losing the job. A permanent error sets the job
  aside for a person with its stage saved and abandons the delivery; a credential error (401 or 403)
  keeps the job waiting with no back-off, so the next start of the agent sends it again, and stops the
  agent with the error itself.
\<close>

theorem delivery_refusals:
  assumes "in_delivery cfg ty ikey db d j" and "is_delivering_stage (jb_stage j)"
    and "\<not> tn_stop t" and "tn_outcome t = Inl e" and "is_auth_rejection e \<or> \<not> is_transient e"
  shows "\<exists>db' d' j'. in_delivery cfg ty ikey db' d' j' \<and> jb_retry_stage j' = Some (jb_stage j) \<and>
      dl_attempt_count d' = dl_attempt_count d + 1 \<and> dl_request d' = dl_request d \<and>
      (if is_auth_rejection e
       then deliver_loop dc ty ikey attempt (t # later) db = (Inl (ClientError e), db') \<and>
            jb_stage j' = RetryWait \<and> dl_next_attempt_at d' = Some (tn_now t)
       else deliver_loop dc ty ikey attempt (t # later) db = (Inl (DeliveryAbandoned (ce_message e)), db') \<and>
            jb_stage j' = RequiresAttention)"
proof (cases "is_auth_rejection e")
  case True
  obtain db' where rec: "record_delivery_failure (tn_now t) ty ikey True (error_kind_name (ce_kind e)) (ce_http_status e)
        (ce_message e) 0 db = (Inr (), db')"
    and kept: "in_delivery cfg ty ikey db' (failed_delivery (tn_now t) 0 (error_kind_name (ce_kind e)) (ce_http_status e) (ce_message e) d)
          (failed_job (tn_now t) 0 True (error_kind_name (ce_kind e)) (ce_message e) j)"
    by (rule record_delivering[OF assms(1,2)])
  show ?thesis
    by (rule exI[of _ db'], rule exI, rule exI, rule conjI, rule kept)
      (use rec assms(3,4) True in \<open>simp add: failed_job_def failed_delivery_def seqp_def throw_def\<close>)
next
  case False
  let ?delay = "retry_delay dc (ikey @ newline @ request_type_name ty) (attempt + 1)"
  obtain db' where rec: "record_delivery_failure (tn_now t) ty ikey False (error_kind_name (ce_kind e)) (ce_http_status e)
        (ce_message e) ?delay db = (Inr (), db')"
    and kept: "in_delivery cfg ty ikey db' (failed_delivery (tn_now t) ?delay (error_kind_name (ce_kind e)) (ce_http_status e) (ce_message e) d)
          (failed_job (tn_now t) ?delay False (error_kind_name (ce_kind e)) (ce_message e) j)"
    by (rule record_delivering[OF assms(1,2)])
  show ?thesis
    by (rule exI[of _ db'], rule exI, rule exI, rule conjI, rule kept)
      (use rec assms(3-5) False in \<open>simp add: failed_job_def failed_delivery_def seqp_def throw_def\<close>)
qed

definition example_refusal :: "string turn" where
  "example_refusal = \<lparr>tn_stop = False, tn_outcome = Inl \<lparr>ce_kind = ServerError, ce_message = ''conflict'', ce_http_status = 409\<rparr>,
     tn_now = 5000, tn_stop_after_wait = False\<rparr>"

theorem delivery_refusals_witness:
  "fst (deliver_loop \<lparr>dc_retry_initial = 5, dc_retry_max = 60, dc_max_body_bytes = 1000\<rparr> StartRequest ''k1'' 0
     [example_refusal] example_queue) = Inl (DeliveryAbandoned ''conflict'')"
  using delivery_refusals[OF example_in_delivery, of example_refusal
      "\<lparr>ce_kind = ServerError, ce_message = ''conflict'', ce_http_status = 409\<rparr>"
      "\<lparr>dc_retry_initial = 5, dc_retry_max = 60, dc_max_body_bytes = 1000\<rparr>" 0 "[]"]
  by (auto simp: example_refusal_def is_transient_def is_auth_rejection_def new_job_row_def is_delivering_stage_def)

text \<open>
  A request whose body exceeds the limit is never sent and never waits: whatever the control plane
  would answer, the delivery is abandoned, and a job that was executing or waiting is set aside with
  the stage its work had reached, ready to be resumed once the limit is raised.
\<close>

lemma oversized_delivery_is_set_aside:
  assumes "in_delivery cfg ty ikey db d j" and "jb_stage j \<noteq> RequiresAttention"
    and "dc_max_body_bytes dc < body_bytes"
  shows "\<exists>db' j'. deliver dc julian_ms now stop ty ikey body_bytes script db
        = (Inl (DeliveryAbandoned (oversized_message dc ty body_bytes)), db') \<and>
      find_job_row (dl_execution_key d) db' = Some j' \<and> jb_stage j' = RequiresAttention \<and>
      jb_retry_stage j' = effective_stage j \<and> q_deliveries db' = q_deliveries db \<and> q_attempts db' = q_attempts db"
proof -
  let ?key = "dl_execution_key d"
  have ok: "queue_ok cfg db" and fd: "find_delivery ty ikey db = Some d" and fj: "find_job_row ?key db = Some j"
    using assms(1) by (simp_all add: in_delivery_def)
  have j: "j \<in> set (q_jobs db)" "jb_execution_key j = ?key" using find_job_row_Some[OF fj] by auto
  then have "job_ok (delivery_keys db) j" using ok by (simp add: queue_ok_def jobs_ok_def)
  then obtain st where eff: "effective_stage j = Some st" "is_executable_stage st" by (auto simp: job_ok_def)
  then have st: "effective_stage j = Some st" "attention_resume_stage ?key j = Inr st"
    using assms(2) by (auto simp: attention_resume_stage_def effective_stage_def split: if_splits)
  let ?mark = "\<lambda>j::job_row. j\<lparr>jb_stage := RequiresAttention, jb_retry_stage := Some st,
      jb_last_error_kind := Some ''payload_too_large'', jb_last_error := Some (take 512 (oversized_message dc ty body_bytes)),
      jb_updated_at := now\<rparr>"
  have one: "count_where (\<lambda>j. jb_execution_key j = ?key) (q_jobs db) = 1"
    using key_count_1[OF queue_ok_keys[OF ok] j(1), of "\<lambda>_. True"] j(2) by simp
  let ?db' = "db\<lparr>q_jobs := update_where (\<lambda>j. jb_execution_key j = ?key) ?mark (q_jobs db)\<rparr>"
  have mark: "mark_requires_attention now ?key ''payload_too_large'' (oversized_message dc ty body_bytes) db = (Inr (), ?db')"
    using fj st(2) one
    by (simp add: mark_requires_attention_def transaction_def seqp_def gets_def lift_sum_def update_jobs_def require_def)
  then have "deliver dc julian_ms now stop ty ikey body_bytes script db
      = (Inl (DeliveryAbandoned (oversized_message dc ty body_bytes)), ?db')"
    using assms(3) fd by (simp add: deliver_def abandon_oversized_body_def delivery_execution_key_def seqp_def throw_def)
  moreover have "find_job_row ?key ?db' = Some (?mark j)"
    using fj by (simp add: find_job_row_def find_update_where[where k = jb_execution_key])
  ultimately show ?thesis using st(1) by (intro exI[of _ ?db'] exI[of _ "?mark j"]) simp
qed

lemma oversized_delivery_is_set_aside_example:
  "\<exists>e. fst (deliver \<lparr>dc_retry_initial = 5, dc_retry_max = 60, dc_max_body_bytes = 1000\<rparr> (\<lambda>_ _. 0) 5000 False
     StartRequest ''k1'' 2000 [example_answer] example_queue) = Inl (DeliveryAbandoned e)"
  using oversized_delivery_is_set_aside[OF example_in_delivery,
      of "\<lparr>dc_retry_initial = 5, dc_retry_max = 60, dc_max_body_bytes = 1000\<rparr>" 2000 "\<lambda>_ _. 0" 5000 False "[example_answer]"]
  by (auto simp: new_job_row_def)

end
