(* ===== verification/File_System.thy ===== *)
theory File_System
  imports Agent_Types Utc_Time
begin

text \<open>
  The part of \<open>std::filesystem\<close> and of the POSIX calls under it that the agent uses: path text and
  decomposition, symbolic link resolution, \<open>weakly_canonical\<close>, and the calls that read and change
  the disk. Every call may fail: the disk carries the script of the failures still to come, so a
  statement about every disk is a statement about every failure at every call. A file or directory
  entry remembers whether it has reached stable storage.
\<close>

section \<open>Paths\<close>

fun split_slash :: "string \<Rightarrow> string \<Rightarrow> string list" where
  "split_slash acc [] = [rev acc]"
| "split_slash acc (c # s) = (if c = CHR ''/'' then rev acc # split_slash [] s else split_slash (c # acc) s)"

text \<open>The components iterating over a path yields: the root, the names, and an empty name after a
  trailing separator.\<close>

definition path_of :: "string \<Rightarrow> path" where
  "path_of s =
     (let names = filter (\<lambda>n. n \<noteq> []) (split_slash [] s) in
      (if s \<noteq> [] \<and> hd s = CHR ''/'' then [''/''] else []) @ names @
      (if names \<noteq> [] \<and> last s = CHR ''/'' then [[]] else []))"

fun join_slash :: "path \<Rightarrow> string" where
  "join_slash [] = []"
| "join_slash [n] = n"
| "join_slash (n # ns) = n @ ''/'' @ join_slash ns"

definition path_text :: "path \<Rightarrow> string" where
  "path_text p = (if p \<noteq> [] \<and> hd p = ''/'' then ''/'' @ join_slash (tl p) else join_slash p)"

definition is_absolute :: "path \<Rightarrow> bool" where
  "is_absolute p \<longleftrightarrow> p \<noteq> [] \<and> hd p = ''/''"

definition parent_path :: "path \<Rightarrow> path" where
  "parent_path p = (if p = [''/''] then p else butlast p)"

definition filename :: "path \<Rightarrow> string" where
  "filename p = (if p = [] \<or> p = [''/''] then [] else last p)"

definition extension :: "path \<Rightarrow> string" where
  "extension p =
     (let f = filename p; tail = rev (takeWhile (\<lambda>c. c \<noteq> CHR ''.'') (rev f))
      in if f = ''.'' \<or> f = ''..'' \<or> length tail + 1 \<ge> length f then [] else CHR ''.'' # tail)"

fun append_name :: "path \<Rightarrow> string \<Rightarrow> path" where
  "append_name p n = (if p \<noteq> [] \<and> last p = [] then butlast p @ [n] else p @ [n])"

text \<open>\<open>lexically_normal\<close>; the accumulator holds the components so far, last first.\<close>

fun normal_names :: "string list \<Rightarrow> path \<Rightarrow> string list" where
  "normal_names acc [] = acc"
| "normal_names acc (n # ns) =
     (if n = [] \<or> n = ''.'' then normal_names acc ns
      else if n = ''..'' then
        (case acc of
           [] \<Rightarrow> normal_names [n] ns
         | a # as \<Rightarrow> if a = ''/'' then normal_names acc ns
                    else if a = ''..'' then normal_names (n # acc) ns else normal_names as ns)
      else normal_names (n # acc) ns)"

definition lexically_normal :: "path \<Rightarrow> path" where
  "lexically_normal p =
     (let acc = normal_names [] p in
      rev acc @ (if p \<noteq> [] \<and> (last p = [] \<or> last p = ''.'' \<or> last p = ''..'') \<and> acc \<noteq> [] \<and>
                    hd acc \<noteq> ''/'' \<and> hd acc \<noteq> ''..'' then [[]] else []))"

section \<open>The disk\<close>

datatype fs_entry =
    RegularFile (content: string) (mtime: time_point) (durable: bool)
  | Directory (durable: bool)
  | Symlink (target: path)

type_synonym files = "path \<Rightarrow> fs_entry option"

text \<open>\<open>dk_faults\<close>: for each coming call, \<open>None\<close> or the error text it fails with and the number of
  bytes a failing copy has already written; an empty script fails no call. \<open>dk_skews\<close> are the
  differences between the two clock readings of \<open>format_file_time\<close>.\<close>

record disk =
  dk_files :: files
  dk_cwd :: path
  dk_clock :: time_point
  dk_temporary_sequence :: "64 word"
  dk_skews :: "int list"
  dk_faults :: "(string \<times> nat) option list"

type_synonym 'a io = "(disk, agent_exn, 'a) proc"

definition is_dir :: "fs_entry option \<Rightarrow> bool" where
  "is_dir e \<longleftrightarrow> (case e of Some (Directory _) \<Rightarrow> True | _ \<Rightarrow> False)"

definition is_regular :: "fs_entry option \<Rightarrow> bool" where
  "is_regular e \<longleftrightarrow> (case e of Some (RegularFile _ _ _) \<Rightarrow> True | _ \<Rightarrow> False)"

definition link_target :: "fs_entry option \<Rightarrow> path option" where
  "link_target e = (case e of Some (Symlink t) \<Rightarrow> Some t | _ \<Rightarrow> None)"

lemma entry_kinds [simp]:
  "is_dir (Some (Directory d))" "\<not> is_dir (Some (RegularFile c m s))" "\<not> is_dir (Some (Symlink t))" "\<not> is_dir None"
  "is_regular (Some (RegularFile c m s))" "\<not> is_regular (Some (Directory d))" "\<not> is_regular (Some (Symlink t))" "\<not> is_regular None"
  "link_target (Some (Symlink t)) = Some t" "link_target (Some (Directory d)) = None"
  "link_target (Some (RegularFile c m s)) = None" "link_target None = None"
  by (simp_all add: is_dir_def is_regular_def link_target_def)

lemma is_dirE: "is_dir e \<Longrightarrow> (\<And>d. e = Some (Directory d) \<Longrightarrow> thesis) \<Longrightarrow> thesis"
  by (auto simp: is_dir_def split: option.splits fs_entry.splits)

lemma is_regularE: "is_regular e \<Longrightarrow> (\<And>c m s. e = Some (RegularFile c m s) \<Longrightarrow> thesis) \<Longrightarrow> thesis"
  by (auto simp: is_regular_def split: option.splits fs_entry.splits)

section \<open>Resolving symbolic links\<close>

datatype resolved = At path | NoEntry | LinkLoop

text \<open>Where resolving a path begins: at the root, or at the given directory.\<close>

definition start_at :: "path \<Rightarrow> path \<Rightarrow> path" where
  "start_at at p = (if is_absolute p then [''/''] else at)"

text \<open>
  Path resolution from the directory \<open>at\<close>: every component but the last must be a directory, a link
  is replaced by its target, and after \<open>links\<close> replacements the kernel gives up.
\<close>

function resolve :: "nat \<Rightarrow> files \<Rightarrow> path \<Rightarrow> path \<Rightarrow> resolved" where
  "resolve links fs at [] = At at"
| "resolve links fs at (n # ns) =
     (if \<not> is_dir (fs at) then NoEntry
      else if n = ''/'' \<or> n = [] \<or> n = ''.'' then resolve links fs at ns
      else if n = ''..'' then resolve links fs (parent_path at) ns
      else case link_target (fs (at @ [n])) of
        None \<Rightarrow> resolve links fs (at @ [n]) ns
      | Some t \<Rightarrow> (case links of 0 \<Rightarrow> LinkLoop | Suc k \<Rightarrow> resolve k fs (start_at at t) (t @ ns)))"
  by pat_completeness auto
termination by (relation "measures [\<lambda>(links, fs, at, p). links, \<lambda>(links, fs, at, p). length p]") auto

definition max_links :: nat where
  "max_links = 40"

definition follow :: "disk \<Rightarrow> path \<Rightarrow> resolved" where
  "follow d p = resolve max_links (dk_files d) (start_at (dk_cwd d) p) p"

definition real_path :: "disk \<Rightarrow> path \<Rightarrow> resolved" where
  "real_path d p = (if p = [] then NoEntry else follow d p)"

text \<open>\<open>stat\<close>: what a path leads to; \<open>lstat\<close> looks at the last name without following it.\<close>

definition entry_at :: "disk \<Rightarrow> path \<Rightarrow> fs_entry option" where
  "entry_at d p = (case real_path d p of At q \<Rightarrow> dk_files d q | _ \<Rightarrow> None)"

definition locate :: "disk \<Rightarrow> path \<Rightarrow> path option" where
  "locate d p =
     (if p = [] then None
      else if last p \<in> {''/'', [], ''.'', ''..''} then (case real_path d p of At q \<Rightarrow> Some q | _ \<Rightarrow> None)
      else case follow d (butlast p) of
             At q \<Rightarrow> if is_dir (dk_files d q) then Some (q @ [last p]) else None
           | _ \<Rightarrow> None)"

definition link_entry_at :: "disk \<Rightarrow> path \<Rightarrow> fs_entry option" where
  "link_entry_at d p = (case locate d p of None \<Rightarrow> None | Some q \<Rightarrow> dk_files d q)"

section \<open>Calls\<close>

definition take_fault :: "(string \<times> nat) option io" where
  "take_fault d = (case dk_faults d of [] \<Rightarrow> (Inr None, d) | f # fs \<Rightarrow> (Inr f, d\<lparr>dk_faults := fs\<rparr>))"

definition io_call :: "unit io" where
  "io_call = seqp take_fault (\<lambda>f. case f of None \<Rightarrow> ret () | Some (what, _) \<Rightarrow> throw (RuntimeError what))"

definition no_such_file :: "agent_exn" where
  "no_such_file = RuntimeError ''No such file or directory''"

definition fs_status :: "path \<Rightarrow> fs_entry option io" where
  "fs_status p = seqp io_call (\<lambda>_ d.
     if real_path d p = LinkLoop then (Inl (RuntimeError ''Too many levels of symbolic links''), d)
     else (Inr (entry_at d p), d))"

definition fs_symlink_status :: "path \<Rightarrow> fs_entry option io" where
  "fs_symlink_status p = seqp io_call (\<lambda>_. gets (\<lambda>d. link_entry_at d p))"

definition fs_exists :: "path \<Rightarrow> bool io" where
  "fs_exists p = seqp (fs_status p) (\<lambda>e. ret (e \<noteq> None))"

definition fs_file_size :: "path \<Rightarrow> nat io" where
  "fs_file_size p = seqp (fs_status p) (\<lambda>e. case e of
       Some (RegularFile c _ _) \<Rightarrow> ret (length c)
     | None \<Rightarrow> throw no_such_file
     | _ \<Rightarrow> throw (RuntimeError ''Is a directory''))"

definition fs_last_write_time :: "path \<Rightarrow> time_point io" where
  "fs_last_write_time p = seqp (fs_status p) (\<lambda>e. case e of
       Some (RegularFile _ m _) \<Rightarrow> ret m | Some _ \<Rightarrow> ret 0 | None \<Rightarrow> throw no_such_file)"

text \<open>\<open>weakly_canonical\<close>: the longest existing prefix resolved, the rest appended, normalised.\<close>

fun existing_prefix :: "disk \<Rightarrow> path \<Rightarrow> path \<Rightarrow> path \<times> path" where
  "existing_prefix d done [] = (done, [])"
| "existing_prefix d done (n # ns) =
     (if entry_at d (done @ [n]) \<noteq> None then existing_prefix d (done @ [n]) ns else (done, n # ns))"

definition weakly_canonical_at :: "disk \<Rightarrow> path \<Rightarrow> path" where
  "weakly_canonical_at d p =
     (case real_path d p of
        At q \<Rightarrow> if dk_files d q \<noteq> None then q
               else (let (pre, rest) = existing_prefix d [] p in
                     lexically_normal ((case real_path d pre of At r \<Rightarrow> r | _ \<Rightarrow> []) @ rest))
      | _ \<Rightarrow> (let (pre, rest) = existing_prefix d [] p in
              lexically_normal ((case real_path d pre of At r \<Rightarrow> r | _ \<Rightarrow> []) @ rest)))"

definition weakly_canonical :: "path \<Rightarrow> path io" where
  "weakly_canonical p = seqp (fs_status p) (\<lambda>_. gets (\<lambda>d. weakly_canonical_at d p))"

text \<open>OpenSSL's digest of the bytes a stream on the file delivers.\<close>

definition sha256_file_hex :: "(string \<Rightarrow> string) \<Rightarrow> path \<Rightarrow> string io" where
  "sha256_file_hex sha256_hex p = seqp io_call (\<lambda>_ d. case entry_at d p of
       Some (RegularFile c _ _) \<Rightarrow> (Inr (sha256_hex c), d)
     | _ \<Rightarrow> (Inl (RuntimeError (''failed to open file for SHA-256: '' @ path_text p)), d))"

definition put_entry :: "path \<Rightarrow> fs_entry option \<Rightarrow> disk \<Rightarrow> disk" where
  "put_entry q e d = d\<lparr>dk_files := (dk_files d)(q := e)\<rparr>"

definition set_durable :: "bool \<Rightarrow> fs_entry \<Rightarrow> fs_entry" where
  "set_durable b e = (case e of RegularFile c m _ \<Rightarrow> RegularFile c m b | Directory _ \<Rightarrow> Directory b | Symlink t \<Rightarrow> Symlink t)"

definition mark_entry :: "path \<Rightarrow> bool \<Rightarrow> disk \<Rightarrow> disk" where
  "mark_entry q b d = put_entry q (map_option (set_durable b) (dk_files d q)) d"

text \<open>Changing a name leaves its directory to be synchronised.\<close>

definition change_name :: "path \<Rightarrow> fs_entry option \<Rightarrow> disk \<Rightarrow> disk" where
  "change_name q e d = mark_entry (parent_path q) False (put_entry q e d)"

definition is_name :: "string \<Rightarrow> bool" where
  "is_name n \<longleftrightarrow> n \<noteq> ''/'' \<and> n \<noteq> [] \<and> n \<noteq> ''.'' \<and> n \<noteq> ''..''"

definition create_directory :: "path \<Rightarrow> unit io" where
  "create_directory p = seqp (fs_status p) (\<lambda>e.
     if is_dir e then ret ()
     else if e \<noteq> None then throw (RuntimeError ''Not a directory'')
     else seqp io_call (\<lambda>_ d. case if is_name (last p) then locate d p else None of
         Some q \<Rightarrow> if dk_files d q = None then (Inr (), change_name q (Some (Directory False)) d)
                   else (Inl (RuntimeError ''File exists''), d)
       | None \<Rightarrow> (Inl no_such_file, d)))"

definition create_directories :: "path \<Rightarrow> unit io" where
  "create_directories p = for_each create_directory (map (\<lambda>i. take i p) [1..<Suc (length p)])"

text \<open>
  \<open>copy_file\<close> with \<open>copy_options::none\<close> creates the new file exclusively; a copy that fails later
  leaves what it has written.
\<close>

definition create_file :: "path \<Rightarrow> path io" where
  "create_file to = seqp io_call (\<lambda>_ d. case if is_name (last to) then locate d to else None of
       Some q \<Rightarrow> if dk_files d q = None then (Inr q, change_name q (Some (RegularFile [] (dk_clock d) False)) d)
                 else (Inl (RuntimeError ''File exists''), d)
     | None \<Rightarrow> (Inl no_such_file, d))"

definition write_file :: "path \<Rightarrow> string \<Rightarrow> unit io" where
  "write_file q c = seqp take_fault (\<lambda>f d. case f of
       None \<Rightarrow> (Inr (), put_entry q (Some (RegularFile c (dk_clock d) False)) d)
     | Some (what, n) \<Rightarrow>
         (Inl (RuntimeError what), put_entry q (Some (RegularFile (take n c) (dk_clock d) False)) d))"

definition copy_file :: "path \<Rightarrow> path \<Rightarrow> unit io" where
  "copy_file from to =
     seqp (fs_status from) (\<lambda>source. case source of
       Some (RegularFile c _ _) \<Rightarrow> seqp (create_file to) (\<lambda>q. write_file q c)
     | None \<Rightarrow> throw no_such_file
     | _ \<Rightarrow> throw (RuntimeError ''Invalid argument''))"

text \<open>\<open>open\<close> and \<open>fsync\<close>; \<open>fsync\<close> is repeated while a signal interrupts it.\<close>

definition open_for_sync :: "(fs_entry option \<Rightarrow> bool) \<Rightarrow> path \<Rightarrow> path io" where
  "open_for_sync kind p = seqp io_call (\<lambda>_ d.
     case real_path d p of
       At q \<Rightarrow> if kind (dk_files d q) then (Inr q, d)
               else (Inl (RuntimeError (''failed to open '' @ path_text p @ '' for sync: '')), d)
     | _ \<Rightarrow> (Inl (RuntimeError (''failed to open '' @ path_text p @ '' for sync: '')), d))"

definition sync_at :: "(fs_entry option \<Rightarrow> bool) \<Rightarrow> path \<Rightarrow> unit io" where
  "sync_at kind p =
     seqp (open_for_sync kind p) (\<lambda>q.
     seqp take_fault (\<lambda>f d. case f of
         None \<Rightarrow> (Inr (), mark_entry q True d)
       | Some (what, _) \<Rightarrow> (Inl (RuntimeError (''failed to sync '' @ path_text p @ '': '' @ what)), d)))"

definition fs_rename :: "path \<Rightarrow> path \<Rightarrow> unit io" where
  "fs_rename from to =
     seqp io_call (\<lambda>_ d. case (locate d from, locate d to) of
         (Some a, Some b) \<Rightarrow>
           (case dk_files d a of
              None \<Rightarrow> (Inl no_such_file, d)
            | Some e \<Rightarrow> if is_dir (dk_files d b) \<or> is_dir (Some e) then (Inl (RuntimeError ''Is a directory''), d)
                       else (Inr (), change_name b (Some e) (change_name a None d)))
       | _ \<Rightarrow> (Inl no_such_file, d))"

text \<open>\<open>remove\<close> with an ignored error code; it does not remove a directory that has entries.\<close>

definition fs_remove :: "path \<Rightarrow> unit io" where
  "fs_remove p =
     seqp take_fault (\<lambda>f d. case f of
         Some _ \<Rightarrow> (Inr (), d)
       | None \<Rightarrow> (case locate d p of
           Some q \<Rightarrow> if dk_files d q \<noteq> None \<and> \<not> is_dir (dk_files d q) then (Inr (), change_name q None d) else (Inr (), d)
         | None \<Rightarrow> (Inr (), d)))"

end
