(* ===== verification/Archive_Store.thy ===== *)
theory Archive_Store
  imports File_System
begin

text \<open>
  \<open>LocalArchiveStore\<close> (\<open>agent/src/execution/local_archive_store.cpp\<close>) and \<open>LocalDirCollector\<close>
  (\<open>agent/src/collectors/local_dir_collector.cpp\<close>): fingerprinting a source file, copying it into the
  archive by way of a verified and synchronised temporary file, recovering an interrupted copy, and
  listing the files of a source directory. The lemmas say what can be on the disk afterwards,
  whichever call fails.
\<close>

section \<open>Names\<close>

definition is_name_char :: "char \<Rightarrow> bool" where
  "is_name_char c \<longleftrightarrow> isalnum c \<or> c = CHR ''-'' \<or> c = CHR ''_'' \<or> c = CHR ''.''"

definition is_safe_segment :: "string \<Rightarrow> bool" where
  "is_safe_segment v \<longleftrightarrow> v \<noteq> [] \<and> v \<noteq> ''.'' \<and> v \<noteq> ''..'' \<and> list_all is_name_char v"

definition sanitized_filename :: "string \<Rightarrow> string" where
  "sanitized_filename original =
     (let result = map (\<lambda>c. if is_name_char c then c else CHR ''_'') original in
      if result = [] \<or> result = ''.'' \<or> result = ''..'' then ''file'' else result)"

section \<open>Inspecting a source\<close>

record local_file_metadata =
  lm_source_path :: path
  lm_original_name :: string
  lm_file_hash :: string
  lm_size_bytes :: int
  lm_source_mtime :: string
  lm_fingerprint :: string

record collected_item =
  ci_local_path :: string
  ci_original_name :: string
  ci_source_mtime :: string

definition take_skew :: "int io" where
  "take_skew d = (case dk_skews d of [] \<Rightarrow> (Inr 0, d) | k # ks \<Rightarrow> (Inr k, d\<lparr>dk_skews := ks\<rparr>))"

definition format_file_time :: "time_point \<Rightarrow> string io" where
  "format_file_time value = seqp take_skew (\<lambda>skew. ret (format_utc_timestamp (value + skew)))"

definition source_fingerprint :: "path \<Rightarrow> int \<Rightarrow> string \<Rightarrow> string \<Rightarrow> string" where
  "source_fingerprint p bytes modified hash =
     path_text p @ newline @ int_to_string bytes @ newline @ modified @ newline @ hash"

definition inspect :: "(string \<Rightarrow> string) \<Rightarrow> collected_item \<Rightarrow> local_file_metadata io" where
  "inspect sha256_hex item =
     (let input = path_of (ci_local_path item) in
      seqp (fs_symlink_status input) (\<lambda>status.
      seqp (weakly_canonical input) (\<lambda>source_path.
      seqp (require (is_regular status) (RuntimeError ''source is not a regular non-symlink file'')) (\<lambda>_.
      seqp (fs_file_size source_path) (\<lambda>size.
      seqp (require (size \<le> 2 ^ 63 - 1) (RuntimeError ''source file is too large'')) (\<lambda>_.
      seqp (seqp (fs_last_write_time source_path) format_file_time) (\<lambda>modified.
      seqp (sha256_file_hex sha256_hex source_path) (\<lambda>hash.
        ret \<lparr>lm_source_path = source_path, lm_original_name = ci_original_name item, lm_file_hash = hash,
             lm_size_bytes = int size, lm_source_mtime = modified,
             lm_fingerprint = source_fingerprint source_path (int size) modified hash\<rparr>))))))))"

section \<open>Archiving\<close>

definition plan_archive_path :: "path \<Rightarrow> string \<Rightarrow> string \<Rightarrow> nat \<Rightarrow> string \<Rightarrow> agent_exn + path" where
  "plan_archive_path work_dir task_id task_run_id ordinal original_name =
     (if \<not> is_safe_segment task_id \<or> \<not> is_safe_segment task_run_id \<or> ordinal = 0
      then Inl (InvalidArgumentError ''task, task run and ordinal must form a safe archive path'')
      else Inr (work_dir @ [''archive'', task_id, task_run_id,
                            nat_to_string ordinal @ ''-'' @ sanitized_filename original_name]))"

function sync_directory_chain :: "path \<Rightarrow> unit io" where
  "sync_directory_chain directory =
     seqp (sync_at is_dir directory) (\<lambda>_.
       if parent_path directory = directory then ret () else sync_directory_chain (parent_path directory))"
  by pat_completeness auto
termination
proof (relation "measure length")
  fix directory :: path
  assume moves: "parent_path directory \<noteq> directory"
  then have "directory \<noteq> []" by (auto simp: parent_path_def)
  with moves show "(parent_path directory, directory) \<in> measure length"
    by (auto simp: parent_path_def split: if_splits)
qed simp

declare sync_directory_chain.simps [simp del]

definition next_temporary :: "64 word io" where
  "next_temporary d = (Inr (dk_temporary_sequence d), d\<lparr>dk_temporary_sequence := dk_temporary_sequence d + 1\<rparr>)"

definition temporary_name :: "path \<Rightarrow> 64 word \<Rightarrow> string" where
  "temporary_name destination n = filename destination @ ''.tmp-'' @ nat_to_string (unat n)"

definition matches_evidence :: "(string \<Rightarrow> string) \<Rightarrow> local_file_metadata \<Rightarrow> string \<Rightarrow> bool" where
  "matches_evidence sha256_hex source c \<longleftrightarrow>
     int (length c) = lm_size_bytes source \<and> sha256_hex c = lm_file_hash source"

text \<open>The guarded part: copy, verify, synchronise, publish.\<close>

definition publish_copy :: "(string \<Rightarrow> string) \<Rightarrow> local_file_metadata \<Rightarrow> path \<Rightarrow> path \<Rightarrow> path \<Rightarrow> path \<Rightarrow> unit io" where
  "publish_copy sha256_hex source input directory temporary destination =
     seqp (copy_file input temporary) (\<lambda>_.
     seqp (fs_file_size temporary) (\<lambda>archive_size.
     seqp (sha256_file_hex sha256_hex temporary) (\<lambda>archive_hash.
     seqp (require (int archive_size = lm_size_bytes source \<and> archive_hash = lm_file_hash source)
             (RuntimeError ''source changed while it was being archived'')) (\<lambda>_.
     seqp (sync_at (\<lambda>e. e \<noteq> None) temporary) (\<lambda>_.
     seqp (fs_rename temporary destination) (\<lambda>_.
       sync_directory_chain directory))))))"

definition publish_at :: "(string \<Rightarrow> string) \<Rightarrow> local_file_metadata \<Rightarrow> path \<Rightarrow> path \<Rightarrow> 64 word \<Rightarrow>
    (local_file_metadata \<times> path) io" where
  "publish_at sha256_hex source input destination n =
     (let directory = parent_path destination; temporary = directory @ [temporary_name destination n] in
      seqp (on_throw (publish_copy sha256_hex source input directory temporary destination) (fs_remove temporary)) (\<lambda>_.
      seqp (weakly_canonical destination) (\<lambda>archived. ret (source, archived))))"

definition archive :: "(string \<Rightarrow> string) \<Rightarrow> path \<Rightarrow> string \<Rightarrow> string \<Rightarrow> nat \<Rightarrow> local_file_metadata \<Rightarrow> path \<Rightarrow>
    (local_file_metadata \<times> path) io" where
  "archive sha256_hex work_dir task_id task_run_id ordinal source input =
     seqp (require (is_safe_segment task_id \<and> is_safe_segment task_run_id)
             (InvalidArgumentError ''task and task run IDs must be safe path segments'')) (\<lambda>_.
     seqp (lift_sum (plan_archive_path work_dir task_id task_run_id ordinal (lm_original_name source))) (\<lambda>destination.
     seqp (create_directories (parent_path destination)) (\<lambda>_.
     seqp (fs_exists destination) (\<lambda>taken.
     seqp (require (\<not> taken) (ArchiveConflictError ''archive destination already exists'')) (\<lambda>_.
     seqp next_temporary (publish_at sha256_hex source input destination))))))"

text \<open>\<open>std::stoull\<close> in base 10; the rest of the text after the digits is ignored.\<close>

definition stoull :: "string \<Rightarrow> agent_exn + nat" where
  "stoull s =
     (let t = dropWhile isspace s;
          negative = (t \<noteq> [] \<and> hd t = CHR ''-'');
          u = (if t \<noteq> [] \<and> (hd t = CHR ''-'' \<or> hd t = CHR ''+'') then tl t else t);
          digits = takeWhile isdigit u; v = digits_value 0 digits
      in if digits = [] then Inl (InvalidArgumentError ''stoull'')
         else if v \<ge> 2 ^ 64 then Inl (RuntimeError ''stoull'')
         else Inr (if negative then (2 ^ 64 - v) mod 2 ^ 64 else v))"

text \<open>The condition of the recovery, read from left to right.\<close>

definition holds_evidence :: "(string \<Rightarrow> string) \<Rightarrow> local_file_metadata \<Rightarrow> path \<Rightarrow> bool io" where
  "holds_evidence sha256_hex source p =
     seqp (fs_status p) (\<lambda>e.
     if \<not> is_regular e then ret False
     else seqp (fs_file_size p) (\<lambda>bytes.
     if int bytes \<noteq> lm_size_bytes source then ret False
     else seqp (sha256_file_hex sha256_hex p) (\<lambda>hash. ret (hash = lm_file_hash source))))"

definition recover_archive :: "(string \<Rightarrow> string) \<Rightarrow> path \<Rightarrow> local_file_metadata \<Rightarrow> path \<Rightarrow> path \<Rightarrow>
    (local_file_metadata \<times> path) io" where
  "recover_archive sha256_hex work_dir source archive_path input =
     seqp (fs_exists archive_path) (\<lambda>there.
     if there then
       seqp (holds_evidence sha256_hex source archive_path) (\<lambda>genuine.
       seqp (require genuine (ArchiveConflictError ''persisted archive conflicts with expected evidence'')) (\<lambda>_.
       seqp (sync_at (\<lambda>e. e \<noteq> None) archive_path) (\<lambda>_.
       seqp (sync_directory_chain (parent_path archive_path)) (\<lambda>_.
       seqp (weakly_canonical archive_path) (\<lambda>p. ret (source, p))))))
     else
       (let name = filename archive_path; parent = parent_path archive_path in
        seqp (require (CHR ''-'' \<in> set name) (RuntimeError ''invalid persisted archive path'')) (\<lambda>_.
        seqp (lift_sum (stoull (takeWhile (\<lambda>c. c \<noteq> CHR ''-'') name))) (\<lambda>ordinal.
          archive sha256_hex work_dir (filename (parent_path parent)) (filename parent) ordinal source input))))"

section \<open>Collecting\<close>

record collect_result =
  cr_status :: status
  cr_items :: "collected_item list"

definition collect_failure :: "string \<Rightarrow> collect_result" where
  "collect_failure reason = \<lparr>cr_status = status_failure reason, cr_items = []\<rparr>"

fun collect_entries :: "path \<Rightarrow> string \<Rightarrow> collected_item list \<Rightarrow> string list \<Rightarrow> collected_item list io" where
  "collect_entries root extension_filter items [] = ret items"
| "collect_entries root extension_filter items (n # names) =
     (let p = append_name root n in
      seqp (fs_symlink_status p) (\<lambda>status.
        if \<not> is_regular status then collect_entries root extension_filter items names
        else if extension_filter \<noteq> [] \<and> extension p \<noteq> extension_filter
        then collect_entries root extension_filter items names
        else seqp (weakly_canonical p) (\<lambda>local.
          collect_entries root extension_filter
            (items @ [\<lparr>ci_local_path = path_text local, ci_original_name = filename p, ci_source_mtime = ''pending''\<rparr>])
            names)))"

text \<open>\<open>names\<close> is the kernel's listing of a directory, in the order \<open>readdir\<close> returns it.\<close>

definition collect :: "(disk \<Rightarrow> path \<Rightarrow> string list) \<Rightarrow> path \<Rightarrow> string \<Rightarrow> collect_result io" where
  "collect read_dir root extension_filter d =
     (case seqp (fs_exists root) (\<lambda>there.
        if \<not> there then ret (collect_failure ''local directory does not exist'')
        else seqp (fs_status root) (\<lambda>e.
        if \<not> is_dir e then ret (collect_failure ''local path is not a directory'')
        else seqp io_call (\<lambda>_. seqp (gets (\<lambda>d. case real_path d root of At q \<Rightarrow> read_dir d q | _ \<Rightarrow> [])) (\<lambda>names.
        seqp (collect_entries root extension_filter [] names) (\<lambda>items.
          ret \<lparr>cr_status = status_success, cr_items = sort_key ci_local_path items\<rparr>))))) d of
       (Inl (RuntimeError what), d') \<Rightarrow> (Inr (collect_failure (''failed to scan local directory: '' @ what)), d')
     | (r, d') \<Rightarrow> (r, d'))"

end
