(* ===== verification/Archive_Safety.thy ===== *)
theory Archive_Safety
  imports Archive_Store
begin

text \<open>
  What archiving can do to a disk. \<open>archive_effect\<close> lists the only changes a call of \<open>archive\<close> may
  make, entry by entry and with the directory they lie in; the lemmas show that every call it makes stays within them, whether it
  succeeds or fails, so the property holds for every script of failures.
\<close>

section \<open>Reading calls\<close>

definition only_faults :: "disk \<Rightarrow> disk \<Rightarrow> bool" where
  "only_faults d d' \<longleftrightarrow> (\<exists>fs. d' = d\<lparr>dk_faults := fs\<rparr>)"

lemma only_faultsI [simp, intro]: "only_faults d (d\<lparr>dk_faults := fs\<rparr>)"
  unfolding only_faults_def by blast

lemma only_faults_refl [simp, intro]: "only_faults d d"
  unfolding only_faults_def by (rule exI[of _ "dk_faults d"]) simp

lemma only_faults_trans: "only_faults d e \<Longrightarrow> only_faults e f \<Longrightarrow> only_faults d f"
  unfolding only_faults_def by auto

lemma only_faults_frame:
  assumes "only_faults d d'"
  shows "follow d' p = follow d p" "real_path d' p = real_path d p" "entry_at d' p = entry_at d p" "locate d' p = locate d p"
    "link_entry_at d' p = link_entry_at d p" "dk_files d' = dk_files d" "dk_cwd d' = dk_cwd d"
    "dk_temporary_sequence d' = dk_temporary_sequence d" "dk_skews d' = dk_skews d" "dk_clock d' = dk_clock d"
proof -
  obtain fs where d': "d' = d\<lparr>dk_faults := fs\<rparr>" using assms unfolding only_faults_def by blast
  have walks: "follow d' q = follow d q" for q by (simp add: d' follow_def)
  have real: "real_path d' p = real_path d p" by (simp add: real_path_def walks)
  have loc: "locate d' p = locate d p" unfolding locate_def walks by (simp add: d' real_path_def follow_def cong: resolved.case_cong)
  have files: "dk_files d' = dk_files d" by (simp add: d')
  show "follow d' p = follow d p" "real_path d' p = real_path d p" "entry_at d' p = entry_at d p" "locate d' p = locate d p"
    "link_entry_at d' p = link_entry_at d p"
    unfolding entry_at_def link_entry_at_def loc real files walks by simp_all
  show "dk_files d' = dk_files d" "dk_cwd d' = dk_cwd d" "dk_temporary_sequence d' = dk_temporary_sequence d"
    "dk_skews d' = dk_skews d" "dk_clock d' = dk_clock d"
    by (simp_all add: d')
qed

definition only_reads :: "'a io \<Rightarrow> bool" where
  "only_reads m \<longleftrightarrow> (\<forall>d r d'. m d = (r, d') \<longrightarrow> only_faults d d')"

lemma only_readsD: "only_reads m \<Longrightarrow> m d = (r, d') \<Longrightarrow> only_faults d d'"
  unfolding only_reads_def by blast

lemma only_reads_seqp:
  assumes "only_reads m" and "\<And>a. only_reads (f a)"
  shows "only_reads (seqp m f)"
  unfolding only_reads_def seqp_def
  using assms by (auto dest: only_readsD intro: only_faults_trans split: prod.splits sum.splits)

lemma only_reads_basic:
  "only_reads (ret a)" "only_reads (throw e)" "only_reads (require b e)" "only_reads (gets f)"
  "only_reads (lift_sum r)" "only_reads take_fault"
  by (auto simp: only_reads_def ret_def throw_def require_def gets_def lift_sum_def take_fault_def
      split: list.splits if_splits)

lemma only_reads_call: "only_reads io_call"
  unfolding io_call_def by (intro only_reads_seqp) (auto simp: only_reads_basic split: option.splits)

lemma only_reads_status: "only_reads (fs_status p)"
  unfolding fs_status_def
  by (intro only_reads_seqp only_reads_call) (auto simp: only_reads_def split: if_splits)

lemma only_reads_hash: "only_reads (sha256_file_hex sha p)"
  unfolding sha256_file_hex_def
  by (intro only_reads_seqp only_reads_call) (auto simp: only_reads_def split: option.splits fs_entry.splits)

lemma only_reads_exists: "only_reads (fs_exists p)"
  unfolding fs_exists_def by (intro only_reads_seqp only_reads_status only_reads_basic)

lemma only_reads_size: "only_reads (fs_file_size p)"
  unfolding fs_file_size_def
  by (intro only_reads_seqp only_reads_status) (auto simp: only_reads_basic split: option.splits fs_entry.splits)

lemma only_reads_canonical: "only_reads (weakly_canonical p)"
  unfolding weakly_canonical_def by (intro only_reads_seqp only_reads_status only_reads_basic)

lemma fs_status_Inr:
  assumes "fs_status p d = (Inr e, d')"
  shows "e = entry_at d p" "real_path d p \<noteq> LinkLoop"
proof -
  from assms obtain d1 where call: "io_call d = (Inr (), d1)" and e: "real_path d1 p \<noteq> LinkLoop" "e = entry_at d1 p"
    by (auto simp: fs_status_def seqp_Inr split: if_splits)
  note frame = only_faults_frame[OF only_readsD[OF only_reads_call call]]
  show "e = entry_at d p" "real_path d p \<noteq> LinkLoop" using e by (simp_all add: frame)
qed

lemma fs_exists_Inr: "fs_exists p d = (Inr b, d') \<Longrightarrow> b = (entry_at d p \<noteq> None)"
  by (auto simp: fs_exists_def seqp_Inr dest!: fs_status_Inr(1))

lemma fs_file_size_Inr:
  assumes "fs_file_size p d = (Inr n, d')"
  obtains c m s where "entry_at d p = Some (RegularFile c m s)" "n = length c"
proof -
  from assms obtain e d1 where e: "fs_status p d = (Inr e, d1)"
    and n: "(case e of Some (RegularFile c _ _) \<Rightarrow> ret (length c) | None \<Rightarrow> throw no_such_file
      | _ \<Rightarrow> throw (RuntimeError ''Is a directory'')) d1 = (Inr n, d')"
    by (auto simp: fs_file_size_def seqp_Inr)
  then obtain c m s where "e = Some (RegularFile c m s)" "n = length c"
    by (auto split: option.splits fs_entry.splits)
  with that[of c m s] fs_status_Inr(1)[OF e] show ?thesis by simp
qed

lemma sha256_file_hex_Inr:
  assumes "sha256_file_hex sha p d = (Inr h, d')"
  obtains c m s where "entry_at d p = Some (RegularFile c m s)" "h = sha c"
proof -
  from assms obtain d1 where call: "io_call d = (Inr (), d1)"
    and h: "(case entry_at d1 p of Some (RegularFile c _ _) \<Rightarrow> (Inr (sha c), d1)
       | _ \<Rightarrow> (Inl (RuntimeError (''failed to open file for SHA-256: '' @ path_text p)), d1)) = (Inr h, d')"
    by (auto simp: sha256_file_hex_def seqp_Inr)
  have "entry_at d1 p = entry_at d p" by (rule only_faults_frame[OF only_readsD[OF only_reads_call call]])
  with h that show ?thesis by (auto split: option.splits fs_entry.splits)
qed

section \<open>Names lead to the same place\<close>

text \<open>Resolution looks at directories and links only.\<close>

definition same_shape :: "disk \<Rightarrow> disk \<Rightarrow> bool" where
  "same_shape d d' \<longleftrightarrow> dk_cwd d' = dk_cwd d \<and>
     (\<forall>q. is_dir (dk_files d' q) = is_dir (dk_files d q) \<and> link_target (dk_files d' q) = link_target (dk_files d q))"

lemma resolve_shape:
  "(\<And>q. is_dir (fs' q) = is_dir (fs q) \<and> link_target (fs' q) = link_target (fs q)) \<Longrightarrow>
   resolve k fs' a p = resolve k fs a p"
  by (induction k fs a p rule: resolve.induct) (auto split: option.splits nat.splits)

lemma walk_shape: "same_shape d d' \<Longrightarrow> follow d' p = follow d p"
  unfolding follow_def using resolve_shape[of "dk_files d'" "dk_files d"] by (simp add: same_shape_def)

lemma real_path_shape: "same_shape d d' \<Longrightarrow> real_path d' p = real_path d p"
  by (simp add: real_path_def walk_shape)

lemma locate_shape: "same_shape d d' \<Longrightarrow> locate d' p = locate d p"
  using walk_shape[of d d'] real_path_shape[of d d']
  by (auto simp: locate_def same_shape_def split: resolved.splits)

lemma same_shape_refl [simp]: "same_shape d d" by (simp add: same_shape_def)

lemma same_shape_trans: "same_shape d e \<Longrightarrow> same_shape e f \<Longrightarrow> same_shape d f" by (simp add: same_shape_def)

text \<open>A path and one more name: what the path leads to, with the replacements that are left.\<close>

lemma resolve_append:
  "resolve k fs a p = At q \<Longrightarrow> \<exists>j \<le> k. \<forall>u. resolve k fs a (p @ u) = resolve j fs q u"
proof (induction k fs a p rule: resolve.induct)
  case (2 k fs a n ns)
  show ?case
  proof (cases "link_target (fs (a @ [n])) = None \<or> n = ''/'' \<or> n = [] \<or> n = ''.'' \<or> n = ''..''")
    case True
    with 2 show ?thesis by (auto split: if_splits option.splits)
  next
    case False
    with "2.prems" obtain t i where t: "link_target (fs (a @ [n])) = Some t" "k = Suc i" "is_dir (fs a)"
        "resolve i fs (start_at a t) (t @ ns) = At q"
      by (auto split: if_splits option.splits nat.splits)
    have "\<exists>j \<le> i. \<forall>u. resolve i fs (start_at a t) ((t @ ns) @ u) = resolve j fs q u"
      using "2.IH" False t by simp
    with t False show ?thesis by (auto intro: le_SucI)
  qed
qed auto

lemma resolve_prefix: "resolve k fs a (p @ u) = At q \<Longrightarrow> \<exists>x. resolve k fs a p = At x"
proof (induction k fs a p rule: resolve.induct)
  case (2 k fs a n ns)
  then show ?case by (auto split: if_splits option.splits nat.splits)
qed auto

lemma resolve_is_dir: "resolve k fs a (n # ns) = At q \<Longrightarrow> is_dir (fs a)"
  by (auto split: if_splits)

text \<open>Fewer replacements lead to the same place, or nowhere.\<close>

lemma resolve_fewer_links: "j \<le> k \<Longrightarrow> resolve j fs a p = LinkLoop \<or> resolve j fs a p = resolve k fs a p"
proof (induction k fs a p arbitrary: j rule: resolve.induct)
  case (2 k fs a n ns)
  show ?case
  proof (cases "link_target (fs (a @ [n])) = None \<or> n = ''/'' \<or> n = [] \<or> n = ''.'' \<or> n = ''..''")
    case True
    with 2 show ?thesis by (auto split: if_splits option.splits)
  next
    case False
    then obtain t where t: "link_target (fs (a @ [n])) = Some t" by auto
    show ?thesis
    proof (cases j)
      case (Suc i)
      with "2.prems" obtain l where "k = Suc l" "i \<le> l" by (cases k) auto
      with 2 t False Suc show ?thesis by auto
    qed (use t False in simp)
  qed
qed simp

lemma resolve_snoc:
  assumes "resolve k fs a p = At q" and "is_dir (fs q)" and "is_name n" and "link_target (fs (q @ [n])) = None"
  shows "resolve k fs a (p @ [n]) = At (q @ [n])"
  using resolve_append[OF assms(1)] assms(2-4) by (auto simp: is_name_def)

text \<open>
  Replacing the link \<open>r @ [n]\<close>, which leads to \<open>t\<close>, by a file changes only the walks that pass through it; such a walk
  goes on from the link as if it had started there.
\<close>

lemma resolve_without_link:
  assumes "\<And>q. is_dir (fs' q) = is_dir (fs q)" "\<And>q. q \<noteq> r @ [n] \<Longrightarrow> link_target (fs' q) = link_target (fs q)"
    and "link_target (fs (r @ [n])) = Some t" "resolve k fs a p = At q"
  shows "resolve k fs' a p = At q \<or> (\<exists>j rest. resolve j fs (start_at r t) (t @ rest) = At q)"
  using assms
proof (induction k fs a p rule: resolve.induct)
  case (2 k fs a m ns)
  note dirs = "2.prems"(1) and links = "2.prems"(2)
  show ?case
  proof (cases "m = ''/'' \<or> m = [] \<or> m = ''.'' \<or> m = ''..''")
    case True
    with 2 show ?thesis by (auto split: if_splits)
  next
    case name: False
    show ?thesis
    proof (cases "link_target (fs (a @ [m]))")
      case None
      then have "a @ [m] \<noteq> r @ [n]" using "2.prems"(3) by auto
      with None have "link_target (fs' (a @ [m])) = None" using links by simp
      with None name "2.prems" show ?thesis using "2.IH"(3) by (auto split: if_splits)
    next
      case (Some u)
      with name "2.prems" obtain i where i: "k = Suc i" "is_dir (fs a)" "resolve i fs (start_at a u) (u @ ns) = At q"
        by (auto split: if_splits nat.splits)
      show ?thesis
      proof (cases "a @ [m] = r @ [n]")
        case True
        with Some "2.prems"(3) i(3) show ?thesis by auto
      next
        case False
        then have "link_target (fs' (a @ [m])) = Some u" using Some links by simp
        moreover have "resolve i fs' (start_at a u) (u @ ns) = At q \<or> (\<exists>j rest. resolve j fs (start_at r t) (t @ rest) = At q)"
          using "2.IH"(4)[OF _ _ _ Some i(1) _ _ _ i(3)] name i(2) "2.prems"(1-3) by auto
        ultimately show ?thesis using name i dirs by auto
      qed
    qed
  qed
qed simp

lemma start_at_snoc: "is_name n \<Longrightarrow> start_at c (p @ [n]) = start_at c p"
  by (cases p) (auto simp: start_at_def is_absolute_def is_name_def)

lemma walk_name:
  assumes "follow d p = At q" and "is_dir (dk_files d q)" and "is_name n"
  shows "locate d (p @ [n]) = Some (q @ [n])"
    and "link_target (dk_files d (q @ [n])) = None \<Longrightarrow> real_path d (p @ [n]) = At (q @ [n])"
  using assms by (auto simp: locate_def real_path_def follow_def start_at_snoc is_name_def intro: resolve_snoc)

lemma walk_entry:
  "follow d p = At q \<Longrightarrow> is_dir (dk_files d q) \<Longrightarrow> is_name n \<Longrightarrow> link_target (dk_files d (q @ [n])) = None \<Longrightarrow>
   entry_at d (p @ [n]) = dk_files d (q @ [n])"
  by (simp add: entry_at_def walk_name(2))

lemma locate_name:
  assumes "locate d (p @ [n]) = Some q" and "is_name n"
  obtains r where "q = r @ [n]" "is_dir (dk_files d r)" "follow d p = At r"
  using assms by (auto simp: locate_def is_name_def split: resolved.splits if_splits)

text \<open>
  A name that leads nowhere, because it is a link to nothing, lies on no walk that succeeds: replacing it by a file
  leaves every walk to its directory as it is.
\<close>

lemma walk_past_nothing:
  assumes walk: "follow d p = At r" "is_dir (dk_files d r)" "is_name n"
    and gone: "entry_at d (p @ [n]) = None" "real_path d (p @ [n]) \<noteq> LinkLoop"
    and cwd: "dk_cwd d' = dk_cwd d" and dirs: "\<And>q. is_dir (dk_files d' q) = is_dir (dk_files d q)"
    and links: "\<And>q. q \<noteq> r @ [n] \<Longrightarrow> link_target (dk_files d' q) = link_target (dk_files d q)"
    and plain: "link_target (dk_files d' (r @ [n])) = None"
  shows "follow d' p = At r"
proof (cases "link_target (dk_files d (r @ [n]))")
  case None
  with cwd dirs links plain have "same_shape d d'" by (simp add: same_shape_def) (metis)
  with walk(1) show ?thesis by (simp add: walk_shape)
next
  case (Some t)
  let ?fs = "dk_files d"
  have from_link: "resolve k ?fs r [n] = (case k of 0 \<Rightarrow> LinkLoop | Suc i \<Rightarrow> resolve i ?fs (start_at r t) t)" for k
    using walk(2,3) Some by (auto simp: is_name_def split: nat.splits)
  have p: "resolve max_links ?fs (start_at (dk_cwd d) p) p = At r" using walk(1) by (simp add: follow_def)
  have path: "real_path d (p @ [n]) = resolve max_links ?fs (start_at (dk_cwd d) p) (p @ [n])"
    by (simp add: real_path_def follow_def start_at_snoc[OF walk(3)])
  from resolve_append[OF p] obtain j where
    "resolve max_links ?fs (start_at (dk_cwd d) p) (p @ [n]) = resolve j ?fs r [n]" by blast
  then have "real_path d (p @ [n]) = (case j of 0 \<Rightarrow> LinkLoop | Suc i \<Rightarrow> resolve i ?fs (start_at r t) t)"
    by (simp only: path from_link)
  with gone(2) obtain i where i: "real_path d (p @ [n]) = resolve i ?fs (start_at r t) t"
    by (cases j) auto
  have "\<nexists>k rest. resolve k ?fs (start_at r t) (t @ rest) = At r"
  proof
    assume "\<exists>k rest. resolve k ?fs (start_at r t) (t @ rest) = At r"
    then obtain k rest where through: "resolve k ?fs (start_at r t) (t @ rest) = At r" by blast
    then obtain x where x: "resolve k ?fs (start_at r t) t = At x" using resolve_prefix by blast
    obtain l where "resolve l ?fs x rest = At r" using resolve_append[OF x] through by auto
    then have "is_dir (?fs x)" using walk(2) by (cases rest) (simp, simp only: resolve_is_dir)
    then have there: "?fs x \<noteq> None" by (auto elim: is_dirE)
    have "resolve i ?fs (start_at r t) t = At x"
      using resolve_fewer_links[of i k ?fs "start_at r t" t] resolve_fewer_links[of k i ?fs "start_at r t" t] x i gone(2)
      by (cases "i \<le> k") auto
    with i there gone(1) show False by (simp add: entry_at_def)
  qed
  with resolve_without_link[OF dirs links Some p] show ?thesis by (simp add: follow_def cwd)
qed

lemma set_durable_kinds [simp]:
  "is_dir (map_option (set_durable b) e) = is_dir e" "link_target (map_option (set_durable b) e) = link_target e"
  "is_regular (map_option (set_durable b) e) = is_regular e"
  by (cases e; auto simp: set_durable_def is_dir_def link_target_def is_regular_def split: fs_entry.splits)+

lemma mark_entry_shape [simp]: "same_shape d (mark_entry q b d)"
  by (simp add: same_shape_def mark_entry_def put_entry_def)

lemma mark_entry_files: "dk_files (mark_entry q b d) r = (if r = q then map_option (set_durable b) (dk_files d q) else dk_files d r)"
  by (simp add: mark_entry_def put_entry_def)

lemma change_name_files:
  "q = r @ [n] \<Longrightarrow> is_name n \<Longrightarrow> dk_files (change_name q e d) x =
     (if x = q then e else if x = r then map_option (set_durable False) (dk_files d r) else dk_files d x)"
  by (auto simp: change_name_def mark_entry_files put_entry_def parent_path_def is_name_def)

lemma disk_frame [simp]:
  "dk_cwd (change_name q e d) = dk_cwd d" "dk_cwd (put_entry q e d) = dk_cwd d" "dk_cwd (mark_entry q b d) = dk_cwd d"
  "dk_temporary_sequence (change_name q e d) = dk_temporary_sequence d"
  "dk_temporary_sequence (put_entry q e d) = dk_temporary_sequence d"
  "dk_temporary_sequence (mark_entry q b d) = dk_temporary_sequence d"
  "dk_clock (change_name q e d) = dk_clock d" "dk_clock (put_entry q e d) = dk_clock d"
  by (simp_all add: change_name_def mark_entry_def put_entry_def)


section \<open>The changes archiving may make\<close>

text \<open>A directory is made or synchronised; nothing else changes.\<close>

definition dir_change :: "fs_entry option \<Rightarrow> fs_entry option \<Rightarrow> bool" where
  "dir_change old new \<longleftrightarrow> new = old \<or> is_dir new \<and> (old = None \<or> is_dir old)"

definition dirs_made :: "disk \<Rightarrow> disk \<Rightarrow> bool" where
  "dirs_made d e \<longleftrightarrow> (\<forall>q. dir_change (dk_files d q) (dk_files e q))"

text \<open>
  Beyond directories: the temporary file in the directory \<open>home\<close>, and the archived file in it, which was no file and
  no directory before and is a durable file that matches the evidence after.
\<close>

definition archive_effect :: "(string \<Rightarrow> string) \<Rightarrow> local_file_metadata \<Rightarrow> path \<Rightarrow> string \<Rightarrow> string \<Rightarrow> path \<Rightarrow>
    fs_entry option \<Rightarrow> fs_entry option \<Rightarrow> bool" where
  "archive_effect sha source home name temporary q old new \<longleftrightarrow>
     dir_change old new \<or> q = home @ [temporary] \<or>
     (q = home @ [name] \<and> \<not> is_regular old \<and> \<not> is_dir old \<and>
      (\<exists>c m. new = Some (RegularFile c m True) \<and> matches_evidence sha source c))"

definition within_effect where
  "within_effect sha source home name temporary d0 d \<longleftrightarrow>
     (\<forall>q. archive_effect sha source home name temporary q (dk_files d0 q) (dk_files d q))"

lemma dirs_made_refl: "dirs_made d d"
  by (simp add: dirs_made_def dir_change_def)

lemma dirs_made_effect: "dirs_made d0 d \<Longrightarrow> within_effect sha source home name temporary d0 d"
  by (simp add: dirs_made_def within_effect_def archive_effect_def)

lemma dirs_made_faults: "only_faults d d' \<Longrightarrow> dirs_made d0 d \<Longrightarrow> dirs_made d0 d'"
  by (simp add: dirs_made_def only_faults_frame)

lemma effect_faults: "only_faults d d' \<Longrightarrow> within_effect sha source home name temporary d0 d \<Longrightarrow> within_effect sha source home name temporary d0 d'"
  by (simp add: within_effect_def only_faults_frame)

lemma effect_mark_dir:
  assumes "within_effect sha source home name temporary d0 d" and "is_dir (dk_files d q)"
  shows "within_effect sha source home name temporary d0 (mark_entry q b d)"
  unfolding within_effect_def mark_entry_files
proof (intro allI)
  fix r
  from assms(1) have "archive_effect sha source home name temporary r (dk_files d0 r) (dk_files d r)"
    by (simp add: within_effect_def)
  with assms(2) show "archive_effect sha source home name temporary r (dk_files d0 r)
      (if r = q then map_option (set_durable b) (dk_files d q) else dk_files d r)"
    by (auto simp: archive_effect_def dir_change_def)
qed

lemma effect_put:
  assumes "within_effect sha source home name temporary d0 d"
    and "archive_effect sha source home name temporary q (dk_files d0 q) e"
  shows "within_effect sha source home name temporary d0 (put_entry q e d)"
  using assms by (auto simp: within_effect_def put_entry_def)

lemma parent_of_name: "is_name n \<Longrightarrow> parent_path (r @ [n]) = r"
  by (auto simp: parent_path_def is_name_def)

lemma effect_change_name:
  assumes "within_effect sha source home name temporary d0 d"
    and "archive_effect sha source home name temporary (r @ [n]) (dk_files d0 (r @ [n])) e"
    and "is_name n" "is_dir (dk_files d r)"
  shows "within_effect sha source home name temporary d0 (change_name (r @ [n]) e d)"
  using assms
  by (auto simp: change_name_def put_entry_def parent_of_name intro!: effect_mark_dir effect_put[unfolded put_entry_def])

lemma reads_hoare:
  assumes "only_reads m" and "\<And>d d'. only_faults d d' \<Longrightarrow> P d \<Longrightarrow> P d'"
  shows "hoare P m (\<lambda>_. P) (\<lambda>_. P)"
  using assms by (intro hoareI) (auto dest: only_readsD)

lemma reads_then:
  assumes "only_reads m" and "\<And>d d'. only_faults d d' \<Longrightarrow> P d \<Longrightarrow> P d'" and "\<And>e d. P d \<Longrightarrow> E e d"
    and "\<And>a. hoare P (f a) Q E"
  shows "hoare P (seqp m f) Q E"
  by (rule hoare_seqp[OF hoare_weaken[OF reads_hoare[OF assms(1,2)]] assms(4)]) (auto intro: assms(3))

section \<open>Making directories\<close>

lemma create_directory_Inr:
  assumes "create_directory p d = (Inr u, d')"
  shows "is_dir (entry_at d' p)"
    and "(\<exists>r. is_name (last p) \<and> dk_files d (r @ [last p]) = None \<and> is_dir (dk_files d r) \<and>
         dk_files d' = dk_files (change_name (r @ [last p]) (Some (Directory False)) d)) \<or> dk_files d' = dk_files d"
    and "dk_temporary_sequence d' = dk_temporary_sequence d"
proof -
  from assms obtain e d1 where st: "fs_status p d = (Inr e, d1)" and rest:
    "(if is_dir e then ret ()
     else if e \<noteq> None then throw (RuntimeError ''Not a directory'')
     else seqp io_call (\<lambda>_ d. case if is_name (last p) then locate d p else None of
         Some q \<Rightarrow> if dk_files d q = None then (Inr (), change_name q (Some (Directory False)) d)
                   else (Inl (RuntimeError ''File exists''), d)
       | None \<Rightarrow> (Inl no_such_file, d))) d1 = (Inr u, d')"
    by (auto simp: create_directory_def seqp_Inr)
  have f1: "only_faults d d1" using st by (rule only_readsD[OF only_reads_status])
  have e: "e = entry_at d p" using st by (rule fs_status_Inr)
  have "is_dir (entry_at d' p) \<and> ((\<exists>r. is_name (last p) \<and> dk_files d (r @ [last p]) = None \<and> is_dir (dk_files d r) \<and>
      dk_files d' = dk_files (change_name (r @ [last p]) (Some (Directory False)) d)) \<or> dk_files d' = dk_files d) \<and>
      dk_temporary_sequence d' = dk_temporary_sequence d"
  proof (cases "is_dir e")
    case True
    with rest have "d' = d1" by simp
    with True e show ?thesis by (simp add: only_faults_frame[OF f1])
  next
    case False
    with rest obtain d2 q where call: "io_call d1 = (Inr (), d2)" and q: "is_name (last p)" "locate d2 p = Some q" "dk_files d2 q = None"
      "d' = change_name q (Some (Directory False)) d2"
      by (auto simp: seqp_Inr split: if_splits option.splits)
    have f: "only_faults d d2" using f1 only_readsD[OF only_reads_call call] by (rule only_faults_trans)
    have ne: "p \<noteq> []" using q(2) by (auto simp: locate_def)
    with q(1,2) obtain r where r: "q = r @ [last p]" "is_dir (dk_files d2 r)" "follow d2 (butlast p) = At r"
      using locate_name[of d2 "butlast p" "last p" q] by auto
    have files: "dk_files d' x = (if x = q then Some (Directory False) else if x = r then map_option (set_durable False) (dk_files d2 r)
        else dk_files d2 x)" for x
      using change_name_files[OF r(1) q(1)] by (simp add: q(4))
    have ne': "r \<noteq> q" using r(1) by simp
    have "follow d' (butlast p) = At r"
    proof -
      have "resolve k (dk_files d') a w = At x" if "resolve k (dk_files d2) a w = At x" for k a w x
        using that
      proof (induction k "dk_files d2" a w rule: resolve.induct)
        case (2 k a n ns)
        have dir: "is_dir (dk_files d2 y) \<Longrightarrow> is_dir (dk_files d' y)" and link: "link_target (dk_files d' y) = link_target (dk_files d2 y)" for y
          using q(3) by (auto simp: files)
        show ?case using 2 dir[of a] link[of "a @ [n]"] by (auto split: if_splits option.splits nat.splits)
      qed simp
      with r(3) show ?thesis by (simp add: follow_def q(4))
    qed
    moreover have "is_dir (dk_files d' r)" "dk_files d' q = Some (Directory False)" using r(2) ne' by (simp_all add: files)
    ultimately have "entry_at d' (butlast p @ [last p]) = Some (Directory False)"
      using walk_entry[of d' "butlast p" r "last p"] q(1) r(1) by simp
    then have "is_dir (entry_at d' p)" using ne by simp
    moreover have "dk_files d' = dk_files (change_name (r @ [last p]) (Some (Directory False)) d)"
      by (rule ext) (simp add: files change_name_files[OF refl q(1)] r(1) only_faults_frame[OF f])
    moreover have "dk_temporary_sequence d' = dk_temporary_sequence d" by (simp add: q(4) only_faults_frame[OF f])
    ultimately show ?thesis using q(1,3) r(1,2) by (auto simp: only_faults_frame[OF f])
  qed
  then show "is_dir (entry_at d' p)"
    and "(\<exists>r. is_name (last p) \<and> dk_files d (r @ [last p]) = None \<and> is_dir (dk_files d r) \<and>
         dk_files d' = dk_files (change_name (r @ [last p]) (Some (Directory False)) d)) \<or> dk_files d' = dk_files d"
    and "dk_temporary_sequence d' = dk_temporary_sequence d" by blast+
qed

lemma create_directory_Inl: "create_directory p d = (Inl x, d') \<Longrightarrow> only_faults d d'"
  unfolding create_directory_def
  by (auto simp: seqp_def ret_def throw_def split: prod.splits sum.splits if_splits option.splits
      dest!: only_readsD[OF only_reads_status] only_readsD[OF only_reads_call] intro: only_faults_trans)

lemma create_directory_made:
  "hoare (\<lambda>d. dirs_made d0 d \<and> dk_temporary_sequence d = n) (create_directory p)
    (\<lambda>_ d. dirs_made d0 d \<and> dk_temporary_sequence d = n) (\<lambda>_. dirs_made d0)"
proof (rule hoareI)
  fix d u d' assume P: "dirs_made d0 d \<and> dk_temporary_sequence d = n" and step: "create_directory p d = (Inr u, d')"
  from create_directory_Inr(2)[OF step] show "dirs_made d0 d' \<and> dk_temporary_sequence d' = n"
  proof (elim disjE exE conjE)
    fix r assume r: "is_name (last p)" "dk_files d (r @ [last p]) = None" "is_dir (dk_files d r)"
      "dk_files d' = dk_files (change_name (r @ [last p]) (Some (Directory False)) d)"
    have "dir_change (dk_files d0 q) (dk_files d' q)" for q
    proof -
      have "dir_change (dk_files d0 q) (dk_files d q)" using P by (simp add: dirs_made_def)
      with r(2,3) show ?thesis by (auto simp: r(4) change_name_files[OF refl r(1)] dir_change_def)
    qed
    then show ?thesis using P create_directory_Inr(3)[OF step] by (simp add: dirs_made_def)
  next
    assume "dk_files d' = dk_files d"
    with P create_directory_Inr(3)[OF step] show ?thesis by (simp add: dirs_made_def)
  qed
next
  fix d x d' assume "dirs_made d0 d \<and> dk_temporary_sequence d = n" and step: "create_directory p d = (Inl x, d')"
  with create_directory_Inl show "dirs_made d0 d'" by (blast intro: dirs_made_faults)
qed

lemma create_directories_made:
  "hoare (\<lambda>d. dirs_made d0 d \<and> dk_temporary_sequence d = n) (create_directories p)
    (\<lambda>_ d. dirs_made d0 d \<and> dk_temporary_sequence d = n) (\<lambda>_. dirs_made d0)"
  unfolding create_directories_def by (rule hoare_for_each) (rule create_directory_made)

lemma for_each_last: "for_each f (xs @ [x]) s = (Inr u, t) \<Longrightarrow> \<exists>s'. f x s' = (Inr (), t)"
  by (induction xs arbitrary: s) (auto simp: seqp_Inr)

text \<open>Afterwards the path leads to a directory.\<close>

lemma create_directories_leads:
  assumes "create_directories p d = (Inr u, d')" and "p \<noteq> []"
  obtains home where "real_path d' p = At home" "is_dir (dk_files d' home)"
proof -
  have "map (\<lambda>i. take i p) [1..<Suc (length p)] = map (\<lambda>i. take i p) [1..<length p] @ [p]"
    using assms(2) by (cases p) auto
  with assms(1) obtain s where "create_directory p s = (Inr (), d')"
    by (auto simp: create_directories_def dest: for_each_last)
  then have "is_dir (entry_at d' p)" by (rule create_directory_Inr(1))
  then show thesis using that by (auto simp: entry_at_def split: resolved.splits)
qed

section \<open>Publishing a copy\<close>

text \<open>
  Where the destination goes: the directory leads to \<open>home\<close>, and the destination itself leads nowhere, being free or
  a link to nothing.
\<close>

definition free_place :: "disk \<Rightarrow> path \<Rightarrow> path \<Rightarrow> string \<Rightarrow> bool" where
  "free_place d dir home name \<longleftrightarrow> follow d dir = At home \<and> is_dir (dk_files d home) \<and>
     entry_at d (dir @ [name]) = None \<and> real_path d (dir @ [name]) \<noteq> LinkLoop"

text \<open>
  \<open>staged\<close>: nothing but allowed changes since \<open>d0\<close>, every name still leads where it led in \<open>d1\<close>, and the
  destination is no regular file.
\<close>

definition staged where
  "staged sha source home name temporary d0 d1 d \<longleftrightarrow>
     within_effect sha source home name temporary d0 d \<and> same_shape d1 d \<and> \<not> is_regular (dk_files d (home @ [name]))"

lemma staged_faults:
  "only_faults d d' \<Longrightarrow> staged sha source home name temporary d0 d1 d \<Longrightarrow> staged sha source home name temporary d0 d1 d'"
  by (auto simp: staged_def same_shape_def only_faults_frame intro: effect_faults)

lemma staged_walk:
  assumes "staged sha source home name temporary d0 d1 d" and "free_place d1 dir home name"
  shows "follow d dir = At home" "is_dir (dk_files d home)"
  using assms by (auto simp: staged_def free_place_def walk_shape) (simp add: same_shape_def)

lemma staged_locate:
  "staged sha source home name temporary d0 d1 d \<Longrightarrow> free_place d1 dir home name \<Longrightarrow> is_name n \<Longrightarrow>
   locate d (dir @ [n]) = Some (home @ [n])"
  by (blast intro: walk_name(1) staged_walk)

lemma staged_entry:
  "staged sha source home name temporary d0 d1 d \<Longrightarrow> free_place d1 dir home name \<Longrightarrow> is_name n \<Longrightarrow>
   link_target (dk_files d (home @ [n])) = None \<Longrightarrow> entry_at d (dir @ [n]) = dk_files d (home @ [n])"
  by (blast intro: walk_entry staged_walk)

text \<open>The temporary file holds the content \<open>c\<close>.\<close>

definition holds_copy :: "path \<Rightarrow> string \<Rightarrow> disk \<Rightarrow> bool" where
  "holds_copy t c d \<longleftrightarrow> (\<exists>m s. dk_files d t = Some (RegularFile c m s))"

lemma holds_copy_faults: "only_faults d d' \<Longrightarrow> holds_copy t c d \<Longrightarrow> holds_copy t c d'"
  by (simp add: holds_copy_def only_faults_frame)

lemma take_fault_reads: "take_fault d = (r, d') \<Longrightarrow> only_faults d d'"
  using only_reads_basic(6) by (rule only_readsD)

lemma take_fault_never_throws [simp]: "take_fault d \<noteq> (Inl x, d')"
  by (auto simp: take_fault_def split: list.splits)

lemma temporary_put:
  assumes "staged sha source home name temporary d0 d1 d" and "name \<noteq> temporary"
    and "\<not> is_dir (dk_files d (home @ [temporary]))" "link_target (dk_files d (home @ [temporary])) = None"
    and "\<not> is_dir e" "link_target e = None"
  shows "staged sha source home name temporary d0 d1 (put_entry (home @ [temporary]) e d)"
  using assms by (auto simp: staged_def same_shape_def put_entry_def within_effect_def archive_effect_def)

lemma create_file_staged:
  assumes names: "name \<noteq> temporary" "is_name temporary" and place: "free_place d1 dir home name"
  shows "hoare (staged sha source home name temporary d0 d1) (create_file (dir @ [temporary]))
    (\<lambda>t d. staged sha source home name temporary d0 d1 d \<and> t = home @ [temporary] \<and> is_regular (dk_files d t))
    (\<lambda>_. staged sha source home name temporary d0 d1)"
  (is "hoare ?P _ ?Q ?E")
  unfolding create_file_def
proof (rule reads_then[OF only_reads_call staged_faults])
  let ?t = "home @ [temporary]"
  show "hoare ?P (\<lambda>d. case if is_name (last (dir @ [temporary])) then locate d (dir @ [temporary]) else None of
       Some q \<Rightarrow> if dk_files d q = None then (Inr q, change_name q (Some (RegularFile [] (dk_clock d) False)) d)
                 else (Inl (RuntimeError ''File exists''), d)
     | None \<Rightarrow> (Inl no_such_file, d)) ?Q ?E" (is "hoare _ ?create _ _")
  proof (rule hoareI)
    fix d t d' assume P: "?P d" and "?create d = (Inr t, d')"
    then have t: "t = ?t" "dk_files d ?t = None" and d': "d' = change_name ?t (Some (RegularFile [] (dk_clock d) False)) d"
      using names(2) staged_locate[OF P place names(2)] by (auto split: option.splits if_splits)
    let ?e = "put_entry ?t (Some (RegularFile [] (dk_clock d) False)) d"
    have put: "?P ?e" by (rule temporary_put[OF P names(1)]) (simp_all add: t(2))
    have mark: "d' = mark_entry home False ?e" by (simp add: d' change_name_def parent_of_name[OF names(2)])
    have dir: "is_dir (dk_files ?e home)" using staged_walk(2)[OF put place] .
    have "\<not> is_regular (dk_files d' (home @ [name]))" using put by (auto simp: mark mark_entry_files staged_def)
    moreover have "same_shape d1 d'" using put mark_entry_shape unfolding mark staged_def by (blast intro: same_shape_trans)
    moreover have "within_effect sha source home name temporary d0 d'"
      using put dir unfolding mark staged_def by (auto intro: effect_mark_dir)
    moreover have "is_regular (dk_files d' ?t)" by (simp add: mark mark_entry_files) (simp add: put_entry_def)
    ultimately show "?Q t d'" by (simp add: staged_def t(1))
  qed (auto split: option.splits if_splits)
qed

lemma write_file_staged:
  assumes names: "name \<noteq> temporary"
  shows "hoare (\<lambda>d. staged sha source home name temporary d0 d1 d \<and> t = home @ [temporary] \<and> is_regular (dk_files d t)) (write_file t c)
    (\<lambda>_ d. staged sha source home name temporary d0 d1 d \<and> holds_copy (home @ [temporary]) c d)
    (\<lambda>_. staged sha source home name temporary d0 d1)"
  (is "hoare ?P _ ?Q ?E")
proof -
  have put: "staged sha source home name temporary d0 d1 (put_entry t (Some (RegularFile x m False)) e) \<and> t = home @ [temporary]"
    if "?P d" "only_faults d e" for d e x m
    using that staged_faults[OF that(2), of sha source home name temporary d0 d1]
    by (auto intro!: temporary_put[OF _ names] simp: only_faults_frame[OF that(2)] elim: is_regularE)
  show ?thesis
  proof (rule hoareI)
    fix d u d' assume P: "?P d" and "write_file t c d = (Inr u, d')"
    then obtain e where e: "only_faults d e" and d': "d' = put_entry t (Some (RegularFile c (dk_clock e) False)) e"
      by (auto simp: write_file_def seqp_Inr dest!: take_fault_reads split: option.splits)
    have "holds_copy (home @ [temporary]) c d'" using P by (auto simp: d' holds_copy_def put_entry_def)
    with put[OF P e, of c "dk_clock e"] show "?Q u d'" by (auto simp: d')
  next
    fix d x d' assume P: "?P d" and "write_file t c d = (Inl x, d')"
    then obtain e n w where "take_fault d = (Inr (Some (w, n)), e)"
      and d': "d' = put_entry t (Some (RegularFile (take n c) (dk_clock e) False)) e"
      by (auto simp: write_file_def seqp_def split: option.splits sum.splits prod.splits)
    then have e: "only_faults d e" by (intro take_fault_reads)
    show "?E x d'" using put[OF P e, of "take n c" "dk_clock e"] by (auto simp: d')
  qed
qed

lemma copy_file_staged:
  assumes names: "name \<noteq> temporary" "is_name temporary" and place: "free_place d1 dir home name"
  shows "hoare (staged sha source home name temporary d0 d1) (copy_file input (dir @ [temporary]))
    (\<lambda>_ d. staged sha source home name temporary d0 d1 d \<and> (\<exists>c. holds_copy (home @ [temporary]) c d))
    (\<lambda>_. staged sha source home name temporary d0 d1)"
  unfolding copy_file_def
proof (rule reads_then[OF only_reads_status staged_faults])
  fix e :: "fs_entry option"
  have copy: "hoare (staged sha source home name temporary d0 d1)
      (seqp (create_file (dir @ [temporary])) (\<lambda>q. write_file q c))
      (\<lambda>_ d. staged sha source home name temporary d0 d1 d \<and> holds_copy (home @ [temporary]) c d)
      (\<lambda>_. staged sha source home name temporary d0 d1)" for c
    by (rule hoare_seqp[OF create_file_staged[OF names place] write_file_staged[OF names(1)]])
  show "hoare (staged sha source home name temporary d0 d1)
      (case e of Some (RegularFile c _ _) \<Rightarrow> seqp (create_file (dir @ [temporary])) (\<lambda>q. write_file q c)
         | None \<Rightarrow> throw no_such_file | _ \<Rightarrow> throw (RuntimeError ''Invalid argument''))
      (\<lambda>_ d. staged sha source home name temporary d0 d1 d \<and> (\<exists>c. holds_copy (home @ [temporary]) c d))
      (\<lambda>_. staged sha source home name temporary d0 d1)"
    by (auto split: option.splits fs_entry.splits intro!: hoare_throw hoare_weaken[OF copy])
qed

section \<open>Verifying and renaming it\<close>

text \<open>Both readings see the content of the copy.\<close>

lemma copy_entry:
  assumes "staged sha source home name temporary d0 d1 d" "free_place d1 dir home name" "is_name temporary"
    "holds_copy (home @ [temporary]) c d"
  obtains m s where "entry_at d (dir @ [temporary]) = Some (RegularFile c m s)"
  using assms staged_entry[OF assms(1-3)] by (auto simp: holds_copy_def)

lemma size_staged:
  assumes name: "is_name temporary" and place: "free_place d1 dir home name"
  shows "hoare (\<lambda>d. staged sha source home name temporary d0 d1 d \<and> (\<exists>c. holds_copy (home @ [temporary]) c d))
    (fs_file_size (dir @ [temporary]))
    (\<lambda>k d. staged sha source home name temporary d0 d1 d \<and> (\<exists>c. length c = k \<and> holds_copy (home @ [temporary]) c d))
    (\<lambda>_. staged sha source home name temporary d0 d1)"
  (is "hoare ?P _ ?Q ?E")
proof (rule hoareI)
  fix d k d' assume P: "?P d" and step: "fs_file_size (dir @ [temporary]) d = (Inr k, d')"
  then obtain c where c: "staged sha source home name temporary d0 d1 d" "holds_copy (home @ [temporary]) c d" by blast
  from c(1) place name c(2) obtain m s where "entry_at d (dir @ [temporary]) = Some (RegularFile c m s)" by (rule copy_entry)
  with step have "length c = k" by (auto elim: fs_file_size_Inr)
  with c only_readsD[OF only_reads_size step] show "?Q k d'" by (blast intro: staged_faults holds_copy_faults)
next
  fix d x d' assume P: "?P d" and step: "fs_file_size (dir @ [temporary]) d = (Inl x, d')"
  with only_readsD[OF only_reads_size step] show "?E x d'" by (auto intro: staged_faults)
qed

lemma hash_staged:
  assumes name: "is_name temporary" and place: "free_place d1 dir home name"
  shows "hoare (\<lambda>d. staged sha source home name temporary d0 d1 d \<and> (\<exists>c. length c = k \<and> holds_copy (home @ [temporary]) c d))
    (sha256_file_hex sha (dir @ [temporary]))
    (\<lambda>h d. staged sha source home name temporary d0 d1 d \<and>
       (\<exists>c. length c = k \<and> sha c = h \<and> holds_copy (home @ [temporary]) c d))
    (\<lambda>_. staged sha source home name temporary d0 d1)"
  (is "hoare ?P _ ?Q ?E")
proof (rule hoareI)
  fix d h d' assume P: "?P d" and step: "sha256_file_hex sha (dir @ [temporary]) d = (Inr h, d')"
  then obtain c where c: "staged sha source home name temporary d0 d1 d" "length c = k" "holds_copy (home @ [temporary]) c d" by blast
  from c(1) place name c(3) obtain m s where "entry_at d (dir @ [temporary]) = Some (RegularFile c m s)" by (rule copy_entry)
  with step have "sha c = h" by (auto elim: sha256_file_hex_Inr)
  with c only_readsD[OF only_reads_hash step] show "?Q h d'" by (blast intro: staged_faults holds_copy_faults)
next
  fix d x d' assume P: "?P d" and step: "sha256_file_hex sha (dir @ [temporary]) d = (Inl x, d')"
  with only_readsD[OF only_reads_hash step] show "?E x d'" by (auto intro: staged_faults)
qed

lemma only_reads_open: "only_reads (open_for_sync kind p)"
  unfolding open_for_sync_def
  by (intro only_reads_seqp only_reads_call) (auto simp: only_reads_def split: resolved.splits if_splits)

lemma open_for_sync_Inr:
  assumes "open_for_sync kind p d = (Inr q, d')"
  shows "real_path d p = At q" "kind (dk_files d q)"
proof -
  from assms obtain e where call: "io_call d = (Inr (), e)" and "(case real_path e p of
       At q \<Rightarrow> if kind (dk_files e q) then (Inr q, e)
               else (Inl (RuntimeError (''failed to open '' @ path_text p @ '' for sync: '')), e)
     | _ \<Rightarrow> (Inl (RuntimeError (''failed to open '' @ path_text p @ '' for sync: '')), e)) = (Inr q, d')"
    by (auto simp: open_for_sync_def seqp_Inr)
  then have "real_path e p = At q" "kind (dk_files e q)" by (auto split: resolved.splits if_splits)
  with only_faults_frame[OF only_readsD[OF only_reads_call call]] show "real_path d p = At q" "kind (dk_files d q)" by simp_all
qed

lemma sync_at_Inr:
  assumes "sync_at kind p d = (Inr u, d')"
  obtains e q where "only_faults d e" "real_path d p = At q" "kind (dk_files d q)" "d' = mark_entry q True e"
proof -
  from assms obtain q e1 f e2 where o: "open_for_sync kind p d = (Inr q, e1)" and fault: "take_fault e1 = (Inr f, e2)"
    and last: "(case f of None \<Rightarrow> (Inr (), mark_entry q True e2)
       | Some (what, _) \<Rightarrow> (Inl (RuntimeError (''failed to sync '' @ path_text p @ '': '' @ what)), e2)) = (Inr u, d')"
    unfolding sync_at_def seqp_Inr by blast
  from last have d': "d' = mark_entry q True e2" by (auto split: option.splits)
  have "only_faults d e1" using o by (rule only_readsD[OF only_reads_open])
  with take_fault_reads[OF fault] have "only_faults d e2" by (auto intro: only_faults_trans)
  with that open_for_sync_Inr[OF o] d' show ?thesis by blast
qed

lemma sync_at_Inl:
  "sync_at kind p d = (Inl x, d') \<Longrightarrow> only_faults d d'"
  unfolding sync_at_def
  by (auto simp: seqp_def split: prod.splits sum.splits option.splits
      dest!: only_readsD[OF only_reads_open] take_fault_reads intro: only_faults_trans)

lemma sync_copy_staged:
  assumes names: "name \<noteq> temporary" "is_name temporary" and place: "free_place d1 dir home name"
  shows "hoare (\<lambda>d. staged sha source home name temporary d0 d1 d \<and> holds_copy (home @ [temporary]) c d)
    (sync_at (\<lambda>e. e \<noteq> None) (dir @ [temporary]))
    (\<lambda>_ d. staged sha source home name temporary d0 d1 d \<and> (\<exists>m. dk_files d (home @ [temporary]) = Some (RegularFile c m True)))
    (\<lambda>_. staged sha source home name temporary d0 d1)"
  (is "hoare ?P _ ?Q ?E")
proof (rule hoareI)
  let ?t = "home @ [temporary]"
  fix d u d' assume P: "?P d" and step: "sync_at (\<lambda>e. e \<noteq> None) (dir @ [temporary]) d = (Inr u, d')"
  from step obtain e q where e: "only_faults d e" and q: "real_path d (dir @ [temporary]) = At q"
    and d': "d' = mark_entry q True e" by (rule sync_at_Inr)
  from P obtain m s where t: "dk_files d ?t = Some (RegularFile c m s)" by (auto simp: holds_copy_def)
  from P have st: "staged sha source home name temporary d0 d1 d" ..
  have qt: "q = ?t" using walk_name(2)[OF staged_walk[OF st place] names(2)] t q by simp
  have put: "d' = put_entry ?t (Some (RegularFile c m True)) e"
    by (simp add: d' qt mark_entry_def only_faults_frame[OF e] t set_durable_def)
  have "staged sha source home name temporary d0 d1 d'"
    unfolding put using P staged_faults[OF e] t by (intro temporary_put[OF _ names(1)]) (auto simp: only_faults_frame[OF e])
  then show "?Q u d'" by (simp add: put put_entry_def)
next
  fix d x d' assume "?P d" and "sync_at (\<lambda>e. e \<noteq> None) (dir @ [temporary]) d = (Inl x, d')"
  then show "?E x d'" by (auto dest: sync_at_Inl intro: staged_faults)
qed

lemma sync_directory_effect:
  "hoare (within_effect sha source home name temporary d0) (sync_at is_dir p)
    (\<lambda>_. within_effect sha source home name temporary d0) (\<lambda>_. within_effect sha source home name temporary d0)"
  by (rule hoareI)
    (auto elim!: sync_at_Inr dest!: sync_at_Inl intro: effect_faults intro!: effect_mark_dir simp: only_faults_frame(6))

lemma sync_chain_effect:
  "hoare (within_effect sha source home name temporary d0) (sync_directory_chain p)
    (\<lambda>_. within_effect sha source home name temporary d0) (\<lambda>_. within_effect sha source home name temporary d0)"
proof (induction p rule: sync_directory_chain.induct)
  case (1 p)
  show ?case
    by (subst sync_directory_chain.simps, rule hoare_seqp[OF sync_directory_effect])
      (use 1 in \<open>auto intro: hoare_ret\<close>)
qed

text \<open>
  The rename makes the verified, durable copy the destination and touches nothing else; the directory of the destination
  stays where it is, even if the destination was a link to nothing.
\<close>

definition published where
  "published c dir home name d \<longleftrightarrow> follow d dir = At home \<and> is_dir (dk_files d home) \<and>
     (\<exists>m. dk_files d (home @ [name]) = Some (RegularFile c m True))"

lemma published_entry:
  "published c dir home name d \<Longrightarrow> is_name name \<Longrightarrow> \<exists>m. entry_at d (dir @ [name]) = Some (RegularFile c m True)"
  by (auto simp: published_def walk_entry)

lemma published_faults: "only_faults d d' \<Longrightarrow> published c dir home name d \<Longrightarrow> published c dir home name d'"
  by (simp add: published_def only_faults_frame)

lemma rename_staged:
  assumes names: "name \<noteq> temporary" "is_name temporary" "is_name name" and c: "matches_evidence sha source c"
    and place: "free_place d1 dir home name"
  shows "hoare (\<lambda>d. staged sha source home name temporary d0 d1 d \<and> (\<exists>m. dk_files d (home @ [temporary]) = Some (RegularFile c m True)))
    (fs_rename (dir @ [temporary]) (dir @ [name]))
    (\<lambda>_ d. within_effect sha source home name temporary d0 d \<and> published c dir home name d)
    (\<lambda>_. staged sha source home name temporary d0 d1)"
  (is "hoare ?P _ ?Q ?E")
  unfolding fs_rename_def
proof (rule reads_then[OF only_reads_call])
  let ?a = "home @ [temporary]" and ?b = "home @ [name]"
  show "?P d'" if "only_faults d d'" "?P d" for d d' using that by (auto intro: staged_faults simp: only_faults_frame)
  show "?E e d" if "?P d" for e d using that by simp
  show "hoare ?P (\<lambda>d. case (locate d (dir @ [temporary]), locate d (dir @ [name])) of
         (Some a, Some b) \<Rightarrow>
           (case dk_files d a of
              None \<Rightarrow> (Inl no_such_file, d)
            | Some e \<Rightarrow> if is_dir (dk_files d b) \<or> is_dir (Some e) then (Inl (RuntimeError ''Is a directory''), d)
                       else (Inr (), change_name b (Some e) (change_name a None d)))
       | _ \<Rightarrow> (Inl no_such_file, d)) ?Q ?E" (is "hoare _ ?rename _ _")
  proof (rule hoareI)
    fix d u d' assume P: "?P d" and step: "?rename d = (Inr u, d')"
    then have st: "staged sha source home name temporary d0 d1 d" by blast
    from P obtain m where a: "dk_files d ?a = Some (RegularFile c m True)" by blast
    with step have b: "\<not> is_dir (dk_files d ?b)" and d': "d' = change_name ?b (Some (RegularFile c m True)) (change_name ?a None d)"
      by (auto simp: staged_locate[OF st place names(2)] staged_locate[OF st place names(3)] split: if_splits)
    have shape: "same_shape d1 d" and eff: "within_effect sha source home name temporary d0 d" and nreg: "\<not> is_regular (dk_files d ?b)"
      using st by (simp_all add: staged_def)
    have ne: "?a \<noteq> ?b" "home \<noteq> ?a" "home \<noteq> ?b" using names(1) by auto
    have home: "is_dir (dk_files d home)" using staged_walk(2)[OF st place] .
    let ?e = "change_name ?a None d"
    have files_e: "dk_files ?e x = (if x = ?a then None else if x = home then map_option (set_durable False) (dk_files d home) else dk_files d x)" for x
      using change_name_files[OF refl names(2)] by simp
    have files: "dk_files d' x = (if x = ?b then Some (RegularFile c m True) else if x = ?a then None
        else if x = home then map_option (set_durable False) (dk_files d home) else dk_files d x)" for x
      unfolding d' using change_name_files[OF refl names(3), of home _ ?e] ne
      by (cases "dk_files d home") (auto simp: files_e set_durable_def split: fs_entry.splits)
    have "within_effect sha source home name temporary d0 ?e"
      using eff home names(2) by (intro effect_change_name) (auto simp: archive_effect_def)
    moreover have "archive_effect sha source home name temporary ?b (dk_files d0 ?b) (Some (RegularFile c m True))"
    proof -
      have "archive_effect sha source home name temporary ?b (dk_files d0 ?b) (dk_files d ?b)" using eff by (simp add: within_effect_def)
      with b nreg ne(1) c show ?thesis by (auto simp: archive_effect_def dir_change_def)
    qed
    ultimately have "within_effect sha source home name temporary d0 d'"
      unfolding d' by (rule effect_change_name[OF _ _ names(3)]) (use home ne in \<open>simp add: files_e\<close>)
    moreover have "follow d' dir = At home"
    proof (rule walk_past_nothing[of d1 dir home name])
      show "follow d1 dir = At home" "is_dir (dk_files d1 home)" "entry_at d1 (dir @ [name]) = None"
        "real_path d1 (dir @ [name]) \<noteq> LinkLoop" "is_name name"
        using place names(3) by (simp_all add: free_place_def)
      show "dk_cwd d' = dk_cwd d1" using shape by (simp add: d' same_shape_def)
      have "is_dir (dk_files d' q) = is_dir (dk_files d q)" for q using a b by (simp add: files)
      with shape show "is_dir (dk_files d' q) = is_dir (dk_files d1 q)" for q by (simp add: same_shape_def)
      have "link_target (dk_files d' q) = link_target (dk_files d q)" if "q \<noteq> ?b" for q using a that by (simp add: files)
      with shape show "link_target (dk_files d' q) = link_target (dk_files d1 q)" if "q \<noteq> ?b" for q
        using that by (simp add: same_shape_def)
      show "link_target (dk_files d' ?b) = None" by (simp add: files)
    qed
    moreover have "is_dir (dk_files d' home)" using home ne by (simp add: files)
    ultimately show "?Q u d'" by (simp add: published_def files)
  qed (auto split: option.splits if_splits)
qed

section \<open>Durable directories\<close>

lemma only_faults_shape: "only_faults d d' \<Longrightarrow> same_shape d d'"
  by (simp add: same_shape_def only_faults_frame)

definition kept_durable where
  "kept_durable d d' \<longleftrightarrow> same_shape d d' \<and> (\<forall>q. \<not> is_dir (dk_files d q) \<longrightarrow> dk_files d' q = dk_files d q) \<and>
     (\<forall>q. dk_files d q = Some (Directory True) \<longrightarrow> dk_files d' q = Some (Directory True))"

lemma kept_durable_trans: "kept_durable d e \<Longrightarrow> kept_durable e f \<Longrightarrow> kept_durable d f"
  unfolding kept_durable_def by (auto simp: same_shape_def)

lemma sync_directory_Inr:
  assumes "sync_at is_dir p d = (Inr u, d')"
  shows "kept_durable d d' \<and> entry_at d' p = Some (Directory True)"
proof -
  from assms obtain e q where e: "only_faults d e" and q: "real_path d p = At q" "is_dir (dk_files d q)"
    and d': "d' = mark_entry q True e" by (rule sync_at_Inr)
  have files: "dk_files d' x = (if x = q then map_option (set_durable True) (dk_files d q) else dk_files d x)" for x
    by (simp add: d' mark_entry_files only_faults_frame[OF e])
  have shape: "same_shape d d'" unfolding d' by (rule same_shape_trans[OF only_faults_shape[OF e] mark_entry_shape])
  have marked: "dk_files d' q = Some (Directory True)" using q(2) by (auto simp: files set_durable_def elim: is_dirE)
  have "kept_durable d d'" using shape q(2) marked by (auto simp: kept_durable_def files)
  with marked q(1) show ?thesis by (simp add: entry_at_def real_path_shape[OF shape])
qed

lemma kept_durable_entry: "kept_durable d d' \<Longrightarrow> entry_at d p = Some (Directory True) \<Longrightarrow> entry_at d' p = Some (Directory True)"
  by (auto simp: kept_durable_def entry_at_def real_path_shape split: resolved.splits)

lemma parent_path_absolute: "is_absolute p \<Longrightarrow> parent_path p \<noteq> p \<Longrightarrow> is_absolute (parent_path p) \<and> parent_path p = butlast p"
  by (cases p rule: rev_cases) (auto simp: is_absolute_def parent_path_def hd_append split: if_splits)

lemma parent_path_root: "is_absolute p \<Longrightarrow> parent_path p = p \<Longrightarrow> length p = 1"
  by (cases p rule: rev_cases) (auto simp: is_absolute_def parent_path_def split: if_splits)

lemma sync_chain_Inr:
  assumes "sync_directory_chain p d = (Inr u, d')"
  shows "kept_durable d d' \<and>
    (is_absolute p \<longrightarrow> (\<forall>k. 1 \<le> k \<and> k \<le> length p \<longrightarrow> entry_at d' (take k p) = Some (Directory True)))"
  using assms
proof (induction p arbitrary: d rule: sync_directory_chain.induct)
  case (1 p)
  from "1.prems" obtain d1 where head: "sync_at is_dir p d = (Inr (), d1)"
    and rest: "(if parent_path p = p then ret () else sync_directory_chain (parent_path p)) d1 = (Inr u, d')"
    by (subst (asm) sync_directory_chain.simps) (auto simp: seqp_Inr)
  note head = sync_directory_Inr[OF head]
  show ?case
  proof (cases "parent_path p = p")
    case True
    with rest have "d' = d1" by simp
    with head True show ?thesis by (auto simp: le_Suc_eq dest: parent_path_root)
  next
    case False
    from False rest have chain: "sync_directory_chain (parent_path p) d1 = (Inr u, d')" by simp
    note tail = "1.IH"[OF False chain]
    have kept: "kept_durable d d'" using head tail kept_durable_trans by blast
    have here: "entry_at d' p = Some (Directory True)" using head tail kept_durable_entry by blast
    have "entry_at d' (take k p) = Some (Directory True)" if "is_absolute p" "1 \<le> k" "k \<le> length p" for k
    proof (cases "k = length p")
      case True
      with here show ?thesis by simp
    next
      case False
      have parent: "is_absolute (parent_path p)" "parent_path p = butlast p"
        using parent_path_absolute[OF that(1) \<open>parent_path p \<noteq> p\<close>] by blast+
      have k: "k \<le> length (parent_path p)" "take k p = take k (parent_path p)"
        using False that by (simp_all add: parent(2) take_butlast)
      from tail parent(1) k(1) that(2) have "entry_at d' (take k (parent_path p)) = Some (Directory True)" by blast
      with k(2) show ?thesis by simp
    qed
    with kept show ?thesis by blast
  qed
qed

lemma sync_at_shape: "sync_at kind p d = (r, d') \<Longrightarrow> same_shape d d'"
  by (cases r) (auto elim!: sync_at_Inr dest!: sync_at_Inl intro: only_faults_shape same_shape_trans[OF only_faults_shape mark_entry_shape])

lemma sync_chain_shape: "sync_directory_chain p d = (r, d') \<Longrightarrow> same_shape d d'"
proof (induction p arbitrary: d rule: sync_directory_chain.induct)
  case (1 p)
  obtain r1 d1 where head: "sync_at is_dir p d = (r1, d1)" by (metis prod.exhaust)
  have s: "same_shape d d1" using head by (rule sync_at_shape)
  show ?case
  proof (cases "\<exists>u. r1 = Inr u \<and> parent_path p \<noteq> p")
    case True
    with "1.prems" head have "sync_directory_chain (parent_path p) d1 = (r, d')"
      by (subst (asm) sync_directory_chain.simps) (auto simp: seqp_def)
    with "1.IH" True s show ?thesis by (auto intro: same_shape_trans)
  next
    case False
    with "1.prems" head have "d' = d1"
      by (subst (asm) sync_directory_chain.simps) (auto simp: seqp_def ret_def split: sum.splits)
    with s show ?thesis by simp
  qed
qed

lemma published_kept: "published c dir home name d \<Longrightarrow> kept_durable d d' \<Longrightarrow> published c dir home name d'"
  using walk_shape[of d d' dir] by (auto simp: published_def kept_durable_def) (simp add: same_shape_def)

section \<open>The whole operation\<close>

text \<open>What every failure leaves: allowed changes, and a directory that is still where it was.\<close>

definition failed_at where
  "failed_at sha source dir home name temporary d0 d \<longleftrightarrow>
     within_effect sha source home name temporary d0 d \<and> follow d dir = At home"

definition durable_path :: "path \<Rightarrow> disk \<Rightarrow> bool" where
  "durable_path p d \<longleftrightarrow> (is_absolute p \<longrightarrow> (\<forall>k. 1 \<le> k \<and> k \<le> length p \<longrightarrow> entry_at d (take k p) = Some (Directory True)))"

lemma sync_chain_published:
  "hoare (\<lambda>d. within_effect sha source home name temporary d0 d \<and> published c dir home name d) (sync_directory_chain p)
    (\<lambda>_ d. within_effect sha source home name temporary d0 d \<and> published c dir home name d \<and> durable_path p d)
    (\<lambda>_. failed_at sha source dir home name temporary d0)"
proof (rule hoareI)
  fix d u d' assume P: "within_effect sha source home name temporary d0 d \<and> published c dir home name d"
    and step: "sync_directory_chain p d = (Inr u, d')"
  have "within_effect sha source home name temporary d0 d'" using hoare_Inr[OF sync_chain_effect _ step] P by blast
  with P sync_chain_Inr[OF step]
  show "within_effect sha source home name temporary d0 d' \<and> published c dir home name d' \<and> durable_path p d'"
    by (auto simp: durable_path_def intro: published_kept)
next
  fix d x d' assume P: "within_effect sha source home name temporary d0 d \<and> published c dir home name d"
    and step: "sync_directory_chain p d = (Inl x, d')"
  have "within_effect sha source home name temporary d0 d'" using hoare_Inl[OF sync_chain_effect _ step] P by blast
  moreover have "same_shape d d'" using step by (rule sync_chain_shape)
  ultimately show "failed_at sha source dir home name temporary d0 d'" using P by (simp add: failed_at_def published_def walk_shape)
qed

lemma publish_copy_effect:
  assumes names: "name \<noteq> temporary" "is_name temporary" "is_name name" and place: "free_place d1 dir home name"
  shows "hoare (staged sha source home name temporary d0 d1)
    (publish_copy sha source input dir (dir @ [temporary]) (dir @ [name]))
    (\<lambda>_ d. within_effect sha source home name temporary d0 d \<and>
       (\<exists>c. matches_evidence sha source c \<and> published c dir home name d) \<and> durable_path dir d)
    (\<lambda>_. failed_at sha source dir home name temporary d0)"
proof -
  let ?S = "staged sha source home name temporary d0 d1"
  let ?t = "dir @ [temporary]"
  have weak: "?S d \<Longrightarrow> failed_at sha source dir home name temporary d0 d" for d
    using staged_walk(1)[OF _ place] by (simp add: failed_at_def staged_def)
  have run: "hoare (\<lambda>d. ?S d \<and> holds_copy (home @ [temporary]) c d)
      (seqp (sync_at (\<lambda>e. e \<noteq> None) ?t) (\<lambda>_. seqp (fs_rename ?t (dir @ [name])) (\<lambda>_. sync_directory_chain dir)))
      (\<lambda>_ d. within_effect sha source home name temporary d0 d \<and>
         (\<exists>c. matches_evidence sha source c \<and> published c dir home name d) \<and> durable_path dir d)
      (\<lambda>_. failed_at sha source dir home name temporary d0)" if "matches_evidence sha source c" for c
    apply (rule hoare_seqp[OF hoare_weaken[OF sync_copy_staged[OF names(1,2) place]]], assumption, assumption, erule weak)
    apply (rule hoare_seqp[OF hoare_weaken[OF rename_staged[OF names that place]]], assumption, assumption, erule weak)
    apply (rule hoare_weaken[OF sync_chain_published[where c = c]])
    using that by auto
  show ?thesis
    unfolding publish_copy_def
    apply (rule hoare_seqp[OF hoare_weaken[OF copy_file_staged[OF names(1,2) place]]], assumption, assumption, erule weak)
    apply (rule hoare_seqp[OF hoare_weaken[OF size_staged[OF names(2) place]]], assumption, assumption, erule weak)
    apply (rule hoare_seqp[OF hoare_weaken[OF hash_staged[OF names(2) place]]], assumption, assumption, erule weak)
    apply (rule hoare_seqp[OF hoare_require])
    subgoal by (simp add: weak)
    subgoal for u k h v
    proof (rule hoareI)
      let ?m = "seqp (sync_at (\<lambda>e. e \<noteq> None) ?t) (\<lambda>_. seqp (fs_rename ?t (dir @ [name])) (\<lambda>_. sync_directory_chain dir))"
      let ?P = "\<lambda>d. (int k = lm_size_bytes source \<and> h = lm_file_hash source) \<and> ?S d \<and>
          (\<exists>c. length c = k \<and> sha c = h \<and> holds_copy (home @ [temporary]) c d)"
      have found: "\<exists>c. matches_evidence sha source c \<and> ?S d \<and> holds_copy (home @ [temporary]) c d" if "?P d" for d
        using that by (auto simp: matches_evidence_def)
      show "within_effect sha source home name temporary d0 d' \<and>
          (\<exists>c. matches_evidence sha source c \<and> published c dir home name d') \<and> durable_path dir d'"
        if "?P d" "?m d = (Inr a, d')" for d a d' using found[OF that(1)] hoare_Inr[OF run _ that(2)] by blast
      show "failed_at sha source dir home name temporary d0 d'"
        if "?P d" "?m d = (Inl x, d')" for d x d' using found[OF that(1)] hoare_Inl[OF run _ that(2)] by blast
    qed
    done
qed

lemma long_is_name: "length n > 2 \<Longrightarrow> is_name n"
  by (auto simp: is_name_def)

lemma plan_archive_path_Inr:
  assumes "plan_archive_path work_dir task run ordinal original = Inr destination"
  obtains name where "destination = (work_dir @ [''archive'', task, run]) @ [name]" "is_name name"
    "name = nat_to_string ordinal @ ''-'' @ sanitized_filename original" "filename destination = name"
    "parent_path destination = work_dir @ [''archive'', task, run]" "is_safe_segment task" "is_safe_segment run" "ordinal \<noteq> 0"
proof -
  let ?name = "nat_to_string ordinal @ ''-'' @ sanitized_filename original"
  have "0 < length (sanitized_filename original)" by (simp add: sanitized_filename_def Let_def)
  moreover have "0 < length (nat_to_string ordinal)" by simp
  ultimately have "length ?name > 2" by (simp del: length_greater_0_conv)
  then have "is_name ?name" by (rule long_is_name)
  with assms that show ?thesis
    by (auto simp: plan_archive_path_def filename_def parent_path_def butlast_append split: if_splits)
qed

lemma temporary_name_is_name:
  assumes "filename destination = name" and "is_name name"
  shows "is_name (temporary_name destination n)" "name \<noteq> temporary_name destination n"
proof -
  have "length (temporary_name destination n) > 2" by (simp add: temporary_name_def)
  then show "is_name (temporary_name destination n)" by (rule long_is_name)
  show "name \<noteq> temporary_name destination n" using assms(1) by (simp add: temporary_name_def)
qed

lemma fs_remove_effect:
  assumes "is_name temporary" and dir: "dir \<noteq> []"
  shows "hoare (failed_at sha source dir home name temporary d0) (fs_remove (dir @ [temporary]))
    (\<lambda>_. within_effect sha source home name temporary d0) (\<lambda>_. within_effect sha source home name temporary d0)"
  unfolding fs_remove_def
proof (rule reads_then[OF only_reads_basic(6)])
  let ?F = "failed_at sha source dir home name temporary d0" and ?W = "within_effect sha source home name temporary d0"
  show "?F d'" if "only_faults d d'" "?F d" for d d' using that effect_faults by (auto simp: failed_at_def only_faults_frame)
  show "?W d" if "?F d" for d using that by (simp add: failed_at_def)
  fix f :: "(string \<times> nat) option"
  show "hoare ?F (\<lambda>d. case f of Some _ \<Rightarrow> (Inr (), d)
       | None \<Rightarrow> (case locate d (dir @ [temporary]) of
           Some q \<Rightarrow> if dk_files d q \<noteq> None \<and> \<not> is_dir (dk_files d q) then (Inr (), change_name q None d) else (Inr (), d)
         | None \<Rightarrow> (Inr (), d))) (\<lambda>_. ?W) (\<lambda>_. ?W)"
  proof (rule hoareI)
    fix d u d' assume F: "?F d" and step: "(case f of Some _ \<Rightarrow> (Inr (), d)
       | None \<Rightarrow> (case locate d (dir @ [temporary]) of
           Some q \<Rightarrow> if dk_files d q \<noteq> None \<and> \<not> is_dir (dk_files d q) then (Inr (), change_name q None d) else (Inr (), d)
         | None \<Rightarrow> (Inr (), d))) = (Inr u, d')"
    show "?W d'"
    proof (cases "d' = d")
      case False
      with step obtain q where q: "locate d (dir @ [temporary]) = Some q" "d' = change_name q None d"
        by (auto split: option.splits if_splits)
      from q(1) assms(1) obtain r where r: "q = r @ [temporary]" "is_dir (dk_files d r)" "follow d dir = At r" by (rule locate_name)
      then have "r = home" using F by (simp add: failed_at_def)
      with F q(2) r assms(1) show ?thesis
        by (auto intro!: effect_change_name simp: failed_at_def archive_effect_def)
    qed (use F in \<open>simp add: failed_at_def\<close>)
  qed (auto split: option.splits if_splits)
qed

text \<open>What a run of \<open>archive\<close> on \<open>d0\<close> leaves: directories on the way, or the effects in the directory they lead to.\<close>

definition placed where
  "placed sha source dir name temporary d0 d \<longleftrightarrow> dirs_made d0 d \<or>
     (\<exists>e home. dirs_made d0 e \<and> real_path e dir = At home \<and> within_effect sha source home name temporary d0 d)"

definition archived_as where
  "archived_as sha source destination d \<longleftrightarrow>
     (\<exists>c m. entry_at d destination = Some (RegularFile c m True) \<and> matches_evidence sha source c) \<and>
     durable_path (parent_path destination) d"

lemma placed_faults: "only_faults d d' \<Longrightarrow> placed sha source dir name temporary d0 d \<Longrightarrow> placed sha source dir name temporary d0 d'"
  unfolding placed_def by (blast intro: dirs_made_faults effect_faults)

lemma publish_at_effect:
  assumes n: "is_name name" and t: "temporary = temporary_name (dir @ [name]) n" and dir: "dir \<noteq> []"
    and place: "free_place d1 dir home name"
  shows "hoare (staged sha source home name temporary d0 d1) (publish_at sha source input (dir @ [name]) n)
    (\<lambda>_ d. within_effect sha source home name temporary d0 d \<and> archived_as sha source (dir @ [name]) d)
    (\<lambda>_. within_effect sha source home name temporary d0)"
proof -
  have fn: "filename (dir @ [name]) = name" "parent_path (dir @ [name]) = dir"
    using dir by (auto simp: filename_def parent_path_def)
  note tn = temporary_name_is_name[OF fn(1) n, of n, folded t]
  let ?P = "\<lambda>d. within_effect sha source home name temporary d0 d \<and>
       (\<exists>c. matches_evidence sha source c \<and> published c dir home name d) \<and> durable_path dir d"
  have still: "?P d'" if "only_faults d d'" "?P d" for d d'
    using that effect_faults published_faults by (fastforce simp: durable_path_def only_faults_frame[OF that(1)])
  have read: "hoare ?P (seqp (weakly_canonical (dir @ [name])) (\<lambda>archived. ret (source, archived)))
      (\<lambda>_ d. within_effect sha source home name temporary d0 d \<and> archived_as sha source (dir @ [name]) d)
      (\<lambda>_. within_effect sha source home name temporary d0)"
  proof (rule reads_then[OF only_reads_canonical still])
    show "hoare ?P (ret (source, a)) (\<lambda>_ d. within_effect sha source home name temporary d0 d \<and> archived_as sha source (dir @ [name]) d)
      (\<lambda>_. within_effect sha source home name temporary d0)" for a
      using published_entry[OF _ n] by (intro hoare_ret) (auto simp: archived_as_def fn, blast)
  qed auto
  show ?thesis
    unfolding publish_at_def Let_def fn t[symmetric]
    by (rule hoare_seqp[OF hoare_on_throw[OF publish_copy_effect[OF tn(2,1) n place] hoare_weaken[OF fs_remove_effect[OF tn(1) dir]]] read])
      simp_all
qed

text \<open>The directory has been made and the destination is free: the copy is published there.\<close>

lemma publish_free_place:
  assumes n: "is_name name" and dir: "dir \<noteq> []" and made: "dirs_made d0 s" "real_path s dir = At home" "is_dir (dk_files s home)"
    and ex: "fs_exists (dir @ [name]) s = (Inr False, s1)"
    and t: "temporary = temporary_name (dir @ [name]) (dk_temporary_sequence s)"
    and run: "seqp next_temporary (publish_at sha source input (dir @ [name])) s1 = (r, s')"
  shows "placed sha source dir name temporary d0 s' \<and> (\<forall>a. r = Inr a \<longrightarrow> archived_as sha source (dir @ [name]) s')"
proof -
  have f: "only_faults s s1" using ex by (rule only_readsD[OF only_reads_exists])
  let ?s2 = "s1\<lparr>dk_temporary_sequence := dk_temporary_sequence s1 + 1\<rparr>"
  have same: "dk_files ?s2 = dk_files s" "same_shape s ?s2" by (simp_all add: only_faults_frame[OF f] same_shape_def)
  have there: "real_path s (dir @ [name]) \<noteq> LinkLoop" "entry_at s (dir @ [name]) = None"
    using ex fs_exists_Inr[OF ex] by (auto simp: fs_exists_def seqp_Inr dest: fs_status_Inr(2))
  have walk: "follow s dir = At home" using made(2) dir by (simp add: real_path_def)
  have w: "follow ?s2 q = follow s q" "real_path ?s2 q = real_path s q" "entry_at ?s2 q = entry_at s q" for q
    unfolding entry_at_def same(1) by (simp_all only: walk_shape[OF same(2)] real_path_shape[OF same(2)])
  have place: "free_place ?s2 dir home name"
    unfolding free_place_def w same(1) using walk made(3) there by simp
  have "\<not> is_regular (dk_files s (home @ [name]))"
  proof
    assume reg: "is_regular (dk_files s (home @ [name]))"
    then have "link_target (dk_files s (home @ [name])) = None" by (auto elim: is_regularE)
    from walk_entry[OF walk made(3) n this] there(2) reg show False by simp
  qed
  then have st: "staged sha source home name temporary d0 ?s2 ?s2"
    using dirs_made_effect[OF made(1)] by (simp add: staged_def within_effect_def only_faults_frame[OF f])
  have pub: "publish_at sha source input (dir @ [name]) (dk_temporary_sequence s) ?s2 = (r, s')"
    using run by (simp add: seqp_def next_temporary_def only_faults_frame[OF f])
  note triple = publish_at_effect[OF n t dir place, of sha source d0 input]
  have "within_effect sha source home name temporary d0 s' \<and> (\<forall>a. r = Inr a \<longrightarrow> archived_as sha source (dir @ [name]) s')"
  proof (cases r)
    case (Inl e) with hoare_Inl[OF triple st] pub show ?thesis by simp
  next
    case (Inr a) with hoare_Inr[OF triple st] pub show ?thesis by simp
  qed
  with made(1,2) show ?thesis by (auto simp: placed_def)
qed

lemma archive_result:
  assumes "plan_archive_path work_dir task run ordinal (lm_original_name source) = Inr destination"
    and run: "archive sha work_dir task run ordinal source input d0 = (r, d)"
  shows "placed sha source (parent_path destination) (filename destination)
      (temporary_name destination (dk_temporary_sequence d0)) d0 d \<and>
    (\<forall>a. r = Inr a \<longrightarrow> archived_as sha source destination d)"
proof -
  from assms(1) obtain name where dest: "destination = (work_dir @ [''archive'', task, run]) @ [name]"
    and n: "is_name name" "filename destination = name"
    and parent: "parent_path destination = work_dir @ [''archive'', task, run]"
    and safe: "is_safe_segment task" "is_safe_segment run"
    by (rule plan_archive_path_Inr)
  define dir where "dir = work_dir @ [''archive'', task, run]"
  have dir: "destination = dir @ [name]" "parent_path destination = dir" "dir \<noteq> []" using dest parent by (simp_all add: dir_def)
  let ?rest = "seqp (fs_exists destination) (\<lambda>taken.
     seqp (require (\<not> taken) (ArchiveConflictError ''archive destination already exists'')) (\<lambda>_.
     seqp next_temporary (publish_at sha source input destination)))"
  have body: "archive sha work_dir task run ordinal source input = seqp (create_directories dir) (\<lambda>_. ?rest)"
    using safe assms(1) by (simp add: archive_def fun_eq_iff seqp_def require_def lift_sum_def dir(2))
  let ?t = "temporary_name destination (dk_temporary_sequence d0)"
  obtain x s where make: "create_directories dir d0 = (x, s)" by (metis prod.exhaust)
  note made = create_directories_made[of d0 "dk_temporary_sequence d0" dir]
  show ?thesis
  proof (cases x)
    case (Inl e)
    with make run body have "d = s" "r = Inl e" by (simp_all add: seqp_def)
    moreover have "dirs_made d0 s" using hoare_Inl[OF made _ make[unfolded Inl]] dirs_made_refl by blast
    ultimately show ?thesis by (simp add: placed_def)
  next
    case (Inr u)
    with make have ok: "create_directories dir d0 = (Inr u, s)" by simp
    have s: "dirs_made d0 s" "dk_temporary_sequence s = dk_temporary_sequence d0"
      using hoare_Inr[OF made _ ok] dirs_made_refl by blast+
    from ok dir(3) obtain home where home: "real_path s dir = At home" "is_dir (dk_files s home)" by (rule create_directories_leads)
    from run ok have step: "?rest s = (r, d)" by (simp add: body seqp_def)
    obtain y s1 where ex: "fs_exists destination s = (y, s1)" by (metis prod.exhaust)
    show ?thesis
    proof (cases "y = Inr False")
      case True
      with ex step have "seqp next_temporary (publish_at sha source input destination) s1 = (r, d)"
        by (simp add: seqp_def require_def)
      with publish_free_place[OF n(1) dir(3) s(1) home, of s1 ?t sha source input r d] ex True s(2) show ?thesis
        by (simp add: dir(2) n(2)) (simp add: dir(1))
    next
      case False
      with ex step have "d = s1" "\<forall>a. r \<noteq> Inr a"
        by (auto simp: seqp_def require_def split: sum.splits if_splits)
      moreover have "dirs_made d0 s1" using dirs_made_faults[OF only_readsD[OF only_reads_exists ex] s(1)] .
      ultimately show ?thesis by (simp add: placed_def)
    qed
  qed
qed

end
