(* ===== verification/Archive_Properties.thy ===== *)
theory Archive_Properties
  imports Archive_Safety
begin

text \<open>
  The properties of the archive store: where archived files go, what a recovered archive is, and that
  no failure damages what is already on the disk.
\<close>

section \<open>Paths\<close>

lemma stoull_digits:
  "n < 2 ^ 64 \<Longrightarrow> stoull (nat_to_string n) = Inr n"
proof -
  assume n: "n < 2 ^ 64"
  have digits: "list_all isdigit (nat_to_string n)" by (rule nat_to_string_digits)
  then obtain c s where s: "nat_to_string n = c # s" "isdigit c" by (cases "nat_to_string n") auto
  have "\<not> isspace c" "c \<noteq> CHR ''-''" "c \<noteq> CHR ''+''" using s(2) by (auto simp: isdigit_def isspace_def char_code_def)
  moreover have "takeWhile isdigit (nat_to_string n) = nat_to_string n"
    using digits by (simp add: list_all_iff)
  moreover have "digits_value 0 (c # s) = n" using digits_value_nat_to_string[of n] s(1) by simp
  ultimately show ?thesis using s(1) n by (simp add: stoull_def Let_def)
qed

lemma archive_ordinal_read_back:
  assumes "n < 2 ^ 64"
  shows "stoull (takeWhile (\<lambda>c. c \<noteq> CHR ''-'') (nat_to_string n @ ''-'' @ rest)) = Inr n"
proof -
  have "CHR ''-'' \<notin> set (nat_to_string n)"
    using nat_to_string_digits[of n] by (auto simp: list_all_iff isdigit_def char_code_def)
  then have "takeWhile (\<lambda>c. c \<noteq> CHR ''-'') (nat_to_string n @ ''-'' @ rest) = nat_to_string n"
    by (subst takeWhile_append2) auto
  with stoull_digits[OF assms] show ?thesis by simp
qed

lemma recover_missing_archive:
  assumes "plan_archive_path work_dir task run ordinal (lm_original_name source) = Inr destination" and "ordinal < 2 ^ 64"
    and "fs_exists destination d = (Inr False, d')"
  shows "recover_archive sha work_dir source destination input d = archive sha work_dir task run ordinal source input d'"
proof -
  from assms(1) obtain name where dest: "destination = (work_dir @ [''archive'', task, run]) @ [name]"
    and name: "name = nat_to_string ordinal @ ''-'' @ sanitized_filename (lm_original_name source)" "filename destination = name"
    and parent: "parent_path destination = work_dir @ [''archive'', task, run]"
    by (rule plan_archive_path_Inr)
  have up: "filename (work_dir @ [''archive'', task, run]) = run" "filename (parent_path (work_dir @ [''archive'', task, run])) = task"
    by (simp_all add: filename_def parent_path_def butlast_append)
  show ?thesis
    using assms(3) archive_ordinal_read_back[OF assms(2)]
    by (simp add: recover_archive_def seqp_def require_def lift_sum_def Let_def name(2) parent up) (simp add: name(1))
qed

lemma ordinal_prefix:
  assumes "nat_to_string i @ ''-'' @ rest = nat_to_string j @ ''-'' @ rest'"
  shows "i = j"
proof -
  have head: "takeWhile isdigit (nat_to_string k @ ''-'' @ r) = nat_to_string k" for k r
    using nat_to_string_digits[of k]
    by (subst takeWhile_append2) (auto simp: list_all_iff isdigit_def char_code_def)
  show ?thesis using arg_cong[OF assms, of "takeWhile isdigit"] by (simp only: head) (rule nat_to_string_inject)
qed

text \<open>
  Every archive path lies strictly inside the archive directory of its task run, whatever name the
  source file has (separators, dots and control characters included), and two files of a run never
  share an archive path.
\<close>

lemma archive_paths_contained_and_distinct:
  assumes "plan_archive_path work_dir task run ordinal original = Inr p"
  shows "is_within p (work_dir @ [''archive'', task, run]) \<and> length p = length work_dir + 4 \<and>
    list_all is_name_char (last p) \<and> last p \<noteq> ''..'' \<and>
    (plan_archive_path work_dir task run ordinal' original' = Inr p \<longrightarrow> ordinal' = ordinal)"
proof -
  from assms obtain name where dest: "p = (work_dir @ [''archive'', task, run]) @ [name]" and n: "is_name name"
    and name: "name = nat_to_string ordinal @ ''-'' @ sanitized_filename original"
    by (rule plan_archive_path_Inr)
  have digits: "list_all is_name_char (nat_to_string k)" for k
    using nat_to_string_digits[of k] by (auto simp: list_all_iff is_name_char_def isalnum_def)
  have "list_all is_name_char (sanitized_filename original)"
    by (auto simp: sanitized_filename_def Let_def list_all_iff is_name_char_def isalnum_def isalpha_def char_code_def)
  then have chars: "list_all is_name_char name" using digits by (simp add: name) (simp add: is_name_char_def)
  have "ordinal' = ordinal" if other: "plan_archive_path work_dir task run ordinal' original' = Inr p"
  proof -
    from other dest have same: "nat_to_string ordinal' @ ''-'' @ sanitized_filename original' =
        nat_to_string ordinal @ ''-'' @ sanitized_filename original"
      by (auto elim!: plan_archive_path_Inr simp: name)
    then show ?thesis by (rule ordinal_prefix)
  qed
  then show ?thesis using dest n chars by (simp add: is_within_iff_prefix is_name_def)
qed

lemma archive_paths_contained_and_distinct_example:
  "is_within [''/'', ''work'', ''archive'', ''t1'', ''r1'', ''1-.._etc_passwd''] [''/'', ''work'', ''archive'', ''t1'', ''r1'']"
  using archive_paths_contained_and_distinct[of "[''/'', ''work'']" "''t1''" "''r1''" 1 "''../etc/passwd''"
      "[''/'', ''work'', ''archive'', ''t1'', ''r1'', ''1-.._etc_passwd'']"]
  by (simp add: plan_archive_path_def is_safe_segment_def is_name_char_def isalnum_def isalpha_def isdigit_def char_code_def
      sanitized_filename_def Let_def nat_to_string.simps digit_char_def)

section \<open>Marking entries durable\<close>

definition only_synced :: "disk \<Rightarrow> disk \<Rightarrow> bool" where
  "only_synced d d' \<longleftrightarrow> (\<forall>q. dk_files d' q = dk_files d q \<or> dk_files d' q = map_option (set_durable True) (dk_files d q))"

lemma set_durable_twice [simp]: "set_durable b (set_durable a e) = set_durable b e"
  by (cases e) (simp_all add: set_durable_def)

lemma map_set_durable_twice [simp]: "map_option (set_durable b) (map_option (set_durable a) e) = map_option (set_durable b) e"
  by (cases e) simp_all

lemma only_synced_trans: "only_synced d e \<Longrightarrow> only_synced e f \<Longrightarrow> only_synced d f"
  unfolding only_synced_def by (metis map_set_durable_twice)

lemma only_faults_synced: "only_faults d d' \<Longrightarrow> only_synced d d'"
  by (simp add: only_synced_def only_faults_frame)

lemma sync_at_synced: "sync_at kind p d = (r, d') \<Longrightarrow> only_synced d d'"
proof (cases r)
  case (Inl e)
  assume "sync_at kind p d = (r, d')"
  with Inl show ?thesis by (auto dest: sync_at_Inl intro: only_faults_synced)
next
  case (Inr u)
  assume "sync_at kind p d = (r, d')"
  with Inr have "sync_at kind p d = (Inr u, d')" by simp
  then obtain e q where "only_faults d e" "d' = mark_entry q True e" by (rule sync_at_Inr)
  then show ?thesis by (auto simp: only_synced_def mark_entry_files only_faults_frame)
qed

lemma sync_chain_synced: "sync_directory_chain p d = (r, d') \<Longrightarrow> only_synced d d'"
proof (induction p arbitrary: d rule: sync_directory_chain.induct)
  case (1 p)
  obtain r1 d1 where head: "sync_at is_dir p d = (r1, d1)" by (metis prod.exhaust)
  have s: "only_synced d d1" using head by (rule sync_at_synced)
  show ?case
  proof (cases "\<exists>u. r1 = Inr u \<and> parent_path p \<noteq> p")
    case True
    with "1.prems" head have "sync_directory_chain (parent_path p) d1 = (r, d')"
      by (subst (asm) sync_directory_chain.simps) (auto simp: seqp_def)
    with "1.IH" True s show ?thesis by (auto intro: only_synced_trans)
  next
    case False
    with "1.prems" head have "d' = d1"
      by (subst (asm) sync_directory_chain.simps) (auto simp: seqp_def ret_def split: sum.splits)
    with s show ?thesis by simp
  qed
qed

definition only_syncs :: "'a io \<Rightarrow> bool" where
  "only_syncs m \<longleftrightarrow> (\<forall>d r d'. m d = (r, d') \<longrightarrow> only_synced d d')"

lemma only_syncs_reads: "only_reads m \<Longrightarrow> only_syncs m"
  by (auto simp: only_syncs_def only_reads_def intro: only_faults_synced)

lemma only_syncs_seqp: "only_syncs m \<Longrightarrow> (\<And>a. only_syncs (f a)) \<Longrightarrow> only_syncs (seqp m f)"
  unfolding only_syncs_def seqp_def
  by (auto split: prod.splits sum.splits intro: only_synced_trans) (metis only_synced_trans)

lemma only_syncs_sync: "only_syncs (sync_at kind p)" "only_syncs (sync_directory_chain p)"
  unfolding only_syncs_def by (blast intro: sync_at_synced sync_chain_synced)+

lemma only_reads_evidence: "only_reads (holds_evidence sha source p)"
  unfolding holds_evidence_def
  by (intro only_reads_seqp only_reads_status) (simp add: only_reads_basic only_reads_seqp only_reads_size only_reads_hash)

lemma holds_evidence_Inr:
  assumes "holds_evidence sha source p d = (Inr True, d')"
  obtains c m s where "entry_at d p = Some (RegularFile c m s)" "matches_evidence sha source c"
proof -
  from assms obtain e d1 where e: "fs_status p d = (Inr e, d1)" "is_regular e"
    and rest: "seqp (fs_file_size p) (\<lambda>bytes. if int bytes \<noteq> lm_size_bytes source then ret False
     else seqp (sha256_file_hex sha p) (\<lambda>hash. ret (hash = lm_file_hash source))) d1 = (Inr True, d')"
    by (auto simp: holds_evidence_def seqp_Inr split: if_splits)
  from rest obtain k d2 h where k: "fs_file_size p d1 = (Inr k, d2)" "int k = lm_size_bytes source"
    and h: "sha256_file_hex sha p d2 = (Inr h, d')" "h = lm_file_hash source"
    by (auto simp: seqp_Inr split: if_splits)
  have f1: "only_faults d d1" using e(1) by (rule only_readsD[OF only_reads_status])
  have f2: "only_faults d1 d2" using k(1) by (rule only_readsD[OF only_reads_size])
  from k(1) obtain c m s where c: "entry_at d1 p = Some (RegularFile c m s)" "k = length c" by (rule fs_file_size_Inr)
  from h(1) obtain c' m' s' where c': "entry_at d2 p = Some (RegularFile c' m' s')" "h = sha c'" by (rule sha256_file_hex_Inr)
  show ?thesis
    by (rule that[of c m s]) (use c c' k(2) h(2) in \<open>auto simp: matches_evidence_def only_faults_frame[OF f1] only_faults_frame[OF f2]\<close>)
qed

text \<open>Recovering a present archive checks it and makes it durable.\<close>

lemma recover_present_archive:
  assumes "fs_exists p d = (Inr True, d1)" and step: "recover_archive sha work_dir source p input d = (r, d')"
  shows "only_synced d d'"
    and "r = Inr out \<Longrightarrow> is_absolute (parent_path p) \<Longrightarrow> p \<noteq> [] \<Longrightarrow>
      (\<exists>c m. entry_at d' p = Some (RegularFile c m True) \<and> matches_evidence sha source c) \<and>
      (\<forall>k. 1 \<le> k \<and> k \<le> length (parent_path p) \<longrightarrow> entry_at d' (take k (parent_path p)) = Some (Directory True))"
proof -
  let ?m = "seqp (holds_evidence sha source p) (\<lambda>genuine.
       seqp (require genuine (ArchiveConflictError ''persisted archive conflicts with expected evidence'')) (\<lambda>_.
       seqp (sync_at (\<lambda>e. e \<noteq> None) p) (\<lambda>_.
       seqp (sync_directory_chain (parent_path p)) (\<lambda>_.
       seqp (weakly_canonical p) (\<lambda>p. ret (source, p))))))"
  have run: "?m d1 = (r, d')" using assms by (simp add: recover_archive_def seqp_def)
  have f1: "only_faults d d1" using assms(1) by (rule only_readsD[OF only_reads_exists])
  have "only_syncs ?m"
    by (intro only_syncs_seqp only_syncs_sync only_syncs_reads[OF only_reads_evidence] only_syncs_reads[OF only_reads_canonical]
        only_syncs_reads[OF only_reads_basic(1)] only_syncs_reads[OF only_reads_basic(3)])
  with run f1 show "only_synced d d'" unfolding only_syncs_def by (blast intro: only_synced_trans only_faults_synced)
  assume out: "r = Inr out" and abs: "is_absolute (parent_path p)" and ne: "p \<noteq> []"
  from run out obtain d2 d3 d4 where ev: "holds_evidence sha source p d1 = (Inr True, d2)"
    and sync: "sync_at (\<lambda>e. e \<noteq> None) p d2 = (Inr (), d3)"
    and chain: "sync_directory_chain (parent_path p) d3 = (Inr (), d4)"
    and last: "seqp (weakly_canonical p) (\<lambda>p. ret (source, p)) d4 = (Inr out, d')"
    by (auto simp: seqp_Inr)
  from ev obtain c m s where c: "entry_at d1 p = Some (RegularFile c m s)" "matches_evidence sha source c" by (rule holds_evidence_Inr)
  have f2: "only_faults d1 d2" using ev by (rule only_readsD[OF only_reads_evidence])
  from sync obtain e q where e: "only_faults d2 e" and q: "real_path d2 p = At q" and d3: "d3 = mark_entry q True e" by (rule sync_at_Inr)
  have cq: "dk_files d2 q = Some (RegularFile c m s)" using c(1) q by (simp add: entry_at_def only_faults_frame[OF f2])
  have "real_path d3 p = At q" using q by (simp add: d3 real_path_shape[OF mark_entry_shape] only_faults_frame[OF e])
  moreover have "dk_files d3 q = Some (RegularFile c m True)"
    by (simp add: d3 mark_entry_files only_faults_frame[OF e] cq set_durable_def)
  moreover note sync_chain_Inr[OF chain]
  ultimately have "entry_at d4 p = Some (RegularFile c m True)"
    by (auto simp: entry_at_def kept_durable_def real_path_shape)
  moreover have "only_faults d4 d'" by (rule only_readsD[OF only_reads_seqp[OF only_reads_canonical only_reads_basic(1)] last])
  ultimately show "(\<exists>c m. entry_at d' p = Some (RegularFile c m True) \<and> matches_evidence sha source c) \<and>
      (\<forall>k. 1 \<le> k \<and> k \<le> length (parent_path p) \<longrightarrow> entry_at d' (take k (parent_path p)) = Some (Directory True))"
    using c(2) abs sync_chain_Inr[OF chain] by (simp add: only_faults_frame)
qed

lemma planned_in_absolute:
  assumes "plan_archive_path work_dir task run ordinal original = Inr destination" "is_absolute work_dir"
  obtains dir name where "destination = dir @ [name]" "parent_path destination = dir" "is_absolute dir"
  using assms(1)
proof (rule plan_archive_path_Inr)
  fix name assume "destination = (work_dir @ [''archive'', task, run]) @ [name]"
    "parent_path destination = work_dir @ [''archive'', task, run]"
  moreover have "is_absolute (work_dir @ [''archive'', task, run])" using assms(2) by (cases work_dir) (simp_all add: is_absolute_def)
  ultimately show thesis using that by blast
qed

section \<open>Properties\<close>

text \<open>
  C16. Whichever system call fails, and with a failing copy leaving any part of the file, archiving a
  planned file changes nothing else on the disk: entries are merely made durable, or directories are
  made on the way, or, in the directory these lead to, the temporary file changes and the archived
  file, which changes only if it was no file and then is a durable copy with exactly the recorded size
  and hash.
\<close>

theorem archiving_damages_nothing:
  assumes "plan_archive_path work_dir task run ordinal (lm_original_name source) = Inr destination" and "ordinal < 2 ^ 64"
    and "recover_archive sha work_dir source destination input d = (r, d')"
  shows "(\<forall>q. dk_files d' q = dk_files d q \<or> dk_files d' q = map_option (set_durable True) (dk_files d q)) \<or>
    dirs_made d d' \<or>
    (\<exists>e home. dirs_made d e \<and> real_path e (parent_path destination) = At home \<and>
       (\<forall>q. archive_effect sha source home (filename destination) (temporary_name destination (dk_temporary_sequence d)) q
          (dk_files d q) (dk_files d' q)))"
proof -
  obtain x d1 where ex: "fs_exists destination d = (x, d1)" by (metis prod.exhaust)
  have f: "only_faults d d1" using ex by (rule only_readsD[OF only_reads_exists])
  have "only_synced d d' \<or>
    placed sha source (parent_path destination) (filename destination) (temporary_name destination (dk_temporary_sequence d)) d d'"
  proof (cases x)
    case (Inl e)
    with ex assms(3) have "d' = d1" by (simp add: recover_archive_def seqp_def)
    with f show ?thesis by (simp add: only_faults_synced)
  next
    case (Inr there)
    show ?thesis
    proof (cases there)
      case True
      with ex Inr have "fs_exists destination d = (Inr True, d1)" by simp
      from recover_present_archive(1)[OF this assms(3)] show ?thesis ..
    next
      case False
      with ex Inr have "fs_exists destination d = (Inr False, d1)" by simp
      from recover_missing_archive[OF assms(1,2) this] assms(3)
      have "archive sha work_dir task run ordinal source input d1 = (r, d')" by simp
      from archive_result[OF assms(1) this] show ?thesis
        by (simp add: placed_def dirs_made_def within_effect_def only_faults_frame[OF f])
    qed
  qed
  then show ?thesis by (simp add: only_synced_def placed_def within_effect_def)
qed

text \<open>
  A disk for the witnesses, as an interrupted run leaves it: the source and its copy, not yet durable.
  The digest is instantiated by a concrete function.
\<close>

definition example_disk :: disk where
  "example_disk = \<lparr>dk_files = (\<lambda>_. None)([''/''] := Some (Directory True),
       [''/'', ''a.csv''] := Some (RegularFile ''abc'' 0 True), [''/'', ''archive''] := Some (Directory False),
       [''/'', ''archive'', ''t''] := Some (Directory False), [''/'', ''archive'', ''t'', ''r''] := Some (Directory False),
       [''/'', ''archive'', ''t'', ''r'', ''1-a.csv''] := Some (RegularFile ''abc'' 5 False)),
     dk_cwd = [''/''], dk_clock = 5, dk_temporary_sequence = 0, dk_skews = [], dk_faults = []\<rparr>"

definition example_digest :: "string \<Rightarrow> string" where
  "example_digest c = ''h'' @ c"

definition example_metadata :: local_file_metadata where
  "example_metadata = \<lparr>lm_source_path = [''/'', ''a.csv''], lm_original_name = ''a.csv'', lm_file_hash = ''habc'',
     lm_size_bytes = 3, lm_source_mtime = ''1970-01-01T00:00:00Z'', lm_fingerprint = ''f''\<rparr>"

definition example_archive_path :: path where
  "example_archive_path = [''/'', ''archive'', ''t'', ''r'', ''1-a.csv'']"

abbreviation example_recovery :: "((local_file_metadata \<times> path)) io" where
  "example_recovery \<equiv> recover_archive example_digest [''/''] example_metadata example_archive_path [''/'', ''a.csv'']"

lemma example_archive_plan:
  "plan_archive_path [''/''] ''t'' ''r'' 1 (lm_original_name example_metadata) = Inr example_archive_path"
  by code_simp

lemma example_temporary: "temporary_name example_archive_path 0 = ''1-a.csv.tmp-0''"
  by code_simp

text \<open>Evaluation of a run by rewriting, one call after the other.\<close>

lemmas io_run = seqp_def take_fault_def ret_def throw_def require_def gets_def lift_sum_def
  next_temporary_def on_throw_def
  io_call_def[THEN fun_cong] fs_status_def[THEN fun_cong] fs_exists_def[THEN fun_cong] fs_file_size_def[THEN fun_cong]
  sha256_file_hex_def[THEN fun_cong] weakly_canonical_def[THEN fun_cong] create_directory_def[THEN fun_cong]
  create_directories_def[THEN fun_cong] create_file_def[THEN fun_cong] write_file_def[THEN fun_cong]
  copy_file_def[THEN fun_cong] sync_at_def[THEN fun_cong] open_for_sync_def[THEN fun_cong] fs_rename_def[THEN fun_cong]
  publish_copy_def[THEN fun_cong] publish_at_def[THEN fun_cong] archive_def[THEN fun_cong]
  sync_directory_chain.simps[THEN fun_cong]
  real_path_def follow_def start_at_def is_absolute_def entry_at_def locate_def max_links_def put_entry_def mark_entry_def change_name_def set_durable_def
  is_name_def parent_path_def Let_def upt_rec

lemma example_recovery_succeeds: "case fst (example_recovery example_disk) of Inr _ \<Rightarrow> True | Inl _ \<Rightarrow> False"
  by (simp add: io_run holds_evidence_def recover_archive_def example_archive_path_def example_disk_def matches_evidence_def
      example_metadata_def example_digest_def cong: seqp_lazy)

text \<open>The source file is untouched.\<close>

theorem archiving_damages_nothing_witness:
  "\<exists>s. dk_files (snd (example_recovery example_disk)) [''/'', ''a.csv''] = Some (RegularFile ''abc'' 0 s)"
proof -
  have names: "filename example_archive_path = ''1-a.csv''" "parent_path example_archive_path = [''/'', ''archive'', ''t'', ''r'']"
    by (simp_all add: filename_def parent_path_def example_archive_path_def)
  have source: "dk_files example_disk [''/'', ''a.csv''] = Some (RegularFile ''abc'' 0 True)" by (simp add: example_disk_def)
  have "temporary_name example_archive_path 0 \<noteq> ''a.csv''" by (simp add: example_temporary)
  then show ?thesis
    using archiving_damages_nothing[OF example_archive_plan, of example_digest "[''/'', ''a.csv'']" example_disk
        "fst (example_recovery example_disk)" "snd (example_recovery example_disk)"]
    by (auto simp: archive_effect_def dir_change_def dirs_made_def names source set_durable_def example_disk_def
        dest!: spec[of _ "[''/'', ''a.csv'']"])
qed

text \<open>
  C17. When recovering an archive returns normally, the archive path holds a regular file of exactly the
  recorded size and hash that is on stable storage together with every directory leading to it, and
  whatever was there before led nowhere, as a link to nothing does, or was that very evidence: a file
  that differs is refused. The path is one the store plans, in a working directory that is absolute, as
  the constructor makes it.
\<close>

theorem recovered_archive_is_genuine:
  assumes plan: "plan_archive_path work_dir task run ordinal (lm_original_name source) = Inr destination"
    and "ordinal < 2 ^ 64" and abs: "is_absolute work_dir"
    and step: "recover_archive sha work_dir source destination input d = (Inr out, d')"
  shows "(\<exists>c m. entry_at d' destination = Some (RegularFile c m True) \<and> matches_evidence sha source c) \<and>
    (\<forall>k. 1 \<le> k \<and> k < length destination \<longrightarrow> entry_at d' (take k destination) = Some (Directory True)) \<and>
    (entry_at d destination = None \<or>
     (\<exists>c m s. entry_at d destination = Some (RegularFile c m s) \<and> matches_evidence sha source c))"
proof -
  obtain dir name where dest: "destination = dir @ [name]" "parent_path destination = dir" "is_absolute dir"
    using plan abs by (rule planned_in_absolute)
  obtain x d1 where "fs_exists destination d = (x, d1)" by (metis prod.exhaust)
  with step obtain there where ex: "fs_exists destination d = (Inr there, d1)"
    by (cases x) (auto simp: recover_archive_def seqp_def)
  have f: "only_faults d d1" using ex by (rule only_readsD[OF only_reads_exists])
  show ?thesis
  proof (cases there)
    case True
    with ex have ex': "fs_exists destination d = (Inr True, d1)" by simp
    with step obtain d2 where "holds_evidence sha source destination d1 = (Inr True, d2)"
      by (auto simp: recover_archive_def seqp_Inr)
    then have "\<exists>c m s. entry_at d destination = Some (RegularFile c m s) \<and> matches_evidence sha source c"
      by (rule holds_evidence_Inr) (auto simp: only_faults_frame[OF f])
    with recover_present_archive(2)[OF ex' step refl] dest show ?thesis by (simp add: less_Suc_eq_le)
  next
    case False
    with ex have ex': "fs_exists destination d = (Inr False, d1)" by simp
    from recover_missing_archive[OF plan assms(2) ex'] step
    have "archive sha work_dir task run ordinal source input d1 = (Inr out, d')" by simp
    from archive_result[OF plan this] have "archived_as sha source destination d'" by simp
    then show ?thesis
      using dest fs_exists_Inr[OF ex'] by (auto simp: archived_as_def durable_path_def less_Suc_eq_le)
  qed
qed

theorem recovered_archive_is_genuine_witness:
  "\<exists>c m. entry_at (snd (example_recovery example_disk)) example_archive_path = Some (RegularFile c m True)"
proof -
  obtain x d' where step: "example_recovery example_disk = (x, d')" by (metis prod.exhaust)
  with example_recovery_succeeds obtain out where run: "example_recovery example_disk = (Inr out, d')"
    by (cases x) auto
  have abs: "is_absolute [''/'']" by (simp add: is_absolute_def)
  have one: "(1::nat) < 2 ^ 64" by simp
  from recovered_archive_is_genuine[OF example_archive_plan one abs run] show ?thesis by (auto simp: run)
qed

end
