(* ===== verification/Task_Executor.thy ===== *)
theory Task_Executor
  imports Archive_Properties Delivery Csv_Parser Qc_Rules
begin

text \<open>
  \<open>TaskExecutor\<close> (\<open>agent/src/execution/task_executor.cpp\<close>): driving one job from its start to its
  report. The executor works on the queue database, the disk, the clock and the stop flag; what it
  calls outside the repository enters as the fields of \<open>exec_env\<close>, and the control plane as the three
  procedures of \<open>ITaskExecutionClient\<close>, which the reliable client implements on the queue database.
\<close>

section \<open>State and environment\<close>

record exec_world =
  ew_queue :: queue_db
  ew_disk :: disk
  ew_clock :: "time_point list"
  ew_stop :: "bool list"

type_synonym 'a exec = "(exec_world, agent_exn, 'a) proc"

record exec_config =
  ec_queue :: queue_config
  ec_work_dir :: path
  ec_allowed_roots :: "path list"
  ec_max_files :: nat

text \<open>
  \<open>xe_sha256\<close> is OpenSSL's digest, \<open>xe_parse_json\<close> and \<open>xe_dump_string\<close> are nlohmann's (with the text of
  a parse error; \<open>xe_json_what\<close> is the text of a type error), \<open>xe_read_dir\<close> is the kernel's listing.
\<close>

record exec_env =
  xe_sha256 :: "string \<Rightarrow> string"
  xe_parse_json :: "string \<Rightarrow> string + json"
  xe_dump_string :: "string \<Rightarrow> string option"
  xe_json_what :: string
  xe_read_dir :: "disk \<Rightarrow> path \<Rightarrow> string list"
  xe_start :: "start_request \<Rightarrow> start_result qproc"
  xe_manifest :: "manifest_request \<Rightarrow> string list qproc"
  xe_report :: "report_request \<Rightarrow> unit qproc"

definition on_queue :: "'a qproc \<Rightarrow> 'a exec" where
  "on_queue m w = (case m (ew_queue w) of (r, db) \<Rightarrow> (r, w\<lparr>ew_queue := db\<rparr>))"

definition on_disk :: "'a io \<Rightarrow> 'a exec" where
  "on_disk m w = (case m (ew_disk w) of (r, d) \<Rightarrow> (r, w\<lparr>ew_disk := d\<rparr>))"

text \<open>Readings of the clock and of the stop flag follow a script; an exhausted one reads zero and false.\<close>

definition now_reading :: "time_point exec" where
  "now_reading w = (case ew_clock w of [] \<Rightarrow> (Inr 0, w) | t # ts \<Rightarrow> (Inr t, w\<lparr>ew_clock := ts\<rparr>))"

definition stop_reading :: "bool exec" where
  "stop_reading w = (case ew_stop w of [] \<Rightarrow> (Inr False, w) | b # bs \<Rightarrow> (Inr b, w\<lparr>ew_stop := bs\<rparr>))"

text \<open>A statement that writes \<open>strftime(..., 'now')\<close> reads the clock in milliseconds.\<close>

definition on_queue_now :: "(int \<Rightarrow> 'a qproc) \<Rightarrow> 'a exec" where
  "on_queue_now m = seqp now_reading (\<lambda>t. on_queue (m (t div 1000000)))"

text \<open>\<open>try { m } catch (const std::exception&)\<close>: the exception as a value.\<close>

definition attempt :: "('s, 'e, 'a) proc \<Rightarrow> ('s, 'e, 'e + 'a) proc" where
  "attempt m s = (case m s of (r, s') \<Rightarrow> (Inr r, s'))"

fun what :: "exec_env \<Rightarrow> agent_exn \<Rightarrow> string" where
  "what env (QueueError m) = m"
| "what env (SqliteError m) = m"
| "what env (CodecError m) = m"
| "what env JsonTypeError = xe_json_what env"
| "what env (ClientError e) = ce_message e"
| "what env (DeliveryAbandoned m) = m"
| "what env (ArchiveConflictError m) = m"
| "what env (InvalidArgumentError m) = m"
| "what env (RuntimeError m) = m"
| "what env ProcessEnded = []"

fun is_queue_error :: "agent_exn \<Rightarrow> bool" where
  "is_queue_error (QueueError m) = True"
| "is_queue_error (SqliteError m) = True"
| "is_queue_error _ = False"

fun is_archive_conflict :: "agent_exn \<Rightarrow> bool" where
  "is_archive_conflict (ArchiveConflictError m) = True"
| "is_archive_conflict _ = False"

section \<open>Error summary\<close>

definition kMaximumErrorDetails :: nat where
  "kMaximumErrorDetails = 5"

definition kMaximumErrorSummaryBytes :: nat where
  "kMaximumErrorSummaryBytes = 512"

record error_summary =
  es_total :: nat
  es_details :: "string list"

definition no_errors :: error_summary where
  "no_errors = \<lparr>es_total = 0, es_details = []\<rparr>"

definition add_error :: "error_summary \<Rightarrow> string \<Rightarrow> error_summary" where
  "add_error es detail =
     \<lparr>es_total = es_total es + 1,
      es_details = (if length (es_details es) < kMaximumErrorDetails then es_details es @ [detail] else es_details es)\<rparr>"

definition summary_text :: "error_summary \<Rightarrow> string" where
  "summary_text es =
     (if es_total es = 0 then []
      else let result = nat_to_string (es_total es) @ '' error(s)'' @
                 concat (map (\<lambda>d. ''; '' @ d) (es_details es)) @
                 (if es_total es > length (es_details es)
                  then ''; '' @ nat_to_string (es_total es - length (es_details es)) @ '' additional error(s) omitted''
                  else [])
           in if length result > kMaximumErrorSummaryBytes
              then take (kMaximumErrorSummaryBytes - 3) result @ ''...'' else result)"

section \<open>Validation\<close>

record source_spec =
  ss_root_path :: path
  ss_extension :: string

definition parse_source_spec :: "exec_env \<Rightarrow> exec_config \<Rightarrow> task_config \<Rightarrow> source_spec io" where
  "parse_source_spec env cfg task =
     seqp (lift_sum (case xe_parse_json env (ds_config_json (tc_data_source task)) of
             Inl message \<Rightarrow> Inl (RuntimeError message) | Inr config \<Rightarrow> Inr config)) (\<lambda>config.
     seqp (lift_sum (case (json_find config ''root_path'', json_find config ''extension'') of
             (Some (JStr r), Some (JStr e)) \<Rightarrow> Inr (r, e)
           | _ \<Rightarrow> Inl (InvalidArgumentError ''data source config requires string root_path and extension''))) (\<lambda>(root, ext).
     seqp (require (is_absolute (path_of root)) (InvalidArgumentError ''data source root_path must be absolute'')) (\<lambda>_.
     seqp (weakly_canonical (path_of root)) (\<lambda>root_path.
     seqp (require (\<exists>r \<in> set (ec_allowed_roots cfg). is_within root_path r)
             (InvalidArgumentError ''data source root_path is outside allowed_local_roots'')) (\<lambda>_.
     seqp (require (ext = ''.csv'') (InvalidArgumentError ''data source extension must be .csv'')) (\<lambda>_.
       ret \<lparr>ss_root_path = root_path, ss_extension = ext\<rparr>))))))"

definition input_path_of :: "file_plan \<Rightarrow> path" where
  "input_path_of f = (if fp_input_path f = [] then path_of (fp_source_path f) else path_of (fp_input_path f))"

definition inherited_archive_ref :: "retry_file_input list \<Rightarrow> string \<Rightarrow> string" where
  "inherited_archive_ref retry_files source_path =
     (case find (\<lambda>t. rf_source_path t = source_path) retry_files of None \<Rightarrow> [] | Some t \<Rightarrow> rf_archive_raw_file_id t)"

definition is_symlink :: "fs_entry option \<Rightarrow> bool" where
  "is_symlink e \<longleftrightarrow> link_target e \<noteq> None"

definition validate_archive_input :: "exec_env \<Rightarrow> retry_file_input \<Rightarrow> path \<Rightarrow> unit io" where
  "validate_archive_input env t archive_root =
     (let input = path_of (rf_storage_path t) in
      seqp (fs_symlink_status input) (\<lambda>e.
      seqp (require (\<not> is_symlink e) (RuntimeError (''archived input is a symbolic link: '' @ rf_storage_path t))) (\<lambda>_.
      seqp (weakly_canonical input) (\<lambda>canonical.
      seqp (require (is_within canonical archive_root)
              (RuntimeError (''archived input is outside the archive root: '' @ rf_storage_path t))) (\<lambda>_.
      seqp (fs_status canonical) (\<lambda>e.
      seqp (require (is_regular e) (RuntimeError (''archived input is not a regular file: '' @ rf_storage_path t))) (\<lambda>_.
      seqp (fs_file_size canonical) (\<lambda>n.
      seqp (if int n \<noteq> rf_size_bytes t then ret False
            else seqp (sha256_file_hex (xe_sha256 env) canonical) (\<lambda>h. ret (h = rf_file_hash t))) (\<lambda>same.
        require same (RuntimeError (''archived input does not match the recorded evidence: '' @ rf_storage_path t)))))))))))"

definition validate_source_input :: "retry_file_input \<Rightarrow> path \<Rightarrow> unit io" where
  "validate_source_input t root_path =
     (let input = path_of (rf_source_path t) in
      seqp (fs_symlink_status input) (\<lambda>e.
      seqp (require (\<not> is_symlink e) (RuntimeError (''retry target is a symbolic link: '' @ rf_source_path t))) (\<lambda>_.
      seqp (weakly_canonical input) (\<lambda>canonical.
        require (is_within canonical root_path)
          (RuntimeError (''retry target is outside the task directory: '' @ rf_source_path t))))))"

text \<open>The constructor.\<close>

definition canonical_root :: "path \<Rightarrow> path io" where
  "canonical_root root =
     seqp (require (is_absolute root) (InvalidArgumentError ''allowed local roots must be absolute'')) (\<lambda>_. weakly_canonical root)"

fun canonical_roots :: "path list \<Rightarrow> path list io" where
  "canonical_roots [] = ret []"
| "canonical_roots (r # rs) = seqp (canonical_root r) (\<lambda>c. seqp (canonical_roots rs) (\<lambda>cs. ret (c # cs)))"

definition make_executor :: "queue_config \<Rightarrow> path \<Rightarrow> path list \<Rightarrow> nat \<Rightarrow> exec_config io" where
  "make_executor queue work_dir roots max_files =
     seqp (weakly_canonical work_dir) (\<lambda>work.
     seqp (require (roots \<noteq> [] \<and> max_files \<noteq> 0) (InvalidArgumentError
       (''executor requires a clock, at least one allowed local root '' @ ''and a positive file limit per run''))) (\<lambda>_.
     seqp (canonical_roots roots) (\<lambda>allowed.
       ret \<lparr>ec_queue = queue, ec_work_dir = work, ec_allowed_roots = allowed, ec_max_files = max_files\<rparr>)))"

end
