(* ===== verification/Job_Runner.thy ===== *)
theory Job_Runner
  imports Task_Executor
begin

text \<open>
  The stages of a job in \<open>agent/src/execution/task_executor.cpp\<close>: planning the files, archiving them,
  building the report, and \<open>run_reliable_job\<close> with its callers. A stage ends by reading the job back
  from the queue, as the code does, so the next stage sees what is stored.
\<close>

section \<open>Planning the files\<close>

definition exec_load_job :: "string \<Rightarrow> recovered_job exec" where
  "exec_load_job key = on_queue (\<lambda>db. (load_job key db, db))"

definition planned_file :: "nat \<Rightarrow> local_file_metadata \<Rightarrow> string \<Rightarrow> path \<Rightarrow> file_plan" where
  "planned_file n m fingerprint archive_path =
     \<lparr>fp_ordinal = int n, fp_source_path = path_text (lm_source_path m), fp_original_name = lm_original_name m,
      fp_source_mtime = lm_source_mtime m, fp_size_bytes = lm_size_bytes m, fp_file_hash = lm_file_hash m,
      fp_fingerprint = fingerprint, fp_archive_path = path_text archive_path, fp_archive_state = ''archive_planned'',
      fp_raw_file_id = [], fp_parsed_without_errors = False, fp_input_path = [], fp_error_detail = []\<rparr>"

definition read_failure :: "string \<Rightarrow> string \<Rightarrow> string \<Rightarrow> string \<Rightarrow> failed_file" where
  "read_failure source_path original_name message raw_file_id =
     \<lparr>ff_source_path = source_path, ff_original_name = original_name, ff_stage = ''read'', ff_message = message,
      ff_archive_raw_file_id = raw_file_id\<rparr>"

definition archive_failure :: "string \<Rightarrow> string \<Rightarrow> string \<Rightarrow> string \<Rightarrow> failed_file" where
  "archive_failure source_path original_name message raw_file_id =
     \<lparr>ff_source_path = source_path, ff_original_name = original_name, ff_stage = ''archive'', ff_message = message,
      ff_archive_raw_file_id = raw_file_id\<rparr>"

type_synonym planning = "file_plan list \<times> failed_file list"

text \<open>The body of the loop after the inspection of one collected item.\<close>

definition plan_inspected :: "exec_env \<Rightarrow> exec_config \<Rightarrow> recovered_job \<Rightarrow> collected_item \<Rightarrow> planning \<Rightarrow>
    agent_exn + local_file_metadata \<Rightarrow> planning exec" where
  "plan_inspected env cfg job item acc r =
     (let (plan, failures) = acc; task = tc_id (rj_task job) in
      case r of
        Inl e \<Rightarrow> ret (plan, failures @ [read_failure (ci_local_path item) (ci_original_name item) (what env e) []])
      | Inr m \<Rightarrow>
          seqp (gets (\<lambda>w. is_file_occupied task (task @ newline @ lm_fingerprint m) (ew_queue w))) (\<lambda>occupied.
          if occupied then ret (plan, failures)
          else seqp (lift_sum (plan_archive_path (ec_work_dir cfg) task (rj_task_run_id job) (length plan + 1)
                       (lm_original_name m))) (\<lambda>archive_path.
            ret (plan @ [planned_file (length plan) m (task @ newline @ lm_fingerprint m) archive_path], failures))))"

fun plan_items :: "exec_env \<Rightarrow> exec_config \<Rightarrow> recovered_job \<Rightarrow> planning \<Rightarrow> collected_item list \<Rightarrow> planning exec" where
  "plan_items env cfg job acc [] = ret acc"
| "plan_items env cfg job acc (item # items) =
     (if length (fst acc) + length (snd acc) \<ge> ec_max_files cfg then ret acc
      else seqp (attempt (on_disk (inspect (xe_sha256 env) item))) (\<lambda>r.
           seqp (plan_inspected env cfg job item acc r) (\<lambda>acc'. plan_items env cfg job acc' items)))"

definition plan_from_directory :: "exec_env \<Rightarrow> exec_config \<Rightarrow> recovered_job \<Rightarrow> planning exec" where
  "plan_from_directory env cfg job =
     seqp (lift_sum (validate_execution_types (rj_task job))) (\<lambda>_.
     seqp (on_disk (parse_source_spec env cfg (rj_task job))) (\<lambda>source.
     seqp (on_disk (collect (xe_read_dir env) (ss_root_path source) (ss_extension source))) (\<lambda>collected.
     seqp (require (st_ok (cr_status collected)) (RuntimeError (''collect failed: '' @ st_message (cr_status collected)))) (\<lambda>_.
       plan_items env cfg job ([], []) (cr_items collected)))))"

text \<open>One retry target: the input, size, hash, time and fingerprint of its plan entry, or the failure.\<close>

definition archive_target :: "exec_env \<Rightarrow> exec_config \<Rightarrow> recovered_job \<Rightarrow> retry_file_input \<Rightarrow> file_plan \<Rightarrow> file_plan io" where
  "archive_target env cfg job t entry =
     seqp (validate_archive_input env t (ec_work_dir cfg @ [''archive''])) (\<lambda>_.
       ret (entry\<lparr>fp_input_path := rf_storage_path t, fp_size_bytes := rf_size_bytes t, fp_file_hash := rf_file_hash t,
         fp_source_mtime := rf_source_mtime t,
         fp_fingerprint := tc_id (rj_task job) @ newline @ rf_source_path t @ newline @ int_to_string (rf_size_bytes t) @
           newline @ rf_source_mtime t @ newline @ rf_file_hash t\<rparr>))"

definition source_target :: "exec_env \<Rightarrow> recovered_job \<Rightarrow> source_spec \<Rightarrow> retry_file_input \<Rightarrow> file_plan \<Rightarrow> file_plan io" where
  "source_target env job source t entry =
     seqp (validate_source_input t (ss_root_path source)) (\<lambda>_.
     seqp (inspect (xe_sha256 env) \<lparr>ci_local_path = rf_source_path t, ci_original_name = rf_original_name t, ci_source_mtime = []\<rparr>) (\<lambda>m.
       ret (entry\<lparr>fp_input_path := path_text (lm_source_path m), fp_size_bytes := lm_size_bytes m,
         fp_file_hash := lm_file_hash m, fp_source_mtime := lm_source_mtime m,
         fp_fingerprint := tc_id (rj_task job) @ newline @ lm_fingerprint m\<rparr>)))"

definition retry_entry :: "nat \<Rightarrow> retry_file_input \<Rightarrow> path \<Rightarrow> file_plan" where
  "retry_entry n t archive_path =
     \<lparr>fp_ordinal = int n, fp_source_path = rf_source_path t, fp_original_name = rf_original_name t, fp_source_mtime = [],
      fp_size_bytes = 0, fp_file_hash = [], fp_fingerprint = [], fp_archive_path = path_text archive_path,
      fp_archive_state = ''archive_planned'', fp_raw_file_id = [], fp_parsed_without_errors = False, fp_input_path = [],
      fp_error_detail = []\<rparr>"

definition plan_target :: "exec_env \<Rightarrow> exec_config \<Rightarrow> recovered_job \<Rightarrow> source_spec \<Rightarrow> planning \<Rightarrow> retry_file_input \<Rightarrow>
    planning exec" where
  "plan_target env cfg job source acc t =
     (let (plan, failures) = acc; archived = (rf_input_type t = ''archive'') in
      seqp (lift_sum (plan_archive_path (ec_work_dir cfg) (tc_id (rj_task job)) (rj_task_run_id job) (length plan + 1)
              (rf_original_name t))) (\<lambda>archive_path.
      let entry = retry_entry (length plan) t archive_path in
      seqp (attempt (on_disk (if archived then archive_target env cfg job t entry else source_target env job source t entry))) (\<lambda>r.
      case r of
        Inl e \<Rightarrow> ret (plan, failures @
          [if archived then archive_failure (rf_source_path t) (rf_original_name t) (what env e) (rf_archive_raw_file_id t)
           else read_failure (rf_source_path t) (rf_original_name t) (what env e) []])
      | Inr entry \<Rightarrow>
          seqp (gets (\<lambda>w. is_file_in_flight (tc_id (rj_task job)) (fp_fingerprint entry) (ew_queue w))) (\<lambda>busy.
          if busy then ret (plan, failures @
            [read_failure (rf_source_path t) (rf_original_name t) ''file is in flight by another pending job''
               (if archived then rf_archive_raw_file_id t else [])])
          else ret (plan @ [entry], failures)))))"

fun plan_targets :: "exec_env \<Rightarrow> exec_config \<Rightarrow> recovered_job \<Rightarrow> source_spec \<Rightarrow> planning \<Rightarrow> retry_file_input list \<Rightarrow>
    planning exec" where
  "plan_targets env cfg job source acc [] = ret acc"
| "plan_targets env cfg job source acc (t # ts) =
     seqp (plan_target env cfg job source acc t) (\<lambda>acc'. plan_targets env cfg job source acc' ts)"

definition plan_from_retry_targets :: "exec_env \<Rightarrow> exec_config \<Rightarrow> recovered_job \<Rightarrow> planning exec" where
  "plan_from_retry_targets env cfg job =
     seqp (lift_sum (validate_execution_types (rj_task job))) (\<lambda>_.
     seqp (on_disk (parse_source_spec env cfg (rj_task job))) (\<lambda>source.
       plan_targets env cfg job source ([], []) (rj_retry_files job)))"

section \<open>Archiving the plan\<close>

text \<open>The failures a half-written job of an older version left out of its list, by source path.\<close>

definition amend_failures :: "retry_file_input list \<Rightarrow> file_plan list \<Rightarrow> failed_file list \<Rightarrow> failed_file list" where
  "amend_failures retry_files files failures =
     foldl (\<lambda>amended f.
       if fp_error_detail f = [] \<or> (\<exists>x \<in> set amended. ff_source_path x = fp_source_path f) then amended
       else amended @ [archive_failure (fp_source_path f) (fp_original_name f) (fp_error_detail f)
                         (inherited_archive_ref retry_files (fp_source_path f))]) failures files"

definition plan_stage :: "exec_env \<Rightarrow> exec_config \<Rightarrow> recovered_job \<Rightarrow> recovered_job exec" where
  "plan_stage env cfg job =
     (if rj_files job = [] \<and> \<not> rj_has_file_failures job
      then seqp (if rj_retry_files job = [] then plan_from_directory env cfg job else plan_from_retry_targets env cfg job)
             (\<lambda>(plan, failures).
           seqp (on_queue_now (\<lambda>now. save_file_plan now (rj_execution_key job) plan failures)) (\<lambda>_.
             exec_load_job (rj_execution_key job)))
      else ret job)"

definition amend_stage :: "recovered_job \<Rightarrow> recovered_job exec" where
  "amend_stage job =
     (let amended = amend_failures (rj_retry_files job) (rj_files job) (rj_file_failures job) in
      if rj_files job \<noteq> [] \<and> length amended \<noteq> length (rj_file_failures job)
      then seqp (on_queue_now (\<lambda>now. save_file_failures now (rj_execution_key job) amended)) (\<lambda>_.
             exec_load_job (rj_execution_key job))
      else ret job)"

definition plan_metadata :: "string \<Rightarrow> file_plan \<Rightarrow> local_file_metadata" where
  "plan_metadata task f =
     \<lparr>lm_source_path = path_of (fp_source_path f), lm_original_name = fp_original_name f, lm_file_hash = fp_file_hash f,
      lm_size_bytes = fp_size_bytes f, lm_source_mtime = fp_source_mtime f,
      lm_fingerprint = drop (length task + 1) (fp_fingerprint f)\<rparr>"

definition manifest_item :: "file_plan \<Rightarrow> manifest_entry" where
  "manifest_item f =
     \<lparr>me_original_name = fp_original_name f, me_file_hash = fp_file_hash f, me_storage_path = fp_archive_path f,
      me_size_bytes = fp_size_bytes f, me_source_mtime = fp_source_mtime f, me_ingest_status = ''archived_local''\<rparr>"

fun archive_files :: "exec_env \<Rightarrow> exec_config \<Rightarrow> recovered_job \<Rightarrow> failed_file list \<Rightarrow> manifest_entry list \<Rightarrow> bool \<Rightarrow>
    file_plan list \<Rightarrow> (manifest_entry list \<times> bool) exec" where
  "archive_files env cfg job failures entries failed_this_run [] = ret (entries, failed_this_run)"
| "archive_files env cfg job failures entries failed_this_run (f # fs) =
     (if fp_error_detail f \<noteq> [] then archive_files env cfg job failures entries failed_this_run fs
      else
        let task = tc_id (rj_task job); key = rj_execution_key job in
        seqp (require (length task + 1 \<le> length (fp_fingerprint f)) (RuntimeError ''basic_string::substr'')) (\<lambda>_.
        seqp (attempt (on_disk (recover_archive (xe_sha256 env) (ec_work_dir cfg) (plan_metadata task f)
                (path_of (fp_archive_path f)) (input_path_of f)))) (\<lambda>r. case r of
          Inl e \<Rightarrow>
            if is_archive_conflict e then throw e
            else
              let failures' = failures @ [archive_failure (fp_source_path f) (fp_original_name f) (what env e)
                                            (inherited_archive_ref (rj_retry_files job) (fp_source_path f))] in
              seqp (on_queue_now (\<lambda>now. mark_file_failed now key (fp_ordinal f) (what env e) failures')) (\<lambda>_.
                archive_files env cfg job failures' entries True fs)
        | Inr _ \<Rightarrow>
            seqp (on_queue (mark_file_archived key (fp_ordinal f))) (\<lambda>_.
              archive_files env cfg job failures (entries @ [manifest_item f]) failed_this_run fs))))"

definition run_collecting_stage :: "exec_env \<Rightarrow> exec_config \<Rightarrow> recovered_job \<Rightarrow> recovered_job exec" where
  "run_collecting_stage env cfg job0 =
     seqp (plan_stage env cfg job0) (\<lambda>job1.
     seqp (amend_stage job1) (\<lambda>job.
     seqp (archive_files env cfg job (rj_file_failures job) [] False (rj_files job)) (\<lambda>(entries, failed_this_run).
     let key = rj_execution_key job; node = tc_node_code (rj_task job); run = rj_task_run_id job in
     if entries \<noteq> [] then
       seqp (on_queue_now (\<lambda>now. save_manifest now key
           \<lparr>mr_task_run_id = run, mr_node_code = node,
            mr_idempotency_key = make_manifest_idempotency_key (xe_sha256 env) node run, mr_files = entries\<rparr>)) (\<lambda>_.
         exec_load_job key)
     else if failed_this_run then exec_load_job key else ret job)))"

section \<open>Building the report\<close>

definition save_collection_failure_report :: "exec_env \<Rightarrow> recovered_job \<Rightarrow> string \<Rightarrow> recovered_job exec" where
  "save_collection_failure_report env job error =
     seqp (exec_load_job (rj_execution_key job)) (\<lambda>current.
     seqp now_reading (\<lambda>t.
     let node = tc_node_code (rj_task current); run = rj_task_run_id current in
     seqp (on_queue_now (\<lambda>now. save_report now (rj_execution_key current)
         \<lparr>rr_task_run_id = run, rr_node_code = node,
          rr_idempotency_key = make_report_idempotency_key (xe_sha256 env) node run, rr_status = Failed,
          rr_finished_at = format_utc_timestamp t, rr_items_total = 1, rr_items_success = 0, rr_items_failed = 1,
          rr_error_summary = error, rr_parsed_records = [], rr_has_failed_files = True,
          rr_failed_files = (if rj_has_file_failures current then rj_file_failures current else [])\<rparr>
         (replicate (length (rj_files current)) False))) (\<lambda>_.
       exec_load_job (rj_execution_key current))))"

record report_draft =
  rd_total :: int
  rd_success :: int
  rd_failed :: int
  rd_errors :: error_summary
  rd_outcomes :: "bool list"
  rd_failures :: "failed_file list"
  rd_records :: "report_parsed_record list"

definition parse_failed_file :: "file_plan \<Rightarrow> string \<Rightarrow> failed_file" where
  "parse_failed_file f message =
     \<lparr>ff_source_path = fp_source_path f, ff_original_name = fp_original_name f, ff_stage = ''parse'', ff_message = message,
      ff_archive_raw_file_id = fp_raw_file_id f\<rparr>"

definition report_record :: "task_config \<Rightarrow> file_plan \<Rightarrow> parsed_record \<Rightarrow> report_parsed_record" where
  "report_record task f r =
     \<lparr>rp_raw_file_id = fp_raw_file_id f, rp_record = r, rp_parse_status = ''parsed'',
      rp_qc_results = map (\<lambda>rule. run_rule rule r) (tc_qc_rules task)\<rparr>"

definition has_no_archive :: "file_plan \<Rightarrow> bool" where
  "has_no_archive f \<longleftrightarrow> fp_error_detail f \<noteq> [] \<or> fp_raw_file_id f = []"

definition add_parsed :: "task_config \<Rightarrow> file_plan \<Rightarrow> parse_result \<Rightarrow> report_draft \<Rightarrow> report_draft" where
  "add_parsed task f parsed d =
     (let name = fp_original_name f @ '': ''; ok = st_ok (ps_status parsed); clean = (ok \<and> ps_errors parsed = []) in
      if \<not> ok then
        d\<lparr>rd_outcomes := rd_outcomes d @ [clean], rd_total := rd_total d + 1, rd_failed := rd_failed d + 1,
          rd_errors := add_error (rd_errors d) (name @ st_message (ps_status parsed)),
          rd_failures := rd_failures d @ [parse_failed_file f (st_message (ps_status parsed))]\<rparr>
      else
        d\<lparr>rd_outcomes := rd_outcomes d @ [clean],
          rd_total := rd_total d + int (length (ps_records parsed) + length (ps_errors parsed)),
          rd_success := rd_success d + int (length (ps_records parsed)),
          rd_failed := rd_failed d + int (length (ps_errors parsed)),
          rd_errors := foldl (\<lambda>es e. add_error es (name @ e)) (rd_errors d) (ps_errors parsed),
          rd_failures := (if ps_errors parsed = [] then rd_failures d
                          else rd_failures d @ [parse_failed_file f (hd (ps_errors parsed))]),
          rd_records := rd_records d @ map (report_record task f) (ps_records parsed)\<rparr>)"

text \<open>The file stream of the parser: a failing open, or the bytes up to a failing read.\<close>

definition open_stream :: "path \<Rightarrow> csv_source io" where
  "open_stream p =
     seqp take_fault (\<lambda>f1. case f1 of Some _ \<Rightarrow> ret CannotOpen | None \<Rightarrow>
     seqp take_fault (\<lambda>f2 d. case entry_at d p of
         None \<Rightarrow> (Inr CannotOpen, d)
       | Some (RegularFile c _ _) \<Rightarrow>
           (Inr (case f2 of None \<Rightarrow> Stream c False | Some (_, n) \<Rightarrow> Stream (take n c) True), d)
       | Some _ \<Rightarrow> (Inr (Stream [] True), d)))"

fun build_files :: "exec_env \<Rightarrow> recovered_job \<Rightarrow> report_draft \<Rightarrow> file_plan list \<Rightarrow> report_draft exec" where
  "build_files env job d [] = ret d"
| "build_files env job d (f # fs) =
     (if has_no_archive f then build_files env job (d\<lparr>rd_outcomes := rd_outcomes d @ [False]\<rparr>) fs
      else seqp (on_disk (open_stream (path_of (fp_archive_path f)))) (\<lambda>stream.
           seqp (lift_sum (parse_csv (xe_dump_string env) stream)) (\<lambda>parsed.
             build_files env job (add_parsed (rj_task job) f parsed d) fs)))"

definition initial_draft :: "recovered_job \<Rightarrow> report_draft" where
  "initial_draft job =
     \<lparr>rd_total = 0, rd_success = 0, rd_failed = 0,
      rd_errors = foldl (\<lambda>es f. add_error es (ff_original_name f @ '': '' @ ff_message f)) no_errors (rj_file_failures job),
      rd_outcomes = [], rd_failures = rj_file_failures job, rd_records = []\<rparr>"

definition draft_report :: "exec_env \<Rightarrow> recovered_job \<Rightarrow> report_draft \<Rightarrow> time_point \<Rightarrow> report_request" where
  "draft_report env job d t =
     (let node = tc_node_code (rj_task job); run = rj_task_run_id job in
      \<lparr>rr_task_run_id = run, rr_node_code = node,
       rr_idempotency_key = make_report_idempotency_key (xe_sha256 env) node run,
       rr_status = (if es_total (rd_errors d) = 0 \<and> rd_failures d = [] then Succeeded else Failed),
       rr_finished_at = format_utc_timestamp t, rr_items_total = rd_total d, rr_items_success = rd_success d,
       rr_items_failed = rd_failed d, rr_error_summary = summary_text (rd_errors d), rr_parsed_records = rd_records d,
       rr_has_failed_files = True, rr_failed_files = rd_failures d\<rparr>)"

definition report_stage :: "exec_env \<Rightarrow> recovered_job \<Rightarrow> recovered_job exec" where
  "report_stage env job =
     (if rj_stage job = Some Collecting \<or> rj_stage job = Some ReportBuilding
      then seqp (build_files env job (initial_draft job) (rj_files job)) (\<lambda>d.
           seqp now_reading (\<lambda>t.
           seqp (on_queue_now (\<lambda>now. save_report now (rj_execution_key job) (draft_report env job d t) (rd_outcomes d))) (\<lambda>_.
             exec_load_job (rj_execution_key job))))
      else ret job)"

section \<open>Running a job\<close>

text \<open>A stage that ends the job early returns \<open>None\<close>.\<close>

definition start_stage :: "exec_env \<Rightarrow> recovered_job \<Rightarrow> recovered_job option exec" where
  "start_stage env job =
     (if rj_stage job = Some StartPending then
        seqp (on_queue (xe_start env (rj_start_request job))) (\<lambda>started.
        if srr_run_status started = ''succeeded'' \<or> srr_run_status started = ''failed'' then
          seqp (on_queue (discard_start_pending_job (rj_execution_key job))) (\<lambda>_. ret None)
        else
          seqp (require (srr_run_status started = ''running'')
                 (RuntimeError (''unexpected run_status from start: '' @ srr_run_status started))) (\<lambda>_.
          seqp (on_queue_now (\<lambda>now. accept_start now (rj_execution_key job) (srr_task_run_id started))) (\<lambda>_.
          seqp (exec_load_job (rj_execution_key job)) (\<lambda>j. ret (Some j)))))
      else ret (Some job))"

definition collecting_stage :: "exec_env \<Rightarrow> exec_config \<Rightarrow> recovered_job \<Rightarrow> recovered_job option exec" where
  "collecting_stage env cfg job =
     (if rj_stage job = Some Collecting then
        seqp (attempt (run_collecting_stage env cfg job)) (\<lambda>r. case r of
          Inr j \<Rightarrow> ret (Some j)
        | Inl e \<Rightarrow>
            if is_archive_conflict e then
              seqp (on_queue_now (\<lambda>now. mark_requires_attention now (rj_execution_key job) ''archive_conflict'' (what env e)))
                (\<lambda>_. ret None)
            else if is_queue_error e then throw e
            else seqp (save_collection_failure_report env job (what env e)) (\<lambda>j. ret (Some j)))
      else ret (Some job))"

definition empty_manifest_request :: manifest_request where
  "empty_manifest_request = \<lparr>mr_task_run_id = [], mr_node_code = [], mr_idempotency_key = [], mr_files = []\<rparr>"

definition empty_report_request :: report_request where
  "empty_report_request =
     \<lparr>rr_task_run_id = [], rr_node_code = [], rr_idempotency_key = [], rr_status = Succeeded, rr_finished_at = [],
      rr_items_total = 0, rr_items_success = 0, rr_items_failed = 0, rr_error_summary = [], rr_parsed_records = [],
      rr_has_failed_files = False, rr_failed_files = []\<rparr>"

definition manifest_stage :: "exec_env \<Rightarrow> recovered_job \<Rightarrow> recovered_job exec" where
  "manifest_stage env job =
     (if rj_stage job = Some ManifestPending then
        seqp (on_queue (xe_manifest env (case rj_manifest_request job of None \<Rightarrow> empty_manifest_request | Some m \<Rightarrow> m))) (\<lambda>ids.
        seqp (on_queue_now (\<lambda>now. accept_manifest now (rj_execution_key job) ids)) (\<lambda>_.
          exec_load_job (rj_execution_key job)))
      else ret job)"

definition delivery_stage :: "exec_env \<Rightarrow> exec_config \<Rightarrow> recovered_job \<Rightarrow> unit exec" where
  "delivery_stage env cfg job =
     (if rj_stage job = Some ReportPending then
        seqp (on_queue (xe_report env (case rj_report_request job of None \<Rightarrow> empty_report_request | Some r \<Rightarrow> r))) (\<lambda>_.
          on_queue_now (\<lambda>now. complete_job (ec_queue cfg) now (rj_execution_key job)))
      else ret ())"

definition finish_job :: "exec_env \<Rightarrow> exec_config \<Rightarrow> recovered_job option \<Rightarrow> unit exec" where
  "finish_job env cfg r =
     (case r of None \<Rightarrow> ret ()
      | Some job \<Rightarrow> seqp (manifest_stage env job) (\<lambda>job1. seqp (report_stage env job1) (delivery_stage env cfg)))"

definition run_reliable_job :: "exec_env \<Rightarrow> exec_config \<Rightarrow> recovered_job \<Rightarrow> unit exec" where
  "run_reliable_job env cfg job =
     seqp (start_stage env job) (\<lambda>r. case r of
       None \<Rightarrow> ret ()
     | Some j \<Rightarrow> seqp (collecting_stage env cfg j) (finish_job env cfg))"

section \<open>Entry points\<close>

record scheduled_execution =
  sx_task :: task_config
  sx_scheduled_for :: time_point

definition execute :: "exec_env \<Rightarrow> exec_config \<Rightarrow> scheduled_execution \<Rightarrow> unit exec" where
  "execute env cfg x =
     seqp stop_reading (\<lambda>stop. if stop then ret () else
     seqp (gets (\<lambda>w. has_capacity (ec_queue cfg) (ew_queue w))) (\<lambda>room. if \<not> room then ret () else
     let task = sx_task x; scheduled_for = format_utc_timestamp (sx_scheduled_for x) in
     seqp now_reading (\<lambda>t.
     let request = \<lparr>sr_node_code = tc_node_code task, sr_task_id = tc_id task,
           sr_execution_key = make_scheduled_execution_key (xe_sha256 env) (tc_node_code task) (tc_id task) scheduled_for,
           sr_scheduled_for = scheduled_for, sr_started_at = format_utc_timestamp t, sr_trigger_type = ''scheduled''\<rparr> in
     seqp (on_queue_now (\<lambda>now. begin_job (ec_queue cfg) now task request [])) (\<lambda>_.
     seqp (exec_load_job (sr_execution_key request)) (run_reliable_job env cfg)))))"

record manual_execution =
  mx_execution :: pending_execution
  mx_task :: task_config

datatype dispatch_result = Dispatched | AlreadyQueued | QueueFull

definition execute_pending :: "exec_env \<Rightarrow> exec_config \<Rightarrow> manual_execution \<Rightarrow> dispatch_result exec" where
  "execute_pending env cfg x =
     seqp stop_reading (\<lambda>stop. if stop then ret QueueFull else
     let p = mx_execution x; task = mx_task x; key = pe_execution_key p in
     seqp (on_queue (\<lambda>db. (find_job key db, db))) (\<lambda>existing. if existing \<noteq> None then ret AlreadyQueued else
     seqp (gets (\<lambda>w. has_capacity (ec_queue cfg) (ew_queue w))) (\<lambda>room. if \<not> room then ret QueueFull else
     seqp now_reading (\<lambda>t.
     let request = \<lparr>sr_node_code = tc_node_code task, sr_task_id = tc_id task, sr_execution_key = key,
           sr_scheduled_for = [], sr_started_at = format_utc_timestamp t, sr_trigger_type = pe_trigger_type p\<rparr> in
     seqp (on_queue_now (\<lambda>now. begin_job (ec_queue cfg) now task request (pe_retry_files p))) (\<lambda>_.
     seqp (seqp (exec_load_job key) (run_reliable_job env cfg)) (\<lambda>_. ret Dispatched))))))"

fun recover_each :: "exec_env \<Rightarrow> exec_config \<Rightarrow> recovered_job list \<Rightarrow> unit exec" where
  "recover_each env cfg [] = ret ()"
| "recover_each env cfg (job # jobs) =
     seqp stop_reading (\<lambda>stop. if stop then ret () else
     seqp (attempt (run_reliable_job env cfg job)) (\<lambda>r. case r of
       Inr _ \<Rightarrow> recover_each env cfg jobs
     | Inl e \<Rightarrow> (case e of
           DeliveryAbandoned _ \<Rightarrow> seqp stop_reading (\<lambda>stop. if stop then ret () else recover_each env cfg jobs)
         | _ \<Rightarrow> throw e)))"

definition recover_pending_jobs :: "exec_env \<Rightarrow> exec_config \<Rightarrow> unit exec" where
  "recover_pending_jobs env cfg = seqp (on_queue (\<lambda>db. (recover_jobs db, db))) (recover_each env cfg)"

end
