(* ===== verification/Report_Properties.thy ===== *)
theory Report_Properties
  imports Job_Runner
begin

text \<open>
  What the executor puts into failure lists and reports: the bounded error summary, and the accounting
  of a report over the parser results of the planned files.
\<close>

section \<open>Error summary\<close>

lemma errors_added:
  "foldl add_error es details =
     \<lparr>es_total = es_total es + length details,
      es_details = es_details es @ take (kMaximumErrorDetails - length (es_details es)) details\<rparr>"
proof (induction details arbitrary: es)
  case Nil
  then show ?case by simp
next
  case (Cons d ds)
  then show ?case by (cases "kMaximumErrorDetails - length (es_details es)") (auto simp: add_error_def intro!: arg_cong2[of _ _ _ _ take])
qed

text \<open>
  The error summary of a report never exceeds 512 bytes however many errors there are and however
  long their texts; it is empty exactly when there was no error, counts every error and shows the
  first five.
\<close>

lemma error_summary_bounded:
  "let s = foldl add_error no_errors details in
   length (summary_text s) \<le> 512 \<and> (summary_text s = [] \<longleftrightarrow> details = []) \<and>
   es_total s = length details \<and> es_details s = take 5 details"
  by (auto simp: Let_def errors_added no_errors_def summary_text_def kMaximumErrorDetails_def kMaximumErrorSummaryBytes_def)

section \<open>The report accounts for every file\<close>

text \<open>
  What became of a planned file: nothing is read of a file without an archive; of any other, the parser's result for
  the bytes its archive delivers. Reading does not change the disk, so every archive is read as it is at the start.
\<close>

definition file_parsed :: "exec_env \<Rightarrow> disk \<Rightarrow> file_plan \<Rightarrow> parse_result option \<Rightarrow> bool" where
  "file_parsed env d f r \<longleftrightarrow>
     (case r of
        None \<Rightarrow> has_no_archive f
      | Some parsed \<Rightarrow> \<not> has_no_archive f \<and> (\<exists>d1 d2 stream. only_faults d d1 \<and>
          open_stream (path_of (fp_archive_path f)) d1 = (Inr stream, d2) \<and> parse_csv (xe_dump_string env) stream = Inr parsed))"

definition file_records :: "task_config \<Rightarrow> file_plan \<Rightarrow> parse_result option \<Rightarrow> report_parsed_record list" where
  "file_records task f r =
     (case r of None \<Rightarrow> [] | Some p \<Rightarrow> if st_ok (ps_status p) then map (report_record task f) (ps_records p) else [])"

definition file_errors :: "parse_result option \<Rightarrow> string list" where
  "file_errors r = (case r of None \<Rightarrow> [] | Some p \<Rightarrow> if st_ok (ps_status p) then ps_errors p else [st_message (ps_status p)])"

definition file_failures :: "file_plan \<Rightarrow> parse_result option \<Rightarrow> failed_file list" where
  "file_failures f r = (if file_errors r = [] then [] else [parse_failed_file f (hd (file_errors r))])"

definition error_texts :: "file_plan \<Rightarrow> parse_result option \<Rightarrow> string list" where
  "error_texts f r = map (\<lambda>e. fp_original_name f @ '': '' @ e) (file_errors r)"

definition stored_error_texts :: "failed_file list \<Rightarrow> string list" where
  "stored_error_texts = map (\<lambda>f. ff_original_name f @ '': '' @ ff_message f)"

text \<open>The effect of one file on the draft, and of all of them.\<close>

definition adds_up :: "task_config \<Rightarrow> (file_plan \<times> parse_result option) list \<Rightarrow> report_draft \<Rightarrow> report_draft \<Rightarrow> bool" where
  "adds_up task frs d d' \<longleftrightarrow>
     rd_records d' = rd_records d @ concat (map (\<lambda>(f, r). file_records task f r) frs) \<and>
     rd_success d' = rd_success d + int (length (concat (map (\<lambda>(f, r). file_records task f r) frs))) \<and>
     rd_failed d' = rd_failed d + int (length (concat (map (\<lambda>(f, r). file_errors r) frs))) \<and>
     rd_total d' - rd_success d' - rd_failed d' = rd_total d - rd_success d - rd_failed d \<and>
     rd_failures d' = rd_failures d @ concat (map (\<lambda>(f, r). file_failures f r) frs) \<and>
     rd_outcomes d' = rd_outcomes d @ map (\<lambda>(f, r). r \<noteq> None \<and> file_errors r = []) frs \<and>
     rd_errors d' = foldl add_error (rd_errors d) (concat (map (\<lambda>(f, r). error_texts f r) frs))"

lemma adds_up_Nil: "adds_up task [] d d"
  by (simp add: adds_up_def)

lemma adds_up_append: "adds_up task xs d e \<Longrightarrow> adds_up task ys e d' \<Longrightarrow> adds_up task (xs @ ys) d d'"
  by (simp add: adds_up_def)

lemmas file_defs = file_records_def file_errors_def file_failures_def error_texts_def

lemma add_parsed_adds_up: "adds_up task [(f, Some parsed)] d (add_parsed task f parsed d)"
  by (cases "st_ok (ps_status parsed)")
    (simp_all add: adds_up_def add_parsed_def Let_def file_defs foldl_map)

lemma skipped_adds_up: "adds_up task [(f, None)] d (d\<lparr>rd_outcomes := rd_outcomes d @ [False]\<rparr>)"
  by (simp add: adds_up_def file_defs)

lemma open_stream_reads: "only_reads (open_stream p)"
proof -
  have inner: "only_reads (\<lambda>d. case entry_at d p of
         None \<Rightarrow> (Inr CannotOpen, d)
       | Some (RegularFile c _ _) \<Rightarrow>
           (Inr (case f2 of None \<Rightarrow> Stream c False | Some (_, n) \<Rightarrow> Stream (take n c) True), d)
       | Some _ \<Rightarrow> (Inr (Stream [] True), d))" for f2 :: "(string \<times> nat) option"
    by (auto simp: only_reads_def split: option.splits fs_entry.splits)
  have "only_reads (case f1 of Some _ \<Rightarrow> ret CannotOpen | None \<Rightarrow> seqp take_fault (\<lambda>f2 d. case entry_at d p of
         None \<Rightarrow> (Inr CannotOpen, d)
       | Some (RegularFile c _ _) \<Rightarrow>
           (Inr (case f2 of None \<Rightarrow> Stream c False | Some (_, n) \<Rightarrow> Stream (take n c) True), d)
       | Some _ \<Rightarrow> (Inr (Stream [] True), d)))" for f1 :: "(string \<times> nat) option"
    using only_reads_seqp[OF only_reads_basic(6) inner] only_reads_basic(1) by (cases f1) simp_all
  then show ?thesis unfolding open_stream_def by (rule only_reads_seqp[OF only_reads_basic(6)])
qed

lemma build_files_add_up:
  "build_files env job d files w = (Inr d', w') \<Longrightarrow> only_faults d0 (ew_disk w) \<Longrightarrow>
   \<exists>rs. list_all2 (file_parsed env d0) files rs \<and> adds_up (rj_task job) (zip files rs) d d'"
proof (induction files arbitrary: d w)
  case Nil
  then show ?case by (simp add: adds_up_Nil)
next
  case (Cons f fs)
  show ?case
  proof (cases "has_no_archive f")
    case True
    with Cons.prems Cons.IH obtain rs where "list_all2 (file_parsed env d0) fs rs"
      "adds_up (rj_task job) (zip fs rs) (d\<lparr>rd_outcomes := rd_outcomes d @ [False]\<rparr>) d'" by fastforce
    moreover have "file_parsed env d0 f None" using True by (simp add: file_parsed_def)
    ultimately show ?thesis using adds_up_append[OF skipped_adds_up] by (intro exI[of _ "None # rs"]) fastforce
  next
    case False
    with Cons.prems(1) obtain stream parsed w1 where open': "on_disk (open_stream (path_of (fp_archive_path f))) w = (Inr stream, w1)"
      and parsed: "parse_csv (xe_dump_string env) stream = Inr parsed"
      and rest: "build_files env job (add_parsed (rj_task job) f parsed d) fs w1 = (Inr d', w')"
      by (auto simp: seqp_Inr)
    from open' obtain d2 where stream: "open_stream (path_of (fp_archive_path f)) (ew_disk w) = (Inr stream, d2)" "ew_disk w1 = d2"
      by (auto simp: on_disk_def split: prod.splits)
    then have "only_faults d0 (ew_disk w1)"
      using only_readsD[OF open_stream_reads] Cons.prems(2) only_faults_trans by blast
    from Cons.IH[OF rest this] obtain rs where rs: "list_all2 (file_parsed env d0) fs rs"
      "adds_up (rj_task job) (zip fs rs) (add_parsed (rj_task job) f parsed d) d'" by blast
    moreover have "file_parsed env d0 f (Some parsed)"
      using False stream(1) parsed Cons.prems(2) by (auto simp: file_parsed_def)
    ultimately show ?thesis using adds_up_append[OF add_parsed_adds_up] by (intro exI[of _ "Some parsed # rs"]) fastforce
  qed
qed

lemma no_failures_iff: "concat (map2 file_failures fs rs) = [] \<longleftrightarrow> concat (map2 error_texts fs rs) = []"
  by (auto simp: file_failures_def error_texts_def split: if_splits)

text \<open>
  C18. A report accounts for every planned file, every record and every error. Each file with an archive is parsed once,
  in order, and nothing is read of the others; the records reported are those of all files, in order, each with the
  results of the task's rules; the counters are the numbers of these records and of the errors of all files; a file that
  did not parse cleanly is listed as a failure with its first error, after the failures stored during collection; the
  summary is made of every error, the stored ones first; the outcomes the queue gets are true for the files that parsed
  without an error; and the run is reported succeeded exactly when there is no error at all.
\<close>

theorem report_accounts_for_every_file:
  assumes "build_files env job (initial_draft job) (rj_files job) w = (Inr d, w')"
  shows "\<exists>rs. list_all2 (file_parsed env (ew_disk w)) (rj_files job) rs \<and>
    (let r = draft_report env job d t;
         errors = stored_error_texts (rj_file_failures job) @ concat (map2 error_texts (rj_files job) rs) in
     rr_parsed_records r = concat (map2 (file_records (rj_task job)) (rj_files job) rs) \<and>
     rr_items_success r = int (length (rr_parsed_records r)) \<and>
     rr_items_failed r = int (length (concat (map file_errors rs))) \<and>
     rr_items_total r = rr_items_success r + rr_items_failed r \<and>
     rr_failed_files r = rj_file_failures job @ concat (map2 file_failures (rj_files job) rs) \<and>
     rr_error_summary r = summary_text \<lparr>es_total = length errors, es_details = take kMaximumErrorDetails errors\<rparr> \<and>
     rd_outcomes d = map (\<lambda>r. r \<noteq> None \<and> file_errors r = []) rs \<and>
     rr_status r = (if errors = [] then Succeeded else Failed))"
proof -
  from build_files_add_up[OF assms only_faults_refl] obtain rs where
    rs: "list_all2 (file_parsed env (ew_disk w)) (rj_files job) rs" "adds_up (rj_task job) (zip (rj_files job) rs) (initial_draft job) d"
    by blast
  have lens: "length rs = length (rj_files job)" using rs(1) by (simp add: list_all2_lengthD)
  have seconds: "map (\<lambda>(f, r). g r) (zip (rj_files job) rs) = map g rs" for g :: "parse_result option \<Rightarrow> 'z"
    using lens by (intro nth_equalityI) auto
  let ?errors = "stored_error_texts (rj_file_failures job) @ concat (map2 error_texts (rj_files job) rs)"
  have d: "rd_records d = concat (map2 (file_records (rj_task job)) (rj_files job) rs)" "rd_success d = int (length (rd_records d))"
    "rd_failed d = int (length (concat (map file_errors rs)))" "rd_total d = rd_success d + rd_failed d"
    "rd_failures d = rj_file_failures job @ concat (map2 file_failures (rj_files job) rs)"
    "rd_outcomes d = map (\<lambda>r. r \<noteq> None \<and> file_errors r = []) rs"
    using rs(2) by (simp_all add: adds_up_def initial_draft_def seconds)
  have "rd_errors d = foldl add_error no_errors ?errors"
    using rs(2) by (simp add: adds_up_def initial_draft_def foldl_map stored_error_texts_def)
  then have errors: "rd_errors d = \<lparr>es_total = length ?errors, es_details = take kMaximumErrorDetails ?errors\<rparr>"
    by (simp only: errors_added) (simp add: no_errors_def)
  have "rd_failures d = [] \<longleftrightarrow> ?errors = []"
    by (simp only: d(5) append_is_Nil_conv no_failures_iff) (simp add: stored_error_texts_def)
  then have "es_total (rd_errors d) = 0 \<and> rd_failures d = [] \<longleftrightarrow> ?errors = []"
    by (simp only: errors error_summary.simps length_0_conv simp_thms)
  then show ?thesis
    using rs(1) d
    by (intro exI[of _ rs]) (simp only: draft_report_def Let_def report_request.simps errors if_True simp_thms)
qed

definition example_env :: exec_env where
  "example_env = \<lparr>xe_sha256 = (\<lambda>c. ''h'' @ c), xe_parse_json = (\<lambda>_. Inl ''parse error''), xe_dump_string = (\<lambda>s. Some (''q'' @ s @ ''q'')),
     xe_json_what = ''type error'', xe_read_dir = (\<lambda>_ _. []), xe_start = (\<lambda>_. throw ProcessEnded),
     xe_manifest = (\<lambda>_. throw ProcessEnded), xe_report = (\<lambda>_. throw ProcessEnded)\<rparr>"

definition example_recovered :: recovered_job where
  "example_recovered = \<lparr>rj_execution_key = ''k'', rj_task = example_task, rj_start_request = example_start,
     rj_stage = Some ReportBuilding, rj_task_run_id = ''r'', rj_files = [example_plan\<lparr>fp_raw_file_id := ''7'', fp_archive_path := ''/none''\<rparr>],
     rj_manifest_request = None, rj_report_request = None, rj_retry_files = [], rj_has_file_failures = True,
     rj_file_failures = []\<rparr>"

definition example_world :: exec_world where
  "example_world = \<lparr>ew_queue = empty_queue, ew_disk = example_disk, ew_clock = [], ew_stop = []\<rparr>"

text \<open>A file whose archive has disappeared: its report says so.\<close>

theorem report_accounts_for_every_file_witness:
  "\<exists>d w. build_files example_env example_recovered (initial_draft example_recovered) (rj_files example_recovered) example_world = (Inr d, w) \<and>
     rr_items_total (draft_report example_env example_recovered d 0) =
       rr_items_success (draft_report example_env example_recovered d 0) + rr_items_failed (draft_report example_env example_recovered d 0)"
proof -
  let ?r = "build_files example_env example_recovered (initial_draft example_recovered) (rj_files example_recovered) example_world"
  have path: "path_of ''/none'' = [''/'', ''none'']" by code_simp
  have "\<exists>d. fst ?r = Inr d"
    by (simp add: example_recovered_def example_world_def example_plan_def has_no_archive_def on_disk_def open_stream_def path
        seqp_def take_fault_def ret_def lift_sum_def example_disk_def entry_at_def real_path_def follow_def start_at_def is_absolute_def
        max_links_def example_env_def parse_csv_def parse_failure_def cong: seqp_lazy)
  then obtain d where "fst ?r = Inr d" by blast
  then have run: "?r = (Inr d, snd ?r)" by (metis prod.collapse)
  from report_accounts_for_every_file[OF run, of 0] show ?thesis using run by (auto simp: Let_def)
qed

end
