(* ===== verification/Plan_Properties.thy ===== *)
theory Plan_Properties
  imports Report_Properties
begin

text \<open>
  What a plan may contain: no more files than the limit of a run, none that another job holds, a place
  of its own in the archive for each; and what a retry may read.
\<close>

lemma on_disk_queue: "on_disk m w = (r, w') \<Longrightarrow> ew_queue w' = ew_queue w"
  by (auto simp: on_disk_def split: prod.splits)

lemma attempt_Inr: "attempt m s = (Inr r, t) \<longleftrightarrow> m s = (r, t)"
  by (auto simp: attempt_def split: prod.splits)

definition plan_ok :: "exec_config \<Rightarrow> recovered_job \<Rightarrow> queue_db \<Rightarrow> file_plan list \<Rightarrow> bool" where
  "plan_ok cfg job db plan \<longleftrightarrow>
     map fp_ordinal plan = map int [0..<length plan] \<and>
     (\<forall>i < length plan. \<exists>p. plan_archive_path (ec_work_dir cfg) (tc_id (rj_task job)) (rj_task_run_id job) (i + 1)
         (fp_original_name (plan ! i)) = Inr p \<and> fp_archive_path (plan ! i) = path_text p) \<and>
     (\<forall>f \<in> set plan. \<not> is_file_in_flight (tc_id (rj_task job)) (fp_fingerprint f) db)"

lemma plan_ok_snoc:
  assumes "plan_ok cfg job db plan" and "fp_ordinal f = int (length plan)"
    and "plan_archive_path (ec_work_dir cfg) (tc_id (rj_task job)) (rj_task_run_id job) (length plan + 1) (fp_original_name f) = Inr p"
    and "fp_archive_path f = path_text p" and "\<not> is_file_in_flight (tc_id (rj_task job)) (fp_fingerprint f) db"
  shows "plan_ok cfg job db (plan @ [f])"
  using assms by (auto simp: plan_ok_def nth_append less_Suc_eq)

definition free_plan :: "exec_config \<Rightarrow> recovered_job \<Rightarrow> queue_db \<Rightarrow> planning \<Rightarrow> bool" where
  "free_plan cfg job db acc \<longleftrightarrow> plan_ok cfg job db (fst acc) \<and> length (fst acc) + length (snd acc) \<le> ec_max_files cfg \<and>
     (\<forall>f \<in> set (fst acc). \<not> is_file_occupied (tc_id (rj_task job)) (fp_fingerprint f) db)"

lemma plan_inspected_ok:
  assumes "plan_inspected env cfg job item acc r w = (Inr acc', w')" and "free_plan cfg job (ew_queue w) acc"
    and "length (fst acc) + length (snd acc) < ec_max_files cfg"
  shows "free_plan cfg job (ew_queue w) acc' \<and> w' = w"
proof (cases r)
  case (Inl e)
  with assms show ?thesis by (auto simp: plan_inspected_def free_plan_def Let_def split: prod.splits)
next
  case (Inr m)
  obtain plan failures where acc: "acc = (plan, failures)" by (metis prod.exhaust)
  let ?task = "tc_id (rj_task job)"
  let ?fp = "?task @ newline @ lm_fingerprint m"
  show ?thesis
  proof (cases "is_file_occupied ?task ?fp (ew_queue w)")
    case True
    with Inr acc assms show ?thesis by (auto simp: plan_inspected_def Let_def seqp_Inr)
  next
    case False
    with Inr acc assms(1) obtain p where
      p: "plan_archive_path (ec_work_dir cfg) ?task (rj_task_run_id job) (length plan + 1) (lm_original_name m) = Inr p"
      and acc': "acc' = (plan @ [planned_file (length plan) m ?fp p], failures)" "w' = w"
      by (auto simp: plan_inspected_def Let_def seqp_Inr)
    have "\<not> is_file_in_flight ?task ?fp (ew_queue w)" using False by (simp add: is_file_occupied_def)
    then have "plan_ok cfg job (ew_queue w) (plan @ [planned_file (length plan) m ?fp p])"
      using assms(2) p acc by (intro plan_ok_snoc) (simp_all add: planned_file_def free_plan_def)
    with False assms(2,3) acc acc' show ?thesis by (simp add: free_plan_def) (simp add: planned_file_def)
  qed
qed

lemma plan_items_ok:
  "plan_items env cfg job acc items w = (Inr acc', w') \<Longrightarrow> free_plan cfg job (ew_queue w) acc \<Longrightarrow>
   free_plan cfg job (ew_queue w) acc' \<and> ew_queue w' = ew_queue w"
proof (induction items arbitrary: acc w)
  case Nil
  then show ?case by simp
next
  case (Cons item items)
  show ?case
  proof (cases "length (fst acc) + length (snd acc) \<ge> ec_max_files cfg")
    case True
    with Cons.prems show ?thesis by simp
  next
    case False
    with Cons.prems(1) obtain r w1 acc1 w2 where look: "on_disk (inspect (xe_sha256 env) item) w = (r, w1)"
      and body: "plan_inspected env cfg job item acc r w1 = (Inr acc1, w2)"
      and rest: "plan_items env cfg job acc1 items w2 = (Inr acc', w')"
      by (auto simp: seqp_Inr attempt_Inr)
    have db: "ew_queue w1 = ew_queue w" using look by (rule on_disk_queue)
    have "free_plan cfg job (ew_queue w) acc1" "w2 = w1"
      using plan_inspected_ok[OF body] Cons.prems(2) False by (simp_all add: db)
    with Cons.IH[OF rest] show ?thesis by (simp add: db)
  qed
qed

lemma plan_paths_distinct:
  assumes "plan_ok cfg job db plan" and "i < length plan" "j < length plan" "i \<noteq> j"
  shows "\<exists>p q. p \<noteq> q \<and> fp_archive_path (plan ! i) = path_text p \<and> fp_archive_path (plan ! j) = path_text q"
proof -
  from assms obtain p q where
    p: "plan_archive_path (ec_work_dir cfg) (tc_id (rj_task job)) (rj_task_run_id job) (i + 1) (fp_original_name (plan ! i)) = Inr p"
      "fp_archive_path (plan ! i) = path_text p" and
    q: "plan_archive_path (ec_work_dir cfg) (tc_id (rj_task job)) (rj_task_run_id job) (j + 1) (fp_original_name (plan ! j)) = Inr q"
      "fp_archive_path (plan ! j) = path_text q"
    unfolding plan_ok_def by meson
  have "p \<noteq> q"
  proof
    assume "p = q"
    with p(1) q(1) obtain rest rest' where "nat_to_string (i + 1) @ ''-'' @ rest = nat_to_string (j + 1) @ ''-'' @ rest'"
      by (auto elim!: plan_archive_path_Inr)
    then have "i + 1 = j + 1" by (rule ordinal_prefix)
    with assms(4) show False by simp
  qed
  with p(2) q(2) show ?thesis by blast
qed

text \<open>
  C19. The plan a directory scan makes never exceeds the limit of files per run, failed reads included;
  its ordinals count from zero, every file has an archive path of its own, the path the archive store
  plans for that ordinal, and no planned file was processed before or is held by another queued job.
\<close>

theorem scan_plan_is_sound:
  assumes "plan_from_directory env cfg job w = (Inr (plan, failures), w')"
  shows "length plan + length failures \<le> ec_max_files cfg \<and> map fp_ordinal plan = map int [0..<length plan] \<and>
    (\<forall>i < length plan. \<exists>p. plan_archive_path (ec_work_dir cfg) (tc_id (rj_task job)) (rj_task_run_id job) (i + 1)
       (fp_original_name (plan ! i)) = Inr p \<and> fp_archive_path (plan ! i) = path_text p) \<and>
    (\<forall>f \<in> set plan. \<not> is_file_occupied (tc_id (rj_task job)) (fp_fingerprint f) (ew_queue w)) \<and>
    ew_queue w' = ew_queue w"
proof -
  from assms obtain items w1 where run: "plan_items env cfg job ([], []) items w1 = (Inr (plan, failures), w')"
    and db: "ew_queue w1 = ew_queue w"
    by (auto simp: plan_from_directory_def seqp_Inr dest!: on_disk_queue)
  have "free_plan cfg job (ew_queue w1) ([], [])" by (simp add: free_plan_def plan_ok_def)
  from plan_items_ok[OF run this] show ?thesis unfolding db by (simp add: free_plan_def plan_ok_def)
qed

definition scan_env :: exec_env where
  "scan_env = example_env\<lparr>xe_parse_json := (\<lambda>_. Inr (JObj [(''root_path'', JStr ''/''), (''extension'', JStr ''.csv'')])),
     xe_read_dir := (\<lambda>_ _. [''a.csv''])\<rparr>"

definition scan_config :: exec_config where
  "scan_config = \<lparr>ec_queue = example_config, ec_work_dir = [''/'', ''work''], ec_allowed_roots = [[''/'']], ec_max_files = 3\<rparr>"

definition scan_job :: recovered_job where
  "scan_job = example_recovered\<lparr>rj_stage := Some Collecting, rj_has_file_failures := False\<rparr>"

lemmas exec_run = io_run fs_symlink_status_def[THEN fun_cong] fs_last_write_time_def[THEN fun_cong] link_entry_at_def
  on_disk_def attempt_def collect_def inspect_def[THEN fun_cong] parse_source_spec_def[THEN fun_cong] weakly_canonical_at_def
  append_name.simps format_file_time_def[THEN fun_cong] take_skew_def

lemma example_scan_succeeds:
  "case fst (plan_from_directory scan_env scan_config scan_job example_world) of Inr _ \<Rightarrow> True | Inl _ \<Rightarrow> False"
proof -
  have types: "validate_execution_types (rj_task scan_job) = Inr ()"
    by (simp add: validate_execution_types_def scan_job_def example_recovered_def example_task_def example_source_def example_rule_def)
  have paths: "path_of ''/'' = [''/'']" "path_of ''/a.csv'' = [''/'', ''a.csv'']" "path_text [''/'', ''a.csv''] = ''/a.csv''"
    "extension [''/'', ''a.csv''] = ''.csv''" "filename [''/'', ''a.csv''] = ''a.csv''" "is_absolute [''/'']"
    by code_simp+
  have plan: "plan_archive_path [''/'', ''work''] ''42'' ''r'' (Suc 0) ''a.csv'' = Inr [''/'', ''work'', ''archive'', ''42'', ''r'', ''1-a.csv'']"
    by code_simp
  have queue: "is_file_occupied t f empty_queue = False" for t f
    by (simp add: is_file_occupied_def is_file_in_flight_def empty_queue_def)
  have task: "tc_id (rj_task scan_job) = ''42''" "rj_task_run_id scan_job = ''r''"
    by (simp_all add: scan_job_def example_recovered_def example_task_def)
  show ?thesis
    by (simp add: plan_from_directory_def[THEN fun_cong] types exec_run example_world_def scan_config_def scan_env_def
        example_env_def paths example_disk_def cong: seqp_lazy)
      (simp add: plan_inspected_def Let_def seqp_def gets_def ret_def lift_sum_def queue task plan)
qed

text \<open>Two disks with the same entries: every path leads to the same place and the same content.\<close>

definition same_files :: "disk \<Rightarrow> disk \<Rightarrow> bool" where
  "same_files d d' \<longleftrightarrow> dk_files d' = dk_files d \<and> dk_cwd d' = dk_cwd d"

lemma same_files_refl [simp]: "same_files d d"
  by (simp add: same_files_def)












section \<open>The plan of a retry\<close>

























theorem scan_plan_is_sound_witness:
  "\<exists>plan failures w. plan_from_directory scan_env scan_config scan_job example_world = (Inr (plan, failures), w) \<and>
     length plan + length failures \<le> 3"
proof -
  obtain r w where "plan_from_directory scan_env scan_config scan_job example_world = (r, w)" by (metis prod.exhaust)
  with example_scan_succeeds obtain plan failures where
    run: "plan_from_directory scan_env scan_config scan_job example_world = (Inr (plan, failures), w)" by (cases r) auto
  from scan_plan_is_sound[OF run] have "length plan + length failures \<le> 3" by (simp add: scan_config_def)
  with run show ?thesis by blast
qed

end
