(* ===== verification/Scheduler.thy ===== *)
theory Scheduler
  imports Cron_Schedule Job_Runner
begin

text \<open>
  \<open>TaskScheduler\<close> (\<open>agent/src/scheduler/task_scheduler.cpp\<close>): the table of schedules, its replacement
  by a configuration refresh, and the loop of the scheduler thread. The loop is cut at its critical
  sections: one \<open>turn\<close> is what the thread does between two points where a refresh or a stop request of
  another thread can come in, and a run is any sequence of turns, refreshes and stop requests with the
  clock readings they take. The executor is a parameter; it shares no state with the scheduler.
\<close>

section \<open>Entries\<close>

definition utc_minute :: "time_point \<Rightarrow> int" where
  "utc_minute t = quot t one_minute"

definition same_qc_rule :: "qc_rule_config \<Rightarrow> qc_rule_config \<Rightarrow> bool" where
  "same_qc_rule l r \<longleftrightarrow> qr_id l = qr_id r \<and> qr_rule_type l = qr_rule_type r \<and> qr_config_json l = qr_config_json r"

definition same_execution_config :: "task_config \<Rightarrow> task_config \<Rightarrow> bool" where
  "same_execution_config l r \<longleftrightarrow>
     tc_id l = tc_id r \<and> tc_node_code l = tc_node_code r \<and> tc_task_type l = tc_task_type r \<and>
     tc_schedule_expr l = tc_schedule_expr r \<and> tc_parser_type l = tc_parser_type r \<and>
     tc_data_source_id l = tc_data_source_id r \<and> ds_id (tc_data_source l) = ds_id (tc_data_source r) \<and>
     ds_node_code (tc_data_source l) = ds_node_code (tc_data_source r) \<and>
     ds_type (tc_data_source l) = ds_type (tc_data_source r) \<and>
     ds_config_json (tc_data_source l) = ds_config_json (tc_data_source r) \<and>
     list_all2 same_qc_rule (tc_qc_rules l) (tc_qc_rules r)"

definition normalized_numeric_id :: "string \<Rightarrow> string" where
  "normalized_numeric_id v = (let s = dropWhile (\<lambda>c. c = CHR ''0'') v in if s = [] then ''0'' else s)"

definition is_numeric_id :: "string \<Rightarrow> bool" where
  "is_numeric_id v \<longleftrightarrow> v \<noteq> [] \<and> list_all isdigit v"

definition task_id_less :: "string \<Rightarrow> string \<Rightarrow> bool" where
  "task_id_less l r =
     (let nl = normalized_numeric_id l; nr = normalized_numeric_id r in
      if is_numeric_id l \<and> is_numeric_id r \<and> length nl \<noteq> length nr then length nl < length nr
      else if is_numeric_id l \<and> is_numeric_id r \<and> nl \<noteq> nr then nl < nr
      else l < r)"

record sched_entry =
  en_config :: task_config
  en_schedule :: cron_schedule
  en_next_slot :: "time_point option"
  en_last_dispatched :: "time_point option"

text \<open>A \<open>std::map\<close> is the list of its pairs in key order.\<close>

type_synonym entries = "(string \<times> sched_entry) list"

definition set_entry :: "string \<Rightarrow> (sched_entry \<Rightarrow> sched_entry) \<Rightarrow> entries \<Rightarrow> entries" where
  "set_entry k f es = map (\<lambda>(i, e). (i, if i = k then f e else e)) es"

definition each_entry :: "(sched_entry \<Rightarrow> sched_entry) \<Rightarrow> entries \<Rightarrow> entries" where
  "each_entry f es = map (\<lambda>(i, e). (i, f e)) es"

section \<open>Configuration refresh\<close>

definition schedule_base :: "time_point option \<Rightarrow> time_point \<Rightarrow> time_point" where
  "schedule_base prior applied_at =
     (case prior of Some t \<Rightarrow> if t > applied_at then t else applied_at | None \<Rightarrow> applied_at)"

definition refreshed_entry :: "time_point \<Rightarrow> entries \<Rightarrow> task_config \<Rightarrow> cron_schedule \<Rightarrow> sched_entry" where
  "refreshed_entry applied_at old task schedule =
     (let prior = (case map_of old (tc_id task) of None \<Rightarrow> None | Some e \<Rightarrow> en_last_dispatched e);
          fresh = \<lparr>en_config = task, en_schedule = schedule,
                   en_next_slot = next_after schedule (schedule_base prior applied_at), en_last_dispatched = prior\<rparr>
      in case map_of old (tc_id task) of
           Some e \<Rightarrow> if same_execution_config (en_config e) task then e\<lparr>en_config := task\<rparr> else fresh
         | None \<Rightarrow> fresh)"

definition refresh_task :: "time_point \<Rightarrow> entries \<Rightarrow> entries \<Rightarrow> task_config \<Rightarrow> entries" where
  "refresh_task applied_at old replacement task =
     (if \<not> tc_enabled task \<or> tc_id task = [] \<or> tc_id task \<in> fst ` set replacement then replacement
      else case parse_cron (tc_schedule_expr task) of
        Inl _ \<Rightarrow> replacement
      | Inr schedule \<Rightarrow>
          insort_key fst (tc_id task, refreshed_entry applied_at old task schedule) replacement)"

definition refresh_entries :: "time_point \<Rightarrow> entries \<Rightarrow> task_config list \<Rightarrow> entries" where
  "refresh_entries applied_at old tasks = foldl (refresh_task applied_at old) [] tasks"

section \<open>The scheduler thread\<close>

datatype phase =
    Starting
  | Looping
  | Dispatching "scheduled_execution list"
  | Taking int
  | Submitting int manual_execution
  | Waiting int
  | Ended "agent_exn option"

record 'w scheduler =
  sd_entries :: entries
  sd_candidates :: "pending_execution list"
  sd_stop :: bool
  sd_phase :: phase
  sd_world :: 'w
  sd_executed :: "(string \<times> time_point) list"

text \<open>\<open>ITaskExecutor\<close>. \<open>sd_executed\<close> is no field of the code: it records the calls of \<open>execute\<close>.\<close>

record 'w executor =
  xr_recover :: "('w, agent_exn, unit) proc"
  xr_execute :: "scheduled_execution \<Rightarrow> ('w, agent_exn, unit) proc"
  xr_execute_pending :: "manual_execution \<Rightarrow> ('w, agent_exn, dispatch_result) proc"

definition skip_old_slot :: "time_point \<Rightarrow> sched_entry \<Rightarrow> sched_entry" where
  "skip_old_slot now e =
     (case en_next_slot e of
        Some t \<Rightarrow> if utc_minute t < utc_minute now then e\<lparr>en_next_slot := next_after (en_schedule e) now\<rparr> else e
      | None \<Rightarrow> e)"

definition is_due :: "time_point \<Rightarrow> sched_entry \<Rightarrow> bool" where
  "is_due now e =
     (case en_next_slot e of Some t \<Rightarrow> t \<le> now \<and> utc_minute t = utc_minute now | None \<Rightarrow> False)"

definition due_less :: "scheduled_execution \<Rightarrow> scheduled_execution \<Rightarrow> bool" where
  "due_less l r =
     (if sx_scheduled_for l \<noteq> sx_scheduled_for r then sx_scheduled_for l < sx_scheduled_for r
      else task_id_less (tc_id (sx_task l)) (tc_id (sx_task r)))"

text \<open>\<open>std::sort\<close>, which fixes the order where \<open>due_less\<close> is a strict total order.\<close>

fun insert_due :: "scheduled_execution \<Rightarrow> scheduled_execution list \<Rightarrow> scheduled_execution list" where
  "insert_due x [] = [x]"
| "insert_due x (y # ys) = (if due_less y x then y # insert_due x ys else x # y # ys)"

definition sort_due :: "scheduled_execution list \<Rightarrow> scheduled_execution list" where
  "sort_due xs = foldr insert_due xs []"

definition due_executions :: "time_point \<Rightarrow> entries \<Rightarrow> scheduled_execution list" where
  "due_executions now es =
     sort_due (map (\<lambda>(i, e). \<lparr>sx_task = en_config e, sx_scheduled_for = the (en_next_slot e)\<rparr>)
       (filter (\<lambda>(i, e). is_due now e) es))"

definition earliest_slot :: "entries \<Rightarrow> time_point option" where
  "earliest_slot es =
     foldl (\<lambda>earliest (i, e). case en_next_slot e of
         None \<Rightarrow> earliest
       | Some t \<Rightarrow> (case earliest of Some b \<Rightarrow> if t < b then Some t else Some b | None \<Rightarrow> Some t)) None es"

definition dispatched_entry :: "time_point \<Rightarrow> sched_entry \<Rightarrow> sched_entry" where
  "dispatched_entry slot e =
     e\<lparr>en_last_dispatched := Some slot, en_next_slot := next_after (en_schedule e) slot\<rparr>"

definition mark_dispatched :: "scheduled_execution list \<Rightarrow> entries \<Rightarrow> entries" where
  "mark_dispatched due es =
     foldl (\<lambda>es x. set_entry (tc_id (sx_task x)) (dispatched_entry (sx_scheduled_for x)) es) es due"

definition skip_passed_slot :: "time_point \<Rightarrow> sched_entry \<Rightarrow> sched_entry" where
  "skip_passed_slot completed_at e =
     (case en_next_slot e of
        Some t \<Rightarrow> if t \<le> completed_at then e\<lparr>en_next_slot := next_after (en_schedule e) completed_at\<rparr> else e
      | None \<Rightarrow> e)"

text \<open>The wait in seconds.\<close>

definition wait_delay :: "time_point \<Rightarrow> time_point option \<Rightarrow> int" where
  "wait_delay now earliest =
     (case earliest of
        Some t \<Rightarrow> if t > now then max (min 60 (quot (t - now) ns_per_second)) 1 else 60
      | None \<Rightarrow> 60)"

definition still_configured :: "entries \<Rightarrow> scheduled_execution \<Rightarrow> bool" where
  "still_configured es x =
     (case map_of es (tc_id (sx_task x)) of
        Some e \<Rightarrow> same_execution_config (en_config e) (sx_task x) | None \<Rightarrow> False)"

definition pass :: "time_point \<Rightarrow> 'w scheduler \<Rightarrow> 'w scheduler" where
  "pass now s =
     (if sd_stop s then s\<lparr>sd_phase := Ended None\<rparr>
      else
        let es = each_entry (skip_old_slot now) (sd_entries s); due = due_executions now es in
        if due \<noteq> [] then s\<lparr>sd_entries := mark_dispatched due es, sd_phase := Dispatching due\<rparr>
        else s\<lparr>sd_entries := es, sd_phase := Taking (wait_delay now (earliest_slot es))\<rparr>)"

definition after_executor :: "(agent_exn + 'a) \<times> 'w \<Rightarrow> ('a option \<Rightarrow> 'w scheduler \<Rightarrow> 'w scheduler) \<Rightarrow>
    'w scheduler \<Rightarrow> 'w scheduler" where
  "after_executor result continue s =
     (case result of
        (Inr a, w) \<Rightarrow> continue (Some a) (s\<lparr>sd_world := w\<rparr>)
      | (Inl (DeliveryAbandoned _), w) \<Rightarrow> continue None (s\<lparr>sd_world := w\<rparr>)
      | (Inl e, w) \<Rightarrow> s\<lparr>sd_world := w, sd_phase := Ended (Some e)\<rparr>)"

definition dispatch_next :: "'w executor \<Rightarrow> scheduled_execution \<Rightarrow> scheduled_execution list \<Rightarrow>
    'w scheduler \<Rightarrow> 'w scheduler" where
  "dispatch_next ex x rest s =
     (if sd_stop s then s\<lparr>sd_phase := Dispatching []\<rparr>
      else if \<not> still_configured (sd_entries s) x then s\<lparr>sd_phase := Dispatching rest\<rparr>
      else after_executor (xr_execute ex x (sd_world s)) (\<lambda>_ s. s\<lparr>sd_phase := Dispatching rest\<rparr>)
             (s\<lparr>sd_executed := sd_executed s @ [(tc_id (sx_task x), sx_scheduled_for x)]\<rparr>))"

definition complete_pass :: "time_point \<Rightarrow> 'w scheduler \<Rightarrow> 'w scheduler" where
  "complete_pass completed_at s =
     s\<lparr>sd_entries := each_entry (skip_passed_slot completed_at) (sd_entries s), sd_phase := Looping\<rparr>"

text \<open>\<open>dispatch_one_pending\<close>, in its two critical sections.\<close>

definition take_candidate :: "int \<Rightarrow> 'w scheduler \<Rightarrow> 'w scheduler" where
  "take_candidate delay s =
     (case dropWhile (\<lambda>c. map_of (sd_entries s) (pe_task_id c) = None) (sd_candidates s) of
        [] \<Rightarrow> s\<lparr>sd_candidates := [], sd_phase := Waiting delay\<rparr>
      | c # cs \<Rightarrow> s\<lparr>sd_candidates := cs, sd_phase := Submitting delay
            \<lparr>mx_execution = c, mx_task = en_config (the (map_of (sd_entries s) (pe_task_id c)))\<rparr>\<rparr>)"

definition submit_candidate :: "'w executor \<Rightarrow> int \<Rightarrow> manual_execution \<Rightarrow> 'w scheduler \<Rightarrow> 'w scheduler" where
  "submit_candidate ex delay m s =
     after_executor (xr_execute_pending ex m (sd_world s))
       (\<lambda>r s. if r = Some QueueFull
              then s\<lparr>sd_candidates := mx_execution m # sd_candidates s, sd_phase := Waiting delay\<rparr>
              else s\<lparr>sd_phase := Looping\<rparr>) s"

definition turn_step :: "'w executor \<Rightarrow> time_point \<Rightarrow> 'w scheduler \<Rightarrow> 'w scheduler" where
  "turn_step ex now s =
     (case sd_phase s of
        Starting \<Rightarrow> after_executor (xr_recover ex (sd_world s)) (\<lambda>_ s. s\<lparr>sd_phase := Looping\<rparr>) s
      | Looping \<Rightarrow> pass now s
      | Dispatching [] \<Rightarrow> complete_pass now s
      | Dispatching (x # rest) \<Rightarrow> dispatch_next ex x rest s
      | Taking delay \<Rightarrow> take_candidate delay s
      | Submitting delay m \<Rightarrow> submit_candidate ex delay m s
      | Waiting delay \<Rightarrow> s\<lparr>sd_phase := Looping\<rparr>
      | Ended r \<Rightarrow> s)"

datatype sched_event =
    Refresh time_point "task_config list" "pending_execution list"
  | RequestStop
  | Turn time_point

definition replace_config :: "time_point \<Rightarrow> task_config list \<Rightarrow> pending_execution list \<Rightarrow> 'w scheduler \<Rightarrow> 'w scheduler" where
  "replace_config applied_at tasks pending s =
     s\<lparr>sd_entries := refresh_entries applied_at (sd_entries s) tasks, sd_candidates := pending\<rparr>"

fun sched_step :: "'w executor \<Rightarrow> 'w scheduler \<Rightarrow> sched_event \<Rightarrow> 'w scheduler" where
  "sched_step ex s (Refresh applied_at tasks pending) = replace_config applied_at tasks pending s"
| "sched_step ex s RequestStop = s\<lparr>sd_stop := True\<rparr>"
| "sched_step ex s (Turn now) = turn_step ex now s"

definition run_scheduler :: "'w executor \<Rightarrow> 'w scheduler \<Rightarrow> sched_event list \<Rightarrow> 'w scheduler" where
  "run_scheduler ex = foldl (sched_step ex)"

definition new_scheduler :: "'w \<Rightarrow> 'w scheduler" where
  "new_scheduler w =
     \<lparr>sd_entries = [], sd_candidates = [], sd_stop = False, sd_phase = Starting, sd_world = w, sd_executed = []\<rparr>"

text \<open>The executor of the agent.\<close>

definition agent_executor :: "exec_env \<Rightarrow> exec_config \<Rightarrow> exec_world executor" where
  "agent_executor env cfg =
     \<lparr>xr_recover = recover_pending_jobs env cfg, xr_execute = execute env cfg, xr_execute_pending = execute_pending env cfg\<rparr>"

end
