(* ===== verification/Scheduler_Lemmas.thy ===== *)
theory Scheduler_Lemmas
  imports Scheduler
begin

text \<open>
  Facts about the scheduler's pieces: slots are whole minutes strictly after the time they are computed
  from, the comparison of task identifiers is numeric on numeric identifiers, and every change of an
  entry keeps its next slot after the last one dispatched.
\<close>

section \<open>Slots\<close>

lemma next_after_later:
  assumes "next_after s t = Some t'"
  shows "t < t' \<and> t' mod one_minute = 0"
proof -
  obtain k where k: "t' = next_minute t + int k * one_minute"
    using assms by (auto simp: next_after_def search_minutes_Some)
  have grid: "next_minute t = (to_seconds t div 60 + 1) * one_minute"
    by (simp add: next_minute_eq seconds_point_def one_minute_def)
  have "t < next_minute t"
  proof (cases "0 \<le> t")
    case True
    then have "next_minute t = (t div one_minute + 1) * one_minute" by (rule next_minute_nonneg)
    also have "\<dots> = t - t mod one_minute + one_minute"
      using div_mult_mod_eq[of t one_minute] by (simp add: distrib_right minus_mod_eq_div_mult)
    finally show ?thesis using pos_mod_bound[OF one_minute_pos, of t] by simp
  next
    case False
    then have "to_seconds t = - ((- t) div ns_per_second)" by (simp add: to_seconds_def quot_def ns_per_second_def)
    then have "t \<le> to_seconds t * ns_per_second"
      using div_mult_mod_eq[of "- t" ns_per_second] pos_mod_sign[of ns_per_second "- t"]
      by (simp add: ns_per_second_def)
    moreover have "to_seconds t < (to_seconds t div 60 + 1) * 60"
      using div_mult_mod_eq[of "to_seconds t" 60] pos_mod_bound[of 60 "to_seconds t"] by simp
    ultimately show ?thesis by (simp add: next_minute_eq seconds_point_def ns_per_second_def)
  qed
  moreover have "next_minute t \<le> t'" using k one_minute_pos by simp
  ultimately show ?thesis unfolding k grid by (simp flip: distrib_right)
qed

lemma utc_minute_mono:
  assumes "s \<le> t"
  shows "utc_minute s \<le> utc_minute t"
proof -
  have m: "utc_minute t = (if 0 \<le> t then t div one_minute else - ((- t) div one_minute))" for t
    using one_minute_pos by (cases "t = 0") (auto simp: utc_minute_def quot_def)
  have "0 \<le> (- s) div one_minute" if "s < 0" using that one_minute_pos by (simp add: pos_imp_zdiv_nonneg_iff)
  moreover have "0 \<le> t div one_minute" if "0 \<le> t" using that one_minute_pos by (simp add: pos_imp_zdiv_nonneg_iff)
  ultimately show ?thesis unfolding m using assms one_minute_pos by (auto intro: zdiv_mono1)
qed

lemma same_minute_next:
  assumes "t mod one_minute = 0" "t' mod one_minute = 0" "t < t'" "t \<le> now" "utc_minute t = utc_minute now"
  shows "now < t'"
proof -
  obtain a b where ab: "t = one_minute * a" "t' = one_minute * b" using assms(1,2) unfolding mod_eq_0_iff_dvd dvd_def by blast
  with assms(3) have b: "a + 1 \<le> b" using one_minute_pos by simp
  have t: "utc_minute t = a" using one_minute_pos
    by (cases "a = 0") (auto simp: ab utc_minute_def quot_def sgn_mult abs_mult sgn_mult_abs)
  show ?thesis
  proof (cases "0 \<le> now")
    case True
    then have "now div one_minute = a" using assms(5) t one_minute_pos by (simp add: utc_minute_def quot_nonneg)
    then have "now < one_minute * (a + 1)"
      using div_mult_mod_eq[of now one_minute] pos_mod_bound[OF one_minute_pos, of now] by (simp add: distrib_left mult.commute)
    also have "\<dots> \<le> t'" using b one_minute_pos by (simp add: ab)
    finally show ?thesis .
  next
    case False
    then have "(- now) div one_minute = - a" using assms(5) t one_minute_pos by (simp add: utc_minute_def quot_def)
    then have "now \<le> one_minute * a"
      using div_mult_mod_eq[of "- now" one_minute] pos_mod_sign[OF one_minute_pos, of "- now"] by (simp add: mult.commute)
    then show ?thesis using assms(3) ab by simp
  qed
qed

section \<open>Order of task identifiers\<close>

lemma digits_value_append: "digits_value acc (s @ t) = digits_value (digits_value acc s) t"
  by (simp add: digits_value_def)

lemma digits_value_Cons: "digits_value acc (c # s) = digits_value (10 * acc + digit_value c) s"
  by (simp add: digits_value_def)

lemma digits_value_acc: "digits_value acc s = acc * 10 ^ length s + digits_value 0 s"
proof (induction s arbitrary: acc)
  case Nil
  then show ?case by (simp add: digits_value_def)
next
  case (Cons c s)
  show ?case using Cons[of "10 * acc + digit_value c"] Cons[of "digit_value c"]
    by (simp add: digits_value_Cons algebra_simps)
qed

lemma digits_value_bound: "list_all isdigit s \<Longrightarrow> digits_value 0 s < 10 ^ length s"
proof (induction s)
  case Nil
  then show ?case by (simp add: digits_value_def)
next
  case (Cons c s)
  then have "digit_value c \<le> 9" "digits_value 0 s < 10 ^ length s" using digit_value_less[of c] by auto
  then have "digit_value c * 10 ^ length s + digits_value 0 s < 9 * 10 ^ length s + 10 ^ length s"
    by (intro add_le_less_mono mult_right_mono) auto
  then show ?case using digits_value_acc[of "digit_value c" s] by (simp add: digits_value_Cons)
qed

lemma digit_less: "isdigit c \<Longrightarrow> isdigit d \<Longrightarrow> c < d \<longleftrightarrow> digit_value c < digit_value d"
  by (auto simp: isdigit_def digit_value_def char_code_def less_char_def)

lemma digit_inject: "isdigit c \<Longrightarrow> isdigit d \<Longrightarrow> digit_value c = digit_value d \<Longrightarrow> c = d"
  using digit_less[of c d] digit_less[of d c] by (metis less_irrefl not_less_iff_gr_or_eq)

lemma digits_value_less:
  "list_all isdigit s \<Longrightarrow> list_all isdigit t \<Longrightarrow> length s = length t \<Longrightarrow>
   s < t \<longleftrightarrow> digits_value 0 s < digits_value 0 t"
proof (induction s arbitrary: t)
  case Nil
  then show ?case by simp
next
  case (Cons c s)
  then obtain d u where t: "t = d # u" by (cases t) auto
  let ?p = "10 ^ length s :: nat"
  have v: "digits_value 0 (c # s) = digit_value c * ?p + digits_value 0 s"
    "digits_value 0 t = digit_value d * ?p + digits_value 0 u"
    using Cons.prems digits_value_acc[of "digit_value c" s] digits_value_acc[of "digit_value d" u]
    by (simp_all add: digits_value_Cons t)
  have b: "digits_value 0 s < ?p" "digits_value 0 u < ?p"
    using Cons.prems digits_value_bound[of s] digits_value_bound[of u] by (simp_all add: t)
  have far: "x * ?p + y < z * ?p + w" if "x < z" "y < ?p" for x y z w :: nat
  proof -
    have "x * ?p + y < (x + 1) * ?p" using that by simp
    also have "\<dots> \<le> z * ?p" using that by (intro mult_right_mono) auto
    finally show ?thesis by simp
  qed
  have IH: "s < u \<longleftrightarrow> digits_value 0 s < digits_value 0 u" using Cons.IH[of u] Cons.prems by (simp add: t)
  consider "digit_value c < digit_value d" | "digit_value d < digit_value c" | "digit_value c = digit_value d" by linarith
  then show ?case
  proof cases
    case 1
    then show ?thesis using far[OF 1 b(1), of "digits_value 0 u"] Cons.prems unfolding v
      by (simp add: t digit_less)
  next
    case 2
    then have "\<not> c < d" "c \<noteq> d" using Cons.prems by (auto simp: t digit_less)
    then show ?thesis using far[OF 2 b(2), of "digits_value 0 s"] unfolding v by (simp add: t)
  next
    case 3
    then have "c = d" using Cons.prems by (auto simp: t intro: digit_inject)
    then show ?thesis using IH unfolding v by (simp add: t)
  qed
qed

lemma strip_zeros: "digits_value 0 (dropWhile (\<lambda>c. c = CHR ''0'') s) = digits_value 0 s"
proof (induction s)
  case (Cons c s)
  have "digits_value 0 (CHR ''0'' # s) = digits_value 0 s"
    by (simp add: digits_value_Cons digit_value_def char_code_def)
  with Cons show ?case by auto
qed simp

lemma no_leading_zero:
  assumes "list_all isdigit s" "s = c # t" "c \<noteq> CHR ''0''"
  shows "10 ^ (length s - 1) \<le> digits_value 0 s"
proof -
  have "digit_value c \<noteq> 0" using assms digit_inject[of c "CHR ''0''"]
    by (auto simp: digit_value_def char_code_def isdigit_def)
  then have "1 * 10 ^ length t \<le> digit_value c * 10 ^ length t" by (intro mult_right_mono) auto
  moreover have "digits_value 0 s = digit_value c * 10 ^ length t + digits_value 0 t"
    using digits_value_acc[of "digit_value c" t] by (simp add: assms(2) digits_value_Cons)
  ultimately have "10 ^ length t \<le> digits_value 0 s" by linarith
  then show ?thesis by (simp add: assms(2))
qed

lemma normalized_id:
  assumes "is_numeric_id v"
  defines "n \<equiv> normalized_numeric_id v"
  shows "list_all isdigit n" "digits_value 0 n = digits_value 0 v" "n = ''0'' \<or> 10 ^ (length n - 1) \<le> digits_value 0 n" "n \<noteq> []"
proof -
  let ?s = "dropWhile (\<lambda>c. c = CHR ''0'') v"
  have digits: "list_all isdigit ?s" using assms by (auto simp: is_numeric_id_def list_all_iff dest: set_dropWhileD)
  have zero: "list_all isdigit ''0''" "digits_value 0 ''0'' = 0" by (simp_all add: isdigit_def char_code_def digits_value_def digit_value_def)
  have val: "digits_value 0 ?s = digits_value 0 v" by (rule strip_zeros)
  have n: "n = (if ?s = [] then ''0'' else ?s)" by (simp add: n_def normalized_numeric_id_def Let_def)
  show "list_all isdigit n" "n \<noteq> []" unfolding n using digits zero(1) by simp_all
  show "digits_value 0 n = digits_value 0 v"
  proof (cases "?s = []")
    case True
    have "digits_value 0 v = 0" using val unfolding True by (simp add: digits_value_def)
    then show ?thesis using True zero(2) by (simp add: n)
  next
    case False
    then show ?thesis unfolding n using val by (simp only: if_False)
  qed
  show "n = ''0'' \<or> 10 ^ (length n - 1) \<le> digits_value 0 n"
  proof (cases ?s)
    case (Cons c t)
    then have "c \<noteq> CHR ''0''" using hd_dropWhile[of "\<lambda>c. c = CHR ''0''" v] by (metis list.sel(1) list.distinct(1))
    then show ?thesis using no_leading_zero[OF digits Cons] Cons by (auto simp: n_def normalized_numeric_id_def Let_def)
  qed (simp add: n_def normalized_numeric_id_def)
qed

lemma task_id_less_numeric:
  assumes "is_numeric_id l" "is_numeric_id r"
  shows "task_id_less l r \<longleftrightarrow> digits_value 0 l < digits_value 0 r \<or> (digits_value 0 l = digits_value 0 r \<and> l < r)"
proof -
  let ?l = "normalized_numeric_id l" and ?r = "normalized_numeric_id r"
  note L = normalized_id[OF assms(1)] and R = normalized_id[OF assms(2)]
  have shorter: "digits_value 0 a < digits_value 0 b"
    if "list_all isdigit a" "b = ''0'' \<or> 10 ^ (length b - 1) \<le> digits_value 0 b" "length a < length b" "a \<noteq> []" for a b :: string
  proof -
    have "digits_value 0 a < 10 ^ length a" using that(1) by (rule digits_value_bound)
    also have "\<dots> \<le> 10 ^ (length b - 1)" using that(3) by (intro power_increasing) auto
    also have "\<dots> \<le> digits_value 0 b" using that by (auto simp: length_greater_0_conv)
    finally show ?thesis .
  qed
  show ?thesis
  proof (cases "length ?l = length ?r")
    case False
    then consider "length ?l < length ?r" | "length ?r < length ?l" by linarith
    then show ?thesis
    proof cases
      case 1
      then show ?thesis using shorter[OF L(1) R(3) 1 L(4)] assms L(2) R(2) by (simp add: task_id_less_def Let_def)
    next
      case 2
      then show ?thesis using shorter[OF R(1) L(3) 2 R(4)] assms L(2) R(2) by (simp add: task_id_less_def Let_def)
    qed
  next
    case True
    have less: "?l < ?r \<longleftrightarrow> digits_value 0 l < digits_value 0 r" "?r < ?l \<longleftrightarrow> digits_value 0 r < digits_value 0 l"
      using digits_value_less[OF L(1) R(1) True] digits_value_less[OF R(1) L(1) True[symmetric]] L(2) R(2) by simp_all
    then have "?l = ?r \<longleftrightarrow> digits_value 0 l = digits_value 0 r"
      by (metis less_irrefl not_less_iff_gr_or_eq)
    with less True assms show ?thesis by (auto simp: task_id_less_def Let_def)
  qed
qed

lemma numeric_ids_ordered:
  "is_numeric_id a \<Longrightarrow> is_numeric_id b \<Longrightarrow> a \<noteq> b \<Longrightarrow> task_id_less a b \<or> task_id_less b a"
  "is_numeric_id a \<Longrightarrow> is_numeric_id b \<Longrightarrow> is_numeric_id c \<Longrightarrow> task_id_less a b \<Longrightarrow> task_id_less b c \<Longrightarrow> task_id_less a c"
  "is_numeric_id a \<Longrightarrow> \<not> task_id_less a a"
  by (auto simp: task_id_less_numeric not_less_iff_gr_or_eq)

text \<open>Mixed with other identifiers the comparison runs in a circle.\<close>

lemma task_id_less_circle:
  "task_id_less ''10'' ''1a'' \<and> task_id_less ''1a'' ''9'' \<and> task_id_less ''9'' ''10''"
  by code_simp

section \<open>Tables of entries\<close>

lemma map_of_each_entry: "map_of (each_entry f es) k = map_option f (map_of es k)"
  by (induction es) (auto simp: each_entry_def)

lemma map_of_set_entry: "map_of (set_entry i f es) k = (if k = i then map_option f (map_of es k) else map_of es k)"
  by (induction es) (auto simp: set_entry_def)

lemma entry_keys [simp]: "map fst (each_entry f es) = map fst es" "map fst (set_entry i f es) = map fst es"
  by (auto simp: each_entry_def set_entry_def)

definition entry_ok :: "string \<Rightarrow> sched_entry \<Rightarrow> bool" where
  "entry_ok i e \<longleftrightarrow> i \<noteq> [] \<and> tc_id (en_config e) = i \<and> (\<forall>t. en_next_slot e = Some t \<longrightarrow> t mod one_minute = 0 \<and>
     (\<forall>l. en_last_dispatched e = Some l \<longrightarrow> l < t))"

definition entries_ok :: "entries \<Rightarrow> bool" where
  "entries_ok es \<longleftrightarrow> distinct (map fst es) \<and> (\<forall>i e. map_of es i = Some e \<longrightarrow> entry_ok i e)"

definition watermark :: "entries \<Rightarrow> string \<Rightarrow> time_point option" where
  "watermark es i = (case map_of es i of None \<Rightarrow> None | Some e \<Rightarrow> en_last_dispatched e)"

lemma watermark_each_entry:
  "(\<And>e. en_last_dispatched (f e) = en_last_dispatched e) \<Longrightarrow> watermark (each_entry f es) i = watermark es i"
  by (auto simp: watermark_def map_of_each_entry split: option.splits)

lemma entries_ok_each_entry:
  "entries_ok es \<Longrightarrow> (\<And>i e. entry_ok i e \<Longrightarrow> entry_ok i (f e)) \<Longrightarrow> entries_ok (each_entry f es)"
  by (auto simp: entries_ok_def map_of_each_entry)

lemma entries_ok_set_entry:
  "entries_ok es \<Longrightarrow> (\<And>i e. entry_ok i e \<Longrightarrow> entry_ok i (f e)) \<Longrightarrow> entries_ok (set_entry k f es)"
  by (auto simp: entries_ok_def map_of_set_entry split: if_splits)

lemma skip_old_slot_keeps:
  "en_last_dispatched (skip_old_slot now e) = en_last_dispatched e" "en_config (skip_old_slot now e) = en_config e"
  by (auto simp: skip_old_slot_def split: option.splits)

lemma skip_old_slot_ok: "entry_ok i e \<Longrightarrow> entry_ok i (skip_old_slot now e)"
proof -
  assume ok: "entry_ok i e"
  have old: "t < now" if "utc_minute t < utc_minute now" for t using that utc_minute_mono[of now t] by linarith
  show ?thesis using ok
    by (auto simp: entry_ok_def skip_old_slot_def dest!: next_after_later old split: option.splits if_splits) fastforce?
qed

lemma skip_passed_slot_keeps:
  "en_last_dispatched (skip_passed_slot now e) = en_last_dispatched e" "en_config (skip_passed_slot now e) = en_config e"
  by (auto simp: skip_passed_slot_def split: option.splits)

lemma skip_passed_slot_ok: "entry_ok i e \<Longrightarrow> entry_ok i (skip_passed_slot now e)"
  by (auto simp: entry_ok_def skip_passed_slot_def dest!: next_after_later split: option.splits if_splits) fastforce?

lemma dispatched_entry_ok: "entry_ok i e \<Longrightarrow> entry_ok i (dispatched_entry slot e)"
  by (auto simp: entry_ok_def dispatched_entry_def dest!: next_after_later)

end
