(* ===== verification/Scheduler_Properties.thy ===== *)
theory Scheduler_Properties
  imports Scheduler_Lemmas
begin

text \<open>
  What the scheduler promises over every interleaving of its thread with refreshes and stop requests:
  no slot is executed twice, a pass dispatches exactly what is due, and a refresh keeps the watermarks.
\<close>

section \<open>Refreshing\<close>

definition schedulable :: "string \<Rightarrow> task_config \<Rightarrow> bool" where
  "schedulable i t \<longleftrightarrow> tc_enabled t \<and> tc_id t = i \<and> i \<noteq> [] \<and> (\<exists>s. parse_cron (tc_schedule_expr t) = Inr s)"

definition refreshed :: "time_point \<Rightarrow> entries \<Rightarrow> task_config \<Rightarrow> sched_entry" where
  "refreshed applied_at old t = refreshed_entry applied_at old t (projr (parse_cron (tc_schedule_expr t)))"

lemma map_of_insort_key:
  "k \<notin> fst ` set xs \<Longrightarrow> map_of (insort_key fst (k, v) xs) i = (if i = k then Some v else map_of xs i)"
  by (induction xs) (auto simp: image_iff)

lemma distinct_insort_keys:
  "distinct (map fst xs) \<Longrightarrow> k \<notin> fst ` set xs \<Longrightarrow> distinct (map fst (insort_key fst (k, v) xs))"
  by (induction xs) (auto simp: set_insort_key)

lemma refresh_step:
  assumes "distinct (map fst r)"
  shows "distinct (map fst (refresh_task a old r t))" (is ?d)
    and "map_of (refresh_task a old r t) i =
      (case map_of r i of Some e \<Rightarrow> Some e | None \<Rightarrow> if schedulable i t then Some (refreshed a old t) else None)" (is ?m)
proof -
  show ?d using assms by (auto simp: refresh_task_def distinct_insort_keys split: sum.splits)
  have none: "map_of r (tc_id t) = None \<longleftrightarrow> tc_id t \<notin> fst ` set r" by (auto simp: map_of_eq_None_iff)
  show ?m
  proof (cases "tc_enabled t \<and> tc_id t \<noteq> [] \<and> tc_id t \<notin> fst ` set r")
    case True
    with none have n: "map_of r (tc_id t) = None" by blast
    with True show ?thesis
      by (cases "parse_cron (tc_schedule_expr t)")
        (auto simp: refresh_task_def schedulable_def refreshed_def map_of_insort_key split: option.splits)
  next
    case False
    then have "refresh_task a old r t = r" by (auto simp: refresh_task_def)
    moreover have "map_of r i \<noteq> None" if "schedulable i t" using that False none by (auto simp: schedulable_def)
    ultimately show ?thesis by (auto split: option.splits)
  qed
qed

lemma refresh_fold:
  assumes "distinct (map fst r)"
  shows "distinct (map fst (foldl (refresh_task a old) r ts)) \<and>
    map_of (foldl (refresh_task a old) r ts) i =
      (case map_of r i of Some e \<Rightarrow> Some e | None \<Rightarrow> map_option (refreshed a old) (find (schedulable i) ts))"
  using assms
proof (induction ts arbitrary: r)
  case Nil
  then show ?case by (auto split: option.splits)
next
  case (Cons t ts)
  note step = refresh_step[OF Cons.prems, of a old t]
  show ?case using Cons.IH[OF step(1)] unfolding foldl.simps step(2) by (auto split: option.splits)
qed

lemma refresh_entries_map:
  "map_of (refresh_entries a old ts) i = map_option (refreshed a old) (find (schedulable i) ts)"
  "distinct (map fst (refresh_entries a old ts))"
  unfolding refresh_entries_def using refresh_fold[of "[]" a old ts i] by simp_all

lemma find_schedulable: "find (schedulable i) ts = Some t \<Longrightarrow> schedulable i t \<and> t \<in> set ts"
  by (auto simp: find_Some_iff)

lemma refreshed_ok:
  assumes "entries_ok old" "schedulable i t"
  shows "entry_ok i (refreshed a old t)"
    and "en_last_dispatched (refreshed a old t) = watermark old i"
proof -
  have id: "tc_id t = i" using assms(2) by (simp add: schedulable_def)
  show "en_last_dispatched (refreshed a old t) = watermark old i"
    by (auto simp: refreshed_def refreshed_entry_def id Let_def watermark_def split: option.splits)
  have base: "l \<le> schedule_base (Some l) a" for l by (simp add: schedule_base_def)
  show "entry_ok i (refreshed a old t)"
  proof (cases "\<exists>e. map_of old i = Some e \<and> same_execution_config (en_config e) t")
    case True
    then obtain e where "map_of old i = Some e" "refreshed a old t = e\<lparr>en_config := t\<rparr>"
      by (auto simp: refreshed_def refreshed_entry_def id Let_def)
    with assms(1) id show ?thesis by (auto simp: entries_ok_def entry_ok_def)
  next
    case False
    then have r: "refreshed a old t = \<lparr>en_config = t, en_schedule = projr (parse_cron (tc_schedule_expr t)),
        en_next_slot = next_after (projr (parse_cron (tc_schedule_expr t))) (schedule_base (watermark old i) a),
        en_last_dispatched = watermark old i\<rparr>"
      by (auto simp: refreshed_def refreshed_entry_def id Let_def watermark_def split: option.splits)
    have "l < u" if "next_after s (schedule_base (Some l) a) = Some u" for s l u
      using next_after_later[OF that] base[of l] by linarith
    then show ?thesis unfolding r entry_ok_def using id assms(2) by (auto simp: schedulable_def dest: next_after_later)
  qed
qed

lemma entries_ok_refresh: "entries_ok old \<Longrightarrow> entries_ok (refresh_entries a old ts)"
  unfolding entries_ok_def[of "refresh_entries a old ts"]
  by (auto simp: refresh_entries_map dest!: find_schedulable intro: refreshed_ok)

lemma watermark_refresh:
  "entries_ok old \<Longrightarrow> find (schedulable i) ts \<noteq> None \<Longrightarrow> watermark (refresh_entries a old ts) i = watermark old i"
  using refreshed_ok(2) find_schedulable
  by (auto simp: watermark_def[of "refresh_entries a old ts"] refresh_entries_map)

section \<open>The entries due in a pass\<close>

lemma set_sort_due: "set (sort_due xs) = set xs"
proof -
  have "set (insert_due x ys) = insert x (set ys)" for x ys by (induction ys) auto
  then show ?thesis by (induction xs) (auto simp: sort_due_def)
qed

lemma distinct_sort_due: "distinct (map f (sort_due xs)) \<longleftrightarrow> distinct (map f xs)"
proof -
  have set: "set (insert_due x ys) = insert x (set ys)" for x ys by (induction ys) auto
  have ins: "distinct (map f (insert_due x ys)) \<longleftrightarrow> f x \<notin> f ` set ys \<and> distinct (map f ys)" for x ys
    by (induction ys) (auto simp: set)
  have "distinct (map f (foldr insert_due xs [])) \<longleftrightarrow> distinct (map f xs)"
  proof (induction xs)
    case (Cons x xs)
    have "set (foldr insert_due xs []) = set xs" using set_sort_due[of xs] by (simp add: sort_due_def)
    with Cons show ?case by (simp add: ins)
  qed simp
  then show ?thesis by (simp add: sort_due_def)
qed

definition numeric_task :: "scheduled_execution \<Rightarrow> bool" where
  "numeric_task x \<longleftrightarrow> is_numeric_id (tc_id (sx_task x))"

lemma due_less_order:
  "numeric_task a \<Longrightarrow> numeric_task b \<Longrightarrow> tc_id (sx_task a) \<noteq> tc_id (sx_task b) \<Longrightarrow> due_less a b \<or> due_less b a"
  "numeric_task a \<Longrightarrow> numeric_task b \<Longrightarrow> numeric_task c \<Longrightarrow> due_less a b \<Longrightarrow> due_less b c \<Longrightarrow> due_less a c"
proof -
  show "numeric_task a \<Longrightarrow> numeric_task b \<Longrightarrow> tc_id (sx_task a) \<noteq> tc_id (sx_task b) \<Longrightarrow> due_less a b \<or> due_less b a"
    using numeric_ids_ordered(1) by (fastforce simp: numeric_task_def due_less_def)
  show "numeric_task a \<Longrightarrow> numeric_task b \<Longrightarrow> numeric_task c \<Longrightarrow> due_less a b \<Longrightarrow> due_less b c \<Longrightarrow> due_less a c"
    using numeric_ids_ordered(2)[of "tc_id (sx_task a)" "tc_id (sx_task b)" "tc_id (sx_task c)"]
    by (auto simp: numeric_task_def due_less_def split: if_splits)
qed

lemma sort_due_sorted:
  assumes "\<forall>x \<in> set xs. numeric_task x" "distinct (map (\<lambda>x. tc_id (sx_task x)) xs)"
  shows "sorted_wrt due_less (sort_due xs)"
proof -
  have set: "set (insert_due x ys) = insert x (set ys)" for x ys by (induction ys) auto
  have ins: "sorted_wrt due_less (insert_due x ys)"
    if "sorted_wrt due_less ys" "\<forall>y \<in> set ys. numeric_task y \<and> tc_id (sx_task y) \<noteq> tc_id (sx_task x)" "numeric_task x" for x ys
    using that
  proof (induction ys)
    case (Cons y ys)
    show ?case
    proof (cases "due_less y x")
      case True
      with Cons show ?thesis by (auto simp: set)
    next
      case False
      with Cons.prems have "due_less x y" using due_less_order(1)[of x y] by (metis list.set_intros(1))
      with Cons.prems False show ?thesis by (auto intro: due_less_order(2))
    qed
  qed simp
  from assms show ?thesis
  proof (induction xs)
    case (Cons x xs)
    then have "sorted_wrt due_less (sort_due xs)" by simp
    then have "sorted_wrt due_less (insert_due x (sort_due xs))"
      by (rule ins) (use Cons.prems in \<open>fastforce simp: set_sort_due image_iff\<close>)+
    then show ?case by (simp add: sort_due_def)
  qed (simp add: sort_due_def)
qed

lemma map_of_filter_key:
  "distinct (map fst es) \<Longrightarrow> (k, v) \<in> set es \<longleftrightarrow> map_of es k = Some v"
  by (metis map_of_eq_Some_iff)

lemma due_executions_set:
  assumes "distinct (map fst es)"
  shows "x \<in> set (due_executions now es) \<longleftrightarrow>
    (\<exists>i e. map_of es i = Some e \<and> is_due now e \<and> x = \<lparr>sx_task = en_config e, sx_scheduled_for = the (en_next_slot e)\<rparr>)"
proof -
  have "x \<in> set (due_executions now es) \<longleftrightarrow>
    (\<exists>i e. (i, e) \<in> set es \<and> is_due now e \<and> x = \<lparr>sx_task = en_config e, sx_scheduled_for = the (en_next_slot e)\<rparr>)"
    unfolding due_executions_def set_sort_due by auto
  then show ?thesis unfolding map_of_filter_key[OF assms] .
qed

lemma due_executions_distinct:
  assumes "entries_ok es"
  shows "distinct (map (\<lambda>x. tc_id (sx_task x)) (due_executions now es))"
proof -
  have k: "distinct (map fst es)" using assms by (simp add: entries_ok_def)
  have id: "tc_id (en_config e) = i" if "(i, e) \<in> set es" for i e
    using assms that unfolding map_of_filter_key[OF k] entries_ok_def entry_ok_def by blast
  have eq: "map (\<lambda>x. tc_id (sx_task x)) (map (\<lambda>(i, e). \<lparr>sx_task = en_config e, sx_scheduled_for = the (en_next_slot e)\<rparr>)
      (filter (\<lambda>(i, e). is_due now e) es)) = map fst (filter (\<lambda>(i, e). is_due now e) es)"
    unfolding map_map by (rule map_cong) (auto dest: id)
  show ?thesis unfolding due_executions_def distinct_sort_due eq using k by (rule distinct_map_filter)
qed

lemma map_of_mark_dispatched:
  assumes "distinct (map (\<lambda>x. tc_id (sx_task x)) due)"
  shows "map_of (mark_dispatched due es) i =
    (case find (\<lambda>x. tc_id (sx_task x) = i) due of None \<Rightarrow> map_of es i
     | Some x \<Rightarrow> map_option (dispatched_entry (sx_scheduled_for x)) (map_of es i))"
  using assms
proof (induction due arbitrary: es)
  case (Cons y due)
  have "find (\<lambda>x. tc_id (sx_task x) = tc_id (sx_task y)) due = None"
    using Cons.prems by (force simp: find_None_iff image_iff)
  then show ?case using Cons by (auto simp: mark_dispatched_def map_of_set_entry split: option.splits)
qed (simp add: mark_dispatched_def)

lemma mark_dispatched_keys: "map fst (mark_dispatched due es) = map fst es"
  unfolding mark_dispatched_def by (induction due arbitrary: es) simp_all

lemma entries_ok_mark_dispatched: "entries_ok es \<Longrightarrow> entries_ok (mark_dispatched due es)"
  unfolding mark_dispatched_def
  by (induction due arbitrary: es) (auto intro: entries_ok_set_entry dispatched_entry_ok)


lemma due_entry:
  assumes "entries_ok es" "x \<in> set (due_executions now es)"
  shows "\<exists>e t. map_of es (tc_id (sx_task x)) = Some e \<and> is_due now e \<and> sx_task x = en_config e \<and>
    en_next_slot e = Some t \<and> sx_scheduled_for x = t"
proof -
  have "distinct (map fst es)" using assms(1) by (simp add: entries_ok_def)
  from iffD1[OF due_executions_set[OF this] assms(2)] obtain i e where e: "map_of es i = Some e" "is_due now e"
    "x = \<lparr>sx_task = en_config e, sx_scheduled_for = the (en_next_slot e)\<rparr>" by blast
  have "tc_id (en_config e) = i" using assms(1) e(1) by (simp add: entries_ok_def entry_ok_def)
  moreover obtain t where "en_next_slot e = Some t" using e(2) by (auto simp: is_due_def split: option.splits)
  ultimately show ?thesis using e by simp
qed

section \<open>Invariant of a run\<close>

definition pending_slots :: "phase \<Rightarrow> string \<Rightarrow> time_point list" where
  "pending_slots p i = (case p of
     Dispatching xs \<Rightarrow> map sx_scheduled_for (filter (\<lambda>x. tc_id (sx_task x) = i) xs) | _ \<Rightarrow> [])"

definition executed_slots :: "'w scheduler \<Rightarrow> string \<Rightarrow> time_point list" where
  "executed_slots s i = map snd (filter (\<lambda>p. fst p = i) (sd_executed s))"

definition slots_ok :: "string \<Rightarrow> 'w scheduler \<Rightarrow> bool" where
  "slots_ok i s \<longleftrightarrow> (let slots = executed_slots s i @ pending_slots (sd_phase s) i in
     sorted_wrt (<) slots \<and>
     (slots \<noteq> [] \<longrightarrow> (\<exists>l. watermark (sd_entries s) i = Some l \<and> (\<forall>t \<in> set slots. t \<le> l))))"

lemma pending_slots_simps [simp]:
  "pending_slots Looping i = []" "pending_slots Starting i = []" "pending_slots (Taking d) i = []"
  "pending_slots (Submitting d m) i = []" "pending_slots (Waiting d) i = []" "pending_slots (Ended r) i = []"
  "pending_slots (Dispatching []) i = []"
  "pending_slots (Dispatching (x # xs)) i =
     (if tc_id (sx_task x) = i then [sx_scheduled_for x] else []) @ pending_slots (Dispatching xs) i"
  by (simp_all add: pending_slots_def)

text \<open>Dropping slots and keeping the watermark.\<close>

lemma slots_ok_shrinks:
  assumes "slots_ok i s" and "watermark (sd_entries s') i = watermark (sd_entries s) i"
    and "executed_slots s i @ pending_slots (sd_phase s) i = a @ dropped @ b @ dropped'"
    and "executed_slots s' i @ pending_slots (sd_phase s') i = a @ b"
  shows "slots_ok i s'"
  using assms(1) unfolding slots_ok_def Let_def assms(2-4) by (auto simp: sorted_wrt_append)

lemma slots_ok_same:
  assumes "slots_ok i s" and "watermark (sd_entries s') i = watermark (sd_entries s) i"
    and "executed_slots s' i @ pending_slots (sd_phase s') i = executed_slots s i @ pending_slots (sd_phase s) i"
  shows "slots_ok i s'"
  using slots_ok_shrinks[OF assms(1,2), of _ "[]" "[]" "[]"] assms(3) by simp

lemma after_executor_cases:
  assumes "after_executor result continue s = s'"
  obtains a w where "s' = continue a (s\<lparr>sd_world := w\<rparr>)" | e w where "s' = s\<lparr>sd_world := w, sd_phase := Ended (Some e)\<rparr>"
  using assms by (auto simp: after_executor_def split: prod.splits sum.splits agent_exn.splits)

definition sched_inv :: "string \<Rightarrow> 'w scheduler \<Rightarrow> bool" where
  "sched_inv i s \<longleftrightarrow> entries_ok (sd_entries s) \<and> slots_ok i s"

lemma pass_inv:
  assumes "sched_inv i s" "sd_phase s = Looping"
  shows "sched_inv i (pass now s)"
proof (cases "sd_stop s")
  case True
  with assms show ?thesis by (auto simp: pass_def sched_inv_def slots_ok_def executed_slots_def)
next
  case False
  let ?es = "each_entry (skip_old_slot now) (sd_entries s)"
  let ?due = "due_executions now ?es"
  have es: "entries_ok ?es" using assms(1) by (auto simp: sched_inv_def intro: entries_ok_each_entry skip_old_slot_ok)
  have w: "watermark ?es i = watermark (sd_entries s) i" by (rule watermark_each_entry) (rule skip_old_slot_keeps)
  have old: "slots_ok i s" using assms(1) by (simp add: sched_inv_def)
  show ?thesis
  proof (cases "?due = []")
    case True
    then have p: "pass now s = s\<lparr>sd_entries := ?es, sd_phase := Taking (wait_delay now (earliest_slot ?es))\<rparr>"
      using False by (simp add: pass_def Let_def)
    show ?thesis unfolding sched_inv_def p
      using es old assms(2) w by (auto intro!: slots_ok_same[OF old] simp: executed_slots_def)
  next
    case due: False
    then have p: "pass now s = s\<lparr>sd_entries := mark_dispatched ?due ?es, sd_phase := Dispatching ?due\<rparr>"
      using False by (simp add: pass_def Let_def)
    have distinct: "distinct (map (\<lambda>x. tc_id (sx_task x)) ?due)" using es by (rule due_executions_distinct)
    note m = map_of_mark_dispatched[OF distinct, of ?es i]
    have ex: "executed_slots (pass now s) i = executed_slots s i" by (simp add: p executed_slots_def)
    have "slots_ok i (pass now s)"
    proof (cases "find (\<lambda>x. tc_id (sx_task x) = i) ?due")
      case None
      then have "filter (\<lambda>x. tc_id (sx_task x) = i) ?due = []" by (auto simp: find_None_iff filter_empty_conv)
      then have "pending_slots (Dispatching ?due) i = []" by (simp add: pending_slots_def)
      moreover have "watermark (mark_dispatched ?due ?es) i = watermark (sd_entries s) i"
        using m None w by (simp add: watermark_def)
      ultimately show ?thesis
        by (intro slots_ok_same[OF old]) (simp_all add: ex assms(2), simp_all add: p)
    next
      case (Some x)
      then have x: "x \<in> set ?due" "tc_id (sx_task x) = i" by (auto simp: find_Some_iff)
      then have "pending_slots (Dispatching ?due) i = [sx_scheduled_for x]"
        using filter_distinct_key[OF distinct x(1), of "\<lambda>_. True"] by (simp add: pending_slots_def)
      then have slots: "executed_slots (pass now s) i @ pending_slots (sd_phase (pass now s)) i =
          executed_slots s i @ [sx_scheduled_for x]" unfolding ex by (simp add: p)
      obtain e t where e: "map_of ?es i = Some e" "en_next_slot e = Some t" "sx_scheduled_for x = t"
        using due_entry[OF es x(1)] unfolding x(2) by blast
      have "watermark (mark_dispatched ?due ?es) i = Some t" using m Some e by (simp add: watermark_def dispatched_entry_def)
      then have new: "watermark (sd_entries (pass now s)) i = Some t" by (simp add: p)
      have before: "\<forall>u \<in> set (executed_slots s i). u < t"
      proof
        fix u assume u: "u \<in> set (executed_slots s i)"
        then obtain l where l: "watermark (sd_entries s) i = Some l" "u \<le> l"
          using old assms(2) by (fastforce simp: slots_ok_def Let_def)
        have "entry_ok i e" using es e(1) by (simp add: entries_ok_def)
        moreover have "en_last_dispatched e = Some l" using l(1) w e(1) by (simp add: watermark_def)
        ultimately show "u < t" using e(2) l(2) by (auto simp: entry_ok_def)
      qed
      have "sorted_wrt (<) (executed_slots s i)" using old assms(2) by (simp add: slots_ok_def Let_def)
      then show ?thesis unfolding slots_ok_def slots new Let_def using before e(3) by (auto simp: sorted_wrt_append intro: less_imp_le)
    qed
    then show ?thesis using es by (simp add: sched_inv_def p entries_ok_mark_dispatched)
  qed
qed


lemma dispatch_next_inv:
  assumes "sched_inv i s" "sd_phase s = Dispatching (x # rest)"
  shows "sched_inv i (dispatch_next ex x rest s)"
proof -
  have old: "slots_ok i s" and es: "entries_ok (sd_entries s)" using assms(1) by (simp_all add: sched_inv_def)
  let ?x = "if tc_id (sx_task x) = i then [sx_scheduled_for x] else []"
  have slots: "executed_slots s i @ pending_slots (sd_phase s) i =
      executed_slots s i @ ?x @ pending_slots (Dispatching rest) i" by (simp add: assms(2))
  consider (stop) "dispatch_next ex x rest s = s\<lparr>sd_phase := Dispatching []\<rparr>"
    | (skip) "dispatch_next ex x rest s = s\<lparr>sd_phase := Dispatching rest\<rparr>"
    | (run) "dispatch_next ex x rest s = after_executor (xr_execute ex x (sd_world s)) (\<lambda>_ s. s\<lparr>sd_phase := Dispatching rest\<rparr>)
             (s\<lparr>sd_executed := sd_executed s @ [(tc_id (sx_task x), sx_scheduled_for x)]\<rparr>)"
    by (cases "sd_stop s"; cases "still_configured (sd_entries s) x") (simp_all add: dispatch_next_def)
  then show ?thesis
  proof cases
    case stop
    then show ?thesis using es slots
      by (auto simp: sched_inv_def executed_slots_def
          intro!: slots_ok_shrinks[OF old, of _ "executed_slots s i" "pending_slots (sd_phase s) i" "[]" "[]"])
  next
    case skip
    then show ?thesis using es slots
      by (auto simp: sched_inv_def executed_slots_def
          intro!: slots_ok_shrinks[OF old, of _ "executed_slots s i" ?x "pending_slots (Dispatching rest) i" "[]"])
  next
    case run
    let ?s = "s\<lparr>sd_executed := sd_executed s @ [(tc_id (sx_task x), sx_scheduled_for x)]\<rparr>"
    have log: "executed_slots t i = executed_slots s i @ ?x" if "sd_executed t = sd_executed ?s" for t :: "'a scheduler"
      using that by (simp add: executed_slots_def)
    from run[symmetric] show ?thesis
    proof (cases rule: after_executor_cases)
      case (1 a w)
      then show ?thesis using es slots log[of "dispatch_next ex x rest s"]
        by (auto simp: sched_inv_def intro!: slots_ok_same[OF old])
    next
      case (2 e w)
      then show ?thesis using es slots log[of "dispatch_next ex x rest s"]
        by (auto simp: sched_inv_def
            intro!: slots_ok_shrinks[OF old, of _ "executed_slots s i @ ?x" "[]" "[]" "pending_slots (Dispatching rest) i"])
    qed
  qed
qed

text \<open>The other turns change neither the entries' watermarks nor the slots.\<close>

lemma sched_inv_quiet:
  assumes "sched_inv i s" and "entries_ok (sd_entries s')" and "watermark (sd_entries s') i = watermark (sd_entries s) i"
    and "sd_executed s' = sd_executed s" and "pending_slots (sd_phase s') i = pending_slots (sd_phase s) i"
  shows "sched_inv i s'"
proof -
  have "slots_ok i s" using assms(1) by (simp add: sched_inv_def)
  from slots_ok_same[OF this assms(3)] show ?thesis using assms(2,4,5) by (simp add: sched_inv_def executed_slots_def)
qed

lemma turn_inv:
  assumes "sched_inv i s"
  shows "sched_inv i (turn_step ex now s)"
proof -
  have es: "entries_ok (sd_entries s)" using assms by (simp add: sched_inv_def)
  show ?thesis
  proof (cases "sd_phase s")
    case Starting
    then have "after_executor (xr_recover ex (sd_world s)) (\<lambda>_ s. s\<lparr>sd_phase := Looping\<rparr>) s = turn_step ex now s"
      by (simp add: turn_step_def)
    then show ?thesis using Starting es
      by (cases rule: after_executor_cases) (auto intro!: sched_inv_quiet[OF assms])
  next
    case Looping
    then show ?thesis using pass_inv[OF assms Looping] by (simp add: turn_step_def)
  next
    case (Dispatching xs)
    show ?thesis
    proof (cases xs)
      case Nil
      then show ?thesis using es Dispatching
        by (auto intro!: sched_inv_quiet[OF assms] entries_ok_each_entry skip_passed_slot_ok watermark_each_entry
            simp: turn_step_def complete_pass_def skip_passed_slot_keeps)
    next
      case (Cons x rest)
      then show ?thesis using dispatch_next_inv[OF assms, of x rest] Dispatching by (simp add: turn_step_def)
    qed
  next
    case (Taking d)
    then show ?thesis
      by (auto intro!: sched_inv_quiet[OF assms] simp: turn_step_def take_candidate_def es split: list.splits)
  next
    case (Submitting d m)
    then have "submit_candidate ex d m s = turn_step ex now s" by (simp add: turn_step_def)
    then show ?thesis using Submitting es unfolding submit_candidate_def
      by (cases rule: after_executor_cases) (auto intro!: sched_inv_quiet[OF assms])
  next
    case (Waiting d)
    then show ?thesis by (auto intro!: sched_inv_quiet[OF assms] simp: turn_step_def es)
  next
    case (Ended r)
    then show ?thesis using assms by (simp add: turn_step_def)
  qed
qed

fun keeps_task :: "string \<Rightarrow> sched_event \<Rightarrow> bool" where
  "keeps_task i (Refresh applied_at tasks pending) \<longleftrightarrow> (\<exists>t \<in> set tasks. schedulable i t)"
| "keeps_task i _ \<longleftrightarrow> True"

lemma no_empty_id: "entries_ok es \<Longrightarrow> watermark es [] = None"
  by (cases "map_of es []") (auto simp: watermark_def entries_ok_def entry_ok_def simp del: map_of_eq_Some_iff)

lemma sched_step_inv:
  assumes "sched_inv i s" "keeps_task i ev \<or> i = []"
  shows "sched_inv i (sched_step ex s ev)"
proof (cases ev)
  case (Refresh a ts ps)
  have es: "entries_ok (sd_entries s)" using assms(1) by (simp add: sched_inv_def)
  have "watermark (refresh_entries a (sd_entries s) ts) i = watermark (sd_entries s) i"
  proof (cases "i = []")
    case True
    then show ?thesis using no_empty_id es entries_ok_refresh[OF es] by simp
  next
    case False
    with assms(2) have "find (schedulable i) ts \<noteq> None" by (auto simp: Refresh find_None_iff)
    with es show ?thesis by (rule watermark_refresh)
  qed
  with entries_ok_refresh[OF es] show ?thesis
    by (auto intro!: sched_inv_quiet[OF assms(1)] simp: Refresh replace_config_def)
next
  case RequestStop
  then show ?thesis using assms(1) by (intro sched_inv_quiet[OF assms(1)]) (auto simp: sched_inv_def)
next
  case (Turn now)
  then show ?thesis using turn_inv[OF assms(1)] by simp
qed

lemma run_scheduler_inv:
  "sched_inv i s \<Longrightarrow> list_all (keeps_task i) evs \<or> i = [] \<Longrightarrow> sched_inv i (run_scheduler ex s evs)"
  unfolding run_scheduler_def by (induction evs arbitrary: s) (auto intro: sched_step_inv)

lemma new_scheduler_inv: "sched_inv i (new_scheduler w)"
  by (simp add: sched_inv_def new_scheduler_def entries_ok_def slots_ok_def executed_slots_def)

lemma run_entries_ok: "entries_ok (sd_entries (run_scheduler ex (new_scheduler w) evs))"
  using run_scheduler_inv[of "[]" "new_scheduler w" evs ex, OF new_scheduler_inv] by (simp add: sched_inv_def)

section \<open>Properties\<close>

text \<open>
  C21. No slot of a task is ever executed twice: whatever the system clock does (it may jump back), in
  whatever way refreshes, stop requests and the turns of the scheduler thread interleave, and whatever
  the executor returns or throws, the slots executed for a task strictly increase for as long as the
  refreshes keep the task schedulable.
\<close>

theorem slots_execute_once:
  assumes "list_all (keeps_task i) evs"
  shows "sorted_wrt (<) (executed_slots (run_scheduler ex (new_scheduler w) evs) i)"
  using run_scheduler_inv[OF new_scheduler_inv disjI1[OF assms], of ex w]
  by (simp add: sched_inv_def slots_ok_def Let_def sorted_wrt_append)

lemma skipped_slot:
  assumes "\<not> is_due now (skip_old_slot now e)" "en_next_slot (skip_old_slot now e) = Some t"
  shows "now < t"
proof (cases "\<exists>u. en_next_slot e = Some u \<and> utc_minute u < utc_minute now")
  case True
  then have "next_after (en_schedule e) now = Some t" using assms(2) by (auto simp: skip_old_slot_def)
  then show ?thesis by (auto dest: next_after_later)
next
  case False
  then have e: "skip_old_slot now e = e" by (auto simp: skip_old_slot_def split: option.splits)
  with False assms(2) have "utc_minute now \<le> utc_minute t" by auto
  moreover have "\<not> (t \<le> now \<and> utc_minute t = utc_minute now)" using assms unfolding e by (simp add: is_due_def)
  ultimately show ?thesis using utc_minute_mono[of t now] by fastforce
qed

lemma due_after_skip:
  "is_due now (skip_old_slot now e) \<and> en_next_slot (skip_old_slot now e) = Some t \<longleftrightarrow>
   en_next_slot e = Some t \<and> t \<le> now \<and> utc_minute t = utc_minute now"
proof (cases "\<exists>u. en_next_slot e = Some u \<and> utc_minute u < utc_minute now")
  case True
  then have n: "en_next_slot (skip_old_slot now e) = next_after (en_schedule e) now" by (auto simp: skip_old_slot_def)
  have "\<not> is_due now (skip_old_slot now e)"
    using next_after_later[of "en_schedule e" now] n by (auto simp: is_due_def split: option.splits)
  with True show ?thesis by auto
next
  case False
  then have e: "skip_old_slot now e = e" by (auto simp: skip_old_slot_def split: option.splits)
  show ?thesis unfolding e by (auto simp: is_due_def)
qed

lemma due_slots:
  assumes "entries_ok es"
  shows "(\<exists>x \<in> set (due_executions now (each_entry (skip_old_slot now) es)). tc_id (sx_task x) = i \<and> sx_scheduled_for x = t) \<longleftrightarrow>
    (\<exists>e. map_of es i = Some e \<and> en_next_slot e = Some t \<and> t \<le> now \<and> utc_minute t = utc_minute now)" (is "?L \<longleftrightarrow> ?R")
proof -
  let ?es = "each_entry (skip_old_slot now) es"
  have ok: "entries_ok ?es" using assms by (auto intro: entries_ok_each_entry skip_old_slot_ok)
  then have keys: "distinct (map fst ?es)" by (simp add: entries_ok_def)
  have "?L \<longleftrightarrow> (\<exists>e. map_of ?es i = Some e \<and> is_due now e \<and> en_next_slot e = Some t)"
  proof
    assume ?L
    then obtain x where x: "x \<in> set (due_executions now ?es)" "tc_id (sx_task x) = i" "sx_scheduled_for x = t" by blast
    from due_entry[OF ok x(1)] show "\<exists>e. map_of ?es i = Some e \<and> is_due now e \<and> en_next_slot e = Some t"
      unfolding x(2,3) by blast
  next
    assume "\<exists>e. map_of ?es i = Some e \<and> is_due now e \<and> en_next_slot e = Some t"
    then obtain e where e: "map_of ?es i = Some e" "is_due now e" "en_next_slot e = Some t" by blast
    have "tc_id (en_config e) = i" using ok e(1) by (simp add: entries_ok_def entry_ok_def)
    moreover have "\<lparr>sx_task = en_config e, sx_scheduled_for = the (en_next_slot e)\<rparr> \<in> set (due_executions now ?es)"
      unfolding due_executions_set[OF keys] using e by blast
    ultimately show ?L using e(3) by force
  qed
  also have "\<dots> \<longleftrightarrow> ?R" unfolding map_of_each_entry by (cases "map_of es i") (simp_all add: due_after_skip)
  finally show ?thesis .
qed

lemma due_sorted:
  assumes "entries_ok es" "\<forall>x \<in> set (due_executions now es). numeric_task x"
  shows "sorted_wrt due_less (due_executions now es)"
  using assms(2) due_executions_distinct[OF assms(1), of now]
  unfolding due_executions_def set_sort_due distinct_sort_due by (rule sort_due_sorted)

text \<open>After a pass no entry has a slot that is not in the future.\<close>

lemma no_slot_left:
  assumes "entries_ok entries"
    and e: "map_of (mark_dispatched (due_executions now (each_entry (skip_old_slot now) entries)) (each_entry (skip_old_slot now) entries)) i = Some e"
      "en_next_slot e = Some t"
  shows "now < t"
proof -
  let ?es = "each_entry (skip_old_slot now) entries"
  let ?due = "due_executions now ?es"
  have es: "entries_ok ?es" using assms(1) by (auto intro: entries_ok_each_entry skip_old_slot_ok)
  then have keys: "distinct (map fst ?es)" by (simp add: entries_ok_def)
  have dist: "distinct (map (\<lambda>x. tc_id (sx_task x)) ?due)" using es by (rule due_executions_distinct)
  show ?thesis
  proof (cases "find (\<lambda>x. tc_id (sx_task x) = i) ?due")
    case None
    then have m: "map_of ?es i = Some e" using e(1) map_of_mark_dispatched[OF dist, of ?es i] by simp
    have "\<not> is_due now e"
    proof
      assume "is_due now e"
      with m have "\<lparr>sx_task = en_config e, sx_scheduled_for = the (en_next_slot e)\<rparr> \<in> set ?due"
        unfolding due_executions_set[OF keys] by blast
      moreover have "tc_id (en_config e) = i" using es m by (simp add: entries_ok_def entry_ok_def)
      ultimately show False using None by (auto simp: find_None_iff)
    qed
    moreover obtain e0 where "map_of entries i = Some e0" "e = skip_old_slot now e0"
      using m by (auto simp: map_of_each_entry)
    ultimately show ?thesis using e(2) skipped_slot by blast
  next
    case (Some x)
    then have x: "x \<in> set ?due" "tc_id (sx_task x) = i" by (auto simp: find_Some_iff)
    obtain e0 u where e0: "map_of ?es i = Some e0" "is_due now e0" "en_next_slot e0 = Some u" "sx_scheduled_for x = u"
      using due_entry[OF es x(1)] unfolding x(2) by blast
    then have "e = dispatched_entry u e0" using e(1) map_of_mark_dispatched[OF dist, of ?es i] Some by simp
    then have t: "next_after (en_schedule e0) u = Some t" using e(2) by (simp add: dispatched_entry_def)
    have "entry_ok i e0" using es e0(1) by (simp add: entries_ok_def)
    then have u: "u mod one_minute = 0" "u \<le> now" "utc_minute u = utc_minute now"
      using e0(2,3) by (auto simp: entry_ok_def is_due_def)
    from next_after_later[OF t] have v: "u < t" "t mod one_minute = 0" by blast+
    show ?thesis by (rule same_minute_next[OF u(1) v(2) v(1) u(2,3)])
  qed
qed

text \<open>
  C22. A pass of the loop dispatches exactly the tasks whose next slot lies in the current minute and
  is not in the future; a slot of an earlier minute is skipped, never made up for. The tasks go out in
  the order of their slots and then of their numeric identifiers, each once, and no slot up to now
  is left in the table.
\<close>

theorem pass_dispatches_due:
  assumes "s = run_scheduler ex (new_scheduler w) evs" and "sd_phase s = Looping" and "\<not> sd_stop s"
  shows "let s' = turn_step ex now s; due = (case sd_phase s' of Dispatching xs \<Rightarrow> xs | _ \<Rightarrow> []) in
    (\<forall>i t. (\<exists>x \<in> set due. tc_id (sx_task x) = i \<and> sx_scheduled_for x = t) \<longleftrightarrow>
       (\<exists>e. map_of (sd_entries s) i = Some e \<and> en_next_slot e = Some t \<and> t \<le> now \<and> utc_minute t = utc_minute now)) \<and>
    distinct (map (\<lambda>x. tc_id (sx_task x)) due) \<and>
    ((\<forall>x \<in> set due. numeric_task x) \<longrightarrow> sorted_wrt due_less due) \<and>
    (\<forall>i e t. map_of (sd_entries s') i = Some e \<and> en_next_slot e = Some t \<longrightarrow> now < t)"
proof -
  let ?es = "each_entry (skip_old_slot now) (sd_entries s)"
  let ?due = "due_executions now ?es"
  let ?s' = "turn_step ex now s"
  have ok: "entries_ok (sd_entries s)" unfolding assms(1) by (rule run_entries_ok)
  then have es: "entries_ok ?es" by (auto intro: entries_ok_each_entry skip_old_slot_ok)
  have due: "(case sd_phase ?s' of Dispatching xs \<Rightarrow> xs | _ \<Rightarrow> []) = ?due"
    using assms(2,3) by (simp add: turn_step_def pass_def Let_def)
  have entries: "sd_entries ?s' = mark_dispatched ?due ?es"
    using assms(2,3) by (simp add: turn_step_def pass_def Let_def mark_dispatched_def)
  have dist: "distinct (map (\<lambda>x. tc_id (sx_task x)) ?due)" using es by (rule due_executions_distinct)
  have slots: "(\<exists>x \<in> set ?due. tc_id (sx_task x) = i \<and> sx_scheduled_for x = t) \<longleftrightarrow>
       (\<exists>e. map_of (sd_entries s) i = Some e \<and> en_next_slot e = Some t \<and> t \<le> now \<and> utc_minute t = utc_minute now)" for i t
    unfolding due_slots[OF ok] ..
  have later: "\<forall>i e t. map_of (mark_dispatched ?due ?es) i = Some e \<and> en_next_slot e = Some t \<longrightarrow> now < t"
    using no_slot_left[OF ok] by blast
  show ?thesis unfolding Let_def due entries
    by (intro conjI allI slots dist impI later due_sorted[OF es]) (use later in blast)
qed


definition minute_task :: task_config where
  "minute_task = \<lparr>tc_id = ''7'', tc_node_code = ''n'', tc_data_source_id = ''3'', tc_name = [], tc_task_type = ''local_file_import'',
     tc_schedule_expr = ''* * * * *'', tc_parser_type = ''csv_observation'', tc_qc_profile = [], tc_enabled = True,
     tc_data_source = \<lparr>ds_id = ''3'', ds_node_code = ''n'', ds_type = LocalDirectory, ds_name = [], ds_config_json = ''{}''\<rparr>,
     tc_qc_rules = []\<rparr>"

definition idle_executor :: "unit executor" where
  "idle_executor = \<lparr>xr_recover = ret (), xr_execute = (\<lambda>_. ret ()), xr_execute_pending = (\<lambda>_. ret Dispatched)\<rparr>"

text \<open>A clock that goes back by half a minute between two passes.\<close>

definition example_run :: "sched_event list" where
  "example_run = [Refresh 0 [minute_task] [], Turn 0, Turn 60000000000, Turn 60000000000, Turn 61000000000,
     Refresh 62000000000 [minute_task] [], Turn 30000000000, Turn 30000000000, Turn 0, Turn 120000000000, Turn 120000000000]"

definition every_minute :: cron_schedule where
  "every_minute = map (\<lambda>i. \<lparr>cf_minimum = kMinimums ! i, cf_maximum = kMaximums ! i,
     cf_accepted = mark_steps (replicate 60 False) (kMinimums ! i) (kMaximums ! i) 1\<rparr>) [0..<5]"

lemma parse_every_minute: "parse_cron ''* * * * *'' = Inr every_minute"
  by (simp add: parse_cron_def Let_def parse_field_def isspace_def char_code_def every_minute_def kMinimums_def kMaximums_def
      upt_rec)

lemma next_every_minute: "next_after every_minute t = Some (next_minute t)"
proof -
  have ok: "schedule_ok every_minute" using parse_every_minute by (rule parse_cron_schedule_ok)
  have "accepts (every_minute ! i) v" if "i < 5" "kMinimums ! i \<le> v" "v \<le> kMaximums ! i" for i v
    using that field_bounds[OF that(1)]
    by (auto simp: every_minute_def accepts_def mark_steps_nth)
  then have "cron_matches every_minute t" for t
    using cron_matches_iff[OF ok] time_parts_bounds by blast
  then show ?thesis unfolding next_after_def by (subst search_minutes.simps) simp
qed

lemmas scheduler_run = run_scheduler_def example_run_def new_scheduler_def minute_task_def idle_executor_def
  replace_config_def refresh_entries_def refresh_task_def refreshed_entry_def schedule_base_def parse_every_minute
  next_every_minute turn_step_def pass_def after_executor_def dispatch_next_def complete_pass_def take_candidate_def
  each_entry_def set_entry_def skip_old_slot_def is_due_def due_executions_def sort_due_def mark_dispatched_def
  dispatched_entry_def skip_passed_slot_def still_configured_def same_execution_config_def utc_minute_def one_minute_eq
  next_minute_nonneg quot_def Let_def ret_def executed_slots_def earliest_slot_def wait_delay_def

lemma example_run_executes:
  "executed_slots (run_scheduler idle_executor (new_scheduler ()) example_run) ''7'' = [60000000000, 120000000000]"
  by (simp add: scheduler_run)

theorem slots_execute_once_witness:
  "sorted_wrt (<) (executed_slots (run_scheduler idle_executor (new_scheduler ()) example_run) ''7'') \<and>
   executed_slots (run_scheduler idle_executor (new_scheduler ()) example_run) ''7'' = [60000000000, 120000000000]"
proof (rule conjI[OF _ example_run_executes])
  show "sorted_wrt (<) (executed_slots (run_scheduler idle_executor (new_scheduler ()) example_run) ''7'')"
    by (rule slots_execute_once) (simp add: example_run_def minute_task_def schedulable_def parse_every_minute)
qed

text \<open>A pass at the second minute of the example.\<close>

theorem pass_dispatches_due_witness:
  "\<exists>s s' :: unit scheduler. s' = turn_step idle_executor 60000000000 s \<and> sd_phase s = Looping \<and>
    (\<exists>x \<in> set (case sd_phase s' of Dispatching xs \<Rightarrow> xs | _ \<Rightarrow> []). tc_id (sx_task x) = ''7'' \<and> sx_scheduled_for x = 60000000000)"
proof -
  let ?evs = "[Refresh 0 [minute_task] [], Turn 0]"
  let ?s = "run_scheduler idle_executor (new_scheduler ()) ?evs"
  have s: "sd_phase ?s = Looping" "\<not> sd_stop ?s"
    "\<exists>e. map_of (sd_entries ?s) ''7'' = Some e \<and> en_next_slot e = Some 60000000000"
    by (simp_all add: scheduler_run)
  then have due: "\<exists>e. map_of (sd_entries ?s) ''7'' = Some e \<and> en_next_slot e = Some 60000000000 \<and>
      (60000000000::int) \<le> 60000000000 \<and> utc_minute 60000000000 = utc_minute 60000000000" by simp
  show ?thesis
    using pass_dispatches_due[OF refl s(1,2), of 60000000000] due s(1) unfolding Let_def by blast
qed

text \<open>
  A refresh keeps what must survive it. A task that is enabled, named and has a valid schedule is in
  the table afterwards with its new configuration and the last slot dispatched before; if nothing the
  execution depends on changed, its next slot stays, otherwise the next slot lies after the refresh and
  after that last slot. Every other task is gone.
\<close>

lemma refresh_keeps_watermarks:
  assumes "entries_ok old"
  shows "(map_of (refresh_entries applied_at old tasks) i = None \<longleftrightarrow> (\<forall>t \<in> set tasks. \<not> schedulable i t)) \<and>
    (\<forall>e t. map_of (refresh_entries applied_at old tasks) i = Some e \<and> find (schedulable i) tasks = Some t \<longrightarrow>
      en_config e = t \<and> en_last_dispatched e = watermark old i \<and>
      (if \<exists>e0. map_of old i = Some e0 \<and> same_execution_config (en_config e0) t
       then en_next_slot e = en_next_slot (the (map_of old i))
       else \<forall>u. en_next_slot e = Some u \<longrightarrow> applied_at < u \<and> (\<forall>l. watermark old i = Some l \<longrightarrow> l < u)))"
proof (intro conjI allI impI)
  show "map_of (refresh_entries applied_at old tasks) i = None \<longleftrightarrow> (\<forall>t \<in> set tasks. \<not> schedulable i t)"
    by (auto simp: refresh_entries_map find_None_iff)
next
  fix e t
  assume "map_of (refresh_entries applied_at old tasks) i = Some e \<and> find (schedulable i) tasks = Some t"
  then have e: "e = refreshed applied_at old t" and t: "schedulable i t"
    by (auto simp: refresh_entries_map dest: find_schedulable)
  have id: "tc_id t = i" using t by (simp add: schedulable_def)
  show "en_config e = t" by (auto simp: e refreshed_def refreshed_entry_def Let_def split: option.splits)
  show "en_last_dispatched e = watermark old i" unfolding e using assms t by (rule refreshed_ok(2))
  show "if \<exists>e0. map_of old i = Some e0 \<and> same_execution_config (en_config e0) t
       then en_next_slot e = en_next_slot (the (map_of old i))
       else \<forall>u. en_next_slot e = Some u \<longrightarrow> applied_at < u \<and> (\<forall>l. watermark old i = Some l \<longrightarrow> l < u)"
  proof (cases "\<exists>e0. map_of old i = Some e0 \<and> same_execution_config (en_config e0) t")
    case True
    then show ?thesis by (auto simp: e refreshed_def refreshed_entry_def id Let_def)
  next
    case False
    then have n: "en_next_slot e = next_after (projr (parse_cron (tc_schedule_expr t))) (schedule_base (watermark old i) applied_at)"
      by (auto simp: e refreshed_def refreshed_entry_def id Let_def watermark_def split: option.splits)
    have base: "applied_at \<le> schedule_base w applied_at \<and> (\<forall>l. w = Some l \<longrightarrow> l \<le> schedule_base w applied_at)" for w
      by (auto simp: schedule_base_def split: option.splits)
    have "applied_at < u \<and> (\<forall>l. watermark old i = Some l \<longrightarrow> l < u)" if "en_next_slot e = Some u" for u
      using next_after_later[of _ _ u] that base[of "watermark old i"] unfolding n by fastforce
    with False show ?thesis by auto
  qed
qed

lemma refresh_keeps_watermarks_example:
  "\<exists>old e. watermark old ''7'' = Some 60000000000 \<and> entries_ok old \<and>
     map_of (refresh_entries 30000000000 old [minute_task\<lparr>tc_node_code := ''m''\<rparr>]) ''7'' = Some e \<and>
     en_last_dispatched e = Some 60000000000 \<and> en_next_slot e = Some 120000000000"
proof -
  let ?s = "run_scheduler idle_executor (new_scheduler ()) (take 3 example_run)"
  let ?t = "minute_task\<lparr>tc_node_code := ''m''\<rparr>"
  have ok: "entries_ok (sd_entries ?s)" by (rule run_entries_ok)
  have w: "watermark (sd_entries ?s) ''7'' = Some 60000000000" by (simp add: watermark_def scheduler_run)
  have "schedulable ''7'' ?t" by (simp add: schedulable_def minute_task_def parse_every_minute)
  then have f: "find (schedulable ''7'') [?t] = Some ?t" by simp
  obtain e where e: "map_of (refresh_entries 30000000000 (sd_entries ?s) [?t]) ''7'' = Some e"
    "en_next_slot e = Some 120000000000" by (simp add: scheduler_run)
  have "en_last_dispatched e = Some 60000000000"
    using refresh_keeps_watermarks[OF ok, of 30000000000 "[?t]" "''7''"] e(1) f w by simp
  with ok w e show ?thesis by blast
qed

end
