(* ===== verification/Job_Isolation.thy ===== *)
theory Job_Isolation
  imports Delivery
begin

text \<open>
  What an operation on one job does to the rest of the queue: nothing. \<open>edits key\<close> says how far the
  operations of a job's stages go, \<open>others key\<close> is the part of the database that belongs to other jobs,
  and \<open>counted\<close> that a job only waits for a retry whose failed attempt was counted. A second invariant
  of the store, proved through the same locale as the first, says that a stored request reads back with
  the idempotency key it is stored under.
\<close>

section \<open>Rows of other jobs\<close>

definition others :: "string \<Rightarrow> queue_db \<Rightarrow> job_row list \<times> file_row list \<times> delivery_row list \<times> attempt_row list" where
  "others key db =
     (filter (\<lambda>j. jb_execution_key j \<noteq> key) (q_jobs db), filter (\<lambda>f. fl_execution_key f \<noteq> key) (q_files db),
      filter (\<lambda>d. dl_execution_key d \<noteq> key) (q_deliveries db), filter (\<lambda>a. at_execution_key a \<noteq> key) (q_attempts db))"

fun stage_of :: "request_type \<Rightarrow> job_stage" where
  "stage_of StartRequest = StartPending"
| "stage_of ManifestRequest = ManifestPending"
| "stage_of ReportRequest = ReportPending"

definition counted_at :: "string \<Rightarrow> queue_db \<Rightarrow> bool" where
  "counted_at key db \<longleftrightarrow> (\<forall>j \<in> set (q_jobs db). jb_execution_key j = key \<and> jb_stage j = RetryWait \<longrightarrow>
     (\<exists>d \<in> set (q_deliveries db). dl_execution_key d = key \<and> 0 < dl_attempt_count d \<and>
        jb_retry_stage j = Some (stage_of (dl_request_type d))))"

definition counted :: "queue_db \<Rightarrow> bool" where
  "counted db \<longleftrightarrow> (\<forall>key. counted_at key db)"

lemma counted_at_others:
  assumes "others key db' = others key db" "k \<noteq> key"
  shows "counted_at k db' \<longleftrightarrow> counted_at k db"
proof -
  have sub: "{j \<in> set (q_jobs x). jb_execution_key j = k} = {j \<in> set (fst (others key x)). jb_execution_key j = k}"
    "{d \<in> set (q_deliveries x). dl_execution_key d = k} = {d \<in> set (fst (snd (snd (others key x)))). dl_execution_key d = k}" for x
    using assms(2) by (auto simp: others_def)
  have c: "counted_at k x \<longleftrightarrow> (\<forall>j \<in> {j \<in> set (fst (others key x)). jb_execution_key j = k}. jb_stage j = RetryWait \<longrightarrow>
     (\<exists>d \<in> {d \<in> set (fst (snd (snd (others key x)))). dl_execution_key d = k}. 0 < dl_attempt_count d \<and>
        jb_retry_stage j = Some (stage_of (dl_request_type d))))" for x
    unfolding sub[symmetric] counted_at_def by blast
  show ?thesis unfolding c assms(1) ..
qed

lemma counted_others:
  "counted db \<Longrightarrow> others key db' = others key db \<Longrightarrow> counted_at key db' \<Longrightarrow> counted db'"
  unfolding counted_def using counted_at_others by metis

section \<open>Edits of one job\<close>

definition edits :: "string \<Rightarrow> queue_db \<Rightarrow> queue_db \<Rightarrow> bool" where
  "edits key db db' \<longleftrightarrow>
     (\<exists>f. q_jobs db' = map (\<lambda>j. if jb_execution_key j = key then f j else j) (q_jobs db) \<and>
        (\<forall>j. jb_execution_key (f j) = jb_execution_key j \<and>
           (jb_stage (f j) = RetryWait \<longrightarrow> jb_stage j = RetryWait \<and> jb_retry_stage (f j) = jb_retry_stage j))) \<and>
     filter (\<lambda>f. fl_execution_key f \<noteq> key) (q_files db') = filter (\<lambda>f. fl_execution_key f \<noteq> key) (q_files db) \<and>
     (\<exists>new. q_deliveries db' = q_deliveries db @ new \<and> (\<forall>d \<in> set new. dl_execution_key d = key)) \<and>
     q_attempts db' = q_attempts db"

lemma edits_refl: "edits key db db"
  unfolding edits_def by (intro conjI exI[of _ "\<lambda>j. j"] exI[of _ "[]"]) simp_all

lemma edits_jobs:
  assumes "q_jobs db' = update_where (\<lambda>j. jb_execution_key j = key \<and> p j) f (q_jobs db)"
    and "\<And>j. jb_execution_key (f j) = jb_execution_key j"
    and "\<And>j. jb_stage (f j) = RetryWait \<Longrightarrow> jb_stage j = RetryWait \<and> jb_retry_stage (f j) = jb_retry_stage j"
  shows "\<exists>f. q_jobs db' = map (\<lambda>j. if jb_execution_key j = key then f j else j) (q_jobs db) \<and>
        (\<forall>j. jb_execution_key (f j) = jb_execution_key j \<and>
           (jb_stage (f j) = RetryWait \<longrightarrow> jb_stage j = RetryWait \<and> jb_retry_stage (f j) = jb_retry_stage j))"
  using assms by (intro exI[of _ "\<lambda>j. if p j then f j else j"]) (auto simp: update_where_def)

lemma editsI:
  assumes "q_jobs db' = map (\<lambda>j. if jb_execution_key j = key then f j else j) (q_jobs db)"
    and "\<forall>j. jb_execution_key (f j) = jb_execution_key j \<and>
      (jb_stage (f j) = RetryWait \<longrightarrow> jb_stage j = RetryWait \<and> jb_retry_stage (f j) = jb_retry_stage j)"
    and "q_files db' = q_files db" "q_deliveries db' = q_deliveries db" "q_attempts db' = q_attempts db"
  shows "edits key db db'"
  unfolding edits_def using assms by (intro conjI exI[of _ f] exI[of _ "[]"]) simp_all

lemma edits_jobsE:
  assumes "edits key db db'"
  obtains f where "q_jobs db' = map (\<lambda>j. if jb_execution_key j = key then f j else j) (q_jobs db)"
    and "\<forall>j. jb_execution_key (f j) = jb_execution_key j"
    and "\<forall>j. jb_stage (f j) = RetryWait \<longrightarrow> jb_stage j = RetryWait \<and> jb_retry_stage (f j) = jb_retry_stage j"
  using assms unfolding edits_def by blast

lemma edits_keys:
  assumes "edits key db db'"
  shows "job_keys db' = job_keys db"
proof -
  from assms obtain f where f: "q_jobs db' = map (\<lambda>j. if jb_execution_key j = key then f j else j) (q_jobs db)"
    "\<forall>j. jb_execution_key (f j) = jb_execution_key j" by (rule edits_jobsE)
  have "map jb_execution_key (q_jobs db') = map jb_execution_key (q_jobs db)" using f(2) by (simp add: f(1))
  then show ?thesis unfolding job_keys_def by (metis list.set_map)
qed

lemma filter_map_other:
  "(\<forall>j. jb_execution_key (f j) = jb_execution_key j) \<Longrightarrow>
   filter (\<lambda>j. jb_execution_key j \<noteq> key) (map (\<lambda>j. if jb_execution_key j = key then f j else j) js) =
   filter (\<lambda>j. jb_execution_key j \<noteq> key) js"
  by (induction js) auto

lemma edits_others:
  assumes "edits key db db'"
  shows "others key db' = others key db"
proof -
  from assms obtain f where f: "q_jobs db' = map (\<lambda>j. if jb_execution_key j = key then f j else j) (q_jobs db)"
    "\<forall>j. jb_execution_key (f j) = jb_execution_key j" by (rule edits_jobsE)
  have "filter (\<lambda>j. jb_execution_key j \<noteq> key) (q_jobs db') = filter (\<lambda>j. jb_execution_key j \<noteq> key) (q_jobs db)"
    unfolding f(1) using f(2) by (rule filter_map_other)
  then show ?thesis using assms by (auto simp: edits_def others_def filter_empty_conv)
qed

lemma edits_counted:
  assumes "edits key db db'" "counted db"
  shows "counted db'"
proof (rule counted_others[OF assms(2) edits_others[OF assms(1)]])
  from assms(1) obtain f where f: "q_jobs db' = map (\<lambda>j. if jb_execution_key j = key then f j else j) (q_jobs db)"
    "\<forall>j. jb_execution_key (f j) = jb_execution_key j"
    "\<forall>j. jb_stage (f j) = RetryWait \<longrightarrow> jb_stage j = RetryWait \<and> jb_retry_stage (f j) = jb_retry_stage j" by (rule edits_jobsE)
  have d: "set (q_deliveries db) \<subseteq> set (q_deliveries db')" using assms(1) by (auto simp: edits_def)
  have old: "counted_at key db" using assms(2) by (simp add: counted_def)
  show "counted_at key db'" unfolding counted_at_def
  proof (intro ballI impI)
    fix j' assume "j' \<in> set (q_jobs db')" and w: "jb_execution_key j' = key \<and> jb_stage j' = RetryWait"
    then obtain j where j: "j \<in> set (q_jobs db)" "jb_execution_key j = key" "j' = f j" using f(1,2) by auto
    have "jb_stage j = RetryWait" "jb_retry_stage j' = jb_retry_stage j" using f(3) w j(3) by auto
    with old j(1,2) d show "\<exists>d \<in> set (q_deliveries db'). dl_execution_key d = key \<and> 0 < dl_attempt_count d \<and>
        jb_retry_stage j' = Some (stage_of (dl_request_type d))" unfolding counted_at_def by fastforce
  qed
qed

text \<open>The operations of a job's stages that edit it.\<close>

lemma filter_update_other:
  "(\<And>f. fl_execution_key (g f) = fl_execution_key f) \<Longrightarrow>
   filter (\<lambda>f. fl_execution_key f \<noteq> key) (update_where (\<lambda>f. fl_execution_key f = key \<and> p f) g fs) =
   filter (\<lambda>f. fl_execution_key f \<noteq> key) fs"
  by (induction fs) (auto simp: update_where_def)

lemma update_files_edits:
  assumes "update_files (\<lambda>f. fl_execution_key f = key \<and> p f) g db = (Inr n, db')"
    and "\<And>f. fl_execution_key (g f) = fl_execution_key f"
  shows "q_jobs db' = q_jobs db \<and> q_deliveries db' = q_deliveries db \<and> q_attempts db' = q_attempts db \<and>
    filter (\<lambda>f. fl_execution_key f \<noteq> key) (q_files db') = filter (\<lambda>f. fl_execution_key f \<noteq> key) (q_files db)"
  using assms by (auto simp: update_files_def filter_update_other)

text \<open>\<open>same_other\<close>: only files of the job change.\<close>

definition files_only :: "string \<Rightarrow> queue_db \<Rightarrow> queue_db \<Rightarrow> bool" where
  "files_only key db db' \<longleftrightarrow> q_jobs db' = q_jobs db \<and> q_deliveries db' = q_deliveries db \<and> q_attempts db' = q_attempts db \<and>
    filter (\<lambda>f. fl_execution_key f \<noteq> key) (q_files db') = filter (\<lambda>f. fl_execution_key f \<noteq> key) (q_files db)"

lemma files_only_refl: "files_only key db db"
  by (simp add: files_only_def)

lemma files_only_trans: "files_only key a b \<Longrightarrow> files_only key b c \<Longrightarrow> files_only key a c"
  by (simp add: files_only_def)

lemma files_only_for_each:
  assumes "for_each f xs db = (Inr u, db')" and "\<And>x s t. x \<in> set xs \<Longrightarrow> f x s = (Inr (), t) \<Longrightarrow> files_only key s t"
  shows "files_only key db db'"
  using assms(1) by (rule for_each_keeps[where P = "files_only key db"])
    (use assms(2) in \<open>auto intro: files_only_refl files_only_trans\<close>)

lemma insert_pending_file_only: "insert_pending_file key f s = (Inr (), t) \<Longrightarrow> files_only key s t"
  by (auto simp: insert_pending_file_def insert_file_row_def new_file_row_def files_only_def split: if_splits)

lemma update_files_only:
  "update_files (\<lambda>f. fl_execution_key f = key \<and> p f) g db = (Inr n, db') \<Longrightarrow>
   (\<And>f. fl_execution_key (g f) = fl_execution_key f) \<Longrightarrow> files_only key db db'"
  unfolding files_only_def by (rule update_files_edits)

lemma map_raw_file_id_only: "map_raw_file_id key item s = (Inr (), t) \<Longrightarrow> files_only key s t"
  by (auto simp: map_raw_file_id_def seqp_Inr dest!: update_files_only)

lemma save_parsed_outcome_only: "save_parsed_outcome key item s = (Inr (), t) \<Longrightarrow> files_only key s t"
  by (auto simp: save_parsed_outcome_def seqp_Inr dest!: update_files_only)

lemma files_then_jobs:
  assumes "files_only key db db1" and "update_jobs (\<lambda>j. jb_execution_key j = key \<and> p j) f db1 = (Inr n, db')"
    and "\<And>j. jb_execution_key (f j) = jb_execution_key j"
    and "\<And>j. jb_stage (f j) = RetryWait \<Longrightarrow> jb_stage j = RetryWait \<and> jb_retry_stage (f j) = jb_retry_stage j"
  shows "edits key db db'"
proof -
  have db': "db' = db1\<lparr>q_jobs := update_where (\<lambda>j. jb_execution_key j = key \<and> p j) f (q_jobs db1)\<rparr>"
    using assms(2) by (simp add: update_jobs_def)
  have "q_jobs db' = update_where (\<lambda>j. jb_execution_key j = key \<and> p j) f (q_jobs db)"
    using assms(1) by (simp add: db' files_only_def)
  from edits_jobs[OF this assms(3,4)] show ?thesis
    using assms(1) unfolding edits_def by (auto simp: db' files_only_def)
qed

lemma insert_then_jobs:
  assumes "insert_delivery_row op row db = (Inr u, db1)" and "dl_execution_key row = key"
    and "files_only key db1 db2" and "update_jobs (\<lambda>j. jb_execution_key j = key \<and> p j) f db2 = (Inr n, db')"
    and "\<And>j. jb_execution_key (f j) = jb_execution_key j"
    and "\<And>j. jb_stage (f j) = RetryWait \<Longrightarrow> jb_stage j = RetryWait \<and> jb_retry_stage (f j) = jb_retry_stage j"
  shows "edits key db db'"
proof -
  have db': "db' = db2\<lparr>q_jobs := update_where (\<lambda>j. jb_execution_key j = key \<and> p j) f (q_jobs db2)\<rparr>"
    using assms(4) by (simp add: update_jobs_def)
  have db1: "db1 = db\<lparr>q_deliveries := q_deliveries db @ [row]\<rparr>" using insert_delivery_row_Inr[OF assms(1)] by simp
  have "q_jobs db' = update_where (\<lambda>j. jb_execution_key j = key \<and> p j) f (q_jobs db)"
    using assms(3) by (simp add: db' files_only_def db1)
  from edits_jobs[OF this assms(5,6)] show ?thesis
    using assms(2,3) unfolding edits_def by (auto simp: db' files_only_def db1)
qed


lemma edits_set_file_failures:
  assumes "files_only key db db1" "set_file_failures key failures now db1 = (Inr n, db')"
  shows "edits key db db'"
proof -
  have "update_jobs (\<lambda>j. jb_execution_key j = key \<and> True)
       (\<lambda>j. j\<lparr>jb_file_failures := Some (encode_file_failures failures), jb_updated_at := now\<rparr>) db1 = (Inr n, db')"
    using assms(2) by (simp add: set_file_failures_def)
  with assms(1) show ?thesis by (rule files_then_jobs) simp_all
qed

text \<open>\<open>stage_op key\<close>: the operations that work on one job and keep it in the queue.\<close>

fun stage_op :: "string \<Rightarrow> queue_op \<Rightarrow> bool" where
  "stage_op key (SaveFilePlan k files failures) \<longleftrightarrow> k = key"
| "stage_op key (SaveFileFailures k failures) \<longleftrightarrow> k = key"
| "stage_op key (MarkFileFailed k i detail failures) \<longleftrightarrow> k = key"
| "stage_op key (MarkFileArchived k i) \<longleftrightarrow> k = key"
| "stage_op key (AcceptStart k run) \<longleftrightarrow> k = key"
| "stage_op key (SaveManifest k request) \<longleftrightarrow> k = key"
| "stage_op key (AcceptManifest k ids) \<longleftrightarrow> k = key"
| "stage_op key (SaveReport k request outcomes) \<longleftrightarrow> k = key"
| "stage_op key (MarkRequiresAttention k kind reason) \<longleftrightarrow> k = key"
| "stage_op key _ \<longleftrightarrow> False"

lemma stage_op_edits:
  assumes ok: "queue_ok cfg db" and op: "stage_op key op" and step: "run_op cfg now op db = (r, db')"
  shows "edits key db db'"
proof (cases r)
  case (Inl e)
  with step run_op_Inl[of db cfg now op e db'] ok have "db' = db" by (simp add: queue_ok_def keys_ok_def)
  then show ?thesis by (simp add: edits_refl)
next
  case (Inr u)
  show ?thesis
  proof (cases op)
    case (SaveFilePlan k files failures)
    with step Inr op obtain db1 n where loop: "for_each (insert_pending_file key) files db = (Inr (), db1)"
      and set: "set_file_failures key failures now db1 = (Inr n, db')"
      by (auto simp: save_file_plan_def transaction_Inr seqp_Inr)
    have "files_only key db db1" using loop by (rule files_only_for_each) (rule insert_pending_file_only)
    then show ?thesis using set by (rule edits_set_file_failures)
  next
    case (SaveFileFailures k failures)
    with step Inr op obtain n where "set_file_failures key failures now db = (Inr n, db')"
      by (auto simp: save_file_failures_def transaction_Inr seqp_Inr)
    then show ?thesis by (rule edits_set_file_failures[OF files_only_refl])
  next
    case (MarkFileFailed k i detail failures)
    with step Inr op obtain db1 m n where upd: "update_files (\<lambda>f. fl_execution_key f = key \<and> fl_ordinal f = i)
         (\<lambda>f. f\<lparr>fl_error_detail := Some detail\<rparr>) db = (Inr m, db1)"
      and set: "set_file_failures key failures now db1 = (Inr n, db')"
      by (auto simp: mark_file_failed_def transaction_Inr seqp_Inr)
    have "files_only key db db1" using upd by (rule update_files_only) simp
    then show ?thesis using set by (rule edits_set_file_failures)
  next
    case (MarkFileArchived k i)
    with step Inr op obtain m where upd: "update_files (\<lambda>f. fl_execution_key f = key \<and> fl_ordinal f = i)
         (\<lambda>f. f\<lparr>fl_archive_state := ''archived''\<rparr>) db = (Inr m, db')"
      by (auto simp: mark_file_archived_def seqp_Inr)
    then have "files_only key db db'" by (rule update_files_only) simp
    then show ?thesis using edits_refl[of key db] unfolding edits_def files_only_def by simp
  next
    case (AcceptStart k run)
    with step Inr op obtain n where "update_jobs (\<lambda>j. jb_execution_key j = key \<and> jb_stage j = StartPending)
         (\<lambda>j. j\<lparr>jb_task_run_id := Some run, jb_stage := Collecting, jb_updated_at := now\<rparr>) db = (Inr n, db')"
      by (auto simp: accept_start_def transaction_Inr seqp_Inr)
    then show ?thesis by (rule files_then_jobs[OF files_only_refl]) simp_all
  next
    case (SaveManifest k request)
    with step Inr op have "save_manifest now key request db = (Inr (), db')" by simp
    then show ?thesis
      by (rule save_manifest_Inr) (rule insert_then_jobs[OF _ _ files_only_refl], assumption, simp, assumption, simp_all)
  next
    case (AcceptManifest k ids)
    with step Inr op have "accept_manifest now key ids db = (Inr (), db')" by simp
    then show ?thesis
    proof (rule accept_manifest_Inr)
      fix d manifest db1 n
      assume loop: "for_each (map_raw_file_id key) (zip ids (mr_files manifest)) db = (Inr (), db1)"
        and upd: "update_jobs (\<lambda>j. jb_execution_key j = key \<and> jb_stage j = ManifestPending)
           (\<lambda>j. j\<lparr>jb_stage := ReportBuilding, jb_updated_at := now\<rparr>) db1 = (Inr n, db')"
      have "files_only key db db1" using loop by (rule files_only_for_each) (rule map_raw_file_id_only)
      then show ?thesis using upd by (rule files_then_jobs) simp_all
    qed
  next
    case (SaveReport k request outcomes)
    with step Inr op have "save_report now key request outcomes db = (Inr (), db')" by simp
    then show ?thesis
    proof (rule save_report_Inr)
      fix doc db1 db2 n
      assume ins: "insert_delivery_row ''save report'' (new_delivery key ReportRequest (rr_idempotency_key request) doc now) db = (Inr (), db1)"
        and loop: "for_each (save_parsed_outcome key) (zip [0..<length outcomes] outcomes) db1 = (Inr (), db2)"
        and upd: "update_jobs (\<lambda>j. jb_execution_key j = key \<and> (jb_stage j = Collecting \<or> jb_stage j = ReportBuilding))
           (\<lambda>j. j\<lparr>jb_stage := ReportPending, jb_updated_at := now\<rparr>) db2 = (Inr n, db')"
      have "files_only key db1 db2" using loop by (rule files_only_for_each) (rule save_parsed_outcome_only)
      from insert_then_jobs[OF ins _ this upd] show ?thesis by simp
    qed
  next
    case (MarkRequiresAttention k kind reason)
    with step Inr op have "mark_requires_attention now key kind reason db = (Inr (), db')" by simp
    then show ?thesis
    proof (rule mark_requires_attention_Inr)
      fix resume n
      assume "update_jobs (\<lambda>j. jb_execution_key j = key)
           (\<lambda>j. j\<lparr>jb_stage := RequiresAttention, jb_retry_stage := Some resume,
                  jb_last_error_kind := Some kind, jb_last_error := Some (take 512 reason),
                  jb_updated_at := now\<rparr>) db = (Inr n, db')"
      then have "update_jobs (\<lambda>j. jb_execution_key j = key \<and> True)
           (\<lambda>j. j\<lparr>jb_stage := RequiresAttention, jb_retry_stage := Some resume,
                  jb_last_error_kind := Some kind, jb_last_error := Some (take 512 reason),
                  jb_updated_at := now\<rparr>) db = (Inr n, db')" by simp
      then show ?thesis by (rule files_then_jobs[OF files_only_refl]) simp_all
    qed
  qed (use op in simp_all)
qed

section \<open>Recording a failure and resuming\<close>

lemma record_failure_effect:
  assumes ok: "queue_ok cfg db" and d: "find_delivery ty ikey db = Some d" "dl_execution_key d = key"
    and step: "record_delivery_failure now ty ikey retryable kind http message delay db = (Inr u, db')"
  shows "others key db' = others key db" "job_keys db' = job_keys db"
    "q_jobs db' = update_where (\<lambda>j. jb_execution_key j = key \<and> is_delivering_stage (jb_stage j))
        (failed_job now delay retryable kind message) (q_jobs db)"
    "q_deliveries db' = update_where (\<lambda>d. delivery_identity d = (ty, ikey)) (failed_delivery now delay kind http message) (q_deliveries db)"
proof -
  let ?f = "failed_delivery now delay kind http message"
  let ?p = "\<lambda>d. delivery_identity d = (ty, ikey)"
  have dist: "distinct (map delivery_identity (q_deliveries db))" using ok by (simp add: queue_ok_def keys_ok_def)
  from step obtain db1 db2 d1 n where
    r: "update_deliveries ?p ?f db = (Inr 1, db1)" "find_delivery ty ikey db1 = Some d1"
      "update_jobs (\<lambda>j. jb_execution_key j = dl_execution_key d1 \<and> is_delivering_stage (jb_stage j))
          (failed_job now delay retryable kind message) db1 = (Inr n, db2)"
      "db' = db2\<lparr>q_attempts := q_attempts db2 @ [failed_attempt now retryable kind http message d1]\<rparr>"
    by (rule record_delivery_failure_Inr)
  have db1: "db1 = db\<lparr>q_deliveries := update_where ?p ?f (q_deliveries db)\<rparr>" using r(1) by (simp add: update_deliveries_def)
  have "find ?p (update_where ?p ?f (q_deliveries db)) = map_option ?f (find ?p (q_deliveries db))"
    by (rule find_update_identity) simp
  then have d1: "d1 = ?f d" using r(2) d(1) by (simp add: find_delivery_identity db1)
  then have k: "dl_execution_key d1 = key" using d(2) by simp
  have db': "db' = db\<lparr>q_jobs := update_where (\<lambda>j. jb_execution_key j = key \<and> is_delivering_stage (jb_stage j))
        (failed_job now delay retryable kind message) (q_jobs db),
      q_deliveries := update_where ?p ?f (q_deliveries db),
      q_attempts := q_attempts db @ [failed_attempt now retryable kind http message d1]\<rparr>"
    using r(3,4) by (auto simp: update_jobs_def db1 k)
  show "q_jobs db' = update_where (\<lambda>j. jb_execution_key j = key \<and> is_delivering_stage (jb_stage j))
        (failed_job now delay retryable kind message) (q_jobs db)"
    and "q_deliveries db' = update_where ?p ?f (q_deliveries db)" by (simp_all add: db')
  show "job_keys db' = job_keys db" by (simp add: job_keys_def db' image_update_where)
  have own: "dl_execution_key e = key" if "e \<in> set (q_deliveries db)" "?p e" for e
    using inj_key_eq[OF dist that(1), of d] that(2) d find_delivery_Some[OF d(1)] by (auto simp: delivery_identity_def)
  have "filter (\<lambda>d. dl_execution_key d \<noteq> key) (update_where ?p ?f ds) = filter (\<lambda>d. dl_execution_key d \<noteq> key) ds"
    if "\<forall>e \<in> set ds. ?p e \<longrightarrow> dl_execution_key e = key" for ds
    using that by (induction ds) (auto simp: update_where_def)
  then have del: "filter (\<lambda>d. dl_execution_key d \<noteq> key) (update_where ?p ?f (q_deliveries db)) =
      filter (\<lambda>d. dl_execution_key d \<noteq> key) (q_deliveries db)" using own by blast
  have "filter (\<lambda>j. jb_execution_key j \<noteq> key) (update_where (\<lambda>j. jb_execution_key j = key \<and> is_delivering_stage (jb_stage j))
        (failed_job now delay retryable kind message) js) = filter (\<lambda>j. jb_execution_key j \<noteq> key) js" for js
    by (induction js) (auto simp: update_where_def)
  then show "others key db' = others key db" using del k by (simp add: others_def db' failed_attempt_def)
qed

lemma record_failure_counted:
  assumes ok: "queue_ok cfg db" and c: "counted db" and d: "find_delivery ty ikey db = Some d" "dl_execution_key d = key"
    and j: "find_job_row key db = Some j" "effective_stage j = Some (stage_of ty)"
    and step: "record_delivery_failure now ty ikey retryable kind http message delay db = (Inr u, db')"
  shows "counted db'"
proof (rule counted_others[OF c record_failure_effect(1)[OF ok d step]])
  have dist: "distinct (map jb_execution_key (q_jobs db))" using ok by (rule queue_ok_keys)
  have only: "x = j" if "x \<in> set (q_jobs db)" "jb_execution_key x = key" for x
    using inj_key_eq[OF dist that(1), of j] find_job_row_Some[OF j(1)] that(2) by simp
  let ?d = "failed_delivery now delay kind http message d"
  have "d \<in> set (q_deliveries db)" "delivery_identity d = (ty, ikey)" "dl_request_type d = ty"
    using find_delivery_Some[OF d(1)] by (auto simp: delivery_identity_def)
  then have d': "?d \<in> set (q_deliveries db')" unfolding record_failure_effect(4)[OF ok d step] set_update_where by force
  have pos: "0 \<le> dl_attempt_count d" using ok \<open>d \<in> _\<close> by (simp add: queue_ok_def log_ok_def)
  show "counted_at key db'" unfolding counted_at_def
  proof (intro ballI impI)
    fix x assume x: "x \<in> set (q_jobs db')" "jb_execution_key x = key \<and> jb_stage x = RetryWait"
    from x(1) obtain y where y: "y \<in> set (q_jobs db)"
      "x = (if jb_execution_key y = key \<and> is_delivering_stage (jb_stage y) then failed_job now delay retryable kind message y else y)"
      unfolding record_failure_effect(3)[OF ok d step] by (rule in_update_whereE)
    have "jb_execution_key y = key" using x(2) y(2) by (auto split: if_splits)
    then have yj: "y = j" using only y(1) by blast
    have "jb_retry_stage x = Some (stage_of ty)"
      using y(2) x(2) j(2) unfolding yj
      by (auto simp: failed_job_def effective_stage_def is_delivering_stage_def split: if_splits)
    then show "\<exists>d \<in> set (q_deliveries db'). dl_execution_key d = key \<and> 0 < dl_attempt_count d \<and>
        jb_retry_stage x = Some (stage_of (dl_request_type d))"
      using d' d(2) pos \<open>dl_request_type d = ty\<close> by (intro bexI[OF _ d']) simp
  qed
qed

lemma waiting_saved: "queue_ok cfg db \<Longrightarrow> j \<in> set (q_jobs db) \<Longrightarrow> jb_stage j = RetryWait \<Longrightarrow>
    \<exists>st. jb_retry_stage j = Some st \<and> is_delivering_stage st"
  by (auto simp: queue_ok_def jobs_ok_def job_ok_def effective_stage_def)

lemma resume_effect:
  assumes ok: "queue_ok cfg db" and d: "find_delivery ty ikey db = Some d" "dl_execution_key d = key"
    and step: "resume_delivery ty ikey db = (Inr u, db')"
  shows "edits key db db'"
  using step
proof (rule resume_delivery_Inr)
  fix d' :: delivery_row and n
  assume r: "find_delivery ty ikey db = Some d'"
    "update_jobs (\<lambda>j. jb_execution_key j = dl_execution_key d' \<and> jb_stage j = RetryWait)
           (\<lambda>j. j\<lparr>jb_stage := the (jb_retry_stage j), jb_retry_stage := None, jb_next_attempt_at := None\<rparr>) db = (Inr n, db')"
  let ?g = "\<lambda>j. j\<lparr>jb_stage := the (jb_retry_stage j), jb_retry_stage := None, jb_next_attempt_at := None\<rparr>"
  let ?f = "\<lambda>j. if jb_stage j = RetryWait \<and> (\<exists>st. jb_retry_stage j = Some st \<and> is_delivering_stage st) then ?g j else j"
  have "\<forall>j \<in> set (q_jobs db). jb_stage j = RetryWait \<longrightarrow> (\<exists>st. jb_retry_stage j = Some st \<and> is_delivering_stage st)"
    using waiting_saved[OF ok] by blast
  then have a: "q_jobs db' = map (\<lambda>j. if jb_execution_key j = key then ?f j else j) (q_jobs db)"
    using r d by (force simp: update_jobs_def update_where_def)
  have b: "\<forall>j. jb_execution_key (?f j) = jb_execution_key j \<and>
      (jb_stage (?f j) = RetryWait \<longrightarrow> jb_stage j = RetryWait \<and> jb_retry_stage (?f j) = jb_retry_stage j)"
    by (auto simp: is_delivering_stage_def)
  have c: "q_files db' = q_files db" "q_deliveries db' = q_deliveries db" "q_attempts db' = q_attempts db"
    using r(2) by (auto simp: update_jobs_def)
  show ?thesis by (rule editsI[OF a b c])
qed


section \<open>Stored requests read back under their key\<close>

definition request_sound :: "delivery_row \<Rightarrow> bool" where
  "request_sound d \<longleftrightarrow> (case dl_request_type d of
     StartRequest \<Rightarrow> \<forall>r. decode_start_request (dl_request d) = Inr r \<longrightarrow> sr_execution_key r = dl_idempotency_key d
   | ManifestRequest \<Rightarrow> \<forall>r. decode_manifest_request (dl_request d) = Inr r \<longrightarrow> mr_idempotency_key r = dl_idempotency_key d
   | ReportRequest \<Rightarrow> \<forall>r. decode_report_request (dl_request d) = Inr r \<longrightarrow> rr_idempotency_key r = dl_idempotency_key d)"

definition requests_sound :: "queue_db \<Rightarrow> bool" where
  "requests_sound db \<longleftrightarrow> (\<forall>d \<in> set (q_deliveries db). request_sound d)"

lemma decode_start_key: "decode_start_request (encode_start_request q) = Inr r \<Longrightarrow> sr_execution_key r = sr_execution_key q"
  by (auto simp: decode_start_request_def encode_start_request_def parse_payload_version sbind_Inr_iff required_Inr)

lemma decode_manifest_key: "decode_manifest_request (encode_manifest_request q) = Inr r \<Longrightarrow> mr_idempotency_key r = mr_idempotency_key q"
  by (auto simp: decode_manifest_request_def encode_manifest_request_def parse_payload_version sbind_Inr_iff required_Inr)

lemma decode_report_key:
  assumes "encode_report_request q = Inr doc" "decode_report_request doc = Inr r"
  shows "rr_idempotency_key r = rr_idempotency_key q"
proof -
  have "json_find doc ''idempotency_key'' = Some (JStr (rr_idempotency_key q))"
    using assms(1) by (auto simp: encode_report_request_def sbind_Inr_iff)
  then show ?thesis using assms(2)
    by (auto simp: decode_report_request_def parse_payload_def sbind_Inr_iff required_Inr split: if_splits)
qed

lemma request_sound_update:
  "request_sound d \<Longrightarrow> dl_request_type e = dl_request_type d \<Longrightarrow> dl_idempotency_key e = dl_idempotency_key d \<Longrightarrow>
   dl_request e = dl_request d \<Longrightarrow> request_sound e"
  by (cases "dl_request_type d") (simp_all add: request_sound_def)

lemma requests_sound_update:
  "requests_sound db \<Longrightarrow> q_deliveries db' = update_where p f (q_deliveries db) \<Longrightarrow>
   (\<And>d. dl_request_type (f d) = dl_request_type d \<and> dl_idempotency_key (f d) = dl_idempotency_key d \<and> dl_request (f d) = dl_request d) \<Longrightarrow>
   requests_sound db'"
  unfolding requests_sound_def by (auto elim!: in_update_whereE intro: request_sound_update)

lemma requests_sound_insert:
  "requests_sound db \<Longrightarrow> q_deliveries db' = q_deliveries db @ [d] \<Longrightarrow> request_sound d \<Longrightarrow> requests_sound db'"
  by (auto simp: requests_sound_def)

lemma requests_sound_subset: "requests_sound db \<Longrightarrow> set (q_deliveries db') \<subseteq> set (q_deliveries db) \<Longrightarrow> requests_sound db'"
  unfolding requests_sound_def by blast

lemma sound_new_delivery:
  "request_sound (new_delivery key StartRequest (sr_execution_key q) (encode_start_request q) now)"
  "request_sound (new_delivery key ManifestRequest (mr_idempotency_key m) (encode_manifest_request m) now)"
  "encode_report_request r = Inr doc \<Longrightarrow> request_sound (new_delivery key ReportRequest (rr_idempotency_key r) doc now)"
  by (auto simp: request_sound_def dest: decode_start_key decode_manifest_key decode_report_key)

lemma delete_jobs_deliveries: "delete_jobs p db = (Inr n, db') \<Longrightarrow> set (q_deliveries db') \<subseteq> set (q_deliveries db)"
  by (auto simp: delete_jobs_def Let_def)

lemma trim_processed_of_deliveries: "trim_processed_of n key db = (Inr u, db') \<Longrightarrow> q_deliveries db' = q_deliveries db"
  by (auto simp: trim_processed_of_def split: option.splits)

lemma update_jobs_deliveries: "update_jobs p f db = (Inr n, db') \<Longrightarrow> q_deliveries db' = q_deliveries db"
  by (auto simp: update_jobs_def)

lemma run_op_sound:
  assumes ok: "queue_ok cfg db" and sound: "requests_sound db" and step: "run_op cfg now op db = (r, db')"
  shows "requests_sound db'"
proof (cases r)
  case (Inl e)
  with step run_op_Inl[of db cfg now op e db'] ok sound show ?thesis by (simp add: queue_ok_def keys_ok_def)
next
  case (Inr u)
  have same: "requests_sound db'" if "q_deliveries db' = q_deliveries db"
    using sound that by (simp add: requests_sound_def)
  show ?thesis
  proof (cases op)
    case (BeginJob task request retry)
    with step Inr show ?thesis
      by (auto dest!: begin_job_Inr intro: sound requests_sound_insert[OF sound] sound_new_delivery)
  next
    case (SaveFilePlan k files failures)
    with step Inr obtain db1 n where loop: "for_each (insert_pending_file k) files db = (Inr (), db1)"
      and "set_file_failures k failures now db1 = (Inr n, db')"
      by (auto simp: save_file_plan_def transaction_Inr seqp_Inr)
    moreover have "files_only k db db1" using loop by (rule files_only_for_each) (rule insert_pending_file_only)
    ultimately show ?thesis
      by (intro same) (auto simp: files_only_def set_file_failures_def dest!: update_jobs_deliveries)
  next
    case (SaveFileFailures k failures)
    with step Inr show ?thesis
      by (auto simp: save_file_failures_def transaction_Inr seqp_Inr set_file_failures_def intro!: same dest!: update_jobs_deliveries)
  next
    case (MarkFileFailed k i detail failures)
    with step Inr show ?thesis
      by (auto simp: mark_file_failed_def transaction_Inr seqp_Inr set_file_failures_def intro!: same
          dest!: update_jobs_deliveries update_files_rows)
  next
    case (MarkFileArchived k i)
    with step Inr show ?thesis
      by (auto simp: mark_file_archived_def seqp_Inr intro!: same dest!: update_files_rows)
  next
    case (AcceptStart k run)
    with step Inr show ?thesis
      by (auto simp: accept_start_def transaction_Inr seqp_Inr intro!: same dest!: update_jobs_deliveries)
  next
    case (SaveManifest k request)
    with step Inr have "save_manifest now k request db = (Inr (), db')" by simp
    then show ?thesis
      by (rule save_manifest_Inr)
        (auto dest!: insert_delivery_row_Inr update_jobs_deliveries intro!: requests_sound_insert[OF sound] sound_new_delivery(2))
  next
    case (AcceptManifest k ids)
    with step Inr have "accept_manifest now k ids db = (Inr (), db')" by simp
    then show ?thesis
    proof (rule accept_manifest_Inr)
      fix d manifest db1 n
      assume loop: "for_each (map_raw_file_id k) (zip ids (mr_files manifest)) db = (Inr (), db1)"
        and upd: "update_jobs (\<lambda>j. jb_execution_key j = k \<and> jb_stage j = ManifestPending)
           (\<lambda>j. j\<lparr>jb_stage := ReportBuilding, jb_updated_at := now\<rparr>) db1 = (Inr n, db')"
      have "files_only k db db1" using loop by (rule files_only_for_each) (rule map_raw_file_id_only)
      then show ?thesis using update_jobs_deliveries[OF upd] by (intro same) (simp add: files_only_def)
    qed
  next
    case (SaveReport k request outcomes)
    with step Inr have "save_report now k request outcomes db = (Inr (), db')" by simp
    then show ?thesis
      by (rule save_report_Inr)
        (auto dest!: insert_delivery_row_Inr update_jobs_deliveries save_parsed_outcomes_frame
          intro!: requests_sound_insert[OF sound] sound_new_delivery(3))
  next
    case (CompleteJob k)
    with step Inr have "complete_job cfg now k db = (Inr (), db')" by simp
    then show ?thesis
      by (rule complete_job_Inr)
        (auto intro!: requests_sound_subset[OF sound] dest!: trim_processed_of_deliveries delete_jobs_deliveries)
  next
    case (DiscardStartPending k)
    with step Inr show ?thesis
      by (auto simp: discard_start_pending_job_def transaction_Inr seqp_Inr
          intro!: requests_sound_subset[OF sound] dest!: delete_jobs_deliveries)
  next
    case (MarkRequiresAttention k kind reason)
    with step Inr have "mark_requires_attention now k kind reason db = (Inr (), db')" by simp
    then show ?thesis by (rule mark_requires_attention_Inr) (auto intro!: same dest!: update_jobs_deliveries)
  next
    case (RecordDeliveryFailure ty ikey retryable kind http message delay)
    with step Inr have "record_delivery_failure now ty ikey retryable kind http message delay db = (Inr (), db')" by simp
    then show ?thesis
    proof (rule record_delivery_failure_Inr)
      fix db1 db2 d n
      assume "update_deliveries (\<lambda>d. delivery_identity d = (ty, ikey)) (failed_delivery now delay kind http message) db = (Inr 1, db1)"
        "update_jobs (\<lambda>j. jb_execution_key j = dl_execution_key d \<and> is_delivering_stage (jb_stage j))
          (failed_job now delay retryable kind message) db1 = (Inr n, db2)"
        "db' = db2\<lparr>q_attempts := q_attempts db2 @ [failed_attempt now retryable kind http message d]\<rparr>"
      then have "q_deliveries db' = update_where (\<lambda>d. delivery_identity d = (ty, ikey)) (failed_delivery now delay kind http message) (q_deliveries db)"
        by (auto simp: update_deliveries_def dest!: update_jobs_deliveries)
      with sound show ?thesis by (rule requests_sound_update) (simp add: failed_delivery_def)
    qed
  next
    case (ResumeDelivery ty ikey)
    with step Inr have "resume_delivery ty ikey db = (Inr (), db')" by simp
    then show ?thesis by (rule resume_delivery_Inr) (auto intro!: same dest!: update_jobs_deliveries)
  next
    case (RetryAttentionJob k)
    with step Inr obtain a where "retry_attention_job now k db = (Inr a, db')" by auto
    with queue_ok_keys[OF ok] show ?thesis
    proof (cases rule: retry_attention_job_Inr)
      case (idle j)
      then show ?thesis using sound by simp
    next
      case (resumed j resume db1 n m)
      then have "q_deliveries db' = update_where (\<lambda>d. dl_execution_key d = k)
         (\<lambda>d. d\<lparr>dl_next_attempt_at := None, dl_updated_at := now\<rparr>) (q_deliveries db)"
        by (auto simp: update_deliveries_def dest!: update_jobs_deliveries)
      with sound show ?thesis by (rule requests_sound_update) simp
    qed
  qed
qed

interpretation sound_queue: invariant_system "\<lambda>db. db = empty_queue" "queue_step cfg" "\<lambda>db. queue_ok cfg db \<and> requests_sound db" for cfg
  by unfold_locales (auto simp: queue_ok_empty requests_sound_def[of empty_queue] empty_queue_def[THEN arg_cong, of q_deliveries]
      queue_step_def run_op_keeps run_op_sound)

lemma queue_reachable_sound: "queue_reachable cfg db \<Longrightarrow> requests_sound db"
  using sound_queue.reachable_inv unfolding queue_reachable_def by blast

end
