(* ===== verification/Job_Contracts.thy ===== *)
theory Job_Contracts
  imports Job_Isolation
begin

text \<open>
  What the executor relies on when it sends a stored request, as a locale, and what a run of a job
  guarantees to its callers. The reliable client is shown to keep the contract whatever the control
  plane answers; the lemmas about the stages of a job are proved once from the contract.
\<close>

section \<open>While a job runs\<close>

definition running :: "queue_config \<Rightarrow> string \<Rightarrow> queue_db \<Rightarrow> queue_db \<Rightarrow> bool" where
  "running cfg key db0 db \<longleftrightarrow>
     queue_reachable cfg db \<and> counted db \<and> key \<in> job_keys db \<and> others key db = others key db0"

definition at_stage :: "string \<Rightarrow> job_stage \<Rightarrow> queue_db \<Rightarrow> bool" where
  "at_stage key st db \<longleftrightarrow> (\<exists>j. find_job_row key db = Some j \<and> jb_stage j = st)"

definition requested :: "string \<Rightarrow> request_type \<Rightarrow> string \<Rightarrow> queue_db \<Rightarrow> bool" where
  "requested key ty ikey db \<longleftrightarrow> (\<exists>d j. find_delivery ty ikey db = Some d \<and> dl_execution_key d = key \<and>
     find_job_row key db = Some j \<and> effective_stage j = Some (stage_of ty) \<and> jb_stage j \<noteq> RequiresAttention)"

locale request_channel =
  fixes cfg :: queue_config and ty :: request_type and ikey :: "'q \<Rightarrow> string" and send :: "'q \<Rightarrow> 'r qproc"
  assumes send_keeps: "running cfg key db0 db \<Longrightarrow> requested key ty (ikey q) db \<Longrightarrow> send q db = (r, db') \<Longrightarrow>
      running cfg key db0 db'"
    and send_answers: "running cfg key db0 db \<Longrightarrow> requested key ty (ikey q) db \<Longrightarrow> send q db = (Inr a, db') \<Longrightarrow>
      at_stage key (stage_of ty) db'"

lemma running_ok: "running cfg key db0 db \<Longrightarrow> queue_ok cfg db"
  by (auto simp: running_def dest: queue_reachable_ok)

lemma running_edits:
  assumes "running cfg key db0 db" "stage_op key op" "run_op cfg now op db = (r, db')"
  shows "running cfg key db0 db'"
proof -
  have e: "edits key db db'" using running_ok[OF assms(1)] assms(2,3) by (rule stage_op_edits)
  have "queue_reachable cfg db'" using assms(1,3) by (auto simp: running_def dest: queue_reachable_run)
  then show ?thesis
    using assms(1) edits_counted[OF e] edits_keys[OF e] edits_others[OF e] by (simp add: running_def)
qed

lemma hoare_edits:
  "stage_op key op \<Longrightarrow> hoare (running cfg key db0) (run_op cfg now op) (\<lambda>_. running cfg key db0) (\<lambda>_. running cfg key db0)"
  by (rule hoareI) (blast intro: running_edits)+

lemma update_where_find:
  assumes "distinct (map jb_execution_key js)" and "find (\<lambda>j. jb_execution_key j = key) js = Some j"
    and "\<And>j. jb_execution_key (f j) = jb_execution_key j"
  shows "find (\<lambda>j. jb_execution_key j = key) (update_where (\<lambda>j. jb_execution_key j = key \<and> p j) f js) =
    Some (if p j then f j else j)"
  using assms by (induction js) (auto simp: update_where_def split: if_splits)

lemma find_job_update:
  assumes "queue_ok cfg db" "find_job_row key db = Some j"
    and "q_jobs db' = update_where (\<lambda>j. jb_execution_key j = key \<and> p j) f (q_jobs db)"
    and "\<And>j. jb_execution_key (f j) = jb_execution_key j"
  shows "find_job_row key db' = Some (if p j then f j else j)"
  using update_where_find[OF queue_ok_keys[OF assms(1)] _ assms(4), of key j p] assms(2,3) by (simp add: find_job_row_def)

section \<open>The reliable client keeps the contract\<close>

lemma record_running:
  "hoare (\<lambda>db. running cfg key db0 db \<and> requested key ty ikey db)
     (record_delivery_failure now ty ikey retryable kind http message delay)
     (\<lambda>_ db. running cfg key db0 db \<and> (retryable \<longrightarrow> requested key ty ikey db)) (\<lambda>_. running cfg key db0)"
proof (rule hoareI)
  fix s e t
  assume s: "running cfg key db0 s \<and> requested key ty ikey s"
    and step: "record_delivery_failure now ty ikey retryable kind http message delay s = (Inl e, t)"
  have "t = s" using step by (auto simp: record_delivery_failure_def dest: transaction_Inl)
  with s show "running cfg key db0 t" by simp
next
  fix s a t
  assume s: "running cfg key db0 s \<and> requested key ty ikey s"
    and step: "record_delivery_failure now ty ikey retryable kind http message delay s = (Inr a, t)"
  from s obtain d j where d: "find_delivery ty ikey s = Some d" "dl_execution_key d = key"
    and j: "find_job_row key s = Some j" "effective_stage j = Some (stage_of ty)" "jb_stage j \<noteq> RequiresAttention"
    by (auto simp: requested_def)
  have ok: "queue_ok cfg s" and c: "counted s" using s by (auto simp: running_def dest: queue_reachable_ok)
  note eff = record_failure_effect[OF ok d step]
  have "queue_reachable cfg t"
    using s queue_reachable_run[of cfg s now "RecordDeliveryFailure ty ikey retryable kind http message delay"] step
    by (simp add: running_def)
  then have run: "running cfg key db0 t"
    using s eff(1,2) record_failure_counted[OF ok c d j(1,2) step] by (simp add: running_def)
  have jt: "find_job_row key t = Some (if is_delivering_stage (jb_stage j) then failed_job now delay retryable kind message j else j)"
    by (rule find_job_update[OF ok j(1) eff(3)]) simp
  have "find_delivery ty ikey t = Some (failed_delivery now delay kind http message d)"
    using d(1) eff(4) by (simp add: find_delivery_identity find_update_identity)
  moreover have "retryable \<Longrightarrow> effective_stage (if is_delivering_stage (jb_stage j) then failed_job now delay retryable kind message j else j) = Some (stage_of ty)"
    using j(2,3) by (auto simp: effective_stage_def failed_job_def is_delivering_stage_def)
  moreover have "retryable \<Longrightarrow> jb_stage (if is_delivering_stage (jb_stage j) then failed_job now delay retryable kind message j else j) \<noteq> RequiresAttention"
    using j(3) by (auto simp: failed_job_def)
  ultimately show "running cfg key db0 t \<and> (retryable \<longrightarrow> requested key ty ikey t)"
    using run jt d(2) by (auto simp: requested_def)
qed

lemma stage_of_delivering: "is_delivering_stage (stage_of ty)" "stage_of ty \<noteq> RetryWait" "stage_of ty \<noteq> RequiresAttention"
  by (cases ty; simp add: is_delivering_stage_def)+

lemma resume_running:
  "hoare (\<lambda>db. running cfg key db0 db \<and> requested key ty ikey db) (resume_delivery ty ikey)
     (\<lambda>_ db. running cfg key db0 db \<and> requested key ty ikey db \<and> at_stage key (stage_of ty) db) (\<lambda>_. running cfg key db0)"
proof (rule hoareI)
  fix s e t
  assume "running cfg key db0 s \<and> requested key ty ikey s" "resume_delivery ty ikey s = (Inl e, t)"
  then show "running cfg key db0 t" by (auto dest: resume_delivery_Inl)
next
  fix s a t
  assume s: "running cfg key db0 s \<and> requested key ty ikey s" and step: "resume_delivery ty ikey s = (Inr a, t)"
  from s obtain d j where d: "find_delivery ty ikey s = Some d" "dl_execution_key d = key"
    and j: "find_job_row key s = Some j" "effective_stage j = Some (stage_of ty)" "jb_stage j \<noteq> RequiresAttention"
    by (auto simp: requested_def)
  have ok: "queue_ok cfg s" using s by (auto simp: running_def dest: queue_reachable_ok)
  have e: "edits key s t" using ok d step by (rule resume_effect)
  have "queue_reachable cfg t"
    using s queue_reachable_run[of cfg s 0 "ResumeDelivery ty ikey"] step by (simp add: running_def)
  then have run: "running cfg key db0 t"
    using s edits_counted[OF e] edits_keys[OF e] edits_others[OF e] by (simp add: running_def)
  from step obtain n where upd: "update_jobs (\<lambda>j. jb_execution_key j = key \<and> jb_stage j = RetryWait)
           (\<lambda>j. j\<lparr>jb_stage := the (jb_retry_stage j), jb_retry_stage := None, jb_next_attempt_at := None\<rparr>) s = (Inr n, t)"
    by (rule resume_delivery_Inr) (use d in simp)
  have jt: "find_job_row key t = Some (if jb_stage j = RetryWait
      then j\<lparr>jb_stage := the (jb_retry_stage j), jb_retry_stage := None, jb_next_attempt_at := None\<rparr> else j)"
    by (rule find_job_update[OF ok j(1) update_jobs_rows[OF upd]]) simp
  have dt: "find_delivery ty ikey t = Some d" using d(1) upd by (auto simp: update_jobs_def find_delivery_def)
  show "running cfg key db0 t \<and> requested key ty ikey t \<and> at_stage key (stage_of ty) t"
    using run jt dt d(2) j stage_of_delivering[of ty]
    by (auto simp: requested_def at_stage_def effective_stage_def split: if_splits)
qed

lemma deliver_loop_running:
  "hoare (\<lambda>db. running cfg key db0 db \<and> requested key ty ikey db \<and> at_stage key (stage_of ty) db)
     (deliver_loop dc ty ikey k ts)
     (\<lambda>r db. running cfg key db0 db \<and> (r \<noteq> None \<longrightarrow> at_stage key (stage_of ty) db)) (\<lambda>_. running cfg key db0)"
proof (induction ts arbitrary: k)
  case Nil
  show ?case unfolding deliver_loop.simps by (rule hoare_ret) simp
next
  case (Cons t ts)
  show ?case
  proof (cases "tn_stop t")
    case True
    then show ?thesis unfolding deliver_loop.simps by (simp, intro hoare_throw) simp
  next
    case False
    show ?thesis
    proof (cases "tn_outcome t")
      case (Inr r)
      with False show ?thesis unfolding deliver_loop.simps by (simp, intro hoare_ret) simp
    next
      case (Inl e)
      have rec: "hoare (\<lambda>db. running cfg key db0 db \<and> requested key ty ikey db \<and> at_stage key (stage_of ty) db)
         (record_delivery_failure (tn_now t) ty ikey b (error_kind_name (ce_kind e)) (ce_http_status e) (ce_message e) delay)
         (\<lambda>_ db. running cfg key db0 db \<and> (b \<longrightarrow> requested key ty ikey db)) (\<lambda>_. running cfg key db0)" for b delay
        by (rule hoare_pre[OF record_running]) simp
      show ?thesis
      proof (cases "is_auth_rejection e")
        case True
        with False Inl show ?thesis unfolding deliver_loop.simps
          by (simp, intro hoare_seqp[OF rec] hoare_throw) simp
      next
        case auth: False
        show ?thesis
        proof (cases "is_transient e")
          case False
          with \<open>\<not> tn_stop t\<close> auth Inl show ?thesis unfolding deliver_loop.simps
            by (simp, intro hoare_seqp[OF rec] hoare_throw) simp
        next
          case True
          show ?thesis
          proof (cases "tn_stop_after_wait t")
            case stop: True
            with True \<open>\<not> tn_stop t\<close> auth Inl show ?thesis unfolding deliver_loop.simps
              by (simp, intro hoare_seqp[OF rec] hoare_throw) simp
          next
            case go: False
            have "hoare (\<lambda>db. running cfg key db0 db \<and> (True \<longrightarrow> requested key ty ikey db))
                (seqp (resume_delivery ty ikey) (\<lambda>_. deliver_loop dc ty ikey (k + 1) ts))
                (\<lambda>r db. running cfg key db0 db \<and> (r \<noteq> None \<longrightarrow> at_stage key (stage_of ty) db)) (\<lambda>_. running cfg key db0)"
              by (rule hoare_pre[OF hoare_seqp[OF resume_running Cons.IH]]) simp
            with go True \<open>\<not> tn_stop t\<close> auth Inl show ?thesis unfolding deliver_loop.simps
              by (simp, intro hoare_seqp[OF rec]) simp
          qed
        qed
      qed
    qed
  qed
qed

lemma abandon_running:
  "hoare (\<lambda>db. running cfg key db0 db \<and> requested key ty ikey db) (abandon_oversized_body dc now ty ikey n)
     (\<lambda>_ _. False) (\<lambda>_. running cfg key db0)"
proof -
  have find: "hoare (\<lambda>db. running cfg key db0 db \<and> requested key ty ikey db) (\<lambda>db. (delivery_execution_key ty ikey db, db))
      (\<lambda>k db. k = key \<and> running cfg key db0 db) (\<lambda>_. running cfg key db0)"
    by (rule hoareI) (auto simp: delivery_execution_key_def requested_def split: option.splits)
  have mark: "hoare (\<lambda>db. k = key \<and> running cfg key db0 db) (mark_requires_attention now k kind reason)
      (\<lambda>_. running cfg key db0) (\<lambda>_. running cfg key db0)" for k kind reason
    using hoare_edits[of key "MarkRequiresAttention key kind reason" cfg db0 now]
    by (cases "k = key") (auto simp: hoare_def)
  show ?thesis unfolding abandon_oversized_body_def
    by (intro hoare_seqp[OF find] hoare_seqp[OF mark] hoare_throw)
qed

text \<open>A delivery nobody counted an attempt of belongs to a job that is not waiting.\<close>

lemma uncounted_at_stage:
  assumes run: "running cfg key db0 db" and d: "find_delivery ty ikey db = Some d" "dl_execution_key d = key"
    and j: "find_job_row key db = Some j" "effective_stage j = Some (stage_of ty)" "jb_stage j \<noteq> RequiresAttention"
    and n: "dl_attempt_count d \<le> 0"
  shows "jb_stage j = stage_of ty"
proof (cases "jb_stage j = RetryWait")
  case True
  have "counted_at key db" using run by (simp add: running_def counted_def)
  then obtain d' where d': "d' \<in> set (q_deliveries db)" "dl_execution_key d' = key" "0 < dl_attempt_count d'"
    "jb_retry_stage j = Some (stage_of (dl_request_type d'))"
    using find_job_row_Some[OF j(1)] True unfolding counted_at_def by blast
  have "stage_of (dl_request_type d') = stage_of ty" using j(2) True d'(4) by (simp add: effective_stage_def)
  then have "dl_request_type d' = ty" by (cases "dl_request_type d'"; cases ty) simp_all
  then have "delivery_key d' = delivery_key d" using d d'(2) find_delivery_Some[OF d(1)] by (simp add: delivery_key_def)
  moreover have "distinct (map delivery_key (q_deliveries db))"
    using running_ok[OF run] by (simp add: queue_ok_def keys_ok_def)
  ultimately have "d' = d" using inj_key_eq[of delivery_key] d'(1) find_delivery_Some[OF d(1)] by blast
  with d'(3) n show ?thesis by simp
next
  case False
  then show ?thesis using j(2,3) by (simp add: effective_stage_def)
qed

lemma deliver_running:
  "hoare (\<lambda>db. running cfg key db0 db \<and> requested key ty ikey db) (deliver dc julian_ms now stop ty ikey n ts)
     (\<lambda>r db. running cfg key db0 db \<and> (r \<noteq> None \<longrightarrow> at_stage key (stage_of ty) db)) (\<lambda>_. running cfg key db0)"
proof -
  let ?P = "\<lambda>db. running cfg key db0 db \<and> requested key ty ikey db"
  let ?S = "\<lambda>db. ?P db \<and> at_stage key (stage_of ty) db"
  have check: "hoare ?P (if dc_max_body_bytes dc < n then abandon_oversized_body dc now ty ikey n else ret ())
      (\<lambda>_. ?P) (\<lambda>_. running cfg key db0)"
    using hoare_weaken[OF abandon_running[of cfg key db0 ty ikey dc now n]] by (auto intro: hoare_ret)
  have count: "hoare ?P (\<lambda>db. (delivery_attempt_count ty ikey db, db)) (\<lambda>k db. ?P db \<and> (k \<le> 0 \<longrightarrow> ?S db)) (\<lambda>_. running cfg key db0)"
  proof (rule hoareI)
    fix s k t assume s: "?P s" "(delivery_attempt_count ty ikey s, s) = (Inr k, t)"
    then obtain d j where r: "find_delivery ty ikey s = Some d" "dl_execution_key d = key" "find_job_row key s = Some j"
      "effective_stage j = Some (stage_of ty)" "jb_stage j \<noteq> RequiresAttention" by (auto simp: requested_def)
    then have k: "k = dl_attempt_count d" using s(2) by (simp add: delivery_attempt_count_def)
    have "k \<le> 0 \<Longrightarrow> jb_stage j = stage_of ty" unfolding k using uncounted_at_stage[OF conjunct1[OF s(1)] r] by simp
    then show "?P t \<and> (k \<le> 0 \<longrightarrow> ?S t)" using s r(3) by (auto simp: at_stage_def)
  qed auto
  have wait: "hoare (\<lambda>db. ?P db \<and> (k \<le> 0 \<longrightarrow> ?S db))
     (if 0 < k then seqp (\<lambda>db. (delivery_retry_remaining julian_ms now ty ikey db, db)) (\<lambda>_.
               if stop then throw stopped_error else resume_delivery ty ikey) else ret ())
     (\<lambda>_. ?S) (\<lambda>_. running cfg key db0)" for k :: int
  proof (cases "0 < k")
    case True
    have read: "hoare (\<lambda>db. ?P db \<and> (k \<le> 0 \<longrightarrow> ?S db)) (\<lambda>db. (delivery_retry_remaining julian_ms now ty ikey db, db))
        (\<lambda>_. ?P) (\<lambda>_. running cfg key db0)" by (rule hoareI) auto
    have "hoare ?P (if stop then throw stopped_error else resume_delivery ty ikey) (\<lambda>_. ?S) (\<lambda>_. running cfg key db0)"
      using hoare_weaken[OF resume_running[of cfg key db0 ty ikey]] by (auto intro: hoare_throw)
    with True show ?thesis by (simp only: if_True) (rule hoare_seqp[OF read])
  next
    case False
    then show ?thesis by (auto intro!: hoare_ret)
  qed
  have loop: "hoare ?S (deliver_loop dc ty ikey k ts)
     (\<lambda>r db. running cfg key db0 db \<and> (r \<noteq> None \<longrightarrow> at_stage key (stage_of ty) db)) (\<lambda>_. running cfg key db0)" for k
    by (rule hoare_pre[OF deliver_loop_running]) simp
  show ?thesis unfolding deliver_def
    by (rule hoare_seqp[OF check] hoare_seqp[OF count] hoare_seqp[OF wait] loop)+
qed

text \<open>\<open>ReliableDeliveryClient\<close> as the executor sees it: a delivery still under way when the script ends
  is one the process does not survive.\<close>

definition await_delivery :: "'r option qproc \<Rightarrow> 'r qproc" where
  "await_delivery m = seqp m (\<lambda>r. case r of None \<Rightarrow> throw ProcessEnded | Some a \<Rightarrow> ret a)"

record delivery_env =
  de_config :: delivery_config
  de_julian_ms :: "int \<Rightarrow> int \<Rightarrow> int"
  de_body_length :: "json \<Rightarrow> nat"
  de_now :: int
  de_stop :: bool
  de_start_turns :: "start_result turn list"
  de_manifest_turns :: "string list turn list"
  de_report_turns :: "unit turn list"

definition reliable_start :: "delivery_env \<Rightarrow> start_request \<Rightarrow> start_result qproc" where
  "reliable_start de q =
     await_delivery (deliver_start (de_config de) (de_julian_ms de) (de_now de) (de_stop de) (de_body_length de) q (de_start_turns de))"

definition reliable_manifest :: "delivery_env \<Rightarrow> manifest_request \<Rightarrow> string list qproc" where
  "reliable_manifest de q =
     await_delivery (deliver_manifest (de_config de) (de_julian_ms de) (de_now de) (de_stop de) (de_body_length de) q (de_manifest_turns de))"

definition reliable_report :: "delivery_env \<Rightarrow> report_request \<Rightarrow> unit qproc" where
  "reliable_report de q =
     await_delivery (deliver_report (de_config de) (de_julian_ms de) (de_now de) (de_stop de) (de_body_length de) q (de_report_turns de))"

lemma await_running:
  assumes "hoare P m (\<lambda>r db. running cfg key db0 db \<and> (r \<noteq> None \<longrightarrow> at_stage key st db)) (\<lambda>_. running cfg key db0)"
  shows "hoare P (await_delivery m) (\<lambda>_ db. running cfg key db0 db \<and> at_stage key st db) (\<lambda>_. running cfg key db0)"
  unfolding await_delivery_def
proof (rule hoare_seqp[OF assms])
  fix r :: "'a option"
  show "hoare (\<lambda>db. running cfg key db0 db \<and> (r \<noteq> None \<longrightarrow> at_stage key st db)) (case r of None \<Rightarrow> throw ProcessEnded | Some a \<Rightarrow> ret a)
     (\<lambda>_ db. running cfg key db0 db \<and> at_stage key st db) (\<lambda>_. running cfg key db0)"
    by (cases r) (auto intro: hoare_throw hoare_ret)
qed

lemma dump_running: "(\<And>db. P db \<Longrightarrow> E JsonTypeError db) \<Longrightarrow> hoare P (dump_all docs) (\<lambda>_. P) E"
  by (rule hoareI) (auto simp: dump_all_def require_def split: if_splits)

lemma request_channelI:
  assumes "\<And>key db0 q. hoare (\<lambda>db. running cfg key db0 db \<and> requested key ty (ikey q) db) (send q)
     (\<lambda>_ db. running cfg key db0 db \<and> at_stage key (stage_of ty) db) (\<lambda>_. running cfg key db0)"
  shows "request_channel cfg ty ikey send"
proof unfold_locales
  fix key db0 db q r db'
  assume "running cfg key db0 db" "requested key ty (ikey q) db" "send q db = (r, db')"
  then show "running cfg key db0 db'"
    using hoare_Inr[OF assms[of key db0 q], of db _ db'] hoare_Inl[OF assms[of key db0 q], of db _ db'] by (cases r) auto
next
  fix key db0 db q a db'
  assume "running cfg key db0 db" "requested key ty (ikey q) db" "send q db = (Inr a, db')"
  then show "at_stage key (stage_of ty) db'" using hoare_Inr[OF assms[of key db0 q], of db a db'] by simp
qed

interpretation start_channel: request_channel cfg StartRequest sr_execution_key "reliable_start de" for cfg de
  unfolding reliable_start_def deliver_start_def
  by (intro request_channelI await_running hoare_seqp[OF dump_running] deliver_running) simp_all

interpretation manifest_channel: request_channel cfg ManifestRequest mr_idempotency_key "reliable_manifest de" for cfg de
  unfolding reliable_manifest_def deliver_manifest_def
  by (intro request_channelI await_running hoare_seqp[OF dump_running] deliver_running) simp_all

interpretation report_channel: request_channel cfg ReportRequest rr_idempotency_key "reliable_report de" for cfg de
proof (intro request_channelI)
  fix key db0 q
  have lift: "hoare P (lift_sum r) (\<lambda>_. P) (\<lambda>_. running cfg key db0)" if "\<And>db. P db \<Longrightarrow> running cfg key db0 db" for P and r :: "agent_exn + json"
    using that by (auto intro!: hoareI simp: lift_sum_def)
  show "hoare (\<lambda>db. running cfg key db0 db \<and> requested key ReportRequest (rr_idempotency_key q) db) (reliable_report de q)
     (\<lambda>_ db. running cfg key db0 db \<and> at_stage key (stage_of ReportRequest) db) (\<lambda>_. running cfg key db0)"
    unfolding reliable_report_def deliver_report_def
    by (intro await_running hoare_seqp[OF lift] hoare_seqp[OF dump_running] deliver_running) simp_all
qed

end
