(* ===== verification/Job_Outcomes.thy ===== *)
theory Job_Outcomes
  imports Job_Contracts Plan_Properties
begin

text \<open>
  The outcome of running a job (\<open>TaskExecutor::run_reliable_job\<close>), stage by stage: what a stage may
  assume of the job it is given, what it leaves in the queue when it returns and when it throws.
  The triples are over the executor's whole world; those of the disk and the clock leave the queue alone.
\<close>

section \<open>Triples over the executor's world\<close>

abbreviation queue_of :: "(queue_db \<Rightarrow> bool) \<Rightarrow> exec_world \<Rightarrow> bool" where
  "queue_of P w \<equiv> P (ew_queue w)"

lemma hoare_on_queue:
  assumes "hoare P m Q E"
  shows "hoare (queue_of P) (on_queue m) (\<lambda>a. queue_of (Q a)) (\<lambda>e. queue_of (E e))"
proof (rule hoareI)
  fix s a t assume "P (ew_queue s)" "on_queue m s = (Inr a, t)"
  then show "Q a (ew_queue t)" using hoare_Inr[OF assms, of "ew_queue s" a "ew_queue t"]
    by (auto simp: on_queue_def split: prod.splits)
next
  fix s e t assume "P (ew_queue s)" "on_queue m s = (Inl e, t)"
  then show "E e (ew_queue t)" using hoare_Inl[OF assms, of "ew_queue s" e "ew_queue t"]
    by (auto simp: on_queue_def split: prod.splits)
qed

text \<open>A fact about the arguments that the precondition gives.\<close>

lemma hoare_given: "(\<And>s. P s \<Longrightarrow> c) \<Longrightarrow> (c \<Longrightarrow> hoare P m Q E) \<Longrightarrow> hoare P m Q E"
  unfolding hoare_def by blast

definition quiet :: "'a exec \<Rightarrow> bool" where
  "quiet m \<longleftrightarrow> (\<forall>w. ew_queue (snd (m w)) = ew_queue w)"

named_theorems quiet_intros "procedures that leave the queue alone"

lemma hoare_quiet: "quiet m \<Longrightarrow> hoare (queue_of P) m (\<lambda>_. queue_of P) (\<lambda>_. queue_of P)"
  unfolding quiet_def by (rule hoareI) (metis snd_conv)+

lemma quiet_basic [quiet_intros]:
  "quiet (ret a)" "quiet (throw e)" "quiet (gets f)" "quiet (lift_sum r)" "quiet (require b e)" "quiet (on_disk m)"
  "quiet now_reading" "quiet stop_reading"
  by (auto simp: quiet_def ret_def throw_def gets_def lift_sum_def require_def on_disk_def now_reading_def stop_reading_def
      split: prod.splits list.splits)

lemma quiet_seqp [quiet_intros]: "quiet m \<Longrightarrow> (\<And>a. quiet (f a)) \<Longrightarrow> quiet (seqp m f)"
  by (auto simp: quiet_def seqp_def split: prod.splits sum.splits) (metis snd_conv)+

lemma quiet_attempt [quiet_intros]: "quiet m \<Longrightarrow> quiet (attempt m)"
  by (auto simp: quiet_def attempt_def split: prod.splits) (metis snd_conv)

lemma hoare_attempt:
  assumes "hoare P m (\<lambda>a. Q (Inr a)) (\<lambda>e. Q (Inl e))"
  shows "hoare P (attempt m) Q E"
proof (rule hoareI)
  fix s r t assume s: "P s" "attempt m s = (Inr r, t)"
  then have m: "m s = (r, t)" by (auto simp: attempt_def split: prod.splits)
  show "Q r t"
  proof (cases r)
    case (Inl e)
    with hoare_Inl[OF assms s(1), of e t] m show ?thesis by simp
  next
    case (Inr a)
    with hoare_Inr[OF assms s(1), of a t] m show ?thesis by simp
  qed
qed (auto simp: attempt_def split: prod.splits)

lemma hoare_on_queue_now:
  assumes "\<And>now. hoare P (m now) Q E"
  shows "hoare (queue_of P) (on_queue_now m) (\<lambda>a. queue_of (Q a)) (\<lambda>e. queue_of (E e))"
  unfolding on_queue_now_def
proof (rule hoare_seqp)
  show "hoare (queue_of P) now_reading (\<lambda>_. queue_of P) (\<lambda>e. queue_of (E e))"
    by (rule hoareI) (auto simp: now_reading_def split: list.splits)
qed (rule hoare_on_queue[OF assms])

lemma quiet_plan_inspected [quiet_intros]: "quiet (plan_inspected env cfg job item acc r)"
proof -
  obtain plan failures where acc: "acc = (plan, failures)" by force
  show ?thesis unfolding plan_inspected_def acc Let_def prod.case
    by (cases r) (auto intro!: quiet_intros)
qed

lemma quiet_plan_items [quiet_intros]: "quiet (plan_items env cfg job acc items)"
  by (induction items arbitrary: acc) (auto intro!: quiet_intros)

lemma quiet_plan_from_directory [quiet_intros]: "quiet (plan_from_directory env cfg job)"
  unfolding plan_from_directory_def by (intro quiet_intros)

lemma quiet_plan_target [quiet_intros]: "quiet (plan_target env cfg job source acc t)"
proof -
  obtain plan failures where acc: "acc = (plan, failures)" by force
  show ?thesis unfolding plan_target_def acc Let_def prod.case
    by (intro quiet_intros) (auto intro!: quiet_intros split: sum.split)
qed

lemma quiet_plan_targets [quiet_intros]: "quiet (plan_targets env cfg job source acc ts)"
  by (induction ts arbitrary: acc) (auto intro!: quiet_intros)

lemma quiet_plan_from_retry_targets [quiet_intros]: "quiet (plan_from_retry_targets env cfg job)"
  unfolding plan_from_retry_targets_def by (intro quiet_intros)

lemma quiet_build_files [quiet_intros]: "quiet (build_files env job d fs)"
  by (induction fs arbitrary: d) (auto intro!: quiet_intros)

section \<open>The job at hand\<close>

definition current :: "string \<Rightarrow> recovered_job \<Rightarrow> queue_db \<Rightarrow> bool" where
  "current key job db \<longleftrightarrow> rj_execution_key job = key \<and>
     (\<exists>st j. rj_stage job = Some st \<and> is_executable_stage st \<and> find_job_row key db = Some j \<and>
        jb_stage j \<noteq> RequiresAttention \<and> effective_stage j = Some st) \<and>
     (rj_stage job = Some StartPending \<longrightarrow> requested key StartRequest (sr_execution_key (rj_start_request job)) db) \<and>
     (rj_stage job = Some ManifestPending \<longrightarrow>
        (\<exists>m. rj_manifest_request job = Some m \<and> requested key ManifestRequest (mr_idempotency_key m) db)) \<and>
     (rj_stage job = Some ReportPending \<longrightarrow>
        (\<exists>r. rj_report_request job = Some r \<and> requested key ReportRequest (rr_idempotency_key r) db))"

lemma stored_request:
  assumes ok: "queue_ok cfg db" and d: "d \<in> set (q_deliveries db)"
    and j: "find_job_row (dl_execution_key d) db = Some j" "jb_stage j \<noteq> RequiresAttention"
      "effective_stage j = Some (stage_of (dl_request_type d))"
  shows "requested (dl_execution_key d) (dl_request_type d) (dl_idempotency_key d) db"
proof -
  have dist: "distinct (map delivery_identity (q_deliveries db))" using ok by (simp add: queue_ok_def keys_ok_def)
  have "find_delivery (dl_request_type d) (dl_idempotency_key d) db = Some d"
    unfolding find_delivery_identity using find_distinct_key[OF dist d] by (simp add: delivery_identity_def)
  with j show ?thesis by (auto simp: requested_def)
qed

lemma delivery_of:
  assumes ok: "queue_ok cfg db" and k: "(key, ty) \<in> delivery_keys db"
  obtains d where "find_delivery_of key ty db = Some d" "d \<in> set (q_deliveries db)" "dl_execution_key d = key" "dl_request_type d = ty"
proof -
  obtain d where d: "d \<in> set (q_deliveries db)" "dl_execution_key d = key" "dl_request_type d = ty"
    using k by (auto simp: delivery_keys_def delivery_key_def)
  have "distinct (map delivery_key (q_deliveries db))" using ok by (simp add: queue_ok_def keys_ok_def)
  from find_delivery_of_unique[OF this d(1)] d that show ?thesis by simp
qed

lemma load_job_Inr:
  assumes "load_job key db = Inr job"
  obtains j d where "j \<in> set (q_jobs db)" "jb_execution_key j = key" "jb_stage j \<noteq> RequiresAttention"
    and "find_delivery_of key StartRequest db = Some d" and "read_recovered_job db (j, d) = Inr job"
proof -
  let ?rows = "concat (map (with_start_delivery db) (filter (\<lambda>j. jb_execution_key j = key \<and> jb_stage j \<noteq> RequiresAttention) (q_jobs db)))"
  obtain row where row: "row \<in> set ?rows" "read_recovered_job db row = Inr job"
    using assms by (cases ?rows) (auto simp: load_job_def)
  then obtain j where j: "j \<in> set (q_jobs db)" "jb_execution_key j = key" "jb_stage j \<noteq> RequiresAttention"
    and w: "row \<in> set (with_start_delivery db j)" by auto
  show ?thesis
  proof (cases "find_delivery_of (jb_execution_key j) StartRequest db")
    case None
    with w show ?thesis by (simp add: with_start_delivery_def)
  next
    case (Some d)
    with w have "row = (j, d)" by (simp add: with_start_delivery_def)
    with j row Some that show ?thesis by simp
  qed
qed

lemma read_recovered_Inr:
  assumes "read_recovered_job db (j, d) = Inr job"
  shows "rj_execution_key job = jb_execution_key j" "rj_stage job = recovered_stage j"
    and "decode_start_request (dl_request d) = Inr (rj_start_request job)"
    and "decode_optional decode_manifest_request (find_delivery_of (jb_execution_key j) ManifestRequest db) = Inr (rj_manifest_request job)"
    and "decode_optional decode_report_request (find_delivery_of (jb_execution_key j) ReportRequest db) = Inr (rj_report_request job)"
  using assms by (auto simp: read_recovered_job_def Let_def sbind_Inr_iff)

lemma load_current:
  assumes ok: "queue_ok cfg db" and sound: "requests_sound db" and load: "load_job key db = Inr job"
  shows "current key job db"
proof -
  have dist: "distinct (map jb_execution_key (q_jobs db))" using ok by (rule queue_ok_keys)
  obtain j d where j: "j \<in> set (q_jobs db)" "jb_execution_key j = key" "jb_stage j \<noteq> RequiresAttention"
    and d: "find_delivery_of key StartRequest db = Some d" and read: "read_recovered_job db (j, d) = Inr job"
    using load by (rule load_job_Inr)
  have row: "find_job_row key db = Some j" using find_job_row_unique[OF dist j(1)] j(2) by simp
  note job = read_recovered_Inr[OF read, unfolded j(2)]
  obtain st where st: "effective_stage j = Some st" "is_executable_stage st"
    and m: "st = ManifestPending \<or> st = ReportBuilding \<longrightarrow> (key, ManifestRequest) \<in> delivery_keys db"
    and r: "st = ReportPending \<longrightarrow> (key, ReportRequest) \<in> delivery_keys db"
    using ok j(1,2) by (auto simp: queue_ok_def jobs_ok_def job_ok_def)
  have stage: "rj_stage job = Some st" using st(1) j(3) job(2) by (auto simp: effective_stage_def recovered_stage_def)
  have ask: "requested key (dl_request_type x) (dl_idempotency_key x) db"
    if "x \<in> set (q_deliveries db)" "dl_execution_key x = key" "st = stage_of (dl_request_type x)" for x
    using stored_request[OF ok that(1)] that row j(3) st(1) by simp
  have sound_at: "request_sound x" if "x \<in> set (q_deliveries db)" for x using sound that by (simp add: requests_sound_def)
  have start: "requested key StartRequest (sr_execution_key (rj_start_request job)) db" if "st = StartPending"
  proof -
    from find_delivery_of_Some[OF d] have x: "d \<in> set (q_deliveries db)" "dl_execution_key d = key" "dl_request_type d = StartRequest" by auto
    have "sr_execution_key (rj_start_request job) = dl_idempotency_key d"
      using sound_at[OF x(1)] x(3) job(3) by (simp add: request_sound_def)
    then show ?thesis using ask[OF x(1,2)] x(3) that by simp
  qed
  have manifest: "\<exists>m. rj_manifest_request job = Some m \<and> requested key ManifestRequest (mr_idempotency_key m) db" if "st = ManifestPending"
  proof -
    have "(key, ManifestRequest) \<in> delivery_keys db" using m that by simp
    with ok obtain x where x: "find_delivery_of key ManifestRequest db = Some x" "x \<in> set (q_deliveries db)" "dl_execution_key x = key"
      "dl_request_type x = ManifestRequest" by (rule delivery_of)
    from job(4) x(1) obtain q where q: "rj_manifest_request job = Some q" "decode_manifest_request (dl_request x) = Inr q"
      unfolding decode_optional_def by (auto simp: sbind_Inr_iff dest: sym)
    have "mr_idempotency_key q = dl_idempotency_key x" using sound_at[OF x(2)] x(4) q(2) by (simp add: request_sound_def)
    then show ?thesis using ask[OF x(2,3)] x(4) that q(1) by simp
  qed
  have report: "\<exists>m. rj_report_request job = Some m \<and> requested key ReportRequest (rr_idempotency_key m) db" if "st = ReportPending"
  proof -
    have "(key, ReportRequest) \<in> delivery_keys db" using r that by simp
    with ok obtain x where x: "find_delivery_of key ReportRequest db = Some x" "x \<in> set (q_deliveries db)" "dl_execution_key x = key"
      "dl_request_type x = ReportRequest" by (rule delivery_of)
    from job(5) x(1) obtain q where q: "rj_report_request job = Some q" "decode_report_request (dl_request x) = Inr q"
      unfolding decode_optional_def by (auto simp: sbind_Inr_iff dest: sym)
    have "rr_idempotency_key q = dl_idempotency_key x" using sound_at[OF x(2)] x(4) q(2) by (simp add: request_sound_def)
    then show ?thesis using ask[OF x(2,3)] x(4) that q(1) by simp
  qed
  show ?thesis unfolding current_def using job(1) stage st row j(3) start manifest report by simp
qed

section \<open>What the operations of a stage lead to\<close>

definition collected :: "string \<Rightarrow> queue_db \<Rightarrow> bool" where
  "collected key db \<longleftrightarrow> (\<exists>st. at_stage key st db \<and> is_executable_stage st \<and> st \<noteq> StartPending)"

definition settled :: "queue_config \<Rightarrow> string \<Rightarrow> queue_db \<Rightarrow> queue_db \<Rightarrow> bool" where
  "settled cfg key db0 db \<longleftrightarrow> queue_reachable cfg db \<and> counted db \<and> others key db = others key db0 \<and>
     (key \<in> job_keys db \<longrightarrow> at_stage key RequiresAttention db)"

lemma at_stage_collected: "at_stage key st db \<Longrightarrow> is_executable_stage st \<Longrightarrow> st \<noteq> StartPending \<Longrightarrow> collected key db"
  by (auto simp: collected_def)

lemma at_stage_update:
  assumes "queue_ok cfg db" "at_stage key st db"
    and "q_jobs db' = update_where (\<lambda>j. jb_execution_key j = key \<and> p j) f (q_jobs db)"
    and "\<And>j. jb_execution_key (f j) = jb_execution_key j"
    and "\<And>j. jb_stage j = st \<Longrightarrow> jb_stage (if p j then f j else j) = st'"
  shows "at_stage key st' db'"
proof -
  obtain j where j: "find_job_row key db = Some j" "jb_stage j = st" using assms(2) by (auto simp: at_stage_def)
  have "find_job_row key db' = Some (if p j then f j else j)" using assms(1) j(1) assms(3,4) by (rule find_job_update)
  then show ?thesis using assms(5)[OF j(2)] unfolding at_stage_def by blast
qed

lemma hoare_stage_op:
  assumes "stage_op key op"
    and "\<And>db db'. queue_ok cfg db \<Longrightarrow> at_stage key st db \<Longrightarrow> run_op cfg now op db = (Inr (), db') \<Longrightarrow> at_stage key st' db'"
  shows "hoare (\<lambda>db. running cfg key db0 db \<and> at_stage key st db) (run_op cfg now op)
     (\<lambda>_ db. running cfg key db0 db \<and> at_stage key st' db) (\<lambda>_ db. running cfg key db0 db \<and> at_stage key st db)"
proof (rule hoareI)
  fix s t and a :: unit assume s: "running cfg key db0 s \<and> at_stage key st s" "run_op cfg now op s = (Inr a, t)"
  have "running cfg key db0 t" using conjunct1[OF s(1)] assms(1) s(2) by (rule running_edits)
  with s assms(2)[of s t] running_ok[of cfg key db0 s] show "running cfg key db0 t \<and> at_stage key st' t" by simp
next
  fix s t e assume s: "running cfg key db0 s \<and> at_stage key st s" "run_op cfg now op s = (Inl e, t)"
  then have "t = s" using run_op_Inl[of s cfg now op e t] running_ok[of cfg key db0 s] by (simp add: queue_ok_def keys_ok_def)
  with s show "running cfg key db0 t \<and> at_stage key st t" by simp
qed

text \<open>Work on the files of a job leaves its stage alone.\<close>

lemma set_failures_stage:
  assumes "queue_ok cfg db" "at_stage key st db" "q_jobs db1 = q_jobs db" "set_file_failures key failures now db1 = (Inr n, db')"
  shows "at_stage key st db'"
proof -
  have "q_jobs db' = update_where (\<lambda>j. jb_execution_key j = key \<and> True)
      (\<lambda>j. j\<lparr>jb_file_failures := Some (encode_file_failures failures), jb_updated_at := now\<rparr>) (q_jobs db)"
    using assms(3,4) by (auto simp: set_file_failures_def update_jobs_def)
  with assms(1,2) show ?thesis by (rule at_stage_update) simp_all
qed

lemma save_file_plan_stage:
  "hoare (\<lambda>db. running cfg key db0 db \<and> at_stage key st db) (save_file_plan now key files failures)
     (\<lambda>_ db. running cfg key db0 db \<and> at_stage key st db) (\<lambda>_ db. running cfg key db0 db \<and> at_stage key st db)"
proof -
  have "at_stage key st db'" if ok: "queue_ok cfg db" and st: "at_stage key st db"
    and step: "run_op cfg now (SaveFilePlan key files failures) db = (Inr (), db')" for db db'
  proof -
    from step obtain db1 n where loop: "for_each (insert_pending_file key) files db = (Inr (), db1)"
      and set: "set_file_failures key failures now db1 = (Inr n, db')"
      by (auto simp: save_file_plan_def transaction_Inr seqp_Inr)
    have "files_only key db db1" using loop by (rule files_only_for_each) (rule insert_pending_file_only)
    then have "q_jobs db1 = q_jobs db" by (simp add: files_only_def)
    with ok st show ?thesis using set by (rule set_failures_stage)
  qed
  from hoare_stage_op[OF _ this, of "SaveFilePlan key files failures"] show ?thesis by simp
qed

lemma save_file_failures_stage:
  "hoare (\<lambda>db. running cfg key db0 db \<and> at_stage key st db) (save_file_failures now key failures)
     (\<lambda>_ db. running cfg key db0 db \<and> at_stage key st db) (\<lambda>_ db. running cfg key db0 db \<and> at_stage key st db)"
proof -
  have "at_stage key st db'" if ok: "queue_ok cfg db" and st: "at_stage key st db"
    and step: "run_op cfg now (SaveFileFailures key failures) db = (Inr (), db')" for db db'
  proof -
    from step obtain n where "set_file_failures key failures now db = (Inr n, db')"
      by (auto simp: save_file_failures_def transaction_Inr seqp_Inr)
    with ok st show ?thesis by (rule set_failures_stage[OF _ _ refl])
  qed
  from hoare_stage_op[OF _ this, of "SaveFileFailures key failures"] show ?thesis by simp
qed

lemma mark_file_failed_stage:
  "hoare (\<lambda>db. running cfg key db0 db \<and> at_stage key st db) (mark_file_failed now key i detail failures)
     (\<lambda>_ db. running cfg key db0 db \<and> at_stage key st db) (\<lambda>_ db. running cfg key db0 db \<and> at_stage key st db)"
proof -
  have "at_stage key st db'" if ok: "queue_ok cfg db" and st: "at_stage key st db"
    and step: "run_op cfg now (MarkFileFailed key i detail failures) db = (Inr (), db')" for db db'
  proof -
    from step obtain db1 m n where upd: "update_files (\<lambda>f. fl_execution_key f = key \<and> fl_ordinal f = i)
         (\<lambda>f. f\<lparr>fl_error_detail := Some detail\<rparr>) db = (Inr m, db1)"
      and set: "set_file_failures key failures now db1 = (Inr n, db')"
      by (auto simp: mark_file_failed_def transaction_Inr seqp_Inr)
    have "q_jobs db1 = q_jobs db" using upd by (auto simp: update_files_def)
    with ok st show ?thesis using set by (rule set_failures_stage)
  qed
  from hoare_stage_op[OF _ this, of "MarkFileFailed key i detail failures"] show ?thesis by simp
qed

lemma mark_file_archived_stage:
  "hoare (\<lambda>db. running cfg key db0 db \<and> at_stage key st db) (mark_file_archived key i)
     (\<lambda>_ db. running cfg key db0 db \<and> at_stage key st db) (\<lambda>_ db. running cfg key db0 db \<and> at_stage key st db)"
proof -
  have "at_stage key st db'" if "at_stage key st db" "run_op cfg 0 (MarkFileArchived key i) db = (Inr (), db')" for db db'
    using that by (auto simp: mark_file_archived_def seqp_Inr update_files_def at_stage_def find_job_row_def)
  from hoare_stage_op[OF _ this, where op = "MarkFileArchived key i"] show ?thesis by simp
qed

text \<open>The operations that advance the job.\<close>

lemma accept_start_stage:
  "hoare (running cfg key db0) (accept_start now key run)
     (\<lambda>_ db. running cfg key db0 db \<and> at_stage key Collecting db) (\<lambda>_. running cfg key db0)"
proof (rule hoareI)
  fix s e t assume "running cfg key db0 s" "accept_start now key run s = (Inl e, t)"
  then show "running cfg key db0 t" using hoare_Inl[OF hoare_edits[of key "AcceptStart key run" cfg db0 now], of s e t] by simp
next
  fix s t and a :: unit assume s: "running cfg key db0 s" "accept_start now key run s = (Inr a, t)"
  have run: "running cfg key db0 t" using hoare_Inr[OF hoare_edits[of key "AcceptStart key run" cfg db0 now], of s a t] s by simp
  obtain upd: "update_jobs (\<lambda>j. jb_execution_key j = key \<and> jb_stage j = StartPending)
         (\<lambda>j. j\<lparr>jb_task_run_id := Some run, jb_stage := Collecting, jb_updated_at := now\<rparr>) s = (Inr 1, t)"
    using s(2) by (auto simp: accept_start_def transaction_Inr seqp_Inr)
  have "count_where (\<lambda>j. jb_execution_key j = key \<and> jb_stage j = StartPending) (q_jobs s) \<noteq> 0"
    using upd by (simp add: update_jobs_def)
  then obtain j where j: "j \<in> set (q_jobs s)" "jb_execution_key j = key" "jb_stage j = StartPending"
    unfolding count_where_pos by blast
  have "at_stage key StartPending s"
    using find_job_row_unique[OF queue_ok_keys[OF running_ok[OF s(1)]] j(1)] j by (simp add: at_stage_def)
  with running_ok[OF s(1)] have "at_stage key Collecting t"
    using update_jobs_rows[OF upd] by (rule at_stage_update) simp_all
  with run show "running cfg key db0 t \<and> at_stage key Collecting t" by simp
qed

lemma save_manifest_stage:
  "hoare (\<lambda>db. running cfg key db0 db \<and> at_stage key Collecting db) (save_manifest now key request)
     (\<lambda>_ db. running cfg key db0 db \<and> at_stage key ManifestPending db) (\<lambda>_ db. running cfg key db0 db \<and> at_stage key Collecting db)"
proof -
  have "at_stage key ManifestPending db'" if ok: "queue_ok cfg db" and st: "at_stage key Collecting db"
    and step: "run_op cfg now (SaveManifest key request) db = (Inr (), db')" for db db'
  proof -
    have "save_manifest now key request db = (Inr (), db')" using step by simp
    then show ?thesis
    proof (rule save_manifest_Inr)
      fix db1 n
      assume ins: "insert_delivery_row ''save manifest''
          (new_delivery key ManifestRequest (mr_idempotency_key request) (encode_manifest_request request) now) db = (Inr (), db1)"
        and upd: "update_jobs (\<lambda>j. jb_execution_key j = key \<and> jb_stage j = Collecting)
         (\<lambda>j. j\<lparr>jb_stage := ManifestPending, jb_updated_at := now\<rparr>) db1 = (Inr n, db')"
      have "q_jobs db' = update_where (\<lambda>j. jb_execution_key j = key \<and> jb_stage j = Collecting)
         (\<lambda>j. j\<lparr>jb_stage := ManifestPending, jb_updated_at := now\<rparr>) (q_jobs db)"
        using update_jobs_rows[OF upd] insert_delivery_row_Inr[OF ins] by simp
      with ok st show ?thesis by (rule at_stage_update) simp_all
    qed
  qed
  from hoare_stage_op[OF _ this, of "SaveManifest key request"] show ?thesis by simp
qed

lemma accept_manifest_stage:
  "hoare (\<lambda>db. running cfg key db0 db \<and> at_stage key ManifestPending db) (accept_manifest now key ids)
     (\<lambda>_ db. running cfg key db0 db \<and> at_stage key ReportBuilding db) (\<lambda>_ db. running cfg key db0 db \<and> at_stage key ManifestPending db)"
proof -
  have "at_stage key ReportBuilding db'" if ok: "queue_ok cfg db" and st: "at_stage key ManifestPending db"
    and step: "run_op cfg now (AcceptManifest key ids) db = (Inr (), db')" for db db'
  proof -
    have "accept_manifest now key ids db = (Inr (), db')" using step by simp
    then show ?thesis
    proof (rule accept_manifest_Inr)
      fix d manifest db1 n
      assume loop: "for_each (map_raw_file_id key) (zip ids (mr_files manifest)) db = (Inr (), db1)"
        and upd: "update_jobs (\<lambda>j. jb_execution_key j = key \<and> jb_stage j = ManifestPending)
           (\<lambda>j. j\<lparr>jb_stage := ReportBuilding, jb_updated_at := now\<rparr>) db1 = (Inr n, db')"
      have "files_only key db db1" using loop by (rule files_only_for_each) (rule map_raw_file_id_only)
      then have "q_jobs db' = update_where (\<lambda>j. jb_execution_key j = key \<and> jb_stage j = ManifestPending)
           (\<lambda>j. j\<lparr>jb_stage := ReportBuilding, jb_updated_at := now\<rparr>) (q_jobs db)"
        using update_jobs_rows[OF upd] by (simp add: files_only_def)
      with ok st show ?thesis by (rule at_stage_update) simp_all
    qed
  qed
  from hoare_stage_op[OF _ this, of "AcceptManifest key ids"] show ?thesis by simp
qed

text \<open>\<open>save_report\<close> moves on from the two stages it knows, and leaves any other alone.\<close>

definition after_report :: "job_stage \<Rightarrow> job_stage" where
  "after_report st = (if st = Collecting \<or> st = ReportBuilding then ReportPending else st)"

lemma save_report_stage:
  "hoare (\<lambda>db. running cfg key db0 db \<and> at_stage key st db) (save_report now key request outcomes)
     (\<lambda>_ db. running cfg key db0 db \<and> at_stage key (after_report st) db) (\<lambda>_ db. running cfg key db0 db \<and> at_stage key st db)"
proof -
  have "at_stage key (after_report st) db'" if ok: "queue_ok cfg db" and st: "at_stage key st db"
    and step: "run_op cfg now (SaveReport key request outcomes) db = (Inr (), db')" for db db'
  proof -
    have "save_report now key request outcomes db = (Inr (), db')" using step by simp
    then show ?thesis
    proof (rule save_report_Inr)
      fix doc db1 db2 n
      assume ins: "insert_delivery_row ''save report'' (new_delivery key ReportRequest (rr_idempotency_key request) doc now) db = (Inr (), db1)"
        and loop: "for_each (save_parsed_outcome key) (zip [0..<length outcomes] outcomes) db1 = (Inr (), db2)"
        and upd: "update_jobs (\<lambda>j. jb_execution_key j = key \<and> (jb_stage j = Collecting \<or> jb_stage j = ReportBuilding))
           (\<lambda>j. j\<lparr>jb_stage := ReportPending, jb_updated_at := now\<rparr>) db2 = (Inr n, db')"
      have "q_jobs db' = update_where (\<lambda>j. jb_execution_key j = key \<and> (jb_stage j = Collecting \<or> jb_stage j = ReportBuilding))
           (\<lambda>j. j\<lparr>jb_stage := ReportPending, jb_updated_at := now\<rparr>) (q_jobs db)"
        using update_jobs_rows[OF upd] save_parsed_outcomes_frame[OF loop] insert_delivery_row_Inr[OF ins] by simp
      with ok st show ?thesis by (rule at_stage_update) (auto simp: after_report_def)
    qed
  qed
  from hoare_stage_op[OF _ this, of "SaveReport key request outcomes"] show ?thesis by simp
qed

lemma mark_attention_stage:
  "hoare (running cfg key db0) (mark_requires_attention now key kind reason)
     (\<lambda>_ db. running cfg key db0 db \<and> at_stage key RequiresAttention db) (\<lambda>_. running cfg key db0)"
proof (rule hoareI)
  fix s e t assume "running cfg key db0 s" "mark_requires_attention now key kind reason s = (Inl e, t)"
  then show "running cfg key db0 t" using hoare_Inl[OF hoare_edits[of key "MarkRequiresAttention key kind reason" cfg db0 now], of s e t] by simp
next
  fix s t and a :: unit assume s: "running cfg key db0 s" "mark_requires_attention now key kind reason s = (Inr a, t)"
  have run: "running cfg key db0 t"
    using hoare_Inr[OF hoare_edits[of key "MarkRequiresAttention key kind reason" cfg db0 now], of s a t] s by simp
  from s(2) show "running cfg key db0 t \<and> at_stage key RequiresAttention t"
  proof (rule mark_requires_attention_Inr)
    fix j resume n
    assume j: "find_job_row key s = Some j" and upd: "update_jobs (\<lambda>j. jb_execution_key j = key)
           (\<lambda>j. j\<lparr>jb_stage := RequiresAttention, jb_retry_stage := Some resume,
                  jb_last_error_kind := Some kind, jb_last_error := Some (take 512 reason),
                  jb_updated_at := now\<rparr>) s = (Inr n, t)"
    have st: "at_stage key (jb_stage j) s" using j by (simp add: at_stage_def)
    have rows: "q_jobs t = update_where (\<lambda>j. jb_execution_key j = key \<and> True)
           (\<lambda>j. j\<lparr>jb_stage := RequiresAttention, jb_retry_stage := Some resume,
                  jb_last_error_kind := Some kind, jb_last_error := Some (take 512 reason),
                  jb_updated_at := now\<rparr>) (q_jobs s)" using update_jobs_rows[OF upd] by simp
    have "at_stage key RequiresAttention t"
      by (rule at_stage_update[OF running_ok[OF s(1)] st rows]) simp_all
    with run show ?thesis by simp
  qed
qed

text \<open>The operations that end it.\<close>

lemma delete_job_settles:
  assumes run: "running cfg key db0 db" and del: "delete_jobs (\<lambda>j. jb_execution_key j = key \<and> p j) db1 = (Inr 1, db')"
    and same: "q_jobs db1 = q_jobs db" "q_files db1 = q_files db" "q_deliveries db1 = q_deliveries db" "q_attempts db1 = q_attempts db"
    and reach: "queue_reachable cfg db'"
  shows "settled cfg key db0 db'"
proof -
  have dist: "distinct (map jb_execution_key (q_jobs db))" using running_ok[OF run] by (rule queue_ok_keys)
  have db': "db' = snd (delete_jobs (\<lambda>j. jb_execution_key j = key \<and> p j) db1)" using del by simp
  have "count_where (\<lambda>j. jb_execution_key j = key \<and> p j) (q_jobs db) \<noteq> 0" using delete_jobs_changes[OF del] same(1) by simp
  then obtain j where j: "j \<in> set (q_jobs db)" "jb_execution_key j = key" "p j" unfolding count_where_pos by blast
  have only: "x = j" if "x \<in> set (q_jobs db)" "jb_execution_key x = key" for x
    using inj_key_eq[OF dist that(1) j(1)] j(2) that(2) by simp
  have nokey: "key \<notin> job_keys db'" using only j(3) by (auto simp: db' delete_jobs_def Let_def job_keys_def same(1))
  have oth: "others key db' = others key db"
    by (auto simp: others_def db' delete_jobs_def Let_def same intro!: filter_cong)
  have "counted_at key db'" using nokey by (auto simp: counted_at_def job_keys_def)
  then have "counted db'" using counted_others[OF _ oth] run by (simp add: running_def)
  with nokey oth reach run show ?thesis by (simp add: settled_def running_def)
qed

lemma complete_job_settles:
  "hoare (running cfg key db0) (complete_job cfg now key) (\<lambda>_. settled cfg key db0) (\<lambda>_. running cfg key db0)"
proof (rule hoareI)
  fix s e t assume "running cfg key db0 s" "complete_job cfg now key s = (Inl e, t)"
  then show "running cfg key db0 t" by (auto simp: complete_job_def dest: transaction_Inl)
next
  fix s t and a :: unit assume s: "running cfg key db0 s" "complete_job cfg now key s = (Inr a, t)"
  have reach: "queue_reachable cfg t" using s queue_reachable_run[of cfg s now "CompleteJob key" "Inr ()" t] by (simp add: running_def)
  from s(2) show "settled cfg key db0 t"
  proof (rule complete_job_Inr)
    fix db1 db2
    assume db1: "db1 = s\<lparr>q_processed := insert_or_ignore (q_processed s) (processed_rows_of key now s)\<rparr>"
      and trim: "trim_processed_of (qc_processed_capacity cfg) key db1 = (Inr (), db2)"
      and del: "delete_jobs (\<lambda>j. jb_execution_key j = key \<and> jb_stage j = ReportPending) db2 = (Inr 1, t)"
    have same: "q_jobs db2 = q_jobs s" "q_files db2 = q_files s" "q_deliveries db2 = q_deliveries s" "q_attempts db2 = q_attempts s"
      using trim by (auto simp: trim_processed_of_def db1 split: option.splits)
    show ?thesis by (rule delete_job_settles[OF s(1) del same reach])
  qed
qed

lemma discard_job_settles:
  "hoare (running cfg key db0) (discard_start_pending_job key) (\<lambda>_. settled cfg key db0) (\<lambda>_. running cfg key db0)"
proof (rule hoareI)
  fix s e t assume "running cfg key db0 s" "discard_start_pending_job key s = (Inl e, t)"
  then show "running cfg key db0 t" by (auto simp: discard_start_pending_job_def dest: transaction_Inl)
next
  fix s t and a :: unit assume s: "running cfg key db0 s" "discard_start_pending_job key s = (Inr a, t)"
  have reach: "queue_reachable cfg t" using s queue_reachable_run[of cfg s 0 "DiscardStartPending key" "Inr ()" t] by (simp add: running_def)
  have "delete_jobs (\<lambda>j. jb_execution_key j = key \<and> jb_stage j = StartPending) s = (Inr 1, t)"
    using s(2) by (auto simp: discard_start_pending_job_def transaction_Inr seqp_Inr)
  then show "settled cfg key db0 t" by (rule delete_job_settles[OF s(1) _ refl refl refl refl reach])
qed

section \<open>The stages\<close>

text \<open>\<open>at_hand\<close>: the job the executor works with is the one in the queue, and past the start request.\<close>

definition at_hand :: "queue_config \<Rightarrow> string \<Rightarrow> queue_db \<Rightarrow> recovered_job \<Rightarrow> queue_db \<Rightarrow> bool" where
  "at_hand cfg key db0 job db \<longleftrightarrow> running cfg key db0 db \<and> current key job db \<and> rj_stage job \<noteq> Some StartPending"

lemma current_at_stage: "current key job db \<Longrightarrow> at_stage key st db \<Longrightarrow> is_executable_stage st \<Longrightarrow> rj_stage job = Some st"
  by (auto simp: current_def at_stage_def effective_stage_def is_executable_stage_def)

lemma at_hand_running: "at_hand cfg key db0 job db \<Longrightarrow> running cfg key db0 db"
  by (simp add: at_hand_def)

lemma current_key: "current key job db \<Longrightarrow> rj_execution_key job = key"
  by (simp add: current_def)

text \<open>A job in a stage that sends nothing is not waiting.\<close>

lemma current_settled_stage:
  assumes "running cfg key db0 db" "current key job db" "rj_stage job = Some st" "\<not> is_delivering_stage st"
  shows "at_stage key st db"
proof -
  obtain j where j: "find_job_row key db = Some j" "jb_stage j \<noteq> RequiresAttention" "effective_stage j = Some st"
    using assms(2,3) by (auto simp: current_def)
  have "jb_stage j \<noteq> RetryWait"
    using waiting_saved[OF running_ok[OF assms(1)], of j] find_job_row_Some[OF j(1)] j(3) assms(4) by (auto simp: effective_stage_def)
  with j show ?thesis by (auto simp: at_stage_def effective_stage_def)
qed

lemma load_stage:
  "hoare (queue_of (\<lambda>db. running cfg key db0 db \<and> P db)) (exec_load_job key)
     (\<lambda>j. queue_of (\<lambda>db. running cfg key db0 db \<and> P db \<and> current key j db)) (\<lambda>_. queue_of (\<lambda>db. running cfg key db0 db \<and> P db))"
proof -
  have "hoare (\<lambda>db. running cfg key db0 db \<and> P db) (\<lambda>db. (load_job key db, db))
     (\<lambda>j db. running cfg key db0 db \<and> P db \<and> current key j db) (\<lambda>_ db. running cfg key db0 db \<and> P db)"
    by (rule hoareI) (auto simp: running_def dest: queue_reachable_ok queue_reachable_sound intro: load_current)
  from hoare_on_queue[OF this] show ?thesis unfolding exec_load_job_def .
qed

lemma load_collected:
  "hoare (queue_of (\<lambda>db. running cfg key db0 db \<and> collected key db)) (exec_load_job key)
     (\<lambda>j. queue_of (at_hand cfg key db0 j)) (\<lambda>_. queue_of (\<lambda>db. running cfg key db0 db \<and> collected key db))"
  by (rule hoare_weaken[OF load_stage]) (auto simp: at_hand_def collected_def dest: current_at_stage)

lemma load_at_stage:
  "is_executable_stage st \<Longrightarrow> hoare (queue_of (\<lambda>db. running cfg key db0 db \<and> at_stage key st db)) (exec_load_job key)
     (\<lambda>j. queue_of (\<lambda>db. running cfg key db0 db \<and> at_stage key st db \<and> current key j db \<and> rj_stage j = Some st))
     (\<lambda>_. queue_of (\<lambda>db. running cfg key db0 db \<and> at_stage key st db))"
  by (rule hoare_weaken[OF load_stage]) (auto dest: current_at_stage)

text \<open>Collecting.\<close>

abbreviation collecting :: "queue_config \<Rightarrow> string \<Rightarrow> queue_db \<Rightarrow> exec_world \<Rightarrow> bool" where
  "collecting cfg key db0 \<equiv> queue_of (\<lambda>db. running cfg key db0 db \<and> at_stage key Collecting db)"

definition collecting_job :: "queue_config \<Rightarrow> string \<Rightarrow> queue_db \<Rightarrow> recovered_job \<Rightarrow> queue_db \<Rightarrow> bool" where
  "collecting_job cfg key db0 job db \<longleftrightarrow>
     running cfg key db0 db \<and> at_stage key Collecting db \<and> rj_execution_key job = key \<and> rj_stage job = Some Collecting"

lemma collecting_job_at_hand: "collecting_job cfg key db0 job db \<Longrightarrow> at_hand cfg key db0 job db"
  by (auto simp: collecting_job_def at_hand_def current_def at_stage_def effective_stage_def is_executable_stage_def)

lemma load_collecting:
  "hoare (collecting cfg key db0) (exec_load_job key) (\<lambda>j. queue_of (collecting_job cfg key db0 j)) (\<lambda>_. collecting cfg key db0)"
  by (rule hoare_weaken[OF load_at_stage[of Collecting]]) (auto simp: collecting_job_def is_executable_stage_def current_def)

lemma keep_collecting: "quiet m \<Longrightarrow> hoare (collecting cfg key db0) m (\<lambda>_. collecting cfg key db0) (\<lambda>_. collecting cfg key db0)"
  using hoare_quiet .

lemma plan_stage_collecting:
  "hoare (queue_of (collecting_job cfg key db0 job)) (plan_stage env xcfg job)
     (\<lambda>j. queue_of (collecting_job cfg key db0 j)) (\<lambda>_. collecting cfg key db0)"
proof -
  have save: "hoare (collecting cfg key db0) (on_queue_now (\<lambda>now. save_file_plan now key plan failures))
      (\<lambda>_. collecting cfg key db0) (\<lambda>_. collecting cfg key db0)" for plan failures
    by (rule hoare_on_queue_now[OF save_file_plan_stage])
  have plan: "quiet (if rj_retry_files job = [] then plan_from_directory env xcfg job else plan_from_retry_targets env xcfg job)"
    by (simp add: quiet_plan_from_directory quiet_plan_from_retry_targets)
  have body: "hoare (collecting cfg key db0) (seqp (if rj_retry_files job = [] then plan_from_directory env xcfg job else plan_from_retry_targets env xcfg job)
             (\<lambda>(plan, failures).
           seqp (on_queue_now (\<lambda>now. save_file_plan now key plan failures)) (\<lambda>_. exec_load_job key)))
     (\<lambda>j. queue_of (collecting_job cfg key db0 j)) (\<lambda>_. collecting cfg key db0)"
    by (rule hoare_seqp[OF keep_collecting[OF plan]]) (auto simp: split_beta intro!: hoare_seqp[OF save] load_collecting)
  show ?thesis
  proof (cases "rj_execution_key job = key")
    case True
    show ?thesis unfolding plan_stage_def True
      using hoare_pre[OF body, of "queue_of (collecting_job cfg key db0 job)"]
      by (auto simp: collecting_job_def intro: hoare_ret)
  qed (auto simp: collecting_job_def hoare_def)
qed

lemma amend_stage_collecting:
  "hoare (queue_of (collecting_job cfg key db0 job)) (amend_stage job)
     (\<lambda>j. queue_of (collecting_job cfg key db0 j)) (\<lambda>_. collecting cfg key db0)"
proof -
  have save: "hoare (collecting cfg key db0) (on_queue_now (\<lambda>now. save_file_failures now key failures))
      (\<lambda>_. collecting cfg key db0) (\<lambda>_. collecting cfg key db0)" for failures
    by (rule hoare_on_queue_now[OF save_file_failures_stage])
  have body: "hoare (collecting cfg key db0) (seqp (on_queue_now (\<lambda>now. save_file_failures now key failures)) (\<lambda>_. exec_load_job key))
     (\<lambda>j. queue_of (collecting_job cfg key db0 j)) (\<lambda>_. collecting cfg key db0)" for failures
    by (rule hoare_seqp[OF save load_collecting])
  show ?thesis
  proof (cases "rj_execution_key job = key")
    case True
    show ?thesis unfolding amend_stage_def True Let_def
      using hoare_pre[OF body, of "queue_of (collecting_job cfg key db0 job)"]
      by (auto simp: collecting_job_def intro: hoare_ret)
  qed (auto simp: collecting_job_def hoare_def)
qed

lemma archive_files_collecting:
  assumes "rj_execution_key job = key"
  shows "hoare (collecting cfg key db0) (archive_files env xcfg job failures entries failed fs)
     (\<lambda>_. collecting cfg key db0) (\<lambda>_. collecting cfg key db0)"
proof (induction fs arbitrary: failures entries failed)
  case Nil
  show ?case by (auto intro: hoare_ret)
next
  case (Cons f fs)
  have fail: "hoare (collecting cfg key db0) (on_queue_now (\<lambda>now. mark_file_failed now key (fp_ordinal f) detail failures'))
      (\<lambda>_. collecting cfg key db0) (\<lambda>_. collecting cfg key db0)" for detail failures'
    by (rule hoare_on_queue_now[OF mark_file_failed_stage])
  have done': "hoare (collecting cfg key db0) (on_queue (mark_file_archived key (fp_ordinal f)))
      (\<lambda>_. collecting cfg key db0) (\<lambda>_. collecting cfg key db0)"
    by (rule hoare_on_queue[OF mark_file_archived_stage])
  have next': "hoare (collecting cfg key db0) (case r of
          Inl e \<Rightarrow>
            if is_archive_conflict e then throw e
            else
              let failures' = failures @ [archive_failure (fp_source_path f) (fp_original_name f) (what env e)
                                            (inherited_archive_ref (rj_retry_files job) (fp_source_path f))] in
              seqp (on_queue_now (\<lambda>now. mark_file_failed now key (fp_ordinal f) (what env e) failures')) (\<lambda>_.
                archive_files env xcfg job failures' entries True fs)
        | Inr _ \<Rightarrow>
            seqp (on_queue (mark_file_archived key (fp_ordinal f))) (\<lambda>_.
              archive_files env xcfg job failures (entries @ [manifest_item f]) failed fs))
     (\<lambda>_. collecting cfg key db0) (\<lambda>_. collecting cfg key db0)" for r
    by (cases r) (auto simp: Let_def intro!: hoare_seqp[OF fail] hoare_seqp[OF done'] Cons.IH hoare_throw)
  show ?case
  proof (cases "fp_error_detail f = []")
    case True
    show ?thesis unfolding archive_files.simps Let_def assms
      by (simp only: True simp_thms if_False,
          rule hoare_seqp[OF keep_collecting], intro quiet_intros,
          rule hoare_seqp[OF keep_collecting], intro quiet_intros, rule next'[unfolded Let_def])
  next
    case False
    with Cons.IH show ?thesis by simp
  qed
qed

lemma run_collecting_outcome:
  "hoare (queue_of (collecting_job cfg key db0 job)) (run_collecting_stage env xcfg job)
     (\<lambda>j. queue_of (at_hand cfg key db0 j)) (\<lambda>_. queue_of (\<lambda>db. running cfg key db0 db \<and> collected key db))"
proof -
  let ?E = "\<lambda>_::agent_exn. queue_of (\<lambda>db. running cfg key db0 db \<and> collected key db)"
  have exits: "at_stage key Collecting db \<Longrightarrow> collected key db" "at_stage key ManifestPending db \<Longrightarrow> collected key db" for db key
    by (auto intro: at_stage_collected simp: is_executable_stage_def)
  have save: "hoare (collecting cfg key db0) (on_queue_now (\<lambda>now. save_manifest now key request))
      (\<lambda>_. queue_of (\<lambda>db. running cfg key db0 db \<and> collected key db)) ?E" for request
    by (rule hoare_weaken[OF hoare_on_queue_now[OF save_manifest_stage]]) (auto intro: exits)
  have load: "hoare (collecting cfg key db0) (exec_load_job key) (\<lambda>j. queue_of (at_hand cfg key db0 j)) ?E"
    by (rule hoare_pre[OF load_collected]) (auto intro: exits)
  have plan: "hoare (queue_of (collecting_job cfg key db0 job)) (plan_stage env xcfg job)
     (\<lambda>j. queue_of (collecting_job cfg key db0 j)) ?E"
    by (rule hoare_weaken[OF plan_stage_collecting]) (auto intro: exits)
  have amend: "hoare (queue_of (collecting_job cfg key db0 j)) (amend_stage j)
     (\<lambda>j. queue_of (collecting_job cfg key db0 j)) ?E" for j
    by (rule hoare_weaken[OF amend_stage_collecting]) (auto intro: exits)
  have last': "hoare (queue_of (collecting_job cfg key db0 j))
     (seqp (archive_files env xcfg j (rj_file_failures j) [] False (rj_files j)) (\<lambda>(entries, failed_this_run).
       let key = rj_execution_key j; node = tc_node_code (rj_task j); run = rj_task_run_id j in
       if entries \<noteq> [] then
         seqp (on_queue_now (\<lambda>now. save_manifest now key
             \<lparr>mr_task_run_id = run, mr_node_code = node,
              mr_idempotency_key = make_manifest_idempotency_key (xe_sha256 env) node run, mr_files = entries\<rparr>)) (\<lambda>_.
           exec_load_job key)
       else if failed_this_run then exec_load_job key else ret j))
     (\<lambda>j. queue_of (at_hand cfg key db0 j)) ?E" for j
  proof (cases "rj_execution_key j = key \<and> rj_stage j = Some Collecting")
    case True
    have files: "hoare (queue_of (collecting_job cfg key db0 j)) (archive_files env xcfg j (rj_file_failures j) [] False (rj_files j))
        (\<lambda>_. collecting cfg key db0) ?E"
      by (rule hoare_weaken[OF archive_files_collecting[of j key]])
        (use True in \<open>auto simp: collecting_job_def intro: exits\<close>)
    have here: "collecting cfg key db0 w \<Longrightarrow> queue_of (at_hand cfg key db0 j) w" for w
      using True collecting_job_at_hand[of cfg key db0 j "ew_queue w"] by (simp add: collecting_job_def)
    have k: "rj_execution_key j = key" using True by simp
    show ?thesis unfolding k Let_def
      by (intro hoare_seqp[OF files])
        (auto simp: split_beta intro!: hoare_seqp[OF save] load_collected load hoare_ret here)
  qed (auto simp: collecting_job_def hoare_def)
  show ?thesis unfolding run_collecting_stage_def by (rule hoare_seqp[OF plan] hoare_seqp[OF amend] last')+
qed

lemma failure_report_outcome:
  assumes k: "rj_execution_key job = key"
  shows "hoare (queue_of (\<lambda>db. running cfg key db0 db \<and> collected key db)) (save_collection_failure_report env job message)
     (\<lambda>j. queue_of (at_hand cfg key db0 j)) (\<lambda>_. queue_of (running cfg key db0))"
proof -
  let ?E = "\<lambda>_::agent_exn. queue_of (running cfg key db0)"
  let ?C = "queue_of (\<lambda>db. running cfg key db0 db \<and> collected key db)"
  have load0: "hoare ?C (exec_load_job key) (\<lambda>j. queue_of (\<lambda>db. running cfg key db0 db \<and> collected key db \<and> current key j db)) ?E"
    by (rule hoare_weaken[OF load_stage]) auto
  have load1: "hoare ?C (exec_load_job key) (\<lambda>j. queue_of (at_hand cfg key db0 j)) ?E"
    by (rule hoare_weaken[OF load_collected]) auto
  have clock: "hoare (queue_of P) now_reading (\<lambda>_. queue_of P) ?E" for P
    by (rule hoareI) (auto simp: now_reading_def split: list.splits)
  have save0: "hoare (\<lambda>db. running cfg key db0 db \<and> collected key db) (save_report now key request outcomes)
      (\<lambda>_ db. running cfg key db0 db \<and> collected key db) (\<lambda>_. running cfg key db0)" for now request outcomes
  proof (rule hoareI)
    fix s e t assume s: "running cfg key db0 s \<and> collected key s" "save_report now key request outcomes s = (Inl e, t)"
    then obtain st where "at_stage key st s" by (auto simp: collected_def)
    with hoare_Inl[OF save_report_stage[of cfg key db0 st now request outcomes], of s e t] s show "running cfg key db0 t" by simp
  next
    fix s t and a :: unit assume s: "running cfg key db0 s \<and> collected key s" "save_report now key request outcomes s = (Inr a, t)"
    then obtain st where st: "at_stage key st s" "is_executable_stage st" "st \<noteq> StartPending" by (auto simp: collected_def)
    then have "is_executable_stage (after_report st)" "after_report st \<noteq> StartPending" by (auto simp: after_report_def is_executable_stage_def)
    with hoare_Inr[OF save_report_stage[of cfg key db0 st now request outcomes], of s a t] s st
    show "running cfg key db0 t \<and> collected key t" by (auto intro: at_stage_collected)
  qed
  have save: "hoare (queue_of (\<lambda>db. running cfg key db0 db \<and> collected key db \<and> current key j db))
      (on_queue_now (\<lambda>now. save_report now (rj_execution_key j) request outcomes)) (\<lambda>_. ?C) ?E" for j request outcomes
  proof (rule hoare_given)
    assume k: "rj_execution_key j = key"
    show "hoare (queue_of (\<lambda>db. running cfg key db0 db \<and> collected key db \<and> current key j db))
      (on_queue_now (\<lambda>now. save_report now (rj_execution_key j) request outcomes)) (\<lambda>_. ?C) ?E"
      unfolding k by (rule hoare_pre[OF hoare_on_queue_now[OF save0]]) simp
  qed (auto dest: current_key)
  have load2: "hoare ?C (exec_load_job (rj_execution_key j)) (\<lambda>j. queue_of (at_hand cfg key db0 j)) ?E"
    if "rj_execution_key j = key" for j using load1 that by simp
  have rest: "hoare (queue_of (\<lambda>db. running cfg key db0 db \<and> collected key db \<and> current key j db))
      (seqp (on_queue_now (\<lambda>now. save_report now (rj_execution_key j) request outcomes)) (\<lambda>_. exec_load_job (rj_execution_key j)))
      (\<lambda>j. queue_of (at_hand cfg key db0 j)) ?E" for j request outcomes
  proof (rule hoare_given)
    assume "rj_execution_key j = key"
    from load2[OF this] show "hoare (queue_of (\<lambda>db. running cfg key db0 db \<and> collected key db \<and> current key j db))
      (seqp (on_queue_now (\<lambda>now. save_report now (rj_execution_key j) request outcomes)) (\<lambda>_. exec_load_job (rj_execution_key j)))
      (\<lambda>j. queue_of (at_hand cfg key db0 j)) ?E" by (rule hoare_seqp[OF save])
  qed (auto dest: current_key)
  show ?thesis unfolding save_collection_failure_report_def Let_def k
    by (rule hoare_seqp[OF load0] hoare_seqp[OF clock] rest)+
qed

text \<open>
  The three requests of a job, each through a channel that keeps the contract, and the stages in order.
  A stage that ends the run returns nothing to go on with; the job is then gone or set aside.
\<close>

lemma settledI: "running cfg key db0 db \<Longrightarrow> at_stage key RequiresAttention db \<Longrightarrow> settled cfg key db0 db"
  by (simp add: running_def settled_def)

lemma quiet_clock: "hoare (queue_of P) now_reading (\<lambda>_. queue_of P) (\<lambda>_. queue_of P)"
  by (rule hoareI) (auto simp: now_reading_def split: list.splits)

lemma collecting_stage_outcome:
  "hoare (queue_of (at_hand cfg key db0 job)) (collecting_stage env xcfg job)
     (\<lambda>r. queue_of (\<lambda>db. case r of None \<Rightarrow> settled cfg key db0 db | Some j \<Rightarrow> at_hand cfg key db0 j db))
     (\<lambda>_. queue_of (running cfg key db0))"
  (is "hoare _ _ ?Q ?E")
proof (rule hoare_given)
  assume k: "rj_execution_key job = key"
  have run: "hoare (queue_of (at_hand cfg key db0 job)) (attempt (run_collecting_stage env xcfg job))
      (\<lambda>r. queue_of (\<lambda>db. case r of Inl e \<Rightarrow> running cfg key db0 db \<and> collected key db | Inr j \<Rightarrow> at_hand cfg key db0 j db)) ?E"
    if st: "rj_stage job = Some Collecting"
  proof -
    have "hoare (queue_of (at_hand cfg key db0 job)) (run_collecting_stage env xcfg job)
      (\<lambda>j. queue_of (at_hand cfg key db0 j)) (\<lambda>_. queue_of (\<lambda>db. running cfg key db0 db \<and> collected key db))"
      using st k by (intro hoare_pre[OF run_collecting_outcome])
        (auto simp: at_hand_def collecting_job_def is_delivering_stage_def intro: current_settled_stage)
    then show ?thesis by (intro hoare_attempt) simp
  qed
  have mark: "hoare (queue_of (\<lambda>db. running cfg key db0 db \<and> collected key db))
      (on_queue_now (\<lambda>now. mark_requires_attention now key kind reason)) (\<lambda>_. queue_of (settled cfg key db0)) ?E" for kind reason
    by (rule hoare_weaken[OF hoare_on_queue_now[OF mark_attention_stage]]) (auto intro: settledI)
  note report = failure_report_outcome[OF k]
  have handle: "hoare (queue_of (\<lambda>db. case r of Inl e \<Rightarrow> running cfg key db0 db \<and> collected key db | Inr j \<Rightarrow> at_hand cfg key db0 j db))
      (case r of
          Inr j \<Rightarrow> ret (Some j)
        | Inl e \<Rightarrow>
            if is_archive_conflict e then
              seqp (on_queue_now (\<lambda>now. mark_requires_attention now key ''archive_conflict'' (what env e))) (\<lambda>_. ret None)
            else if is_queue_error e then throw e
            else seqp (save_collection_failure_report env job (what env e)) (\<lambda>j. ret (Some j))) ?Q ?E" for r
    by (cases r) (auto intro!: hoare_ret hoare_throw hoare_seqp[OF mark] hoare_seqp[OF report])
  show "hoare (queue_of (at_hand cfg key db0 job)) (collecting_stage env xcfg job) ?Q ?E"
    unfolding collecting_stage_def k by (auto intro!: hoare_seqp[OF run] handle hoare_ret)
qed (auto simp: at_hand_def dest: current_key)

lemma report_stage_outcome:
  "hoare (queue_of (\<lambda>db. at_hand cfg key db0 job db \<and> rj_stage job \<noteq> Some ManifestPending)) (report_stage env job)
     (\<lambda>j. queue_of (\<lambda>db. at_hand cfg key db0 j db \<and> rj_stage j = Some ReportPending)) (\<lambda>_. queue_of (running cfg key db0))"
  (is "hoare ?P _ ?Q ?E")
proof (rule hoare_given)
  assume k: "rj_execution_key job = key"
  have body: "hoare ?P (seqp (build_files env job (initial_draft job) (rj_files job)) (\<lambda>d.
           seqp now_reading (\<lambda>t.
           seqp (on_queue_now (\<lambda>now. save_report now key (draft_report env job d t) (rd_outcomes d))) (\<lambda>_.
             exec_load_job key)))) ?Q ?E" if st: "rj_stage job = Some st" "st = Collecting \<or> st = ReportBuilding" for st
  proof -
    let ?S = "queue_of (\<lambda>db. running cfg key db0 db \<and> at_stage key st db)"
    let ?T = "queue_of (\<lambda>db. running cfg key db0 db \<and> at_stage key ReportPending db)"
    have st': "at_stage key st db" if "at_hand cfg key db0 job db" for db
      using that st current_settled_stage[of cfg key db0 db job st] by (auto simp: at_hand_def is_delivering_stage_def)
    have build: "hoare ?P (build_files env job (initial_draft job) (rj_files job)) (\<lambda>_. ?S) ?E"
      by (rule hoare_weaken[OF hoare_quiet[OF quiet_build_files, where P = "\<lambda>db. at_hand cfg key db0 job db"]]) (auto intro: st' at_hand_running)
    have clock: "hoare ?S now_reading (\<lambda>_. ?S) ?E"
      by (rule hoare_weaken[OF quiet_clock[where P = "\<lambda>db. running cfg key db0 db \<and> at_stage key st db"]]) auto
    have save: "hoare ?S (on_queue_now (\<lambda>now. save_report now key request outcomes)) (\<lambda>_. ?T) ?E" for request outcomes
      by (rule hoare_weaken[OF hoare_on_queue_now[OF save_report_stage]]) (use st(2) in \<open>auto simp: after_report_def\<close>)
    have load: "hoare ?T (exec_load_job key) ?Q ?E"
      by (rule hoare_weaken[OF load_at_stage]) (auto simp: at_hand_def is_executable_stage_def)
    show ?thesis by (rule hoare_seqp[OF build] hoare_seqp[OF clock] hoare_seqp[OF save] load)+
  qed
  show "hoare ?P (report_stage env job) ?Q ?E"
  proof (cases "rj_stage job = Some Collecting \<or> rj_stage job = Some ReportBuilding")
    case True
    with body show ?thesis unfolding report_stage_def k by auto
  next
    case False
    have "hoare ?P (ret job) ?Q ?E"
      by (rule hoare_ret) (use False in \<open>auto simp: at_hand_def current_def is_executable_stage_def\<close>)
    with False show ?thesis by (simp add: report_stage_def)
  qed
qed (auto simp: at_hand_def dest: current_key)

locale job_client =
  start: request_channel "ec_queue cfg" StartRequest sr_execution_key "xe_start env" +
  manifest: request_channel "ec_queue cfg" ManifestRequest mr_idempotency_key "xe_manifest env" +
  report: request_channel "ec_queue cfg" ReportRequest rr_idempotency_key "xe_report env"
  for env :: exec_env and cfg :: exec_config
begin

lemma start_stage_outcome:
  "hoare (queue_of (\<lambda>db. running (ec_queue cfg) key db0 db \<and> current key job db)) (start_stage env job)
     (\<lambda>r. queue_of (\<lambda>db. case r of None \<Rightarrow> settled (ec_queue cfg) key db0 db | Some j \<Rightarrow> at_hand (ec_queue cfg) key db0 j db))
     (\<lambda>_. queue_of (running (ec_queue cfg) key db0))"
  (is "hoare ?P _ ?Q ?E")
proof (rule hoare_given)
  assume k: "rj_execution_key job = key"
  let ?R = "queue_of (running (ec_queue cfg) key db0)"
  have send: "hoare ?P (on_queue (xe_start env (rj_start_request job))) (\<lambda>_. ?R) ?E" if "rj_stage job = Some StartPending"
  proof (rule hoare_on_queue, rule hoareI)
    fix s r t assume s: "running (ec_queue cfg) key db0 s \<and> current key job s" "xe_start env (rj_start_request job) s = (Inr r, t)"
    then show "running (ec_queue cfg) key db0 t" using that start.send_keeps[of key db0 s "rj_start_request job"] by (simp add: current_def)
  next
    fix s e t assume s: "running (ec_queue cfg) key db0 s \<and> current key job s" "xe_start env (rj_start_request job) s = (Inl e, t)"
    then show "running (ec_queue cfg) key db0 t" using that start.send_keeps[of key db0 s "rj_start_request job"] by (simp add: current_def)
  qed
  have discard: "hoare ?R (on_queue (discard_start_pending_job key)) (\<lambda>_. queue_of (settled (ec_queue cfg) key db0)) ?E"
    by (rule hoare_on_queue[OF discard_job_settles])
  have accept: "hoare ?R (on_queue_now (\<lambda>now. accept_start now key run))
      (\<lambda>_. queue_of (\<lambda>db. running (ec_queue cfg) key db0 db \<and> at_stage key Collecting db)) ?E" for run
    by (rule hoare_on_queue_now[OF accept_start_stage])
  have load: "hoare (queue_of (\<lambda>db. running (ec_queue cfg) key db0 db \<and> at_stage key Collecting db)) (exec_load_job key)
      (\<lambda>j. queue_of (at_hand (ec_queue cfg) key db0 j)) ?E"
    by (rule hoare_weaken[OF load_at_stage]) (auto simp: at_hand_def is_executable_stage_def)
  have check: "hoare ?R (require b x) (\<lambda>_. ?R) ?E" for b x
    by (rule hoare_weaken[OF hoare_require[where P = ?R and E = ?E]]) auto
  have body: "hoare ?P (seqp (on_queue (xe_start env (rj_start_request job))) (\<lambda>started.
        if srr_run_status started = ''succeeded'' \<or> srr_run_status started = ''failed'' then
          seqp (on_queue (discard_start_pending_job key)) (\<lambda>_. ret None)
        else
          seqp (require (srr_run_status started = ''running'')
                 (RuntimeError (''unexpected run_status from start: '' @ srr_run_status started))) (\<lambda>_.
          seqp (on_queue_now (\<lambda>now. accept_start now key (srr_task_run_id started))) (\<lambda>_.
          seqp (exec_load_job key) (\<lambda>j. ret (Some j)))))) ?Q ?E" if "rj_stage job = Some StartPending"
    by (rule hoare_seqp[OF send[OF that]])
      (auto intro!: hoare_seqp[OF discard] hoare_seqp[OF check] hoare_seqp[OF accept] hoare_seqp[OF load] hoare_ret)
  show "hoare ?P (start_stage env job) ?Q ?E"
  proof (cases "rj_stage job = Some StartPending")
    case True
    show ?thesis unfolding start_stage_def if_P[OF True] k by (rule body[OF True])
  next
    case False
    then show ?thesis by (auto simp: start_stage_def at_hand_def intro: hoare_ret)
  qed
qed (auto dest: current_key)

lemma manifest_stage_outcome:
  "hoare (queue_of (at_hand (ec_queue cfg) key db0 job)) (manifest_stage env job)
     (\<lambda>j. queue_of (\<lambda>db. at_hand (ec_queue cfg) key db0 j db \<and> rj_stage j \<noteq> Some ManifestPending))
     (\<lambda>_. queue_of (running (ec_queue cfg) key db0))"
  (is "hoare ?P _ ?Q ?E")
proof (rule hoare_given)
  assume k: "rj_execution_key job = key"
  let ?m = "case rj_manifest_request job of None \<Rightarrow> empty_manifest_request | Some m \<Rightarrow> m"
  let ?S = "\<lambda>st. queue_of (\<lambda>db. running (ec_queue cfg) key db0 db \<and> at_stage key st db)"
  have send: "hoare ?P (on_queue (xe_manifest env ?m)) (\<lambda>_. ?S ManifestPending) ?E" if st: "rj_stage job = Some ManifestPending"
  proof (rule hoare_on_queue, rule hoareI)
    fix s r t assume s: "at_hand (ec_queue cfg) key db0 job s" "xe_manifest env ?m s = (Inr r, t)"
    then have "running (ec_queue cfg) key db0 s" "requested key ManifestRequest (mr_idempotency_key ?m) s"
      using st by (auto simp: at_hand_def current_def)
    with s(2) manifest.send_keeps[of key db0 s ?m "Inr r" t] manifest.send_answers[of key db0 s ?m r t]
    show "running (ec_queue cfg) key db0 t \<and> at_stage key ManifestPending t" by simp
  next
    fix s e t assume s: "at_hand (ec_queue cfg) key db0 job s" "xe_manifest env ?m s = (Inl e, t)"
    then have "running (ec_queue cfg) key db0 s" "requested key ManifestRequest (mr_idempotency_key ?m) s"
      using st by (auto simp: at_hand_def current_def)
    with s(2) manifest.send_keeps[of key db0 s ?m "Inl e" t] show "running (ec_queue cfg) key db0 t" by simp
  qed
  have accept: "hoare (?S ManifestPending) (on_queue_now (\<lambda>now. accept_manifest now key ids)) (\<lambda>_. ?S ReportBuilding) ?E" for ids
    by (rule hoare_weaken[OF hoare_on_queue_now[OF accept_manifest_stage]]) auto
  have load: "hoare (?S ReportBuilding) (exec_load_job key) ?Q ?E"
    by (rule hoare_weaken[OF load_at_stage]) (auto simp: at_hand_def is_executable_stage_def)
  have body: "hoare ?P (seqp (on_queue (xe_manifest env ?m)) (\<lambda>ids.
        seqp (on_queue_now (\<lambda>now. accept_manifest now key ids)) (\<lambda>_. exec_load_job key))) ?Q ?E"
    if "rj_stage job = Some ManifestPending"
    by (rule hoare_seqp[OF send[OF that]] hoare_seqp[OF accept] load)+
  then show "hoare ?P (manifest_stage env job) ?Q ?E" by (auto simp: manifest_stage_def k intro: hoare_ret)
qed (auto simp: at_hand_def dest: current_key)

lemma delivery_stage_outcome:
  "hoare (queue_of (\<lambda>db. at_hand (ec_queue cfg) key db0 job db \<and> rj_stage job = Some ReportPending)) (delivery_stage env cfg job)
     (\<lambda>_. queue_of (settled (ec_queue cfg) key db0)) (\<lambda>_. queue_of (running (ec_queue cfg) key db0))"
  (is "hoare ?P _ ?Q ?E")
proof (rule hoare_given)
  assume k: "rj_execution_key job = key \<and> rj_stage job = Some ReportPending"
  let ?m = "case rj_report_request job of None \<Rightarrow> empty_report_request | Some m \<Rightarrow> m"
  have keeps: "running (ec_queue cfg) key db0 t" if "at_hand (ec_queue cfg) key db0 job s" "xe_report env ?m s = (r, t)" for s r t
  proof -
    have "running (ec_queue cfg) key db0 s" "requested key ReportRequest (rr_idempotency_key ?m) s"
      using that(1) k by (auto simp: at_hand_def current_def)
    then show ?thesis using that(2) by (rule report.send_keeps)
  qed
  have "hoare (\<lambda>db. at_hand (ec_queue cfg) key db0 job db \<and> rj_stage job = Some ReportPending) (xe_report env ?m)
      (\<lambda>_. running (ec_queue cfg) key db0) (\<lambda>_. running (ec_queue cfg) key db0)" by (rule hoareI) (auto intro: keeps)
  note send = hoare_on_queue[OF this]
  have complete: "hoare (queue_of (running (ec_queue cfg) key db0)) (on_queue_now (\<lambda>now. complete_job (ec_queue cfg) now key)) ?Q ?E"
    by (rule hoare_on_queue_now[OF complete_job_settles])
  show "hoare ?P (delivery_stage env cfg job) ?Q ?E"
    using hoare_seqp[OF send complete] by (simp add: delivery_stage_def k)
qed (auto simp: at_hand_def dest: current_key)

lemma finish_outcome:
  "hoare (queue_of (\<lambda>db. case r of None \<Rightarrow> settled (ec_queue cfg) key db0 db | Some j \<Rightarrow> at_hand (ec_queue cfg) key db0 j db))
     (finish_job env cfg r) (\<lambda>_. queue_of (settled (ec_queue cfg) key db0)) (\<lambda>_. queue_of (running (ec_queue cfg) key db0))"
proof (cases r)
  case None
  then show ?thesis by (auto simp: finish_job_def intro: hoare_ret)
next
  case (Some j)
  have "hoare (queue_of (at_hand (ec_queue cfg) key db0 j))
      (seqp (manifest_stage env j) (\<lambda>job1. seqp (report_stage env job1) (delivery_stage env cfg)))
      (\<lambda>_. queue_of (settled (ec_queue cfg) key db0)) (\<lambda>_. queue_of (running (ec_queue cfg) key db0))"
    by (rule hoare_seqp[OF manifest_stage_outcome] hoare_seqp[OF report_stage_outcome] delivery_stage_outcome)+
  then show ?thesis by (simp add: finish_job_def Some)
qed

lemma run_outcome:
  "hoare (queue_of (\<lambda>db. running (ec_queue cfg) key db0 db \<and> current key job db)) (run_reliable_job env cfg job)
     (\<lambda>_. queue_of (settled (ec_queue cfg) key db0)) (\<lambda>_. queue_of (running (ec_queue cfg) key db0))"
  unfolding run_reliable_job_def
proof (rule hoare_seqp[OF start_stage_outcome])
  fix r
  show "hoare (queue_of (\<lambda>db. case r of None \<Rightarrow> settled (ec_queue cfg) key db0 db | Some j \<Rightarrow> at_hand (ec_queue cfg) key db0 j db))
      (case r of None \<Rightarrow> ret () | Some j \<Rightarrow> seqp (collecting_stage env cfg j) (finish_job env cfg))
      (\<lambda>_. queue_of (settled (ec_queue cfg) key db0)) (\<lambda>_. queue_of (running (ec_queue cfg) key db0))"
    by (cases r) (auto intro!: hoare_ret hoare_seqp[OF collecting_stage_outcome finish_outcome])
qed

end

section \<open>Running a job with the reliable client\<close>

definition reliable_env :: "exec_env \<Rightarrow> delivery_env \<Rightarrow> exec_env" where
  "reliable_env env de =
     env\<lparr>xe_start := reliable_start de, xe_manifest := reliable_manifest de, xe_report := reliable_report de\<rparr>"

interpretation reliable_client: job_client "reliable_env env de" cfg for env de cfg
  by (rule job_client.intro) (simp_all add: reliable_env_def start_channel.request_channel_axioms
      manifest_channel.request_channel_axioms report_channel.request_channel_axioms)

end
