(* ===== verification/Agent_Runs.thy ===== *)
theory Agent_Runs
  imports Job_Outcomes
begin

text \<open>
  The entry points of the executor (\<open>execute\<close>, \<open>execute_pending\<close>, \<open>recover_pending_jobs\<close>) over the
  outcome of one run: the queue stays in a state the entry points can start from, a run reaches no row
  of another job, and recovery goes through the jobs one by one without disturbing those still to come.
\<close>

definition agent_ok :: "queue_config \<Rightarrow> queue_db \<Rightarrow> bool" where
  "agent_ok cfg db \<longleftrightarrow> queue_reachable cfg db \<and> counted db"

lemma agent_ok_empty: "agent_ok cfg empty_queue"
  using queue_reachable_empty by (simp add: agent_ok_def counted_def counted_at_def) (simp add: empty_queue_def)

lemma running_agent_ok: "running cfg key db0 db \<Longrightarrow> agent_ok cfg db \<and> others key db = others key db0"
  by (simp add: running_def agent_ok_def)

lemma settled_agent_ok: "settled cfg key db0 db \<Longrightarrow> agent_ok cfg db \<and> others key db = others key db0"
  by (simp add: settled_def agent_ok_def)

lemma current_key_queued: "current key job db \<Longrightarrow> key \<in> job_keys db"
  unfolding current_def job_keys_def by (metis find_job_row_Some imageI)

lemma current_running: "agent_ok cfg db \<Longrightarrow> current key job db \<Longrightarrow> others key db = others key db0 \<Longrightarrow> running cfg key db0 db"
  by (simp add: running_def agent_ok_def current_key_queued)

section \<open>The rows of one job\<close>

definition own :: "string \<Rightarrow> queue_db \<Rightarrow> job_row list \<times> file_row list \<times> delivery_row list \<times> attempt_row list" where
  "own key db =
     (filter (\<lambda>j. jb_execution_key j = key) (q_jobs db), filter (\<lambda>f. fl_execution_key f = key) (q_files db),
      filter (\<lambda>d. dl_execution_key d = key) (q_deliveries db), filter (\<lambda>a. at_execution_key a = key) (q_attempts db))"

lemma own_others: "others key db' = others key db \<Longrightarrow> k \<noteq> key \<Longrightarrow> own k db' = own k db"
proof -
  assume o: "others key db' = others key db" and k: "k \<noteq> key"
  have f: "filter (\<lambda>x. g x = k) xs = filter (\<lambda>x. g x = k) (filter (\<lambda>x. g x \<noteq> key) xs)" for g :: "'a \<Rightarrow> string" and xs
    using k by (simp add: filter_filter conj_commute) (rule filter_cong, auto)
  show ?thesis using o unfolding own_def others_def
    by (simp add: f[of _ "q_jobs db'"] f[of _ "q_files db'"] f[of _ "q_deliveries db'"] f[of _ "q_attempts db'"]
        f[of _ "q_jobs db"] f[of _ "q_files db"] f[of _ "q_deliveries db"] f[of _ "q_attempts db"])
qed

lemma find_filter: "find p xs = find p (filter p xs)"
  by (induction xs) auto

lemma current_own:
  assumes ok: "queue_ok cfg db'" and own: "own key db' = own key db" and cur: "current key job db"
  shows "current key job db'"
proof -
  have row: "find_job_row key db' = find_job_row key db"
    unfolding find_job_row_def by (subst (1 2) find_filter) (use own in \<open>simp add: own_def\<close>)
  have ask: "requested key ty ikey db'" if req: "requested key ty ikey db" for ty ikey
  proof -
    obtain d where d: "find_delivery ty ikey db = Some d" "dl_execution_key d = key" using req by (auto simp: requested_def)
    then have "delivery_identity d = (ty, ikey)" "d \<in> set (filter (\<lambda>d. dl_execution_key d = key) (q_deliveries db))"
      using find_delivery_Some[OF d(1)] by (auto simp: delivery_identity_def)
    then have "d \<in> set (filter (\<lambda>d. dl_execution_key d = key) (q_deliveries db'))"
      using own by (simp add: own_def)
    then have "d \<in> set (q_deliveries db')" by simp
    moreover have "distinct (map delivery_identity (q_deliveries db'))" using ok by (simp add: queue_ok_def keys_ok_def)
    ultimately have "find_delivery ty ikey db' = Some d"
      unfolding find_delivery_identity using find_distinct_key \<open>delivery_identity d = (ty, ikey)\<close> by metis
    with req d row show ?thesis by (auto simp: requested_def)
  qed
  show ?thesis using cur ask unfolding current_def row by metis
qed

section \<open>Execution\<close>

lemma begin_job_alone:
  "hoare (\<lambda>db. agent_ok cfg db \<and> others (sr_execution_key request) db = x) (begin_job cfg now task request retry)
     (\<lambda>_ db. agent_ok cfg db \<and> others (sr_execution_key request) db = x) (\<lambda>_ db. agent_ok cfg db \<and> others (sr_execution_key request) db = x)"
proof (rule hoareI)
  fix s e t assume s: "agent_ok cfg s \<and> others (sr_execution_key request) s = x" "begin_job cfg now task request retry s = (Inl e, t)"
  have "run_op cfg now (BeginJob task request retry) s = (Inl e, t)" using s(2) by simp
  then have "t = s" using s(1) run_op_Inl[of s cfg now "BeginJob task request retry" e t]
    by (auto simp: agent_ok_def queue_ok_def keys_ok_def dest!: queue_reachable_ok)
  with s show "agent_ok cfg t \<and> others (sr_execution_key request) t = x" by simp
next
  fix s b t assume s: "agent_ok cfg s \<and> others (sr_execution_key request) s = x" "begin_job cfg now task request retry s = (Inr b, t)"
  let ?key = "sr_execution_key request"
  have "run_op cfg now (BeginJob task request retry) s = (Inr (), t)" using s(2) by auto
  with s(1) have reach: "queue_reachable cfg t" unfolding agent_ok_def by (blast intro: queue_reachable_run)
  have oth: "others ?key t = others ?key s"
    using begin_job_Inr[OF s(2)] by (auto simp: others_def new_job_row_def)
  have "counted_at ?key t" using begin_job_Inr[OF s(2)] s(1)
    by (auto simp: counted_at_def counted_def agent_ok_def new_job_row_def job_keys_def)
  then have "counted t" using s(1) oth counted_others[of s ?key t] by (simp add: agent_ok_def)
  with reach oth s(1) show "agent_ok cfg t \<and> others ?key t = x" by (simp add: agent_ok_def)
qed

lemma load_alone:
  "hoare (queue_of (\<lambda>db. agent_ok cfg db \<and> others key db = others key db0)) (exec_load_job key)
     (\<lambda>j. queue_of (\<lambda>db. running cfg key db0 db \<and> current key j db)) (\<lambda>_. queue_of (\<lambda>db. agent_ok cfg db \<and> others key db = others key db0))"
proof -
  have "hoare (\<lambda>db. agent_ok cfg db \<and> others key db = others key db0) (\<lambda>db. (load_job key db, db))
      (\<lambda>j db. running cfg key db0 db \<and> current key j db) (\<lambda>_ db. agent_ok cfg db \<and> others key db = others key db0)"
  proof (rule hoareI)
    fix s j t assume s: "agent_ok cfg s \<and> others key s = others key db0" "(load_job key s, s) = (Inr j, t)"
    have "current key j s" using s by (auto simp: agent_ok_def dest: queue_reachable_ok queue_reachable_sound intro: load_current)
    with s show "running cfg key db0 t \<and> current key j t" by (auto intro: current_running)
  qed auto
  from hoare_on_queue[OF this] show ?thesis unfolding exec_load_job_def .
qed

lemma hoare_if: "hoare P m Q E \<Longrightarrow> hoare P n Q E \<Longrightarrow> hoare P (if b then m else n) Q E"
  by simp

lemma quiet_stop: "hoare (queue_of P) stop_reading (\<lambda>_. queue_of P) (\<lambda>_. queue_of P)"
  by (rule hoareI) (auto simp: stop_reading_def split: list.splits)

definition scheduled_key :: "exec_env \<Rightarrow> scheduled_execution \<Rightarrow> string" where
  "scheduled_key env x = make_scheduled_execution_key (xe_sha256 env) (tc_node_code (sx_task x)) (tc_id (sx_task x))
     (format_utc_timestamp (sx_scheduled_for x))"

text \<open>During recovery: the jobs still to come are as they were read, and no job outside \<open>K\<close> was touched.\<close>

definition to_recover :: "exec_config \<Rightarrow> string set \<Rightarrow> queue_db \<Rightarrow> recovered_job list \<Rightarrow> queue_db \<Rightarrow> bool" where
  "to_recover cfg K db0 jobs db \<longleftrightarrow> agent_ok (ec_queue cfg) db \<and> (\<forall>k. k \<notin> K \<longrightarrow> own k db = own k db0) \<and>
     (\<forall>j \<in> set jobs. current (rj_execution_key j) j db)"

context job_client
begin

lemma run_alone:
  "hoare (queue_of (\<lambda>db. running (ec_queue cfg) key db0 db \<and> current key job db)) (run_reliable_job env cfg job)
     (\<lambda>_. queue_of (\<lambda>db. agent_ok (ec_queue cfg) db \<and> others key db = others key db0))
     (\<lambda>_. queue_of (\<lambda>db. agent_ok (ec_queue cfg) db \<and> others key db = others key db0))"
  by (rule hoare_weaken[OF run_outcome]) (auto dest: running_agent_ok settled_agent_ok)

lemma begin_and_run:
  assumes "sr_execution_key request = key"
  shows "hoare (queue_of (\<lambda>db. agent_ok (ec_queue cfg) db \<and> others key db = others key db0))
     (seqp (on_queue_now (\<lambda>now. begin_job (ec_queue cfg) now task request retry)) (\<lambda>_.
        seqp (exec_load_job key) (run_reliable_job env cfg)))
     (\<lambda>_. queue_of (\<lambda>db. agent_ok (ec_queue cfg) db \<and> others key db = others key db0))
     (\<lambda>_. queue_of (\<lambda>db. agent_ok (ec_queue cfg) db \<and> others key db = others key db0))"
  by (rule hoare_seqp[OF hoare_on_queue_now[OF begin_job_alone[where request = request, unfolded assms]]]
      hoare_seqp[OF load_alone] run_alone)+

lemma execute_alone:
  assumes "key = scheduled_key env x"
  shows "hoare (queue_of (\<lambda>db. agent_ok (ec_queue cfg) db \<and> others key db = others key db0)) (execute env cfg x)
     (\<lambda>_. queue_of (\<lambda>db. agent_ok (ec_queue cfg) db \<and> others key db = others key db0))
     (\<lambda>_. queue_of (\<lambda>db. agent_ok (ec_queue cfg) db \<and> others key db = others key db0))"
  (is "hoare ?P _ ?Q ?E")
proof -
  have begin': "hoare ?P (seqp (on_queue_now (\<lambda>now. begin_job (ec_queue cfg) now (sx_task x) request [])) (\<lambda>_.
     seqp (exec_load_job (sr_execution_key request)) (run_reliable_job env cfg))) ?Q ?E" if "sr_execution_key request = key" for request
    using begin_and_run[OF that] that by simp
  have gets: "hoare ?P (gets (\<lambda>w. has_capacity (ec_queue cfg) (ew_queue w))) (\<lambda>_. ?P) ?E"
    by (rule hoareI) (auto simp: gets_def)
  show ?thesis unfolding execute_def Let_def
    by (rule hoare_seqp[OF quiet_stop] hoare_if hoare_ret hoare_seqp[OF gets] hoare_seqp[OF quiet_clock] begin' | simp add: assms scheduled_key_def)+
qed

lemma execute_pending_alone:
  assumes "key = pe_execution_key (mx_execution x)"
  shows "hoare (queue_of (\<lambda>db. agent_ok (ec_queue cfg) db \<and> others key db = others key db0)) (execute_pending env cfg x)
     (\<lambda>_. queue_of (\<lambda>db. agent_ok (ec_queue cfg) db \<and> others key db = others key db0))
     (\<lambda>_. queue_of (\<lambda>db. agent_ok (ec_queue cfg) db \<and> others key db = others key db0))"
  (is "hoare ?P _ ?Q ?E")
proof -
  have find: "hoare ?P (on_queue (\<lambda>db. (find_job key db, db))) (\<lambda>_. ?P) ?E"
    by (rule hoareI) (auto simp: on_queue_def)
  have gets: "hoare ?P (gets (\<lambda>w. has_capacity (ec_queue cfg) (ew_queue w))) (\<lambda>_. ?P) ?E"
    by (rule hoareI) (auto simp: gets_def)
  have run: "hoare ?P (seqp (on_queue_now (\<lambda>now. begin_job (ec_queue cfg) now (mx_task x) request (pe_retry_files (mx_execution x)))) (\<lambda>_.
     seqp (seqp (exec_load_job key) (run_reliable_job env cfg)) (\<lambda>_. ret Dispatched))) (\<lambda>_. ?P) ?E" if "sr_execution_key request = key" for request
    by (rule hoare_seqp[OF hoare_on_queue_now[OF begin_job_alone[where request = request, unfolded that]]]
        hoare_seqp[OF hoare_seqp[OF load_alone run_alone]])+ (auto intro: hoare_ret)
  show ?thesis unfolding execute_pending_def Let_def assms[symmetric]
    by (rule hoare_seqp[OF quiet_stop] hoare_if hoare_ret hoare_seqp[OF find] hoare_seqp[OF gets] hoare_seqp[OF quiet_clock] run | simp add: assms)+
qed

lemma recover_step:
  assumes "distinct (map rj_execution_key (job # jobs))" "rj_execution_key job \<in> K"
  shows "hoare (queue_of (to_recover cfg K db0 (job # jobs))) (run_reliable_job env cfg job)
     (\<lambda>_. queue_of (to_recover cfg K db0 jobs)) (\<lambda>_. queue_of (to_recover cfg K db0 jobs))"
proof -
  let ?k = "rj_execution_key job"
  have "to_recover cfg K db0 jobs (ew_queue t)"
    if s: "to_recover cfg K db0 (job # jobs) (ew_queue s)" and t: "agent_ok (ec_queue cfg) (ew_queue t) \<and> others ?k (ew_queue t) = others ?k (ew_queue s)" for s t
  proof -
    have own: "own k (ew_queue t) = own k (ew_queue s)" if "k \<noteq> ?k" for k using t that by (blast intro: own_others)
    have ok: "queue_ok (ec_queue cfg) (ew_queue t)" using t by (auto simp: agent_ok_def dest: queue_reachable_ok)
    have cur: "current (rj_execution_key j) j (ew_queue t)" if j: "j \<in> set jobs" for j
    proof (rule current_own[OF ok own])
      show "rj_execution_key j \<noteq> ?k" using j assms(1) by (metis distinct.simps(2) image_eqI list.simps(9) list.set_map)
      show "current (rj_execution_key j) j (ew_queue s)" using s j by (simp add: to_recover_def)
    qed
    show ?thesis using s t own cur assms(2) by (auto simp: to_recover_def) metis
  qed
  note kept = this
  have start: "queue_of (\<lambda>db. running (ec_queue cfg) ?k (ew_queue s) db \<and> current ?k job db) s"
    if "to_recover cfg K db0 (job # jobs) (ew_queue s)" for s
    using that by (auto simp: to_recover_def intro: current_running)
  show ?thesis
  proof (rule hoareI)
    fix s t and a :: unit assume s: "to_recover cfg K db0 (job # jobs) (ew_queue s)" "run_reliable_job env cfg job s = (Inr a, t)"
    show "to_recover cfg K db0 jobs (ew_queue t)"
      by (rule kept[OF s(1) hoare_Inr[OF run_alone[of ?k "ew_queue s"] start[OF s(1)] s(2)]])
  next
    fix s e t assume s: "to_recover cfg K db0 (job # jobs) (ew_queue s)" "run_reliable_job env cfg job s = (Inl e, t)"
    show "to_recover cfg K db0 jobs (ew_queue t)"
      by (rule kept[OF s(1) hoare_Inl[OF run_alone[of ?k "ew_queue s"] start[OF s(1)] s(2)]])
  qed
qed

lemma recover_each_isolated:
  "distinct (map rj_execution_key jobs) \<Longrightarrow> rj_execution_key ` set jobs \<subseteq> K \<Longrightarrow>
   hoare (queue_of (to_recover cfg K db0 jobs)) (recover_each env cfg jobs)
     (\<lambda>_. queue_of (to_recover cfg K db0 [])) (\<lambda>_. queue_of (to_recover cfg K db0 []))"
proof (induction jobs)
  case Nil
  show ?case by (auto intro: hoare_ret)
next
  case (Cons job jobs)
  have drop: "to_recover cfg K db0 js db \<Longrightarrow> to_recover cfg K db0 [] db" for js db by (simp add: to_recover_def)
  have IH: "hoare (queue_of (to_recover cfg K db0 jobs)) (recover_each env cfg jobs)
     (\<lambda>_. queue_of (to_recover cfg K db0 [])) (\<lambda>_. queue_of (to_recover cfg K db0 []))" using Cons by simp
  have stop: "hoare (queue_of (to_recover cfg K db0 js)) stop_reading (\<lambda>_. queue_of (to_recover cfg K db0 js)) (\<lambda>_. queue_of (to_recover cfg K db0 []))" for js
    by (rule hoare_weaken[OF quiet_stop[where P = "to_recover cfg K db0 js"]]) (auto intro: drop)
  have run: "hoare (queue_of (to_recover cfg K db0 (job # jobs))) (attempt (run_reliable_job env cfg job))
     (\<lambda>_. queue_of (to_recover cfg K db0 jobs)) (\<lambda>_. queue_of (to_recover cfg K db0 []))"
    by (rule hoare_attempt, rule recover_step) (use Cons.prems in auto)
  have after: "hoare (queue_of (to_recover cfg K db0 jobs)) (case r of
       Inr _ \<Rightarrow> recover_each env cfg jobs
     | Inl e \<Rightarrow> (case e of
           DeliveryAbandoned _ \<Rightarrow> seqp stop_reading (\<lambda>stop. if stop then ret () else recover_each env cfg jobs)
         | _ \<Rightarrow> throw e))
     (\<lambda>_. queue_of (to_recover cfg K db0 [])) (\<lambda>_. queue_of (to_recover cfg K db0 []))" for r :: "agent_exn + unit"
    by (cases r) (auto split: agent_exn.split intro!: IH hoare_throw hoare_ret hoare_seqp[OF stop] intro: drop)
  show ?case unfolding recover_each.simps
    by (rule hoare_seqp[OF stop]) (auto intro!: hoare_ret hoare_seqp[OF run after] intro: drop)
qed

end

lemma smap_Inr_in: "smap f xs = Inr ys \<Longrightarrow> y \<in> set ys \<Longrightarrow> \<exists>x \<in> set xs. f x = Inr y"
  by (induction xs arbitrary: ys) (auto simp: sbind_Inr_iff)

lemma recovered_current:
  assumes ok: "queue_ok cfg db" and sound: "requests_sound db" and jobs: "recover_jobs db = Inr jobs"
  shows "map rj_execution_key jobs = map jb_execution_key (recoverable db) \<and> (\<forall>j \<in> set jobs. current (rj_execution_key j) j db)"
proof
  have read: "smap (read_recovered_job db) (map (start_row db) (recoverable db)) = Inr jobs"
    using recover_jobs_rows[OF ok] jobs by simp
  show "map rj_execution_key jobs = map jb_execution_key (recoverable db)"
    using smap_keys[OF read, of rj_execution_key "\<lambda>x. jb_execution_key (fst x)"] read_recovered_job_key
    by (auto simp: start_row_def comp_def)
  show "\<forall>j \<in> set jobs. current (rj_execution_key j) j db"
  proof
    fix job assume "job \<in> set jobs"
    then obtain x where x: "x \<in> set (recoverable db)" "read_recovered_job db (start_row db x) = Inr job"
      using smap_Inr_in[OF read] by auto
    have j: "x \<in> set (q_jobs db)" "jb_stage x \<noteq> RequiresAttention" using x(1) by (simp_all add: set_recoverable)
    obtain d where "find_delivery_of (jb_execution_key x) StartRequest db = Some d" using start_delivery_exists[OF ok j(1)] .
    then have "load_job (jb_execution_key x) db = Inr job"
      using load_job_row[OF queue_ok_keys[OF ok] j] x(2) by (simp add: start_row_def)
    with ok sound have c: "current (jb_execution_key x) job db" by (rule load_current)
    show "current (rj_execution_key job) job db" using c current_key[OF c] by simp
  qed
qed

section \<open>Properties\<close>

text \<open>
  C23. Running a job with the reliable client, whatever the control plane, the disk and the clock do: a
  run that returns has finished the job or set it aside for a person, a run that throws leaves the job
  in the queue to be taken up again, and in both cases no row of another job changed and the queue is
  in a state the agent can go on from.
\<close>

theorem job_run_outcome:
  assumes "agent_ok (ec_queue cfg) (ew_queue w)" and "load_job key (ew_queue w) = Inr job"
    and "run_reliable_job (reliable_env env de) cfg job w = (r, w')"
  shows "agent_ok (ec_queue cfg) (ew_queue w') \<and> others key (ew_queue w') = others key (ew_queue w) \<and>
    (case r of Inr u \<Rightarrow> key \<in> job_keys (ew_queue w') \<longrightarrow> at_stage key RequiresAttention (ew_queue w')
     | Inl e \<Rightarrow> key \<in> job_keys (ew_queue w'))"
proof -
  have reach: "queue_reachable (ec_queue cfg) (ew_queue w)" using assms(1) by (simp add: agent_ok_def)
  have cur: "current key job (ew_queue w)"
    by (rule load_current[OF queue_reachable_ok[OF reach] queue_reachable_sound[OF reach] assms(2)])
  have start: "queue_of (\<lambda>db. running (ec_queue cfg) key (ew_queue w) db \<and> current key job db) w"
    by (rule conjI[OF current_running[OF assms(1) cur refl] cur])
  note outcome = reliable_client.run_outcome[of cfg key "ew_queue w" job env de]
  show ?thesis
  proof (cases r)
    case (Inl e)
    have "running (ec_queue cfg) key (ew_queue w) (ew_queue w')"
      by (rule hoare_Inl[OF outcome start assms(3)[unfolded Inl]])
    from this running_agent_ok[OF this] show ?thesis using Inl by (simp add: running_def)
  next
    case (Inr u)
    have "settled (ec_queue cfg) key (ew_queue w) (ew_queue w')"
      by (rule hoare_Inr[OF outcome start assms(3)[unfolded Inr]])
    from this settled_agent_ok[OF this] show ?thesis using Inr by (simp add: settled_def)
  qed
qed

text \<open>
  Each entry point that registers a job works on that job alone: the rows of every other key are as
  before, and the queue stays in a state the agent can go on from, whether the call returns or throws.
\<close>

lemma execution_touches_one_job:
  assumes "agent_ok (ec_queue cfg) (ew_queue w)"
  shows "(let db' = ew_queue (snd (execute (reliable_env env de) cfg x w)) in
      agent_ok (ec_queue cfg) db' \<and> others (scheduled_key (reliable_env env de) x) db' = others (scheduled_key (reliable_env env de) x) (ew_queue w)) \<and>
    (let db' = ew_queue (snd (execute_pending (reliable_env env de) cfg y w)) in
      agent_ok (ec_queue cfg) db' \<and> others (pe_execution_key (mx_execution y)) db' = others (pe_execution_key (mx_execution y)) (ew_queue w))"
proof -
  let ?env = "reliable_env env de"
  have both: "agent_ok (ec_queue cfg) (ew_queue (snd (m w))) \<and> others key (ew_queue (snd (m w))) = others key (ew_queue w)"
    if "hoare (queue_of (\<lambda>db. agent_ok (ec_queue cfg) db \<and> others key db = others key (ew_queue w))) m
     (\<lambda>_. queue_of (\<lambda>db. agent_ok (ec_queue cfg) db \<and> others key db = others key (ew_queue w)))
     (\<lambda>_. queue_of (\<lambda>db. agent_ok (ec_queue cfg) db \<and> others key db = others key (ew_queue w)))" for m :: "'a exec" and key
    using hoare_any[OF that, of w "fst (m w)" "snd (m w)"] assms by simp
  show ?thesis unfolding Let_def
    using both[OF reliable_client.execute_alone[OF refl]] both[OF reliable_client.execute_pending_alone[OF refl]] by blast
qed

text \<open>
  Recovery after a restart, however it ends: no job appears, a job set aside for a person keeps all
  its rows, and the queue is in a state the agent can go on from.
\<close>

lemma recovery_isolated:
  assumes "agent_ok (ec_queue cfg) (ew_queue w)"
    and "recover_pending_jobs (reliable_env env de) cfg w = (r, w')"
  shows "agent_ok (ec_queue cfg) (ew_queue w') \<and> job_keys (ew_queue w') \<subseteq> job_keys (ew_queue w) \<and>
    (\<forall>j \<in> set (q_jobs (ew_queue w)). jb_stage j = RequiresAttention \<longrightarrow>
       own (jb_execution_key j) (ew_queue w') = own (jb_execution_key j) (ew_queue w))"
proof -
  let ?db = "ew_queue w" and ?db' = "ew_queue w'"
  have ok: "queue_ok (ec_queue cfg) ?db" using assms(1) by (auto simp: agent_ok_def dest: queue_reachable_ok)
  have dist: "distinct (map jb_execution_key (q_jobs ?db))" using ok by (rule queue_ok_keys)
  let ?K = "jb_execution_key ` set (recoverable ?db)"
  have kept: "to_recover cfg ?K ?db [] ?db'"
  proof (cases "recover_jobs ?db")
    case (Inl e)
    then have "w' = w" using assms(2) by (auto simp: recover_pending_jobs_def seqp_def on_queue_def)
    then show ?thesis using assms(1) by (simp add: to_recover_def)
  next
    case (Inr jobs)
    have keys: "map rj_execution_key jobs = map jb_execution_key (recoverable ?db)"
      and each: "\<forall>j \<in> set jobs. current (rj_execution_key j) j ?db"
      using recovered_current[OF ok _ Inr] assms(1) by (auto simp: agent_ok_def dest: queue_reachable_sound)
    have "to_recover cfg ?K ?db jobs ?db" using each assms(1) by (simp add: to_recover_def)
    moreover have "recover_each (reliable_env env de) cfg jobs w = (r, w')"
      using assms(2) Inr by (simp add: recover_pending_jobs_def seqp_def on_queue_def)
    moreover have "distinct (map jb_execution_key (recoverable ?db))"
      using dist by (auto simp: recoverable_def distinct_map intro: inj_on_subset)
    then have "distinct (map rj_execution_key jobs)" using keys by simp
    moreover have "rj_execution_key ` set jobs \<subseteq> ?K" using arg_cong[OF keys, of set] by simp
    ultimately show ?thesis
      using hoare_any[OF reliable_client.recover_each_isolated, of jobs ?K cfg ?db w env de r w'] by simp
  qed
  have "k \<in> job_keys ?db" if "k \<in> job_keys ?db'" for k
  proof (rule ccontr)
    assume k: "k \<notin> job_keys ?db"
    then have "own k ?db' = own k ?db" using kept by (auto simp: to_recover_def set_recoverable job_keys_def)
    moreover have "filter (\<lambda>j. jb_execution_key j = k) (q_jobs ?db) = []" using k by (auto simp: filter_empty_conv job_keys_def)
    ultimately show False using that by (auto simp: own_def filter_empty_conv job_keys_def)
  qed
  moreover have "own (jb_execution_key j) ?db' = own (jb_execution_key j) ?db"
    if j: "j \<in> set (q_jobs ?db)" "jb_stage j = RequiresAttention" for j
  proof -
    have "jb_execution_key j \<notin> ?K"
      using inj_key_eq[OF dist j(1)] j(2) by (auto simp: set_recoverable)
    then show ?thesis using kept by (simp add: to_recover_def)
  qed
  ultimately show ?thesis using kept by (auto simp: to_recover_def)
qed

section \<open>Witnesses\<close>

definition example_client :: delivery_env where
  "example_client = \<lparr>de_config = \<lparr>dc_retry_initial = 5, dc_retry_max = 60, dc_max_body_bytes = 1000\<rparr>, de_julian_ms = (\<lambda>_ _. 0),
     de_body_length = (\<lambda>_. 100), de_now = 5000, de_stop = False,
     de_start_turns = [\<lparr>tn_stop = False, tn_outcome = Inr \<lparr>srr_task_run_id = ''r1'', srr_replayed = True, srr_run_status = ''succeeded''\<rparr>, tn_now = 9000,
       tn_stop_after_wait = False\<rparr>], de_manifest_turns = [], de_report_turns = []\<rparr>"

definition example_executor :: exec_config where
  "example_executor = \<lparr>ec_queue = example_config, ec_work_dir = [''w''], ec_allowed_roots = [[''data'']], ec_max_files = 2\<rparr>"

definition example_queue_world :: "queue_db \<Rightarrow> exec_world" where
  "example_queue_world db = \<lparr>ew_queue = db, ew_disk = example_disk, ew_clock = [], ew_stop = []\<rparr>"

definition example_loaded :: recovered_job where
  "example_loaded = \<lparr>rj_execution_key = ''k1'', rj_task = example_queue_task, rj_start_request = example_start,
     rj_stage = Some StartPending, rj_task_run_id = [], rj_files = [], rj_manifest_request = None,
     rj_report_request = None, rj_retry_files = [], rj_has_file_failures = False, rj_file_failures = []\<rparr>"

lemma example_agent_ok: "agent_ok example_config example_queue"
  using hoare_Inr[OF begin_job_alone[where x = "others (sr_execution_key example_start) empty_queue"] _ example_begin] agent_ok_empty by simp

lemma example_load: "load_job ''k1'' example_queue = Inr example_loaded"
proof -
  have task: "decode_task_config (encode_task_config example_queue_task) = Inr example_queue_task"
    by (rule decode_task_config_encode[THEN iffD2])
      (simp add: task_persistable_def example_queue_task_def data_source_persistable_def)
  have start: "decode_start_request (encode_start_request example_start) = Inr example_start"
    by (rule decode_start_request_encode[THEN iffD2]) (simp add: start_persistable_def example_start_def trigger_ok_def)
  show ?thesis
    by (simp add: load_job_def example_queue_jobs with_start_delivery_def find_delivery_of_def read_recovered_job_def
        new_job_row_def example_start_def[THEN arg_cong, of sr_execution_key] task start decode_optional_def decode_retry_files_def recovered_stage_def
        recover_file_plan_def example_loaded_def Let_def)
qed

text \<open>The control plane answers that the run has already finished: the job is dropped.\<close>

lemma example_run:
  "\<exists>w'. run_reliable_job (reliable_env example_env example_client) example_executor example_loaded (example_queue_world example_queue) = (Inr (), w')"
proof -
  have body: "list_all json_utf8 [encode_start_http_body example_start]"
    by (simp add: encode_start_http_body_def encode_start_request_def example_start_def char_code_def)
  have sent: "reliable_start example_client example_start example_queue =
      (Inr \<lparr>srr_task_run_id = ''r1'', srr_replayed = True, srr_run_status = ''succeeded''\<rparr>, example_queue)"
    using body by (simp add: reliable_start_def await_delivery_def deliver_start_def deliver_def dump_all_def seqp_def require_def ret_def
        delivery_attempt_count_def find_delivery_def example_queue_jobs example_client_def)
      (simp add: example_start_def)
  have "fst (discard_start_pending_job ''k1'' example_queue) = Inr ()"
    by (simp add: discard_start_pending_job_def transaction_def seqp_def gets_def require_def example_queue_jobs delete_jobs_def
        count_where_def Let_def new_job_row_def example_start_def)
  then obtain db where gone: "discard_start_pending_job ''k1'' example_queue = (Inr (), db)" by (metis prod.collapse)
  then show ?thesis
    by (simp add: run_reliable_job_def start_stage_def example_loaded_def reliable_env_def on_queue_def example_queue_world_def
        seqp_def sent ret_def split: prod.splits sum.splits)
qed

theorem job_run_outcome_witness:
  "\<exists>w'. run_reliable_job (reliable_env example_env example_client) example_executor example_loaded (example_queue_world example_queue) = (Inr (), w') \<and>
     agent_ok example_config (ew_queue w') \<and> (''k1'' \<in> job_keys (ew_queue w') \<longrightarrow> at_stage ''k1'' RequiresAttention (ew_queue w'))"
proof -
  obtain w' where w': "run_reliable_job (reliable_env example_env example_client) example_executor example_loaded
      (example_queue_world example_queue) = (Inr (), w')" using example_run by blast
  have "agent_ok (ec_queue example_executor) (ew_queue (example_queue_world example_queue))"
    "load_job ''k1'' (ew_queue (example_queue_world example_queue)) = Inr example_loaded"
    using example_agent_ok example_load by (simp_all add: example_executor_def example_queue_world_def)
  from job_run_outcome[OF this w'] w' show ?thesis by (simp add: example_executor_def)
qed

text \<open>A job registered by hand next to the one in the queue.\<close>

definition example_manual :: manual_execution where
  "example_manual = \<lparr>mx_execution = \<lparr>pe_task_run_id = ''r2'', pe_task_id = ''t1'', pe_execution_key = ''k2'', pe_trigger_type = ''manual'',
     pe_requested_at = [], pe_retry_files = []\<rparr>, mx_task = example_queue_task\<rparr>"

lemma execution_touches_one_job_example:
  "own ''k1'' (ew_queue (snd (execute_pending (reliable_env example_env example_client) example_executor example_manual
     (example_queue_world example_queue)))) = own ''k1'' example_queue"
proof (rule own_others[where key = "''k2''"])
  have "agent_ok (ec_queue example_executor) (ew_queue (example_queue_world example_queue))"
    using example_agent_ok by (simp add: example_executor_def example_queue_world_def)
  from execution_touches_one_job[OF this, of example_env example_client undefined example_manual]
  show "others ''k2'' (ew_queue (snd (execute_pending (reliable_env example_env example_client) example_executor example_manual
      (example_queue_world example_queue)))) = others ''k2'' example_queue"
    unfolding Let_def by (simp add: example_manual_def example_queue_world_def)
qed simp

text \<open>A queue whose only job was set aside.\<close>

definition example_aside :: queue_db where
  "example_aside = snd (mark_requires_attention 2000 ''k1'' ''archive_conflict'' ''conflict'' example_queue)"

lemma example_aside_run: "mark_requires_attention 2000 ''k1'' ''archive_conflict'' ''conflict'' example_queue = (Inr (), example_aside)"
  by (simp add: example_aside_def mark_requires_attention_def transaction_def seqp_def gets_def lift_sum_def require_def update_jobs_def
      count_where_def find_job_row_def attention_resume_stage_def example_queue_jobs new_job_row_def example_start_def)

lemma example_aside_ok: "agent_ok example_config example_aside" "at_stage ''k1'' RequiresAttention example_aside"
proof -
  have "current ''k1'' example_loaded example_queue"
    using example_agent_ok by (intro load_current[OF _ _ example_load]) (auto simp: agent_ok_def dest: queue_reachable_ok queue_reachable_sound)
  then have "running example_config ''k1'' example_queue example_queue" by (rule current_running[OF example_agent_ok _ refl])
  from hoare_Inr[OF mark_attention_stage this example_aside_run]
  show "agent_ok example_config example_aside" "at_stage ''k1'' RequiresAttention example_aside"
    by (simp_all add: running_def agent_ok_def)
qed

lemma recovery_isolated_example:
  "own ''k1'' (ew_queue (snd (recover_pending_jobs (reliable_env example_env example_client) example_executor (example_queue_world example_aside)))) =
   own ''k1'' example_aside"
proof -
  let ?r = "recover_pending_jobs (reliable_env example_env example_client) example_executor (example_queue_world example_aside)"
  have ok: "agent_ok (ec_queue example_executor) (ew_queue (example_queue_world example_aside))"
    using example_aside_ok(1) by (simp add: example_executor_def example_queue_world_def)
  obtain j where "find_job_row ''k1'' example_aside = Some j" "jb_stage j = RequiresAttention"
    using example_aside_ok(2) by (auto simp: at_stage_def)
  then have "j \<in> set (q_jobs (ew_queue (example_queue_world example_aside)))" "jb_execution_key j = ''k1''" "jb_stage j = RequiresAttention"
    by (auto simp: example_queue_world_def dest: find_job_row_Some)
  with recovery_isolated[OF ok, of example_env example_client "fst ?r" "snd ?r"] show ?thesis
    by (auto simp: example_queue_world_def)
qed

end
