(* ===== verification/Server_Store.thy ===== *)
theory Server_Store
  imports Execution_Codec
begin

text \<open>
  The control plane's PostgreSQL schema (\<open>deploy/schema.sql\<close>) and the record types of
  \<open>server/include/labbridge/server/repositories\<close>. A table is the list of its rows; NULL is \<open>None\<close>; a
  JSONB column of file lists holds its tree. Identifiers come from sequences, which keep their value when
  a transaction rolls back. What PostgreSQL computes from a text (\<^verbatim>\<open>::bigint\<close>, \<^verbatim>\<open>::timestamptz\<close>, \<^verbatim>\<open>::jsonb\<close>)
  enters through \<open>pg_env\<close>; a text it refuses throws \<open>SqlFault\<close>. Row locks and the isolation of
  transactions make each call atomic. Length limits of VARCHAR columns are not modelled.
\<close>

section \<open>Environment and errors\<close>

datatype server_exn = RuntimeFault string | SqlFault | JsonDumpFault

text \<open>
  \<open>pg_time_text\<close> is \<^verbatim>\<open>to_char(... AT TIME ZONE 'UTC', 'YYYY-MM-DD\"T\"HH24:MI:SS\"Z\"')\<close>; \<open>pg_json_text\<close> is what
  JSONB prints for a text it accepts; \<open>pg_json_tree\<close> tells the trees it accepts; \<open>pg_parse_json\<close> is nlohmann's.
\<close>

record pg_env =
  pg_bigint :: "string \<Rightarrow> int option"
  pg_time :: "string \<Rightarrow> int option"
  pg_time_text :: "int \<Rightarrow> string"
  pg_json_text :: "string \<Rightarrow> string option"
  pg_json_tree :: "json \<Rightarrow> bool"
  pg_parse_json :: "string \<Rightarrow> json option"
  pg_sha256 :: "string \<Rightarrow> string"

section \<open>Rows\<close>

record node_row =
  nd_id :: int
  nd_code :: string
  nd_name :: string
  nd_status :: node_status
  nd_agent_version :: string
  nd_last_heartbeat :: "int option"

record source_row =
  so_id :: int
  so_node :: int
  so_type :: source_type
  so_name :: string
  so_config :: string
  so_enabled :: bool

record task_row =
  tk_id :: int
  tk_node :: int
  tk_source :: int
  tk_name :: string
  tk_type :: string
  tk_schedule :: string
  tk_parser :: string
  tk_profile :: "string option"
  tk_enabled :: bool

record run_row =
  run_id :: int
  run_task :: int
  run_node :: int
  run_status :: task_run_status
  run_started :: "int option"
  run_finished :: "int option"
  run_total :: int
  run_success :: int
  run_failed :: int
  run_error :: "string option"
  run_trigger :: string
  run_key :: "string option"
  run_scheduled_for :: "int option"
  run_requested :: "int option"
  run_retry_of :: "int option"
  run_failed_files :: "json option"
  run_retry_files :: "json option"

record raw_row =
  rw_id :: int
  rw_run :: int
  rw_node :: int
  rw_name :: string
  rw_hash :: "string option"
  rw_path :: string
  rw_size :: int
  rw_mtime :: "int option"
  rw_ingest :: string

record record_row =
  rc_id :: int
  rc_raw :: int
  rc_run :: int
  rc_station :: "string option"
  rc_device :: "string option"
  rc_time :: "int option"
  rc_payload :: string
  rc_status :: string

record rule_row =
  ru_id :: int
  ru_name :: string
  ru_type :: string
  ru_config :: string
  ru_enabled :: bool

record binding_row =
  bi_task :: int
  bi_rule :: int
  bi_order :: int

record result_row =
  rs_id :: int
  rs_record :: int
  rs_rule :: int
  rs_level :: string
  rs_result :: string
  rs_message :: "string option"

record alert_row =
  al_id :: int
  al_node :: "int option"
  al_run :: "int option"
  al_type :: string
  al_severity :: string
  al_message :: string
  al_status :: string
  al_acknowledged :: "int option"
  al_closed :: "int option"

datatype receipt_type = RawFileManifest | TaskRunReport

record receipt_response =
  rsp_raw_file_ids :: "string list"
  rsp_parsed_record_ids :: "string list"
  rsp_qc_result_ids :: "string list"
  rsp_alert_ids :: "string list"

record receipt_row =
  rcp_id :: int
  rcp_node :: int
  rcp_run :: int
  rcp_type :: receipt_type
  rcp_key :: string
  rcp_fingerprint :: string
  rcp_response :: "receipt_response option"

text \<open>The next value of each \<^verbatim>\<open>BIGSERIAL\<close> column.\<close>

record sequences =
  sq_node :: int
  sq_source :: int
  sq_task :: int
  sq_run :: int
  sq_raw :: int
  sq_record :: int
  sq_rule :: int
  sq_result :: int
  sq_alert :: int
  sq_receipt :: int

record server_db =
  sv_nodes :: "node_row list"
  sv_sources :: "source_row list"
  sv_tasks :: "task_row list"
  sv_bindings :: "binding_row list"
  sv_rules :: "rule_row list"
  sv_runs :: "run_row list"
  sv_raw_files :: "raw_row list"
  sv_records :: "record_row list"
  sv_results :: "result_row list"
  sv_alerts :: "alert_row list"
  sv_receipts :: "receipt_row list"
  sv_seq :: sequences

type_synonym 'a sproc = "(server_db, server_exn, 'a) proc"

section \<open>Sequences\<close>

text \<open>\<^verbatim>\<open>nextval\<close> of a \<^verbatim>\<open>BIGSERIAL\<close> column; it fails at the end of the bigint range.\<close>

definition nextval :: "(sequences \<Rightarrow> int) \<Rightarrow> ((int \<Rightarrow> int) \<Rightarrow> sequences \<Rightarrow> sequences) \<Rightarrow> int sproc" where
  "nextval get upd db =
     (let i = get (sv_seq db) in
      if i < 2 ^ 63 then (Inr i, db\<lparr>sv_seq := upd (\<lambda>_. i + 1) (sv_seq db)\<rparr>) else (Inl SqlFault, db))"

section \<open>Columns\<close>

text \<open>\<open>storage::utc_column\<close>, \<open>NULLIF(x, '')\<close>, \<open>COALESCE(x, '')\<close> and the casts of a parameter.\<close>

definition utc_column :: "pg_env \<Rightarrow> int option \<Rightarrow> string" where
  "utc_column env t = (case t of None \<Rightarrow> [] | Some n \<Rightarrow> pg_time_text env n)"

definition nullif_empty :: "string \<Rightarrow> string option" where
  "nullif_empty s = (if s = [] then None else Some s)"

definition coalesce_empty :: "string option \<Rightarrow> string" where
  "coalesce_empty s = (case s of None \<Rightarrow> [] | Some t \<Rightarrow> t)"

definition to_bigint :: "pg_env \<Rightarrow> string \<Rightarrow> int sproc" where
  "to_bigint env s = (case pg_bigint env s of None \<Rightarrow> throw SqlFault | Some i \<Rightarrow> ret i)"

definition to_optional_bigint :: "pg_env \<Rightarrow> string \<Rightarrow> int option sproc" where
  "to_optional_bigint env s = (if s = [] then ret None else seqp (to_bigint env s) (\<lambda>i. ret (Some i)))"

definition to_time :: "pg_env \<Rightarrow> string \<Rightarrow> int sproc" where
  "to_time env s = (case pg_time env s of None \<Rightarrow> throw SqlFault | Some t \<Rightarrow> ret t)"

definition to_optional_time :: "pg_env \<Rightarrow> string \<Rightarrow> int option sproc" where
  "to_optional_time env s = (if s = [] then ret None else seqp (to_time env s) (\<lambda>t. ret (Some t)))"

fun task_run_status_text :: "task_run_status \<Rightarrow> string" where
  "task_run_status_text Pending = ''pending''"
| "task_run_status_text Running = ''running''"
| "task_run_status_text Succeeded = ''succeeded''"
| "task_run_status_text Failed = ''failed''"

definition id_text :: "int \<Rightarrow> string" where
  "id_text i = int_to_string i"

section \<open>Joins\<close>

definition node_with_code :: "string \<Rightarrow> server_db \<Rightarrow> node_row option" where
  "node_with_code code db = find (\<lambda>n. nd_code n = code) (sv_nodes db)"

definition node_with_id :: "int \<Rightarrow> server_db \<Rightarrow> node_row option" where
  "node_with_id i db = find (\<lambda>n. nd_id n = i) (sv_nodes db)"

definition on_node :: "string \<Rightarrow> int \<Rightarrow> server_db \<Rightarrow> bool" where
  "on_node code i db \<longleftrightarrow> (\<exists>n \<in> set (sv_nodes db). nd_id n = i \<and> nd_code n = code)"

definition task_row_with_id :: "int \<Rightarrow> server_db \<Rightarrow> task_row option" where
  "task_row_with_id i db = find (\<lambda>t. tk_id t = i) (sv_tasks db)"

definition run_row_with_id :: "int \<Rightarrow> server_db \<Rightarrow> run_row option" where
  "run_row_with_id i db = find (\<lambda>r. run_id r = i) (sv_runs db)"

section \<open>Record types\<close>

record task_run_failed_file =
  tf_source_path :: string
  tf_original_name :: string
  tf_stage :: string
  tf_message :: string
  tf_archive_raw_file_id :: string

record task_run_retry_file =
  ty_input_type :: string
  ty_source_path :: string
  ty_original_name :: string
  ty_archive_raw_file_id :: string
  ty_storage_path :: string
  ty_size_bytes :: int
  ty_file_hash :: string
  ty_source_mtime :: string

record pending_execution_record =
  px_task_run_id :: string
  px_task_id :: string
  px_execution_key :: string
  px_trigger_type :: string
  px_requested_at :: string
  px_retry_files :: "task_run_retry_file list"

text \<open>An empty \<open>failed_files_json\<close> stands for NULL.\<close>

record task_run_record =
  tr_id :: string
  tr_task_id :: string
  tr_node_code :: string
  tr_status :: task_run_status
  tr_started_at :: string
  tr_finished_at :: string
  tr_items_total :: int
  tr_items_success :: int
  tr_items_failed :: int
  tr_error_summary :: string
  tr_trigger_type :: string
  tr_execution_key :: string
  tr_scheduled_for :: string
  tr_requested_at :: string
  tr_retry_of_run_id :: string
  tr_failed_files_json :: "json option"

record data_source_record =
  dr_id :: string
  dr_node_code :: string
  dr_source_type :: source_type
  dr_name :: string
  dr_config_json :: string
  dr_enabled :: bool

record task_record =
  tx_id :: string
  tx_node_code :: string
  tx_data_source_id :: string
  tx_name :: string
  tx_task_type :: string
  tx_schedule_expr :: string
  tx_parser_type :: string
  tx_qc_profile :: string
  tx_enabled :: bool
  tx_qc_rule_ids :: "string list"

record qc_rule_record =
  qu_id :: string
  qu_name :: string
  qu_rule_type :: string
  qu_rule_config_json :: string
  qu_enabled :: bool

record qc_result_record =
  qs_id :: string
  qs_parsed_record_id :: string
  qs_qc_rule_id :: string
  qs_level :: string
  qs_result :: string
  qs_message :: string

record raw_file_record =
  rx_id :: string
  rx_task_run_id :: string
  rx_node_code :: string
  rx_original_name :: string
  rx_file_hash :: string
  rx_storage_path :: string
  rx_size_bytes :: int
  rx_source_mtime :: string
  rx_ingest_status :: string

record parsed_record_record =
  pd_id :: string
  pd_raw_file_id :: string
  pd_task_run_id :: string
  pd_record :: parsed_record
  pd_parse_status :: string

record alert_record =
  ar_id :: string
  ar_node_code :: string
  ar_task_run_id :: string
  ar_alert_type :: string
  ar_severity :: string
  ar_message :: string
  ar_status :: string
  ar_acknowledged_at :: string
  ar_closed_at :: string

end
