(* ===== verification/Server_Repositories.thy ===== *)
theory Server_Repositories
  imports Server_Store
begin

text \<open>
  The repositories of \<open>server/src/postgres\<close>, one definition per method: the statements they run over the
  tables of \<open>Server_Store\<close>, the casts of their parameters, what they read back and when they throw. The
  JSON lists of \<open>task_run_files_json.cpp\<close> stand before them. \<open>now\<close> is the start of the transaction.
\<close>

section \<open>File lists\<close>

definition encode_run_failed_file :: "task_run_failed_file \<Rightarrow> json" where
  "encode_run_failed_file f = JObj [(''source_path'', JStr (tf_source_path f)), (''original_name'', JStr (tf_original_name f)),
     (''stage'', JStr (tf_stage f)), (''message'', JStr (tf_message f)),
     (''archive_raw_file_id'', JStr (tf_archive_raw_file_id f))]"

definition encode_run_retry_file :: "task_run_retry_file \<Rightarrow> json" where
  "encode_run_retry_file f = JObj [(''input_type'', JStr (ty_input_type f)), (''source_path'', JStr (ty_source_path f)),
     (''original_name'', JStr (ty_original_name f)), (''archive_raw_file_id'', JStr (ty_archive_raw_file_id f)),
     (''storage_path'', JStr (ty_storage_path f)), (''size_bytes'', JInt (ty_size_bytes f)),
     (''file_hash'', JStr (ty_file_hash f)), (''source_mtime'', JStr (ty_source_mtime f))]"

definition string_member :: "json \<Rightarrow> string \<Rightarrow> string option" where
  "string_member payload field = (case json_find payload field of Some (JStr s) \<Rightarrow> Some s | _ \<Rightarrow> None)"

text \<open>\<open>get<long long>\<close> of an unsigned number converts it modulo two to the sixty-fourth.\<close>

definition size_member :: "json \<Rightarrow> int option" where
  "size_member payload =
     (case json_find payload ''size_bytes'' of
        Some (JInt i) \<Rightarrow> if i < 0 then None else if i < 2 ^ 63 then Some i else Some (i - 2 ^ 64)
      | _ \<Rightarrow> None)"

fun omap :: "('a \<Rightarrow> 'b option) \<Rightarrow> 'a list \<Rightarrow> 'b list option" where
  "omap f [] = Some []"
| "omap f (x # xs) = (case f x of None \<Rightarrow> None | Some y \<Rightarrow> (case omap f xs of None \<Rightarrow> None | Some ys \<Rightarrow> Some (y # ys)))"

definition parse_failed_item :: "json \<Rightarrow> task_run_failed_file option" where
  "parse_failed_item item =
     (if \<not> is_object item then None
      else case (string_member item ''source_path'', string_member item ''original_name'', string_member item ''stage'',
                 string_member item ''message'', string_member item ''archive_raw_file_id'') of
        (Some p, Some n, Some st, Some m, Some a) \<Rightarrow>
          Some \<lparr>tf_source_path = p, tf_original_name = n, tf_stage = st, tf_message = m, tf_archive_raw_file_id = a\<rparr>
      | _ \<Rightarrow> None)"

definition parse_failed_files_json :: "json option \<Rightarrow> task_run_failed_file list option" where
  "parse_failed_files_json doc = (case doc of Some (JArr items) \<Rightarrow> omap parse_failed_item items | _ \<Rightarrow> None)"

definition parse_retry_item :: "json \<Rightarrow> task_run_retry_file option" where
  "parse_retry_item item =
     (if \<not> is_object item then None
      else case string_member item ''input_type'' of
        None \<Rightarrow> None
      | Some ty \<Rightarrow>
          if ty \<noteq> ''archive'' \<and> ty \<noteq> ''source'' then None
          else case (string_member item ''source_path'', string_member item ''original_name'',
                     string_member item ''archive_raw_file_id'', string_member item ''storage_path'', size_member item,
                     string_member item ''file_hash'', string_member item ''source_mtime'') of
            (Some p, Some n, Some a, Some sp, Some bytes, Some h, Some mt) \<Rightarrow>
              Some \<lparr>ty_input_type = ty, ty_source_path = p, ty_original_name = n, ty_archive_raw_file_id = a,
                ty_storage_path = sp, ty_size_bytes = bytes, ty_file_hash = h, ty_source_mtime = mt\<rparr>
          | _ \<Rightarrow> None)"

definition parse_retry_files_json :: "json option \<Rightarrow> task_run_retry_file list option" where
  "parse_retry_files_json doc = (case doc of Some (JArr items) \<Rightarrow> omap parse_retry_item items | _ \<Rightarrow> None)"

text \<open>The dump refuses text that is not UTF-8.\<close>

definition dump_document :: "json \<Rightarrow> json sproc" where
  "dump_document doc = seqp (require (json_utf8 doc) JsonDumpFault) (\<lambda>_. ret doc)"

definition to_failed_files_json :: "task_run_failed_file list \<Rightarrow> json sproc" where
  "to_failed_files_json files = dump_document (JArr (map encode_run_failed_file files))"

definition to_retry_files_json :: "task_run_retry_file list \<Rightarrow> json sproc" where
  "to_retry_files_json files = dump_document (JArr (map encode_run_retry_file files))"

text \<open>\<^verbatim>\<open>NULLIF($n, '')::jsonb\<close> of a dumped list.\<close>

definition to_jsonb :: "pg_env \<Rightarrow> json option \<Rightarrow> json option sproc" where
  "to_jsonb env doc =
     (case doc of None \<Rightarrow> ret None | Some j \<Rightarrow> seqp (require (pg_json_tree env j) SqlFault) (\<lambda>_. ret (Some j)))"

section \<open>Task runs (\<open>task_run_repository.cpp\<close>)\<close>

definition task_run_of :: "pg_env \<Rightarrow> node_row \<Rightarrow> run_row \<Rightarrow> task_run_record" where
  "task_run_of env n r =
     \<lparr>tr_id = id_text (run_id r), tr_task_id = id_text (run_task r), tr_node_code = nd_code n, tr_status = run_status r,
      tr_started_at = utc_column env (run_started r), tr_finished_at = utc_column env (run_finished r),
      tr_items_total = run_total r, tr_items_success = run_success r, tr_items_failed = run_failed r,
      tr_error_summary = coalesce_empty (run_error r), tr_trigger_type = run_trigger r,
      tr_execution_key = coalesce_empty (run_key r), tr_scheduled_for = utc_column env (run_scheduled_for r),
      tr_requested_at = utc_column env (run_requested r),
      tr_retry_of_run_id = (case run_retry_of r of None \<Rightarrow> [] | Some i \<Rightarrow> id_text i), tr_failed_files_json = None\<rparr>"

text \<open>\<open>task_run_select\<close>: the first row that satisfies the condition, joined with its node.\<close>

definition task_run_select :: "pg_env \<Rightarrow> (run_row \<Rightarrow> bool) \<Rightarrow> server_db \<Rightarrow> task_run_record option" where
  "task_run_select env p db =
     (case find (\<lambda>r. p r \<and> node_with_id (run_node r) db \<noteq> None) (sv_runs db) of
        None \<Rightarrow> None
      | Some r \<Rightarrow> (case node_with_id (run_node r) db of None \<Rightarrow> None | Some n \<Rightarrow> Some (task_run_of env n r)))"

definition append_run :: "run_row \<Rightarrow> int sproc" where
  "append_run row =
     seqp (nextval sq_run sq_run_update) (\<lambda>i.
     seqp (modify (\<lambda>db. db\<lparr>sv_runs := sv_runs db @ [row\<lparr>run_id := i\<rparr>]\<rparr>)) (\<lambda>_. ret i))"

text \<open>\<^verbatim>\<open>FROM tasks t JOIN nodes n ON n.id = t.node_id WHERE t.id = $1 AND n.node_code = $2\<close>.\<close>

definition task_of_node :: "int \<Rightarrow> string \<Rightarrow> server_db \<Rightarrow> task_row option" where
  "task_of_node i code db = find (\<lambda>t. tk_id t = i \<and> on_node code (tk_node t) db) (sv_tasks db)"

definition run_create :: "pg_env \<Rightarrow> task_run_record \<Rightarrow> string sproc" where
  "run_create env r =
     seqp (to_bigint env (tr_task_id r)) (\<lambda>task.
     seqp (gets (task_of_node task (tr_node_code r))) (\<lambda>t. case t of
       None \<Rightarrow> throw (RuntimeFault ''failed to create task run'')
     | Some t \<Rightarrow>
         seqp (to_optional_time env (tr_started_at r)) (\<lambda>started.
         seqp (append_run \<lparr>run_id = 0, run_task = tk_id t, run_node = tk_node t, run_status = tr_status r,
             run_started = started, run_finished = None, run_total = tr_items_total r, run_success = tr_items_success r,
             run_failed = tr_items_failed r, run_error = nullif_empty (tr_error_summary r), run_trigger = tr_trigger_type r,
             run_key = None, run_scheduled_for = None, run_requested = None, run_retry_of = None, run_failed_files = None,
             run_retry_files = None\<rparr>) (\<lambda>i. ret (id_text i)))))"

text \<open>The two partial unique indexes of \<^verbatim>\<open>task_runs\<close>.\<close>

definition is_manual_trigger :: "string \<Rightarrow> bool" where
  "is_manual_trigger s \<longleftrightarrow> s = ''manual'' \<or> s = ''retry''"

definition same_execution_key :: "int \<Rightarrow> string \<Rightarrow> run_row \<Rightarrow> bool" where
  "same_execution_key node key r \<longleftrightarrow> run_node r = node \<and> run_key r = Some key"

definition pending_manual :: "int \<Rightarrow> run_row \<Rightarrow> bool" where
  "pending_manual task r \<longleftrightarrow> run_task r = task \<and> run_status r = Pending \<and> is_manual_trigger (run_trigger r)"

text \<open>A skipped insertion has used up an identifier.\<close>

definition skip_run_id :: "unit sproc" where
  "skip_run_id = seqp (nextval sq_run sq_run_update) (\<lambda>_. ret ())"

record run_start =
  rn_task_run :: task_run_record
  rn_created :: bool

definition find_scheduled :: "pg_env \<Rightarrow> task_run_record \<Rightarrow> run_start sproc" where
  "find_scheduled env r =
     seqp (gets (\<lambda>db. task_run_select env (\<lambda>x. on_node (tr_node_code r) (run_node x) db \<and> run_key x = Some (tr_execution_key r)) db))
       (\<lambda>existing. case existing of
         None \<Rightarrow> throw (RuntimeFault ''failed to create or find scheduled task run'')
       | Some x \<Rightarrow> ret \<lparr>rn_task_run = x, rn_created = False\<rparr>)"

definition create_or_find_scheduled :: "pg_env \<Rightarrow> task_run_record \<Rightarrow> run_start sproc" where
  "create_or_find_scheduled env r =
     seqp (to_bigint env (tr_task_id r)) (\<lambda>task.
     seqp (gets (task_of_node task (tr_node_code r))) (\<lambda>t. case t of
       None \<Rightarrow> find_scheduled env r
     | Some t \<Rightarrow>
         seqp (to_time env (tr_started_at r)) (\<lambda>started.
         seqp (to_time env (tr_scheduled_for r)) (\<lambda>scheduled.
         seqp (gets (\<lambda>db. \<exists>x \<in> set (sv_runs db). same_execution_key (tk_node t) (tr_execution_key r) x)) (\<lambda>taken.
         if taken then seqp skip_run_id (\<lambda>_. find_scheduled env r)
         else seqp (append_run \<lparr>run_id = 0, run_task = tk_id t, run_node = tk_node t, run_status = tr_status r,
             run_started = Some started, run_finished = None, run_total = tr_items_total r, run_success = tr_items_success r,
             run_failed = tr_items_failed r, run_error = nullif_empty (tr_error_summary r), run_trigger = tr_trigger_type r,
             run_key = Some (tr_execution_key r), run_scheduled_for = Some scheduled, run_requested = None, run_retry_of = None,
             run_failed_files = None, run_retry_files = None\<rparr>) (\<lambda>i.
           ret \<lparr>rn_task_run = r\<lparr>tr_id := id_text i\<rparr>, rn_created = True\<rparr>))))))"

definition find_by_id :: "pg_env \<Rightarrow> string \<Rightarrow> task_run_record option sproc" where
  "find_by_id env i = seqp (to_bigint env i) (\<lambda>n. gets (task_run_select env (\<lambda>r. run_id r = n)))"

definition find_by_execution_key :: "pg_env \<Rightarrow> string \<Rightarrow> task_run_record option sproc" where
  "find_by_execution_key env key = gets (task_run_select env (\<lambda>r. run_key r = Some key))"

record manual_run_request =
  mq_task_id :: string
  mq_node_code :: string
  mq_trigger_type :: string
  mq_execution_key :: string
  mq_retry_of_run_id :: string
  mq_retry_files :: "task_run_retry_file list"

definition find_manual :: "pg_env \<Rightarrow> string \<Rightarrow> run_start option sproc" where
  "find_manual env key =
     seqp (find_by_execution_key env key) (\<lambda>existing.
       ret (case existing of None \<Rightarrow> None | Some x \<Rightarrow> Some \<lparr>rn_task_run = x, rn_created = False\<rparr>))"

definition create_or_find_manual :: "pg_env \<Rightarrow> int \<Rightarrow> manual_run_request \<Rightarrow> run_start option sproc" where
  "create_or_find_manual env now q =
     seqp (if mq_retry_files q = [] then ret None
           else seqp (to_retry_files_json (mq_retry_files q)) (\<lambda>doc. ret (Some doc))) (\<lambda>doc.
     seqp (to_bigint env (mq_task_id q)) (\<lambda>task.
     seqp (gets (task_of_node task (mq_node_code q))) (\<lambda>t. case t of
       None \<Rightarrow> find_manual env (mq_execution_key q)
     | Some t \<Rightarrow>
         seqp (to_optional_bigint env (mq_retry_of_run_id q)) (\<lambda>retry_of.
         seqp (to_jsonb env doc) (\<lambda>files.
         seqp (gets (\<lambda>db. \<exists>x \<in> set (sv_runs db). same_execution_key (tk_node t) (mq_execution_key q) x \<or>
                (is_manual_trigger (mq_trigger_type q) \<and> pending_manual (tk_id t) x))) (\<lambda>taken.
         if taken then seqp skip_run_id (\<lambda>_. find_manual env (mq_execution_key q))
         else seqp (gets (\<lambda>db. retry_of = None \<or> run_row_with_id (the retry_of) db \<noteq> None)) (\<lambda>parent.
           if \<not> parent then seqp skip_run_id (\<lambda>_. throw SqlFault)
           else seqp (append_run \<lparr>run_id = 0, run_task = tk_id t, run_node = tk_node t, run_status = Pending,
               run_started = None, run_finished = None, run_total = 0, run_success = 0, run_failed = 0, run_error = None,
               run_trigger = mq_trigger_type q, run_key = Some (mq_execution_key q), run_scheduled_for = None,
               run_requested = Some now, run_retry_of = retry_of, run_failed_files = None, run_retry_files = files\<rparr>) (\<lambda>i.
           seqp (find_by_id env (id_text i)) (\<lambda>created. case created of
             None \<Rightarrow> throw (RuntimeFault ''created manual task run is not readable'')
           | Some x \<Rightarrow> ret (Some \<lparr>rn_task_run = x, rn_created = True\<rparr>))))))))))"

definition update_runs :: "(run_row \<Rightarrow> bool) \<Rightarrow> (run_row \<Rightarrow> run_row) \<Rightarrow> unit sproc" where
  "update_runs p f = modify (\<lambda>db. db\<lparr>sv_runs := update_where p f (sv_runs db)\<rparr>)"

definition run_finish :: "pg_env \<Rightarrow> task_run_record \<Rightarrow> unit sproc" where
  "run_finish env r =
     seqp (to_bigint env (tr_id r)) (\<lambda>i.
     seqp (to_optional_time env (tr_finished_at r)) (\<lambda>finished.
     seqp (to_jsonb env (tr_failed_files_json r)) (\<lambda>files.
       update_runs (\<lambda>x. run_id x = i)
         (\<lambda>x. x\<lparr>run_status := tr_status r, run_finished := finished, run_total := tr_items_total r,
            run_success := tr_items_success r, run_failed := tr_items_failed r,
            run_error := nullif_empty (tr_error_summary r), run_failed_files := files\<rparr>))))"

definition find_failed_files :: "pg_env \<Rightarrow> string \<Rightarrow> task_run_failed_file list option sproc" where
  "find_failed_files env i =
     seqp (to_bigint env i) (\<lambda>n. gets (\<lambda>db.
       case run_row_with_id n db of None \<Rightarrow> None | Some r \<Rightarrow> parse_failed_files_json (run_failed_files r)))"

definition find_retry_files :: "pg_env \<Rightarrow> string \<Rightarrow> task_run_retry_file list option sproc" where
  "find_retry_files env i =
     seqp (to_bigint env i) (\<lambda>n. gets (\<lambda>db.
       case run_row_with_id n db of None \<Rightarrow> None | Some r \<Rightarrow> parse_retry_files_json (run_retry_files r)))"

definition lock_task :: "pg_env \<Rightarrow> string \<Rightarrow> bool sproc" where
  "lock_task env i = seqp (to_bigint env i) (\<lambda>n. gets (\<lambda>db. task_row_with_id n db \<noteq> None))"

definition lock_by_id :: "pg_env \<Rightarrow> string \<Rightarrow> task_run_record option sproc" where
  "lock_by_id env i = find_by_id env i"

definition find_pending_manual_by_task :: "pg_env \<Rightarrow> string \<Rightarrow> task_run_record option sproc" where
  "find_pending_manual_by_task env i =
     seqp (to_bigint env i) (\<lambda>n. gets (\<lambda>db.
       task_run_select env (pending_manual n) (db\<lparr>sv_runs := sort_key run_id (sv_runs db)\<rparr>)))"

definition fail_pending_manual_runs :: "pg_env \<Rightarrow> int \<Rightarrow> string \<Rightarrow> string \<Rightarrow> unit sproc" where
  "fail_pending_manual_runs env now i error =
     seqp (to_bigint env i) (\<lambda>n. update_runs (pending_manual n)
       (\<lambda>r. r\<lparr>run_status := Failed, run_finished := Some now, run_error := Some error, run_failed_files := Some (JArr [])\<rparr>))"

definition mark_manual_running :: "pg_env \<Rightarrow> string \<Rightarrow> string \<Rightarrow> unit sproc" where
  "mark_manual_running env i started_at =
     seqp (to_bigint env i) (\<lambda>n. seqp (to_time env started_at) (\<lambda>t.
       update_runs (\<lambda>r. run_id r = n \<and> run_status r = Pending) (\<lambda>r. r\<lparr>run_status := Running, run_started := Some t\<rparr>)))"

definition pending_execution_of :: "pg_env \<Rightarrow> run_row \<Rightarrow> pending_execution_record" where
  "pending_execution_of env r =
     \<lparr>px_task_run_id = id_text (run_id r), px_task_id = id_text (run_task r), px_execution_key = coalesce_empty (run_key r),
      px_trigger_type = run_trigger r, px_requested_at = utc_column env (run_requested r),
      px_retry_files = (case parse_retry_files_json (run_retry_files r) of None \<Rightarrow> [] | Some fs \<Rightarrow> fs)\<rparr>"

definition find_pending_executions_by_node :: "pg_env \<Rightarrow> string \<Rightarrow> server_db \<Rightarrow> pending_execution_record list" where
  "find_pending_executions_by_node env code db =
     map (pending_execution_of env)
       (filter (\<lambda>r. on_node code (run_node r) db \<and> run_status r = Pending \<and> is_manual_trigger (run_trigger r))
         (sort_key run_id (sv_runs db)))"

end
