(* ===== verification/Server_Results.thy ===== *)
theory Server_Results
  imports Server_Repositories
begin

text \<open>
  The repositories of what runs produce: raw files, parsed records, quality control results, alerts and
  the receipts of the agent's reports (\<open>result_repository.cpp\<close>, \<open>qc_repository.cpp\<close>, \<open>alert_repository.cpp\<close>,
  \<open>agent_report_receipt_repository.cpp\<close>), and those of the configuration (\<open>config_repository.cpp\<close>,
  \<open>node_repository.cpp\<close>).
\<close>

section \<open>Raw files and parsed records\<close>

definition append_raw :: "raw_row \<Rightarrow> int sproc" where
  "append_raw row =
     seqp (nextval sq_raw sq_raw_update) (\<lambda>i.
     seqp (modify (\<lambda>db. db\<lparr>sv_raw_files := sv_raw_files db @ [row\<lparr>rw_id := i\<rparr>]\<rparr>)) (\<lambda>_. ret i))"

definition run_of_node :: "int \<Rightarrow> string \<Rightarrow> server_db \<Rightarrow> run_row option" where
  "run_of_node i code db = find (\<lambda>r. run_id r = i \<and> on_node code (run_node r) db) (sv_runs db)"

definition create_raw_file :: "pg_env \<Rightarrow> raw_file_record \<Rightarrow> string sproc" where
  "create_raw_file env f =
     seqp (to_bigint env (rx_task_run_id f)) (\<lambda>run.
     seqp (gets (run_of_node run (rx_node_code f))) (\<lambda>r. case r of
       None \<Rightarrow> throw (RuntimeFault ''failed to create raw file'')
     | Some r \<Rightarrow>
         seqp (to_optional_time env (rx_source_mtime f)) (\<lambda>mtime.
         seqp (append_raw \<lparr>rw_id = 0, rw_run = run_id r, rw_node = run_node r, rw_name = rx_original_name f,
             rw_hash = nullif_empty (rx_file_hash f), rw_path = rx_storage_path f, rw_size = rx_size_bytes f,
             rw_mtime = mtime, rw_ingest = rx_ingest_status f\<rparr>) (\<lambda>i. ret (id_text i)))))"

definition raw_file_of :: "pg_env \<Rightarrow> node_row \<Rightarrow> raw_row \<Rightarrow> raw_file_record" where
  "raw_file_of env n f =
     \<lparr>rx_id = id_text (rw_id f), rx_task_run_id = id_text (rw_run f), rx_node_code = nd_code n, rx_original_name = rw_name f,
      rx_file_hash = coalesce_empty (rw_hash f), rx_storage_path = rw_path f, rx_size_bytes = rw_size f,
      rx_source_mtime = utc_column env (rw_mtime f), rx_ingest_status = rw_ingest f\<rparr>"

definition repo_find_raw_file :: "pg_env \<Rightarrow> string \<Rightarrow> raw_file_record option sproc" where
  "repo_find_raw_file env i =
     seqp (to_bigint env i) (\<lambda>n. gets (\<lambda>db.
       case find (\<lambda>f. rw_id f = n) (sv_raw_files db) of
         None \<Rightarrow> None
       | Some f \<Rightarrow> map_option (\<lambda>nd. raw_file_of env nd f) (node_with_id (rw_node f) db)))"

definition append_record :: "record_row \<Rightarrow> int sproc" where
  "append_record row =
     seqp (nextval sq_record sq_record_update) (\<lambda>i.
     seqp (modify (\<lambda>db. db\<lparr>sv_records := sv_records db @ [row\<lparr>rc_id := i\<rparr>]\<rparr>)) (\<lambda>_. ret i))"

definition to_json_text :: "pg_env \<Rightarrow> string \<Rightarrow> string sproc" where
  "to_json_text env s = (case pg_json_text env s of None \<Rightarrow> throw SqlFault | Some t \<Rightarrow> ret t)"

definition create_parsed_record :: "pg_env \<Rightarrow> parsed_record_record \<Rightarrow> string sproc" where
  "create_parsed_record env p =
     seqp (to_bigint env (pd_raw_file_id p)) (\<lambda>raw.
     seqp (to_bigint env (pd_task_run_id p)) (\<lambda>run.
     seqp (gets (\<lambda>db. find (\<lambda>f. rw_id f = raw \<and> rw_run f = run \<and> run_row_with_id run db \<noteq> None) (sv_raw_files db))) (\<lambda>f.
     case f of
       None \<Rightarrow> throw (RuntimeFault ''failed to create parsed record'')
     | Some f \<Rightarrow>
         seqp (to_optional_time env (pr_record_time (pd_record p))) (\<lambda>time.
         seqp (to_json_text env (pr_payload_json (pd_record p))) (\<lambda>payload.
         seqp (append_record \<lparr>rc_id = 0, rc_raw = rw_id f, rc_run = rw_run f,
             rc_station = nullif_empty (pr_station_code (pd_record p)), rc_device = nullif_empty (pr_device_code (pd_record p)),
             rc_time = time, rc_payload = payload, rc_status = pd_parse_status p\<rparr>) (\<lambda>i. ret (id_text i)))))))"

definition parsed_record_of :: "pg_env \<Rightarrow> record_row \<Rightarrow> parsed_record_record" where
  "parsed_record_of env r =
     \<lparr>pd_id = id_text (rc_id r), pd_raw_file_id = id_text (rc_raw r), pd_task_run_id = id_text (rc_run r),
      pd_record = \<lparr>pr_station_code = coalesce_empty (rc_station r), pr_device_code = coalesce_empty (rc_device r),
        pr_record_time = utc_column env (rc_time r), pr_payload_json = rc_payload r\<rparr>,
      pd_parse_status = rc_status r\<rparr>"

definition find_parsed_record :: "pg_env \<Rightarrow> string \<Rightarrow> parsed_record_record option sproc" where
  "find_parsed_record env i =
     seqp (to_bigint env i) (\<lambda>n. gets (\<lambda>db. map_option (parsed_record_of env) (find (\<lambda>r. rc_id r = n) (sv_records db))))"

section \<open>Quality control\<close>

definition rule_of :: "rule_row \<Rightarrow> qc_rule_record" where
  "rule_of r = \<lparr>qu_id = id_text (ru_id r), qu_name = ru_name r, qu_rule_type = ru_type r, qu_rule_config_json = ru_config r,
     qu_enabled = ru_enabled r\<rparr>"

definition rule_row_with_id :: "int \<Rightarrow> server_db \<Rightarrow> rule_row option" where
  "rule_row_with_id i db = find (\<lambda>r. ru_id r = i) (sv_rules db)"

definition repo_find_rule :: "pg_env \<Rightarrow> string \<Rightarrow> qc_rule_record option sproc" where
  "repo_find_rule env i = seqp (to_bigint env i) (\<lambda>n. gets (\<lambda>db. map_option rule_of (rule_row_with_id n db)))"

definition repo_create_rule :: "pg_env \<Rightarrow> qc_rule_record \<Rightarrow> string sproc" where
  "repo_create_rule env r =
     seqp (to_json_text env (qu_rule_config_json r)) (\<lambda>config.
     seqp (nextval sq_rule sq_rule_update) (\<lambda>i.
     seqp (modify (\<lambda>db. db\<lparr>sv_rules := sv_rules db @ [\<lparr>ru_id = i, ru_name = qu_name r, ru_type = qu_rule_type r,
         ru_config = config, ru_enabled = qu_enabled r\<rparr>]\<rparr>)) (\<lambda>_. ret (id_text i))))"

definition repo_create_result :: "pg_env \<Rightarrow> qc_result_record \<Rightarrow> string sproc" where
  "repo_create_result env q =
     seqp (to_bigint env (qs_parsed_record_id q)) (\<lambda>record.
     seqp (to_bigint env (qs_qc_rule_id q)) (\<lambda>rule.
     seqp (gets (\<lambda>db. (\<exists>r \<in> set (sv_records db). rc_id r = record) \<and> rule_row_with_id rule db \<noteq> None)) (\<lambda>known.
     seqp (nextval sq_result sq_result_update) (\<lambda>i.
     seqp (require known SqlFault) (\<lambda>_.
     seqp (modify (\<lambda>db. db\<lparr>sv_results := sv_results db @ [\<lparr>rs_id = i, rs_record = record, rs_rule = rule,
         rs_level = qs_level q, rs_result = qs_result q, rs_message = nullif_empty (qs_message q)\<rparr>]\<rparr>)) (\<lambda>_. ret (id_text i)))))))"

definition qc_result_of :: "result_row \<Rightarrow> qc_result_record" where
  "qc_result_of r = \<lparr>qs_id = id_text (rs_id r), qs_parsed_record_id = id_text (rs_record r), qs_qc_rule_id = id_text (rs_rule r),
     qs_level = rs_level r, qs_result = rs_result r, qs_message = coalesce_empty (rs_message r)\<rparr>"

definition find_qc_result :: "pg_env \<Rightarrow> string \<Rightarrow> qc_result_record option sproc" where
  "find_qc_result env i =
     seqp (to_bigint env i) (\<lambda>n. gets (\<lambda>db. map_option qc_result_of (find (\<lambda>r. rs_id r = n) (sv_results db))))"

section \<open>Alerts\<close>

definition create_alert_row :: "pg_env \<Rightarrow> alert_record \<Rightarrow> string sproc" where
  "create_alert_row env a =
     seqp (to_optional_bigint env (ar_task_run_id a)) (\<lambda>run.
     seqp (gets (node_with_code (ar_node_code a))) (\<lambda>n. case n of
       None \<Rightarrow> throw (RuntimeFault ''failed to create alert'')
     | Some n \<Rightarrow>
         seqp (gets (\<lambda>db. case run of None \<Rightarrow> True
                 | Some i \<Rightarrow> \<exists>r \<in> set (sv_runs db). run_id r = i \<and> run_node r = nd_id n)) (\<lambda>owned.
         seqp (require owned (RuntimeFault ''failed to create alert'')) (\<lambda>_.
         seqp (nextval sq_alert sq_alert_update) (\<lambda>i.
         seqp (modify (\<lambda>db. db\<lparr>sv_alerts := sv_alerts db @ [\<lparr>al_id = i, al_node = Some (nd_id n), al_run = run,
             al_type = ar_alert_type a, al_severity = ar_severity a, al_message = ar_message a,
             al_status = (if ar_status a = [] then ''open'' else ar_status a), al_acknowledged = None, al_closed = None\<rparr>]\<rparr>)) (\<lambda>_.
           ret (id_text i)))))))"

definition alert_of :: "pg_env \<Rightarrow> server_db \<Rightarrow> alert_row \<Rightarrow> alert_record" where
  "alert_of env db a =
     \<lparr>ar_id = id_text (al_id a),
      ar_node_code = (case al_node a of None \<Rightarrow> []
        | Some i \<Rightarrow> (case node_with_id i db of None \<Rightarrow> [] | Some n \<Rightarrow> nd_code n)),
      ar_task_run_id = (case al_run a of None \<Rightarrow> [] | Some i \<Rightarrow> id_text i), ar_alert_type = al_type a,
      ar_severity = al_severity a, ar_message = al_message a, ar_status = al_status a,
      ar_acknowledged_at = utc_column env (al_acknowledged a), ar_closed_at = utc_column env (al_closed a)\<rparr>"

definition read_alert :: "pg_env \<Rightarrow> string \<Rightarrow> alert_record option sproc" where
  "read_alert env i =
     seqp (to_bigint env i) (\<lambda>n. gets (\<lambda>db. map_option (alert_of env db) (find (\<lambda>a. al_id a = n) (sv_alerts db))))"

definition lock_alert_by_id :: "pg_env \<Rightarrow> string \<Rightarrow> alert_record option sproc" where
  "lock_alert_by_id env i = read_alert env i"

definition find_alerts_by_node :: "pg_env \<Rightarrow> string \<Rightarrow> server_db \<Rightarrow> alert_record list" where
  "find_alerts_by_node env code db =
     map (alert_of env db) (filter (\<lambda>a. case al_node a of None \<Rightarrow> False | Some i \<Rightarrow> on_node code i db)
       (sort_key al_id (sv_alerts db)))"

definition find_alerts_by_task_run :: "pg_env \<Rightarrow> string \<Rightarrow> alert_record list sproc" where
  "find_alerts_by_task_run env i =
     seqp (to_bigint env i) (\<lambda>n. gets (\<lambda>db.
       map (alert_of env db) (filter (\<lambda>a. al_run a = Some n) (sort_key al_id (sv_alerts db)))))"

definition update_alert :: "pg_env \<Rightarrow> (alert_row \<Rightarrow> alert_row) \<Rightarrow> string \<Rightarrow> alert_record option sproc" where
  "update_alert env f i =
     seqp (to_bigint env i) (\<lambda>n.
     seqp (gets (\<lambda>db. count_where (\<lambda>a. al_id a = n) (sv_alerts db))) (\<lambda>changes.
     seqp (modify (\<lambda>db. db\<lparr>sv_alerts := update_where (\<lambda>a. al_id a = n) f (sv_alerts db)\<rparr>)) (\<lambda>_.
       if changes = 0 then ret None else read_alert env i)))"

definition keep_first :: "int \<Rightarrow> int option \<Rightarrow> int option" where
  "keep_first now t = (case t of None \<Rightarrow> Some now | Some x \<Rightarrow> Some x)"

definition save_acknowledged :: "pg_env \<Rightarrow> int \<Rightarrow> string \<Rightarrow> alert_record option sproc" where
  "save_acknowledged env now =
     update_alert env (\<lambda>a. a\<lparr>al_status := ''acknowledged'', al_acknowledged := keep_first now (al_acknowledged a)\<rparr>)"

definition save_closed :: "pg_env \<Rightarrow> int \<Rightarrow> string \<Rightarrow> alert_record option sproc" where
  "save_closed env now = update_alert env (\<lambda>a. a\<lparr>al_status := ''closed'', al_closed := keep_first now (al_closed a)\<rparr>)"

section \<open>Receipts\<close>

record receipt_claim =
  cl_task_run_id :: string
  cl_node_code :: string
  cl_request_type :: receipt_type
  cl_idempotency_key :: string
  cl_request_fingerprint :: string

text \<open>
  \<open>split_ids\<close>: the loop over the text with its position; \<^verbatim>\<open>find\<close> returns \<open>npos\<close> where no comma is left.
\<close>

definition find_comma :: "string \<Rightarrow> nat \<Rightarrow> nat option" where
  "find_comma s begin = find (\<lambda>i. s ! i = CHR '','') [begin..<length s]"

partial_function (option) split_loop :: "string \<Rightarrow> nat \<Rightarrow> string list \<Rightarrow> string list option" where
  "split_loop s begin ids =
     (if \<not> begin < length s then Some ids
      else case find_comma s begin of
        None \<Rightarrow> Some (ids @ [drop begin s])
      | Some e \<Rightarrow> split_loop s (e + 1) (ids @ [take (e - begin) (drop begin s)]))"

declare split_loop.simps [code]

definition split_ids :: "string \<Rightarrow> string list option" where
  "split_ids s = split_loop s 0 []"

definition valid_response_id :: "string \<Rightarrow> server_exn + unit" where
  "valid_response_id i =
     (if i = [] then Inl (RuntimeFault ''agent report receipt response contains an empty id'')
      else if \<not> list_all isdigit i then Inl (RuntimeFault ''agent report receipt response contains an invalid id'')
      else Inr ())"

text \<open>A comma goes before an identifier wherever the text so far is not empty.\<close>

fun join_loop :: "string \<Rightarrow> string list \<Rightarrow> server_exn + string" where
  "join_loop joined [] = Inr joined"
| "join_loop joined (i # ids) =
     sbind (valid_response_id i) (\<lambda>_. join_loop ((if joined = [] then joined else joined @ '','') @ i) ids)"

definition join_ids :: "string list \<Rightarrow> server_exn + string" where
  "join_ids ids = join_loop [] ids"

text \<open>\<^verbatim>\<open>string_to_array\<close> into a JSON array of texts, and \<^verbatim>\<open>string_agg(item.value, ',')\<close> back.\<close>

definition stored_ids :: "string \<Rightarrow> string list" where
  "stored_ids joined = (if joined = [] then [] else foldr (\<lambda>c acc. if c = CHR '','' then [] # acc else (c # hd acc) # tl acc) joined [[]])"

definition aggregated_ids :: "string list \<Rightarrow> string" where
  "aggregated_ids ids = (case ids of [] \<Rightarrow> [] | i # is \<Rightarrow> i @ concat (map (\<lambda>x. '','' @ x) is))"

record receipt =
  rt_id :: string
  rt_claim :: receipt_claim
  rt_response :: receipt_response
  rt_completed :: bool

definition empty_response :: receipt_response where
  "empty_response = \<lparr>rsp_raw_file_ids = [], rsp_parsed_record_ids = [], rsp_qc_result_ids = [], rsp_alert_ids = []\<rparr>"

definition read_ids :: "string list \<Rightarrow> string list" where
  "read_ids stored = the (split_ids (aggregated_ids stored))"

definition receipt_of :: "node_row \<Rightarrow> receipt_row \<Rightarrow> receipt" where
  "receipt_of n r =
     \<lparr>rt_id = id_text (rcp_id r),
      rt_claim = \<lparr>cl_task_run_id = id_text (rcp_run r), cl_node_code = nd_code n, cl_request_type = rcp_type r,
        cl_idempotency_key = rcp_key r, cl_request_fingerprint = rcp_fingerprint r\<rparr>,
      rt_response = (case rcp_response r of None \<Rightarrow> empty_response
        | Some x \<Rightarrow> \<lparr>rsp_raw_file_ids = read_ids (rsp_raw_file_ids x), rsp_parsed_record_ids = read_ids (rsp_parsed_record_ids x),
            rsp_qc_result_ids = read_ids (rsp_qc_result_ids x), rsp_alert_ids = read_ids (rsp_alert_ids x)\<rparr>),
      rt_completed = (rcp_response r \<noteq> None)\<rparr>"

definition select_receipt :: "(receipt_row \<Rightarrow> bool) \<Rightarrow> server_db \<Rightarrow> receipt option" where
  "select_receipt p db =
     (case find (\<lambda>r. p r \<and> node_with_id (rcp_node r) db \<noteq> None) (sv_receipts db) of
        None \<Rightarrow> None
      | Some r \<Rightarrow> map_option (\<lambda>n. receipt_of n r) (node_with_id (rcp_node r) db))"

datatype claim_state = Acquired | Replay | IdempotencyConflict | TaskRunConflict

text \<open>The two unique indexes of \<^verbatim>\<open>agent_report_receipts\<close>.\<close>

definition receipt_clash :: "int \<Rightarrow> int \<Rightarrow> receipt_claim \<Rightarrow> receipt_row \<Rightarrow> bool" where
  "receipt_clash node run c r \<longleftrightarrow>
     (rcp_node r = node \<and> rcp_type r = cl_request_type c \<and> rcp_key r = cl_idempotency_key c) \<or>
     (cl_request_type c = TaskRunReport \<and> rcp_type r = TaskRunReport \<and> rcp_run r = run)"

definition skip_receipt_id :: "unit sproc" where
  "skip_receipt_id = seqp (nextval sq_receipt sq_receipt_update) (\<lambda>_. ret ())"

definition append_receipt :: "receipt_row \<Rightarrow> int sproc" where
  "append_receipt row =
     seqp (nextval sq_receipt sq_receipt_update) (\<lambda>i.
     seqp (modify (\<lambda>db. db\<lparr>sv_receipts := sv_receipts db @ [row\<lparr>rcp_id := i\<rparr>]\<rparr>)) (\<lambda>_. ret i))"

definition new_receipt :: "receipt_claim \<Rightarrow> string \<Rightarrow> receipt" where
  "new_receipt c i = \<lparr>rt_id = i, rt_claim = c, rt_response = empty_response, rt_completed = False\<rparr>"

definition existing_receipt :: "pg_env \<Rightarrow> receipt_claim \<Rightarrow> (claim_state \<times> receipt) sproc" where
  "existing_receipt env c =
     seqp (gets (\<lambda>db. select_receipt (\<lambda>r. on_node (cl_node_code c) (rcp_node r) db \<and> rcp_type r = cl_request_type c \<and>
             rcp_key r = cl_idempotency_key c) db)) (\<lambda>same_key. case same_key of
       Some x \<Rightarrow>
         if cl_request_fingerprint (rt_claim x) \<noteq> cl_request_fingerprint c then ret (IdempotencyConflict, x)
         else if \<not> rt_completed x then throw (RuntimeFault ''agent report receipt is incomplete'')
         else ret (Replay, x)
     | None \<Rightarrow>
         if cl_request_type c = TaskRunReport then
           seqp (to_bigint env (cl_task_run_id c)) (\<lambda>run.
           seqp (gets (select_receipt (\<lambda>r. rcp_run r = run \<and> rcp_type r = TaskRunReport))) (\<lambda>existing. case existing of
             Some x \<Rightarrow> ret (TaskRunConflict, x)
           | None \<Rightarrow> throw (RuntimeFault ''failed to claim agent report receipt'')))
         else throw (RuntimeFault ''failed to claim agent report receipt''))"

definition claim_receipt :: "pg_env \<Rightarrow> receipt_claim \<Rightarrow> (claim_state \<times> receipt) sproc" where
  "claim_receipt env c =
     seqp (to_bigint env (cl_task_run_id c)) (\<lambda>run.
     seqp (gets (run_of_node run (cl_node_code c))) (\<lambda>r. case r of
       None \<Rightarrow> existing_receipt env c
     | Some r \<Rightarrow>
         seqp (gets (\<lambda>db. \<exists>x \<in> set (sv_receipts db). receipt_clash (run_node r) (run_id r) c x)) (\<lambda>taken.
         if taken then seqp skip_receipt_id (\<lambda>_. existing_receipt env c)
         else seqp (append_receipt \<lparr>rcp_id = 0, rcp_node = run_node r, rcp_run = run_id r, rcp_type = cl_request_type c,
             rcp_key = cl_idempotency_key c, rcp_fingerprint = cl_request_fingerprint c, rcp_response = None\<rparr>) (\<lambda>i.
           ret (Acquired, new_receipt c (id_text i))))))"

definition complete_receipt :: "pg_env \<Rightarrow> string \<Rightarrow> receipt_response \<Rightarrow> unit sproc" where
  "complete_receipt env i response =
     seqp (lift_sum (join_ids (rsp_raw_file_ids response))) (\<lambda>raw.
     seqp (lift_sum (join_ids (rsp_parsed_record_ids response))) (\<lambda>records.
     seqp (lift_sum (join_ids (rsp_qc_result_ids response))) (\<lambda>results.
     seqp (lift_sum (join_ids (rsp_alert_ids response))) (\<lambda>alerts.
     seqp (to_bigint env i) (\<lambda>n.
     let open = (\<lambda>r. rcp_id r = n \<and> rcp_response r = None) in
     seqp (gets (\<lambda>db. count_where open (sv_receipts db))) (\<lambda>changes.
     seqp (modify (\<lambda>db. db\<lparr>sv_receipts := update_where open
         (\<lambda>r. r\<lparr>rcp_response := Some \<lparr>rsp_raw_file_ids = stored_ids raw, rsp_parsed_record_ids = stored_ids records,
            rsp_qc_result_ids = stored_ids results, rsp_alert_ids = stored_ids alerts\<rparr>\<rparr>) (sv_receipts db)\<rparr>)) (\<lambda>_.
       require (changes \<noteq> 0) (RuntimeFault ''failed to complete agent report receipt''))))))))"

section \<open>Configuration\<close>

definition node_of :: "pg_env \<Rightarrow> node_row \<Rightarrow> node_info \<times> node_status \<times> string" where
  "node_of env n = (\<lparr>ni_node_code = nd_code n, ni_name = nd_name n, ni_agent_version = nd_agent_version n\<rparr>, nd_status n,
     utc_column env (nd_last_heartbeat n))"

definition find_by_code :: "pg_env \<Rightarrow> string \<Rightarrow> server_db \<Rightarrow> (node_info \<times> node_status \<times> string) option" where
  "find_by_code env code db = map_option (node_of env) (node_with_code code db)"

definition data_source_of :: "node_row \<Rightarrow> source_row \<Rightarrow> data_source_record" where
  "data_source_of n s = \<lparr>dr_id = id_text (so_id s), dr_node_code = nd_code n, dr_source_type = so_type s, dr_name = so_name s,
     dr_config_json = so_config s, dr_enabled = so_enabled s\<rparr>"

definition find_data_source :: "pg_env \<Rightarrow> string \<Rightarrow> data_source_record option sproc" where
  "find_data_source env i =
     seqp (to_bigint env i) (\<lambda>n. gets (\<lambda>db.
       case find (\<lambda>s. so_id s = n) (sv_sources db) of
         None \<Rightarrow> None
       | Some s \<Rightarrow> map_option (\<lambda>nd. data_source_of nd s) (node_with_id (so_node s) db)))"

definition task_of :: "node_row \<Rightarrow> task_row \<Rightarrow> task_record" where
  "task_of n t = \<lparr>tx_id = id_text (tk_id t), tx_node_code = nd_code n, tx_data_source_id = id_text (tk_source t),
     tx_name = tk_name t, tx_task_type = tk_type t, tx_schedule_expr = tk_schedule t, tx_parser_type = tk_parser t,
     tx_qc_profile = coalesce_empty (tk_profile t), tx_enabled = tk_enabled t, tx_qc_rule_ids = []\<rparr>"

definition find_task :: "pg_env \<Rightarrow> string \<Rightarrow> task_record option sproc" where
  "find_task env i =
     seqp (to_bigint env i) (\<lambda>n. gets (\<lambda>db.
       case task_row_with_id n db of
         None \<Rightarrow> None
       | Some t \<Rightarrow> map_option (\<lambda>nd. task_of nd t) (node_with_id (tk_node t) db)))"

definition find_task_qc_rule_ids :: "pg_env \<Rightarrow> string \<Rightarrow> string list sproc" where
  "find_task_qc_rule_ids env i =
     seqp (to_bigint env i) (\<lambda>n. gets (\<lambda>db.
       map (\<lambda>b. id_text (bi_rule b)) (sort_key bi_order (sort_key bi_rule (filter (\<lambda>b. bi_task b = n) (sv_bindings db))))))"

definition repo_set_task_enabled :: "pg_env \<Rightarrow> string \<Rightarrow> bool \<Rightarrow> unit sproc" where
  "repo_set_task_enabled env i enabled =
     seqp (to_bigint env i) (\<lambda>n.
       modify (\<lambda>db. db\<lparr>sv_tasks := update_where (\<lambda>t. tk_id t = n) (\<lambda>t. t\<lparr>tk_enabled := enabled\<rparr>) (sv_tasks db)\<rparr>))"

end
