(* ===== verification/Task_Run_Service.thy ===== *)
theory Task_Run_Service
  imports Server_Results
begin

text \<open>
  \<open>TaskRunService\<close> (\<open>server/src/application/task_run_service.cpp\<close>) with the checks it shares with the
  management commands (\<open>id_validation.h\<close>, \<open>task_executability.cpp\<close>) and the transaction that runs it
  (\<open>task_run_executor.cpp\<close>, \<open>sql_transaction.cpp\<close>).
\<close>

section \<open>Texts\<close>

fun decimal_loop_at :: "int \<Rightarrow> string \<Rightarrow> int" where
  "decimal_loop_at result [] = result"
| "decimal_loop_at result (c # cs) = (if \<not> isdigit c then -1 else decimal_loop_at (result * 10 + int (digit_value c)) cs)"

definition decimal_component :: "string \<Rightarrow> nat \<Rightarrow> nat \<Rightarrow> int" where
  "decimal_component value offset n = decimal_loop_at 0 (take n (drop offset value))"

definition is_leap_year :: "int \<Rightarrow> bool" where
  "is_leap_year year \<longleftrightarrow> (year mod 4 = 0 \<and> year mod 100 \<noteq> 0) \<or> year mod 400 = 0"

definition kDaysByMonth :: "int list" where
  "kDaysByMonth = [31, 28, 31, 30, 31, 30, 31, 31, 30, 31, 30, 31]"

definition is_rfc3339_utc :: "string \<Rightarrow> bool" where
  "is_rfc3339_utc value =
     (if length value \<noteq> 20 \<or> value ! 4 \<noteq> CHR ''-'' \<or> value ! 7 \<noteq> CHR ''-'' \<or> value ! 10 \<noteq> CHR ''T'' \<or>
         value ! 13 \<noteq> CHR '':'' \<or> value ! 16 \<noteq> CHR '':'' \<or> value ! 19 \<noteq> CHR ''Z'' then False
      else
        let year = decimal_component value 0 4; month = decimal_component value 5 2; day = decimal_component value 8 2;
            hour = decimal_component value 11 2; minute = decimal_component value 14 2; second = decimal_component value 17 2 in
        if year < 1 \<or> month < 1 \<or> month > 12 \<or> hour < 0 \<or> hour > 23 \<or> minute < 0 \<or> minute > 59 \<or> second < 0 \<or> second > 59
        then False
        else
          let maximum_day = (if month = 2 \<and> is_leap_year year then 29 else kDaysByMonth ! nat (month - 1)) in
          day \<ge> 1 \<and> day \<le> maximum_day)"

definition is_hexadecimal :: "string \<Rightarrow> bool" where
  "is_hexadecimal value \<longleftrightarrow>
     list_all (\<lambda>c. isdigit c \<or> 97 \<le> char_code c \<and> char_code c \<le> 102 \<or> 65 \<le> char_code c \<and> char_code c \<le> 70) value"

definition is_operator_idempotency_key :: "string \<Rightarrow> bool" where
  "is_operator_idempotency_key key \<longleftrightarrow> length key = 32 \<and> is_hexadecimal key"

text \<open>\<open>std::from_chars\<close> of an unsigned number takes digits only, and fails on overflow.\<close>

definition is_positive_id :: "string \<Rightarrow> bool" where
  "is_positive_id value \<longleftrightarrow> value \<noteq> [] \<and> list_all isdigit value \<and> 0 < digits_value 0 value \<and> int (digits_value 0 value) \<le> 2 ^ 63 - 1"

definition invalid_status :: "string \<Rightarrow> status" where
  "invalid_status m = status_failure_with InvalidArgument m"

definition not_found_status :: "string \<Rightarrow> status" where
  "not_found_status m = status_failure_with NotFound m"

definition conflict_status :: "string \<Rightarrow> status" where
  "conflict_status m = status_failure_with Conflict m"

lemma status_kinds_ok [simp]: "\<not> st_ok (invalid_status m)" "\<not> st_ok (not_found_status m)" "\<not> st_ok (conflict_status m)"
  by (simp_all add: invalid_status_def not_found_status_def conflict_status_def)

section \<open>Whether a task can run (\<open>task_executability.cpp\<close>)\<close>

definition is_supported_rule_type :: "string \<Rightarrow> bool" where
  "is_supported_rule_type ty \<longleftrightarrow> ty = ''required_fields'' \<or> ty = ''basic_timestamp_format''"

definition is_blank :: "string \<Rightarrow> bool" where
  "is_blank value \<longleftrightarrow> list_all isspace value"

definition parse_json_object :: "pg_env \<Rightarrow> string \<Rightarrow> json option" where
  "parse_json_object env text =
     (case pg_parse_json env text of None \<Rightarrow> None | Some v \<Rightarrow> if is_object v then Some v else None)"

definition is_executable_source_config :: "json option \<Rightarrow> bool" where
  "is_executable_source_config config =
     (case config of None \<Rightarrow> False
      | Some c \<Rightarrow> (case (string_member c ''root_path'', string_member c ''extension'') of
          (Some root, Some ext) \<Rightarrow> \<not> is_blank root \<and> ext = ''.csv''
        | _ \<Rightarrow> False))"

fun validate_rules :: "pg_env \<Rightarrow> string list \<Rightarrow> status sproc" where
  "validate_rules env [] = ret status_success"
| "validate_rules env (i # is) =
     seqp (repo_find_rule env i) (\<lambda>rule. case rule of
       None \<Rightarrow> ret (not_found_status ''QC rule is not found'')
     | Some rule \<Rightarrow>
         if \<not> qu_enabled rule then ret (conflict_status ''QC rule is disabled'')
         else if \<not> is_supported_rule_type (qu_rule_type rule) then ret (conflict_status ''QC rule type is not executable'')
         else if parse_json_object env (qu_rule_config_json rule) \<noteq> Some (JObj [])
              then ret (conflict_status ''QC rule config is not executable'')
         else validate_rules env is)"

definition validate_task_executable :: "pg_env \<Rightarrow> task_record \<Rightarrow> string list \<Rightarrow> status sproc" where
  "validate_task_executable env task rule_ids =
     seqp (gets (find_by_code env (tx_node_code task))) (\<lambda>node.
     if node = None then ret (not_found_status ''node is not found'')
     else seqp (find_data_source env (tx_data_source_id task)) (\<lambda>source. case source of
       None \<Rightarrow> ret (not_found_status ''data source is not found'')
     | Some source \<Rightarrow>
         if dr_node_code source \<noteq> tx_node_code task then ret (conflict_status ''data source does not belong to node'')
         else if \<not> dr_enabled source then ret (conflict_status ''data source is disabled'')
         else if dr_source_type source \<noteq> LocalDirectory then ret (conflict_status ''data source type is not executable'')
         else if \<not> is_executable_source_config (parse_json_object env (dr_config_json source))
              then ret (conflict_status ''data source config is not executable by CSV tasks'')
         else validate_rules env rule_ids))"

section \<open>Starting a run\<close>

record start_run_request =
  sp_node_code :: string
  sp_task_id :: string
  sp_started_at :: string
  sp_trigger_type :: string
  sp_execution_key :: string
  sp_scheduled_for :: string

record create_result =
  cr_outcome :: status
  cr_id :: string
  cr_replayed :: bool
  cr_run_status :: string

definition create_failed :: "status \<Rightarrow> create_result" where
  "create_failed s = \<lparr>cr_outcome = s, cr_id = [], cr_replayed = False, cr_run_status = []\<rparr>"

definition replay_result :: "task_run_record \<Rightarrow> create_result" where
  "replay_result run = \<lparr>cr_outcome = status_success, cr_id = tr_id run, cr_replayed = True,
     cr_run_status = task_run_status_text (tr_status run)\<rparr>"

definition start_manual :: "pg_env \<Rightarrow> start_run_request \<Rightarrow> create_result sproc" where
  "start_manual env q =
     (if sp_execution_key q = [] \<or> length (sp_execution_key q) > 128
      then ret (create_failed (invalid_status ''execution_key is required''))
      else if sp_scheduled_for q \<noteq> []
      then ret (create_failed (invalid_status ''scheduled_for must be empty for manual task runs''))
      else if \<not> is_rfc3339_utc (sp_started_at q)
      then ret (create_failed (invalid_status ''started_at must be an RFC 3339 UTC timestamp''))
      else seqp (find_by_execution_key env (sp_execution_key q)) (\<lambda>run. case run of
        None \<Rightarrow> ret (create_failed (conflict_status ''execution_key does not match an accepted manual task run''))
      | Some run \<Rightarrow>
          if tr_node_code run \<noteq> sp_node_code q \<or> tr_task_id run \<noteq> sp_task_id q \<or> tr_trigger_type run \<noteq> sp_trigger_type q
          then ret (create_failed (conflict_status ''execution_key does not match an accepted manual task run''))
          else if tr_status run \<noteq> Pending then ret (replay_result run)
          else seqp (lock_task env (tr_task_id run)) (\<lambda>there.
            if \<not> there then ret (create_failed (not_found_status ''task is not found''))
            else seqp (lock_by_id env (tr_id run)) (\<lambda>locked. case locked of
              None \<Rightarrow> ret (create_failed (not_found_status ''task run is not found''))
            | Some locked \<Rightarrow>
                if tr_status locked \<noteq> Pending then ret (replay_result locked)
                else seqp (mark_manual_running env (tr_id run) (sp_started_at q)) (\<lambda>_.
                  ret \<lparr>cr_outcome = status_success, cr_id = tr_id run, cr_replayed = False, cr_run_status = ''running''\<rparr>)))))"

definition new_task_run :: "start_run_request \<Rightarrow> task_run_record" where
  "new_task_run q =
     \<lparr>tr_id = [], tr_task_id = sp_task_id q, tr_node_code = sp_node_code q, tr_status = Running,
      tr_started_at = sp_started_at q, tr_finished_at = [], tr_items_total = 0, tr_items_success = 0, tr_items_failed = 0,
      tr_error_summary = [], tr_trigger_type = (if sp_trigger_type q = [] then ''scheduled'' else sp_trigger_type q),
      tr_execution_key = sp_execution_key q, tr_scheduled_for = sp_scheduled_for q, tr_requested_at = [],
      tr_retry_of_run_id = [], tr_failed_files_json = None\<rparr>"

text \<open>The checks of a scheduled request, in order: the first failing one is the answer.\<close>

definition scheduled_fault :: "start_run_request \<Rightarrow> string option" where
  "scheduled_fault q =
     (if sp_execution_key q = [] then Some ''execution_key is required''
      else if length (sp_execution_key q) > 128 then Some ''execution_key must not exceed 128 characters''
      else if sp_trigger_type q \<noteq> ''scheduled'' then Some ''trigger_type must be scheduled''
      else if \<not> is_rfc3339_utc (sp_scheduled_for q) then Some ''scheduled_for must be an RFC 3339 UTC timestamp''
      else if \<not> is_rfc3339_utc (sp_started_at q) then Some ''started_at must be an RFC 3339 UTC timestamp''
      else None)"

definition start_task_run :: "pg_env \<Rightarrow> start_run_request \<Rightarrow> create_result sproc" where
  "start_task_run env q =
     (if sp_node_code q = [] then ret (create_failed (status_failure ''node_code is required''))
      else if sp_task_id q = [] then ret (create_failed (status_failure ''task_id is required''))
      else if is_manual_trigger (sp_trigger_type q) then start_manual env q
      else
        let scheduled = (sp_execution_key q \<noteq> [] \<or> sp_scheduled_for q \<noteq> []) in
        if scheduled \<and> scheduled_fault q \<noteq> None then ret (create_failed (status_failure (the (scheduled_fault q))))
        else seqp (find_task env (sp_task_id q)) (\<lambda>task. case task of
          None \<Rightarrow> ret (create_failed (not_found_status ''task is not found''))
        | Some task \<Rightarrow>
            if \<not> tx_enabled task then ret (create_failed (conflict_status ''task is disabled''))
            else if tx_node_code task \<noteq> sp_node_code q then ret (create_failed (conflict_status ''task does not belong to node''))
            else if \<not> scheduled then
              seqp (run_create env (new_task_run q)) (\<lambda>i.
                ret \<lparr>cr_outcome = status_success, cr_id = i, cr_replayed = False, cr_run_status = ''running''\<rparr>)
            else seqp (create_or_find_scheduled env (new_task_run q)) (\<lambda>started.
              if \<not> rn_created started \<and> (tr_task_id (rn_task_run started) \<noteq> sp_task_id q \<or>
                   tr_scheduled_for (rn_task_run started) \<noteq> sp_scheduled_for q)
              then ret (create_failed (conflict_status ''execution_key was already used for a different scheduled run''))
              else ret \<lparr>cr_outcome = status_success, cr_id = tr_id (rn_task_run started),
                cr_replayed = (\<not> rn_created started), cr_run_status = ''running''\<rparr>)))"

section \<open>Finishing a run\<close>

record finish_request =
  fq_task_run_id :: string
  fq_status :: task_run_status
  fq_finished_at :: string
  fq_items_total :: int
  fq_items_success :: int
  fq_items_failed :: int
  fq_error_summary :: string
  fq_has_failed_files :: bool
  fq_failed_files :: "task_run_failed_file list"

definition finish_task_run :: "pg_env \<Rightarrow> finish_request \<Rightarrow> status sproc" where
  "finish_task_run env q =
     (if fq_task_run_id q = [] then ret (status_failure ''task_run_id is required'')
      else if fq_status q \<noteq> Succeeded \<and> fq_status q \<noteq> Failed
      then ret (status_failure ''finish status must be succeeded or failed'')
      else seqp (find_by_id env (fq_task_run_id q)) (\<lambda>run. case run of
        None \<Rightarrow> ret (not_found_status ''task run is not found'')
      | Some run \<Rightarrow>
          seqp (if fq_has_failed_files q then seqp (to_failed_files_json (fq_failed_files q)) (\<lambda>doc. ret (Some doc)) else ret None) (\<lambda>doc.
          seqp (run_finish env (run\<lparr>tr_status := fq_status q, tr_finished_at := fq_finished_at q,
              tr_items_total := fq_items_total q, tr_items_success := fq_items_success q, tr_items_failed := fq_items_failed q,
              tr_error_summary := fq_error_summary q, tr_failed_files_json := doc\<rparr>)) (\<lambda>_. ret status_success))))"

definition find_run :: "pg_env \<Rightarrow> string \<Rightarrow> task_run_record option sproc" where
  "find_run env i = (if i = [] then ret None else find_by_id env i)"

definition service_find_retry_files :: "pg_env \<Rightarrow> string \<Rightarrow> task_run_retry_file list option sproc" where
  "service_find_retry_files env i = (if i = [] then ret None else find_retry_files env i)"

section \<open>Manual runs\<close>

record manual_result =
  mn_status :: status
  mn_task_run_id :: string
  mn_run_status :: string
  mn_replayed :: bool

definition manual_failed :: "status \<Rightarrow> manual_result" where
  "manual_failed s = \<lparr>mn_status = s, mn_task_run_id = [], mn_run_status = [], mn_replayed = False\<rparr>"

definition replayed_result :: "task_run_record \<Rightarrow> manual_result" where
  "replayed_result run = \<lparr>mn_status = status_success, mn_task_run_id = tr_id run,
     mn_run_status = task_run_status_text (tr_status run), mn_replayed = True\<rparr>"

definition operator_key :: "string \<Rightarrow> string" where
  "operator_key idempotency_key = ''operator:'' @ idempotency_key"

definition pending_conflict :: "task_run_record \<Rightarrow> status" where
  "pending_conflict run = conflict_status (''task already has a pending manual run: '' @ tr_id run)"

definition accept_manual :: "pg_env \<Rightarrow> int \<Rightarrow> manual_run_request \<Rightarrow> manual_result sproc" where
  "accept_manual env now q =
     seqp (create_or_find_manual env now q) (\<lambda>started. case started of
       Some started \<Rightarrow> ret \<lparr>mn_status = status_success, mn_task_run_id = tr_id (rn_task_run started),
         mn_run_status = task_run_status_text (tr_status (rn_task_run started)), mn_replayed = (\<not> rn_created started)\<rparr>
     | None \<Rightarrow>
         seqp (find_pending_manual_by_task env (mq_task_id q)) (\<lambda>raced. case raced of
           Some raced \<Rightarrow> ret (manual_failed (pending_conflict raced))
         | None \<Rightarrow> throw (RuntimeFault ''failed to create manual task run'')))"

definition apply_manual_run :: "pg_env \<Rightarrow> int \<Rightarrow> string \<Rightarrow> string \<Rightarrow> string \<Rightarrow> string \<Rightarrow> task_run_retry_file list \<Rightarrow>
    manual_result sproc" where
  "apply_manual_run env now trigger task_id retry_of idempotency_key retry_files =
     (if \<not> is_operator_idempotency_key idempotency_key
      then ret (manual_failed (invalid_status ''idempotency_key must be 32 hexadecimal characters''))
      else let key = operator_key idempotency_key in
      seqp (find_by_execution_key env key) (\<lambda>existing. case existing of
        Some x \<Rightarrow>
          if tr_trigger_type x \<noteq> trigger \<or> tr_task_id x \<noteq> task_id \<or> tr_retry_of_run_id x \<noteq> retry_of
          then ret (manual_failed (conflict_status ''idempotency_key was already used for a different request''))
          else ret (replayed_result x)
      | None \<Rightarrow>
          if \<not> is_positive_id task_id then ret (manual_failed (invalid_status ''task_id must be a positive integer''))
          else seqp (lock_task env task_id) (\<lambda>there.
          if \<not> there then ret (manual_failed (not_found_status ''task is not found''))
          else seqp (find_task env task_id) (\<lambda>task. case task of
            None \<Rightarrow> ret (manual_failed (not_found_status ''task is not found''))
          | Some task \<Rightarrow>
              if \<not> tx_enabled task then ret (manual_failed (conflict_status ''task is disabled''))
              else seqp (find_task_qc_rule_ids env task_id) (\<lambda>rules.
              seqp (validate_task_executable env task rules) (\<lambda>dependency.
              if \<not> st_ok dependency then ret (manual_failed dependency)
              else seqp (find_pending_manual_by_task env task_id) (\<lambda>pending.
              if (case pending of None \<Rightarrow> False | Some p \<Rightarrow> tr_execution_key p \<noteq> key)
              then ret (manual_failed (pending_conflict (the pending)))
              else accept_manual env now \<lparr>mq_task_id = task_id, mq_node_code = tx_node_code task, mq_trigger_type = trigger,
                mq_execution_key = key, mq_retry_of_run_id = retry_of, mq_retry_files = retry_files\<rparr>)))))))"

definition request_manual_run :: "pg_env \<Rightarrow> int \<Rightarrow> string \<Rightarrow> string \<Rightarrow> manual_result sproc" where
  "request_manual_run env now task_id idempotency_key = apply_manual_run env now ''manual'' task_id [] idempotency_key []"

text \<open>One failed file resolved to its retry input, or the refusal.\<close>

definition resolve_retry_file :: "pg_env \<Rightarrow> task_run_record \<Rightarrow> task_run_failed_file \<Rightarrow> (status + task_run_retry_file) sproc" where
  "resolve_retry_file env parent f =
     (if tf_source_path f = [] \<or> tf_original_name f = []
      then ret (Inl (conflict_status ''failed file entry does not identify a concrete target''))
      else if tf_archive_raw_file_id f = [] then
        ret (Inr \<lparr>ty_input_type = ''source'', ty_source_path = tf_source_path f, ty_original_name = tf_original_name f,
          ty_archive_raw_file_id = [], ty_storage_path = [], ty_size_bytes = 0, ty_file_hash = [], ty_source_mtime = []\<rparr>)
      else seqp (repo_find_raw_file env (tf_archive_raw_file_id f)) (\<lambda>raw. case raw of
        None \<Rightarrow> ret (Inl (conflict_status (''archived input is not available: '' @ tf_archive_raw_file_id f)))
      | Some raw \<Rightarrow>
          if rx_node_code raw \<noteq> tr_node_code parent
          then ret (Inl (conflict_status ''archived input does not belong to the node''))
          else seqp (find_by_id env (rx_task_run_id raw)) (\<lambda>run.
            if (case run of None \<Rightarrow> True | Some r \<Rightarrow> tr_task_id r \<noteq> tr_task_id parent)
            then ret (Inl (conflict_status ''archived input does not belong to the task''))
            else if rx_storage_path raw = [] \<or> rx_file_hash raw = []
            then ret (Inl (conflict_status ''archived input is missing storage metadata''))
            else ret (Inr \<lparr>ty_input_type = ''archive'', ty_source_path = tf_source_path f, ty_original_name = tf_original_name f,
              ty_archive_raw_file_id = rx_id raw, ty_storage_path = rx_storage_path raw, ty_size_bytes = rx_size_bytes raw,
              ty_file_hash = rx_file_hash raw, ty_source_mtime = rx_source_mtime raw\<rparr>))))"

fun resolve_retry_files :: "pg_env \<Rightarrow> task_run_record \<Rightarrow> task_run_failed_file list \<Rightarrow> (status + task_run_retry_file list) sproc" where
  "resolve_retry_files env parent [] = ret (Inr [])"
| "resolve_retry_files env parent (f # fs) =
     seqp (resolve_retry_file env parent f) (\<lambda>r. case r of
       Inl refused \<Rightarrow> ret (Inl refused)
     | Inr x \<Rightarrow> seqp (resolve_retry_files env parent fs) (\<lambda>r. case r of
         Inl refused \<Rightarrow> ret (Inl refused) | Inr xs \<Rightarrow> ret (Inr (x # xs))))"

definition request_retry_run :: "pg_env \<Rightarrow> int \<Rightarrow> string \<Rightarrow> string \<Rightarrow> manual_result sproc" where
  "request_retry_run env now task_run_id idempotency_key =
     (if \<not> is_operator_idempotency_key idempotency_key
      then ret (manual_failed (invalid_status ''idempotency_key must be 32 hexadecimal characters''))
      else seqp (find_by_execution_key env (operator_key idempotency_key)) (\<lambda>existing. case existing of
        Some x \<Rightarrow>
          if tr_trigger_type x \<noteq> ''retry'' \<or> tr_retry_of_run_id x \<noteq> task_run_id
          then ret (manual_failed (conflict_status ''idempotency_key was already used for a different request''))
          else ret (replayed_result x)
      | None \<Rightarrow>
          if \<not> is_positive_id task_run_id then ret (manual_failed (invalid_status ''task_run_id must be a positive integer''))
          else seqp (find_by_id env task_run_id) (\<lambda>parent. case parent of
            None \<Rightarrow> ret (manual_failed (not_found_status ''task run is not found''))
          | Some parent \<Rightarrow>
              if tr_status parent \<noteq> Failed then ret (manual_failed (conflict_status ''only failed task runs can be retried''))
              else seqp (find_failed_files env task_run_id) (\<lambda>failed. case failed of
                None \<Rightarrow> ret (manual_failed (conflict_status ''task run has no failed file list and cannot be retried''))
              | Some failed \<Rightarrow>
                  if failed = [] then ret (manual_failed (conflict_status ''task run has no failed files to retry''))
                  else seqp (resolve_retry_files env parent failed) (\<lambda>resolved. case resolved of
                    Inl refused \<Rightarrow> ret (manual_failed refused)
                  | Inr files \<Rightarrow> apply_manual_run env now ''retry'' (tr_task_id parent) (tr_id parent) idempotency_key files)))))"

section \<open>Transactions\<close>

text \<open>
  \<open>SqlTransaction\<close> around a service call: committed where the result's status is success, rolled back
  where it is not and where the call throws. The sequences keep their values either way.
\<close>

definition in_transaction :: "('a \<Rightarrow> status) \<Rightarrow> 'a sproc \<Rightarrow> 'a sproc" where
  "in_transaction status_of m db =
     (case m db of
        (Inl e, db') \<Rightarrow> (Inl e, db\<lparr>sv_seq := sv_seq db'\<rparr>)
      | (Inr a, db') \<Rightarrow> (Inr a, if st_ok (status_of a) then db' else db\<lparr>sv_seq := sv_seq db'\<rparr>))"

definition execute_start :: "pg_env \<Rightarrow> start_run_request \<Rightarrow> create_result sproc" where
  "execute_start env q = in_transaction cr_outcome (start_task_run env q)"

definition execute_manual_run :: "pg_env \<Rightarrow> int \<Rightarrow> string \<Rightarrow> string \<Rightarrow> manual_result sproc" where
  "execute_manual_run env now task_id idempotency_key = in_transaction mn_status (request_manual_run env now task_id idempotency_key)"

definition execute_retry_run :: "pg_env \<Rightarrow> int \<Rightarrow> string \<Rightarrow> string \<Rightarrow> manual_result sproc" where
  "execute_retry_run env now task_run_id idempotency_key = in_transaction mn_status (request_retry_run env now task_run_id idempotency_key)"

end
