(* ===== verification/Agent_Report_Service.thy ===== *)
theory Agent_Report_Service
  imports Task_Run_Service
begin

text \<open>
  \<open>AgentReportService\<close> (\<open>server/src/application/agent_report_service.cpp\<close>): accepting an agent's manifest
  and final report once, with the services it writes through (\<open>result_service.cpp\<close>, \<open>qc_service.cpp\<close>,
  \<open>alert_service.cpp\<close>) and the transaction around it (\<open>agent_report_executor.cpp\<close>).
\<close>

section \<open>Results (\<open>result_service.cpp\<close>)\<close>

record id_result =
  ir_status :: status
  ir_id :: string

definition id_failed :: "status \<Rightarrow> id_result" where
  "id_failed s = \<lparr>ir_status = s, ir_id = []\<rparr>"

definition id_created :: "string \<Rightarrow> id_result" where
  "id_created i = \<lparr>ir_status = status_success, ir_id = i\<rparr>"

text \<open>A \<open>RecordRawFileRequest\<close> has the fields of a raw file without its identifier.\<close>

definition record_raw_file :: "pg_env \<Rightarrow> raw_file_record \<Rightarrow> id_result sproc" where
  "record_raw_file env q =
     (if rx_task_run_id q = [] then ret (id_failed (status_failure ''task_run_id is required''))
      else if rx_node_code q = [] then ret (id_failed (status_failure ''node_code is required''))
      else if rx_original_name q = [] then ret (id_failed (status_failure ''original_name is required''))
      else if rx_storage_path q = [] then ret (id_failed (status_failure ''storage_path is required''))
      else seqp (find_by_id env (rx_task_run_id q)) (\<lambda>run. case run of
        None \<Rightarrow> ret (id_failed (not_found_status ''task run is not found''))
      | Some run \<Rightarrow>
          if tr_node_code run \<noteq> rx_node_code q then ret (id_failed (conflict_status ''task run does not belong to node''))
          else seqp (create_raw_file env
              (q\<lparr>rx_ingest_status := if rx_ingest_status q = [] then ''collected'' else rx_ingest_status q\<rparr>)) (\<lambda>i.
            ret (id_created i))))"

definition record_parsed_record :: "pg_env \<Rightarrow> parsed_record_record \<Rightarrow> raw_file_record \<Rightarrow> id_result sproc" where
  "record_parsed_record env q verified =
     (if pd_task_run_id q = [] then ret (id_failed (status_failure ''task_run_id is required''))
      else if pd_raw_file_id q = [] then ret (id_failed (status_failure ''raw_file_id is required''))
      else if pr_payload_json (pd_record q) = [] then ret (id_failed (status_failure ''payload_json is required''))
      else if rx_task_run_id verified \<noteq> pd_task_run_id q
      then ret (id_failed (conflict_status ''raw file does not belong to task run''))
      else seqp (create_parsed_record env
          (q\<lparr>pd_parse_status := if pd_parse_status q = [] then ''parsed'' else pd_parse_status q\<rparr>)) (\<lambda>i. ret (id_created i)))"

definition service_find_raw_file :: "pg_env \<Rightarrow> string \<Rightarrow> raw_file_record option sproc" where
  "service_find_raw_file env i = (if i = [] then ret None else repo_find_raw_file env i)"

section \<open>Quality control (\<open>qc_service.cpp\<close>)\<close>

definition service_create_rule :: "pg_env \<Rightarrow> qc_rule_record \<Rightarrow> id_result sproc" where
  "service_create_rule env q =
     (if qu_name q = [] then ret (id_failed (status_failure ''qc rule name is required''))
      else if qu_rule_type q = [] then ret (id_failed (status_failure ''rule_type is required''))
      else if qu_rule_config_json q = [] then ret (id_failed (status_failure ''rule_config_json is required''))
      else seqp (repo_create_rule env q) (\<lambda>i. ret (id_created i)))"

text \<open>A refused result comes with a default record.\<close>

definition no_qc_result :: qc_result_record where
  "no_qc_result = \<lparr>qs_id = [], qs_parsed_record_id = [], qs_qc_rule_id = [], qs_level = [], qs_result = [], qs_message = []\<rparr>"

definition record_qc_result :: "pg_env \<Rightarrow> qc_result_record \<Rightarrow> (status \<times> qc_result_record) sproc" where
  "record_qc_result env q =
     (if qs_parsed_record_id q = [] then ret (status_failure ''parsed_record_id is required'', no_qc_result)
      else if qs_qc_rule_id q = [] then ret (status_failure ''qc_rule_id is required'', no_qc_result)
      else if qs_level q = [] then ret (status_failure ''level is required'', no_qc_result)
      else if qs_result q = [] then ret (status_failure ''result is required'', no_qc_result)
      else seqp (repo_create_result env q) (\<lambda>i. ret (status_success, q\<lparr>qs_id := i\<rparr>)))"

definition service_find_rule :: "pg_env \<Rightarrow> string \<Rightarrow> qc_rule_record option sproc" where
  "service_find_rule env i = (if i = [] then ret None else repo_find_rule env i)"

section \<open>Alerts (\<open>alert_service.cpp\<close>)\<close>

definition is_alert_qc_result :: "qc_result_record \<Rightarrow> bool" where
  "is_alert_qc_result q \<longleftrightarrow> qs_level q = ''warning'' \<or> qs_level q = ''failed'' \<or> qs_result q = ''warning'' \<or> qs_result q = ''failed''"

definition alert_severity :: "qc_result_record \<Rightarrow> string" where
  "alert_severity q = (if qs_level q = ''warning'' \<or> qs_level q = ''failed'' then qs_level q else qs_result q)"

definition alert_message :: "qc_result_record \<Rightarrow> string" where
  "alert_message q = (if qs_message q \<noteq> [] then qs_message q else ''qc result '' @ qs_id q @ '' is '' @ qs_result q)"

definition write_alert :: "pg_env \<Rightarrow> qc_result_record \<Rightarrow> string \<Rightarrow> string \<Rightarrow> id_result sproc" where
  "write_alert env q task_run_id node_code =
     seqp (create_alert_row env \<lparr>ar_id = [], ar_node_code = node_code, ar_task_run_id = task_run_id, ar_alert_type = ''qc_result'',
       ar_severity = alert_severity q, ar_message = alert_message q, ar_status = ''open'', ar_acknowledged_at = [],
       ar_closed_at = []\<rparr>) (\<lambda>i. ret (id_created i))"

definition create_alert :: "pg_env \<Rightarrow> qc_result_record \<Rightarrow> string \<Rightarrow> string \<Rightarrow> id_result sproc" where
  "create_alert env q task_run_id node_code =
     (if \<not> is_alert_qc_result q then ret (id_created []) else write_alert env q task_run_id node_code)"

definition create_from_lookup :: "pg_env \<Rightarrow> string \<Rightarrow> bool \<Rightarrow> id_result sproc" where
  "create_from_lookup env qc_result_id only_fail =
     (if qc_result_id = [] then ret (id_failed (status_failure ''qc_result_id is required''))
      else seqp (find_qc_result env qc_result_id) (\<lambda>q. case q of
        None \<Rightarrow> ret (id_failed (not_found_status ''qc result is not found''))
      | Some q \<Rightarrow>
          if \<not> is_alert_qc_result q then
            ret (if only_fail then id_failed (conflict_status ''qc result does not require alert'') else id_created [])
          else seqp (find_parsed_record env (qs_parsed_record_id q)) (\<lambda>record. case record of
            None \<Rightarrow> ret (id_failed (not_found_status ''parsed record is not found''))
          | Some record \<Rightarrow>
              seqp (find_by_id env (pd_task_run_id record)) (\<lambda>run. case run of
                None \<Rightarrow> ret (id_failed (not_found_status ''task run is not found''))
              | Some run \<Rightarrow> write_alert env q (pd_task_run_id record) (tr_node_code run)))))"

definition dispose_alert :: "pg_env \<Rightarrow> int \<Rightarrow> string \<Rightarrow> bool \<Rightarrow> (status \<times> alert_record option) sproc" where
  "dispose_alert env now alert_id acknowledge =
     (if \<not> is_positive_id alert_id then ret (invalid_status ''alert_id must be a positive integer'', None)
      else seqp (lock_alert_by_id env alert_id) (\<lambda>alert. case alert of
        None \<Rightarrow> ret (not_found_status ''alert is not found'', None)
      | Some a \<Rightarrow>
          if acknowledge \<and> ar_status a = ''closed'' then ret (conflict_status ''alert is already closed'', None)
          else if acknowledge \<and> ar_status a = ''acknowledged'' then ret (status_success, Some a)
          else if \<not> acknowledge \<and> ar_status a = ''closed'' then ret (status_success, Some a)
          else seqp (if acknowledge then save_acknowledged env now alert_id else save_closed env now alert_id) (\<lambda>updated.
            case updated of
              None \<Rightarrow> throw (RuntimeFault ''alert disposition update is not readable'')
            | Some a \<Rightarrow> ret (status_success, Some a))))"

definition execute_disposition :: "pg_env \<Rightarrow> int \<Rightarrow> string \<Rightarrow> bool \<Rightarrow> (status \<times> alert_record option) sproc" where
  "execute_disposition env now alert_id acknowledge = in_transaction fst (dispose_alert env now alert_id acknowledge)"

section \<open>Fingerprints\<close>

record manifest_file =
  mf_original_name :: string
  mf_file_hash :: string
  mf_storage_path :: string
  mf_size_bytes :: int
  mf_source_mtime :: string
  mf_ingest_status :: string

record run_manifest =
  rm_task_run_id :: string
  rm_node_code :: string
  rm_idempotency_key :: string
  rm_files :: "manifest_file list"

record run_qc_result =
  ry_rule_id :: string
  ry_level :: string
  ry_result :: string
  ry_message :: string

record run_parsed_record =
  rz_raw_file_id :: string
  rz_record :: parsed_record
  rz_parse_status :: string
  rz_qc_results :: "run_qc_result list"

record run_report =
  ro_task_run_id :: string
  ro_node_code :: string
  ro_idempotency_key :: string
  ro_status :: task_run_status
  ro_finished_at :: string
  ro_items_total :: int
  ro_items_success :: int
  ro_items_failed :: int
  ro_error_summary :: string
  ro_parsed_records :: "run_parsed_record list"
  ro_has_failed_files :: bool
  ro_failed_files :: "task_run_failed_file list"

text \<open>\<open>FingerprintBuilder\<close>: every value goes after its length, so the parts cannot run into each other.\<close>

definition append_value :: "string \<Rightarrow> string" where
  "append_value value = nat_to_string (length value) @ '':'' @ value"

definition append_number :: "int \<Rightarrow> string" where
  "append_number n = append_value (int_to_string n)"

definition canonical :: "string list \<Rightarrow> string" where
  "canonical values = concat (map append_value values)"

definition manifest_file_values :: "manifest_file \<Rightarrow> string list" where
  "manifest_file_values f = [mf_original_name f, mf_file_hash f, mf_storage_path f, int_to_string (mf_size_bytes f),
     mf_source_mtime f, if mf_ingest_status f = [] then ''collected'' else mf_ingest_status f]"

definition manifest_values :: "run_manifest \<Rightarrow> string list" where
  "manifest_values q = [''raw_file_manifest'', rm_task_run_id q, rm_node_code q, int_to_string (int (length (rm_files q)))] @
     concat (map manifest_file_values (rm_files q))"

definition manifest_fingerprint :: "pg_env \<Rightarrow> run_manifest \<Rightarrow> string" where
  "manifest_fingerprint env q = pg_sha256 env (canonical (manifest_values q))"

definition qc_values :: "run_qc_result \<Rightarrow> string list" where
  "qc_values q = [ry_rule_id q, ry_level q, ry_result q, ry_message q]"

definition parsed_values :: "run_parsed_record \<Rightarrow> string list" where
  "parsed_values p = [rz_raw_file_id p, pr_station_code (rz_record p), pr_device_code (rz_record p),
     pr_record_time (rz_record p), pr_payload_json (rz_record p), if rz_parse_status p = [] then ''parsed'' else rz_parse_status p,
     int_to_string (int (length (rz_qc_results p)))] @ concat (map qc_values (rz_qc_results p))"

definition failed_values :: "task_run_failed_file \<Rightarrow> string list" where
  "failed_values f = [tf_source_path f, tf_original_name f, tf_stage f, tf_message f, tf_archive_raw_file_id f]"

definition report_values :: "run_report \<Rightarrow> string list" where
  "report_values q = [''task_run_report'', ro_task_run_id q, ro_node_code q, task_run_status_text (ro_status q),
     ro_finished_at q, int_to_string (ro_items_total q), int_to_string (ro_items_success q), int_to_string (ro_items_failed q),
     ro_error_summary q, int_to_string (int (length (ro_parsed_records q)))] @
     concat (map parsed_values (ro_parsed_records q)) @
     (if ro_has_failed_files q
      then [''failed_files_v1'', int_to_string (int (length (ro_failed_files q)))] @ concat (map failed_values (ro_failed_files q))
      else [])"

definition report_fingerprint :: "pg_env \<Rightarrow> run_report \<Rightarrow> string" where
  "report_fingerprint env q = pg_sha256 env (canonical (report_values q))"

section \<open>Accepting\<close>

definition is_terminal_status :: "task_run_status \<Rightarrow> bool" where
  "is_terminal_status s \<longleftrightarrow> s = Succeeded \<or> s = Failed"

definition validate_idempotency_key :: "string \<Rightarrow> status" where
  "validate_idempotency_key key =
     (if key = [] then status_failure ''idempotency_key is required''
      else if length key > 128 then status_failure ''idempotency_key must not exceed 128 characters''
      else status_success)"

definition claim_error :: "claim_state \<Rightarrow> status" where
  "claim_error s = (if s = IdempotencyConflict then conflict_status ''idempotency_key was already used for a different request''
     else conflict_status ''task run already has a completed report'')"

definition validate_task_run_node :: "pg_env \<Rightarrow> string \<Rightarrow> string \<Rightarrow> (status + task_run_record) sproc" where
  "validate_task_run_node env task_run_id node_code =
     (if task_run_id = [] then ret (Inl (status_failure ''task_run_id is required''))
      else if node_code = [] then ret (Inl (status_failure ''node_code is required''))
      else seqp (find_run env task_run_id) (\<lambda>run. case run of
        None \<Rightarrow> ret (Inl (not_found_status ''task run is not found''))
      | Some run \<Rightarrow>
          if tr_node_code run \<noteq> node_code then ret (Inl (conflict_status ''task run does not belong to node''))
          else ret (Inr run)))"

record manifest_result =
  ma_status :: status
  ma_raw_file_ids :: "string list"
  ma_replayed :: bool

definition manifest_failed :: "status \<Rightarrow> manifest_result" where
  "manifest_failed s = \<lparr>ma_status = s, ma_raw_file_ids = [], ma_replayed = False\<rparr>"

text \<open>The loop over the files: it ends with the first status that is not success.\<close>

fun record_files :: "pg_env \<Rightarrow> run_manifest \<Rightarrow> string list \<Rightarrow> manifest_file list \<Rightarrow> (status \<times> string list) sproc" where
  "record_files env q ids [] = ret (status_success, ids)"
| "record_files env q ids (f # fs) =
     seqp (record_raw_file env \<lparr>rx_id = [], rx_task_run_id = rm_task_run_id q, rx_node_code = rm_node_code q,
         rx_original_name = mf_original_name f, rx_file_hash = mf_file_hash f, rx_storage_path = mf_storage_path f,
         rx_size_bytes = mf_size_bytes f, rx_source_mtime = mf_source_mtime f, rx_ingest_status = mf_ingest_status f\<rparr>) (\<lambda>r.
       if \<not> st_ok (ir_status r) then ret (ir_status r, ids) else record_files env q (ids @ [ir_id r]) fs)"

definition accept_raw_file_manifest :: "pg_env \<Rightarrow> run_manifest \<Rightarrow> manifest_result sproc" where
  "accept_raw_file_manifest env q =
     (if \<not> st_ok (validate_idempotency_key (rm_idempotency_key q))
      then ret (manifest_failed (validate_idempotency_key (rm_idempotency_key q)))
      else seqp (validate_task_run_node env (rm_task_run_id q) (rm_node_code q)) (\<lambda>ownership. case ownership of
        Inl refused \<Rightarrow> ret (manifest_failed refused)
      | Inr _ \<Rightarrow>
          seqp (claim_receipt env \<lparr>cl_task_run_id = rm_task_run_id q, cl_node_code = rm_node_code q, cl_request_type = RawFileManifest,
              cl_idempotency_key = rm_idempotency_key q, cl_request_fingerprint = manifest_fingerprint env q\<rparr>) (\<lambda>(state, receipt).
          if state = Replay then
            ret \<lparr>ma_status = status_success, ma_raw_file_ids = rsp_raw_file_ids (rt_response receipt), ma_replayed = True\<rparr>
          else if state \<noteq> Acquired then ret (manifest_failed (claim_error state))
          else seqp (record_files env q [] (rm_files q)) (\<lambda>(s, ids).
            if \<not> st_ok s then ret \<lparr>ma_status = s, ma_raw_file_ids = ids, ma_replayed = False\<rparr>
            else seqp (complete_receipt env (rt_id receipt) (empty_response\<lparr>rsp_raw_file_ids := ids\<rparr>)) (\<lambda>_.
              ret \<lparr>ma_status = status_success, ma_raw_file_ids = ids, ma_replayed = False\<rparr>)))))"

record report_result =
  re_status :: status
  re_parsed_record_ids :: "string list"
  re_qc_result_ids :: "string list"
  re_alert_ids :: "string list"
  re_replayed :: bool

definition report_failed :: "status \<Rightarrow> report_result" where
  "report_failed s = \<lparr>re_status = s, re_parsed_record_ids = [], re_qc_result_ids = [], re_alert_ids = [], re_replayed = False\<rparr>"

text \<open>The identifiers a report must carry, before anything is looked up.\<close>

fun missing_qc_id :: "run_qc_result list \<Rightarrow> bool" where
  "missing_qc_id [] = False"
| "missing_qc_id (q # qs) = (ry_rule_id q = [] \<or> missing_qc_id qs)"

fun missing_ids :: "run_parsed_record list \<Rightarrow> status" where
  "missing_ids [] = status_success"
| "missing_ids (p # ps) =
     (if rz_raw_file_id p = [] then status_failure ''raw_file_id is required''
      else if missing_qc_id (rz_qc_results p) then status_failure ''qc_rule_id is required''
      else missing_ids ps)"

text \<open>The rules of the report, each looked up once; \<open>seen\<close> are the keys of \<open>qc_rules\<close>.\<close>

fun check_report_rules :: "pg_env \<Rightarrow> string list \<Rightarrow> string list \<Rightarrow> status sproc" where
  "check_report_rules env seen [] = ret status_success"
| "check_report_rules env seen (i # is) =
     (if i \<in> set seen then check_report_rules env seen is
      else seqp (service_find_rule env i) (\<lambda>rule. case rule of
        None \<Rightarrow> ret (not_found_status ''qc rule is not found'')
      | Some rule \<Rightarrow>
          if \<not> qu_enabled rule then ret (conflict_status ''qc rule is disabled'') else check_report_rules env (i # seen) is))"

definition report_rule_ids :: "run_report \<Rightarrow> string list" where
  "report_rule_ids q = concat (map (\<lambda>p. map ry_rule_id (rz_qc_results p)) (ro_parsed_records q))"

text \<open>One entry of the failed file list against the run and its fixed retry list.\<close>

definition check_failed_file :: "pg_env \<Rightarrow> string \<Rightarrow> task_run_retry_file list option \<Rightarrow> string list \<Rightarrow> task_run_failed_file \<Rightarrow>
    status sproc" where
  "check_failed_file env task_run_id retry_files seen f =
     (let target = (case retry_files of None \<Rightarrow> None | Some ts \<Rightarrow> find (\<lambda>t. ty_source_path t = tf_source_path f) ts) in
      if retry_files \<noteq> None \<and> target = None then ret (status_failure ''failed files must come from the fixed retry list'')
      else if tf_source_path f \<in> set seen then ret (status_failure ''failed files must be unique by source_path'')
      else if tf_archive_raw_file_id f = [] then
        ret (if (case target of None \<Rightarrow> False | Some t \<Rightarrow> ty_input_type t = ''archive'')
             then conflict_status ''archive retry target must keep its archive reference'' else status_success)
      else seqp (service_find_raw_file env (tf_archive_raw_file_id f)) (\<lambda>raw.
        if (case raw of None \<Rightarrow> False | Some x \<Rightarrow> rx_task_run_id x = task_run_id) then ret status_success
        else if (case target of None \<Rightarrow> False
             | Some t \<Rightarrow> ty_input_type t = ''archive'' \<and> ty_archive_raw_file_id t = tf_archive_raw_file_id f) then ret status_success
        else ret (conflict_status (if raw \<noteq> None then ''failed file archive reference does not belong to the task run''
                                   else ''failed file archive reference is not allowed for this report''))))"

fun check_failed_files :: "pg_env \<Rightarrow> string \<Rightarrow> task_run_retry_file list option \<Rightarrow> string list \<Rightarrow> task_run_failed_file list \<Rightarrow>
    status sproc" where
  "check_failed_files env task_run_id retry_files seen [] = ret status_success"
| "check_failed_files env task_run_id retry_files seen (f # fs) =
     seqp (check_failed_file env task_run_id retry_files seen f) (\<lambda>s.
       if \<not> st_ok s then ret s else check_failed_files env task_run_id retry_files (tf_source_path f # seen) fs)"

definition validate_failed_files :: "pg_env \<Rightarrow> run_report \<Rightarrow> status sproc" where
  "validate_failed_files env q =
     (if ro_status q = Succeeded \<and> ro_failed_files q \<noteq> []
      then ret (status_failure ''succeeded task runs cannot carry failed files'')
      else seqp (service_find_retry_files env (ro_task_run_id q)) (\<lambda>retry_files.
        check_failed_files env (ro_task_run_id q) retry_files [] (ro_failed_files q)))"

text \<open>The writing loop: the identifiers of the records, of the results and of the alerts so far.\<close>

type_synonym written = "string list \<times> string list \<times> string list"

fun record_qc_results :: "pg_env \<Rightarrow> run_report \<Rightarrow> string \<Rightarrow> written \<Rightarrow> run_qc_result list \<Rightarrow> (status \<times> written) sproc" where
  "record_qc_results env q record_id acc [] = ret (status_success, acc)"
| "record_qc_results env q record_id (records, results, alerts) (x # xs) =
     seqp (record_qc_result env \<lparr>qs_id = [], qs_parsed_record_id = record_id, qs_qc_rule_id = ry_rule_id x, qs_level = ry_level x,
         qs_result = ry_result x, qs_message = ry_message x\<rparr>) (\<lambda>(s, stored).
       if \<not> st_ok s then ret (s, (records, results, alerts))
       else seqp (create_alert env stored (ro_task_run_id q) (ro_node_code q)) (\<lambda>alert.
         if \<not> st_ok (ir_status alert) then ret (ir_status alert, (records, results @ [qs_id stored], alerts))
         else record_qc_results env q record_id
           (records, results @ [qs_id stored], if ir_id alert \<noteq> [] then alerts @ [ir_id alert] else alerts) xs))"

fun record_parsed :: "pg_env \<Rightarrow> run_report \<Rightarrow> (string \<times> raw_file_record) list \<Rightarrow> written \<Rightarrow> run_parsed_record list \<Rightarrow>
    (status \<times> written) sproc" where
  "record_parsed env q verified acc [] = ret (status_success, acc)"
| "record_parsed env q verified acc (p # ps) =
     seqp (case map_of verified (rz_raw_file_id p) of
         Some raw \<Rightarrow> ret (Inr raw)
       | None \<Rightarrow> seqp (service_find_raw_file env (rz_raw_file_id p)) (\<lambda>stored. case stored of
           None \<Rightarrow> ret (Inl (not_found_status ''raw file is not found''))
         | Some raw \<Rightarrow>
             if rx_task_run_id raw \<noteq> ro_task_run_id q then ret (Inl (conflict_status ''raw file does not belong to task run''))
             else ret (Inr raw))) (\<lambda>found. case found of
       Inl refused \<Rightarrow> ret (refused, acc)
     | Inr raw \<Rightarrow>
         seqp (record_parsed_record env \<lparr>pd_id = [], pd_raw_file_id = rz_raw_file_id p, pd_task_run_id = ro_task_run_id q,
             pd_record = rz_record p, pd_parse_status = rz_parse_status p\<rparr> raw) (\<lambda>r.
         if \<not> st_ok (ir_status r) then ret (ir_status r, acc)
         else let (records, results, alerts) = acc in
           seqp (record_qc_results env q (ir_id r) (records @ [ir_id r], results, alerts) (rz_qc_results p)) (\<lambda>(s, acc').
             if \<not> st_ok s then ret (s, acc')
             else record_parsed env q ((rz_raw_file_id p, raw) # verified) acc' ps)))"

definition report_outcome :: "status \<Rightarrow> written \<Rightarrow> bool \<Rightarrow> report_result" where
  "report_outcome s acc replayed = (let (records, results, alerts) = acc in
     \<lparr>re_status = s, re_parsed_record_ids = records, re_qc_result_ids = results, re_alert_ids = alerts, re_replayed = replayed\<rparr>)"

definition write_report :: "pg_env \<Rightarrow> run_report \<Rightarrow> receipt \<Rightarrow> report_result sproc" where
  "write_report env q receipt =
     seqp (record_parsed env q [] ([], [], []) (ro_parsed_records q)) (\<lambda>(s, acc).
     if \<not> st_ok s then ret (report_outcome s acc False)
     else seqp (finish_task_run env \<lparr>fq_task_run_id = ro_task_run_id q, fq_status = ro_status q, fq_finished_at = ro_finished_at q,
           fq_items_total = ro_items_total q, fq_items_success = ro_items_success q, fq_items_failed = ro_items_failed q,
           fq_error_summary = ro_error_summary q, fq_has_failed_files = ro_has_failed_files q, fq_failed_files = ro_failed_files q\<rparr>) (\<lambda>s.
       if \<not> st_ok s then ret (report_outcome s acc False)
       else let (records, results, alerts) = acc in
         seqp (complete_receipt env (rt_id receipt)
             \<lparr>rsp_raw_file_ids = [], rsp_parsed_record_ids = records, rsp_qc_result_ids = results, rsp_alert_ids = alerts\<rparr>) (\<lambda>_.
           ret (report_outcome status_success acc False))))"

definition check_and_write_report :: "pg_env \<Rightarrow> run_report \<Rightarrow> task_run_record \<Rightarrow> receipt \<Rightarrow> report_result sproc" where
  "check_and_write_report env q run receipt =
     (if is_terminal_status (tr_status run) then ret (report_failed (conflict_status ''task run is already finished''))
      else if \<not> st_ok (missing_ids (ro_parsed_records q)) then ret (report_failed (missing_ids (ro_parsed_records q)))
      else seqp (check_report_rules env [] (report_rule_ids q)) (\<lambda>s.
        if \<not> st_ok s then ret (report_failed s)
        else seqp (if ro_has_failed_files q then validate_failed_files env q else ret status_success) (\<lambda>s.
          if \<not> st_ok s then ret (report_failed s) else write_report env q receipt)))"

definition accept_task_run_report :: "pg_env \<Rightarrow> run_report \<Rightarrow> report_result sproc" where
  "accept_task_run_report env q =
     (if \<not> st_ok (validate_idempotency_key (ro_idempotency_key q))
      then ret (report_failed (validate_idempotency_key (ro_idempotency_key q)))
      else seqp (validate_task_run_node env (ro_task_run_id q) (ro_node_code q)) (\<lambda>ownership. case ownership of
        Inl refused \<Rightarrow> ret (report_failed refused)
      | Inr run \<Rightarrow>
          if \<not> is_terminal_status (ro_status q)
          then ret (report_failed (status_failure ''finish status must be succeeded or failed''))
          else seqp (claim_receipt env \<lparr>cl_task_run_id = ro_task_run_id q, cl_node_code = ro_node_code q,
              cl_request_type = TaskRunReport, cl_idempotency_key = ro_idempotency_key q,
              cl_request_fingerprint = report_fingerprint env q\<rparr>) (\<lambda>(state, receipt).
            if state = Replay then
              ret \<lparr>re_status = status_success, re_parsed_record_ids = rsp_parsed_record_ids (rt_response receipt),
                re_qc_result_ids = rsp_qc_result_ids (rt_response receipt), re_alert_ids = rsp_alert_ids (rt_response receipt),
                re_replayed = True\<rparr>
            else if state \<noteq> Acquired then ret (report_failed (claim_error state))
            else check_and_write_report env q run receipt)))"

definition execute_manifest :: "pg_env \<Rightarrow> run_manifest \<Rightarrow> manifest_result sproc" where
  "execute_manifest env q = in_transaction ma_status (accept_raw_file_manifest env q)"

definition execute_report :: "pg_env \<Rightarrow> run_report \<Rightarrow> report_result sproc" where
  "execute_report env q = in_transaction re_status (accept_task_run_report env q)"

end
