(* ===== verification/Management_Service.thy ===== *)
theory Management_Service
  imports Agent_Report_Service Cron_Schedule
begin

text \<open>
  What changes the control plane's configuration: the management commands
  (\<open>server/src/application/management_command_service.cpp\<close> with \<open>config_repository.cpp\<close>,
  \<open>qc_repository.cpp\<close> and \<open>management_command_executor.cpp\<close>) and an agent's registration and heartbeat
  (\<open>node_service.cpp\<close>, \<open>node_repository.cpp\<close>), and the configuration an agent polls
  (\<open>config_service.cpp\<close>, \<open>agent_control_service.cpp\<close>).
\<close>

section \<open>Repositories\<close>

text \<open>An upsert reads the sequence for the row it proposes, also where the node exists.\<close>

definition upsert_node :: "pg_env \<Rightarrow> node_info \<Rightarrow> node_status \<Rightarrow> string \<Rightarrow> unit sproc" where
  "upsert_node env info st last_heartbeat_at =
     seqp (to_optional_time env last_heartbeat_at) (\<lambda>heartbeat.
     seqp (nextval sq_node sq_node_update) (\<lambda>i.
       modify (\<lambda>db.
         if \<exists>n \<in> set (sv_nodes db). nd_code n = ni_node_code info
         then db\<lparr>sv_nodes := update_where (\<lambda>n. nd_code n = ni_node_code info)
                (\<lambda>n. n\<lparr>nd_name := ni_name info, nd_status := st, nd_agent_version := ni_agent_version info,
                   nd_last_heartbeat := heartbeat\<rparr>) (sv_nodes db)\<rparr>
         else db\<lparr>sv_nodes := sv_nodes db @ [\<lparr>nd_id = i, nd_code = ni_node_code info, nd_name = ni_name info, nd_status = st,
                nd_agent_version = ni_agent_version info, nd_last_heartbeat = heartbeat\<rparr>]\<rparr>)))"

definition repo_create_data_source :: "pg_env \<Rightarrow> data_source_record \<Rightarrow> string sproc" where
  "repo_create_data_source env s =
     seqp (gets (node_with_code (dr_node_code s))) (\<lambda>n. case n of
       None \<Rightarrow> throw (RuntimeFault ''failed to create data source'')
     | Some n \<Rightarrow> seqp (to_json_text env (dr_config_json s)) (\<lambda>config.
         seqp (nextval sq_source sq_source_update) (\<lambda>i.
         seqp (modify (\<lambda>db. db\<lparr>sv_sources := sv_sources db @ [\<lparr>so_id = i, so_node = nd_id n, so_type = dr_source_type s,
             so_name = dr_name s, so_config = config, so_enabled = dr_enabled s\<rparr>]\<rparr>)) (\<lambda>_. ret (id_text i)))))"

definition repo_create_task :: "pg_env \<Rightarrow> task_record \<Rightarrow> string sproc" where
  "repo_create_task env t =
     seqp (to_bigint env (tx_data_source_id t)) (\<lambda>source.
     seqp (gets (\<lambda>db. find (\<lambda>s. so_id s = source \<and> on_node (tx_node_code t) (so_node s) db) (sv_sources db))) (\<lambda>s. case s of
       None \<Rightarrow> throw (RuntimeFault ''failed to create task'')
     | Some s \<Rightarrow>
         seqp (nextval sq_task sq_task_update) (\<lambda>i.
         seqp (modify (\<lambda>db. db\<lparr>sv_tasks := sv_tasks db @ [\<lparr>tk_id = i, tk_node = so_node s, tk_source = so_id s, tk_name = tx_name t,
             tk_type = tx_task_type t, tk_schedule = tx_schedule_expr t, tk_parser = tx_parser_type t,
             tk_profile = nullif_empty (tx_qc_profile t), tk_enabled = tx_enabled t\<rparr>]\<rparr>)) (\<lambda>_. ret (id_text i)))))"

definition bind_task_qc_rule :: "pg_env \<Rightarrow> string \<Rightarrow> string \<Rightarrow> int \<Rightarrow> unit sproc" where
  "bind_task_qc_rule env task_id rule_id sort_order =
     seqp (to_bigint env task_id) (\<lambda>task.
     seqp (to_bigint env rule_id) (\<lambda>rule.
     seqp (gets (\<lambda>db. task_row_with_id task db \<noteq> None \<and> rule_row_with_id rule db \<noteq> None)) (\<lambda>known.
     seqp (require known SqlFault) (\<lambda>_.
       modify (\<lambda>db. let same = (\<lambda>b. bi_task b = task \<and> bi_rule b = rule) in
         if \<exists>b \<in> set (sv_bindings db). same b
         then db\<lparr>sv_bindings := update_where same (\<lambda>b. b\<lparr>bi_order := sort_order\<rparr>) (sv_bindings db)\<rparr>
         else db\<lparr>sv_bindings := sv_bindings db @ [\<lparr>bi_task = task, bi_rule = rule, bi_order = sort_order\<rparr>]\<rparr>)))))"

section \<open>Commands\<close>

datatype managed_item = NoItem | DataSourceItem data_source_record | QcRuleItem qc_rule_record | TaskItem task_record

record command_result =
  cm_status :: status
  cm_id :: string
  cm_item :: managed_item

definition command_failed :: "status \<Rightarrow> command_result" where
  "command_failed s = \<lparr>cm_status = s, cm_id = [], cm_item = NoItem\<rparr>"

definition successful_result :: "string \<Rightarrow> managed_item option \<Rightarrow> command_result sproc" where
  "successful_result i item =
     (case item of None \<Rightarrow> throw (RuntimeFault ''created management object is not readable'')
      | Some x \<Rightarrow> ret \<lparr>cm_status = status_success, cm_id = i, cm_item = x\<rparr>)"

definition kMaximumNameLength :: nat where "kMaximumNameLength = 128"

definition kMaximumNodeCodeLength :: nat where "kMaximumNodeCodeLength = 64"

definition kMaximumScheduleLength :: nat where "kMaximumScheduleLength = 128"

definition kMaximumQcProfileLength :: nat where "kMaximumQcProfileLength = 64"

definition kMaximumQcRulesPerTask :: nat where "kMaximumQcRulesPerTask = 5"

definition validate_name :: "string \<Rightarrow> string \<Rightarrow> status" where
  "validate_name name field =
     (if is_blank name then invalid_status (field @ '' is required'')
      else if length name > kMaximumNameLength then invalid_status (field @ '' must not exceed 128 characters'')
      else status_success)"

definition is_bad_node_code :: "string \<Rightarrow> bool" where
  "is_bad_node_code code \<longleftrightarrow> is_blank code \<or> length code > kMaximumNodeCodeLength"

record data_source_create =
  dq_node_code :: string
  dq_source_type :: source_type
  dq_name :: string
  dq_config_json :: string
  dq_enabled :: bool

definition source_config_fault :: "json option \<Rightarrow> string option" where
  "source_config_fault config =
     (case config of None \<Rightarrow> Some ''data source config requires non-empty string root_path and extension''
      | Some c \<Rightarrow> (case (string_member c ''root_path'', string_member c ''extension'') of
          (Some root, Some ext) \<Rightarrow>
            if is_blank root then Some ''data source config requires non-empty string root_path and extension''
            else if ext = [] \<or> hd ext \<noteq> CHR ''.'' then Some (''data source extension must start with '' @ apos @ ''.'' @ apos)
            else None
        | _ \<Rightarrow> Some ''data source config requires non-empty string root_path and extension''))"

definition create_data_source :: "pg_env \<Rightarrow> data_source_create \<Rightarrow> command_result sproc" where
  "create_data_source env q =
     (if is_bad_node_code (dq_node_code q)
      then ret (command_failed (invalid_status ''node_code must contain 1 to 64 characters''))
      else if dq_source_type q \<noteq> LocalDirectory then ret (command_failed (invalid_status ''source_type must be local_directory''))
      else if \<not> st_ok (validate_name (dq_name q) ''data source name'')
      then ret (command_failed (validate_name (dq_name q) ''data source name''))
      else case source_config_fault (parse_json_object env (dq_config_json q)) of
        Some m \<Rightarrow> ret (command_failed (invalid_status m))
      | None \<Rightarrow>
          seqp (gets (find_by_code env (dq_node_code q))) (\<lambda>node.
          if node = None then ret (command_failed (not_found_status ''node is not found''))
          else seqp (repo_create_data_source env \<lparr>dr_id = [], dr_node_code = dq_node_code q, dr_source_type = dq_source_type q,
                dr_name = dq_name q, dr_config_json = dq_config_json q, dr_enabled = dq_enabled q\<rparr>) (\<lambda>i.
            seqp (find_data_source env i) (\<lambda>s. successful_result i (map_option DataSourceItem s)))))"

record qc_rule_create =
  qq_name :: string
  qq_rule_type :: string
  qq_rule_config_json :: string
  qq_enabled :: bool

definition create_qc_rule :: "pg_env \<Rightarrow> qc_rule_create \<Rightarrow> command_result sproc" where
  "create_qc_rule env q =
     (if \<not> st_ok (validate_name (qq_name q) ''QC rule name'') then ret (command_failed (validate_name (qq_name q) ''QC rule name''))
      else if \<not> is_supported_rule_type (qq_rule_type q) then ret (command_failed (invalid_status ''unsupported QC rule type''))
      else if parse_json_object env (qq_rule_config_json q) \<noteq> Some (JObj [])
      then ret (command_failed (invalid_status ''QC rule config must be an empty object''))
      else seqp (repo_create_rule env \<lparr>qu_id = [], qu_name = qq_name q, qu_rule_type = qq_rule_type q,
            qu_rule_config_json = qq_rule_config_json q, qu_enabled = qq_enabled q\<rparr>) (\<lambda>i.
        seqp (repo_find_rule env i) (\<lambda>r. successful_result i (map_option QcRuleItem r))))"

record task_create =
  tq_node_code :: string
  tq_data_source_id :: string
  tq_name :: string
  tq_task_type :: string
  tq_schedule_expr :: string
  tq_parser_type :: string
  tq_qc_profile :: string
  tq_qc_rule_ids :: "string list"
  tq_enabled :: bool

fun rule_ids_fault :: "string list \<Rightarrow> string list \<Rightarrow> string option" where
  "rule_ids_fault seen [] = None"
| "rule_ids_fault seen (i # is) =
     (if \<not> is_positive_id i then Some ''qc_rule_ids must contain positive integers''
      else if i \<in> set seen then Some ''qc_rule_ids must not contain duplicates''
      else rule_ids_fault (i # seen) is)"

text \<open>The checks of a new task, in order, before anything is looked up.\<close>

definition task_create_fault :: "task_create \<Rightarrow> string option" where
  "task_create_fault q =
     (if is_bad_node_code (tq_node_code q) then Some ''node_code must contain 1 to 64 characters''
      else if \<not> is_positive_id (tq_data_source_id q) then Some ''data_source_id must be a positive integer''
      else if \<not> st_ok (validate_name (tq_name q) ''task name'') then Some (st_message (validate_name (tq_name q) ''task name''))
      else if tq_task_type q \<noteq> ''local_file_import'' then Some ''task_type must be local_file_import''
      else if tq_parser_type q \<noteq> ''csv_observation'' then Some ''parser_type must be csv_observation''
      else if tq_schedule_expr q = [] \<or> length (tq_schedule_expr q) > kMaximumScheduleLength
      then Some ''schedule_expr must contain 1 to 128 characters''
      else case parse_cron (tq_schedule_expr q) of
        Inl m \<Rightarrow> Some m
      | Inr _ \<Rightarrow>
          if length (tq_qc_profile q) > kMaximumQcProfileLength then Some ''qc_profile must not exceed 64 characters''
          else if tq_qc_rule_ids q = [] \<or> length (tq_qc_rule_ids q) > kMaximumQcRulesPerTask
          then Some ''qc_rule_ids must contain 1 to 5 IDs''
          else rule_ids_fault [] (tq_qc_rule_ids q))"

fun bind_rules :: "pg_env \<Rightarrow> string \<Rightarrow> nat \<Rightarrow> string list \<Rightarrow> unit sproc" where
  "bind_rules env task_id n [] = ret ()"
| "bind_rules env task_id n (i # is) =
     seqp (bind_task_qc_rule env task_id i (int ((n + 1) * 10))) (\<lambda>_. bind_rules env task_id (n + 1) is)"

definition read_task_with_rules :: "pg_env \<Rightarrow> string \<Rightarrow> command_result sproc" where
  "read_task_with_rules env i =
     seqp (find_task env i) (\<lambda>t. case t of
       None \<Rightarrow> successful_result i None
     | Some t \<Rightarrow> seqp (find_task_qc_rule_ids env i) (\<lambda>rules. successful_result i (Some (TaskItem (t\<lparr>tx_qc_rule_ids := rules\<rparr>)))))"

definition create_task :: "pg_env \<Rightarrow> task_create \<Rightarrow> command_result sproc" where
  "create_task env q =
     (case task_create_fault q of
        Some m \<Rightarrow> ret (command_failed (invalid_status m))
      | None \<Rightarrow>
          let task = \<lparr>tx_id = [], tx_node_code = tq_node_code q, tx_data_source_id = tq_data_source_id q, tx_name = tq_name q,
                tx_task_type = tq_task_type q, tx_schedule_expr = tq_schedule_expr q, tx_parser_type = tq_parser_type q,
                tx_qc_profile = tq_qc_profile q, tx_enabled = tq_enabled q, tx_qc_rule_ids = []\<rparr> in
          seqp (validate_task_executable env task (tq_qc_rule_ids q)) (\<lambda>dependency.
          if \<not> st_ok dependency then ret (command_failed dependency)
          else seqp (repo_create_task env task) (\<lambda>i.
            seqp (bind_rules env i 0 (tq_qc_rule_ids q)) (\<lambda>_. read_task_with_rules env i))))"

text \<open>The UTF-8 bytes of the message that ends a request whose task was disabled before it started.\<close>

definition kDisabledBeforeStart :: string where
  "kDisabledBeforeStart = map (char_of :: nat \<Rightarrow> char)
     [229, 188, 128, 229, 167, 139, 229, 137, 141, 228, 187, 187, 229, 138, 161, 232, 162, 171, 229, 129, 156, 231, 148, 168, 239, 188, 140, 230, 156, 170, 230, 137, 167, 232, 161, 140, 233, 135, 135, 233, 155, 134]"

definition set_task_enabled :: "pg_env \<Rightarrow> int \<Rightarrow> string \<Rightarrow> bool \<Rightarrow> command_result sproc" where
  "set_task_enabled env now task_id enabled =
     (if \<not> is_positive_id task_id then ret (command_failed (invalid_status ''task_id must be a positive integer''))
      else seqp (lock_task env task_id) (\<lambda>there.
      if \<not> there then ret (command_failed (not_found_status ''task is not found''))
      else seqp (find_task env task_id) (\<lambda>task. case task of
        None \<Rightarrow> ret (command_failed (not_found_status ''task is not found''))
      | Some task \<Rightarrow>
          seqp (if enabled
                then seqp (find_task_qc_rule_ids env task_id) (\<lambda>rules. validate_task_executable env task rules)
                else seqp (fail_pending_manual_runs env now task_id kDisabledBeforeStart) (\<lambda>_. ret status_success)) (\<lambda>s.
          if \<not> st_ok s then ret (command_failed s)
          else seqp (repo_set_task_enabled env task_id enabled) (\<lambda>_. read_task_with_rules env task_id)))))"

definition execute_command :: "command_result sproc \<Rightarrow> command_result sproc" where
  "execute_command m = in_transaction cm_status m"

section \<open>Nodes\<close>

definition register_node :: "pg_env \<Rightarrow> node_info \<Rightarrow> status sproc" where
  "register_node env n =
     (if ni_node_code n = [] then ret (status_failure ''node_code is required'')
      else if ni_name n = [] then ret (status_failure ''node name is required'')
      else seqp (upsert_node env n Offline []) (\<lambda>_. ret status_success))"

definition accept_heartbeat :: "pg_env \<Rightarrow> node_heartbeat \<Rightarrow> status sproc" where
  "accept_heartbeat env h =
     (if hb_node_code h = [] then ret (status_failure ''node_code is required'')
      else if hb_reported_at h = [] then ret (status_failure ''reported_at is required'')
      else seqp (gets (find_by_code env (hb_node_code h))) (\<lambda>node. case node of
        None \<Rightarrow> ret (not_found_status ''node is not registered'')
      | Some (info, _, _) \<Rightarrow>
          seqp (upsert_node env (info\<lparr>ni_agent_version := hb_agent_version h\<rparr>) Online (hb_reported_at h)) (\<lambda>_. ret status_success)))"

section \<open>The configuration of an agent\<close>

definition find_enabled_tasks_by_node :: "string \<Rightarrow> server_db \<Rightarrow> task_record list" where
  "find_enabled_tasks_by_node code db =
     concat (map (\<lambda>t. case node_with_id (tk_node t) db of None \<Rightarrow> []
         | Some n \<Rightarrow> if nd_code n = code then [task_of n t] else [])
       (sort_key tk_id (filter tk_enabled (sv_tasks db))))"

definition find_enabled_data_sources_by_node :: "string \<Rightarrow> server_db \<Rightarrow> data_source_record list" where
  "find_enabled_data_sources_by_node code db =
     concat (map (\<lambda>s. case node_with_id (so_node s) db of None \<Rightarrow> []
         | Some n \<Rightarrow> if nd_code n = code then [data_source_of n s] else [])
       (sort_key so_id (filter (\<lambda>s. so_enabled s \<and>
          (\<exists>t \<in> set (sv_tasks db). tk_source t = so_id s \<and> tk_node t = so_node s \<and> tk_enabled t)) (sv_sources db))))"

record rule_binding =
  rb_task_id :: string
  rb_qc_rule_id :: string
  rb_rule_type :: string
  rb_name :: string
  rb_rule_config_json :: string
  rb_sort_order :: int

definition binding_of :: "server_db \<Rightarrow> string \<Rightarrow> binding_row \<Rightarrow> rule_binding list" where
  "binding_of db code b =
     (case (task_row_with_id (bi_task b) db, rule_row_with_id (bi_rule b) db) of
        (Some t, Some r) \<Rightarrow>
          if on_node code (tk_node t) db \<and> tk_enabled t \<and> ru_enabled r \<and>
             (\<exists>s \<in> set (sv_sources db). so_id s = tk_source t \<and> so_node s = tk_node t \<and> so_enabled s)
          then [\<lparr>rb_task_id = id_text (bi_task b), rb_qc_rule_id = id_text (bi_rule b), rb_rule_type = ru_type r, rb_name = ru_name r,
                 rb_rule_config_json = ru_config r, rb_sort_order = bi_order b\<rparr>] else []
      | _ \<Rightarrow> [])"

definition find_enabled_task_qc_rules_by_node :: "string \<Rightarrow> server_db \<Rightarrow> rule_binding list" where
  "find_enabled_task_qc_rules_by_node code db =
     concat (map (binding_of db code) (sort_key bi_task (sort_key bi_order (sort_key bi_rule (sv_bindings db)))))"

record executable_config =
  xc_tasks :: "task_record list"
  xc_data_sources :: "data_source_record list"
  xc_task_qc_rules :: "rule_binding list"

definition find_executable_config :: "string \<Rightarrow> server_db \<Rightarrow> executable_config" where
  "find_executable_config code db =
     (if code = [] then \<lparr>xc_tasks = [], xc_data_sources = [], xc_task_qc_rules = []\<rparr>
      else
        let sources = find_enabled_data_sources_by_node code db;
            bindings = find_enabled_task_qc_rules_by_node code db;
            runnable = filter (\<lambda>t. \<exists>s \<in> set sources. dr_id s = tx_data_source_id t) (find_enabled_tasks_by_node code db);
            rules_of = (\<lambda>t. filter (\<lambda>b. rb_task_id b = tx_id t) bindings) in
        \<lparr>xc_tasks = map (\<lambda>t. t\<lparr>tx_qc_rule_ids := tx_qc_rule_ids t @ map rb_qc_rule_id (rules_of t)\<rparr>) runnable,
         xc_data_sources = sources, xc_task_qc_rules = concat (map rules_of runnable)\<rparr>)"

record agent_config_result =
  ag_status :: status
  ag_node :: "(node_info \<times> node_status \<times> string) option"
  ag_config :: executable_config
  ag_pending :: "pending_execution_record list"

definition find_config :: "pg_env \<Rightarrow> string \<Rightarrow> server_db \<Rightarrow> agent_config_result" where
  "find_config env code db =
     (let nothing = \<lparr>xc_tasks = [], xc_data_sources = [], xc_task_qc_rules = []\<rparr> in
      if code = [] then
        \<lparr>ag_status = status_failure ''node_code is required'', ag_node = None, ag_config = nothing, ag_pending = []\<rparr>
      else case find_by_code env code db of
        None \<Rightarrow> \<lparr>ag_status = not_found_status ''node is not registered'', ag_node = None, ag_config = nothing, ag_pending = []\<rparr>
      | Some n \<Rightarrow> \<lparr>ag_status = status_success, ag_node = Some n, ag_config = find_executable_config code db,
          ag_pending = find_pending_executions_by_node env code db\<rparr>)"

end
