(* ===== verification/Management_Query.thy ===== *)
theory Management_Query
  imports Management_Service Utc_Time
begin

text \<open>
  The pages the control plane shows to operators: \<open>management_query_repository.cpp\<close> and, on top of it,
  \<open>management_query_service.cpp\<close>. Everything here only reads. A page takes the rows with an identifier
  below the cursor in descending order, one more than asked for, so that the last one tells whether there
  is more. A \<^verbatim>\<open>timestamptz\<close> of the tables counts microseconds; \<^verbatim>\<open>created_at\<close> and \<^verbatim>\<open>updated_at\<close> are left out.
\<close>

section \<open>Requests and pages\<close>

record page_input =
  pi_limit :: int
  pi_cursor :: "string option"

record page_request =
  pq_fetch_limit :: int
  pq_cursor :: "string option"

record 'a management_page =
  mp_items :: "'a list"
  mp_next_cursor :: "string option"
  mp_has_more :: bool

type_synonym 'a page_result = "status \<times> 'a management_page"

type_synonym 'a item_result = "status \<times> 'a option"

definition no_page :: "'a management_page" where
  "no_page = \<lparr>mp_items = [], mp_next_cursor = None, mp_has_more = False\<rparr>"

section \<open>The repository\<close>

text \<open>\<^verbatim>\<open>AND id < $cursor::bigint ... ORDER BY id DESC LIMIT $n\<close> over the rows that satisfy the conditions.\<close>

definition to_cursor :: "pg_env \<Rightarrow> page_request \<Rightarrow> int option sproc" where
  "to_cursor env page = (case pq_cursor page of None \<Rightarrow> ret None | Some c \<Rightarrow> seqp (to_bigint env c) (\<lambda>i. ret (Some i)))"

definition below_cursor :: "int option \<Rightarrow> int \<Rightarrow> bool" where
  "below_cursor cursor i \<longleftrightarrow> (case cursor of None \<Rightarrow> True | Some c \<Rightarrow> i < c)"

definition page_rows :: "('r \<Rightarrow> int) \<Rightarrow> int \<Rightarrow> int option \<Rightarrow> 'r list \<Rightarrow> 'r list" where
  "page_rows key fetch_limit cursor rows =
     take (nat fetch_limit) (sort_key (\<lambda>r. - key r) (filter (\<lambda>r. below_cursor cursor (key r)) rows))"

definition fetch_page :: "pg_env \<Rightarrow> ('r \<Rightarrow> int) \<Rightarrow> page_request \<Rightarrow> (server_db \<Rightarrow> 'r list) \<Rightarrow> (server_db \<Rightarrow> 'r \<Rightarrow> server_exn + 'a) \<Rightarrow>
    'a list sproc" where
  "fetch_page env key page rows read =
     seqp (to_cursor env page) (\<lambda>cursor.
     seqp (gets (\<lambda>db. smap (read db) (page_rows key (pq_fetch_limit page) cursor (rows db)))) lift_sum)"

text \<open>\<^verbatim>\<open>std::stoi\<close> of a printed count.\<close>

definition int_count :: "nat \<Rightarrow> server_exn + int" where
  "int_count n = (if int n < 2 ^ 31 then Inr (int n) else Inl (RuntimeFault ''stoi''))"

definition optional_match :: "'b option \<Rightarrow> 'b \<Rightarrow> bool" where
  "optional_match wanted x \<longleftrightarrow> (case wanted of None \<Rightarrow> True | Some w \<Rightarrow> x = w)"

text \<open>Nodes; the status filter is evaluated in the database, at the second the clock text shows.\<close>

record node_listing =
  nl_id :: string
  nl_info :: node_info
  nl_status :: node_status
  nl_heartbeat :: string

definition node_listing_of :: "pg_env \<Rightarrow> node_row \<Rightarrow> node_listing" where
  "node_listing_of env n =
     \<lparr>nl_id = id_text (nd_id n), nl_info = \<lparr>ni_node_code = nd_code n, ni_name = nd_name n, ni_agent_version = nd_agent_version n\<rparr>,
      nl_status = nd_status n, nl_heartbeat = utc_column env (nd_last_heartbeat n)\<rparr>"

definition online_row :: "int \<Rightarrow> int \<Rightarrow> node_row \<Rightarrow> bool" where
  "online_row now offline_after n \<longleftrightarrow> nd_status n = Online \<and>
     (case nd_last_heartbeat n of None \<Rightarrow> False | Some h \<Rightarrow> h \<le> now \<and> now - offline_after * 1000000 \<le> h)"

definition repo_list_nodes :: "pg_env \<Rightarrow> node_status option \<Rightarrow> string \<Rightarrow> int \<Rightarrow> page_request \<Rightarrow> node_listing list sproc" where
  "repo_list_nodes env effective now offline_after page =
     seqp (case effective of
         None \<Rightarrow> ret (\<lambda>n. True)
       | Some s \<Rightarrow> seqp (to_time env now) (\<lambda>t. ret (\<lambda>n. online_row t offline_after n = (s = Online)))) (\<lambda>keep.
     fetch_page env nd_id page (\<lambda>db. filter keep (sv_nodes db)) (\<lambda>db n. Inr (node_listing_of env n)))"

record node_summary =
  ns_node :: node_listing
  ns_enabled_tasks :: int
  ns_disabled_tasks :: int
  ns_open_alerts :: int
  ns_latest :: "(string \<times> string \<times> task_run_status \<times> string) option"

definition latest_run :: "int \<Rightarrow> server_db \<Rightarrow> run_row option" where
  "latest_run node db = (case sort_key (\<lambda>r. - run_id r) (filter (\<lambda>r. run_node r = node) (sv_runs db)) of [] \<Rightarrow> None | r # _ \<Rightarrow> Some r)"

definition summary_of_node :: "pg_env \<Rightarrow> server_db \<Rightarrow> node_row \<Rightarrow> server_exn + node_summary" where
  "summary_of_node env db n =
     sbind (int_count (length (filter (\<lambda>t. tk_node t = nd_id n \<and> tk_enabled t) (sv_tasks db)))) (\<lambda>enabled.
     sbind (int_count (length (filter (\<lambda>t. tk_node t = nd_id n \<and> \<not> tk_enabled t) (sv_tasks db)))) (\<lambda>disabled.
     sbind (int_count (length (filter (\<lambda>a. al_node a = Some (nd_id n) \<and> al_status a = ''open'') (sv_alerts db)))) (\<lambda>alerts.
       Inr \<lparr>ns_node = node_listing_of env n, ns_enabled_tasks = enabled, ns_disabled_tasks = disabled, ns_open_alerts = alerts,
         ns_latest = map_option (\<lambda>r. (id_text (run_id r), id_text (run_task r), run_status r, utc_column env (run_started r)))
           (latest_run (nd_id n) db)\<rparr>)))"

definition find_node_summary :: "pg_env \<Rightarrow> string \<Rightarrow> node_summary option sproc" where
  "find_node_summary env code =
     seqp (gets (\<lambda>db. case node_with_code code db of None \<Rightarrow> Inr None | Some n \<Rightarrow> sbind (summary_of_node env db n) (\<lambda>s. Inr (Some s)))) lift_sum"

text \<open>Rows of one node, joined with it.\<close>

definition joined :: "(node_row \<Rightarrow> 'r \<Rightarrow> 'a) \<Rightarrow> ('r \<Rightarrow> int) \<Rightarrow> server_db \<Rightarrow> 'r \<Rightarrow> server_exn + 'a" where
  "joined f node db r = (case node_with_id (node r) db of None \<Rightarrow> Inl SqlFault | Some n \<Rightarrow> Inr (f n r))"

definition list_data_sources_by_node :: "pg_env \<Rightarrow> string \<Rightarrow> bool option \<Rightarrow> page_request \<Rightarrow> data_source_record list sproc" where
  "list_data_sources_by_node env code enabled page =
     fetch_page env so_id page
       (\<lambda>db. filter (\<lambda>s. on_node code (so_node s) db \<and> optional_match enabled (so_enabled s)) (sv_sources db))
       (joined data_source_of so_node)"

definition repo_list_qc_rules :: "pg_env \<Rightarrow> bool option \<Rightarrow> page_request \<Rightarrow> qc_rule_record list sproc" where
  "repo_list_qc_rules env enabled page =
     fetch_page env ru_id page (\<lambda>db. filter (\<lambda>r. optional_match enabled (ru_enabled r)) (sv_rules db)) (\<lambda>db r. Inr (rule_of r))"

text \<open>
  The rules of a task come aggregated with commas, in the order of their bindings; \<^verbatim>\<open>getline\<close> cuts the text
  again and empty pieces are dropped.
\<close>

fun getline_pieces :: "string \<Rightarrow> string \<Rightarrow> string list" where
  "getline_pieces piece [] = (if piece = [] then [] else [piece])"
| "getline_pieces piece (c # cs) = (if c = CHR '','' then piece # getline_pieces [] cs else getline_pieces (piece @ [c]) cs)"

definition query_split_ids :: "string \<Rightarrow> string list" where
  "query_split_ids value = filter (\<lambda>i. i \<noteq> []) (getline_pieces [] value)"

definition rule_ids_of_task :: "server_db \<Rightarrow> int \<Rightarrow> string" where
  "rule_ids_of_task db i =
     aggregated_ids (map (\<lambda>b. id_text (bi_rule b)) (sort_key bi_order (sort_key bi_rule (filter (\<lambda>b. bi_task b = i) (sv_bindings db)))))"

definition listed_task_of :: "server_db \<Rightarrow> node_row \<Rightarrow> task_row \<Rightarrow> task_record" where
  "listed_task_of db n t = (task_of n t)\<lparr>tx_qc_rule_ids := query_split_ids (rule_ids_of_task db (tk_id t))\<rparr>"

definition list_tasks_by_node :: "pg_env \<Rightarrow> string \<Rightarrow> bool option \<Rightarrow> page_request \<Rightarrow> task_record list sproc" where
  "list_tasks_by_node env code enabled page =
     fetch_page env tk_id page
       (\<lambda>db. filter (\<lambda>t. on_node code (tk_node t) db \<and> optional_match enabled (tk_enabled t)) (sv_tasks db))
       (\<lambda>db. joined (listed_task_of db) tk_node db)"

definition query_find_task :: "pg_env \<Rightarrow> string \<Rightarrow> task_record option sproc" where
  "query_find_task env i =
     seqp (to_bigint env i) (\<lambda>n. gets (\<lambda>db.
       case task_row_with_id n db of
         None \<Rightarrow> None
       | Some t \<Rightarrow> map_option (\<lambda>nd. listed_task_of db nd t) (node_with_id (tk_node t) db)))"

text \<open>A run with the number of its failed files; NULL, from reports that had no list, counts as \<open>-1\<close>.\<close>

record listed_run =
  lr_run :: task_run_record
  lr_failed_file_count :: int

definition failed_file_count :: "run_row \<Rightarrow> server_exn + int" where
  "failed_file_count r =
     (case run_failed_files r of
        None \<Rightarrow> Inr (- 1)
      | Some (JArr items) \<Rightarrow> int_count (length items)
      | Some _ \<Rightarrow> Inl SqlFault)"

definition listed_run_of :: "pg_env \<Rightarrow> server_db \<Rightarrow> run_row \<Rightarrow> server_exn + listed_run" where
  "listed_run_of env db r =
     (case node_with_id (run_node r) db of
        None \<Rightarrow> Inl SqlFault
      | Some n \<Rightarrow> sbind (failed_file_count r) (\<lambda>c. Inr \<lparr>lr_run = task_run_of env n r, lr_failed_file_count = c\<rparr>))"

definition list_task_runs_by_node :: "pg_env \<Rightarrow> string \<Rightarrow> string option \<Rightarrow> task_run_status option \<Rightarrow> page_request \<Rightarrow>
    listed_run list sproc" where
  "list_task_runs_by_node env code task_id st page =
     seqp (case task_id of None \<Rightarrow> ret None | Some i \<Rightarrow> seqp (to_bigint env i) (\<lambda>n. ret (Some n))) (\<lambda>task.
     fetch_page env run_id page
       (\<lambda>db. filter (\<lambda>r. on_node code (run_node r) db \<and> optional_match task (run_task r) \<and> optional_match st (run_status r)) (sv_runs db))
       (listed_run_of env))"

record run_summary =
  su_run :: listed_run
  su_raw_files :: int
  su_parsed_records :: int
  su_qc_results :: int
  su_alerts :: int
  su_failed_files :: "task_run_failed_file list option"
  su_retry_files :: "task_run_retry_file list option"

definition result_run :: "server_db \<Rightarrow> result_row \<Rightarrow> int option" where
  "result_run db q = map_option rc_run (find (\<lambda>p. rc_id p = rs_record q) (sv_records db))"

definition summary_of_run :: "pg_env \<Rightarrow> server_db \<Rightarrow> run_row \<Rightarrow> server_exn + run_summary" where
  "summary_of_run env db r =
     sbind (listed_run_of env db r) (\<lambda>run.
     sbind (int_count (length (filter (\<lambda>f. rw_run f = run_id r) (sv_raw_files db)))) (\<lambda>raw.
     sbind (int_count (length (filter (\<lambda>p. rc_run p = run_id r) (sv_records db)))) (\<lambda>records.
     sbind (int_count (length (filter (\<lambda>q. result_run db q = Some (run_id r)) (sv_results db)))) (\<lambda>results.
     sbind (int_count (length (filter (\<lambda>a. al_run a = Some (run_id r)) (sv_alerts db)))) (\<lambda>alerts.
       Inr \<lparr>su_run = run, su_raw_files = raw, su_parsed_records = records, su_qc_results = results, su_alerts = alerts,
         su_failed_files = parse_failed_files_json (run_failed_files r),
         su_retry_files = parse_retry_files_json (run_retry_files r)\<rparr>)))))"

definition find_task_run_summary :: "pg_env \<Rightarrow> string \<Rightarrow> run_summary option sproc" where
  "find_task_run_summary env i =
     seqp (to_bigint env i) (\<lambda>n.
     seqp (gets (\<lambda>db. case find (\<lambda>r. run_id r = n \<and> node_with_id (run_node r) db \<noteq> None) (sv_runs db) of
         None \<Rightarrow> Inr None
       | Some r \<Rightarrow> sbind (summary_of_run env db r) (\<lambda>s. Inr (Some s)))) lift_sum)"

text \<open>What a run produced.\<close>

definition list_raw_files_by_run :: "pg_env \<Rightarrow> string \<Rightarrow> page_request \<Rightarrow> raw_file_record list sproc" where
  "list_raw_files_by_run env run page =
     seqp (to_bigint env run) (\<lambda>i.
     fetch_page env rw_id page
       (\<lambda>db. filter (\<lambda>f. rw_run f = i \<and> node_with_id (rw_node f) db \<noteq> None) (sv_raw_files db))
       (joined (raw_file_of env) rw_node))"

definition list_parsed_records_by_run :: "pg_env \<Rightarrow> string \<Rightarrow> page_request \<Rightarrow> parsed_record_record list sproc" where
  "list_parsed_records_by_run env run page =
     seqp (to_bigint env run) (\<lambda>i.
     fetch_page env rc_id page (\<lambda>db. filter (\<lambda>p. rc_run p = i) (sv_records db)) (\<lambda>db p. Inr (parsed_record_of env p)))"

record listed_result =
  lq_result :: qc_result_record
  lq_task_run_id :: string

definition list_qc_results_by_run :: "pg_env \<Rightarrow> string \<Rightarrow> string option \<Rightarrow> page_request \<Rightarrow> listed_result list sproc" where
  "list_qc_results_by_run env run result page =
     seqp (to_bigint env run) (\<lambda>i.
     fetch_page env rs_id page
       (\<lambda>db. filter (\<lambda>q. result_run db q = Some i \<and> optional_match result (rs_result q)) (sv_results db))
       (\<lambda>db q. Inr \<lparr>lq_result = qc_result_of q, lq_task_run_id = id_text i\<rparr>))"

definition list_alerts_by_node :: "pg_env \<Rightarrow> string \<Rightarrow> string option \<Rightarrow> string option \<Rightarrow> string option \<Rightarrow> page_request \<Rightarrow>
    alert_record list sproc" where
  "list_alerts_by_node env code run st severity page =
     seqp (case run of None \<Rightarrow> ret None | Some i \<Rightarrow> seqp (to_bigint env i) (\<lambda>n. ret (Some n))) (\<lambda>wanted.
     fetch_page env al_id page
       (\<lambda>db. filter (\<lambda>a. (case al_node a of None \<Rightarrow> False | Some i \<Rightarrow> on_node code i db) \<and>
          (case wanted of None \<Rightarrow> True | Some w \<Rightarrow> al_run a = Some w) \<and> optional_match st (al_status a) \<and>
          optional_match severity (al_severity a)) (sv_alerts db))
       (\<lambda>db a. Inr (alert_of env db a)))"

end
