(* ===== verification/Query_Service.thy ===== *)
theory Query_Service
  imports Management_Query
begin

text \<open>
  \<open>management_query_service.cpp\<close>: the checks of each query, the derived state of nodes and runs, and the
  cutting of a page. \<open>now\<close> is the clock value the executor constructs the service with.
\<close>

section \<open>Pages\<close>

definition validate_page :: "page_input \<Rightarrow> status" where
  "validate_page page =
     (if pi_limit page < 1 \<or> pi_limit page > 100 then status_failure ''limit must be between 1 and 100''
      else if (case pi_cursor page of None \<Rightarrow> False | Some c \<Rightarrow> \<not> is_positive_id c)
      then status_failure ''cursor must be a positive integer''
      else status_success)"

definition repository_page :: "page_input \<Rightarrow> page_request" where
  "repository_page page = \<lparr>pq_fetch_limit = pi_limit page + 1, pq_cursor = pi_cursor page\<rparr>"

definition trim_page :: "'a list \<Rightarrow> int \<Rightarrow> ('a \<Rightarrow> string) \<Rightarrow> 'a management_page" where
  "trim_page rows limit read_id =
     (let has_more = int (length rows) > limit; items = (if has_more then take (nat limit) rows else rows) in
      \<lparr>mp_items = items, mp_next_cursor = (if has_more \<and> items \<noteq> [] then Some (read_id (last items)) else None),
       mp_has_more = has_more\<rparr>)"

section \<open>Times\<close>

text \<open>\<^verbatim>\<open>std::from_chars\<close> of an \<^verbatim>\<open>int\<close>: digits, a minus sign allowed, all of the text.\<close>

definition from_chars_int :: "string \<Rightarrow> int option" where
  "from_chars_int s =
     (let negative = (s \<noteq> [] \<and> hd s = CHR ''-''); ds = (if negative then tl s else s) in
      if ds = [] \<or> \<not> list_all isdigit ds then None
      else let n = int (digits_value 0 ds); i = (if negative then - n else n) in
        if - (2 ^ 31) \<le> i \<and> i < 2 ^ 31 then Some i else None)"

definition query_days_from_civil :: "int \<Rightarrow> int \<Rightarrow> int \<Rightarrow> int" where
  "query_days_from_civil year month day =
     (let y = (if month \<le> 2 then year - 1 else year);
          era = quot (if y \<ge> 0 then y else y - 399) 400;
          year_of_era = y - era * 400;
          day_of_year = (153 * (month + (if month > 2 then -3 else 9)) + 2) div 5 + day - 1;
          day_of_era = year_of_era * 365 + year_of_era div 4 - year_of_era div 100 + day_of_year in
      era * 146097 + day_of_era - 719468)"

text \<open>
  The count of nanoseconds in a \<^verbatim>\<open>system_clock::time_point\<close> has 64 bits. Where the multiplication leaves them,
  the source is undefined; the compiled code wraps.
\<close>

definition wrap64 :: "int \<Rightarrow> int" where
  "wrap64 i = (i + 2 ^ 63) mod 2 ^ 64 - 2 ^ 63"

definition parse_utc_timestamp :: "string \<Rightarrow> time_point option" where
  "parse_utc_timestamp value =
     (if length value \<noteq> 20 \<or> value ! 4 \<noteq> CHR ''-'' \<or> value ! 7 \<noteq> CHR ''-'' \<or> value ! 10 \<noteq> CHR ''T'' \<or>
         value ! 13 \<noteq> CHR '':'' \<or> value ! 16 \<noteq> CHR '':'' \<or> value ! 19 \<noteq> CHR ''Z'' then None
      else
        let number = (\<lambda>offset count. from_chars_int (take count (drop offset value))) in
        case (number 0 4, number 5 2, number 8 2, number 11 2, number 14 2, number 17 2) of
          (Some year, Some month, Some day, Some hour, Some minute, Some second) \<Rightarrow>
            if month < 1 \<or> month > 12 \<or> day < 1 \<or> day > 31 \<or> hour > 23 \<or> minute > 59 \<or> second > 59 then None
            else Some (wrap64 (seconds_point (query_days_from_civil year month day * 86400 + hour * 3600 + minute * 60 + second)))
        | _ \<Rightarrow> None)"

definition effective_status :: "node_listing \<Rightarrow> time_point \<Rightarrow> int \<Rightarrow> node_status" where
  "effective_status node now offline_after_seconds =
     (if nl_status node \<noteq> Online then Offline
      else case parse_utc_timestamp (nl_heartbeat node) of
        None \<Rightarrow> Offline
      | Some heartbeat \<Rightarrow>
          if heartbeat > now then Offline
          else if now - heartbeat > seconds_point offline_after_seconds then Offline else Online)"

definition is_stale :: "task_run_record \<Rightarrow> time_point \<Rightarrow> int \<Rightarrow> bool" where
  "is_stale run now stale_after_seconds =
     (if tr_status run \<noteq> Running then False
      else case parse_utc_timestamp (tr_started_at run) of
        None \<Rightarrow> False
      | Some started_at \<Rightarrow> started_at \<le> now \<and> now - started_at > seconds_point stale_after_seconds)"

section \<open>Filters\<close>

definition parse_node_status :: "string option \<Rightarrow> node_status option" where
  "parse_node_status value =
     (case value of None \<Rightarrow> None
      | Some v \<Rightarrow> if v = ''online'' then Some Online else if v = ''offline'' then Some Offline else None)"

definition parse_run_status :: "string option \<Rightarrow> task_run_status option" where
  "parse_run_status value =
     (case value of None \<Rightarrow> None
      | Some v \<Rightarrow> if v = ''pending'' then Some Pending else if v = ''running'' then Some Running
          else if v = ''succeeded'' then Some Succeeded else if v = ''failed'' then Some Failed else None)"

definition validate_node_code :: "string \<Rightarrow> status" where
  "validate_node_code code =
     (if code = [] \<or> length code > 64 then status_failure ''node_code must contain 1 to 64 characters'' else status_success)"

definition query_refused :: "status \<Rightarrow> 'a page_result sproc" where
  "query_refused s = ret (s, no_page)"

definition query_page :: "'a list sproc \<Rightarrow> page_input \<Rightarrow> ('a \<Rightarrow> string) \<Rightarrow> 'a page_result sproc" where
  "query_page records page read_id =
     seqp records (\<lambda>rows. ret (status_success, trim_page rows (pi_limit page) read_id))"

definition not_one_of :: "string option \<Rightarrow> string list \<Rightarrow> bool" where
  "not_one_of value allowed \<longleftrightarrow> (case value of None \<Rightarrow> False | Some v \<Rightarrow> v \<notin> set allowed)"

section \<open>Queries\<close>

record query_clock =
  qk_now :: time_point
  qk_offline_after :: int
  qk_stale_after :: int

type_synonym managed_node = "node_listing \<times> node_status"

definition list_nodes :: "pg_env \<Rightarrow> query_clock \<Rightarrow> string option \<Rightarrow> page_input \<Rightarrow> managed_node page_result sproc" where
  "list_nodes env k st page =
     (if \<not> st_ok (validate_page page) then query_refused (validate_page page)
      else if st \<noteq> None \<and> parse_node_status st = None then query_refused (status_failure ''status must be online or offline'')
      else query_page
        (seqp (repo_list_nodes env (parse_node_status st) (format_utc_timestamp (qk_now k)) (qk_offline_after k) (repository_page page))
          (\<lambda>records. ret (map (\<lambda>r. (r, effective_status r (qk_now k) (qk_offline_after k))) records)))
        page (\<lambda>n. nl_id (fst n)))"

definition find_node :: "pg_env \<Rightarrow> query_clock \<Rightarrow> string \<Rightarrow> (node_summary \<times> node_status) item_result sproc" where
  "find_node env k code =
     (if \<not> st_ok (validate_node_code code) then ret (validate_node_code code, None)
      else seqp (find_node_summary env code) (\<lambda>summary. case summary of
        None \<Rightarrow> ret (not_found_status ''node is not found'', None)
      | Some s \<Rightarrow> ret (status_success, Some (s, effective_status (ns_node s) (qk_now k) (qk_offline_after k)))))"

text \<open>The checks that the node-scoped and the run-scoped lists share.\<close>

definition with_node :: "pg_env \<Rightarrow> string \<Rightarrow> 'a page_result sproc \<Rightarrow> 'a page_result sproc" where
  "with_node env code m =
     seqp (find_node_summary env code) (\<lambda>s. if s = None then query_refused (not_found_status ''node is not found'') else m)"

definition with_run :: "pg_env \<Rightarrow> string \<Rightarrow> 'a page_result sproc \<Rightarrow> 'a page_result sproc" where
  "with_run env run m =
     seqp (find_task_run_summary env run) (\<lambda>s. if s = None then query_refused (not_found_status ''task run is not found'') else m)"

definition list_data_sources :: "pg_env \<Rightarrow> string \<Rightarrow> bool option \<Rightarrow> page_input \<Rightarrow> data_source_record page_result sproc" where
  "list_data_sources env code enabled page =
     (if \<not> st_ok (validate_node_code code) then query_refused (validate_node_code code)
      else if \<not> st_ok (validate_page page) then query_refused (validate_page page)
      else with_node env code (query_page (list_data_sources_by_node env code enabled (repository_page page)) page dr_id))"

definition list_qc_rules :: "pg_env \<Rightarrow> bool option \<Rightarrow> page_input \<Rightarrow> qc_rule_record page_result sproc" where
  "list_qc_rules env enabled page =
     (if \<not> st_ok (validate_page page) then query_refused (validate_page page)
      else query_page (repo_list_qc_rules env enabled (repository_page page)) page qu_id)"

definition list_tasks :: "pg_env \<Rightarrow> string \<Rightarrow> bool option \<Rightarrow> page_input \<Rightarrow> task_record page_result sproc" where
  "list_tasks env code enabled page =
     (if \<not> st_ok (validate_node_code code) then query_refused (validate_node_code code)
      else if \<not> st_ok (validate_page page) then query_refused (validate_page page)
      else with_node env code (query_page (list_tasks_by_node env code enabled (repository_page page)) page tx_id))"

type_synonym managed_run = "listed_run \<times> bool \<times> int"

definition managed_run_of :: "query_clock \<Rightarrow> listed_run \<Rightarrow> managed_run" where
  "managed_run_of k r = (r, is_stale (lr_run r) (qk_now k) (qk_stale_after k), qk_stale_after k)"

definition list_task_runs :: "pg_env \<Rightarrow> query_clock \<Rightarrow> string \<Rightarrow> string option \<Rightarrow> string option \<Rightarrow> page_input \<Rightarrow>
    managed_run page_result sproc" where
  "list_task_runs env k code task_id st page =
     (let records = query_page
            (seqp (list_task_runs_by_node env code task_id (parse_run_status st) (repository_page page)) (\<lambda>rs. ret (map (managed_run_of k) rs)))
            page (\<lambda>r. tr_id (lr_run (fst r))) in
      if \<not> st_ok (validate_node_code code) then query_refused (validate_node_code code)
      else if \<not> st_ok (validate_page page) then query_refused (validate_page page)
      else if st \<noteq> None \<and> parse_run_status st = None
      then query_refused (status_failure ''status must be pending, running, succeeded or failed'')
      else if (case task_id of None \<Rightarrow> False | Some i \<Rightarrow> \<not> is_positive_id i)
      then query_refused (status_failure ''task_id must be a positive integer'')
      else with_node env code (case task_id of
          None \<Rightarrow> records
        | Some i \<Rightarrow> seqp (query_find_task env i) (\<lambda>task.
            if (case task of None \<Rightarrow> True | Some t \<Rightarrow> tx_node_code t \<noteq> code)
            then query_refused (not_found_status ''task is not found'') else records)))"

definition query_find_run :: "pg_env \<Rightarrow> query_clock \<Rightarrow> string \<Rightarrow> string \<Rightarrow> (run_summary \<times> bool \<times> int) item_result sproc" where
  "query_find_run env k code i =
     (if \<not> st_ok (validate_node_code code) then ret (validate_node_code code, None)
      else if \<not> is_positive_id i then ret (status_failure ''task_run_id must be a positive integer'', None)
      else seqp (find_task_run_summary env i) (\<lambda>summary. case summary of
        None \<Rightarrow> ret (not_found_status ''task run is not found'', None)
      | Some s \<Rightarrow>
          if tr_node_code (lr_run (su_run s)) \<noteq> code then ret (not_found_status ''task run is not found'', None)
          else ret (status_success, Some (s, is_stale (lr_run (su_run s)) (qk_now k) (qk_stale_after k), qk_stale_after k))))"

definition list_raw_files :: "pg_env \<Rightarrow> string \<Rightarrow> page_input \<Rightarrow> raw_file_record page_result sproc" where
  "list_raw_files env run page =
     (if \<not> st_ok (validate_page page) then query_refused (validate_page page)
      else if \<not> is_positive_id run then query_refused (status_failure ''task_run_id must be a positive integer'')
      else with_run env run (query_page (list_raw_files_by_run env run (repository_page page)) page rx_id))"

definition list_parsed_records :: "pg_env \<Rightarrow> string \<Rightarrow> page_input \<Rightarrow> parsed_record_record page_result sproc" where
  "list_parsed_records env run page =
     (if \<not> st_ok (validate_page page) then query_refused (validate_page page)
      else if \<not> is_positive_id run then query_refused (status_failure ''task_run_id must be a positive integer'')
      else with_run env run (query_page (list_parsed_records_by_run env run (repository_page page)) page pd_id))"

definition list_qc_results :: "pg_env \<Rightarrow> string \<Rightarrow> string option \<Rightarrow> page_input \<Rightarrow> listed_result page_result sproc" where
  "list_qc_results env run result page =
     (if \<not> st_ok (validate_page page) then query_refused (validate_page page)
      else if \<not> is_positive_id run then query_refused (status_failure ''task_run_id must be a positive integer'')
      else if not_one_of result [''passed'', ''failed''] then query_refused (status_failure ''result must be passed or failed'')
      else with_run env run (query_page (list_qc_results_by_run env run result (repository_page page)) page (\<lambda>q. qs_id (lq_result q))))"

definition list_alerts :: "pg_env \<Rightarrow> string \<Rightarrow> string option \<Rightarrow> string option \<Rightarrow> string option \<Rightarrow> page_input \<Rightarrow>
    alert_record page_result sproc" where
  "list_alerts env code run st severity page =
     (let records = query_page (list_alerts_by_node env code run st severity (repository_page page)) page ar_id in
      if \<not> st_ok (validate_node_code code) then query_refused (validate_node_code code)
      else if \<not> st_ok (validate_page page) then query_refused (validate_page page)
      else if (case run of None \<Rightarrow> False | Some i \<Rightarrow> \<not> is_positive_id i)
      then query_refused (status_failure ''task_run_id must be a positive integer'')
      else if not_one_of st [''open'', ''acknowledged'', ''closed'']
      then query_refused (status_failure ''status must be open, acknowledged or closed'')
      else if not_one_of severity [''warning'', ''failed''] then query_refused (status_failure ''severity must be warning or failed'')
      else with_node env code (case run of
          None \<Rightarrow> records
        | Some i \<Rightarrow> seqp (find_task_run_summary env i) (\<lambda>s.
            if (case s of None \<Rightarrow> True | Some x \<Rightarrow> tr_node_code (lr_run (su_run x)) \<noteq> code)
            then query_refused (not_found_status ''task run is not found'') else records)))"

end
