(* ===== verification/Server_Texts.thy ===== *)
theory Server_Texts
  imports Agent_Report_Service Utc_Time
begin

text \<open>
  The texts the control plane reads and writes: timestamps (\<open>is_rfc3339_utc\<close>), the identifier lists of the
  receipts (\<open>join_ids\<close>, \<open>split_ids\<close>) and the canonical text of a request (\<open>FingerprintBuilder\<close>).
\<close>

section \<open>Timestamps\<close>

lemma isdigit_digit_char_of: "isdigit c \<Longrightarrow> c = digit_char (digit_value c)"
  by (simp add: isdigit_def digit_char_def digit_value_def char_code_def)

lemma decimal_two:
  "decimal_loop_at 0 [a, b] = (if isdigit a \<and> isdigit b then int (10 * digit_value a + digit_value b) else -1)"
  by simp

lemma decimal_four:
  "decimal_loop_at 0 [a, b, c, d] =
     (if isdigit a \<and> isdigit b \<and> isdigit c \<and> isdigit d
      then int (1000 * digit_value a + 100 * digit_value b + 10 * digit_value c + digit_value d) else -1)"
  by simp

text \<open>A text of digits is the padded text of its value.\<close>

lemma two_digits_value:
  assumes "isdigit a" "isdigit b" shows "[a, b] = two_digits (10 * digit_value a + digit_value b)"
proof -
  have "digit_value a < 10" "digit_value b < 10" using assms by (simp_all add: digit_value_less)
  then have "(10 * digit_value a + digit_value b) div 10 = digit_value a" "(10 * digit_value a + digit_value b) mod 10 = digit_value b"
    "digit_value a mod 10 = digit_value a"
    by simp_all
  then show ?thesis unfolding two_digits_def using assms by (simp only: isdigit_digit_char_of[symmetric])
qed

lemma decimal_divs:
  fixes x y z w :: nat
  assumes "y < 10" "z < 10" "w < 10"
  defines "n \<equiv> 1000 * x + 100 * y + 10 * z + w"
  shows "n mod 10 = w" "n div 10 mod 10 = z" "n div 100 mod 10 = y" "n div 1000 = x"
proof -
  have "n = w + 10 * (z + 10 * (y + 10 * x))" by (simp add: n_def)
  then have n: "n mod 10 = w" "n div 10 = z + 10 * (y + 10 * x)"
    using assms(3) by (simp_all only: mod_mult_self2 mod_less div_mult_self2 div_less add_0_right add_0_left)
  have d: "n div 10 div 10 = y + 10 * x" "n div 10 mod 10 = z"
    unfolding n(2) using assms(2) by (simp_all only: mod_mult_self2 mod_less div_mult_self2 div_less add_0_right add_0_left)
  moreover have "n div 100 = n div 10 div 10" "n div 1000 = n div 10 div 10 div 10" by (simp_all add: div_mult2_eq[symmetric])
  ultimately show "n mod 10 = w" "n div 10 mod 10 = z" "n div 100 mod 10 = y" "n div 1000 = x" using n(1) assms(1) by simp_all
qed

lemma four_digits_value:
  assumes "isdigit a" "isdigit b" "isdigit c" "isdigit d"
  shows "[a, b, c, d] = four_digits (1000 * digit_value a + 100 * digit_value b + 10 * digit_value c + digit_value d)"
proof -
  note less = assms[THEN digit_value_less]
  note divs = decimal_divs[OF less(2-4), of "digit_value a"]
  have "digit_value a mod 10 = digit_value a" using less(1) by simp
  with divs assms show ?thesis unfolding four_digits_def by (simp only: isdigit_digit_char_of[symmetric])
qed

lemma decimal_two_digits: 
  assumes "n < 100" shows "decimal_loop_at 0 (two_digits n) = int n"
proof -
  have "n div 10 < 10" using assms by simp
  then have "10 * (n div 10 mod 10) + n mod 10 = n" by simp
  then show ?thesis unfolding two_digits_def decimal_two by simp
qed

lemma decimal_four_digits: 
  assumes "n < 10000" shows "decimal_loop_at 0 (four_digits n) = int n"
proof -
  have top: "n div 10 div 10 div 10 < 10" using assms by (simp add: div_mult2_eq[symmetric])
  have div: "n div 100 = n div 10 div 10" "n div 1000 = n div 10 div 10 div 10" by (simp_all add: div_mult2_eq[symmetric])
  have "n = 10 * (n div 10) + n mod 10" "n div 10 = 10 * (n div 10 div 10) + n div 10 mod 10"
    "n div 10 div 10 = 10 * (n div 10 div 10 div 10) + n div 10 div 10 mod 10" by (simp_all only: mult_div_mod_eq)
  then have "1000 * (n div 1000 mod 10) + 100 * (n div 100 mod 10) + 10 * (n div 10 mod 10) + n mod 10 = n"
    unfolding div using top by (simp only: mod_less)
  moreover have "decimal_loop_at 0 (four_digits n) =
      int (1000 * (n div 1000 mod 10) + 100 * (n div 100 mod 10) + 10 * (n div 10 mod 10) + n mod 10)"
    unfolding four_digits_def decimal_four by simp
  ultimately show ?thesis by (simp only:)
qed

text \<open>The printed form of a date and a time of day.\<close>

definition printed_time :: "nat \<Rightarrow> nat \<Rightarrow> nat \<Rightarrow> nat \<Rightarrow> nat \<Rightarrow> nat \<Rightarrow> string" where
  "printed_time y m d h mi s = four_digits y @ ''-'' @ two_digits m @ ''-'' @ two_digits d @ ''T'' @ two_digits h @ '':'' @
     two_digits mi @ '':'' @ two_digits s @ ''Z''"

lemma maximum_day: "1 \<le> m \<Longrightarrow> m \<le> 12 \<Longrightarrow>
   (if m = 2 \<and> is_leap_year y then 29 else kDaysByMonth ! nat (m - 1)) = days_in_month y m"
proof -
  assume "1 \<le> m" "m \<le> 12"
  then have "m = 1 \<or> m = 2 \<or> m = 3 \<or> m = 4 \<or> m = 5 \<or> m = 6 \<or> m = 7 \<or> m = 8 \<or> m = 9 \<or> m = 10 \<or> m = 11 \<or> m = 12" by arith
  then show ?thesis
    by (elim disjE) (simp_all add: kDaysByMonth_def days_in_month_def is_leap_year_def leap_year_def)
qed

lemma length_20E:
  assumes "length s = 20"
  obtains a b c d e f g h i j k l m n p q r t u v where "s = [a, b, c, d, e, f, g, h, i, j, k, l, m, n, p, q, r, t, u, v]"
  using assms by (auto simp: length_Suc_conv numeral_eq_Suc)

lemma printed_time_accepted:
  assumes "1 \<le> y" "y \<le> 9999" "valid_date (int y) (int m) (int d)" "h < 24" "mi < 60" "s < 60"
  shows "is_rfc3339_utc (printed_time y m d h mi s)"
proof -
  let ?v = "printed_time y m d h mi s"
  have md: "1 \<le> m" "m \<le> 12" "1 \<le> d" "int d \<le> days_in_month (int y) (int m)" "d < 100"
    using assms(3) by (auto simp: valid_date_def days_in_month_def split: if_splits)
  have shape: "length ?v = 20" "?v ! 4 = CHR ''-''" "?v ! 7 = CHR ''-''" "?v ! 10 = CHR ''T''" "?v ! 13 = CHR '':''"
    "?v ! 16 = CHR '':''" "?v ! 19 = CHR ''Z''"
    by (simp_all add: printed_time_def four_digits_def two_digits_def)
  have parts: "take 4 (drop 0 ?v) = four_digits y" "take 2 (drop 5 ?v) = two_digits m" "take 2 (drop 8 ?v) = two_digits d"
    "take 2 (drop 11 ?v) = two_digits h" "take 2 (drop 14 ?v) = two_digits mi" "take 2 (drop 17 ?v) = two_digits s"
    by (simp_all add: printed_time_def four_digits_def two_digits_def)
  have vals: "decimal_component ?v 0 4 = int y" "decimal_component ?v 5 2 = int m" "decimal_component ?v 8 2 = int d"
    "decimal_component ?v 11 2 = int h" "decimal_component ?v 14 2 = int mi" "decimal_component ?v 17 2 = int s"
    unfolding decimal_component_def parts using assms md by (simp_all add: decimal_two_digits decimal_four_digits)
  have "1 \<le> int m" "int m \<le> 12" using md by simp_all
  from maximum_day[OF this, of "int y"] show ?thesis
    unfolding is_rfc3339_utc_def Let_def shape vals using assms md by (simp del: nat_int)
qed

lemma decimal_two_nonneg: "0 \<le> decimal_loop_at 0 [a, b] \<Longrightarrow> isdigit a \<and> isdigit b"
  unfolding decimal_two by (simp split: if_splits)

lemma decimal_four_nonneg: "0 \<le> decimal_loop_at 0 [a, b, c, d] \<Longrightarrow> isdigit a \<and> isdigit b \<and> isdigit c \<and> isdigit d"
  unfolding decimal_four by (simp split: if_splits)

lemma rfc3339_parts:
  assumes "is_rfc3339_utc v"
  defines "Y \<equiv> decimal_component v 0 4" and "M \<equiv> decimal_component v 5 2" and "D \<equiv> decimal_component v 8 2"
    and "H \<equiv> decimal_component v 11 2" and "MI \<equiv> decimal_component v 14 2" and "S \<equiv> decimal_component v 17 2"
  shows "v ! 4 = CHR ''-'' \<and> v ! 7 = CHR ''-'' \<and> v ! 10 = CHR ''T'' \<and> v ! 13 = CHR '':'' \<and> v ! 16 = CHR '':'' \<and> v ! 19 = CHR ''Z'' \<and>
    1 \<le> Y \<and> 1 \<le> M \<and> M \<le> 12 \<and> 0 \<le> H \<and> H \<le> 23 \<and> 0 \<le> MI \<and> MI \<le> 59 \<and> 0 \<le> S \<and> S \<le> 59 \<and> 1 \<le> D \<and>
    D \<le> (if M = 2 \<and> is_leap_year Y then 29 else kDaysByMonth ! nat (M - 1))"
proof -
  have "\<not> (length v \<noteq> 20 \<or> v ! 4 \<noteq> CHR ''-'' \<or> v ! 7 \<noteq> CHR ''-'' \<or> v ! 10 \<noteq> CHR ''T'' \<or>
         v ! 13 \<noteq> CHR '':'' \<or> v ! 16 \<noteq> CHR '':'' \<or> v ! 19 \<noteq> CHR ''Z'')"
    and "\<not> (Y < 1 \<or> M < 1 \<or> M > 12 \<or> H < 0 \<or> H > 23 \<or> MI < 0 \<or> MI > 59 \<or> S < 0 \<or> S > 59)"
    and "1 \<le> D \<and> D \<le> (if M = 2 \<and> is_leap_year Y then 29 else kDaysByMonth ! nat (M - 1))"
    using assms(1) unfolding is_rfc3339_utc_def Let_def assms(2-7)[symmetric] by (meson)+
  then show ?thesis unfolding de_Morgan_disj not_less not_not by blast
qed

lemma accepted_printed_time:
  assumes "is_rfc3339_utc v"
  shows "\<exists>y m d h mi s. v = printed_time y m d h mi s \<and> 1 \<le> y \<and> y \<le> 9999 \<and> valid_date (int y) (int m) (int d) \<and>
    h < 24 \<and> mi < 60 \<and> s < 60"
proof -
  have "length v = 20" using assms by (auto simp: is_rfc3339_utc_def split: if_splits)
  then obtain a b c d e f g h i j k l m n p q r t u w where v: "v = [a, b, c, d, e, f, g, h, i, j, k, l, m, n, p, q, r, t, u, w]"
    by (rule length_20E)
  define Y M D H MI S where fields: "Y = decimal_component v 0 4" "M = decimal_component v 5 2" "D = decimal_component v 8 2"
    "H = decimal_component v 11 2" "MI = decimal_component v 14 2" "S = decimal_component v 17 2"
  have marks: "v ! 4 = CHR ''-''" "v ! 7 = CHR ''-''" "v ! 10 = CHR ''T''" "v ! 13 = CHR '':''" "v ! 16 = CHR '':''" "v ! 19 = CHR ''Z''"
    and ranges: "1 \<le> Y" "1 \<le> M" "M \<le> 12" "0 \<le> H" "H \<le> 23" "0 \<le> MI" "MI \<le> 59" "0 \<le> S" "S \<le> 59" "1 \<le> D"
    and top: "D \<le> (if M = 2 \<and> is_leap_year Y then 29 else kDaysByMonth ! nat (M - 1))"
    using rfc3339_parts[OF assms] unfolding fields by simp_all
  have D: "D \<le> days_in_month Y M" using top maximum_day[OF ranges(2,3)] by simp
  have Y: "Y = decimal_loop_at 0 [a, b, c, d]" and M: "M = decimal_loop_at 0 [f, g]" and DD: "D = decimal_loop_at 0 [i, j]"
    and H: "H = decimal_loop_at 0 [l, m]" and MI: "MI = decimal_loop_at 0 [p, q]" and S: "S = decimal_loop_at 0 [t, u]"
    unfolding fields decimal_component_def v by (simp_all del: decimal_loop_at.simps)
  have yd: "isdigit a" "isdigit b" "isdigit c" "isdigit d" using decimal_four_nonneg[of a b c d] ranges Y by simp_all
  have dg: "isdigit f" "isdigit g" "isdigit i" "isdigit j" "isdigit l" "isdigit m" "isdigit p" "isdigit q" "isdigit t" "isdigit u"
    using decimal_two_nonneg[of f g] decimal_two_nonneg[of i j] decimal_two_nonneg[of l m] decimal_two_nonneg[of p q]
      decimal_two_nonneg[of t u] ranges M DD H MI S by simp_all
  let ?y = "1000 * digit_value a + 100 * digit_value b + 10 * digit_value c + digit_value d"
  let ?two = "\<lambda>a b. 10 * digit_value a + digit_value b"
  have ints: "Y = int ?y" "M = int (?two f g)" "D = int (?two i j)" "H = int (?two l m)" "MI = int (?two p q)" "S = int (?two t u)"
    unfolding Y M DD H MI S decimal_two decimal_four using yd dg by simp_all
  have "v = [a, b, c, d] @ ''-'' @ [f, g] @ ''-'' @ [i, j] @ ''T'' @ [l, m] @ '':'' @ [p, q] @ '':'' @ [t, u] @ ''Z''"
    using marks v by simp
  then have "v = printed_time ?y (?two f g) (?two i j) (?two l m) (?two p q) (?two t u)"
    unfolding printed_time_def
    by (simp only: two_digits_value[OF dg(1,2), symmetric] two_digits_value[OF dg(3,4), symmetric] two_digits_value[OF dg(5,6), symmetric]
        two_digits_value[OF dg(7,8), symmetric] two_digits_value[OF dg(9,10), symmetric] four_digits_value[OF yd, symmetric])
  moreover have "valid_date Y M D" using ranges D by (simp add: valid_date_def)
  then have "valid_date (int ?y) (int (?two f g)) (int (?two i j))" unfolding ints .
  moreover have "1 \<le> ?y" "?two l m < 24" "?two p q < 60" "?two t u < 60" using ranges unfolding ints by linarith+
  moreover have "?y \<le> 9999" using yd[THEN digit_value_less] by simp
  ultimately show ?thesis by blast
qed

lemma rfc3339_iff:
  "is_rfc3339_utc v \<longleftrightarrow> (\<exists>y m d h mi s. v = printed_time y m d h mi s \<and> 1 \<le> y \<and> y \<le> 9999 \<and>
     valid_date (int y) (int m) (int d) \<and> h < 24 \<and> mi < 60 \<and> s < 60)"
  using accepted_printed_time printed_time_accepted by blast

text \<open>What the agent prints: the year as it is, everything else padded.\<close>

lemma format_utc_timestamp_parts:
  "\<exists>y m d h mi s. format_utc_timestamp t = int_to_string y @ ''-'' @ two_digits m @ ''-'' @ two_digits d @ ''T'' @
      two_digits h @ '':'' @ two_digits mi @ '':'' @ two_digits s @ ''Z'' \<and>
     y = tm_year (gmtime (to_seconds t)) + 1900 \<and> valid_date y (int m) (int d) \<and> h < 24 \<and> mi < 60 \<and> s < 60"
proof -
  let ?u = "gmtime (to_seconds t)"
  obtain y m d where c: "civil_from_days (to_seconds t div 86400) = (y, m, d)" by (metis prod_cases3)
  then have v: "valid_date y m d" by (rule civil_from_days_correct)
  have u: "tm_year ?u + 1900 = y" "tm_mon ?u + 1 = m" "tm_mday ?u = d" using c by (simp_all add: gmtime_def Let_def)
  have md: "int (nat m) = m" "int (nat d) = d" using v by (simp_all add: valid_date_def)
  note r = gmtime_ranges[of "to_seconds t"]
  have hms: "nat (tm_hour ?u) < 24" "nat (tm_min ?u) < 60" "nat (tm_sec ?u) < 60" using r(1-6) by linarith+
  show ?thesis
    by (rule exI[of _ y], rule exI[of _ "nat m"], rule exI[of _ "nat d"], rule exI[of _ "nat (tm_hour ?u)"],
        rule exI[of _ "nat (tm_min ?u)"], rule exI[of _ "nat (tm_sec ?u)"])
      (use hms v u md in \<open>simp add: format_utc_timestamp_def Let_def\<close>)
qed

lemma nat_to_string_length_ge: "10 ^ k \<le> n \<Longrightarrow> k < length (nat_to_string n)"
proof (induction k arbitrary: n)
  case 0
  then show ?case by simp
next
  case (Suc k)
  from Suc.prems have "10 ^ k \<le> n div 10" by (simp add: less_eq_div_iff_mult_less_eq mult.commute)
  then have "k < length (nat_to_string (n div 10))" by (rule Suc.IH)
  moreover have "\<not> n < 10" using Suc.prems one_le_power[of "10::nat" k] unfolding power_Suc by linarith
  ultimately show ?case by (subst nat_to_string.simps) simp
qed

lemma nat_to_string_length_le: "n < 10 ^ Suc k \<Longrightarrow> length (nat_to_string n) \<le> Suc k"
proof (induction k arbitrary: n)
  case 0
  then show ?case by (subst nat_to_string.simps) simp
next
  case (Suc k)
  show ?case
  proof (cases "n < 10")
    case True
    then show ?thesis by (subst nat_to_string.simps) simp
  next
    case False
    have "n div 10 < 10 ^ Suc k" using Suc.prems by (simp add: div_less_iff_less_mult mult.commute)
    then have "length (nat_to_string (n div 10)) \<le> Suc k" by (rule Suc.IH)
    with False show ?thesis by (subst nat_to_string.simps) simp
  qed
qed

lemma format_accepted_iff:
  "is_rfc3339_utc (format_utc_timestamp t) \<longleftrightarrow> 1000 \<le> tm_year (gmtime (to_seconds t)) + 1900 \<and> tm_year (gmtime (to_seconds t)) + 1900 \<le> 9999"
proof -
  obtain y m d h mi s where f: "format_utc_timestamp t = int_to_string y @ ''-'' @ two_digits m @ ''-'' @ two_digits d @ ''T'' @
      two_digits h @ '':'' @ two_digits mi @ '':'' @ two_digits s @ ''Z''"
    and y: "y = tm_year (gmtime (to_seconds t)) + 1900" and v: "valid_date y (int m) (int d)" "h < 24" "mi < 60" "s < 60"
    using format_utc_timestamp_parts by blast
  have "is_rfc3339_utc (format_utc_timestamp t)" if "1000 \<le> y" "y \<le> 9999"
  proof -
    have "int_to_string y = four_digits (nat y)" using that by (simp add: int_to_string_def four_digits_nat_to_string)
    then have "format_utc_timestamp t = printed_time (nat y) m d h mi s" using f by (simp add: printed_time_def)
    then show ?thesis using that v by (simp add: printed_time_accepted)
  qed
  moreover have "1000 \<le> y \<and> y \<le> 9999" if ok: "is_rfc3339_utc (format_utc_timestamp t)"
  proof -
    have "length (format_utc_timestamp t) = 20" using ok by (simp add: is_rfc3339_utc_def split: if_splits)
    then have four: "length (int_to_string y) = 4" using f by (simp add: two_digits_def)
    have "isdigit (hd (format_utc_timestamp t))" using ok unfolding rfc3339_iff printed_time_def four_digits_def by auto
    then have pos: "0 \<le> y" using f by (auto simp: int_to_string_def isdigit_def char_code_def split: if_splits)
    then have len: "length (nat_to_string (nat y)) = 4" using four by (simp add: int_to_string_def)
    have "\<not> nat y < 10 ^ Suc 2" using nat_to_string_length_le[of "nat y" 2] len by (auto simp del: power_Suc)
    moreover have "\<not> 10 ^ 4 \<le> nat y" using nat_to_string_length_ge[of 4 "nat y"] len by auto
    ultimately show ?thesis using pos by (simp, linarith)
  qed
  ultimately show ?thesis using y by blast
qed

section \<open>Canonical texts\<close>

lemma digits_colon_inject:
  "list_all isdigit ds \<Longrightarrow> list_all isdigit es \<Longrightarrow> ds @ CHR '':'' # r = es @ CHR '':'' # s \<Longrightarrow> ds = es \<and> r = s"
proof (induction ds arbitrary: es)
  case Nil
  then show ?case by (cases es) (auto simp: isdigit_def char_code_def)
next
  case (Cons d ds)
  then show ?case by (cases es) (auto simp: isdigit_def char_code_def)
qed

lemma append_value_inject: "append_value v @ r = append_value w @ s \<longleftrightarrow> v = w \<and> r = s"
proof
  assume "append_value v @ r = append_value w @ s"
  then have "nat_to_string (length v) @ CHR '':'' # (v @ r) = nat_to_string (length w) @ CHR '':'' # (w @ s)"
    by (simp add: append_value_def)
  from digits_colon_inject[OF nat_to_string_digits nat_to_string_digits this]
  have "nat_to_string (length v) = nat_to_string (length w)" "v @ r = w @ s" by simp_all
  then show "v = w \<and> r = s" by (simp add: nat_to_string_inject)
qed simp

lemma canonical_Cons: "canonical (v # vs) = append_value v @ canonical vs"
  by (simp add: canonical_def)

lemma canonical_inject: "canonical vs = canonical ws \<longleftrightarrow> vs = ws"
proof (induction vs arbitrary: ws)
  case Nil
  show ?case by (cases ws) (simp_all add: canonical_def append_value_def)
next
  case (Cons v vs)
  show ?case
  proof (cases ws)
    case Nil
    then show ?thesis by (simp add: canonical_def append_value_def)
  next
    case (Cons w ws')
    then show ?thesis using Cons.IH by (simp add: canonical_Cons append_value_inject)
  qed
qed

text \<open>The values of items that tell where they end.\<close>

lemma concat_delimited:
  assumes "\<And>x y r s. vals x @ r = vals y @ s \<longleftrightarrow> norm x = norm y \<and> r = s" and "length xs = length ys"
  shows "concat (map vals xs) @ r = concat (map vals ys) @ s \<longleftrightarrow> map norm xs = map norm ys \<and> r = s"
  using assms(2)
proof (induction xs ys arbitrary: r s rule: list_induct2)
  case Nil
  show ?case by simp
next
  case (Cons x xs y ys)
  show ?case using Cons.IH by (simp add: assms(1))
qed

lemma counted_delimited:
  assumes "\<And>x y r s. vals x @ r = vals y @ s \<longleftrightarrow> norm x = norm y \<and> r = s"
  shows "int_to_string (int (length xs)) # concat (map vals xs) @ r = int_to_string (int (length ys)) # concat (map vals ys) @ s \<longleftrightarrow>
     map norm xs = map norm ys \<and> r = s"
proof (cases "length xs = length ys")
  case True
  from concat_delimited[of vals norm, OF assms True] show ?thesis using True by simp
next
  case False
  then have "int_to_string (int (length xs)) \<noteq> int_to_string (int (length ys))"
    by (auto simp: int_to_string_def dest: nat_to_string_inject)
  moreover have "map norm xs \<noteq> map norm ys" using False by (metis length_map)
  ultimately show ?thesis by simp
qed

text \<open>What a request says, apart from its key and from how an absent status is spelled.\<close>

definition file_content :: "manifest_file \<Rightarrow> manifest_file" where
  "file_content f = f\<lparr>mf_ingest_status := (if mf_ingest_status f = [] then ''collected'' else mf_ingest_status f)\<rparr>"

definition manifest_content :: "run_manifest \<Rightarrow> run_manifest" where
  "manifest_content q = q\<lparr>rm_idempotency_key := [], rm_files := map file_content (rm_files q)\<rparr>"

definition parsed_content :: "run_parsed_record \<Rightarrow> run_parsed_record" where
  "parsed_content p = p\<lparr>rz_parse_status := (if rz_parse_status p = [] then ''parsed'' else rz_parse_status p)\<rparr>"

definition report_content :: "run_report \<Rightarrow> run_report" where
  "report_content q = q\<lparr>ro_idempotency_key := [], ro_parsed_records := map parsed_content (ro_parsed_records q),
     ro_failed_files := (if ro_has_failed_files q then ro_failed_files q else [])\<rparr>"

lemma int_to_string_inject: "int_to_string i = int_to_string j \<longleftrightarrow> i = j"
proof -
  have minus: "CHR ''-'' # xs \<noteq> nat_to_string n" for xs n
    using nat_to_string_digits[of n] by (cases "nat_to_string n") (auto simp: isdigit_def char_code_def)
  show ?thesis using minus minus[symmetric]
    by (auto simp: int_to_string_def split: if_splits dest!: nat_to_string_inject)
qed

lemma file_values_delimited: "manifest_file_values f @ r = manifest_file_values g @ s \<longleftrightarrow> file_content f = file_content g \<and> r = s"
  by (cases f; cases g) (auto simp: manifest_file_values_def file_content_def int_to_string_inject)

lemma failed_values_delimited: "failed_values f @ r = failed_values g @ s \<longleftrightarrow> id f = id g \<and> r = s"
  by (cases f; cases g) (auto simp: failed_values_def)

lemma qc_values_delimited: "qc_values f @ r = qc_values g @ s \<longleftrightarrow> id f = id g \<and> r = s"
  by (cases f; cases g) (auto simp: qc_values_def)

lemma status_text_inject: "task_run_status_text a = task_run_status_text b \<longleftrightarrow> a = b"
  by (cases a; cases b) simp_all

lemma parsed_values_delimited: "parsed_values p @ r = parsed_values q @ s \<longleftrightarrow> parsed_content p = parsed_content q \<and> r = s"
proof -
  have "parsed_values p @ r = parsed_values q @ s \<longleftrightarrow>
    rz_raw_file_id p = rz_raw_file_id q \<and> pr_station_code (rz_record p) = pr_station_code (rz_record q) \<and>
    pr_device_code (rz_record p) = pr_device_code (rz_record q) \<and> pr_record_time (rz_record p) = pr_record_time (rz_record q) \<and>
    pr_payload_json (rz_record p) = pr_payload_json (rz_record q) \<and>
    rz_parse_status (parsed_content p) = rz_parse_status (parsed_content q) \<and>
    map id (rz_qc_results p) = map id (rz_qc_results q) \<and> r = s"
    using counted_delimited[of qc_values id "rz_qc_results p" r "rz_qc_results q" s, OF qc_values_delimited]
    by (simp add: parsed_values_def parsed_content_def)
  also have "\<dots> \<longleftrightarrow> parsed_content p = parsed_content q \<and> r = s"
    by (cases p; cases q; cases "rz_record p"; cases "rz_record q") (auto simp: parsed_content_def)
  finally show ?thesis .
qed

lemma manifest_values_content: "manifest_values q = manifest_values q' \<longleftrightarrow> manifest_content q = manifest_content q'"
proof -
  have "manifest_values q = manifest_values q' \<longleftrightarrow> rm_task_run_id q = rm_task_run_id q' \<and> rm_node_code q = rm_node_code q' \<and>
      map file_content (rm_files q) = map file_content (rm_files q')"
    using counted_delimited[of manifest_file_values file_content "rm_files q" "[]" "rm_files q'" "[]", OF file_values_delimited]
    by (simp add: manifest_values_def)
  then show ?thesis by (cases q; cases q') (simp add: manifest_content_def)
qed

lemma report_values_content: "report_values q = report_values q' \<longleftrightarrow> report_content q = report_content q'"
proof -
  let ?tail = "\<lambda>q. (if ro_has_failed_files q
      then [''failed_files_v1'', int_to_string (int (length (ro_failed_files q)))] @ concat (map failed_values (ro_failed_files q))
      else [])"
  have tail: "?tail q = ?tail q' \<longleftrightarrow> ro_has_failed_files q = ro_has_failed_files q' \<and>
      (if ro_has_failed_files q then ro_failed_files q else []) = (if ro_has_failed_files q' then ro_failed_files q' else [])"
    using counted_delimited[of failed_values id "ro_failed_files q" "[]" "ro_failed_files q'" "[]", OF failed_values_delimited]
    by simp
  have "report_values q = report_values q' \<longleftrightarrow> ro_task_run_id q = ro_task_run_id q' \<and> ro_node_code q = ro_node_code q' \<and>
      ro_status q = ro_status q' \<and> ro_finished_at q = ro_finished_at q' \<and> ro_items_total q = ro_items_total q' \<and>
      ro_items_success q = ro_items_success q' \<and> ro_items_failed q = ro_items_failed q' \<and> ro_error_summary q = ro_error_summary q' \<and>
      map parsed_content (ro_parsed_records q) = map parsed_content (ro_parsed_records q') \<and> ?tail q = ?tail q'"
    using counted_delimited[of parsed_values parsed_content "ro_parsed_records q" "?tail q" "ro_parsed_records q'" "?tail q'", OF parsed_values_delimited]
    by (simp add: report_values_def int_to_string_inject status_text_inject)
  then show ?thesis unfolding tail by (cases q; cases q') (auto simp: report_content_def)
qed

section \<open>Identifier lists\<close>

function pieces :: "string \<Rightarrow> string list" where
  "pieces t = (if t = [] then [] else takeWhile (\<lambda>c. c \<noteq> CHR '','') t #
     (case dropWhile (\<lambda>c. c \<noteq> CHR '','') t of [] \<Rightarrow> [] | _ # r \<Rightarrow> pieces r))"
  by pat_completeness auto
termination
proof (relation "measure length")
  fix t x r assume "dropWhile (\<lambda>c. c \<noteq> CHR '','') t = x # r"
  then have "Suc (length r) \<le> length t" using length_dropWhile_le[of "\<lambda>c. c \<noteq> CHR '',''" t] by simp
  then show "(r, t) \<in> measure length" by simp
qed simp

declare pieces.simps [simp del]

lemma find_comma_at:
  "b \<le> length s \<Longrightarrow> find_comma s b =
     (let k = length (takeWhile (\<lambda>c. c \<noteq> CHR '','') (drop b s)) in if b + k < length s then Some (b + k) else None)"
proof (induction "length s - b" arbitrary: b)
  case 0
  then show ?case by (simp add: find_comma_def)
next
  case (Suc n)
  then have b: "b < length s" by simp
  have step: "find_comma s b = (if s ! b = CHR '','' then Some b else find_comma s (Suc b))"
    using b by (simp add: find_comma_def upt_conv_Cons)
  have d: "drop b s = s ! b # drop (Suc b) s" using b by (simp add: Cons_nth_drop_Suc)
  show ?case using Suc(1)[of "Suc b"] Suc(2) b unfolding step d by (auto simp: Let_def)
qed

lemma split_loop_pieces: "b \<le> length s \<Longrightarrow> split_loop s b ids = Some (ids @ pieces (drop b s))"
proof (induction "length s - b" arbitrary: b ids rule: less_induct)
  case less
  let ?p = "\<lambda>c. c \<noteq> CHR '',''"
  let ?k = "length (takeWhile ?p (drop b s))"
  show ?case
  proof (cases "b < length s")
    case False
    then show ?thesis by (subst split_loop.simps) (simp add: pieces.simps)
  next
    case b: True
    have cut: "takeWhile ?p (drop b s) = take ?k (drop b s)" "dropWhile ?p (drop b s) = drop (b + ?k) s"
      using takeWhile_eq_take[of ?p "drop b s"] dropWhile_eq_drop[of ?p "drop b s"] by (simp_all add: add.commute)
    show ?thesis
    proof (cases "b + ?k < length s")
      case True
      then have "dropWhile ?p (drop b s) = s ! (b + ?k) # drop (Suc (b + ?k)) s" using cut by (simp add: Cons_nth_drop_Suc)
      then have p: "pieces (drop b s) = take ?k (drop b s) # pieces (drop (Suc (b + ?k)) s)"
        using b cut by (subst pieces.simps) simp
      have "split_loop s (b + ?k + 1) (ids @ [take ?k (drop b s)]) =
          Some ((ids @ [take ?k (drop b s)]) @ pieces (drop (b + ?k + 1) s))"
        by (rule less) (use True in simp_all)
      then show ?thesis using b True p find_comma_at[of b s] by (subst split_loop.simps) (simp add: Let_def)
    next
      case False
      then have none: "dropWhile ?p (drop b s) = []" and "take ?k (drop b s) = drop b s" using cut(2) by simp_all
      then have whole: "takeWhile ?p (drop b s) = drop b s" using cut(1) by (simp only:)
      have "drop b s \<noteq> []" using b by simp
      then have "pieces (drop b s) = [drop b s]" by (subst pieces.simps) (simp only: none whole list.case if_False)
      then show ?thesis using b False find_comma_at[of b s] by (subst split_loop.simps) (simp add: Let_def)
    qed
  qed
qed

lemma split_ids_pieces: "split_ids s = Some (pieces s)"
  using split_loop_pieces[of 0 s "[]"] by (simp add: split_ids_def)

lemma aggregated_nil: "aggregated_ids [] = []"
  by (simp add: aggregated_ids_def)

lemma aggregated_Cons: "aggregated_ids (i # is) = i @ (if is = [] then [] else CHR '','' # aggregated_ids is)"
  by (cases "is") (simp_all add: aggregated_ids_def)

lemma pieces_text:
  "(s = aggregated_ids (pieces s) \<or> s = aggregated_ids (pieces s) @ '','') \<and> list_all (\<lambda>x. CHR '','' \<notin> set x) (pieces s)"
proof (induction s rule: pieces.induct)
  case (1 s)
  let ?p = "\<lambda>c. c \<noteq> CHR '',''"
  have free: "CHR '','' \<notin> set (takeWhile ?p s)" using set_takeWhileD[of "CHR '',''" ?p s] by auto
  show ?case
  proof (cases "s = []")
    case True
    then show ?thesis by (simp add: pieces.simps aggregated_ids_def)
  next
    case ne: False
    show ?thesis
    proof (cases "dropWhile ?p s")
      case Nil
      then have whole: "takeWhile ?p s = s" using takeWhile_dropWhile_id[of ?p s] by simp
      then have "pieces s = [s]" using ne Nil by (subst pieces.simps) (simp only: list.case if_False)
      then show ?thesis using free unfolding whole by (simp add: aggregated_ids_def)
    next
      case (Cons c r)
      then have "c = CHR '',''" using hd_dropWhile[of ?p s] by simp
      then have s: "s = takeWhile ?p s @ CHR '','' # r" using Cons takeWhile_dropWhile_id[of ?p s] by simp
      have p: "pieces s = takeWhile ?p s # pieces r" using ne Cons by (subst pieces.simps) simp
      have ih: "(r = aggregated_ids (pieces r) \<or> r = aggregated_ids (pieces r) @ '','') \<and> list_all (\<lambda>x. CHR '','' \<notin> set x) (pieces r)"
        using 1 ne Cons by simp
      show ?thesis
      proof (cases "pieces r = []")
        case True
        then have "r = []" by (cases r) (simp_all add: pieces.simps)
        then show ?thesis using s p free by (simp add: aggregated_ids_def pieces.simps)
      next
        case False
        then show ?thesis using s p free ih by (auto simp: aggregated_Cons)
      qed
    qed
  qed
qed

definition clean_ids :: "string list \<Rightarrow> bool" where
  "clean_ids ids \<longleftrightarrow> list_all (\<lambda>i. i \<noteq> [] \<and> CHR '','' \<notin> set i) ids"

lemma takeWhile_free: "CHR '','' \<notin> set i \<Longrightarrow> takeWhile (\<lambda>c. c \<noteq> CHR '','') (i @ CHR '','' # r) = i"
  "CHR '','' \<notin> set i \<Longrightarrow> dropWhile (\<lambda>c. c \<noteq> CHR '','') (i @ CHR '','' # r) = CHR '','' # r"
  by (induction i) auto

lemma takeWhile_all_free: "CHR '','' \<notin> set i \<Longrightarrow> takeWhile (\<lambda>c. c \<noteq> CHR '','') i = i"
  "CHR '','' \<notin> set i \<Longrightarrow> dropWhile (\<lambda>c. c \<noteq> CHR '','') i = []"
  by (induction i) auto

lemma pieces_aggregated: "clean_ids ids \<Longrightarrow> pieces (aggregated_ids ids) = ids"
proof (induction ids)
  case Nil
  then show ?case by (simp add: aggregated_ids_def pieces.simps)
next
  case (Cons i ids)
  then have i: "i \<noteq> []" "CHR '','' \<notin> set i" and c: "clean_ids ids" by (simp_all add: clean_ids_def)
  show ?case
  proof (cases "ids = []")
    case True
    then show ?thesis using i by (simp add: aggregated_Cons pieces.simps takeWhile_all_free)
  next
    case False
    then show ?thesis using i Cons.IH[OF c] by (simp add: aggregated_Cons pieces.simps[of "i @ _"] takeWhile_free)
  qed
qed

abbreviation cut_ids :: "string \<Rightarrow> string list" where
  "cut_ids s \<equiv> foldr (\<lambda>c acc. if c = CHR '','' then [] # acc else (c # hd acc) # tl acc) s [[]]"

lemma cut_ids_ne: "cut_ids s \<noteq> []"
  by (induction s) auto

lemma cut_ids_append: "CHR '','' \<notin> set i \<Longrightarrow> cut_ids (i @ s) = (i @ hd (cut_ids s)) # tl (cut_ids s)"
  using cut_ids_ne[of s] by (induction i) auto

lemma stored_aggregated: "clean_ids ids \<Longrightarrow> stored_ids (aggregated_ids ids) = ids"
proof -
  have "cut_ids (aggregated_ids ids) = ids" if "clean_ids ids" "ids \<noteq> []" for ids
    using that
  proof (induction ids)
    case (Cons i ids)
    then have i: "CHR '','' \<notin> set i" and c: "clean_ids ids" by (simp_all add: clean_ids_def)
    show ?case
    proof (cases "ids = []")
      case True
      then show ?thesis using cut_ids_append[OF i, of "[]"] by (simp add: aggregated_Cons)
    next
      case False
      then show ?thesis using Cons.IH[OF c] cut_ids_append[OF i, of "CHR '','' # aggregated_ids ids"] by (simp add: aggregated_Cons)
    qed
  qed simp
  moreover have "aggregated_ids ids = [] \<Longrightarrow> clean_ids ids \<Longrightarrow> ids = []" by (cases ids) (auto simp: aggregated_ids_def clean_ids_def)
  moreover assume "clean_ids ids"
  ultimately show ?thesis by (cases "ids = []") (auto simp: stored_ids_def aggregated_ids_def)
qed

lemma digits_clean: "i \<noteq> [] \<and> list_all isdigit i \<Longrightarrow> i \<noteq> [] \<and> CHR '','' \<notin> set i"
  by (auto simp: list_all_iff isdigit_def char_code_def)

lemma join_loop_text:
  "join_loop j ids = Inr s \<Longrightarrow> clean_ids ids \<and> s = (if j = [] \<or> ids = [] then j @ aggregated_ids ids else j @ CHR '','' # aggregated_ids ids)"
proof (induction ids arbitrary: j)
  case Nil
  then show ?case by (simp add: clean_ids_def aggregated_nil)
next
  case (Cons i ids)
  then have v: "i \<noteq> [] \<and> list_all isdigit i" and l: "join_loop ((if j = [] then j else j @ '','') @ i) ids = Inr s"
    by (auto simp: sbind_Inr_iff valid_response_id_def split: if_splits)
  from digits_clean[OF v] Cons.IH[OF l] show ?case by (cases "ids = []") (auto simp: clean_ids_def aggregated_Cons aggregated_nil)
qed

lemma join_ids_text: "join_ids ids = Inr s \<Longrightarrow> clean_ids ids \<and> s = aggregated_ids ids"
  using join_loop_text[of "[]" ids s] by (simp add: join_ids_def)

lemma join_ids_Inr: "join_ids ids = Inr s \<Longrightarrow> stored_ids s = ids \<and> read_ids (stored_ids s) = ids"
  using join_ids_text[of ids s] by (auto simp: stored_aggregated read_ids_def split_ids_pieces pieces_aggregated)

section \<open>What the texts guarantee\<close>

text \<open>
  Two manifests have the same canonical text exactly when they say the same: same run, node and files,
  the idempotency key left aside and an absent ingest status read as collected. The same holds of two reports,
  with every record, QC result and failed file, and a manifest never has the text of a report. So requests that
  differ are told apart by their fingerprints, up to SHA-256.
\<close>

lemma fingerprints_identify_requests:
  "(canonical (manifest_values q) = canonical (manifest_values q') \<longleftrightarrow> manifest_content q = manifest_content q') \<and>
   (canonical (report_values p) = canonical (report_values p') \<longleftrightarrow> report_content p = report_content p') \<and>
   canonical (manifest_values q) \<noteq> canonical (report_values p)"
  unfolding canonical_inject manifest_values_content report_values_content
  by (simp add: manifest_values_def report_values_def)

text \<open>
  The loop that splits a stored list of identifiers returns for every text: pieces without a comma that
  give the text back when joined, up to one comma at the end. A list that was joined for the receipt is read
  back as it was.
\<close>

lemma receipt_ids_read_back:
  "(\<exists>ids. split_ids s = Some ids \<and> (s = aggregated_ids ids \<or> s = aggregated_ids ids @ '','') \<and> list_all (\<lambda>i. CHR '','' \<notin> set i) ids) \<and>
   (case join_ids xs of Inl _ \<Rightarrow> True | Inr t \<Rightarrow> split_ids t = Some xs)"
  using pieces_text[of s] join_ids_text[of xs] by (auto simp: split_ids_pieces pieces_aggregated split: sum.split)

end
