(* ===== verification/Query_Times.thy ===== *)
theory Query_Times
  imports Query_Service Server_Texts
begin

text \<open>
  The timestamp the query service reads back is the one the agent and the database print: for every value
  of the 64-bit clock, up to the fraction of a second.
\<close>

section \<open>Components\<close>

lemma decimal_loop_value: "list_all isdigit s \<Longrightarrow> decimal_loop_at (int a) s = int (digits_value a s)"
proof (induction s arbitrary: a)
  case Nil
  then show ?case by (simp add: digits_value_def)
next
  case (Cons c s)
  have "decimal_loop_at (int a) (c # s) = decimal_loop_at (int (10 * a + digit_value c)) s" using Cons.prems by (simp add: mult.commute)
  also have "\<dots> = int (digits_value (10 * a + digit_value c) s)" by (rule Cons.IH) (use Cons.prems in simp)
  finally show ?case by (simp add: digits_value_def)
qed

lemma two_digits_isdigit: "n < 100 \<Longrightarrow> list_all isdigit (two_digits n)"
  by (simp add: two_digits_def)

lemma four_digits_isdigit: "list_all isdigit (four_digits n)"
  by (simp add: four_digits_def)

lemma from_chars_digits:
  assumes "list_all isdigit s" "s \<noteq> []" "digits_value 0 s < 10000"
  shows "from_chars_int s = Some (int (digits_value 0 s))"
proof -
  have "hd s \<noteq> CHR ''-''" using assms(1,2) by (cases s) (auto simp: isdigit_def char_code_def)
  then show ?thesis using assms by (simp add: from_chars_int_def Let_def)
qed

lemma from_chars_two: 
  assumes "n < 100" shows "from_chars_int (two_digits n) = Some (int n)"
proof -
  have "int (digits_value 0 (two_digits n)) = int n"
    using decimal_loop_value[OF two_digits_isdigit[OF assms], of 0] decimal_two_digits[OF assms] by simp
  then have v: "digits_value 0 (two_digits n) = n" by (simp only: of_nat_eq_iff)
  have ne: "two_digits n \<noteq> []" by (simp add: two_digits_def)
  show ?thesis using from_chars_digits[OF two_digits_isdigit[OF assms] ne] assms unfolding v by simp
qed

lemma from_chars_four: 
  assumes "n < 10000" shows "from_chars_int (four_digits n) = Some (int n)"
proof -
  have "int (digits_value 0 (four_digits n)) = int n"
    using decimal_loop_value[OF four_digits_isdigit, of 0 n] decimal_four_digits[OF assms] by simp
  then have v: "digits_value 0 (four_digits n) = n" by (simp only: of_nat_eq_iff)
  have ne: "four_digits n \<noteq> []" by (simp add: four_digits_def)
  show ?thesis using from_chars_digits[OF four_digits_isdigit ne] assms unfolding v by simp
qed

section \<open>Dates\<close>

lemma query_days_correct:
  assumes "1 \<le> y" "valid_date y m d"
  shows "query_days_from_civil y m d = days_from_civil y m d"
proof -
  define y' where "y' = (if m \<le> 2 then y - 1 else y)"
  have y': "0 \<le> y'" using assms(1) by (simp add: y'_def)
  have q: "quot y' 400 = y' div 400" using y' by (simp add: quot_nonneg)
  define e where "e = y' div 400"
  define r where "r = y' mod 400"
  have yr: "y' = 400 * e + r" "0 \<le> r" "r < 400" by (simp_all add: e_def r_def)
  have divs: "y' div 4 = 100 * e + r div 4" "y' div 100 = 4 * e + r div 100"
    using yr(1) by simp_all
  have "query_days_from_civil y m d = e * 146097 + ((y' - e * 400) * 365 + (y' - e * 400) div 4 - (y' - e * 400) div 100 +
      ((153 * (m + (if m > 2 then -3 else 9)) + 2) div 5 + d - 1)) - 719468"
    unfolding query_days_from_civil_def Let_def y'_def[symmetric] using y' q by (simp add: e_def)
  moreover have "y' - e * 400 = r" using yr by simp
  moreover have "m + (if m > 2 then -3 else 9) = (if m > 2 then m - 3 else m + 9)" by simp
  ultimately show ?thesis
    unfolding days_from_civil_def Let_def y'_def[symmetric] divs e_def[symmetric] using yr(1) by simp
qed

lemma wrap64_id: "- (2 ^ 63) \<le> i \<Longrightarrow> i < 2 ^ 63 \<Longrightarrow> wrap64 i = i"
  by (simp add: wrap64_def)

text \<open>The whole seconds of a clock value, as a clock value.\<close>

definition whole_seconds :: "time_point \<Rightarrow> time_point" where
  "whole_seconds t = seconds_point (to_seconds t)"

lemma clock_years:
  assumes "- (2 ^ 63) \<le> t" "t < 2 ^ 63" "civil_from_days (to_seconds t div 86400) = (y, m, d)"
  shows "1000 \<le> y \<and> y \<le> 9999"
proof -
  let ?n = "to_seconds t div 86400"
  have s: "- 9223372037 \<le> to_seconds t" "to_seconds t \<le> 9223372037"
    using assms(1,2) unfolding to_seconds_def quot_def ns_per_second_def by (auto simp: sgn_if)
  then have n: "- 106752 \<le> ?n" "?n \<le> 106752" by simp_all
  have v: "valid_date y m d" and e: "days_from_civil y m d = ?n" using civil_from_days_correct[OF assms(3)] by simp_all
  define y' where "y' = (if m \<le> 2 then y - 1 else y)"
  define mp where "mp = (if m > 2 then m - 3 else m + 9)"
  have mp: "0 \<le> mp" "mp \<le> 11" "1 \<le> d" "d \<le> 31" using v by (auto simp: mp_def valid_date_def days_in_month_def split: if_splits)
  have k: "0 \<le> (153 * mp + 2) div 5" "(153 * mp + 2) div 5 \<le> 337" using mp by simp_all
  have "365 * y' + y' div 4 - y' div 100 + y' div 400 + (153 * mp + 2) div 5 + d - 1 - 719468 = ?n"
    using e unfolding days_from_civil_def Let_def y'_def[symmetric] mp_def[symmetric] .
  then have "1000 \<le> y'" "y' \<le> 9998" using n k mp by linarith+
  then show ?thesis by (auto simp: y'_def split: if_splits)
qed

lemma parse_formatted:
  assumes "- (2 ^ 63) \<le> t" "t < 2 ^ 63"
  shows "parse_utc_timestamp (format_utc_timestamp t) = Some (whole_seconds t)"
proof -
  let ?s = "to_seconds t"
  obtain y m d where c: "civil_from_days (?s div 86400) = (y, m, d)" by (metis prod_cases3)
  have v: "valid_date y m d" and n: "days_from_civil y m d = ?s div 86400" using civil_from_days_correct[OF c] by simp_all
  have yr: "1000 \<le> y" "y \<le> 9999" using clock_years[OF assms c] by simp_all
  define h mi sec where parts: "h = nat (?s mod 86400 div 3600)" "mi = nat (?s mod 86400 div 60 mod 60)" "sec = nat (?s mod 86400 mod 60)"
  have small: "h < 24" "mi < 60" "sec < 60"
    using pos_mod_bound[of "86400::int" ?s] pos_mod_sign[of "86400::int" ?s] by (simp_all add: parts nat_less_iff)
  have md: "1 \<le> m" "m \<le> 12" "1 \<le> d" "d \<le> 31" using v by (auto simp: valid_date_def days_in_month_def split: if_splits)
  have "int_to_string y = four_digits (nat y)" using yr by (simp add: int_to_string_def four_digits_nat_to_string)
  then have printed: "format_utc_timestamp t = printed_time (nat y) (nat m) (nat d) h mi sec"
    using c md by (simp add: format_utc_timestamp_def printed_time_def gmtime_def Let_def parts)
  let ?v = "printed_time (nat y) (nat m) (nat d) h mi sec"
  have shape: "length ?v = 20" "?v ! 4 = CHR ''-''" "?v ! 7 = CHR ''-''" "?v ! 10 = CHR ''T''" "?v ! 13 = CHR '':''"
    "?v ! 16 = CHR '':''" "?v ! 19 = CHR ''Z''"
    by (simp_all add: printed_time_def four_digits_def two_digits_def)
  have pieces: "take 4 (drop 0 ?v) = four_digits (nat y)" "take 2 (drop 5 ?v) = two_digits (nat m)" "take 2 (drop 8 ?v) = two_digits (nat d)"
    "take 2 (drop 11 ?v) = two_digits h" "take 2 (drop 14 ?v) = two_digits mi" "take 2 (drop 17 ?v) = two_digits sec"
    by (simp_all add: printed_time_def four_digits_def two_digits_def)
  have nums: "from_chars_int (four_digits (nat y)) = Some y" "from_chars_int (two_digits (nat m)) = Some m"
    "from_chars_int (two_digits (nat d)) = Some d" "from_chars_int (two_digits h) = Some (int h)"
    "from_chars_int (two_digits mi) = Some (int mi)" "from_chars_int (two_digits sec) = Some (int sec)"
    using yr md small by (simp_all add: from_chars_four from_chars_two)
  have "query_days_from_civil y m d * 86400 + int h * 3600 + int mi * 60 + int sec = ?s"
  proof -
    have "query_days_from_civil y m d = ?s div 86400" using query_days_correct[OF _ v] yr n by simp
    moreover have "?s mod 86400 = int h * 3600 + int mi * 60 + int sec"
    proof -
      let ?d = "?s mod 86400"
      have nn: "0 \<le> ?d" by simp
      have "int h = ?d div 3600" "int mi = ?d div 60 mod 60" "int sec = ?d mod 60" by (simp_all add: parts pos_imp_zdiv_nonneg_iff)
      moreover have "?d div 3600 = ?d div 60 div 60" by (simp add: zdiv_zmult2_eq[symmetric])
      ultimately show ?thesis by presburger
    qed
    ultimately show ?thesis using div_mult_mod_eq[of ?s 86400] by linarith
  qed
  moreover have "- (2 ^ 63) \<le> seconds_point ?s" "seconds_point ?s < 2 ^ 63"
  proof -
    have "\<bar>seconds_point ?s\<bar> \<le> \<bar>t\<bar>" "sgn (seconds_point ?s) = sgn t \<or> seconds_point ?s = 0"
      unfolding seconds_point_def to_seconds_def quot_def ns_per_second_def by (auto simp: sgn_if abs_if)
    then show "- (2 ^ 63) \<le> seconds_point ?s" "seconds_point ?s < 2 ^ 63" using assms by (auto simp: sgn_if abs_if split: if_splits)
  qed
  ultimately show ?thesis
    unfolding printed parse_utc_timestamp_def Let_def shape pieces nums whole_seconds_def
    using md small by (simp add: wrap64_id)
qed

end
