(* ===== verification/Server_Readers.thy ===== *)
theory Server_Readers
  imports Management_Service
begin

text \<open>
  What a procedure leaves alone: \<open>stable v m\<close> says that \<open>m\<close> never changes the part \<open>v\<close> of the state. The
  queries of the control plane keep every part, so they are proved once for any \<open>v\<close>.
\<close>

named_theorems stable_intros "procedures that keep a part of the state"

definition stable :: "('s \<Rightarrow> 'v) \<Rightarrow> ('s, 'e, 'a) proc \<Rightarrow> bool" where
  "stable f m \<longleftrightarrow> (\<forall>s. f (snd (m s)) = f s)"

lemma stableD: "stable f m \<Longrightarrow> m s = (r, t) \<Longrightarrow> f t = f s"
  unfolding stable_def by (metis snd_conv)

abbreviation reader :: "('s, 'e, 'a) proc \<Rightarrow> bool" where
  "reader \<equiv> stable (\<lambda>s. s)"

lemma stable_hoare: "stable f m \<Longrightarrow> hoare (\<lambda>s. P (f s)) m (\<lambda>_ s. P (f s)) (\<lambda>_ s. P (f s))"
  by (auto intro!: hoareI dest: stableD)

lemma stable_seqp [stable_intros]: "stable f m \<Longrightarrow> (\<And>a. stable f (n a)) \<Longrightarrow> stable f (seqp m n)"
  unfolding stable_def seqp_def by (auto split: prod.splits sum.splits) (metis snd_conv)+

lemma stable_basic [stable_intros]:
  "stable f (ret a)" "stable f (throw e)" "stable f (gets g)" "stable f (require b e)" "stable f (lift_sum r)"
  by (simp_all add: stable_def proc_simps)

lemma stable_cases [stable_intros]:
  "(b \<Longrightarrow> stable f m) \<Longrightarrow> (\<not> b \<Longrightarrow> stable f n) \<Longrightarrow> stable f (if b then m else n)"
  "stable f m \<Longrightarrow> (\<And>y. stable f (k y)) \<Longrightarrow> stable f (case x of None \<Rightarrow> m | Some y \<Rightarrow> k y)"
  "(\<And>a. stable f (g a)) \<Longrightarrow> (\<And>b. stable f (h b)) \<Longrightarrow> stable f (case z of Inl a \<Rightarrow> g a | Inr b \<Rightarrow> h b)"
  "(\<And>a b. stable f (j a b)) \<Longrightarrow> stable f (case p of (a, b) \<Rightarrow> j a b)"
  by (simp_all split: option.splits sum.splits prod.splits)

lemma stable_modify: "(\<And>s. f (g s) = f s) \<Longrightarrow> stable f (modify g)"
  by (simp add: stable_def modify_def)

section \<open>Casts\<close>

lemma stable_casts [stable_intros]:
  "stable v (to_bigint env s)" "stable v (to_optional_bigint env s)" "stable v (to_time env s)" "stable v (to_optional_time env s)"
  "stable v (to_json_text env s)" "stable v (to_jsonb env doc)" "stable v (dump_document j)" "stable v (to_failed_files_json ffs)"
  "stable v (to_retry_files_json rfs)"
  unfolding to_bigint_def to_optional_bigint_def to_time_def to_optional_time_def to_json_text_def to_jsonb_def
    dump_document_def to_failed_files_json_def to_retry_files_json_def
  by (intro stable_intros)+

section \<open>Repositories\<close>

lemma stable_runs [stable_intros]:
  "stable v (find_by_id env i)" "stable v (find_by_execution_key env key)" "stable v (find_failed_files env i)"
  "stable v (find_retry_files env i)" "stable v (lock_task env i)" "stable v (find_pending_manual_by_task env i)"
  "stable v (find_scheduled env r)" "stable v (find_manual env key)"
  unfolding find_by_id_def find_by_execution_key_def find_failed_files_def find_retry_files_def lock_task_def
    find_pending_manual_by_task_def find_scheduled_def find_manual_def
  by (intro stable_intros)+

lemma stable_lock_by_id [stable_intros]: "stable v (lock_by_id env i)"
  unfolding lock_by_id_def by (rule stable_runs)

lemma stable_results [stable_intros]:
  "stable v (repo_find_raw_file env i)" "stable v (find_parsed_record env i)" "stable v (repo_find_rule env i)"
  "stable v (find_qc_result env i)" "stable v (read_alert env i)" "stable v (find_data_source env i)" "stable v (find_task env i)"
  "stable v (find_task_qc_rule_ids env i)"
  unfolding repo_find_raw_file_def find_parsed_record_def repo_find_rule_def find_qc_result_def read_alert_def
    find_data_source_def find_task_def find_task_qc_rule_ids_def
  by (intro stable_intros)+

lemma stable_lock_alert [stable_intros]: "stable v (lock_alert_by_id env i)"
  unfolding lock_alert_by_id_def by (rule stable_results)

lemma stable_existing_receipt [stable_intros]: "stable v (existing_receipt env c)"
  unfolding existing_receipt_def by (intro stable_intros)

section \<open>Services\<close>

lemma stable_validate_rules [stable_intros]: "stable v (validate_rules env is)"
  by (induction "is") (auto intro!: stable_intros)

lemma stable_validate_task [stable_intros]: "stable v (validate_task_executable env t is)"
  unfolding validate_task_executable_def by (intro stable_intros)

lemma stable_finds [stable_intros]:
  "stable v (find_run env i)" "stable v (service_find_retry_files env i)" "stable v (service_find_raw_file env i)" "stable v (service_find_rule env i)"
  unfolding find_run_def service_find_retry_files_def service_find_raw_file_def service_find_rule_def
  by (intro stable_intros)+

lemma stable_resolve_file [stable_intros]: "stable v (resolve_retry_file env parent f)"
  unfolding resolve_retry_file_def by (intro stable_intros)

lemma stable_resolve_files [stable_intros]: "stable v (resolve_retry_files env parent fs)"
  by (induction fs) (auto intro!: stable_intros)

lemma stable_ownership [stable_intros]: "stable v (validate_task_run_node env i code)"
  unfolding validate_task_run_node_def by (intro stable_intros)

lemma stable_report_rules [stable_intros]: "stable v (check_report_rules env seen is)"
  by (induction "is" arbitrary: seen) (auto intro!: stable_intros)

lemma stable_failed_file [stable_intros]: "stable v (check_failed_file env i rfs seen f)"
  unfolding check_failed_file_def Let_def by (intro stable_intros)

lemma stable_failed_files [stable_intros]: "stable v (check_failed_files env i rfs seen fs)"
  by (induction fs arbitrary: seen) (auto intro!: stable_intros)

lemma stable_validate_failed [stable_intros]: "stable v (validate_failed_files env q)"
  unfolding validate_failed_files_def by (intro stable_intros)

lemma stable_answers [stable_intros]: "stable v (successful_result i x)" "stable v (read_task_with_rules env i)"
  unfolding successful_result_def read_task_with_rules_def by (intro stable_intros)+

end
