(* ===== verification/Run_Ledger.thy ===== *)
theory Run_Ledger
  imports Server_Store
begin

text \<open>
  What the control plane promises about task runs, without its tables: a ledger maps an identifier to
  what the run is and to its phase. A scheduled run starts running, a manual one is requested and waits,
  a finished one stays as it is. The facts proved here hold of every database the server produces, because
  every request it serves is a sequence of these steps (\<open>Server_Calls\<close>).
\<close>

section \<open>Ledgers\<close>

record run_view =
  rv_task :: int
  rv_node :: int
  rv_key :: "string option"
  rv_manual :: bool
  rv_retry_of :: "int option"
  rv_phase :: task_run_status

type_synonym ledger = "int \<Rightarrow> run_view option"

abbreviation finished :: "task_run_status \<Rightarrow> bool" where
  "finished s \<equiv> s = Succeeded \<or> s = Failed"

definition has_key :: "int \<Rightarrow> string \<Rightarrow> run_view \<Rightarrow> bool" where
  "has_key node k v \<longleftrightarrow> rv_node v = node \<and> rv_key v = Some k"

definition key_free :: "ledger \<Rightarrow> run_view \<Rightarrow> bool" where
  "key_free l v \<longleftrightarrow> (\<forall>n k j w. has_key n k v \<longrightarrow> l j = Some w \<longrightarrow> \<not> has_key n k w)"

definition waiting :: "int \<Rightarrow> run_view \<Rightarrow> bool" where
  "waiting task v \<longleftrightarrow> rv_task v = task \<and> rv_manual v \<and> rv_phase v = Pending"

definition retries_failed :: "ledger \<Rightarrow> run_view \<Rightarrow> bool" where
  "retries_failed l v \<longleftrightarrow> (case rv_retry_of v of None \<Rightarrow> True
     | Some p \<Rightarrow> (case l p of None \<Rightarrow> False | Some w \<Rightarrow> rv_phase w = Failed \<and> rv_task w = rv_task v))"

inductive ledger_step :: "ledger \<Rightarrow> ledger \<Rightarrow> bool" where
  started: "l i = None \<Longrightarrow> rv_phase v = Running \<Longrightarrow> \<not> rv_manual v \<Longrightarrow> rv_retry_of v = None \<Longrightarrow> key_free l v \<Longrightarrow>
    ledger_step l (l(i \<mapsto> v))"
| requested: "l i = None \<Longrightarrow> waiting (rv_task v) v \<Longrightarrow> key_free l v \<Longrightarrow> retries_failed l v \<Longrightarrow>
    (\<And>j w. l j = Some w \<Longrightarrow> \<not> waiting (rv_task v) w) \<Longrightarrow> ledger_step l (l(i \<mapsto> v))"
| begun: "l i = Some v \<Longrightarrow> rv_phase v = Pending \<Longrightarrow> ledger_step l (l(i \<mapsto> v\<lparr>rv_phase := Running\<rparr>))"
| ended: "l i = Some v \<Longrightarrow> \<not> finished (rv_phase v) \<Longrightarrow> finished s \<Longrightarrow> ledger_step l (l(i \<mapsto> v\<lparr>rv_phase := s\<rparr>))"

section \<open>Invariant\<close>

definition ledger_ok :: "ledger \<Rightarrow> bool" where
  "ledger_ok l \<longleftrightarrow>
     (\<forall>n k i j v w. l i = Some v \<longrightarrow> l j = Some w \<longrightarrow> has_key n k v \<longrightarrow> has_key n k w \<longrightarrow> i = j) \<and>
     (\<forall>t i j v w. l i = Some v \<longrightarrow> l j = Some w \<longrightarrow> waiting t v \<longrightarrow> waiting t w \<longrightarrow> i = j) \<and>
     (\<forall>i v. l i = Some v \<longrightarrow> rv_phase v = Pending \<longrightarrow> rv_manual v) \<and>
     (\<forall>i v. l i = Some v \<longrightarrow> retries_failed l v)"

lemma ledger_okI:
  assumes "\<And>n k i j v w. l i = Some v \<Longrightarrow> l j = Some w \<Longrightarrow> has_key n k v \<Longrightarrow> has_key n k w \<Longrightarrow> i = j"
    and "\<And>t i j v w. l i = Some v \<Longrightarrow> l j = Some w \<Longrightarrow> waiting t v \<Longrightarrow> waiting t w \<Longrightarrow> i = j"
    and "\<And>i v. l i = Some v \<Longrightarrow> rv_phase v = Pending \<Longrightarrow> rv_manual v" and "\<And>i v. l i = Some v \<Longrightarrow> retries_failed l v"
  shows "ledger_ok l"
  unfolding ledger_ok_def by (intro conjI allI impI) (fact assms)+

lemma ledger_okD:
  assumes "ledger_ok l"
  shows "\<lbrakk>l i = Some v; l j = Some w; has_key n k v; has_key n k w\<rbrakk> \<Longrightarrow> i = j"
    and "\<lbrakk>l i = Some v; l j = Some w; waiting t v; waiting t w\<rbrakk> \<Longrightarrow> i = j"
    and "\<lbrakk>l i = Some v; rv_phase v = Pending\<rbrakk> \<Longrightarrow> rv_manual v" and "l i = Some v \<Longrightarrow> retries_failed l v"
  using assms unfolding ledger_ok_def by blast+

lemma ledger_ok_empty: "ledger_ok Map.empty"
  by (simp add: ledger_ok_def)

text \<open>A new run.\<close>

lemma retries_failed_new: "l i = None \<Longrightarrow> retries_failed l v \<Longrightarrow> retries_failed (l(i \<mapsto> w)) v"
  by (auto simp: retries_failed_def split: option.splits)

lemma ledger_ok_new:
  assumes ok: "ledger_ok l" and new: "l i = None" and free: "key_free l v" and retry: "retries_failed l v"
    and phase: "rv_phase v = Pending \<Longrightarrow> rv_manual v"
    and alone: "\<And>t j w. waiting t v \<Longrightarrow> l j = Some w \<Longrightarrow> \<not> waiting t w"
  shows "ledger_ok (l(i \<mapsto> v))"
proof (rule ledger_okI)
  fix n k a b x y assume "(l(i \<mapsto> v)) a = Some x" "(l(i \<mapsto> v)) b = Some y" "has_key n k x" "has_key n k y"
  then show "a = b" using ledger_okD(1)[OF ok, of a x b y n k] free unfolding key_free_def
    by (cases "a = i"; cases "b = i") auto
next
  fix t a b x y assume "(l(i \<mapsto> v)) a = Some x" "(l(i \<mapsto> v)) b = Some y" "waiting t x" "waiting t y"
  then show "a = b" using ledger_okD(2)[OF ok, of a x b y t] alone by (cases "a = i"; cases "b = i") auto
next
  fix a x assume "(l(i \<mapsto> v)) a = Some x" "rv_phase x = Pending"
  then show "rv_manual x" using ledger_okD(3)[OF ok] phase by (auto split: if_splits)
next
  fix a x assume "(l(i \<mapsto> v)) a = Some x"
  then have "retries_failed l x" using ledger_okD(4)[OF ok] retry by (auto split: if_splits)
  then show "retries_failed (l(i \<mapsto> v)) x" by (rule retries_failed_new[of l i, OF new])
qed

text \<open>A run that moves on.\<close>

lemma retries_failed_moved:
  "l i = Some v \<Longrightarrow> \<not> finished (rv_phase v) \<Longrightarrow> retries_failed l x \<Longrightarrow> retries_failed (l(i \<mapsto> v\<lparr>rv_phase := s\<rparr>)) (x\<lparr>rv_phase := t\<rparr>)"
  by (auto simp: retries_failed_def split: option.splits)

lemma ledger_ok_moved:
  assumes ok: "ledger_ok l" and at: "l i = Some v" and open_run: "\<not> finished (rv_phase v)" and s: "s \<noteq> Pending"
  shows "ledger_ok (l(i \<mapsto> v\<lparr>rv_phase := s\<rparr>))"
proof (rule ledger_okI)
  fix n k a b x y assume "(l(i \<mapsto> v\<lparr>rv_phase := s\<rparr>)) a = Some x" "(l(i \<mapsto> v\<lparr>rv_phase := s\<rparr>)) b = Some y"
    "has_key n k x" "has_key n k y"
  then show "a = b" using ledger_okD(1)[OF ok, of a x b y n k] ledger_okD(1)[OF ok, of a x i v n k] ledger_okD(1)[OF ok, of i v b y n k] at
    by (cases "a = i"; cases "b = i") (auto simp: has_key_def)
next
  fix t a b x y assume "(l(i \<mapsto> v\<lparr>rv_phase := s\<rparr>)) a = Some x" "(l(i \<mapsto> v\<lparr>rv_phase := s\<rparr>)) b = Some y"
    "waiting t x" "waiting t y"
  then show "a = b" using ledger_okD(2)[OF ok, of a x b y t] s by (cases "a = i"; cases "b = i") (auto simp: waiting_def)
next
  fix a x assume "(l(i \<mapsto> v\<lparr>rv_phase := s\<rparr>)) a = Some x" "rv_phase x = Pending"
  then show "rv_manual x" using ledger_okD(3)[OF ok] s by (auto split: if_splits)
next
  fix a x assume x: "(l(i \<mapsto> v\<lparr>rv_phase := s\<rparr>)) a = Some x"
  show "retries_failed (l(i \<mapsto> v\<lparr>rv_phase := s\<rparr>)) x"
  proof (cases "a = i")
    case True
    then show ?thesis using x retries_failed_moved[of l i v, OF at open_run ledger_okD(4)[OF ok at], of s s] by simp
  next
    case False
    then have "retries_failed l x" using x ledger_okD(4)[OF ok] by simp
    then show ?thesis using retries_failed_moved[of l i v, OF at open_run, of x s "rv_phase x"] by simp
  qed
qed

lemma ledger_step_ok: "ledger_step l l' \<Longrightarrow> ledger_ok l \<Longrightarrow> ledger_ok l'"
proof (induction rule: ledger_step.induct)
  case (started l i v)
  show ?case by (rule ledger_ok_new) (use started in \<open>auto simp: retries_failed_def waiting_def\<close>)
next
  case (requested l i v)
  have "t = rv_task v" if "waiting t v" for t using that by (simp add: waiting_def)
  then show ?case by (intro ledger_ok_new) (use requested in \<open>auto simp: waiting_def\<close>)
next
  case (begun l i v)
  show ?case by (rule ledger_ok_moved) (use begun in simp_all)
next
  case (ended l i v s)
  show ?case by (rule ledger_ok_moved) (use ended in auto)
qed

interpretation runs: invariant_system "\<lambda>l. l = Map.empty" ledger_step ledger_ok
  by unfold_locales (auto simp: ledger_ok_empty intro: ledger_step_ok)

section \<open>Progress\<close>

text \<open>What a run is never changes, its phase only advances, and a finished run stays as it is.\<close>

fun phase_rank :: "task_run_status \<Rightarrow> nat" where
  "phase_rank Pending = 0"
| "phase_rank Running = 1"
| "phase_rank Succeeded = 2"
| "phase_rank Failed = 2"

definition continues :: "run_view \<Rightarrow> run_view \<Rightarrow> bool" where
  "continues v w \<longleftrightarrow> rv_task w = rv_task v \<and> rv_node w = rv_node v \<and> rv_key w = rv_key v \<and> rv_manual w = rv_manual v \<and>
     rv_retry_of w = rv_retry_of v \<and> (rv_phase w = rv_phase v \<or> phase_rank (rv_phase v) < phase_rank (rv_phase w))"

lemma continues_refl [simp]: "continues v v"
  by (simp add: continues_def)

lemma continues_trans: "continues u v \<Longrightarrow> continues v w \<Longrightarrow> continues u w"
  unfolding continues_def by (elim conjE disjE) simp_all

lemma phase_rank_max: "phase_rank s \<le> 2"
  by (cases s) simp_all

lemma continues_finished: "continues v w \<Longrightarrow> finished (rv_phase v) \<Longrightarrow> w = v"
  using phase_rank_max[of "rv_phase w"] unfolding continues_def by (cases v; cases w) auto

lemma ledger_step_continues:
  assumes "ledger_step l l'" and "l i = Some v"
  shows "\<exists>w. l' i = Some w \<and> continues v w"
  using assms
proof (cases rule: ledger_step.cases)
  case (begun j x)
  then show ?thesis using assms(2) by (cases "j = i") (auto simp: continues_def)
next
  case (ended j x s)
  then show ?thesis using assms(2) by (cases "j = i"; cases "rv_phase x") (auto simp: continues_def)
qed (use assms(2) in auto)

lemma ledger_steps_continue: "ledger_step\<^sup>*\<^sup>* l l' \<Longrightarrow> l i = Some v \<Longrightarrow> \<exists>w. l' i = Some w \<and> continues v w"
proof (induction rule: rtranclp_induct)
  case base
  then show ?case by simp
next
  case (step l1 l2)
  then show ?case using ledger_step_continues continues_trans by blast
qed

end
