(* ===== verification/Server_Steps.thy ===== *)
theory Server_Steps
  imports Server_Readers Run_Ledger
begin

text \<open>
  The calls the control plane serves, and what all of them keep: the invariant \<open>server_ok\<close> of the tables
  behind runs, nodes and receipts, and the relation \<open>db_evolves\<close> between a database and a later one.
\<close>

section \<open>The part that runs depend on\<close>

definition core :: "server_db \<Rightarrow> run_row list \<times> node_row list \<times> receipt_row list \<times> int \<times> int \<times> int" where
  "core db = (sv_runs db, sv_nodes db, sv_receipts db, sq_run (sv_seq db), sq_node (sv_seq db), sq_receipt (sv_seq db))"

lemma core_nextval [stable_intros]:
  "stable core (nextval sq_source sq_source_update)" "stable core (nextval sq_task sq_task_update)"
  "stable core (nextval sq_raw sq_raw_update)" "stable core (nextval sq_record sq_record_update)"
  "stable core (nextval sq_rule sq_rule_update)" "stable core (nextval sq_result sq_result_update)"
  "stable core (nextval sq_alert sq_alert_update)"
  by (simp_all add: stable_def nextval_def core_def Let_def)

lemma core_modify [stable_intros]:
  "stable core (modify (\<lambda>db. db\<lparr>sv_sources := f1 db\<rparr>))" "stable core (modify (\<lambda>db. db\<lparr>sv_tasks := f2 db\<rparr>))"
  "stable core (modify (\<lambda>db. db\<lparr>sv_raw_files := f3 db\<rparr>))" "stable core (modify (\<lambda>db. db\<lparr>sv_records := f4 db\<rparr>))"
  "stable core (modify (\<lambda>db. db\<lparr>sv_rules := f5 db\<rparr>))" "stable core (modify (\<lambda>db. db\<lparr>sv_results := f6 db\<rparr>))"
  "stable core (modify (\<lambda>db. db\<lparr>sv_alerts := f7 db\<rparr>))"
  "stable core (modify (\<lambda>db. let same = g db in if b db same then db\<lparr>sv_bindings := f8 db same\<rparr> else db\<lparr>sv_bindings := f9 db same\<rparr>))"
  by (simp_all add: stable_def modify_def core_def Let_def)

lemma core_results [stable_intros]:
  "stable core (create_raw_file env f)" "stable core (create_parsed_record env p)" "stable core (repo_create_rule env r)"
  "stable core (repo_create_result env q)" "stable core (create_alert_row env a)" "stable core (update_alert env g i)"
  unfolding create_raw_file_def append_raw_def create_parsed_record_def append_record_def repo_create_rule_def
    repo_create_result_def create_alert_row_def update_alert_def
  by (intro stable_intros)+

lemma core_alerts [stable_intros]: "stable core (save_acknowledged env now i)" "stable core (save_closed env now i)"
  unfolding save_acknowledged_def save_closed_def by (intro stable_intros)+

lemma core_config [stable_intros]:
  "stable core (repo_create_data_source env s)" "stable core (repo_create_task env t)"
  "stable core (bind_task_qc_rule env ti ri n)" "stable core (repo_set_task_enabled env ti b)"
  unfolding repo_create_data_source_def repo_create_task_def bind_task_qc_rule_def repo_set_task_enabled_def
  by (intro stable_intros)+

lemma core_bind_rules [stable_intros]: "stable core (bind_rules env ti n is)"
  by (induction "is" arbitrary: n) (auto intro!: stable_intros)

lemma core_services [stable_intros]:
  "stable core (record_raw_file env rf)" "stable core (record_parsed_record env pr raw)" "stable core (record_qc_result env qr)"
  "stable core (write_alert env qr ti code)" "stable core (create_data_source env sq)" "stable core (create_qc_rule env rq)"
  unfolding record_raw_file_def record_parsed_record_def record_qc_result_def write_alert_def create_data_source_def
    create_qc_rule_def
  by (intro stable_intros)+

lemma core_create_alert [stable_intros]: "stable core (create_alert env qr ti code)"
  unfolding create_alert_def by (intro stable_intros)

lemma core_create_task [stable_intros]: "stable core (create_task env tq)"
  unfolding create_task_def Let_def by (intro stable_intros)

lemma core_dispose [stable_intros]: "stable core (dispose_alert env now i b)"
  unfolding dispose_alert_def by (intro stable_intros)

lemma core_record_files [stable_intros]: "stable core (record_files env q ids fs)"
  by (induction fs arbitrary: ids) (auto intro!: stable_intros)

lemma core_record_qc_results [stable_intros]: "stable core (record_qc_results env q i acc xs)"
proof (induction xs arbitrary: acc)
  case Nil
  show ?case by (cases acc) (auto intro!: stable_intros)
next
  case (Cons x xs)
  show ?case by (cases acc) (auto intro!: stable_intros Cons.IH)
qed

lemma core_record_parsed [stable_intros]: "stable core (record_parsed env q verified acc ps)"
proof (induction ps arbitrary: verified acc)
  case Nil
  show ?case by (auto intro!: stable_intros)
next
  case (Cons p ps)
  show ?case by (cases acc) (auto simp: Let_def intro!: stable_intros Cons.IH)
qed

section \<open>Invariant\<close>

definition ids_below :: "int list \<Rightarrow> int \<Rightarrow> bool" where
  "ids_below is n \<longleftrightarrow> distinct is \<and> list_all (\<lambda>i. 0 < i \<and> i < n) is \<and> 0 < n \<and> n \<le> 2 ^ 63"

definition is_bigint :: "int \<Rightarrow> bool" where
  "is_bigint i \<longleftrightarrow> - (2 ^ 63) \<le> i \<and> i < 2 ^ 63"

definition view_of :: "run_row \<Rightarrow> run_view" where
  "view_of r = \<lparr>rv_task = run_task r, rv_node = run_node r, rv_key = run_key r, rv_manual = is_manual_trigger (run_trigger r),
     rv_retry_of = run_retry_of r, rv_phase = run_status r\<rparr>"

definition ledger_of :: "server_db \<Rightarrow> ledger" where
  "ledger_of db = map_of (map (\<lambda>r. (run_id r, view_of r)) (sv_runs db))"

definition runs_ok :: "server_db \<Rightarrow> bool" where
  "runs_ok db \<longleftrightarrow> ids_below (map run_id (sv_runs db)) (sq_run (sv_seq db)) \<and> ledger_ok (ledger_of db) \<and>
     run_node ` set (sv_runs db) \<subseteq> nd_id ` set (sv_nodes db) \<and> (\<forall>r \<in> set (sv_runs db). is_bigint (run_task r))"

definition nodes_ok :: "server_db \<Rightarrow> bool" where
  "nodes_ok db \<longleftrightarrow> ids_below (map nd_id (sv_nodes db)) (sq_node (sv_seq db)) \<and> distinct (map nd_code (sv_nodes db))"

definition receipt_key :: "receipt_row \<Rightarrow> int \<times> receipt_type \<times> string" where
  "receipt_key r = (rcp_node r, rcp_type r, rcp_key r)"

definition reports :: "receipt_row list \<Rightarrow> receipt_row list" where
  "reports rs = filter (\<lambda>r. rcp_type r = TaskRunReport) rs"

definition completed :: "receipt_row list \<Rightarrow> receipt_row list" where
  "completed rs = filter (\<lambda>r. rcp_response r \<noteq> None) rs"

definition receipts_ok :: "server_db \<Rightarrow> bool" where
  "receipts_ok db \<longleftrightarrow> ids_below (map rcp_id (sv_receipts db)) (sq_receipt (sv_seq db)) \<and>
     distinct (map receipt_key (sv_receipts db)) \<and> distinct (map rcp_run (reports (sv_receipts db))) \<and>
     (\<forall>r \<in> set (sv_receipts db). \<exists>x \<in> set (sv_runs db). run_id x = rcp_run r \<and> run_node x = rcp_node r) \<and>
     (\<forall>r \<in> set (completed (reports (sv_receipts db))). \<exists>x \<in> set (sv_runs db). run_id x = rcp_run r \<and> finished (run_status x))"

definition server_ok :: "server_db \<Rightarrow> bool" where
  "server_ok db \<longleftrightarrow> runs_ok db \<and> nodes_ok db \<and> receipts_ok db"

text \<open>Between calls every receipt is complete.\<close>

definition receipts_done :: "server_db \<Rightarrow> bool" where
  "receipts_done db \<longleftrightarrow> list_all (\<lambda>r. rcp_response r \<noteq> None) (sv_receipts db)"

definition node_ids :: "server_db \<Rightarrow> (int \<times> string) list" where
  "node_ids db = map (\<lambda>n. (nd_id n, nd_code n)) (sv_nodes db)"

definition finished_runs :: "server_db \<Rightarrow> run_row list" where
  "finished_runs db = filter (\<lambda>r. finished (run_status r)) (sv_runs db)"

definition db_evolves :: "server_db \<Rightarrow> server_db \<Rightarrow> bool" where
  "db_evolves db db' \<longleftrightarrow> ledger_step\<^sup>*\<^sup>* (ledger_of db) (ledger_of db') \<and> set (node_ids db) \<subseteq> set (node_ids db') \<and>
     set (finished_runs db) \<subseteq> set (sv_runs db') \<and> set (completed (sv_receipts db)) \<subseteq> set (sv_receipts db') \<and>
     sq_run (sv_seq db) \<le> sq_run (sv_seq db') \<and> sq_node (sv_seq db) \<le> sq_node (sv_seq db') \<and>
     sq_receipt (sv_seq db) \<le> sq_receipt (sv_seq db')"

lemma db_evolves_refl [simp]: "db_evolves db db"
  by (auto simp: db_evolves_def completed_def finished_runs_def)

lemma db_evolves_trans: 
  assumes "db_evolves a b" "db_evolves b c" shows "db_evolves a c"
proof -
  have "set (completed (sv_receipts a)) \<subseteq> set (completed (sv_receipts b))"
    using assms(1) by (auto simp: db_evolves_def completed_def)
  moreover have "set (finished_runs a) \<subseteq> set (finished_runs b)" using assms(1) by (auto simp: db_evolves_def finished_runs_def)
  ultimately show ?thesis using assms unfolding db_evolves_def by (auto intro: rtranclp_trans)
qed

definition going :: "server_db \<Rightarrow> server_db \<Rightarrow> bool" where
  "going db0 db \<longleftrightarrow> server_ok db \<and> db_evolves db0 db"

lemma going_core: "core db' = core db \<Longrightarrow> going db0 db \<Longrightarrow> going db0 db'"
  by (auto simp: core_def going_def server_ok_def runs_ok_def nodes_ok_def receipts_ok_def db_evolves_def ledger_of_def node_ids_def finished_runs_def)

text \<open>\<open>keeps m\<close>: a procedure started in a sound database leaves a sound, later one, also when it throws.\<close>

named_theorems keeps_intros "procedures that keep the server's invariant"

definition keeps :: "'a sproc \<Rightarrow> bool" where
  "keeps m \<longleftrightarrow> (\<forall>db. server_ok db \<longrightarrow> going db (snd (m db)))"

lemma keepsD: "keeps m \<Longrightarrow> going db0 db \<Longrightarrow> m db = (r, db') \<Longrightarrow> going db0 db'"
  unfolding keeps_def going_def by (metis db_evolves_trans snd_conv)

lemma keeps_hoare: "keeps m \<Longrightarrow> hoare (going db0) m (\<lambda>_. going db0) (\<lambda>_. going db0)"
  by (auto intro!: hoareI dest: keepsD)

lemma keeps_core: "stable core m \<Longrightarrow> keeps m"
  unfolding keeps_def stable_def by (metis db_evolves_refl going_core going_def)

lemma keeps_seqp [keeps_intros]: "keeps m \<Longrightarrow> (\<And>a. keeps (f a)) \<Longrightarrow> keeps (seqp m f)"
  unfolding keeps_def
proof (intro allI impI)
  fix db assume m: "\<forall>db. server_ok db \<longrightarrow> going db (snd (m db))" and f: "\<And>a. \<forall>db. server_ok db \<longrightarrow> going db (snd (f a db))"
    and ok: "server_ok db"
  obtain r db' where d: "m db = (r, db')" by (cases "m db")
  then have g: "going db db'" using m ok by (metis snd_conv)
  show "going db (snd (seqp m f db))"
  proof (cases r)
    case (Inl e)
    then show ?thesis using d g by (simp add: seqp_def)
  next
    case (Inr a)
    have "going db' (snd (f a db'))" using f g by (simp add: going_def)
    then show ?thesis using d g Inr by (simp add: seqp_def going_def) (metis db_evolves_trans)
  qed
qed

lemma keeps_cases [keeps_intros]:
  "(b \<Longrightarrow> keeps m) \<Longrightarrow> (\<not> b \<Longrightarrow> keeps n) \<Longrightarrow> keeps (if b then m else n)"
  "keeps m \<Longrightarrow> (\<And>y. keeps (k y)) \<Longrightarrow> keeps (case x of None \<Rightarrow> m | Some y \<Rightarrow> k y)"
  "(\<And>a. keeps (g a)) \<Longrightarrow> (\<And>b. keeps (h b)) \<Longrightarrow> keeps (case z of Inl a \<Rightarrow> g a | Inr b \<Rightarrow> h b)"
  "(\<And>a b. keeps (j a b)) \<Longrightarrow> keeps (case p of (a, b) \<Rightarrow> j a b)"
  by (simp_all split: option.splits sum.splits prod.splits)

text \<open>The same at one database: \<open>goes m db\<close>.\<close>

definition goes :: "'a sproc \<Rightarrow> server_db \<Rightarrow> bool" where
  "goes m db \<longleftrightarrow> going db (snd (m db))"

lemma keepsI: "(\<And>db. server_ok db \<Longrightarrow> goes m db) \<Longrightarrow> keeps m"
  by (simp add: keeps_def goes_def)

lemma keeps_goes: "keeps m \<Longrightarrow> server_ok db \<Longrightarrow> goes m db"
  by (simp add: keeps_def goes_def)

lemma goes_seqp: "goes m db \<Longrightarrow> (\<And>a. keeps (f a)) \<Longrightarrow> goes (seqp m f) db"
proof -
  assume g: "goes m db" and f: "\<And>a. keeps (f a)"
  obtain r db' where d: "m db = (r, db')" by (cases "m db")
  then have "going db db'" using g by (simp add: goes_def)
  moreover from this have "going db (snd (f a db'))" for a using keepsD[OF f, of db db' _ "fst (f a db')"] by (metis prod.collapse)
  ultimately show ?thesis using d by (cases r) (simp_all add: goes_def seqp_def)
qed

lemma goes_reader:
  assumes "reader m" and "server_ok db" and "\<And>a. m db = (Inr a, db) \<Longrightarrow> goes (f a) db"
  shows "goes (seqp m f) db"
proof -
  obtain r db' where d: "m db = (r, db')" by (cases "m db")
  then have "db' = db" using stableD[OF assms(1)] by blast
  then show ?thesis using d assms(2,3) by (cases r) (simp_all add: goes_def seqp_def going_def)
qed

lemma goes_cases:
  "(b \<Longrightarrow> goes m db) \<Longrightarrow> (\<not> b \<Longrightarrow> goes n db) \<Longrightarrow> goes (if b then m else n) db"
  "(x = None \<Longrightarrow> goes m db) \<Longrightarrow> (\<And>y. x = Some y \<Longrightarrow> goes (k y) db) \<Longrightarrow> goes (case x of None \<Rightarrow> m | Some y \<Rightarrow> k y) db"
  "(\<And>a. z = Inl a \<Longrightarrow> goes (g a) db) \<Longrightarrow> (\<And>b. z = Inr b \<Longrightarrow> goes (h b) db) \<Longrightarrow>
     goes (case z of Inl a \<Rightarrow> g a | Inr b \<Rightarrow> h b) db"
  by (simp_all split: option.splits sum.splits)

text \<open>Everything that leaves the core alone keeps the invariant.\<close>

lemmas keeps_readers [keeps_intros] =
  stable_basic [where f = core, THEN keeps_core] stable_casts [where v = core, THEN keeps_core]
  stable_runs [where v = core, THEN keeps_core] stable_lock_by_id [where v = core, THEN keeps_core]
  stable_results [where v = core, THEN keeps_core] stable_lock_alert [where v = core, THEN keeps_core]
  stable_existing_receipt [where v = core, THEN keeps_core] stable_validate_task [where v = core, THEN keeps_core]
  stable_finds [where v = core, THEN keeps_core] stable_resolve_files [where v = core, THEN keeps_core]
  stable_ownership [where v = core, THEN keeps_core] stable_report_rules [where v = core, THEN keeps_core]
  stable_validate_failed [where v = core, THEN keeps_core] stable_answers [where v = core, THEN keeps_core]

lemmas keeps_writers [keeps_intros] = core_results [THEN keeps_core] core_alerts [THEN keeps_core] core_config [THEN keeps_core]
  core_bind_rules [THEN keeps_core] core_services [THEN keeps_core] core_create_alert [THEN keeps_core]
  core_create_task [THEN keeps_core] core_dispose [THEN keeps_core] core_record_files [THEN keeps_core]
  core_record_parsed [THEN keeps_core]

end
