(* ===== verification/Server_Writes.thy ===== *)
theory Server_Writes
  imports Server_Steps
begin

text \<open>
  What the statements that write runs, nodes and receipts do to the invariant: a run is added or moves on
  by a step of the ledger, a node is added or refreshed, a receipt is claimed or completed.
\<close>

section \<open>Sequences\<close>

lemma ids_below_next: "ids_below is n \<Longrightarrow> n < 2 ^ 63 \<Longrightarrow> ids_below is (n + 1)"
  by (auto simp: ids_below_def list_all_iff)

lemma ids_below_append: "ids_below is n \<Longrightarrow> n < 2 ^ 63 \<Longrightarrow> ids_below (is @ [n]) (n + 1)"
  by (auto simp: ids_below_def list_all_iff)

lemma ids_below_fresh: "ids_below is n \<Longrightarrow> n \<notin> set is"
  by (auto simp: ids_below_def list_all_iff)

lemma keeps_nextval [keeps_intros]:
  "keeps (nextval sq_run sq_run_update)" "keeps (nextval sq_node sq_node_update)" "keeps (nextval sq_receipt sq_receipt_update)"
  by (auto simp: keeps_def nextval_def Let_def going_def server_ok_def runs_ok_def nodes_ok_def receipts_ok_def db_evolves_def
      ledger_of_def node_ids_def finished_runs_def completed_def ids_below_next)

lemma keeps_skips [keeps_intros]: "keeps skip_run_id" "keeps skip_receipt_id"
  unfolding skip_run_id_def skip_receipt_id_def by (intro keeps_intros)+

section \<open>Runs\<close>

lemma ledger_of_Some: "ids_below (map run_id (sv_runs db)) n \<Longrightarrow> r \<in> set (sv_runs db) \<Longrightarrow> ledger_of db (run_id r) = Some (view_of r)"
  by (auto simp: ledger_of_def ids_below_def intro!: map_of_is_SomeI simp: comp_def)

lemma ledger_of_in: "ledger_of db i = Some v \<Longrightarrow> \<exists>r \<in> set (sv_runs db). run_id r = i \<and> view_of r = v"
  by (auto simp: ledger_of_def dest!: map_of_SomeD)

lemma ledger_of_None: "ledger_of db i = None \<longleftrightarrow> i \<notin> run_id ` set (sv_runs db)"
  by (auto simp: ledger_of_def map_of_eq_None_iff image_image)

lemma map_of_update_where:
  assumes "distinct (map k rows)" and "x \<in> set rows" and "\<And>r. r \<in> set rows \<Longrightarrow> p r \<longleftrightarrow> r = x" and "k (f x) = k x"
  shows "map_of (map (\<lambda>r. (k r, h r)) (update_where p f rows)) = (map_of (map (\<lambda>r. (k r, h r)) rows))(k x \<mapsto> h (f x))"
  using assms(1-3)
proof (induction rows)
  case Nil
  then show ?case by simp
next
  case (Cons r rs)
  show ?case
  proof (cases "r = x")
    case True
    then have "x \<notin> set rs" using Cons.prems(1) by auto
    then have "update_where p f rs = rs" using Cons.prems(3) by (auto simp: update_where_def intro!: map_idI)
    then show ?thesis using True Cons.prems(3)[of r] assms(4) by (simp add: update_where_Cons fun_upd_def fun_eq_iff)
  next
    case False
    then have "x \<in> set rs" "k r \<noteq> k x" using Cons.prems(1,2) by auto
    then show ?thesis using Cons False by (auto simp: update_where_Cons fun_upd_def fun_eq_iff)
  qed
qed

definition moves_on :: "run_row \<Rightarrow> run_row \<Rightarrow> bool" where
  "moves_on r s \<longleftrightarrow> run_id s = run_id r \<and> view_of s = (view_of r)\<lparr>rv_phase := run_status s\<rparr> \<and>
     (run_status r = Pending \<and> run_status s = Running \<or> \<not> finished (run_status r) \<and> finished (run_status s))"

lemma view_of_phase [simp]: "rv_phase (view_of r) = run_status r"
  by (simp add: view_of_def)

lemma moves_on_step: "moves_on r s \<Longrightarrow> l (run_id r) = Some (view_of r) \<Longrightarrow> ledger_step l (l(run_id r \<mapsto> view_of s))"
  using ledger_step.begun[of l "run_id r" "view_of r"] ledger_step.ended[of l "run_id r" "view_of r" "run_status s"]
  unfolding moves_on_def by (auto simp: view_of_phase)

lemma update_where_miss: "(\<And>r. r \<in> set rows \<Longrightarrow> \<not> p r) \<Longrightarrow> update_where p f rows = rows"
  by (auto simp: update_where_def intro!: map_idI)

lemma run_moves:
  assumes ok: "server_ok db" and x: "x \<in> set (sv_runs db)" and p: "\<And>r. r \<in> set (sv_runs db) \<Longrightarrow> p r \<longleftrightarrow> r = x"
    and f: "moves_on x (f x)"
  shows "going db (db\<lparr>sv_runs := update_where p f (sv_runs db)\<rparr>)"
proof -
  let ?rows = "update_where p f (sv_runs db)"
  let ?db = "db\<lparr>sv_runs := ?rows\<rparr>"
  have ids: "ids_below (map run_id (sv_runs db)) (sq_run (sv_seq db))" using ok by (simp add: server_ok_def runs_ok_def)
  have each: "\<exists>s \<in> set ?rows. run_id s = run_id r \<and> run_node s = run_node r \<and> (finished (run_status r) \<longrightarrow> run_status s = run_status r)"
    if "r \<in> set (sv_runs db)" for r
  proof (cases "r = x")
    case True
    then have "f x \<in> set ?rows" using x p by (auto simp: set_update_where intro: rev_image_eqI)
    moreover have "run_id (f x) = run_id x" "view_of (f x) = (view_of x)\<lparr>rv_phase := run_status (f x)\<rparr>"
      "\<not> finished (run_status x)" using f by (auto simp: moves_on_def)
    ultimately show ?thesis using True by (auto simp: view_of_def)
  next
    case False
    then have "r \<in> set ?rows" using that p by (auto simp: set_update_where intro: rev_image_eqI)
    then show ?thesis by auto
  qed
  have id: "run_id (f x) = run_id x" and node: "run_node (f x) = run_node x" using f by (auto simp: moves_on_def view_of_def)
  have nodes: "map run_node ?rows = map run_node (sv_runs db)" using p node by (auto simp: update_where_def)
  have "map run_id ?rows = map run_id (sv_runs db)" using p id by (auto simp: update_where_def)
  moreover have "run_node ` set ?rows = run_node ` set (sv_runs db)" using arg_cong[OF nodes, of set] by (simp only: set_map)
  ultimately have same: "map run_id ?rows = map run_id (sv_runs db)" "run_node ` set ?rows = run_node ` set (sv_runs db)"
    by blast+
  have ledger: "ledger_of ?db = (ledger_of db)(run_id x \<mapsto> view_of (f x))"
    using map_of_update_where[of run_id "sv_runs db" x p f view_of] ids x p id by (simp add: ledger_of_def ids_below_def)
  have step: "ledger_step (ledger_of db) (ledger_of ?db)"
    unfolding ledger by (rule moves_on_step[of x "f x" "ledger_of db", OF f ledger_of_Some[OF ids x]])
  have "ledger_ok (ledger_of ?db)" using ledger_step_ok[OF step] ok by (simp add: server_ok_def runs_ok_def)
  moreover have "\<forall>r \<in> set ?rows. is_bigint (run_task r)"
    using ok p f x by (auto simp: server_ok_def runs_ok_def set_update_where moves_on_def view_of_def)
  ultimately have "runs_ok ?db" using ok same by (simp add: server_ok_def runs_ok_def)
  moreover have "receipts_ok ?db"
    unfolding receipts_ok_def
  proof (intro conjI ballI)
    fix r assume "r \<in> set (sv_receipts ?db)"
    then obtain y where "y \<in> set (sv_runs db)" "run_id y = rcp_run r" "run_node y = rcp_node r"
      using ok by (auto simp: server_ok_def receipts_ok_def)
    with each[of y] show "\<exists>x \<in> set (sv_runs ?db). run_id x = rcp_run r \<and> run_node x = rcp_node r" by auto
  next
    fix r assume "r \<in> set (completed (reports (sv_receipts ?db)))"
    then obtain y where "y \<in> set (sv_runs db)" "run_id y = rcp_run r" "finished (run_status y)"
      using ok by (auto simp: server_ok_def receipts_ok_def)
    with each[of y] show "\<exists>x \<in> set (sv_runs ?db). run_id x = rcp_run r \<and> finished (run_status x)" by auto
  qed (use ok in \<open>simp_all add: server_ok_def receipts_ok_def\<close>)
  moreover have "nodes_ok ?db" using ok by (simp add: server_ok_def nodes_ok_def)
  moreover have "set (finished_runs db) \<subseteq> set ?rows"
  proof
    fix r assume "r \<in> set (finished_runs db)"
    then have "r \<in> set (sv_runs db)" "r \<noteq> x" using f by (auto simp: finished_runs_def moves_on_def)
    then show "r \<in> set ?rows" using p by (auto simp: set_update_where intro: rev_image_eqI)
  qed
  then have "db_evolves db ?db" using step by (auto simp: db_evolves_def node_ids_def completed_def)
  ultimately show ?thesis by (simp add: going_def server_ok_def)
qed

lemma run_added:
  assumes ok: "server_ok db" and i: "i = sq_run (sv_seq db)" and node: "run_node row \<in> nd_id ` set (sv_nodes db)" "is_bigint (run_task row)"
    and step: "ledger_step (ledger_of db) ((ledger_of db)(i \<mapsto> view_of row))"
  shows "going db (snd (append_run row db))"
proof (cases "i < 2 ^ 63")
  case False
  then show ?thesis using ok i by (simp add: append_run_def seqp_def nextval_def Let_def going_def)
next
  case True
  let ?row = "row\<lparr>run_id := i\<rparr>"
  let ?db = "db\<lparr>sv_runs := sv_runs db @ [?row], sv_seq := (sv_seq db)\<lparr>sq_run := i + 1\<rparr>\<rparr>"
  have d: "snd (append_run row db) = ?db"
    using True i by (simp add: append_run_def seqp_def nextval_def Let_def modify_def ret_def)
  have ids: "ids_below (map run_id (sv_runs db)) i" using ok i by (simp add: server_ok_def runs_ok_def)
  have fresh: "ledger_of db i = None" using ids_below_fresh[OF ids] by (simp add: ledger_of_None)
  have ledger: "ledger_of ?db = (ledger_of db)(i \<mapsto> view_of row)"
  proof
    fix j
    show "ledger_of ?db j = ((ledger_of db)(i \<mapsto> view_of row)) j"
      using fresh by (cases "j = i"; cases "ledger_of db j")
        (auto simp: ledger_of_def view_of_def map_add_def split: option.splits)
  qed
  have "ledger_ok (ledger_of ?db)" using ledger_step_ok[OF step] ok ledger by (simp add: server_ok_def runs_ok_def)
  then have "runs_ok ?db" using ok node ids_below_append[OF ids] True i by (auto simp: server_ok_def runs_ok_def)
  moreover have "receipts_ok ?db"
    unfolding receipts_ok_def
  proof (intro conjI ballI)
    fix r assume "r \<in> set (sv_receipts ?db)"
    then show "\<exists>x \<in> set (sv_runs ?db). run_id x = rcp_run r \<and> run_node x = rcp_node r"
      using ok by (auto simp: server_ok_def receipts_ok_def)
  next
    fix r assume "r \<in> set (completed (reports (sv_receipts ?db)))"
    then show "\<exists>x \<in> set (sv_runs ?db). run_id x = rcp_run r \<and> finished (run_status x)"
      using ok unfolding server_ok_def receipts_ok_def by fastforce
  qed (use ok in \<open>simp_all add: server_ok_def receipts_ok_def\<close>)
  moreover have "nodes_ok ?db" using ok by (simp add: server_ok_def nodes_ok_def)
  moreover have "ledger_step (ledger_of db) (ledger_of ?db)" using step ledger by simp
  then have "db_evolves db ?db" using i by (auto simp: db_evolves_def node_ids_def finished_runs_def completed_def)
  ultimately show ?thesis unfolding d by (simp add: going_def server_ok_def)
qed

section \<open>Nodes\<close>

lemma node_refreshed:
  assumes ok: "server_ok db" and f: "\<And>n. nd_id (f n) = nd_id n \<and> nd_code (f n) = nd_code n"
  shows "going db (db\<lparr>sv_nodes := update_where p f (sv_nodes db)\<rparr>)"
proof -
  have same: "map nd_id (update_where p f (sv_nodes db)) = map nd_id (sv_nodes db)"
    "map nd_code (update_where p f (sv_nodes db)) = map nd_code (sv_nodes db)"
    "map (\<lambda>n. (nd_id n, nd_code n)) (update_where p f (sv_nodes db)) = map (\<lambda>n. (nd_id n, nd_code n)) (sv_nodes db)"
    using f by (auto simp: update_where_def)
  have "nd_id ` set (update_where p f (sv_nodes db)) = nd_id ` set (sv_nodes db)"
    using arg_cong[OF same(1), of set] by (simp only: set_map)
  with same show ?thesis using ok
    by (auto simp: going_def server_ok_def runs_ok_def nodes_ok_def receipts_ok_def db_evolves_def ledger_of_def node_ids_def finished_runs_def completed_def)
qed

lemma node_added:
  assumes ok: "server_ok db" and i: "i = sq_node (sv_seq db)" "i < 2 ^ 63" and new: "nd_id n = i" "nd_code n \<notin> nd_code ` set (sv_nodes db)"
  shows "going db (db\<lparr>sv_seq := (sv_seq db)\<lparr>sq_node := i + 1\<rparr>, sv_nodes := sv_nodes db @ [n]\<rparr>)"
proof -
  have "ids_below (map nd_id (sv_nodes db) @ [i]) (i + 1)" using ok i by (simp add: server_ok_def nodes_ok_def ids_below_append)
  with i new show ?thesis using ok
    by (auto simp: going_def server_ok_def runs_ok_def nodes_ok_def receipts_ok_def db_evolves_def ledger_of_def node_ids_def finished_runs_def completed_def)
qed

lemma keeps_upsert_node [keeps_intros]: "keeps (upsert_node env info st h)"
  unfolding upsert_node_def
proof (rule keeps_seqp)
  show "keeps (to_optional_time env h)" by (intro keeps_intros)
  fix t
  let ?put = "\<lambda>i. modify (\<lambda>db.
         if \<exists>n \<in> set (sv_nodes db). nd_code n = ni_node_code info
         then db\<lparr>sv_nodes := update_where (\<lambda>n. nd_code n = ni_node_code info)
                (\<lambda>n. n\<lparr>nd_name := ni_name info, nd_status := st, nd_agent_version := ni_agent_version info,
                   nd_last_heartbeat := t\<rparr>) (sv_nodes db)\<rparr>
         else db\<lparr>sv_nodes := sv_nodes db @ [\<lparr>nd_id = i, nd_code = ni_node_code info, nd_name = ni_name info, nd_status = st,
                nd_agent_version = ni_agent_version info, nd_last_heartbeat = t\<rparr>]\<rparr>)"
  show "keeps (seqp (nextval sq_node sq_node_update) ?put)"
    unfolding keeps_def
  proof (intro allI impI)
    fix db assume ok: "server_ok db"
    let ?i = "sq_node (sv_seq db)"
    let ?db = "db\<lparr>sv_seq := (sv_seq db)\<lparr>sq_node := ?i + 1\<rparr>\<rparr>"
    show "going db (snd (seqp (nextval sq_node sq_node_update) ?put db))"
    proof (cases "?i < 2 ^ 63")
      case False
      then show ?thesis using ok by (simp add: seqp_def nextval_def Let_def going_def)
    next
      case True
      have next_ok: "going db ?db" using keeps_nextval(2) ok True by (auto simp: keeps_def nextval_def Let_def)
      show ?thesis
      proof (cases "\<exists>n \<in> set (sv_nodes db). nd_code n = ni_node_code info")
        case old: True
        let ?f = "\<lambda>n. n\<lparr>nd_name := ni_name info, nd_status := st, nd_agent_version := ni_agent_version info, nd_last_heartbeat := t\<rparr>"
        have "going ?db (?db\<lparr>sv_nodes := update_where (\<lambda>n. nd_code n = ni_node_code info) ?f (sv_nodes ?db)\<rparr>)"
          by (rule node_refreshed) (use next_ok in \<open>simp_all add: going_def\<close>)
        then have "going db (?db\<lparr>sv_nodes := update_where (\<lambda>n. nd_code n = ni_node_code info) ?f (sv_nodes ?db)\<rparr>)"
          using next_ok unfolding going_def by (blast intro: db_evolves_trans)
        then show ?thesis using True old by (simp add: seqp_def nextval_def Let_def modify_def)
      next
        case new: False
        let ?n = "\<lparr>nd_id = ?i, nd_code = ni_node_code info, nd_name = ni_name info, nd_status = st,
                nd_agent_version = ni_agent_version info, nd_last_heartbeat = t\<rparr>"
        have "going db (db\<lparr>sv_seq := (sv_seq db)\<lparr>sq_node := ?i + 1\<rparr>, sv_nodes := sv_nodes db @ [?n]\<rparr>)"
          by (rule node_added[OF ok refl True]) (use new in auto)
        then show ?thesis using True new by (simp add: seqp_def nextval_def Let_def modify_def)
      qed
    qed
  qed
qed

section \<open>Receipts\<close>

lemma receipt_claimed:
  assumes ok: "server_ok db" and i: "i = sq_receipt (sv_seq db)" "i < 2 ^ 63" and r: "rcp_id r = i" "rcp_response r = None"
    and run: "x \<in> set (sv_runs db)" "run_id x = rcp_run r" "run_node x = rcp_node r"
    and key: "receipt_key r \<notin> receipt_key ` set (sv_receipts db)"
    and report: "rcp_type r = TaskRunReport \<Longrightarrow> rcp_run r \<notin> rcp_run ` set (reports (sv_receipts db))"
  shows "going db (db\<lparr>sv_seq := (sv_seq db)\<lparr>sq_receipt := i + 1\<rparr>, sv_receipts := sv_receipts db @ [r]\<rparr>)"
proof -
  let ?db = "db\<lparr>sv_seq := (sv_seq db)\<lparr>sq_receipt := i + 1\<rparr>, sv_receipts := sv_receipts db @ [r]\<rparr>"
  have "ids_below (map rcp_id (sv_receipts db) @ [i]) (i + 1)" using ok i by (simp add: server_ok_def receipts_ok_def ids_below_append)
  moreover have "completed (reports (sv_receipts db @ [r])) = completed (reports (sv_receipts db))"
    using r(2) by (simp add: completed_def reports_def)
  moreover have "distinct (map rcp_run (reports (sv_receipts db @ [r])))"
    using ok report by (auto simp: server_ok_def receipts_ok_def reports_def)
  ultimately have "receipts_ok ?db" using ok i r key run unfolding server_ok_def receipts_ok_def by auto
  moreover have "runs_ok ?db" "nodes_ok ?db" using ok by (simp_all add: server_ok_def runs_ok_def nodes_ok_def ledger_of_def)
  moreover have "db_evolves db ?db" using i by (auto simp: db_evolves_def ledger_of_def node_ids_def finished_runs_def completed_def)
  ultimately show ?thesis by (simp add: going_def server_ok_def)
qed

lemma receipt_completed:
  assumes ok: "server_ok db" and x: "x \<in> set (sv_receipts db)" "rcp_response x = None"
    and p: "\<And>r. r \<in> set (sv_receipts db) \<Longrightarrow> p r \<longleftrightarrow> r = x" and f: "f x = x\<lparr>rcp_response := resp\<rparr>"
    and run: "rcp_type x = TaskRunReport \<Longrightarrow> \<exists>y \<in> set (sv_runs db). run_id y = rcp_run x \<and> finished (run_status y)"
  shows "going db (db\<lparr>sv_receipts := update_where p f (sv_receipts db)\<rparr>)"
proof -
  let ?rows = "update_where p f (sv_receipts db)"
  let ?db = "db\<lparr>sv_receipts := ?rows\<rparr>"
  have cong: "map k ?rows = map k (sv_receipts db)" if "k (f x) = k x" for k :: "receipt_row \<Rightarrow> 'k"
    using p that by (auto simp: update_where_def)
  have rep: "map rcp_run (reports ?rows) = map rcp_run (reports (sv_receipts db))"
  proof -
    have "map rcp_run (filter (\<lambda>r. rcp_type r = TaskRunReport) (update_where p f rs)) =
        map rcp_run (filter (\<lambda>r. rcp_type r = TaskRunReport) rs)" if "set rs \<subseteq> set (sv_receipts db)" for rs
      using that p f by (induction rs) (auto simp: update_where_Cons)
    then show ?thesis by (simp add: reports_def)
  qed
  have mem: "r = f x \<or> r \<in> set (sv_receipts db)" if "r \<in> set ?rows" for r using that p by (auto simp: set_update_where)
  have "receipts_ok ?db"
    unfolding receipts_ok_def
  proof (intro conjI ballI)
    show "ids_below (map rcp_id (sv_receipts ?db)) (sq_receipt (sv_seq ?db))" "distinct (map receipt_key (sv_receipts ?db))"
      "distinct (map rcp_run (reports (sv_receipts ?db)))"
      using ok cong[of rcp_id] cong[of receipt_key] rep f by (simp_all add: server_ok_def receipts_ok_def receipt_key_def)
  next
    fix r assume "r \<in> set (sv_receipts ?db)"
    then have "r = f x \<or> r \<in> set (sv_receipts db)" using mem by simp
    then show "\<exists>y \<in> set (sv_runs ?db). run_id y = rcp_run r \<and> run_node y = rcp_node r"
      using ok x(1) f by (auto simp: server_ok_def receipts_ok_def)
  next
    fix r assume r: "r \<in> set (completed (reports (sv_receipts ?db)))"
    then have "r = f x \<or> r \<in> set (sv_receipts db)" using mem by (auto simp: completed_def reports_def)
    then show "\<exists>y \<in> set (sv_runs ?db). run_id y = rcp_run r \<and> finished (run_status y)"
      using ok r run f by (auto simp: server_ok_def receipts_ok_def completed_def reports_def)
  qed
  moreover have "runs_ok ?db" "nodes_ok ?db" using ok by (simp_all add: server_ok_def runs_ok_def nodes_ok_def ledger_of_def)
  moreover have "set (completed (sv_receipts db)) \<subseteq> set ?rows"
    using p x(2) by (auto simp: completed_def set_update_where intro!: image_eqI[rotated])
  then have "db_evolves db ?db" by (auto simp: db_evolves_def ledger_of_def node_ids_def finished_runs_def)
  ultimately show ?thesis by (simp add: going_def server_ok_def)
qed

end
