(* ===== verification/Server_Runs.thy ===== *)
theory Server_Runs
  imports Server_Writes
begin

text \<open>
  The operations that start, request and run task runs keep the invariant. PostgreSQL's reading of an
  integer is the only fact about the environment they need.
\<close>

definition pg_integers :: "pg_env \<Rightarrow> bool" where
  "pg_integers env \<longleftrightarrow> (\<forall>s i. pg_bigint env s = Some i \<longrightarrow> is_bigint i) \<and> (\<forall>i. is_bigint i \<longrightarrow> pg_bigint env (int_to_string i) = Some i)"

lemma to_bigint_Inr: "to_bigint env s db = (Inr i, db') \<longleftrightarrow> pg_bigint env s = Some i \<and> db' = db"
  by (auto simp: to_bigint_def split: option.splits)

lemma to_optional_bigint_Inr: "to_optional_bigint env s db = (Inr x, db') \<longleftrightarrow>
    db' = db \<and> (if s = [] then x = None else pg_bigint env s \<noteq> None \<and> x = pg_bigint env s)"
  by (auto simp: to_optional_bigint_def seqp_Inr to_bigint_Inr)

lemma task_of_node_Some: "task_of_node i code db = Some t \<Longrightarrow> t \<in> set (sv_tasks db) \<and> tk_id t = i \<and> tk_node t \<in> nd_id ` set (sv_nodes db)"
  unfolding task_of_node_def on_node_def by (drule find_Some_iff_in) (auto intro: rev_image_eqI)

lemma task_run_select_Some:
  assumes "task_run_select env p db = Some x"
  obtains r n where "r \<in> set (sv_runs db)" "p r" "node_with_id (run_node r) db = Some n" "x = task_run_of env n r"
  using assms by (auto simp: task_run_select_def split: option.splits dest!: find_Some_iff_in)

lemma node_with_id_Some: "node_with_id i db = Some n \<Longrightarrow> n \<in> set (sv_nodes db) \<and> nd_id n = i"
  unfolding node_with_id_def by (auto dest: find_Some_iff_in)

section \<open>Moving a run\<close>

lemma keeps_update_runs:
  assumes "\<And>db r s. server_ok db \<Longrightarrow> r \<in> set (sv_runs db) \<Longrightarrow> s \<in> set (sv_runs db) \<Longrightarrow> p r \<Longrightarrow> p s \<Longrightarrow> r = s"
    and "\<And>r. p r \<Longrightarrow> moves_on r (f r)"
  shows "keeps (update_runs p f)"
proof (rule keepsI)
  fix db assume ok: "server_ok db"
  show "goes (update_runs p f) db"
  proof (cases "\<exists>x \<in> set (sv_runs db). p x")
    case True
    then obtain x where x: "x \<in> set (sv_runs db)" "p x" by blast
    have "going db (db\<lparr>sv_runs := update_where p f (sv_runs db)\<rparr>)"
      by (rule run_moves[OF ok x(1)]) (use assms(1)[OF ok _ x(1) _ x(2)] assms(2)[OF x(2)] x(2) in auto)
    then show ?thesis by (simp add: goes_def update_runs_def modify_def)
  next
    case False
    then have "update_where p f (sv_runs db) = sv_runs db" by (intro update_where_miss) blast
    then show ?thesis using ok by (simp add: goes_def update_runs_def modify_def going_def)
  qed
qed

lemma run_ids_distinct: "server_ok db \<Longrightarrow> distinct (map run_id (sv_runs db))"
  by (simp add: server_ok_def runs_ok_def ids_below_def)

lemma same_run: "server_ok db \<Longrightarrow> r \<in> set (sv_runs db) \<Longrightarrow> s \<in> set (sv_runs db) \<Longrightarrow> run_id r = run_id s \<Longrightarrow> r = s"
  by (rule inj_key_eq[OF run_ids_distinct])

lemma ledger_of_run: "server_ok db \<Longrightarrow> r \<in> set (sv_runs db) \<Longrightarrow> ledger_of db (run_id r) = Some (view_of r)"
  by (rule ledger_of_Some[of db "sq_run (sv_seq db)"]) (simp_all add: server_ok_def runs_ok_def)

lemma pending_manual_waiting: "pending_manual n r \<longleftrightarrow> waiting n (view_of r)"
  by (auto simp: pending_manual_def waiting_def view_of_def)

lemma one_pending_manual:
  assumes "server_ok db" "r \<in> set (sv_runs db)" "s \<in> set (sv_runs db)" "pending_manual n r" "pending_manual n s"
  shows "r = s"
proof -
  have "ledger_ok (ledger_of db)" using assms(1) by (simp add: server_ok_def runs_ok_def)
  from ledger_okD(2)[OF this ledger_of_run[OF assms(1,2)] ledger_of_run[OF assms(1,3)]] assms(4,5)
  have "run_id r = run_id s" by (simp add: pending_manual_waiting)
  then show ?thesis by (rule same_run[OF assms(1-3)])
qed

lemma keeps_mark_running [keeps_intros]: "keeps (mark_manual_running env i t)"
proof -
  have "keeps (update_runs (\<lambda>r. run_id r = n \<and> run_status r = Pending) (\<lambda>r. r\<lparr>run_status := Running, run_started := Some x\<rparr>))" for n x
    by (rule keeps_update_runs) (auto intro: same_run simp: moves_on_def view_of_def)
  then show ?thesis unfolding mark_manual_running_def by (intro keeps_intros)
qed

lemma keeps_fail_pending [keeps_intros]: "keeps (fail_pending_manual_runs env now i e)"
proof -
  have "keeps (update_runs (pending_manual n)
       (\<lambda>r. r\<lparr>run_status := Failed, run_finished := Some now, run_error := Some e, run_failed_files := Some (JArr [])\<rparr>))" for n
    by (rule keeps_update_runs) (auto intro: one_pending_manual simp: moves_on_def view_of_def pending_manual_def)
  then show ?thesis unfolding fail_pending_manual_runs_def by (intro keeps_intros)
qed

section \<open>Adding a run\<close>

lemma goes_append_run:
  assumes "server_ok db" and "run_node row \<in> nd_id ` set (sv_nodes db)" "is_bigint (run_task row)"
    and "ledger_of db (sq_run (sv_seq db)) = None \<Longrightarrow> ledger_step (ledger_of db) ((ledger_of db)(sq_run (sv_seq db) \<mapsto> view_of row))"
  shows "goes (append_run row) db"
  unfolding goes_def
proof (rule run_added[OF assms(1) refl assms(2,3)])
  have "ids_below (map run_id (sv_runs db)) (sq_run (sv_seq db))" using assms(1) by (simp add: server_ok_def runs_ok_def)
  from ids_below_fresh[OF this] show "ledger_step (ledger_of db) ((ledger_of db)(sq_run (sv_seq db) \<mapsto> view_of row))"
    by (intro assms(4)) (simp add: ledger_of_None)
qed

lemma key_free_unless:
  assumes "\<And>x. x \<in> set (sv_runs db) \<Longrightarrow> run_key row = Some k \<Longrightarrow> \<not> same_execution_key (run_node row) k x"
    and "run_key row = Some k \<or> run_key row = None"
  shows "key_free (ledger_of db) (view_of row)"
  unfolding key_free_def has_key_def using assms
  by (auto simp: view_of_def same_execution_key_def dest!: ledger_of_in)

lemma goes_start_run:
  assumes "server_ok db" and "run_node row \<in> nd_id ` set (sv_nodes db)" "is_bigint (run_task row)"
    and "run_status row = Running" "\<not> is_manual_trigger (run_trigger row)" "run_retry_of row = None"
    and "key_free (ledger_of db) (view_of row)"
  shows "goes (append_run row) db"
proof (rule goes_append_run[OF assms(1-3)])
  assume "ledger_of db (sq_run (sv_seq db)) = None"
  then show "ledger_step (ledger_of db) ((ledger_of db)(sq_run (sv_seq db) \<mapsto> view_of row))"
    by (rule ledger_step.started) (use assms in \<open>simp_all add: view_of_def\<close>)
qed

lemma goes_request_run:
  assumes "server_ok db" and "run_node row \<in> nd_id ` set (sv_nodes db)" "is_bigint (run_task row)"
    and "pending_manual (run_task row) row" "\<And>x. x \<in> set (sv_runs db) \<Longrightarrow> \<not> pending_manual (run_task row) x"
    and "key_free (ledger_of db) (view_of row)" "retries_failed (ledger_of db) (view_of row)"
  shows "goes (append_run row) db"
proof (rule goes_append_run[OF assms(1-3)])
  assume "ledger_of db (sq_run (sv_seq db)) = None"
  then show "ledger_step (ledger_of db) ((ledger_of db)(sq_run (sv_seq db) \<mapsto> view_of row))"
  proof (rule ledger_step.requested)
    have task: "rv_task (view_of row) = run_task row" by (simp add: view_of_def)
    show "waiting (rv_task (view_of row)) (view_of row)" using assms(4) by (simp add: task pending_manual_waiting[symmetric])
    fix j w assume "ledger_of db j = Some w"
    then obtain r where "r \<in> set (sv_runs db)" "view_of r = w" using ledger_of_in by blast
    with assms(5) show "\<not> waiting (rv_task (view_of row)) w" by (auto simp: task pending_manual_waiting)
  qed (fact assms)+
qed

lemma started_task:
  assumes "pg_integers env" "to_bigint env s db = (Inr i, db)" "gets (task_of_node i code) db = (Inr x, db)" "x = Some t"
  shows "tk_node t \<in> nd_id ` set (sv_nodes db)" "is_bigint (tk_id t)" "pg_bigint env s = Some (tk_id t)"
  using assms task_of_node_Some[of i code db t] by (auto simp: to_bigint_Inr pg_integers_def)

lemma keeps_run_create:
  assumes env: "pg_integers env" and r: "tr_status r = Running" "\<not> is_manual_trigger (tr_trigger_type r)"
  shows "keeps (run_create env r)"
  unfolding run_create_def
  apply (rule keepsI)
  apply (rule goes_reader, (intro stable_intros), assumption)+
  apply (rule goes_cases)
   apply (rule keeps_goes, (intro keeps_intros), assumption)
  apply (rule goes_reader, (intro stable_intros), assumption)
  apply (rule goes_seqp)
   apply (rule goes_start_run, assumption)
  using r by (auto intro!: key_free_unless keeps_intros intro: started_task[OF env])

lemma keeps_create_or_find_scheduled:
  assumes env: "pg_integers env" and r: "tr_status r = Running" "\<not> is_manual_trigger (tr_trigger_type r)"
  shows "keeps (create_or_find_scheduled env r)"
  unfolding create_or_find_scheduled_def
  apply (rule keepsI)
  apply (rule goes_reader, (intro stable_intros), assumption)+
  apply (rule goes_cases)
   apply (rule keeps_goes, (intro keeps_intros), assumption)
  apply (rule goes_reader, (intro stable_intros), assumption)+
  apply (rule goes_cases)
   apply (rule keeps_goes, (intro keeps_intros), assumption)
  apply (rule goes_seqp)
   apply (rule goes_start_run, assumption)
  using r by (auto intro!: key_free_unless keeps_intros intro: started_task[OF env])

text \<open>A retry names a failed run of its own task.\<close>

definition retries_ok :: "pg_env \<Rightarrow> string \<Rightarrow> string \<Rightarrow> server_db \<Rightarrow> bool" where
  "retries_ok env task_id retry_of db \<longleftrightarrow> (\<forall>p t. retry_of \<noteq> [] \<longrightarrow> pg_bigint env retry_of = Some p \<longrightarrow> pg_bigint env task_id = Some t \<longrightarrow>
     (\<exists>w \<in> set (sv_runs db). run_id w = p \<and> run_status w = Failed \<and> run_task w = t))"

lemma retries_okD:
  assumes "retries_ok env task_id retry_of db" "server_ok db" "pg_bigint env task_id = Some (run_task row)"
    and "to_optional_bigint env retry_of db = (Inr (run_retry_of row), db)"
  shows "retries_failed (ledger_of db) (view_of row)"
proof (cases "run_retry_of row")
  case None
  then show ?thesis by (simp add: retries_failed_def view_of_def)
next
  case (Some p)
  then obtain w where w: "w \<in> set (sv_runs db)" "run_id w = p" "run_status w = Failed" "run_task w = run_task row"
    using assms(1,3,4) by (auto simp: retries_ok_def to_optional_bigint_Inr split: if_splits)
  then show ?thesis using ledger_of_run[OF assms(2) w(1)] Some by (simp add: retries_failed_def view_of_def)
qed

lemma goes_request:
  assumes env: "pg_integers env" and ok: "server_ok db"
    and t: "to_bigint env task_id db = (Inr i, db)" "gets (task_of_node i code) db = (Inr x, db)" "x = Some t"
    and row: "run_node row = tk_node t" "run_task row = tk_id t" "run_status row = Pending" "is_manual_trigger (run_trigger row)"
      "run_key row = Some key"
    and free: "\<not> (\<exists>x \<in> set (sv_runs db). same_execution_key (tk_node t) key x \<or> is_manual_trigger (run_trigger row) \<and> pending_manual (tk_id t) x)"
    and retries: "retries_ok env task_id retry_of db" "to_optional_bigint env retry_of db = (Inr (run_retry_of row), db)"
  shows "goes (append_run row) db"
proof (rule goes_request_run[OF ok])
  note task = started_task[OF env t]
  show "run_node row \<in> nd_id ` set (sv_nodes db)" "is_bigint (run_task row)" using task row by simp_all
  show "pending_manual (run_task row) row" using row by (simp add: pending_manual_def)
  show "\<not> pending_manual (run_task row) x" if "x \<in> set (sv_runs db)" for x using free that row by auto
  show "key_free (ledger_of db) (view_of row)" by (rule key_free_unless) (use free row in auto)
  show "retries_failed (ledger_of db) (view_of row)" by (rule retries_okD[OF retries(1) ok _ retries(2)]) (use task row in simp)
qed

lemma goes_create_or_find_manual:
  assumes env: "pg_integers env" and ok: "server_ok db" and q: "is_manual_trigger (mq_trigger_type q)"
    and retries: "retries_ok env (mq_task_id q) (mq_retry_of_run_id q) db"
  shows "goes (create_or_find_manual env now q) db"
  unfolding create_or_find_manual_def
  using ok
  apply -
  apply (rule goes_reader, (intro stable_intros), assumption)+
  apply (rule goes_cases)
   apply (rule keeps_goes, (intro keeps_intros), assumption)
  apply (rule goes_reader, (intro stable_intros), assumption)+
  apply (rule goes_cases)
   apply (rule keeps_goes, (intro keeps_intros), assumption)
  apply (rule goes_reader, (intro stable_intros), assumption)
  apply (rule goes_cases)
   apply (rule keeps_goes, (intro keeps_intros), assumption)
  apply (rule goes_seqp)
   apply (rule goes_request[OF env _ _ _ _ _ _ _ _ _ _ retries], assumption+)
  using q by (auto simp: gets_def intro!: keeps_intros)

section \<open>The services\<close>

lemma keeps_start_manual [keeps_intros]: "keeps (start_manual env q)"
  unfolding start_manual_def by (intro keeps_intros)

lemma keeps_start_task_run:
  assumes env: "pg_integers env" shows "keeps (start_task_run env q)"
proof -
  have "keeps (run_create env (new_task_run q))" "keeps (create_or_find_scheduled env (new_task_run q))"
    if "\<not> is_manual_trigger (sp_trigger_type q)"
    using that by (auto intro!: keeps_run_create[OF env] keeps_create_or_find_scheduled[OF env] simp: new_task_run_def is_manual_trigger_def)
  then show ?thesis unfolding start_task_run_def Let_def by (intro keeps_intros)
qed

lemma goes_accept_manual:
  assumes "pg_integers env" "server_ok db" "is_manual_trigger (mq_trigger_type q)"
    "retries_ok env (mq_task_id q) (mq_retry_of_run_id q) db"
  shows "goes (accept_manual env now q) db"
  unfolding accept_manual_def
  by (rule goes_seqp[OF goes_create_or_find_manual[OF assms]]) (intro keeps_intros)

lemma goes_apply_manual_run:
  assumes env: "pg_integers env" and ok: "server_ok db" and manual: "is_manual_trigger trigger"
    and retries: "retries_ok env task_id retry_of db"
  shows "goes (apply_manual_run env now trigger task_id retry_of key files) db"
proof -
  have stop: "goes (ret (manual_failed st)) db" "goes (ret (replayed_result x)) db" for st x
    using ok by (simp_all add: goes_def ret_def going_def)
  have accept: "goes (accept_manual env now \<lparr>mq_task_id = task_id, mq_node_code = code, mq_trigger_type = trigger,
      mq_execution_key = k, mq_retry_of_run_id = retry_of, mq_retry_files = files\<rparr>) db" for code k
    by (rule goes_accept_manual[OF env ok]) (use manual retries in simp_all)
  show ?thesis
    unfolding apply_manual_run_def Let_def
    by (intro goes_cases goes_reader[OF _ ok] stable_intros stop accept)
qed

lemma keeps_request_manual_run:
  assumes "pg_integers env" shows "keeps (request_manual_run env now task_id key)"
  unfolding request_manual_run_def
  by (intro keepsI goes_apply_manual_run assms) (simp_all add: is_manual_trigger_def retries_ok_def)

lemma parent_retries_ok:
  assumes env: "pg_integers env" and ok: "server_ok db" and find: "find_by_id env i db = (Inr (Some parent), db)"
    and failed: "tr_status parent = Failed"
  shows "retries_ok env (tr_task_id parent) (tr_id parent) db"
  unfolding retries_ok_def
proof (intro allI impI)
  fix p t assume p: "pg_bigint env (tr_id parent) = Some p" and t: "pg_bigint env (tr_task_id parent) = Some t"
  obtain n where "task_run_select env (\<lambda>r. run_id r = n) db = Some parent"
    using find by (auto simp: find_by_id_def seqp_Inr to_bigint_Inr)
  then obtain r nd where r: "r \<in> set (sv_runs db)" "parent = task_run_of env nd r" by (rule task_run_select_Some)
  have "is_bigint (run_id r)" "is_bigint (run_task r)"
    using ok r(1) by (auto simp: server_ok_def runs_ok_def ids_below_def list_all_iff is_bigint_def)
  then have "run_id r = p" "run_task r = t" using env p t r(2) by (simp_all add: pg_integers_def task_run_of_def id_text_def)
  then show "\<exists>w \<in> set (sv_runs db). run_id w = p \<and> run_status w = Failed \<and> run_task w = t"
    using r failed by (auto simp: task_run_of_def)
qed

lemma keeps_request_retry_run:
  assumes env: "pg_integers env" shows "keeps (request_retry_run env now run key)"
proof (rule keepsI)
  fix db assume ok: "server_ok db"
  have stop: "goes (ret (manual_failed st)) db" "goes (ret (replayed_result x)) db" for st x
    using ok by (simp_all add: goes_def ret_def going_def)
  have run_it: "goes (apply_manual_run env now ''retry'' (tr_task_id parent) (tr_id parent) key files) db"
    if "find_by_id env i db = (Inr found, db)" "found = Some parent" "\<not> tr_status parent \<noteq> Failed" for i found parent files
    by (rule goes_apply_manual_run[OF env ok]) (use that parent_retries_ok[OF env ok] in \<open>auto simp: is_manual_trigger_def\<close>)
  show "goes (request_retry_run env now run key) db"
    unfolding request_retry_run_def
    by (intro goes_cases goes_reader[OF _ ok] stable_intros stop; (rule run_it; assumption)?)
qed

end
