(* ===== verification/Server_Reports.thy ===== *)
theory Server_Reports
  imports Server_Runs Server_Texts
begin

text \<open>
  Accepting manifests and reports: a receipt is claimed, the request is written, the receipt is completed
  with the identifiers of the answer. \<open>yields m db Q\<close> says what a procedure that returns has reached.
\<close>

section \<open>Outcomes\<close>

definition yields :: "'a sproc \<Rightarrow> server_db \<Rightarrow> ('a \<Rightarrow> server_db \<Rightarrow> bool) \<Rightarrow> bool" where
  "yields m db Q \<longleftrightarrow> going db (snd (m db)) \<and> (\<forall>a. fst (m db) = Inr a \<longrightarrow> Q a (snd (m db)))"

lemma yields_Inr: "yields m db Q \<Longrightarrow> m db = (Inr a, db') \<Longrightarrow> going db db' \<and> Q a db'"
  by (simp add: yields_def)

lemma yields_goes: "yields m db Q \<Longrightarrow> goes m db"
  by (simp add: yields_def goes_def)

lemma yields_weaken: "yields m db Q \<Longrightarrow> (\<And>a db'. going db db' \<Longrightarrow> Q a db' \<Longrightarrow> R a db') \<Longrightarrow> yields m db R"
  by (simp add: yields_def)

lemma going_trans: "going a b \<Longrightarrow> going b c \<Longrightarrow> going a c"
  by (auto simp: going_def intro: db_evolves_trans)

lemma yields_seqp:
  assumes "yields m db Q" and "\<And>a db'. going db db' \<Longrightarrow> Q a db' \<Longrightarrow> yields (f a) db' R"
  shows "yields (seqp m f) db R"
proof -
  obtain r db' where d: "m db = (r, db')" by (cases "m db")
  with assms(1) have g: "going db db'" and q: "\<And>a. r = Inr a \<Longrightarrow> Q a db'" by (simp_all add: yields_def)
  show ?thesis
  proof (cases r)
    case (Inl e)
    then show ?thesis using d g by (simp add: yields_def seqp_def)
  next
    case (Inr a)
    then have "yields (f a) db' R" using assms(2)[OF g q] by simp
    then show ?thesis using d g Inr by (auto simp: yields_def seqp_def intro: going_trans)
  qed
qed

lemma yields_stable: "stable f m \<Longrightarrow> yields m db Q \<Longrightarrow> yields m db (\<lambda>a db'. f db' = f db \<and> Q a db')"
  by (simp add: yields_def stable_def)

lemma yields_ret: "server_ok db \<Longrightarrow> Q a db \<Longrightarrow> yields (ret a) db Q"
  by (simp add: yields_def ret_def going_def)

lemma yields_throw: "server_ok db \<Longrightarrow> yields (throw e) db Q"
  by (simp add: yields_def throw_def going_def)

lemma yields_modify: "going db (g db) \<Longrightarrow> Q () (g db) \<Longrightarrow> yields (modify g) db Q"
  by (simp add: yields_def modify_def)

lemma yields_require: "server_ok db \<Longrightarrow> (b \<Longrightarrow> Q () db) \<Longrightarrow> yields (require b e) db Q"
  by (simp add: yields_def require_def going_def)

lemma yields_core: "stable core m \<Longrightarrow> server_ok db \<Longrightarrow> yields m db (\<lambda>_ db'. core db' = core db)"
  unfolding yields_def by (metis goes_def keeps_core keeps_goes stable_def)

lemma yields_reader: "reader m \<Longrightarrow> server_ok db \<Longrightarrow> yields m db (\<lambda>a db'. db' = db \<and> m db = (Inr a, db))"
  unfolding yields_def stable_def going_def by (metis db_evolves_refl prod.collapse)

lemma yields_read:
  assumes "reader m" and "server_ok db" and "\<And>a. m db = (Inr a, db) \<Longrightarrow> yields (f a) db R"
  shows "yields (seqp m f) db R"
  by (rule yields_seqp[OF yields_reader[OF assms(1,2)]]) (use assms(3) in simp)

lemma yields_cases:
  "(b \<Longrightarrow> yields m db Q) \<Longrightarrow> (\<not> b \<Longrightarrow> yields n db Q) \<Longrightarrow> yields (if b then m else n) db Q"
  "(x = None \<Longrightarrow> yields m db Q) \<Longrightarrow> (\<And>y. x = Some y \<Longrightarrow> yields (k y) db Q) \<Longrightarrow> yields (case x of None \<Rightarrow> m | Some y \<Rightarrow> k y) db Q"
  "(\<And>a. z = Inl a \<Longrightarrow> yields (g a) db Q) \<Longrightarrow> (\<And>b. z = Inr b \<Longrightarrow> yields (h b) db Q) \<Longrightarrow>
     yields (case z of Inl a \<Rightarrow> g a | Inr b \<Rightarrow> h b) db Q"
  "(\<And>a b. p = (a, b) \<Longrightarrow> yields (j a b) db Q) \<Longrightarrow> yields (case p of (a, b) \<Rightarrow> j a b) db Q"
  by (simp_all split: option.splits sum.splits prod.splits)

text \<open>A transaction commits where the status is success and otherwise only keeps the sequences.\<close>

lemma going_rollback: "going db db' \<Longrightarrow> server_ok db \<Longrightarrow> going db (db\<lparr>sv_seq := sv_seq db'\<rparr>)"
  by (auto simp: going_def server_ok_def runs_ok_def nodes_ok_def receipts_ok_def db_evolves_def ledger_of_def node_ids_def
      finished_runs_def completed_def ids_below_def list_all_iff)

lemma in_transaction_yields:
  assumes "yields m db Q" and "server_ok db"
  shows "yields (in_transaction f m) db (\<lambda>a db'. (if st_ok (f a) then Q a db' else \<exists>s. db' = db\<lparr>sv_seq := s\<rparr>))"
proof -
  obtain r db' where d: "m db = (r, db')" by (cases "m db")
  with assms(1) have g: "going db db'" and q: "\<And>a. r = Inr a \<Longrightarrow> Q a db'" by (simp_all add: yields_def)
  from going_rollback[OF g assms(2)] g q d show ?thesis by (cases r) (auto simp: yields_def in_transaction_def)
qed

section \<open>Claiming and completing a receipt\<close>

text \<open>The receipt row of a request.\<close>

definition receipt_for :: "pg_env \<Rightarrow> receipt_claim \<Rightarrow> server_db \<Rightarrow> receipt_row \<Rightarrow> bool" where
  "receipt_for env c db r \<longleftrightarrow> rcp_type r = cl_request_type c \<and> rcp_key r = cl_idempotency_key c \<and>
     rcp_fingerprint r = cl_request_fingerprint c \<and> pg_bigint env (cl_task_run_id c) = Some (rcp_run r) \<and>
     (rcp_node r, cl_node_code c) \<in> set (node_ids db)"

definition claimed :: "pg_env \<Rightarrow> receipt_claim \<Rightarrow> int \<Rightarrow> server_db \<Rightarrow> bool" where
  "claimed env c i db \<longleftrightarrow> (\<exists>r \<in> set (sv_receipts db). rcp_id r = i \<and> rcp_response r = None \<and> receipt_for env c db r \<and>
     (\<forall>s \<in> set (sv_receipts db). s \<noteq> r \<longrightarrow> rcp_response s \<noteq> None))"

definition read_response :: "receipt_response \<Rightarrow> receipt_response" where
  "read_response x = \<lparr>rsp_raw_file_ids = read_ids (rsp_raw_file_ids x), rsp_parsed_record_ids = read_ids (rsp_parsed_record_ids x),
     rsp_qc_result_ids = read_ids (rsp_qc_result_ids x), rsp_alert_ids = read_ids (rsp_alert_ids x)\<rparr>"

definition recorded :: "pg_env \<Rightarrow> receipt_claim \<Rightarrow> receipt_response \<Rightarrow> server_db \<Rightarrow> bool" where
  "recorded env c response db \<longleftrightarrow> (\<exists>r \<in> set (sv_receipts db). receipt_for env c db r \<and> map_option read_response (rcp_response r) = Some response)"

lemma claimed_core: "core db' = core db \<Longrightarrow> claimed env c i db' = claimed env c i db"
  by (simp add: core_def claimed_def receipt_for_def node_ids_def)

lemma recorded_evolves:
  assumes "recorded env c response db" "db_evolves db db'"
  shows "recorded env c response db'"
proof -
  obtain r where r: "r \<in> set (sv_receipts db)" "receipt_for env c db r" "map_option read_response (rcp_response r) = Some response"
    using assms(1) by (auto simp: recorded_def)
  then have "r \<in> set (completed (sv_receipts db))" by (auto simp: completed_def)
  then show ?thesis using r assms(2) unfolding recorded_def db_evolves_def receipt_for_def by blast
qed

lemma run_of_node_Some: "run_of_node i code db = Some r \<Longrightarrow> r \<in> set (sv_runs db) \<and> run_id r = i \<and> (run_node r, code) \<in> set (node_ids db)"
  unfolding run_of_node_def on_node_def node_ids_def by (drule find_Some_iff_in) (auto intro: rev_image_eqI)

lemma append_receipt_yields:
  assumes ok: "server_ok db" and full: "receipts_done db" and r: "rcp_response r = None" "receipt_for env c db r"
    and run: "x \<in> set (sv_runs db)" "run_id x = rcp_run r" "run_node x = rcp_node r"
    and free: "\<not> (\<exists>y \<in> set (sv_receipts db). receipt_clash (rcp_node r) (rcp_run r) c y)"
  shows "yields (append_receipt r) db (\<lambda>i db'. is_bigint i \<and> claimed env c i db')"
proof -
  let ?i = "sq_receipt (sv_seq db)"
  let ?r = "r\<lparr>rcp_id := ?i\<rparr>"
  let ?db = "db\<lparr>sv_seq := (sv_seq db)\<lparr>sq_receipt := ?i + 1\<rparr>, sv_receipts := sv_receipts db @ [?r]\<rparr>"
  show ?thesis
  proof (cases "?i < 2 ^ 63")
    case False
    then show ?thesis using ok by (simp add: yields_def append_receipt_def seqp_def nextval_def Let_def going_def)
  next
    case True
    have key: "receipt_key ?r \<notin> receipt_key ` set (sv_receipts db)"
      using free r(2) by (auto simp: receipt_clash_def receipt_key_def receipt_for_def)
    have report: "rcp_run ?r \<notin> rcp_run ` set (reports (sv_receipts db))" if "rcp_type ?r = TaskRunReport"
      using free r(2) that by (auto simp: receipt_clash_def receipt_for_def reports_def)
    have "going db ?db" by (rule receipt_claimed[OF ok refl True _ _ run(1)]) (use r run key report in auto)
    moreover have "is_bigint ?i" using ok True by (simp add: server_ok_def receipts_ok_def ids_below_def is_bigint_def)
    moreover have "claimed env c ?i ?db"
      unfolding claimed_def using full r by (auto simp: receipts_done_def list_all_iff receipt_for_def node_ids_def intro!: bexI[of _ ?r])
    ultimately show ?thesis using True by (simp add: yields_def append_receipt_def seqp_def nextval_def Let_def modify_def ret_def)
  qed
qed

lemma claim_yields:
  assumes ok: "server_ok db" and full: "receipts_done db"
  shows "yields (claim_receipt env c) db (\<lambda>(state, rc) db'.
    if state = Acquired then (\<exists>i. rt_id rc = id_text i \<and> is_bigint i \<and> claimed env c i db') else receipts_done db')"
proof -
  let ?Q = "\<lambda>(state, rc) db'. if state = Acquired then (\<exists>i. rt_id rc = id_text i \<and> is_bigint i \<and> claimed env c i db') else receipts_done db'"
  have old: "yields (existing_receipt env c) db' ?Q" if g: "going db0 db'" "receipts_done db'" for db0 db'
  proof -
    have none: "fst (existing_receipt env c db') \<noteq> Inr (Acquired, x)" for x
      unfolding existing_receipt_def
      by (auto simp: seqp_def gets_def ret_def throw_def to_bigint_def split: prod.splits sum.splits option.splits)
    have "server_ok db'" using g(1) by (simp add: going_def)
    then show ?thesis using yields_reader[OF stable_existing_receipt, of db' env c] none g(2)
      by (auto simp: yields_def split: claim_state.splits)
  qed
  have skip: "yields skip_receipt_id db (\<lambda>_ db'. receipts_done db')"
    using keeps_goes[OF keeps_skips(2) ok] full
    by (auto simp: yields_def goes_def skip_receipt_id_def seqp_def nextval_def Let_def ret_def receipts_done_def)
  have new: "yields (append_receipt \<lparr>rcp_id = 0, rcp_node = run_node r, rcp_run = run_id r, rcp_type = cl_request_type c,
             rcp_key = cl_idempotency_key c, rcp_fingerprint = cl_request_fingerprint c, rcp_response = None\<rparr>) db
      (\<lambda>i db'. is_bigint i \<and> claimed env c i db')"
    if "to_bigint env (cl_task_run_id c) db = (Inr run, db)" "gets (run_of_node run (cl_node_code c)) db = (Inr x, db)" "x = Some r"
      "gets (\<lambda>db. \<exists>x \<in> set (sv_receipts db). receipt_clash (run_node r) (run_id r) c x) db = (Inr t, db)" "\<not> t" for run x r t
    by (rule append_receipt_yields[OF ok full, where x = r])
      (use that run_of_node_Some[of run "cl_node_code c" db r] in \<open>auto simp: receipt_for_def to_bigint_Inr\<close>)
  have "going db db" using ok by (simp add: going_def)
  from old[OF this full] show ?thesis
    unfolding claim_receipt_def
    by (intro yields_read[OF _ ok] stable_intros yields_cases yields_seqp[OF skip old] yields_seqp[OF new] yields_ret)
      (auto simp: going_def new_receipt_def)
qed

lemma completed_row:
  assumes ok: "server_ok db" and c: "claimed env c i db"
    and run: "cl_request_type c = TaskRunReport \<Longrightarrow>
      \<exists>y \<in> set (sv_runs db). pg_bigint env (cl_task_run_id c) = Some (run_id y) \<and> finished (run_status y)"
    and db': "db' = db\<lparr>sv_receipts := update_where (\<lambda>r. rcp_id r = i \<and> rcp_response r = None) (\<lambda>r. r\<lparr>rcp_response := Some resp\<rparr>) (sv_receipts db)\<rparr>"
  shows "going db db' \<and> receipts_done db' \<and> recorded env c (read_response resp) db'"
proof -
  obtain x where x: "x \<in> set (sv_receipts db)" "rcp_id x = i" "rcp_response x = None" "receipt_for env c db x"
    and others: "\<And>s. s \<in> set (sv_receipts db) \<Longrightarrow> s \<noteq> x \<Longrightarrow> rcp_response s \<noteq> None"
    using c by (auto simp: claimed_def)
  have p: "rcp_id r = i \<and> rcp_response r = None \<longleftrightarrow> r = x" if "r \<in> set (sv_receipts db)" for r
    using x others[OF that] by (cases "r = x") simp_all
  have "going db db'"
    unfolding db'
  proof (rule receipt_completed[where x = x and f = "\<lambda>r. r\<lparr>rcp_response := Some resp\<rparr>" and resp = "Some resp", OF ok x(1,3) p])
    assume "rcp_type x = TaskRunReport"
    then show "\<exists>y \<in> set (sv_runs db). run_id y = rcp_run x \<and> finished (run_status y)" using run x(4) by (auto simp: receipt_for_def)
  qed (assumption, rule refl)
  moreover have "receipts_done db'" using p others by (auto simp: db' receipts_done_def list_all_iff set_update_where)
  moreover have "x\<lparr>rcp_response := Some resp\<rparr> \<in> set (sv_receipts db')"
    using x(1) p[OF x(1)] by (auto simp: db' set_update_where intro: rev_image_eqI)
  then have "recorded env c (read_response resp) db'"
    using x(4) unfolding recorded_def by (intro bexI[where x = "x\<lparr>rcp_response := Some resp\<rparr>"]) (simp_all add: db' receipt_for_def node_ids_def)
  ultimately show ?thesis by blast
qed

lemma complete_yields:
  assumes env: "pg_integers env" and ok: "server_ok db" and c: "claimed env c i db" and i: "is_bigint i"
    and run: "cl_request_type c = TaskRunReport \<Longrightarrow>
      \<exists>y \<in> set (sv_runs db). pg_bigint env (cl_task_run_id c) = Some (run_id y) \<and> finished (run_status y)"
  shows "yields (complete_receipt env (id_text i) response) db (\<lambda>_ db'. receipts_done db' \<and> recorded env c response db')"
proof -
  have tail: "yields (modify (\<lambda>db. db\<lparr>sv_receipts := update_where (\<lambda>r. rcp_id r = n \<and> rcp_response r = None)
         (\<lambda>r. r\<lparr>rcp_response := Some \<lparr>rsp_raw_file_ids = stored_ids raw, rsp_parsed_record_ids = stored_ids records,
            rsp_qc_result_ids = stored_ids results, rsp_alert_ids = stored_ids alerts\<rparr>\<rparr>) (sv_receipts db)\<rparr>)) db
      (\<lambda>_ db'. receipts_done db' \<and> recorded env c response db')"
    if "lift_sum (join_ids (rsp_raw_file_ids response)) db = (Inr raw, db)" "lift_sum (join_ids (rsp_parsed_record_ids response)) db = (Inr records, db)"
      "lift_sum (join_ids (rsp_qc_result_ids response)) db = (Inr results, db)" "lift_sum (join_ids (rsp_alert_ids response)) db = (Inr alerts, db)"
      "to_bigint env (id_text i) db = (Inr n, db)" for raw records results alerts n
  proof -
    have "n = i" using that(5) env i by (simp add: to_bigint_Inr pg_integers_def id_text_def)
    moreover have "read_response \<lparr>rsp_raw_file_ids = stored_ids raw, rsp_parsed_record_ids = stored_ids records,
            rsp_qc_result_ids = stored_ids results, rsp_alert_ids = stored_ids alerts\<rparr> = response"
      using that(1-4) by (auto simp: read_response_def dest!: join_ids_Inr)
    ultimately show ?thesis using completed_row[OF ok c run] by (intro yields_modify) auto
  qed
  show ?thesis
    unfolding complete_receipt_def Let_def
    by (intro yields_read[OF _ ok] stable_intros yields_seqp[OF tail] yields_require) (auto simp: going_def)
qed

section \<open>Finishing a run\<close>

definition run_open :: "pg_env \<Rightarrow> string \<Rightarrow> server_db \<Rightarrow> bool" where
  "run_open env i db \<longleftrightarrow> (\<forall>r \<in> set (sv_runs db). pg_bigint env i = Some (run_id r) \<longrightarrow> \<not> finished (run_status r))"

lemma find_by_id_Some:
  assumes "find_by_id env i db = (Inr (Some x), db')"
  obtains r n where "r \<in> set (sv_runs db)" "pg_bigint env i = Some (run_id r)" "(run_node r, nd_code n) \<in> set (node_ids db)"
    "x = task_run_of env n r"
proof -
  obtain k where k: "pg_bigint env i = Some k" "task_run_select env (\<lambda>r. run_id r = k) db = Some x"
    using assms by (auto simp: find_by_id_def seqp_Inr to_bigint_Inr)
  from k(2) obtain r n where r: "r \<in> set (sv_runs db)" "run_id r = k" "node_with_id (run_node r) db = Some n" "x = task_run_of env n r"
    by (rule task_run_select_Some)
  have "n \<in> set (sv_nodes db)" "nd_id n = run_node r" using node_with_id_Some[OF r(3)] by simp_all
  then have "(run_node r, nd_code n) \<in> set (node_ids db)" by (auto simp: node_ids_def intro: rev_image_eqI)
  then show thesis using that r(1,4) k(1) unfolding r(2)[symmetric] by blast
qed

lemma run_id_bigint: "server_ok db \<Longrightarrow> r \<in> set (sv_runs db) \<Longrightarrow> is_bigint (run_id r)"
  by (auto simp: server_ok_def runs_ok_def ids_below_def list_all_iff is_bigint_def)

lemma run_finish_yields:
  assumes env: "pg_integers env" and ok: "server_ok db" and r: "r \<in> set (sv_runs db)" "\<not> finished (run_status r)"
    and x: "tr_id x = id_text (run_id r)" "finished (tr_status x)"
  shows "yields (run_finish env x) db (\<lambda>_ db'. (\<exists>y \<in> set (sv_runs db'). run_id y = run_id r \<and> finished (run_status y)) \<and>
    sv_receipts db' = sv_receipts db \<and> node_ids db' = node_ids db)"
proof -
  let ?f = "\<lambda>fin files y. y\<lparr>run_status := tr_status x, run_finished := fin, run_total := tr_items_total x,
            run_success := tr_items_success x, run_failed := tr_items_failed x,
            run_error := nullif_empty (tr_error_summary x), run_failed_files := files\<rparr>"
  have "yields (update_runs (\<lambda>y. run_id y = i) (?f fin files)) db (\<lambda>_ db'. (\<exists>y \<in> set (sv_runs db'). run_id y = run_id r \<and> finished (run_status y)) \<and>
    sv_receipts db' = sv_receipts db \<and> node_ids db' = node_ids db)" if "to_bigint env (tr_id x) db = (Inr i, db)" for i fin files
  proof -
    have i: "i = run_id r" using that env run_id_bigint[OF ok r(1)] x(1) by (simp add: to_bigint_Inr pg_integers_def id_text_def)
    have "going db (db\<lparr>sv_runs := update_where (\<lambda>y. run_id y = i) (?f fin files) (sv_runs db)\<rparr>)"
      by (rule run_moves[OF ok r(1)]) (use i r x same_run[OF ok _ r(1)] in \<open>auto simp: moves_on_def view_of_def\<close>)
    moreover have "?f fin files r \<in> set (update_where (\<lambda>y. run_id y = i) (?f fin files) (sv_runs db))"
      using r(1) i by (auto simp: set_update_where intro: rev_image_eqI)
    then have "\<exists>y \<in> set (update_where (\<lambda>y. run_id y = i) (?f fin files) (sv_runs db)). run_id y = run_id r \<and> finished (run_status y)"
      using x(2) by (intro bexI[where x = "?f fin files r"]) simp_all
    ultimately show ?thesis unfolding update_runs_def by (intro yields_modify) (simp_all add: node_ids_def)
  qed
  then show ?thesis unfolding run_finish_def by (intro yields_read[OF _ ok] stable_intros)
qed

lemma finish_yields:
  assumes env: "pg_integers env" and ok: "server_ok db" and free: "run_open env (fq_task_run_id q) db"
  shows "yields (finish_task_run env q) db (\<lambda>s db'. st_ok s \<longrightarrow>
    (\<exists>y \<in> set (sv_runs db'). pg_bigint env (fq_task_run_id q) = Some (run_id y) \<and> finished (run_status y)) \<and>
    sv_receipts db' = sv_receipts db \<and> node_ids db' = node_ids db)"
proof -
  have stop: "yields (ret s) db (\<lambda>s db'. st_ok s \<longrightarrow> P db')" if "\<not> st_ok s" for s P using ok that by (intro yields_ret) simp_all
  have act: "yields (seqp (run_finish env (run\<lparr>tr_status := fq_status q, tr_finished_at := fq_finished_at q,
              tr_items_total := fq_items_total q, tr_items_success := fq_items_success q, tr_items_failed := fq_items_failed q,
              tr_error_summary := fq_error_summary q, tr_failed_files_json := doc\<rparr>)) (\<lambda>_. ret status_success)) db
      (\<lambda>s db'. st_ok s \<longrightarrow> (\<exists>y \<in> set (sv_runs db'). pg_bigint env (fq_task_run_id q) = Some (run_id y) \<and> finished (run_status y)) \<and>
    sv_receipts db' = sv_receipts db \<and> node_ids db' = node_ids db)"
    if "find_by_id env (fq_task_run_id q) db = (Inr x, db)" "x = Some run" "\<not> (fq_status q \<noteq> Succeeded \<and> fq_status q \<noteq> Failed)" for run x doc
  proof -
    have found: "find_by_id env (fq_task_run_id q) db = (Inr (Some run), db)" using that(1,2) by simp
    obtain r n where r: "r \<in> set (sv_runs db)" "pg_bigint env (fq_task_run_id q) = Some (run_id r)" "run = task_run_of env n r"
      using found by (rule find_by_id_Some)
    then have "\<not> finished (run_status r)" using free by (simp add: run_open_def)
    then show ?thesis
      by (intro yields_seqp[OF run_finish_yields[OF env ok r(1)]] yields_ret)
        (use r that(3) in \<open>auto simp: task_run_of_def going_def eq_commute[of "run_id r"]\<close>)
  qed
  show ?thesis
    unfolding finish_task_run_def
    by (intro yields_cases yields_read[OF _ ok] stable_intros stop act; (assumption | simp)?)
qed

section \<open>Manifests\<close>

definition manifest_claim :: "pg_env \<Rightarrow> run_manifest \<Rightarrow> receipt_claim" where
  "manifest_claim env q = \<lparr>cl_task_run_id = rm_task_run_id q, cl_node_code = rm_node_code q, cl_request_type = RawFileManifest,
     cl_idempotency_key = rm_idempotency_key q, cl_request_fingerprint = manifest_fingerprint env q\<rparr>"

definition manifest_response :: "manifest_result \<Rightarrow> receipt_response" where
  "manifest_response a = empty_response\<lparr>rsp_raw_file_ids := ma_raw_file_ids a\<rparr>"

definition manifest_accepted :: "pg_env \<Rightarrow> run_manifest \<Rightarrow> manifest_result \<Rightarrow> server_db \<Rightarrow> bool" where
  "manifest_accepted env q a db' \<longleftrightarrow> (st_ok (ma_status a) \<longrightarrow> receipts_done db' \<and>
     (\<not> ma_replayed a \<longrightarrow> recorded env (manifest_claim env q) (manifest_response a) db'))"

lemma ownership_refused: "validate_task_run_node env i code db = (Inr (Inl s), db') \<Longrightarrow> \<not> st_ok s"
  unfolding validate_task_run_node_def
  by (auto simp: seqp_Inr ret_def split: if_splits option.splits)

lemma manifest_yields:
  assumes env: "pg_integers env" and ok: "server_ok db" and full: "receipts_done db"
  shows "yields (accept_raw_file_manifest env q) db (manifest_accepted env q)"
proof -
  let ?c = "manifest_claim env q"
  have stop: "server_ok d \<Longrightarrow> \<not> st_ok (ma_status a) \<Longrightarrow> yields (ret a) d (manifest_accepted env q)" for a d
    by (intro yields_ret) (simp_all add: manifest_accepted_def)
  have put: "yields (seqp (record_files env q [] (rm_files q)) (\<lambda>(s, ids).
            if \<not> st_ok s then ret \<lparr>ma_status = s, ma_raw_file_ids = ids, ma_replayed = False\<rparr>
            else seqp (complete_receipt env (rt_id rc) (empty_response\<lparr>rsp_raw_file_ids := ids\<rparr>)) (\<lambda>_.
              ret \<lparr>ma_status = status_success, ma_raw_file_ids = ids, ma_replayed = False\<rparr>))) d (manifest_accepted env q)"
    if "server_ok d" "rt_id rc = id_text i" "is_bigint i" "claimed env ?c i d" for d rc i
  proof (rule yields_seqp[OF yields_core[OF core_record_files that(1)]])
    fix a d' assume g: "going d d'" and same: "core d' = core d"
    then have c: "claimed env ?c i d'" and ok': "server_ok d'" using that(4) by (simp_all add: claimed_core[OF same] going_def)
    show "yields (case a of (s, ids) \<Rightarrow>
            if \<not> st_ok s then ret \<lparr>ma_status = s, ma_raw_file_ids = ids, ma_replayed = False\<rparr>
            else seqp (complete_receipt env (rt_id rc) (empty_response\<lparr>rsp_raw_file_ids := ids\<rparr>)) (\<lambda>_.
              ret \<lparr>ma_status = status_success, ma_raw_file_ids = ids, ma_replayed = False\<rparr>)) d' (manifest_accepted env q)"
      unfolding that(2)
      by (intro yields_cases stop ok' yields_seqp[OF complete_yields[OF env ok' c that(3)]] yields_ret)
        (simp_all add: manifest_claim_def manifest_accepted_def manifest_response_def going_def)
  qed
  show ?thesis
    unfolding accept_raw_file_manifest_def manifest_claim_def[symmetric]
    by (intro yields_seqp[OF claim_yields[OF ok full]] yields_cases yields_read[OF _ ok] stable_ownership yields_ret ok)
      (auto simp: going_def manifest_failed_def manifest_accepted_def claim_error_def dest: ownership_refused intro!: put split: if_splits)
qed

section \<open>Reports\<close>

definition report_claim :: "pg_env \<Rightarrow> run_report \<Rightarrow> receipt_claim" where
  "report_claim env q = \<lparr>cl_task_run_id = ro_task_run_id q, cl_node_code = ro_node_code q, cl_request_type = TaskRunReport,
     cl_idempotency_key = ro_idempotency_key q, cl_request_fingerprint = report_fingerprint env q\<rparr>"

definition report_response :: "report_result \<Rightarrow> receipt_response" where
  "report_response a = \<lparr>rsp_raw_file_ids = [], rsp_parsed_record_ids = re_parsed_record_ids a, rsp_qc_result_ids = re_qc_result_ids a,
     rsp_alert_ids = re_alert_ids a\<rparr>"

definition report_accepted :: "pg_env \<Rightarrow> run_report \<Rightarrow> report_result \<Rightarrow> server_db \<Rightarrow> bool" where
  "report_accepted env q a db' \<longleftrightarrow> (st_ok (re_status a) \<longrightarrow> receipts_done db' \<and>
     (\<not> re_replayed a \<longrightarrow> recorded env (report_claim env q) (report_response a) db'))"

lemma ownership_accepted:
  assumes "validate_task_run_node env i code db = (Inr (Inr run), db')"
  shows "find_by_id env i db = (Inr (Some run), db')" and "tr_node_code run = code" and "i \<noteq> []" and "code \<noteq> []"
  using assms unfolding validate_task_run_node_def find_run_def
  by (auto simp: seqp_Inr ret_def split: if_splits option.splits)

lemma ownership_open:
  assumes "server_ok db" and "validate_task_run_node env i code db = (Inr (Inr run), db)" and "\<not> is_terminal_status (tr_status run)"
  shows "run_open env i db"
proof -
  obtain r n where r: "r \<in> set (sv_runs db)" "pg_bigint env i = Some (run_id r)" "run = task_run_of env n r"
    using ownership_accepted(1)[OF assms(2)] by (rule find_by_id_Some)
  have "x = r" if "x \<in> set (sv_runs db)" "pg_bigint env i = Some (run_id x)" for x
    using that r same_run[OF assms(1) that(1) r(1)] by simp
  then show ?thesis using assms(3) r by (auto simp: run_open_def is_terminal_status_def task_run_of_def)
qed

lemma run_open_core: "core db' = core db \<Longrightarrow> run_open env i db' = run_open env i db"
  by (simp add: core_def run_open_def)

lemma run_open_runs: "sv_runs db' = sv_runs db \<Longrightarrow> run_open env i db' = run_open env i db"
  by (simp add: run_open_def)

lemma claim_keeps_runs: "stable sv_runs (claim_receipt env c)"
proof -
  have "stable sv_runs (nextval sq_receipt sq_receipt_update)" by (simp add: stable_def nextval_def Let_def)
  then show ?thesis
    unfolding claim_receipt_def skip_receipt_id_def append_receipt_def
    by (intro stable_intros stable_modify) simp_all
qed

lemma write_report_yields:
  assumes env: "pg_integers env" and ok: "server_ok db" and rc: "rt_id rc = id_text i" "is_bigint i"
    and c: "claimed env (report_claim env q) i db" and free: "run_open env (ro_task_run_id q) db"
  shows "yields (write_report env q rc) db (report_accepted env q)"
  unfolding write_report_def
proof (rule yields_seqp[OF yields_core[OF core_record_parsed ok]])
  fix a d assume g: "going db d" and same: "core d = core db"
  let ?c = "report_claim env q"
  have ok': "server_ok d" using g by (simp add: going_def)
  have c': "claimed env ?c i d" and free': "run_open env (ro_task_run_id q) d"
    using c free by (simp_all add: claimed_core[OF same] run_open_core[OF same])
  let ?fq = "\<lparr>fq_task_run_id = ro_task_run_id q, fq_status = ro_status q, fq_finished_at = ro_finished_at q,
           fq_items_total = ro_items_total q, fq_items_success = ro_items_success q, fq_items_failed = ro_items_failed q,
           fq_error_summary = ro_error_summary q, fq_has_failed_files = ro_has_failed_files q, fq_failed_files = ro_failed_files q\<rparr>"
  have stop: "yields (ret (report_outcome st acc False)) e (report_accepted env q)" if "server_ok e" "\<not> st_ok st" for e st acc
    using that by (intro yields_ret) (simp_all add: report_accepted_def report_outcome_def split: prod.splits)
  have finish: "yields (finish_task_run env ?fq) d (\<lambda>st e. st_ok st \<longrightarrow>
      (\<exists>y \<in> set (sv_runs e). pg_bigint env (ro_task_run_id q) = Some (run_id y) \<and> finished (run_status y)) \<and>
      claimed env ?c i e)"
    by (rule yields_weaken[OF finish_yields[OF env ok']]) (use c' free' in \<open>auto simp: claimed_def receipt_for_def\<close>)
  show "yields (case a of (s, acc) \<Rightarrow>
     if \<not> st_ok s then ret (report_outcome s acc False)
     else seqp (finish_task_run env ?fq) (\<lambda>s.
       if \<not> st_ok s then ret (report_outcome s acc False)
       else let (records, results, alerts) = acc in
         seqp (complete_receipt env (rt_id rc)
             \<lparr>rsp_raw_file_ids = [], rsp_parsed_record_ids = records, rsp_qc_result_ids = results, rsp_alert_ids = alerts\<rparr>) (\<lambda>_.
           ret (report_outcome status_success acc False)))) d (report_accepted env q)"
    unfolding rc(1) Let_def
    by (intro yields_cases yields_seqp[OF finish] stop ok' yields_seqp[OF complete_yields[OF env _ _ rc(2)]] yields_ret)
      (auto simp: going_def report_claim_def report_accepted_def report_outcome_def report_response_def)
qed

lemma report_yields:
  assumes env: "pg_integers env" and ok: "server_ok db" and full: "receipts_done db"
  shows "yields (accept_task_run_report env q) db (report_accepted env q)"
proof -
  let ?c = "report_claim env q"
  have stop: "server_ok d \<Longrightarrow> \<not> st_ok st \<Longrightarrow> yields (ret (report_failed st)) d (report_accepted env q)" for st d
    by (intro yields_ret) (simp_all add: report_accepted_def report_failed_def)
  have put: "yields (check_and_write_report env q run rc) d (report_accepted env q)"
    if "server_ok d" "rt_id rc = id_text i" "is_bigint i" "claimed env ?c i d"
      "sv_runs d = sv_runs db" "validate_task_run_node env (ro_task_run_id q) code db = (Inr (Inr run), db)" for d rc i run code
    unfolding check_and_write_report_def
    by (intro yields_cases yields_read[OF _ that(1)] stable_intros stop that(1) write_report_yields[OF env that(1-4)])
      (use ownership_open[OF ok that(6)] run_open_runs[OF that(5)] in auto)
  show ?thesis
    unfolding accept_task_run_report_def report_claim_def[symmetric]
    by (intro yields_seqp[OF yields_stable[OF claim_keeps_runs claim_yields[OF ok full]]] yields_cases yields_read[OF _ ok]
        stable_ownership yields_ret ok)
      (auto simp: going_def report_failed_def report_accepted_def claim_error_def
         dest: ownership_refused intro: put split: if_splits)
qed

end
