(* ===== verification/Server_Calls.thy ===== *)
theory Server_Calls
  imports Server_Reports
begin

text \<open>
  The calls the control plane serves, each in its transaction, and the databases they lead to. The
  invariant holds of all of them, and every call is a sequence of ledger steps.
\<close>

section \<open>Calls\<close>

datatype server_call =
    StartRun start_run_request
  | TriggerRun string string
  | RetryRun string string
  | AcceptManifest run_manifest
  | AcceptReport run_report
  | CreateDataSource data_source_create
  | CreateQcRule qc_rule_create
  | CreateTask task_create
  | SetTaskEnabled string bool
  | DisposeAlert string bool
  | RegisterNode node_info
  | Heartbeat node_heartbeat

definition answered :: "'a sproc \<Rightarrow> unit sproc" where
  "answered m = seqp m (\<lambda>_. ret ())"

fun serve :: "pg_env \<Rightarrow> int \<Rightarrow> server_call \<Rightarrow> unit sproc" where
  "serve env now (StartRun q) = answered (execute_start env q)"
| "serve env now (TriggerRun task key) = answered (execute_manual_run env now task key)"
| "serve env now (RetryRun run key) = answered (execute_retry_run env now run key)"
| "serve env now (AcceptManifest q) = answered (execute_manifest env q)"
| "serve env now (AcceptReport q) = answered (execute_report env q)"
| "serve env now (CreateDataSource q) = answered (execute_command (create_data_source env q))"
| "serve env now (CreateQcRule q) = answered (execute_command (create_qc_rule env q))"
| "serve env now (CreateTask q) = answered (execute_command (create_task env q))"
| "serve env now (SetTaskEnabled task enabled) = answered (execute_command (set_task_enabled env now task enabled))"
| "serve env now (DisposeAlert alert acknowledge) = answered (execute_disposition env now alert acknowledge)"
| "serve env now (RegisterNode n) = answered (register_node env n)"
| "serve env now (Heartbeat h) = answered (accept_heartbeat env h)"

definition empty_server :: server_db where
  "empty_server = \<lparr>sv_nodes = [], sv_sources = [], sv_tasks = [], sv_bindings = [], sv_rules = [], sv_runs = [],
     sv_raw_files = [], sv_records = [], sv_results = [], sv_alerts = [], sv_receipts = [],
     sv_seq = \<lparr>sq_node = 1, sq_source = 1, sq_task = 1, sq_run = 1, sq_raw = 1, sq_record = 1, sq_rule = 1, sq_result = 1,
       sq_alert = 1, sq_receipt = 1\<rparr>\<rparr>"

definition server_step :: "pg_env \<Rightarrow> server_db \<Rightarrow> server_db \<Rightarrow> bool" where
  "server_step env db db' \<longleftrightarrow> pg_integers env \<and> (\<exists>now c r. serve env now c db = (r, db'))"

definition server_good :: "server_db \<Rightarrow> bool" where
  "server_good db \<longleftrightarrow> server_ok db \<and> receipts_done db"

section \<open>Calls that leave the receipts alone\<close>

lemma core_receipts: "stable core m \<Longrightarrow> stable sv_receipts m"
  by (simp add: stable_def core_def)

lemma receipts_basic [stable_intros]:
  "stable sv_receipts (nextval sq_run sq_run_update)" "stable sv_receipts (nextval sq_node sq_node_update)"
  "stable sv_receipts (modify (\<lambda>db. db\<lparr>sv_runs := f1 db\<rparr>))"
  "stable sv_receipts (modify (\<lambda>db. if b db then db\<lparr>sv_nodes := f2 db\<rparr> else db\<lparr>sv_nodes := f3 db\<rparr>))"
  by (simp_all add: stable_def nextval_def Let_def modify_def)

lemmas receipts_core [stable_intros] = core_config [THEN core_receipts]

lemma receipts_runs [stable_intros]:
  "stable sv_receipts (append_run row)" "stable sv_receipts skip_run_id" "stable sv_receipts (update_runs p g)"
  unfolding append_run_def skip_run_id_def update_runs_def by (intro stable_intros)+

lemma receipts_run_repository [stable_intros]:
  "stable sv_receipts (run_create env r)" "stable sv_receipts (create_or_find_scheduled env r)"
  "stable sv_receipts (create_or_find_manual env now q)" "stable sv_receipts (mark_manual_running env i t)"
  "stable sv_receipts (fail_pending_manual_runs env now i e)"
  unfolding run_create_def create_or_find_scheduled_def create_or_find_manual_def mark_manual_running_def fail_pending_manual_runs_def
  by (intro stable_intros)+

lemma receipts_start_manual [stable_intros]: "stable sv_receipts (start_manual env q)" "stable sv_receipts (accept_manual env now mq)"
  unfolding start_manual_def accept_manual_def by (intro stable_intros)+

lemma receipts_apply_manual [stable_intros]: "stable sv_receipts (apply_manual_run env now trigger task retry_of key files)"
  unfolding apply_manual_run_def Let_def by (intro stable_intros)

lemma receipts_services:
  "stable sv_receipts (start_task_run env q)" "stable sv_receipts (request_manual_run env now task key)"
  "stable sv_receipts (request_retry_run env now run key)" "stable sv_receipts (set_task_enabled env now task b)"
  "stable sv_receipts (upsert_node env info st h)"
  unfolding start_task_run_def Let_def request_manual_run_def request_retry_run_def set_task_enabled_def upsert_node_def
  by (intro stable_intros)+

lemma receipts_nodes: "stable sv_receipts (register_node env n)" "stable sv_receipts (accept_heartbeat env h)"
  unfolding register_node_def accept_heartbeat_def by (intro stable_intros receipts_services)+

section \<open>What every call keeps\<close>

lemma keeps_set_task_enabled: "keeps (set_task_enabled env now task b)"
  unfolding set_task_enabled_def by (intro keeps_intros)

lemma keeps_nodes: "keeps (register_node env n)" "keeps (accept_heartbeat env h)"
  unfolding register_node_def accept_heartbeat_def by (intro keeps_intros)+

definition kept_by :: "'a sproc \<Rightarrow> server_db \<Rightarrow> bool" where
  "kept_by m db \<longleftrightarrow> server_good (snd (m db)) \<and> db_evolves db (snd (m db))"

lemma good_in_transaction:
  assumes m: "yields m db (\<lambda>a db'. st_ok (f a) \<longrightarrow> receipts_done db')" and good: "server_good db"
  shows "kept_by (in_transaction f m) db"
proof -
  have ok: "server_ok db" and full: "receipts_done db" using good by (simp_all add: server_good_def)
  obtain r db' where d: "m db = (r, db')" by (cases "m db")
  have g: "going db db'" and full': "\<And>a. r = Inr a \<Longrightarrow> st_ok (f a) \<Longrightarrow> receipts_done db'" using m d by (auto simp: yields_def)
  have undone: "going db (db\<lparr>sv_seq := sv_seq db'\<rparr>)" "receipts_done (db\<lparr>sv_seq := sv_seq db'\<rparr>)"
    using going_rollback[OF g ok] full by (simp_all add: receipts_done_def)
  show ?thesis
    using d g full' undone by (cases r) (simp_all add: kept_by_def in_transaction_def going_def server_good_def)
qed

lemma kept_alone:
  assumes "keeps m" "stable sv_receipts m" "server_good db" shows "kept_by m db"
  using keeps_goes[OF assms(1)] assms(2,3)
  by (simp add: kept_by_def goes_def going_def server_good_def stable_def receipts_done_def)

lemma kept_in_transaction:
  assumes "keeps m" "stable sv_receipts m" "server_good db" shows "kept_by (in_transaction f m) db"
  by (rule good_in_transaction[OF _ assms(3)])
    (use kept_alone[OF assms] assms keeps_goes[OF assms(1)] in \<open>simp add: yields_def goes_def kept_by_def server_good_def\<close>)

lemma kept_answered: "kept_by m db \<Longrightarrow> kept_by (answered m) db"
  by (cases "m db"; cases "fst (m db)") (auto simp: kept_by_def answered_def seqp_def ret_def)

lemma serve_kept:
  assumes env: "pg_integers env" and good: "server_good db"
  shows "kept_by (serve env now c) db"
proof (cases c)
  case (AcceptManifest q)
  have "yields (accept_raw_file_manifest env q) db (\<lambda>a db'. st_ok (ma_status a) \<longrightarrow> receipts_done db')"
    by (rule yields_weaken[OF manifest_yields[OF env]]) (use good in \<open>simp_all add: server_good_def manifest_accepted_def\<close>)
  then show ?thesis unfolding AcceptManifest serve.simps execute_manifest_def
    by (intro kept_answered good_in_transaction good)
next
  case (AcceptReport q)
  have "yields (accept_task_run_report env q) db (\<lambda>a db'. st_ok (re_status a) \<longrightarrow> receipts_done db')"
    by (rule yields_weaken[OF report_yields[OF env]]) (use good in \<open>simp_all add: server_good_def report_accepted_def\<close>)
  then show ?thesis unfolding AcceptReport serve.simps execute_report_def
    by (intro kept_answered good_in_transaction good)
qed (simp_all add: execute_start_def execute_manual_run_def execute_retry_run_def execute_command_def execute_disposition_def,
     (intro kept_answered kept_in_transaction kept_alone good keeps_start_task_run[OF env] keeps_request_manual_run[OF env]
        keeps_request_retry_run[OF env] keeps_set_task_enabled keeps_nodes receipts_services receipts_nodes keeps_intros
        core_receipts core_services core_create_task core_dispose)+)

section \<open>Every database the server gets into\<close>

lemma empty_good: "server_good empty_server"
  by (simp add: server_good_def server_ok_def runs_ok_def nodes_ok_def receipts_ok_def receipts_done_def empty_server_def
      ids_below_def ledger_of_def ledger_ok_def reports_def completed_def)

interpretation server: invariant_system "\<lambda>db. db = empty_server" "server_step env" server_good
proof
  show "server_good db" if "db = empty_server" for db using that empty_good by simp
  show "server_good db'" if "server_good db" "server_step env db db'" for db db'
    using that serve_kept[of env db] by (auto simp: server_step_def kept_by_def) (metis snd_conv)
qed

lemma serve_evolves: "server_good db \<Longrightarrow> server_step env db db' \<Longrightarrow> db_evolves db db'"
  using serve_kept[of env db] by (auto simp: server_step_def kept_by_def) (metis snd_conv)

lemma steps_evolve: "(server_step env)\<^sup>*\<^sup>* db db' \<Longrightarrow> server_good db \<Longrightarrow> server_good db' \<and> db_evolves db db'"
proof (induction rule: rtranclp_induct)
  case base
  then show ?case by simp
next
  case (step d e)
  then have d: "server_good d" "db_evolves db d" by simp_all
  have "server_good e" using server.step_inv[OF d(1) step.hyps(2)] .
  then show ?case using db_evolves_trans[OF d(2) serve_evolves[OF d(1) step.hyps(2)]] by blast
qed

lemma reachable_ledger:
  assumes "reachable (\<lambda>db. db = empty_server) (server_step env) db"
  shows "reachable (\<lambda>l. l = Map.empty) ledger_step (ledger_of db)"
  using assms
proof (induction rule: reachable.induct)
  case (reachable_init db)
  then show ?case by (auto simp: empty_server_def ledger_of_def intro: reachable.reachable_init)
next
  case (reachable_step db db')
  have "ledger_step\<^sup>*\<^sup>* (ledger_of db) (ledger_of db')"
    using serve_evolves[OF server.reachable_inv[OF reachable_step.hyps(1)] reachable_step.hyps(2)] by (simp add: db_evolves_def)
  then show ?case using reachable_step.IH by (induction rule: rtranclp_induct) (auto intro: reachable.reachable_step)
qed

end
