(* ===== verification/Server_Replays.thy ===== *)
theory Server_Replays
  imports Server_Calls
begin

text \<open>
  Requests that come again: a claim finds the completed receipt of the same request, and a report of a run
  that has one never gets past its claim.
\<close>

lemma find_unique: "x \<in> set xs \<Longrightarrow> p x \<Longrightarrow> (\<And>y. y \<in> set xs \<Longrightarrow> p y \<Longrightarrow> y = x) \<Longrightarrow> find p xs = Some x"
proof (induction xs)
  case (Cons z zs)
  show ?case
  proof (cases "p z")
    case True
    then have "z = x" using Cons.prems(3)[of z] by simp
    then show ?thesis using True by simp
  next
    case False
    then have "z \<noteq> x" using Cons.prems(2) by metis
    then have "x \<in> set zs" using Cons.prems(1) by simp
    moreover have "y = x" if "y \<in> set zs" "p y" for y by (rule Cons.prems(3)) (use that in simp_all)
    ultimately have "find p zs = Some x" using Cons.IH Cons.prems(2) by metis
    then show ?thesis using False by simp
  qed
qed simp

lemma nodes_distinct: "server_ok db \<Longrightarrow> distinct (map nd_id (sv_nodes db)) \<and> distinct (map nd_code (sv_nodes db))"
  by (simp add: server_ok_def nodes_ok_def ids_below_def)

lemma node_row:
  assumes "server_ok db" "(i, code) \<in> set (node_ids db)"
  obtains n where "node_with_id i db = Some n" "n \<in> set (sv_nodes db)" "nd_id n = i" "nd_code n = code"
proof -
  obtain n where n: "n \<in> set (sv_nodes db)" "nd_id n = i" "nd_code n = code" using assms(2) by (auto simp: node_ids_def)
  then have "node_with_id i db = Some n"
    using find_distinct_key[of nd_id "sv_nodes db" n] nodes_distinct[OF assms(1)] by (simp add: node_with_id_def)
  then show thesis using n that by blast
qed

lemma on_node_iff:
  assumes "server_ok db" "(i, code) \<in> set (node_ids db)"
  shows "on_node code j db \<longleftrightarrow> j = i"
proof -
  obtain n where n: "n \<in> set (sv_nodes db)" "nd_id n = i" "nd_code n = code" using node_row[OF assms] by metis
  have "m = n" if "m \<in> set (sv_nodes db)" "nd_code m = code" for m
    using inj_key_eq[of nd_code "sv_nodes db" m n] nodes_distinct[OF assms(1)] that n by simp
  then show ?thesis using n unfolding on_node_def by metis
qed

lemma receipt_run:
  assumes "server_ok db" "r \<in> set (sv_receipts db)"
  obtains x where "x \<in> set (sv_runs db)" "run_id x = rcp_run r" "run_node x = rcp_node r"
  using assms by (auto simp: server_ok_def receipts_ok_def)

text \<open>The database with other sequence values.\<close>

lemma server_seq: "node_with_id i (db\<lparr>sv_seq := s\<rparr>) = node_with_id i db"
  "run_of_node i code (db\<lparr>sv_seq := s\<rparr>) = run_of_node i code db" 
  "select_receipt p (db\<lparr>sv_seq := s\<rparr>) = select_receipt p db" "on_node code i (db\<lparr>sv_seq := s\<rparr>) = on_node code i db"
  by (simp_all add: select_receipt_def run_of_node_def on_node_def node_with_id_def cong: option.case_cong)

lemma existing_replay:
  assumes ok: "server_ok db" and r: "r \<in> set (sv_receipts db)" "receipt_for env c db r" "rcp_response r = Some x"
  shows "\<exists>rc. existing_receipt env c (db\<lparr>sv_seq := s\<rparr>) = (Inr (Replay, rc), db\<lparr>sv_seq := s\<rparr>) \<and> rt_response rc = read_response x"
proof -
  have at: "(rcp_node r, cl_node_code c) \<in> set (node_ids db)" using r(2) by (simp add: receipt_for_def)
  obtain n where n: "node_with_id (rcp_node r) db = Some n" "nd_code n = cl_node_code c" using node_row[OF ok at] by metis
  let ?p = "\<lambda>y. on_node (cl_node_code c) (rcp_node y) db \<and> rcp_type y = cl_request_type c \<and> rcp_key y = cl_idempotency_key c"
  have "find (\<lambda>y. ?p y \<and> node_with_id (rcp_node y) db \<noteq> None) (sv_receipts db) = Some r"
  proof (rule find_unique)
    fix y assume "y \<in> set (sv_receipts db)" "?p y \<and> node_with_id (rcp_node y) db \<noteq> None"
    then show "y = r"
      using inj_key_eq[of receipt_key "sv_receipts db" y r] ok r on_node_iff[OF ok at]
      by (simp add: server_ok_def receipts_ok_def receipt_key_def receipt_for_def)
  qed (use r n on_node_iff[OF ok at] in \<open>simp_all add: receipt_for_def\<close>)
  then have "select_receipt ?p db = Some (receipt_of n r)" using n by (simp add: select_receipt_def)
  then show ?thesis
    using r by (simp add: existing_receipt_def server_seq seqp_def gets_def ret_def receipt_of_def receipt_for_def read_response_def)
qed

lemma claim_replay:
  assumes ok: "server_ok db" and r: "r \<in> set (sv_receipts db)" "receipt_for env c db r" "rcp_response r = Some x"
    and room: "sq_receipt (sv_seq db) < 2 ^ 63"
  shows "\<exists>rc s. claim_receipt env c db = (Inr (Replay, rc), db\<lparr>sv_seq := s\<rparr>) \<and> rt_response rc = read_response x"
proof -
  have at: "(rcp_node r, cl_node_code c) \<in> set (node_ids db)" and run: "to_bigint env (cl_task_run_id c) db = (Inr (rcp_run r), db)"
    using r(2) by (simp_all add: receipt_for_def to_bigint_def ret_def)
  obtain y where y: "y \<in> set (sv_runs db)" "run_id y = rcp_run r" "run_node y = rcp_node r" using receipt_run[OF ok r(1)] .
  have "run_of_node (rcp_run r) (cl_node_code c) db = Some y"
    unfolding run_of_node_def
  proof (rule find_unique)
    show "run_id y = rcp_run r \<and> on_node (cl_node_code c) (run_node y) db" using y on_node_iff[OF ok at] by simp
    show "z = y" if "z \<in> set (sv_runs db)" "run_id z = rcp_run r \<and> on_node (cl_node_code c) (run_node z) db" for z
      using same_run[OF ok that(1) y(1)] that(2) y(2) by simp
  qed (fact y(1))
  moreover have "\<exists>z \<in> set (sv_receipts db). receipt_clash (run_node y) (run_id y) c z"
    using r(1,2) y by (intro bexI[OF _ r(1)]) (simp add: receipt_clash_def receipt_for_def)
  moreover obtain rc where "existing_receipt env c (db\<lparr>sv_seq := (sv_seq db)\<lparr>sq_receipt := sq_receipt (sv_seq db) + 1\<rparr>\<rparr>) =
      (Inr (Replay, rc), db\<lparr>sv_seq := (sv_seq db)\<lparr>sq_receipt := sq_receipt (sv_seq db) + 1\<rparr>\<rparr>)" "rt_response rc = read_response x"
    using existing_replay[OF ok r] by blast
  ultimately show ?thesis
    using room by (auto simp: claim_receipt_def seqp_def run gets_def skip_receipt_id_def nextval_def Let_def ret_def)
qed

text \<open>A run whose report has been accepted.\<close>

lemma existing_never_acquired: "existing_receipt env c db = (Inr (st, rc), db') \<Longrightarrow> st \<noteq> Acquired"
  unfolding existing_receipt_def
  by (auto simp: seqp_Inr to_bigint_Inr split: if_splits option.splits)

lemma claim_reported:
  assumes r: "r \<in> set (sv_receipts db)" "rcp_type r = TaskRunReport" and c: "cl_request_type c = TaskRunReport" "pg_bigint env (cl_task_run_id c) = Some (rcp_run r)"
  shows "\<exists>s. snd (claim_receipt env c db) = db\<lparr>sv_seq := s\<rparr>" and "fst (claim_receipt env c db) \<noteq> Inr (Acquired, rc)"
proof -
  have run: "to_bigint env (cl_task_run_id c) db = (Inr (rcp_run r), db)" using c(2) by (simp add: to_bigint_def ret_def)
  have old: "snd (existing_receipt env c d) = d" for d
    using stable_existing_receipt[of "\<lambda>x. x" env c] by (simp add: stable_def)
  have never: "fst (existing_receipt env c d) \<noteq> Inr (Acquired, rc)" for d
    using existing_never_acquired[of env c d Acquired rc "snd (existing_receipt env c d)"] by (metis prod.collapse)
  have clash: "receipt_clash (run_node y) (run_id y) c r" if "run_of_node (rcp_run r) (cl_node_code c) db = Some y" for y
    using that r c by (auto simp: receipt_clash_def dest!: run_of_node_Some)
  show "\<exists>s. snd (claim_receipt env c db) = db\<lparr>sv_seq := s\<rparr>" "fst (claim_receipt env c db) \<noteq> Inr (Acquired, rc)"
    using clash r(1) old never
    by (auto simp: claim_receipt_def seqp_def run gets_def skip_receipt_id_def nextval_def Let_def ret_def split: option.splits
        intro: exI[of _ "sv_seq db"])
qed

end
