(* ===== verification/Server_Scenario.thy ===== *)
theory Server_Scenario
  imports Server_Calls
begin

text \<open>
  An environment to evaluate the server in, and a short history of calls: a node registers, an operator
  configures a task, the agent starts a run, archives a file and reports.
\<close>

section \<open>Environment\<close>

definition read_bigint :: "string \<Rightarrow> int option" where
  "read_bigint s =
     (let negative = (s \<noteq> [] \<and> hd s = CHR ''-''); ds = (if negative then tl s else s) in
      if ds = [] \<or> \<not> list_all isdigit ds then None
      else let n = int (digits_value 0 ds); i = (if negative then - n else n) in
        if is_bigint i then Some i else None)"

definition plain_env :: pg_env where
  "plain_env = \<lparr>pg_bigint = read_bigint, pg_time = (\<lambda>s. if is_rfc3339_utc s then Some 0 else None),
     pg_time_text = (\<lambda>_. ''1970-01-01T00:00:00Z''), pg_json_text = Some, pg_json_tree = (\<lambda>_. True),
     pg_parse_json = (\<lambda>s. Some (JObj (if s = ''{}'' then [] else [(''root_path'', JStr ''/in''), (''extension'', JStr ''.csv'')]))),
     pg_sha256 = (\<lambda>s. s)\<rparr>"

lemma digits_no_minus: "hd (nat_to_string n) \<noteq> CHR ''-''"
  using nat_to_string_digits[of n] by (cases "nat_to_string n") (auto simp: isdigit_def char_code_def)

lemma read_bigint_text: "is_bigint i \<Longrightarrow> read_bigint (int_to_string i) = Some i"
  using nat_to_string_digits digits_no_minus
  by (auto simp: read_bigint_def int_to_string_def Let_def digits_value_nat_to_string)

lemma plain_integers: "pg_integers plain_env"
  by (auto simp: pg_integers_def plain_env_def read_bigint_text) (auto simp: read_bigint_def Let_def split: if_splits)

section \<open>A history\<close>

definition node_1 :: node_info where
  "node_1 = \<lparr>ni_node_code = ''n1'', ni_name = ''Node'', ni_agent_version = ''1.0''\<rparr>"

definition source_1 :: data_source_create where
  "source_1 = \<lparr>dq_node_code = ''n1'', dq_source_type = LocalDirectory, dq_name = ''Files'', dq_config_json = ''{...}'', dq_enabled = True\<rparr>"

definition rule_1 :: qc_rule_create where
  "rule_1 = \<lparr>qq_name = ''Fields'', qq_rule_type = ''required_fields'', qq_rule_config_json = ''{}'', qq_enabled = True\<rparr>"

definition task_1 :: task_create where
  "task_1 = \<lparr>tq_node_code = ''n1'', tq_data_source_id = ''1'', tq_name = ''Import'', tq_task_type = ''local_file_import'',
     tq_schedule_expr = ''0 3 * * *'', tq_parser_type = ''csv_observation'', tq_qc_profile = [], tq_qc_rule_ids = [''1''],
     tq_enabled = True\<rparr>"

definition start_1 :: start_run_request where
  "start_1 = \<lparr>sp_node_code = ''n1'', sp_task_id = ''1'', sp_started_at = ''2024-05-01T03:00:07Z'', sp_trigger_type = ''scheduled'',
     sp_execution_key = ''1@2024-05-01T03:00:00Z'', sp_scheduled_for = ''2024-05-01T03:00:00Z''\<rparr>"

definition manifest_1 :: run_manifest where
  "manifest_1 = \<lparr>rm_task_run_id = ''1'', rm_node_code = ''n1'', rm_idempotency_key = ''m1'',
     rm_files = [\<lparr>mf_original_name = ''a.csv'', mf_file_hash = ''ab'', mf_storage_path = ''/archive/1/a.csv'', mf_size_bytes = 10,
       mf_source_mtime = ''2024-05-01T02:00:00Z'', mf_ingest_status = []\<rparr>]\<rparr>"

definition report_1 :: run_report where
  "report_1 = \<lparr>ro_task_run_id = ''1'', ro_node_code = ''n1'', ro_idempotency_key = ''r1'', ro_status = Succeeded,
     ro_finished_at = ''2024-05-01T03:00:09Z'', ro_items_total = 1, ro_items_success = 1, ro_items_failed = 0, ro_error_summary = [],
     ro_parsed_records = [\<lparr>rz_raw_file_id = ''1'',
       rz_record = \<lparr>pr_station_code = ''s'', pr_device_code = ''d'', pr_record_time = ''2024-05-01T02:00:00Z'', pr_payload_json = ''{}''\<rparr>,
       rz_parse_status = [],
       rz_qc_results = [\<lparr>ry_rule_id = ''1'', ry_level = ''info'', ry_result = ''warning'', ry_message = ''m''\<rparr>]\<rparr>],
     ro_has_failed_files = False, ro_failed_files = []\<rparr>"

text \<open>The databases in between.\<close>

definition configured_db :: server_db where
  "configured_db = empty_server\<lparr>
     sv_nodes := [\<lparr>nd_id = 1, nd_code = ''n1'', nd_name = ''Node'', nd_status = Offline, nd_agent_version = ''1.0'', nd_last_heartbeat = None\<rparr>],
     sv_sources := [\<lparr>so_id = 1, so_node = 1, so_type = LocalDirectory, so_name = ''Files'', so_config = ''{...}'', so_enabled = True\<rparr>],
     sv_tasks := [\<lparr>tk_id = 1, tk_node = 1, tk_source = 1, tk_name = ''Import'', tk_type = ''local_file_import'',
       tk_schedule = ''0 3 * * *'', tk_parser = ''csv_observation'', tk_profile = None, tk_enabled = True\<rparr>],
     sv_bindings := [\<lparr>bi_task = 1, bi_rule = 1, bi_order = 10\<rparr>],
     sv_rules := [\<lparr>ru_id = 1, ru_name = ''Fields'', ru_type = ''required_fields'', ru_config = ''{}'', ru_enabled = True\<rparr>],
     sv_seq := (sv_seq empty_server)\<lparr>sq_node := 2, sq_source := 2, sq_task := 2, sq_rule := 2\<rparr>\<rparr>"

definition run_1 :: run_row where
  "run_1 = \<lparr>run_id = 1, run_task = 1, run_node = 1, run_status = Running, run_started = Some 0, run_finished = None, run_total = 0,
     run_success = 0, run_failed = 0, run_error = None, run_trigger = ''scheduled'', run_key = Some ''1@2024-05-01T03:00:00Z'',
     run_scheduled_for = Some 0, run_requested = None, run_retry_of = None, run_failed_files = None, run_retry_files = None\<rparr>"

definition started_db :: server_db where
  "started_db = configured_db\<lparr>sv_runs := [run_1], sv_seq := (sv_seq configured_db)\<lparr>sq_run := 2\<rparr>\<rparr>"

definition archived_db :: server_db where
  "archived_db = started_db\<lparr>
     sv_raw_files := [\<lparr>rw_id = 1, rw_run = 1, rw_node = 1, rw_name = ''a.csv'', rw_hash = Some ''ab'',
       rw_path = ''/archive/1/a.csv'', rw_size = 10, rw_mtime = Some 0, rw_ingest = ''collected''\<rparr>],
     sv_receipts := [\<lparr>rcp_id = 1, rcp_node = 1, rcp_run = 1, rcp_type = RawFileManifest, rcp_key = ''m1'',
       rcp_fingerprint = manifest_fingerprint plain_env manifest_1,
       rcp_response = Some \<lparr>rsp_raw_file_ids = [''1''], rsp_parsed_record_ids = [], rsp_qc_result_ids = [], rsp_alert_ids = []\<rparr>\<rparr>],
     sv_seq := (sv_seq started_db)\<lparr>sq_raw := 2, sq_receipt := 2\<rparr>\<rparr>"

definition reported_db :: server_db where
  "reported_db = archived_db\<lparr>
     sv_runs := [run_1\<lparr>run_status := Succeeded, run_finished := Some 0, run_total := 1, run_success := 1\<rparr>],
     sv_records := [\<lparr>rc_id = 1, rc_raw = 1, rc_run = 1, rc_station = Some ''s'', rc_device = Some ''d'', rc_time = Some 0,
       rc_payload = ''{}'', rc_status = ''parsed''\<rparr>],
     sv_results := [\<lparr>rs_id = 1, rs_record = 1, rs_rule = 1, rs_level = ''info'', rs_result = ''warning'', rs_message = Some ''m''\<rparr>],
     sv_alerts := [\<lparr>al_id = 1, al_node = Some 1, al_run = Some 1, al_type = ''qc_result'', al_severity = ''warning'',
       al_message = ''m'', al_status = ''open'', al_acknowledged = None, al_closed = None\<rparr>],
     sv_receipts := sv_receipts archived_db @ [\<lparr>rcp_id = 2, rcp_node = 1, rcp_run = 1, rcp_type = TaskRunReport, rcp_key = ''r1'',
       rcp_fingerprint = report_fingerprint plain_env report_1,
       rcp_response = Some \<lparr>rsp_raw_file_ids = [], rsp_parsed_record_ids = [''1''], rsp_qc_result_ids = [''1''], rsp_alert_ids = [''1'']\<rparr>\<rparr>],
     sv_seq := (sv_seq archived_db)\<lparr>sq_record := 2, sq_result := 2, sq_alert := 2, sq_receipt := 3\<rparr>\<rparr>"

lemma serve_configured:
  "snd (serve plain_env 0 (CreateTask task_1) (snd (serve plain_env 0 (CreateQcRule rule_1)
     (snd (serve plain_env 0 (CreateDataSource source_1) (snd (serve plain_env 0 (RegisterNode node_1) empty_server))))))) = configured_db"
  by code_simp

lemma start_run_1: "execute_start plain_env start_1 configured_db =
    (Inr \<lparr>cr_outcome = status_success, cr_id = ''1'', cr_replayed = False, cr_run_status = ''running''\<rparr>, started_db)"
  by code_simp

lemma manifest_run_1: "execute_manifest plain_env manifest_1 started_db =
    (Inr \<lparr>ma_status = status_success, ma_raw_file_ids = [''1''], ma_replayed = False\<rparr>, archived_db)"
  by code_simp

lemma report_run_1: "execute_report plain_env report_1 archived_db =
    (Inr \<lparr>re_status = status_success, re_parsed_record_ids = [''1''], re_qc_result_ids = [''1''], re_alert_ids = [''1''],
       re_replayed = False\<rparr>, reported_db)"
  by code_simp

lemma served_step: "server_step plain_env db (snd (serve plain_env now c db))"
  unfolding server_step_def using plain_integers by (metis prod.collapse)

lemma served_reachable: "reachable init (server_step plain_env) db \<Longrightarrow> reachable init (server_step plain_env) (snd (serve plain_env now c db))"
  by (rule reachable.reachable_step[where s = db]) (assumption, rule served_step)

lemma steps_1: "server_step plain_env configured_db started_db" "server_step plain_env started_db archived_db"
  "server_step plain_env archived_db reported_db"
  using served_step[of configured_db 0 "StartRun start_1"] served_step[of started_db 0 "AcceptManifest manifest_1"]
    served_step[of archived_db 0 "AcceptReport report_1"]
  by (simp_all add: answered_def seqp_def ret_def start_run_1 manifest_run_1 report_run_1)

lemma later_1: "(server_step plain_env)\<^sup>*\<^sup>* archived_db reported_db"
  using steps_1(3) by (rule r_into_rtranclp)

lemma reachable_1:
  "reachable (\<lambda>db. db = empty_server) (server_step plain_env) configured_db"
  "reachable (\<lambda>db. db = empty_server) (server_step plain_env) started_db"
  "reachable (\<lambda>db. db = empty_server) (server_step plain_env) archived_db"
  "reachable (\<lambda>db. db = empty_server) (server_step plain_env) reported_db"
proof -
  show c: "reachable (\<lambda>db. db = empty_server) (server_step plain_env) configured_db"
    unfolding serve_configured[symmetric]
    by (intro served_reachable reachable.reachable_init refl)
  show s: "reachable (\<lambda>db. db = empty_server) (server_step plain_env) started_db" using reachable.reachable_step[OF c steps_1(1)] .
  show a: "reachable (\<lambda>db. db = empty_server) (server_step plain_env) archived_db" using reachable.reachable_step[OF s steps_1(2)] .
  show "reachable (\<lambda>db. db = empty_server) (server_step plain_env) reported_db" using reachable.reachable_step[OF a steps_1(3)] .
qed

end
