(* ===== verification/Server_Properties.thy ===== *)
theory Server_Properties
  imports Server_Replays Server_Scenario
begin

text \<open>
  What the control plane promises: its tables refine the ledger of runs, a finished run is final, a report
  is accepted once and a request that comes again is answered as before.
\<close>

section \<open>Requests that were accepted\<close>

lemma accepted_transaction:
  assumes "yields m db Q" "in_transaction f m db = (Inr a, db')" "st_ok (f a)"
  shows "m db = (Inr a, db') \<and> going db db' \<and> Q a db'"
  using assms by (cases "m db") (auto simp: in_transaction_def yields_def split: sum.splits if_splits)

lemma rolled_back:
  assumes "\<exists>s. snd (m db) = db\<lparr>sv_seq := s\<rparr>"
  shows "\<exists>s. snd (in_transaction f m db) = db\<lparr>sv_seq := s\<rparr>"
  using assms by (cases "m db") (auto simp: in_transaction_def split: sum.splits)

lemma in_transaction_fst: "fst (in_transaction f m db) = fst (m db)"
  by (simp add: in_transaction_def split: prod.splits sum.splits)

lemma owned_run:
  assumes ok: "server_ok db" and r: "r \<in> set (sv_receipts db)" "receipt_for env c db r"
    and ne: "cl_task_run_id c \<noteq> []" "cl_node_code c \<noteq> []"
  shows "\<exists>run. validate_task_run_node env (cl_task_run_id c) (cl_node_code c) db = (Inr (Inr run), db)"
proof -
  have at: "(rcp_node r, cl_node_code c) \<in> set (node_ids db)" and i: "pg_bigint env (cl_task_run_id c) = Some (rcp_run r)"
    using r(2) by (simp_all add: receipt_for_def)
  obtain y where y: "y \<in> set (sv_runs db)" "run_id y = rcp_run r" "run_node y = rcp_node r" using receipt_run[OF ok r(1)] .
  obtain n where n: "node_with_id (rcp_node r) db = Some n" "nd_code n = cl_node_code c" using node_row[OF ok at] by metis
  have "find (\<lambda>x. run_id x = rcp_run r \<and> node_with_id (run_node x) db \<noteq> None) (sv_runs db) = Some y"
  proof (rule find_unique)
    show "run_id y = rcp_run r \<and> node_with_id (run_node y) db \<noteq> None" using y n by simp
    show "z = y" if "z \<in> set (sv_runs db)" "run_id z = rcp_run r \<and> node_with_id (run_node z) db \<noteq> None" for z
      using same_run[OF ok that(1) y(1)] that(2) y(2) by simp
  qed (fact y(1))
  then have "task_run_select env (\<lambda>x. run_id x = rcp_run r) db = Some (task_run_of env n y)"
    using n y by (simp add: task_run_select_def)
  then show ?thesis
    using n ne i by (simp add: validate_task_run_node_def find_run_def find_by_id_def seqp_def to_bigint_def ret_def gets_def task_run_of_def)
qed

lemma recorded_row:
  assumes "recorded env c response db"
  obtains r x where "r \<in> set (sv_receipts db)" "receipt_for env c db r" "rcp_response r = Some x" "read_response x = response"
  using assms by (auto simp: recorded_def)

section \<open>Reports\<close>

text \<open>What follows the claim, and the checks before it.\<close>

abbreviation after_claim :: "pg_env \<Rightarrow> run_report \<Rightarrow> task_run_record \<Rightarrow> claim_state \<times> receipt \<Rightarrow> report_result sproc" where
  "after_claim env q run \<equiv> (\<lambda>(state, receipt).
            if state = Replay then
              ret \<lparr>re_status = status_success, re_parsed_record_ids = rsp_parsed_record_ids (rt_response receipt),
                re_qc_result_ids = rsp_qc_result_ids (rt_response receipt), re_alert_ids = rsp_alert_ids (rt_response receipt),
                re_replayed = True\<rparr>
            else if state \<noteq> Acquired then ret (report_failed (claim_error state))
            else check_and_write_report env q run receipt)"

lemma ownership_state: "validate_task_run_node env i code db = (w, db') \<Longrightarrow> db' = db"
  using stable_ownership[of "\<lambda>x. x" env i code] by (auto dest: stableD)

lemma accept_report_cases:
  obtains (refused) st where "accept_task_run_report env q db = (Inr (report_failed st), db)" "\<not> st_ok st"
  | (thrown) e where "accept_task_run_report env q db = (Inl e, db)"
  | (claims) run where "accept_task_run_report env q db = seqp (claim_receipt env (report_claim env q)) (after_claim env q run) db"
      "st_ok (validate_idempotency_key (ro_idempotency_key q))" "ro_task_run_id q \<noteq> []" "ro_node_code q \<noteq> []"
      "is_terminal_status (ro_status q)"
proof (cases "st_ok (validate_idempotency_key (ro_idempotency_key q))")
  case False
  then show ?thesis by (intro refused) (simp_all add: accept_task_run_report_def ret_def)
next
  case key: True
  obtain w db' where v: "validate_task_run_node env (ro_task_run_id q) (ro_node_code q) db = (w, db')"
    by (cases "validate_task_run_node env (ro_task_run_id q) (ro_node_code q) db")
  note same = ownership_state[OF v]
  show ?thesis
  proof (cases w)
    case (Inl e)
    then show ?thesis using key v same by (intro thrown) (simp add: accept_task_run_report_def seqp_def)
  next
    case (Inr x)
    show ?thesis
    proof (cases x)
      case (Inl st)
      then have "\<not> st_ok st" using v Inr by (auto dest: ownership_refused)
      then show ?thesis using key v same Inr Inl by (intro refused[of st]) (simp_all add: accept_task_run_report_def seqp_def ret_def)
    next
      case run: (Inr run)
      have owned: "validate_task_run_node env (ro_task_run_id q) (ro_node_code q) db = (Inr (Inr run), db)" using v same Inr run by simp
      show ?thesis
      proof (cases "is_terminal_status (ro_status q)")
        case False
        then show ?thesis using key owned
          by (intro refused[of "status_failure ''finish status must be succeeded or failed''"])
            (simp_all add: accept_task_run_report_def seqp_def ret_def)
      next
        case True
        have "accept_task_run_report env q db = seqp (claim_receipt env (report_claim env q)) (after_claim env q run) db"
          using key owned True unfolding accept_task_run_report_def report_claim_def[symmetric] by (simp add: seqp_def)
        then show ?thesis by (rule claims) (use key True ownership_accepted(3,4)[OF owned] in simp_all)
      qed
    qed
  qed
qed

lemma report_checked:
  assumes "accept_task_run_report env q db = (Inr a, db')" "st_ok (re_status a)"
  shows "st_ok (validate_idempotency_key (ro_idempotency_key q)) \<and> ro_task_run_id q \<noteq> [] \<and> ro_node_code q \<noteq> [] \<and>
    is_terminal_status (ro_status q)"
  using assms by (cases rule: accept_report_cases[of env q db]) (auto simp: report_failed_def)

lemma report_again:
  assumes ok: "server_ok db" and rec: "recorded env (report_claim env q) response db" and room: "sq_receipt (sv_seq db) < 2 ^ 63"
    and checks: "st_ok (validate_idempotency_key (ro_idempotency_key q))" "ro_task_run_id q \<noteq> []" "ro_node_code q \<noteq> []"
      "is_terminal_status (ro_status q)"
  shows "\<exists>s. execute_report env q db =
    (Inr \<lparr>re_status = status_success, re_parsed_record_ids = rsp_parsed_record_ids response,
       re_qc_result_ids = rsp_qc_result_ids response, re_alert_ids = rsp_alert_ids response, re_replayed = True\<rparr>, db\<lparr>sv_seq := s\<rparr>)"
proof -
  obtain r x where r: "r \<in> set (sv_receipts db)" "receipt_for env (report_claim env q) db r" "rcp_response r = Some x" "read_response x = response"
    using rec by (rule recorded_row)
  obtain run where run: "validate_task_run_node env (ro_task_run_id q) (ro_node_code q) db = (Inr (Inr run), db)"
    using owned_run[OF ok r(1,2)] checks by (auto simp: report_claim_def)
  obtain rc s where c: "claim_receipt env (report_claim env q) db = (Inr (Replay, rc), db\<lparr>sv_seq := s\<rparr>)" "rt_response rc = response"
    using claim_replay[OF ok r(1-3) room] r(4) by auto
  have "accept_task_run_report env q db =
    (Inr \<lparr>re_status = status_success, re_parsed_record_ids = rsp_parsed_record_ids response,
       re_qc_result_ids = rsp_qc_result_ids response, re_alert_ids = rsp_alert_ids response, re_replayed = True\<rparr>, db\<lparr>sv_seq := s\<rparr>)"
    using checks run c unfolding accept_task_run_report_def report_claim_def[symmetric] by (simp add: seqp_def ret_def)
  then show ?thesis by (auto simp: execute_report_def in_transaction_def)
qed

lemma accepted_report:
  assumes env: "pg_integers env" and reach: "reachable (\<lambda>db. db = empty_server) (server_step env) db0"
    and first: "execute_report env q db0 = (Inr a, db1)" "st_ok (re_status a)" "\<not> re_replayed a"
    and later: "(server_step env)\<^sup>*\<^sup>* db1 db2"
  shows "server_good db2" "recorded env (report_claim env q) (report_response a) db2" "accept_task_run_report env q db0 = (Inr a, db1)"
proof -
  have good: "server_good db0" using reach by (rule server.reachable_inv)
  then have "yields (accept_task_run_report env q) db0 (report_accepted env q)"
    by (intro report_yields env) (simp_all add: server_good_def)
  from accepted_transaction[OF this first(1)[unfolded execute_report_def] first(2)]
  have acc: "accept_task_run_report env q db0 = (Inr a, db1)" "going db0 db1" "report_accepted env q a db1" by simp_all
  then have good1: "server_good db1" and rec: "recorded env (report_claim env q) (report_response a) db1"
    using first by (simp_all add: report_accepted_def going_def server_good_def)
  have "server_good db2 \<and> db_evolves db1 db2" by (rule steps_evolve[OF later good1])
  then show "server_good db2" "recorded env (report_claim env q) (report_response a) db2" using recorded_evolves[OF rec] by simp_all
  show "accept_task_run_report env q db0 = (Inr a, db1)" by (fact acc(1))
qed

lemma reported_again:
  assumes r: "r \<in> set (sv_receipts db)" "rcp_type r = TaskRunReport" "pg_bigint env (ro_task_run_id q) = Some (rcp_run r)"
  shows "(\<exists>s. snd (accept_task_run_report env q db) = db\<lparr>sv_seq := s\<rparr>) \<and>
    (\<forall>a. fst (accept_task_run_report env q db) = Inr a \<longrightarrow> st_ok (re_status a) \<longrightarrow> re_replayed a)"
proof -
  let ?c = "report_claim env q"
  obtain s where s: "snd (claim_receipt env ?c db) = db\<lparr>sv_seq := s\<rparr>"
    using claim_reported(1)[OF r(1,2), of ?c env] r(3) by (auto simp: report_claim_def)
  have never: "fst (claim_receipt env ?c db) \<noteq> Inr (Acquired, rc)" for rc
    using claim_reported(2)[OF r(1,2), of ?c env] r(3) by (simp add: report_claim_def)
  show ?thesis
  proof (cases rule: accept_report_cases[of env q db])
    case (refused st)
    then show ?thesis by (auto simp: report_failed_def intro: exI[of _ "sv_seq db"])
  next
    case (thrown e)
    then show ?thesis by (auto intro: exI[of _ "sv_seq db"])
  next
    case (claims run)
    obtain w d where c: "claim_receipt env ?c db = (w, d)" by (cases "claim_receipt env ?c db")
    then have d: "d = db\<lparr>sv_seq := s\<rparr>" using s by simp
    show ?thesis
    proof (cases w)
      case (Inl e)
      then show ?thesis using c d claims(1) by (auto simp: seqp_def)
    next
      case (Inr x)
      obtain st rc where x: "x = (st, rc)" by (cases x)
      then have "st \<noteq> Acquired" using never[of rc] c Inr by auto
      then show ?thesis using c d claims(1) Inr x by (auto simp: seqp_def ret_def report_failed_def claim_error_def)
    qed
  qed
qed


section \<open>Manifests\<close>

lemma manifest_checked:
  assumes "accept_raw_file_manifest env q db = (Inr a, db')" "st_ok (ma_status a)"
  shows "st_ok (validate_idempotency_key (rm_idempotency_key q)) \<and> rm_task_run_id q \<noteq> [] \<and> rm_node_code q \<noteq> []"
proof -
  have key: "st_ok (validate_idempotency_key (rm_idempotency_key q))"
    using assms by (auto simp: accept_raw_file_manifest_def ret_def manifest_failed_def split: if_splits)
  obtain w d where v: "validate_task_run_node env (rm_task_run_id q) (rm_node_code q) db = (w, d)"
    by (cases "validate_task_run_node env (rm_task_run_id q) (rm_node_code q) db")
  show ?thesis
  proof (cases w)
    case (Inl e)
    then show ?thesis using assms key v by (simp add: accept_raw_file_manifest_def seqp_def)
  next
    case (Inr x)
    show ?thesis
    proof (cases x)
      case (Inl st)
      then have "\<not> st_ok st" using v Inr by (auto dest: ownership_refused)
      then show ?thesis using assms key v Inr Inl by (auto simp: accept_raw_file_manifest_def seqp_def ret_def manifest_failed_def)
    next
      case run: (Inr run)
      then show ?thesis using key ownership_accepted(3,4)[of env "rm_task_run_id q" "rm_node_code q" db run d] v Inr by simp
    qed
  qed
qed

lemma manifest_again:
  assumes ok: "server_ok db" and rec: "recorded env (manifest_claim env q) response db" and room: "sq_receipt (sv_seq db) < 2 ^ 63"
    and checks: "st_ok (validate_idempotency_key (rm_idempotency_key q))" "rm_task_run_id q \<noteq> []" "rm_node_code q \<noteq> []"
  shows "\<exists>s. execute_manifest env q db =
    (Inr \<lparr>ma_status = status_success, ma_raw_file_ids = rsp_raw_file_ids response, ma_replayed = True\<rparr>, db\<lparr>sv_seq := s\<rparr>)"
proof -
  obtain r x where r: "r \<in> set (sv_receipts db)" "receipt_for env (manifest_claim env q) db r" "rcp_response r = Some x" "read_response x = response"
    using rec by (rule recorded_row)
  obtain run where run: "validate_task_run_node env (rm_task_run_id q) (rm_node_code q) db = (Inr (Inr run), db)"
    using owned_run[OF ok r(1,2)] checks by (auto simp: manifest_claim_def)
  obtain rc s where c: "claim_receipt env (manifest_claim env q) db = (Inr (Replay, rc), db\<lparr>sv_seq := s\<rparr>)" "rt_response rc = response"
    using claim_replay[OF ok r(1-3) room] r(4) by auto
  have "accept_raw_file_manifest env q db =
    (Inr \<lparr>ma_status = status_success, ma_raw_file_ids = rsp_raw_file_ids response, ma_replayed = True\<rparr>, db\<lparr>sv_seq := s\<rparr>)"
    using checks run c unfolding accept_raw_file_manifest_def manifest_claim_def[symmetric] by (simp add: seqp_def ret_def)
  then show ?thesis by (auto simp: execute_manifest_def in_transaction_def)
qed

lemma accepted_manifest:
  assumes env: "pg_integers env" and reach: "reachable (\<lambda>db. db = empty_server) (server_step env) db0"
    and first: "execute_manifest env q db0 = (Inr a, db1)" "st_ok (ma_status a)" "\<not> ma_replayed a"
    and later: "(server_step env)\<^sup>*\<^sup>* db1 db2"
  shows "server_good db2" "recorded env (manifest_claim env q) (manifest_response a) db2" "accept_raw_file_manifest env q db0 = (Inr a, db1)"
proof -
  have good: "server_good db0" using reach by (rule server.reachable_inv)
  then have "yields (accept_raw_file_manifest env q) db0 (manifest_accepted env q)"
    by (intro manifest_yields env) (simp_all add: server_good_def)
  from accepted_transaction[OF this first(1)[unfolded execute_manifest_def] first(2)]
  have acc: "accept_raw_file_manifest env q db0 = (Inr a, db1)" "going db0 db1" "manifest_accepted env q a db1" by simp_all
  then have good1: "server_good db1" and rec: "recorded env (manifest_claim env q) (manifest_response a) db1"
    using first by (simp_all add: manifest_accepted_def going_def server_good_def)
  have "server_good db2 \<and> db_evolves db1 db2" by (rule steps_evolve[OF later good1])
  then show "server_good db2" "recorded env (manifest_claim env q) (manifest_response a) db2" using recorded_evolves[OF rec] by simp_all
  show "accept_raw_file_manifest env q db0 = (Inr a, db1)" by (fact acc(1))
qed

section \<open>Rows\<close>

lemma ledger_row: "server_ok db \<Longrightarrow> ledger_of db i = Some v \<Longrightarrow> \<exists>r \<in> set (sv_runs db). run_id r = i \<and> view_of r = v"
  unfolding ledger_of_def by (drule map_of_SomeD) auto

lemma runs_rows:
  assumes "server_ok db"
  shows "r \<in> set (sv_runs db) \<Longrightarrow> s \<in> set (sv_runs db) \<Longrightarrow> run_node r = run_node s \<Longrightarrow> run_key r = run_key s \<Longrightarrow> run_key r \<noteq> None \<Longrightarrow> r = s"
    and "r \<in> set (sv_runs db) \<Longrightarrow> s \<in> set (sv_runs db) \<Longrightarrow> run_task r = run_task s \<Longrightarrow> run_status r = Pending \<Longrightarrow> run_status s = Pending \<Longrightarrow> r = s"
    and "r \<in> set (sv_runs db) \<Longrightarrow> run_status r = Pending \<Longrightarrow> is_manual_trigger (run_trigger r)"
    and "r \<in> set (sv_runs db) \<Longrightarrow> run_retry_of r = Some p \<Longrightarrow>
      \<exists>x \<in> set (sv_runs db). run_id x = p \<and> run_status x = Failed \<and> run_task x = run_task r"
proof -
  have ok: "ledger_ok (ledger_of db)" using assms by (simp add: server_ok_def runs_ok_def)
  note row = ledger_of_run[OF assms]
  show manual: "is_manual_trigger (run_trigger r)" if "r \<in> set (sv_runs db)" "run_status r = Pending" for r
    using ledger_okD(3)[OF ok row[OF that(1)]] that(2) by (simp add: view_of_def)
  show "r = s" if "r \<in> set (sv_runs db)" "s \<in> set (sv_runs db)" "run_node r = run_node s" "run_key r = run_key s" "run_key r \<noteq> None"
  proof -
    from that(5) obtain k where "run_key r = Some k" by blast
    then have "run_id r = run_id s"
      using ledger_okD(1)[OF ok row[OF that(1)] row[OF that(2)], of "run_node r" k] that by (simp add: has_key_def view_of_def)
    then show ?thesis by (rule same_run[OF assms that(1,2)])
  qed
  show "r = s" if "r \<in> set (sv_runs db)" "s \<in> set (sv_runs db)" "run_task r = run_task s" "run_status r = Pending" "run_status s = Pending"
  proof -
    have "run_id r = run_id s"
      using ledger_okD(2)[OF ok row[OF that(1)] row[OF that(2)], of "run_task r"] that manual by (simp add: waiting_def view_of_def)
    then show ?thesis by (rule same_run[OF assms that(1,2)])
  qed
  show "\<exists>x \<in> set (sv_runs db). run_id x = p \<and> run_status x = Failed \<and> run_task x = run_task r"
    if "r \<in> set (sv_runs db)" "run_retry_of r = Some p"
  proof -
    have parent: "rv_retry_of (view_of r) = Some p" using that(2) by (simp add: view_of_def)
    have "retries_failed (ledger_of db) (view_of r)" using ledger_okD(4)[OF ok row[OF that(1)]] .
    then obtain v where v: "ledger_of db p = Some v" "rv_phase v = Failed" "rv_task v = run_task r"
      using parent by (auto simp: retries_failed_def view_of_def split: option.splits)
    obtain x where "x \<in> set (sv_runs db)" "run_id x = p" "view_of x = v" using ledger_row[OF assms v(1)] by blast
    then show ?thesis using v(2,3) by (auto simp: view_of_def)
  qed
qed

section \<open>Promises\<close>

text \<open>
  C24. Refinement. Every call a reachable server serves is, seen on the runs of its tables, a sequence of ledger
  steps, and the ledger it stands for is itself reachable by such steps: whatever the requests, their order and
  their failures, a scheduled run appears as running, a manual one as waiting with no other waiting run of its
  task, a retry only of a failed run of the same task, a key at most once per node, and phases only advance.
\<close>

theorem server_refines_ledger:
  assumes reach: "reachable (\<lambda>db. db = empty_server) (server_step env) db" and step: "server_step env db db'"
  shows "reachable (\<lambda>l. l = Map.empty) ledger_step (ledger_of db) \<and> ledger_step\<^sup>*\<^sup>* (ledger_of db) (ledger_of db')"
  using reachable_ledger[OF reach] serve_evolves[OF server.reachable_inv[OF reach] step] by (simp_all add: db_evolves_def)

theorem server_refines_ledger_witness:
  "reachable (\<lambda>l. l = Map.empty) ledger_step (ledger_of archived_db) \<and> ledger_step\<^sup>*\<^sup>* (ledger_of archived_db) (ledger_of reported_db) \<and>
   map_option rv_phase (ledger_of archived_db 1) = Some Running \<and> map_option rv_phase (ledger_of reported_db 1) = Some Succeeded"
  using server_refines_ledger[OF reachable_1(3) steps_1(3)]
  by (simp add: ledger_of_def archived_db_def started_db_def reported_db_def run_1_def view_of_def)

text \<open>
  C25. In every database the server gets into: no two runs of a node share an execution key; a task has at
  most one pending run; a pending run is manual; a retry refers to a failed run of the same task; every receipt
  is complete, belongs to a run of its node and is the only one of its node, kind and key; and a run has at most
  one accepted report, after which it is finished.
\<close>

theorem served_runs_sound:
  assumes "reachable (\<lambda>db. db = empty_server) (server_step env) db" "r \<in> set (sv_runs db)"
  shows "list_all (\<lambda>s. (run_id r = run_id s \<or> run_node r = run_node s \<and> run_key r = run_key s \<and> run_key r \<noteq> None \<or>
      run_task r = run_task s \<and> run_status r = Pending \<and> run_status s = Pending) \<longrightarrow> r = s) (sv_runs db) \<and>
    (run_status r = Pending \<longrightarrow> is_manual_trigger (run_trigger r)) \<and>
    (case run_retry_of r of None \<Rightarrow> True
     | Some p \<Rightarrow> list_ex (\<lambda>x. run_id x = p \<and> run_status x = Failed \<and> run_task x = run_task r) (sv_runs db)) \<and>
    distinct (map (\<lambda>x. (rcp_node x, rcp_type x, rcp_key x)) (sv_receipts db)) \<and>
    list_all (\<lambda>x. rcp_response x \<noteq> None \<and>
      list_ex (\<lambda>y. run_id y = rcp_run x \<and> run_node y = rcp_node x \<and> (rcp_type x = TaskRunReport \<longrightarrow> finished (run_status y))) (sv_runs db))
      (sv_receipts db) \<and>
    distinct (map rcp_run (filter (\<lambda>x. rcp_type x = TaskRunReport) (sv_receipts db)))"
proof -
  have ok: "server_ok db" and full: "receipts_done db" using server.reachable_inv[OF assms(1)] by (simp_all add: server_good_def)
  note rows = runs_rows[OF ok]
  have "r = s" if "s \<in> set (sv_runs db)" "run_id r = run_id s \<or> run_node r = run_node s \<and> run_key r = run_key s \<and> run_key r \<noteq> None \<or>
      run_task r = run_task s \<and> run_status r = Pending \<and> run_status s = Pending" for s
    using that(2) same_run[OF ok assms(2) that(1)] rows(1)[OF assms(2) that(1)] rows(2)[OF assms(2) that(1)] by blast
  then have same: "list_all (\<lambda>s. (run_id r = run_id s \<or> run_node r = run_node s \<and> run_key r = run_key s \<and> run_key r \<noteq> None \<or>
      run_task r = run_task s \<and> run_status r = Pending \<and> run_status s = Pending) \<longrightarrow> r = s) (sv_runs db)" unfolding list_all_iff by blast
  have receipts: "rcp_response x \<noteq> None \<and>
      list_ex (\<lambda>y. run_id y = rcp_run x \<and> run_node y = rcp_node x \<and> (rcp_type x = TaskRunReport \<longrightarrow> finished (run_status y))) (sv_runs db)"
    if x: "x \<in> set (sv_receipts db)" for x
  proof -
    have answered: "rcp_response x \<noteq> None" using full x by (simp add: receipts_done_def list_all_iff)
    obtain y where y: "y \<in> set (sv_runs db)" "run_id y = rcp_run x" "run_node y = rcp_node x" using receipt_run[OF ok x] .
    have "finished (run_status y)" if "rcp_type x = TaskRunReport"
    proof -
      have "x \<in> set (completed (reports (sv_receipts db)))" using x that answered by (simp add: completed_def reports_def)
      then obtain z where z: "z \<in> set (sv_runs db)" "run_id z = rcp_run x" "finished (run_status z)"
        using ok unfolding server_ok_def receipts_ok_def by blast
      then show ?thesis using same_run[OF ok z(1) y(1)] y(2) by simp
    qed
    then show ?thesis using answered y by (auto simp: list_ex_iff)
  qed
  have retry: "case run_retry_of r of None \<Rightarrow> True
     | Some p \<Rightarrow> list_ex (\<lambda>x. run_id x = p \<and> run_status x = Failed \<and> run_task x = run_task r) (sv_runs db)"
    using rows(4)[OF assms(2)] by (simp add: list_ex_iff split: option.split)
  have keys: "distinct (map (\<lambda>x. (rcp_node x, rcp_type x, rcp_key x)) (sv_receipts db))"
    and once: "distinct (map rcp_run (filter (\<lambda>x. rcp_type x = TaskRunReport) (sv_receipts db)))"
    using ok by (simp_all add: server_ok_def receipts_ok_def receipt_key_def[abs_def] reports_def)
  have all: "list_all (\<lambda>x. rcp_response x \<noteq> None \<and>
      list_ex (\<lambda>y. run_id y = rcp_run x \<and> run_node y = rcp_node x \<and> (rcp_type x = TaskRunReport \<longrightarrow> finished (run_status y))) (sv_runs db))
      (sv_receipts db)" unfolding list_all_iff using receipts by blast
  show ?thesis by (intro conjI impI same rows(3)[OF assms(2)] retry keys once all)
qed

theorem served_runs_sound_witness:
  "list_all (\<lambda>x. rcp_response x \<noteq> None \<and> list_ex (\<lambda>y. run_id y = rcp_run x \<and> run_node y = rcp_node x \<and>
      (rcp_type x = TaskRunReport \<longrightarrow> finished (run_status y))) (sv_runs reported_db)) (sv_receipts reported_db) \<and>
   length (sv_receipts reported_db) = 2"
proof -
  have "hd (sv_runs reported_db) \<in> set (sv_runs reported_db)" by (simp add: reported_db_def)
  from served_runs_sound[OF reachable_1(4) this] show ?thesis by (simp add: reported_db_def archived_db_def)
qed

text \<open>
  C26. A run is never deleted and never becomes another: whatever calls follow, its identifier keeps its task,
  node, key, kind and parent, its phase only advances along pending, running, finished, and the row of a
  finished run stays exactly as it is.
\<close>

theorem finished_runs_final:
  assumes reach: "reachable (\<lambda>db. db = empty_server) (server_step env) db" and later: "(server_step env)\<^sup>*\<^sup>* db db'"
    and run: "r \<in> set (sv_runs db)"
  shows "\<exists>r' \<in> set (sv_runs db'). run_id r' = run_id r \<and> run_task r' = run_task r \<and> run_node r' = run_node r \<and> run_key r' = run_key r \<and>
    is_manual_trigger (run_trigger r') = is_manual_trigger (run_trigger r) \<and> run_retry_of r' = run_retry_of r \<and>
    (if finished (run_status r) then r' = r
     else run_status r' = run_status r \<or> phase_rank (run_status r) < phase_rank (run_status r'))"
proof -
  have good: "server_good db" using reach by (rule server.reachable_inv)
  then have ok: "server_ok db" by (simp add: server_good_def)
  have "server_good db' \<and> db_evolves db db'" by (rule steps_evolve[OF later good])
  then have ok': "server_ok db'" and ev: "db_evolves db db'" by (simp_all add: server_good_def)
  show ?thesis
  proof (cases "finished (run_status r)")
    case True
    then have "r \<in> set (sv_runs db')" using run ev by (auto simp: db_evolves_def finished_runs_def)
    then show ?thesis using True by (intro bexI[of _ r]) simp_all
  next
    case False
    have "ledger_step\<^sup>*\<^sup>* (ledger_of db) (ledger_of db')" using ev by (simp add: db_evolves_def)
    from ledger_steps_continue[OF this ledger_of_run[OF ok run]]
    obtain w where w: "ledger_of db' (run_id r) = Some w" "continues (view_of r) w" by blast
    obtain r' where "r' \<in> set (sv_runs db')" "run_id r' = run_id r" "view_of r' = w" using ledger_row[OF ok' w(1)] by blast
    then show ?thesis using w(2) False by (intro bexI[of _ r']) (auto simp: continues_def view_of_def)
  qed
qed

theorem finished_runs_final_witness:
  "\<exists>r' \<in> set (sv_runs reported_db). run_id r' = 1 \<and> run_key r' = Some ''1@2024-05-01T03:00:00Z'' \<and> run_status r' \<noteq> Pending"
  using finished_runs_final[OF reachable_1(3) later_1, of run_1]
  by (auto simp: archived_db_def started_db_def run_1_def split: if_splits)

text \<open>
  C27. Once a report of a run has been accepted, no report of that run changes anything again, whatever calls
  come in between and whatever it says: it only uses up sequence values, and the one way it succeeds is as a
  replay.
\<close>

theorem report_accepted_once:
  assumes env: "pg_integers env" and reach: "reachable (\<lambda>db. db = empty_server) (server_step env) db0"
    and first: "execute_report env q db0 = (Inr a, db1)" "st_ok (re_status a)" "\<not> re_replayed a"
    and later: "(server_step env)\<^sup>*\<^sup>* db1 db2"
    and same: "pg_bigint env (ro_task_run_id q') = pg_bigint env (ro_task_run_id q)"
  shows "(\<exists>s. snd (execute_report env q' db2) = db2\<lparr>sv_seq := s\<rparr>) \<and>
    (case fst (execute_report env q' db2) of Inl _ \<Rightarrow> True | Inr b \<Rightarrow> st_ok (re_status b) \<longrightarrow> re_replayed b)"
proof -
  obtain r x where r: "r \<in> set (sv_receipts db2)" "receipt_for env (report_claim env q) db2 r"
    using accepted_report(2)[OF env reach first later] by (auto simp: recorded_def)
  then have "rcp_type r = TaskRunReport" "pg_bigint env (ro_task_run_id q') = Some (rcp_run r)"
    using same by (simp_all add: receipt_for_def report_claim_def)
  note again = reported_again[OF r(1) this]
  have "\<exists>s. snd (execute_report env q' db2) = db2\<lparr>sv_seq := s\<rparr>"
    unfolding execute_report_def using again by (intro rolled_back) blast
  moreover have "re_replayed b" if "fst (execute_report env q' db2) = Inr b" "st_ok (re_status b)" for b
    using again that unfolding execute_report_def in_transaction_fst by blast
  ultimately show ?thesis by (simp split: sum.split)
qed

theorem report_accepted_once_witness:
  "\<exists>s. snd (execute_report plain_env (report_1\<lparr>ro_idempotency_key := ''r2'', ro_status := Failed\<rparr>) reported_db) = reported_db\<lparr>sv_seq := s\<rparr>"
  using report_accepted_once[OF plain_integers reachable_1(3) report_run_1 _ _ rtranclp.rtrancl_refl,
      of "report_1\<lparr>ro_idempotency_key := ''r2'', ro_status := Failed\<rparr>"]
  by (simp add: status_success_def)

lemma report_replayed:
  assumes env: "pg_integers env" and reach: "reachable (\<lambda>db. db = empty_server) (server_step env) db0"
    and first: "execute_report env q db0 = (Inr a, db1)" "st_ok (re_status a)" "\<not> re_replayed a"
    and later: "(server_step env)\<^sup>*\<^sup>* db1 db2" and room: "sq_receipt (sv_seq db2) < 2 ^ 63"
  shows "\<exists>s. execute_report env q db2 =
    (Inr \<lparr>re_status = status_success, re_parsed_record_ids = re_parsed_record_ids a, re_qc_result_ids = re_qc_result_ids a,
       re_alert_ids = re_alert_ids a, re_replayed = True\<rparr>, db2\<lparr>sv_seq := s\<rparr>)"
proof -
  note acc = accepted_report[OF env reach first later]
  have checks: "st_ok (validate_idempotency_key (ro_idempotency_key q)) \<and> ro_task_run_id q \<noteq> [] \<and> ro_node_code q \<noteq> [] \<and>
    is_terminal_status (ro_status q)" by (rule report_checked[OF acc(3) first(2)])
  have "server_ok db2" using acc(1) by (simp add: server_good_def)
  from report_again[OF this acc(2) room] checks show ?thesis by (simp add: report_response_def)
qed

text \<open>
  A report that was accepted and is sent again, after any further calls, is answered as it was the first
  time: success, the same identifiers, marked as a replay, and no table changes. The receipt sequence must
  not be used up, because claiming a receipt always takes a value.
\<close>

lemma accepted_report_replays:
  assumes env: "pg_integers env" and reach: "reachable (\<lambda>db. db = empty_server) (server_step env) db0"
    and first: "execute_report env q db0 = (Inr a, db1)" "st_ok (re_status a)" "\<not> re_replayed a"
    and later: "(server_step env)\<^sup>*\<^sup>* db1 db2" and room: "sq_receipt (sv_seq db2) < 2 ^ 63"
  shows "\<exists>s. execute_report env q db2 =
    (Inr \<lparr>re_status = status_success, re_parsed_record_ids = re_parsed_record_ids a, re_qc_result_ids = re_qc_result_ids a,
       re_alert_ids = re_alert_ids a, re_replayed = True\<rparr>, db2\<lparr>sv_seq := s\<rparr>)"
  by (rule report_replayed[OF env reach first later room])

lemma accepted_report_replays_example:
  "\<exists>s. execute_report plain_env report_1 reported_db =
    (Inr \<lparr>re_status = status_success, re_parsed_record_ids = [''1''], re_qc_result_ids = [''1''], re_alert_ids = [''1''],
       re_replayed = True\<rparr>, reported_db\<lparr>sv_seq := s\<rparr>)"
  using accepted_report_replays[OF plain_integers reachable_1(3) report_run_1 _ _ rtranclp.rtrancl_refl]
  by (simp add: status_success_def reported_db_def)

text \<open>
  A manifest that was accepted and is sent again, after any further calls, also after its run finished, is
  answered with the identifiers of the files it recorded the first time, and records nothing again.
\<close>

lemma accepted_manifest_replays:
  assumes env: "pg_integers env" and reach: "reachable (\<lambda>db. db = empty_server) (server_step env) db0"
    and first: "execute_manifest env q db0 = (Inr a, db1)" "st_ok (ma_status a)" "\<not> ma_replayed a"
    and later: "(server_step env)\<^sup>*\<^sup>* db1 db2" and room: "sq_receipt (sv_seq db2) < 2 ^ 63"
  shows "\<exists>s. execute_manifest env q db2 =
    (Inr \<lparr>ma_status = status_success, ma_raw_file_ids = ma_raw_file_ids a, ma_replayed = True\<rparr>, db2\<lparr>sv_seq := s\<rparr>)"
proof -
  note acc = accepted_manifest[OF env reach first later]
  have checks: "st_ok (validate_idempotency_key (rm_idempotency_key q)) \<and> rm_task_run_id q \<noteq> [] \<and> rm_node_code q \<noteq> []"
    by (rule manifest_checked[OF acc(3) first(2)])
  have "server_ok db2" using acc(1) by (simp add: server_good_def)
  from manifest_again[OF this acc(2) room] checks show ?thesis by (simp add: manifest_response_def)
qed

lemma accepted_manifest_replays_example:
  "\<exists>s. execute_manifest plain_env manifest_1 reported_db =
    (Inr \<lparr>ma_status = status_success, ma_raw_file_ids = [''1''], ma_replayed = True\<rparr>, reported_db\<lparr>sv_seq := s\<rparr>)"
  using accepted_manifest_replays[OF plain_integers reachable_1(2) manifest_run_1 _ _ later_1]
  by (simp add: status_success_def reported_db_def)

end
