(* ===== verification/Query_Pages.thy ===== *)
theory Query_Pages
  imports Query_Times Server_Properties
begin

text \<open>
  Following the cursor of one page to the next shows every row once: the law of every paged query
  (\<open>paged_query\<close>), its consequence for the whole walk, and the queries that satisfy it.
\<close>

section \<open>Walking through the pages\<close>

fun walk :: "nat \<Rightarrow> (page_input \<Rightarrow> 'a page_result sproc) \<Rightarrow> int \<Rightarrow> string option \<Rightarrow> 'a list sproc" where
  "walk 0 query limit cursor = throw (RuntimeFault ''more pages'')"
| "walk (Suc n) query limit cursor =
     seqp (query \<lparr>pi_limit = limit, pi_cursor = cursor\<rparr>) (\<lambda>(st, page).
     if \<not> st_ok st then throw (RuntimeFault ''refused'')
     else if mp_has_more page then seqp (walk n query limit (mp_next_cursor page)) (\<lambda>rest. ret (mp_items page @ rest))
     else ret (mp_items page))"

definition row_id :: "int \<Rightarrow> bool" where
  "row_id i \<longleftrightarrow> 0 < i \<and> i < 2 ^ 63"

definition descending :: "('r \<Rightarrow> int) \<Rightarrow> 'r list \<Rightarrow> 'r list" where
  "descending key rows = sort_key (\<lambda>r. - key r) rows"

locale paged_query =
  fixes query :: "page_input \<Rightarrow> 'a page_result sproc" and ready :: "server_db \<Rightarrow> bool" and rows :: "server_db \<Rightarrow> 'r list"
    and key :: "'r \<Rightarrow> int" and item :: "server_db \<Rightarrow> 'r \<Rightarrow> 'a" and read_id :: "'a \<Rightarrow> string"
  assumes answers: "ready db \<Longrightarrow> 1 \<le> l \<Longrightarrow> l \<le> 100 \<Longrightarrow> pred_option row_id c \<Longrightarrow>
      query \<lparr>pi_limit = l, pi_cursor = map_option id_text c\<rparr> db =
        (Inr (status_success, trim_page (map (item db) (page_rows key (l + 1) c (rows db))) l read_id), db)"
    and row_ids: "ready db \<Longrightarrow> distinct (map key (rows db)) \<and> list_all (\<lambda>r. row_id (key r)) (rows db)"
    and item_ids: "ready db \<Longrightarrow> r \<in> set (rows db) \<Longrightarrow> read_id (item db r) = id_text (key r)"
begin

definition shown :: "server_db \<Rightarrow> 'r list" where
  "shown db = descending key (rows db)"

lemma shown_set: "set (shown db) = set (rows db)"
  by (simp add: shown_def descending_def)

lemma shown_descends:
  assumes "ready db" shows "sorted_wrt (\<lambda>a b. key b < key a) (shown db)"
proof -
  have "sorted (map (\<lambda>r. - key r) (shown db))" by (simp add: shown_def descending_def)
  moreover have "distinct (map (\<lambda>r. - key r) (shown db))"
  proof -
    have "inj_on key (set (rows db))" "distinct (rows db)" using row_ids[OF assms] by (simp_all add: distinct_map)
    then show ?thesis by (simp add: shown_def descending_def distinct_map inj_on_def)
  qed
  ultimately have "sorted_wrt (<) (map (\<lambda>r. - key r) (shown db))" by (simp add: strict_sorted_iff)
  then show ?thesis by (simp add: sorted_wrt_map)
qed

definition cursor_after :: "'r list \<Rightarrow> int option" where
  "cursor_after p = (if p = [] then None else Some (key (last p)))"

lemma below_shown:
  assumes "ready db" "shown db = p @ s"
  shows "filter (\<lambda>r. below_cursor (cursor_after p) (key r)) (shown db) = s"
proof (cases "p = []")
  case True
  then show ?thesis using assms(2) by (simp add: cursor_after_def below_cursor_def)
next
  case False
  then obtain p' x where p: "p = p' @ [x]" by (metis rev_exhaust)
  have d: "sorted_wrt (\<lambda>a b. key b < key a) (p' @ [x] @ s)" using shown_descends[OF assms(1)] assms(2) p by simp
  then have "\<forall>a \<in> set p'. key x < key a" "\<forall>b \<in> set s. key b < key x" by (auto simp: sorted_wrt_append)
  then have "filter (\<lambda>r. key r < key x) p' = []" "filter (\<lambda>r. key r < key x) s = s" by (auto simp: filter_empty_conv)
  then show ?thesis using assms(2) p by (simp add: cursor_after_def below_cursor_def)
qed

lemma page_at:
  assumes "ready db" "shown db = p @ s" "1 \<le> l"
  shows "page_rows key (l + 1) (cursor_after p) (rows db) = take (nat l + 1) s"
proof -
  have "sort_key (\<lambda>r. - key r) (filter (\<lambda>r. below_cursor (cursor_after p) (key r)) (rows db)) = s"
    using below_shown[OF assms(1,2)] by (simp add: shown_def descending_def filter_sort)
  moreover have "nat (l + 1) = nat l + 1" using assms(3) by simp
  ultimately show ?thesis by (simp add: page_rows_def)
qed

lemma walk_from:
  assumes ready: "ready db" and l: "1 \<le> l" "l \<le> 100"
  shows "shown db = p @ s \<Longrightarrow> length s < n \<Longrightarrow> walk n query l (map_option id_text (cursor_after p)) db = (Inr (map (item db) s), db)"
proof (induction n arbitrary: p s)
  case 0
  then show ?case by simp
next
  case (Suc n)
  have ids: "\<And>r. r \<in> set (shown db) \<Longrightarrow> row_id (key r)" using row_ids[OF ready] by (simp add: shown_set list_all_iff)
  have c: "pred_option row_id (cursor_after p)"
    using ids[of "last p"] Suc.prems(1) by (cases "p = []") (simp_all add: cursor_after_def)
  let ?rows = "map (item db) (take (nat l + 1) s)"
  have answer: "query \<lparr>pi_limit = l, pi_cursor = map_option id_text (cursor_after p)\<rparr> db =
      (Inr (status_success, trim_page ?rows l read_id), db)"
    using answers[OF ready l c] page_at[OF ready Suc.prems(1) l(1)] by simp
  show ?case
  proof (cases "nat l < length s")
    case False
    then have "trim_page ?rows l read_id = \<lparr>mp_items = map (item db) s, mp_next_cursor = None, mp_has_more = False\<rparr>"
      using l by (auto simp: trim_page_def Let_def)
    then show ?thesis using answer by (simp add: seqp_def ret_def)
  next
    case True
    let ?now = "take (nat l) s"
    have now: "?now \<noteq> []" using True l by auto
    have "last (map (item db) ?now) = item db (last ?now)" using now by (simp add: last_map)
    moreover have "last ?now \<in> set (rows db)"
      using last_in_set[OF now] Suc.prems(1) shown_set[of db] in_set_takeD[of "last ?now" "nat l" s] by auto
    then have "read_id (item db (last ?now)) = id_text (key (last ?now))" by (rule item_ids[OF ready])
    moreover have "take (nat l) ?rows = map (item db) ?now" by (simp add: take_map min_def)
    moreover have "l < int (length ?rows)" using True l by auto
    ultimately have page: "trim_page ?rows l read_id =
        \<lparr>mp_items = map (item db) ?now, mp_next_cursor = Some (id_text (key (last ?now))), mp_has_more = True\<rparr>"
      using now by (simp add: trim_page_def Let_def)
    have "shown db = (p @ ?now) @ drop (nat l) s" "length (drop (nat l) s) < n" using Suc.prems True l by auto
    then have "walk n query l (map_option id_text (cursor_after (p @ ?now))) db = (Inr (map (item db) (drop (nat l) s)), db)"
      by (rule Suc.IH)
    then have "walk n query l (Some (id_text (key (last ?now)))) db = (Inr (map (item db) (drop (nat l) s)), db)"
      using now by (simp add: cursor_after_def)
    moreover have "map (item db) ?now @ map (item db) (drop (nat l) s) = map (item db) s"
      by (metis append_take_drop_id map_append)
    ultimately show ?thesis using answer page by (simp add: seqp_def ret_def)
  qed
qed

lemma walk_complete:
  assumes "ready db" "1 \<le> l" "l \<le> 100" "length (rows db) < n"
  shows "walk n query l None db = (Inr (map (item db) (descending key (rows db))), db)"
  using walk_from[OF assms(1-3), of "[]" "shown db" n] assms(4) by (simp add: cursor_after_def shown_def descending_def)

end

section \<open>The queries\<close>

text \<open>A fetch whose rows have identifiers of their own and can all be read.\<close>

definition readable :: "pg_env \<Rightarrow> ('r \<Rightarrow> int) \<Rightarrow> 'r list \<Rightarrow> ('r \<Rightarrow> server_exn + 'a) \<Rightarrow> bool" where
  "readable env key rows read \<longleftrightarrow> pg_integers env \<and> distinct (map key rows) \<and> list_all (\<lambda>r. row_id (key r)) rows \<and>
     list_all (\<lambda>r. \<exists>x. read r = Inr x) rows"

lemma readableD:
  assumes "readable env key rows read"
  shows "pg_integers env" "distinct (map key rows) \<and> list_all (\<lambda>r. row_id (key r)) rows"
    and "r \<in> set rows \<Longrightarrow> \<exists>x. read r = Inr x"
  using assms by (simp_all add: readable_def list_all_iff)

lemma row_id_bigint: "row_id i \<Longrightarrow> is_bigint i"
  by (simp add: row_id_def is_bigint_def)

lemma to_cursor_row: "pg_integers env \<Longrightarrow> pred_option row_id c \<Longrightarrow>
    to_cursor env \<lparr>pq_fetch_limit = n, pq_cursor = map_option id_text c\<rparr> db = (Inr c, db)"
  by (cases c) (simp_all add: to_cursor_def ret_def seqp_def to_bigint_def pg_integers_def row_id_bigint id_text_def)

lemma smap_readable: "(\<And>r. r \<in> set xs \<Longrightarrow> \<exists>x. read r = Inr x) \<Longrightarrow> smap read xs = Inr (map (\<lambda>r. projr (read r)) xs)"
proof (induction xs)
  case (Cons a xs)
  then obtain x where "read a = Inr x" by auto
  moreover have "smap read xs = Inr (map (\<lambda>r. projr (read r)) xs)" using Cons by simp
  ultimately show ?case by simp
qed simp

lemma page_rows_subset: "set (page_rows key n c rows) \<subseteq> set rows"
  by (auto simp: page_rows_def dest!: in_set_takeD)

lemma fetch_readable:
  assumes "readable env key (rows db) (read db)" "pred_option row_id c"
  shows "fetch_page env key \<lparr>pq_fetch_limit = n, pq_cursor = map_option id_text c\<rparr> rows read db =
    (Inr (map (\<lambda>r. projr (read db r)) (page_rows key n c (rows db))), db)"
proof -
  have "smap (read db) (page_rows key n c (rows db)) = Inr (map (\<lambda>r. projr (read db r)) (page_rows key n c (rows db)))"
    using readableD(3)[OF assms(1)] page_rows_subset[of key n c "rows db"] by (intro smap_readable) blast
  then show ?thesis
    using to_cursor_row[OF readableD(1)[OF assms(1)] assms(2)] by (simp add: fetch_page_def seqp_def gets_def lift_sum_def)
qed

text \<open>The cursor the service hands out passes its own check.\<close>

lemma id_text_positive: "row_id i \<Longrightarrow> is_positive_id (id_text i)"
  using nat_to_string_digits by (simp add: row_id_def is_positive_id_def id_text_def int_to_string_def digits_value_nat_to_string)

lemma valid_page: "1 \<le> l \<Longrightarrow> l \<le> 100 \<Longrightarrow> pred_option row_id c \<Longrightarrow>
    st_ok (validate_page \<lparr>pi_limit = l, pi_cursor = map_option id_text c\<rparr>)"
  by (cases c) (simp_all add: validate_page_def id_text_positive)

lemma query_page_answers:
  "records db = (Inr xs, db) \<Longrightarrow>
    query_page records \<lparr>pi_limit = l, pi_cursor = c\<rparr> read_id db = (Inr (status_success, trim_page xs l read_id), db)"
  by (simp add: query_page_def seqp_def ret_def)

lemma page_request: "repository_page \<lparr>pi_limit = l, pi_cursor = c\<rparr> = \<lparr>pq_fetch_limit = l + 1, pq_cursor = c\<rparr>"
  by (simp add: repository_page_def)

text \<open>What lets the scoped queries pass their lookups.\<close>

definition node_known :: "pg_env \<Rightarrow> string \<Rightarrow> server_db \<Rightarrow> bool" where
  "node_known env code db \<longleftrightarrow> st_ok (validate_node_code code) \<and> (\<exists>s. find_node_summary env code db = (Inr (Some s), db))"

definition run_known :: "pg_env \<Rightarrow> string \<Rightarrow> server_db \<Rightarrow> bool" where
  "run_known env run db \<longleftrightarrow> is_positive_id run \<and> (\<exists>s. find_task_run_summary env run db = (Inr (Some s), db))"

lemma node_known_code: "node_known env code db \<Longrightarrow> st_ok (validate_node_code code)"
  and run_known_id: "run_known env run db \<Longrightarrow> is_positive_id run"
  by (simp_all add: node_known_def run_known_def)

lemma with_known:
  "node_known env code db \<Longrightarrow> with_node env code m db = m db" "run_known env run db \<Longrightarrow> with_run env run n db = n db"
  by (auto simp: node_known_def run_known_def with_node_def with_run_def seqp_def)

text \<open>The rows each query is about.\<close>

definition rule_rows :: "bool option \<Rightarrow> server_db \<Rightarrow> rule_row list" where
  "rule_rows enabled db = filter (\<lambda>r. optional_match enabled (ru_enabled r)) (sv_rules db)"

definition source_rows :: "string \<Rightarrow> bool option \<Rightarrow> server_db \<Rightarrow> source_row list" where
  "source_rows code enabled db = filter (\<lambda>s. on_node code (so_node s) db \<and> optional_match enabled (so_enabled s)) (sv_sources db)"

definition task_rows :: "string \<Rightarrow> bool option \<Rightarrow> server_db \<Rightarrow> task_row list" where
  "task_rows code enabled db = filter (\<lambda>t. on_node code (tk_node t) db \<and> optional_match enabled (tk_enabled t)) (sv_tasks db)"

definition run_rows :: "string \<Rightarrow> int option \<Rightarrow> task_run_status option \<Rightarrow> server_db \<Rightarrow> run_row list" where
  "run_rows code task st db =
     filter (\<lambda>r. on_node code (run_node r) db \<and> optional_match task (run_task r) \<and> optional_match st (run_status r)) (sv_runs db)"

definition record_rows :: "int \<Rightarrow> server_db \<Rightarrow> record_row list" where
  "record_rows run db = filter (\<lambda>p. rc_run p = run) (sv_records db)"

definition raw_rows :: "int \<Rightarrow> server_db \<Rightarrow> raw_row list" where
  "raw_rows run db = filter (\<lambda>f. rw_run f = run \<and> node_with_id (rw_node f) db \<noteq> None) (sv_raw_files db)"

lemma query_rows:
  "(\<lambda>db. filter (\<lambda>r. optional_match enabled (ru_enabled r)) (sv_rules db)) = rule_rows enabled"
  "(\<lambda>db. filter (\<lambda>s. on_node code (so_node s) db \<and> optional_match enabled (so_enabled s)) (sv_sources db)) = source_rows code enabled"
  "(\<lambda>db. filter (\<lambda>t. on_node code (tk_node t) db \<and> optional_match enabled (tk_enabled t)) (sv_tasks db)) = task_rows code enabled"
  "(\<lambda>db. filter (\<lambda>r. on_node code (run_node r) db \<and> optional_match task (run_task r) \<and> optional_match st (run_status r)) (sv_runs db)) =
     run_rows code task st"
  "(\<lambda>db. filter (\<lambda>p. rc_run p = run) (sv_records db)) = record_rows run"
  "(\<lambda>db. filter (\<lambda>f. rw_run f = run \<and> node_with_id (rw_node f) db \<noteq> None) (sv_raw_files db)) = raw_rows run"
  by (simp_all add: fun_eq_iff rule_rows_def source_rows_def task_rows_def run_rows_def record_rows_def raw_rows_def)

interpretation qc_rule_pages: paged_query "list_qc_rules env enabled"
  "\<lambda>db. readable env ru_id (rule_rows enabled db) (\<lambda>r. Inr (rule_of r))" "rule_rows enabled" ru_id "\<lambda>db. rule_of" qu_id
proof
  fix db :: server_db and l :: int and c :: "int option"
  assume ready: "readable env ru_id (rule_rows enabled db) (\<lambda>r. Inr (rule_of r))" and l: "1 \<le> l" "l \<le> 100" and c: "pred_option row_id c"
  have fetched: "repo_list_qc_rules env enabled \<lparr>pq_fetch_limit = l + 1, pq_cursor = map_option id_text c\<rparr> db =
      (Inr (map rule_of (page_rows ru_id (l + 1) c (rule_rows enabled db))), db)"
    using fetch_readable[of env ru_id "rule_rows enabled" db "\<lambda>db r. Inr (rule_of r)", OF ready c]
    unfolding repo_list_qc_rules_def query_rows by simp
  show "list_qc_rules env enabled \<lparr>pi_limit = l, pi_cursor = map_option id_text c\<rparr> db =
        (Inr (status_success, trim_page (map rule_of (page_rows ru_id (l + 1) c (rule_rows enabled db))) l qu_id), db)"
    unfolding list_qc_rules_def
    by (simp only: valid_page[OF l c] not_True_eq_False if_False page_request) (rule query_page_answers, rule fetched)
qed (auto simp: readable_def rule_of_def)

interpretation data_source_pages: paged_query "list_data_sources env code enabled"
  "\<lambda>db. node_known env code db \<and> readable env so_id (source_rows code enabled db) (joined data_source_of so_node db)"
  "source_rows code enabled" so_id "\<lambda>db s. projr (joined data_source_of so_node db s)" dr_id
proof
  fix db :: server_db and l :: int and c :: "int option"
  assume known: "node_known env code db \<and> readable env so_id (source_rows code enabled db) (joined data_source_of so_node db)"
    and l: "1 \<le> l" "l \<le> 100" and c: "pred_option row_id c"
  then have ready: "readable env so_id (source_rows code enabled db) (joined data_source_of so_node db)" by simp
  have at: "node_known env code db" using known by simp
  have fetched: "list_data_sources_by_node env code enabled \<lparr>pq_fetch_limit = l + 1, pq_cursor = map_option id_text c\<rparr> db =
      (Inr (map (\<lambda>s. projr (joined data_source_of so_node db s)) (page_rows so_id (l + 1) c (source_rows code enabled db))), db)"
    using fetch_readable[of env so_id "source_rows code enabled" db "joined data_source_of so_node", OF ready c]
    unfolding list_data_sources_by_node_def query_rows by simp
  show "list_data_sources env code enabled \<lparr>pi_limit = l, pi_cursor = map_option id_text c\<rparr> db =
        (Inr (status_success, trim_page (map (\<lambda>s. projr (joined data_source_of so_node db s)) (page_rows so_id (l + 1) c (source_rows code enabled db))) l dr_id), db)"
    unfolding list_data_sources_def
    by (simp only: node_known_code[OF at] valid_page[OF l c] not_True_eq_False if_False with_known(1)[OF at] page_request) (rule query_page_answers, rule fetched)
next
  fix db :: server_db and s
  assume "node_known env code db \<and> readable env so_id (source_rows code enabled db) (joined data_source_of so_node db)"
    "s \<in> set (source_rows code enabled db)"
  then obtain x where "joined data_source_of so_node db s = Inr x" by (auto simp: readable_def list_all_iff)
  then show "dr_id (projr (joined data_source_of so_node db s)) = id_text (so_id s)"
    by (auto simp: joined_def data_source_of_def split: option.splits)
qed (auto simp: readable_def)

interpretation task_pages: paged_query "list_tasks env code enabled"
  "\<lambda>db. node_known env code db \<and> readable env tk_id (task_rows code enabled db) (joined (listed_task_of db) tk_node db)"
  "task_rows code enabled" tk_id "\<lambda>db t. projr (joined (listed_task_of db) tk_node db t)" tx_id
proof
  fix db :: server_db and l :: int and c :: "int option"
  assume known: "node_known env code db \<and> readable env tk_id (task_rows code enabled db) (joined (listed_task_of db) tk_node db)"
    and l: "1 \<le> l" "l \<le> 100" and c: "pred_option row_id c"
  then have ready: "readable env tk_id (task_rows code enabled db) (joined (listed_task_of db) tk_node db)" by simp
  have at: "node_known env code db" using known by simp
  have fetched: "list_tasks_by_node env code enabled \<lparr>pq_fetch_limit = l + 1, pq_cursor = map_option id_text c\<rparr> db =
      (Inr (map (\<lambda>t. projr (joined (listed_task_of db) tk_node db t)) (page_rows tk_id (l + 1) c (task_rows code enabled db))), db)"
    using fetch_readable[of env tk_id "task_rows code enabled" db "\<lambda>db. joined (listed_task_of db) tk_node db", OF ready c]
    unfolding list_tasks_by_node_def query_rows by simp
  show "list_tasks env code enabled \<lparr>pi_limit = l, pi_cursor = map_option id_text c\<rparr> db =
        (Inr (status_success, trim_page (map (\<lambda>t. projr (joined (listed_task_of db) tk_node db t)) (page_rows tk_id (l + 1) c (task_rows code enabled db))) l tx_id), db)"
    unfolding list_tasks_def
    by (simp only: node_known_code[OF at] valid_page[OF l c] not_True_eq_False if_False with_known(1)[OF at] page_request) (rule query_page_answers, rule fetched)
next
  fix db :: server_db and t
  assume "node_known env code db \<and> readable env tk_id (task_rows code enabled db) (joined (listed_task_of db) tk_node db)"
    "t \<in> set (task_rows code enabled db)"
  then obtain x where "joined (listed_task_of db) tk_node db t = Inr x" by (auto simp: readable_def list_all_iff)
  then show "tx_id (projr (joined (listed_task_of db) tk_node db t)) = id_text (tk_id t)"
    by (auto simp: joined_def listed_task_of_def task_of_def split: option.splits)
qed (auto simp: readable_def)

text \<open>The runs of a node, with the checks of their filters.\<close>

definition run_filter_ok :: "pg_env \<Rightarrow> string \<Rightarrow> string option \<Rightarrow> int option \<Rightarrow> string option \<Rightarrow> server_db \<Rightarrow> bool" where
  "run_filter_ok env code task_id task st db \<longleftrightarrow>
     (st = None \<or> parse_run_status st \<noteq> None) \<and>
     (case task_id of
        None \<Rightarrow> task = None
      | Some i \<Rightarrow> is_positive_id i \<and> to_bigint env i db = (Inr (the task), db) \<and> task \<noteq> None \<and>
          (\<exists>t. query_find_task env i db = (Inr (Some t), db) \<and> tx_node_code t = code))"

interpretation task_run_pages: paged_query "list_task_runs env k code task_id st"
  "\<lambda>db. node_known env code db \<and> run_filter_ok env code task_id task st db \<and>
     readable env run_id (run_rows code task (parse_run_status st) db) (listed_run_of env db)"
  "run_rows code task (parse_run_status st)" run_id "\<lambda>db r. managed_run_of k (projr (listed_run_of env db r))"
  "\<lambda>r. tr_id (lr_run (fst r))"
proof
  fix db :: server_db and l :: int and c :: "int option"
  assume known: "node_known env code db \<and> run_filter_ok env code task_id task st db \<and>
     readable env run_id (run_rows code task (parse_run_status st) db) (listed_run_of env db)"
    and l: "1 \<le> l" "l \<le> 100" and c: "pred_option row_id c"
  then have ready: "readable env run_id (run_rows code task (parse_run_status st) db) (listed_run_of env db)" by simp
  have wanted: "(case task_id of None \<Rightarrow> ret None | Some i \<Rightarrow> seqp (to_bigint env i) (\<lambda>n. ret (Some n))) db = (Inr task, db)"
    using known by (auto simp: run_filter_ok_def ret_def seqp_def split: option.splits)
  let ?rows = "page_rows run_id (l + 1) c (run_rows code task (parse_run_status st) db)"
  have fetched: "list_task_runs_by_node env code task_id (parse_run_status st) \<lparr>pq_fetch_limit = l + 1, pq_cursor = map_option id_text c\<rparr> db =
      (Inr (map (\<lambda>r. projr (listed_run_of env db r)) ?rows), db)"
    using fetch_readable[of env run_id "run_rows code task (parse_run_status st)" db "listed_run_of env", OF ready c]
    unfolding list_task_runs_by_node_def query_rows seqp_def[of "case task_id of None \<Rightarrow> _ | Some i \<Rightarrow> _ i"] by (simp add: wanted)
  have managed: "seqp (list_task_runs_by_node env code task_id (parse_run_status st) \<lparr>pq_fetch_limit = l + 1, pq_cursor = map_option id_text c\<rparr>)
      (\<lambda>rs. ret (map (managed_run_of k) rs)) db = (Inr (map (\<lambda>r. managed_run_of k (projr (listed_run_of env db r))) ?rows), db)"
    by (simp add: seqp_def fetched ret_def)
  have at: "node_known env code db" and st: "\<not> (st \<noteq> None \<and> parse_run_status st = None)"
    and i: "\<not> (case task_id of None \<Rightarrow> False | Some i \<Rightarrow> \<not> is_positive_id i)"
    using known by (auto simp: run_filter_ok_def split: option.splits)
  have checked: "(case task_id of None \<Rightarrow> m | Some i \<Rightarrow> seqp (query_find_task env i) (\<lambda>task.
      if (case task of None \<Rightarrow> True | Some t \<Rightarrow> tx_node_code t \<noteq> code) then n else m)) db = m db" for m n :: "managed_run page_result sproc"
    using known by (auto simp: run_filter_ok_def seqp_def split: option.splits)
  show "list_task_runs env k code task_id st \<lparr>pi_limit = l, pi_cursor = map_option id_text c\<rparr> db =
        (Inr (status_success, trim_page (map (\<lambda>r. managed_run_of k (projr (listed_run_of env db r))) ?rows) l (\<lambda>r. tr_id (lr_run (fst r)))), db)"
    unfolding list_task_runs_def Let_def
    by (simp only: node_known_code[OF at] valid_page[OF l c] st i not_True_eq_False if_False with_known(1)[OF at] checked page_request) (rule query_page_answers, rule managed)
next
  fix db :: server_db and r
  assume "node_known env code db \<and> run_filter_ok env code task_id task st db \<and>
     readable env run_id (run_rows code task (parse_run_status st) db) (listed_run_of env db)"
    "r \<in> set (run_rows code task (parse_run_status st) db)"
  then obtain x where "listed_run_of env db r = Inr x" by (auto simp: readable_def list_all_iff)
  then show "tr_id (lr_run (fst (managed_run_of k (projr (listed_run_of env db r))))) = id_text (run_id r)"
    by (auto simp: listed_run_of_def managed_run_of_def task_run_of_def sbind_Inr_iff split: option.splits)
qed (auto simp: readable_def)

text \<open>What a run produced.\<close>

interpretation parsed_record_pages: paged_query "list_parsed_records env run"
  "\<lambda>db. run_known env run db \<and> to_bigint env run db = (Inr i, db) \<and>
     readable env rc_id (record_rows i db) (\<lambda>p. Inr (parsed_record_of env p))"
  "record_rows i" rc_id "\<lambda>db. parsed_record_of env" pd_id
proof
  fix db :: server_db and l :: int and c :: "int option"
  assume known: "run_known env run db \<and> to_bigint env run db = (Inr i, db) \<and>
     readable env rc_id (record_rows i db) (\<lambda>p. Inr (parsed_record_of env p))"
    and l: "1 \<le> l" "l \<le> 100" and c: "pred_option row_id c"
  then have ready: "readable env rc_id (record_rows i db) (\<lambda>p. Inr (parsed_record_of env p))" by simp
  have at: "run_known env run db" using known by simp
  have i: "to_bigint env run db = (Inr i, db)" using known by simp
  have fetched: "list_parsed_records_by_run env run \<lparr>pq_fetch_limit = l + 1, pq_cursor = map_option id_text c\<rparr> db =
      (Inr (map (parsed_record_of env) (page_rows rc_id (l + 1) c (record_rows i db))), db)"
    using fetch_readable[of env rc_id "record_rows i" db "\<lambda>db p. Inr (parsed_record_of env p)", OF ready c]
    unfolding list_parsed_records_by_run_def query_rows by (simp add: seqp_def i)
  show "list_parsed_records env run \<lparr>pi_limit = l, pi_cursor = map_option id_text c\<rparr> db =
        (Inr (status_success, trim_page (map (parsed_record_of env) (page_rows rc_id (l + 1) c (record_rows i db))) l pd_id), db)"
    unfolding list_parsed_records_def
    by (simp only: run_known_id[OF at] valid_page[OF l c] not_True_eq_False if_False with_known(2)[OF at] page_request) (rule query_page_answers, rule fetched)
qed (auto simp: readable_def parsed_record_of_def)

interpretation raw_file_pages: paged_query "list_raw_files env run"
  "\<lambda>db. run_known env run db \<and> to_bigint env run db = (Inr i, db) \<and>
     readable env rw_id (raw_rows i db) (joined (raw_file_of env) rw_node db)"
  "raw_rows i" rw_id "\<lambda>db f. projr (joined (raw_file_of env) rw_node db f)" rx_id
proof
  fix db :: server_db and l :: int and c :: "int option"
  assume known: "run_known env run db \<and> to_bigint env run db = (Inr i, db) \<and>
     readable env rw_id (raw_rows i db) (joined (raw_file_of env) rw_node db)"
    and l: "1 \<le> l" "l \<le> 100" and c: "pred_option row_id c"
  then have ready: "readable env rw_id (raw_rows i db) (joined (raw_file_of env) rw_node db)" by simp
  have at: "run_known env run db" using known by simp
  have i: "to_bigint env run db = (Inr i, db)" using known by simp
  have fetched: "list_raw_files_by_run env run \<lparr>pq_fetch_limit = l + 1, pq_cursor = map_option id_text c\<rparr> db =
      (Inr (map (\<lambda>f. projr (joined (raw_file_of env) rw_node db f)) (page_rows rw_id (l + 1) c (raw_rows i db))), db)"
    using fetch_readable[of env rw_id "raw_rows i" db "joined (raw_file_of env) rw_node", OF ready c]
    unfolding list_raw_files_by_run_def query_rows by (simp add: seqp_def i)
  show "list_raw_files env run \<lparr>pi_limit = l, pi_cursor = map_option id_text c\<rparr> db =
        (Inr (status_success, trim_page (map (\<lambda>f. projr (joined (raw_file_of env) rw_node db f)) (page_rows rw_id (l + 1) c (raw_rows i db))) l rx_id), db)"
    unfolding list_raw_files_def
    by (simp only: run_known_id[OF at] valid_page[OF l c] not_True_eq_False if_False with_known(2)[OF at] page_request) (rule query_page_answers, rule fetched)
next
  fix db :: server_db and f
  assume "run_known env run db \<and> to_bigint env run db = (Inr i, db) \<and>
     readable env rw_id (raw_rows i db) (joined (raw_file_of env) rw_node db)" "f \<in> set (raw_rows i db)"
  then obtain x where "joined (raw_file_of env) rw_node db f = Inr x" by (auto simp: readable_def list_all_iff)
  then show "rx_id (projr (joined (raw_file_of env) rw_node db f)) = id_text (rw_id f)"
    by (auto simp: joined_def raw_file_of_def split: option.splits)
qed (auto simp: readable_def)

definition result_rows :: "int \<Rightarrow> string option \<Rightarrow> server_db \<Rightarrow> result_row list" where
  "result_rows run result db = filter (\<lambda>q. result_run db q = Some run \<and> optional_match result (rs_result q)) (sv_results db)"

definition listed_result_of :: "int \<Rightarrow> result_row \<Rightarrow> listed_result" where
  "listed_result_of run q = \<lparr>lq_result = qc_result_of q, lq_task_run_id = id_text run\<rparr>"

interpretation qc_result_pages: paged_query "list_qc_results env run result"
  "\<lambda>db. run_known env run db \<and> \<not> not_one_of result [''passed'', ''failed''] \<and> to_bigint env run db = (Inr i, db) \<and>
     readable env rs_id (result_rows i result db) (\<lambda>q. Inr (listed_result_of i q))"
  "result_rows i result" rs_id "\<lambda>db. listed_result_of i" "\<lambda>q. qs_id (lq_result q)"
proof
  fix db :: server_db and l :: int and c :: "int option"
  assume known: "run_known env run db \<and> \<not> not_one_of result [''passed'', ''failed''] \<and> to_bigint env run db = (Inr i, db) \<and>
     readable env rs_id (result_rows i result db) (\<lambda>q. Inr (listed_result_of i q))"
    and l: "1 \<le> l" "l \<le> 100" and c: "pred_option row_id c"
  then have ready: "readable env rs_id (result_rows i result db) (\<lambda>q. Inr (listed_result_of i q))" and at: "run_known env run db"
    and i: "to_bigint env run db = (Inr i, db)" and asked: "\<not> not_one_of result [''passed'', ''failed'']" by simp_all
  have rows: "(\<lambda>db. filter (\<lambda>q. result_run db q = Some i \<and> optional_match result (rs_result q)) (sv_results db)) = result_rows i result"
    by (simp add: fun_eq_iff result_rows_def)
  have fetched: "list_qc_results_by_run env run result \<lparr>pq_fetch_limit = l + 1, pq_cursor = map_option id_text c\<rparr> db =
      (Inr (map (listed_result_of i) (page_rows rs_id (l + 1) c (result_rows i result db))), db)"
    using fetch_readable[of env rs_id "result_rows i result" db "\<lambda>db q. Inr (listed_result_of i q)", OF ready c]
    unfolding list_qc_results_by_run_def by (simp add: seqp_def i rows listed_result_of_def[symmetric])
  show "list_qc_results env run result \<lparr>pi_limit = l, pi_cursor = map_option id_text c\<rparr> db =
        (Inr (status_success, trim_page (map (listed_result_of i) (page_rows rs_id (l + 1) c (result_rows i result db))) l
           (\<lambda>q. qs_id (lq_result q))), db)"
    unfolding list_qc_results_def
    by (simp only: run_known_id[OF at] valid_page[OF l c] asked not_True_eq_False if_False with_known(2)[OF at] page_request)
      (rule query_page_answers, rule fetched)
qed (auto simp: readable_def listed_result_of_def qc_result_of_def)

text \<open>The alerts of a node, with the checks of their filters.\<close>

definition alert_rows :: "string \<Rightarrow> int option \<Rightarrow> string option \<Rightarrow> string option \<Rightarrow> server_db \<Rightarrow> alert_row list" where
  "alert_rows code wanted st severity db =
     filter (\<lambda>a. (case al_node a of None \<Rightarrow> False | Some i \<Rightarrow> on_node code i db) \<and>
          (case wanted of None \<Rightarrow> True | Some w \<Rightarrow> al_run a = Some w) \<and> optional_match st (al_status a) \<and>
          optional_match severity (al_severity a)) (sv_alerts db)"

definition alert_filter_ok :: "pg_env \<Rightarrow> string \<Rightarrow> string option \<Rightarrow> int option \<Rightarrow> string option \<Rightarrow> string option \<Rightarrow> server_db \<Rightarrow> bool" where
  "alert_filter_ok env code run wanted st severity db \<longleftrightarrow>
     \<not> not_one_of st [''open'', ''acknowledged'', ''closed''] \<and> \<not> not_one_of severity [''warning'', ''failed''] \<and>
     (case run of
        None \<Rightarrow> wanted = None
      | Some i \<Rightarrow> is_positive_id i \<and> to_bigint env i db = (Inr (the wanted), db) \<and> wanted \<noteq> None \<and>
          (\<exists>s. find_task_run_summary env i db = (Inr (Some s), db) \<and> tr_node_code (lr_run (su_run s)) = code))"

interpretation alert_pages: paged_query "list_alerts env code run st severity"
  "\<lambda>db. node_known env code db \<and> alert_filter_ok env code run wanted st severity db \<and>
     readable env al_id (alert_rows code wanted st severity db) (\<lambda>a. Inr (alert_of env db a))"
  "alert_rows code wanted st severity" al_id "alert_of env" ar_id
proof
  fix db :: server_db and l :: int and c :: "int option"
  assume known: "node_known env code db \<and> alert_filter_ok env code run wanted st severity db \<and>
     readable env al_id (alert_rows code wanted st severity db) (\<lambda>a. Inr (alert_of env db a))"
    and l: "1 \<le> l" "l \<le> 100" and c: "pred_option row_id c"
  then have ready: "readable env al_id (alert_rows code wanted st severity db) (\<lambda>a. Inr (alert_of env db a))" and at: "node_known env code db"
    by simp_all
  have run: "(case run of None \<Rightarrow> ret None | Some i \<Rightarrow> seqp (to_bigint env i) (\<lambda>n. ret (Some n))) db = (Inr wanted, db)"
    using known by (auto simp: alert_filter_ok_def ret_def seqp_def split: option.splits)
  have rows: "(\<lambda>db. filter (\<lambda>a. (case al_node a of None \<Rightarrow> False | Some i \<Rightarrow> on_node code i db) \<and>
          (case wanted of None \<Rightarrow> True | Some w \<Rightarrow> al_run a = Some w) \<and> optional_match st (al_status a) \<and>
          optional_match severity (al_severity a)) (sv_alerts db)) = alert_rows code wanted st severity"
    by (simp add: fun_eq_iff alert_rows_def)
  have fetched: "list_alerts_by_node env code run st severity \<lparr>pq_fetch_limit = l + 1, pq_cursor = map_option id_text c\<rparr> db =
      (Inr (map (alert_of env db) (page_rows al_id (l + 1) c (alert_rows code wanted st severity db))), db)"
    using fetch_readable[of env al_id "alert_rows code wanted st severity" db "\<lambda>db a. Inr (alert_of env db a)", OF ready c]
    unfolding list_alerts_by_node_def seqp_def[of "case run of None \<Rightarrow> _ | Some i \<Rightarrow> _ i"] by (simp add: run rows)
  have checks: "\<not> (case run of None \<Rightarrow> False | Some i \<Rightarrow> \<not> is_positive_id i)" "\<not> not_one_of st [''open'', ''acknowledged'', ''closed'']"
    "\<not> not_one_of severity [''warning'', ''failed'']"
    using known by (auto simp: alert_filter_ok_def split: option.splits)
  have owned: "(case run of None \<Rightarrow> m | Some i \<Rightarrow> seqp (find_task_run_summary env i) (\<lambda>s.
      if (case s of None \<Rightarrow> True | Some x \<Rightarrow> tr_node_code (lr_run (su_run x)) \<noteq> code) then n else m)) db = m db"
    for m n :: "alert_record page_result sproc"
    using known by (auto simp: alert_filter_ok_def seqp_def split: option.splits)
  show "list_alerts env code run st severity \<lparr>pi_limit = l, pi_cursor = map_option id_text c\<rparr> db =
        (Inr (status_success, trim_page (map (alert_of env db) (page_rows al_id (l + 1) c (alert_rows code wanted st severity db))) l ar_id), db)"
    unfolding list_alerts_def Let_def
    by (simp only: node_known_code[OF at] valid_page[OF l c] checks not_True_eq_False if_False with_known(1)[OF at] owned page_request)
      (rule query_page_answers, rule fetched)
qed (auto simp: readable_def alert_of_def)

text \<open>The nodes, filtered by the status the database derives.\<close>

definition node_rows :: "time_point \<Rightarrow> int \<Rightarrow> node_status option \<Rightarrow> server_db \<Rightarrow> node_row list" where
  "node_rows now offline_after wanted db =
     filter (\<lambda>n. case wanted of None \<Rightarrow> True | Some s \<Rightarrow> online_row now offline_after n = (s = Online)) (sv_nodes db)"

definition managed_node_of :: "pg_env \<Rightarrow> query_clock \<Rightarrow> node_row \<Rightarrow> managed_node" where
  "managed_node_of env k n =
     (node_listing_of env n, effective_status (node_listing_of env n) (qk_now k) (qk_offline_after k))"

interpretation node_pages: paged_query "list_nodes env k st"
  "\<lambda>db. (st = None \<or> parse_node_status st \<noteq> None) \<and> to_time env (format_utc_timestamp (qk_now k)) db = (Inr now, db) \<and>
     readable env nd_id (node_rows now (qk_offline_after k) (parse_node_status st) db) (\<lambda>n. Inr (node_listing_of env n))"
  "node_rows now (qk_offline_after k) (parse_node_status st)" nd_id "\<lambda>db. managed_node_of env k" "\<lambda>n. nl_id (fst n)"
proof
  fix db :: server_db and l :: int and c :: "int option"
  let ?rows = "node_rows now (qk_offline_after k) (parse_node_status st)"
  assume known: "(st = None \<or> parse_node_status st \<noteq> None) \<and> to_time env (format_utc_timestamp (qk_now k)) db = (Inr now, db) \<and>
     readable env nd_id (?rows db) (\<lambda>n. Inr (node_listing_of env n))"
    and l: "1 \<le> l" "l \<le> 100" and c: "pred_option row_id c"
  then have ready: "readable env nd_id (?rows db) (\<lambda>n. Inr (node_listing_of env n))" and asked: "\<not> (st \<noteq> None \<and> parse_node_status st = None)"
    and now: "to_time env (format_utc_timestamp (qk_now k)) db = (Inr now, db)" by auto
  let ?repo = "repo_list_nodes env (parse_node_status st) (format_utc_timestamp (qk_now k)) (qk_offline_after k)
      \<lparr>pq_fetch_limit = l + 1, pq_cursor = map_option id_text c\<rparr>"
  have fetched: "?repo db = (Inr (map (node_listing_of env) (page_rows nd_id (l + 1) c (?rows db))), db)"
    using fetch_readable[of env nd_id ?rows db "\<lambda>db n. Inr (node_listing_of env n)", OF ready c]
    unfolding repo_list_nodes_def
    by (cases "parse_node_status st") (simp_all add: seqp_def ret_def now node_rows_def[abs_def])
  have managed: "seqp ?repo (\<lambda>records. ret (map (\<lambda>r. (r, effective_status r (qk_now k) (qk_offline_after k))) records)) db =
      (Inr (map (managed_node_of env k) (page_rows nd_id (l + 1) c (?rows db))), db)"
    by (simp add: seqp_def fetched ret_def managed_node_of_def)
  show "list_nodes env k st \<lparr>pi_limit = l, pi_cursor = map_option id_text c\<rparr> db =
        (Inr (status_success, trim_page (map (managed_node_of env k) (page_rows nd_id (l + 1) c (?rows db))) l (\<lambda>n. nl_id (fst n))), db)"
    unfolding list_nodes_def
    by (simp only: valid_page[OF l c] asked not_True_eq_False if_False page_request) (rule query_page_answers, rule managed)
qed (auto simp: readable_def managed_node_of_def node_listing_of_def)

end
