(* ===== verification/Query_Properties.thy ===== *)
theory Query_Properties
  imports Query_Pages
begin

text \<open>
  What an operator sees: every run once, however many pages; and which nodes count as online, in the
  database's filter and in the service.
\<close>

section \<open>Environment\<close>

text \<open>
  The documented behaviour of \<^verbatim>\<open>::timestamptz\<close> and \<^verbatim>\<open>to_char\<close> on the texts of the clock: microseconds since the
  epoch, printed by the second.
\<close>

definition pg_clock :: "pg_env \<Rightarrow> bool" where
  "pg_clock env \<longleftrightarrow>
     (\<forall>t. - (2 ^ 63) \<le> t \<and> t < 2 ^ 63 \<longrightarrow> pg_time env (format_utc_timestamp t) = Some (to_seconds t * 1000000)) \<and>
     (\<forall>s. pg_time_text env (s * 1000000) = format_utc_timestamp (seconds_point s))"

definition clock_env :: pg_env where
  "clock_env = plain_env\<lparr>pg_time := (\<lambda>s. map_option (\<lambda>t. to_seconds t * 1000000) (parse_utc_timestamp s)),
     pg_time_text := (\<lambda>u. format_utc_timestamp (seconds_point (u div 1000000)))\<rparr>"

lemma clock_env_clock: "pg_clock clock_env"
  by (simp add: pg_clock_def clock_env_def parse_formatted whole_seconds_def)

section \<open>Online nodes\<close>

lemma online_seconds:
  fixes h s f now after :: int
  assumes "0 \<le> f" "f < 1000000000" "now = s * 1000000000 + f"
  shows "h * 1000000000 \<le> now \<longleftrightarrow> h \<le> s"
    and "now - h * 1000000000 \<le> after * 1000000000 \<longleftrightarrow> s - after < h \<or> s - after = h \<and> f = 0"
  using assms by linarith+

lemma effective_of_row:
  assumes clock: "pg_clock env" and h: "nd_last_heartbeat n = Some (h * 1000000)" "- (2 ^ 63) \<le> seconds_point h" "seconds_point h < 2 ^ 63"
  shows "effective_status (node_listing_of env n) now after = Online \<longleftrightarrow>
    nd_status n = Online \<and> h * 1000000000 \<le> now \<and> now - h * 1000000000 \<le> after * 1000000000"
proof -
  have "parse_utc_timestamp (utc_column env (nd_last_heartbeat n)) = Some (h * 1000000000)"
    using clock h parse_formatted[of "seconds_point h"]
    by (simp add: utc_column_def pg_clock_def whole_seconds_def) (simp add: seconds_point_def ns_per_second_def)
  then show ?thesis
    by (cases "nd_status n") (auto simp: effective_status_def node_listing_of_def seconds_point_def ns_per_second_def)
qed

text \<open>
  C29. For heartbeats of whole seconds, the filter the database evaluates and the status the service derives
  agree on every node but one kind: a node whose last allowed second has begun but is not over, which the
  filter still lists as online while its derived status is offline already.
\<close>

theorem online_filter_agrees:
  assumes "pg_clock env" and "0 \<le> qk_now k" and "nd_last_heartbeat n = Some (h * 1000000)"
    and "- (2 ^ 63) \<le> seconds_point h" "seconds_point h < 2 ^ 63"
  shows "online_row (to_seconds (qk_now k) * 1000000) (qk_offline_after k) n \<longleftrightarrow>
    effective_status (node_listing_of env n) (qk_now k) (qk_offline_after k) = Online \<or>
    nd_status n = Online \<and> 0 \<le> qk_offline_after k \<and> h + qk_offline_after k = to_seconds (qk_now k) \<and> whole_seconds (qk_now k) < qk_now k"
proof -
  let ?now = "qk_now k"
  let ?s = "to_seconds ?now"
  let ?f = "?now mod 1000000000"
  have s: "?s = ?now div 1000000000" using assms(2) by (simp add: to_seconds_def ns_per_second_def quot_nonneg)
  then have now: "0 \<le> ?f" "?f < 1000000000" "?now = ?s * 1000000000 + ?f" by simp_all
  have whole: "whole_seconds ?now < ?now \<longleftrightarrow> ?f \<noteq> 0"
    using now by (auto simp: whole_seconds_def seconds_point_def ns_per_second_def)
  have row: "online_row (?s * 1000000) (qk_offline_after k) n \<longleftrightarrow> nd_status n = Online \<and> h \<le> ?s \<and> ?s - qk_offline_after k \<le> h"
    using assms(3) by (auto simp: online_row_def)
  show ?thesis
    unfolding row effective_of_row[OF assms(1,3-5)] whole online_seconds[OF now] by auto
qed

theorem online_filter_agrees_witness:
  "online_row (10 * 1000000) 4 \<lparr>nd_id = 1, nd_code = ''n1'', nd_name = ''Node'', nd_status = Online, nd_agent_version = ''1.0'',
     nd_last_heartbeat = Some (6 * 1000000)\<rparr>"
  using online_filter_agrees[OF clock_env_clock, of "\<lparr>qk_now = 10500000000, qk_offline_after = 4, qk_stale_after = 60\<rparr>"
      "\<lparr>nd_id = 1, nd_code = ''n1'', nd_name = ''Node'', nd_status = Online, nd_agent_version = ''1.0'', nd_last_heartbeat = Some (6 * 1000000)\<rparr>" 6]
  by (simp add: seconds_point_def ns_per_second_def to_seconds_def quot_def whole_seconds_def)

text \<open>So a page of online nodes can show a node that is offline.\<close>

definition late_db :: server_db where
  "late_db = empty_server\<lparr>sv_nodes := [\<lparr>nd_id = 1, nd_code = ''n1'', nd_name = ''Node'', nd_status = Online, nd_agent_version = ''1.0'',
     nd_last_heartbeat = Some (6 * 1000000)\<rparr>], sv_seq := (sv_seq empty_server)\<lparr>sq_node := 2\<rparr>\<rparr>"

lemma online_page_shows_offline_node:
  "\<exists>node. list_nodes clock_env \<lparr>qk_now = 10500000000, qk_offline_after = 4, qk_stale_after = 60\<rparr> (Some ''online'')
      \<lparr>pi_limit = 20, pi_cursor = None\<rparr> late_db =
    (Inr (status_success, \<lparr>mp_items = [(node, Offline)], mp_next_cursor = None, mp_has_more = False\<rparr>), late_db)"
proof -
  let ?k = "\<lparr>qk_now = 10500000000, qk_offline_after = 4, qk_stale_after = 60\<rparr>"
  let ?n = "hd (sv_nodes late_db)"
  have now: "to_time clock_env (format_utc_timestamp (qk_now ?k)) late_db = (Inr 10000000, late_db)"
    using clock_env_clock by (simp add: to_time_def pg_clock_def to_seconds_def ns_per_second_def quot_def ret_def)
  have rows: "node_rows 10000000 4 (Some Online) late_db = [?n]"
    by (simp add: node_rows_def late_db_def online_row_def)
  have off: "effective_status (node_listing_of clock_env ?n) 10500000000 4 = Offline"
    using effective_of_row[OF clock_env_clock, of ?n 6 10500000000 4]
    by (cases "effective_status (node_listing_of clock_env ?n) 10500000000 4")
      (simp_all add: late_db_def seconds_point_def ns_per_second_def)
  have ints: "pg_integers clock_env" using plain_integers by (simp add: clock_env_def pg_integers_def)
  have ready: "readable clock_env nd_id (node_rows 10000000 (qk_offline_after ?k) (parse_node_status (Some ''online'')) late_db)
      (\<lambda>n. Inr (node_listing_of clock_env n))"
    using ints by (simp add: readable_def parse_node_status_def rows) (simp add: late_db_def row_id_def)
  have "list_nodes clock_env ?k (Some ''online'') \<lparr>pi_limit = 20, pi_cursor = map_option id_text None\<rparr> late_db =
    (Inr (status_success, trim_page (map (managed_node_of clock_env ?k)
      (page_rows nd_id (20 + 1) None (node_rows 10000000 (qk_offline_after ?k) (parse_node_status (Some ''online'')) late_db))) 20
      (\<lambda>n. nl_id (fst n))), late_db)"
    by (rule node_pages.answers) (use now ready in \<open>simp_all add: parse_node_status_def\<close>)
  then show ?thesis
    using off by (simp add: parse_node_status_def rows page_rows_def below_cursor_def trim_page_def Let_def managed_node_of_def)
qed

section \<open>Runs\<close>

text \<open>
  C28. In every database the server gets into, an operator who follows the cursors from the first page gets
  every run that matches, once, newest first, and the walk ends: for any page size from 1 to 100, as many pages
  as there are matching runs and one more are enough, and the database is as it was.
\<close>

theorem run_pages_complete:
  assumes env: "pg_integers env" and reach: "reachable (\<lambda>db. db = empty_server) (server_step env) db"
    and node: "node_known env code db" and asked: "run_filter_ok env code task_id task st db"
    and rows: "list_all (\<lambda>r. \<exists>x. listed_run_of env db r = Inr x) (run_rows code task (parse_run_status st) db)"
    and l: "1 \<le> l" "l \<le> 100" and n: "length (run_rows code task (parse_run_status st) db) < n"
  shows "walk n (list_task_runs env k code task_id st) l None db =
    (Inr (map (\<lambda>r. managed_run_of k (projr (listed_run_of env db r)))
       (descending run_id (run_rows code task (parse_run_status st) db))), db)"
proof -
  have ok: "server_ok db" using server.reachable_inv[OF reach] by (simp add: server_good_def)
  then have ids: "ids_below (map run_id (sv_runs db)) (sq_run (sv_seq db))" by (simp add: server_ok_def runs_ok_def)
  have "distinct (map run_id (run_rows code task (parse_run_status st) db))"
    using ids by (simp add: ids_below_def run_rows_def distinct_map_filter)
  moreover have "list_all (\<lambda>r. row_id (run_id r)) (run_rows code task (parse_run_status st) db)"
    using ids by (auto simp: ids_below_def run_rows_def row_id_def list_all_iff)
  ultimately have "readable env run_id (run_rows code task (parse_run_status st) db) (listed_run_of env db)"
    using env rows by (simp add: readable_def)
  with node asked show ?thesis by (intro task_run_pages.walk_complete conjI l n)
qed

lemma reported_node_known: "node_known plain_env ''n1'' reported_db"
proof -
  have "\<exists>s. find_node_summary plain_env ''n1'' reported_db = (Inr (Some s), reported_db)"
    by (simp add: find_node_summary_def seqp_def gets_def lift_sum_def node_with_code_def summary_of_node_def int_count_def
        reported_db_def archived_db_def started_db_def configured_db_def empty_server_def sbind_def)
  then show ?thesis by (simp add: node_known_def validate_node_code_def)
qed

theorem run_pages_complete_witness:
  "walk 2 (list_task_runs plain_env \<lparr>qk_now = 0, qk_offline_after = 60, qk_stale_after = 60\<rparr> ''n1'' None (Some ''succeeded'')) 1 None reported_db =
    (Inr (map (\<lambda>r. managed_run_of \<lparr>qk_now = 0, qk_offline_after = 60, qk_stale_after = 60\<rparr> (projr (listed_run_of plain_env reported_db r)))
       (sv_runs reported_db)), reported_db)"
proof -
  have rows: "run_rows ''n1'' None (parse_run_status (Some ''succeeded'')) reported_db = sv_runs reported_db"
    by (simp add: run_rows_def parse_run_status_def optional_match_def on_node_def reported_db_def archived_db_def started_db_def
        configured_db_def run_1_def)
  have "\<exists>x. listed_run_of plain_env reported_db (hd (sv_runs reported_db)) = Inr x"
    by (simp add: listed_run_of_def node_with_id_def reported_db_def archived_db_def started_db_def configured_db_def run_1_def
        failed_file_count_def)
  then have readable_rows: "list_all (\<lambda>r. \<exists>x. listed_run_of plain_env reported_db r = Inr x) (sv_runs reported_db)"
    by (simp add: reported_db_def)
  have one: "length (sv_runs reported_db) < 2" "descending run_id (sv_runs reported_db) = sv_runs reported_db"
    by (simp_all add: reported_db_def descending_def)
  have asked: "run_filter_ok plain_env ''n1'' None None (Some ''succeeded'') reported_db"
    by (simp add: run_filter_ok_def parse_run_status_def)
  show ?thesis
    using run_pages_complete[OF plain_integers reachable_1(4) reported_node_known asked, of 1 2] readable_rows one by (simp add: rows)
qed

text \<open>
  Reading back what the agent and the database print gives the time again, to the second: for every value
  of the 64-bit clock the calendar computation of the query service inverts \<open>format_utc_timestamp\<close>.
\<close>

lemma timestamps_read_back:
  assumes "- (2 ^ 63) \<le> t" "t < 2 ^ 63"
  shows "parse_utc_timestamp (format_utc_timestamp t) = Some (whole_seconds t)"
  by (rule parse_formatted[OF assms])

lemma timestamps_read_back_example:
  "parse_utc_timestamp (format_utc_timestamp 1714532409500000000) = Some 1714532409000000000"
  using timestamps_read_back[of 1714532409500000000]
  by (simp add: whole_seconds_def seconds_point_def to_seconds_def ns_per_second_def quot_def)

end
