(* ===== verification/Http_Service.thy ===== *)
theory Http_Service
  imports Management_Service
begin

text \<open>
  What every HTTP controller of the control plane shares: requests and answers, the uniform envelope and the
  treatment of exceptions (\<open>http_json_response.cpp\<close>, \<open>http_json_response.h\<close>, \<open>http_dto_serialization.h\<close>) and the
  check of credentials (\<open>http_authenticator.cpp\<close>). A body is the tree the reader makes of it (\<open>None\<close> where it is
  no JSON): printing and reading texts are the libraries', which keep trees of UTF-8 texts. On this side a number
  is \<open>JInt\<close> when its value is integral, which is what JsonCpp's \<^verbatim>\<open>isInt\<close> and \<^verbatim>\<open>isInt64\<close> look at.
\<close>

section \<open>Requests and answers\<close>

record http_request =
  hq_method :: string
  hq_target :: string
  hq_headers :: "(string \<times> string) list"
  hq_parameters :: "(string \<times> string) list"
  hq_body :: "json option"

record http_response =
  hr_status :: nat
  hr_headers :: "(string \<times> string) list"
  hr_body :: json

text \<open>
  A target is the path; drogon has taken the query parameters off it. drogon's part: whether a Content-Type header means JSON, and the decoding of a path segment; JsonCpp's reader and
  its writer of a text. Header names do not depend on case.
\<close>

record http_lib =
  hl_is_json :: "string \<Rightarrow> bool"
  hl_decode_segment :: "string \<Rightarrow> string"
  hl_read_json :: "string \<Rightarrow> json option"
  hl_write_json :: "json \<Rightarrow> string"

definition lower_char :: "char \<Rightarrow> char" where
  "lower_char c = (if 65 \<le> char_code c \<and> char_code c \<le> 90 then char_of (char_code c + 32) else c)"

definition get_header :: "http_request \<Rightarrow> string \<Rightarrow> string" where
  "get_header q name =
     (case find (\<lambda>(k, v). map lower_char k = map lower_char name) (hq_headers q) of None \<Rightarrow> [] | Some (k, v) \<Rightarrow> v)"

definition json_response :: "nat \<Rightarrow> json \<Rightarrow> http_response" where
  "json_response code body = \<lparr>hr_status = code, hr_headers = [], hr_body = body\<rparr>"

definition success_response :: "nat \<Rightarrow> json \<Rightarrow> http_response" where
  "success_response code data = json_response code (JObj [(''ok'', JBool True), (''data'', data)])"

definition error_response :: "nat \<Rightarrow> string \<Rightarrow> string \<Rightarrow> http_response" where
  "error_response status code message =
     json_response status (JObj [(''ok'', JBool False), (''error'', JObj [(''code'', JStr code), (''message'', JStr message)])])"

definition internal_error :: http_response where
  "internal_error = error_response 500 ''internal_error'' ''internal server error''"

definition status_error_response :: "status \<Rightarrow> http_response" where
  "status_error_response s =
     (case st_code s of
        InvalidArgument \<Rightarrow> error_response 400 ''invalid_argument'' (st_message s)
      | NotFound \<Rightarrow> error_response 404 ''not_found'' (st_message s)
      | Conflict \<Rightarrow> error_response 409 ''conflict'' (st_message s)
      | Ok \<Rightarrow> internal_error)"

section \<open>Handling a request\<close>

text \<open>
  A \<open>RequestValidationError\<close> becomes an answer with status 400 and any other exception one with status 500. Where the
  code calls back and returns early, the procedure returns the answer. \<open>called\<close> is the call of a handler.
\<close>

datatype request_fault = RequestValidationError string | UnexpectedException

type_synonym 'a hproc = "(server_db, request_fault, 'a) proc"

definition handle_request :: "http_response hproc \<Rightarrow> server_db \<Rightarrow> http_response \<times> server_db" where
  "handle_request operation db =
     (case operation db of
        (Inr answer, db') \<Rightarrow> (answer, db')
      | (Inl (RequestValidationError message), db') \<Rightarrow> (error_response 400 ''invalid_argument'' message, db')
      | (Inl UnexpectedException, db') \<Rightarrow> (internal_error, db'))"

definition called :: "'a sproc \<Rightarrow> 'a hproc" where
  "called m db = (case m db of (Inr a, db') \<Rightarrow> (Inr a, db') | (Inl e, db') \<Rightarrow> (Inl UnexpectedException, db'))"

definition require_json_content_type :: "http_lib \<Rightarrow> http_request \<Rightarrow> http_response option" where
  "require_json_content_type lib q =
     (if hl_is_json lib (get_header q ''Content-Type'') then None
      else Some (error_response 415 ''unsupported_media_type'' ''content type must be application/json''))"

text \<open>\<open>http_dto_serialization.h\<close>.\<close>

definition stored_json_object :: "http_lib \<Rightarrow> string \<Rightarrow> request_fault + json" where
  "stored_json_object lib t =
     (case hl_read_json lib t of Some (JObj kvs) \<Rightarrow> Inr (JObj kvs) | _ \<Rightarrow> Inl UnexpectedException)"

fun http_node_status :: "node_status \<Rightarrow> string" where
  "http_node_status Online = ''online''"
| "http_node_status Offline = ''offline''"

fun http_source_type :: "source_type \<Rightarrow> string" where
  "http_source_type LocalDirectory = ''local_directory''"
| "http_source_type Ftp = ''ftp''"
| "http_source_type Oracle = ''oracle''"

text \<open>A route with one parameter matches a target whose segment at its place is not empty.\<close>

definition route_segment :: "string \<Rightarrow> string \<Rightarrow> string \<Rightarrow> string option" where
  "route_segment start stop target =
     (let rest = drop (length start) target; segment = take (length rest - length stop) rest in
      if target = start @ segment @ stop \<and> segment \<noteq> [] \<and> CHR ''/'' \<notin> set segment then Some segment else None)"

section \<open>Credentials\<close>

record credential_set =
  cs_management_token :: string
  cs_agent_tokens :: "(string \<times> string) list"

text \<open>The agent tokens are a map, visited in the order of the nodes. The constructor checks every format.\<close>

datatype credential_fault = CredentialError string

fun token_faults :: "string \<Rightarrow> (string \<times> string) list \<Rightarrow> credential_fault + unit" where
  "token_faults management [] = Inr ()"
| "token_faults management ((node, token) # rest) =
     (if \<not> is_valid_hex_token token
      then Inl (CredentialError (''token for node '' @ apos @ node @ apos @ '' must be 64 lowercase hex characters''))
      else if token = management
      then Inl (CredentialError (''token for node '' @ apos @ node @ apos @ '' must differ from the management token''))
      else token_faults management rest)"

definition make_authenticator :: "credential_set \<Rightarrow> credential_fault + credential_set" where
  "make_authenticator c =
     (if \<not> is_valid_hex_token (cs_management_token c)
      then Inl (CredentialError ''management token must be 64 lowercase hex characters'')
      else sbind (token_faults (cs_management_token c) (sort_key fst (cs_agent_tokens c))) (\<lambda>_. Inr c))"

definition kBearerScheme :: string where
  "kBearerScheme = ''Bearer ''"

definition bearer_token_equals :: "http_request \<Rightarrow> string \<Rightarrow> bool" where
  "bearer_token_equals q expected =
     (let header = get_header q ''Authorization'' in
      if take (length kBearerScheme) header \<noteq> kBearerScheme then False
      else drop (length kBearerScheme) header = expected)"

definition reject_unauthenticated :: "string \<Rightarrow> http_response" where
  "reject_unauthenticated message =
     (error_response 401 ''unauthenticated'' message)\<lparr>hr_headers := [(''WWW-Authenticate'', ''Bearer'')]\<rparr>"

definition require_management :: "credential_set \<Rightarrow> http_request \<Rightarrow> http_response option" where
  "require_management c q =
     (if bearer_token_equals q (cs_management_token c) then None
      else Some (reject_unauthenticated ''management token required''))"

definition require_agent_node :: "credential_set \<Rightarrow> http_request \<Rightarrow> http_response + string" where
  "require_agent_node c q =
     (let node_code = get_header q ''X-LabBridge-Node-Code'' in
      case map_of (cs_agent_tokens c) node_code of
        None \<Rightarrow> Inl (reject_unauthenticated ''agent node credential required'')
      | Some expected \<Rightarrow>
          if \<not> bearer_token_equals q expected then Inl (reject_unauthenticated ''agent node credential required'')
          else Inr node_code)"

definition require_declared_node :: "string \<Rightarrow> string \<Rightarrow> http_response option" where
  "require_declared_node authenticated declared =
     (if authenticated = declared then None
      else Some (error_response 403 ''forbidden''
        (''credential authenticates node '' @ apos @ authenticated @ apos @ '' but the request declares node '' @ apos @ declared @ apos)))"

section \<open>Credential files\<close>

text \<open>
  A file is its content, \<open>None\<close> where it cannot be opened. The duplicate check looks at the lines with the pattern
  \<^verbatim>\<open>^[ \t]+([^#\s][^:]*):\<close>. YAML is yaml-cpp's: a parameter gives the tree of a text, \<open>None\<close> where it throws; looking up a key of
  a scalar throws as well, which ends the start like a missing mapping does.
\<close>

datatype yaml = YNull | YScalar string | YSeq "yaml list" | YMap "(yaml \<times> yaml) list"

definition read_text_file :: "string option \<Rightarrow> string \<Rightarrow> string \<Rightarrow> credential_fault + string" where
  "read_text_file file path description =
     (case file of None \<Rightarrow> Inl (CredentialError (''cannot read '' @ description @ '' '' @ apos @ path @ apos)) | Some content \<Rightarrow> Inr content)"

definition drop_final_newline :: "string \<Rightarrow> string" where
  "drop_final_newline token =
     (if token \<noteq> [] \<and> last token = CHR 0x0A then
        (let token = butlast token in if token \<noteq> [] \<and> last token = CHR 0x0D then butlast token else token)
      else token)"

definition read_single_token_file :: "string option \<Rightarrow> string \<Rightarrow> string \<Rightarrow> credential_fault + string" where
  "read_single_token_file file path description =
     sbind (read_text_file file path description) (\<lambda>content.
       let token = drop_final_newline content in
       if \<not> is_valid_hex_token token
       then Inl (CredentialError (description @ '' '' @ apos @ path @ apos @ '' must contain a single 64-character lowercase hex token''))
       else Inr token)"

text \<open>\<^verbatim>\<open>std::getline\<close> over a text: its lines, without a last empty one.\<close>

fun text_lines :: "string \<Rightarrow> string \<Rightarrow> string list" where
  "text_lines cur [] = (if cur = [] then [] else [rev cur])"
| "text_lines cur (c # s) = (if c = CHR 0x0A then rev cur # text_lines [] s else text_lines (c # cur) s)"

definition is_blank_char :: "char \<Rightarrow> bool" where
  "is_blank_char c \<longleftrightarrow> c = CHR '' '' \<or> c = CHR 0x09"

definition entry_name :: "string \<Rightarrow> string option" where
  "entry_name line =
     (let line = (if line \<noteq> [] \<and> last line = CHR 0x0D then butlast line else line); rest = dropWhile is_blank_char line in
      if rest = line \<or> rest = [] \<or> hd rest = CHR ''#'' \<or> isspace (hd rest) then None
      else let name = takeWhile (\<lambda>c. c \<noteq> CHR '':'') (tl rest) in
        if length name = length (tl rest) then None else Some (hd rest # name))"

fun duplicate_entry :: "string list \<Rightarrow> string list \<Rightarrow> string option" where
  "duplicate_entry seen [] = None"
| "duplicate_entry seen (line # rest) =
     (case entry_name line of
        None \<Rightarrow> duplicate_entry seen rest
      | Some name \<Rightarrow> if name \<in> set seen then Some name else duplicate_entry (name # seen) rest)"

definition tokens_fault :: "string \<Rightarrow> string \<Rightarrow> credential_fault" where
  "tokens_fault path rest = CredentialError (''agent tokens file '' @ apos @ path @ apos @ rest)"

text \<open>The loop over the entries: \<open>owners\<close> is the map from token to node, and \<^verbatim>\<open>emplace\<close> keeps the first of a key.\<close>

fun read_entries :: "string \<Rightarrow> (string \<times> string) list \<Rightarrow> (string \<times> string) list \<Rightarrow> (yaml \<times> yaml) list \<Rightarrow>
    credential_fault + (string \<times> string) list" where
  "read_entries path owners tokens [] = Inr tokens"
| "read_entries path owners tokens ((YScalar node, YScalar token) # rest) =
     (if node = [] then Inl (tokens_fault path '' must not contain an empty node code'')
      else if \<not> is_valid_hex_token token
      then Inl (tokens_fault path ('' has an invalid token for node '' @ apos @ node @ apos @ ''; expected 64 lowercase hex characters''))
      else case map_of owners token of
        Some owner \<Rightarrow> Inl (tokens_fault path ('' assigns the same token to nodes '' @ apos @ owner @ apos @ '' and '' @ apos @ node @ apos))
      | None \<Rightarrow> read_entries path ((token, node) # owners) (if node \<in> fst ` set tokens then tokens else tokens @ [(node, token)]) rest)"
| "read_entries path owners tokens (_ # rest) = Inl (tokens_fault path '' entries must map a node code to a token string'')"

definition yaml_find :: "yaml \<Rightarrow> string \<Rightarrow> yaml option" where
  "yaml_find v k = (case v of YMap kvs \<Rightarrow> map_option snd (find (\<lambda>(k', _). k' = YScalar k) kvs) | _ \<Rightarrow> None)"

definition read_agent_tokens_file :: "(string \<Rightarrow> yaml option) \<Rightarrow> string option \<Rightarrow> string \<Rightarrow> credential_fault + (string \<times> string) list" where
  "read_agent_tokens_file load_yaml file path =
     sbind (read_text_file file path ''agent tokens file'') (\<lambda>content.
       case duplicate_entry [] (text_lines [] content) of
         Some node \<Rightarrow> Inl (tokens_fault path ('' lists node '' @ apos @ node @ apos @ '' more than once''))
       | None \<Rightarrow>
         (case load_yaml content of
            None \<Rightarrow> Inl (tokens_fault path '' is not valid YAML'')
          | Some root \<Rightarrow>
            (case yaml_find root ''agent_tokens'' of
               Some (YMap entries) \<Rightarrow> read_entries path [] [] entries
             | _ \<Rightarrow> Inl (tokens_fault path ('' must contain an '' @ apos @ ''agent_tokens'' @ apos @ '' mapping'')))))"

definition credentials_from_files ::
  "(string \<Rightarrow> yaml option) \<Rightarrow> (string \<Rightarrow> string option) \<Rightarrow> string \<Rightarrow> string \<Rightarrow> credential_fault + credential_set" where
  "credentials_from_files load_yaml files management_path agents_path =
     sbind (read_single_token_file (files management_path) management_path ''management token file'') (\<lambda>management.
     sbind (read_agent_tokens_file load_yaml (files agents_path) agents_path) (\<lambda>tokens.
       make_authenticator \<lparr>cs_management_token = management, cs_agent_tokens = tokens\<rparr>))"

end
