(* ===== verification/Agent_Http.thy ===== *)
theory Agent_Http
  imports Http_Service
begin

text \<open>
  The controllers the agents talk to: \<open>agent_control_http_controller.cpp\<close> (registration, heartbeat, configuration),
  \<open>task_run_http_controller.cpp\<close> (start) and \<open>agent_report_http_controller.cpp\<close> (manifest, report). Each handler reads
  its request from the tree of the body, checks the credential and hands over to the executor the process wires in.
\<close>

section \<open>Fields\<close>

definition fault :: "string \<Rightarrow> request_fault + 'a" where
  "fault message = Inl (RequestValidationError message)"

definition field_path :: "string \<Rightarrow> string \<Rightarrow> string" where
  "field_path object_path field = (if object_path = [] then field else object_path @ ''.'' @ field)"

definition http_required_string :: "json \<Rightarrow> string \<Rightarrow> string \<Rightarrow> request_fault + string" where
  "http_required_string v field path =
     (case json_find v field of
        None \<Rightarrow> fault (field_path path field @ '' is required'')
      | Some (JStr s) \<Rightarrow> Inr s
      | Some _ \<Rightarrow> fault (field_path path field @ '' must be a string''))"

definition http_optional_string :: "json \<Rightarrow> string \<Rightarrow> string \<Rightarrow> string \<Rightarrow> request_fault + string" where
  "http_optional_string v field dflt path =
     (case json_find v field of
        None \<Rightarrow> Inr dflt
      | Some (JStr s) \<Rightarrow> Inr s
      | Some _ \<Rightarrow> fault (field_path path field @ '' must be a string''))"

definition optional_int :: "json \<Rightarrow> string \<Rightarrow> int \<Rightarrow> string \<Rightarrow> request_fault + int" where
  "optional_int v field dflt path =
     (case json_find v field of
        None \<Rightarrow> Inr dflt
      | Some (JInt i) \<Rightarrow> if - (2 ^ 31) \<le> i \<and> i < 2 ^ 31 then Inr i else fault (field_path path field @ '' must be an integer'')
      | Some _ \<Rightarrow> fault (field_path path field @ '' must be an integer''))"

definition optional_int64 :: "json \<Rightarrow> string \<Rightarrow> int \<Rightarrow> string \<Rightarrow> request_fault + int" where
  "optional_int64 v field dflt path =
     (case json_find v field of
        None \<Rightarrow> Inr dflt
      | Some (JInt i) \<Rightarrow> if - (2 ^ 63) \<le> i \<and> i < 2 ^ 63 then Inr i else fault (field_path path field @ '' must be an integer'')
      | Some _ \<Rightarrow> fault (field_path path field @ '' must be an integer''))"

definition optional_array :: "json \<Rightarrow> string \<Rightarrow> string \<Rightarrow> request_fault + json list" where
  "optional_array v field path =
     (case json_find v field of
        None \<Rightarrow> Inr []
      | Some (JArr items) \<Rightarrow> Inr items
      | Some _ \<Rightarrow> fault (field_path path field @ '' must be an array''))"

definition require_object :: "json \<Rightarrow> string \<Rightarrow> request_fault + unit" where
  "require_object v path = (if is_object v then Inr () else fault (path @ '' must be an object''))"

definition is_valid_json_text :: "http_lib \<Rightarrow> string \<Rightarrow> bool" where
  "is_valid_json_text lib t \<longleftrightarrow> hl_read_json lib t \<noteq> None"

definition parse_task_run_status :: "string \<Rightarrow> request_fault + task_run_status" where
  "parse_task_run_status s =
     (if s = ''succeeded'' then Inr Succeeded else if s = ''failed'' then Inr Failed
      else fault ''status must be succeeded or failed'')"

text \<open>The loops over an array know the index of each item.\<close>

fun parse_items :: "(json \<Rightarrow> string \<Rightarrow> request_fault + 'a) \<Rightarrow> string \<Rightarrow> nat \<Rightarrow> json list \<Rightarrow> request_fault + 'a list" where
  "parse_items f path i [] = Inr []"
| "parse_items f path i (v # vs) =
     (let item_path = path @ ''['' @ nat_to_string i @ '']'' in
      sbind (require_object v item_path) (\<lambda>_.
      sbind (f v item_path) (\<lambda>a. sbind (parse_items f path (Suc i) vs) (\<lambda>as. Inr (a # as)))))"

section \<open>Manifests\<close>

definition parse_manifest_file :: "json \<Rightarrow> string \<Rightarrow> request_fault + manifest_file" where
  "parse_manifest_file v path =
     sbind (http_required_string v ''original_name'' path) (\<lambda>name.
     sbind (http_optional_string v ''file_hash'' [] path) (\<lambda>hash.
     sbind (http_required_string v ''storage_path'' path) (\<lambda>storage.
     sbind (optional_int64 v ''size_bytes'' 0 path) (\<lambda>size.
     sbind (http_optional_string v ''source_mtime'' [] path) (\<lambda>mtime.
     sbind (http_optional_string v ''ingest_status'' ''collected'' path) (\<lambda>ingest.
       Inr \<lparr>mf_original_name = name, mf_file_hash = hash, mf_storage_path = storage, mf_size_bytes = size,
         mf_source_mtime = mtime, mf_ingest_status = ingest\<rparr>))))))"

definition parse_raw_file_manifest :: "json \<Rightarrow> request_fault + run_manifest" where
  "parse_raw_file_manifest body =
     sbind (require_object body ''request body'') (\<lambda>_.
     sbind (http_required_string body ''task_run_id'' []) (\<lambda>run.
     sbind (http_required_string body ''node_code'' []) (\<lambda>node.
     sbind (http_required_string body ''idempotency_key'' []) (\<lambda>key.
     sbind (optional_array body ''files'' []) (\<lambda>items.
     sbind (parse_items parse_manifest_file ''files'' 0 items) (\<lambda>files.
       Inr \<lparr>rm_task_run_id = run, rm_node_code = node, rm_idempotency_key = key, rm_files = files\<rparr>))))))"

section \<open>Reports\<close>

definition parse_reported_failure :: "json \<Rightarrow> string \<Rightarrow> request_fault + task_run_failed_file" where
  "parse_reported_failure v path =
     sbind (http_required_string v ''source_path'' path) (\<lambda>source.
     sbind (http_required_string v ''original_name'' path) (\<lambda>name.
     sbind (http_required_string v ''stage'' path) (\<lambda>stage.
     sbind (http_required_string v ''message'' path) (\<lambda>message.
     sbind (http_optional_string v ''archive_raw_file_id'' [] path) (\<lambda>archive.
       Inr \<lparr>tf_source_path = source, tf_original_name = name, tf_stage = stage, tf_message = message,
         tf_archive_raw_file_id = archive\<rparr>)))))"

definition parse_qc_result :: "json \<Rightarrow> string \<Rightarrow> request_fault + run_qc_result" where
  "parse_qc_result v path =
     sbind (http_required_string v ''qc_rule_id'' path) (\<lambda>rule.
     sbind (http_required_string v ''level'' path) (\<lambda>level.
     sbind (http_required_string v ''result'' path) (\<lambda>result.
     sbind (http_optional_string v ''message'' [] path) (\<lambda>message.
       Inr \<lparr>ry_rule_id = rule, ry_level = level, ry_result = result, ry_message = message\<rparr>))))"

definition parse_report_record :: "http_lib \<Rightarrow> json \<Rightarrow> string \<Rightarrow> request_fault + run_parsed_record" where
  "parse_report_record lib v path =
     sbind (http_required_string v ''raw_file_id'' path) (\<lambda>raw.
     sbind (http_optional_string v ''station_code'' [] path) (\<lambda>station.
     sbind (http_optional_string v ''device_code'' [] path) (\<lambda>device.
     sbind (http_optional_string v ''record_time'' [] path) (\<lambda>time.
     sbind (http_required_string v ''payload_json'' path) (\<lambda>payload.
     if \<not> is_valid_json_text lib payload then fault (field_path path ''payload_json'' @ '' must contain valid JSON'')
     else
     sbind (http_optional_string v ''parse_status'' ''parsed'' path) (\<lambda>parsed.
     sbind (optional_array v ''qc_results'' path) (\<lambda>items.
     sbind (parse_items parse_qc_result (field_path path ''qc_results'') 0 items) (\<lambda>results.
       Inr \<lparr>rz_raw_file_id = raw,
         rz_record = \<lparr>pr_station_code = station, pr_device_code = device, pr_record_time = time, pr_payload_json = payload\<rparr>,
         rz_parse_status = parsed, rz_qc_results = results\<rparr>))))))))"

text \<open>An absent list of failed files is not an empty one.\<close>

definition parse_failed_files :: "json \<Rightarrow> request_fault + bool \<times> task_run_failed_file list" where
  "parse_failed_files body =
     (if json_find body ''failed_files'' = None then Inr (False, [])
      else sbind (optional_array body ''failed_files'' []) (\<lambda>items.
        sbind (parse_items parse_reported_failure ''failed_files'' 0 items) (\<lambda>failed. Inr (True, failed))))"

definition parse_task_run_report :: "http_lib \<Rightarrow> json \<Rightarrow> request_fault + run_report" where
  "parse_task_run_report lib body =
     sbind (require_object body ''request body'') (\<lambda>_.
     sbind (http_required_string body ''task_run_id'' []) (\<lambda>run.
     sbind (http_required_string body ''node_code'' []) (\<lambda>node.
     sbind (http_required_string body ''idempotency_key'' []) (\<lambda>key.
     sbind (http_required_string body ''status'' []) (\<lambda>st.
     sbind (parse_task_run_status st) (\<lambda>status.
     sbind (http_optional_string body ''finished_at'' [] []) (\<lambda>finished.
     sbind (optional_int body ''items_total'' 0 []) (\<lambda>total.
     sbind (optional_int body ''items_success'' 0 []) (\<lambda>success.
     sbind (optional_int body ''items_failed'' 0 []) (\<lambda>failures.
     sbind (http_optional_string body ''error_summary'' [] []) (\<lambda>summary.
     sbind (parse_failed_files body) (\<lambda>(has_failed, failed).
     sbind (optional_array body ''parsed_records'' []) (\<lambda>items.
     sbind (parse_items (parse_report_record lib) ''parsed_records'' 0 items) (\<lambda>records.
       Inr \<lparr>ro_task_run_id = run, ro_node_code = node, ro_idempotency_key = key, ro_status = status, ro_finished_at = finished,
         ro_items_total = total, ro_items_success = success, ro_items_failed = failures, ro_error_summary = summary,
         ro_parsed_records = records, ro_has_failed_files = has_failed, ro_failed_files = failed\<rparr>))))))))))))))"

section \<open>Starts, registrations and heartbeats\<close>

definition nonempty_string :: "json \<Rightarrow> string \<Rightarrow> request_fault + string" where
  "nonempty_string v field =
     sbind (http_required_string v field []) (\<lambda>s. if s = [] then fault (field @ '' must not be empty'') else Inr s)"

definition parse_start_request :: "json option \<Rightarrow> request_fault + start_run_request" where
  "parse_start_request body =
     (case body of
        Some (JObj kvs) \<Rightarrow>
          let v = JObj kvs in
          sbind (nonempty_string v ''node_code'') (\<lambda>node.
          sbind (nonempty_string v ''task_id'') (\<lambda>task.
          sbind (nonempty_string v ''execution_key'') (\<lambda>key.
          sbind (nonempty_string v ''started_at'') (\<lambda>started.
          sbind (nonempty_string v ''trigger_type'') (\<lambda>trigger.
          sbind (http_required_string v ''scheduled_for'' []) (\<lambda>scheduled.
            Inr \<lparr>sp_node_code = node, sp_task_id = task, sp_started_at = started, sp_trigger_type = trigger,
              sp_execution_key = key, sp_scheduled_for = scheduled\<rparr>))))))
      | _ \<Rightarrow> fault ''request body must contain a JSON object'')"

definition parse_json_body :: "http_request \<Rightarrow> request_fault + json" where
  "parse_json_body q = (case hq_body q of None \<Rightarrow> fault ''request body must contain valid JSON'' | Some v \<Rightarrow> Inr v)"

definition control_body :: "http_request \<Rightarrow> request_fault + json" where
  "control_body q = sbind (parse_json_body q) (\<lambda>v. sbind (require_object v ''request body'') (\<lambda>_. Inr v))"

definition parse_registration :: "json \<Rightarrow> request_fault + node_info" where
  "parse_registration v =
     sbind (http_required_string v ''node_code'' []) (\<lambda>node.
     sbind (http_required_string v ''name'' []) (\<lambda>name.
     sbind (http_required_string v ''agent_version'' []) (\<lambda>version.
       Inr \<lparr>ni_node_code = node, ni_name = name, ni_agent_version = version\<rparr>)))"

definition parse_heartbeat :: "json \<Rightarrow> request_fault + node_heartbeat" where
  "parse_heartbeat v =
     sbind (http_required_string v ''node_code'' []) (\<lambda>node.
     sbind (http_required_string v ''agent_version'' []) (\<lambda>version.
     sbind (http_required_string v ''reported_at'' []) (\<lambda>reported.
       Inr \<lparr>hb_node_code = node, hb_agent_version = version, hb_reported_at = reported\<rparr>)))"

section \<open>The configuration document\<close>

definition data_source_json :: "http_lib \<Rightarrow> data_source_record \<Rightarrow> request_fault + json" where
  "data_source_json lib d =
     sbind (stored_json_object lib (dr_config_json d)) (\<lambda>config.
       Inr (JObj [(''id'', JStr (dr_id d)), (''node_code'', JStr (dr_node_code d)),
         (''source_type'', JStr (http_source_type (dr_source_type d))), (''name'', JStr (dr_name d)), (''config'', config)]))"

definition task_json :: "task_record \<Rightarrow> json" where
  "task_json t = JObj [(''id'', JStr (tx_id t)), (''node_code'', JStr (tx_node_code t)),
     (''data_source_id'', JStr (tx_data_source_id t)), (''name'', JStr (tx_name t)), (''task_type'', JStr (tx_task_type t)),
     (''schedule_expr'', JStr (tx_schedule_expr t)), (''parser_type'', JStr (tx_parser_type t)),
     (''qc_profile'', JStr (tx_qc_profile t)), (''enabled'', JBool (tx_enabled t)),
     (''qc_rule_ids'', JArr (map JStr (tx_qc_rule_ids t)))]"

definition qc_rule_json :: "http_lib \<Rightarrow> rule_binding \<Rightarrow> request_fault + json" where
  "qc_rule_json lib b =
     sbind (stored_json_object lib (rb_rule_config_json b)) (\<lambda>config.
       Inr (JObj [(''id'', JStr (rb_qc_rule_id b)), (''task_id'', JStr (rb_task_id b)), (''rule_type'', JStr (rb_rule_type b)),
         (''name'', JStr (rb_name b)), (''config'', config)]))"

definition retry_file_json :: "task_run_retry_file \<Rightarrow> json" where
  "retry_file_json f = JObj [(''input_type'', JStr (ty_input_type f)), (''source_path'', JStr (ty_source_path f)),
     (''original_name'', JStr (ty_original_name f)), (''archive_raw_file_id'', JStr (ty_archive_raw_file_id f)),
     (''storage_path'', JStr (ty_storage_path f)), (''size_bytes'', JInt (ty_size_bytes f)),
     (''file_hash'', JStr (ty_file_hash f)), (''source_mtime'', JStr (ty_source_mtime f))]"

definition pending_execution_json :: "pending_execution_record \<Rightarrow> json" where
  "pending_execution_json p = JObj [(''task_run_id'', JStr (px_task_run_id p)), (''task_id'', JStr (px_task_id p)),
     (''execution_key'', JStr (px_execution_key p)), (''trigger_type'', JStr (px_trigger_type p)),
     (''requested_at'', JStr (px_requested_at p)), (''retry_files'', JArr (map retry_file_json (px_retry_files p)))]"

definition config_json :: "http_lib \<Rightarrow> node_info \<times> node_status \<times> string \<Rightarrow> agent_config_result \<Rightarrow> request_fault + json" where
  "config_json lib n r =
     (case n of (info, st, heartbeat) \<Rightarrow>
       sbind (smap (data_source_json lib) (xc_data_sources (ag_config r))) (\<lambda>sources.
       sbind (smap (qc_rule_json lib) (xc_task_qc_rules (ag_config r))) (\<lambda>rules.
         Inr (JObj [(''node'', JObj [(''node_code'', JStr (ni_node_code info)), (''name'', JStr (ni_name info)),
             (''agent_version'', JStr (ni_agent_version info)), (''status'', JStr (http_node_status st)),
             (''last_heartbeat_at'', JStr heartbeat)]),
           (''data_sources'', JArr sources), (''qc_rules'', JArr rules),
           (''tasks'', JArr (map task_json (xc_tasks (ag_config r)))),
           (''pending_executions'', JArr (map pending_execution_json (ag_pending r)))]))))"

section \<open>Handlers\<close>

text \<open>
  The steps a POST takes before its handler: credential, content type, body, declared node. The first that fails
  answers. \<open>agent_post\<close> is that common shape, \<open>answer\<close> the call of the handler and the answer to its result.
\<close>

definition agent_post :: "http_lib \<Rightarrow> credential_set \<Rightarrow> (http_request \<Rightarrow> request_fault + 'q) \<Rightarrow> ('q \<Rightarrow> string) \<Rightarrow>
    ('q \<Rightarrow> http_response hproc) \<Rightarrow> http_request \<Rightarrow> server_db \<Rightarrow> http_response \<times> server_db" where
  "agent_post lib c parse declared answer q =
     handle_request (case require_agent_node c q of
       Inl refused \<Rightarrow> ret refused
     | Inr node \<Rightarrow>
         (case require_json_content_type lib q of
            Some refused \<Rightarrow> ret refused
          | None \<Rightarrow> seqp (lift_sum (parse q)) (\<lambda>parsed.
              case require_declared_node node (declared parsed) of
                Some refused \<Rightarrow> ret refused
              | None \<Rightarrow> answer parsed)))"

definition string_array :: "string list \<Rightarrow> json" where
  "string_array values = JArr (map JStr values)"

definition post_raw_file_manifest :: "pg_env \<Rightarrow> http_lib \<Rightarrow> credential_set \<Rightarrow> http_request \<Rightarrow> server_db \<Rightarrow> http_response \<times> server_db" where
  "post_raw_file_manifest env lib c =
     agent_post lib c (\<lambda>q. sbind (parse_json_body q) parse_raw_file_manifest) rm_node_code (\<lambda>m.
       seqp (called (execute_manifest env m)) (\<lambda>r.
         if \<not> st_ok (ma_status r) then ret (status_error_response (ma_status r))
         else ret (success_response 201 (JObj [(''raw_file_ids'', string_array (ma_raw_file_ids r)),
           (''replayed'', JBool (ma_replayed r))]))))"

definition post_task_run_report :: "pg_env \<Rightarrow> http_lib \<Rightarrow> credential_set \<Rightarrow> http_request \<Rightarrow> server_db \<Rightarrow> http_response \<times> server_db" where
  "post_task_run_report env lib c =
     agent_post lib c (\<lambda>q. sbind (parse_json_body q) (parse_task_run_report lib)) ro_node_code (\<lambda>m.
       seqp (called (execute_report env m)) (\<lambda>r.
         if \<not> st_ok (re_status r) then ret (status_error_response (re_status r))
         else ret (success_response 200 (JObj [(''parsed_record_ids'', string_array (re_parsed_record_ids r)),
           (''qc_result_ids'', string_array (re_qc_result_ids r)), (''alert_ids'', string_array (re_alert_ids r)),
           (''replayed'', JBool (re_replayed r))]))))"

definition post_start :: "pg_env \<Rightarrow> http_lib \<Rightarrow> credential_set \<Rightarrow> http_request \<Rightarrow> server_db \<Rightarrow> http_response \<times> server_db" where
  "post_start env lib c =
     agent_post lib c (\<lambda>q. parse_start_request (hq_body q)) sp_node_code (\<lambda>m.
       seqp (called (execute_start env m)) (\<lambda>r.
         if \<not> st_ok (cr_outcome r) then ret (status_error_response (cr_outcome r))
         else ret (success_response 201 (JObj [(''task_run_id'', JStr (cr_id r)), (''replayed'', JBool (cr_replayed r)),
           (''run_status'', JStr (cr_run_status r))]))))"

definition post_register :: "pg_env \<Rightarrow> http_lib \<Rightarrow> credential_set \<Rightarrow> http_request \<Rightarrow> server_db \<Rightarrow> http_response \<times> server_db" where
  "post_register env lib c =
     agent_post lib c (\<lambda>q. sbind (control_body q) parse_registration) ni_node_code (\<lambda>n.
       seqp (called (register_node env n)) (\<lambda>s.
         if \<not> st_ok s then ret (status_error_response s)
         else ret (success_response 201 (JObj [(''node_code'', JStr (ni_node_code n)), (''status'', JStr ''offline'')]))))"

definition post_heartbeat :: "pg_env \<Rightarrow> http_lib \<Rightarrow> credential_set \<Rightarrow> http_request \<Rightarrow> server_db \<Rightarrow> http_response \<times> server_db" where
  "post_heartbeat env lib c =
     agent_post lib c (\<lambda>q. sbind (control_body q) parse_heartbeat) hb_node_code (\<lambda>h.
       seqp (called (accept_heartbeat env h)) (\<lambda>s.
         if \<not> st_ok s then ret (status_error_response s)
         else ret (success_response 200 (JObj [(''node_code'', JStr (hb_node_code h)), (''status'', JStr ''online''),
           (''reported_at'', JStr (hb_reported_at h))]))))"

definition get_config :: "pg_env \<Rightarrow> http_lib \<Rightarrow> credential_set \<Rightarrow> string \<Rightarrow> http_request \<Rightarrow> server_db \<Rightarrow> http_response \<times> server_db" where
  "get_config env lib c node_code q =
     handle_request (case require_agent_node c q of
       Inl refused \<Rightarrow> ret refused
     | Inr node \<Rightarrow>
         (case require_declared_node node node_code of
            Some refused \<Rightarrow> ret refused
          | None \<Rightarrow> seqp (gets (find_config env node_code)) (\<lambda>r.
              if \<not> st_ok (ag_status r) then ret (status_error_response (ag_status r))
              else case ag_node r of
                None \<Rightarrow> throw UnexpectedException
              | Some n \<Rightarrow> seqp (lift_sum (config_json lib n r)) (\<lambda>data. ret (success_response 200 data)))))"

section \<open>Routes\<close>

text \<open>
  The registered routes; the segment of the configuration route is decoded before it is handed over. Any other request
  is answered by drogon.
\<close>

definition agent_routes :: "pg_env \<Rightarrow> http_lib \<Rightarrow> credential_set \<Rightarrow> (http_request \<Rightarrow> server_db \<Rightarrow> http_response \<times> server_db) \<Rightarrow>
    http_request \<Rightarrow> server_db \<Rightarrow> http_response \<times> server_db" where
  "agent_routes env lib c otherwise q =
     (if hq_method q = ''POST'' then
        (if hq_target q = ''/api/v1/agents/register'' then post_register env lib c q
         else if hq_target q = ''/api/v1/agents/heartbeat'' then post_heartbeat env lib c q
         else if hq_target q = ''/api/v1/task-runs/start'' then post_start env lib c q
         else if hq_target q = ''/api/v1/raw-files/manifest'' then post_raw_file_manifest env lib c q
         else if hq_target q = ''/api/v1/task-runs/report'' then post_task_run_report env lib c q
         else otherwise q)
      else if hq_method q = ''GET'' then
        (case route_segment ''/api/v1/agents/'' ''/config'' (hq_target q) of
           Some segment \<Rightarrow> get_config env lib c (hl_decode_segment lib segment) q
         | None \<Rightarrow> otherwise q)
      else otherwise q)"

end
