(* ===== verification/Http_Operation.thy ===== *)
theory Http_Operation
  imports Execution_Codec
begin

text \<open>
  One HTTP request of the agent (\<open>HttpRequestOperation\<close> of \<open>control_plane_client.cpp\<close>): a chain of asynchronous
  steps raced by a timer. The state holds the clock, the operations still outstanding and those of them that were
  cancelled. An operation calls back with an error or without, and the callback starts, cancels and finishes as the
  code does. What asio documents is the rule of the loop: a timer calls back when it expires or was cancelled, an
  operation on the network when the network answers or it was cancelled, and \<open>context.run()\<close> returns when nothing is
  outstanding. So an operation nobody cancels may keep the loop waiting for ever. A body is the tree nlohmann makes
  of it, \<open>None\<close> for a text that is no JSON.
\<close>

type_synonym reply = "nat \<times> json option"

datatype async = Timer | Resolve | Connect | Write | Read

datatype completion = Fails string | Succeeds

text \<open>\<open>Fails aborted\<close> is the completion of an operation that was cancelled.\<close>

definition aborted :: string where
  "aborted = ''Operation canceled''"

definition timed_out_text :: string where
  "timed_out_text = ''Connection timed out''"

text \<open>The clock and the expiry of the timer are in milliseconds.\<close>

record operation =
  op_now :: nat
  op_expires :: nat
  op_outstanding :: "async list"
  op_cancelled :: "async list"
  op_socket_closed :: bool
  op_finished :: bool
  op_timed_out :: bool
  op_error :: "string option"
  op_response :: "reply option"

definition start_operation :: "nat \<Rightarrow> nat \<Rightarrow> operation" where
  "start_operation now timeout = \<lparr>op_now = now, op_expires = now + timeout, op_outstanding = [Timer, Resolve],
     op_cancelled = [], op_socket_closed = False, op_finished = False, op_timed_out = False, op_error = None,
     op_response = None\<rparr>"

section \<open>Cancelling\<close>

text \<open>What is outstanding on an object that is cancelled will call back without waiting any longer.\<close>

definition cancel_all :: "async list \<Rightarrow> operation \<Rightarrow> operation" where
  "cancel_all kinds s = s\<lparr>op_cancelled := op_cancelled s @ filter (\<lambda>a. a \<in> set kinds) (op_outstanding s)\<rparr>"

definition timer_cancel :: "operation \<Rightarrow> operation" where
  "timer_cancel = cancel_all [Timer]"

definition resolver_cancel :: "operation \<Rightarrow> operation" where
  "resolver_cancel = cancel_all [Resolve]"

definition socket_cancel :: "operation \<Rightarrow> operation" where
  "socket_cancel = cancel_all [Connect, Write, Read]"

text \<open>\<open>shutdown\<close> and \<open>close\<close>: closing a socket cancels what is outstanding on it.\<close>

definition socket_close :: "operation \<Rightarrow> operation" where
  "socket_close s = (socket_cancel s)\<lparr>op_socket_closed := True\<rparr>"

definition finish :: "string option \<Rightarrow> operation \<Rightarrow> operation" where
  "finish error s =
     (if op_finished s then s else socket_close (timer_cancel (s\<lparr>op_finished := True, op_error := error\<rparr>)))"

section \<open>Callbacks\<close>

text \<open>The callback of the timer, and those of the chain: \<open>following\<close> is the operation a success starts.\<close>

definition on_timeout :: "completion \<Rightarrow> operation \<Rightarrow> operation" where
  "on_timeout c s =
     (if c = Fails aborted \<or> op_finished s then s
      else finish (Some timed_out_text) (socket_cancel (resolver_cancel (s\<lparr>op_timed_out := True\<rparr>))))"

definition on_stage :: "async \<Rightarrow> completion \<Rightarrow> operation \<Rightarrow> operation" where
  "on_stage following c s =
     (if op_finished s then s
      else case c of Fails e \<Rightarrow> finish (Some e) s | Succeeds \<Rightarrow> s\<lparr>op_outstanding := op_outstanding s @ [following]\<rparr>)"

definition on_read :: "reply \<Rightarrow> completion \<Rightarrow> operation \<Rightarrow> operation" where
  "on_read r c s =
     (if op_finished s then s
      else case c of Fails e \<Rightarrow> finish (Some e) s | Succeeds \<Rightarrow> finish None (s\<lparr>op_response := Some r\<rparr>))"

fun on_completion :: "reply \<Rightarrow> async \<Rightarrow> completion \<Rightarrow> operation \<Rightarrow> operation" where
  "on_completion r Timer c = on_timeout c"
| "on_completion r Resolve c = on_stage Connect c"
| "on_completion r Connect c = on_stage Write c"
| "on_completion r Write c = on_stage Read c"
| "on_completion r Read c = on_read r c"

definition call_back :: "reply \<Rightarrow> async \<Rightarrow> completion \<Rightarrow> operation \<Rightarrow> operation" where
  "call_back r a c s =
     on_completion r a c (s\<lparr>op_outstanding := remove1 a (op_outstanding s), op_cancelled := removeAll a (op_cancelled s)\<rparr>)"

section \<open>The event loop\<close>

text \<open>An operation is due when nothing outside the process is needed for it to call back.\<close>

definition op_due :: "operation \<Rightarrow> async \<Rightarrow> bool" where
  "op_due s a \<longleftrightarrow> a \<in> set (op_outstanding s) \<and> (a \<in> set (op_cancelled s) \<or> a = Timer \<and> op_expires s \<le> op_now s)"

text \<open>
  What the loop does by itself, for a server whose answer would be \<open>r\<close>: it runs a callback that is due, or waits while
  none is. A cancelled operation calls back in any way, since it may have completed just before; waiting goes past the
  expiry of a timer only if the timer is not outstanding. Nothing bounds the waiting then.
\<close>

inductive own_step :: "reply \<Rightarrow> operation \<Rightarrow> operation \<Rightarrow> bool" for r where
  due_calls: "op_due s a \<Longrightarrow> a \<in> set (op_cancelled s) \<or> c = Succeeds \<Longrightarrow> own_step r s (call_back r a c s)"
| waits: "op_outstanding s \<noteq> [] \<Longrightarrow> \<forall>a. \<not> op_due s a \<Longrightarrow> 0 < d \<Longrightarrow>
     (Timer \<in> set (op_outstanding s) \<longrightarrow> op_now s + d \<le> op_expires s) \<Longrightarrow> own_step r s (s\<lparr>op_now := op_now s + d\<rparr>)"

text \<open>The network may complete its operations at any time, and never has to.\<close>

inductive loop_step :: "reply \<Rightarrow> operation \<Rightarrow> operation \<Rightarrow> bool" for r where
  own: "own_step r s s' \<Longrightarrow> loop_step r s s'"
| network: "a \<in> set (op_outstanding s) \<Longrightarrow> a \<noteq> Timer \<Longrightarrow> loop_step r s (call_back r a c s)"

inductive_cases own_stepE: "own_step r s s'"

inductive_cases loop_stepE: "loop_step r s s'"

definition quiescent :: "operation \<Rightarrow> bool" where
  "quiescent s \<longleftrightarrow> op_outstanding s = []"

datatype transport_failure = RequestTimedOut | NetworkFailure string

definition take_response :: "operation \<Rightarrow> transport_failure + reply" where
  "take_response s =
     (if op_timed_out s then Inl RequestTimedOut
      else case op_error s of
        Some e \<Rightarrow> Inl (NetworkFailure e)
      | None \<Rightarrow> Inr (case op_response s of Some r \<Rightarrow> r | None \<Rightarrow> (200, None)))"

section \<open>The invariant of a request\<close>

text \<open>
  While the request runs, its timer and one operation of the chain are outstanding and nothing is cancelled; once it
  has finished, what is still outstanding is cancelled and the socket is closed. The clock never passes the expiry.
\<close>

definition sound_operation :: "reply \<Rightarrow> operation \<Rightarrow> bool" where
  "sound_operation r s \<longleftrightarrow> op_now s \<le> op_expires s \<and>
     (if op_finished s
      then length (op_outstanding s) \<le> 1 \<and> set (op_outstanding s) \<subseteq> set (op_cancelled s) \<and> op_socket_closed s \<and>
        (op_timed_out s \<longrightarrow> op_error s = Some timed_out_text) \<and> (op_error s = None \<longleftrightarrow> op_response s = Some r)
      else (\<exists>a. a \<noteq> Timer \<and> op_outstanding s = [Timer, a]) \<and> op_cancelled s = [] \<and> \<not> op_timed_out s \<and>
        op_error s = None \<and> op_response s = None)"

fun remaining :: "async \<Rightarrow> nat" where
  "remaining Timer = 1"
| "remaining Resolve = 4"
| "remaining Connect = 3"
| "remaining Write = 2"
| "remaining Read = 1"

definition loop_measure :: "operation \<Rightarrow> nat" where
  "loop_measure s = sum_list (map remaining (op_outstanding s)) + (op_expires s - op_now s)"

lemmas cancel_defs = cancel_all_def timer_cancel_def resolver_cancel_def socket_cancel_def socket_close_def finish_def
lemmas callback_defs = cancel_defs call_back_def on_timeout_def on_stage_def on_read_def

text \<open>A callback leaves the clock alone and starts at most the next operation of the chain.\<close>

lemma call_back_frame:
  "op_now (call_back r a c s) = op_now s" "op_expires (call_back r a c s) = op_expires s"
  by (cases a; cases c; simp add: callback_defs)+

lemma call_back_outstanding:
  "\<exists>more. op_outstanding (call_back r a c s) = remove1 a (op_outstanding s) @ more \<and>
     sum_list (map remaining more) < remaining a"
  by (cases a; cases c) (auto simp: callback_defs)

lemma sum_remove1: "a \<in> set xs \<Longrightarrow> sum_list (map remaining (remove1 a xs)) + remaining a = sum_list (map remaining xs)"
  by (induction xs) auto

lemma call_back_decreases:
  assumes "a \<in> set (op_outstanding s)"
  shows "loop_measure (call_back r a c s) < loop_measure s"
proof -
  from call_back_outstanding[of r a c s] obtain more where
    "op_outstanding (call_back r a c s) = remove1 a (op_outstanding s) @ more" "sum_list (map remaining more) < remaining a" by blast
  with sum_remove1[OF assms] show ?thesis by (simp add: loop_measure_def call_back_frame)
qed

lemma sound_start: "sound_operation r (start_operation now timeout)"
  by (simp add: sound_operation_def start_operation_def)

lemma call_back_sound:
  assumes sound: "sound_operation r s" and a: "a \<in> set (op_outstanding s)"
    and timer: "a = Timer \<Longrightarrow> a \<in> set (op_cancelled s) \<or> c = Succeeds"
  shows "sound_operation r (call_back r a c s)"
proof (cases "op_finished s")
  case True
  with sound a have one: "op_outstanding s = [a]" by (cases "op_outstanding s") (auto simp: sound_operation_def)
  show ?thesis
    using True sound one by (cases a) (auto simp: callback_defs sound_operation_def)
next
  case False
  with sound a obtain b where b: "b \<noteq> Timer" "op_outstanding s = [Timer, b]" "op_cancelled s = []" "\<not> op_timed_out s"
      "op_error s = None" "op_response s = None" "op_now s \<le> op_expires s" by (auto simp: sound_operation_def)
  with a timer have "a = Timer \<and> c = Succeeds \<or> a = b" by auto
  with False b show ?thesis
    by (cases b; cases c) (auto simp: callback_defs sound_operation_def aborted_def)
qed

lemma own_step_sound:
  assumes "own_step r s s'" "sound_operation r s" shows "sound_operation r s'"
  using assms(1)
proof (cases rule: own_step.cases)
  case (due_calls a c)
  then show ?thesis using call_back_sound[OF assms(2)] by (auto simp: op_due_def)
next
  case (waits d)
  have "\<not> op_finished s"
  proof
    assume "op_finished s"
    with assms(2) waits(2) obtain a where "a \<in> set (op_outstanding s)" "a \<in> set (op_cancelled s)"
      by (cases "op_outstanding s") (auto simp: sound_operation_def)
    with waits(3) show False by (auto simp: op_due_def)
  qed
  with assms(2) waits show ?thesis by (auto simp: sound_operation_def)
qed

lemma loop_step_sound: "loop_step r s s' \<Longrightarrow> sound_operation r s \<Longrightarrow> sound_operation r s'"
  by (erule loop_stepE) (auto intro: own_step_sound call_back_sound)

section \<open>Every request ends, with one outcome\<close>

lemma own_step_decreases:
  assumes "own_step r s s'" "sound_operation r s" shows "loop_measure s' < loop_measure s \<and> op_expires s' = op_expires s"
  using assms(1)
proof (cases rule: own_step.cases)
  case (due_calls a c)
  then show ?thesis using call_back_decreases by (auto simp: op_due_def call_back_frame)
next
  case (waits d)
  then have "op_now s' \<le> op_expires s'" using own_step_sound[OF assms] by (simp add: sound_operation_def)
  with waits show ?thesis by (simp add: loop_measure_def)
qed

lemma loop_step_decreases:
  "loop_step r s s' \<Longrightarrow> sound_operation r s \<Longrightarrow> loop_measure s' < loop_measure s \<and> op_expires s' = op_expires s"
  by (erule loop_stepE) (auto dest: own_step_decreases call_back_decreases simp: call_back_frame)

lemma runs_sound:
  "((loop_step r) ^^ n) (start_operation now timeout) s \<Longrightarrow>
   sound_operation r s \<and> op_expires s = now + timeout \<and> n + loop_measure s \<le> timeout + 5"
proof (induction n arbitrary: s)
  case 0
  then show ?case by (auto simp: sound_start) (simp_all add: start_operation_def loop_measure_def)
next
  case (Suc n)
  from Suc.prems obtain u where u: "((loop_step r) ^^ n) (start_operation now timeout) u" "loop_step r u s" by auto
  with Suc.IH loop_step_sound loop_step_decreases show ?case by fastforce
qed

text \<open>The loop never depends on the network: as long as anything is outstanding it can go on by itself.\<close>

lemma loop_goes_on:
  assumes "sound_operation r s" "\<not> quiescent s" shows "\<exists>s'. own_step r s s'"
proof (cases "\<exists>a. op_due s a")
  case True
  then show ?thesis using own_step.due_calls by blast
next
  case False
  have "\<not> op_finished s"
    using assms False by (cases "op_outstanding s") (auto simp: sound_operation_def quiescent_def op_due_def)
  with assms(1) have "Timer \<in> set (op_outstanding s)" by (auto simp: sound_operation_def)
  with False have "op_now s < op_expires s" by (auto simp: op_due_def not_le)
  then show ?thesis using own_step.waits[of s "op_expires s - op_now s" r] False assms(2) by (auto simp: quiescent_def)
qed

lemma quiescent_outcome:
  assumes "sound_operation r s" "quiescent s"
  shows "op_finished s \<and> op_socket_closed s \<and>
    (take_response s = Inr r \<or> take_response s = Inl RequestTimedOut \<or> (\<exists>e. take_response s = Inl (NetworkFailure e)))"
  using assms by (cases "op_error s") (auto simp: sound_operation_def quiescent_def take_response_def split: if_splits)

text \<open>Late completions change nothing, and nobody waits for them.\<close>

lemma call_back_late: "op_finished s \<Longrightarrow> take_response (call_back r a c s) = take_response s \<and> op_finished (call_back r a c s)"
  by (cases a) (simp_all add: callback_defs take_response_def split: option.splits)

lemma finished_stays:
  assumes "loop_step r s s'" "op_finished s" "sound_operation r s"
  shows "op_finished s' \<and> op_now s' = op_now s \<and> take_response s' = take_response s"
  using assms(1)
proof (cases rule: loop_step.cases)
  case own
  then show ?thesis
  proof (cases rule: own_step.cases)
    case (due_calls a c)
    then show ?thesis using call_back_late[OF assms(2)] by (simp add: call_back_frame)
  next
    case (waits d)
    with assms(2,3) show ?thesis by (cases "op_outstanding s") (auto simp: sound_operation_def op_due_def)
  qed
next
  case (network a c)
  then show ?thesis using call_back_late[OF assms(2)] by (simp add: call_back_frame)
qed

text \<open>Without an answer of the network the only thing that can finish a request is its timer.\<close>

lemma silent_step:
  assumes "own_step r s s'" "sound_operation r s" "\<not> op_finished s \<or> take_response s = Inl RequestTimedOut"
  shows "\<not> op_finished s' \<or> take_response s' = Inl RequestTimedOut"
proof (cases "op_finished s")
  case True
  with assms finished_stays[OF own[OF assms(1)]] show ?thesis by simp
next
  case False
  from assms(1) show ?thesis
  proof (cases rule: own_step.cases)
    case (due_calls a c)
    with False assms(2) have "a = Timer" "c = Succeeds" by (auto simp: sound_operation_def op_due_def)
    with due_calls False show ?thesis by (simp add: callback_defs aborted_def take_response_def)
  qed (use False in simp)
qed

lemma silent_network:
  assumes "(own_step r)\<^sup>*\<^sup>* s s'" "sound_operation r s" "\<not> op_finished s" "quiescent s'"
  shows "take_response s' = Inl RequestTimedOut"
proof -
  have "sound_operation r s' \<and> (\<not> op_finished s' \<or> take_response s' = Inl RequestTimedOut)"
    using assms(1)
  proof (induction rule: rtranclp_induct)
    case (step t u)
    then show ?case using own_step_sound silent_step by blast
  qed (use assms(2,3) in simp)
  with quiescent_outcome assms(4) show ?thesis by blast
qed

end
