(* ===== verification/Control_Plane_Client.thy ===== *)
theory Control_Plane_Client
  imports Http_Operation Qc_Rules
begin

text \<open>
  \<open>ControlPlaneClient\<close> (\<open>agent/src/bootstrap/control_plane_client.cpp\<close>): the address of the control plane, the headers
  every request carries, the envelope of an answer and its decoding, with every check and the error it raises. The
  configuration is decoded item by item: an unusable source, rule, task or pending execution is left out, the rest is
  kept. \<open>dump\<close> is nlohmann's printing of a tree.
\<close>

section \<open>Errors\<close>

datatype control_plane_error_kind = CpNetwork | CpHttpStatus | CpInvalidJson | CpInvalidResponse | CpServerError

record control_plane_error =
  cp_kind :: control_plane_error_kind
  cp_message :: string
  cp_http_status :: nat
  cp_server_code :: string

text \<open>The \<open>TaskExecutionClientError\<close> the execution layer sees.\<close>

definition base_error :: "control_plane_error \<Rightarrow> client_error" where
  "base_error e = \<lparr>ce_kind = (if cp_kind e = CpNetwork then Network else if cp_kind e = CpServerError then ServerError
       else if cp_kind e = CpInvalidJson \<or> cp_kind e = CpInvalidResponse then InvalidResponse else HttpStatus),
     ce_message = cp_message e, ce_http_status = cp_http_status e\<rparr>"

section \<open>The address\<close>

record parsed_server_url =
  pu_host :: string
  pu_port :: string
  pu_host_header :: string

definition kHttpPrefix :: string where
  "kHttpPrefix = ''http://''"

definition contains_whitespace :: "string \<Rightarrow> bool" where
  "contains_whitespace v \<longleftrightarrow> list_ex isspace v"

definition invalid_url :: "string \<Rightarrow> agent_exn + 'a" where
  "invalid_url m = Inl (InvalidArgumentError m)"

text \<open>\<^verbatim>\<open>std::from_chars\<close> of an \<^verbatim>\<open>unsigned int\<close> takes digits only and fails past 32 bits.\<close>

definition validate_port :: "string \<Rightarrow> agent_exn + unit" where
  "validate_port port =
     (if port = [] then invalid_url ''port must not be empty''
      else if \<not> list_all isdigit port \<or> digits_value 0 port \<ge> 2 ^ 32 \<or> digits_value 0 port = 0 \<or> digits_value 0 port > 65535
      then invalid_url ''port must be between 1 and 65535''
      else Inr ())"

definition split_authority :: "string \<Rightarrow> agent_exn + string \<times> string" where
  "split_authority authority =
     (if hd authority = CHR ''['' then
        (let host = takeWhile (\<lambda>c. c \<noteq> CHR '']'') (tl authority); suffix = drop (length host + 2) authority in
         if CHR '']'' \<notin> set authority \<or> host = [] then invalid_url ''invalid bracketed IPv6 host''
         else if suffix = [] then Inr (host, ''80'')
         else if hd suffix \<noteq> CHR '':'' then invalid_url ''invalid bracketed IPv6 port''
         else Inr (host, tl suffix))
      else
        (let host = takeWhile (\<lambda>c. c \<noteq> CHR '':'') authority in
         if CHR '':'' \<in> set (drop (length host + 1) authority) then invalid_url ''IPv6 hosts must use brackets''
         else if CHR '':'' \<notin> set authority then Inr (authority, ''80'')
         else Inr (host, drop (length host + 1) authority)))"

definition parse_server_url :: "string \<Rightarrow> agent_exn + parsed_server_url" where
  "parse_server_url url =
     (if take (length kHttpPrefix) url \<noteq> kHttpPrefix then invalid_url ''only an http:// control plane URL is supported''
      else if contains_whitespace url then invalid_url ''URL must not contain whitespace''
      else
        let rest = drop (length kHttpPrefix) url;
            authority = (if rest \<noteq> [] \<and> last rest = CHR ''/'' then butlast rest else rest) in
        if authority = [] then invalid_url ''host is required''
        else if list_ex (\<lambda>c. c \<in> set ''/?#@'') authority then invalid_url ''URL must contain only a host and optional port''
        else sbind (split_authority authority) (\<lambda>(host, port).
          if host = [] then invalid_url ''host is required''
          else sbind (validate_port port) (\<lambda>_. Inr \<lparr>pu_host = host, pu_port = port, pu_host_header = authority\<rparr>)))"

text \<open>Percent-encoding of a path segment; \<open>hex_digit\<close> is the table \<open>kHex\<close>.\<close>

definition hex_digit :: "nat \<Rightarrow> char" where
  "hex_digit d = (if d < 10 then char_of (48 + d) else char_of (55 + d))"

definition is_unreserved :: "char \<Rightarrow> bool" where
  "is_unreserved c \<longleftrightarrow> isalnum c \<or> c = CHR ''-'' \<or> c = CHR ''.'' \<or> c = CHR ''_'' \<or> c = CHR ''~''"

fun encode_path_segment :: "string \<Rightarrow> string" where
  "encode_path_segment [] = []"
| "encode_path_segment (c # s) =
     (if is_unreserved c then [c] else [CHR ''%'', hex_digit (char_code c div 16), hex_digit (char_code c mod 16)]) @
     encode_path_segment s"

section \<open>The client\<close>

record control_plane_client =
  cc_host :: string
  cc_port :: string
  cc_host_header :: string
  cc_node_code :: string
  cc_auth_token :: string
  cc_request_timeout :: int

definition make_control_plane_client :: "string \<Rightarrow> int \<Rightarrow> string \<Rightarrow> string \<Rightarrow> agent_exn + control_plane_client" where
  "make_control_plane_client url timeout node_code token =
     (if timeout \<le> 0 then Inl (InvalidArgumentError ''request timeout must be positive'')
      else if node_code = [] \<or> token = []
      then Inl (InvalidArgumentError ''node code and auth token are required for control plane requests'')
      else sbind (parse_server_url url) (\<lambda>u.
        Inr \<lparr>cc_host = pu_host u, cc_port = pu_port u, cc_host_header = pu_host_header u, cc_node_code = node_code,
          cc_auth_token = token, cc_request_timeout = timeout\<rparr>))"

record client_request =
  cq_method :: string
  cq_target :: string
  cq_headers :: "(string \<times> string) list"
  cq_body :: "json option"

text \<open>\<open>request\<close>: the message that goes out. Only a POST has a body.\<close>

definition build_request :: "control_plane_client \<Rightarrow> string \<Rightarrow> string \<Rightarrow> json \<Rightarrow> client_request" where
  "build_request cl method target body = \<lparr>cq_method = method, cq_target = target,
     cq_headers = [(''Host'', cc_host_header cl), (''User-Agent'', ''LabBridge-Agent''), (''Accept'', ''application/json''),
       (''Connection'', ''close''), (''Authorization'', ''Bearer '' @ cc_auth_token cl), (''X-LabBridge-Node-Code'', cc_node_code cl)] @
       (if method = ''POST'' then [(''Content-Type'', ''application/json'')] else []),
     cq_body = (if method = ''POST'' then Some body else None)\<rparr>"

text \<open>What \<open>take_response\<close> throws.\<close>

fun transport_error :: "transport_failure \<Rightarrow> control_plane_error" where
  "transport_error RequestTimedOut = \<lparr>cp_kind = CpNetwork, cp_message = ''control plane request timed out'', cp_http_status = 0,
     cp_server_code = []\<rparr>"
| "transport_error (NetworkFailure e) = \<lparr>cp_kind = CpNetwork, cp_message = ''control plane network failure: '' @ e,
     cp_http_status = 0, cp_server_code = []\<rparr>"

section \<open>The envelope\<close>

definition bad_response :: "nat \<Rightarrow> string \<Rightarrow> control_plane_error" where
  "bad_response code message = \<lparr>cp_kind = CpInvalidResponse, cp_message = message, cp_http_status = code, cp_server_code = []\<rparr>"

definition bad_status :: "nat \<Rightarrow> control_plane_error" where
  "bad_status code = \<lparr>cp_kind = CpHttpStatus, cp_message = ''control plane returned HTTP status '' @ nat_to_string code,
     cp_http_status = code, cp_server_code = []\<rparr>"

definition service_error :: "json \<Rightarrow> (string \<times> string) option" where
  "service_error response =
     (case (json_find response ''ok'', json_find response ''error'') of
        (Some (JBool False), Some (JObj error)) \<Rightarrow>
          (case (json_find (JObj error) ''code'', json_find (JObj error) ''message'') of
             (Some (JStr code), Some (JStr message)) \<Rightarrow> Some (code, message)
           | _ \<Rightarrow> None)
      | _ \<Rightarrow> None)"

definition is_success :: "nat \<Rightarrow> bool" where
  "is_success code \<longleftrightarrow> 200 \<le> code \<and> code < 300"

definition success_data :: "reply \<Rightarrow> control_plane_error + json" where
  "success_data reply =
     (case reply of (code, body) \<Rightarrow>
       (case body of
          None \<Rightarrow>
            if \<not> is_success code then Inl (bad_status code)
            else Inl \<lparr>cp_kind = CpInvalidJson, cp_message = ''control plane returned invalid JSON'', cp_http_status = code,
              cp_server_code = []\<rparr>
        | Some response \<Rightarrow>
            (case service_error response of
               Some (server_code, message) \<Rightarrow>
                 Inl \<lparr>cp_kind = CpServerError, cp_message = ''control plane error '' @ server_code @ '': '' @ message,
                   cp_http_status = code, cp_server_code = server_code\<rparr>
             | None \<Rightarrow>
                 if \<not> is_success code then Inl (bad_status code)
                 else case (json_find response ''ok'', json_find response ''data'') of
                   (Some (JBool True), Some (JObj data)) \<Rightarrow> Inr (JObj data)
                 | _ \<Rightarrow> Inl (bad_response code ''control plane returned an invalid response envelope''))))"

definition field_text :: "string \<Rightarrow> string \<Rightarrow> string" where
  "field_text field rest = ''control plane response field '' @ apos @ field @ apos @ rest"

definition cp_required_string :: "nat \<Rightarrow> json \<Rightarrow> string \<Rightarrow> control_plane_error + string" where
  "cp_required_string code v field =
     (case json_find v field of Some (JStr s) \<Rightarrow> Inr s | _ \<Rightarrow> Inl (bad_response code (field_text field '' must be a string'')))"

definition cp_required_boolean :: "nat \<Rightarrow> json \<Rightarrow> string \<Rightarrow> control_plane_error + bool" where
  "cp_required_boolean code v field =
     (case json_find v field of Some (JBool b) \<Rightarrow> Inr b | _ \<Rightarrow> Inl (bad_response code (field_text field '' must be a boolean'')))"

definition required_string_array :: "nat \<Rightarrow> json \<Rightarrow> string \<Rightarrow> control_plane_error + string list" where
  "required_string_array code v field =
     (case json_find v field of
        Some (JArr items) \<Rightarrow>
          smap (\<lambda>i. case i of JStr s \<Rightarrow> Inr s | _ \<Rightarrow> Inl (bad_response code (field_text field '' entries must be strings''))) items
      | _ \<Rightarrow> Inl (bad_response code (field_text field '' must be an array'')))"

section \<open>Registration and heartbeat\<close>

definition registration_body :: "node_info \<Rightarrow> json" where
  "registration_body n = JObj [(''node_code'', JStr (ni_node_code n)), (''name'', JStr (ni_name n)), (''agent_version'', JStr (ni_agent_version n))]"

definition registration_fields :: "node_info \<Rightarrow> nat \<Rightarrow> json \<Rightarrow> control_plane_error + unit" where
  "registration_fields n http_status data =
     sbind (cp_required_string http_status data ''node_code'') (\<lambda>code.
     if code \<noteq> ni_node_code n then Inl (bad_response http_status ''registration response node_code does not match the request'')
     else
     sbind (cp_required_string http_status data ''status'') (\<lambda>status.
     if status \<noteq> ''offline'' then Inl (bad_response http_status ''registration response status must be offline'')
     else Inr ()))"

definition read_registration :: "node_info \<Rightarrow> reply \<Rightarrow> control_plane_error + unit" where
  "read_registration n reply = sbind (success_data reply) (registration_fields n (fst reply))"

definition heartbeat_body :: "node_heartbeat \<Rightarrow> json" where
  "heartbeat_body h = JObj [(''node_code'', JStr (hb_node_code h)), (''agent_version'', JStr (hb_agent_version h)),
     (''reported_at'', JStr (hb_reported_at h))]"

definition heartbeat_fields :: "node_heartbeat \<Rightarrow> nat \<Rightarrow> json \<Rightarrow> control_plane_error + unit" where
  "heartbeat_fields h http_status data =
     sbind (cp_required_string http_status data ''node_code'') (\<lambda>code.
     if code \<noteq> hb_node_code h then Inl (bad_response http_status ''heartbeat response node_code does not match the request'')
     else
     sbind (cp_required_string http_status data ''status'') (\<lambda>status.
     if status \<noteq> ''online'' then Inl (bad_response http_status ''heartbeat response status must be online'')
     else
     sbind (cp_required_string http_status data ''reported_at'') (\<lambda>reported.
     if reported \<noteq> hb_reported_at h then Inl (bad_response http_status ''heartbeat response reported_at does not match the request'')
     else Inr ())))"

definition read_heartbeat :: "node_heartbeat \<Rightarrow> reply \<Rightarrow> control_plane_error + unit" where
  "read_heartbeat h reply = sbind (success_data reply) (heartbeat_fields h (fst reply))"

section \<open>Answers to a start, a manifest and a report\<close>

definition start_fields :: "nat \<Rightarrow> json \<Rightarrow> control_plane_error + start_result" where
  "start_fields http_status data =
     sbind (cp_required_string http_status data ''task_run_id'') (\<lambda>run.
     sbind (cp_required_boolean http_status data ''replayed'') (\<lambda>replayed.
     sbind (cp_required_string http_status data ''run_status'') (\<lambda>status.
       Inr \<lparr>srr_task_run_id = run, srr_replayed = replayed, srr_run_status = status\<rparr>)))"

definition read_start :: "reply \<Rightarrow> control_plane_error + start_result" where
  "read_start reply = sbind (success_data reply) (start_fields (fst reply))"

definition manifest_fields :: "nat \<Rightarrow> json \<Rightarrow> control_plane_error + string list \<times> bool" where
  "manifest_fields http_status data =
     sbind (required_string_array http_status data ''raw_file_ids'') (\<lambda>ids.
     sbind (cp_required_boolean http_status data ''replayed'') (\<lambda>replayed. Inr (ids, replayed)))"

definition read_manifest :: "reply \<Rightarrow> control_plane_error + string list \<times> bool" where
  "read_manifest reply = sbind (success_data reply) (manifest_fields (fst reply))"

definition report_fields :: "nat \<Rightarrow> json \<Rightarrow> control_plane_error + string list \<times> string list \<times> string list \<times> bool" where
  "report_fields http_status data =
     sbind (required_string_array http_status data ''parsed_record_ids'') (\<lambda>records.
     sbind (required_string_array http_status data ''qc_result_ids'') (\<lambda>results.
     sbind (required_string_array http_status data ''alert_ids'') (\<lambda>alerts.
     sbind (cp_required_boolean http_status data ''replayed'') (\<lambda>replayed. Inr (records, results, alerts, replayed)))))"

definition read_report :: "reply \<Rightarrow> control_plane_error + string list \<times> string list \<times> string list \<times> bool" where
  "read_report reply = sbind (success_data reply) (report_fields (fst reply))"

end
