(* ===== verification/Config_Pull.thy ===== *)
theory Config_Pull
  imports Control_Plane_Client
begin

text \<open>
  \<open>ControlPlaneClient::fetch_config\<close>: the decoding of the configuration document. Sources and rules are collected into
  maps first; a task is kept when everything it needs is there and of a kind this agent executes.
\<close>

record pulled_agent_config =
  pl_node :: node_info
  pl_status :: node_status
  pl_last_heartbeat_at :: string
  pl_tasks :: "task_config list"
  pl_pending_executions :: "pending_execution list"

record source_projection =
  sj_id :: string
  sj_node_code :: string
  sj_source_type :: string
  sj_name :: string
  sj_config_json :: string

record qc_projection =
  qj_id :: string
  qj_task_id :: string
  qj_rule_type :: string
  qj_name :: string
  qj_config_json :: string

section \<open>Sources and rules\<close>

definition read_source :: "(json \<Rightarrow> string) \<Rightarrow> nat \<Rightarrow> json \<Rightarrow> control_plane_error + source_projection" where
  "read_source dump code v =
     (case json_find v ''config'' of
        Some (JObj config) \<Rightarrow>
          sbind (cp_required_string code v ''id'') (\<lambda>i.
          sbind (cp_required_string code v ''node_code'') (\<lambda>node.
          sbind (cp_required_string code v ''source_type'') (\<lambda>kind.
          sbind (cp_required_string code v ''name'') (\<lambda>name.
            Inr \<lparr>sj_id = i, sj_node_code = node, sj_source_type = kind, sj_name = name, sj_config_json = dump (JObj config)\<rparr>))))
      | _ \<Rightarrow> Inl (bad_response code ''ignoring invalid data source projection''))"

definition read_rule :: "(json \<Rightarrow> string) \<Rightarrow> nat \<Rightarrow> json \<Rightarrow> control_plane_error + qc_projection" where
  "read_rule dump code v =
     (case json_find v ''config'' of
        Some (JObj config) \<Rightarrow>
          sbind (cp_required_string code v ''id'') (\<lambda>i.
          sbind (cp_required_string code v ''task_id'') (\<lambda>task.
          sbind (cp_required_string code v ''rule_type'') (\<lambda>kind.
          sbind (cp_required_string code v ''name'') (\<lambda>name.
            Inr \<lparr>qj_id = i, qj_task_id = task, qj_rule_type = kind, qj_name = name, qj_config_json = dump (JObj config)\<rparr>))))
      | _ \<Rightarrow> Inl (bad_response code ''ignoring invalid QC rule projection''))"

text \<open>The loops over the projections: what cannot be read is skipped, and the last one of a key stays.\<close>

fun read_sources :: "(json \<Rightarrow> string) \<Rightarrow> nat \<Rightarrow> (string \<rightharpoonup> source_projection) \<Rightarrow> json list \<Rightarrow> string \<rightharpoonup> source_projection" where
  "read_sources dump code m [] = m"
| "read_sources dump code m (v # vs) =
     (case read_source dump code v of
        Inl _ \<Rightarrow> read_sources dump code m vs
      | Inr s \<Rightarrow> read_sources dump code (m(sj_id s \<mapsto> s)) vs)"

definition rule_key :: "string \<Rightarrow> string \<Rightarrow> string" where
  "rule_key task rule = task @ newline @ rule"

fun read_rules :: "(json \<Rightarrow> string) \<Rightarrow> nat \<Rightarrow> (string \<rightharpoonup> qc_projection) \<Rightarrow> json list \<Rightarrow> string \<rightharpoonup> qc_projection" where
  "read_rules dump code m [] = m"
| "read_rules dump code m (v # vs) =
     (case read_rule dump code v of
        Inl _ \<Rightarrow> read_rules dump code m vs
      | Inr r \<Rightarrow> read_rules dump code (m(rule_key (qj_task_id r) (qj_id r) \<mapsto> r)) vs)"

section \<open>Tasks\<close>

definition read_rule_ref :: "nat \<Rightarrow> (string \<rightharpoonup> qc_projection) \<Rightarrow> string \<Rightarrow> json \<Rightarrow> control_plane_error + qc_rule_config" where
  "read_rule_ref code rules task v =
     (case v of
        JStr i \<Rightarrow>
          (case rules (rule_key task i) of
             Some r \<Rightarrow>
               if qj_rule_type r \<noteq> ''required_fields'' \<and> qj_rule_type r \<noteq> ''basic_timestamp_format''
               then Inl (bad_response code ''task references an unavailable or unsupported QC rule'')
               else Inr \<lparr>qr_id = qj_id r, qr_rule_type = qj_rule_type r, qr_name = qj_name r, qr_config_json = qj_config_json r\<rparr>
           | None \<Rightarrow> Inl (bad_response code ''task references an unavailable or unsupported QC rule''))
      | _ \<Rightarrow> Inl (bad_response code ''task qc_rule_ids entries must be strings''))"

definition read_task :: "nat \<Rightarrow> string \<Rightarrow> (string \<rightharpoonup> source_projection) \<Rightarrow> (string \<rightharpoonup> qc_projection) \<Rightarrow> json \<Rightarrow>
    control_plane_error + task_config" where
  "read_task code node_code sources rules v =
     (if \<not> is_object v then Inl (bad_response code ''control plane config task must be an object'')
      else
      sbind (cp_required_string code v ''id'') (\<lambda>i.
      sbind (cp_required_string code v ''node_code'') (\<lambda>node.
      sbind (cp_required_string code v ''data_source_id'') (\<lambda>source_id.
      sbind (cp_required_string code v ''name'') (\<lambda>name.
      sbind (cp_required_string code v ''task_type'') (\<lambda>task_type.
      sbind (cp_required_string code v ''schedule_expr'') (\<lambda>schedule.
      sbind (cp_required_string code v ''parser_type'') (\<lambda>parser.
      sbind (cp_required_string code v ''qc_profile'') (\<lambda>profile.
      sbind (cp_required_boolean code v ''enabled'') (\<lambda>enabled.
        case json_find v ''qc_rule_ids'' of
          Some (JArr rule_ids) \<Rightarrow>
            if node \<noteq> node_code \<or> \<not> enabled then Inl (bad_response code ''task is outside the requested enabled set'')
            else if task_type \<noteq> ''local_file_import'' \<or> parser \<noteq> ''csv_observation''
            then Inl (bad_response code ''task uses an unsupported task or parser type'')
            else (case sources source_id of
              None \<Rightarrow> Inl (bad_response code ''task references an unavailable or unsupported data source'')
            | Some s \<Rightarrow>
                if sj_node_code s \<noteq> node_code \<or> sj_source_type s \<noteq> ''local_directory''
                then Inl (bad_response code ''task references an unavailable or unsupported data source'')
                else sbind (smap (read_rule_ref code rules i) rule_ids) (\<lambda>qc_rules.
                  Inr \<lparr>tc_id = i, tc_node_code = node, tc_data_source_id = source_id, tc_name = name, tc_task_type = task_type,
                    tc_schedule_expr = schedule, tc_parser_type = parser, tc_qc_profile = profile, tc_enabled = enabled,
                    tc_data_source = \<lparr>ds_id = sj_id s, ds_node_code = sj_node_code s, ds_type = LocalDirectory,
                      ds_name = sj_name s, ds_config_json = sj_config_json s\<rparr>,
                    tc_qc_rules = qc_rules\<rparr>))
        | _ \<Rightarrow> Inl (bad_response code ''control plane task qc_rule_ids must be an array'')))))))))))"

section \<open>Pending executions\<close>

definition optional_text :: "json \<Rightarrow> string \<Rightarrow> string" where
  "optional_text v field = (case json_find v field of Some (JStr s) \<Rightarrow> s | _ \<Rightarrow> [])"

text \<open>An unsigned number is converted to \<^verbatim>\<open>long long\<close>.\<close>

definition optional_size :: "json \<Rightarrow> string \<Rightarrow> int" where
  "optional_size v field =
     (case json_find v field of Some (JInt i) \<Rightarrow> if i < 0 then 0 else if i < 2 ^ 63 then i else i - 2 ^ 64 | _ \<Rightarrow> 0)"

definition read_retry_file :: "nat \<Rightarrow> json \<Rightarrow> control_plane_error + retry_file_input" where
  "read_retry_file code v =
     (case json_find v ''input_type'' of
        Some (JStr kind) \<Rightarrow>
          if kind \<noteq> ''archive'' \<and> kind \<noteq> ''source'' then Inl (bad_response code ''retry file input_type must be archive or source'')
          else
          sbind (cp_required_string code v ''source_path'') (\<lambda>source.
          sbind (cp_required_string code v ''original_name'') (\<lambda>name.
            if kind = ''archive'' \<and> (optional_text v ''storage_path'' = [] \<or> optional_text v ''file_hash'' = [])
            then Inl (bad_response code ''archive retry file requires storage_path and file_hash'')
            else Inr \<lparr>rf_input_type = kind, rf_source_path = source, rf_original_name = name,
              rf_archive_raw_file_id = optional_text v ''archive_raw_file_id'', rf_storage_path = optional_text v ''storage_path'',
              rf_size_bytes = optional_size v ''size_bytes'', rf_file_hash = optional_text v ''file_hash'',
              rf_source_mtime = optional_text v ''source_mtime''\<rparr>))
      | _ \<Rightarrow> Inl (bad_response code ''retry file must be an object with string input_type''))"

definition read_pending_execution :: "nat \<Rightarrow> json \<Rightarrow> control_plane_error + pending_execution" where
  "read_pending_execution code v =
     (if \<not> is_object v then Inl (bad_response code ''pending execution must be an object'')
      else
      sbind (cp_required_string code v ''task_run_id'') (\<lambda>run.
      sbind (cp_required_string code v ''task_id'') (\<lambda>task.
      sbind (cp_required_string code v ''execution_key'') (\<lambda>key.
      sbind (cp_required_string code v ''trigger_type'') (\<lambda>trigger.
      sbind (cp_required_string code v ''requested_at'') (\<lambda>requested.
        if trigger \<noteq> ''manual'' \<and> trigger \<noteq> ''retry''
        then Inl (bad_response code ''pending execution trigger_type must be manual or retry'')
        else
        sbind (case json_find v ''retry_files'' of
                 None \<Rightarrow> Inr []
               | Some (JArr items) \<Rightarrow> smap (read_retry_file code) items
               | Some _ \<Rightarrow> Inl (bad_response code ''pending execution retry_files must be an array'')) (\<lambda>files.
          Inr \<lparr>pe_task_run_id = run, pe_task_id = task, pe_execution_key = key, pe_trigger_type = trigger,
            pe_requested_at = requested, pe_retry_files = files\<rparr>)))))))"

text \<open>The loops over tasks and pending executions keep what could be read.\<close>

fun readable_items :: "('e + 'a) list \<Rightarrow> 'a list" where
  "readable_items [] = []"
| "readable_items (Inl e # rs) = readable_items rs"
| "readable_items (Inr a # rs) = a # readable_items rs"

section \<open>The document\<close>

definition read_node_status :: "nat \<Rightarrow> string \<Rightarrow> control_plane_error + node_status" where
  "read_node_status code s =
     (if s = ''online'' then Inr Online else if s = ''offline'' then Inr Offline
      else Inl (bad_response code ''control plane returned an unknown node status''))"

definition config_fields :: "(json \<Rightarrow> string) \<Rightarrow> string \<Rightarrow> nat \<Rightarrow> json \<Rightarrow> control_plane_error + pulled_agent_config" where
  "config_fields dump node_code code data =
       (case (json_find data ''node'', json_find data ''data_sources'', json_find data ''qc_rules'', json_find data ''tasks'') of
          (Some (JObj node), Some (JArr sources), Some (JArr rules), Some (JArr tasks)) \<Rightarrow>
            let node = JObj node in
            sbind (cp_required_string code node ''node_code'') (\<lambda>nc.
            sbind (cp_required_string code node ''name'') (\<lambda>name.
            sbind (cp_required_string code node ''agent_version'') (\<lambda>version.
            sbind (cp_required_string code node ''last_heartbeat_at'') (\<lambda>heartbeat.
            sbind (cp_required_string code node ''status'') (\<lambda>st.
            sbind (read_node_status code st) (\<lambda>status.
              if nc \<noteq> node_code then Inl (bad_response code ''config response node_code does not match the request'')
              else
                let source_map = read_sources dump code Map.empty sources; rule_map = read_rules dump code Map.empty rules in
                Inr \<lparr>pl_node = \<lparr>ni_node_code = nc, ni_name = name, ni_agent_version = version\<rparr>, pl_status = status,
                  pl_last_heartbeat_at = heartbeat,
                  pl_tasks = readable_items (map (read_task code node_code source_map rule_map) tasks),
                  pl_pending_executions = (case json_find data ''pending_executions'' of
                      Some (JArr items) \<Rightarrow> readable_items (map (read_pending_execution code) items) | _ \<Rightarrow> [])\<rparr>))))))
        | _ \<Rightarrow> Inl (bad_response code ''control plane config must contain node, data_sources, qc_rules and tasks''))"

definition read_config :: "(json \<Rightarrow> string) \<Rightarrow> string \<Rightarrow> reply \<Rightarrow> control_plane_error + pulled_agent_config" where
  "read_config dump node_code reply = sbind (success_data reply) (config_fields dump node_code (fst reply))"

end
