(* ===== verification/Control_Exchange.thy ===== *)
theory Control_Exchange
  imports Agent_Http Config_Pull
begin

text \<open>
  An agent and the control plane talking: the request the client builds goes through the routes of the server, and the
  answer is decoded by the client. The lemmas say what arrives on either side.
\<close>

section \<open>The exchange\<close>

definition to_http_request :: "client_request \<Rightarrow> http_request" where
  "to_http_request q = \<lparr>hq_method = cq_method q, hq_target = cq_target q, hq_headers = cq_headers q, hq_parameters = [], hq_body = cq_body q\<rparr>"

definition to_reply :: "http_response \<Rightarrow> reply" where
  "to_reply r = (hr_status r, Some (hr_body r))"

text \<open>A control plane: its database interface, its libraries, its credentials and what drogon answers elsewhere.\<close>

record control_plane =
  pn_env :: pg_env
  pn_lib :: http_lib
  pn_credentials :: credential_set
  pn_otherwise :: "http_request \<Rightarrow> server_db \<Rightarrow> http_response \<times> server_db"

definition exchange :: "control_plane \<Rightarrow> control_plane_client \<Rightarrow> string \<Rightarrow> string \<Rightarrow> json \<Rightarrow> (reply \<Rightarrow> 'a) \<Rightarrow> server_db \<Rightarrow> 'a \<times> server_db" where
  "exchange pn cl method target body read db =
     (case agent_routes (pn_env pn) (pn_lib pn) (pn_credentials pn) (pn_otherwise pn)
          (to_http_request (build_request cl method target body)) db of
        (answer, db') \<Rightarrow> (read (to_reply answer), db'))"

text \<open>The six requests of the client. Encoding a report fails for a status that is not terminal.\<close>

definition client_register :: "control_plane \<Rightarrow> control_plane_client \<Rightarrow> node_info \<Rightarrow> server_db \<Rightarrow> (control_plane_error + unit) \<times> server_db" where
  "client_register pn cl n = exchange pn cl ''POST'' ''/api/v1/agents/register'' (registration_body n) (read_registration n)"

definition client_heartbeat :: "control_plane \<Rightarrow> control_plane_client \<Rightarrow> node_heartbeat \<Rightarrow> server_db \<Rightarrow> (control_plane_error + unit) \<times> server_db" where
  "client_heartbeat pn cl h = exchange pn cl ''POST'' ''/api/v1/agents/heartbeat'' (heartbeat_body h) (read_heartbeat h)"

definition client_fetch_config :: "control_plane \<Rightarrow> control_plane_client \<Rightarrow> (json \<Rightarrow> string) \<Rightarrow> string \<Rightarrow> server_db \<Rightarrow>
    (control_plane_error + pulled_agent_config) \<times> server_db" where
  "client_fetch_config pn cl dump node_code =
     exchange pn cl ''GET'' (''/api/v1/agents/'' @ encode_path_segment node_code @ ''/config'') JNull (read_config dump node_code)"

definition client_start :: "control_plane \<Rightarrow> control_plane_client \<Rightarrow> start_request \<Rightarrow> server_db \<Rightarrow> (control_plane_error + start_result) \<times> server_db" where
  "client_start pn cl q = exchange pn cl ''POST'' ''/api/v1/task-runs/start'' (encode_start_http_body q) read_start"

definition client_manifest :: "control_plane \<Rightarrow> control_plane_client \<Rightarrow> manifest_request \<Rightarrow> server_db \<Rightarrow>
    (control_plane_error + string list \<times> bool) \<times> server_db" where
  "client_manifest pn cl q = exchange pn cl ''POST'' ''/api/v1/raw-files/manifest'' (encode_manifest_http_body q) read_manifest"

definition client_report :: "control_plane \<Rightarrow> control_plane_client \<Rightarrow> report_request \<Rightarrow> server_db \<Rightarrow>
    agent_exn + ((control_plane_error + string list \<times> string list \<times> string list \<times> bool) \<times> server_db)" where
  "client_report pn cl q db =
     sbind (encode_report_http_body q) (\<lambda>body.
       Inr (exchange pn cl ''POST'' ''/api/v1/task-runs/report'' body read_report db))"

section \<open>What arrives\<close>

text \<open>
  What the exchange relies on of drogon: it knows the JSON content type, and it hands the decoded segment of a route over.
  Routes are matched on the target as it is sent. A framework that decodes before it matches differs for one kind of
  request only, the configuration of a node whose code has a separator in it.
\<close>

definition documented :: "http_lib \<Rightarrow> bool" where
  "documented lib \<longleftrightarrow> hl_is_json lib ''application/json'' \<and> (\<forall>s. hl_decode_segment lib (encode_path_segment s) = s)"

definition admits :: "control_plane \<Rightarrow> control_plane_client \<Rightarrow> bool" where
  "admits pn cl \<longleftrightarrow> map_of (cs_agent_tokens (pn_credentials pn)) (cc_node_code cl) = Some (cc_auth_token cl)"

definition to_start_run :: "start_request \<Rightarrow> start_run_request" where
  "to_start_run q = \<lparr>sp_node_code = sr_node_code q, sp_task_id = sr_task_id q, sp_started_at = sr_started_at q,
     sp_trigger_type = sr_trigger_type q, sp_execution_key = sr_execution_key q, sp_scheduled_for = sr_scheduled_for q\<rparr>"

definition to_manifest_file :: "manifest_entry \<Rightarrow> manifest_file" where
  "to_manifest_file f = \<lparr>mf_original_name = me_original_name f, mf_file_hash = me_file_hash f, mf_storage_path = me_storage_path f,
     mf_size_bytes = me_size_bytes f, mf_source_mtime = me_source_mtime f, mf_ingest_status = me_ingest_status f\<rparr>"

definition to_run_manifest :: "manifest_request \<Rightarrow> run_manifest" where
  "to_run_manifest q = \<lparr>rm_task_run_id = mr_task_run_id q, rm_node_code = mr_node_code q, rm_idempotency_key = mr_idempotency_key q,
     rm_files = map to_manifest_file (mr_files q)\<rparr>"

definition to_run_qc :: "report_qc_result \<Rightarrow> run_qc_result" where
  "to_run_qc r = \<lparr>ry_rule_id = rq_qc_rule_id r, ry_level = rq_level r, ry_result = rq_result r, ry_message = rq_message r\<rparr>"

definition to_run_record :: "report_parsed_record \<Rightarrow> run_parsed_record" where
  "to_run_record p = \<lparr>rz_raw_file_id = rp_raw_file_id p, rz_record = rp_record p, rz_parse_status = rp_parse_status p,
     rz_qc_results = map to_run_qc (rp_qc_results p)\<rparr>"

definition to_run_failed :: "failed_file \<Rightarrow> task_run_failed_file" where
  "to_run_failed f = \<lparr>tf_source_path = ff_source_path f, tf_original_name = ff_original_name f, tf_stage = ff_stage f,
     tf_message = ff_message f, tf_archive_raw_file_id = ff_archive_raw_file_id f\<rparr>"

definition to_run_report :: "report_request \<Rightarrow> run_report" where
  "to_run_report q = \<lparr>ro_task_run_id = rr_task_run_id q, ro_node_code = rr_node_code q, ro_idempotency_key = rr_idempotency_key q,
     ro_status = rr_status q, ro_finished_at = rr_finished_at q, ro_items_total = rr_items_total q,
     ro_items_success = rr_items_success q, ro_items_failed = rr_items_failed q, ro_error_summary = rr_error_summary q,
     ro_parsed_records = map to_run_record (rr_parsed_records q), ro_has_failed_files = rr_has_failed_files q,
     ro_failed_files = (if rr_has_failed_files q then map to_run_failed (rr_failed_files q) else [])\<rparr>"

section \<open>Requests read back\<close>

named_theorems wire_simps "reading the fields of the documents that travel"

lemmas [wire_simps] = http_required_string_def http_optional_string_def optional_int_def optional_int64_def optional_array_def
  require_object_def nonempty_string_def parse_json_body_def control_body_def

lemma parse_items_map:
  assumes "\<And>x path. x \<in> set xs \<Longrightarrow> is_object (e x) \<and> f (e x) path = Inr (g x)"
  shows "parse_items f path i (map e xs) = Inr (map g xs)"
  using assms by (induction xs arbitrary: i) (simp_all add: Let_def require_object_def)

lemma start_reads_back:
  assumes "sr_node_code q \<noteq> []" "sr_task_id q \<noteq> []" "sr_execution_key q \<noteq> []" "sr_started_at q \<noteq> []" "sr_trigger_type q \<noteq> []"
  shows "parse_start_request (Some (encode_start_http_body q)) = Inr (to_start_run q)"
  using assms by (simp add: encode_start_http_body_def encode_start_request_def parse_start_request_def wire_simps Let_def to_start_run_def)

lemma manifest_file_reads_back:
  assumes "0 \<le> me_size_bytes f" "me_size_bytes f < 2 ^ 63"
  shows "parse_manifest_file (encode_manifest_entry f) path = Inr (to_manifest_file f)"
  using assms by (simp add: encode_manifest_entry_def parse_manifest_file_def wire_simps to_manifest_file_def)

lemma manifest_reads_back:
  assumes "\<forall>f \<in> set (mr_files q). 0 \<le> me_size_bytes f \<and> me_size_bytes f < 2 ^ 63"
  shows "parse_raw_file_manifest (encode_manifest_http_body q) = Inr (to_run_manifest q)"
proof -
  have "parse_items parse_manifest_file ''files'' 0 (map encode_manifest_entry (mr_files q)) = Inr (map to_manifest_file (mr_files q))"
    by (rule parse_items_map) (use assms manifest_file_reads_back in \<open>auto simp: encode_manifest_entry_def\<close>)
  then show ?thesis
    by (simp add: encode_manifest_http_body_def encode_manifest_request_def parse_raw_file_manifest_def wire_simps to_run_manifest_def)
qed

lemma qc_reads_back: "parse_qc_result (encode_qc_result r) path = Inr (to_run_qc r)"
  by (simp add: encode_qc_result_def parse_qc_result_def wire_simps to_run_qc_def)

lemma record_reads_back:
  assumes "is_valid_json_text lib (pr_payload_json (rp_record p))"
  shows "parse_report_record lib (encode_parsed_record p) path = Inr (to_run_record p)"
proof -
  have "parse_items parse_qc_result path' 0 (map encode_qc_result (rp_qc_results p)) = Inr (map to_run_qc (rp_qc_results p))" for path'
    by (rule parse_items_map) (simp add: qc_reads_back, simp add: encode_qc_result_def)
  then show ?thesis
    using assms by (simp add: encode_parsed_record_def parse_report_record_def wire_simps to_run_record_def)
qed

lemma failed_reads_back: "parse_reported_failure (encode_failed_file f) path = Inr (to_run_failed f)"
  by (simp add: encode_failed_file_def parse_reported_failure_def wire_simps to_run_failed_def)

definition report_sendable :: "http_lib \<Rightarrow> report_request \<Rightarrow> bool" where
  "report_sendable lib q \<longleftrightarrow> rr_status q \<in> {Succeeded, Failed} \<and>
     (\<forall>i \<in> {rr_items_total q, rr_items_success q, rr_items_failed q}. - (2 ^ 31) \<le> i \<and> i < 2 ^ 31) \<and>
     (\<forall>p \<in> set (rr_parsed_records q). is_valid_json_text lib (pr_payload_json (rp_record p)))"

lemma report_reads_back:
  assumes "report_sendable lib q"
  shows "\<exists>body. encode_report_http_body q = Inr body \<and> parse_task_run_report lib body = Inr (to_run_report q)"
proof -
  have records: "parse_items (parse_report_record lib) ''parsed_records'' 0 (map encode_parsed_record (rr_parsed_records q)) =
      Inr (map to_run_record (rr_parsed_records q))"
    by (rule parse_items_map) (use assms record_reads_back in \<open>auto simp: report_sendable_def encode_parsed_record_def\<close>)
  have failed: "parse_items parse_reported_failure ''failed_files'' 0 (map encode_failed_file (rr_failed_files q)) =
      Inr (map to_run_failed (rr_failed_files q))"
    by (rule parse_items_map) (simp add: failed_reads_back, simp add: encode_failed_file_def)
  obtain st where st: "encode_terminal_status (rr_status q) = Inr st" "parse_task_run_status st = Inr (rr_status q)"
    using assms by (auto simp: report_sendable_def encode_terminal_status_def parse_task_run_status_def)
  have "parse_task_run_report lib (json_erase ''codec_version'' doc) = Inr (to_run_report q)"
    if "encode_report_request q = Inr doc" for doc
    using assms that[symmetric] st records failed
    by (cases "rr_has_failed_files q")
      (simp_all add: encode_report_request_def parse_task_run_report_def parse_failed_files_def wire_simps report_sendable_def to_run_report_def)
  then show ?thesis
    using st by (simp add: encode_report_http_body_def encode_report_request_def)
qed

section \<open>Answers read back\<close>

text \<open>What the client makes of a refusal, and of an exception behind the handler.\<close>

definition server_refusal :: "nat \<Rightarrow> string \<Rightarrow> string \<Rightarrow> control_plane_error" where
  "server_refusal code server_code message = \<lparr>cp_kind = CpServerError,
     cp_message = ''control plane error '' @ server_code @ '': '' @ message, cp_http_status = code, cp_server_code = server_code\<rparr>"

definition internal_refusal :: control_plane_error where
  "internal_refusal = server_refusal 500 ''internal_error'' ''internal server error''"

definition refusal_of :: "status \<Rightarrow> control_plane_error" where
  "refusal_of s = (case st_code s of
     InvalidArgument \<Rightarrow> server_refusal 400 ''invalid_argument'' (st_message s)
   | NotFound \<Rightarrow> server_refusal 404 ''not_found'' (st_message s)
   | Conflict \<Rightarrow> server_refusal 409 ''conflict'' (st_message s)
   | Ok \<Rightarrow> internal_refusal)"

lemma success_reads_back: "is_success code \<Longrightarrow> success_data (to_reply (success_response code (JObj kvs))) = Inr (JObj kvs)"
  by (simp add: to_reply_def success_response_def json_response_def success_data_def service_error_def)

lemma error_reads_back: "success_data (to_reply (error_response code server_code message)) = Inl (server_refusal code server_code message)"
  by (simp add: to_reply_def error_response_def json_response_def success_data_def service_error_def server_refusal_def)

lemma internal_reads_back: "success_data (to_reply internal_error) = Inl internal_refusal"
  unfolding internal_error_def internal_refusal_def by (rule error_reads_back)

lemma refusal_reads_back: "success_data (to_reply (status_error_response s)) = Inl (refusal_of s)"
  by (cases "st_code s") (simp_all add: status_error_response_def refusal_of_def error_reads_back internal_reads_back)

lemma unauthenticated_reads_back: "success_data (to_reply (reject_unauthenticated m)) = Inl (server_refusal 401 ''unauthenticated'' m)"
  by (simp add: to_reply_def reject_unauthenticated_def error_response_def json_response_def success_data_def service_error_def
      server_refusal_def)

lemma success_body: "hr_body (success_response code data) = JObj [(''ok'', JBool True), (''data'', data)]"
    "hr_status (success_response code data) = code"
  by (simp_all add: success_response_def json_response_def)

lemma strings_read_back:
  "smap (\<lambda>i. case i of JStr s \<Rightarrow> Inr s | _ \<Rightarrow> Inl e) (map JStr xs) = Inr xs"
  by (induction xs) simp_all

section \<open>The way through the routes\<close>

lemma client_headers:
  assumes "admits pn cl" "documented (pn_lib pn)"
  shows "require_agent_node (pn_credentials pn) (to_http_request (build_request cl m t b)) = Inr (cc_node_code cl)"
    and "m = ''POST'' \<Longrightarrow> require_json_content_type (pn_lib pn) (to_http_request (build_request cl m t b)) = None"
  using assms
  by (simp_all add: admits_def documented_def require_agent_node_def require_json_content_type_def to_http_request_def build_request_def
      get_header_def lower_char_def char_code_def bearer_token_equals_def kBearerScheme_def Let_def)

lemma post_admitted:
  assumes "admits pn cl" "documented (pn_lib pn)"
    and "parse (to_http_request (build_request cl ''POST'' t b)) = Inr x" "declared x = cc_node_code cl"
  shows "agent_post (pn_lib pn) (pn_credentials pn) parse declared answer (to_http_request (build_request cl ''POST'' t b)) db =
    handle_request (answer x) db"
  using client_headers[OF assms(1,2)] assms(3,4)
  by (simp add: agent_post_def require_declared_node_def handle_request_def seqp_def lift_sum_def)

text \<open>The outcome of a call of the server, as the client sees it.\<close>

definition as_seen :: "('r \<Rightarrow> status) \<Rightarrow> ('r \<Rightarrow> 'a) \<Rightarrow> (server_exn + 'r) \<times> server_db \<Rightarrow> (control_plane_error + 'a) \<times> server_db" where
  "as_seen st f outcome =
     (case outcome of
        (Inl e, db') \<Rightarrow> (Inl internal_refusal, db')
      | (Inr r, db') \<Rightarrow> (if st_ok (st r) then Inr (f r) else Inl (refusal_of (st r)), db'))"

lemma answered_as_seen:
  assumes read: "\<And>r. read r = sbind (success_data r) (dec (fst r))"
    and data: "\<And>x. dec code (doc x) = Inr (f x)" "\<And>x. is_object (doc x)" "is_success code"
  shows "(case handle_request (seqp (called m) (\<lambda>r. if \<not> st_ok (st r) then ret (status_error_response (st r))
        else ret (success_response code (doc r)))) db of (answer, db') \<Rightarrow> (read (to_reply answer), db')) = as_seen st f (m db)"
proof -
  have ok: "read (to_reply (success_response code (doc x))) = Inr (f x)" for x
  proof -
    obtain kvs where "doc x = JObj kvs" using data(2)[of x] by (cases "doc x") simp_all
    then show ?thesis
      using success_reads_back[OF data(3), of kvs] data(1)[of x] by (simp add: read) (simp add: to_reply_def success_body)
  qed
  have refused: "read (to_reply (status_error_response s)) = Inl (refusal_of s)" "read (to_reply internal_error) = Inl internal_refusal" for s
    by (simp_all add: read refusal_reads_back internal_reads_back)
  obtain r db' where "m db = (r, db')" by (cases "m db")
  then show ?thesis
    by (cases r) (auto simp: as_seen_def handle_request_def seqp_def called_def ret_def ok refused)
qed

definition start_answer :: "create_result \<Rightarrow> start_result" where
  "start_answer r = \<lparr>srr_task_run_id = cr_id r, srr_replayed = cr_replayed r, srr_run_status = cr_run_status r\<rparr>"

lemma sent_request:
  "hq_method (to_http_request (build_request cl m t b)) = m" "hq_target (to_http_request (build_request cl m t b)) = t"
  "hq_body (to_http_request (build_request cl ''POST'' t b)) = Some b"
  by (simp_all add: to_http_request_def build_request_def)

lemma routes_post:
  assumes "hq_method q = ''POST''"
  shows "hq_target q = ''/api/v1/agents/register'' \<Longrightarrow> agent_routes env lib c other q = post_register env lib c q"
    "hq_target q = ''/api/v1/agents/heartbeat'' \<Longrightarrow> agent_routes env lib c other q = post_heartbeat env lib c q"
    "hq_target q = ''/api/v1/task-runs/start'' \<Longrightarrow> agent_routes env lib c other q = post_start env lib c q"
    "hq_target q = ''/api/v1/raw-files/manifest'' \<Longrightarrow> agent_routes env lib c other q = post_raw_file_manifest env lib c q"
    "hq_target q = ''/api/v1/task-runs/report'' \<Longrightarrow> agent_routes env lib c other q = post_task_run_report env lib c q"
  using assms by (simp_all add: agent_routes_def)

lemma exchange_call:
  assumes "admits pn cl" "documented (pn_lib pn)"
    and route: "\<And>q. hq_method q = ''POST'' \<Longrightarrow> hq_target q = t \<Longrightarrow>
      agent_routes (pn_env pn) (pn_lib pn) (pn_credentials pn) (pn_otherwise pn) q =
        agent_post (pn_lib pn) (pn_credentials pn) parse declared (\<lambda>x. seqp (called (m x)) (\<lambda>r.
          if \<not> st_ok (st r) then ret (status_error_response (st r)) else ret (success_response code (doc x r)))) q"
    and parsed: "parse (to_http_request (build_request cl ''POST'' t b)) = Inr x" "declared x = cc_node_code cl"
    and read: "\<And>r. read r = sbind (success_data r) (dec (fst r))"
    and data: "\<And>r. dec code (doc x r) = Inr (f r)" "\<And>r. is_object (doc x r)" "is_success code"
  shows "exchange pn cl ''POST'' t b read db = as_seen st f (m x db)"
  unfolding exchange_def route[OF sent_request(1,2)] post_admitted[OF assms(1,2), where parse = parse and declared = declared, OF parsed]
  by (rule answered_as_seen[OF read data])

lemmas field_readers = cp_required_string_def cp_required_boolean_def required_string_array_def string_array_def strings_read_back
  is_success_def

lemma start_call:
  assumes "admits pn cl" "documented (pn_lib pn)" "sr_node_code q = cc_node_code cl"
    and "sr_node_code q \<noteq> []" "sr_task_id q \<noteq> []" "sr_execution_key q \<noteq> []" "sr_started_at q \<noteq> []" "sr_trigger_type q \<noteq> []"
  shows "client_start pn cl q db = as_seen cr_outcome start_answer (execute_start (pn_env pn) (to_start_run q) db)"
  unfolding client_start_def
  by (rule exchange_call[OF assms(1,2) routes_post(3)[unfolded post_start_def] _ _ read_start_def])
    (simp_all add: sent_request(3) start_reads_back[OF assms(4-8)] start_fields_def start_answer_def field_readers,
      simp add: to_start_run_def assms(3))

definition manifest_answer :: "manifest_result \<Rightarrow> string list \<times> bool" where
  "manifest_answer r = (ma_raw_file_ids r, ma_replayed r)"

lemma manifest_call:
  assumes "admits pn cl" "documented (pn_lib pn)" "mr_node_code q = cc_node_code cl"
    and "\<forall>f \<in> set (mr_files q). 0 \<le> me_size_bytes f \<and> me_size_bytes f < 2 ^ 63"
  shows "client_manifest pn cl q db = as_seen ma_status manifest_answer (execute_manifest (pn_env pn) (to_run_manifest q) db)"
  unfolding client_manifest_def
  by (rule exchange_call[OF assms(1,2) routes_post(4)[unfolded post_raw_file_manifest_def] _ _ read_manifest_def])
    (simp_all add: sent_request(3) parse_json_body_def manifest_reads_back[OF assms(4)] manifest_fields_def manifest_answer_def field_readers,
      simp add: to_run_manifest_def assms(3))

definition report_answer :: "report_result \<Rightarrow> string list \<times> string list \<times> string list \<times> bool" where
  "report_answer r = (re_parsed_record_ids r, re_qc_result_ids r, re_alert_ids r, re_replayed r)"

lemma report_call:
  assumes "admits pn cl" "documented (pn_lib pn)" "rr_node_code q = cc_node_code cl" "report_sendable (pn_lib pn) q"
  shows "client_report pn cl q db = Inr (as_seen re_status report_answer (execute_report (pn_env pn) (to_run_report q) db))"
proof -
  obtain body where body: "encode_report_http_body q = Inr body" "parse_task_run_report (pn_lib pn) body = Inr (to_run_report q)"
    using report_reads_back[OF assms(4)] by blast
  have "exchange pn cl ''POST'' ''/api/v1/task-runs/report'' body read_report db =
      as_seen re_status report_answer (execute_report (pn_env pn) (to_run_report q) db)"
    by (rule exchange_call[OF assms(1,2) routes_post(5)[unfolded post_task_run_report_def] _ _ read_report_def])
      (simp_all add: sent_request(3) parse_json_body_def body(2) report_fields_def report_answer_def field_readers,
        simp add: to_run_report_def assms(3))
  then show ?thesis by (simp add: client_report_def body(1))
qed

lemma register_call:
  assumes "admits pn cl" "documented (pn_lib pn)" "ni_node_code n = cc_node_code cl"
  shows "client_register pn cl n db = as_seen (\<lambda>s. s) (\<lambda>_. ()) (register_node (pn_env pn) n db)"
  unfolding client_register_def
  by (rule exchange_call[OF assms(1,2) routes_post(1)[unfolded post_register_def] _ _ read_registration_def])
    (simp_all add: sent_request(3) wire_simps parse_registration_def registration_body_def registration_fields_def field_readers assms(3))

lemma heartbeat_call:
  assumes "admits pn cl" "documented (pn_lib pn)" "hb_node_code h = cc_node_code cl"
  shows "client_heartbeat pn cl h db = as_seen (\<lambda>s. s) (\<lambda>_. ()) (accept_heartbeat (pn_env pn) h db)"
  unfolding client_heartbeat_def
  by (rule exchange_call[OF assms(1,2) routes_post(2)[unfolded post_heartbeat_def] _ _ read_heartbeat_def])
    (simp_all add: sent_request(3) wire_simps parse_heartbeat_def heartbeat_body_def heartbeat_fields_def field_readers assms(3))

section \<open>The configuration request\<close>

lemma high_nibble: "char_code c div 16 < 16"
  using nat_of_char_less_256[of c] less_mult_imp_div_less[of "of_char c" 16 16] by (simp add: char_code_def)

lemma unreserved_plain: "\<not> is_unreserved (CHR ''/'')" "\<not> is_unreserved (CHR ''%'')"
  by (simp_all add: is_unreserved_def isalnum_def isalpha_def isdigit_def char_code_def)

lemma hex_digit_plain: "d < 16 \<Longrightarrow> hex_digit d \<noteq> CHR ''/''"
  by (auto simp: hex_digit_def dest: arg_cong[where f = "of_char :: char \<Rightarrow> nat"])

lemma encoded_segment: "CHR ''/'' \<notin> set (encode_path_segment s)" "s \<noteq> [] \<Longrightarrow> encode_path_segment s \<noteq> []"
proof -
  show "CHR ''/'' \<notin> set (encode_path_segment s)"
  proof (induction s)
    case (Cons c s)
    then show ?case
      using unreserved_plain hex_digit_plain[OF high_nibble[of c]] hex_digit_plain[of "char_code c mod 16"] by (cases "is_unreserved c") auto
  qed simp
  show "s \<noteq> [] \<Longrightarrow> encode_path_segment s \<noteq> []" by (cases s) simp_all
qed

lemma config_route:
  assumes "s \<noteq> []"
  shows "route_segment ''/api/v1/agents/'' ''/config'' (''/api/v1/agents/'' @ encode_path_segment s @ ''/config'') = Some (encode_path_segment s)"
  using encoded_segment[of s] assms by (simp add: route_segment_def)

text \<open>Reading an encoded segment back: every \<^verbatim>\<open>%XX\<close> is the byte it names.\<close>

definition hex_value :: "char \<Rightarrow> nat" where
  "hex_value c = (if isdigit c then char_code c - 48 else char_code c - 55)"

fun percent_decode :: "string \<Rightarrow> string" where
  "percent_decode [] = []"
| "percent_decode (c # s) =
     (if c = CHR ''%'' then
        (case s of a # b # s' \<Rightarrow> char_of (16 * hex_value a + hex_value b) # percent_decode s' | _ \<Rightarrow> c # percent_decode s)
      else c # percent_decode s)"

lemma hex_value_digit: "d < 16 \<Longrightarrow> hex_value (hex_digit d) = d"
  by (auto simp: hex_value_def hex_digit_def isdigit_def char_code_def)

lemma hex_byte: "char_of (16 * hex_value (hex_digit (char_code c div 16)) + hex_value (hex_digit (char_code c mod 16))) = c"
  by (simp add: hex_value_digit high_nibble) (simp add: char_code_def)

lemma segment_reads_back: "percent_decode (encode_path_segment s) = s"
proof (induction s)
  case (Cons c s)
  show ?case
  proof (cases "is_unreserved c")
    case True
    then have "c \<noteq> CHR ''%''" using unreserved_plain by auto
    with True Cons show ?thesis by simp
  next
    case False
    with Cons show ?thesis by (simp add: hex_byte)
  qed
qed simp

section \<open>The pulled configuration\<close>

text \<open>The request for the configuration arrives as \<open>find_config\<close> of the node, whatever characters its code has.\<close>

definition config_answer :: "http_lib \<Rightarrow> (json \<Rightarrow> string) \<Rightarrow> string \<Rightarrow> agent_config_result \<Rightarrow> control_plane_error + pulled_agent_config" where
  "config_answer lib dump code r =
     (if \<not> st_ok (ag_status r) then Inl (refusal_of (ag_status r))
      else case ag_node r of
        None \<Rightarrow> Inl internal_refusal
      | Some n \<Rightarrow> (case config_json lib n r of Inl _ \<Rightarrow> Inl internal_refusal | Inr data \<Rightarrow> config_fields dump code 200 data))"

lemma stored_object_fault: "stored_json_object lib t = Inl e \<Longrightarrow> e = UnexpectedException"
  by (auto simp: stored_json_object_def split: option.splits json.splits)

lemma smap_Inl: "smap f xs = Inl e \<Longrightarrow> \<exists>x \<in> set xs. f x = Inl e"
proof (induction xs)
  case (Cons x xs) then show ?case by (cases "f x"; cases "smap f xs") auto
qed simp

lemma config_fault: "config_json lib n r = Inl e \<Longrightarrow> e = UnexpectedException"
proof -
  have parts: "data_source_json lib d = Inl e \<Longrightarrow> e = UnexpectedException" "qc_rule_json lib b = Inl e \<Longrightarrow> e = UnexpectedException" for d b
    by (cases "stored_json_object lib (dr_config_json d)"; cases "stored_json_object lib (rb_rule_config_json b)";
        force dest: stored_object_fault simp: data_source_json_def qc_rule_json_def)+
  assume "config_json lib n r = Inl e"
  then show ?thesis
    by (cases n; cases "smap (data_source_json lib) (xc_data_sources (ag_config r))";
        cases "smap (qc_rule_json lib) (xc_task_qc_rules (ag_config r))")
      (auto simp: config_json_def dest!: smap_Inl parts)
qed

lemma config_object: "config_json lib n r = Inr data \<Longrightarrow> is_object data"
  by (auto simp: config_json_def sbind_Inr_iff split: prod.splits)

lemma config_call:
  assumes "admits pn cl" "documented (pn_lib pn)" "cc_node_code cl \<noteq> []"
  shows "client_fetch_config pn cl dump (cc_node_code cl) db =
    (config_answer (pn_lib pn) dump (cc_node_code cl) (find_config (pn_env pn) (cc_node_code cl) db), db)"
proof -
  let ?q = "to_http_request (build_request cl ''GET'' (''/api/v1/agents/'' @ encode_path_segment (cc_node_code cl) @ ''/config'') JNull)"
  let ?r = "find_config (pn_env pn) (cc_node_code cl) db"
  have "agent_routes (pn_env pn) (pn_lib pn) (pn_credentials pn) (pn_otherwise pn) ?q =
      get_config (pn_env pn) (pn_lib pn) (pn_credentials pn) (cc_node_code cl) ?q"
    using assms(2) by (simp add: agent_routes_def sent_request config_route[OF assms(3), simplified] documented_def)
  moreover have "get_config (pn_env pn) (pn_lib pn) (pn_credentials pn) (cc_node_code cl) ?q db =
      handle_request (if \<not> st_ok (ag_status ?r) then ret (status_error_response (ag_status ?r))
        else case ag_node ?r of None \<Rightarrow> throw UnexpectedException
          | Some n \<Rightarrow> seqp (lift_sum (config_json (pn_lib pn) n ?r)) (\<lambda>data. ret (success_response 200 data))) db"
    using client_headers(1)[OF assms(1,2)] by (simp add: get_config_def require_declared_node_def handle_request_def seqp_def gets_def)
  moreover have "read_config dump (cc_node_code cl) (to_reply (success_response 200 data)) = config_fields dump (cc_node_code cl) 200 data"
    if "is_object data" for data
  proof -
    obtain kvs where "data = JObj kvs" using \<open>is_object data\<close> by (cases data) simp_all
    then show ?thesis
      using success_reads_back[of 200 kvs] by (simp add: read_config_def is_success_def) (simp add: to_reply_def success_body)
  qed
  moreover have "read_config dump (cc_node_code cl) (to_reply (status_error_response s)) = Inl (refusal_of s)"
    "read_config dump (cc_node_code cl) (to_reply internal_error) = Inl internal_refusal" for s
    by (simp_all add: read_config_def refusal_reads_back internal_reads_back)
  ultimately show ?thesis
    unfolding client_fetch_config_def exchange_def
    by (auto simp: config_answer_def handle_request_def ret_def throw_def seqp_def lift_sum_def dest!: config_fault config_object
        split: option.splits sum.splits)
qed

end
