(* ===== verification/Management_Http.thy ===== *)
theory Management_Http
  imports Agent_Http Query_Service
begin

text \<open>
  The controller of the operators (\<open>management_http_controller.cpp\<close>): its query and command routes, each behind the
  management token, with the checks of parameters and bodies and the documents of the answers. The columns
  \<^verbatim>\<open>created_at\<close> and \<^verbatim>\<open>updated_at\<close> are not in the model's tables: \<open>stamp\<close> tells what the database
  recorded there, by table, identifier and column.
\<close>

type_synonym stamps = "string \<Rightarrow> string \<Rightarrow> string \<Rightarrow> string"

section \<open>Parameters and bodies\<close>

type_synonym parameters = "(string \<times> string) list"

fun require_allowed_parameters :: "parameters \<Rightarrow> string list \<Rightarrow> request_fault + unit" where
  "require_allowed_parameters [] allowed = Inr ()"
| "require_allowed_parameters ((k, v) # ps) allowed =
     (if k \<notin> set allowed then fault (''unknown query parameter: '' @ k) else require_allowed_parameters ps allowed)"

definition require_allowed_members :: "json \<Rightarrow> string list \<Rightarrow> request_fault + unit" where
  "require_allowed_members v allowed =
     (case v of
        JObj kvs \<Rightarrow> (case find (\<lambda>k. k \<notin> set allowed) (sort (map fst kvs)) of
            Some k \<Rightarrow> fault (''unknown body field: '' @ k) | None \<Rightarrow> Inr ())
      | _ \<Rightarrow> Inr ())"

definition management_body :: "http_request \<Rightarrow> request_fault + json" where
  "management_body q =
     (case hq_body q of Some (JObj kvs) \<Rightarrow> Inr (JObj kvs) | _ \<Rightarrow> fault ''request body must contain a JSON object'')"

definition management_string :: "json \<Rightarrow> string \<Rightarrow> request_fault + string" where
  "management_string v field = http_required_string v field []"

definition required_bool :: "json \<Rightarrow> string \<Rightarrow> request_fault + bool" where
  "required_bool v field =
     (case json_find v field of
        None \<Rightarrow> fault (field @ '' is required'')
      | Some (JBool b) \<Rightarrow> Inr b
      | Some _ \<Rightarrow> fault (field @ '' must be a boolean''))"

definition management_object :: "json \<Rightarrow> string \<Rightarrow> request_fault + json" where
  "management_object v field =
     (case json_find v field of
        None \<Rightarrow> fault (field @ '' is required'')
      | Some (JObj kvs) \<Rightarrow> Inr (JObj kvs)
      | Some _ \<Rightarrow> fault (field @ '' must be an object''))"

definition management_string_array :: "json \<Rightarrow> string \<Rightarrow> request_fault + string list" where
  "management_string_array v field =
     (case json_find v field of
        None \<Rightarrow> fault (field @ '' is required'')
      | Some (JArr items) \<Rightarrow> smap (\<lambda>i. case i of JStr s \<Rightarrow> Inr s | _ \<Rightarrow> fault (field @ '' must contain only strings'')) items
      | Some _ \<Rightarrow> fault (field @ '' must be an array''))"

definition parse_source_type :: "string \<Rightarrow> request_fault + source_type" where
  "parse_source_type v =
     (if v = ''local_directory'' then Inr LocalDirectory
      else if v = ''ftp'' then Inr Ftp
      else if v = ''oracle'' then Inr Oracle
      else fault ''unsupported source_type'')"

definition parse_data_source_create :: "http_lib \<Rightarrow> json \<Rightarrow> request_fault + data_source_create" where
  "parse_data_source_create lib v =
     sbind (require_allowed_members v [''node_code'', ''source_type'', ''name'', ''config'', ''enabled'']) (\<lambda>_.
     sbind (management_string v ''node_code'') (\<lambda>node.
     sbind (management_string v ''source_type'') (\<lambda>t.
     sbind (parse_source_type t) (\<lambda>kind.
     sbind (management_string v ''name'') (\<lambda>name.
     sbind (management_object v ''config'') (\<lambda>config.
     sbind (required_bool v ''enabled'') (\<lambda>enabled.
       Inr \<lparr>dq_node_code = node, dq_source_type = kind, dq_name = name, dq_config_json = hl_write_json lib config,
         dq_enabled = enabled\<rparr>)))))))"

definition parse_qc_rule_create :: "http_lib \<Rightarrow> json \<Rightarrow> request_fault + qc_rule_create" where
  "parse_qc_rule_create lib v =
     sbind (require_allowed_members v [''name'', ''rule_type'', ''config'', ''enabled'']) (\<lambda>_.
     sbind (management_string v ''name'') (\<lambda>name.
     sbind (management_string v ''rule_type'') (\<lambda>kind.
     sbind (management_object v ''config'') (\<lambda>config.
     sbind (required_bool v ''enabled'') (\<lambda>enabled.
       Inr \<lparr>qq_name = name, qq_rule_type = kind, qq_rule_config_json = hl_write_json lib config, qq_enabled = enabled\<rparr>)))))"

definition parse_task_create :: "json \<Rightarrow> request_fault + task_create" where
  "parse_task_create v =
     sbind (require_allowed_members v [''node_code'', ''data_source_id'', ''name'', ''task_type'', ''schedule_expr'', ''parser_type'',
       ''qc_profile'', ''qc_rule_ids'', ''enabled'']) (\<lambda>_.
     sbind (management_string v ''node_code'') (\<lambda>node.
     sbind (management_string v ''data_source_id'') (\<lambda>source.
     sbind (management_string v ''name'') (\<lambda>name.
     sbind (management_string v ''task_type'') (\<lambda>kind.
     sbind (management_string v ''schedule_expr'') (\<lambda>schedule.
     sbind (management_string v ''parser_type'') (\<lambda>parser.
     sbind (management_string v ''qc_profile'') (\<lambda>profile.
     sbind (management_string_array v ''qc_rule_ids'') (\<lambda>rules.
     sbind (required_bool v ''enabled'') (\<lambda>enabled.
       Inr \<lparr>tq_node_code = node, tq_data_source_id = source, tq_name = name, tq_task_type = kind, tq_schedule_expr = schedule,
         tq_parser_type = parser, tq_qc_profile = profile, tq_qc_rule_ids = rules, tq_enabled = enabled\<rparr>))))))))))"

definition parse_task_enabled_patch :: "json \<Rightarrow> request_fault + bool" where
  "parse_task_enabled_patch v = sbind (require_allowed_members v [''enabled'']) (\<lambda>_. required_bool v ''enabled'')"

definition optional_parameter :: "parameters \<Rightarrow> string \<Rightarrow> string option" where
  "optional_parameter ps name = map_of ps name"

definition required_parameter :: "parameters \<Rightarrow> string \<Rightarrow> request_fault + string" where
  "required_parameter ps name =
     (case optional_parameter ps name of
        Some v \<Rightarrow> if v = [] then fault (name @ '' is required'') else Inr v
      | None \<Rightarrow> fault (name @ '' is required''))"

definition optional_bool :: "parameters \<Rightarrow> string \<Rightarrow> request_fault + bool option" where
  "optional_bool ps name =
     (case optional_parameter ps name of
        None \<Rightarrow> Inr None
      | Some v \<Rightarrow>
          if v = ''true'' then Inr (Some True) else if v = ''false'' then Inr (Some False)
          else fault (name @ '' must be true or false''))"

text \<open>A page has twenty items unless the request says otherwise.\<close>

definition parse_page_input :: "parameters \<Rightarrow> request_fault + page_input" where
  "parse_page_input ps =
     sbind (case optional_parameter ps ''limit'' of
        None \<Rightarrow> Inr 20
      | Some s \<Rightarrow> (case from_chars_int s of None \<Rightarrow> fault ''limit must be an integer'' | Some i \<Rightarrow> Inr i)) (\<lambda>limit.
       Inr \<lparr>pi_limit = limit, pi_cursor = optional_parameter ps ''cursor''\<rparr>)"

section \<open>Documents\<close>

definition nullable_string :: "string \<Rightarrow> json" where
  "nullable_string s = (if s = [] then JNull else JStr s)"

definition stamped :: "stamps \<Rightarrow> string \<Rightarrow> string \<Rightarrow> string list \<Rightarrow> (string \<times> json) list" where
  "stamped stamp table i columns = map (\<lambda>c. (c, nullable_string (stamp table i c))) columns"

definition node_json :: "stamps \<Rightarrow> managed_node \<Rightarrow> (string \<times> json) list" where
  "node_json stamp n =
     (case n of (r, effective) \<Rightarrow>
       [(''id'', JStr (nl_id r)), (''node_code'', JStr (ni_node_code (nl_info r))), (''name'', JStr (ni_name (nl_info r))),
        (''agent_version'', JStr (ni_agent_version (nl_info r))), (''stored_status'', JStr (http_node_status (nl_status r))),
        (''effective_status'', JStr (http_node_status effective)), (''last_heartbeat_at'', nullable_string (nl_heartbeat r))] @
       stamped stamp ''nodes'' (nl_id r) [''created_at'', ''updated_at''])"

definition is_retryable :: "listed_run \<Rightarrow> bool" where
  "is_retryable r \<longleftrightarrow> tr_status (lr_run r) = Failed \<and> lr_failed_file_count r > 0"

definition task_run_record_json :: "listed_run \<Rightarrow> (string \<times> json) list" where
  "task_run_record_json r =
     (let run = lr_run r in
      [(''id'', JStr (tr_id run)), (''task_id'', JStr (tr_task_id run)), (''node_code'', JStr (tr_node_code run)),
       (''status'', JStr (task_run_status_text (tr_status run))), (''started_at'', nullable_string (tr_started_at run)),
       (''finished_at'', nullable_string (tr_finished_at run)), (''scheduled_for'', nullable_string (tr_scheduled_for run)),
       (''trigger_type'', JStr (tr_trigger_type run)), (''execution_key'', nullable_string (tr_execution_key run)),
       (''requested_at'', nullable_string (tr_requested_at run)), (''retry_of_run_id'', nullable_string (tr_retry_of_run_id run)),
       (''items_total'', JInt (tr_items_total run)), (''items_success'', JInt (tr_items_success run)),
       (''items_failed'', JInt (tr_items_failed run)), (''error_summary'', nullable_string (tr_error_summary run)),
       (''failed_file_count'', if lr_failed_file_count r < 0 then JNull else JInt (lr_failed_file_count r)),
       (''retryable'', JBool (is_retryable r))])"

text \<open>
  The latest run of a node summary is a record of which \<open>find_node_summary\<close> sets five fields; the others have the
  defaults of the struct.
\<close>

definition latest_run_record :: "string \<Rightarrow> string \<times> string \<times> task_run_status \<times> string \<Rightarrow> listed_run" where
  "latest_run_record node_code latest =
     (case latest of (i, task, st, started) \<Rightarrow>
       \<lparr>lr_run = \<lparr>tr_id = i, tr_task_id = task, tr_node_code = node_code, tr_status = st, tr_started_at = started, tr_finished_at = [],
          tr_items_total = 0, tr_items_success = 0, tr_items_failed = 0, tr_error_summary = [], tr_trigger_type = ''scheduled'',
          tr_execution_key = [], tr_scheduled_for = [], tr_requested_at = [], tr_retry_of_run_id = [], tr_failed_files_json = None\<rparr>,
        lr_failed_file_count = - 1\<rparr>)"

definition node_summary_json :: "stamps \<Rightarrow> node_summary \<times> node_status \<Rightarrow> json" where
  "node_summary_json stamp summary =
     (case summary of (s, effective) \<Rightarrow>
       JObj (node_json stamp (ns_node s, effective) @
         [(''enabled_task_count'', JInt (ns_enabled_tasks s)), (''disabled_task_count'', JInt (ns_disabled_tasks s)),
          (''open_alert_count'', JInt (ns_open_alerts s)),
          (''latest_task_run'', case ns_latest s of None \<Rightarrow> JNull
             | Some latest \<Rightarrow> JObj (task_run_record_json (latest_run_record (ni_node_code (nl_info (ns_node s))) latest)))]))"

definition management_source_json :: "http_lib \<Rightarrow> stamps \<Rightarrow> data_source_record \<Rightarrow> request_fault + json" where
  "management_source_json lib stamp d =
     sbind (stored_json_object lib (dr_config_json d)) (\<lambda>config.
       Inr (JObj ([(''id'', JStr (dr_id d)), (''node_code'', JStr (dr_node_code d)),
         (''source_type'', JStr (http_source_type (dr_source_type d))), (''name'', JStr (dr_name d)), (''config'', config),
         (''enabled'', JBool (dr_enabled d))] @ stamped stamp ''data_sources'' (dr_id d) [''created_at'', ''updated_at''])))"

definition management_rule_json :: "http_lib \<Rightarrow> stamps \<Rightarrow> qc_rule_record \<Rightarrow> request_fault + json" where
  "management_rule_json lib stamp r =
     sbind (stored_json_object lib (qu_rule_config_json r)) (\<lambda>config.
       Inr (JObj ([(''id'', JStr (qu_id r)), (''name'', JStr (qu_name r)), (''rule_type'', JStr (qu_rule_type r)), (''config'', config),
         (''enabled'', JBool (qu_enabled r))] @ stamped stamp ''qc_rules'' (qu_id r) [''created_at''])))"

definition management_task_json :: "stamps \<Rightarrow> task_record \<Rightarrow> json" where
  "management_task_json stamp t =
     JObj ([(''id'', JStr (tx_id t)), (''node_code'', JStr (tx_node_code t)), (''data_source_id'', JStr (tx_data_source_id t)),
       (''name'', JStr (tx_name t)), (''task_type'', JStr (tx_task_type t)), (''schedule_expr'', JStr (tx_schedule_expr t)),
       (''parser_type'', JStr (tx_parser_type t)), (''qc_profile'', JStr (tx_qc_profile t)), (''enabled'', JBool (tx_enabled t)),
       (''qc_rule_ids'', JArr (map JStr (tx_qc_rule_ids t)))] @ stamped stamp ''tasks'' (tx_id t) [''created_at'', ''updated_at''])"

definition task_run_json :: "managed_run \<Rightarrow> (string \<times> json) list" where
  "task_run_json r =
     (case r of (run, stale, after) \<Rightarrow> task_run_record_json run @ [(''stale'', JBool stale), (''stale_after_seconds'', JInt after)])"

definition management_failed_file_json :: "task_run_failed_file \<Rightarrow> json" where
  "management_failed_file_json f = JObj [(''source_path'', JStr (tf_source_path f)), (''original_name'', JStr (tf_original_name f)),
     (''stage'', JStr (tf_stage f)), (''message'', JStr (tf_message f)), (''archive_raw_file_id'', nullable_string (tf_archive_raw_file_id f))]"

definition management_retry_file_json :: "task_run_retry_file \<Rightarrow> json" where
  "management_retry_file_json f = JObj [(''input_type'', JStr (ty_input_type f)), (''source_path'', JStr (ty_source_path f)),
     (''original_name'', JStr (ty_original_name f)), (''archive_raw_file_id'', nullable_string (ty_archive_raw_file_id f)),
     (''storage_path'', JStr (ty_storage_path f)), (''size_bytes'', JInt (ty_size_bytes f)),
     (''file_hash'', JStr (ty_file_hash f)), (''source_mtime'', JStr (ty_source_mtime f))]"

definition optional_list_json :: "('a \<Rightarrow> json) \<Rightarrow> 'a list option \<Rightarrow> json" where
  "optional_list_json f xs = (case xs of None \<Rightarrow> JNull | Some items \<Rightarrow> JArr (map f items))"

definition task_run_summary_json :: "run_summary \<times> bool \<times> int \<Rightarrow> json" where
  "task_run_summary_json summary =
     (case summary of (s, stale, after) \<Rightarrow>
       JObj (task_run_json (su_run s, stale, after) @
         [(''raw_file_count'', JInt (su_raw_files s)), (''parsed_record_count'', JInt (su_parsed_records s)),
          (''qc_result_count'', JInt (su_qc_results s)), (''alert_count'', JInt (su_alerts s)),
          (''failed_files'', optional_list_json management_failed_file_json (su_failed_files s)),
          (''retry_files'', optional_list_json management_retry_file_json (su_retry_files s))]))"

definition raw_file_json :: "stamps \<Rightarrow> raw_file_record \<Rightarrow> json" where
  "raw_file_json stamp f =
     JObj ([(''id'', JStr (rx_id f)), (''task_run_id'', JStr (rx_task_run_id f)), (''node_code'', JStr (rx_node_code f)),
       (''original_name'', JStr (rx_original_name f)), (''file_hash'', JStr (rx_file_hash f)),
       (''storage_path'', JStr (rx_storage_path f)), (''size_bytes'', JInt (rx_size_bytes f)),
       (''source_mtime'', nullable_string (rx_source_mtime f)), (''ingest_status'', JStr (rx_ingest_status f))] @
       stamped stamp ''raw_files'' (rx_id f) [''created_at''])"

definition parsed_record_json :: "http_lib \<Rightarrow> stamps \<Rightarrow> parsed_record_record \<Rightarrow> request_fault + json" where
  "parsed_record_json lib stamp p =
     sbind (stored_json_object lib (pr_payload_json (pd_record p))) (\<lambda>payload.
       Inr (JObj ([(''id'', JStr (pd_id p)), (''raw_file_id'', JStr (pd_raw_file_id p)), (''task_run_id'', JStr (pd_task_run_id p)),
         (''station_code'', JStr (pr_station_code (pd_record p))), (''device_code'', JStr (pr_device_code (pd_record p))),
         (''record_time'', JStr (pr_record_time (pd_record p))), (''payload'', payload), (''parse_status'', JStr (pd_parse_status p))] @
         stamped stamp ''parsed_records'' (pd_id p) [''created_at''])))"

definition qc_result_json :: "stamps \<Rightarrow> listed_result \<Rightarrow> json" where
  "qc_result_json stamp q =
     JObj ([(''id'', JStr (qs_id (lq_result q))), (''task_run_id'', JStr (lq_task_run_id q)),
       (''parsed_record_id'', JStr (qs_parsed_record_id (lq_result q))), (''qc_rule_id'', JStr (qs_qc_rule_id (lq_result q))),
       (''level'', JStr (qs_level (lq_result q))), (''result'', JStr (qs_result (lq_result q))),
       (''message'', JStr (qs_message (lq_result q)))] @ stamped stamp ''qc_results'' (qs_id (lq_result q)) [''created_at''])"

definition alert_json :: "stamps \<Rightarrow> alert_record \<Rightarrow> json" where
  "alert_json stamp a =
     JObj ([(''id'', JStr (ar_id a)), (''node_code'', JStr (ar_node_code a)), (''task_run_id'', JStr (ar_task_run_id a)),
       (''alert_type'', JStr (ar_alert_type a)), (''severity'', JStr (ar_severity a)), (''message'', JStr (ar_message a)),
       (''status'', JStr (ar_status a)), (''acknowledged_at'', nullable_string (ar_acknowledged_at a)),
       (''closed_at'', nullable_string (ar_closed_at a))] @ stamped stamp ''alerts'' (ar_id a) [''created_at''])"

section \<open>Answers\<close>

text \<open>The item of a command: of another kind than the mapper's, the answer is an exception.\<close>

definition respond_command :: "command_result \<Rightarrow> nat \<Rightarrow> (managed_item \<Rightarrow> (request_fault + json) option) \<Rightarrow> http_response hproc" where
  "respond_command r code mapper =
     (if \<not> st_ok (cm_status r) then ret (status_error_response (cm_status r))
      else case mapper (cm_item r) of
        None \<Rightarrow> throw UnexpectedException
      | Some document \<Rightarrow> seqp (lift_sum document) (\<lambda>data. ret (success_response code data)))"

definition respond_alert_disposition :: "stamps \<Rightarrow> status \<times> alert_record option \<Rightarrow> http_response hproc" where
  "respond_alert_disposition stamp r =
     (if \<not> st_ok (fst r) then ret (status_error_response (fst r))
      else case snd r of None \<Rightarrow> throw UnexpectedException | Some a \<Rightarrow> ret (success_response 200 (alert_json stamp a)))"

definition page_json :: "('a \<Rightarrow> request_fault + json) \<Rightarrow> 'a management_page \<Rightarrow> request_fault + json" where
  "page_json mapper page =
     sbind (smap mapper (mp_items page)) (\<lambda>items.
       Inr (JObj [(''items'', JArr items), (''next_cursor'', case mp_next_cursor page of None \<Rightarrow> JNull | Some c \<Rightarrow> JStr c),
         (''has_more'', JBool (mp_has_more page))]))"

definition respond_page :: "('a \<Rightarrow> request_fault + json) \<Rightarrow> 'a page_result \<Rightarrow> http_response hproc" where
  "respond_page mapper r =
     (if \<not> st_ok (fst r) then ret (status_error_response (fst r))
      else seqp (lift_sum (page_json mapper (snd r))) (\<lambda>data. ret (success_response 200 data)))"

definition respond_item :: "('a \<Rightarrow> json) \<Rightarrow> 'a item_result \<Rightarrow> http_response hproc" where
  "respond_item mapper r =
     (if \<not> st_ok (fst r) then ret (status_error_response (fst r))
      else case snd r of None \<Rightarrow> throw UnexpectedException | Some item \<Rightarrow> ret (success_response 200 (mapper item)))"

section \<open>Documents that mislead\<close>

text \<open>A payload the report controller accepts and the list of parsed records cannot show; a latest run that was not scheduled.\<close>

lemma unshowable_payload:
  assumes "hl_read_json lib (pr_payload_json (pd_record p)) = Some (JArr vs)"
  shows "is_valid_json_text lib (pr_payload_json (pd_record p)) \<and> parsed_record_json lib stamp p = Inl UnexpectedException"
  using assms by (simp add: is_valid_json_text_def parsed_record_json_def stored_json_object_def)

lemma latest_run_says_scheduled:
  "json_find (JObj (task_run_record_json (latest_run_record node_code latest))) ''trigger_type'' = Some (JStr ''scheduled'')"
  by (simp add: latest_run_record_def task_run_record_json_def split: prod.split)

end
