(* ===== verification/Management_Routes.thy ===== *)
theory Management_Routes
  imports Management_Http
begin

text \<open>
  The handlers of \<open>management_http_controller.cpp\<close> and their routes, over the query service and the commands. A query
  runs with the clock and the thresholds of its executor, a command with the
  database's clock.
\<close>

record management_context =
  mx_env :: pg_env
  mx_lib :: http_lib
  mx_credentials :: credential_set
  mx_clock :: query_clock
  mx_now :: int
  mx_stamp :: stamps

section \<open>Queries\<close>

text \<open>The shape of a query: the token, the parameters it allows, the request it makes of them, and its answer.\<close>

definition management_get :: "management_context \<Rightarrow> http_request \<Rightarrow> string list \<Rightarrow> (parameters \<Rightarrow> request_fault + 'q) \<Rightarrow>
    ('q \<Rightarrow> http_response hproc) \<Rightarrow> server_db \<Rightarrow> http_response \<times> server_db" where
  "management_get x q allowed request answer =
     handle_request (case require_management (mx_credentials x) q of
       Some refused \<Rightarrow> ret refused
     | None \<Rightarrow>
         seqp (lift_sum (sbind (require_allowed_parameters (hq_parameters q) allowed) (\<lambda>_. request (hq_parameters q)))) answer)"

definition pages :: "('a \<Rightarrow> request_fault + json) \<Rightarrow> 'a page_result sproc \<Rightarrow> http_response hproc" where
  "pages mapper m = seqp (called m) (respond_page mapper)"

definition total_document :: "('a \<Rightarrow> json) \<Rightarrow> 'a \<Rightarrow> request_fault + json" where
  "total_document f a = Inr (f a)"

definition get_nodes :: "management_context \<Rightarrow> http_request \<Rightarrow> server_db \<Rightarrow> http_response \<times> server_db" where
  "get_nodes x q =
     management_get x q [''status'', ''limit'', ''cursor'']
       (\<lambda>ps. sbind (parse_page_input ps) (\<lambda>page. Inr (optional_parameter ps ''status'', page)))
       (\<lambda>(st, page). pages (total_document (\<lambda>n. JObj (node_json (mx_stamp x) n))) (list_nodes (mx_env x) (mx_clock x) st page))"

definition get_node :: "management_context \<Rightarrow> string \<Rightarrow> http_request \<Rightarrow> server_db \<Rightarrow> http_response \<times> server_db" where
  "get_node x code q =
     management_get x q [] (\<lambda>_. Inr ())
       (\<lambda>_. seqp (called (find_node (mx_env x) (mx_clock x) code)) (respond_item (node_summary_json (mx_stamp x))))"

definition get_data_sources :: "management_context \<Rightarrow> http_request \<Rightarrow> server_db \<Rightarrow> http_response \<times> server_db" where
  "get_data_sources x q =
     management_get x q [''node_code'', ''enabled'', ''limit'', ''cursor'']
       (\<lambda>ps. sbind (required_parameter ps ''node_code'') (\<lambda>code. sbind (optional_bool ps ''enabled'') (\<lambda>enabled.
         sbind (parse_page_input ps) (\<lambda>page. Inr (code, enabled, page)))))
       (\<lambda>(code, enabled, page). pages (management_source_json (mx_lib x) (mx_stamp x)) (list_data_sources (mx_env x) code enabled page))"

definition get_qc_rules :: "management_context \<Rightarrow> http_request \<Rightarrow> server_db \<Rightarrow> http_response \<times> server_db" where
  "get_qc_rules x q =
     management_get x q [''enabled'', ''limit'', ''cursor'']
       (\<lambda>ps. sbind (optional_bool ps ''enabled'') (\<lambda>enabled. sbind (parse_page_input ps) (\<lambda>page. Inr (enabled, page))))
       (\<lambda>(enabled, page). pages (management_rule_json (mx_lib x) (mx_stamp x)) (list_qc_rules (mx_env x) enabled page))"

definition get_tasks :: "management_context \<Rightarrow> http_request \<Rightarrow> server_db \<Rightarrow> http_response \<times> server_db" where
  "get_tasks x q =
     management_get x q [''node_code'', ''enabled'', ''limit'', ''cursor'']
       (\<lambda>ps. sbind (required_parameter ps ''node_code'') (\<lambda>code. sbind (optional_bool ps ''enabled'') (\<lambda>enabled.
         sbind (parse_page_input ps) (\<lambda>page. Inr (code, enabled, page)))))
       (\<lambda>(code, enabled, page). pages (total_document (management_task_json (mx_stamp x))) (list_tasks (mx_env x) code enabled page))"

definition get_task_runs :: "management_context \<Rightarrow> http_request \<Rightarrow> server_db \<Rightarrow> http_response \<times> server_db" where
  "get_task_runs x q =
     management_get x q [''node_code'', ''task_id'', ''status'', ''limit'', ''cursor'']
       (\<lambda>ps. sbind (required_parameter ps ''node_code'') (\<lambda>code. sbind (parse_page_input ps) (\<lambda>page.
         Inr (code, optional_parameter ps ''task_id'', optional_parameter ps ''status'', page))))
       (\<lambda>(code, task, st, page). pages (total_document (\<lambda>r. JObj (task_run_json r)))
         (list_task_runs (mx_env x) (mx_clock x) code task st page))"

definition get_task_run :: "management_context \<Rightarrow> string \<Rightarrow> http_request \<Rightarrow> server_db \<Rightarrow> http_response \<times> server_db" where
  "get_task_run x run q =
     management_get x q [''node_code''] (\<lambda>ps. required_parameter ps ''node_code'')
       (\<lambda>code. seqp (called (query_find_run (mx_env x) (mx_clock x) code run)) (respond_item task_run_summary_json))"

definition run_page_request :: "parameters \<Rightarrow> request_fault + string \<times> page_input" where
  "run_page_request ps =
     sbind (required_parameter ps ''task_run_id'') (\<lambda>run. sbind (parse_page_input ps) (\<lambda>page. Inr (run, page)))"

definition get_raw_files :: "management_context \<Rightarrow> http_request \<Rightarrow> server_db \<Rightarrow> http_response \<times> server_db" where
  "get_raw_files x q =
     management_get x q [''task_run_id'', ''limit'', ''cursor''] run_page_request
       (\<lambda>(run, page). pages (total_document (raw_file_json (mx_stamp x))) (list_raw_files (mx_env x) run page))"

definition get_parsed_records :: "management_context \<Rightarrow> http_request \<Rightarrow> server_db \<Rightarrow> http_response \<times> server_db" where
  "get_parsed_records x q =
     management_get x q [''task_run_id'', ''limit'', ''cursor''] run_page_request
       (\<lambda>(run, page). pages (parsed_record_json (mx_lib x) (mx_stamp x)) (list_parsed_records (mx_env x) run page))"

definition get_qc_results :: "management_context \<Rightarrow> http_request \<Rightarrow> server_db \<Rightarrow> http_response \<times> server_db" where
  "get_qc_results x q =
     management_get x q [''task_run_id'', ''result'', ''limit'', ''cursor'']
       (\<lambda>ps. sbind (run_page_request ps) (\<lambda>(run, page). Inr (run, optional_parameter ps ''result'', page)))
       (\<lambda>(run, result, page). pages (total_document (qc_result_json (mx_stamp x))) (list_qc_results (mx_env x) run result page))"

definition get_alerts :: "management_context \<Rightarrow> http_request \<Rightarrow> server_db \<Rightarrow> http_response \<times> server_db" where
  "get_alerts x q =
     management_get x q [''node_code'', ''task_run_id'', ''status'', ''severity'', ''limit'', ''cursor'']
       (\<lambda>ps. sbind (required_parameter ps ''node_code'') (\<lambda>code. sbind (parse_page_input ps) (\<lambda>page.
         Inr (code, optional_parameter ps ''task_run_id'', optional_parameter ps ''status'', optional_parameter ps ''severity'', page))))
       (\<lambda>(code, run, st, severity, page). pages (total_document (alert_json (mx_stamp x)))
         (list_alerts (mx_env x) code run st severity page))"

section \<open>Commands\<close>

text \<open>The shape of a command: the token, no parameters, a JSON body, and what is made of it.\<close>

definition management_post :: "management_context \<Rightarrow> http_request \<Rightarrow> (json \<Rightarrow> request_fault + 'q) \<Rightarrow> ('q \<Rightarrow> http_response hproc) \<Rightarrow>
    server_db \<Rightarrow> http_response \<times> server_db" where
  "management_post x q parse answer =
     handle_request (case require_management (mx_credentials x) q of
       Some refused \<Rightarrow> ret refused
     | None \<Rightarrow>
         seqp (lift_sum (require_allowed_parameters (hq_parameters q) [])) (\<lambda>_.
         case require_json_content_type (mx_lib x) q of
           Some refused \<Rightarrow> ret refused
         | None \<Rightarrow> seqp (lift_sum (sbind (management_body q) parse)) answer))"

definition source_item :: "management_context \<Rightarrow> managed_item \<Rightarrow> (request_fault + json) option" where
  "source_item x item = (case item of DataSourceItem d \<Rightarrow> Some (management_source_json (mx_lib x) (mx_stamp x) d) | _ \<Rightarrow> None)"

definition rule_item :: "management_context \<Rightarrow> managed_item \<Rightarrow> (request_fault + json) option" where
  "rule_item x item = (case item of QcRuleItem r \<Rightarrow> Some (management_rule_json (mx_lib x) (mx_stamp x) r) | _ \<Rightarrow> None)"

definition task_item :: "management_context \<Rightarrow> managed_item \<Rightarrow> (request_fault + json) option" where
  "task_item x item = (case item of TaskItem t \<Rightarrow> Some (Inr (management_task_json (mx_stamp x) t)) | _ \<Rightarrow> None)"

definition post_data_source :: "management_context \<Rightarrow> http_request \<Rightarrow> server_db \<Rightarrow> http_response \<times> server_db" where
  "post_data_source x q =
     management_post x q (parse_data_source_create (mx_lib x)) (\<lambda>d.
       seqp (called (execute_command (create_data_source (mx_env x) d))) (\<lambda>r. respond_command r 201 (source_item x)))"

definition post_qc_rule :: "management_context \<Rightarrow> http_request \<Rightarrow> server_db \<Rightarrow> http_response \<times> server_db" where
  "post_qc_rule x q =
     management_post x q (parse_qc_rule_create (mx_lib x)) (\<lambda>d.
       seqp (called (execute_command (create_qc_rule (mx_env x) d))) (\<lambda>r. respond_command r 201 (rule_item x)))"

definition post_task :: "management_context \<Rightarrow> http_request \<Rightarrow> server_db \<Rightarrow> http_response \<times> server_db" where
  "post_task x q =
     management_post x q parse_task_create (\<lambda>d.
       seqp (called (execute_command (create_task (mx_env x) d))) (\<lambda>r. respond_command r 201 (task_item x)))"

definition patch_task :: "management_context \<Rightarrow> string \<Rightarrow> http_request \<Rightarrow> server_db \<Rightarrow> http_response \<times> server_db" where
  "patch_task x task q =
     management_post x q parse_task_enabled_patch (\<lambda>enabled.
       seqp (called (execute_command (set_task_enabled (mx_env x) (mx_now x) task enabled))) (\<lambda>r. respond_command r 200 (task_item x)))"

definition respond_manual_task_run :: "management_context \<Rightarrow> (string \<Rightarrow> manual_result sproc) \<Rightarrow> http_request \<Rightarrow> server_db \<Rightarrow>
    http_response \<times> server_db" where
  "respond_manual_task_run x command q =
     management_post x q (\<lambda>v. management_string v ''idempotency_key'') (\<lambda>key.
       seqp (called (command key)) (\<lambda>r.
         if \<not> st_ok (mn_status r) then ret (status_error_response (mn_status r))
         else ret (success_response 202 (JObj [(''task_run_id'', JStr (mn_task_run_id r)), (''status'', JStr (mn_run_status r)),
           (''replayed'', JBool (mn_replayed r))]))))"

definition post_task_trigger :: "management_context \<Rightarrow> string \<Rightarrow> http_request \<Rightarrow> server_db \<Rightarrow> http_response \<times> server_db" where
  "post_task_trigger x task = respond_manual_task_run x (execute_manual_run (mx_env x) (mx_now x) task)"

definition post_task_run_retry :: "management_context \<Rightarrow> string \<Rightarrow> http_request \<Rightarrow> server_db \<Rightarrow> http_response \<times> server_db" where
  "post_task_run_retry x run = respond_manual_task_run x (execute_retry_run (mx_env x) (mx_now x) run)"

definition post_alert :: "management_context \<Rightarrow> bool \<Rightarrow> string \<Rightarrow> http_request \<Rightarrow> server_db \<Rightarrow> http_response \<times> server_db" where
  "post_alert x acknowledge alert q =
     management_post x q (\<lambda>v. require_allowed_members v []) (\<lambda>_.
       seqp (called (execute_disposition (mx_env x) (mx_now x) alert acknowledge)) (respond_alert_disposition (mx_stamp x)))"

section \<open>Routes\<close>

text \<open>A route handler is looked up by method and path. A segment is decoded before it is handed over.\<close>

definition management_queries :: "management_context \<Rightarrow> string \<Rightarrow> (http_request \<Rightarrow> server_db \<Rightarrow> http_response \<times> server_db) option" where
  "management_queries x target =
     (case map_of [(''/api/v1/nodes'', get_nodes x), (''/api/v1/data-sources'', get_data_sources x), (''/api/v1/qc-rules'', get_qc_rules x),
         (''/api/v1/tasks'', get_tasks x), (''/api/v1/task-runs'', get_task_runs x), (''/api/v1/raw-files'', get_raw_files x),
         (''/api/v1/parsed-records'', get_parsed_records x), (''/api/v1/qc-results'', get_qc_results x),
         (''/api/v1/alerts'', get_alerts x)] target of
        Some handler \<Rightarrow> Some handler
      | None \<Rightarrow>
          (case route_segment ''/api/v1/nodes/'' [] target of
             Some s \<Rightarrow> Some (get_node x (hl_decode_segment (mx_lib x) s))
           | None \<Rightarrow> map_option (\<lambda>s. get_task_run x (hl_decode_segment (mx_lib x) s)) (route_segment ''/api/v1/task-runs/'' [] target)))"

definition management_commands :: "management_context \<Rightarrow> string \<Rightarrow> (http_request \<Rightarrow> server_db \<Rightarrow> http_response \<times> server_db) option" where
  "management_commands x target =
     (let segment = (\<lambda>start stop. map_option (hl_decode_segment (mx_lib x)) (route_segment start stop target)) in
      case map_of [(''/api/v1/data-sources'', post_data_source x), (''/api/v1/qc-rules'', post_qc_rule x),
          (''/api/v1/tasks'', post_task x)] target of
        Some handler \<Rightarrow> Some handler
      | None \<Rightarrow>
          (case (segment ''/api/v1/tasks/'' ''/trigger'', segment ''/api/v1/task-runs/'' ''/retry'',
              segment ''/api/v1/alerts/'' ''/acknowledge'', segment ''/api/v1/alerts/'' ''/close'') of
             (Some s, _, _, _) \<Rightarrow> Some (post_task_trigger x s)
           | (_, Some s, _, _) \<Rightarrow> Some (post_task_run_retry x s)
           | (_, _, Some s, _) \<Rightarrow> Some (post_alert x True s)
           | (_, _, _, Some s) \<Rightarrow> Some (post_alert x False s)
           | _ \<Rightarrow> None))"

definition management_patches :: "management_context \<Rightarrow> string \<Rightarrow> (http_request \<Rightarrow> server_db \<Rightarrow> http_response \<times> server_db) option" where
  "management_patches x target =
     map_option (\<lambda>s. patch_task x (hl_decode_segment (mx_lib x) s)) (route_segment ''/api/v1/tasks/'' [] target)"

definition management_routes :: "management_context \<Rightarrow> (http_request \<Rightarrow> server_db \<Rightarrow> http_response \<times> server_db) \<Rightarrow>
    http_request \<Rightarrow> server_db \<Rightarrow> http_response \<times> server_db" where
  "management_routes x otherwise q =
     (case (if hq_method q = ''GET'' then management_queries x (hq_target q)
            else if hq_method q = ''POST'' then management_commands x (hq_target q)
            else if hq_method q = ''PATCH'' then management_patches x (hq_target q)
            else None) of
        Some handler \<Rightarrow> handler q
      | None \<Rightarrow> otherwise q)"

text \<open>The whole control plane: the agent routes first, then the management routes. The sets of paths are disjoint.\<close>

definition control_plane_routes :: "management_context \<Rightarrow> (http_request \<Rightarrow> server_db \<Rightarrow> http_response \<times> server_db) \<Rightarrow>
    http_request \<Rightarrow> server_db \<Rightarrow> http_response \<times> server_db" where
  "control_plane_routes x otherwise =
     agent_routes (mx_env x) (mx_lib x) (mx_credentials x) (management_routes x otherwise)"

end
