(* ===== verification/Http_Properties.thy ===== *)
theory Http_Properties
  imports Control_Exchange Management_Routes Server_Properties
begin

text \<open>
  Credentials: what the files admit, and that a request which changes anything was sent with the credential of the node
  it declares.
\<close>

section \<open>Credentials from files\<close>

definition tokens_apart :: "string \<Rightarrow> (string \<times> string) list \<Rightarrow> bool" where
  "tokens_apart management tokens \<longleftrightarrow> distinct (map fst tokens) \<and> distinct (map snd tokens) \<and> management \<notin> snd ` set tokens \<and>
     (\<forall>(node, token) \<in> set tokens. node \<noteq> [] \<and> is_valid_hex_token token)"

lemma read_entries_apart:
  assumes "read_entries path owners tokens entries = Inr tokens'"
    and "distinct (map fst tokens)" "distinct (map snd tokens)" "snd ` set tokens \<subseteq> dom (map_of owners)"
    and "\<forall>(node, token) \<in> set tokens. node \<noteq> [] \<and> is_valid_hex_token token"
  shows "distinct (map fst tokens') \<and> distinct (map snd tokens') \<and> (\<forall>(node, token) \<in> set tokens'. node \<noteq> [] \<and> is_valid_hex_token token)"
  using assms
proof (induction path owners tokens entries rule: read_entries.induct)
  case (2 path owners tokens node token rest)
  show ?case
  proof (cases "node = [] \<or> \<not> is_valid_hex_token token \<or> map_of owners token \<noteq> None")
    case True
    with 2(2) show ?thesis by (auto split: if_splits option.splits)
  next
    case False
    let ?t = "if node \<in> fst ` set tokens then tokens else tokens @ [(node, token)]"
    have fresh: "node \<noteq> []" "\<not> \<not> is_valid_hex_token token" "map_of owners token = None" using False by simp_all
    have new: "token \<notin> snd ` set tokens" using False 2(5) by (auto simp: domIff)
    have rest: "read_entries path ((token, node) # owners) ?t rest = Inr tokens'" using 2(2) fresh by simp
    show ?thesis
      by (rule 2(1)[OF fresh rest]) (use 2(3-6) new fresh in \<open>auto split: if_splits\<close>)
  qed
qed simp_all

lemma token_faults_ok: "token_faults management tokens = Inr () \<longleftrightarrow> (\<forall>(node, token) \<in> set tokens. is_valid_hex_token token \<and> token \<noteq> management)"
  by (induction management tokens rule: token_faults.induct) auto

lemma credentials_apart:
  assumes "credentials_from_files load_yaml files p1 p2 = Inr c"
  shows "tokens_apart (cs_management_token c) (cs_agent_tokens c) \<and> is_valid_hex_token (cs_management_token c)"
proof -
  obtain tokens management where t: "read_agent_tokens_file load_yaml (files p2) p2 = Inr tokens"
      "make_authenticator \<lparr>cs_management_token = management, cs_agent_tokens = tokens\<rparr> = Inr c"
    using assms by (auto simp: credentials_from_files_def sbind_Inr_iff)
  then have c: "c = \<lparr>cs_management_token = management, cs_agent_tokens = tokens\<rparr>" "is_valid_hex_token management"
      "\<forall>(node, token) \<in> set tokens. token \<noteq> management"
    by (auto simp: make_authenticator_def sbind_Inr_iff token_faults_ok split: if_splits)
  obtain entries where "read_entries p2 [] [] entries = Inr tokens"
    using t(1) by (auto simp: read_agent_tokens_file_def sbind_Inr_iff split: option.splits yaml.splits)
  from read_entries_apart[OF this] c show ?thesis by (auto simp: tokens_apart_def)
qed

section \<open>Who may change what\<close>

definition presents :: "http_request \<Rightarrow> string \<Rightarrow> bool" where
  "presents q token \<longleftrightarrow> get_header q ''Authorization'' = ''Bearer '' @ token"

lemma bearer_presents: "bearer_token_equals q token \<longleftrightarrow> presents q token"
proof -
  have "take (length p) h = p \<and> drop (length p) h = token \<longleftrightarrow> h = p @ token" for p h :: string
    by (metis append_eq_conv_conj)
  from this[of kBearerScheme "get_header q ''Authorization''"] show ?thesis
    by (auto simp: bearer_token_equals_def presents_def Let_def) (simp_all add: kBearerScheme_def)
qed

lemma agent_node_credential:
  "require_agent_node c q = Inr node \<longleftrightarrow>
    node = get_header q ''X-LabBridge-Node-Code'' \<and> (\<exists>token. map_of (cs_agent_tokens c) node = Some token \<and> presents q token)"
  by (auto simp: require_agent_node_def Let_def bearer_presents split: option.splits)

definition declares :: "http_request \<Rightarrow> string \<Rightarrow> bool" where
  "declares q node \<longleftrightarrow> (\<exists>v. hq_body q = Some v \<and> json_find v ''node_code'' = Some (JStr node))"

lemma required_found: "http_required_string v field path = Inr s \<Longrightarrow> json_find v field = Some (JStr s)"
  by (auto simp: http_required_string_def fault_def split: option.splits json.splits)

lemma parsed_declares:
  "sbind (parse_json_body q) parse_raw_file_manifest = Inr m \<Longrightarrow> declares q (rm_node_code m)"
  "sbind (parse_json_body q) (parse_task_run_report lib) = Inr r \<Longrightarrow> declares q (ro_node_code r)"
  "parse_start_request (hq_body q) = Inr s \<Longrightarrow> declares q (sp_node_code s)"
  "sbind (control_body q) parse_registration = Inr n \<Longrightarrow> declares q (ni_node_code n)"
  "sbind (control_body q) parse_heartbeat = Inr h \<Longrightarrow> declares q (hb_node_code h)"
  by (auto simp: declares_def parse_json_body_def control_body_def parse_raw_file_manifest_def parse_task_run_report_def
      parse_start_request_def nonempty_string_def parse_registration_def parse_heartbeat_def sbind_Inr_iff fault_def Let_def
      split: option.splits json.splits if_splits prod.splits dest!: required_found)

section \<open>What a request does\<close>

text \<open>
  The effect of an answer: \<open>quiet\<close> means it leaves the database alone, \<open>runs m\<close> that it does what the call \<open>m\<close> does.
\<close>

definition runs :: "'a hproc \<Rightarrow> 'b sproc \<Rightarrow> bool" where
  "runs p m \<longleftrightarrow> (\<forall>db. snd (p db) = snd (m db))"

definition leaves :: "'a hproc \<Rightarrow> bool" where
  "leaves p \<longleftrightarrow> (\<forall>db. snd (p db) = db)"

lemma leaves_basic: "leaves (ret a)" "leaves (throw e)" "leaves (lift_sum r)" "leaves (gets f)"
  by (simp_all add: leaves_def ret_def throw_def lift_sum_def gets_def)

lemma leaves_seqp: "leaves p \<Longrightarrow> (\<And>a. leaves (f a)) \<Longrightarrow> leaves (seqp p f)"
  unfolding leaves_def seqp_def by (metis (no_types, lifting) old.prod.case prod.collapse sum.case_eq_if snd_conv)

lemma runs_called: "(\<And>a. leaves (f a)) \<Longrightarrow> runs (seqp (called m) f) m"
  by (auto simp: runs_def leaves_def seqp_def called_def split: prod.splits sum.splits)

lemma handled: "snd (handle_request p db) = snd (p db)"
  by (auto simp: handle_request_def split: prod.splits sum.splits request_fault.splits)

lemma leaves_responses: "leaves (respond_command r code mapper)" "leaves (respond_alert_disposition stamp a)"
    "leaves (respond_page mapper' pg)" "leaves (respond_item mapper'' i)"
  unfolding respond_command_def respond_alert_disposition_def respond_page_def respond_item_def
  by (auto intro!: leaves_basic leaves_seqp split: option.splits)

lemma agent_post_effect:
  assumes "\<And>x. runs (answer x) (m x)"
  shows "snd (agent_post lib c parse declared answer q db) = db \<or>
    (\<exists>x token. parse q = Inr x \<and> map_of (cs_agent_tokens c) (declared x) = Some token \<and> presents q token \<and>
       snd (agent_post lib c parse declared answer q db) = snd (m x db))"
proof (cases "require_agent_node c q")
  case (Inl a)
  then show ?thesis by (simp add: agent_post_def handled ret_def)
next
  case (Inr node)
  obtain token where token: "map_of (cs_agent_tokens c) node = Some token" "presents q token"
    using Inr by (auto simp: agent_node_credential)
  show ?thesis
  proof (cases "require_json_content_type lib q = None \<and> (\<exists>x. parse q = Inr x \<and> declared x = node)")
    case True
    then obtain x where "parse q = Inr x" "declared x = node" "require_json_content_type lib q = None" by auto
    moreover from this Inr assms[of x] have "snd (agent_post lib c parse declared answer q db) = snd (m x db)"
      by (simp add: agent_post_def handled seqp_def lift_sum_def require_declared_node_def runs_def)
    ultimately show ?thesis using token by blast
  next
    case False
    then have "snd (agent_post lib c parse declared answer q db) = db"
      using Inr by (cases "require_json_content_type lib q"; cases "parse q")
        (auto simp: agent_post_def handled ret_def seqp_def lift_sum_def require_declared_node_def)
    then show ?thesis by simp
  qed
qed

lemma management_post_effect:
  assumes "\<And>d. runs (answer d) (m d)"
  shows "snd (management_post x q parse answer db) = db \<or>
    presents q (cs_management_token (mx_credentials x)) \<and> (\<exists>d. snd (management_post x q parse answer db) = snd (m d db))"
  using assms unfolding management_post_def handled require_management_def bearer_presents runs_def
  by (auto simp: ret_def seqp_def lift_sum_def split: option.splits sum.splits)

lemma management_get_effect:
  assumes "\<And>d. leaves (answer d)"
  shows "snd (management_get x q allowed request answer db) = db"
  using assms unfolding management_get_def handled leaves_def
  by (auto simp: ret_def seqp_def lift_sum_def split: option.splits sum.splits)

text \<open>A call of the server is made for a node, or for the operators.\<close>

fun caller :: "server_call \<Rightarrow> string option" where
  "caller (StartRun s) = Some (sp_node_code s)"
| "caller (AcceptManifest m) = Some (rm_node_code m)"
| "caller (AcceptReport r) = Some (ro_node_code r)"
| "caller (RegisterNode n) = Some (ni_node_code n)"
| "caller (Heartbeat h) = Some (hb_node_code h)"
| "caller _ = None"

definition authorised :: "credential_set \<Rightarrow> http_request \<Rightarrow> server_call \<Rightarrow> bool" where
  "authorised c q call \<longleftrightarrow>
     (case caller call of
        None \<Rightarrow> presents q (cs_management_token c)
      | Some node \<Rightarrow> \<exists>token. map_of (cs_agent_tokens c) node = Some token \<and> presents q token)"

definition effect :: "pg_env \<Rightarrow> int \<Rightarrow> credential_set \<Rightarrow> http_request \<Rightarrow> server_db \<Rightarrow> server_db \<Rightarrow> bool" where
  "effect env now c q db db' \<longleftrightarrow> db' = db \<or> (\<exists>call. authorised c q call \<and> db' = snd (serve env now call db))"

lemma effectI: "authorised c q call \<Longrightarrow> db' = snd (serve env now call db) \<Longrightarrow> effect env now c q db db'"
  unfolding effect_def by blast

lemma effect_refl: "effect env now c q db db"
  by (simp add: effect_def)

lemma snd_answered: "snd (answered m db) = snd (m db)"
  by (auto simp: answered_def seqp_def ret_def split: prod.splits sum.splits)

lemma runs_agent_answers:
  "runs (seqp (called m) (\<lambda>r. if \<not> st_ok (st r) then ret (status_error_response (st r)) else ret (success_response code (doc r)))) m"
  by (rule runs_called) (simp add: leaves_basic)

lemma agent_effect:
  assumes "\<And>x. snd (m x db) = snd (serve env now (call x) db)" "\<And>x. caller (call x) = Some (declared x)"
  shows "effect env now c q db (snd (agent_post lib c parse declared (\<lambda>x. seqp (called (m x))
    (\<lambda>r. if \<not> st_ok (st x r) then ret (status_error_response (st x r)) else ret (success_response code (doc x r)))) q db))"
  using agent_post_effect[of "\<lambda>x. seqp (called (m x)) (\<lambda>r. if \<not> st_ok (st x r) then ret (status_error_response (st x r))
      else ret (success_response code (doc x r)))" m lib c parse declared q db, OF runs_agent_answers]
proof (elim disjE exE conjE)
  fix x token
  assume "map_of (cs_agent_tokens c) (declared x) = Some token" "presents q token"
  then have "authorised c q (call x)" by (simp add: authorised_def assms(2))
  moreover assume "snd (agent_post lib c parse declared (\<lambda>x. seqp (called (m x)) (\<lambda>r. if \<not> st_ok (st x r)
      then ret (status_error_response (st x r)) else ret (success_response code (doc x r)))) q db) = snd (m x db)"
  ultimately show ?thesis using assms(1) by (simp add: effectI)
qed (simp add: effect_refl)

lemma agent_handlers:
  "effect env now c q db (snd (post_register env lib c q db))" "effect env now c q db (snd (post_heartbeat env lib c q db))"
  "effect env now c q db (snd (post_start env lib c q db))" "effect env now c q db (snd (post_raw_file_manifest env lib c q db))"
  "effect env now c q db (snd (post_task_run_report env lib c q db))"
  unfolding post_register_def post_heartbeat_def post_start_def post_raw_file_manifest_def post_task_run_report_def
  by (rule agent_effect[where call = RegisterNode], simp_all add: snd_answered)
    (rule agent_effect[where call = Heartbeat] agent_effect[where call = StartRun] agent_effect[where call = AcceptManifest]
      agent_effect[where call = AcceptReport]; simp add: snd_answered)+

lemma command_effect:
  assumes "\<And>d. snd (m d db) = snd (serve (mx_env x) (mx_now x) (call d) db)" "\<And>d. caller (call d) = None" "\<And>d a. leaves (f d a)"
  shows "effect (mx_env x) (mx_now x) (mx_credentials x) q db (snd (management_post x q parse (\<lambda>d. seqp (called (m d)) (f d)) db))"
  using management_post_effect[of "\<lambda>d. seqp (called (m d)) (f d)" m x q parse db, OF runs_called[OF assms(3)]]
proof (elim disjE exE conjE)
  fix d
  assume "presents q (cs_management_token (mx_credentials x))"
  then have "authorised (mx_credentials x) q (call d)" by (simp add: authorised_def assms(2))
  moreover assume "snd (management_post x q parse (\<lambda>d. seqp (called (m d)) (f d)) db) = snd (m d db)"
  ultimately show ?thesis using assms(1) by (simp add: effectI)
qed (simp add: effect_refl)

text \<open>The handlers of the operators.\<close>

lemmas call_effects = command_effect[where call = CreateDataSource] command_effect[where call = CreateQcRule]
  command_effect[where call = CreateTask] command_effect[where call = "SetTaskEnabled i" for i]
  command_effect[where call = "TriggerRun i" for i] command_effect[where call = "RetryRun i" for i]
  command_effect[where call = "\<lambda>_. DisposeAlert i b" for i b]

lemma command_handlers:
  "effect (mx_env x) (mx_now x) (mx_credentials x) q db (snd (post_data_source x q db))"
  "effect (mx_env x) (mx_now x) (mx_credentials x) q db (snd (post_qc_rule x q db))"
  "effect (mx_env x) (mx_now x) (mx_credentials x) q db (snd (post_task x q db))"
  "effect (mx_env x) (mx_now x) (mx_credentials x) q db (snd (patch_task x task q db))"
  "effect (mx_env x) (mx_now x) (mx_credentials x) q db (snd (post_task_trigger x task q db))"
  "effect (mx_env x) (mx_now x) (mx_credentials x) q db (snd (post_task_run_retry x run q db))"
  "effect (mx_env x) (mx_now x) (mx_credentials x) q db (snd (post_alert x ack alert q db))"
  unfolding post_data_source_def post_qc_rule_def post_task_def patch_task_def post_task_trigger_def post_task_run_retry_def
    respond_manual_task_run_def post_alert_def
  by (rule call_effects; simp add: snd_answered leaves_responses leaves_basic)+

text \<open>Queries change nothing, because the query service does not.\<close>

lemma called_leaves: "stable id m \<Longrightarrow> (\<And>a. leaves (f a)) \<Longrightarrow> leaves (seqp (called m) f)"
  using runs_called[of f m] by (simp add: runs_def leaves_def stable_def)

lemma stable_pages [stable_intros]:
  "stable f (query_refused s)" "stable f (fetch_page env row page' rows conv)"
  "stable f (find_node_summary env code)" "stable f (find_task_run_summary env code)" "stable f (query_find_task env code)"
  unfolding query_refused_def fetch_page_def to_cursor_def find_node_summary_def find_task_run_summary_def query_find_task_def
  by (intro stable_intros)+

lemma stable_query_page [stable_intros]: "stable f m \<Longrightarrow> stable f (query_page m page i)"
  unfolding query_page_def by (rule stable_seqp) (simp_all add: stable_basic)

lemma stable_lists [stable_intros]:
  "stable f (repo_list_nodes env st now after page)" "stable f (list_data_sources_by_node env code enabled page)"
  "stable f (repo_list_qc_rules env enabled page)" "stable f (list_tasks_by_node env code enabled page)"
  "stable f (list_task_runs_by_node env code task st' page)" "stable f (list_raw_files_by_run env run page)"
  "stable f (list_parsed_records_by_run env run page)" "stable f (list_qc_results_by_run env run result page)"
  "stable f (list_alerts_by_node env code run' st'' severity page)"
  unfolding repo_list_nodes_def list_data_sources_by_node_def repo_list_qc_rules_def list_tasks_by_node_def list_task_runs_by_node_def
    list_raw_files_by_run_def list_parsed_records_by_run_def list_qc_results_by_run_def list_alerts_by_node_def
  by (intro stable_intros)+

lemma stable_queries:
  "stable f (list_nodes env k st page)" "stable f (find_node env k code)" "stable f (list_data_sources env code enabled page)"
  "stable f (list_qc_rules env enabled page)" "stable f (list_tasks env code enabled page)"
  "stable f (list_task_runs env k code task st page)" "stable f (query_find_run env k code run)"
  "stable f (list_raw_files env run page)" "stable f (list_parsed_records env run page)"
  "stable f (list_qc_results env run result page)" "stable f (list_alerts env code run' st severity page)"
  unfolding list_nodes_def find_node_def list_data_sources_def list_qc_rules_def list_tasks_def list_task_runs_def query_find_run_def
    list_raw_files_def list_parsed_records_def list_qc_results_def list_alerts_def with_node_def with_run_def Let_def
  by (intro stable_intros)+

lemma query_handlers:
  "snd (get_nodes x q db) = db" "snd (get_node x code q db) = db" "snd (get_data_sources x q db) = db" "snd (get_qc_rules x q db) = db"
  "snd (get_tasks x q db) = db" "snd (get_task_runs x q db) = db" "snd (get_task_run x code q db) = db" "snd (get_raw_files x q db) = db"
  "snd (get_parsed_records x q db) = db" "snd (get_qc_results x q db) = db" "snd (get_alerts x q db) = db"
  unfolding get_nodes_def get_node_def get_data_sources_def get_qc_rules_def get_tasks_def get_task_runs_def get_task_run_def
    get_raw_files_def get_parsed_records_def get_qc_results_def get_alerts_def pages_def
  by (rule management_get_effect; auto intro!: called_leaves stable_queries leaves_responses)+

lemma get_config_keeps: "snd (get_config env lib c code q db) = db"
  by (auto simp: get_config_def handle_request_def ret_def seqp_def gets_def throw_def lift_sum_def
      split: sum.splits option.splits request_fault.splits)

lemma agent_routes_effect:
  assumes "effect env now c q db (snd (other q db))"
  shows "effect env now c q db (snd (agent_routes env lib c other q db))"
  using assms by (auto simp: agent_routes_def agent_handlers get_config_keeps effect_refl split: option.splits)

lemma queries_keep: "management_queries x target = Some handler \<Longrightarrow> snd (handler q db) = db"
  unfolding management_queries_def
  by (auto simp: query_handlers simp del: map_of.simps dest!: map_of_SomeD split: option.splits)

lemma commands_effect:
  "management_commands x target = Some handler \<Longrightarrow> effect (mx_env x) (mx_now x) (mx_credentials x) q db (snd (handler q db))"
  unfolding management_commands_def Let_def
  by (auto simp: command_handlers simp del: map_of.simps dest!: map_of_SomeD split: option.splits)

lemma patches_effect:
  "management_patches x target = Some handler \<Longrightarrow> effect (mx_env x) (mx_now x) (mx_credentials x) q db (snd (handler q db))"
  unfolding management_patches_def by (auto simp: command_handlers)

lemma management_routes_effect:
  assumes "snd (other q db) = db"
  shows "effect (mx_env x) (mx_now x) (mx_credentials x) q db (snd (management_routes x other q db))"
  using assms
  by (auto simp: management_routes_def effect_refl queries_keep commands_effect patches_effect split: option.splits if_splits)

lemma authorised_token:
  assumes "credentials_from_files load_yaml files p1 p2 = Inr c" "authorised c q call"
  shows "\<exists>token. presents q token \<and>
    (case caller call of
       None \<Rightarrow> token = cs_management_token c \<and> token \<notin> snd ` set (cs_agent_tokens c)
     | Some node \<Rightarrow> token \<noteq> cs_management_token c \<and> {n. (n, token) \<in> set (cs_agent_tokens c)} = {node})"
proof (cases "caller call")
  case None
  with assms credentials_apart[OF assms(1)] show ?thesis by (auto simp: authorised_def tokens_apart_def)
next
  case (Some node)
  then obtain token where t: "map_of (cs_agent_tokens c) node = Some token" "presents q token" using assms(2) by (auto simp: authorised_def)
  note apart = credentials_apart[OF assms(1), unfolded tokens_apart_def]
  have "n = node" if "(n, token) \<in> set (cs_agent_tokens c)" for n
  proof -
    have "inj_on snd (set (cs_agent_tokens c))" using apart by (simp add: distinct_map)
    from inj_onD[OF this, of "(n, token)" "(node, token)"] show ?thesis using that map_of_SomeD[OF t(1)] by simp
  qed
  then have "{n. (n, token) \<in> set (cs_agent_tokens c)} = {node}" using map_of_SomeD[OF t(1)] by blast
  moreover have "token \<noteq> cs_management_token c" using apart map_of_SomeD[OF t(1)] by (metis image_eqI snd_conv)
  ultimately show ?thesis using t(2) Some by (intro exI[of _ token]) simp
qed

text \<open>
  C30. With credentials read from their files, a request to the control plane either leaves the database alone or
  is one call of the server. It then presents a token: for a call of an agent the token of the very node the call is
  made for, which is no other node's and not the operators'; for a call of the operators the management token, which
  is no node's.
\<close>

theorem requests_are_authorised_calls:
  assumes "credentials_from_files load_yaml files p1 p2 = Inr (mx_credentials x)" and "snd (other q db) = db"
  shows "snd (control_plane_routes x other q db) = db \<or>
    (\<exists>call token. snd (control_plane_routes x other q db) = snd (serve (mx_env x) (mx_now x) call db) \<and> presents q token \<and>
      (case caller call of
         None \<Rightarrow> token = cs_management_token (mx_credentials x) \<and> token \<notin> snd ` set (cs_agent_tokens (mx_credentials x))
       | Some node \<Rightarrow> token \<noteq> cs_management_token (mx_credentials x) \<and>
           {n. (n, token) \<in> set (cs_agent_tokens (mx_credentials x))} = {node}))"
proof -
  have "effect (mx_env x) (mx_now x) (mx_credentials x) q db (snd (control_plane_routes x other q db))"
    unfolding control_plane_routes_def by (rule agent_routes_effect, rule management_routes_effect, rule assms(2))
  then show ?thesis
    using authorised_token[OF assms(1)] unfolding effect_def by blast
qed

text \<open>A control plane with one node.\<close>

definition example_token :: string where "example_token = replicate 64 CHR ''a''"

definition example_credentials :: credential_set where
  "example_credentials = \<lparr>cs_management_token = replicate 64 CHR ''b'', cs_agent_tokens = [(''n1'', example_token)]\<rparr>"

definition example_files :: "string \<Rightarrow> string option" where
  "example_files path = Some (if path = ''management'' then replicate 64 CHR ''b'' @ [CHR 0x0A]
     else ''agent_tokens:'' @ [CHR 0x0A] @ ''  n1: '' @ example_token @ [CHR 0x0A])"

definition example_yaml :: "string \<Rightarrow> yaml option" where
  "example_yaml text' = Some (YMap [(YScalar ''agent_tokens'', YMap [(YScalar ''n1'', YScalar example_token)])])"

definition example_lib :: http_lib where
  "example_lib = \<lparr>hl_is_json = (\<lambda>t. t = ''application/json''), hl_decode_segment = percent_decode,
     hl_read_json = (\<lambda>t. Some (JObj [])), hl_write_json = (\<lambda>_. ''{}'')\<rparr>"

definition example_context :: management_context where
  "example_context = \<lparr>mx_env = plain_env, mx_lib = example_lib, mx_credentials = example_credentials,
     mx_clock = \<lparr>qk_now = 0, qk_offline_after = 60, qk_stale_after = 60\<rparr>, mx_now = 0, mx_stamp = (\<lambda>_ _ _. [])\<rparr>"

definition example_request :: http_request where
  "example_request = \<lparr>hq_method = ''POST'', hq_target = ''/api/v1/agents/register'',
     hq_headers = [(''Authorization'', ''Bearer '' @ example_token), (''X-LabBridge-Node-Code'', ''n1''), (''Content-Type'', ''application/json'')],
     hq_parameters = [], hq_body = Some (registration_body node_1)\<rparr>"

lemma example_credentials_read: "credentials_from_files example_yaml example_files ''management'' ''agents'' = Inr example_credentials"
  by code_simp

theorem requests_are_authorised_calls_witness:
  "snd (control_plane_routes example_context (\<lambda>q db. (error_response 404 [] [], db)) example_request empty_server) = empty_server \<or>
    (\<exists>call token. snd (control_plane_routes example_context (\<lambda>q db. (error_response 404 [] [], db)) example_request empty_server) =
        snd (serve plain_env 0 call empty_server) \<and> presents example_request token \<and>
      (case caller call of
         None \<Rightarrow> token = cs_management_token example_credentials \<and> token \<notin> snd ` set (cs_agent_tokens example_credentials)
       | Some node \<Rightarrow> token \<noteq> cs_management_token example_credentials \<and>
           {n. (n, token) \<in> set (cs_agent_tokens example_credentials)} = {node}))"
proof -
  have fields: "mx_env example_context = plain_env" "mx_credentials example_context = example_credentials" "mx_now example_context = 0"
    by (simp_all add: example_context_def)
  have read: "credentials_from_files example_yaml example_files ''management'' ''agents'' = Inr (mx_credentials example_context)"
    unfolding fields by (rule example_credentials_read)
  show ?thesis
    using requests_are_authorised_calls[OF read, of "\<lambda>q db. (error_response 404 [] [], db)" example_request empty_server, OF snd_conv]
    unfolding fields .
qed

end
