(* ===== verification/Wire_Properties.thy ===== *)
theory Wire_Properties
  imports Http_Properties
begin

text \<open>
  Agent and control plane together: what the client asks is what the server does, an answer that was lost is given
  again, every reply is classified for the delivery loop, and every request of the client comes to an end.
\<close>

section \<open>Requests and answers\<close>

text \<open>A client that the control plane knows, with libraries that do what they document.\<close>

definition connected :: "control_plane \<Rightarrow> control_plane_client \<Rightarrow> bool" where
  "connected pn cl \<longleftrightarrow> admits pn cl \<and> documented (pn_lib pn)"

definition start_sendable :: "start_request \<Rightarrow> bool" where
  "start_sendable q \<longleftrightarrow> sr_node_code q \<noteq> [] \<and> sr_task_id q \<noteq> [] \<and> sr_execution_key q \<noteq> [] \<and> sr_started_at q \<noteq> [] \<and> sr_trigger_type q \<noteq> []"

definition manifest_sendable :: "manifest_request \<Rightarrow> bool" where
  "manifest_sendable q \<longleftrightarrow> (\<forall>f \<in> set (mr_files q). 0 \<le> me_size_bytes f \<and> me_size_bytes f < 2 ^ 63)"

text \<open>
  C31. The requests of an agent travel intact: a start, a manifest and a report of a connected client do on the
  server what its services do with the very same request, and the client gets what they answer, or the error that
  stands for the refusal or the exception.
\<close>

theorem requests_travel_intact:
  assumes "connected pn cl"
    and "sr_node_code s = cc_node_code cl" "start_sendable s"
    and "mr_node_code m = cc_node_code cl" "manifest_sendable m"
    and "rr_node_code r = cc_node_code cl" "report_sendable (pn_lib pn) r"
  shows "client_start pn cl s db = as_seen cr_outcome start_answer (execute_start (pn_env pn) (to_start_run s) db) \<and>
    client_manifest pn cl m db = as_seen ma_status manifest_answer (execute_manifest (pn_env pn) (to_run_manifest m) db) \<and>
    client_report pn cl r db = Inr (as_seen re_status report_answer (execute_report (pn_env pn) (to_run_report r) db))"
  using assms start_call[of pn cl s db] manifest_call[of pn cl m db] report_call[of pn cl r db]
  by (simp add: connected_def start_sendable_def manifest_sendable_def)

definition client_1 :: control_plane_client where
  "client_1 = \<lparr>cc_host = ''center'', cc_port = ''80'', cc_host_header = ''center'', cc_node_code = ''n1'', cc_auth_token = example_token,
     cc_request_timeout = 30\<rparr>"

definition center_1 :: control_plane where
  "center_1 = \<lparr>pn_env = plain_env, pn_lib = example_lib, pn_credentials = example_credentials,
     pn_otherwise = (\<lambda>q db. (error_response 404 [] [], db))\<rparr>"

definition agent_start_1 :: start_request where
  "agent_start_1 = \<lparr>sr_node_code = ''n1'', sr_task_id = ''1'', sr_execution_key = ''1@2024-05-01T03:00:00Z'',
     sr_scheduled_for = ''2024-05-01T03:00:00Z'', sr_started_at = ''2024-05-01T03:00:07Z'', sr_trigger_type = ''scheduled''\<rparr>"

definition agent_manifest_1 :: manifest_request where
  "agent_manifest_1 = \<lparr>mr_task_run_id = ''1'', mr_node_code = ''n1'', mr_idempotency_key = ''m1'',
     mr_files = [\<lparr>me_original_name = ''a.csv'', me_file_hash = ''ab'', me_storage_path = ''/archive/1/a.csv'', me_size_bytes = 10,
       me_source_mtime = ''2024-05-01T02:00:00Z'', me_ingest_status = []\<rparr>]\<rparr>"

definition agent_report_1 :: report_request where
  "agent_report_1 = \<lparr>rr_task_run_id = ''1'', rr_node_code = ''n1'', rr_idempotency_key = ''r1'', rr_status = Succeeded,
     rr_finished_at = ''2024-05-01T03:00:09Z'', rr_items_total = 1, rr_items_success = 1, rr_items_failed = 0, rr_error_summary = [],
     rr_parsed_records = [\<lparr>rp_raw_file_id = ''1'',
       rp_record = \<lparr>pr_station_code = ''s'', pr_device_code = ''d'', pr_record_time = ''2024-05-01T02:00:00Z'', pr_payload_json = ''{}''\<rparr>,
       rp_parse_status = [],
       rp_qc_results = [\<lparr>rq_qc_rule_id = ''1'', rq_level = ''info'', rq_result = ''warning'', rq_message = ''m''\<rparr>]\<rparr>],
     rr_has_failed_files = False, rr_failed_files = []\<rparr>"

lemma same_requests: "to_start_run agent_start_1 = start_1" "to_run_manifest agent_manifest_1 = manifest_1"
    "to_run_report agent_report_1 = report_1"
  by (simp_all add: to_start_run_def agent_start_1_def start_1_def to_run_manifest_def agent_manifest_1_def manifest_1_def
      to_manifest_file_def to_run_report_def agent_report_1_def report_1_def to_run_record_def to_run_qc_def)

lemma connected_1: "connected center_1 client_1"
  by (simp add: connected_def admits_def documented_def center_1_def client_1_def example_credentials_def example_lib_def segment_reads_back)

lemma sendable_1: "start_sendable agent_start_1" "manifest_sendable agent_manifest_1" "report_sendable (pn_lib center_1) agent_report_1"
  by (simp_all add: start_sendable_def agent_start_1_def manifest_sendable_def agent_manifest_1_def report_sendable_def agent_report_1_def
      is_valid_json_text_def center_1_def example_lib_def)

theorem requests_travel_intact_witness:
  "client_start center_1 client_1 agent_start_1 configured_db =
     (Inr \<lparr>srr_task_run_id = ''1'', srr_replayed = False, srr_run_status = ''running''\<rparr>, started_db)"
proof -
  have "pn_env center_1 = plain_env" "cc_node_code client_1 = ''n1''" by (simp_all add: center_1_def client_1_def)
  moreover from this have "client_start center_1 client_1 agent_start_1 configured_db =
      as_seen cr_outcome start_answer (execute_start (pn_env center_1) (to_start_run agent_start_1) configured_db)"
    using requests_travel_intact[OF connected_1 _ sendable_1(1) _ sendable_1(2) _ sendable_1(3), of configured_db]
    by (simp add: agent_start_1_def agent_manifest_1_def agent_report_1_def)
  ultimately show ?thesis by (simp add: same_requests start_run_1 as_seen_def start_answer_def status_success_def)
qed

section \<open>Lost answers\<close>

text \<open>
  C32. A report is delivered exactly once, over the wire: after the server accepted it, whether the answer arrived or
  not, the same report sent again after any further calls is answered with the identifiers of the first time, as a
  replay, and changes no table.
\<close>

theorem resent_report_answered_alike:
  assumes "connected pn cl" "rr_node_code q = cc_node_code cl" "report_sendable (pn_lib pn) q" "pg_integers (pn_env pn)"
    and "reachable (\<lambda>db. db = empty_server) (server_step (pn_env pn)) db0"
    and "client_report pn cl q db0 = Inr (Inr (records, results, alerts, False), db1)"
    and "(server_step (pn_env pn))\<^sup>*\<^sup>* db1 db2" "sq_receipt (sv_seq db2) < 2 ^ 63"
  shows "\<exists>s. client_report pn cl q db2 = Inr (Inr (records, results, alerts, True), db2\<lparr>sv_seq := s\<rparr>)"
proof -
  have call: "client_report pn cl q db = Inr (as_seen re_status report_answer (execute_report (pn_env pn) (to_run_report q) db))" for db
    using assms(1-3) report_call by (simp add: connected_def)
  obtain a where a: "execute_report (pn_env pn) (to_run_report q) db0 = (Inr a, db1)" "st_ok (re_status a)"
      "report_answer a = (records, results, alerts, False)"
    using assms(6) unfolding call by (auto simp: as_seen_def split: prod.splits sum.splits if_splits)
  then have "\<not> re_replayed a" by (simp add: report_answer_def)
  from report_replayed[OF assms(4,5) a(1,2) this assms(7,8)] a(3) show ?thesis
    unfolding call by (auto simp: as_seen_def report_answer_def status_success_def)
qed

theorem resent_report_answered_alike_witness:
  "\<exists>s. client_report center_1 client_1 agent_report_1 reported_db = Inr (Inr ([''1''], [''1''], [''1''], True), reported_db\<lparr>sv_seq := s\<rparr>)"
proof -
  have env: "pn_env center_1 = plain_env" "rr_node_code agent_report_1 = cc_node_code client_1"
    by (simp_all add: center_1_def client_1_def agent_report_1_def)
  have "client_report center_1 client_1 agent_report_1 archived_db = Inr (Inr ([''1''], [''1''], [''1''], False), reported_db)"
    using report_call[of center_1 client_1 agent_report_1 archived_db] connected_1 sendable_1(3)
    by (simp add: env connected_def same_requests report_run_1 as_seen_def report_answer_def status_success_def)
  moreover have "sq_receipt (sv_seq reported_db) < 2 ^ 63" by (simp add: reported_db_def)
  ultimately show ?thesis
    using resent_report_answered_alike[OF connected_1 env(2) sendable_1(3)] plain_integers reachable_1(3) unfolding env
    by (blast intro: rtranclp.rtrancl_refl)
qed

section \<open>What the client makes of a reply\<close>

definition is_envelope :: "json \<Rightarrow> bool" where
  "is_envelope v \<longleftrightarrow> json_find v ''ok'' = Some (JBool True) \<and> (\<exists>kvs. json_find v ''data'' = Some (JObj kvs))"

definition is_refusal :: "json \<Rightarrow> bool" where
  "is_refusal v \<longleftrightarrow> json_find v ''ok'' = Some (JBool False) \<and>
     (\<exists>e code message. json_find v ''error'' = Some (JObj e) \<and> json_find (JObj e) ''code'' = Some (JStr code) \<and>
       json_find (JObj e) ''message'' = Some (JStr message))"

lemma service_error_iff: "service_error v \<noteq> None \<longleftrightarrow> is_refusal v"
  by (auto simp: service_error_def is_refusal_def split: option.splits json.splits bool.splits)

text \<open>
  C33. The client accepts a reply exactly when its status is a success and its body the success envelope. Any other
  reply is an error that carries the status: the delivery tries again exactly for the statuses 408, 429 and 500 to
  599, waits for credentials exactly for 401 and 403, and gives up otherwise.
\<close>

theorem replies_are_classified:
  "(case success_data (code, body) of
      Inr data \<Rightarrow> is_success code \<and> (\<exists>v. body = Some v \<and> is_envelope v \<and> json_find v ''data'' = Some data)
    | Inl e \<Rightarrow> \<not> (is_success code \<and> (\<exists>v. body = Some v \<and> is_envelope v)) \<and> cp_http_status e = code \<and>
        (is_transient (base_error e) = (code \<in> {408, 429} \<or> code \<in> {500..599})) \<and>
        (is_auth_rejection (base_error e) = (code \<in> {401, 403})) \<and>
        (cp_kind e = CpServerError \<longleftrightarrow> (\<exists>v. body = Some v \<and> is_refusal v)))"
proof (cases body)
  case None
  then show ?thesis
    by (auto simp: success_data_def bad_status_def is_transient_def is_auth_rejection_def base_error_def is_success_def)
next
  case (Some v)
  have apart: "is_refusal v \<Longrightarrow> \<not> is_envelope v" by (auto simp: is_refusal_def is_envelope_def)
  show ?thesis
  proof (cases "service_error v")
    case None
    then have no: "\<not> is_refusal v" using service_error_iff by blast
    show ?thesis
    proof (cases "is_success code \<and> is_envelope v")
      case True
      with None Some show ?thesis by (auto simp: success_data_def is_envelope_def)
    next
      case False
      then have "\<exists>e. success_data (code, Some v) = Inl e \<and> (e = bad_status code \<or>
          e = bad_response code ''control plane returned an invalid response envelope'')"
        using None by (auto simp: success_data_def is_envelope_def split: option.splits json.splits bool.splits)
      with Some no False show ?thesis
        by (auto simp: bad_status_def bad_response_def is_transient_def is_auth_rejection_def base_error_def)
    qed
  next
    case (Some e)
    moreover obtain server_code message where "e = (server_code, message)" by (cases e)
    moreover have "is_refusal v" using Some service_error_iff by blast
    ultimately show ?thesis
      using \<open>body = Some v\<close> apart by (auto simp: success_data_def is_transient_def is_auth_rejection_def base_error_def)
  qed
qed

section \<open>Requests end\<close>

text \<open>
  C34. Every request of the client ends by its deadline, whatever the network does. However its operations complete,
  the event loop runs for a bounded number of steps and never past the timeout; as long as anything is outstanding it
  can go on without the network, since a request that has finished has cancelled what is outstanding and waits for
  nothing more; when nothing is outstanding the socket is closed and the request has one outcome, the reply of the
  server, a timeout or a network failure, which no late completion changes. If the network stays silent from some
  point on, that outcome is the timeout.
\<close>

theorem requests_end:
  assumes "((loop_step r) ^^ n) (start_operation now timeout) s"
  shows "n \<le> timeout + 5 \<and> op_now s \<le> now + timeout \<and>
    (\<not> quiescent s \<longrightarrow> (\<exists>s'. own_step r s s')) \<and>
    (quiescent s \<longrightarrow> op_finished s \<and> op_socket_closed s \<and>
      (take_response s = Inr r \<or> take_response s = Inl RequestTimedOut \<or> (\<exists>e. take_response s = Inl (NetworkFailure e)))) \<and>
    (\<forall>s'. loop_step r s s' \<and> op_finished s \<longrightarrow>
      op_finished s' \<and> op_now s' = op_now s \<and> take_response s' = take_response s) \<and>
    (\<forall>s'. (own_step r)\<^sup>*\<^sup>* s s' \<and> \<not> op_finished s \<and> quiescent s' \<longrightarrow> take_response s' = Inl RequestTimedOut)"
proof -
  from runs_sound[OF assms] have sound: "sound_operation r s" "op_expires s = now + timeout" "n + loop_measure s \<le> timeout + 5"
    by simp_all
  then have "n \<le> timeout + 5" "op_now s \<le> now + timeout" by (simp_all add: sound_operation_def)
  then show ?thesis
    using loop_goes_on[OF sound(1)] quiescent_outcome[OF sound(1)] finished_stays[OF _ _ sound(1)]
      silent_network[OF _ sound(1)] by blast
qed

text \<open>A server that accepts the connection and never answers: the timer fires while the resolver is still at work.\<close>

theorem requests_end_witness:
  "let r = (200, None); s = start_operation 7 30\<lparr>op_now := 37\<rparr> in
   take_response (call_back r Resolve (Fails aborted) (call_back r Timer Succeeds s)) = Inl RequestTimedOut"
proof -
  let ?r = "(200, None) :: reply"
  let ?s = "start_operation 7 30\<lparr>op_now := 37\<rparr>"
  let ?t = "call_back ?r Timer Succeeds ?s"
  let ?u = "call_back ?r Resolve (Fails aborted) ?t"
  have first: "own_step ?r (start_operation 7 30) ?s"
    using own_step.waits[of "start_operation 7 30" 30 ?r] by (simp add: start_operation_def op_due_def)
  have "own_step ?r ?s ?t"
    by (rule own_step.due_calls) (simp_all add: start_operation_def op_due_def)
  moreover have "own_step ?r ?t ?u"
    by (rule own_step.due_calls) (simp_all add: start_operation_def op_due_def callback_defs aborted_def)
  ultimately have "(own_step ?r)\<^sup>*\<^sup>* ?s ?u" by (rule converse_rtranclp_into_rtranclp[OF _ r_into_rtranclp])
  moreover have "\<not> op_finished ?s" "quiescent ?u"
    by (simp_all add: start_operation_def quiescent_def callback_defs aborted_def)
  moreover have "((loop_step ?r) ^^ 1) (start_operation 7 30) ?s" using first by (auto intro: loop_step.own)
  ultimately show ?thesis using requests_end[of 1 ?r 7 30 ?s] by (auto simp: Let_def)
qed

end
