(* ===== verification/Config_Travel.thy ===== *)
theory Config_Travel
  imports Wire_Properties
begin

text \<open>
  The configuration of a node on its way from the tables to the agent: every task of kinds this agent executes arrives
  as it is, with its source and its rules in order, every usable pending execution with its files, and nothing else.
\<close>

section \<open>What any reply can make the agent hold\<close>

lemma readable_items_in: "a \<in> set (readable_items rs) \<longleftrightarrow> Inr a \<in> set rs"
  by (induction rs rule: readable_items.induct) auto

lemma read_sources_keys:
  assumes "\<forall>i s. m i = Some s \<longrightarrow> sj_id s = i" "read_sources dump code m vs i = Some s"
  shows "sj_id s = i"
  using assms
proof (induction vs arbitrary: m)
  case (Cons v vs)
  show ?case
  proof (cases "read_source dump code v")
    case (Inl e)
    then show ?thesis using Cons by simp
  next
    case (Inr t)
    then have "read_sources dump code (m(sj_id t \<mapsto> t)) vs i = Some s" using Cons.prems(2) by simp
    moreover have "\<forall>i s. (m(sj_id t \<mapsto> t)) i = Some s \<longrightarrow> sj_id s = i" using Cons.prems(1) by simp
    ultimately show ?thesis using Cons.IH by blast
  qed
qed simp

lemma read_rule_kinds:
  "smap (read_rule_ref code rules task) vs = Inr qs \<Longrightarrow> \<forall>q \<in> set qs. qr_rule_type q = ''required_fields'' \<or> qr_rule_type q = ''basic_timestamp_format''"
proof (induction vs arbitrary: qs)
  case (Cons w ws)
  then obtain q rest where q: "read_rule_ref code rules task w = Inr q" "smap (read_rule_ref code rules task) ws = Inr rest" "qs = q # rest"
    by (auto simp: sbind_Inr_iff)
  then have "qr_rule_type q = ''required_fields'' \<or> qr_rule_type q = ''basic_timestamp_format''"
    by (auto simp: read_rule_ref_def split: json.splits option.splits if_splits)
  with q Cons.IH show ?case by simp
qed simp

lemma read_task_parts:
  assumes "read_task code node sources rules v = Inr t"
  shows "\<exists>s rule_ids. sources (tc_data_source_id t) = Some s \<and> sj_node_code s = node \<and> tc_node_code t = node \<and> tc_enabled t \<and>
    tc_task_type t = ''local_file_import'' \<and> tc_parser_type t = ''csv_observation'' \<and>
    tc_data_source t = \<lparr>ds_id = sj_id s, ds_node_code = sj_node_code s, ds_type = LocalDirectory, ds_name = sj_name s, ds_config_json = sj_config_json s\<rparr> \<and>
    smap (read_rule_ref code rules (tc_id t)) rule_ids = Inr (tc_qc_rules t)"
proof -
  have obj: "is_object v" using assms by (simp add: read_task_def split: if_splits)
  show ?thesis
    using assms obj unfolding read_task_def sbind_Inr_iff if_not_P[OF iffD2[OF not_not obj]]
    by (elim exE conjE) (simp only: split: option.split_asm json.split_asm if_split_asm;
        (elim exE conjE)?; (simp only: sbind_Inr_iff)?; force)
qed

lemma read_task_executable:
  assumes "read_task code node sources rules v = Inr t" "\<forall>i s. sources i = Some s \<longrightarrow> sj_id s = i"
  shows "validate_execution_types t = Inr () \<and> tc_enabled t \<and> tc_node_code t = node \<and> ds_id (tc_data_source t) = tc_data_source_id t \<and>
    ds_node_code (tc_data_source t) = node"
proof -
  obtain s rule_ids where s: "sources (tc_data_source_id t) = Some s" "sj_node_code s = node" "tc_node_code t = node" "tc_enabled t"
    "tc_task_type t = ''local_file_import''" "tc_parser_type t = ''csv_observation''"
    "tc_data_source t = \<lparr>ds_id = sj_id s, ds_node_code = sj_node_code s, ds_type = LocalDirectory, ds_name = sj_name s, ds_config_json = sj_config_json s\<rparr>"
    "smap (read_rule_ref code rules (tc_id t)) rule_ids = Inr (tc_qc_rules t)"
    using read_task_parts[OF assms(1)] by blast
  then show ?thesis using assms(2) read_rule_kinds[OF s(8)] by (simp add: validate_execution_types_def check_rule_types_ok)
qed

lemma read_config_parts:
  assumes "read_config dump node reply = Inr c"
  shows "ni_node_code (pl_node c) = node \<and>
    (\<exists>sources rules tasks. pl_tasks c = readable_items (map (read_task (fst reply) node (read_sources dump (fst reply) Map.empty sources) rules) tasks))"
proof -
  obtain data where "config_fields dump node (fst reply) data = Inr c" using assms by (auto simp: read_config_def sbind_Inr_iff)
  then show ?thesis
    unfolding config_fields_def
    by (auto simp: sbind_Inr_iff Let_def split: option.split_asm json.split_asm if_split_asm) blast+
qed

text \<open>
  C36. Whatever a control plane answers, the tasks an agent takes from it are executable: enabled, of this node, with
  a local directory of this node as source, and with kinds of task, parser and rules the executor accepts.
\<close>

theorem pulled_tasks_are_executable:
  assumes "read_config dump node reply = Inr c" "t \<in> set (pl_tasks c)"
  shows "validate_execution_types t = Inr () \<and> tc_enabled t \<and> tc_node_code t = node \<and> ni_node_code (pl_node c) = node \<and>
    ds_id (tc_data_source t) = tc_data_source_id t \<and> ds_node_code (tc_data_source t) = node"
proof -
  obtain sources rules tasks where c: "ni_node_code (pl_node c) = node"
      "pl_tasks c = readable_items (map (read_task (fst reply) node (read_sources dump (fst reply) Map.empty sources) rules) tasks)"
    using read_config_parts[OF assms(1)] by blast
  then obtain v where read: "read_task (fst reply) node (read_sources dump (fst reply) Map.empty sources) rules v = Inr t"
    using assms(2) by (auto simp: readable_items_in)
  have keys: "\<forall>i s. read_sources dump (fst reply) Map.empty sources i = Some s \<longrightarrow> sj_id s = i"
    using read_sources_keys[of Map.empty] by blast
  show ?thesis using read_task_executable[OF read keys] c(1) by simp
qed

section \<open>Sources and rules\<close>

definition stored_tree :: "http_lib \<Rightarrow> string \<Rightarrow> json" where
  "stored_tree lib t = (case hl_read_json lib t of Some v \<Rightarrow> v | None \<Rightarrow> JNull)"

lemma stored_tree_object: "stored_json_object lib t = Inr v \<Longrightarrow> v = stored_tree lib t \<and> (\<exists>kvs. v = JObj kvs)"
  by (auto simp: stored_json_object_def stored_tree_def split: option.splits json.splits)

definition projected_source :: "(json \<Rightarrow> string) \<Rightarrow> http_lib \<Rightarrow> data_source_record \<Rightarrow> source_projection" where
  "projected_source dump lib d = \<lparr>sj_id = dr_id d, sj_node_code = dr_node_code d, sj_source_type = http_source_type (dr_source_type d),
     sj_name = dr_name d, sj_config_json = dump (stored_tree lib (dr_config_json d))\<rparr>"

definition projected_rule :: "(json \<Rightarrow> string) \<Rightarrow> http_lib \<Rightarrow> rule_binding \<Rightarrow> qc_projection" where
  "projected_rule dump lib b = \<lparr>qj_id = rb_qc_rule_id b, qj_task_id = rb_task_id b, qj_rule_type = rb_rule_type b, qj_name = rb_name b,
     qj_config_json = dump (stored_tree lib (rb_rule_config_json b))\<rparr>"

lemma read_source_of: "data_source_json lib d = Inr v \<Longrightarrow> read_source dump code v = Inr (projected_source dump lib d)"
  by (auto simp: data_source_json_def sbind_Inr_iff read_source_def cp_required_string_def projected_source_def dest!: stored_tree_object)

lemma read_rule_of: "qc_rule_json lib b = Inr v \<Longrightarrow> read_rule dump code v = Inr (projected_rule dump lib b)"
  by (auto simp: qc_rule_json_def sbind_Inr_iff read_rule_def cp_required_string_def projected_rule_def dest!: stored_tree_object)

lemma find_append: "find P (xs @ ys) = (case find P xs of None \<Rightarrow> find P ys | Some x \<Rightarrow> Some x)"
  by (induction xs) auto

lemma read_sources_find:
  assumes "smap (data_source_json lib) ds = Inr vs"
  shows "read_sources dump code m vs i =
    (case find (\<lambda>d. dr_id d = i) (rev ds) of Some d \<Rightarrow> Some (projected_source dump lib d) | None \<Rightarrow> m i)"
  using assms
proof (induction ds arbitrary: vs m)
  case (Cons d ds)
  then obtain v ws where v: "vs = v # ws" "data_source_json lib d = Inr v" "smap (data_source_json lib) ds = Inr ws"
    by (auto simp: sbind_Inr_iff)
  then show ?case
    using Cons.IH[OF v(3)] by (auto simp: read_source_of[OF v(2)] find_append projected_source_def split: option.splits)
qed simp

lemma read_rules_find:
  assumes "smap (qc_rule_json lib) bs = Inr vs"
  shows "read_rules dump code m vs k =
    (case find (\<lambda>b. rule_key (rb_task_id b) (rb_qc_rule_id b) = k) (rev bs) of Some b \<Rightarrow> Some (projected_rule dump lib b) | None \<Rightarrow> m k)"
  using assms
proof (induction bs arbitrary: vs m)
  case (Cons b bs)
  then obtain v ws where v: "vs = v # ws" "qc_rule_json lib b = Inr v" "smap (qc_rule_json lib) bs = Inr ws"
    by (auto simp: sbind_Inr_iff)
  then show ?case
    using Cons.IH[OF v(3)] by (auto simp: read_rule_of[OF v(2)] find_append projected_rule_def split: option.splits)
qed simp

text \<open>The key of a rule tells task and rule apart, as no task identifier has a line end.\<close>

lemma rule_key_inject:
  assumes "CHR 0x0A \<notin> set t" "CHR 0x0A \<notin> set t'"
  shows "rule_key t i = rule_key t' i' \<longleftrightarrow> t = t' \<and> i = i'"
proof
  assume "rule_key t i = rule_key t' i'"
  then have e: "t @ CHR 0x0A # i = t' @ CHR 0x0A # i'" by (simp add: rule_key_def)
  then have "takeWhile (\<lambda>c. c \<noteq> CHR 0x0A) (t @ CHR 0x0A # i) = takeWhile (\<lambda>c. c \<noteq> CHR 0x0A) (t' @ CHR 0x0A # i')" by simp
  moreover have "takeWhile (\<lambda>c. c \<noteq> CHR 0x0A) (u @ CHR 0x0A # j) = u" if "CHR 0x0A \<notin> set u" for u j :: string
    using that by (subst takeWhile_append2) auto
  ultimately have "t = t'" using assms by simp
  with e show "t = t' \<and> i = i'" by simp
qed simp

section \<open>Tasks\<close>

definition source_for :: "executable_config \<Rightarrow> string \<Rightarrow> data_source_record option" where
  "source_for conf i = find (\<lambda>d. dr_id d = i) (rev (xc_data_sources conf))"

definition rule_for :: "executable_config \<Rightarrow> string \<Rightarrow> string \<Rightarrow> rule_binding option" where
  "rule_for conf task i = find (\<lambda>b. rb_task_id b = task \<and> rb_qc_rule_id b = i) (rev (xc_task_qc_rules conf))"

definition is_known_rule :: "executable_config \<Rightarrow> string \<Rightarrow> string \<Rightarrow> bool" where
  "is_known_rule conf task i = (case rule_for conf task i of None \<Rightarrow> False
     | Some b \<Rightarrow> rb_rule_type b = ''required_fields'' \<or> rb_rule_type b = ''basic_timestamp_format'')"

definition is_supported_task :: "string \<Rightarrow> executable_config \<Rightarrow> task_record \<Rightarrow> bool" where
  "is_supported_task node conf t \<longleftrightarrow> tx_node_code t = node \<and> tx_enabled t \<and> tx_task_type t = ''local_file_import'' \<and>
     tx_parser_type t = ''csv_observation'' \<and>
     (case source_for conf (tx_data_source_id t) of None \<Rightarrow> False
      | Some d \<Rightarrow> dr_node_code d = node \<and> dr_source_type d = LocalDirectory) \<and>
     list_all (is_known_rule conf (tx_id t)) (tx_qc_rule_ids t)"

definition pulled_rule :: "(json \<Rightarrow> string) \<Rightarrow> http_lib \<Rightarrow> rule_binding \<Rightarrow> qc_rule_config" where
  "pulled_rule dump lib b = \<lparr>qr_id = rb_qc_rule_id b, qr_rule_type = rb_rule_type b, qr_name = rb_name b,
     qr_config_json = dump (stored_tree lib (rb_rule_config_json b))\<rparr>"

definition pulled_task :: "(json \<Rightarrow> string) \<Rightarrow> http_lib \<Rightarrow> executable_config \<Rightarrow> task_record \<Rightarrow> task_config" where
  "pulled_task dump lib conf t = (let d = the (source_for conf (tx_data_source_id t)) in
     \<lparr>tc_id = tx_id t, tc_node_code = tx_node_code t, tc_data_source_id = tx_data_source_id t, tc_name = tx_name t,
      tc_task_type = tx_task_type t, tc_schedule_expr = tx_schedule_expr t, tc_parser_type = tx_parser_type t,
      tc_qc_profile = tx_qc_profile t, tc_enabled = tx_enabled t,
      tc_data_source = \<lparr>ds_id = dr_id d, ds_node_code = dr_node_code d, ds_type = LocalDirectory, ds_name = dr_name d,
        ds_config_json = dump (stored_tree lib (dr_config_json d))\<rparr>,
      tc_qc_rules = map (\<lambda>i. pulled_rule dump lib (the (rule_for conf (tx_id t) i))) (tx_qc_rule_ids t)\<rparr>)"

definition no_line_ends :: "executable_config \<Rightarrow> bool" where
  "no_line_ends conf \<longleftrightarrow> (\<forall>t \<in> set (xc_tasks conf). CHR 0x0A \<notin> set (tx_id t)) \<and>
     (\<forall>b \<in> set (xc_task_qc_rules conf). CHR 0x0A \<notin> set (rb_task_id b))"

lemma rules_as_found:
  assumes "smap (qc_rule_json lib) (xc_task_qc_rules conf) = Inr vs" "no_line_ends conf" "t \<in> set (xc_tasks conf)"
  shows "read_rules dump code Map.empty vs (rule_key (tx_id t) i) = map_option (projected_rule dump lib) (rule_for conf (tx_id t) i)"
proof -
  have "find (\<lambda>b. rule_key (rb_task_id b) (rb_qc_rule_id b) = rule_key (tx_id t) i) (rev (xc_task_qc_rules conf)) = rule_for conf (tx_id t) i"
    unfolding rule_for_def
    by (rule find_cong) (use assms(2,3) rule_key_inject in \<open>auto simp: no_line_ends_def\<close>)
  then show ?thesis using read_rules_find[OF assms(1)] by (simp split: option.split)
qed

lemma rule_refs:
  assumes rules: "\<And>i. rules (rule_key task i) = map_option (projected_rule dump lib) (rule_for conf task i)"
  shows "(\<exists>qs. smap (read_rule_ref code rules task) (map JStr ids) = Inr qs) \<longleftrightarrow> list_all (is_known_rule conf task) ids"
    and "list_all (is_known_rule conf task) ids \<Longrightarrow>
      smap (read_rule_ref code rules task) (map JStr ids) = Inr (map (\<lambda>i. pulled_rule dump lib (the (rule_for conf task i))) ids)"
proof -
  have one: "(case read_rule_ref code rules task (JStr i) of Inr q \<Rightarrow> is_known_rule conf task i \<and> q = pulled_rule dump lib (the (rule_for conf task i))
      | Inl _ \<Rightarrow> \<not> is_known_rule conf task i)" for i
    by (cases "rule_for conf task i") (auto simp: read_rule_ref_def rules is_known_rule_def pulled_rule_def projected_rule_def)
  show all: "list_all (is_known_rule conf task) ids \<Longrightarrow>
      smap (read_rule_ref code rules task) (map JStr ids) = Inr (map (\<lambda>i. pulled_rule dump lib (the (rule_for conf task i))) ids)"
  proof (induction ids)
    case (Cons i ids)
    then show ?case using one[of i] by (cases "read_rule_ref code rules task (JStr i)") simp_all
  qed simp
  show "(\<exists>qs. smap (read_rule_ref code rules task) (map JStr ids) = Inr qs) \<longleftrightarrow> list_all (is_known_rule conf task) ids"
  proof (induction ids)
    case (Cons i ids)
    then show ?case using one[of i] by (cases "read_rule_ref code rules task (JStr i)") (auto simp: sbind_Inr_iff)
  qed simp
qed

lemma task_read:
  assumes sources: "\<And>i. sources i = map_option (projected_source dump lib) (source_for conf i)"
    and rules: "\<And>i. rules (rule_key (tx_id t) i) = map_option (projected_rule dump lib) (rule_for conf (tx_id t) i)"
  shows "case read_task code node sources rules (task_json t) of
      Inr r \<Rightarrow> is_supported_task node conf t \<and> r = pulled_task dump lib conf t | Inl _ \<Rightarrow> \<not> is_supported_task node conf t"
proof (cases "tx_node_code t = node \<and> tx_enabled t \<and> tx_task_type t = ''local_file_import'' \<and> tx_parser_type t = ''csv_observation''")
  case False
  then show ?thesis by (auto simp: read_task_def task_json_def cp_required_string_def cp_required_boolean_def is_supported_task_def)
next
  case True
  note kinds = True
  show ?thesis
  proof (cases "source_for conf (tx_data_source_id t)")
    case None
    with kinds show ?thesis
      by (simp add: read_task_def task_json_def cp_required_string_def cp_required_boolean_def is_supported_task_def sources)
  next
    case (Some d)
    have kind: "http_source_type (dr_source_type d) = ''local_directory'' \<longleftrightarrow> dr_source_type d = LocalDirectory"
      by (cases "dr_source_type d") simp_all
    show ?thesis
    proof (cases "dr_node_code d = node \<and> dr_source_type d = LocalDirectory")
      case False
      with kinds Some kind show ?thesis
        by (auto simp: read_task_def task_json_def cp_required_string_def cp_required_boolean_def is_supported_task_def sources projected_source_def)
    next
      case True
      have "read_task code node sources rules (task_json t) =
          sbind (smap (read_rule_ref code rules (tx_id t)) (map JStr (tx_qc_rule_ids t)))
            (\<lambda>qs. Inr (pulled_task dump lib conf t\<lparr>tc_qc_rules := qs\<rparr>))"
        using kinds Some kind True
        by (simp add: read_task_def task_json_def cp_required_string_def cp_required_boolean_def sources projected_source_def pulled_task_def)
      moreover have "is_supported_task node conf t = list_all (is_known_rule conf (tx_id t)) (tx_qc_rule_ids t)"
        using kinds Some True by (simp add: is_supported_task_def)
      ultimately show ?thesis
        using rule_refs[where rules = rules and task = "tx_id t" and conf = conf and dump = dump and lib = lib and code = code
            and ids = "tx_qc_rule_ids t", OF rules]
        by (cases "smap (read_rule_ref code rules (tx_id t)) (map JStr (tx_qc_rule_ids t))") (auto simp: pulled_task_def Let_def)
    qed
  qed
qed

lemma readable_items_filter:
  assumes "\<And>x. x \<in> set xs \<Longrightarrow> case f x of Inr r \<Rightarrow> P x \<and> r = g x | Inl _ \<Rightarrow> \<not> P x"
  shows "readable_items (map f xs) = map g (filter P xs)"
  using assms
proof (induction xs)
  case (Cons x xs)
  then show ?case using Cons.prems[of x] by (cases "f x") simp_all
qed simp

section \<open>Pending executions\<close>

definition pulled_file :: "task_run_retry_file \<Rightarrow> retry_file_input" where
  "pulled_file f = \<lparr>rf_input_type = ty_input_type f, rf_source_path = ty_source_path f, rf_original_name = ty_original_name f,
     rf_archive_raw_file_id = ty_archive_raw_file_id f, rf_storage_path = ty_storage_path f, rf_size_bytes = ty_size_bytes f,
     rf_file_hash = ty_file_hash f, rf_source_mtime = ty_source_mtime f\<rparr>"

definition is_usable_file :: "task_run_retry_file \<Rightarrow> bool" where
  "is_usable_file f \<longleftrightarrow> ty_input_type f = ''source'' \<or> ty_input_type f = ''archive'' \<and> ty_storage_path f \<noteq> [] \<and> ty_file_hash f \<noteq> []"

definition pulled_execution :: "pending_execution_record \<Rightarrow> pending_execution" where
  "pulled_execution p = \<lparr>pe_task_run_id = px_task_run_id p, pe_task_id = px_task_id p, pe_execution_key = px_execution_key p,
     pe_trigger_type = px_trigger_type p, pe_requested_at = px_requested_at p, pe_retry_files = map pulled_file (px_retry_files p)\<rparr>"

definition is_usable_execution :: "pending_execution_record \<Rightarrow> bool" where
  "is_usable_execution p \<longleftrightarrow> px_trigger_type p \<in> {''manual'', ''retry''} \<and> list_all is_usable_file (px_retry_files p)"

definition sizes_in_range :: "pending_execution_record \<Rightarrow> bool" where
  "sizes_in_range p \<longleftrightarrow> (\<forall>f \<in> set (px_retry_files p). 0 \<le> ty_size_bytes f \<and> ty_size_bytes f < 2 ^ 63)"

lemma file_read:
  assumes "0 \<le> ty_size_bytes f" "ty_size_bytes f < 2 ^ 63"
  shows "case read_retry_file code (retry_file_json f) of Inr r \<Rightarrow> is_usable_file f \<and> r = pulled_file f | Inl _ \<Rightarrow> \<not> is_usable_file f"
  using assms
  by (auto simp: read_retry_file_def retry_file_json_def cp_required_string_def optional_text_def optional_size_def is_usable_file_def pulled_file_def)

lemma smap_all_or_none:
  assumes "\<And>x. x \<in> set xs \<Longrightarrow> case f x of Inr r \<Rightarrow> P x \<and> r = g x | Inl _ \<Rightarrow> \<not> P x"
  shows "case smap f xs of Inr rs \<Rightarrow> list_all P xs \<and> rs = map g xs | Inl _ \<Rightarrow> \<not> list_all P xs"
  using assms
proof (induction xs)
  case (Cons x xs)
  then show ?case using Cons.prems[of x] by (cases "f x"; cases "smap f xs") simp_all
qed simp

lemma smap_map: "smap f (map h xs) = smap (\<lambda>x. f (h x)) xs"
  by (induction xs) simp_all

lemma execution_read:
  assumes "sizes_in_range p"
  shows "case read_pending_execution code (pending_execution_json p) of
      Inr r \<Rightarrow> is_usable_execution p \<and> r = pulled_execution p | Inl _ \<Rightarrow> \<not> is_usable_execution p"
proof -
  have files: "case smap (read_retry_file code) (map retry_file_json (px_retry_files p)) of
      Inr rs \<Rightarrow> list_all is_usable_file (px_retry_files p) \<and> rs = map pulled_file (px_retry_files p)
    | Inl _ \<Rightarrow> \<not> list_all is_usable_file (px_retry_files p)"
    unfolding smap_map by (rule smap_all_or_none) (use file_read assms in \<open>auto simp: sizes_in_range_def\<close>)
  show ?thesis
  proof (cases "px_trigger_type p \<in> {''manual'', ''retry''}")
    case False
    then show ?thesis by (simp add: read_pending_execution_def pending_execution_json_def cp_required_string_def is_usable_execution_def)
  next
    case True
    then have "read_pending_execution code (pending_execution_json p) =
        sbind (smap (read_retry_file code) (map retry_file_json (px_retry_files p)))
          (\<lambda>files. Inr (pulled_execution p\<lparr>pe_retry_files := files\<rparr>))"
      by (auto simp: read_pending_execution_def pending_execution_json_def cp_required_string_def pulled_execution_def)
    with files True show ?thesis
      by (cases "smap (read_retry_file code) (map retry_file_json (px_retry_files p))") (simp_all add: is_usable_execution_def pulled_execution_def)
  qed
qed

section \<open>The whole configuration\<close>

lemma id_text_one_line: "CHR 0x0A \<notin> set (id_text i)"
proof -
  have "CHR 0x0A \<notin> set (nat_to_string n)" for n
    using nat_to_string_digits[of n] by (auto simp: list_all_iff isdigit_def char_code_def dest!: bspec)
  then show ?thesis by (simp add: id_text_def int_to_string_def)
qed

lemma config_identifiers: "no_line_ends (find_executable_config code db)"
  unfolding no_line_ends_def find_executable_config_def Let_def
  by (auto simp: find_enabled_tasks_by_node_def find_enabled_task_qc_rules_by_node_def task_of_def binding_of_def id_text_one_line
      split: option.splits if_splits)

definition stored_objects :: "http_lib \<Rightarrow> executable_config \<Rightarrow> bool" where
  "stored_objects lib conf \<longleftrightarrow> (\<forall>d \<in> set (xc_data_sources conf). \<exists>kvs. hl_read_json lib (dr_config_json d) = Some (JObj kvs)) \<and>
     (\<forall>b \<in> set (xc_task_qc_rules conf). \<exists>kvs. hl_read_json lib (rb_rule_config_json b) = Some (JObj kvs))"

lemma smap_total: "(\<And>x. x \<in> set xs \<Longrightarrow> \<exists>y. f x = Inr y) \<Longrightarrow> \<exists>ys. smap f xs = Inr ys"
proof (induction xs)
  case (Cons x xs)
  then obtain y ys where "f x = Inr y" "smap f xs = Inr ys" by (meson list.set_intros)
  then show ?case by simp
qed simp

lemma config_documents:
  assumes "stored_objects lib conf"
  shows "\<exists>sources rules. smap (data_source_json lib) (xc_data_sources conf) = Inr sources \<and> smap (qc_rule_json lib) (xc_task_qc_rules conf) = Inr rules"
proof -
  have "\<exists>sources. smap (data_source_json lib) (xc_data_sources conf) = Inr sources"
    by (rule smap_total) (use assms in \<open>force simp: stored_objects_def data_source_json_def stored_json_object_def\<close>)
  moreover have "\<exists>rules. smap (qc_rule_json lib) (xc_task_qc_rules conf) = Inr rules"
    by (rule smap_total) (use assms in \<open>force simp: stored_objects_def qc_rule_json_def stored_json_object_def\<close>)
  ultimately show ?thesis by blast
qed

lemma tasks_travel:
  assumes "smap (data_source_json lib) (xc_data_sources conf) = Inr sources" "smap (qc_rule_json lib) (xc_task_qc_rules conf) = Inr rules"
    and "no_line_ends conf"
  shows "readable_items (map (read_task code node (read_sources dump code Map.empty sources) (read_rules dump code Map.empty rules))
      (map task_json (xc_tasks conf))) = map (pulled_task dump lib conf) (filter (is_supported_task node conf) (xc_tasks conf))"
  unfolding map_map comp_def
  by (rule readable_items_filter, rule task_read)
    (simp add: read_sources_find[OF assms(1)] source_for_def split: option.split, rule rules_as_found[OF assms(2,3)])

lemma executions_travel:
  assumes "\<forall>p \<in> set ps. sizes_in_range p"
  shows "readable_items (map (read_pending_execution code) (map pending_execution_json ps)) =
    map pulled_execution (filter is_usable_execution ps)"
  unfolding map_map comp_def by (rule readable_items_filter, rule execution_read) (use assms in blast)

lemma found_node: "find_by_code env code db = Some n \<Longrightarrow> ni_node_code (fst n) = code"
  by (auto simp: find_by_code_def node_with_code_def node_of_def find_Some_iff)

text \<open>
  C35. The configuration of a node travels whole: what a connected agent pulls is the node as it is registered, every
  enabled task the server has for it, in order, whose source, kinds and rules this agent executes, with its source and
  its rules in order, and every pending execution with its files whose inputs it can read; nothing else and no
  change of the tables.
\<close>

theorem config_travels:
  assumes "connected pn cl" "find_by_code (pn_env pn) (cc_node_code cl) db = Some (info, st, heartbeat)" "cc_node_code cl \<noteq> []"
    and "stored_objects (pn_lib pn) (find_executable_config (cc_node_code cl) db)"
    and "\<forall>p \<in> set (find_pending_executions_by_node (pn_env pn) (cc_node_code cl) db). sizes_in_range p"
  shows "client_fetch_config pn cl dump (cc_node_code cl) db =
    (Inr \<lparr>pl_node = info, pl_status = st, pl_last_heartbeat_at = heartbeat,
       pl_tasks = map (pulled_task dump (pn_lib pn) (find_executable_config (cc_node_code cl) db))
         (filter (is_supported_task (cc_node_code cl) (find_executable_config (cc_node_code cl) db))
           (xc_tasks (find_executable_config (cc_node_code cl) db))),
       pl_pending_executions = map pulled_execution
         (filter is_usable_execution (find_pending_executions_by_node (pn_env pn) (cc_node_code cl) db))\<rparr>, db)"
proof -
  let ?code = "cc_node_code cl" and ?conf = "find_executable_config (cc_node_code cl) db"
  obtain sources rules where docs: "smap (data_source_json (pn_lib pn)) (xc_data_sources ?conf) = Inr sources"
      "smap (qc_rule_json (pn_lib pn)) (xc_task_qc_rules ?conf) = Inr rules"
    using config_documents[OF assms(4)] by blast
  have fc: "find_config (pn_env pn) ?code db = \<lparr>ag_status = status_success, ag_node = Some (info, st, heartbeat), ag_config = ?conf,
      ag_pending = find_pending_executions_by_node (pn_env pn) ?code db\<rparr>"
    using assms(2,3) by (simp add: find_config_def)
  have node: "ni_node_code info = ?code" using found_node[OF assms(2)] by simp
  have status: "read_node_status 200 (http_node_status st) = Inr st" by (cases st) (simp_all add: read_node_status_def)
  note parts = tasks_travel[OF docs config_identifiers, of 200 ?code dump] executions_travel[OF assms(5), of 200]
  show ?thesis
    using config_call[of pn cl dump db] assms(1,3)
    by (simp add: connected_def config_answer_def fc status_success_def config_json_def docs config_fields_def cp_required_string_def status node
        parts[simplified])
qed

definition pulled_import :: task_config where
  "pulled_import = \<lparr>tc_id = ''1'', tc_node_code = ''n1'', tc_data_source_id = ''1'', tc_name = ''Import'', tc_task_type = ''local_file_import'',
     tc_schedule_expr = ''0 3 * * *'', tc_parser_type = ''csv_observation'', tc_qc_profile = [], tc_enabled = True,
     tc_data_source = \<lparr>ds_id = ''1'', ds_node_code = ''n1'', ds_type = LocalDirectory, ds_name = ''Files'', ds_config_json = ''{}''\<rparr>,
     tc_qc_rules = [\<lparr>qr_id = ''1'', qr_rule_type = ''required_fields'', qr_name = ''Fields'', qr_config_json = ''{}''\<rparr>]\<rparr>"

lemma example_pull: "find_by_code plain_env ''n1'' configured_db = Some (node_1, Offline, [])"
    "find_pending_executions_by_node plain_env ''n1'' configured_db = []"
    "map (pulled_task (\<lambda>_. ''{}'') example_lib (find_executable_config ''n1'' configured_db))
      (filter (is_supported_task ''n1'' (find_executable_config ''n1'' configured_db)) (xc_tasks (find_executable_config ''n1'' configured_db))) =
     [pulled_import]"
  by code_simp+

theorem config_travels_witness:
  "client_fetch_config center_1 client_1 (\<lambda>_. ''{}'') ''n1'' configured_db =
    (Inr \<lparr>pl_node = node_1, pl_status = Offline, pl_last_heartbeat_at = [], pl_tasks = [pulled_import], pl_pending_executions = []\<rparr>,
     configured_db)"
proof -
  have fields: "pn_env center_1 = plain_env" "pn_lib center_1 = example_lib" "cc_node_code client_1 = ''n1''"
    by (simp_all add: center_1_def client_1_def)
  have "stored_objects (pn_lib center_1) (find_executable_config (cc_node_code client_1) configured_db)"
    by (simp add: stored_objects_def fields example_lib_def)
  from config_travels[OF connected_1 _ _ this, unfolded fields, OF example_pull(1)] show ?thesis by (simp add: example_pull)
qed

definition example_reply :: reply where
  "example_reply = to_reply (success_response 200
     (case config_json example_lib (node_1, Offline, []) (find_config plain_env ''n1'' configured_db) of Inr v \<Rightarrow> v | Inl _ \<Rightarrow> JNull))"

lemma example_read: "read_config (\<lambda>_. ''{}'') ''n1'' example_reply =
    Inr \<lparr>pl_node = node_1, pl_status = Offline, pl_last_heartbeat_at = [], pl_tasks = [pulled_import], pl_pending_executions = []\<rparr>"
  by code_simp

theorem pulled_tasks_are_executable_witness:
  "validate_execution_types pulled_import = Inr () \<and> tc_enabled pulled_import \<and> tc_node_code pulled_import = ''n1''"
  using pulled_tasks_are_executable[OF example_read, of pulled_import] by simp

end
