(* ===== verification/Agent_Config.thy ===== *)
theory Agent_Config
  imports Config_Pull Http_Service Archive_Store Queue_Store Delivery
begin

text \<open>
  The configuration file of an agent (\<open>agent/src/bootstrap/agent_config.cpp\<close>): its fields with their bounds, the token
  file and the paths. yaml-cpp gives the tree of the text and reads the integer of a scalar, the file system resolves
  links and holds the files; they are parameters. The lemmas show that what loads is fit for the parts it is handed to.
\<close>

section \<open>What the loader meets\<close>

record config_world =
  cw_yaml :: "string \<Rightarrow> yaml option"
  cw_yaml_int :: "string \<Rightarrow> int option"
  cw_yaml_what :: string
  cw_filesystem_what :: string
  cw_file :: "path \<Rightarrow> string option"
  cw_canonical :: "path \<Rightarrow> path option"
  cw_is_directory :: "path \<Rightarrow> bool"

section \<open>Errors and fields\<close>

text \<open>Every failure reaches the caller as an \<open>AgentConfigError\<close>; the others are what the loader translates.\<close>

datatype config_fault = AgentConfigError string | YamlException | UrlInvalid string | FilesystemError

definition config_error :: "string \<Rightarrow> config_fault + 'a" where
  "config_error m = Inl (AgentConfigError m)"

definition config_is_blank :: "string \<Rightarrow> bool" where
  "config_is_blank v \<longleftrightarrow> list_all isspace v"

text \<open>Looking up a field of the root: a null node and a sequence have none, and a scalar throws.\<close>

definition yaml_field :: "yaml \<Rightarrow> string \<Rightarrow> config_fault + yaml option" where
  "yaml_field v k =
     (case v of YScalar _ \<Rightarrow> Inl YamlException | _ \<Rightarrow> Inr (yaml_find v k))"

definition config_string :: "yaml \<Rightarrow> string \<Rightarrow> string \<Rightarrow> config_fault + string" where
  "config_string v field path =
     (case yaml_find v field of
        Some (YScalar s) \<Rightarrow> if s = [] \<or> config_is_blank s then config_error (path @ ''.'' @ field @ '' must not be empty'') else Inr s
      | _ \<Rightarrow> config_error (path @ ''.'' @ field @ '' must be a string''))"

definition parse_positive_integer :: "config_world \<Rightarrow> yaml \<Rightarrow> string \<Rightarrow> string \<Rightarrow> int \<Rightarrow> config_fault + int" where
  "parse_positive_integer w v field path maximum =
     (case v of
        YScalar s \<Rightarrow>
          (case cw_yaml_int w s of
             Some i \<Rightarrow>
               if i \<le> 0 \<or> i > maximum then config_error (path @ ''.'' @ field @ '' must be between 1 and '' @ int_to_string maximum)
               else Inr i
           | None \<Rightarrow> config_error (path @ ''.'' @ field @ '' must be an integer''))
      | _ \<Rightarrow> config_error (path @ ''.'' @ field @ '' must be an integer''))"

definition required_positive_integer :: "config_world \<Rightarrow> yaml \<Rightarrow> string \<Rightarrow> string \<Rightarrow> int \<Rightarrow> config_fault + int" where
  "required_positive_integer w v field path maximum =
     (case yaml_find v field of
        None \<Rightarrow> config_error (path @ ''.'' @ field @ '' must be an integer'')
      | Some x \<Rightarrow> parse_positive_integer w x field path maximum)"

definition optional_positive_integer :: "config_world \<Rightarrow> yaml \<Rightarrow> string \<Rightarrow> string \<Rightarrow> int \<Rightarrow> int \<Rightarrow> config_fault + int" where
  "optional_positive_integer w v field path maximum dflt =
     (case yaml_find v field of None \<Rightarrow> Inr dflt | Some x \<Rightarrow> parse_positive_integer w x field path maximum)"

definition canonical_config_path :: "config_world \<Rightarrow> path \<Rightarrow> config_fault + path" where
  "canonical_config_path w p = (case cw_canonical w p of None \<Rightarrow> Inl FilesystemError | Some q \<Rightarrow> Inr q)"

definition normalized_absolute_path :: "config_world \<Rightarrow> string \<Rightarrow> path \<Rightarrow> config_fault + path" where
  "normalized_absolute_path w value base =
     (let p = path_of value in canonical_config_path w (if is_absolute p then p else base @ p))"

definition load_agent_token :: "config_world \<Rightarrow> path \<Rightarrow> config_fault + string" where
  "load_agent_token w file =
     (case cw_file w file of
        None \<Rightarrow> config_error (''agent.token_file '' @ apos @ path_text file @ apos @ '' cannot be read'')
      | Some bytes \<Rightarrow>
          let token = drop_final_newline bytes in
          if \<not> is_valid_hex_token token then config_error (''agent.token_file '' @ apos @ path_text file @ apos @ '' must contain a single 64-character lowercase hex token'')
          else Inr token)"

fun read_roots :: "config_world \<Rightarrow> yaml list \<Rightarrow> config_fault + path list" where
  "read_roots w [] = Inr []"
| "read_roots w (v # vs) =
     (case v of
        YScalar s \<Rightarrow>
          if s = [] \<or> \<not> is_absolute (path_of s) then config_error ''tasks.allowed_local_roots entries must be absolute paths''
          else sbind (canonical_config_path w (path_of s)) (\<lambda>p. sbind (read_roots w vs) (\<lambda>ps. Inr (p # ps)))
      | _ \<Rightarrow> config_error ''tasks.allowed_local_roots entries must be absolute paths'')"

definition required_allowed_roots :: "config_world \<Rightarrow> yaml \<Rightarrow> config_fault + path list" where
  "required_allowed_roots w tasks =
     (case yaml_find tasks ''allowed_local_roots'' of
        Some (YSeq (v # vs)) \<Rightarrow> read_roots w (v # vs)
      | _ \<Rightarrow> config_error ''tasks.allowed_local_roots must be a non-empty sequence'')"

section \<open>The configuration\<close>

text \<open>Times are in milliseconds where the struct has milliseconds, and in seconds otherwise.\<close>

record agent_startup_config =
  ac_node :: node_info
  ac_server_url :: string
  ac_request_timeout :: int
  ac_heartbeat_interval :: int
  ac_config_poll_interval :: int
  ac_work_dir :: path
  ac_queue_db :: path
  ac_max_pending_jobs :: nat
  ac_processed_capacity :: nat
  ac_retry_initial :: int
  ac_retry_max :: int
  ac_max_files_per_run :: nat
  ac_max_request_body_bytes :: nat
  ac_allowed_local_roots :: "path list"
  ac_auth_token :: string

definition kMaximumRequestTimeoutSeconds :: int where "kMaximumRequestTimeoutSeconds = 300"

definition kMaximumIntervalSeconds :: int where "kMaximumIntervalSeconds = 86400"

definition kMaximumPendingJobs :: int where "kMaximumPendingJobs = 1000000"

definition kMaximumFingerprintCapacity :: int where "kMaximumFingerprintCapacity = 1000000"

definition kMaximumFilesPerRun :: int where "kMaximumFilesPerRun = 1000000"

definition kMaximumRequestBodyBytes :: int where "kMaximumRequestBodyBytes = 1073741824"

definition kDefaultMaxFilesPerRun :: int where "kDefaultMaxFilesPerRun = 10"

definition kDefaultMaxRequestBodyBytes :: int where "kDefaultMaxRequestBodyBytes = 921600"

definition kVersion :: string where "kVersion = ''0.1.0''"

definition config_section :: "yaml \<Rightarrow> string \<Rightarrow> config_fault + yaml" where
  "config_section root name =
     sbind (yaml_field root name) (\<lambda>s. case s of
       Some (YMap kvs) \<Rightarrow> Inr (YMap kvs) | _ \<Rightarrow> config_error (name @ '' configuration section is required''))"

definition check_url :: "string \<Rightarrow> config_fault + unit" where
  "check_url url = (case parse_server_url url of Inr _ \<Rightarrow> Inr () | Inl (InvalidArgumentError m) \<Rightarrow> Inl (UrlInvalid m) | Inl _ \<Rightarrow> Inl (UrlInvalid []))"

definition parse_agent_config_node :: "config_world \<Rightarrow> path \<Rightarrow> yaml \<Rightarrow> config_fault + agent_startup_config" where
  "parse_agent_config_node w base root =
     sbind (config_section root ''agent'') (\<lambda>agent.
     sbind (config_string agent ''node_code'' ''agent'') (\<lambda>code.
     sbind (config_string agent ''name'' ''agent'') (\<lambda>name.
     sbind (config_string agent ''server_url'' ''agent'') (\<lambda>url.
     sbind (check_url url) (\<lambda>_.
     sbind (required_positive_integer w agent ''request_timeout_seconds'' ''agent'' kMaximumRequestTimeoutSeconds) (\<lambda>timeout.
     sbind (required_positive_integer w agent ''heartbeat_interval_seconds'' ''agent'' kMaximumIntervalSeconds) (\<lambda>heartbeat.
     sbind (config_string agent ''token_file'' ''agent'') (\<lambda>token_file.
     sbind (normalized_absolute_path w token_file base) (\<lambda>token_path.
     sbind (load_agent_token w token_path) (\<lambda>token.
     sbind (config_section root ''tasks'') (\<lambda>tasks.
     sbind (required_positive_integer w tasks ''poll_interval_seconds'' ''tasks'' kMaximumIntervalSeconds) (\<lambda>poll.
     sbind (optional_positive_integer w tasks ''max_files_per_run'' ''tasks'' kMaximumFilesPerRun kDefaultMaxFilesPerRun) (\<lambda>max_files.
     sbind (config_section root ''storage'') (\<lambda>storage.
     sbind (config_string storage ''work_dir'' ''storage'') (\<lambda>work.
     sbind (normalized_absolute_path w work base) (\<lambda>work_dir.
     sbind (required_allowed_roots w tasks) (\<lambda>roots.
     sbind (config_string storage ''queue_db'' ''storage'') (\<lambda>queue.
     sbind (normalized_absolute_path w queue base) (\<lambda>queue_path.
     sbind (ensure (\<not> cw_is_directory w queue_path) (AgentConfigError ''storage.queue_db must not be a directory'')) (\<lambda>_.
     sbind (ensure (\<not> list_ex (is_within queue_path) roots)
         (AgentConfigError ''storage.queue_db must not be inside tasks.allowed_local_roots'')) (\<lambda>_.
     sbind (required_positive_integer w storage ''max_pending_jobs'' ''storage'' kMaximumPendingJobs) (\<lambda>jobs.
     sbind (required_positive_integer w storage ''processed_fingerprint_capacity_per_task'' ''storage'' kMaximumFingerprintCapacity) (\<lambda>capacity.
     sbind (config_section root ''delivery'') (\<lambda>delivery.
     sbind (required_positive_integer w delivery ''retry_initial_seconds'' ''delivery'' 3600) (\<lambda>initial.
     sbind (required_positive_integer w delivery ''retry_max_seconds'' ''delivery'' 86400) (\<lambda>maximum.
     sbind (ensure (initial \<le> maximum)
         (AgentConfigError ''delivery.retry_max_seconds must be greater than or equal to delivery.retry_initial_seconds'')) (\<lambda>_.
     sbind (optional_positive_integer w delivery ''max_request_body_bytes'' ''delivery'' kMaximumRequestBodyBytes
         kDefaultMaxRequestBodyBytes) (\<lambda>body.
       Inr \<lparr>ac_node = \<lparr>ni_node_code = code, ni_name = name, ni_agent_version = kVersion\<rparr>, ac_server_url = url,
         ac_request_timeout = timeout * 1000, ac_heartbeat_interval = heartbeat * 1000, ac_config_poll_interval = poll * 1000,
         ac_work_dir = work_dir, ac_queue_db = queue_path, ac_max_pending_jobs = nat jobs, ac_processed_capacity = nat capacity,
         ac_retry_initial = initial, ac_retry_max = maximum, ac_max_files_per_run = nat max_files,
         ac_max_request_body_bytes = nat body, ac_allowed_local_roots = roots, ac_auth_token = token\<rparr>))))))))))))))))))))))))))))"

text \<open>\<open>parse_config_sourced\<close>: the exceptions of a load, translated. \<open>prefix\<close> names the source.\<close>

definition translate_fault :: "config_world \<Rightarrow> string \<Rightarrow> config_fault \<Rightarrow> string" where
  "translate_fault w prefix e =
     (case e of
        AgentConfigError m \<Rightarrow> m
      | YamlException \<Rightarrow> prefix @ cw_yaml_what w
      | UrlInvalid m \<Rightarrow> ''invalid agent.server_url: '' @ m
      | FilesystemError \<Rightarrow> ''invalid local path configuration: '' @ cw_filesystem_what w)"

definition load_agent_config :: "config_world \<Rightarrow> string \<Rightarrow> path \<Rightarrow> string option \<Rightarrow> string + agent_startup_config" where
  "load_agent_config w prefix base source =
     (case (case source of None \<Rightarrow> None | Some s \<Rightarrow> cw_yaml w s) of
        None \<Rightarrow> Inl (translate_fault w prefix YamlException)
      | Some root \<Rightarrow> (case parse_agent_config_node w base root of Inl e \<Rightarrow> Inl (translate_fault w prefix e) | Inr c \<Rightarrow> Inr c))"

section \<open>The configuration of the queue command\<close>

definition load_agent_queue_config :: "config_world \<Rightarrow> string \<Rightarrow> path \<Rightarrow> string option \<Rightarrow> string + string \<times> path" where
  "load_agent_queue_config w prefix base source =
     (case (case source of None \<Rightarrow> None | Some s \<Rightarrow> cw_yaml w s) of
        None \<Rightarrow> Inl (translate_fault w prefix YamlException)
      | Some root \<Rightarrow>
          (case sbind (config_section root ''agent'') (\<lambda>agent.
                sbind (config_section root ''storage'') (\<lambda>storage.
                sbind (config_string agent ''node_code'' ''agent'') (\<lambda>code.
                sbind (config_string storage ''queue_db'' ''storage'') (\<lambda>queue.
                sbind (normalized_absolute_path w queue base) (\<lambda>path. Inr (code, path)))))) of
             Inl e \<Rightarrow> Inl (translate_fault w prefix e) | Inr c \<Rightarrow> Inr c))"

section \<open>What loads is fit for use\<close>

lemma sbind_InrE: "sbind m f = Inr c \<Longrightarrow> (\<And>a. m = Inr a \<Longrightarrow> f a = Inr c \<Longrightarrow> thesis) \<Longrightarrow> thesis"
  by (auto simp: sbind_Inr_iff)

lemma config_string_nonempty: "config_string v field path = Inr s \<Longrightarrow> s \<noteq> []"
  by (auto simp: config_string_def config_error_def split: option.splits yaml.splits if_splits)

lemma positive_bounds:
  "parse_positive_integer w v field path maximum = Inr i \<Longrightarrow> 0 < i \<and> i \<le> maximum"
  "required_positive_integer w v' field path maximum = Inr i \<Longrightarrow> 0 < i \<and> i \<le> maximum"
  "optional_positive_integer w v'' field path maximum dflt = Inr i \<Longrightarrow> 0 < i \<and> i \<le> maximum \<or> i = dflt"
  by (auto simp: parse_positive_integer_def required_positive_integer_def optional_positive_integer_def config_error_def
      split: option.splits yaml.splits if_splits)

lemma token_loaded: "load_agent_token w file = Inr t \<Longrightarrow> is_valid_hex_token t"
  by (auto simp: load_agent_token_def config_error_def Let_def split: option.splits if_splits)

lemma url_checked: "check_url url = Inr u' \<Longrightarrow> \<exists>u. parse_server_url url = Inr u"
  by (auto simp: check_url_def split: sum.splits agent_exn.splits)

lemma ensured: "ensure b e = Inr u \<longleftrightarrow> b"
  by (simp add: ensure_def)

text \<open>What a loaded configuration promises to the parts of the agent.\<close>

definition fit_config :: "agent_startup_config \<Rightarrow> bool" where
  "fit_config c \<longleftrightarrow>
     (\<exists>u. parse_server_url (ac_server_url c) = Inr u) \<and> ni_node_code (ac_node c) \<noteq> [] \<and> is_valid_hex_token (ac_auth_token c) \<and>
     0 < ac_request_timeout c \<and> ac_request_timeout c \<le> 300000 \<and> 0 < ac_heartbeat_interval c \<and> 0 < ac_config_poll_interval c \<and>
     0 < ac_max_pending_jobs c \<and> ac_max_pending_jobs c \<le> 1000000 \<and> 0 < ac_processed_capacity c \<and>
     0 < ac_retry_initial c \<and> ac_retry_initial c \<le> ac_retry_max c \<and> ac_retry_max c \<le> 86400 \<and>
     0 < ac_max_files_per_run c \<and> 0 < ac_max_request_body_bytes c \<and> ac_allowed_local_roots c \<noteq> [] \<and>
     (\<forall>root \<in> set (ac_allowed_local_roots c). \<not> is_within (ac_queue_db c) root)"

lemma default_limits: "0 < kDefaultMaxFilesPerRun" "0 < kDefaultMaxRequestBodyBytes"
  by (simp_all add: kDefaultMaxFilesPerRun_def kDefaultMaxRequestBodyBytes_def)

lemmas maximum_values = kMaximumRequestTimeoutSeconds_def kMaximumIntervalSeconds_def kMaximumPendingJobs_def kMaximumFingerprintCapacity_def
  kMaximumFilesPerRun_def kMaximumRequestBodyBytes_def

lemma optional_positive: "optional_positive_integer w v field path maximum dflt = Inr i \<Longrightarrow> 0 < dflt \<Longrightarrow> 0 < i"
  using positive_bounds(3) by fastforce

lemma roots_required: "required_allowed_roots w tasks = Inr roots \<Longrightarrow> roots \<noteq> []"
  by (auto simp: required_allowed_roots_def config_error_def sbind_Inr_iff split: option.splits yaml.splits list.splits if_splits)

lemma parsed_config_fit:
  assumes "parse_agent_config_node w base root = Inr c" shows "fit_config c"
  using assms unfolding parse_agent_config_node_def
  by (elim sbind_InrE)
    (auto simp: fit_config_def maximum_values list_ex_iff ensured
       dest!: config_string_nonempty roots_required url_checked token_loaded positive_bounds(2) optional_positive[OF _ default_limits(1)]
         optional_positive[OF _ default_limits(2)])

end
