(* ===== verification/Agent_Runtime.thy ===== *)
theory Agent_Runtime
  imports Agent_Config
begin

text \<open>
  The running agent (\<open>agent/src/runtime/agent_runtime.cpp\<close>, \<open>bootstrap/startup_handshake.cpp\<close>): the first contact with the
  control plane, then the loop that reconnects, reports and pulls configurations. The clock, the stop flag and the
  answers of the control plane come as a script, one entry per pass of the loop; what the agent does is recorded.
\<close>

section \<open>State\<close>

datatype runtime_effect =
    NodeAnnounced node_info
  | HeartbeatSent node_heartbeat
  | ConfigRequested string
  | ConfigReplaced "task_config list" "pending_execution list"
  | WaitedUntil int

text \<open>Steady times and durations are in milliseconds. The variables of \<open>run\<close> are the fields from \<open>au_next_heartbeat\<close> on.\<close>

record agent_runtime =
  au_node :: node_info
  au_heartbeat_interval :: int
  au_poll_interval :: int
  au_config :: pulled_agent_config
  au_has_sink :: bool
  au_published :: bool
  au_connected :: bool
  au_reconnect_initial :: int
  au_reconnect_max :: int
  au_next_heartbeat :: int
  au_next_poll :: int
  au_delay :: int
  au_next_reconnect :: int
  au_effects :: "runtime_effect list"

type_synonym 'a runtime_proc = "(agent_runtime, control_plane_error, 'a) proc"

definition empty_config :: pulled_agent_config where
  "empty_config = \<lparr>pl_node = \<lparr>ni_node_code = [], ni_name = [], ni_agent_version = []\<rparr>, pl_status = Offline,
     pl_last_heartbeat_at = [], pl_tasks = [], pl_pending_executions = []\<rparr>"

definition make_runtime :: "node_info \<Rightarrow> int \<Rightarrow> int \<Rightarrow> pulled_agent_config \<Rightarrow> bool \<Rightarrow> bool \<Rightarrow> int \<Rightarrow> int \<Rightarrow> agent_exn + agent_runtime" where
  "make_runtime node heartbeat poll config has_sink connected initial maximum =
     (if heartbeat \<le> 0 \<or> poll \<le> 0 \<or> initial \<le> 0 \<or> maximum < initial
      then Inl (InvalidArgumentError ''runtime intervals must be positive'')
      else Inr \<lparr>au_node = node, au_heartbeat_interval = heartbeat, au_poll_interval = poll, au_config = config,
        au_has_sink = has_sink, au_published = False, au_connected = connected, au_reconnect_initial = initial,
        au_reconnect_max = maximum, au_next_heartbeat = 0, au_next_poll = 0, au_delay = 0, au_next_reconnect = 0, au_effects = []\<rparr>)"

text \<open>
  What a pass of the loop meets. \<open>rn_stop\<close> is the flag at the head of the loop and \<open>rn_now\<close> the clock after it;
  the flags \<open>rn_stop_registered\<close> and \<open>rn_stop_reported\<close> are read inside \<open>reconnect\<close> and \<open>rn_reconnected\<close> is the clock behind
  it, the others belong to the connected pass, in the order of the code.
\<close>

record runtime_turn =
  rn_stop :: bool
  rn_now :: int
  rn_system :: time_point
  rn_register :: "control_plane_error + unit"
  rn_heartbeat :: "control_plane_error + unit"
  rn_fetch :: "control_plane_error + pulled_agent_config"
  rn_stop_registered :: bool
  rn_stop_reported :: bool
  rn_reconnected :: int
  rn_after_heartbeat :: int
  rn_stop_heartbeat :: bool
  rn_poll_now :: int
  rn_after_poll :: int
  rn_stop_poll :: bool

section \<open>Calls\<close>

definition note_effect :: "runtime_effect \<Rightarrow> agent_runtime \<Rightarrow> agent_runtime" where
  "note_effect e s = s\<lparr>au_effects := au_effects s @ [e]\<rparr>"

definition call_plane :: "runtime_effect \<Rightarrow> control_plane_error + 'a \<Rightarrow> 'a runtime_proc" where
  "call_plane e answer s = (answer, note_effect e s)"

definition heartbeat_of :: "node_info \<Rightarrow> time_point \<Rightarrow> node_heartbeat" where
  "heartbeat_of node now = \<lparr>hb_node_code = ni_node_code node, hb_agent_version = ni_agent_version node,
     hb_reported_at = format_utc_timestamp now\<rparr>"

definition hand_over :: "agent_runtime \<Rightarrow> agent_runtime" where
  "hand_over s = (if au_has_sink s
     then note_effect (ConfigReplaced (pl_tasks (au_config s)) (pl_pending_executions (au_config s))) s else s)"

definition publish_initial_config :: "agent_runtime \<Rightarrow> agent_runtime" where
  "publish_initial_config s = (if au_connected s \<and> \<not> au_published s then hand_over s else s)\<lparr>au_published := True\<rparr>"

definition adopt_config :: "pulled_agent_config \<Rightarrow> agent_runtime \<Rightarrow> agent_runtime" where
  "adopt_config c s = hand_over (s\<lparr>au_config := c\<rparr>)"

definition reconnect :: "runtime_turn \<Rightarrow> bool runtime_proc" where
  "reconnect t =
     seqp (gets au_node) (\<lambda>node.
     seqp (call_plane (NodeAnnounced node) (rn_register t)) (\<lambda>_.
       if rn_stop_registered t then ret False
       else seqp (call_plane (HeartbeatSent (heartbeat_of node (rn_system t))) (rn_heartbeat t)) (\<lambda>_.
         if rn_stop_reported t then ret False
         else seqp (call_plane (ConfigRequested (ni_node_code node)) (rn_fetch t)) (\<lambda>c.
           seqp (modify (\<lambda>s. (adopt_config c s)\<lparr>au_published := True\<rparr>)) (\<lambda>_. ret True)))))"

text \<open>A failure is logged; only refused credentials pass on.\<close>

definition tolerate :: "unit runtime_proc \<Rightarrow> unit runtime_proc" where
  "tolerate m s = (case m s of (Inl e, s') \<Rightarrow> (if is_auth_rejection (base_error e) then Inl e else Inr (), s') | r \<Rightarrow> r)"

definition runtime_heartbeat :: "runtime_turn \<Rightarrow> unit runtime_proc" where
  "runtime_heartbeat t = tolerate (seqp (gets au_node) (\<lambda>node.
     call_plane (HeartbeatSent (heartbeat_of node (rn_system t))) (rn_heartbeat t)))"

definition refresh_config :: "runtime_turn \<Rightarrow> unit runtime_proc" where
  "refresh_config t = tolerate (seqp (gets au_node) (\<lambda>node.
     seqp (call_plane (ConfigRequested (ni_node_code node)) (rn_fetch t)) (\<lambda>c. modify (adopt_config c))))"

section \<open>The loop\<close>

definition wait_for :: "int \<Rightarrow> unit runtime_proc" where
  "wait_for deadline = modify (note_effect (WaitedUntil deadline))"

definition back_off :: "runtime_turn \<Rightarrow> agent_runtime \<Rightarrow> agent_runtime" where
  "back_off t s = s\<lparr>au_next_reconnect := rn_reconnected t + au_delay s, au_delay := min (au_reconnect_max s) (au_delay s * 2)\<rparr>"

text \<open>A pass answers whether the loop goes on.\<close>

definition disconnected_pass :: "runtime_turn \<Rightarrow> bool runtime_proc" where
  "disconnected_pass t s =
     (let pause = seqp (gets au_next_reconnect) (\<lambda>at. seqp (wait_for at) (\<lambda>_. ret True)) in
      if au_next_reconnect s \<le> rn_now t then
        (case reconnect t s of
           (Inr True, s') \<Rightarrow>
             (Inr True, s'\<lparr>au_connected := True, au_delay := au_reconnect_initial s',
               au_next_heartbeat := rn_reconnected t + au_heartbeat_interval s',
               au_next_poll := rn_reconnected t + au_poll_interval s'\<rparr>)
         | (Inr False, s') \<Rightarrow> pause (back_off t s')
         | (Inl e, s') \<Rightarrow>
             if is_auth_rejection (base_error e) \<or> \<not> is_transient (base_error e) then (Inl e, s') else pause (back_off t s'))
      else pause s)"

definition connected_pass :: "runtime_turn \<Rightarrow> bool runtime_proc" where
  "connected_pass t =
     seqp (gets au_next_heartbeat) (\<lambda>heartbeat_due.
     seqp (if heartbeat_due \<le> rn_now t
           then seqp (runtime_heartbeat t) (\<lambda>_. modify (\<lambda>s. s\<lparr>au_next_heartbeat := rn_after_heartbeat t + au_heartbeat_interval s\<rparr>))
           else ret ()) (\<lambda>_.
       if rn_stop_heartbeat t then ret False
       else
       seqp (gets au_next_poll) (\<lambda>poll_due.
       seqp (if poll_due \<le> rn_poll_now t
             then seqp (refresh_config t) (\<lambda>_. modify (\<lambda>s. s\<lparr>au_next_poll := rn_after_poll t + au_poll_interval s\<rparr>))
             else ret ()) (\<lambda>_.
         if rn_stop_poll t then ret False
         else seqp (gets (\<lambda>s. min (au_next_heartbeat s) (au_next_poll s))) (\<lambda>at. seqp (wait_for at) (\<lambda>_. ret True))))))"

definition runtime_pass :: "runtime_turn \<Rightarrow> bool runtime_proc" where
  "runtime_pass t s = (if au_connected s then connected_pass t s else disconnected_pass t s)"

text \<open>\<open>None\<close> is a loop still running when the script is over.\<close>

fun runtime_loop :: "runtime_turn list \<Rightarrow> agent_runtime \<Rightarrow> (control_plane_error + pulled_agent_config) option \<times> agent_runtime" where
  "runtime_loop [] s = (None, s)"
| "runtime_loop (t # ts) s =
     (if rn_stop t then (Some (Inr (au_config s)), s)
      else case runtime_pass t s of
        (Inl e, s') \<Rightarrow> (Some (Inl e), s')
      | (Inr go_on, s') \<Rightarrow> if go_on then runtime_loop ts s' else (Some (Inr (au_config s')), s'))"

definition start_loop :: "int \<Rightarrow> agent_runtime \<Rightarrow> agent_runtime" where
  "start_loop now s = (publish_initial_config s)\<lparr>au_next_heartbeat := now + au_heartbeat_interval s,
     au_next_poll := now + au_poll_interval s, au_delay := au_reconnect_initial s, au_next_reconnect := now\<rparr>"

definition run_runtime :: "int \<Rightarrow> runtime_turn list \<Rightarrow> agent_runtime \<Rightarrow> (control_plane_error + pulled_agent_config) option \<times> agent_runtime" where
  "run_runtime now ts s = runtime_loop ts (start_loop now s)"

section \<open>The first contact and the parts of the process\<close>

definition send_once :: "runtime_effect \<Rightarrow> 'e + 'a \<Rightarrow> (runtime_effect list, 'e, 'a) proc" where
  "send_once e answer es = (answer, es @ [e])"

definition startup_handshake :: "node_info \<Rightarrow> time_point \<Rightarrow> control_plane_error + unit \<Rightarrow> control_plane_error + unit \<Rightarrow>
    control_plane_error + pulled_agent_config \<Rightarrow> (runtime_effect list, control_plane_error, pulled_agent_config) proc" where
  "startup_handshake node now register heartbeat fetch =
     seqp (send_once (NodeAnnounced node) register) (\<lambda>_.
     seqp (send_once (HeartbeatSent (heartbeat_of node now)) heartbeat) (\<lambda>_.
       send_once (ConfigRequested (ni_node_code node)) fetch))"

text \<open>The process starts without the control plane only where waiting may help.\<close>

definition first_contact :: "control_plane_error + pulled_agent_config \<Rightarrow> control_plane_error + pulled_agent_config \<times> bool" where
  "first_contact outcome =
     (case outcome of
        Inr c \<Rightarrow> Inr (c, True)
      | Inl e \<Rightarrow> if is_auth_rejection (base_error e) \<or> \<not> is_transient (base_error e) then Inl e else Inr (empty_config, False))"

text \<open>The parts \<open>main\<close> builds from the configuration, apart from the queue and the executor, which are on the disk.\<close>

definition control_client_of :: "agent_startup_config \<Rightarrow> agent_exn + control_plane_client" where
  "control_client_of c =
     make_control_plane_client (ac_server_url c) (ac_request_timeout c) (ni_node_code (ac_node c)) (ac_auth_token c)"

definition delivery_settings_of :: "agent_startup_config \<Rightarrow> agent_exn + delivery_config" where
  "delivery_settings_of c = make_delivery_config (ac_retry_initial c) (ac_retry_max c) (ac_max_request_body_bytes c)"

definition runtime_of :: "agent_startup_config \<Rightarrow> pulled_agent_config \<times> bool \<Rightarrow> agent_exn + agent_runtime" where
  "runtime_of c contact =
     make_runtime (ac_node c) (ac_heartbeat_interval c) (ac_config_poll_interval c) (fst contact) True (snd contact)
       (ac_retry_initial c * 1000) (ac_retry_max c * 1000)"

text \<open>\<open>AgentApplication::run\<close> joins both threads: a failure of the runtime goes before one of the scheduler.\<close>

definition application_outcome :: "'e + 'c \<Rightarrow> 'w option \<Rightarrow> ('e + 'w) + 'c" where
  "application_outcome run worker =
     (case run of Inl e \<Rightarrow> Inl (Inl e) | Inr c \<Rightarrow> (case worker of Some w \<Rightarrow> Inl (Inr w) | None \<Rightarrow> Inr c))"

section \<open>What a pass does\<close>

fun replaced :: "runtime_effect list \<Rightarrow> (task_config list \<times> pending_execution list) list" where
  "replaced [] = []"
| "replaced (ConfigReplaced ts ps # es) = (ts, ps) # replaced es"
| "replaced (_ # es) = replaced es"

fun waits :: "runtime_effect list \<Rightarrow> int list" where
  "waits [] = []"
| "waits (WaitedUntil at # es) = at # waits es"
| "waits (_ # es) = waits es"

lemma effects_append [simp]: "replaced (xs @ ys) = replaced xs @ replaced ys" "waits (xs @ ys) = waits xs @ waits ys"
  by (induction xs rule: replaced.induct) simp_all

definition config_parts :: "pulled_agent_config \<Rightarrow> task_config list \<times> pending_execution list" where
  "config_parts c = (pl_tasks c, pl_pending_executions c)"

text \<open>The scheduler holds what the runtime holds.\<close>

definition in_step :: "agent_runtime \<Rightarrow> bool" where
  "in_step s \<longleftrightarrow> (au_connected s \<and> au_has_sink s \<longrightarrow>
     (\<exists>before. replaced (au_effects s) = before @ [config_parts (au_config s)]))"

definition answered_error :: "runtime_turn \<Rightarrow> control_plane_error \<Rightarrow> bool" where
  "answered_error t e \<longleftrightarrow> rn_register t = Inl e \<or> rn_heartbeat t = Inl e \<or> rn_fetch t = Inl e"

lemmas runtime_steps = seqp_def gets_def ret_def modify_def call_plane_def note_effect_def adopt_config_def hand_over_def tolerate_def
  wait_for_def back_off_def

lemma reconnect_result:
  assumes "reconnect t s = (r, s')"
  shows "s' = s\<lparr>au_config := au_config s', au_effects := au_effects s', au_published := au_published s'\<rparr> \<and>
    waits (au_effects s') = waits (au_effects s) \<and>
    (case r of
       Inl e \<Rightarrow> answered_error t e \<and> au_config s' = au_config s \<and> replaced (au_effects s') = replaced (au_effects s)
     | Inr True \<Rightarrow> rn_fetch t = Inr (au_config s') \<and>
         replaced (au_effects s') = replaced (au_effects s) @ (if au_has_sink s then [config_parts (au_config s')] else [])
     | Inr False \<Rightarrow> au_config s' = au_config s \<and> replaced (au_effects s') = replaced (au_effects s))"
  using assms
  by (auto simp: reconnect_def runtime_steps config_parts_def answered_error_def split: sum.splits if_splits)

lemma heartbeat_result:
  assumes "runtime_heartbeat t s = (r, s')"
  shows "s' = s\<lparr>au_effects := au_effects s'\<rparr> \<and> replaced (au_effects s') = replaced (au_effects s) \<and>
    (\<forall>e. r = Inl e \<longrightarrow> answered_error t e \<and> is_auth_rejection (base_error e))"
  using assms by (auto simp: runtime_heartbeat_def runtime_steps answered_error_def split: sum.splits if_splits)

lemma refresh_result:
  assumes "refresh_config t s = (r, s')"
  shows "s' = s\<lparr>au_config := au_config s', au_effects := au_effects s'\<rparr> \<and>
    (\<forall>e. r = Inl e \<longrightarrow> answered_error t e \<and> is_auth_rejection (base_error e)) \<and>
    (au_config s' = au_config s \<and> replaced (au_effects s') = replaced (au_effects s) \<or>
     rn_fetch t = Inr (au_config s') \<and>
       replaced (au_effects s') = replaced (au_effects s) @ (if au_has_sink s then [config_parts (au_config s')] else []))"
  using assms by (auto simp: refresh_config_def runtime_steps answered_error_def config_parts_def split: sum.splits if_splits)

text \<open>What a pass may leave behind.\<close>

definition pass_result :: "runtime_turn \<Rightarrow> agent_runtime \<Rightarrow> agent_runtime \<Rightarrow> bool" where
  "pass_result t s s' \<longleftrightarrow> au_has_sink s' = au_has_sink s \<and> (au_connected s \<longrightarrow> au_connected s') \<and>
     (au_config s' = au_config s \<and> au_connected s' = au_connected s \<and> replaced (au_effects s') = replaced (au_effects s) \<or>
      rn_fetch t = Inr (au_config s') \<and>
        replaced (au_effects s') = replaced (au_effects s) @ (if au_has_sink s then [config_parts (au_config s')] else []))"

lemma disconnected_result:
  assumes "disconnected_pass t s = (r, s')"
  shows "pass_result t s s' \<and>
    (\<forall>e. r = Inl e \<longrightarrow> answered_error t e \<and> au_connected s' = au_connected s \<and>
       (is_auth_rejection (base_error e) \<or> \<not> is_transient (base_error e)))"
proof (cases "au_next_reconnect s \<le> rn_now t")
  case False
  with assms show ?thesis by (auto simp: disconnected_pass_def runtime_steps pass_result_def)
next
  case True
  obtain a s1 where a: "reconnect t s = (a, s1)" by (cases "reconnect t s")
  note parts = reconnect_result[OF a]
  have keep: "au_has_sink s1 = au_has_sink s" "au_connected s1 = au_connected s" by (subst parts[THEN conjunct1], simp)+
  show ?thesis
    using assms True a parts[THEN conjunct2] keep
    by (auto simp: disconnected_pass_def runtime_steps pass_result_def split: sum.splits if_splits bool.splits)
qed

lemma connected_result:
  assumes "connected_pass t s = (r, s')"
  shows "pass_result t s s' \<and> au_connected s' = au_connected s \<and> (\<forall>e. r = Inl e \<longrightarrow> answered_error t e \<and> is_auth_rejection (base_error e))"
proof -
  obtain a s1 where a: "(if au_next_heartbeat s \<le> rn_now t
      then seqp (runtime_heartbeat t) (\<lambda>_. modify (\<lambda>s. s\<lparr>au_next_heartbeat := rn_after_heartbeat t + au_heartbeat_interval s\<rparr>))
      else ret ()) s = (a, s1)" by fastforce
  obtain h s0 where h: "runtime_heartbeat t s = (h, s0)" by (cases "runtime_heartbeat t s")
  have one: "au_has_sink s1 = au_has_sink s \<and> au_connected s1 = au_connected s \<and> au_config s1 = au_config s \<and>
      replaced (au_effects s1) = replaced (au_effects s) \<and> (\<forall>e. a = Inl e \<longrightarrow> answered_error t e \<and> is_auth_rejection (base_error e))"
  proof (cases "au_next_heartbeat s \<le> rn_now t")
    case True
    note p = heartbeat_result[OF h]
    have "au_has_sink s0 = au_has_sink s" "au_connected s0 = au_connected s" "au_config s0 = au_config s" by (subst p[THEN conjunct1], simp)+
    with True a h p[THEN conjunct2] show ?thesis by (auto simp: seqp_def modify_def split: sum.splits)
  next
    case False
    with a show ?thesis by (auto simp: ret_def)
  qed
  obtain b s3 where b: "(if au_next_poll s1 \<le> rn_poll_now t
      then seqp (refresh_config t) (\<lambda>_. modify (\<lambda>s. s\<lparr>au_next_poll := rn_after_poll t + au_poll_interval s\<rparr>))
      else ret ()) s1 = (b, s3)" by fastforce
  obtain f s2 where f: "refresh_config t s1 = (f, s2)" by (cases "refresh_config t s1")
  have two: "pass_result t s1 s3 \<and> au_connected s3 = au_connected s1 \<and>
      (\<forall>e. b = Inl e \<longrightarrow> answered_error t e \<and> is_auth_rejection (base_error e))"
  proof (cases "au_next_poll s1 \<le> rn_poll_now t")
    case True
    note p = refresh_result[OF f]
    have "au_has_sink s2 = au_has_sink s1" "au_connected s2 = au_connected s1" by (subst p[THEN conjunct1], simp)+
    with True b f p[THEN conjunct2] show ?thesis by (auto simp: seqp_def modify_def pass_result_def split: sum.splits)
  next
    case False
    with b show ?thesis by (auto simp: ret_def pass_result_def)
  qed
  have "(r, s') = (case a of Inl e \<Rightarrow> (Inl e, s1) | Inr _ \<Rightarrow> if rn_stop_heartbeat t then (Inr False, s1)
      else case b of Inl e \<Rightarrow> (Inl e, s3) | Inr _ \<Rightarrow> if rn_stop_poll t then (Inr False, s3)
      else (Inr True, note_effect (WaitedUntil (min (au_next_heartbeat s3) (au_next_poll s3))) s3))"
    using a b unfolding assms[symmetric] connected_pass_def
    by (cases a; cases b) (simp_all add: seqp_def gets_def ret_def wait_for_def modify_def)
  with one two show ?thesis
    by (cases a; cases b) (auto simp: pass_result_def note_effect_def split: if_splits)
qed

lemma runtime_pass_result:
  assumes "runtime_pass t s = (r, s')"
  shows "pass_result t s s' \<and> (\<forall>e. r = Inl e \<longrightarrow> answered_error t e \<and>
      (is_auth_rejection (base_error e) \<or> \<not> au_connected s' \<and> \<not> is_transient (base_error e)))"
  using assms disconnected_result[of t s r s'] connected_result[of t s r s']
  by (auto simp: runtime_pass_def pass_result_def split: if_splits)

section \<open>The loop keeps the scheduler in step\<close>

lemma in_step_pass: "in_step s \<Longrightarrow> pass_result t s s' \<Longrightarrow> in_step s'"
  by (auto simp: in_step_def pass_result_def)

lemma loop_in_step:
  assumes "runtime_loop ts s = (r, s')" "in_step s"
  shows "in_step s' \<and> (au_config s' = au_config s \<or> (\<exists>t \<in> set ts. rn_fetch t = Inr (au_config s'))) \<and>
    (case r of
       Some (Inr c) \<Rightarrow> c = au_config s'
     | Some (Inl e) \<Rightarrow> (\<exists>t \<in> set ts. answered_error t e) \<and>
         (is_auth_rejection (base_error e) \<or> \<not> au_connected s' \<and> \<not> is_transient (base_error e))
     | None \<Rightarrow> True)"
  using assms
proof (induction ts arbitrary: s)
  case (Cons t ts)
  show ?case
  proof (cases "rn_stop t")
    case True
    with Cons.prems show ?thesis by auto
  next
    case False
    obtain a s1 where a: "runtime_pass t s = (a, s1)" by (cases "runtime_pass t s")
    note p = runtime_pass_result[OF a]
    have step: "in_step s1" "au_config s1 = au_config s \<or> rn_fetch t = Inr (au_config s1)"
      using p Cons.prems(2) in_step_pass by (blast, auto simp: pass_result_def)
    show ?thesis
    proof (cases "a = Inr True")
      case True
      then have "runtime_loop ts s1 = (r, s')" using Cons.prems(1) False a by simp
      from Cons.IH[OF this step(1)] step(2) show ?thesis by (auto split: option.splits sum.splits)
    next
      case stopped: False
      then have "s' = s1 \<and> (case a of Inl e \<Rightarrow> r = Some (Inl e) | Inr _ \<Rightarrow> r = Some (Inr (au_config s1)))"
        using Cons.prems(1) False a by (auto split: sum.splits)
      with step p show ?thesis by (auto split: sum.splits)
    qed
  qed
qed simp

lemma start_in_step:
  assumes "make_runtime node hb poll c0 sink connected initial maximum = Inr s"
  shows "in_step (start_loop now s)" "au_config (start_loop now s) = c0"
  using assms by (auto simp: make_runtime_def start_loop_def publish_initial_config_def hand_over_def note_effect_def in_step_def config_parts_def
      split: if_splits)

text \<open>
  C37. Whatever the clock, the operator and the control plane do, a connected agent schedules by the configuration it
  holds: what it handed to the scheduler last is its current configuration, which is the first one or one the control
  plane answered. It stops by itself only because of an answer that refuses its credentials, or, as long as it never
  reached the control plane, one that no waiting mends; a normal end returns the current configuration.
\<close>

theorem agent_keeps_in_step:
  assumes "make_runtime node hb poll c0 sink connected initial maximum = Inr s" "run_runtime now ts s = (r, s')"
  shows "(au_connected s' \<and> au_has_sink s' \<longrightarrow>
      (\<exists>before. replaced (au_effects s') = before @ [(pl_tasks (au_config s'), pl_pending_executions (au_config s'))])) \<and>
    (au_config s' = c0 \<or> (\<exists>t \<in> set ts. rn_fetch t = Inr (au_config s'))) \<and>
    (case r of
       Some (Inr c) \<Rightarrow> c = au_config s'
     | Some (Inl e) \<Rightarrow> (\<exists>t \<in> set ts. rn_register t = Inl e \<or> rn_heartbeat t = Inl e \<or> rn_fetch t = Inl e) \<and>
         (is_auth_rejection (base_error e) \<or> \<not> au_connected s' \<and> \<not> is_transient (base_error e))
     | None \<Rightarrow> True)"
  using loop_in_step[OF assms(2)[unfolded run_runtime_def] start_in_step(1)[OF assms(1)]]
  unfolding in_step_def config_parts_def answered_error_def start_in_step(2)[OF assms(1)] .

section \<open>Reconnecting\<close>

text \<open>A turn in which the control plane is out of reach, and one in which it answers.\<close>

definition unreachable :: "runtime_turn \<Rightarrow> bool" where
  "unreachable t \<longleftrightarrow> \<not> rn_stop t \<and> (\<exists>e. is_transient (base_error e) \<and> \<not> is_auth_rejection (base_error e) \<and>
     (rn_register t = Inl e \<or> \<not> rn_stop_registered t \<and> rn_register t = Inr () \<and>
       (rn_heartbeat t = Inl e \<or> \<not> rn_stop_reported t \<and> rn_heartbeat t = Inr () \<and> rn_fetch t = Inl e)))"

definition reachable_again :: "runtime_turn \<Rightarrow> pulled_agent_config \<Rightarrow> bool" where
  "reachable_again t c \<longleftrightarrow> \<not> rn_stop t \<and> rn_register t = Inr () \<and> rn_heartbeat t = Inr () \<and> rn_fetch t = Inr c \<and>
     \<not> rn_stop_registered t \<and> \<not> rn_stop_reported t"

text \<open>Waiting lasts until its deadline: every turn begins when the next attempt is due.\<close>

fun patient :: "int \<Rightarrow> int \<Rightarrow> int \<Rightarrow> runtime_turn list \<Rightarrow> bool" where
  "patient at delay maximum [] = True"
| "patient at delay maximum (t # ts) = (at \<le> rn_now t \<and> patient (rn_reconnected t + delay) (min maximum (delay * 2)) maximum ts)"

definition nth_delay :: "int \<Rightarrow> int \<Rightarrow> nat \<Rightarrow> int" where
  "nth_delay initial maximum k = min maximum (initial * 2 ^ k)"

lemma unreachable_pass:
  assumes "unreachable t" "\<not> au_connected s" "au_next_reconnect s \<le> rn_now t"
  shows "\<exists>s'. runtime_pass t s = (Inr True, s') \<and> \<not> au_connected s' \<and> au_config s' = au_config s \<and> au_has_sink s' = au_has_sink s \<and>
    au_reconnect_initial s' = au_reconnect_initial s \<and> au_reconnect_max s' = au_reconnect_max s \<and>
    au_next_reconnect s' = rn_reconnected t + au_delay s \<and> au_delay s' = min (au_reconnect_max s) (au_delay s * 2) \<and>
    replaced (au_effects s') = replaced (au_effects s) \<and> waits (au_effects s') = waits (au_effects s) @ [rn_reconnected t + au_delay s]"
  using assms
  by (auto simp: unreachable_def runtime_pass_def disconnected_pass_def reconnect_def runtime_steps split: if_splits)

lemma nth_delay_step: "0 < initial \<Longrightarrow> initial \<le> maximum \<Longrightarrow> min maximum (nth_delay initial maximum k * 2) = nth_delay initial maximum (Suc k)"
  by (auto simp: nth_delay_def min_def)

lemma unreachable_turns:
  assumes "\<forall>t \<in> set ts. unreachable t" "\<not> au_connected s" "au_delay s = nth_delay initial maximum k" "au_reconnect_max s = maximum"
    and "au_reconnect_initial s = initial" "0 < initial" "initial \<le> maximum"
    and "patient (au_next_reconnect s) (au_delay s) maximum (ts @ later)"
  shows "\<exists>s'. (\<forall>rest. runtime_loop (ts @ rest) s = runtime_loop rest s') \<and> \<not> au_connected s' \<and> au_config s' = au_config s \<and>
    au_has_sink s' = au_has_sink s \<and> au_reconnect_initial s' = initial \<and> au_reconnect_max s' = maximum \<and>
    au_delay s' = nth_delay initial maximum (k + length ts) \<and> replaced (au_effects s') = replaced (au_effects s) \<and>
    patient (au_next_reconnect s') (au_delay s') maximum later \<and>
    waits (au_effects s') = waits (au_effects s) @
      map (\<lambda>i. rn_reconnected (ts ! i) + nth_delay initial maximum (k + i)) [0..<length ts]"
  using assms
proof (induction ts arbitrary: s k)
  case (Cons t ts)
  obtain s1 where s1: "runtime_pass t s = (Inr True, s1)" "\<not> au_connected s1" "au_config s1 = au_config s" "au_has_sink s1 = au_has_sink s"
      "au_reconnect_initial s1 = initial" "au_reconnect_max s1 = maximum" "au_next_reconnect s1 = rn_reconnected t + au_delay s"
      "au_delay s1 = min maximum (au_delay s * 2)" "replaced (au_effects s1) = replaced (au_effects s)"
      "waits (au_effects s1) = waits (au_effects s) @ [rn_reconnected t + au_delay s]"
    using unreachable_pass[of t s] Cons.prems by auto
  have delay: "au_delay s1 = nth_delay initial maximum (Suc k)" using s1(8) Cons.prems(3,6,7) nth_delay_step by simp
  have "patient (au_next_reconnect s1) (au_delay s1) maximum (ts @ later)" using Cons.prems(8) s1(7,8) by simp
  from Cons.IH[OF _ s1(2) delay s1(6,5) Cons.prems(6,7) this] Cons.prems(1)[unfolded list.set ball_simps(7)] obtain s2 where
    s2: "\<forall>rest. runtime_loop (ts @ rest) s1 = runtime_loop rest s2" "\<not> au_connected s2" "au_config s2 = au_config s1"
      "au_has_sink s2 = au_has_sink s1" "au_reconnect_initial s2 = initial" "au_reconnect_max s2 = maximum"
      "au_delay s2 = nth_delay initial maximum (Suc k + length ts)" "replaced (au_effects s2) = replaced (au_effects s1)"
      "patient (au_next_reconnect s2) (au_delay s2) maximum later"
      "waits (au_effects s2) = waits (au_effects s1) @ map (\<lambda>i. rn_reconnected (ts ! i) + nth_delay initial maximum (Suc k + i)) [0..<length ts]"
    by blast
  have "\<forall>rest. runtime_loop ((t # ts) @ rest) s = runtime_loop rest s2"
    using s1(1) s2(1) Cons.prems(1) by (simp add: unreachable_def)
  moreover have "waits (au_effects s2) = waits (au_effects s) @
      map (\<lambda>i. rn_reconnected ((t # ts) ! i) + nth_delay initial maximum (k + i)) [0..<length (t # ts)]"
    using s2(10) s1(10) Cons.prems(3) by (simp add: map_upt_Suc del: upt_Suc)
  moreover have "au_config s2 = au_config s" "au_has_sink s2 = au_has_sink s" "replaced (au_effects s2) = replaced (au_effects s)"
    "au_delay s2 = nth_delay initial maximum (k + length (t # ts))"
    using s2(3,4,7,8) s1(3,4,9) by simp_all
  ultimately show ?case using s2(2,5,6,9) by blast
qed (auto simp: exI)

lemma reachable_pass:
  assumes "reachable_again t c" "\<not> au_connected s" "au_next_reconnect s \<le> rn_now t" "au_has_sink s"
  shows "\<exists>s'. runtime_pass t s = (Inr True, s') \<and> au_connected s' \<and> au_config s' = c \<and>
    replaced (au_effects s') = replaced (au_effects s) @ [config_parts c] \<and> waits (au_effects s') = waits (au_effects s) \<and>
    au_delay s' = au_reconnect_initial s"
  using assms
  by (simp add: reachable_again_def runtime_pass_def disconnected_pass_def reconnect_def runtime_steps config_parts_def)

text \<open>
  C38. An agent that starts without the control plane comes back by itself: however many attempts fail for want of
  the control plane, the first that is answered connects the agent, gives the pulled configuration to the scheduler,
  which got nothing before, and resets the pause. The pauses between the attempts double from the configured initial
  one up to the configured maximum.
\<close>

theorem agent_reconnects:
  assumes "make_runtime node hb poll c0 True False initial maximum = Inr s"
    and "\<forall>t \<in> set ts. unreachable t" "reachable_again t c" "patient now initial maximum (ts @ [t])"
  shows "\<exists>s'. run_runtime now (ts @ t # rest) s = runtime_loop rest s' \<and> au_connected s' \<and> au_config s' = c \<and>
    replaced (au_effects s') = [(pl_tasks c, pl_pending_executions c)] \<and> au_delay s' = initial \<and>
    waits (au_effects s') = map (\<lambda>i. rn_reconnected (ts ! i) + min maximum (initial * 2 ^ i)) [0..<length ts]"
proof -
  let ?s = "start_loop now s"
  have bounds: "0 < initial" "initial \<le> maximum" using assms(1) by (simp_all add: make_runtime_def split: if_splits)
  have start: "\<not> au_connected ?s" "au_delay ?s = nth_delay initial maximum 0" "au_reconnect_max ?s = maximum"
      "au_reconnect_initial ?s = initial" "au_has_sink ?s" "replaced (au_effects ?s) = []" "waits (au_effects ?s) = []"
      "patient (au_next_reconnect ?s) (au_delay ?s) maximum (ts @ [t])"
    using assms(1,4) bounds
    by (auto simp: make_runtime_def start_loop_def publish_initial_config_def nth_delay_def split: if_splits)
  from unreachable_turns[OF assms(2) start(1-4) bounds start(8)] obtain s1 where
    s1: "\<forall>rest. runtime_loop (ts @ rest) ?s = runtime_loop rest s1" "\<not> au_connected s1" "au_has_sink s1 = au_has_sink ?s"
      "au_reconnect_initial s1 = initial" "replaced (au_effects s1) = replaced (au_effects ?s)"
      "patient (au_next_reconnect s1) (au_delay s1) maximum [t]"
      "waits (au_effects s1) = waits (au_effects ?s) @ map (\<lambda>i. rn_reconnected (ts ! i) + nth_delay initial maximum (0 + i)) [0..<length ts]"
    by blast
  obtain s2 where s2: "runtime_pass t s1 = (Inr True, s2)" "au_connected s2" "au_config s2 = c"
      "replaced (au_effects s2) = replaced (au_effects s1) @ [config_parts c]" "waits (au_effects s2) = waits (au_effects s1)"
      "au_delay s2 = au_reconnect_initial s1"
    using reachable_pass[OF assms(3) s1(2)] s1(3,6) start(5) by auto
  have "run_runtime now (ts @ t # rest) s = runtime_loop rest s2"
    using s1(1)[THEN spec, of "t # rest"] s2(1) assms(3) by (simp add: run_runtime_def reachable_again_def)
  then show ?thesis
    using s2 s1(4,5,7) start(6,7) by (auto simp: config_parts_def nth_delay_def)
qed

section \<open>A loaded configuration\<close>

lemma token_not_empty: "is_valid_hex_token t \<Longrightarrow> t \<noteq> []"
  by (auto simp: is_valid_hex_token_def)

text \<open>
  C39. A configuration that loads is fit for every part the process builds from it: the control plane client, the
  delivery and the runtime are made without an exception, the queue and the executor get limits they accept, the
  token is well formed and the queue database lies outside the directories tasks may read.
\<close>

theorem loaded_configuration_fits:
  assumes "load_agent_config w prefix base source = Inr c"
  shows "(\<exists>cl. control_client_of c = Inr cl \<and> cc_node_code cl = ni_node_code (ac_node c) \<and> cc_auth_token cl = ac_auth_token c) \<and>
    (\<exists>dc. delivery_settings_of c = Inr dc) \<and> (\<exists>s. runtime_of c contact = Inr s) \<and>
    0 < ac_max_pending_jobs c \<and> 0 < ac_processed_capacity c \<and> 0 < ac_max_files_per_run c \<and> ac_allowed_local_roots c \<noteq> [] \<and>
    is_valid_hex_token (ac_auth_token c) \<and> (\<forall>root \<in> set (ac_allowed_local_roots c). \<not> is_within (ac_queue_db c) root)"
proof -
  obtain root where "parse_agent_config_node w base root = Inr c"
    using assms by (auto simp: load_agent_config_def split: option.splits sum.splits)
  note fit = parsed_config_fit[OF this, unfolded fit_config_def]
  obtain u where "parse_server_url (ac_server_url c) = Inr u" using fit by blast
  then show ?thesis
    using fit token_not_empty by (auto simp: control_client_of_def make_control_plane_client_def delivery_settings_of_def make_delivery_config_def
        runtime_of_def make_runtime_def)
qed

section \<open>Examples\<close>

definition example_node :: node_info where
  "example_node = \<lparr>ni_node_code = ''n1'', ni_name = ''Node'', ni_agent_version = ''0.1.0''\<rparr>"

definition refused_credentials :: control_plane_error where
  "refused_credentials = \<lparr>cp_kind = CpServerError, cp_message = ''m'', cp_http_status = 401, cp_server_code = ''unauthenticated''\<rparr>"

definition no_network :: control_plane_error where
  "no_network = \<lparr>cp_kind = CpNetwork, cp_message = ''m'', cp_http_status = 0, cp_server_code = []\<rparr>"

definition example_turn :: runtime_turn where
  "example_turn = \<lparr>rn_stop = False, rn_now = 1000, rn_system = 0, rn_register = Inr (), rn_heartbeat = Inr (), rn_fetch = Inr empty_config,
     rn_stop_registered = False, rn_stop_reported = False, rn_reconnected = 1000, rn_after_heartbeat = 1000, rn_stop_heartbeat = False,
     rn_poll_now = 1000, rn_after_poll = 1000, rn_stop_poll = False\<rparr>"

definition example_runtime :: "bool \<Rightarrow> agent_runtime" where
  "example_runtime connected = projr (make_runtime example_node 500 60000 empty_config True connected 2000 300000)"

lemma example_runtime: "make_runtime example_node 500 60000 empty_config True connected 2000 300000 = Inr (example_runtime connected)"
  by (simp add: example_runtime_def make_runtime_def)

theorem agent_keeps_in_step_witness:
  "is_auth_rejection (base_error refused_credentials) \<or>
     \<not> au_connected (snd (run_runtime 0 [example_turn\<lparr>rn_heartbeat := Inl refused_credentials\<rparr>] (example_runtime True))) \<and>
     \<not> is_transient (base_error refused_credentials)"
proof -
  have "fst (run_runtime 0 [example_turn\<lparr>rn_heartbeat := Inl refused_credentials\<rparr>] (example_runtime True)) = Some (Inl refused_credentials)"
    by code_simp
  then have "run_runtime 0 [example_turn\<lparr>rn_heartbeat := Inl refused_credentials\<rparr>] (example_runtime True) = (Some (Inl refused_credentials),
      snd (run_runtime 0 [example_turn\<lparr>rn_heartbeat := Inl refused_credentials\<rparr>] (example_runtime True)))" by (metis prod.collapse)
  from agent_keeps_in_step[OF example_runtime this] show ?thesis by simp
qed

theorem agent_reconnects_witness:
  "\<exists>s'. run_runtime 0 [example_turn\<lparr>rn_register := Inl no_network\<rparr>, example_turn\<lparr>rn_now := 3000\<rparr>] (example_runtime False) = (None, s') \<and>
     au_connected s' \<and> waits (au_effects s') = [3000]"
proof -
  have "unreachable (example_turn\<lparr>rn_register := Inl no_network\<rparr>)"
    by (auto simp: unreachable_def example_turn_def is_transient_def is_auth_rejection_def base_error_def no_network_def)
  moreover have "reachable_again (example_turn\<lparr>rn_now := 3000\<rparr>) empty_config" by (simp add: reachable_again_def example_turn_def)
  moreover have "patient 0 2000 300000 ([example_turn\<lparr>rn_register := Inl no_network\<rparr>] @ [example_turn\<lparr>rn_now := 3000\<rparr>])"
    by (simp add: example_turn_def)
  ultimately show ?thesis
    using agent_reconnects[OF example_runtime, of "[example_turn\<lparr>rn_register := Inl no_network\<rparr>]" "example_turn\<lparr>rn_now := 3000\<rparr>"
        empty_config 0 "[]"]
    by (auto simp: example_turn_def)
qed

definition example_config_tree :: yaml where
  "example_config_tree = YMap
     [(YScalar ''agent'', YMap [(YScalar ''node_code'', YScalar ''n1''), (YScalar ''name'', YScalar ''Node''),
        (YScalar ''server_url'', YScalar ''http://center:8080''), (YScalar ''request_timeout_seconds'', YScalar ''30''),
        (YScalar ''heartbeat_interval_seconds'', YScalar ''60''), (YScalar ''token_file'', YScalar ''/etc/token'')]),
      (YScalar ''tasks'', YMap [(YScalar ''poll_interval_seconds'', YScalar ''60''),
        (YScalar ''allowed_local_roots'', YSeq [YScalar ''/data/in''])]),
      (YScalar ''storage'', YMap [(YScalar ''work_dir'', YScalar ''work''), (YScalar ''queue_db'', YScalar ''work/queue.db''),
        (YScalar ''max_pending_jobs'', YScalar ''100''), (YScalar ''processed_fingerprint_capacity_per_task'', YScalar ''1000'')]),
      (YScalar ''delivery'', YMap [(YScalar ''retry_initial_seconds'', YScalar ''5''), (YScalar ''retry_max_seconds'', YScalar ''300'')])]"

definition example_config_world :: config_world where
  "example_config_world = \<lparr>cw_yaml = (\<lambda>_. Some example_config_tree),
     cw_yaml_int = (\<lambda>s. if s \<noteq> [] \<and> list_all isdigit s then Some (int (digits_value 0 s)) else None), cw_yaml_what = [],
     cw_filesystem_what = [], cw_file = (\<lambda>p. if p = [''/'', ''etc'', ''token''] then Some (replicate 64 CHR ''a'') else None),
     cw_canonical = Some, cw_is_directory = (\<lambda>_. False)\<rparr>"

definition example_startup :: agent_startup_config where
  "example_startup = projr (load_agent_config example_config_world [] [''/'', ''etc''] (Some []))"

lemma example_url: "check_url ''http://center:8080'' = Inr ()"
  by (simp add: check_url_def parse_server_url_def kHttpPrefix_def contains_whitespace_def isspace_def split_authority_def validate_port_def
      digits_value_def digit_value_def isdigit_def char_code_def)

lemma example_token_file: "load_agent_token example_config_world [''/'', ''etc'', ''token''] = Inr (replicate 64 CHR ''a'')" by code_simp

lemma example_path:
  "normalized_absolute_path example_config_world ''/etc/token'' [''/'', ''etc''] = Inr [''/'', ''etc'', ''token'']"
  "normalized_absolute_path example_config_world ''work/queue.db'' [''/'', ''etc''] = Inr [''/'', ''etc'', ''work'', ''queue.db'']"
  "normalized_absolute_path example_config_world ''work'' [''/'', ''etc''] = Inr [''/'', ''etc'', ''work'']"
  "canonical_config_path example_config_world (path_of ''/data/in'') = Inr [''/'', ''data'', ''in'']" "is_absolute (path_of ''/data/in'')"
  "is_within [''/'', ''etc'', ''work'', ''queue.db''] [''/'', ''data'', ''in''] = False" "\<not> cw_is_directory example_config_world p"
  by (code_simp, code_simp, code_simp, code_simp, code_simp, code_simp, simp add: example_config_world_def)

lemma example_integer: "list_all isdigit s \<Longrightarrow> s \<noteq> [] \<Longrightarrow> 0 < digits_value 0 s \<Longrightarrow> int (digits_value 0 s) \<le> m \<Longrightarrow>
    parse_positive_integer example_config_world (YScalar s) f p m = Inr (int (digits_value 0 s))"
  by (simp add: parse_positive_integer_def example_config_world_def)

lemma example_loads: "\<exists>c. load_agent_config example_config_world [] [''/'', ''etc''] (Some []) = Inr c"
  by (simp add: load_agent_config_def parse_agent_config_node_def example_config_tree_def config_section_def yaml_field_def yaml_find_def
   config_string_def config_is_blank_def isspace_def char_code_def example_url required_positive_integer_def optional_positive_integer_def example_integer
   isdigit_def digits_value_def digit_value_def maximum_values example_token_file example_path required_allowed_roots_def ensure_def
   example_config_world_def[THEN arg_cong[where f = cw_yaml]])

lemma example_startup_loads: "load_agent_config example_config_world [] [''/'', ''etc''] (Some []) = Inr example_startup"
  using example_loads by (auto simp: example_startup_def)

theorem loaded_configuration_fits_witness:
  "(\<exists>cl. control_client_of example_startup = Inr cl) \<and> (\<exists>dc. delivery_settings_of example_startup = Inr dc) \<and>
    (\<exists>s. runtime_of example_startup (empty_config, False) = Inr s)"
  using loaded_configuration_fits[OF example_startup_loads, of "(empty_config, False)"] by blast

end
