(* ===== verification/Queue_Command.thy ===== *)
theory Queue_Command
  imports Agent_Config Queue_Properties
begin

text \<open>
  The maintenance command \<^verbatim>\<open>labbridge_agent queue\<close> (\<open>agent/src/bootstrap/queue_command.cpp\<close>): its arguments, its output and its
  exit codes over the operations of \<open>Queue_Maintenance\<close>.
\<close>

section \<open>Arguments\<close>

definition kExitOk :: int where "kExitOk = 0"

definition kExitFailure :: int where "kExitFailure = 1"

definition kExitUsage :: int where "kExitUsage = 2"

definition usage_text :: string where
  "usage_text = ''usage:'' @ newline @
     ''  labbridge_agent <config.yaml>                                     '' @ ''run the agent'' @ newline @
     ''  labbridge_agent queue list --config <agent.yaml>                  '' @ ''list jobs waiting for attention'' @ newline @
     ''  labbridge_agent queue show <execution_key> --config <agent.yaml>  '' @ ''show details of one attention job'' @ newline @
     ''  labbridge_agent queue retry <execution_key> --config <agent.yaml> '' @ ''allow one attention job to resume'' @ newline @
     newline @
     ''queue commands only read agent.node_code and storage.queue_db.'' @ newline @
     ''retry sends nothing: view the reason, stop the agent, fix the '' @ ''external cause,'' @ newline @
     ''run retry, then start the agent again.'' @ newline"

record queue_args =
  qa_verb :: string
  qa_execution_key :: string
  qa_config_path :: string

datatype parse_outcome = Parsed queue_args | HelpShown | Invalid

definition check_args :: "queue_args \<Rightarrow> parse_outcome" where
  "check_args a =
     (let needs_key = qa_verb a = ''show'' \<or> qa_verb a = ''retry'' in
      if qa_verb a \<noteq> ''list'' \<and> \<not> needs_key then Invalid
      else if needs_key = (qa_execution_key a = []) then Invalid
      else if qa_config_path a = [] then Invalid
      else Parsed a)"

fun parse_tokens :: "queue_args \<Rightarrow> string list \<Rightarrow> parse_outcome" where
  "parse_tokens a [] = check_args a"
| "parse_tokens a (token # rest) =
     (if token = ''-h'' \<or> token = ''--help'' \<or> token = ''help'' then HelpShown
      else if token = ''--config'' then
        (case rest of [] \<Rightarrow> Invalid
         | value # rest' \<Rightarrow> if qa_config_path a \<noteq> [] then Invalid else parse_tokens (a\<lparr>qa_config_path := value\<rparr>) rest')
      else if take 2 token = ''--'' then Invalid
      else if qa_verb a = [] then parse_tokens (a\<lparr>qa_verb := token\<rparr>) rest
      else if qa_execution_key a = [] then parse_tokens (a\<lparr>qa_execution_key := token\<rparr>) rest
      else Invalid)"

definition parse_args :: "string list \<Rightarrow> parse_outcome" where
  "parse_args argv = parse_tokens \<lparr>qa_verb = [], qa_execution_key = [], qa_config_path = []\<rparr> argv"

section \<open>Output\<close>

text \<open>\<^verbatim>\<open>std::left\<close> with \<^verbatim>\<open>std::setw\<close>.\<close>

definition pad_right :: "nat \<Rightarrow> string \<Rightarrow> string" where
  "pad_right n s = s @ replicate (n - length s) (CHR '' '')"

definition print_field :: "string \<Rightarrow> string \<Rightarrow> string" where
  "print_field label value = pad_right 16 label @ value @ newline"

definition dash_if_empty :: "string \<Rightarrow> string" where
  "dash_if_empty s = (if s = [] then ''-'' else s)"

text \<open>
  What the command meets outside: the loader of the configuration, the lock, \<^verbatim>\<open>what()\<close> of an exception, the text SQLite
  stored for a time, the clock and the length of a printed body.
\<close>

record queue_command_world =
  qw_load_config :: "string \<Rightarrow> string + string \<times> path"
  qw_lock :: "path \<Rightarrow> agent_exn option"
  qw_what :: "agent_exn \<Rightarrow> string"
  qw_time_text :: "int \<Rightarrow> string"
  qw_now :: int
  qw_body_length :: "json \<Rightarrow> nat"

definition job_lines :: "queue_command_world \<Rightarrow> attention_summary \<Rightarrow> string" where
  "job_lines w j = as_execution_key j @ newline @ print_field ''  task:'' (as_task_id j) @
     print_field ''  error_kind:'' (as_error_kind j) @ print_field ''  updated_at:'' (qw_time_text w (as_updated_at j)) @
     print_field ''  reason:'' (as_reason j)"

definition list_output :: "queue_command_world \<Rightarrow> attention_summary list \<Rightarrow> string" where
  "list_output w jobs =
     (if jobs = [] then ''no jobs waiting for attention'' @ newline
      else nat_to_string (length jobs) @ '' job(s) waiting for attention:'' @ newline @ concat (map (job_lines w) jobs))"

definition file_lines :: "attention_file \<Rightarrow> string" where
  "file_lines f = ''    ['' @ int_to_string (af_ordinal f) @ ''] '' @ af_source_path f @ '' ('' @ int_to_string (af_size_bytes f) @
     '' bytes)'' @ newline @ ''        archive: '' @ af_archive_path f @ '' ['' @ af_archive_state f @ '']'' @ newline"

definition delivery_header :: string where
  "delivery_header = ''    '' @ pad_right 9 ''type'' @ pad_right 11 ''attempts'' @ pad_right 6 ''http'' @ pad_right 22 ''error_kind'' @
     pad_right 13 ''body_bytes'' @ ''next_attempt'' @ newline"

definition delivery_lines :: "queue_command_world \<Rightarrow> attention_delivery \<Rightarrow> string" where
  "delivery_lines w d = ''    '' @ pad_right 9 (request_type_name (ad_request_type d)) @ pad_right 11 (int_to_string (ad_attempt_count d)) @
     pad_right 6 (if ad_last_http_status d = 0 then ''-'' else nat_to_string (ad_last_http_status d)) @
     pad_right 22 (dash_if_empty (ad_last_error_kind d)) @ pad_right 13 (nat_to_string (ad_body_bytes d)) @
     (case ad_next_attempt_at d of None \<Rightarrow> ''-'' | Some t \<Rightarrow> dash_if_empty (qw_time_text w t)) @ newline @
     (if ad_last_error d = [] then [] else print_field ''      last_error:'' (ad_last_error d))"

definition show_output :: "queue_command_world \<Rightarrow> attention_detail \<Rightarrow> string" where
  "show_output w d = an_execution_key d @ newline @ print_field ''  task:'' (an_task_id d) @
     print_field ''  stage:'' ''requires_attention'' @
     print_field ''  resume_stage:'' (case an_resume_stage d of None \<Rightarrow> [] | Some s \<Rightarrow> stage_name s) @
     print_field ''  error_kind:'' (an_error_kind d) @ print_field ''  reason:'' (an_reason d) @
     print_field ''  attempts:'' (int_to_string (an_attempt_count d)) @ print_field ''  started_at:'' (an_started_at d) @
     print_field ''  updated_at:'' (qw_time_text w (an_updated_at d)) @
     ''  files ('' @ nat_to_string (length (an_files d)) @ ''):'' @ newline @ concat (map file_lines (an_files d)) @
     ''  deliveries:'' @ newline @ delivery_header @ concat (map (delivery_lines w) (an_deliveries d))"

section \<open>The commands\<close>

text \<open>A command ends with an exit code and its output, or with an exception. Only \<open>run_retry\<close> can change the file.\<close>

definition run_list :: "queue_command_world \<Rightarrow> string \<times> path \<Rightarrow> queue_file option \<Rightarrow> agent_exn + int \<times> string" where
  "run_list w config store =
     sbind (open_maintenance (path_text (snd config)) (fst config) store) (\<lambda>db.
       Inr (kExitOk, list_output w (list_attention_jobs db)))"

definition run_show :: "queue_command_world \<Rightarrow> string \<times> path \<Rightarrow> string \<Rightarrow> queue_file option \<Rightarrow> agent_exn + int \<times> string" where
  "run_show w config key store =
     sbind (open_maintenance (path_text (snd config)) (fst config) store) (\<lambda>db.
     sbind (load_attention_job (qw_body_length w) key db) (\<lambda>detail. Inr (kExitOk, show_output w detail)))"

definition run_retry :: "queue_command_world \<Rightarrow> string \<times> path \<Rightarrow> string \<Rightarrow> queue_file option \<Rightarrow>
    (agent_exn + int \<times> string) \<times> queue_file option" where
  "run_retry w config key store =
     (case (open_maintenance (path_text (snd config)) (fst config) store, qw_lock w (snd config), store) of
        (Inr db, None, Some f) \<Rightarrow>
          (case retry_attention_job (qw_now w) key db of
             (Inl e, db') \<Rightarrow> (Inl e, Some (f\<lparr>qf_db := db'\<rparr>))
           | (Inr (NotAttention stage), db') \<Rightarrow>
               (Inr (kExitFailure, ''job '' @ key @ '' is not waiting for attention (current stage: '' @ stage_name stage @
                  ''); nothing was changed'' @ newline), Some (f\<lparr>qf_db := db'\<rparr>))
           | (Inr (Resumed stage), db') \<Rightarrow>
               (Inr (kExitOk, ''job '' @ key @ '' is allowed to resume at stage '' @ apos @ stage_name stage @ apos @ newline @
                  ''start the agent to continue this job; allowing the retry '' @ ''does not mean the delivery has succeeded'' @ newline),
                Some (f\<lparr>qf_db := db'\<rparr>)))
      | (Inl e, _, _) \<Rightarrow> (Inl e, store)
      | (Inr _, Some e, _) \<Rightarrow> (Inl e, store)
      | (Inr db, None, None) \<Rightarrow> (Inr (kExitOk, []), None))"

record command_end =
  qe_exit :: int
  qe_out :: string
  qe_err :: string

definition failed_command :: "string \<Rightarrow> string \<Rightarrow> command_end" where
  "failed_command verb what = \<lparr>qe_exit = kExitFailure, qe_out = [], qe_err = ''queue '' @ verb @ '' failed: '' @ what @ newline\<rparr>"

definition command_end_of :: "queue_command_world \<Rightarrow> string \<Rightarrow> agent_exn + int \<times> string \<Rightarrow> command_end" where
  "command_end_of w verb r =
     (case r of Inl e \<Rightarrow> failed_command verb (qw_what w e) | Inr (code, out) \<Rightarrow> \<lparr>qe_exit = code, qe_out = out, qe_err = []\<rparr>)"

definition run_queue_command :: "queue_command_world \<Rightarrow> string list \<Rightarrow> queue_file option \<Rightarrow> command_end \<times> queue_file option" where
  "run_queue_command w argv store =
     (case parse_args argv of
        HelpShown \<Rightarrow> (\<lparr>qe_exit = kExitOk, qe_out = usage_text, qe_err = []\<rparr>, store)
      | Invalid \<Rightarrow> (\<lparr>qe_exit = kExitUsage, qe_out = [], qe_err = ''invalid queue command arguments'' @ newline @ usage_text\<rparr>, store)
      | Parsed a \<Rightarrow>
          (case qw_load_config w (qa_config_path a) of
             Inl what \<Rightarrow> (failed_command (qa_verb a) what, store)
           | Inr config \<Rightarrow>
               if qa_verb a = ''list'' then (command_end_of w (qa_verb a) (run_list w config store), store)
               else if qa_verb a = ''show'' then (command_end_of w (qa_verb a) (run_show w config (qa_execution_key a) store), store)
               else (case run_retry w config (qa_execution_key a) store of
                 (r, store') \<Rightarrow> (command_end_of w (qa_verb a) r, store'))))"

section \<open>What the command can change\<close>

text \<open>The arguments that are accepted.\<close>

lemma parsed_args:
  "parse_tokens a argv = Parsed b \<Longrightarrow>
    qa_config_path b \<noteq> [] \<and> (qa_verb b = ''list'' \<and> qa_execution_key b = [] \<or> qa_verb b \<in> {''show'', ''retry''} \<and> qa_execution_key b \<noteq> [])"
  by (induction a argv rule: parse_tokens.induct)
    (auto simp: check_args_def Let_def split: if_splits list.splits)

lemma opened_maintenance: "open_maintenance p node store = Inr db \<Longrightarrow> \<exists>f. store = Some f \<and> db = qf_db f"
  by (auto simp: open_maintenance_def validate_required_tables_def validate_node_identity_def seqp_def gets_def require_def
      split: option.splits if_splits)

lemma opened_node: "open_maintenance p node (Some f) = Inr db \<Longrightarrow> qf_node_code f = Some node"
  by (auto simp: open_maintenance_def validate_required_tables_def validate_node_identity_def seqp_def gets_def require_def
      split: option.splits if_splits)

lemma retry_unchanged:
  assumes "retry_attention_job now key db = (r, db')" "distinct (map jb_execution_key (q_jobs db))" "db' \<noteq> db"
  shows "\<exists>st j. r = Inr (Resumed st) \<and> find_job_row key db = Some j \<and> jb_stage j = RequiresAttention"
proof (cases r)
  case (Inl e)
  with assms show ?thesis by (auto simp: retry_attention_job_def transaction_def split: prod.splits sum.splits)
next
  case (Inr a)
  with assms(1) have "retry_attention_job now key db = (Inr a, db')" by simp
  from assms(2) this show ?thesis using assms(3) Inr by (cases rule: retry_attention_job_Inr) auto
qed

lemma exit_codes: "kExitOk = 0" "kExitFailure = 1" "kExitUsage = 2"
  by (simp_all add: kExitOk_def kExitFailure_def kExitUsage_def)

lemma command_end_exit: "qe_exit (command_end_of w verb r) = (case r of Inl _ \<Rightarrow> 1 | Inr (code, _) \<Rightarrow> code)"
  by (simp add: command_end_of_def failed_command_def exit_codes split: sum.split prod.split)

lemma read_only_exits: "run_list w config store = Inr (code, out) \<Longrightarrow> code = 0" "run_show w config key store = Inr (code, out) \<Longrightarrow> code = 0"
  by (auto simp: run_list_def run_show_def sbind_Inr_iff exit_codes)

lemma retry_result:
  assumes "run_retry w config key store = (r, store')" and keys: "\<And>f. store = Some f \<Longrightarrow> distinct (map jb_execution_key (q_jobs (qf_db f)))"
  shows "(case r of Inl _ \<Rightarrow> True | Inr (code, _) \<Rightarrow> code \<in> {0, 1}) \<and>
    (store' \<noteq> store \<longrightarrow> (\<exists>out f j. r = Inr (0, out) \<and> qw_lock w (snd config) = None \<and> store = Some f \<and> qf_node_code f = Some (fst config) \<and>
      find_job_row key (qf_db f) = Some j \<and> jb_stage j = RequiresAttention \<and>
      store' = Some (f\<lparr>qf_db := snd (retry_attention_job (qw_now w) key (qf_db f))\<rparr>)))"
proof (cases "open_maintenance (path_text (snd config)) (fst config) store")
  case (Inl e)
  with assms(1) show ?thesis by (auto simp: run_retry_def)
next
  case (Inr db)
  then obtain f where f: "store = Some f" "db = qf_db f" using opened_maintenance by blast
  note node = opened_node[OF Inr[unfolded f(1)]]
  show ?thesis
  proof (cases "qw_lock w (snd config)")
    case (Some e)
    with assms(1) Inr show ?thesis by (auto simp: run_retry_def)
  next
    case None
    obtain a db' where a: "retry_attention_job (qw_now w) key (qf_db f) = (a, db')" by (cases "retry_attention_job (qw_now w) key (qf_db f)")
    have changed: "db' \<noteq> qf_db f \<Longrightarrow> \<exists>st j. a = Inr (Resumed st) \<and> find_job_row key (qf_db f) = Some j \<and> jb_stage j = RequiresAttention"
      by (rule retry_unchanged[OF a keys[OF f(1)]])
    have outcome: "store' = Some (f\<lparr>qf_db := db'\<rparr>) \<and> (case a of Inl e \<Rightarrow> r = Inl e | Inr (NotAttention _) \<Rightarrow> (\<exists>out. r = Inr (1, out))
        | Inr (Resumed _) \<Rightarrow> (\<exists>out. r = Inr (0, out)))"
      using assms(1) Inr None f a by (auto simp: run_retry_def exit_codes split: sum.splits queue_retry_result.splits)
    then have codes: "case r of Inl _ \<Rightarrow> True | Inr (code, _) \<Rightarrow> code \<in> {0, 1}" by (auto split: sum.splits queue_retry_result.splits)
    show ?thesis
    proof (cases "db' = qf_db f")
      case True
      with outcome f codes show ?thesis by simp
    next
      case False
      with changed outcome codes None f node a show ?thesis by auto
    qed
  qed
qed

text \<open>
  C40. The queue command ends with 0, 1 or 2, and with 2 exactly when its arguments are wrong. It changes the queue
  database only as an accepted retry that exits with 0, with the queue lock in hand, on the database of the configured
  node, for a job that was waiting for attention, and then as the retry operation does; every other run leaves the
  database as it was.
\<close>

theorem queue_command_changes:
  assumes "run_queue_command w argv store = (res, store')"
    and "\<And>f. store = Some f \<Longrightarrow> distinct (map jb_execution_key (q_jobs (qf_db f)))"
  shows "qe_exit res \<in> {0, 1, 2} \<and> (qe_exit res = 2 \<longleftrightarrow> parse_args argv = Invalid) \<and>
    (store' \<noteq> store \<longrightarrow> qe_exit res = 0 \<and> (\<exists>a config f j. parse_args argv = Parsed a \<and> qa_verb a = ''retry'' \<and>
      qw_load_config w (qa_config_path a) = Inr config \<and> qw_lock w (snd config) = None \<and> store = Some f \<and>
      qf_node_code f = Some (fst config) \<and> find_job_row (qa_execution_key a) (qf_db f) = Some j \<and> jb_stage j = RequiresAttention \<and>
      store' = Some (f\<lparr>qf_db := snd (retry_attention_job (qw_now w) (qa_execution_key a) (qf_db f))\<rparr>)))"
proof (cases "parse_args argv")
  case (Parsed a)
  have verb: "qa_verb a \<in> {''list'', ''show'', ''retry''}" using parsed_args[OF Parsed[unfolded parse_args_def]] by auto
  show ?thesis
  proof (cases "qw_load_config w (qa_config_path a)")
    case (Inl what)
    with Parsed assms(1) show ?thesis by (auto simp: run_queue_command_def failed_command_def exit_codes)
  next
    case (Inr config)
    obtain node path where config: "config = (node, path)" by (cases config)
    show ?thesis
    proof (cases "qa_verb a = ''retry''")
      case True
      obtain r s where r: "run_retry w config (qa_execution_key a) store = (r, s)" by (cases "run_retry w config (qa_execution_key a) store")
      then have "res = command_end_of w ''retry'' r" "store' = s" using Parsed Inr True assms(1) by (auto simp: run_queue_command_def)
      then show ?thesis
        using retry_result[OF r assms(2)] Parsed Inr True config by (auto simp: command_end_exit split: sum.splits)
    next
      case False
      with Parsed Inr verb assms(1) show ?thesis
        by (auto simp: run_queue_command_def command_end_exit dest!: read_only_exits split: sum.splits if_splits)
    qed
  qed
qed (use assms(1) in \<open>auto simp: run_queue_command_def exit_codes\<close>)

definition waiting_file :: queue_file where
  "waiting_file = \<lparr>qf_version = 2, qf_tables = kSchema_tables, qf_v2_columns = migrated_columns, qf_node_code = Some ''n1'',
     qf_db = example_queue\<lparr>q_jobs := map (\<lambda>j. j\<lparr>jb_stage := RequiresAttention, jb_retry_stage := Some StartPending\<rparr>) (q_jobs example_queue)\<rparr>\<rparr>"

definition example_command_world :: queue_command_world where
  "example_command_world = \<lparr>qw_load_config = (\<lambda>_. Inr (''n1'', [''/'', ''q.db''])), qw_lock = (\<lambda>_. None), qw_what = (\<lambda>_. []),
     qw_time_text = (\<lambda>_. []), qw_now = 9000, qw_body_length = (\<lambda>_. 0)\<rparr>"

theorem queue_command_changes_witness:
  "\<exists>a. parse_args [''retry'', ''k1'', ''--config'', ''agent.yaml''] = Parsed a \<and> qa_verb a = ''retry'' \<and>
     qe_exit (fst (run_queue_command example_command_world [''retry'', ''k1'', ''--config'', ''agent.yaml''] (Some waiting_file))) = 0"
proof -
  let ?run = "run_queue_command example_command_world [''retry'', ''k1'', ''--config'', ''agent.yaml''] (Some waiting_file)"
  have "map jb_stage (q_jobs (qf_db (the (snd ?run)))) = [StartPending]" by code_simp
  moreover have "map jb_stage (q_jobs (qf_db (the (Some waiting_file)))) = [RequiresAttention]" by code_simp
  ultimately have changed: "snd ?run \<noteq> Some waiting_file" by (metis job_stage.distinct list.inject)
  have "distinct (map jb_execution_key (q_jobs (qf_db waiting_file)))" by code_simp
  then show ?thesis using queue_command_changes[of example_command_world "[''retry'', ''k1'', ''--config'', ''agent.yaml'']" "Some waiting_file"
      "fst ?run" "snd ?run"] changed by auto
qed

end
