(* ===== verification/Server_Start.thy ===== *)
theory Server_Start
  imports Http_Properties File_System
begin

text \<open>
  What the control plane takes from its configuration before it serves (\<open>server/src/main.cpp\<close>): the database, the two
  limits of the derived states and the credentials. The configuration is drogon's tree of custom settings, the
  environment and the canonical form of a path are parameters.
\<close>

section \<open>Settings\<close>

definition json_member :: "json \<Rightarrow> string \<Rightarrow> json option" where
  "json_member v k = (if is_object v then json_find v k else None)"

definition database_connection_info :: "string option \<Rightarrow> json \<Rightarrow> string + string" where
  "database_connection_info environment config =
     (case environment of
        Some (c # cs) \<Rightarrow> Inr (c # cs)
      | _ \<Rightarrow>
          (case json_member config ''database'' of
             Some (JObj database) \<Rightarrow>
               (case json_find (JObj database) ''connection_info'' of
                  Some (JStr s) \<Rightarrow> if s = [] then Inl ''database connection_info must not be empty'' else Inr s
                | _ \<Rightarrow> Inl ''database connection_info is missing from server configuration'')
           | _ \<Rightarrow> Inl ''database connection_info is missing from server configuration''))"

definition positive_management_setting :: "json \<Rightarrow> string \<Rightarrow> string + int" where
  "positive_management_setting config name =
     (case json_member config ''management'' of
        Some (JObj management) \<Rightarrow>
          (case json_find (JObj management) name of
             Some (JInt i) \<Rightarrow>
               if i < - (2 ^ 31) \<or> i \<ge> 2 ^ 31 then Inl (''management '' @ name @ '' is missing from server configuration'')
               else if i \<le> 0 then Inl (''management '' @ name @ '' must be positive'')
               else Inr i
           | _ \<Rightarrow> Inl (''management '' @ name @ '' is missing from server configuration''))
      | _ \<Rightarrow> Inl (''management '' @ name @ '' is missing from server configuration''))"

definition required_auth_setting :: "json \<Rightarrow> string \<Rightarrow> string + string" where
  "required_auth_setting config name =
     (case json_member config ''auth'' of
        Some (JObj auth) \<Rightarrow>
          (case json_find (JObj auth) name of
             Some (JStr s) \<Rightarrow> if s = [] then Inl (''auth '' @ name @ '' must not be empty'') else Inr s
           | _ \<Rightarrow> Inl (''auth '' @ name @ '' is missing from server configuration''))
      | _ \<Rightarrow> Inl (''auth '' @ name @ '' is missing from server configuration''))"

definition resolve_against_config :: "(path \<Rightarrow> path) \<Rightarrow> string \<Rightarrow> string \<Rightarrow> string" where
  "resolve_against_config canon config_path value =
     (if is_absolute (path_of value) then value
      else path_text (canon (parent_path (path_of config_path) @ path_of value)))"

section \<open>Start\<close>

record server_settings =
  ss_connection_info :: string
  ss_node_offline_after :: int
  ss_run_stale_after :: int
  ss_credentials :: credential_set

text \<open>The order of the start; any failure ends the process with its message.\<close>

definition load_server_settings :: "(string \<Rightarrow> yaml option) \<Rightarrow> (string \<Rightarrow> string option) \<Rightarrow> (path \<Rightarrow> path) \<Rightarrow> string option \<Rightarrow>
    string \<Rightarrow> json \<Rightarrow> string + server_settings" where
  "load_server_settings load_yaml files canon environment config_path config =
     sbind (database_connection_info environment config) (\<lambda>connection.
     sbind (positive_management_setting config ''node_offline_after_seconds'') (\<lambda>offline.
     sbind (positive_management_setting config ''task_run_stale_after_seconds'') (\<lambda>stale.
     sbind (required_auth_setting config ''management_token_file'') (\<lambda>management_file.
     sbind (required_auth_setting config ''agent_tokens_file'') (\<lambda>agents_file.
       (case credentials_from_files load_yaml files (resolve_against_config canon config_path management_file)
            (resolve_against_config canon config_path agents_file) of
          Inl (CredentialError m) \<Rightarrow> Inl m
        | Inr c \<Rightarrow> Inr \<lparr>ss_connection_info = connection, ss_node_offline_after = offline, ss_run_stale_after = stale,
            ss_credentials = c\<rparr>))))))"

lemma positive_setting: "positive_management_setting config name = Inr i \<Longrightarrow> 0 < i \<and> i < 2 ^ 31"
  by (auto simp: positive_management_setting_def split: option.splits json.splits if_splits)

lemma connection_given: "database_connection_info environment config = Inr s \<Longrightarrow> s \<noteq> []"
  by (auto simp: database_connection_info_def split: option.splits list.splits json.splits if_splits)

text \<open>
  A control plane serves only with sound settings: a database to connect to, positive limits that fit an
  \<^verbatim>\<open>int\<close>, and credentials in which every token is well formed, no two nodes share one and the management token is
  none of theirs.
\<close>

lemma started_settings_sound:
  assumes "load_server_settings load_yaml files canon environment config_path config = Inr s"
  shows "ss_connection_info s \<noteq> [] \<and> 0 < ss_node_offline_after s \<and> ss_node_offline_after s < 2 ^ 31 \<and>
    0 < ss_run_stale_after s \<and> ss_run_stale_after s < 2 ^ 31 \<and>
    tokens_apart (cs_management_token (ss_credentials s)) (cs_agent_tokens (ss_credentials s)) \<and>
    is_valid_hex_token (cs_management_token (ss_credentials s))"
proof -
  obtain p1 p2 where parts: "database_connection_info environment config = Inr (ss_connection_info s)"
      "positive_management_setting config ''node_offline_after_seconds'' = Inr (ss_node_offline_after s)"
      "positive_management_setting config ''task_run_stale_after_seconds'' = Inr (ss_run_stale_after s)"
      "credentials_from_files load_yaml files p1 p2 = Inr (ss_credentials s)"
    using assms unfolding load_server_settings_def sbind_Inr_iff
    by (elim exE conjE) (auto split: sum.split_asm credential_fault.split_asm)
  show ?thesis
    using connection_given[OF parts(1)] positive_setting[OF parts(2)] positive_setting[OF parts(3)] credentials_apart[OF parts(4)] by simp
qed

definition example_settings :: json where
  "example_settings = JObj [(''database'', JObj [(''connection_info'', JStr ''host=db'')]),
     (''management'', JObj [(''node_offline_after_seconds'', JInt 90), (''task_run_stale_after_seconds'', JInt 3600)]),
     (''auth'', JObj [(''management_token_file'', JStr ''management''), (''agent_tokens_file'', JStr ''agents'')])]"

lemma example_settings_load: "load_server_settings example_yaml example_files (\<lambda>p. p) None ''server.yaml'' example_settings =
    Inr \<lparr>ss_connection_info = ''host=db'', ss_node_offline_after = 90, ss_run_stale_after = 3600, ss_credentials = example_credentials\<rparr>"
proof -
  have "resolve_against_config (\<lambda>p. p) ''server.yaml'' ''management'' = ''management''"
    "resolve_against_config (\<lambda>p. p) ''server.yaml'' ''agents'' = ''agents''" by code_simp+
  then show ?thesis
    by (simp add: load_server_settings_def database_connection_info_def positive_management_setting_def required_auth_setting_def json_member_def
        example_settings_def example_credentials_read)
qed

lemma started_settings_sound_example:
  "tokens_apart (cs_management_token example_credentials) (cs_agent_tokens example_credentials)"
  using started_settings_sound[OF example_settings_load] by simp

end
