(* ===== verification/Spec2Isabelle.thy ===== *)
theory Spec2Isabelle
  imports Cron_Schedule Csv_Parser Qc_Rules Delivery Queue_Maintenance Queue_Properties Archive_Properties
    Report_Properties Plan_Properties Scheduler_Properties Agent_Runs Query_Properties
    Http_Properties Wire_Properties Config_Travel Agent_Config Agent_Runtime Queue_Command Server_Start
begin

text \<open>
  LabBridge collects observation files on laboratory nodes and brings them to one control plane. An agent runs on every
  node: it pulls its tasks, collects files on a schedule, archives and parses them and reports the results; a queue in
  SQLite carries every job over crashes and lost connections. The control plane keeps nodes, tasks, runs, files, records,
  quality results and alerts in PostgreSQL, serves the agents, and serves the operators who configure and watch them. This
  development is a shallow embedding of both programs, with the theorems that make them correct.

  The parts, and the sources they model (paths under \<open>src/\<close>):

  \<^item> Shared by both programs (\<open>core/\<close>): \<open>Core_Models\<close> is \<open>models.h\<close>, \<open>result.h\<close>, \<open>hex_token.h\<close> and \<open>filesystem.h\<close>;
    \<open>Utc_Time\<close> is \<open>utc_time.h\<close>; \<open>Cron_Schedule\<close> is \<open>cron_schedule.cpp\<close>. \<open>Prelude\<close> holds the vocabulary: characters and decimal
    text of the C library, procedures with state and exceptions (\<open>proc\<close>, \<open>seqp\<close>, \<open>transaction\<close>), their triples (\<open>hoare\<close>),
    fallible computations (\<open>sbind\<close>, \<open>smap\<close>) and the locale \<open>invariant_system\<close> of a state machine with an invariant.
  \<^item> The files of the agent (\<open>agent/src/parsers\<close>, \<open>qc\<close>, \<open>collectors\<close>, \<open>execution/local_archive_store.cpp\<close>): \<open>Csv_Parser\<close>,
    \<open>Qc_Rules\<close>, \<open>File_System\<close> (the calls of POSIX and \<open>std::filesystem\<close> over a disk of entries), \<open>Archive_Store\<close>.
  \<^item> The queue of the agent (\<open>agent/src/storage/agent_queue_store.cpp\<close>, \<open>execution/execution_request_codec.cpp\<close>):
    \<open>Agent_Types\<close> and \<open>Execution_Codec\<close> (the persisted documents as JSON trees), \<open>Queue_Tables\<close> (a record per table, statements
    as updates of row lists), \<open>Queue_Store\<close> (one definition per operation), \<open>Queue_Maintenance\<close> (opening, migration and manual
    repair), \<open>Queue_Command\<close> (the command line over them, \<open>bootstrap/queue_command.cpp\<close>).
  \<^item> The work of the agent (\<open>agent/src/execution\<close>, \<open>scheduler\<close>): \<open>Delivery\<close> (\<open>reliable_delivery_client.cpp\<close>),
    \<open>Task_Executor\<close> and \<open>Job_Runner\<close> (\<open>task_executor.cpp\<close>), \<open>Scheduler\<close> (\<open>task_scheduler.cpp\<close>).
  \<^item> The agent as a process (\<open>agent/src/bootstrap\<close>, \<open>runtime\<close>): \<open>Agent_Config\<close> (\<open>agent_config.cpp\<close>), \<open>Agent_Runtime\<close>
    (\<open>agent_runtime.cpp\<close>, \<open>startup_handshake.cpp\<close>, the construction of the parts in \<open>main.cpp\<close>), \<open>Http_Operation\<close>,
    \<open>Control_Plane_Client\<close> and \<open>Config_Pull\<close> (\<open>control_plane_client.cpp\<close>).
  \<^item> The tables and services of the control plane (\<open>server/src/postgres\<close>, \<open>application\<close>): \<open>Server_Store\<close> (the schema, a record
    per table, the sequences), \<open>Server_Repositories\<close> and \<open>Server_Results\<close> (one definition per repository method),
    \<open>Task_Run_Service\<close>, \<open>Agent_Report_Service\<close>, \<open>Management_Service\<close> (the services, with the transactions of their executors),
    \<open>Management_Query\<close> and \<open>Query_Service\<close> (what operators read).
  \<^item> The HTTP side of the control plane (\<open>server/src/http\<close>, \<open>main.cpp\<close>): \<open>Http_Service\<close> (answers and credentials), \<open>Agent_Http\<close>
    (the API of the agents), \<open>Management_Http\<close> and \<open>Management_Routes\<close> (the API of the operators), \<open>Server_Start\<close> (settings).

  How state and operations correspond to the code. A struct is a record with a prefix per type, an enum or a set of
  exception classes a datatype, a table the list of its rows. An operation takes its arguments and the state and gives
  \<open>Inl\<close> an exception or \<open>Inr\<close> a result, with the new state; a transaction restores the state on an exception, and on the
  server only the sequences move on. Every check and early return of the source is a branch, in the order of the source. The
  environment is explicit: the disk with its faults (\<open>dk_faults\<close>), the clock and the stop flag with their readings, the answers
  of the control plane as a list of turns, PostgreSQL's conversions (\<open>pg_env\<close>), the JSON and header library (\<open>http_lib\<close>),
  SHA-256 and yaml-cpp are arguments of the definitions; hypotheses about them state documented behaviour, and the
  witnesses instantiate them with functions that compute (\<open>plain_env\<close>, \<open>example_lib\<close>, \<open>percent_decode\<close>).

  What the groups of lemmas show:

  \<^item> Queue (\<open>Queue_Invariant\<close>, \<open>Queue_Properties\<close>, \<open>Queue_Contracts\<close>): an invariant of every reachable database, progress of
    jobs along their stages, atomicity of failures, no job lost, round trips of the documents, recovery and manual repair.
  \<^item> Delivery and jobs (\<open>Delivery\<close>, \<open>Job_Contracts\<close>, \<open>Job_Outcomes\<close>, \<open>Job_Isolation\<close>, \<open>Agent_Runs\<close>): back-off within
    bounds, the outcomes of a delivery, then of a stage and of a whole job, through the locales \<open>request_channel\<close> and
    \<open>job_client\<close>, which the reliable client interprets; jobs do not touch each other.
  \<^item> Files and plans (\<open>Archive_Safety\<close>, \<open>Archive_Properties\<close>, \<open>Report_Properties\<close>, \<open>Plan_Properties\<close>): whichever call fails,
    archiving changes nothing but the temporary and the archived file in the directory its path leads to, and a recovered
    archive is the planned evidence whatever links are on the disk; a report is exactly what the parser returned for the
    planned files; the plan of a retry reads the recorded archives, with their evidence checked, or files of the task.
  \<^item> Scheduler (\<open>Scheduler_Lemmas\<close>, \<open>Scheduler_Properties\<close>): no slot executes twice over any interleaving with refreshes.
  \<^item> Control plane (\<open>Run_Ledger\<close>, \<open>Server_Steps\<close>, \<open>Server_Writes\<close>, \<open>Server_Runs\<close>, \<open>Server_Reports\<close>, \<open>Server_Replays\<close>,
    \<open>Server_Calls\<close>, \<open>Server_Readers\<close>, \<open>Server_Texts\<close>, \<open>Server_Properties\<close>): the tables keep their invariant and refine an
    abstract ledger of runs; finished runs are final; a report is accepted once and answered alike ever after.
    \<open>Server_Scenario\<close> evaluates a short history of calls.
  \<^item> Operators' pages (\<open>Query_Pages\<close>, \<open>Query_Times\<close>, \<open>Query_Properties\<close>): the locale \<open>paged_query\<close>, interpreted by every
    list query, shows that following the cursors visits every row once; times read back.
  \<^item> The wire (\<open>Http_Properties\<close>, \<open>Control_Exchange\<close>, \<open>Wire_Properties\<close>, \<open>Config_Travel\<close>): a request that changes anything
    carries the credential of the node it speaks for; what the client of the agent sends is what the services of the control
    plane do, and what they answer is what the client returns; every request ends by its deadline, since a timeout and an
    end cancel what is outstanding; the configuration arrives whole.
  \<^item> The process (\<open>Agent_Config\<close>, \<open>Agent_Runtime\<close>, \<open>Queue_Command\<close>, \<open>Server_Start\<close>): what loads is fit for use, the
    runtime keeps the scheduler in step and reconnects, the maintenance command changes only what it says.

  Bounds and fuel. Integers that the code keeps in 64 bits and lets wrap are words (\<open>stable_hash\<close>) or are wrapped where they
  are stored (\<open>wrap64\<close>); others are \<open>int\<close> with their range checked where the code checks it. Symbolic links are followed 40
  times, as Linux does. A script of turns stands for a loop that only the environment ends (delivery, scheduler, runtime): a
  theorem about its outcome holds for every script, and the liveness theorems name the turn that ends it. The cron search
  looks at the window of the source. \<open>walk\<close> follows page cursors with fuel; one page more than there are rows is proved enough.
  The clock of a request is counted in milliseconds, and its event loop takes at most five steps more than its timeout, each
  of them a callback or a wait that ends by the deadline; an operation on the network ends only when the network answers or
  the code cancels it. The doubled retry interval is an \<open>int\<close>; lemma \<open>retry_arithmetic_fits\<close> shows that it stays within
  \<^verbatim>\<open>long long\<close> for every configuration that loads. Routes are matched on the target as it was sent: a node code with an
  encoded slash reaches its handler only if the framework decodes after routing (\<open>documented\<close> of \<open>Control_Exchange\<close>).

  Not modelled, and why: threads, mutexes and condition variables (interleavings of the scheduler are sequences of steps, and
  the two threads of the agent are joined by their outcomes); signals (\<open>process_signal_monitor.cpp\<close>), logging and process exit;
  libpq, SQLite, drogon, Boost and jsoncpp themselves, including the SQL text (a statement is its effect on the rows)
  and connection failures; SHA-256 (\<open>sha256.h\<close>), a parameter; concurrent transactions of the control plane, which the row locks of
  the code serialise per run and receipt; embedded zero bytes in SQL parameters, which \<open>libpq_sql_session.cpp\<close> would cut.
\<close>

end
